(* ===== verification/Prelude.thy ===== *)
theory Prelude
  imports Main
begin

text \<open>
  Shared vocabulary of the development: computations that may throw (a value of a sum type,
  \<open>Inl\<close> the error), the loops of the source over such computations (\<open>map\<close>, \<open>every\<close>,
  \<open>some\<close>, \<open>forEach\<close> with a throwing callback), insertion-ordered dictionaries (JavaScript's
  \<open>Map\<close> and \<open>Record\<close>), and first-occurrence de-duplication (JavaScript's \<open>Set\<close>).
\<close>

named_theorems result_simps \<open>equations of the throwing combinators\<close>
named_theorems result_splits \<open>inversion of successful runs\<close>

section \<open>Computations that may throw\<close>

type_synonym ('e, 'a) result = "'e + 'a"

abbreviation Throw :: "'e \<Rightarrow> ('e, 'a) result" where
  "Throw e \<equiv> Inl e"

abbreviation Ok :: "'a \<Rightarrow> ('e, 'a) result" where
  "Ok x \<equiv> Inr x"

definition rbind :: "('e, 'a) result \<Rightarrow> ('a \<Rightarrow> ('e, 'b) result) \<Rightarrow> ('e, 'b) result" where
  "rbind m f = (case m of Inl e \<Rightarrow> Inl e | Inr x \<Rightarrow> f x)"

lemma rbind_Inl [simp, result_simps]: "rbind (Inl e) f = Inl e"
  by (simp add: rbind_def)

lemma rbind_Inr [simp, result_simps]: "rbind (Inr x) f = f x"
  by (simp add: rbind_def)

lemma rbind_eq_Inr [result_splits]: "rbind m f = Inr y \<longleftrightarrow> (\<exists>x. m = Inr x \<and> f x = Inr y)"
  by (cases m) auto

lemma rbind_eq_Inl:
  "rbind m f = Inl e \<longleftrightarrow> m = Inl e \<or> (\<exists>x. m = Inr x \<and> f x = Inl e)"
  by (cases m) auto

lemma rbind_cong [fundef_cong]:
  "m = m' \<Longrightarrow> (\<And>x. m' = Inr x \<Longrightarrow> f x = f' x) \<Longrightarrow> rbind m f = rbind m' f'"
  by (cases m') auto

lemma ex_unit: "(\<exists>x :: unit. P x) \<longleftrightarrow> P ()"
  by (metis (full_types) unit.exhaust)

definition rmap :: "('a \<Rightarrow> 'b) \<Rightarrow> ('e, 'a) result \<Rightarrow> ('e, 'b) result" where
  "rmap f m = rbind m (\<lambda>x. Inr (f x))"

lemma rmap_simps [simp, result_simps]:
  "rmap f (Inl e) = Inl e"
  "rmap f (Inr x) = Inr (f x)"
  by (simp_all add: rmap_def)

lemma rmap_eq_Inr [result_splits]: "rmap f m = Inr y \<longleftrightarrow> (\<exists>x. m = Inr x \<and> y = f x)"
  by (cases m) auto

lemma rmap_eq_Inl: "rmap f m = Inl e \<longleftrightarrow> m = Inl e"
  by (cases m) auto

lemma rmap_cong [fundef_cong]:
  "m = m' \<Longrightarrow> (\<And>x. m' = Inr x \<Longrightarrow> f x = f' x) \<Longrightarrow> rmap f m = rmap f' m'"
  by (cases m') auto

definition succeeds :: "('e, 'a) result \<Rightarrow> bool" where
  "succeeds m = (case m of Inl _ \<Rightarrow> False | Inr _ \<Rightarrow> True)"

lemma succeeds_simps [simp]: "\<not> succeeds (Inl e)" "succeeds (Inr x)"
  by (simp_all add: succeeds_def)

lemma succeeds_iff: "succeeds m \<longleftrightarrow> (\<exists>x. m = Inr x)"
  by (cases m) auto

section \<open>Loops with a throwing callback\<close>

text \<open>\<open>xs.map(f)\<close>: left to right, the first exception aborts.\<close>

fun map_r :: "('a \<Rightarrow> ('e, 'b) result) \<Rightarrow> 'a list \<Rightarrow> ('e, 'b list) result" where
  "map_r f [] = Inr []"
| "map_r f (x # xs) = rbind (f x) (\<lambda>y. rbind (map_r f xs) (\<lambda>ys. Inr (y # ys)))"

text \<open>\<open>xs.every(p)\<close> and \<open>xs.some(p)\<close>: short-circuit on the first decisive element.\<close>

fun every_r :: "('a \<Rightarrow> ('e, bool) result) \<Rightarrow> 'a list \<Rightarrow> ('e, bool) result" where
  "every_r p [] = Inr True"
| "every_r p (x # xs) = rbind (p x) (\<lambda>b. if b then every_r p xs else Inr False)"

fun some_r :: "('a \<Rightarrow> ('e, bool) result) \<Rightarrow> 'a list \<Rightarrow> ('e, bool) result" where
  "some_r p [] = Inr False"
| "some_r p (x # xs) = rbind (p x) (\<lambda>b. if b then Inr True else some_r p xs)"

text \<open>\<open>for (const x of xs) f(x)\<close>: run for the exceptions only.\<close>

fun each_r :: "('a \<Rightarrow> ('e, unit) result) \<Rightarrow> 'a list \<Rightarrow> ('e, unit) result" where
  "each_r f [] = Inr ()"
| "each_r f (x # xs) = rbind (f x) (\<lambda>_. each_r f xs)"

text \<open>A loop that threads a state through a throwing body.\<close>

fun fold_r :: "('a \<Rightarrow> 's \<Rightarrow> ('e, 's) result) \<Rightarrow> 'a list \<Rightarrow> 's \<Rightarrow> ('e, 's) result" where
  "fold_r f [] s = Inr s"
| "fold_r f (x # xs) s = rbind (f x s) (fold_r f xs)"

lemma map_r_cong [fundef_cong]:
  "xs = ys \<Longrightarrow> (\<And>x. x \<in> set ys \<Longrightarrow> f x = g x) \<Longrightarrow> map_r f xs = map_r g ys"
  by (induction ys arbitrary: xs) auto

lemma every_r_cong [fundef_cong]:
  "xs = ys \<Longrightarrow> (\<And>x. x \<in> set ys \<Longrightarrow> p x = q x) \<Longrightarrow> every_r p xs = every_r q ys"
proof (induction ys arbitrary: xs)
  case (Cons y ys)
  have "every_r p ys = every_r q ys" using Cons.IH Cons.prems(2) by simp
  then show ?case using Cons.prems by (simp cong: if_cong)
qed simp

lemma some_r_cong [fundef_cong]:
  "xs = ys \<Longrightarrow> (\<And>x. x \<in> set ys \<Longrightarrow> p x = q x) \<Longrightarrow> some_r p xs = some_r q ys"
proof (induction ys arbitrary: xs)
  case (Cons y ys)
  have "some_r p ys = some_r q ys" using Cons.IH Cons.prems(2) by simp
  then show ?case using Cons.prems by (simp cong: if_cong)
qed simp

lemma each_r_cong [fundef_cong]:
  "xs = ys \<Longrightarrow> (\<And>x. x \<in> set ys \<Longrightarrow> f x = g x) \<Longrightarrow> each_r f xs = each_r g ys"
  by (induction ys arbitrary: xs) auto

lemma fold_r_cong [fundef_cong]:
  "xs = ys \<Longrightarrow> s = t \<Longrightarrow> (\<And>x u. x \<in> set ys \<Longrightarrow> f x u = g x u) \<Longrightarrow> fold_r f xs s = fold_r g ys t"
proof (induction ys arbitrary: xs s t)
  case (Cons y ys)
  have "fold_r f ys = fold_r g ys" using Cons.IH Cons.prems(3) by auto
  then show ?case using Cons.prems by simp
qed simp

lemma map_r_Inr_length: "map_r f xs = Inr ys \<Longrightarrow> length ys = length xs"
  by (induction xs arbitrary: ys) (auto simp: rbind_eq_Inr)

lemma map_r_Inr_iff: "map_r f xs = Inr ys \<longleftrightarrow> list_all2 (\<lambda>x y. f x = Inr y) xs ys"
proof (induction xs arbitrary: ys)
  case (Cons x xs)
  then show ?case by (cases ys) (auto simp: rbind_eq_Inr)
qed auto

lemma map_r_Inr_set:
  "map_r f xs = Inr ys \<Longrightarrow> y \<in> set ys \<Longrightarrow> \<exists>x \<in> set xs. f x = Inr y"
  by (induction xs arbitrary: ys) (auto simp: rbind_eq_Inr)

lemma map_r_pure: "(\<And>x. x \<in> set xs \<Longrightarrow> f x = Inr (g x)) \<Longrightarrow> map_r f xs = Inr (map g xs)"
  by (induction xs) auto

lemma each_r_Inr_iff: "each_r f xs = Inr () \<longleftrightarrow> (\<forall>x \<in> set xs. f x = Inr ())"
  by (induction xs) (auto simp: rbind_eq_Inr)

lemma each_r_succeeds: "succeeds (each_r f xs) \<longleftrightarrow> (\<forall>x \<in> set xs. succeeds (f x))"
  by (induction xs) (auto simp: succeeds_iff rbind_eq_Inr)

lemma every_r_True_iff: "every_r p xs = Inr True \<longleftrightarrow> (\<forall>x \<in> set xs. p x = Inr True)"
  by (induction xs) (auto simp: rbind_eq_Inr split: if_splits)

lemma every_r_False_ex: "every_r p xs = Inr False \<Longrightarrow> \<exists>x \<in> set xs. p x = Inr False"
  by (induction xs) (auto simp: rbind_eq_Inr split: if_splits)

lemma some_r_True_ex: "some_r p xs = Inr True \<Longrightarrow> \<exists>x \<in> set xs. p x = Inr True"
  by (induction xs) (auto simp: rbind_eq_Inr split: if_splits)

lemma some_r_False_iff: "some_r p xs = Inr False \<longleftrightarrow> (\<forall>x \<in> set xs. p x = Inr False)"
  by (induction xs) (auto simp: rbind_eq_Inr split: if_splits)

lemma every_r_pure:
  "(\<And>x. x \<in> set xs \<Longrightarrow> p x = Inr (q x)) \<Longrightarrow> every_r p xs = Inr (\<forall>x \<in> set xs. q x)"
  by (induction xs) auto

lemma some_r_pure:
  "(\<And>x. x \<in> set xs \<Longrightarrow> p x = Inr (q x)) \<Longrightarrow> some_r p xs = Inr (\<exists>x \<in> set xs. q x)"
  by (induction xs) auto

lemma fold_r_append: "fold_r f (xs @ ys) s = rbind (fold_r f xs s) (fold_r f ys)"
  by (induction xs arbitrary: s) (auto simp: rbind_def split: sum.splits)

text \<open>\<open>xs.map(f)\<close> where the callback also updates a state.\<close>

fun map_s :: "('a \<Rightarrow> 's \<Rightarrow> ('e, 'b \<times> 's) result) \<Rightarrow> 'a list \<Rightarrow> 's \<Rightarrow> ('e, 'b list \<times> 's) result" where
  "map_s f [] s = Inr ([], s)"
| "map_s f (x # xs) s = rbind (f x s) (\<lambda>(y, s'). rbind (map_s f xs s') (\<lambda>(ys, s''). Inr (y # ys, s'')))"

lemma map_s_cong [fundef_cong]:
  "xs = ys \<Longrightarrow> s = t \<Longrightarrow> (\<And>x u. x \<in> set ys \<Longrightarrow> f x u = g x u) \<Longrightarrow> map_s f xs s = map_s g ys t"
proof (induction ys arbitrary: xs s t)
  case (Cons y ys)
  have "map_s f ys = map_s g ys" using Cons.IH Cons.prems(3) by auto
  then show ?case using Cons.prems by simp
qed simp

text \<open>\<open>xs.some(p)\<close> where the predicate updates a state.\<close>

fun any_s :: "('a \<Rightarrow> 's \<Rightarrow> bool \<times> 's) \<Rightarrow> 'a list \<Rightarrow> 's \<Rightarrow> bool \<times> 's" where
  "any_s p [] s = (False, s)"
| "any_s p (x # xs) s = (case p x s of (b, s') \<Rightarrow> if b then (True, s') else any_s p xs s')"

lemma any_s_cong [fundef_cong]:
  "xs = ys \<Longrightarrow> s = t \<Longrightarrow> (\<And>x u. x \<in> set ys \<Longrightarrow> f x u = g x u) \<Longrightarrow> any_s f xs s = any_s g ys t"
proof (induction ys arbitrary: xs s t)
  case (Cons y ys)
  have "any_s f ys = any_s g ys" using Cons.IH Cons.prems(3) by auto
  then show ?case using Cons.prems by (simp cong: if_cong)
qed simp

text \<open>\<open>o ? f(o) : undefined\<close> with a state.\<close>

definition opt_s :: "('a \<Rightarrow> 's \<Rightarrow> ('e, 'b \<times> 's) result) \<Rightarrow> 'a option \<Rightarrow> 's \<Rightarrow> ('e, 'b option \<times> 's) result" where
  "opt_s f o' s = (case o' of None \<Rightarrow> Inr (None, s) | Some x \<Rightarrow> rmap (\<lambda>(y, s'). (Some y, s')) (f x s))"

lemma opt_s_cong [fundef_cong]:
  "o' = p \<Longrightarrow> s = t \<Longrightarrow> (\<And>x u. p = Some x \<Longrightarrow> f x u = g x u) \<Longrightarrow> opt_s f o' s = opt_s g p t"
  by (cases p) (auto simp: opt_s_def)

lemma opt_s_Inr:
  "opt_s f o' s = Inr (r, s') \<longleftrightarrow>
   (o' = None \<and> r = None \<and> s' = s) \<or>
   (\<exists>x y. o' = Some x \<and> f x s = Inr (y, s') \<and> r = Some y)"
  by (cases o') (auto simp: opt_s_def rmap_eq_Inr)

lemma one_elem: "filter P xs = [d] \<Longrightarrow> d \<in> set xs \<and> P d"
  by (metis filter_eq_Cons_iff in_set_conv_decomp)

lemma case_pair_eq: "(case p of (x, y) \<Rightarrow> f x y) = r \<longleftrightarrow> (\<exists>x y. p = (x, y) \<and> f x y = r)"
  by (cases p) auto

section \<open>Options\<close>

text \<open>\<open>a ?? b\<close> on a value that may be absent.\<close>

definition or_else :: "'a option \<Rightarrow> 'a option \<Rightarrow> 'a option" where
  "or_else a b = (case a of Some _ \<Rightarrow> a | None \<Rightarrow> b)"

lemma or_else_simps [simp]: "or_else (Some x) b = Some x" "or_else None b = b"
  by (simp_all add: or_else_def)

definition get_or :: "'a option \<Rightarrow> 'a \<Rightarrow> 'a" where
  "get_or a d = (case a of Some x \<Rightarrow> x | None \<Rightarrow> d)"

lemma get_or_simps [simp]: "get_or (Some x) d = x" "get_or None d = d"
  by (simp_all add: get_or_def)

section \<open>Insertion-ordered dictionaries\<close>

text \<open>
  A JavaScript \<open>Map\<close> keeps its keys in insertion order; \<open>set\<close> on a present key replaces the
  value in place. The model is an association list with distinct keys, read with \<open>map_of\<close>.
\<close>

type_synonym ('k, 'v) odict = "('k \<times> 'v) list"

fun dset :: "'k \<Rightarrow> 'v \<Rightarrow> ('k, 'v) odict \<Rightarrow> ('k, 'v) odict" where
  "dset k v [] = [(k, v)]"
| "dset k v ((k', v') # d) = (if k = k' then (k', v) # d else (k', v') # dset k v d)"

lemma map_of_dset [simp]: "map_of (dset k v d) = (map_of d)(k \<mapsto> v)"
  by (induction d) (auto simp: fun_eq_iff)

lemma keys_dset: "fst ` set (dset k v d) = insert k (fst ` set d)"
proof (induction d)
  case (Cons p d)
  obtain k' v' where "p = (k', v')" by fastforce
  with Cons show ?case by (cases "k = k'") auto
qed simp

lemma distinct_dset: "distinct (map fst d) \<Longrightarrow> distinct (map fst (dset k v d))"
proof (induction d)
  case (Cons p d)
  obtain k' v' where p: "p = (k', v')" by fastforce
  show ?case
  proof (cases "k = k'")
    case True
    with Cons.prems show ?thesis by (simp add: p)
  next
    case False
    moreover have "k' \<notin> fst ` set d" using Cons.prems by (simp add: p)
    ultimately show ?thesis using Cons by (simp add: p keys_dset)
  qed
qed simp

lemma dset_fresh: "k \<notin> fst ` set d \<Longrightarrow> dset k v d = d @ [(k, v)]"
  by (induction d) auto

text \<open>Building a dictionary from a list of entries, later entries overriding earlier ones.\<close>

definition dict_of :: "('a \<Rightarrow> 'k) \<Rightarrow> 'a list \<Rightarrow> ('k, 'a) odict" where
  "dict_of key xs = fold (\<lambda>x d. dset (key x) x d) xs []"

lemma dict_of_fold_distinct:
  "distinct (map key xs) \<Longrightarrow> (\<And>x. x \<in> set xs \<Longrightarrow> key x \<notin> fst ` set d) \<Longrightarrow>
   fold (\<lambda>x d. dset (key x) x d) xs d = d @ map (\<lambda>x. (key x, x)) xs"
proof (induction xs arbitrary: d)
  case (Cons x xs)
  have "dset (key x) x d = d @ [(key x, x)]" using Cons.prems(2) by (simp add: dset_fresh)
  moreover have "fold (\<lambda>x d. dset (key x) x d) xs (d @ [(key x, x)])
      = (d @ [(key x, x)]) @ map (\<lambda>x. (key x, x)) xs"
  proof (rule Cons.IH)
    show "distinct (map key xs)" using Cons.prems(1) by simp
    fix y assume y: "y \<in> set xs"
    then have "key y \<noteq> key x" using Cons.prems(1) by (metis distinct.simps(2) image_eqI list.set_map list.simps(9))
    moreover have "key y \<notin> fst ` set d" using Cons.prems(2) [of y] y by simp
    ultimately show "key y \<notin> fst ` set (d @ [(key x, x)])" by simp
  qed
  ultimately show ?case by simp
qed simp

lemma dict_of_distinct:
  "distinct (map key xs) \<Longrightarrow> dict_of key xs = map (\<lambda>x. (key x, x)) xs"
  using dict_of_fold_distinct [of key xs "[]"] by (simp add: dict_of_def)

lemma map_of_map_key:
  "distinct (map key xs) \<Longrightarrow>
   map_of (map (\<lambda>x. (key x, x)) xs) k = Some x \<longleftrightarrow> x \<in> set xs \<and> key x = k"
proof (induction xs)
  case (Cons y ys)
  then show ?case by (auto simp: image_iff)
qed simp

lemma dict_of_lookup:
  "distinct (map key xs) \<Longrightarrow> map_of (dict_of key xs) k = Some x \<longleftrightarrow> x \<in> set xs \<and> key x = k"
  by (simp add: dict_of_distinct map_of_map_key)

lemma dict_of_None:
  "distinct (map key xs) \<Longrightarrow> map_of (dict_of key xs) k = None \<longleftrightarrow> k \<notin> key ` set xs"
  by (auto simp: dict_of_distinct map_of_eq_None_iff image_iff)

section \<open>Sets built in order\<close>

text \<open>\<open>[...new Set(xs)]\<close>: the first occurrence of every element, in order.\<close>

fun nub_from :: "'a list \<Rightarrow> 'a list \<Rightarrow> 'a list" where
  "nub_from seen [] = []"
| "nub_from seen (x # xs) =
     (if x \<in> set seen then nub_from seen xs else x # nub_from (x # seen) xs)"

definition nub :: "'a list \<Rightarrow> 'a list" where
  "nub xs = nub_from [] xs"

lemma set_nub_from: "set (nub_from seen xs) = set xs - set seen"
  by (induction seen xs rule: nub_from.induct) auto

lemma set_nub [simp]: "set (nub xs) = set xs"
  by (simp add: nub_def set_nub_from)

lemma distinct_nub_from: "distinct (nub_from seen xs)"
  by (induction seen xs rule: nub_from.induct) (auto simp: set_nub_from)

lemma distinct_nub [simp]: "distinct (nub xs)"
  by (simp add: nub_def distinct_nub_from)

text \<open>The loop \<open>if (seen.has(x)) throw; seen.add(x)\<close>: the first repeated element.\<close>

fun first_dup :: "'a list \<Rightarrow> 'a list \<Rightarrow> 'a option" where
  "first_dup seen [] = None"
| "first_dup seen (x # xs) = (if x \<in> set seen then Some x else first_dup (x # seen) xs)"

lemma first_dup_None_aux:
  "first_dup seen xs = None \<longleftrightarrow> distinct xs \<and> set xs \<inter> set seen = {}"
  by (induction seen xs rule: first_dup.induct) auto

lemma first_dup_None: "first_dup [] xs = None \<longleftrightarrow> distinct xs"
  by (simp add: first_dup_None_aux)

end
