(* ===== verification/JsString.thy ===== *)
theory JsString
  imports Prelude
begin

text \<open>
  The string operations of the source language that the program uses. A JavaScript string is
  modelled as a list of characters, one per UTF-16 code unit, and the model is exact on text
  whose code units are below 128 (SQL identifiers, operators, header names, policy ids). Case
  folding and collation are written for that range: \<open>js_lower\<close> for \<open>toLowerCase\<close>,
  \<open>locale_compare\<close> for \<open>localeCompare\<close> in the root collation, and \<open>eq_ignore_case\<close>
  for \<open>localeCompare(\<dots>, undefined, {sensitivity: "accent"}) === 0\<close>.
\<close>

section \<open>Characters\<close>

definition code :: "char \<Rightarrow> nat" where
  "code c = of_char c"

definition is_ws :: "char \<Rightarrow> bool" where
  "is_ws c \<longleftrightarrow> code c \<in> {9, 10, 11, 12, 13, 32, 160}"

definition is_digit :: "char \<Rightarrow> bool" where
  "is_digit c \<longleftrightarrow> 48 \<le> code c \<and> code c \<le> 57"

definition is_upper :: "char \<Rightarrow> bool" where
  "is_upper c \<longleftrightarrow> 65 \<le> code c \<and> code c \<le> 90"

definition is_lower :: "char \<Rightarrow> bool" where
  "is_lower c \<longleftrightarrow> 97 \<le> code c \<and> code c \<le> 122"

text \<open>The classes \<open>[A-Za-z_]\<close> and \<open>[A-Za-z0-9_]\<close>.\<close>

definition ident_start :: "char \<Rightarrow> bool" where
  "ident_start c \<longleftrightarrow> is_upper c \<or> is_lower c \<or> code c = 95"

definition ident_part :: "char \<Rightarrow> bool" where
  "ident_part c \<longleftrightarrow> ident_start c \<or> is_digit c"

definition lower_char :: "char \<Rightarrow> char" where
  "lower_char c = (if is_upper c then char_of (code c + 32) else c)"

definition upper_char :: "char \<Rightarrow> char" where
  "upper_char c = (if is_lower c then char_of (code c - 32) else c)"

lemmas char_class_defs =
  code_def is_ws_def is_digit_def is_upper_def is_lower_def ident_start_def ident_part_def

lemma ident_part_not_ws: "ident_part c \<Longrightarrow> \<not> is_ws c"
  by (auto simp: char_class_defs)

lemma lower_upper_code: "is_upper c \<Longrightarrow> of_char (lower_char c) = of_char c + (32 :: nat)"
  by (simp add: lower_char_def char_class_defs)

lemma lower_char_not_upper: "\<not> is_upper (lower_char c)"
proof (cases "is_upper c")
  case True
  then show ?thesis using lower_upper_code [OF True] by (auto simp: is_upper_def code_def)
qed (simp add: lower_char_def)

lemma lower_char_idem [simp]: "lower_char (lower_char c) = lower_char c"
  using lower_char_not_upper [of c] by (subst (1) lower_char_def) simp

section \<open>Whole strings\<close>

definition js_lower :: "string \<Rightarrow> string" where
  "js_lower s = map lower_char s"

definition js_upper :: "string \<Rightarrow> string" where
  "js_upper s = map upper_char s"

definition js_trim :: "string \<Rightarrow> string" where
  "js_trim s = rev (dropWhile is_ws (rev (dropWhile is_ws s)))"

definition starts_with :: "string \<Rightarrow> string \<Rightarrow> bool" where
  "starts_with s p \<longleftrightarrow> take (length p) s = p"

definition ends_with :: "string \<Rightarrow> string \<Rightarrow> bool" where
  "ends_with s p \<longleftrightarrow> starts_with (rev s) (rev p)"

text \<open>\<open>s.indexOf(c)\<close> for a one-character needle; \<open>None\<close> for \<open>-1\<close>.\<close>

fun index_of :: "char \<Rightarrow> string \<Rightarrow> nat option" where
  "index_of c [] = None"
| "index_of c (x # s) = (if x = c then Some 0 else map_option Suc (index_of c s))"

text \<open>\<open>s.split(sep)\<close> for a one-character separator: never the empty list.\<close>

fun split_on :: "char \<Rightarrow> string \<Rightarrow> string list" where
  "split_on c [] = [[]]"
| "split_on c (x # s) =
     (if x = c then [] # split_on c s
      else (case split_on c s of [] \<Rightarrow> [[x]] | w # ws \<Rightarrow> (x # w) # ws))"

fun js_join :: "string \<Rightarrow> string list \<Rightarrow> string" where
  "js_join sep [] = []"
| "js_join sep [x] = x"
| "js_join sep (x # y # xs) = x @ sep @ js_join sep (y # xs)"

text \<open>The pattern \<open>/^[A-Za-z_][A-Za-z0-9_]*$/\<close>.\<close>

definition is_identifier :: "string \<Rightarrow> bool" where
  "is_identifier s = (case s of [] \<Rightarrow> False | c # cs \<Rightarrow> ident_start c \<and> list_all ident_part cs)"

text \<open>The pattern \<open>/^[A-Za-z_][A-Za-z0-9_]*(?:\.[A-Za-z_][A-Za-z0-9_]*)*$/\<close>.\<close>

definition is_qualified :: "string \<Rightarrow> bool" where
  "is_qualified s \<longleftrightarrow> list_all is_identifier (split_on (CHR ''.'') s)"

text \<open>Decimal digits of a natural number, as \<open>String(n)\<close> prints an integer.\<close>

fun show_nat :: "nat \<Rightarrow> string" where
  "show_nat n =
     (if n < 10 then [char_of (48 + n)] else show_nat (n div 10) @ [char_of (48 + n mod 10)])"

declare show_nat.simps [simp del]

definition digit_val :: "char \<Rightarrow> nat" where
  "digit_val c = code c - 48"

definition digits_val :: "string \<Rightarrow> nat" where
  "digits_val s = foldl (\<lambda>n c. 10 * n + digit_val c) 0 s"

lemma js_trim_nil [simp]: "js_trim [] = []"
  by (simp add: js_trim_def)

lemma dropWhile_id: "list_all (\<lambda>c. \<not> P c) s \<Longrightarrow> dropWhile P s = s"
  by (cases s) auto

lemma js_trim_id: "list_all (\<lambda>c. \<not> is_ws c) s \<Longrightarrow> js_trim s = s"
  by (simp add: js_trim_def dropWhile_id list_all_iff)

lemma is_identifier_parts: "is_identifier s \<Longrightarrow> list_all ident_part s"
  by (auto simp: is_identifier_def ident_part_def split: list.splits)

lemma js_trim_identifier: "is_identifier s \<Longrightarrow> js_trim s = s"
  using is_identifier_parts [of s] ident_part_not_ws
  by (intro js_trim_id) (auto simp: list_all_iff)

lemma dropWhile_idem [simp]: "dropWhile P (dropWhile P s) = dropWhile P s"
  by (induction s) auto

lemma dropWhile_rev_dropWhile:
  "dropWhile P (rev (dropWhile P (rev (dropWhile P s)))) = rev (dropWhile P (rev (dropWhile P s)))"
proof (cases "dropWhile P (rev (dropWhile P s)) = []")
  case False
  let ?t = "dropWhile P s"
  have "\<exists>u. rev ?t = u @ dropWhile P (rev ?t)"
    using takeWhile_dropWhile_id [of P "rev ?t"] by metis
  then obtain u where "?t = rev (dropWhile P (rev ?t)) @ rev u"
    by (metis rev_append rev_rev_ident)
  moreover have "rev (dropWhile P (rev ?t)) \<noteq> []" using False by simp
  ultimately have "hd ?t = hd (rev (dropWhile P (rev ?t)))" and "?t \<noteq> []"
    by (metis hd_append2, force)
  moreover from \<open>?t \<noteq> []\<close> have "\<not> P (hd ?t)" by (rule hd_dropWhile)
  ultimately show ?thesis using \<open>rev (dropWhile P (rev ?t)) \<noteq> []\<close>
    by (metis dropWhile.simps(2) list.collapse)
next
  case True
  show ?thesis by (simp only: True rev.simps dropWhile.simps)
qed

lemma js_trim_idem [simp]: "js_trim (js_trim s) = js_trim s"
  by (simp add: js_trim_def dropWhile_rev_dropWhile)

lemma js_trim_length: "length (js_trim s) \<le> length s"
  using length_dropWhile_le [of is_ws "rev (dropWhile is_ws s)"] length_dropWhile_le [of is_ws s]
  by (simp add: js_trim_def)

lemma js_lower_idem [simp]: "js_lower (js_lower s) = js_lower s"
  by (simp add: js_lower_def)

lemma split_on_not_Nil [simp]: "split_on c s \<noteq> []"
  by (induction s) (auto split: list.splits)

lemma split_on_no_sep: "c \<notin> set s \<Longrightarrow> split_on c s = [s]"
  by (induction s) auto

lemma split_on_append_sep: "c \<notin> set s \<Longrightarrow> split_on c (s @ c # t) = s # split_on c t"
  by (induction s) (auto split: list.splits)

lemma split_on_parts: "w \<in> set (split_on c s) \<Longrightarrow> c \<notin> set w"
proof (induction s arbitrary: w)
  case (Cons x s)
  show ?case
  proof (cases "x = c")
    case True
    with Cons show ?thesis by auto
  next
    case False
    then show ?thesis using Cons.prems Cons.IH by (cases "split_on c s") auto
  qed
qed simp

lemma split_on_join:
  "ws \<noteq> [] \<Longrightarrow> (\<And>w. w \<in> set ws \<Longrightarrow> c \<notin> set w) \<Longrightarrow> split_on c (js_join [c] ws) = ws"
proof (induction "[c]" ws rule: js_join.induct)
  case (3 x y xs)
  then show ?case by (simp add: split_on_append_sep)
qed (auto simp: split_on_no_sep)

lemma js_join_split_on: "js_join [c] (split_on c s) = s"
proof (induction s)
  case (Cons x s)
  obtain w ws where sp: "split_on c s = w # ws" by (cases "split_on c s") auto
  show ?case
  proof (cases "x = c")
    case True
    with Cons sp show ?thesis by (cases ws) auto
  next
    case False
    with Cons sp show ?thesis by (cases ws) auto
  qed
qed simp

text \<open>A separator that no part contains makes \<open>join\<close> injective on non-empty lists.\<close>

lemma js_join_inj:
  assumes "ws \<noteq> []" "vs \<noteq> []"
    and "\<And>w. w \<in> set ws \<Longrightarrow> c \<notin> set w" "\<And>v. v \<in> set vs \<Longrightarrow> c \<notin> set v"
    and "js_join [c] ws = js_join [c] vs"
  shows "ws = vs"
  using assms split_on_join [of ws c] split_on_join [of vs c] by metis

lemma js_join_chars: "set (js_join sep ws) \<subseteq> set sep \<union> \<Union> (set ` set ws)"
  by (induction sep ws rule: js_join.induct) auto

lemma ident_part_no_dot: "\<not> ident_part (CHR ''.'')"
  by (simp add: char_class_defs)

lemma is_identifier_qualified: "is_identifier s \<Longrightarrow> is_qualified s"
  using is_identifier_parts [of s] ident_part_no_dot
  by (auto simp: is_qualified_def split_on_no_sep list_all_iff)

text \<open>A printed number reads back, so distinct numbers print differently.\<close>

lemma digits_val_append: "digits_val (s @ [c]) = 10 * digits_val s + digit_val c"
  by (simp add: digits_val_def)

lemma digit_val_char: "n < 10 \<Longrightarrow> digit_val (char_of (48 + n)) = n"
  by (simp add: digit_val_def code_def)

lemma digits_val_show_nat [simp]: "digits_val (show_nat n) = n"
proof (induction n rule: show_nat.induct)
  case (1 n)
  show ?case
  proof (cases "n < 10")
    case True
    then show ?thesis by (simp add: show_nat.simps [of n] digits_val_def digit_val_char)
  next
    case False
    with 1 have "digits_val (show_nat (n div 10)) = n div 10" by simp
    with False show ?thesis
      by (simp add: show_nat.simps [of n] digits_val_append digit_val_char)
  qed
qed

lemma show_nat_inj: "show_nat m = show_nat n \<longleftrightarrow> m = n"
  using digits_val_show_nat by metis

section \<open>Collation\<close>

text \<open>
  The printable ASCII characters in the order of the root collation. Letters are listed in
  lower case: upper and lower case differ at the third level only, lower first. Control
  characters have no weight at all.
\<close>

definition collation_order :: string where
  "collation_order =
     [CHR 0x09, CHR 0x0A, CHR 0x0B, CHR 0x0C, CHR 0x0D, CHR '' ''] @ ''_-,;:!?.'' @
     [CHR 0x27, CHR 0x22] @ ''()[]{}@*/'' @ [CHR 0x5C] @ ''&#%'' @ [CHR 0x60] @
     ''^+<=>|~$0123456789abcdefghijklmnopqrstuvwxyz''"

definition has_weight :: "char \<Rightarrow> bool" where
  "has_weight c \<longleftrightarrow> lower_char c \<in> set collation_order"

definition primary_weight :: "char \<Rightarrow> nat" where
  "primary_weight c = get_or (index_of (lower_char c) collation_order) 0"

definition primary_key :: "string \<Rightarrow> nat list" where
  "primary_key s = map primary_weight (filter has_weight s)"

definition case_key :: "string \<Rightarrow> nat list" where
  "case_key s = map (\<lambda>c. if is_upper c then 1 else 0) (filter has_weight s)"

fun compare_keys :: "nat list \<Rightarrow> nat list \<Rightarrow> int" where
  "compare_keys [] [] = 0"
| "compare_keys [] (y # ys) = - 1"
| "compare_keys (x # xs) [] = 1"
| "compare_keys (x # xs) (y # ys) = (if x < y then - 1 else if y < x then 1 else compare_keys xs ys)"

text \<open>\<open>a.localeCompare(b)\<close>: the sign of the comparison.\<close>

definition locale_compare :: "string \<Rightarrow> string \<Rightarrow> int" where
  "locale_compare a b =
     (let p = compare_keys (primary_key a) (primary_key b)
      in if p \<noteq> 0 then p else compare_keys (case_key a) (case_key b))"

text \<open>\<open>a.localeCompare(b, undefined, {sensitivity: "accent"}) === 0\<close>.\<close>

definition eq_ignore_case :: "string \<Rightarrow> string \<Rightarrow> bool" where
  "eq_ignore_case a b \<longleftrightarrow> compare_keys (primary_key a) (primary_key b) = 0"

lemma compare_keys_0_iff: "compare_keys xs ys = 0 \<longleftrightarrow> xs = ys"
  by (induction xs ys rule: compare_keys.induct) auto

lemma compare_keys_sym: "compare_keys ys xs = - compare_keys xs ys"
  by (induction xs ys rule: compare_keys.induct) auto

lemma eq_ignore_case_iff: "eq_ignore_case a b \<longleftrightarrow> primary_key a = primary_key b"
  by (simp add: eq_ignore_case_def compare_keys_0_iff)

lemma eq_ignore_case_refl [simp]: "eq_ignore_case a a"
  by (simp add: eq_ignore_case_iff)

lemma eq_ignore_case_sym: "eq_ignore_case a b \<Longrightarrow> eq_ignore_case b a"
  by (simp add: eq_ignore_case_iff)

lemma eq_ignore_case_trans: "eq_ignore_case a b \<Longrightarrow> eq_ignore_case b c \<Longrightarrow> eq_ignore_case a c"
  by (simp add: eq_ignore_case_iff)

lemma locale_compare_antisym: "locale_compare b a = - locale_compare a b"
  by (simp add: locale_compare_def Let_def compare_keys_sym [of "primary_key a"]
      compare_keys_sym [of "case_key a"])

section \<open>Code-unit order\<close>

text \<open>\<open>a < b\<close> on strings compares code units lexicographically.\<close>

fun str_less :: "string \<Rightarrow> string \<Rightarrow> bool" where
  "str_less [] [] = False"
| "str_less [] (y # ys) = True"
| "str_less (x # xs) [] = False"
| "str_less (x # xs) (y # ys) = (code x < code y \<or> x = y \<and> str_less xs ys)"

definition str_le :: "string \<Rightarrow> string \<Rightarrow> bool" where
  "str_le a b \<longleftrightarrow> \<not> str_less b a"

lemma code_inj: "code x = code y \<longleftrightarrow> x = y"
  by (simp add: code_def)

lemma str_less_irrefl [simp]: "\<not> str_less a a"
  by (induction a) (auto simp: code_def)

lemma str_less_trans: "str_less a b \<Longrightarrow> str_less b c \<Longrightarrow> str_less a c"
proof (induction a b arbitrary: c rule: str_less.induct)
  case (2 y ys)
  then show ?case by (cases c) auto
next
  case (4 x xs y ys)
  then show ?case by (cases c) auto
qed auto

lemma str_less_linear: "str_less a b \<or> a = b \<or> str_less b a"
proof (induction a b rule: str_less.induct)
  case (4 x xs y ys)
  then show ?case using linorder_less_linear [of "code x" "code y"] by (auto simp: code_inj)
qed auto

lemma str_less_asym: "str_less a b \<Longrightarrow> \<not> str_less b a"
  using str_less_trans str_less_irrefl by blast

lemma str_le_refl [simp]: "str_le a a"
  by (simp add: str_le_def)

lemma str_le_trans: "str_le a b \<Longrightarrow> str_le b c \<Longrightarrow> str_le a c"
  using str_less_linear str_less_trans by (metis str_le_def)

lemma str_le_total: "str_le a b \<or> str_le b a"
  using str_less_asym by (auto simp: str_le_def)

lemma str_le_antisym: "str_le a b \<Longrightarrow> str_le b a \<Longrightarrow> a = b"
  using str_less_linear by (auto simp: str_le_def)

end
