(* ===== verification/JsValue.thy ===== *)
theory JsValue
  imports Complex_Main JsString "HOL-Library.Log_Nat" "HOL-Library.Word"
begin

unbundle bit_operations_syntax

text \<open>
  Values of the source language. A number is a finite IEEE double (its exact rational value),
  an infinity or NaN; the two zeros are identified, because no operation modelled here tells
  them apart. An object is its identity (what a \<open>WeakSet\<close> sees) and its own enumerable
  properties in enumeration order; \<open>0\<close> is the identity of an object made by the modelled
  code itself. \<open>Fun k\<close> is the function an object inherits from \<open>Object.prototype\<close>
  under the name \<open>k\<close>, which the \<open>in\<close> operator and property reads also see.
\<close>

datatype jnum = Fin rat | PosInf | NegInf | NaN

datatype jval =
    Undefined
  | Null
  | JBool bool
  | JNum jnum
  | BigInt int
  | JStr string
  | JArr "jval list"
  | JObj nat "(string \<times> jval) list"
  | JFun string

type_synonym fields = "(string \<times> jval) list"

section \<open>Numbers\<close>

definition jint :: "int \<Rightarrow> jnum" where
  "jint n = Fin (of_int n)"

definition is_integer :: "jnum \<Rightarrow> bool" where
  "is_integer n = (case n of Fin r \<Rightarrow> of_int \<lfloor>r\<rfloor> = r | _ \<Rightarrow> False)"

definition is_finite :: "jnum \<Rightarrow> bool" where
  "is_finite n = (case n of Fin _ \<Rightarrow> True | _ \<Rightarrow> False)"

text \<open>\<open>a < b\<close>, \<open>a <= b\<close> and \<open>a === b\<close> on numbers: all false as soon as one is NaN.\<close>

fun num_less :: "jnum \<Rightarrow> jnum \<Rightarrow> bool" where
  "num_less (Fin a) (Fin b) = (a < b)"
| "num_less (Fin a) PosInf = True"
| "num_less NegInf (Fin b) = True"
| "num_less NegInf PosInf = True"
| "num_less _ _ = False"

definition num_eq :: "jnum \<Rightarrow> jnum \<Rightarrow> bool" where
  "num_eq a b \<longleftrightarrow> a = b \<and> a \<noteq> NaN"

definition num_le :: "jnum \<Rightarrow> jnum \<Rightarrow> bool" where
  "num_le a b \<longleftrightarrow> num_less a b \<or> num_eq a b"

text \<open>\<open>Math.max\<close> of two numbers: NaN as soon as one is.\<close>

definition num_max :: "jnum \<Rightarrow> jnum \<Rightarrow> jnum" where
  "num_max a b = (if a = NaN \<or> b = NaN then NaN else if num_less a b then b else a)"

text \<open>\<open>Math.trunc\<close> on a rational, and ECMAScript's \<open>ToInt32\<close> before a bitwise operator.\<close>

definition rat_trunc :: "rat \<Rightarrow> int" where
  "rat_trunc r = (if 0 \<le> r then \<lfloor>r\<rfloor> else \<lceil>r\<rceil>)"

definition num_trunc :: "jnum \<Rightarrow> jnum" where
  "num_trunc n = (case n of Fin r \<Rightarrow> jint (rat_trunc r) | _ \<Rightarrow> n)"

definition to_int32 :: "jnum \<Rightarrow> 32 word" where
  "to_int32 n = (case n of Fin r \<Rightarrow> word_of_int (rat_trunc r) | _ \<Rightarrow> 0)"

text \<open>
  The double nearest to a rational, ties to even: 53 significant bits, exponents down to
  \<open>-1074\<close>, overflow to an infinity. Used where text or a big integer becomes a number.
\<close>

definition round_even :: "rat \<Rightarrow> int" where
  "round_even r =
     (let f = \<lfloor>r\<rfloor>; d = r - of_int f
      in if d < 1 / 2 then f else if 1 / 2 < d then f + 1 else if even f then f else f + 1)"

definition pow2 :: "int \<Rightarrow> rat" where
  "pow2 e = (if 0 \<le> e then 2 ^ nat e else 1 / 2 ^ nat (- e))"

definition ilog2 :: "rat \<Rightarrow> int" where
  "ilog2 a =
     (let e = bitlen (fst (quotient_of a)) - bitlen (snd (quotient_of a))
      in if a < pow2 e then e - 1 else e)"

definition to_double :: "rat \<Rightarrow> jnum" where
  "to_double r =
     (if r = 0 then Fin 0
      else let e = max (ilog2 \<bar>r\<bar>) (- 1022);
               ulp = pow2 (e - 52);
               m = of_int (round_even (\<bar>r\<bar> / ulp)) * ulp
           in if pow2 1024 \<le> m then (if 0 < r then PosInf else NegInf)
              else Fin (if 0 < r then m else - m))"

text \<open>Subtraction and multiplication, rounded.\<close>

definition num_sub :: "jnum \<Rightarrow> jnum \<Rightarrow> jnum" where
  "num_sub a b =
     (case (a, b) of
        (Fin x, Fin y) \<Rightarrow> to_double (x - y)
      | (NaN, _) \<Rightarrow> NaN
      | (_, NaN) \<Rightarrow> NaN
      | (PosInf, PosInf) \<Rightarrow> NaN
      | (NegInf, NegInf) \<Rightarrow> NaN
      | (PosInf, _) \<Rightarrow> PosInf
      | (NegInf, _) \<Rightarrow> NegInf
      | (_, PosInf) \<Rightarrow> NegInf
      | (_, NegInf) \<Rightarrow> PosInf)"

definition num_sign :: "jnum \<Rightarrow> int" where
  "num_sign n =
     (case n of
        Fin x \<Rightarrow> if 0 < x then 1 else if x < 0 then - 1 else 0
      | PosInf \<Rightarrow> 1
      | NegInf \<Rightarrow> - 1
      | NaN \<Rightarrow> 0)"

definition num_mul :: "jnum \<Rightarrow> jnum \<Rightarrow> jnum" where
  "num_mul a b =
     (case (a, b) of
        (Fin x, Fin y) \<Rightarrow> to_double (x * y)
      | _ \<Rightarrow>
          if a = NaN \<or> b = NaN then NaN
          else if num_sign a * num_sign b = 0 then NaN
          else if 0 < num_sign a * num_sign b then PosInf else NegInf)"

subsection \<open>Text to number\<close>

text \<open>\<open>Number(s)\<close>: the grammar \<open>StringNumericLiteral\<close>.\<close>

definition all_digits :: "string \<Rightarrow> bool" where
  "all_digits s \<longleftrightarrow> s \<noteq> [] \<and> list_all is_digit s"

definition digit_in_base :: "nat \<Rightarrow> char \<Rightarrow> nat option" where
  "digit_in_base b c =
     (let l = lower_char c;
          v = (if is_digit l then code l - 48 else if is_lower l then code l - 87 else 36)
      in if v < b then Some v else None)"

fun base_val :: "nat \<Rightarrow> nat \<Rightarrow> string \<Rightarrow> nat option" where
  "base_val b acc [] = Some acc"
| "base_val b acc (c # cs) =
     (case digit_in_base b c of None \<Rightarrow> None | Some d \<Rightarrow> base_val b (acc * b + d) cs)"

definition pow10 :: "int \<Rightarrow> rat" where
  "pow10 e = (if 0 \<le> e then 10 ^ nat e else 1 / 10 ^ nat (- e))"

text \<open>The exponent part: none, or \<open>e\<close> with an optionally signed digit sequence.\<close>

definition parse_exponent :: "string \<Rightarrow> int option" where
  "parse_exponent s =
     (case s of
        [] \<Rightarrow> Some 0
      | c # cs \<Rightarrow>
          if lower_char c \<noteq> CHR ''e'' then None
          else (case cs of
                  CHR ''-'' # ds \<Rightarrow> if all_digits ds then Some (- int (digits_val ds)) else None
                | CHR ''+'' # ds \<Rightarrow> if all_digits ds then Some (int (digits_val ds)) else None
                | ds \<Rightarrow> if all_digits ds then Some (int (digits_val ds)) else None))"

definition parse_unsigned_decimal :: "string \<Rightarrow> jnum" where
  "parse_unsigned_decimal s =
     (let ip = takeWhile is_digit s; r = dropWhile is_digit s;
          fp = (case r of CHR ''.'' # t \<Rightarrow> takeWhile is_digit t | _ \<Rightarrow> []);
          rest = (case r of CHR ''.'' # t \<Rightarrow> dropWhile is_digit t | _ \<Rightarrow> r)
      in if s = ''Infinity'' then PosInf
         else if ip = [] \<and> fp = [] then NaN
         else (case parse_exponent rest of
                 None \<Rightarrow> NaN
               | Some e \<Rightarrow> to_double (of_nat (digits_val (ip @ fp)) * pow10 (e - int (length fp)))))"

definition num_neg :: "jnum \<Rightarrow> jnum" where
  "num_neg n = (case n of Fin r \<Rightarrow> Fin (- r) | PosInf \<Rightarrow> NegInf | NegInf \<Rightarrow> PosInf | NaN \<Rightarrow> NaN)"

definition base_literal :: "nat \<Rightarrow> string \<Rightarrow> jnum" where
  "base_literal b s =
     (if s = [] then NaN
      else case base_val b 0 s of None \<Rightarrow> NaN | Some n \<Rightarrow> to_double (of_nat n))"

definition string_to_number :: "string \<Rightarrow> jnum" where
  "string_to_number raw =
     (case js_trim raw of
        [] \<Rightarrow> Fin 0
      | CHR ''-'' # s \<Rightarrow> num_neg (parse_unsigned_decimal s)
      | CHR ''+'' # s \<Rightarrow> parse_unsigned_decimal s
      | CHR ''0'' # x # s \<Rightarrow>
          (if lower_char x = CHR ''x'' then base_literal 16 s
           else if lower_char x = CHR ''o'' then base_literal 8 s
           else if lower_char x = CHR ''b'' then base_literal 2 s
           else parse_unsigned_decimal (CHR ''0'' # x # s))
      | s \<Rightarrow> parse_unsigned_decimal s)"

subsection \<open>Number to text\<close>

text \<open>
  \<open>Number::toString\<close>: the shortest decimal digits that read back as the same double. \<open>n\<close> is
  the position of the decimal point, \<open>k\<close> the number of digits, \<open>d\<close> their value.
\<close>

fun decimal_point :: "nat \<Rightarrow> rat \<Rightarrow> int \<Rightarrow> int" where
  "decimal_point 0 v n = n"
| "decimal_point (Suc f) v n =
     (if v < pow10 (n - 1) then decimal_point f v (n - 1)
      else if pow10 n \<le> v then decimal_point f v (n + 1) else n)"

definition digits_at :: "rat \<Rightarrow> int \<Rightarrow> nat \<Rightarrow> int option" where
  "digits_at v n k =
     (let d = round_even (v / pow10 (n - int k))
      in if to_double (of_int d * pow10 (n - int k)) = Fin v then Some d else None)"

definition shortest_digits :: "rat \<Rightarrow> int \<Rightarrow> int \<times> nat \<times> int" where
  "shortest_digits v n =
     (case find (\<lambda>k. digits_at v n k \<noteq> None) [1..<18] of
        Some k \<Rightarrow>
          (let d = get_or (digits_at v n k) 0
           in if d = 10 ^ k then (n + 1, 1, 1) else (n, k, d))
      | None \<Rightarrow> (n, 17, round_even (v / pow10 (n - 17))))"

definition show_positive :: "rat \<Rightarrow> string" where
  "show_positive v =
     (let (n, k, d) = shortest_digits v (decimal_point 700 v 1);
          ds = show_nat (nat d)
      in if int k \<le> n \<and> n \<le> 21 then ds @ replicate (nat n - k) (CHR ''0'')
         else if 0 < n \<and> n \<le> 21 then take (nat n) ds @ ''.'' @ drop (nat n) ds
         else if - 6 < n \<and> n \<le> 0 then ''0.'' @ replicate (nat (- n)) (CHR ''0'') @ ds
         else take 1 ds @ (if k = 1 then [] else ''.'' @ drop 1 ds) @ ''e'' @
              (if 0 < n then ''+'' else ''-'') @ show_nat (nat \<bar>n - 1\<bar>))"

definition show_int :: "int \<Rightarrow> string" where
  "show_int n = (if n < 0 then CHR ''-'' # show_nat (nat (- n)) else show_nat (nat n))"

definition number_to_string :: "jnum \<Rightarrow> string" where
  "number_to_string n =
     (case n of
        NaN \<Rightarrow> ''NaN''
      | PosInf \<Rightarrow> ''Infinity''
      | NegInf \<Rightarrow> ''-Infinity''
      | Fin r \<Rightarrow>
          if r = 0 then ''0''
          else if of_int \<lfloor>r\<rfloor> = r \<and> \<bar>r\<bar> < 2 ^ 53 then show_int \<lfloor>r\<rfloor>
          else if r < 0 then CHR ''-'' # show_positive (- r) else show_positive r)"

section \<open>Values\<close>

definition truthy :: "jval \<Rightarrow> bool" where
  "truthy v =
     (case v of
        Undefined \<Rightarrow> False
      | Null \<Rightarrow> False
      | JBool b \<Rightarrow> b
      | JNum n \<Rightarrow> n \<noteq> Fin 0 \<and> n \<noteq> NaN
      | BigInt n \<Rightarrow> n \<noteq> 0
      | JStr s \<Rightarrow> s \<noteq> []
      | _ \<Rightarrow> True)"

definition nullish :: "jval \<Rightarrow> bool" where
  "nullish v \<longleftrightarrow> v = Undefined \<or> v = Null"

text \<open>\<open>a ?? b\<close>.\<close>

definition nullish_or :: "jval \<Rightarrow> jval \<Rightarrow> jval" where
  "nullish_or a b = (if nullish a then b else a)"

text \<open>\<open>Boolean(value) && typeof value === "object" && !Array.isArray(value)\<close>.\<close>

definition is_record :: "jval \<Rightarrow> bool" where
  "is_record v = (case v of JObj _ _ \<Rightarrow> True | _ \<Rightarrow> False)"

definition fields_of :: "jval \<Rightarrow> fields" where
  "fields_of v = (case v of JObj _ fs \<Rightarrow> fs | _ \<Rightarrow> [])"

text \<open>\<open>String(v)\<close>, for objects that do not override \<open>toString\<close> themselves.\<close>

fun to_str :: "jval \<Rightarrow> string" where
  "to_str Undefined = ''undefined''"
| "to_str Null = ''null''"
| "to_str (JBool b) = (if b then ''true'' else ''false'')"
| "to_str (JNum n) = number_to_string n"
| "to_str (BigInt n) = show_int n"
| "to_str (JStr s) = s"
| "to_str (JArr vs) =
     js_join '','' (map (\<lambda>v. if v = Undefined \<or> v = Null then [] else to_str v) vs)"
| "to_str (JObj _ _) = ''[object Object]''"
| "to_str (JFun k) = ''function '' @ k @ ''() { [native code] }''"

text \<open>\<open>ToNumber\<close>, and the comparison \<open>v < n\<close> of a value with a number.\<close>

definition to_number :: "jval \<Rightarrow> jnum" where
  "to_number v =
     (case v of
        Undefined \<Rightarrow> NaN
      | Null \<Rightarrow> Fin 0
      | JBool b \<Rightarrow> Fin (if b then 1 else 0)
      | JNum n \<Rightarrow> n
      | BigInt n \<Rightarrow> to_double (of_int n)
      | JStr s \<Rightarrow> string_to_number s
      | JArr vs \<Rightarrow> string_to_number (to_str v)
      | _ \<Rightarrow> NaN)"

definition less_than :: "jval \<Rightarrow> int \<Rightarrow> bool" where
  "less_than v n \<longleftrightarrow> num_less (to_number v) (jint n)"

text \<open>The names every plain object inherits.\<close>

definition prototype_names :: "string list" where
  "prototype_names =
     [''constructor'', ''toString'', ''valueOf'', ''hasOwnProperty'', ''isPrototypeOf'',
      ''propertyIsEnumerable'', ''toLocaleString'', ''__proto__'', ''__defineGetter__'',
      ''__defineSetter__'', ''__lookupGetter__'', ''__lookupSetter__'']"

definition has_prop :: "string \<Rightarrow> fields \<Rightarrow> bool" where
  "has_prop k fs \<longleftrightarrow> map_of fs k \<noteq> None \<or> k \<in> set prototype_names"

definition get_prop :: "string \<Rightarrow> fields \<Rightarrow> jval" where
  "get_prop k fs =
     (case map_of fs k of
        Some v \<Rightarrow> v
      | None \<Rightarrow>
          if k = ''__proto__'' then JObj 0 []
          else if k \<in> set prototype_names then JFun k else Undefined)"

definition has_key :: "string \<Rightarrow> fields \<Rightarrow> bool" where
  "has_key k fs \<longleftrightarrow> map_of fs k \<noteq> None"

text \<open>\<open>value?.field\<close> on something that may not be an object.\<close>

definition opt_prop :: "string \<Rightarrow> jval \<Rightarrow> jval" where
  "opt_prop k v = (case v of JObj _ fs \<Rightarrow> get_prop k fs | _ \<Rightarrow> Undefined)"

lemma has_prop_own: "map_of fs k = Some v \<Longrightarrow> has_prop k fs"
  by (simp add: has_prop_def)

lemma get_prop_own: "map_of fs k = Some v \<Longrightarrow> get_prop k fs = v"
  by (simp add: get_prop_def)

lemma get_prop_dset_same [simp]: "get_prop k (dset k v fs) = v"
  by (simp add: get_prop_def)

lemma get_prop_dset_other [simp]: "k \<noteq> k' \<Longrightarrow> get_prop k (dset k' v fs) = get_prop k fs"
  by (simp add: get_prop_def)

lemma is_record_JObj [simp]: "is_record (JObj i fs)"
  by (simp add: is_record_def)

lemma is_record_iff: "is_record v \<longleftrightarrow> (\<exists>i fs. v = JObj i fs)"
  by (cases v) (auto simp: is_record_def)

lemma is_record_simps [simp]:
  "\<not> is_record Undefined" "\<not> is_record Null" "\<not> is_record (JBool b)" "\<not> is_record (JNum n)"
  "\<not> is_record (BigInt m)" "\<not> is_record (JStr s)" "\<not> is_record (JArr vs)" "\<not> is_record (JFun k)"
  by (simp_all add: is_record_def)

lemma fields_of_JObj [simp]: "fields_of (JObj i fs) = fs"
  by (simp add: fields_of_def)

lemma nullish_simps [simp]:
  "nullish Undefined" "nullish Null" "\<not> nullish (JBool b)" "\<not> nullish (JNum n)"
  "\<not> nullish (BigInt m)" "\<not> nullish (JStr s)" "\<not> nullish (JArr vs)" "\<not> nullish (JObj i fs)"
  "\<not> nullish (JFun k)"
  by (simp_all add: nullish_def)

section \<open>Nesting depth\<close>

text \<open>The measure for functions that recurse into the members of a value.\<close>

fun jdepth :: "jval \<Rightarrow> nat" where
  "jdepth (JArr vs) = Suc (foldr (\<lambda>v d. max (jdepth v) d) vs 0)"
| "jdepth (JObj i fs) = Suc (foldr (\<lambda>p d. max (jdepth (snd p)) d) fs 0)"
| "jdepth _ = 0"

lemma foldr_max_le: "(\<forall>x \<in> set xs. f x \<le> n) \<longleftrightarrow> foldr (\<lambda>x d. max (f x) d) xs 0 \<le> (n :: nat)"
  by (induction xs) auto

lemma foldr_max_mem: "x \<in> set xs \<Longrightarrow> f x \<le> foldr (\<lambda>x d. max (f x) d) xs (0 :: nat)"
  using foldr_max_le [of xs f "foldr (\<lambda>x d. max (f x) d) xs 0"] by simp

lemma jdepth_item: "v \<in> set vs \<Longrightarrow> jdepth v < jdepth (JArr vs)"
  using foldr_max_mem [of v vs jdepth] by simp

lemma jdepth_member: "(k, v) \<in> set fs \<Longrightarrow> jdepth v < jdepth (JObj i fs)"
  using foldr_max_mem [of "(k, v)" fs "\<lambda>p. jdepth (snd p)"] by simp

lemma jdepth_get_prop: "k \<noteq> ''__proto__'' \<Longrightarrow> jdepth (get_prop k fs) < jdepth (JObj i fs)"
proof (cases "map_of fs k")
  case (Some v)
  then show ?thesis using jdepth_member [of k v fs i] by (simp add: get_prop_def map_of_SomeD)
qed (simp add: get_prop_def)

lemma is_integer_jint [simp]: "is_integer (jint n)"
  by (simp add: is_integer_def jint_def)

end
