(* ===== verification/PolicyIr.thy ===== *)
theory PolicyIr
  imports JsValue
begin

text \<open>
  The data of Athena Policy: the intermediate representation of \<open>policy/types.ts\<close>, the decision
  record of \<open>policy/decision.ts\<close>, the caller identity of \<open>runtime/data/principal.ts\<close>, and the
  errors the policy engine throws. \<open>encode_expr\<close> and its companions give the wire form of a
  policy (the JSON that \<open>policy/validate-ir.ts\<close> inspects).
\<close>

section \<open>Actions, principals and subjects\<close>

datatype policy_action = Select | Insert | Update | Delete

datatype composition = Permissive | Restrictive

datatype policy_principal =
    PublicPrincipal
  | AnonymousPrincipal
  | AuthenticatedPrincipal
  | RolePrincipal string
  | PermissionPrincipal string
  | ServicePrincipal string
  | AdminPrincipal

datatype subject_ref =
    UserIdSlot
  | OrganizationIdSlot
  | SessionIdSlot
  | RolesSlot
  | PermissionsSlot
  | ClaimSlot string

definition slot_field :: "subject_ref \<Rightarrow> string" where
  "slot_field s =
     (case s of
        UserIdSlot \<Rightarrow> ''userId''
      | OrganizationIdSlot \<Rightarrow> ''organizationId''
      | SessionIdSlot \<Rightarrow> ''sessionId''
      | RolesSlot \<Rightarrow> ''roles''
      | PermissionsSlot \<Rightarrow> ''permissions''
      | ClaimSlot _ \<Rightarrow> ''claim'')"

section \<open>Values, operands and expressions\<close>

datatype policy_value =
    PNull
  | PBool bool
  | PString string
  | PInteger jnum
  | PUuid string
  | PDateTime string
  | PList "policy_value list"

record policy_column =
  col_logical :: string
  col_physical :: "string option"

datatype policy_operand =
    Column policy_column
  | Subject subject_ref
  | Literal policy_value

datatype cmp_op = Eq | Ne | Lt | Lte | Gt | Gte

datatype policy_expr =
    Cmp cmp_op policy_operand policy_operand
  | IsNull policy_operand
  | IsNotNull policy_operand
  | InList policy_operand "policy_operand list"
  | And "policy_expr list"
  | Or "policy_expr list"
  | Not policy_expr

section \<open>Definitions and documents\<close>

record policy_resource =
  res_database :: "string option"
  res_schema :: "string option"
  res_table :: string

text \<open>\<open>actions\<close> is the bitmask select=1, insert=2, update=4, delete=8, held in a number.\<close>

record policy_definition =
  pd_id :: string
  pd_name :: "string option"
  pd_resource :: policy_resource
  pd_actions :: jnum
  pd_composition :: composition
  pd_principals :: "policy_principal list"
  pd_visibility :: "policy_expr option"
  pd_check :: "policy_expr option"

record policy_document =
  doc_ir_version :: int
  doc_policies :: "policy_definition list"

definition policy_ir_version :: int where
  "policy_ir_version = 1"

definition action_bit :: "policy_action \<Rightarrow> int" where
  "action_bit a = (case a of Select \<Rightarrow> 1 | Insert \<Rightarrow> 2 | Update \<Rightarrow> 4 | Delete \<Rightarrow> 8)"

definition action_name :: "policy_action \<Rightarrow> string" where
  "action_name a =
     (case a of Select \<Rightarrow> ''select'' | Insert \<Rightarrow> ''insert'' | Update \<Rightarrow> ''update'' | Delete \<Rightarrow> ''delete'')"

section \<open>The caller\<close>

record principal =
  pr_authenticated :: bool
  pr_user_id :: "string option"
  pr_session_id :: "string option"
  pr_organization_id :: "string option"
  pr_role :: "string option"
  pr_rights :: "string list"
  pr_grants :: "string list"
  pr_service :: "string option"
  pr_claims :: "fields option"

definition anonymous_principal :: principal where
  "anonymous_principal =
     \<lparr>pr_authenticated = False, pr_user_id = None, pr_session_id = None,
      pr_organization_id = None, pr_role = None, pr_rights = [], pr_grants = [],
      pr_service = None, pr_claims = None\<rparr>"

text \<open>A truthy optional string: absent and empty count as missing.\<close>

definition present :: "string option \<Rightarrow> string option" where
  "present s = (case s of None \<Rightarrow> None | Some t \<Rightarrow> if t = [] then None else Some t)"

definition normalize_principal :: "principal \<Rightarrow> principal" where
  "normalize_principal p =
     \<lparr>pr_authenticated = pr_authenticated p, pr_user_id = present (pr_user_id p),
      pr_session_id = present (pr_session_id p),
      pr_organization_id = present (pr_organization_id p), pr_role = present (pr_role p),
      pr_rights = pr_rights p, pr_grants = pr_grants p, pr_service = present (pr_service p),
      pr_claims = pr_claims p\<rparr>"

section \<open>Decisions\<close>

datatype policy_mode = Disabled | Observe | Enforce

datatype decision_reason =
    Allowed
  | DisabledReason
  | NoMatchingPolicy
  | PrincipalNotAllowed
  | UnsupportedExpression
  | InvalidPolicy

record policy_decision =
  dec_allowed :: bool
  dec_matched :: "string list"
  dec_visibility :: "policy_expr option"
  dec_check :: "policy_expr option"
  dec_reason :: decision_reason
  dec_mode :: policy_mode

datatype runtime_operation = FetchOp | InsertOp | UpdateOp | DeleteOp | QueryOp | RpcOp

definition action_from_operation :: "runtime_operation \<Rightarrow> policy_action option" where
  "action_from_operation op' =
     (case op' of
        FetchOp \<Rightarrow> Some Select
      | InsertOp \<Rightarrow> Some Insert
      | UpdateOp \<Rightarrow> Some Update
      | DeleteOp \<Rightarrow> Some Delete
      | _ \<Rightarrow> None)"

section \<open>Errors\<close>

text \<open>
  \<open>BindError slot\<close> is \<open>AthenaPolicyBindError\<close> (code \<open>ATHENA_POLICY_SUBJECT_MISSING\<close>),
  \<open>EvalError why\<close> is \<open>AthenaPolicyEvalError\<close>
  (code \<open>ATHENA_POLICY_UNSUPPORTED_EXPRESSION\<close>), one constructor of \<open>why\<close> per message.
\<close>

datatype eval_reason =
    UnboundSubject string
  | MissingColumn string
  | CannotCompare cmp_op
  | NeedsColumnLeft cmp_op
  | NullNeedsColumn
  | InNeedsColumn
  | CannotLowerOr
  | CannotLowerNot

datatype policy_error = BindError string | EvalError eval_reason

section \<open>The wire form\<close>

definition wire :: "fields \<Rightarrow> jval" where
  "wire fs = JObj 0 fs"

definition opt_field :: "string \<Rightarrow> string option \<Rightarrow> fields" where
  "opt_field k s = (case s of None \<Rightarrow> [] | Some t \<Rightarrow> [(k, JStr t)])"

fun encode_value :: "policy_value \<Rightarrow> jval" where
  "encode_value PNull = wire [(''type'', JStr ''null'')]"
| "encode_value (PBool b) = wire [(''type'', JStr ''bool''), (''value'', JBool b)]"
| "encode_value (PString s) = wire [(''type'', JStr ''string''), (''value'', JStr s)]"
| "encode_value (PInteger n) = wire [(''type'', JStr ''integer''), (''value'', JNum n)]"
| "encode_value (PUuid s) = wire [(''type'', JStr ''uuid''), (''value'', JStr s)]"
| "encode_value (PDateTime s) = wire [(''type'', JStr ''date_time''), (''value'', JStr s)]"
| "encode_value (PList vs) =
     wire [(''type'', JStr ''list''), (''value'', JArr (map encode_value vs))]"

definition encode_subject :: "subject_ref \<Rightarrow> jval" where
  "encode_subject s =
     wire ((''slot'', JStr (slot_field s)) #
           (case s of ClaimSlot p \<Rightarrow> [(''path'', JStr p)] | _ \<Rightarrow> []))"

definition encode_operand :: "policy_operand \<Rightarrow> jval" where
  "encode_operand o' =
     (case o' of
        Column c \<Rightarrow>
          wire [(''kind'', JStr ''column''),
                (''column'', wire ((''logical'', JStr (col_logical c)) #
                                   opt_field ''physical'' (col_physical c)))]
      | Subject s \<Rightarrow> wire [(''kind'', JStr ''subject''), (''subject'', encode_subject s)]
      | Literal v \<Rightarrow> wire [(''kind'', JStr ''literal''), (''value'', encode_value v)])"

definition op_name :: "cmp_op \<Rightarrow> string" where
  "op_name c =
     (case c of Eq \<Rightarrow> ''eq'' | Ne \<Rightarrow> ''ne'' | Lt \<Rightarrow> ''lt'' | Lte \<Rightarrow> ''lte'' | Gt \<Rightarrow> ''gt'' | Gte \<Rightarrow> ''gte'')"

fun encode_expr :: "policy_expr \<Rightarrow> jval" where
  "encode_expr (Cmp c l r) =
     wire [(''op'', JStr (op_name c)), (''left'', encode_operand l), (''right'', encode_operand r)]"
| "encode_expr (IsNull x) = wire [(''op'', JStr ''is_null''), (''operand'', encode_operand x)]"
| "encode_expr (IsNotNull x) =
     wire [(''op'', JStr ''is_not_null''), (''operand'', encode_operand x)]"
| "encode_expr (InList n hs) =
     wire [(''op'', JStr ''in''), (''needle'', encode_operand n),
           (''haystack'', JArr (map encode_operand hs))]"
| "encode_expr (And es) = wire [(''op'', JStr ''and''), (''exprs'', JArr (map encode_expr es))]"
| "encode_expr (Or es) = wire [(''op'', JStr ''or''), (''exprs'', JArr (map encode_expr es))]"
| "encode_expr (Not e) = wire [(''op'', JStr ''not''), (''expr'', encode_expr e)]"

definition encode_principal :: "policy_principal \<Rightarrow> jval" where
  "encode_principal p =
     (case p of
        PublicPrincipal \<Rightarrow> wire [(''kind'', JStr ''public'')]
      | AnonymousPrincipal \<Rightarrow> wire [(''kind'', JStr ''anonymous'')]
      | AuthenticatedPrincipal \<Rightarrow> wire [(''kind'', JStr ''authenticated'')]
      | RolePrincipal n \<Rightarrow> wire [(''kind'', JStr ''role''), (''name'', JStr n)]
      | PermissionPrincipal n \<Rightarrow> wire [(''kind'', JStr ''permission''), (''name'', JStr n)]
      | ServicePrincipal n \<Rightarrow> wire [(''kind'', JStr ''service''), (''name'', JStr n)]
      | AdminPrincipal \<Rightarrow> wire [(''kind'', JStr ''admin'')])"

definition encode_definition :: "policy_definition \<Rightarrow> jval" where
  "encode_definition d =
     wire ([(''id'', JStr (pd_id d)),
            (''resource'',
             wire (opt_field ''database'' (res_database (pd_resource d)) @
                   opt_field ''schema'' (res_schema (pd_resource d)) @
                   [(''table'', JStr (res_table (pd_resource d)))])),
            (''actions'', JNum (pd_actions d)),
            (''composition'',
             JStr (case pd_composition d of Permissive \<Rightarrow> ''permissive'' | Restrictive \<Rightarrow> ''restrictive'')),
            (''principals'', JArr (map encode_principal (pd_principals d)))] @
           opt_field ''name'' (pd_name d) @
           (case pd_visibility d of None \<Rightarrow> [] | Some e \<Rightarrow> [(''visibility'', encode_expr e)]) @
           (case pd_check d of None \<Rightarrow> [] | Some e \<Rightarrow> [(''check'', encode_expr e)]))"

text \<open>Operands and expressions in which no subject slot is left to bind.\<close>

definition operand_bound :: "policy_operand \<Rightarrow> bool" where
  "operand_bound o' = (case o' of Subject _ \<Rightarrow> False | _ \<Rightarrow> True)"

fun expr_operands :: "policy_expr \<Rightarrow> policy_operand list" where
  "expr_operands (Cmp c l r) = [l, r]"
| "expr_operands (IsNull x) = [x]"
| "expr_operands (IsNotNull x) = [x]"
| "expr_operands (InList n hs) = n # hs"
| "expr_operands (And es) = concat (map expr_operands es)"
| "expr_operands (Or es) = concat (map expr_operands es)"
| "expr_operands (Not e) = expr_operands e"

lemma operand_bound_simps [simp]:
  "operand_bound (Column c)" "operand_bound (Literal v)" "\<not> operand_bound (Subject s)"
  by (simp_all add: operand_bound_def)

end
