(* ===== verification/PolicyEval.thy ===== *)
theory PolicyEval
  imports PolicyIr
begin

text \<open>
  The expression interpreter of \<open>policy/eval-expr.ts\<close> and the subject binder of
  \<open>policy/bind.ts\<close>. An evaluation reads columns from a row image (a plain object) and
  throws on an unbound subject slot, a missing column or operands that have no order. The
  second half shows that binding removes every subject slot, and that evaluating a bound
  expression is evaluating the original one under the caller's subjects.
\<close>

section \<open>Reading operands\<close>

fun unwrap_value :: "policy_value \<Rightarrow> jval" where
  "unwrap_value PNull = Null"
| "unwrap_value (PBool b) = JBool b"
| "unwrap_value (PString s) = JStr s"
| "unwrap_value (PUuid s) = JStr s"
| "unwrap_value (PDateTime s) = JStr s"
| "unwrap_value (PInteger n) = JNum n"
| "unwrap_value (PList vs) = JArr (map unwrap_value vs)"

definition read_column :: "policy_column \<Rightarrow> fields \<Rightarrow> (policy_error, jval) result" where
  "read_column c row =
     (case present (col_physical c) of
        Some p \<Rightarrow>
          if has_prop p row then Ok (get_prop p row)
          else if has_prop (col_logical c) row then Ok (get_prop (col_logical c) row)
          else Throw (EvalError (MissingColumn p))
      | None \<Rightarrow>
          if has_prop (col_logical c) row then Ok (get_prop (col_logical c) row)
          else Throw (EvalError (MissingColumn (get_or (col_physical c) (col_logical c)))))"

definition read_operand :: "policy_operand \<Rightarrow> fields \<Rightarrow> (policy_error, jval) result" where
  "read_operand o' row =
     (case o' of
        Literal v \<Rightarrow> Ok (unwrap_value v)
      | Subject s \<Rightarrow> Throw (EvalError (UnboundSubject (slot_field s)))
      | Column c \<Rightarrow> read_column c row)"

section \<open>Comparing values\<close>

definition as_number :: "jval \<Rightarrow> jnum option" where
  "as_number v =
     (case v of
        JNum n \<Rightarrow> if is_finite n then Some n else None
      | BigInt n \<Rightarrow> Some (to_double (of_int n))
      | JStr s \<Rightarrow>
          if js_trim s \<noteq> [] \<and> string_to_number s \<noteq> NaN then Some (string_to_number s) else None
      | _ \<Rightarrow> None)"

definition is_bool :: "jval \<Rightarrow> bool" where
  "is_bool v = (case v of JBool _ \<Rightarrow> True | _ \<Rightarrow> False)"

definition values_equal :: "jval \<Rightarrow> jval \<Rightarrow> bool" where
  "values_equal l r =
     (if nullish l then nullish r
      else if nullish r then False
      else if is_bool l \<or> is_bool r then truthy l = truthy r
      else (case (as_number l, as_number r) of
              (Some a, Some b) \<Rightarrow> num_eq a b
            | _ \<Rightarrow> to_str l = to_str r))"

definition compare_ord :: "jval \<Rightarrow> jval \<Rightarrow> int option" where
  "compare_ord l r =
     (case (as_number l, as_number r) of
        (Some a, Some b) \<Rightarrow> Some (if num_eq a b then 0 else if num_less a b then - 1 else 1)
      | _ \<Rightarrow>
          (case (l, r) of
             (JStr a, JStr b) \<Rightarrow> Some (locale_compare a b)
           | _ \<Rightarrow> None))"

definition ord_holds :: "cmp_op \<Rightarrow> int \<Rightarrow> bool" where
  "ord_holds c ord =
     (case c of
        Lt \<Rightarrow> ord < 0
      | Lte \<Rightarrow> ord \<le> 0
      | Gt \<Rightarrow> 0 < ord
      | Gte \<Rightarrow> 0 \<le> ord
      | Eq \<Rightarrow> ord = 0
      | Ne \<Rightarrow> ord \<noteq> 0)"

definition cmp_values :: "cmp_op \<Rightarrow> jval \<Rightarrow> jval \<Rightarrow> (policy_error, bool) result" where
  "cmp_values c l r =
     (case c of
        Eq \<Rightarrow> Ok (values_equal l r)
      | Ne \<Rightarrow> Ok (\<not> values_equal l r)
      | _ \<Rightarrow>
          (case compare_ord l r of
             None \<Rightarrow> Throw (EvalError (CannotCompare c))
           | Some ord \<Rightarrow> Ok (ord_holds c ord)))"

section \<open>The interpreter\<close>

fun evaluate_policy_expr :: "policy_expr \<Rightarrow> fields \<Rightarrow> (policy_error, bool) result" where
  "evaluate_policy_expr (And es) row = every_r (\<lambda>e. evaluate_policy_expr e row) es"
| "evaluate_policy_expr (Or es) row = some_r (\<lambda>e. evaluate_policy_expr e row) es"
| "evaluate_policy_expr (Not e) row = rmap HOL.Not (evaluate_policy_expr e row)"
| "evaluate_policy_expr (IsNull x) row = rmap nullish (read_operand x row)"
| "evaluate_policy_expr (IsNotNull x) row = rmap (\<lambda>v. \<not> nullish v) (read_operand x row)"
| "evaluate_policy_expr (InList n hs) row =
     rbind (read_operand n row) (\<lambda>needle.
       if hs = [] then Ok False
       else some_r (\<lambda>h. rmap (values_equal needle) (read_operand h row)) hs)"
| "evaluate_policy_expr (Cmp c l r) row =
     rbind (read_operand l row) (\<lambda>a. rbind (read_operand r row) (cmp_values c a))"

section \<open>Binding subjects\<close>

definition string_slot :: "string \<Rightarrow> string option \<Rightarrow> (policy_error, policy_value) result" where
  "string_slot slot v =
     (case present v of None \<Rightarrow> Throw (BindError slot) | Some s \<Rightarrow> Ok (PString s))"

definition claim_value :: "string \<Rightarrow> jval \<Rightarrow> (policy_error, policy_value) result" where
  "claim_value path raw =
     (case raw of
        Undefined \<Rightarrow> Throw (BindError (''claim:'' @ path))
      | Null \<Rightarrow> Ok PNull
      | JBool b \<Rightarrow> Ok (PBool b)
      | JNum n \<Rightarrow> if is_integer n then Ok (PInteger n) else Ok (PString (to_str raw))
      | _ \<Rightarrow> Ok (PString (to_str raw)))"

definition subject_value :: "subject_ref \<Rightarrow> principal \<Rightarrow> (policy_error, policy_value) result" where
  "subject_value s p =
     (case s of
        UserIdSlot \<Rightarrow> string_slot ''userId'' (pr_user_id p)
      | OrganizationIdSlot \<Rightarrow> string_slot ''organizationId'' (pr_organization_id p)
      | SessionIdSlot \<Rightarrow> string_slot ''sessionId'' (pr_session_id p)
      | RolesSlot \<Rightarrow>
          Ok (PList (case present (pr_role p) of None \<Rightarrow> [] | Some r \<Rightarrow> [PString r]))
      | PermissionsSlot \<Rightarrow> Ok (PList (map PString (pr_rights p)))
      | ClaimSlot path \<Rightarrow>
          claim_value path
            (case pr_claims p of None \<Rightarrow> Undefined | Some cs \<Rightarrow> get_prop path cs))"

definition bind_policy_operand ::
  "policy_operand \<Rightarrow> principal \<Rightarrow> (policy_error, policy_operand) result" where
  "bind_policy_operand o' p =
     (case o' of Subject s \<Rightarrow> rmap Literal (subject_value s p) | _ \<Rightarrow> Ok o')"

fun bind_policy_expr :: "policy_expr \<Rightarrow> principal \<Rightarrow> (policy_error, policy_expr) result" where
  "bind_policy_expr (Cmp c l r) p =
     rbind (bind_policy_operand l p) (\<lambda>l'. rmap (Cmp c l') (bind_policy_operand r p))"
| "bind_policy_expr (IsNull x) p = rmap IsNull (bind_policy_operand x p)"
| "bind_policy_expr (IsNotNull x) p = rmap IsNotNull (bind_policy_operand x p)"
| "bind_policy_expr (InList n hs) p =
     rbind (map_r (\<lambda>h. bind_policy_operand h p) hs)
       (\<lambda>hs'. rmap (\<lambda>n'. InList n' hs') (bind_policy_operand n p))"
| "bind_policy_expr (And es) p = rmap And (map_r (\<lambda>e. bind_policy_expr e p) es)"
| "bind_policy_expr (Or es) p = rmap Or (map_r (\<lambda>e. bind_policy_expr e p) es)"
| "bind_policy_expr (Not e) p = rmap Not (bind_policy_expr e p)"

section \<open>Binding removes every subject\<close>

lemma bind_operand_bound: "bind_policy_operand o' p = Ok b \<Longrightarrow> operand_bound b"
  by (cases o') (auto simp: bind_policy_operand_def rmap_eq_Inr)

lemma bind_operand_id: "operand_bound o' \<Longrightarrow> bind_policy_operand o' p = Ok o'"
  by (cases o') (auto simp: bind_policy_operand_def)

lemma bind_expr_bound:
  "bind_policy_expr e p = Ok b \<Longrightarrow> \<forall>o' \<in> set (expr_operands b). operand_bound o'"
proof (induction e p arbitrary: b rule: bind_policy_expr.induct)
  case (5 es p)
  then show ?case by (fastforce simp: rmap_eq_Inr dest: map_r_Inr_set)
next
  case (6 es p)
  then show ?case by (fastforce simp: rmap_eq_Inr dest: map_r_Inr_set)
next
  case (4 n hs p)
  then show ?case
    by (fastforce simp: rmap_eq_Inr rbind_eq_Inr dest: bind_operand_bound map_r_Inr_set)
qed (auto simp: rmap_eq_Inr rbind_eq_Inr dest: bind_operand_bound)

section \<open>The meaning of a policy for a caller\<close>

text \<open>
  The specification that binding implements: read a subject slot from the caller at the
  moment the interpreter reaches it.
\<close>

definition read_under :: "principal \<Rightarrow> policy_operand \<Rightarrow> fields \<Rightarrow> (policy_error, jval) result" where
  "read_under p o' row =
     (case o' of
        Subject s \<Rightarrow> rmap unwrap_value (subject_value s p)
      | _ \<Rightarrow> read_operand o' row)"

fun evaluate_under :: "principal \<Rightarrow> policy_expr \<Rightarrow> fields \<Rightarrow> (policy_error, bool) result" where
  "evaluate_under p (And es) row = every_r (\<lambda>e. evaluate_under p e row) es"
| "evaluate_under p (Or es) row = some_r (\<lambda>e. evaluate_under p e row) es"
| "evaluate_under p (Not e) row = rmap HOL.Not (evaluate_under p e row)"
| "evaluate_under p (IsNull x) row = rmap nullish (read_under p x row)"
| "evaluate_under p (IsNotNull x) row = rmap (\<lambda>v. \<not> nullish v) (read_under p x row)"
| "evaluate_under p (InList n hs) row =
     rbind (read_under p n row) (\<lambda>needle.
       if hs = [] then Ok False
       else some_r (\<lambda>h. rmap (values_equal needle) (read_under p h row)) hs)"
| "evaluate_under p (Cmp c l r) row =
     rbind (read_under p l row) (\<lambda>a. rbind (read_under p r row) (cmp_values c a))"

lemma read_bound: "bind_policy_operand o' p = Ok b \<Longrightarrow> read_operand b row = read_under p o' row"
  by (cases o') (auto simp: bind_policy_operand_def read_under_def read_operand_def rmap_eq_Inr)

lemma every_r_bound:
  "list_all2 (\<lambda>x y. f x = g y) xs ys \<Longrightarrow> every_r f xs = every_r g ys"
proof (induction rule: list_all2_induct)
  case (Cons x xs y ys)
  then show ?case by (simp cong: if_cong)
qed simp

lemma some_r_bound:
  "list_all2 (\<lambda>x y. f x = g y) xs ys \<Longrightarrow> some_r f xs = some_r g ys"
proof (induction rule: list_all2_induct)
  case (Cons x xs y ys)
  then show ?case by (simp cong: if_cong)
qed simp

lemma map_r_related:
  "map_r f xs = Ok ys \<Longrightarrow> (\<And>x y. x \<in> set xs \<Longrightarrow> f x = Ok y \<Longrightarrow> R y x) \<Longrightarrow> list_all2 R ys xs"
  by (induction xs arbitrary: ys) (auto simp: rbind_eq_Inr)

lemma bind_expr_sound:
  "bind_policy_expr e p = Ok b \<Longrightarrow> evaluate_policy_expr b row = evaluate_under p e row"
proof (induction e p arbitrary: b rule: bind_policy_expr.induct)
  case (4 n hs p)
  then obtain hs' n' where hs': "map_r (\<lambda>h. bind_policy_operand h p) hs = Ok hs'"
    and n': "bind_policy_operand n p = Ok n'" and b: "b = InList n' hs'"
    by (auto simp: rbind_eq_Inr rmap_eq_Inr)
  have len: "hs' = [] \<longleftrightarrow> hs = []" using map_r_Inr_length [OF hs'] by auto
  have "some_r (\<lambda>h. rmap (values_equal v) (read_operand h row)) hs'
      = some_r (\<lambda>h. rmap (values_equal v) (read_under p h row)) hs" for v
    by (rule some_r_bound, rule map_r_related [OF hs']) (simp add: read_bound)
  then show ?case using len by (simp add: b read_bound [OF n'] cong: if_cong)
next
  case (5 es p)
  then obtain bs where bs: "map_r (\<lambda>e. bind_policy_expr e p) es = Ok bs" and b: "b = And bs"
    by (auto simp: rmap_eq_Inr)
  have "list_all2 (\<lambda>x y. evaluate_policy_expr x row = evaluate_under p y row) bs es"
    using "5.IH" by (intro map_r_related [OF bs]) simp
  then show ?case by (simp add: b every_r_bound)
next
  case (6 es p)
  then obtain bs where bs: "map_r (\<lambda>e. bind_policy_expr e p) es = Ok bs" and b: "b = Or bs"
    by (auto simp: rmap_eq_Inr)
  have "list_all2 (\<lambda>x y. evaluate_policy_expr x row = evaluate_under p y row) bs es"
    using "6.IH" by (intro map_r_related [OF bs]) simp
  then show ?case by (simp add: b some_r_bound)
qed (auto simp: rbind_eq_Inr rmap_eq_Inr read_bound)

text \<open>A bound expression never fails on a subject slot.\<close>

lemma read_bound_no_unbound:
  "operand_bound o' \<Longrightarrow> read_operand o' row \<noteq> Throw (EvalError (UnboundSubject s))"
  by (cases o') (auto simp: read_operand_def read_column_def split: option.splits if_splits)

lemma every_r_throw: "every_r f xs = Throw err \<Longrightarrow> \<exists>x \<in> set xs. f x = Throw err"
  by (induction xs) (auto simp: rbind_eq_Inl split: if_splits)

lemma some_r_throw: "some_r f xs = Throw err \<Longrightarrow> \<exists>x \<in> set xs. f x = Throw err"
  by (induction xs) (auto simp: rbind_eq_Inl split: if_splits)

lemma cmp_values_throw: "cmp_values c l r = Throw err \<Longrightarrow> err = EvalError (CannotCompare c)"
  by (auto simp: cmp_values_def split: cmp_op.splits option.splits)

lemma evaluate_no_unbound:
  "\<forall>o' \<in> set (expr_operands e). operand_bound o' \<Longrightarrow>
   evaluate_policy_expr e row \<noteq> Throw (EvalError (UnboundSubject s))"
proof (induction e row rule: evaluate_policy_expr.induct)
  case (1 es row)
  then show ?case by (auto dest!: every_r_throw)
next
  case (2 es row)
  then show ?case by (auto dest!: some_r_throw)
next
  case (6 n hs row)
  then show ?case
    by (auto simp: rbind_eq_Inl rmap_eq_Inl read_bound_no_unbound dest!: some_r_throw split: if_splits)
qed (auto simp: rbind_eq_Inl rmap_eq_Inl read_bound_no_unbound dest!: cmp_values_throw)

end
