(* ===== verification/PolicyApply.thy ===== *)
theory PolicyApply
  imports PolicyEval
begin

text \<open>
  Applying a decision to a request payload (\<open>policy/apply.ts\<close>). For reads, updates and deletes
  the visibility is bound to the caller and lowered onto a conjunction of gateway conditions
  appended to the payload; for inserts and updates the check is evaluated on the row images.
  A payload is an untyped JSON value.
\<close>

section \<open>Lowering an expression\<close>

record gateway_condition =
  gc_column :: string
  gc_operator :: string
  gc_value :: jval

definition condition_json :: "gateway_condition \<Rightarrow> jval" where
  "condition_json c =
     wire [(''column'', JStr (gc_column c)), (''operator'', JStr (gc_operator c)),
           (''value'', gc_value c)]"

definition column_name :: "policy_operand \<Rightarrow> string option" where
  "column_name o' =
     (case o' of Column c \<Rightarrow> Some (get_or (col_physical c) (col_logical c)) | _ \<Rightarrow> None)"

text \<open>An item of a literal list keeps its \<open>value\<close>; a nested list stays a list of typed values.\<close>

definition literal_item :: "policy_value \<Rightarrow> jval" where
  "literal_item v =
     (case v of
        PNull \<Rightarrow> Null
      | PBool b \<Rightarrow> JBool b
      | PString s \<Rightarrow> JStr s
      | PInteger n \<Rightarrow> JNum n
      | PUuid s \<Rightarrow> JStr s
      | PDateTime s \<Rightarrow> JStr s
      | PList vs \<Rightarrow> JArr (map encode_value vs))"

definition literal_value :: "policy_operand \<Rightarrow> jval" where
  "literal_value o' =
     (case o' of
        Literal v \<Rightarrow> (case v of PList vs \<Rightarrow> JArr (map literal_item vs) | _ \<Rightarrow> literal_item v)
      | _ \<Rightarrow> Undefined)"

definition lowered_operator :: "cmp_op \<Rightarrow> string" where
  "lowered_operator c = (if c = Ne then ''neq'' else op_name c)"

text \<open>\<open>if (!column) throw\<close>: an absent or empty column name.\<close>

definition require_column :: "eval_reason \<Rightarrow> policy_operand \<Rightarrow> (policy_error, string) result" where
  "require_column why o' =
     (case present (column_name o') of None \<Rightarrow> Throw (EvalError why) | Some c \<Rightarrow> Ok c)"

fun expr_to_conditions :: "policy_expr \<Rightarrow> (policy_error, gateway_condition list) result" where
  "expr_to_conditions (And es) = rmap concat (map_r expr_to_conditions es)"
| "expr_to_conditions (Cmp c l r) =
     rmap (\<lambda>col. [\<lparr>gc_column = col, gc_operator = lowered_operator c, gc_value = literal_value r\<rparr>])
       (require_column (NeedsColumnLeft c) l)"
| "expr_to_conditions (IsNull x) =
     rmap (\<lambda>col. [\<lparr>gc_column = col, gc_operator = ''is'', gc_value = Null\<rparr>])
       (require_column NullNeedsColumn x)"
| "expr_to_conditions (IsNotNull x) =
     rmap (\<lambda>col. [\<lparr>gc_column = col, gc_operator = ''is'', gc_value = JStr ''not_null''\<rparr>])
       (require_column NullNeedsColumn x)"
| "expr_to_conditions (InList n hs) =
     rmap (\<lambda>col. [\<lparr>gc_column = col, gc_operator = ''in'', gc_value = JArr (map literal_value hs)\<rparr>])
       (require_column InNeedsColumn n)"
| "expr_to_conditions (Or es) = Throw (EvalError CannotLowerOr)"
| "expr_to_conditions (Not e) = Throw (EvalError CannotLowerNot)"

section \<open>Rewriting the payload\<close>

definition lift_operators :: "string \<Rightarrow> fields \<Rightarrow> gateway_condition list" where
  "lift_operators column ops =
     map (\<lambda>(op', v). \<lparr>gc_column = column, gc_operator = op', gc_value = v\<rparr>)
       (filter (\<lambda>(op', v). v \<noteq> Undefined) ops)"

definition lift_entry :: "string \<times> jval \<Rightarrow> gateway_condition list" where
  "lift_entry entry =
     (case entry of (column, raw) \<Rightarrow>
        if column = ''or'' \<or> column = ''not'' \<or> raw = Undefined then []
        else if \<not> is_record raw then
          [\<lparr>gc_column = column, gc_operator = ''eq'', gc_value = raw\<rparr>]
        else lift_operators column (fields_of raw))"

definition lift_where_to_conditions :: "jval \<Rightarrow> gateway_condition list" where
  "lift_where_to_conditions w = (if is_record w then concat (map lift_entry (fields_of w)) else [])"

definition array_items :: "jval \<Rightarrow> jval list" where
  "array_items v = (case v of JArr vs \<Rightarrow> vs | _ \<Rightarrow> [])"

definition inject_visibility :: "jval \<Rightarrow> policy_expr \<Rightarrow> (policy_error, jval) result" where
  "inject_visibility payload visibility =
     (if \<not> is_record payload then Ok payload
      else rmap (\<lambda>extra.
        if extra = [] then payload
        else JObj 0 (dset ''conditions''
               (JArr (array_items (get_prop ''conditions'' (fields_of payload)) @
                      map condition_json
                        (lift_where_to_conditions (get_prop ''where'' (fields_of payload)) @ extra)))
               (fields_of payload)))
        (expr_to_conditions visibility))"

definition insert_rows :: "fields \<Rightarrow> fields list" where
  "insert_rows payload =
     (case get_prop ''insert_body'' payload of
        JArr vs \<Rightarrow> map fields_of (filter is_record vs)
      | JObj i fs \<Rightarrow> [fs]
      | _ \<Rightarrow> [])"

section \<open>The whole procedure\<close>

datatype apply_code = WriteConflict | SubjectMissing | UnsupportedExpr

text \<open>\<open>ApplyTypeError\<close>: reading a property of a payload that is \<open>null\<close> or \<open>undefined\<close>.\<close>

datatype apply_result = ApplyOk jval | ApplyDenied apply_code | ApplyTypeError

record apply_input =
  ap_action :: policy_action
  ap_decision :: policy_decision
  ap_mode :: policy_mode
  ap_payload :: jval
  ap_principal :: principal

definition denied :: "policy_error \<Rightarrow> apply_result" where
  "denied err =
     (case err of BindError _ \<Rightarrow> ApplyDenied SubjectMissing | EvalError _ \<Rightarrow> ApplyDenied UnsupportedExpr)"

definition handle :: "(policy_error, apply_result) result \<Rightarrow> apply_result" where
  "handle m = (case m of Inl err \<Rightarrow> denied err | Inr r \<Rightarrow> r)"

fun check_rows :: "policy_expr \<Rightarrow> jval \<Rightarrow> fields list \<Rightarrow> (policy_error, apply_result) result" where
  "check_rows bound payload [] = Ok (ApplyOk payload)"
| "check_rows bound payload (row # rows) =
     rbind (evaluate_policy_expr bound row)
       (\<lambda>ok. if ok then check_rows bound payload rows else Ok (ApplyDenied WriteConflict))"

definition apply_insert_check ::
  "policy_expr \<Rightarrow> principal \<Rightarrow> jval \<Rightarrow> (policy_error, apply_result) result" where
  "apply_insert_check check p payload =
     rbind (bind_policy_expr check p) (\<lambda>bound.
       if nullish payload then Ok ApplyTypeError
       else check_rows bound payload (insert_rows (fields_of payload)))"

definition apply_update_check ::
  "policy_expr \<Rightarrow> principal \<Rightarrow> jval \<Rightarrow> (policy_error, apply_result) result" where
  "apply_update_check check p payload =
     rbind (bind_policy_expr check p) (\<lambda>bound.
       if nullish payload then Ok ApplyTypeError
       else (case get_prop ''update_body'' (fields_of payload) of
               JObj i row \<Rightarrow>
                 rmap (\<lambda>ok. if ok then ApplyOk payload else ApplyDenied WriteConflict)
                   (evaluate_policy_expr bound row)
             | _ \<Rightarrow> Ok (ApplyDenied WriteConflict)))"

definition apply_visibility ::
  "policy_action \<Rightarrow> policy_expr option \<Rightarrow> principal \<Rightarrow> jval \<Rightarrow> (policy_error, jval) result" where
  "apply_visibility a visibility p payload =
     (case visibility of
        Some v \<Rightarrow>
          if a \<in> {Select, Update, Delete} then
            rbind (bind_policy_expr v p) (inject_visibility payload)
          else Ok payload
      | None \<Rightarrow> Ok payload)"

definition apply_athena_policy_decision :: "apply_input \<Rightarrow> apply_result" where
  "apply_athena_policy_decision inp =
     (if ap_mode inp \<noteq> Enforce \<or> \<not> dec_allowed (ap_decision inp) then ApplyOk (ap_payload inp)
      else handle
        (rbind (apply_visibility (ap_action inp) (dec_visibility (ap_decision inp)) (ap_principal inp)
                  (ap_payload inp)) (\<lambda>payload.
           case dec_check (ap_decision inp) of
             Some check \<Rightarrow>
               if ap_action inp = Insert then apply_insert_check check (ap_principal inp) payload
               else if ap_action inp = Update then apply_update_check check (ap_principal inp) payload
               else Ok (ApplyOk payload)
           | None \<Rightarrow> Ok (ApplyOk payload))))"

section \<open>Checks\<close>

lemma handle_Ok: "handle m = ApplyOk x \<longleftrightarrow> m = Ok (ApplyOk x)"
  by (auto simp: handle_def denied_def split: sum.splits policy_error.splits)

lemma check_rows_Ok:
  "check_rows bound payload rows = Ok (ApplyOk x) \<longleftrightarrow>
   x = payload \<and> (\<forall>row \<in> set rows. evaluate_policy_expr bound row = Ok True)"
  by (induction rows) (auto simp: rbind_eq_Inr)

lemma apply_insert_check_Ok:
  "apply_insert_check check p payload = Ok (ApplyOk x) \<longleftrightarrow>
     x = payload \<and> \<not> nullish payload \<and> succeeds (bind_policy_expr check p) \<and>
     (\<forall>row \<in> set (insert_rows (fields_of payload)). evaluate_under p check row = Ok True)"
  by (cases "bind_policy_expr check p")
    (auto simp: apply_insert_check_def check_rows_Ok bind_expr_sound)

lemma apply_update_check_Ok:
  "apply_update_check check p payload = Ok (ApplyOk x) \<longleftrightarrow>
     x = payload \<and> \<not> nullish payload \<and> succeeds (bind_policy_expr check p) \<and>
     (\<exists>i row. get_prop ''update_body'' (fields_of payload) = JObj i row \<and>
              evaluate_under p check row = Ok True)"
  by (cases "bind_policy_expr check p"; cases "get_prop ''update_body'' (fields_of payload)")
    (auto simp: apply_update_check_def bind_expr_sound rmap_eq_Inr split: if_splits)

section \<open>The injected conditions\<close>

lemma inject_Ok:
  "inject_visibility payload v = Ok x \<Longrightarrow> is_record payload \<Longrightarrow>
   \<exists>extra. expr_to_conditions v = Ok extra \<and>
     (\<forall>k. k \<noteq> ''conditions'' \<longrightarrow> get_prop k (fields_of x) = get_prop k (fields_of payload)) \<and>
     (extra \<noteq> [] \<longrightarrow>
        get_prop ''conditions'' (fields_of x) =
          JArr (array_items (get_prop ''conditions'' (fields_of payload)) @
                map condition_json
                  (lift_where_to_conditions (get_prop ''where'' (fields_of payload)) @ extra)))"
  by (auto simp: inject_visibility_def rmap_eq_Inr split: if_splits)

lemma inject_record: "inject_visibility payload v = Ok x \<Longrightarrow> is_record x = is_record payload"
  by (auto simp: inject_visibility_def rmap_eq_Inr split: if_splits)

lemma inject_other_key:
  "inject_visibility payload v = Ok x \<Longrightarrow> k \<noteq> ''conditions'' \<Longrightarrow>
   get_prop k (fields_of x) = get_prop k (fields_of payload)"
  by (auto simp: inject_visibility_def rmap_eq_Inr split: if_splits)

section \<open>The lowered conditions mean the expression\<close>

text \<open>
  A reference meaning of one gateway condition on a row: read the column by its physical
  name and compare it the way the interpreter compares values.
\<close>

definition condition_op :: "string \<Rightarrow> cmp_op option" where
  "condition_op s =
     map_of [(''eq'', Eq), (''neq'', Ne), (''lt'', Lt), (''lte'', Lte), (''gt'', Gt), (''gte'', Gte)] s"

definition condition_holds :: "fields \<Rightarrow> gateway_condition \<Rightarrow> (policy_error, bool) result" where
  "condition_holds row c =
     rbind (read_column \<lparr>col_logical = gc_column c, col_physical = None\<rparr> row) (\<lambda>v.
       if gc_operator c = ''in'' then Ok (list_ex (values_equal v) (array_items (gc_value c)))
       else if gc_operator c = ''is'' then
         (if gc_value c = Null then Ok (nullish v) else Ok (\<not> nullish v))
       else (case condition_op (gc_operator c) of
               Some op' \<Rightarrow> cmp_values op' v (gc_value c)
             | None \<Rightarrow> Throw (EvalError InNeedsColumn)))"

text \<open>
  The expressions the lowering is meant for: the right-hand operands are scalar literals or
  flat lists, and the row image carries every column under its physical name.
\<close>

definition is_plist :: "policy_value \<Rightarrow> bool" where
  "is_plist v = (case v of PList _ \<Rightarrow> True | _ \<Rightarrow> False)"

definition flat_value :: "policy_value \<Rightarrow> bool" where
  "flat_value v = (case v of PList vs \<Rightarrow> list_all (\<lambda>w. \<not> is_plist w) vs | _ \<Rightarrow> True)"

definition literal_operand :: "policy_operand \<Rightarrow> bool" where
  "literal_operand o' = (case o' of Literal v \<Rightarrow> flat_value v | _ \<Rightarrow> False)"

definition column_in_row :: "fields \<Rightarrow> policy_operand \<Rightarrow> bool" where
  "column_in_row row o' =
     (case o' of
        Column c \<Rightarrow> (case col_physical c of None \<Rightarrow> True | Some n \<Rightarrow> n \<noteq> [] \<and> has_prop n row)
      | _ \<Rightarrow> True)"

fun lowerable :: "fields \<Rightarrow> policy_expr \<Rightarrow> bool" where
  "lowerable row (Cmp c l r) = (column_in_row row l \<and> literal_operand r)"
| "lowerable row (IsNull x) = column_in_row row x"
| "lowerable row (IsNotNull x) = column_in_row row x"
| "lowerable row (InList n hs) = (column_in_row row n \<and> list_all literal_operand hs)"
| "lowerable row (And es) = list_all (lowerable row) es"
| "lowerable row (Or es) = False"
| "lowerable row (Not e) = False"

lemma literal_item_unwrap: "\<not> is_plist v \<Longrightarrow> literal_item v = unwrap_value v"
  by (cases v) (auto simp: literal_item_def is_plist_def)

lemma literal_items_unwrap:
  "list_all (\<lambda>w. \<not> is_plist w) vs \<Longrightarrow> map literal_item vs = map unwrap_value vs"
  by (simp add: list_all_iff literal_item_unwrap)

lemma literal_value_unwrap:
  "literal_operand o' \<Longrightarrow> \<exists>v. o' = Literal v \<and> literal_value o' = unwrap_value v"
proof (cases o')
  case (Literal v)
  assume "literal_operand o'"
  with Literal show ?thesis
    by (cases v) (simp_all add: literal_operand_def flat_value_def literal_value_def
        literal_items_unwrap literal_item_unwrap is_plist_def)
qed (simp_all add: literal_operand_def)

lemma require_column_Ok:
  "require_column why o' = Ok col \<longleftrightarrow> (\<exists>c. o' = Column c \<and> col = get_or (col_physical c) (col_logical c) \<and> col \<noteq> [])"
  by (cases o') (auto simp: require_column_def column_name_def present_def)

lemma read_lowered_column:
  "require_column why o' = Ok col \<Longrightarrow> column_in_row row o' \<Longrightarrow>
   read_column \<lparr>col_logical = col, col_physical = None\<rparr> row = read_operand o' row"
  by (auto simp: require_column_Ok column_in_row_def read_operand_def read_column_def present_def
      get_or_def split: option.splits if_splits)

lemma read_literals:
  "list_all literal_operand hs \<Longrightarrow>
   some_r (\<lambda>h. rmap (values_equal v) (read_operand h row)) hs =
   Ok (list_ex (values_equal v) (map literal_value hs))"
proof (induction hs)
  case (Cons h hs)
  then obtain w where "h = Literal w" "literal_value h = unwrap_value w"
    using literal_value_unwrap [of h] by auto
  then show ?case using Cons by (auto simp: read_operand_def)
qed simp

lemma condition_op_lowered: "condition_op (lowered_operator c) = Some c"
  by (cases c) (simp_all add: condition_op_def lowered_operator_def op_name_def)

lemma lowered_operator_not: "lowered_operator c \<noteq> ''in''" "lowered_operator c \<noteq> ''is''"
  by (cases c; simp add: lowered_operator_def op_name_def)+

lemma every_r_concat:
  "list_all2 (\<lambda>x ys. every_r f ys = g x) xs yss \<Longrightarrow> every_r f (concat yss) = every_r g xs"
proof (induction rule: list_all2_induct)
  case (Cons x xs ys yss)
  have app: "every_r f (as @ bs) = rbind (every_r f as) (\<lambda>b. if b then every_r f bs else Ok False)"
    for as bs
  proof (induction as)
    case (Cons a as)
    then show ?case by (cases "f a") auto
  qed simp
  from Cons show ?case by (simp add: app cong: if_cong)
qed simp

lemma lowering_sound:
  "expr_to_conditions e = Ok cs \<Longrightarrow> lowerable row e \<Longrightarrow>
   every_r (condition_holds row) cs = evaluate_policy_expr e row"
proof (induction e arbitrary: cs)
  case (Cmp c l r)
  then obtain col where col: "require_column (NeedsColumnLeft c) l = Ok col"
    and cs: "cs = [\<lparr>gc_column = col, gc_operator = lowered_operator c, gc_value = literal_value r\<rparr>]"
    by (auto simp: rmap_eq_Inr)
  obtain v where v: "r = Literal v" "literal_value r = unwrap_value v"
    using Cmp.prems(2) literal_value_unwrap [of r] by auto
  then show ?case
    using read_lowered_column [OF col, of row] Cmp.prems(2)
    by (cases "read_operand l row")
      (auto simp: cs condition_holds_def lowered_operator_not condition_op_lowered read_operand_def
        rbind_def split: sum.splits bool.splits)
next
  case (IsNull x)
  then obtain col where col: "require_column NullNeedsColumn x = Ok col"
    and cs: "cs = [\<lparr>gc_column = col, gc_operator = ''is'', gc_value = Null\<rparr>]"
    by (auto simp: rmap_eq_Inr)
  then show ?case
    using read_lowered_column [OF col, of row] IsNull.prems(2)
    by (cases "read_operand x row") (auto simp: cs condition_holds_def)
next
  case (IsNotNull x)
  then obtain col where col: "require_column NullNeedsColumn x = Ok col"
    and cs: "cs = [\<lparr>gc_column = col, gc_operator = ''is'', gc_value = JStr ''not_null''\<rparr>]"
    by (auto simp: rmap_eq_Inr)
  then show ?case
    using read_lowered_column [OF col, of row] IsNotNull.prems(2)
    by (cases "read_operand x row") (auto simp: cs condition_holds_def)
next
  case (InList n hs)
  then obtain col where col: "require_column InNeedsColumn n = Ok col"
    and cs: "cs = [\<lparr>gc_column = col, gc_operator = ''in'', gc_value = JArr (map literal_value hs)\<rparr>]"
    by (auto simp: rmap_eq_Inr)
  then show ?case
    using read_lowered_column [OF col, of row] InList.prems(2)
    by (cases "read_operand n row")
      (auto simp: cs condition_holds_def array_items_def read_literals simp del: some_r.simps)
next
  case (And es)
  then obtain css where css: "map_r expr_to_conditions es = Ok css" and cs: "cs = concat css"
    by (auto simp: rmap_eq_Inr)
  have "list_all2 (\<lambda>x ys. every_r (condition_holds row) ys = evaluate_policy_expr x row) es css"
    using map_r_related [OF css, of "\<lambda>ys x. every_r (condition_holds row) ys = evaluate_policy_expr x row"]
      And.IH And.prems(2) by (auto simp: list_all_iff list_all2_conv_all_nth)
  then show ?case by (simp add: cs every_r_concat)
qed simp_all

text \<open>Expressions with a disjunction or a negation are refused, never weakened.\<close>

fun conjunctive :: "policy_expr \<Rightarrow> bool" where
  "conjunctive (And es) = list_all conjunctive es"
| "conjunctive (Or es) = False"
| "conjunctive (Not e) = False"
| "conjunctive _ = True"

lemma lowered_conjunctive: "expr_to_conditions e = Ok cs \<Longrightarrow> conjunctive e"
proof (induction e arbitrary: cs)
  case (And es)
  then obtain css where css: "map_r expr_to_conditions es = Ok css" by (auto simp: rmap_eq_Inr)
  have "\<exists>ys. expr_to_conditions x = Ok ys" if "x \<in> set es" for x
    using css that by (auto simp: map_r_Inr_iff list_all2_conv_all_nth in_set_conv_nth)
  then show ?case using And.IH by (auto simp: list_all_iff)
qed simp_all

end
