(* ===== verification/PolicyValidate.thy ===== *)
theory PolicyValidate
  imports PolicyIr
begin

text \<open>
  The gatekeeper of \<open>policy/validate-ir.ts\<close>. It inspects an untyped JSON document, so the
  model works on raw values: what is not an object of the right shape is an error. The lemmas
  relate it to a description of the documents it should accept, for every JSON value, and to the
  typed policies of \<open>PolicyIr\<close> through their wire form.
\<close>

section \<open>Checks\<close>

datatype config_error =
    MalformedOperand
  | UnsupportedOperandKind
  | MissingLogicalName
  | MissingSlot
  | MalformedExpr
  | UnsupportedOperator
  | MalformedHaystack
  | MalformedExprs
  | MalformedPrincipal
  | UnknownPrincipalKind
  | MissingPrincipalName
  | MissingPolicyId
  | MissingResourceTable
  | InvalidActions
  | UnknownComposition
  | PrincipalsNotArray

type_synonym check = "(config_error, unit) result"

definition guard :: "bool \<Rightarrow> config_error \<Rightarrow> check" where
  "guard ok err = (if ok then Ok () else Throw err)"

lemma guard_Ok [simp]: "guard b err = Ok () \<longleftrightarrow> b"
  by (simp add: guard_def)

definition is_str :: "jval \<Rightarrow> bool" where
  "is_str v = (case v of JStr _ \<Rightarrow> True | _ \<Rightarrow> False)"

definition expr_ops :: "string list" where
  "expr_ops =
     [''eq'', ''ne'', ''lt'', ''lte'', ''gt'', ''gte'', ''is_null'', ''is_not_null'', ''in'',
      ''and'', ''or'', ''not'']"

definition operand_kinds :: "string list" where
  "operand_kinds = [''column'', ''subject'', ''literal'']"

definition principal_kinds :: "string list" where
  "principal_kinds =
     [''public'', ''anonymous'', ''authenticated'', ''admin'', ''role'', ''permission'', ''service'']"

definition is_known_policy_principal_kind :: "string \<Rightarrow> bool" where
  "is_known_policy_principal_kind k \<longleftrightarrow> k \<in> set principal_kinds"

definition validate_operand :: "jval \<Rightarrow> check" where
  "validate_operand o' =
     (case opt_prop ''kind'' o' of
        JStr kind \<Rightarrow>
          rbind (guard (kind \<in> set operand_kinds) UnsupportedOperandKind) (\<lambda>_.
          rbind (guard (kind = ''column'' \<longrightarrow> truthy (opt_prop ''logical'' (opt_prop ''column'' o')))
                   MissingLogicalName) (\<lambda>_.
            guard (kind = ''subject'' \<longrightarrow> truthy (opt_prop ''slot'' (opt_prop ''subject'' o')))
              MissingSlot))
      | _ \<Rightarrow> Throw MalformedOperand)"

text \<open>
  The checker recurses into the children of \<open>and\<close>, \<open>or\<close> and \<open>not\<close>. A child is a
  property of the raw value, so the recursion is bounded by a depth: \<open>jdepth v\<close> is enough.
\<close>

fun validate_expr_fuel :: "nat \<Rightarrow> jval \<Rightarrow> check" where
  "validate_expr_fuel fuel e =
     (case opt_prop ''op'' e of
        JStr op' \<Rightarrow>
          if op' \<notin> set expr_ops then Throw UnsupportedOperator
          else if op' \<in> {''eq'', ''ne'', ''lt'', ''lte'', ''gt'', ''gte''} then
            rbind (validate_operand (opt_prop ''left'' e)) (\<lambda>_. validate_operand (opt_prop ''right'' e))
          else if op' = ''is_null'' \<or> op' = ''is_not_null'' then
            validate_operand (opt_prop ''operand'' e)
          else if op' = ''in'' then
            rbind (validate_operand (opt_prop ''needle'' e)) (\<lambda>_.
              case opt_prop ''haystack'' e of
                JArr hs \<Rightarrow> each_r validate_operand hs
              | _ \<Rightarrow> Throw MalformedHaystack)
          else (case fuel of
                  0 \<Rightarrow> Throw MalformedExpr
                | Suc n \<Rightarrow>
                    if op' = ''not'' then validate_expr_fuel n (opt_prop ''expr'' e)
                    else (case opt_prop ''exprs'' e of
                            JArr es \<Rightarrow>
                              if es = [] then Throw MalformedExprs
                              else each_r (validate_expr_fuel n) es
                          | _ \<Rightarrow> Throw MalformedExprs))
      | _ \<Rightarrow> Throw MalformedExpr)"

declare validate_expr_fuel.simps [simp del]

definition validate_policy_expr :: "jval \<Rightarrow> check" where
  "validate_policy_expr e = validate_expr_fuel (Suc (jdepth e)) e"

definition trimmed_nonempty :: "jval \<Rightarrow> bool" where
  "trimmed_nonempty v = (case v of JStr s \<Rightarrow> js_trim s \<noteq> [] | _ \<Rightarrow> False)"

definition validate_principal :: "jval \<Rightarrow> check" where
  "validate_principal p =
     (case opt_prop ''kind'' p of
        JStr kind \<Rightarrow>
          rbind (guard (is_known_policy_principal_kind kind) UnknownPrincipalKind) (\<lambda>_.
            guard (kind \<in> {''role'', ''permission'', ''service''} \<longrightarrow>
                   trimmed_nonempty (opt_prop ''name'' p)) MissingPrincipalName)
      | _ \<Rightarrow> Throw MalformedPrincipal)"

text \<open>The mask test \<open>actions <= 0 || (actions & ~15) !== 0\<close> in 32-bit arithmetic.\<close>

definition valid_actions :: "jval \<Rightarrow> bool" where
  "valid_actions v =
     (case v of
        JNum n \<Rightarrow> \<not> num_le n (jint 0) \<and> to_int32 n AND NOT (1 OR 2 OR 4 OR 8) = 0
      | _ \<Rightarrow> False)"

definition validate_policy_definition :: "jval \<Rightarrow> check" where
  "validate_policy_definition d =
     rbind (guard (trimmed_nonempty (opt_prop ''id'' d)) MissingPolicyId) (\<lambda>_.
     rbind (guard (trimmed_nonempty (opt_prop ''table'' (opt_prop ''resource'' d))) MissingResourceTable) (\<lambda>_.
     rbind (guard (valid_actions (opt_prop ''actions'' d)) InvalidActions) (\<lambda>_.
     rbind (guard (opt_prop ''composition'' d = JStr ''permissive'' \<or>
                   opt_prop ''composition'' d = JStr ''restrictive'') UnknownComposition) (\<lambda>_.
     rbind (case opt_prop ''principals'' d of
              JArr ps \<Rightarrow> each_r validate_principal ps
            | _ \<Rightarrow> Throw PrincipalsNotArray) (\<lambda>_.
     rbind (if truthy (opt_prop ''visibility'' d)
            then validate_policy_expr (opt_prop ''visibility'' d) else Ok ()) (\<lambda>_.
       if truthy (opt_prop ''check'' d) then validate_policy_expr (opt_prop ''check'' d) else Ok ()))))))"

section \<open>Action masks and resource keys\<close>

definition mask_has :: "jnum \<Rightarrow> policy_action \<Rightarrow> bool" where
  "mask_has m a \<longleftrightarrow> to_int32 m AND word_of_int (action_bit a) \<noteq> 0"

definition actions_from_mask :: "jnum \<Rightarrow> policy_action list" where
  "actions_from_mask m = filter (mask_has m) [Select, Insert, Update, Delete]"

definition resource_keys :: "policy_resource \<Rightarrow> string list" where
  "resource_keys r =
     (let table = js_trim (res_table r);
          schema = present (map_option js_trim (res_schema r));
          database = present (map_option js_trim (res_database r))
      in nub ([table] @
              (case schema of None \<Rightarrow> [] | Some s \<Rightarrow> [s @ ''.'' @ table]) @
              (case (database, schema) of
                 (Some d, Some s) \<Rightarrow> [d @ ''.'' @ s @ ''.'' @ table]
               | _ \<Rightarrow> [])))"

lemma set_actions_from_mask: "a \<in> set (actions_from_mask m) \<longleftrightarrow> mask_has m a"
  by (cases a) (auto simp: actions_from_mask_def)

lemma resource_keys_table: "js_trim (res_table r) \<in> set (resource_keys r)"
  by (simp add: resource_keys_def Let_def)

lemma resource_keys_nonempty: "resource_keys r \<noteq> []"
  using resource_keys_table [of r] by auto

section \<open>Well-formed policies\<close>

definition operand_wf :: "policy_operand \<Rightarrow> bool" where
  "operand_wf o' = (case o' of Column c \<Rightarrow> col_logical c \<noteq> [] | _ \<Rightarrow> True)"

fun expr_wf :: "policy_expr \<Rightarrow> bool" where
  "expr_wf (Cmp c l r) = (operand_wf l \<and> operand_wf r)"
| "expr_wf (IsNull x) = operand_wf x"
| "expr_wf (IsNotNull x) = operand_wf x"
| "expr_wf (InList n hs) = (operand_wf n \<and> list_all operand_wf hs)"
| "expr_wf (And es) = (es \<noteq> [] \<and> list_all expr_wf es)"
| "expr_wf (Or es) = (es \<noteq> [] \<and> list_all expr_wf es)"
| "expr_wf (Not e) = expr_wf e"

definition principal_wf :: "policy_principal \<Rightarrow> bool" where
  "principal_wf p =
     (case p of
        RolePrincipal n \<Rightarrow> js_trim n \<noteq> []
      | PermissionPrincipal n \<Rightarrow> js_trim n \<noteq> []
      | ServicePrincipal n \<Rightarrow> js_trim n \<noteq> []
      | _ \<Rightarrow> True)"

text \<open>
  A mask that passes: positive, with an integer part that is below 16 modulo \<open>2 ^ 32\<close>. Bitwise
  operators read NaN and the infinities as zero, and NaN is not at most zero.
\<close>

definition names_actions :: "jnum \<Rightarrow> bool" where
  "names_actions n =
     (case n of
        Fin r \<Rightarrow> 0 < r \<and> \<lfloor>r\<rfloor> mod 2 ^ 32 < 16
      | PosInf \<Rightarrow> True
      | NegInf \<Rightarrow> False
      | NaN \<Rightarrow> True)"

definition definition_wf :: "policy_definition \<Rightarrow> bool" where
  "definition_wf d \<longleftrightarrow>
     js_trim (pd_id d) \<noteq> [] \<and> js_trim (res_table (pd_resource d)) \<noteq> [] \<and>
     names_actions (pd_actions d) \<and> list_all principal_wf (pd_principals d) \<and>
     (case pd_visibility d of None \<Rightarrow> True | Some e \<Rightarrow> expr_wf e) \<and>
     (case pd_check d of None \<Rightarrow> True | Some e \<Rightarrow> expr_wf e)"

section \<open>Well-formed documents\<close>

text \<open>
  What a JSON value has to be for the validator, said without its order of checks, its tables and
  its recursion: the grammar of operands and expressions, and the fields of a policy.
\<close>

definition not_blank :: "jval \<Rightarrow> bool" where
  "not_blank v \<longleftrightarrow> (\<exists>s. v = JStr s \<and> (\<exists>c \<in> set s. \<not> is_ws c))"

inductive sound_operand :: "jval \<Rightarrow> bool" where
  SoundColumn: "opt_prop ''kind'' v = JStr ''column'' \<Longrightarrow>
    truthy (opt_prop ''logical'' (opt_prop ''column'' v)) \<Longrightarrow> sound_operand v"
| SoundSubject: "opt_prop ''kind'' v = JStr ''subject'' \<Longrightarrow>
    truthy (opt_prop ''slot'' (opt_prop ''subject'' v)) \<Longrightarrow> sound_operand v"
| SoundLiteral: "opt_prop ''kind'' v = JStr ''literal'' \<Longrightarrow> sound_operand v"

inductive sound_expr :: "jval \<Rightarrow> bool" where
  SoundComparison: "opt_prop ''op'' v = JStr p \<Longrightarrow> p \<in> {''eq'', ''ne'', ''lt'', ''lte'', ''gt'', ''gte''} \<Longrightarrow>
    sound_operand (opt_prop ''left'' v) \<Longrightarrow> sound_operand (opt_prop ''right'' v) \<Longrightarrow> sound_expr v"
| SoundNullTest: "opt_prop ''op'' v = JStr p \<Longrightarrow> p \<in> {''is_null'', ''is_not_null''} \<Longrightarrow>
    sound_operand (opt_prop ''operand'' v) \<Longrightarrow> sound_expr v"
| SoundMembership: "opt_prop ''op'' v = JStr ''in'' \<Longrightarrow> sound_operand (opt_prop ''needle'' v) \<Longrightarrow>
    opt_prop ''haystack'' v = JArr hs \<Longrightarrow> \<forall>h \<in> set hs. sound_operand h \<Longrightarrow> sound_expr v"
| SoundConnective: "opt_prop ''op'' v = JStr p \<Longrightarrow> p \<in> {''and'', ''or''} \<Longrightarrow>
    opt_prop ''exprs'' v = JArr es \<Longrightarrow> es \<noteq> [] \<Longrightarrow> \<forall>e \<in> set es. sound_expr e \<Longrightarrow> sound_expr v"
| SoundNegation: "opt_prop ''op'' v = JStr ''not'' \<Longrightarrow> sound_expr (opt_prop ''expr'' v) \<Longrightarrow> sound_expr v"

definition sound_principal :: "jval \<Rightarrow> bool" where
  "sound_principal v \<longleftrightarrow>
     (\<exists>k. opt_prop ''kind'' v = JStr k \<and>
        (k \<in> {''public'', ''anonymous'', ''authenticated'', ''admin''} \<or>
         k \<in> {''role'', ''permission'', ''service''} \<and> not_blank (opt_prop ''name'' v)))"

definition sound_policy :: "jval \<Rightarrow> bool" where
  "sound_policy v \<longleftrightarrow>
     not_blank (opt_prop ''id'' v) \<and> not_blank (opt_prop ''table'' (opt_prop ''resource'' v)) \<and>
     (\<exists>n. opt_prop ''actions'' v = JNum n \<and> names_actions n) \<and>
     opt_prop ''composition'' v \<in> {JStr ''permissive'', JStr ''restrictive''} \<and>
     (\<exists>ps. opt_prop ''principals'' v = JArr ps \<and> (\<forall>p \<in> set ps. sound_principal p)) \<and>
     (truthy (opt_prop ''visibility'' v) \<longrightarrow> sound_expr (opt_prop ''visibility'' v)) \<and>
     (truthy (opt_prop ''check'' v) \<longrightarrow> sound_expr (opt_prop ''check'' v))"

lemma dropWhile_keeps: "x \<in> set xs \<Longrightarrow> \<not> P x \<Longrightarrow> x \<in> set (dropWhile P xs)"
  by (induction xs) auto

lemma trimmed_nonempty_iff: "trimmed_nonempty v \<longleftrightarrow> not_blank v"
proof -
  have "js_trim s \<noteq> [] \<longleftrightarrow> (\<exists>c \<in> set s. \<not> is_ws c)" for s
    by (auto simp: js_trim_def dropWhile_eq_Nil_conv intro: dropWhile_keeps dest: set_dropWhileD)
  then show ?thesis by (simp add: trimmed_nonempty_def not_blank_def split: jval.split)
qed

text \<open>The mask test in 32-bit arithmetic.\<close>

lemma low_four_bits: "w AND - 16 = 0 \<longleftrightarrow> uint (w :: 32 word) < 16"
proof -
  have "- 16 = NOT (mask 4 :: 32 word)" by (simp add: mask_eq_exp_minus_1)
  then have "w AND - 16 = 0 \<longleftrightarrow> take_bit 4 w = w"
    by (simp only:) (simp add: bit_eq_iff bit_simps, blast)
  also have "\<dots> \<longleftrightarrow> uint w < 16"
    by (simp add: word_uint_eq_iff unsigned_take_bit_eq take_bit_int_eq_self_iff)
  finally show ?thesis .
qed

lemma valid_actions_iff: "valid_actions (JNum n) \<longleftrightarrow> names_actions n"
proof (cases n)
  case (Fin r)
  have "(0 :: int) < 2 ^ 32" by simp
  with Fin show ?thesis
    by (auto simp: valid_actions_def names_actions_def num_le_def num_eq_def jint_def low_four_bits to_int32_def
        rat_trunc_def uint_word_of_int)
qed (simp_all add: valid_actions_def names_actions_def num_le_def num_eq_def jint_def to_int32_def)

text \<open>A mask below \<open>2 ^ 32\<close> that passes is made of the bits of the actions it is read as.\<close>

lemma names_actions_bits:
  assumes "names_actions (jint k)" "k < 2 ^ 32"
  shows "actions_from_mask (jint k) \<noteq> []" "k = sum_list (map action_bit (actions_from_mask (jint k)))"
proof -
  have "0 < k" "k mod 2 ^ 32 < 16" using assms(1) by (simp_all add: names_actions_def jint_def)
  moreover have "k mod 2 ^ 32 = k" using \<open>0 < k\<close> assms(2) by simp
  ultimately have "k \<in> set [1..15]" by simp
  moreover have "list_all (\<lambda>k. actions_from_mask (jint k) \<noteq> [] \<and>
      k = sum_list (map action_bit (actions_from_mask (jint k)))) [1..15]" by code_simp
  ultimately show "actions_from_mask (jint k) \<noteq> []" "k = sum_list (map action_bit (actions_from_mask (jint k)))"
    unfolding list_all_iff by blast+
qed

text \<open>
  Larger masks pass although they name no action: such a policy is accepted and never applies.
\<close>

lemma empty_mask_passes: "valid_actions (JNum (jint (2 ^ 32)))" "actions_from_mask (jint (2 ^ 32)) = []"
proof -
  show "valid_actions (JNum (jint (2 ^ 32)))" by (simp add: valid_actions_iff names_actions_def jint_def)
  show "actions_from_mask (jint (2 ^ 32)) = []" by code_simp
qed

lemma validate_operand_iff: "validate_operand v = Ok () \<longleftrightarrow> sound_operand v"
  by (auto simp: validate_operand_def operand_kinds_def rbind_eq_Inr sound_operand.simps split: jval.splits)

lemma validate_principal_iff: "validate_principal v = Ok () \<longleftrightarrow> sound_principal v"
  by (auto simp: validate_principal_def sound_principal_def is_known_policy_principal_kind_def principal_kinds_def
      trimmed_nonempty_iff rbind_eq_Inr split: jval.splits)

lemma opt_prop_depth: "opt_prop k v \<noteq> Undefined \<Longrightarrow> k \<noteq> ''__proto__'' \<Longrightarrow> jdepth (opt_prop k v) < jdepth v"
  by (cases v) (simp_all add: opt_prop_def jdepth_get_prop del: jdepth.simps)

text \<open>What the checker asks of an expression, by its operator.\<close>

lemma validate_expr_cases:
  assumes "validate_expr_fuel n e = Ok ()"
  obtains (Comparison) p where "opt_prop ''op'' e = JStr p" "p \<in> {''eq'', ''ne'', ''lt'', ''lte'', ''gt'', ''gte''}"
      "sound_operand (opt_prop ''left'' e)" "sound_operand (opt_prop ''right'' e)"
  | (NullTest) p where "opt_prop ''op'' e = JStr p" "p \<in> {''is_null'', ''is_not_null''}"
      "sound_operand (opt_prop ''operand'' e)"
  | (Membership) hs where "opt_prop ''op'' e = JStr ''in''" "sound_operand (opt_prop ''needle'' e)"
      "opt_prop ''haystack'' e = JArr hs" "\<forall>h \<in> set hs. sound_operand h"
  | (Connective) p es m where "opt_prop ''op'' e = JStr p" "p \<in> {''and'', ''or''}" "n = Suc m"
      "opt_prop ''exprs'' e = JArr es" "es \<noteq> []" "\<forall>e \<in> set es. validate_expr_fuel m e = Ok ()"
  | (Negation) m where "opt_prop ''op'' e = JStr ''not''" "n = Suc m"
      "validate_expr_fuel m (opt_prop ''expr'' e) = Ok ()"
proof -
  obtain p where q: "opt_prop ''op'' e = JStr p"
    using assms by (cases "opt_prop ''op'' e") (simp_all add: validate_expr_fuel.simps [of n e])
  have "p \<in> set expr_ops"
  proof (rule ccontr)
    assume "p \<notin> set expr_ops"
    then show False using assms by (simp add: validate_expr_fuel.simps [of n e] q)
  qed
  note p = q this
  note step = assms [unfolded validate_expr_fuel.simps [of n e] p(1) jval.case]
  have "set expr_ops \<subseteq> {''eq'', ''ne'', ''lt'', ''lte'', ''gt'', ''gte''} \<union> {''is_null'', ''is_not_null''} \<union>
      {''in''} \<union> {''and'', ''or''} \<union> {''not''}"
    by (simp add: expr_ops_def)
  from subsetD [OF this p(2)] consider "p \<in> {''eq'', ''ne'', ''lt'', ''lte'', ''gt'', ''gte''}"
    | "p \<in> {''is_null'', ''is_not_null''}" | "p = ''in''" | "p \<in> {''and'', ''or''}" | "p = ''not''"
    unfolding Un_iff singleton_iff by (elim disjE)
  then show ?thesis
  proof cases
    case 1
    with step p(2) have "sound_operand (opt_prop ''left'' e)" "sound_operand (opt_prop ''right'' e)"
      by (simp_all add: rbind_eq_Inr validate_operand_iff)
    with 1 p(1) Comparison show ?thesis by blast
  next
    case 2
    with step p(2) have "sound_operand (opt_prop ''operand'' e)" by (auto simp: validate_operand_iff)
    with 2 p(1) NullTest show ?thesis by blast
  next
    case 3
    with step p(2) have "sound_operand (opt_prop ''needle'' e)"
      "(case opt_prop ''haystack'' e of JArr hs \<Rightarrow> each_r validate_operand hs | _ \<Rightarrow> Throw MalformedHaystack) = Ok ()"
      by (simp_all add: rbind_eq_Inr validate_operand_iff)
    moreover then obtain hs where "opt_prop ''haystack'' e = JArr hs" "\<forall>h \<in> set hs. sound_operand h"
      by (cases "opt_prop ''haystack'' e") (auto simp: each_r_Inr_iff validate_operand_iff)
    ultimately show ?thesis using 3 p(1) Membership by blast
  next
    case 4
    with step p(2) obtain m where m: "n = Suc m" by (cases n) auto
    with step p(2) 4 have "(case opt_prop ''exprs'' e of
        JArr es \<Rightarrow> if es = [] then Throw MalformedExprs else each_r (validate_expr_fuel m) es
      | _ \<Rightarrow> Throw MalformedExprs) = Ok ()" by auto
    then obtain es where "opt_prop ''exprs'' e = JArr es" "es \<noteq> []" "\<forall>e \<in> set es. validate_expr_fuel m e = Ok ()"
      by (cases "opt_prop ''exprs'' e") (auto simp: each_r_Inr_iff split: if_splits)
    with 4 p(1) m Connective show ?thesis by blast
  next
    case 5
    with step p(2) obtain m where "n = Suc m" "validate_expr_fuel m (opt_prop ''expr'' e) = Ok ()" by (cases n) auto
    with 5 p(1) Negation show ?thesis by blast
  qed
qed

lemma validated_sound: "validate_expr_fuel n e = Ok () \<Longrightarrow> sound_expr e"
proof (induction n arbitrary: e)
  case 0
  from 0 show ?case by (cases rule: validate_expr_cases) (simp_all add: SoundComparison SoundNullTest SoundMembership)
next
  case (Suc n)
  from Suc.prems show ?case
    by (cases rule: validate_expr_cases)
      (simp_all add: SoundComparison SoundNullTest SoundMembership SoundConnective SoundNegation Suc.IH)
qed

lemma not_sound_Undefined: "\<not> sound_expr Undefined"
  by (rule notI, erule sound_expr.cases) (simp_all add: opt_prop_def)

lemma sound_validated: "sound_expr e \<Longrightarrow> jdepth e \<le> n \<Longrightarrow> validate_expr_fuel n e = Ok ()"
proof (induction e arbitrary: n rule: sound_expr.induct)
  case (SoundComparison v p)
  then show ?case
    by (auto simp: validate_expr_fuel.simps [of n] expr_ops_def rbind_eq_Inr validate_operand_iff)
next
  case (SoundNullTest v p)
  then show ?case
    by (auto simp: validate_expr_fuel.simps [of n] expr_ops_def rbind_eq_Inr validate_operand_iff)
next
  case (SoundMembership v hs)
  then show ?case
    by (auto simp: validate_expr_fuel.simps [of n] expr_ops_def rbind_eq_Inr validate_operand_iff each_r_Inr_iff)
next
  case (SoundConnective v p es)
  have deep: "jdepth e < n" if "e \<in> set es" for e
    using jdepth_item [OF that] opt_prop_depth [of "''exprs''" v] SoundConnective.hyps(3) SoundConnective.prems
    by (simp del: jdepth.simps)
  obtain e where "e \<in> set es" using SoundConnective.hyps(4) by (cases es) auto
  from deep [OF this] obtain m where m: "n = Suc m" by (cases n) auto
  have "each_r (validate_expr_fuel m) es = Ok ()"
    using SoundConnective.IH deep by (simp add: each_r_Inr_iff m less_Suc_eq_le)
  then show ?case
    using SoundConnective.hyps by (auto simp: validate_expr_fuel.simps [of "Suc m"] m expr_ops_def)
next
  case (SoundNegation v)
  from SoundNegation.hyps(2) have "opt_prop ''expr'' v \<noteq> Undefined"
    using not_sound_Undefined by metis
  then have "jdepth (opt_prop ''expr'' v) < n" using opt_prop_depth [of "''expr''" v] SoundNegation.prems by simp
  then obtain m where m: "n = Suc m" "jdepth (opt_prop ''expr'' v) \<le> m" by (cases n) auto
  then show ?case
    using SoundNegation.hyps SoundNegation.IH [of m]
    by (auto simp: validate_expr_fuel.simps [of "Suc m"] expr_ops_def)
qed

lemma validate_expr_iff: "validate_policy_expr e = Ok () \<longleftrightarrow> sound_expr e"
  unfolding validate_policy_expr_def using validated_sound sound_validated [of e "Suc (jdepth e)"] by auto

lemma validate_policy_iff: "validate_policy_definition v = Ok () \<longleftrightarrow> sound_policy v"
proof -
  have actions: "valid_actions a \<longleftrightarrow> (\<exists>n. a = JNum n \<and> names_actions n)" for a
    by (cases a) (auto simp flip: valid_actions_iff, simp_all add: valid_actions_def)
  have principals: "(case a of JArr ps \<Rightarrow> each_r validate_principal ps | _ \<Rightarrow> Throw PrincipalsNotArray) = Ok () \<longleftrightarrow>
      (\<exists>ps. a = JArr ps \<and> (\<forall>p \<in> set ps. sound_principal p))" for a
    by (cases a) (auto simp: each_r_Inr_iff validate_principal_iff)
  have optional: "(if truthy a then validate_policy_expr a else Ok ()) = Ok () \<longleftrightarrow> (truthy a \<longrightarrow> sound_expr a)" for a
    by (simp add: validate_expr_iff)
  show ?thesis
    unfolding validate_policy_definition_def rbind_eq_Inr ex_unit guard_Ok actions principals optional
      trimmed_nonempty_iff sound_policy_def
    by blast
qed

lemma opt_prop_wire [simp]: "opt_prop k (wire fs) = get_prop k fs"
  by (simp add: opt_prop_def wire_def)

lemma get_prop_Cons: "get_prop k ((k', v) # fs) = (if k' = k then v else get_prop k fs)"
  by (simp add: get_prop_def)

lemma get_prop_Nil:
  "k \<notin> set prototype_names \<Longrightarrow> k \<noteq> ''__proto__'' \<Longrightarrow> get_prop k [] = Undefined"
  by (simp add: get_prop_def)

lemma validate_operand_encode: "validate_operand (encode_operand o') = Ok () \<longleftrightarrow> operand_wf o'"
proof (cases o')
  case (Column c)
  then show ?thesis
    by (simp add: validate_operand_def encode_operand_def get_prop_Cons operand_kinds_def
        operand_wf_def truthy_def rbind_eq_Inr)
next
  case (Subject s)
  then show ?thesis
    by (cases s) (simp_all add: validate_operand_def encode_operand_def encode_subject_def
        get_prop_Cons operand_kinds_def operand_wf_def truthy_def rbind_eq_Inr slot_field_def)
next
  case (Literal v)
  then show ?thesis
    by (simp add: validate_operand_def encode_operand_def get_prop_Cons operand_kinds_def
        operand_wf_def rbind_eq_Inr)
qed

fun expr_depth :: "policy_expr \<Rightarrow> nat" where
  "expr_depth (And es) = Suc (foldr (\<lambda>e d. max (expr_depth e) d) es 0)"
| "expr_depth (Or es) = Suc (foldr (\<lambda>e d. max (expr_depth e) d) es 0)"
| "expr_depth (Not e) = Suc (expr_depth e)"
| "expr_depth _ = 0"

lemma each_validate_operand:
  "each_r validate_operand (map encode_operand hs) = Ok () \<longleftrightarrow> list_all operand_wf hs"
  by (simp add: each_r_Inr_iff validate_operand_encode list_all_iff)

lemma validate_fuel_encode:
  "expr_depth e \<le> fuel \<Longrightarrow> validate_expr_fuel fuel (encode_expr e) = Ok () \<longleftrightarrow> expr_wf e"
proof (induction e arbitrary: fuel)
  case (Cmp c l r)
  then show ?case
    by (cases c) (simp_all add: validate_expr_fuel.simps get_prop_Cons op_name_def expr_ops_def
        rbind_eq_Inr validate_operand_encode)
next
  case (IsNull x)
  then show ?case
    by (simp add: validate_expr_fuel.simps get_prop_Cons expr_ops_def validate_operand_encode)
next
  case (IsNotNull x)
  then show ?case
    by (simp add: validate_expr_fuel.simps get_prop_Cons expr_ops_def validate_operand_encode)
next
  case (InList n hs)
  then show ?case
    by (simp add: validate_expr_fuel.simps get_prop_Cons expr_ops_def rbind_eq_Inr
        validate_operand_encode each_validate_operand)
next
  case (And es)
  then obtain n where n: "fuel = Suc n" by (cases fuel) auto
  have "\<forall>e \<in> set es. expr_depth e \<le> n" using And.prems by (simp add: n foldr_max_le)
  then show ?case using And.IH
    by (simp add: n validate_expr_fuel.simps [of "Suc n"] get_prop_Cons expr_ops_def
        each_r_Inr_iff list_all_iff)
next
  case (Or es)
  then obtain n where n: "fuel = Suc n" by (cases fuel) auto
  have "\<forall>e \<in> set es. expr_depth e \<le> n" using Or.prems by (simp add: n foldr_max_le)
  then show ?case using Or.IH
    by (simp add: n validate_expr_fuel.simps [of "Suc n"] get_prop_Cons expr_ops_def
        each_r_Inr_iff list_all_iff)
next
  case (Not e)
  then obtain n where n: "fuel = Suc n" by (cases fuel) auto
  then show ?case using Not
    by (simp add: validate_expr_fuel.simps [of "Suc n"] get_prop_Cons expr_ops_def)
qed

text \<open>The depth bound of \<open>validate_policy_expr\<close> is enough on every wire expression.\<close>

lemma jdepth_wire: "jdepth (wire fs) = Suc (foldr (\<lambda>p d. max (jdepth (snd p)) d) fs 0)"
  by (simp add: wire_def)

lemma foldr_max_map:
  "(\<And>x. x \<in> set xs \<Longrightarrow> f x \<le> g (h x)) \<Longrightarrow>
   foldr (\<lambda>x d. max (f x) d) xs 0 \<le> foldr (\<lambda>y d. max (g y) d) (map h xs) (0 :: nat)"
  by (induction xs) (fastforce simp: max_def)+

lemma expr_depth_jdepth: "expr_depth e \<le> jdepth (encode_expr e)"
proof (induction e)
  case (And es)
  then have "foldr (\<lambda>e d. max (expr_depth e) d) es 0
      \<le> foldr (\<lambda>v d. max (jdepth v) d) (map encode_expr es) 0"
    by (rule foldr_max_map)
  then show ?case by (simp add: jdepth_wire)
next
  case (Or es)
  then have "foldr (\<lambda>e d. max (expr_depth e) d) es 0
      \<le> foldr (\<lambda>v d. max (jdepth v) d) (map encode_expr es) 0"
    by (rule foldr_max_map)
  then show ?case by (simp add: jdepth_wire)
next
  case (Not e)
  then show ?case by (simp add: jdepth_wire)
qed simp_all

lemma validate_encode_expr: "validate_policy_expr (encode_expr e) = Ok () \<longleftrightarrow> expr_wf e"
  unfolding validate_policy_expr_def
  using expr_depth_jdepth [of e] by (intro validate_fuel_encode) simp

lemma validate_encode_principal: "validate_principal (encode_principal p) = Ok () \<longleftrightarrow> principal_wf p"
  by (cases p) (simp_all add: validate_principal_def encode_principal_def get_prop_Cons
      is_known_policy_principal_kind_def principal_kinds_def principal_wf_def trimmed_nonempty_def
      rbind_eq_Inr)

lemma encode_expr_truthy: "truthy (encode_expr e)"
  by (cases e) (simp_all add: truthy_def wire_def)

lemma get_prop_append:
  "get_prop k (xs @ ys) = (case map_of xs k of Some v \<Rightarrow> v | None \<Rightarrow> get_prop k ys)"
  by (cases "map_of xs k") (simp_all add: get_prop_def map_add_def)

lemma not_prototype:
  "''visibility'' \<notin> set prototype_names" "''check'' \<notin> set prototype_names"
  "''table'' \<notin> set prototype_names" "''name'' \<notin> set prototype_names"
  by (simp_all add: prototype_names_def)

lemma encode_definition_visibility:
  "opt_prop ''visibility'' (encode_definition d) =
     (case pd_visibility d of None \<Rightarrow> Undefined | Some e \<Rightarrow> encode_expr e)"
  by (simp add: encode_definition_def get_prop_Cons get_prop_append opt_field_def get_prop_Nil
      not_prototype split: option.splits)

lemma encode_definition_check:
  "opt_prop ''check'' (encode_definition d) =
     (case pd_check d of None \<Rightarrow> Undefined | Some e \<Rightarrow> encode_expr e)"
  by (simp add: encode_definition_def get_prop_Cons get_prop_append opt_field_def get_prop_Nil
      not_prototype split: option.splits)

lemma encode_definition_table:
  "opt_prop ''table'' (opt_prop ''resource'' (encode_definition d)) =
     JStr (res_table (pd_resource d))"
  by (simp add: encode_definition_def get_prop_Cons get_prop_append opt_field_def
      split: option.splits)

lemma encode_definition_fields:
  "opt_prop ''id'' (encode_definition d) = JStr (pd_id d)"
  "opt_prop ''actions'' (encode_definition d) = JNum (pd_actions d)"
  "opt_prop ''composition'' (encode_definition d) =
     JStr (case pd_composition d of Permissive \<Rightarrow> ''permissive'' | Restrictive \<Rightarrow> ''restrictive'')"
  "opt_prop ''principals'' (encode_definition d) = JArr (map encode_principal (pd_principals d))"
  by (simp_all add: encode_definition_def get_prop_Cons)

lemma validate_optional_expr:
  "(if truthy (case v of None \<Rightarrow> Undefined | Some e \<Rightarrow> encode_expr e)
    then validate_policy_expr (case v of None \<Rightarrow> Undefined | Some e \<Rightarrow> encode_expr e)
    else Ok ()) = Ok () \<longleftrightarrow> (case v of None \<Rightarrow> True | Some e \<Rightarrow> expr_wf e)"
  by (cases v) (simp_all add: validate_encode_expr encode_expr_truthy, simp add: truthy_def)

lemma validate_principals_encode:
  "each_r validate_principal (map encode_principal ps) = Ok () \<longleftrightarrow> list_all principal_wf ps"
  by (simp add: each_r_Inr_iff validate_encode_principal list_all_iff)

lemma validate_encode_definition:
  "validate_policy_definition (encode_definition d) = Ok () \<longleftrightarrow> definition_wf d"
proof -
  have comp: "(JStr (case pd_composition d of Permissive \<Rightarrow> ''permissive'' | Restrictive \<Rightarrow> ''restrictive'')
      = JStr ''permissive'' \<or>
      JStr (case pd_composition d of Permissive \<Rightarrow> ''permissive'' | Restrictive \<Rightarrow> ''restrictive'')
      = JStr ''restrictive'') \<longleftrightarrow> True"
    by (cases "pd_composition d") simp_all
  show ?thesis
    unfolding validate_policy_definition_def encode_definition_fields encode_definition_visibility
      encode_definition_check encode_definition_table rbind_eq_Inr validate_optional_expr
      ex_unit guard_Ok comp definition_wf_def jval.case validate_principals_encode
      trimmed_nonempty_def valid_actions_iff
    by simp
qed

end
