(* ===== verification/PolicyRegistry.thy ===== *)
theory PolicyRegistry
  imports PolicyValidate
begin

text \<open>
  The policy registry of \<open>policy/registry.ts\<close>: it validates every definition, checks resources
  against the model index and ids for repetition, and builds a two-level index from resource
  key and action to the definitions registered under them. \<open>get\<close> answers from the first
  lookup key that has a list. The laws that the decision procedure relies on are the locale
  \<open>policy_source\<close>.
\<close>

section \<open>Input\<close>

datatype registry_item = AuthoredItem "policy_definition list" | DefinitionItem policy_definition

datatype registry_input =
    NoDefinitions
  | ItemList "registry_item list"
  | PolicyDocument policy_document
  | AuthoredInput "policy_definition list"
  | OtherInput

datatype registry_error =
    BadDefinitionsInput
  | InvalidPolicyDefinition config_error
  | InvalidPolicyInMode policy_mode string
  | UnknownResource string
  | DuplicatePolicyId string

definition item_definitions :: "registry_item \<Rightarrow> policy_definition list" where
  "item_definitions i = (case i of AuthoredItem ds \<Rightarrow> ds | DefinitionItem d \<Rightarrow> [d])"

definition normalize_policy_definitions ::
  "registry_input \<Rightarrow> (registry_error, policy_definition list) result" where
  "normalize_policy_definitions inp =
     (case inp of
        NoDefinitions \<Rightarrow> Ok []
      | ItemList items \<Rightarrow> Ok (concat (map item_definitions items))
      | PolicyDocument doc \<Rightarrow> Ok (doc_policies doc)
      | AuthoredInput ds \<Rightarrow> Ok ds
      | OtherInput \<Rightarrow> Throw BadDefinitionsInput)"

section \<open>The index\<close>

type_synonym policy_index = "(string, (policy_action, policy_definition list) odict) odict"

definition index_add ::
  "policy_definition \<Rightarrow> policy_action \<Rightarrow> string \<Rightarrow> policy_index \<Rightarrow> policy_index" where
  "index_add d a key ix =
     (let by_action = get_or (map_of ix key) [];
          ds = get_or (map_of by_action a) []
      in dset key (dset a (ds @ [d]) by_action) ix)"

definition index_action :: "policy_definition \<Rightarrow> policy_action \<Rightarrow> policy_index \<Rightarrow> policy_index" where
  "index_action d a ix = fold (index_add d a) (resource_keys (pd_resource d)) ix"

definition index_definition :: "policy_definition \<Rightarrow> policy_index \<Rightarrow> policy_index" where
  "index_definition d ix = fold (index_action d) (actions_from_mask (pd_actions d)) ix"

definition build_index :: "policy_definition list \<Rightarrow> policy_index" where
  "build_index ds = fold index_definition ds []"

text \<open>\<open>frozen.get(key)?.get(action)\<close>\<close>

definition index_get :: "policy_index \<Rightarrow> string \<Rightarrow> policy_action \<Rightarrow> policy_definition list option" where
  "index_get ix key a =
     (case map_of ix key of None \<Rightarrow> None | Some by_action \<Rightarrow> map_of by_action a)"

definition lookup_keys :: "string \<Rightarrow> string list" where
  "lookup_keys resource =
     (let t = js_trim resource
      in if t = [] then []
         else if CHR ''.'' \<notin> set t then [t, ''public.'' @ t]
         else (let table = last (split_on (CHR ''.'') t)
               in if table = [] then [t] else [t, table]))"

section \<open>The registry\<close>

record registry_options =
  ro_definitions :: registry_input
  ro_mode :: policy_mode
  ro_model_index :: "(string \<Rightarrow> bool) option"

record policy_registry =
  rg_mode :: policy_mode
  rg_definitions :: "policy_definition list"
  rg_index :: policy_index

definition check_definition :: "policy_mode \<Rightarrow> policy_definition \<Rightarrow> (registry_error, unit) result" where
  "check_definition mode d =
     (case validate_policy_definition (encode_definition d) of
        Inr _ \<Rightarrow> Ok ()
      | Inl err \<Rightarrow>
          if mode = Enforce then Throw (InvalidPolicyDefinition err)
          else Throw (InvalidPolicyInMode mode (pd_id d)))"

definition check_resource :: "(string \<Rightarrow> bool) \<Rightarrow> policy_definition \<Rightarrow> (registry_error, unit) result" where
  "check_resource known d =
     (if list_ex known (resource_keys (pd_resource d)) then Ok () else Throw (UnknownResource (pd_id d)))"

definition create_policy_registry :: "registry_options \<Rightarrow> (registry_error, policy_registry) result" where
  "create_policy_registry opts =
     rbind (normalize_policy_definitions (ro_definitions opts)) (\<lambda>ds.
     rbind (each_r (check_definition (ro_mode opts)) ds) (\<lambda>_.
     rbind (case ro_model_index opts of
              Some known \<Rightarrow> if ro_mode opts = Enforce then each_r (check_resource known) ds else Ok ()
            | None \<Rightarrow> Ok ()) (\<lambda>_.
       case first_dup [] (map pd_id ds) of
         Some i \<Rightarrow> Throw (DuplicatePolicyId i)
       | None \<Rightarrow> Ok \<lparr>rg_mode = ro_mode opts, rg_definitions = ds, rg_index = build_index ds\<rparr>)))"

fun first_list :: "policy_index \<Rightarrow> policy_action \<Rightarrow> string list \<Rightarrow> policy_definition list" where
  "first_list ix a [] = []"
| "first_list ix a (k # ks) =
     (case index_get ix k a of Some ds \<Rightarrow> ds | None \<Rightarrow> first_list ix a ks)"

definition registry_get :: "policy_registry \<Rightarrow> string \<Rightarrow> policy_action \<Rightarrow> policy_definition list" where
  "registry_get rg resource a = first_list (rg_index rg) a (lookup_keys resource)"

section \<open>What the index holds\<close>

text \<open>The specification: a definition is registered under a key for an action.\<close>

definition registered :: "string \<Rightarrow> policy_action \<Rightarrow> policy_definition \<Rightarrow> bool" where
  "registered key a d \<longleftrightarrow> key \<in> set (resource_keys (pd_resource d)) \<and> mask_has (pd_actions d) a"

definition non_empty :: "'a list \<Rightarrow> 'a list option" where
  "non_empty xs = (if xs = [] then None else Some xs)"

lemma get_or_non_empty [simp]: "get_or (non_empty xs) [] = xs"
  by (simp add: non_empty_def)

lemma index_get_add:
  "index_get (index_add d a key ix) key' a' =
     (if key = key' \<and> a = a' then Some (get_or (index_get ix key a) [] @ [d])
      else index_get ix key' a')"
  by (auto simp: index_get_def index_add_def Let_def get_or_def split: option.splits)

lemma index_get_action_keys:
  "distinct keys \<Longrightarrow>
   index_get (fold (index_add d a) keys ix) key' a' =
     (if key' \<in> set keys \<and> a = a' then Some (get_or (index_get ix key' a') [] @ [d])
      else index_get ix key' a')"
  by (induction keys arbitrary: ix) (auto simp: index_get_add)

lemma distinct_resource_keys [simp]: "distinct (resource_keys r)"
  by (simp add: resource_keys_def Let_def)

lemma distinct_actions_from_mask [simp]: "distinct (actions_from_mask m)"
  by (simp add: actions_from_mask_def)

lemma index_get_index_action:
  "index_get (index_action d a ix) key' a' =
     (if key' \<in> set (resource_keys (pd_resource d)) \<and> a = a'
      then Some (get_or (index_get ix key' a') [] @ [d]) else index_get ix key' a')"
  by (simp add: index_action_def index_get_action_keys)

lemma index_get_actions:
  "distinct as \<Longrightarrow>
   index_get (fold (index_action d) as ix) key' a' =
     (if key' \<in> set (resource_keys (pd_resource d)) \<and> a' \<in> set as
      then Some (get_or (index_get ix key' a') [] @ [d]) else index_get ix key' a')"
  by (induction as arbitrary: ix) (auto simp: index_get_index_action)

lemma index_get_definition:
  "index_get (index_definition d ix) key a =
     (if registered key a d then Some (get_or (index_get ix key a) [] @ [d]) else index_get ix key a)"
  by (simp add: index_definition_def index_get_actions registered_def set_actions_from_mask)

lemma index_get_fold:
  "index_get ix key a = non_empty ls \<Longrightarrow>
   index_get (fold index_definition ds ix) key a = non_empty (ls @ filter (registered key a) ds)"
proof (induction ds arbitrary: ix ls)
  case (Cons d ds)
  show ?case
  proof (cases "registered key a d")
    case True
    have "index_get (index_definition d ix) key a = non_empty (ls @ [d])"
      by (simp add: index_get_definition True Cons.prems) (simp add: non_empty_def)
    from Cons.IH [OF this] show ?thesis by (simp add: True)
  next
    case False
    then have "index_get (index_definition d ix) key a = non_empty ls"
      by (simp add: index_get_definition Cons.prems)
    from Cons.IH [OF this] show ?thesis by (simp add: False)
  qed
qed simp

lemma index_get_build: "index_get (build_index ds) key a = non_empty (filter (registered key a) ds)"
  using index_get_fold [of "[]" key a "[]" ds]
  by (simp add: build_index_def index_get_def non_empty_def)

text \<open>The lookup: the definitions registered under the first key that has any.\<close>

fun governing :: "policy_definition list \<Rightarrow> policy_action \<Rightarrow> string list \<Rightarrow> policy_definition list" where
  "governing ds a [] = []"
| "governing ds a (k # ks) =
     (if filter (registered k a) ds = [] then governing ds a ks else filter (registered k a) ds)"

lemma first_list_build: "first_list (build_index ds) a keys = governing ds a keys"
  by (induction keys) (simp_all add: index_get_build non_empty_def)

lemma governing_sub: "d \<in> set (governing ds a keys) \<Longrightarrow> d \<in> set ds \<and> (\<exists>k \<in> set keys. registered k a d)"
  by (induction keys) (auto split: if_splits)

lemma governing_filter: "\<exists>P. governing ds a keys = filter P ds"
proof (induction keys)
  case Nil
  have "governing ds a [] = filter (\<lambda>_. False) ds" by simp
  then show ?case by blast
qed auto

lemma filter_distinct_map: "distinct (map f xs) \<Longrightarrow> distinct (map f (filter P xs))"
  by (induction xs) auto

lemma governing_distinct: "distinct (map pd_id ds) \<Longrightarrow> distinct (map pd_id (governing ds a keys))"
  using governing_filter [of ds a keys] by (auto intro: filter_distinct_map)

lemma governing_Nil_iff: "governing ds a keys = [] \<longleftrightarrow> (\<forall>k \<in> set keys. \<forall>d \<in> set ds. \<not> registered k a d)"
  by (induction keys) (auto simp: filter_empty_conv)

section \<open>Creation\<close>

lemma check_definition_Ok: "check_definition mode d = Ok () \<longleftrightarrow> definition_wf d"
proof -
  have "(\<exists>u. validate_policy_definition (encode_definition d) = Inr u) \<longleftrightarrow> definition_wf d"
    using validate_encode_definition [of d] by (metis (full_types) unit.exhaust)
  then show ?thesis by (auto simp: check_definition_def split: sum.splits)
qed

lemma check_resource_Ok:
  "check_resource known d = Ok () \<longleftrightarrow> (\<exists>k \<in> set (resource_keys (pd_resource d)). known k)"
  by (simp add: check_resource_def list_ex_iff)

definition registrable :: "registry_options \<Rightarrow> policy_definition list \<Rightarrow> bool" where
  "registrable opts ds \<longleftrightarrow>
     list_all definition_wf ds \<and> distinct (map pd_id ds) \<and>
     (ro_mode opts = Enforce \<longrightarrow>
        (case ro_model_index opts of
           None \<Rightarrow> True
         | Some known \<Rightarrow> list_all (\<lambda>d. list_ex known (resource_keys (pd_resource d))) ds))"

lemma create_registry_iff:
  "create_policy_registry opts = Ok rg \<longleftrightarrow>
   (\<exists>ds. normalize_policy_definitions (ro_definitions opts) = Ok ds \<and> registrable opts ds \<and>
         rg = \<lparr>rg_mode = ro_mode opts, rg_definitions = ds, rg_index = build_index ds\<rparr>)"
proof -
  have res: "each_r (check_resource known) ds = Ok () \<longleftrightarrow>
      list_all (\<lambda>d. list_ex known (resource_keys (pd_resource d))) ds" for known ds
    by (simp add: each_r_Inr_iff check_resource_Ok list_all_iff list_ex_iff)
  have def: "each_r (check_definition m) ds = Ok () \<longleftrightarrow> list_all definition_wf ds" for m ds
    by (simp add: each_r_Inr_iff check_definition_Ok list_all_iff)
  show ?thesis
    unfolding create_policy_registry_def rbind_eq_Inr ex_unit def registrable_def
    by (auto simp: res first_dup_None split: option.splits if_splits)
qed

lemma created_index: "create_policy_registry opts = Ok rg \<Longrightarrow> rg_index rg = build_index (rg_definitions rg)"
  by (auto simp: create_registry_iff)

lemma registry_get_governing:
  "rg_index rg = build_index (rg_definitions rg) \<Longrightarrow>
   registry_get rg resource a = governing (rg_definitions rg) a (lookup_keys resource)"
  by (simp add: registry_get_def first_list_build)

section \<open>The contract of a policy source\<close>

text \<open>
  What the decision procedure asks of the registry: an answer holds registered definitions
  that govern the action, in registration order.
\<close>

locale policy_source =
  fixes defs :: "policy_definition list"
    and lookup :: "string \<Rightarrow> policy_action \<Rightarrow> policy_definition list"
  assumes lookup_governs: "d \<in> set (lookup r a) \<Longrightarrow> d \<in> set defs \<and> mask_has (pd_actions d) a"
    and lookup_order: "\<exists>P. lookup r a = filter P defs"
begin

lemma lookup_distinct: "distinct (map pd_id defs) \<Longrightarrow> distinct (map pd_id (lookup r a))"
  using lookup_order [of r a] by (auto intro: filter_distinct_map)

lemma lookup_empty: "(\<And>d. d \<in> set defs \<Longrightarrow> \<not> mask_has (pd_actions d) a) \<Longrightarrow> lookup r a = []"
  using lookup_governs [of _ r a] by (cases "lookup r a") auto

lemma lookup_all: "(\<And>d. d \<in> set defs \<Longrightarrow> P d) \<Longrightarrow> d \<in> set (lookup r a) \<Longrightarrow> P d"
  using lookup_governs by blast

end

definition source_get :: "policy_definition list \<Rightarrow> string \<Rightarrow> policy_action \<Rightarrow> policy_definition list" where
  "source_get ds resource a = first_list (build_index ds) a (lookup_keys resource)"

interpretation registry_source: policy_source ds "source_get ds" for ds
proof
  show "d \<in> set ds \<and> mask_has (pd_actions d) a" if "d \<in> set (source_get ds r a)" for d r a
    using that governing_sub [of d ds a "lookup_keys r"]
    by (auto simp: source_get_def first_list_build registered_def)
  show "\<exists>P. source_get ds r a = filter P ds" for r a
    using governing_filter [of ds a "lookup_keys r"] by (simp add: source_get_def first_list_build)
qed

lemma registry_get_source:
  "rg_index rg = build_index (rg_definitions rg) \<Longrightarrow>
   registry_get rg = source_get (rg_definitions rg)"
  by (simp add: fun_eq_iff registry_get_def source_get_def)

end
