(* ===== verification/PolicyPrincipal.thy ===== *)
theory PolicyPrincipal
  imports PolicyIr
begin

text \<open>
  Matching the caller against the principals of a policy (\<open>policy/match-principal.ts\<close>): the
  principals of one policy are alternatives, and an empty list stands for everyone.
\<close>

definition opt_eq_ignore_case :: "string option \<Rightarrow> string \<Rightarrow> bool" where
  "opt_eq_ignore_case l r = (case l of None \<Rightarrow> False | Some s \<Rightarrow> eq_ignore_case s r)"

definition list_has :: "string list \<Rightarrow> string \<Rightarrow> bool" where
  "list_has vs name = list_ex (\<lambda>v. opt_eq_ignore_case (Some v) name) vs"

fun match_policy_principal :: "policy_principal \<Rightarrow> principal \<Rightarrow> bool" where
  "match_policy_principal PublicPrincipal p = True"
| "match_policy_principal AnonymousPrincipal p = (\<not> pr_authenticated p)"
| "match_policy_principal AuthenticatedPrincipal p = pr_authenticated p"
| "match_policy_principal AdminPrincipal p =
     (opt_eq_ignore_case (pr_role p) ''admin'' \<or> list_has (pr_rights p) ''admin'')"
| "match_policy_principal (RolePrincipal n) p = opt_eq_ignore_case (pr_role p) n"
| "match_policy_principal (PermissionPrincipal n) p = list_has (pr_rights p) n"
| "match_policy_principal (ServicePrincipal n) p = opt_eq_ignore_case (pr_service p) n"

definition policy_applies_to_principal :: "policy_principal list \<Rightarrow> principal \<Rightarrow> bool" where
  "policy_applies_to_principal ps p =
     (if ps = [] then True else list_ex (\<lambda>t. match_policy_principal t p) ps)"

lemma list_has_iff: "list_has vs n \<longleftrightarrow> (\<exists>v \<in> set vs. eq_ignore_case v n)"
  by (simp add: list_has_def opt_eq_ignore_case_def list_ex_iff)

lemma policy_applies_iff:
  "policy_applies_to_principal ps p \<longleftrightarrow> ps = [] \<or> (\<exists>t \<in> set ps. match_policy_principal t p)"
  by (auto simp: policy_applies_to_principal_def list_ex_iff)

text \<open>Adding alternatives to a non-empty list only widens a policy.\<close>

lemma policy_applies_mono:
  "ps \<noteq> [] \<Longrightarrow> set ps \<subseteq> set qs \<Longrightarrow> policy_applies_to_principal ps p \<Longrightarrow>
   policy_applies_to_principal qs p"
  by (auto simp: policy_applies_iff)

text \<open>
  What a caller may be matched on: whether it is authenticated, its role, rights and service
  up to case. Grants, ids and claims play no part.
\<close>

definition same_standing :: "principal \<Rightarrow> principal \<Rightarrow> bool" where
  "same_standing p q \<longleftrightarrow>
     pr_authenticated p = pr_authenticated q \<and>
     map_option primary_key (pr_role p) = map_option primary_key (pr_role q) \<and>
     map_option primary_key (pr_service p) = map_option primary_key (pr_service q) \<and>
     primary_key ` set (pr_rights p) = primary_key ` set (pr_rights q)"

lemma opt_eq_key:
  "opt_eq_ignore_case l n \<longleftrightarrow> map_option primary_key l = Some (primary_key n)"
  by (simp add: opt_eq_ignore_case_def eq_ignore_case_iff split: option.splits)

lemma list_has_key: "list_has vs n \<longleftrightarrow> primary_key n \<in> primary_key ` set vs"
  unfolding list_has_iff eq_ignore_case_iff image_iff by metis

lemma match_same_standing:
  "same_standing p q \<Longrightarrow> match_policy_principal t p = match_policy_principal t q"
  by (cases t) (simp_all add: same_standing_def opt_eq_key list_has_key)

lemma applies_same_standing:
  "same_standing p q \<Longrightarrow> policy_applies_to_principal ps p = policy_applies_to_principal ps q"
  by (simp add: policy_applies_iff match_same_standing)

end
