(* ===== verification/PolicyDecide.thy ===== *)
theory PolicyDecide
  imports PolicyPrincipal PolicyRegistry PolicyEval
begin

text \<open>
  The decision procedure of \<open>policy/decide.ts\<close>. A caller is allowed when a permissive policy
  applies to it; the visibility and check of the decision are the disjunction of the
  permissive expressions in conjunction with every restrictive one. The lemmas relate the
  composed expression to the policies it came from, under the interpreter of \<open>PolicyEval\<close>.
\<close>

section \<open>Composition\<close>

definition combine_or :: "policy_expr list \<Rightarrow> policy_expr option" where
  "combine_or es = (case es of [] \<Rightarrow> None | [e] \<Rightarrow> Some e | _ \<Rightarrow> Some (Or es))"

definition combine_and :: "policy_expr list \<Rightarrow> policy_expr option" where
  "combine_and es = (case es of [] \<Rightarrow> None | [e] \<Rightarrow> Some e | _ \<Rightarrow> Some (And es))"

type_synonym expr_field = "policy_definition \<Rightarrow> policy_expr option"

definition exprs_of :: "expr_field \<Rightarrow> policy_definition list \<Rightarrow> policy_expr list" where
  "exprs_of field ds = map the (filter (\<lambda>e. e \<noteq> None) (map field ds))"

definition is_permissive :: "policy_definition \<Rightarrow> bool" where
  "is_permissive d \<longleftrightarrow> pd_composition d = Permissive"

definition is_restrictive :: "policy_definition \<Rightarrow> bool" where
  "is_restrictive d \<longleftrightarrow> pd_composition d = Restrictive"

definition compose_group :: "policy_definition list \<Rightarrow> expr_field \<Rightarrow> policy_expr option" where
  "compose_group matching field =
     (let permissive = filter is_permissive matching;
          restrictive = filter is_restrictive matching;
          unrestricted = list_ex (\<lambda>d. field d = None) permissive;
          permissive_exprs = (if unrestricted then [] else exprs_of field permissive);
          restrictive_exprs = exprs_of field restrictive;
          permissive_expr = (if unrestricted then None else combine_or permissive_exprs);
          parts = (case permissive_expr of None \<Rightarrow> [] | Some e \<Rightarrow> [e]) @ restrictive_exprs
      in combine_and parts)"

section \<open>The decision\<close>

record decide_input =
  di_action :: policy_action
  di_principal :: principal
  di_resource :: string

definition decide_athena_policy ::
  "policy_mode \<Rightarrow> (string \<Rightarrow> policy_action \<Rightarrow> policy_definition list) \<Rightarrow> decide_input \<Rightarrow> policy_decision" where
  "decide_athena_policy mode get inp =
     (if mode = Disabled then
        \<lparr>dec_allowed = True, dec_matched = [], dec_visibility = None, dec_check = None,
         dec_reason = DisabledReason, dec_mode = Disabled\<rparr>
      else
        (let candidates = get (di_resource inp) (di_action inp)
         in if candidates = [] then
              \<lparr>dec_allowed = False, dec_matched = [], dec_visibility = None, dec_check = None,
               dec_reason = NoMatchingPolicy, dec_mode = mode\<rparr>
            else
              (let matching =
                     filter (\<lambda>d. policy_applies_to_principal (pd_principals d) (di_principal inp))
                       candidates;
                   permissive_matches = filter is_permissive matching;
                   allowed = permissive_matches \<noteq> [];
                   reason = (if allowed then Allowed
                             else if matching = [] then NoMatchingPolicy else PrincipalNotAllowed)
               in \<lparr>dec_allowed = allowed, dec_matched = map pd_id matching,
                   dec_visibility = (if allowed then compose_group matching pd_visibility else None),
                   dec_check = (if allowed then compose_group matching pd_check else None),
                   dec_reason = reason, dec_mode = mode\<rparr>)))"

definition matching_policies ::
  "(string \<Rightarrow> policy_action \<Rightarrow> policy_definition list) \<Rightarrow> decide_input \<Rightarrow> policy_definition list" where
  "matching_policies get inp =
     filter (\<lambda>d. policy_applies_to_principal (pd_principals d) (di_principal inp))
       (get (di_resource inp) (di_action inp))"

lemma decide_disabled:
  "decide_athena_policy Disabled get inp =
     \<lparr>dec_allowed = True, dec_matched = [], dec_visibility = None, dec_check = None,
      dec_reason = DisabledReason, dec_mode = Disabled\<rparr>"
  by (simp add: decide_athena_policy_def)

lemma decide_active:
  "mode \<noteq> Disabled \<Longrightarrow>
   decide_athena_policy mode get inp =
     (let ds = matching_policies get inp; allowed = list_ex is_permissive ds
      in \<lparr>dec_allowed = allowed, dec_matched = map pd_id ds,
          dec_visibility = (if allowed then compose_group ds pd_visibility else None),
          dec_check = (if allowed then compose_group ds pd_check else None),
          dec_reason = (if allowed then Allowed
                        else if ds = [] then NoMatchingPolicy else PrincipalNotAllowed),
          dec_mode = mode\<rparr>)"
  by (simp add: decide_athena_policy_def matching_policies_def Let_def filter_empty_conv
      list_ex_iff)

lemma decide_allowed_iff:
  "mode \<noteq> Disabled \<Longrightarrow>
   dec_allowed (decide_athena_policy mode get inp) \<longleftrightarrow>
     (\<exists>d \<in> set (get (di_resource inp) (di_action inp)).
        is_permissive d \<and> policy_applies_to_principal (pd_principals d) (di_principal inp))"
  by (auto simp: decide_active Let_def list_ex_iff matching_policies_def)

lemma decide_exprs_need_allowed:
  "\<not> dec_allowed (decide_athena_policy mode get inp) \<Longrightarrow>
   dec_visibility (decide_athena_policy mode get inp) = None \<and>
   dec_check (decide_athena_policy mode get inp) = None"
  by (cases "mode = Disabled") (auto simp: decide_active decide_disabled Let_def)

text \<open>The decision depends on the caller only through its standing.\<close>

lemma decide_same_standing:
  "same_standing p q \<Longrightarrow>
   decide_athena_policy mode get \<lparr>di_action = a, di_principal = p, di_resource = r\<rparr> =
   decide_athena_policy mode get \<lparr>di_action = a, di_principal = q, di_resource = r\<rparr>"
  by (cases "mode = Disabled")
    (simp_all add: decide_disabled decide_active matching_policies_def applies_same_standing)

section \<open>What the composed expression means\<close>

text \<open>An absent expression admits every row.\<close>

definition holds_under :: "principal \<Rightarrow> fields \<Rightarrow> policy_expr option \<Rightarrow> (policy_error, bool) result" where
  "holds_under p row e = (case e of None \<Rightarrow> Ok True | Some x \<Rightarrow> evaluate_under p x row)"

text \<open>The row-level security rule: some permissive policy and every restrictive policy.\<close>

definition admits :: "(policy_expr option \<Rightarrow> bool) \<Rightarrow> policy_definition list \<Rightarrow> expr_field \<Rightarrow> bool" where
  "admits holds ds field \<longleftrightarrow>
     (\<exists>d \<in> set ds. is_permissive d \<and> holds (field d)) \<and>
     (\<forall>d \<in> set ds. is_restrictive d \<longrightarrow> holds (field d))"

lemma set_exprs_of: "set (exprs_of field ds) = {e. \<exists>d \<in> set ds. field d = Some e}"
  by (fastforce simp: exprs_of_def image_iff)

lemma combine_or_eval:
  "combine_or es = Some e \<Longrightarrow>
   evaluate_under p e row = some_r (\<lambda>e. evaluate_under p e row) es"
proof (cases es)
  case (Cons x xs)
  assume *: "combine_or es = Some e"
  show ?thesis
  proof (cases xs)
    case Nil
    with * Cons have "es = [e]" by (simp add: combine_or_def)
    then show ?thesis by (cases "evaluate_under p e row") auto
  next
    case (Cons y ys)
    with * \<open>es = x # xs\<close> have "e = Or es" by (simp add: combine_or_def)
    then show ?thesis by simp
  qed
qed (simp add: combine_or_def)

lemma every_r_single: "every_r f [x] = f x"
  by (cases "f x") auto

lemma combine_and_eval:
  "holds_under p row (combine_and es) = every_r (\<lambda>e. evaluate_under p e row) es"
proof (cases es)
  case (Cons x xs)
  then show ?thesis
    by (cases xs) (simp_all only: combine_and_def holds_under_def list.case option.case
        every_r_single evaluate_under.simps)
qed (simp add: combine_and_def holds_under_def)

lemma combine_or_None: "combine_or es = None \<longleftrightarrow> es = []"
  by (auto simp: combine_or_def split: list.splits)

definition permissive_parts :: "policy_definition list \<Rightarrow> expr_field \<Rightarrow> policy_expr list" where
  "permissive_parts ds field =
     (if list_ex (\<lambda>d. field d = None) (filter is_permissive ds) then []
      else (case combine_or (exprs_of field (filter is_permissive ds)) of None \<Rightarrow> [] | Some e \<Rightarrow> [e]))"

lemma compose_parts:
  "compose_group ds field =
     combine_and (permissive_parts ds field @ exprs_of field (filter is_restrictive ds))"
  by (simp add: compose_group_def permissive_parts_def Let_def)

lemma compose_eval:
  "holds_under p row (compose_group ds field) =
     every_r (\<lambda>e. evaluate_under p e row)
       (permissive_parts ds field @ exprs_of field (filter is_restrictive ds))"
  by (simp add: compose_parts combine_and_eval)

text \<open>Soundness needs nothing of the expressions: errors can only deny.\<close>

lemma permissive_parts_sound:
  assumes "list_ex is_permissive ds"
    and "\<forall>e \<in> set (permissive_parts ds field). evaluate_under p e row = Ok True"
  shows "\<exists>d \<in> set ds. is_permissive d \<and> holds_under p row (field d) = Ok True"
proof (cases "list_ex (\<lambda>d. field d = None) (filter is_permissive ds)")
  case True
  then show ?thesis by (auto simp: list_ex_iff holds_under_def)
next
  case False
  let ?es = "exprs_of field (filter is_permissive ds)"
  have "?es \<noteq> []"
  proof
    assume "?es = []"
    then have "set ?es = {}" by simp
    with assms(1) False show False by (auto simp: list_ex_iff set_exprs_of)
  qed
  then obtain e where e: "combine_or ?es = Some e" using combine_or_None by fastforce
  with False assms(2) have "evaluate_under p e row = Ok True" by (simp add: permissive_parts_def)
  then have "some_r (\<lambda>e. evaluate_under p e row) ?es = Ok True"
    using combine_or_eval [OF e] by simp
  from some_r_True_ex [OF this] show ?thesis by (auto simp: set_exprs_of holds_under_def)
qed

lemma compose_sound:
  assumes "list_ex is_permissive ds" and "holds_under p row (compose_group ds field) = Ok True"
  shows "admits (\<lambda>e. holds_under p row e = Ok True) ds field"
proof -
  from assms(2) have all: "\<forall>e \<in> set (permissive_parts ds field) \<union> set (exprs_of field (filter is_restrictive ds)).
      evaluate_under p e row = Ok True"
    by (simp add: compose_eval every_r_True_iff)
  then have "\<forall>d \<in> set ds. is_restrictive d \<longrightarrow> holds_under p row (field d) = Ok True"
    by (auto simp: set_exprs_of holds_under_def split: option.splits)
  with permissive_parts_sound [OF assms(1)] all show ?thesis by (simp add: admits_def)
qed

text \<open>When no expression fails on the row, the composition is exactly the rule.\<close>

lemma permissive_parts_complete:
  assumes "list_ex is_permissive ds"
    and total: "\<And>d e. d \<in> set ds \<Longrightarrow> field d = Some e \<Longrightarrow> evaluate_under p e row = Ok (q e)"
  shows "every_r (\<lambda>e. evaluate_under p e row) (permissive_parts ds field) =
     Ok (\<exists>d \<in> set ds. is_permissive d \<and> (case field d of None \<Rightarrow> True | Some e \<Rightarrow> q e))"
proof (cases "list_ex (\<lambda>d. field d = None) (filter is_permissive ds)")
  case True
  then show ?thesis by (force simp: permissive_parts_def list_ex_iff)
next
  case False
  let ?es = "exprs_of field (filter is_permissive ds)"
  from assms(1) obtain d where "d \<in> set ds" "is_permissive d" by (auto simp: list_ex_iff)
  moreover from this False obtain x where "field d = Some x" by (auto simp: list_ex_iff)
  ultimately have "x \<in> set ?es" by (auto simp: set_exprs_of)
  then have "set ?es \<noteq> {}" by (metis empty_iff)
  then obtain e where e: "combine_or ?es = Some e" using combine_or_None [of ?es] by fastforce
  have "some_r (\<lambda>e. evaluate_under p e row) ?es = Ok (\<exists>e \<in> set ?es. q e)"
    by (rule some_r_pure) (auto simp: set_exprs_of total)
  moreover have "(\<exists>e \<in> set ?es. q e) \<longleftrightarrow>
      (\<exists>d \<in> set ds. is_permissive d \<and> (case field d of None \<Rightarrow> True | Some e \<Rightarrow> q e))"
    using False by (force simp: set_exprs_of list_ex_iff split: option.splits)
  ultimately show ?thesis
    using False combine_or_eval [OF e] by (simp add: permissive_parts_def e)
qed

lemma every_r_append:
  "every_r f (xs @ ys) = rbind (every_r f xs) (\<lambda>b. if b then every_r f ys else Ok False)"
proof (induction xs)
  case (Cons x xs)
  then show ?case by (cases "f x") auto
qed simp

lemma compose_complete:
  assumes "list_ex is_permissive ds"
    and total: "\<And>d e. d \<in> set ds \<Longrightarrow> field d = Some e \<Longrightarrow> evaluate_under p e row = Ok (q e)"
  shows "holds_under p row (compose_group ds field) =
     Ok (admits (\<lambda>e. case e of None \<Rightarrow> True | Some x \<Rightarrow> q x) ds field)"
proof -
  let ?rs = "exprs_of field (filter is_restrictive ds)"
  have "every_r (\<lambda>e. evaluate_under p e row) ?rs = Ok (\<forall>e \<in> set ?rs. q e)"
    by (rule every_r_pure) (auto simp: set_exprs_of total)
  moreover have "(\<forall>e \<in> set ?rs. q e) \<longleftrightarrow>
      (\<forall>d \<in> set ds. is_restrictive d \<longrightarrow> (case field d of None \<Rightarrow> True | Some e \<Rightarrow> q e))"
    by (force simp: set_exprs_of split: option.splits)
  ultimately show ?thesis
    using permissive_parts_complete [OF assms]
    by (simp add: compose_eval every_r_append admits_def)
qed

section \<open>Deciding against a policy source\<close>

context policy_source
begin

lemma decide_matched_ids:
  "i \<in> set (dec_matched (decide_athena_policy mode lookup inp)) \<Longrightarrow>
   \<exists>d \<in> set defs. pd_id d = i \<and> mask_has (pd_actions d) (di_action inp) \<and>
     policy_applies_to_principal (pd_principals d) (di_principal inp)"
  using lookup_governs [of _ "di_resource inp" "di_action inp"]
  by (cases "mode = Disabled")
    (fastforce simp: decide_disabled decide_active Let_def matching_policies_def)+

lemma decide_matched_distinct:
  "distinct (map pd_id defs) \<Longrightarrow> distinct (dec_matched (decide_athena_policy mode lookup inp))"
  using lookup_distinct [of "di_resource inp" "di_action inp"]
  by (cases "mode = Disabled")
    (simp_all add: decide_disabled decide_active Let_def matching_policies_def filter_distinct_map)

lemma decide_fail_closed:
  "mode \<noteq> Disabled \<Longrightarrow>
   (\<And>d. d \<in> set defs \<Longrightarrow> \<not> (is_permissive d \<and> mask_has (pd_actions d) (di_action inp) \<and>
      policy_applies_to_principal (pd_principals d) (di_principal inp))) \<Longrightarrow>
   \<not> dec_allowed (decide_athena_policy mode lookup inp)"
  using lookup_governs by (auto simp: decide_allowed_iff)

end

end
