(* ===== verification/PolicyAuthoring.thy ===== *)
theory PolicyAuthoring
  imports PolicyRegistry PolicyDecide
begin

text \<open>
  Authoring policies in code: the expression builders of \<open>policy/expr-builders.ts\<close>, the row
  proxy and resource of a model (\<open>policy/row.ts\<close>), \<open>policy()\<close> (\<open>policy/policy.ts\<close>) and
  \<open>definePolicies()\<close> (\<open>policy/define-policies.ts\<close>). The markers that tell DSL nodes from
  plain data are symbol-keyed properties and are stripped before an expression is stored, so
  a node is modelled by its data.
\<close>

datatype authoring_error =
    NonIntegerLiteral
  | InvalidPolicyOperand
  | UnknownPolicyPrincipal string
  | NoActionConfig
  | InvalidPolicyEntry string
  | NotPolicies
  | CallbackError string

section \<open>Expression builders\<close>

datatype operand_input =
    OperandInput policy_operand
  | ExprInput policy_expr
  | StringInput string
  | NumberInput jnum
  | BoolInput bool
  | NullInput

definition literal_of_input :: "operand_input \<Rightarrow> (authoring_error, policy_value) result" where
  "literal_of_input i =
     (case i of
        NullInput \<Rightarrow> Ok PNull
      | BoolInput b \<Rightarrow> Ok (PBool b)
      | NumberInput n \<Rightarrow> if is_integer n then Ok (PInteger n) else Throw NonIntegerLiteral
      | StringInput s \<Rightarrow> Ok (PString s)
      | _ \<Rightarrow> Throw InvalidPolicyOperand)"

definition to_operand :: "operand_input \<Rightarrow> (authoring_error, policy_operand) result" where
  "to_operand i =
     (case i of
        OperandInput o' \<Rightarrow> Ok o'
      | ExprInput _ \<Rightarrow> Throw InvalidPolicyOperand
      | _ \<Rightarrow> rmap Literal (literal_of_input i))"

definition op_cmp :: "cmp_op \<Rightarrow> policy_operand \<Rightarrow> operand_input \<Rightarrow> (authoring_error, policy_expr) result" where
  "op_cmp c node other = rmap (Cmp c node) (to_operand other)"

definition op_is_null :: "policy_operand \<Rightarrow> policy_expr" where
  "op_is_null node = IsNull node"

definition op_is_not_null :: "policy_operand \<Rightarrow> policy_expr" where
  "op_is_not_null node = IsNotNull node"

definition op_in :: "policy_operand \<Rightarrow> operand_input list \<Rightarrow> (authoring_error, policy_expr) result" where
  "op_in node vs = rmap (InList node) (map_r to_operand vs)"

definition expr_and :: "policy_expr list \<Rightarrow> policy_expr" where
  "expr_and es = And es"

definition expr_or :: "policy_expr list \<Rightarrow> policy_expr" where
  "expr_or es = Or es"

definition expr_not :: "policy_expr \<Rightarrow> policy_expr" where
  "expr_not e = Not e"

text \<open>The bag \<open>auth\<close> that callbacks receive.\<close>

definition auth_user_id :: policy_operand where "auth_user_id = Subject UserIdSlot"
definition auth_organization_id :: policy_operand where
  "auth_organization_id = Subject OrganizationIdSlot"
definition auth_session_id :: policy_operand where "auth_session_id = Subject SessionIdSlot"
definition auth_roles :: policy_operand where "auth_roles = Subject RolesSlot"
definition auth_permissions :: policy_operand where "auth_permissions = Subject PermissionsSlot"
definition auth_claim :: "string \<Rightarrow> policy_operand" where "auth_claim path = Subject (ClaimSlot path)"

section \<open>Models\<close>

record model_meta =
  mm_columns :: "(string, string option) odict"
  mm_nullable :: "string list"
  mm_primary_key :: "string list"
  mm_table_name :: "string option"
  mm_model :: "string option"
  mm_schema :: "string option"
  mm_database :: "string option"

type_synonym row_proxy = "(string, policy_operand) odict"

definition physical_name :: "string \<Rightarrow> (string, string option) odict \<Rightarrow> string option" where
  "physical_name logical columns =
     (case map_of columns logical of None \<Rightarrow> None | Some name \<Rightarrow> name)"

definition build_row_proxy :: "model_meta \<Rightarrow> row_proxy" where
  "build_row_proxy m =
     map (\<lambda>k. (k, Column \<lparr>col_logical = k, col_physical = physical_name k (mm_columns m)\<rparr>))
       (nub (map fst (mm_columns m) @ mm_nullable m @ mm_primary_key m))"

definition has_dot :: "string option \<Rightarrow> bool" where
  "has_dot s = (case s of None \<Rightarrow> False | Some t \<Rightarrow> CHR ''.'' \<in> set t)"

definition resource_from_model :: "model_meta \<Rightarrow> policy_resource" where
  "resource_from_model m =
     (let parts = split_on (CHR ''.'') (get_or (mm_table_name m) []);
          table = (if has_dot (mm_table_name m) then last parts
                   else get_or (or_else (mm_table_name m) (mm_model m)) ''unknown'');
          schema = (if present (mm_schema m) = None \<and> has_dot (mm_table_name m)
                    then Some (hd parts) else mm_schema m)
      in \<lparr>res_database = mm_database m, res_schema = schema, res_table = table\<rparr>)"

section \<open>The policy function\<close>

datatype principal_input = PrincipalObject policy_principal | PrincipalString string

datatype principals_input = OnePrincipal principal_input | ManyPrincipals "principal_input list"

datatype allow_result = AllowBool bool | AllowExpr policy_expr

type_synonym allow_callback = "row_proxy \<Rightarrow> (authoring_error, allow_result) result"

record action_config =
  ac_to :: "principals_input option"
  ac_composition :: "composition option"
  ac_allow :: "allow_callback option"
  ac_check :: "allow_callback option"

record policy_config =
  pc_id :: "string option"
  pc_name :: "string option"
  pc_composition :: "composition option"
  pc_actions :: "policy_action \<Rightarrow> action_config option"

definition normalize_principal_input :: "principal_input \<Rightarrow> (authoring_error, policy_principal) result" where
  "normalize_principal_input i =
     (case i of
        PrincipalObject p \<Rightarrow> Ok p
      | PrincipalString s \<Rightarrow>
          if s = ''public'' then Ok PublicPrincipal
          else if s = ''anonymous'' then Ok AnonymousPrincipal
          else if s = ''authenticated'' then Ok AuthenticatedPrincipal
          else if s = ''admin'' then Ok AdminPrincipal
          else if starts_with s ''role:'' then Ok (RolePrincipal (drop 5 s))
          else if starts_with s ''permission:'' then Ok (PermissionPrincipal (drop 11 s))
          else if starts_with s ''service:'' then Ok (ServicePrincipal (drop 8 s))
          else Throw (UnknownPolicyPrincipal s))"

definition normalize_principals ::
  "principals_input option \<Rightarrow> (authoring_error, policy_principal list) result" where
  "normalize_principals i =
     (case i of
        None \<Rightarrow> Ok [AuthenticatedPrincipal]
      | Some (OnePrincipal p) \<Rightarrow> map_r normalize_principal_input [p]
      | Some (ManyPrincipals ps) \<Rightarrow> map_r normalize_principal_input ps)"

definition default_policy_id :: "model_meta \<Rightarrow> policy_action \<Rightarrow> string" where
  "default_policy_id m a =
     (let r = resource_from_model m
      in (case present (res_schema r) of None \<Rightarrow> res_table r | Some s \<Rightarrow> s @ ''.'' @ res_table r)
           @ '':'' @ action_name a)"

text \<open>The expression that \<open>false\<close> stands for: two different literals.\<close>

definition never_expr :: policy_expr where
  "never_expr = Cmp Eq (Literal (PBool True)) (Literal (PBool False))"

definition callback_expr ::
  "allow_callback option \<Rightarrow> row_proxy \<Rightarrow> (authoring_error, policy_expr option) result" where
  "callback_expr cb row =
     (case cb of
        None \<Rightarrow> Ok None
      | Some f \<Rightarrow>
          rmap (\<lambda>r. case r of AllowBool True \<Rightarrow> None | AllowBool False \<Rightarrow> Some never_expr | AllowExpr e \<Rightarrow> Some e)
            (f row))"

definition author_action ::
  "model_meta \<Rightarrow> policy_config \<Rightarrow> policy_action \<Rightarrow> action_config \<Rightarrow>
   (authoring_error, policy_definition) result" where
  "author_action m cfg a ac =
     (let row = build_row_proxy m; r = resource_from_model m
      in rbind (callback_expr (ac_allow ac) row) (\<lambda>visibility.
         rbind (callback_expr (ac_check ac) row) (\<lambda>check.
         rbind (normalize_principals (ac_to ac)) (\<lambda>principals.
           Ok \<lparr>pd_id = get_or (pc_id cfg) (default_policy_id m a), pd_name = pc_name cfg,
               pd_resource = \<lparr>res_database = present (res_database r),
                              res_schema = present (res_schema r), res_table = res_table r\<rparr>,
               pd_actions = jint (action_bit a),
               pd_composition = get_or (ac_composition ac) (get_or (pc_composition cfg) Permissive),
               pd_principals = principals, pd_visibility = visibility, pd_check = check\<rparr>))))"

definition all_actions :: "policy_action list" where
  "all_actions = [Select, Insert, Update, Delete]"

definition configured_actions :: "policy_config \<Rightarrow> (policy_action \<times> action_config) list" where
  "configured_actions cfg =
     concat (map (\<lambda>a. case pc_actions cfg a of None \<Rightarrow> [] | Some ac \<Rightarrow> [(a, ac)]) all_actions)"

definition policy :: "model_meta \<Rightarrow> policy_config \<Rightarrow> (authoring_error, policy_definition list) result" where
  "policy m cfg =
     rbind (map_r (\<lambda>(a, ac). author_action m cfg a ac) (configured_actions cfg)) (\<lambda>ds.
       if ds = [] then Throw NoActionConfig else Ok ds)"

section \<open>Collecting policies\<close>

text \<open>A record entry that is not an authored policy is \<open>None\<close>.\<close>

datatype policies_input =
    AuthoredArray "policy_definition list list"
  | AuthoredOne "policy_definition list"
  | AuthoredRecord "(string, policy_definition list option) odict"
  | NoPoliciesInput

definition entry_definitions ::
  "string \<times> policy_definition list option \<Rightarrow> (authoring_error, policy_definition list) result" where
  "entry_definitions entry =
     (case entry of
        (key, None) \<Rightarrow> Throw (InvalidPolicyEntry key)
      | (key, Some ds) \<Rightarrow>
          Ok (map (\<lambda>d. if length ds = 1 \<and> CHR '':'' \<in> set (pd_id d) then d\<lparr>pd_id := key\<rparr> else d) ds))"

definition define_policies :: "policies_input \<Rightarrow> (authoring_error, policy_document) result" where
  "define_policies inp =
     rmap (\<lambda>ds. \<lparr>doc_ir_version = policy_ir_version, doc_policies = ds\<rparr>)
       (case inp of
          AuthoredArray dss \<Rightarrow> Ok (concat dss)
        | AuthoredOne ds \<Rightarrow> Ok ds
        | AuthoredRecord entries \<Rightarrow> rmap concat (map_r entry_definitions entries)
        | NoPoliciesInput \<Rightarrow> Throw NotPolicies)"

section \<open>Properties of authored policies\<close>

lemma action_mask_single: "actions_from_mask (jint (action_bit a)) = [a]"
  by (cases a) (simp_all add: actions_from_mask_def mask_has_def jint_def to_int32_def rat_trunc_def
      action_bit_def)

lemma author_action_fields:
  "author_action m cfg a ac = Ok d \<Longrightarrow>
   pd_actions d = jint (action_bit a) \<and> pd_id d = get_or (pc_id cfg) (default_policy_id m a) \<and>
   callback_expr (ac_allow ac) (build_row_proxy m) = Ok (pd_visibility d) \<and>
   callback_expr (ac_check ac) (build_row_proxy m) = Ok (pd_check d) \<and>
   normalize_principals (ac_to ac) = Ok (pd_principals d) \<and>
   pd_resource d = (let r = resource_from_model m in
      \<lparr>res_database = present (res_database r), res_schema = present (res_schema r),
       res_table = res_table r\<rparr>)"
  by (auto simp: author_action_def Let_def rbind_eq_Inr)

lemma policy_actions:
  "policy m cfg = Ok ds \<Longrightarrow>
   map (\<lambda>d. actions_from_mask (pd_actions d)) ds = map (\<lambda>p. [fst p]) (configured_actions cfg)"
proof -
  assume "policy m cfg = Ok ds"
  then have "map_r (\<lambda>(a, ac). author_action m cfg a ac) (configured_actions cfg) = Ok ds"
    by (auto simp: policy_def rbind_eq_Inr split: if_splits)
  then have "list_all2 (\<lambda>p d. author_action m cfg (fst p) (snd p) = Ok d) (configured_actions cfg) ds"
    by (simp add: map_r_Inr_iff case_prod_unfold)
  then show ?thesis
    by (induction rule: list_all2_induct) (auto simp: action_mask_single dest: author_action_fields)
qed

lemma policy_member:
  "policy m cfg = Ok ds \<Longrightarrow> d \<in> set ds \<Longrightarrow>
   \<exists>a ac. pc_actions cfg a = Some ac \<and> author_action m cfg a ac = Ok d"
proof -
  assume "policy m cfg = Ok ds" "d \<in> set ds"
  then have "map_r (\<lambda>(a, ac). author_action m cfg a ac) (configured_actions cfg) = Ok ds"
    by (auto simp: policy_def rbind_eq_Inr split: if_splits)
  from map_r_Inr_set [OF this \<open>d \<in> set ds\<close>] obtain a ac
    where "(a, ac) \<in> set (configured_actions cfg)" "author_action m cfg a ac = Ok d"
    by auto
  moreover from this(1) have "pc_actions cfg a = Some ac"
    by (auto simp: configured_actions_def split: option.splits)
  ultimately show ?thesis by blast
qed

lemma never_expr_false: "evaluate_under p never_expr row = Ok False"
  by (simp add: never_expr_def read_under_def read_operand_def cmp_values_def values_equal_def
      nullish_def is_bool_def truthy_def)

lemma callback_false: "callback_expr (Some (\<lambda>_. Ok (AllowBool False))) row = Ok (Some never_expr)"
  by (simp add: callback_expr_def)

lemma never_visibility_denies:
  assumes "is_restrictive d" "pd_visibility d = Some never_expr" "d \<in> set ds"
  shows "holds_under p row (compose_group ds pd_visibility) \<noteq> Ok True \<or> \<not> list_ex is_permissive ds"
proof (rule ccontr)
  assume "\<not> ?thesis"
  then have "admits (\<lambda>e. holds_under p row e = Ok True) ds pd_visibility"
    using compose_sound by blast
  then have "holds_under p row (pd_visibility d) = Ok True"
    using assms by (auto simp: admits_def)
  with assms(2) show False by (simp add: holds_under_def never_expr_false)
qed

text \<open>An explicit id is given to every action, so it cannot be shared by two of them.\<close>

lemma policy_shared_id:
  "policy m cfg = Ok ds \<Longrightarrow> pc_id cfg = Some i \<Longrightarrow> d \<in> set ds \<Longrightarrow> pd_id d = i"
  using policy_member [of m cfg ds d] by (auto dest!: author_action_fields)

lemma shared_id_not_registrable:
  assumes "policy m cfg = Ok ds" "pc_id cfg = Some i" "1 < length ds"
  shows "\<not> distinct (map pd_id ds)"
proof
  assume "distinct (map pd_id ds)"
  then have "pd_id (ds ! 0) \<noteq> pd_id (ds ! 1)"
    using assms(3) nth_eq_iff_index_eq [of "map pd_id ds" 0 1] by (cases ds) simp_all
  moreover have "pd_id (ds ! 0) = i" "pd_id (ds ! 1) = i"
    using policy_shared_id [OF assms(1,2) nth_mem] assms(3) by (simp_all, force)
  ultimately show False by simp
qed

text \<open>Without an explicit id the default ids of one model are distinct.\<close>

lemma action_name_inj: "action_name a = action_name b \<longleftrightarrow> a = b"
  by (cases a; cases b) (simp_all add: action_name_def)

lemma default_id_inj: "default_policy_id m a = default_policy_id m b \<longleftrightarrow> a = b"
  by (simp add: default_policy_id_def Let_def action_name_inj)

lemma distinct_configured: "distinct (map fst (configured_actions cfg))"
  by (simp add: configured_actions_def all_actions_def split: option.splits)

lemma default_ids_distinct:
  assumes "policy m cfg = Ok ds" "pc_id cfg = None"
  shows "distinct (map pd_id ds)"
proof -
  have "map_r (\<lambda>(a, ac). author_action m cfg a ac) (configured_actions cfg) = Ok ds"
    using assms(1) by (auto simp: policy_def rbind_eq_Inr split: if_splits)
  then have "list_all2 (\<lambda>p d. author_action m cfg (fst p) (snd p) = Ok d) (configured_actions cfg) ds"
    by (simp add: map_r_Inr_iff case_prod_unfold)
  then have "map pd_id ds = map (\<lambda>p. default_policy_id m (fst p)) (configured_actions cfg)"
    by (induction rule: list_all2_induct) (auto simp: assms(2) dest: author_action_fields)
  also have "\<dots> = map (default_policy_id m) (map fst (configured_actions cfg))" by simp
  finally show ?thesis
    using distinct_configured [of cfg] by (simp add: distinct_map inj_on_def default_id_inj)
qed

section \<open>The row proxy\<close>

lemma row_proxy_keys: "fst ` set (build_row_proxy m) =
    fst ` set (mm_columns m) \<union> set (mm_nullable m) \<union> set (mm_primary_key m)"
  by (force simp: build_row_proxy_def image_iff)

lemma row_proxy_distinct: "distinct (map fst (build_row_proxy m))"
  by (simp add: build_row_proxy_def o_def)

lemma row_proxy_column:
  "(k, o') \<in> set (build_row_proxy m) \<Longrightarrow>
   o' = Column \<lparr>col_logical = k, col_physical = physical_name k (mm_columns m)\<rparr>"
  by (auto simp: build_row_proxy_def)

lemma resource_two_part:
  assumes "is_identifier s" "is_identifier t" "mm_table_name m = Some (s @ ''.'' @ t)"
    "present (mm_schema m) = None"
  shows "resource_from_model m = \<lparr>res_database = mm_database m, res_schema = Some s, res_table = t\<rparr>"
proof -
  have "CHR ''.'' \<notin> set s" "CHR ''.'' \<notin> set t"
    using assms(1,2) is_identifier_parts ident_part_no_dot by (auto simp: list_all_iff)
  then have "split_on (CHR ''.'') (s @ CHR ''.'' # t) = [s, t]"
    by (simp add: split_on_append_sep split_on_no_sep)
  then show ?thesis using assms(3,4) by (simp add: resource_from_model_def has_dot_def)
qed

end
