(* ===== verification/JsSort.thy ===== *)
theory JsSort
  imports JsString "HOL-Library.Multiset"
begin

text \<open>
  \<open>Array.prototype.sort\<close> with a comparator: a stable sort. The laws of a comparator are the
  locale \<open>comparator\<close>; under them the result is a sorted permutation, and it does not depend
  on the input order when only equal elements compare equal. The two string orders of the
  program are instances.
\<close>

fun insort_by :: "('a \<Rightarrow> 'a \<Rightarrow> int) \<Rightarrow> 'a \<Rightarrow> 'a list \<Rightarrow> 'a list" where
  "insort_by cmp x [] = [x]"
| "insort_by cmp x (y # ys) = (if 0 < cmp x y then y # insort_by cmp x ys else x # y # ys)"

definition js_sort :: "('a \<Rightarrow> 'a \<Rightarrow> int) \<Rightarrow> 'a list \<Rightarrow> 'a list" where
  "js_sort cmp xs = foldr (insort_by cmp) xs []"

lemma mset_insort_by [simp]: "mset (insort_by cmp x xs) = add_mset x (mset xs)"
  by (induction xs) auto

lemma mset_js_sort [simp]: "mset (js_sort cmp xs) = mset xs"
  by (induction xs) (simp_all add: js_sort_def)

lemma set_js_sort [simp]: "set (js_sort cmp xs) = set xs"
  by (metis mset_js_sort set_mset_mset)

lemma length_js_sort [simp]: "length (js_sort cmp xs) = length xs"
  by (metis mset_js_sort size_mset)

lemma distinct_js_sort: "distinct (map f (js_sort cmp xs)) \<longleftrightarrow> distinct (map f xs)"
  by (rule mset_eq_imp_distinct_iff) simp

lemma sorted_perm_unique:
  assumes "sorted_wrt R xs" "sorted_wrt R ys" "mset xs = mset ys"
    and "\<And>a b. a \<in> set xs \<Longrightarrow> b \<in> set xs \<Longrightarrow> R a b \<Longrightarrow> R b a \<Longrightarrow> a = b"
  shows "xs = ys"
  using assms
proof (induction xs arbitrary: ys)
  case (Cons x xs)
  then obtain y ys' where ys: "ys = y # ys'" by (cases ys) auto
  have sets: "set (x # xs) = set (y # ys')" using Cons.prems(3) ys mset_eq_setD by blast
  have "x = y"
  proof (rule ccontr)
    assume "x \<noteq> y"
    then have "y \<in> set xs" "x \<in> set ys'" using sets by auto
    then have "R x y" "R y x" using Cons.prems(1,2) ys by auto
    with Cons.prems(4) sets \<open>x \<noteq> y\<close> show False by auto
  qed
  moreover from this have "xs = ys'" using Cons by (auto simp: ys)
  ultimately show ?case by (simp add: ys)
qed simp

section \<open>Comparators\<close>

locale comparator =
  fixes cmp :: "'a \<Rightarrow> 'a \<Rightarrow> int"
  assumes cmp_sign: "cmp b a < 0 \<longleftrightarrow> 0 < cmp a b"
    and cmp_trans: "cmp a b \<le> 0 \<Longrightarrow> cmp b c \<le> 0 \<Longrightarrow> cmp a c \<le> 0"
begin

lemma insort_sorted:
  "sorted_wrt (\<lambda>a b. cmp a b \<le> 0) xs \<Longrightarrow> sorted_wrt (\<lambda>a b. cmp a b \<le> 0) (insort_by cmp x xs)"
proof (induction xs)
  case (Cons y ys)
  show ?case
  proof (cases "0 < cmp x y")
    case True
    then have "cmp y x \<le> 0" using cmp_sign [of y x] by linarith
    moreover have "set (insort_by cmp x ys) = insert x (set ys)"
      by (metis mset_insort_by set_mset_add_mset_insert set_mset_mset)
    ultimately show ?thesis using Cons True by auto
  next
    case False
    then have "cmp x z \<le> 0" if "z \<in> set ys" for z
      using that Cons.prems cmp_trans [of x y z] by auto
    with False Cons.prems show ?thesis by auto
  qed
qed simp

lemma sort_sorted: "sorted_wrt (\<lambda>a b. cmp a b \<le> 0) (js_sort cmp xs)"
  by (induction xs) (simp_all add: js_sort_def insort_sorted)

lemma sort_perm:
  assumes "mset xs = mset ys"
    and "\<And>a b. a \<in> set xs \<Longrightarrow> b \<in> set xs \<Longrightarrow> cmp a b = 0 \<Longrightarrow> a = b"
  shows "js_sort cmp xs = js_sort cmp ys"
proof (rule sorted_perm_unique [OF sort_sorted sort_sorted])
  show "mset (js_sort cmp xs) = mset (js_sort cmp ys)" by (simp add: assms(1))
  show "a = b" if "a \<in> set (js_sort cmp xs)" "b \<in> set (js_sort cmp xs)"
    "cmp a b \<le> 0" "cmp b a \<le> 0" for a b
    using that assms(2) cmp_sign [of a b] by auto
qed

lemma insort_min: "(\<And>y. y \<in> set xs \<Longrightarrow> cmp x y \<le> 0) \<Longrightarrow> insort_by cmp x xs = x # xs"
proof (cases xs)
  case (Cons y ys)
  assume "\<And>y. y \<in> set xs \<Longrightarrow> cmp x y \<le> 0"
  then have "cmp x y \<le> 0" by (simp add: Cons)
  then show ?thesis by (simp add: Cons)
qed simp

lemma sort_id: "sorted_wrt (\<lambda>a b. cmp a b \<le> 0) xs \<Longrightarrow> js_sort cmp xs = xs"
proof (induction xs)
  case (Cons x xs)
  then have "js_sort cmp (x # xs) = insort_by cmp x xs" by (simp add: js_sort_def)
  also have "\<dots> = x # xs" using Cons.prems by (intro insort_min) simp
  finally show ?case .
qed (simp add: js_sort_def)

end

section \<open>The comparators of the program\<close>

lemma compare_keys_le_Cons:
  "compare_keys (x # xs) (y # ys) \<le> 0 \<longleftrightarrow> x < y \<or> x = y \<and> compare_keys xs ys \<le> 0"
  by auto

lemma compare_keys_le_Nil [simp]:
  "compare_keys [] ys \<le> 0" "compare_keys (x # xs) [] \<le> 0 \<longleftrightarrow> False"
  by (cases ys) auto

lemma compare_keys_trans:
  "compare_keys xs ys \<le> 0 \<Longrightarrow> compare_keys ys zs \<le> 0 \<Longrightarrow> compare_keys xs zs \<le> 0"
proof (induction xs arbitrary: ys zs)
  case (Cons x xs)
  from Cons.prems(1) obtain y ys' where ys: "ys = y # ys'" by (cases ys) auto
  from Cons.prems(2) ys obtain z zs' where zs: "zs = z # zs'" by (cases zs) auto
  have "x < y \<or> x = y \<and> compare_keys xs ys' \<le> 0" "y < z \<or> y = z \<and> compare_keys ys' zs' \<le> 0"
    using Cons.prems unfolding ys zs compare_keys_le_Cons by blast+
  then show ?case using Cons.IH [of ys' zs'] unfolding zs compare_keys_le_Cons by fastforce
qed simp

lemma locale_compare_trans:
  assumes "locale_compare a b \<le> 0" "locale_compare b c \<le> 0"
  shows "locale_compare a c \<le> 0"
proof -
  let ?p = "\<lambda>x y. compare_keys (primary_key x) (primary_key y)"
  have le: "?p a b \<le> 0" "?p b c \<le> 0" using assms by (auto simp: locale_compare_def Let_def split: if_splits)
  then have ac: "?p a c \<le> 0" by (rule compare_keys_trans)
  show ?thesis
  proof (cases "?p a c = 0")
    case True
    then have "primary_key a = primary_key c" by (simp add: compare_keys_0_iff)
    then have "?p a b = - ?p b c" using compare_keys_sym [of "primary_key b" "primary_key a"] by simp
    with le have "?p a b = 0" "?p b c = 0" by auto
    then have "compare_keys (case_key a) (case_key b) \<le> 0" "compare_keys (case_key b) (case_key c) \<le> 0"
      using assms by (auto simp: locale_compare_def)
    then show ?thesis using True compare_keys_trans by (auto simp: locale_compare_def)
  next
    case False
    with ac show ?thesis by (simp add: locale_compare_def Let_def)
  qed
qed

interpretation collation: comparator locale_compare
proof
  show "locale_compare b a < 0 \<longleftrightarrow> 0 < locale_compare a b" for a b
    using locale_compare_antisym [of a b] by simp
qed (rule locale_compare_trans)

text \<open>Sorting records by a collated key.\<close>

definition compare_on :: "('a \<Rightarrow> string) \<Rightarrow> 'a \<Rightarrow> 'a \<Rightarrow> int" where
  "compare_on f a b = locale_compare (f a) (f b)"

interpretation collated: comparator "compare_on f" for f
proof
  show "compare_on f b a < 0 \<longleftrightarrow> 0 < compare_on f a b" for a b
    using collation.cmp_sign by (simp add: compare_on_def)
  show "compare_on f a c \<le> 0" if "compare_on f a b \<le> 0" "compare_on f b c \<le> 0" for a b c
    using that collation.cmp_trans [of "f a" "f b" "f c"] by (simp add: compare_on_def)
qed

text \<open>The default order of \<open>sort()\<close> on strings: code units.\<close>

definition unit_compare :: "string \<Rightarrow> string \<Rightarrow> int" where
  "unit_compare a b = (if str_less a b then - 1 else if str_less b a then 1 else 0)"

lemma unit_compare_le: "unit_compare a b \<le> 0 \<longleftrightarrow> str_le a b"
  using str_less_asym by (auto simp: unit_compare_def str_le_def)

lemma unit_compare_0: "unit_compare a b = 0 \<longleftrightarrow> a = b"
  using str_less_linear [of a b] str_less_asym [of a b] by (auto simp: unit_compare_def)

definition unit_compare_on :: "('a \<Rightarrow> string) \<Rightarrow> 'a \<Rightarrow> 'a \<Rightarrow> int" where
  "unit_compare_on f a b = unit_compare (f a) (f b)"

interpretation code_units: comparator "unit_compare_on f" for f
proof
  show "unit_compare_on f b a < 0 \<longleftrightarrow> 0 < unit_compare_on f a b" for a b
    using str_less_asym by (auto simp: unit_compare_on_def unit_compare_def)
  show "unit_compare_on f a c \<le> 0" if "unit_compare_on f a b \<le> 0" "unit_compare_on f b c \<le> 0" for a b c
    using that str_le_trans by (auto simp: unit_compare_on_def unit_compare_le)
qed

text \<open>Two keys that collate equal and the first level tells nothing: a key with its own order.\<close>

definition ranked_compare :: "('a \<Rightarrow> int) \<Rightarrow> ('a \<Rightarrow> string) \<Rightarrow> 'a \<Rightarrow> 'a \<Rightarrow> int" where
  "ranked_compare rank f a b =
     (if rank a - rank b \<noteq> 0 then rank a - rank b else locale_compare (f a) (f b))"

lemma ranked_compare_0:
  "ranked_compare rank f a b = 0 \<longleftrightarrow> rank a = rank b \<and> locale_compare (f a) (f b) = 0"
  by (simp add: ranked_compare_def)

interpretation ranked: comparator "ranked_compare rank f" for rank f
proof
  show "ranked_compare rank f b a < 0 \<longleftrightarrow> 0 < ranked_compare rank f a b" for a b
    using collation.cmp_sign [of "f b" "f a"] by (auto simp: ranked_compare_def)
  show "ranked_compare rank f a c \<le> 0"
    if "ranked_compare rank f a b \<le> 0" "ranked_compare rank f b c \<le> 0" for a b c
    using that collation.cmp_trans [of "f a" "f b" "f c"]
    by (auto simp: ranked_compare_def split: if_splits)
qed

end
