(* ===== verification/JsJson.thy ===== *)
theory JsJson
  imports JsValue
begin

text \<open>\<open>JSON.stringify\<close> of a value, without indentation.\<close>

definition hex_char :: "nat \<Rightarrow> char" where
  "hex_char n = (if n < 10 then char_of (48 + n) else char_of (87 + n))"

definition escape_char :: "char \<Rightarrow> string" where
  "escape_char c =
     (if c = CHR 0x22 then [CHR 0x5C, CHR 0x22]
      else if c = CHR 0x5C then [CHR 0x5C, CHR 0x5C]
      else if code c = 8 then [CHR 0x5C, CHR ''b'']
      else if code c = 9 then [CHR 0x5C, CHR ''t'']
      else if code c = 10 then [CHR 0x5C, CHR ''n'']
      else if code c = 12 then [CHR 0x5C, CHR ''f'']
      else if code c = 13 then [CHR 0x5C, CHR ''r'']
      else if code c < 32 then
        [CHR 0x5C, CHR ''u'', CHR ''0'', CHR ''0'', hex_char (code c div 16), hex_char (code c mod 16)]
      else [c])"

definition quote_json :: "string \<Rightarrow> string" where
  "quote_json s = CHR 0x22 # concat (map escape_char s) @ [CHR 0x22]"

text \<open>\<open>JSON.stringify\<close> with no indentation; a field holding \<open>undefined\<close> or a function is left out.\<close>

definition in_json :: "jval \<Rightarrow> bool" where
  "in_json v = (case v of Undefined \<Rightarrow> False | JFun _ \<Rightarrow> False | _ \<Rightarrow> True)"

fun stringify :: "jval \<Rightarrow> string" where
  "stringify (JBool b) = (if b then ''true'' else ''false'')"
| "stringify (JNum n) = (if is_finite n then number_to_string n else ''null'')"
| "stringify (JStr s) = quote_json s"
| "stringify (JArr vs) = ''['' @ js_join '','' (map stringify vs) @ '']''"
| "stringify (JObj i fs) =
     ''{'' @ js_join '','' (concat (map (\<lambda>(k, v).
        if in_json v then [quote_json k @ '':'' @ stringify v] else []) fs)) @ ''}''"
| "stringify _ = ''null''"

end
