(* ===== verification/PolicyFingerprint.thy ===== *)
theory PolicyFingerprint
  imports PolicyValidate JsSort JsJson
begin

text \<open>
  The fingerprint of a policy document (\<open>policy/fingerprint.ts\<close>): policies sorted by id,
  principals sorted by kind and name, object keys sorted, then compact JSON and a digest. The
  digest (\<open>node-crypto.ts\<close>, SHA-256) is a parameter.
\<close>

section \<open>The canonical form\<close>

definition principal_rank :: "policy_principal \<Rightarrow> int" where
  "principal_rank p =
     (case p of
        PublicPrincipal \<Rightarrow> 0
      | AnonymousPrincipal \<Rightarrow> 1
      | AuthenticatedPrincipal \<Rightarrow> 2
      | RolePrincipal _ \<Rightarrow> 3
      | PermissionPrincipal _ \<Rightarrow> 4
      | ServicePrincipal _ \<Rightarrow> 5
      | AdminPrincipal \<Rightarrow> 6)"

definition principal_sort_name :: "policy_principal \<Rightarrow> string" where
  "principal_sort_name p =
     (case p of
        RolePrincipal n \<Rightarrow> n
      | PermissionPrincipal n \<Rightarrow> n
      | ServicePrincipal n \<Rightarrow> n
      | _ \<Rightarrow> [])"

text \<open>\<open>value ?? null\<close> on an optional string or expression.\<close>

definition string_or_null :: "string option \<Rightarrow> jval" where
  "string_or_null s = (case s of None \<Rightarrow> Null | Some t \<Rightarrow> JStr t)"

definition expr_or_null :: "policy_expr option \<Rightarrow> jval" where
  "expr_or_null e = (case e of None \<Rightarrow> Null | Some x \<Rightarrow> encode_expr x)"

definition sort_principals :: "policy_principal list \<Rightarrow> policy_principal list" where
  "sort_principals ps = js_sort (ranked_compare principal_rank principal_sort_name) ps"

definition canonicalize_policy :: "policy_definition \<Rightarrow> jval" where
  "canonicalize_policy d =
     wire [(''id'', JStr (pd_id d)),
           (''name'', string_or_null (pd_name d)),
           (''resource'',
            wire [(''database'', string_or_null (res_database (pd_resource d))),
                  (''schema'', string_or_null (res_schema (pd_resource d))),
                  (''table'', JStr (res_table (pd_resource d)))]),
           (''actions'', JArr (map (\<lambda>a. JStr (action_name a)) (actions_from_mask (pd_actions d)))),
           (''composition'',
            JStr (case pd_composition d of Permissive \<Rightarrow> ''permissive'' | Restrictive \<Rightarrow> ''restrictive'')),
           (''principals'', JArr (map encode_principal (sort_principals (pd_principals d)))),
           (''visibility'', expr_or_null (pd_visibility d)),
           (''check'', expr_or_null (pd_check d)),
           (''extensions'', wire [])]"

definition sort_policies :: "policy_definition list \<Rightarrow> policy_definition list" where
  "sort_policies ds = js_sort (compare_on pd_id) ds"

definition canonicalize_document :: "policy_document \<Rightarrow> jval" where
  "canonicalize_document doc =
     wire [(''irVersion'', JNum (jint (doc_ir_version doc))),
           (''policies'', JArr (map canonicalize_policy (sort_policies (doc_policies doc))))]"

section \<open>Sorted keys and compact JSON\<close>

text \<open>Rebuilding an object in key order; the map keeps one entry per key.\<close>

fun sort_value :: "jval \<Rightarrow> jval" where
  "sort_value (JArr vs) = JArr (map sort_value vs)"
| "sort_value (JObj i fs) =
     JObj 0 (js_sort (unit_compare_on fst) (map (\<lambda>(k, v). (k, sort_value v)) fs))"
| "sort_value v = v"


definition fingerprint_document :: "(string \<Rightarrow> string) \<Rightarrow> policy_document \<Rightarrow> string" where
  "fingerprint_document sha256 doc = sha256 (stringify (sort_value (canonicalize_document doc)))"

section \<open>What the fingerprint ignores\<close>

text \<open>Names that collate equal only when they are equal: what makes a sort order-independent.\<close>

definition collation_distinct :: "string set \<Rightarrow> bool" where
  "collation_distinct ns \<longleftrightarrow> (\<forall>a \<in> ns. \<forall>b \<in> ns. locale_compare a b = 0 \<longrightarrow> a = b)"

lemma principal_key_inj:
  "principal_rank p = principal_rank q \<Longrightarrow> principal_sort_name p = principal_sort_name q \<Longrightarrow> p = q"
  by (cases p; cases q) (simp_all add: principal_rank_def principal_sort_name_def)

lemma sort_principals_perm:
  assumes "mset ps = mset qs" "collation_distinct (principal_sort_name ` set ps)"
  shows "sort_principals ps = sort_principals qs"
  unfolding sort_principals_def
proof (rule ranked.sort_perm [OF assms(1)])
  fix a b assume "a \<in> set ps" "b \<in> set ps"
    and "ranked_compare principal_rank principal_sort_name a b = 0"
  then have "principal_rank a = principal_rank b" "principal_sort_name a = principal_sort_name b"
    using assms(2) unfolding ranked_compare_0 collation_distinct_def by blast+
  then show "a = b" by (rule principal_key_inj)
qed

lemma sort_policies_perm:
  assumes "mset ds = mset ds'" "distinct (map pd_id ds)" "collation_distinct (pd_id ` set ds)"
  shows "sort_policies ds = sort_policies ds'"
  unfolding sort_policies_def
proof (rule collated.sort_perm [OF assms(1)])
  fix a b assume "a \<in> set ds" "b \<in> set ds" "compare_on pd_id a b = 0"
  then have "pd_id a = pd_id b" using assms(3) by (auto simp: compare_on_def collation_distinct_def)
  with assms(2) \<open>a \<in> set ds\<close> \<open>b \<in> set ds\<close> show "a = b" by (metis distinct_map inj_onD)
qed

text \<open>Documents that differ in the order of policies and of principals only.\<close>

definition same_policy :: "policy_definition \<Rightarrow> policy_definition \<Rightarrow> bool" where
  "same_policy d e \<longleftrightarrow>
     e = d\<lparr>pd_principals := pd_principals e\<rparr> \<and> mset (pd_principals d) = mset (pd_principals e)"

lemma canonicalize_same_policy:
  assumes "same_policy d e" "collation_distinct (principal_sort_name ` set (pd_principals d))"
  shows "canonicalize_policy d = canonicalize_policy e"
proof -
  obtain ps where e: "e = d\<lparr>pd_principals := ps\<rparr>" and "mset (pd_principals d) = mset ps"
    using assms(1) by (metis same_policy_def)
  then have "sort_principals (pd_principals d) = sort_principals ps"
    using assms(2) sort_principals_perm by blast
  then show ?thesis by (simp add: canonicalize_policy_def e)
qed

lemma canonicalize_document_perm:
  assumes "mset (doc_policies doc) = mset (doc_policies doc')"
    and "doc_ir_version doc = doc_ir_version doc'"
    and "distinct (map pd_id (doc_policies doc))" "collation_distinct (pd_id ` set (doc_policies doc))"
  shows "canonicalize_document doc = canonicalize_document doc'"
  using sort_policies_perm [OF assms(1,3,4)] assms(2) by (simp add: canonicalize_document_def)

end
