(* ===== verification/PolicyProperties.thy ===== *)
theory PolicyProperties
  imports PolicyApply PolicyAuthoring PolicyFingerprint
begin

text \<open>
  The properties of Athena Policy, each with the concrete input its hypotheses hold at. The
  samples below are one tenant-scoped table with a permissive policy for every caller's own
  rows and a restrictive one.
\<close>

section \<open>Samples\<close>

definition sample_caller :: principal where
  "sample_caller = anonymous_principal\<lparr>pr_authenticated := True, pr_user_id := Some ''u1''\<rparr>"

definition own_rows :: policy_expr where
  "own_rows = Cmp Eq (Column \<lparr>col_logical = ''userId'', col_physical = Some ''user_id''\<rparr>) (Subject UserIdSlot)"

definition not_deleted :: policy_expr where
  "not_deleted = IsNull (Column \<lparr>col_logical = ''deleted'', col_physical = None\<rparr>)"

definition sample_resource :: policy_resource where
  "sample_resource = \<lparr>res_database = None, res_schema = Some ''a'', res_table = ''t''\<rparr>"

definition owner_policy :: policy_definition where
  "owner_policy =
     \<lparr>pd_id = ''own'', pd_name = None, pd_resource = sample_resource, pd_actions = jint 1,
      pd_composition = Permissive, pd_principals = [AuthenticatedPrincipal],
      pd_visibility = Some own_rows, pd_check = Some own_rows\<rparr>"

definition live_policy :: policy_definition where
  "live_policy =
     owner_policy\<lparr>pd_id := ''live'', pd_composition := Restrictive, pd_principals := [],
       pd_visibility := Some not_deleted, pd_check := None\<rparr>"

definition sample_options :: registry_options where
  "sample_options =
     \<lparr>ro_definitions = AuthoredInput [owner_policy, live_policy], ro_mode = Enforce,
      ro_model_index = None\<rparr>"

definition sample_registry :: policy_registry where
  "sample_registry =
     \<lparr>rg_mode = Enforce, rg_definitions = [owner_policy, live_policy],
      rg_index = build_index [owner_policy, live_policy]\<rparr>"

lemma sample_created: "create_policy_registry sample_options = Ok sample_registry"
  by code_simp

definition sample_input :: decide_input where
  "sample_input = \<lparr>di_action = Select, di_principal = sample_caller, di_resource = ''a.t''\<rparr>"

definition own_row :: fields where
  "own_row = [(''user_id'', JStr ''u1''), (''deleted'', Null)]"

definition sample_decision :: policy_decision where
  "sample_decision = decide_athena_policy Enforce (registry_get sample_registry) sample_input"

section \<open>Validation and the registry\<close>

text \<open>
  C1. The validator of \<open>validate-ir.ts\<close> accepts a JSON value exactly when it is a sound policy: an
  id and a table that are not blank, a mask that is positive and below 16 in 32 bits, one of the two
  compositions, known principals with the names they need, and sound expressions, in which columns
  and subject slots are named and connectives are not empty. On the wire form of a typed policy this
  is the well-formedness that a registry asks for.
\<close>

theorem validation_exact:
  "(validate_policy_definition v = Ok () \<longleftrightarrow> sound_policy v) \<and>
   (validate_policy_definition (encode_definition d) = Ok () \<longleftrightarrow> definition_wf d)"
  by (intro conjI validate_policy_iff validate_encode_definition)

text \<open>
  A registry is created exactly from well-formed definitions with distinct ids whose
  resources, in enforce mode with a model index, are all known; it then keeps the definitions
  in the order they were given.
\<close>

lemma registry_creation_exact:
  "create_policy_registry opts = Ok rg \<longleftrightarrow>
   (\<exists>ds. normalize_policy_definitions (ro_definitions opts) = Ok ds \<and> registrable opts ds \<and>
         rg = \<lparr>rg_mode = ro_mode opts, rg_definitions = ds, rg_index = build_index ds\<rparr>)"
  by (rule create_registry_iff)

text \<open>
  C2. The two-level index answers as the plain list of definitions would: \<open>get\<close> returns, in
  registration order, the definitions registered under the first lookup key that has any for
  the action.
\<close>

theorem registry_lookup_exact:
  "create_policy_registry opts = Ok rg \<Longrightarrow>
   registry_get rg resource a = governing (rg_definitions rg) a (lookup_keys resource)"
  by (rule registry_get_governing) (rule created_index)

theorem registry_lookup_exact_witness:
  "registry_get sample_registry '' t '' Select = [owner_policy, live_policy]"
  using registry_lookup_exact [OF sample_created, of "'' t ''" Select]
  by (simp add: sample_registry_def) code_simp

text \<open>
  What a lookup of a qualified resource finds when no policy is registered under that
  schema: every policy of a table of that name, whatever schema it was written for. A policy
  for \<open>a.t\<close> therefore governs \<open>b.t\<close>.
\<close>

lemma registry_cross_schema:
  assumes "create_policy_registry opts = Ok rg"
    and "is_identifier s" "is_identifier t"
    and "filter (registered (s @ ''.'' @ t) a) (rg_definitions rg) = []"
  shows "registry_get rg (s @ ''.'' @ t) a = filter (registered t a) (rg_definitions rg)"
proof -
  have dots: "CHR ''.'' \<notin> set s" "CHR ''.'' \<notin> set t" "t \<noteq> []"
    using assms(2,3) is_identifier_parts ident_part_no_dot
    by (auto simp: list_all_iff is_identifier_def)
  have ws: "list_all (\<lambda>c. \<not> is_ws c) (s @ CHR ''.'' # t)"
    using is_identifier_parts [OF assms(2)] is_identifier_parts [OF assms(3)] ident_part_not_ws
    by (auto simp: list_all_iff char_class_defs)
  have "lookup_keys (s @ ''.'' @ t) = [s @ ''.'' @ t, t]"
    using dots js_trim_id [OF ws] by (simp add: lookup_keys_def split_on_append_sep split_on_no_sep)
  then show ?thesis
    using registry_get_governing [OF created_index [OF assms(1)], of "s @ ''.'' @ t" a] assms(4)
    by simp
qed

lemma registry_cross_schema_witness:
  "registry_get sample_registry (''b'' @ ''.'' @ ''t'') Select = [owner_policy, live_policy] \<and>
   res_schema (pd_resource owner_policy) = Some ''a''"
proof -
  have "filter (registered (''b'' @ ''.'' @ ''t'') Select) (rg_definitions sample_registry) = []"
    "is_identifier ''b''" "is_identifier ''t''"
    "filter (registered ''t'' Select) (rg_definitions sample_registry) = [owner_policy, live_policy]"
    "res_schema (pd_resource owner_policy) = Some ''a''"
    by code_simp+
  then show ?thesis using registry_cross_schema [OF sample_created, of "''b''" "''t''" Select] by simp
qed

section \<open>Decisions\<close>

text \<open>
  C3. Fail-closed decisions: outside disabled mode a caller is allowed exactly when a permissive
  policy among those the source returns for the resource and action applies to it; and a
  decision that does not allow carries no expression.
\<close>

theorem decision_fail_closed:
  "mode \<noteq> Disabled \<Longrightarrow>
   (dec_allowed (decide_athena_policy mode get inp) \<longleftrightarrow>
     (\<exists>d \<in> set (get (di_resource inp) (di_action inp)).
        is_permissive d \<and> policy_applies_to_principal (pd_principals d) (di_principal inp))) \<and>
   (\<not> dec_allowed (decide_athena_policy mode get inp) \<longrightarrow>
      dec_visibility (decide_athena_policy mode get inp) = None \<and>
      dec_check (decide_athena_policy mode get inp) = None)"
  by (simp add: decide_allowed_iff decide_exprs_need_allowed)

theorem decision_fail_closed_witness:
  "dec_allowed (decide_athena_policy Enforce (registry_get sample_registry) sample_input) \<and>
   \<not> dec_allowed (decide_athena_policy Enforce (registry_get sample_registry)
        (sample_input\<lparr>di_principal := anonymous_principal\<rparr>))"
proof -
  have "\<exists>d \<in> set (registry_get sample_registry (di_resource sample_input) (di_action sample_input)).
      is_permissive d \<and> policy_applies_to_principal (pd_principals d) (di_principal sample_input)"
    "\<not> (\<exists>d \<in> set (registry_get sample_registry (di_resource sample_input) (di_action sample_input)).
      is_permissive d \<and> policy_applies_to_principal (pd_principals d) anonymous_principal)"
    by code_simp+
  then show ?thesis
    using decision_fail_closed [of Enforce "registry_get sample_registry" sample_input]
      decision_fail_closed [of Enforce "registry_get sample_registry"
        "sample_input\<lparr>di_principal := anonymous_principal\<rparr>"]
    by simp
qed

text \<open>
  The ids a decision reports are ids of registered policies that govern the action and apply
  to the caller, each reported once.
\<close>

lemma decision_reports_registered:
  assumes "create_policy_registry opts = Ok rg"
  shows "distinct (dec_matched (decide_athena_policy mode (registry_get rg) inp)) \<and>
    (\<forall>i \<in> set (dec_matched (decide_athena_policy mode (registry_get rg) inp)).
      \<exists>d \<in> set (rg_definitions rg). pd_id d = i \<and> mask_has (pd_actions d) (di_action inp) \<and>
        policy_applies_to_principal (pd_principals d) (di_principal inp))"
proof -
  have get: "registry_get rg = source_get (rg_definitions rg)"
    by (rule registry_get_source) (rule created_index [OF assms])
  have ids: "distinct (map pd_id (rg_definitions rg))"
    using assms by (auto simp: create_registry_iff registrable_def)
  show ?thesis
    unfolding get
    using registry_source.decide_matched_distinct [OF ids] registry_source.decide_matched_ids
    by blast
qed

lemma decision_reports_registered_witness:
  "distinct (dec_matched sample_decision) \<and> mask_has (pd_actions owner_policy) Select"
proof -
  have "''own'' \<in> set (dec_matched sample_decision)" by code_simp
  then have "''own'' \<in> set (dec_matched (decide_athena_policy Enforce (registry_get sample_registry) sample_input))"
    by (simp add: sample_decision_def)
  with decision_reports_registered [OF sample_created, of Enforce sample_input]
  have "\<exists>d \<in> set [owner_policy, live_policy]. pd_id d = ''own'' \<and> mask_has (pd_actions d) Select"
    by (auto simp: sample_registry_def sample_input_def)
  then show ?thesis
    using decision_reports_registered [OF sample_created, of Enforce sample_input]
    by (auto simp: sample_decision_def live_policy_def)
qed

text \<open>
  C4. Soundness of composition, for visibility and check alike: if the composed expression of an
  allowed decision holds on a row for a caller, then some permissive policy that applies admits
  the row and so does every restrictive one. No assumption on errors: an expression that fails
  on the row can only deny.
\<close>

theorem composition_sound:
  assumes "mode \<noteq> Disabled" "dec_allowed (decide_athena_policy mode get inp)"
  shows "(holds_under p row (dec_visibility (decide_athena_policy mode get inp)) = Ok True \<longrightarrow>
      admits (\<lambda>e. holds_under p row e = Ok True) (matching_policies get inp) pd_visibility) \<and>
    (holds_under p row (dec_check (decide_athena_policy mode get inp)) = Ok True \<longrightarrow>
      admits (\<lambda>e. holds_under p row e = Ok True) (matching_policies get inp) pd_check)"
  using assms by (auto simp: decide_active Let_def intro: compose_sound split: if_splits)

theorem composition_sound_witness:
  "admits (\<lambda>e. holds_under sample_caller own_row e = Ok True) [owner_policy, live_policy] pd_visibility"
proof -
  have "dec_allowed (decide_athena_policy Enforce (registry_get sample_registry) sample_input)"
    "holds_under sample_caller own_row
       (dec_visibility (decide_athena_policy Enforce (registry_get sample_registry) sample_input)) = Ok True"
    "matching_policies (registry_get sample_registry) sample_input = [owner_policy, live_policy]"
    by code_simp+
  then show ?thesis
    using composition_sound [of Enforce "registry_get sample_registry" sample_input sample_caller own_row]
    by simp
qed

text \<open>
  C5. Exactness of composition: where none of the matching expressions fails on the row, the
  composed expression returns exactly the row-level security rule, the disjunction of the
  permissive policies in conjunction with all restrictive ones (an absent expression admits).
\<close>

theorem composition_exact:
  assumes "mode \<noteq> Disabled" "dec_allowed (decide_athena_policy mode get inp)"
    and "\<And>d e. d \<in> set (matching_policies get inp) \<Longrightarrow> pd_visibility d = Some e \<Longrightarrow>
      evaluate_under p e row = Ok (q e)"
  shows "holds_under p row (dec_visibility (decide_athena_policy mode get inp)) =
    Ok (admits (\<lambda>e. case e of None \<Rightarrow> True | Some x \<Rightarrow> q x) (matching_policies get inp) pd_visibility)"
proof -
  have "list_ex is_permissive (matching_policies get inp)"
    and "dec_visibility (decide_athena_policy mode get inp) =
      compose_group (matching_policies get inp) pd_visibility"
    using assms(1,2) by (auto simp: decide_active Let_def)
  with compose_complete [of "matching_policies get inp" pd_visibility p row q] assms(3)
  show ?thesis by simp
qed

theorem composition_exact_witness:
  "holds_under sample_caller [(''user_id'', JStr ''u2''), (''deleted'', Null)]
     (dec_visibility (decide_athena_policy Enforce (registry_get sample_registry) sample_input)) =
   Ok (admits (\<lambda>e. case e of None \<Rightarrow> True | Some x \<Rightarrow> x = not_deleted)
         (matching_policies (registry_get sample_registry) sample_input) pd_visibility)"
proof (rule composition_exact)
  have m: "matching_policies (registry_get sample_registry) sample_input = [owner_policy, live_policy]"
    by code_simp
  have v: "pd_visibility owner_policy = Some own_rows" "pd_visibility live_policy = Some not_deleted"
    "evaluate_under sample_caller own_rows [(''user_id'', JStr ''u2''), (''deleted'', Null)] = Ok False"
    "evaluate_under sample_caller not_deleted [(''user_id'', JStr ''u2''), (''deleted'', Null)] = Ok True"
    "own_rows \<noteq> not_deleted"
    by code_simp+
  show "evaluate_under sample_caller e [(''user_id'', JStr ''u2''), (''deleted'', Null)] = Ok (e = not_deleted)"
    if "d \<in> set (matching_policies (registry_get sample_registry) sample_input)" "pd_visibility d = Some e"
    for d e
    using that v by (auto simp: m)
  show "dec_allowed (decide_athena_policy Enforce (registry_get sample_registry) sample_input)"
    by code_simp
qed simp

text \<open>
  A decision looks at the caller only through its standing: whether it is authenticated, its
  role and service, and its rights, all up to letter case. Grants, ids and claims play no part.
\<close>

lemma decision_standing:
  "same_standing p q \<Longrightarrow>
   decide_athena_policy mode get \<lparr>di_action = a, di_principal = p, di_resource = r\<rparr> =
   decide_athena_policy mode get \<lparr>di_action = a, di_principal = q, di_resource = r\<rparr>"
  by (rule decide_same_standing)

lemma decision_standing_witness:
  "decide_athena_policy Enforce (registry_get sample_registry)
     \<lparr>di_action = Select, di_principal = sample_caller\<lparr>pr_role := Some ''Admin'', pr_grants := [''x'']\<rparr>,
      di_resource = ''t''\<rparr> =
   decide_athena_policy Enforce (registry_get sample_registry)
     \<lparr>di_action = Select, di_principal = sample_caller\<lparr>pr_role := Some ''aDMIN''\<rparr>, di_resource = ''t''\<rparr>"
  by (rule decision_standing) code_simp

section \<open>Binding and applying\<close>

text \<open>
  C6. Binding a policy to a caller leaves no subject slot, so the interpreter cannot fail on
  one, and evaluating the bound expression is evaluating the policy under the caller.
\<close>

theorem binding_refines:
  "bind_policy_expr e p = Ok b \<Longrightarrow>
   list_all operand_bound (expr_operands b) \<and>
   evaluate_policy_expr b row = evaluate_under p e row \<and>
   evaluate_policy_expr b row \<noteq> Throw (EvalError (UnboundSubject s))"
  using bind_expr_bound [of e p b] bind_expr_sound [of e p b row] evaluate_no_unbound [of b row s]
  by (simp add: list_all_iff)

theorem binding_refines_witness:
  "evaluate_policy_expr
     (Cmp Eq (Column \<lparr>col_logical = ''userId'', col_physical = Some ''user_id''\<rparr>) (Literal (PString ''u1'')))
     own_row = evaluate_under sample_caller own_rows own_row"
proof -
  have "bind_policy_expr own_rows sample_caller =
      Ok (Cmp Eq (Column \<lparr>col_logical = ''userId'', col_physical = Some ''user_id''\<rparr>) (Literal (PString ''u1'')))"
    by code_simp
  from binding_refines [OF this] show ?thesis by blast
qed

text \<open>
  C7. An insert that the policy lets through under enforcement leaves the payload untouched and
  every record of its body satisfies the check for the caller; conversely, bodies that
  satisfy it pass.
\<close>

theorem insert_checked:
  assumes "ap_mode inp = Enforce" "dec_allowed (ap_decision inp)" "ap_action inp = Insert"
    and "dec_check (ap_decision inp) = Some check"
  shows "apply_athena_policy_decision inp = ApplyOk x \<longleftrightarrow>
     x = ap_payload inp \<and> \<not> nullish x \<and> succeeds (bind_policy_expr check (ap_principal inp)) \<and>
     (\<forall>row \<in> set (insert_rows (fields_of x)). evaluate_under (ap_principal inp) check row = Ok True)"
  using assms
  by (auto simp: apply_athena_policy_decision_def apply_visibility_def handle_Ok
      apply_insert_check_Ok split: option.splits)

definition insert_input :: "fields \<Rightarrow> apply_input" where
  "insert_input row =
     \<lparr>ap_action = Insert, ap_decision = sample_decision, ap_mode = Enforce,
      ap_payload = JObj 1 [(''insert_body'', JArr [JObj 2 row])], ap_principal = sample_caller\<rparr>"

lemma sample_decision_facts:
  "dec_allowed sample_decision" "dec_check sample_decision = Some own_rows"
  by code_simp+

theorem insert_checked_witness:
  "apply_athena_policy_decision (insert_input own_row) = ApplyOk (ap_payload (insert_input own_row)) \<and>
   apply_athena_policy_decision (insert_input [(''user_id'', JStr ''u2'')]) \<noteq>
     ApplyOk (ap_payload (insert_input [(''user_id'', JStr ''u2'')]))"
proof -
  have "evaluate_under sample_caller own_rows own_row = Ok True"
    "evaluate_under sample_caller own_rows [(''user_id'', JStr ''u2'')] = Ok False"
    "succeeds (bind_policy_expr own_rows sample_caller)"
    by code_simp+
  then show ?thesis
    using insert_checked [of "insert_input own_row" own_rows] sample_decision_facts
      insert_checked [of "insert_input [(''user_id'', JStr ''u2'')]" own_rows]
    by (simp add: insert_input_def insert_rows_def get_prop_Cons)
qed

text \<open>
  An update that the policy lets through under enforcement has a record as its body, and
  that resulting row satisfies the check for the caller; everything of the request but its
  conditions is unchanged.
\<close>

lemma update_checked:
  assumes "ap_mode inp = Enforce" "dec_allowed (ap_decision inp)" "ap_action inp = Update"
    and "dec_check (ap_decision inp) = Some check"
    and "apply_athena_policy_decision inp = ApplyOk x"
  shows "(\<exists>i row. get_prop ''update_body'' (fields_of (ap_payload inp)) = JObj i row \<and>
             evaluate_under (ap_principal inp) check row = Ok True) \<and>
    (\<forall>k. k \<noteq> ''conditions'' \<longrightarrow> get_prop k (fields_of x) = get_prop k (fields_of (ap_payload inp)))"
proof -
  obtain payload where v: "apply_visibility Update (dec_visibility (ap_decision inp)) (ap_principal inp)
      (ap_payload inp) = Ok payload"
    and c: "apply_update_check check (ap_principal inp) payload = Ok (ApplyOk x)"
    using assms by (auto simp: apply_athena_policy_decision_def handle_Ok rbind_eq_Inr)
  have same: "get_prop k (fields_of payload) = get_prop k (fields_of (ap_payload inp))"
    if "k \<noteq> ''conditions''" for k
    using v that by (auto simp: apply_visibility_def rbind_eq_Inr inject_other_key split: option.splits)
  from c show ?thesis using same by (auto simp: apply_update_check_Ok)
qed

definition update_input :: apply_input where
  "update_input =
     \<lparr>ap_action = Update, ap_decision = sample_decision\<lparr>dec_visibility := Some own_rows\<rparr>,
      ap_mode = Enforce, ap_payload = JObj 1 [(''update_body'', JObj 2 own_row)],
      ap_principal = sample_caller\<rparr>"

lemma update_checked_witness:
  "\<exists>x. apply_athena_policy_decision update_input = ApplyOk x \<and>
     get_prop ''update_body'' (fields_of x) = JObj 2 own_row"
proof -
  have "case apply_athena_policy_decision update_input of ApplyOk _ \<Rightarrow> True | _ \<Rightarrow> False" by code_simp
  then obtain x where x: "apply_athena_policy_decision update_input = ApplyOk x"
    by (auto split: apply_result.splits)
  have "get_prop ''update_body'' (fields_of x) = get_prop ''update_body'' (fields_of (ap_payload update_input))"
    using update_checked [OF _ _ _ _ x, of own_rows] sample_decision_facts
    by (simp add: update_input_def)
  with x show ?thesis by (simp add: update_input_def get_prop_Cons)
qed

text \<open>
  A read or delete that the policy lets through under enforcement keeps every member of the
  payload but its conditions, and those are the given conditions followed by the lifted
  filter and by the lowered visibility, bound to the caller.
\<close>

lemma visibility_injected:
  assumes "ap_mode inp = Enforce" "dec_allowed (ap_decision inp)" "ap_action inp \<in> {Select, Delete}"
    and "dec_visibility (ap_decision inp) = Some v" "ap_payload inp = JObj i fs"
    and "apply_athena_policy_decision inp = ApplyOk x"
  shows "\<exists>b extra. bind_policy_expr v (ap_principal inp) = Ok b \<and> expr_to_conditions b = Ok extra \<and>
    (\<forall>k. k \<noteq> ''conditions'' \<longrightarrow> get_prop k (fields_of x) = get_prop k fs) \<and>
    (extra \<noteq> [] \<longrightarrow> get_prop ''conditions'' (fields_of x) =
       JArr (array_items (get_prop ''conditions'' fs) @
             map condition_json (lift_where_to_conditions (get_prop ''where'' fs) @ extra)))"
proof -
  have no_check: "(\<lambda>payload. case dec_check (ap_decision inp) of
             Some check \<Rightarrow>
               if ap_action inp = Insert then apply_insert_check check (ap_principal inp) payload
               else if ap_action inp = Update then apply_update_check check (ap_principal inp) payload
               else Ok (ApplyOk payload)
           | None \<Rightarrow> Ok (ApplyOk payload)) = (\<lambda>payload. Ok (ApplyOk payload))"
    using assms(3) by (cases "dec_check (ap_decision inp)") auto
  have "handle (rbind (apply_visibility (ap_action inp) (Some v) (ap_principal inp) (ap_payload inp))
      (\<lambda>payload. Ok (ApplyOk payload))) = ApplyOk x"
    using assms(1,2,4,6) unfolding apply_athena_policy_decision_def no_check by simp
  then have "rbind (bind_policy_expr v (ap_principal inp)) (inject_visibility (JObj i fs)) = Ok x"
    using assms(3,5) by (auto simp: handle_Ok rbind_eq_Inr apply_visibility_def)
  then obtain b where "bind_policy_expr v (ap_principal inp) = Ok b" "inject_visibility (JObj i fs) b = Ok x"
    by (auto simp: rbind_eq_Inr)
  with inject_Ok [of "JObj i fs" b x] show ?thesis by auto
qed

definition select_payload :: jval where
  "select_payload =
     JObj 1 [(''table_name'', JStr ''a.t''), (''where'', JObj 2 [(''kind'', JStr ''paid'')])]"

definition select_input :: apply_input where
  "select_input =
     \<lparr>ap_action = Select, ap_decision = sample_decision, ap_mode = Enforce,
      ap_payload = select_payload, ap_principal = sample_caller\<rparr>"

definition sample_visibility :: policy_expr where
  "sample_visibility = And [own_rows, not_deleted]"

lemma sample_visibility_eq: "dec_visibility sample_decision = Some sample_visibility"
  by code_simp

lemma visibility_injected_witness:
  "\<exists>b extra. bind_policy_expr sample_visibility sample_caller = Ok b \<and> expr_to_conditions b = Ok extra \<and>
     (\<exists>x. apply_athena_policy_decision select_input = ApplyOk x \<and>
        get_prop ''where'' (fields_of x) = JObj 2 [(''kind'', JStr ''paid'')])"
proof -
  have "case apply_athena_policy_decision select_input of ApplyOk _ \<Rightarrow> True | _ \<Rightarrow> False" by code_simp
  then obtain x where x: "apply_athena_policy_decision select_input = ApplyOk x"
    by (auto split: apply_result.splits)
  have p: "ap_payload select_input =
      JObj 1 [(''table_name'', JStr ''a.t''), (''where'', JObj 2 [(''kind'', JStr ''paid'')])]"
    by (simp add: select_input_def select_payload_def)
  show ?thesis
    using visibility_injected [OF _ _ _ _ p x, of sample_visibility] x sample_decision_facts
      sample_visibility_eq
    by (auto simp: select_input_def get_prop_Cons)
qed

text \<open>
  Lowering is exact and partial: an expression is lowered only if it is a conjunction (a
  disjunction or a negation anywhere is refused, never weakened), and on rows that carry its
  columns the conditions, read as a conjunction, return exactly what the expression returns.
\<close>

lemma lowering_exact:
  "expr_to_conditions e = Ok cs \<Longrightarrow>
   conjunctive e \<and>
   (lowerable row e \<longrightarrow> every_r (condition_holds row) cs = evaluate_policy_expr e row)"
  using lowering_sound lowered_conjunctive by blast

lemma lowering_exact_witness:
  "every_r (condition_holds own_row)
     [\<lparr>gc_column = ''user_id'', gc_operator = ''eq'', gc_value = JStr ''u1''\<rparr>,
      \<lparr>gc_column = ''deleted'', gc_operator = ''is'', gc_value = Null\<rparr>] = Ok True"
proof -
  let ?e = "And [Cmp Eq (Column \<lparr>col_logical = ''userId'', col_physical = Some ''user_id''\<rparr>)
      (Literal (PString ''u1'')), not_deleted]"
  have "expr_to_conditions ?e = Ok
     [\<lparr>gc_column = ''user_id'', gc_operator = ''eq'', gc_value = JStr ''u1''\<rparr>,
      \<lparr>gc_column = ''deleted'', gc_operator = ''is'', gc_value = Null\<rparr>]"
    "lowerable own_row ?e" "evaluate_policy_expr ?e own_row = Ok True"
    by code_simp+
  then show ?thesis using lowering_exact [of ?e _ own_row] by simp
qed

section \<open>Fingerprints and authoring\<close>

text \<open>
  The fingerprint is semantic: for any digest, documents that list the same policies in
  another order have the same fingerprint, as long as no two ids collate equal.
\<close>

lemma fingerprint_order_independent:
  assumes "mset (doc_policies doc) = mset (doc_policies doc')"
    and "doc_ir_version doc = doc_ir_version doc'"
    and "distinct (map pd_id (doc_policies doc))" "collation_distinct (pd_id ` set (doc_policies doc))"
  shows "fingerprint_document sha256 doc = fingerprint_document sha256 doc'"
  using canonicalize_document_perm [OF assms] by (simp add: fingerprint_document_def)

lemma fingerprint_order_independent_witness:
  "fingerprint_document rev \<lparr>doc_ir_version = 1, doc_policies = [owner_policy, live_policy]\<rparr> =
   fingerprint_document rev \<lparr>doc_ir_version = 1, doc_policies = [live_policy, owner_policy]\<rparr>"
proof (rule fingerprint_order_independent)
  have "locale_compare ''own'' ''live'' \<noteq> 0" "locale_compare ''live'' ''own'' \<noteq> 0" by code_simp+
  then show "collation_distinct (pd_id ` set (doc_policies
      \<lparr>doc_ir_version = 1, doc_policies = [owner_policy, live_policy]\<rparr>))"
    by (simp add: collation_distinct_def owner_policy_def live_policy_def)
qed (simp_all add: owner_policy_def live_policy_def add_mset_commute)

text \<open>
  What \<open>policy()\<close> writes: one definition per configured action, in the order select, insert,
  update, delete, each for that action alone; without an explicit id their ids are distinct.
\<close>

lemma authored_actions:
  "policy m cfg = Ok ds \<Longrightarrow>
   map (\<lambda>d. actions_from_mask (pd_actions d)) ds = map (\<lambda>p. [fst p]) (configured_actions cfg) \<and>
   (pc_id cfg = None \<longrightarrow> distinct (map pd_id ds))"
  using policy_actions default_ids_distinct by blast

definition sample_model :: model_meta where
  "sample_model =
     \<lparr>mm_columns = [(''userId'', Some ''user_id'')], mm_nullable = [], mm_primary_key = [''id''],
      mm_table_name = Some ''a.t'', mm_model = None, mm_schema = None, mm_database = None\<rparr>"

definition plain_action :: action_config where
  "plain_action = \<lparr>ac_to = None, ac_composition = None, ac_allow = None, ac_check = None\<rparr>"

definition sample_config :: "string option \<Rightarrow> policy_config" where
  "sample_config i =
     \<lparr>pc_id = i, pc_name = None, pc_composition = None,
      pc_actions = (\<lambda>a. if a = Select \<or> a = Update then Some plain_action else None)\<rparr>"

definition authored_sample :: "string \<Rightarrow> policy_action \<Rightarrow> policy_definition" where
  "authored_sample i a =
     \<lparr>pd_id = i, pd_name = None,
      pd_resource = \<lparr>res_database = None, res_schema = Some ''a'', res_table = ''t''\<rparr>,
      pd_actions = jint (action_bit a), pd_composition = Permissive,
      pd_principals = [AuthenticatedPrincipal], pd_visibility = None, pd_check = None\<rparr>"

lemma authored_actions_witness:
  "map (\<lambda>d. actions_from_mask (pd_actions d))
     [authored_sample ''a.t:select'' Select, authored_sample ''a.t:update'' Update] =
   map (\<lambda>p. [fst p]) (configured_actions (sample_config None))"
proof -
  have "policy sample_model (sample_config None) =
      Ok [authored_sample ''a.t:select'' Select, authored_sample ''a.t:update'' Update]"
    by code_simp
  from authored_actions [OF this] show ?thesis by blast
qed

text \<open>
  A configuration with an explicit id gives that id to the definition of every action, so a
  policy with an id and two actions cannot be registered: the registry refuses repeated ids.
\<close>

lemma shared_id_refused:
  assumes "policy m cfg = Ok ds" "pc_id cfg = Some i" "1 < length ds"
    and "ro_definitions opts = AuthoredInput ds"
  shows "\<not> succeeds (create_policy_registry opts)"
  using shared_id_not_registrable [OF assms(1,2,3)] assms(4)
  by (auto simp: succeeds_iff create_registry_iff normalize_policy_definitions_def registrable_def)

lemma shared_id_refused_witness:
  "\<not> succeeds (create_policy_registry
     (sample_options\<lparr>ro_definitions := AuthoredInput [authored_sample ''p'' Select, authored_sample ''p'' Update]\<rparr>))"
proof -
  have "policy sample_model (sample_config (Some ''p'')) =
      Ok [authored_sample ''p'' Select, authored_sample ''p'' Update]"
    by code_simp
  from shared_id_refused [OF this, of "''p''"] show ?thesis by (simp add: sample_config_def)
qed

end
