(* ===== verification/QueryAst.thy ===== *)
theory QueryAst
  imports JsValue
begin

text \<open>
  The transport-independent query AST (\<open>query/engine/ast.ts\<close>), its error codes
  (\<open>errors.ts\<close>), the relation descriptors (\<open>relations.ts\<close>) and the capability matrices of the
  three backends (\<open>capabilities.ts\<close>).
\<close>

section \<open>Errors\<close>

datatype query_error_code =
    InvalidSource
  | UnknownField
  | UnknownRelation
  | AmbiguousRelation
  | InvalidPagination
  | UnsupportedOperatorCode
  | InvalidNesting
  | InvalidIdentifier
  | InvalidSelection
  | InvalidCondition
  | InvalidNormalizedAst
  | ComplexityExceeded
  | MaxDepthExceeded
  | CyclicInput
  | RelationMetadataConflict
  | UnsupportedCapability

text \<open>\<open>QueryTypeError\<close>: a built-in operation applied to a value of the wrong type.\<close>

datatype query_error = QueryError query_error_code | QueryTypeError

section \<open>Relations\<close>

datatype relation_cardinality = OneToOne | OneToMany | ManyToOne | ManyToMany

record relation_end =
  re_columns :: "string list"
  re_schema :: "string option"
  re_table :: string

record junction_end =
  jn_from_columns :: "string list"
  jn_schema :: "string option"
  jn_table :: string
  jn_to_columns :: "string list"

record relation_descriptor =
  rd_cardinality :: relation_cardinality
  rd_from :: relation_end
  rd_id :: string
  rd_junction :: "junction_end option"
  rd_name :: string
  rd_to :: relation_end

section \<open>Queries\<close>

datatype query_cardinality = ManyRows | FirstRow | UniqueRow

datatype compare_operator = OpEq | OpNeq | OpGt | OpGte | OpLt | OpLte | OpLike | OpIlike

record source_ast =
  sa_alias :: "string option"
  sa_model_id :: "string option"
  sa_schema :: "string option"
  sa_table :: string

record field_ref =
  fr_field :: string
  fr_source :: "string option"

datatype relation_predicate = PredSome | PredNone | PredEvery | PredExists | PredIs | PredIsNot

record relation_target =
  rt_alias :: string
  rt_model_id :: "string option"
  rt_schema :: "string option"
  rt_table :: string

datatype condition =
    Compare field_ref compare_operator jval
  | InValues field_ref "jval list"
  | IsNullCond field_ref bool
  | IsTrueCond field_ref
  | IsFalseCond field_ref
  | Contains field_ref jval
  | ContainedBy field_ref jval
  | AndCond "condition list"
  | OrCond "condition list"
  | NotCond condition
  | RelationCond relation_predicate string "string option" "condition option"
  | ResolvedCond relation_descriptor relation_target "string option" relation_predicate string
      "condition option"

datatype order_direction = Asc | Desc

datatype nulls_order = NullsFirst | NullsLast

record order_ast =
  or_direction :: order_direction
  or_field :: field_ref
  or_nulls :: "nulls_order option"

text \<open>Pagination members come from the request body and stay untyped; absent is \<open>Undefined\<close>.\<close>

record pagination_ast =
  pg_limit :: jval
  pg_offset :: jval
  pg_page :: jval
  pg_page_size :: jval

datatype select_ast =
  SelectQuery
    (sq_cardinality: query_cardinality)
    (sq_distinct: "field_ref list option")
    (sq_filter: "condition option")
    (sq_order_by: "order_ast list option")
    (sq_pagination: "pagination_ast option")
    (sq_fields: "selected_field list")
    (sq_source: source_ast)
and selected_field =
    ColumnField "string option" string
  | RelationField "string option" select_ast string "string option"

definition table_source :: "string option \<Rightarrow> string \<Rightarrow> source_ast" where
  "table_source schema table =
     \<lparr>sa_alias = None, sa_model_id = None, sa_schema = schema, sa_table = table\<rparr>"

definition is_relation_field :: "selected_field \<Rightarrow> bool" where
  "is_relation_field f = (case f of RelationField _ _ _ _ \<Rightarrow> True | ColumnField _ _ \<Rightarrow> False)"

definition target_source :: "relation_target \<Rightarrow> source_ast" where
  "target_source t =
     \<lparr>sa_alias = Some (rt_alias t), sa_model_id = rt_model_id t, sa_schema = rt_schema t,
      sa_table = rt_table t\<rparr>"

fun collect_condition_tables :: "condition \<Rightarrow> source_ast list" where
  "collect_condition_tables (AndCond cs) = concat (map collect_condition_tables cs)"
| "collect_condition_tables (OrCond cs) = concat (map collect_condition_tables cs)"
| "collect_condition_tables (NotCond c) = collect_condition_tables c"
| "collect_condition_tables (RelationCond p r via f) =
     (case f of None \<Rightarrow> [] | Some c \<Rightarrow> collect_condition_tables c)"
| "collect_condition_tables (ResolvedCond d t j p r f) =
     target_source t # (case f of None \<Rightarrow> [] | Some c \<Rightarrow> collect_condition_tables c)"
| "collect_condition_tables _ = []"

fun collect_ast_tables :: "select_ast \<Rightarrow> source_ast list"
  and collect_field_tables :: "selected_field \<Rightarrow> source_ast list" where
  "collect_ast_tables (SelectQuery cy dst flt ob pag fs src) =
     [src] @ concat (map collect_field_tables fs) @
     (case flt of None \<Rightarrow> [] | Some c \<Rightarrow> collect_condition_tables c)"
| "collect_field_tables (ColumnField a c) = []"
| "collect_field_tables (RelationField a q r via) = collect_ast_tables q"

definition selection_has_relations :: "select_ast \<Rightarrow> bool" where
  "selection_has_relations q = list_ex is_relation_field (sq_fields q)"

text \<open>\<open>isAthenaSelectQueryAst\<close> on an untyped value.\<close>

definition is_object :: "jval \<Rightarrow> bool" where
  "is_object v = (case v of JObj _ _ \<Rightarrow> True | JArr _ \<Rightarrow> True | _ \<Rightarrow> False)"

definition is_athena_select_query_ast :: "jval \<Rightarrow> bool" where
  "is_athena_select_query_ast v =
     (case v of
        JObj _ fs \<Rightarrow>
          get_prop ''kind'' fs = JStr ''select'' \<and> is_object (get_prop ''source'' fs) \<and>
          is_object (get_prop ''selection'' fs)
      | _ \<Rightarrow> False)"

section \<open>Capabilities\<close>

datatype query_backend = GatewayBackend | PostgresBackend | D1Backend

record capability_matrix =
  cap_backend :: query_backend
  cap_ilike :: bool
  cap_jsonb_containment :: bool
  cap_many_to_many :: bool
  cap_nested_ordering :: bool
  cap_nested_pagination :: bool
  cap_nested_relations :: bool
  cap_nulls_ordering :: bool
  cap_relational_predicates :: bool

definition gateway_query_capabilities :: capability_matrix where
  "gateway_query_capabilities =
     \<lparr>cap_backend = GatewayBackend, cap_ilike = True, cap_jsonb_containment = True,
      cap_many_to_many = False, cap_nested_ordering = True, cap_nested_pagination = True,
      cap_nested_relations = True, cap_nulls_ordering = True, cap_relational_predicates = False\<rparr>"

definition postgres_query_capabilities :: capability_matrix where
  "postgres_query_capabilities =
     \<lparr>cap_backend = PostgresBackend, cap_ilike = True, cap_jsonb_containment = True,
      cap_many_to_many = True, cap_nested_ordering = True, cap_nested_pagination = True,
      cap_nested_relations = True, cap_nulls_ordering = True, cap_relational_predicates = True\<rparr>"

definition d1_query_capabilities :: capability_matrix where
  "d1_query_capabilities =
     \<lparr>cap_backend = D1Backend, cap_ilike = False, cap_jsonb_containment = False,
      cap_many_to_many = True, cap_nested_ordering = True, cap_nested_pagination = True,
      cap_nested_relations = True, cap_nulls_ordering = False, cap_relational_predicates = True\<rparr>"

section \<open>Every condition of a tree\<close>

text \<open>\<open>walkConditions\<close>: the nodes in visiting order.\<close>

fun walk_conditions :: "condition \<Rightarrow> condition list" where
  "walk_conditions (AndCond cs) = AndCond cs # concat (map walk_conditions cs)"
| "walk_conditions (OrCond cs) = OrCond cs # concat (map walk_conditions cs)"
| "walk_conditions (NotCond c) = NotCond c # walk_conditions c"
| "walk_conditions (RelationCond p r via f) =
     RelationCond p r via f # (case f of None \<Rightarrow> [] | Some c \<Rightarrow> walk_conditions c)"
| "walk_conditions (ResolvedCond d t j p r f) =
     ResolvedCond d t j p r f # (case f of None \<Rightarrow> [] | Some c \<Rightarrow> walk_conditions c)"
| "walk_conditions c = [c]"

definition walk_filter :: "condition option \<Rightarrow> condition list" where
  "walk_filter f = (case f of None \<Rightarrow> [] | Some c \<Rightarrow> walk_conditions c)"

definition is_relation_node :: "condition \<Rightarrow> bool" where
  "is_relation_node c =
     (case c of RelationCond _ _ _ _ \<Rightarrow> True | ResolvedCond _ _ _ _ _ _ \<Rightarrow> True | _ \<Rightarrow> False)"

definition is_unresolved_node :: "condition \<Rightarrow> bool" where
  "is_unresolved_node c = (case c of RelationCond _ _ _ _ \<Rightarrow> True | _ \<Rightarrow> False)"

lemma is_relation_node_simps [simp]:
  "is_relation_node (RelationCond p r via f)" "is_relation_node (ResolvedCond d t j p r f)"
  "\<not> is_relation_node (AndCond cs)" "\<not> is_relation_node (OrCond cs)"
  "\<not> is_relation_node (NotCond c)" "\<not> is_relation_node (Compare fr cop v)"
  "\<not> is_relation_node (InValues fr vs)" "\<not> is_relation_node (IsNullCond fr b)"
  "\<not> is_relation_node (IsTrueCond fr)" "\<not> is_relation_node (IsFalseCond fr)"
  "\<not> is_relation_node (Contains fr v)" "\<not> is_relation_node (ContainedBy fr v)"
  by (simp_all add: is_relation_node_def)

lemma is_unresolved_node_simps [simp]:
  "is_unresolved_node (RelationCond p r via f)" "\<not> is_unresolved_node (ResolvedCond d t j p r f)"
  "\<not> is_unresolved_node (AndCond cs)" "\<not> is_unresolved_node (OrCond cs)"
  "\<not> is_unresolved_node (NotCond c)" "\<not> is_unresolved_node (Compare fr cop v)"
  "\<not> is_unresolved_node (InValues fr vs)" "\<not> is_unresolved_node (IsNullCond fr b)"
  "\<not> is_unresolved_node (IsTrueCond fr)" "\<not> is_unresolved_node (IsFalseCond fr)"
  "\<not> is_unresolved_node (Contains fr v)" "\<not> is_unresolved_node (ContainedBy fr v)"
  by (simp_all add: is_unresolved_node_def)

lemma walk_self: "c \<in> set (walk_conditions c)"
  by (cases c) auto

end
