(* ===== verification/QueryNormalize.thy ===== *)
theory QueryNormalize
  imports QueryAst
begin

text \<open>
  Normalisation of request payloads into the query AST (\<open>query/engine/normalize.ts\<close>): source
  names, select shapes and select lists, filters (with the set of objects already visited),
  gateway conditions, ordering and pagination, and the whole transport payload. Payloads are
  untyped JSON values. The recursion follows the nesting of the payload.
\<close>

text \<open>\<open>s || undefined\<close> on a string.\<close>

definition present_string :: "string \<Rightarrow> string option" where
  "present_string s = (if s = [] then None else Some s)"

section \<open>Names\<close>

definition assert_identifier :: "string \<Rightarrow> (query_error, string) result" where
  "assert_identifier v =
     (if is_identifier (js_trim v) then Ok (js_trim v) else Throw (QueryError InvalidIdentifier))"

definition parse_source_name :: "string \<Rightarrow> (query_error, source_ast) result" where
  "parse_source_name raw =
     (let t = js_trim raw; segments = map js_trim (split_on (CHR ''.'') t)
      in if t = [] then Throw (QueryError InvalidSource)
         else if list_ex (\<lambda>s. \<not> is_identifier s) segments then Throw (QueryError InvalidSource)
         else (case segments of
                 [table] \<Rightarrow> Ok (table_source None table)
               | [schema, table] \<Rightarrow> Ok (table_source (Some schema) table)
               | _ \<Rightarrow> Throw (QueryError InvalidSource)))"

definition normal_field :: "string \<Rightarrow> (query_error, field_ref) result" where
  "normal_field f = rmap (\<lambda>n. \<lparr>fr_field = n, fr_source = None\<rparr>) (assert_identifier f)"

text \<open>\<open>v?.trim()\<close> on an optional member of a payload.\<close>

definition opt_trim :: "jval \<Rightarrow> (query_error, string option) result" where
  "opt_trim v =
     (case v of
        Undefined \<Rightarrow> Ok None
      | Null \<Rightarrow> Ok None
      | JStr s \<Rightarrow> Ok (Some (js_trim s))
      | _ \<Rightarrow> Throw QueryTypeError)"

section \<open>Predicates on one column\<close>

definition compare_operator_of :: "string \<Rightarrow> compare_operator option" where
  "compare_operator_of s =
     map_of [(''eq'', OpEq), (''neq'', OpNeq), (''gt'', OpGt), (''gte'', OpGte), (''lt'', OpLt),
             (''lte'', OpLte), (''like'', OpLike), (''ilike'', OpIlike)] s"

definition relation_predicate_of :: "string \<Rightarrow> relation_predicate option" where
  "relation_predicate_of s =
     map_of [(''some'', PredSome), (''none'', PredNone), (''every'', PredEvery),
             (''exists'', PredExists), (''is'', PredIs), (''isNot'', PredIsNot)] s"

definition operator_condition ::
  "field_ref \<Rightarrow> string \<Rightarrow> jval \<Rightarrow> (query_error, condition list) result" where
  "operator_condition f op' v =
     (if v = Undefined then Ok []
      else if op' = ''in'' then Ok [InValues f (case v of JArr vs \<Rightarrow> vs | _ \<Rightarrow> [v])]
      else if op' = ''contains'' then Ok [Contains f v]
      else if op' = ''containedBy'' then Ok [ContainedBy f v]
      else if op' = ''is'' \<and> (v = Null \<or> v = JStr ''null'') then Ok [IsNullCond f False]
      else if op' = ''is'' \<and> (v = JBool True \<or> v = JStr ''true'') then Ok [IsTrueCond f]
      else if op' = ''is'' \<and> (v = JBool False \<or> v = JStr ''false'') then Ok [IsFalseCond f]
      else (case compare_operator_of op' of
              Some c \<Rightarrow>
                if c = OpEq \<and> v = Null then Ok [IsNullCond f False]
                else if c = OpNeq \<and> v = Null then Ok [IsNullCond f True]
                else Ok [Compare f c v]
            | None \<Rightarrow> Throw (QueryError UnsupportedOperatorCode)))"

definition normalize_column_predicate ::
  "string \<Rightarrow> jval \<Rightarrow> (query_error, condition list) result" where
  "normalize_column_predicate column v =
     rbind (normal_field column) (\<lambda>f.
       if \<not> is_record v then
         (if v = Null then Ok [IsNullCond f False] else Ok [Compare f OpEq v])
       else rbind (rmap concat (map_r (\<lambda>(op', x). operator_condition f op' x) (fields_of v))) (\<lambda>cs.
         if cs = [] then Throw (QueryError UnsupportedOperatorCode) else Ok cs))"

section \<open>Filters\<close>

definition defined_keys :: "fields \<Rightarrow> string list" where
  "defined_keys fs = map fst (filter (\<lambda>(k, v). v \<noteq> Undefined) fs)"

definition is_relation_where_value :: "jval \<Rightarrow> bool" where
  "is_relation_where_value v =
     (case v of
        JObj _ fs \<Rightarrow>
          list_ex (\<lambda>k. k \<noteq> ''is'' \<and> relation_predicate_of k \<noteq> None) (defined_keys fs) \<or>
          (''is'' \<in> set (defined_keys fs) \<and> is_record (get_prop ''is'' fs))
      | _ \<Rightarrow> False)"

text \<open>The one predicate key of a relation filter, with its operand.\<close>

definition relation_predicate_key ::
  "fields \<Rightarrow> (query_error, relation_predicate \<times> string) result" where
  "relation_predicate_key fs =
     (case filter (\<lambda>k. relation_predicate_of k \<noteq> None) (defined_keys fs) of
        [k] \<Rightarrow> Ok (the (relation_predicate_of k), k)
      | _ \<Rightarrow> Throw (QueryError InvalidCondition))"

definition empty_record :: "jval \<Rightarrow> bool" where
  "empty_record v = (case v of JObj _ fs \<Rightarrow> fs = [] | _ \<Rightarrow> False)"

text \<open>An object the module made itself has no identity to meet twice.\<close>

definition was_seen :: "nat \<Rightarrow> nat list \<Rightarrow> bool" where
  "was_seen i seen \<longleftrightarrow> i \<noteq> 0 \<and> i \<in> set seen"

definition value_was_seen :: "jval \<Rightarrow> nat list \<Rightarrow> bool" where
  "value_was_seen v seen = (case v of JObj i _ \<Rightarrow> was_seen i seen | _ \<Rightarrow> False)"

definition or_part :: "condition list \<Rightarrow> condition list" where
  "or_part cs = (case cs of [] \<Rightarrow> [] | [c] \<Rightarrow> [c] | _ \<Rightarrow> [OrCond cs])"

definition and_parts :: "condition list \<Rightarrow> condition option" where
  "and_parts cs = (case cs of [] \<Rightarrow> None | [c] \<Rightarrow> Some c | _ \<Rightarrow> Some (AndCond cs))"

definition opt_list :: "'a option \<Rightarrow> 'a list" where
  "opt_list x = (case x of None \<Rightarrow> [] | Some y \<Rightarrow> [y])"

type_synonym where_state = "condition list \<times> nat list"

lemma proto_no_predicate: "relation_predicate_of ''__proto__'' = None"
  by (simp add: relation_predicate_of_def)

lemma single_case:
  "(case xs of [k] \<Rightarrow> Inr (f k) | _ \<Rightarrow> Inl e) = Inr y \<longleftrightarrow> (\<exists>k. xs = [k] \<and> f k = y)"
  by (auto split: list.splits)

lemma relation_key_filter:
  "relation_predicate_key fs = Ok (p, k) \<Longrightarrow>
   filter (\<lambda>k. relation_predicate_of k \<noteq> None) (defined_keys fs) = [k] \<and> relation_predicate_of k = Some p"
  unfolding relation_predicate_key_def single_case
  using one_elem [of "\<lambda>k. relation_predicate_of k \<noteq> None" "defined_keys fs" k] by auto

lemma where_operand_depth:
  assumes "relation_predicate_key fs' = Ok (p, k')" "(k, JObj i' fs') \<in> set (fs :: fields)"
  shows "jdepth (get_prop k' fs') < Suc (foldr (\<lambda>p. max (jdepth (snd p))) fs 0)"
proof -
  have "k' \<noteq> ''__proto__''" using relation_key_filter [OF assms(1)] proto_no_predicate by auto
  from jdepth_get_prop [OF this] have "jdepth (get_prop k' fs') < jdepth (JObj i' fs')" .
  also have "\<dots> < jdepth (JObj 0 fs)" using assms(2) by (rule jdepth_member)
  finally show ?thesis by simp
qed

lemma where_clause_depth:
  assumes "c \<in> set clauses" "(k, JArr clauses) \<in> set (fs :: fields)"
  shows "jdepth c < Suc (foldr (\<lambda>p. max (jdepth (snd p))) fs 0)"
  using jdepth_item [OF assms(1)] jdepth_member [OF assms(2), of 0] by simp

function normalize_where :: "jval \<Rightarrow> nat list \<Rightarrow> (query_error, condition option \<times> nat list) result"
where
  "normalize_where w seen =
     (case w of
        Undefined \<Rightarrow> Ok (None, seen)
      | JObj i fs \<Rightarrow>
          if was_seen i seen then Throw (QueryError CyclicInput)
          else rbind
            (fold_r (\<lambda>entry st. case entry of (k, v) \<Rightarrow> case st of (parts, s) \<Rightarrow>
               if v = Undefined then Ok (parts, s)
               else if k = ''or'' then
                 (case v of
                    JArr clauses \<Rightarrow>
                      if clauses = [] then Throw (QueryError UnsupportedOperatorCode)
                      else rbind
                        (fold_r (\<lambda>c st'. case st' of (ps, s') \<Rightarrow>
                           rmap (\<lambda>(r, s''). (ps @ opt_list r, s'')) (normalize_where c s')) clauses ([], s))
                        (\<lambda>(ps, s'). Ok (parts @ or_part ps, s'))
                  | _ \<Rightarrow> Throw (QueryError UnsupportedOperatorCode))
               else if k = ''not'' then
                 rmap (\<lambda>(r, s'). (parts @ map NotCond (opt_list r), s')) (normalize_where v s)
               else if value_was_seen v s then Throw (QueryError CyclicInput)
               else if is_relation_where_value v then
                 (case v of
                    JObj i' fs' \<Rightarrow>
                      rbind (relation_predicate_key fs') (\<lambda>pk. case pk of (p, pk') \<Rightarrow>
                        let operand = get_prop pk' fs'
                        in if p = PredExists \<and> operand \<noteq> JBool True \<and> \<not> is_record operand then
                             Throw (QueryError InvalidCondition)
                           else if p = PredExists \<and> operand = JBool True \<or> empty_record operand then
                             Ok (parts @ [RelationCond p k None None], s)
                           else rmap (\<lambda>(r, s'). (parts @ [RelationCond p k None r], s'))
                                  (normalize_where operand s))
                  | _ \<Rightarrow> Ok (parts, s))
               else rmap (\<lambda>cs. (parts @ cs, s)) (normalize_column_predicate k v))
             fs ([], i # seen))
            (\<lambda>(parts, s). Ok (and_parts parts, s))
      | _ \<Rightarrow> Throw (QueryError UnsupportedOperatorCode))"
  by pat_completeness auto
termination
proof (relation "measure (\<lambda>(w, seen). jdepth w)")
qed (auto dest: where_operand_depth where_clause_depth jdepth_member)

declare normalize_where.simps [simp del]

definition normalize_filter :: "jval \<Rightarrow> (query_error, condition option) result" where
  "normalize_filter w = rmap fst (normalize_where w [])"

section \<open>Gateway conditions\<close>

text \<open>\<open>a || b\<close>.\<close>

definition truthy_or :: "jval \<Rightarrow> jval \<Rightarrow> jval" where
  "truthy_or a b = (if truthy a then a else b)"

definition gateway_condition_parts :: "jval \<Rightarrow> (query_error, condition list) result" where
  "gateway_condition_parts c =
     (if nullish c then Throw QueryTypeError
      else (case truthy_or (opt_prop ''operator'' c) (JStr ''eq'') of
              JStr raw \<Rightarrow>
                (let op' = js_lower raw;
                     column = nullish_or (opt_prop ''column'' c) (opt_prop ''eq_column'' c);
                     value = (if opt_prop ''value'' c = Undefined then opt_prop ''eq_value'' c
                              else opt_prop ''value'' c)
                 in if op' = ''or'' \<or> op' = ''not'' then Throw (QueryError UnsupportedOperatorCode)
                    else if \<not> truthy column then Throw (QueryError UnsupportedOperatorCode)
                    else (case column of
                            JStr col \<Rightarrow>
                              normalize_column_predicate col
                                (JObj 0 [(if op' = ''containedby'' then ''containedBy'' else op', value)])
                          | _ \<Rightarrow> Throw QueryTypeError))
            | _ \<Rightarrow> Throw QueryTypeError))"

definition conjoin :: "condition list \<Rightarrow> condition" where
  "conjoin parts = (case parts of [c] \<Rightarrow> c | _ \<Rightarrow> AndCond parts)"

definition normalize_gateway_conditions :: "jval \<Rightarrow> (query_error, condition option) result" where
  "normalize_gateway_conditions v =
     (case v of
        JArr cs \<Rightarrow>
          if cs = [] then Ok None
          else rmap (\<lambda>pss. Some (conjoin (concat pss))) (map_r gateway_condition_parts cs)
      | JStr s \<Rightarrow> if s = [] then Ok None else Throw (QueryError UnsupportedOperatorCode)
      | JObj _ fs \<Rightarrow> if truthy (get_prop ''length'' fs) then Throw QueryTypeError else Ok None
      | _ \<Rightarrow> Ok None)"

section \<open>Ordering and pagination\<close>

definition order_by :: "bool \<Rightarrow> string \<Rightarrow> (query_error, order_ast list option) result" where
  "order_by descending column =
     rmap (\<lambda>f. Some [\<lparr>or_direction = (if descending then Desc else Asc), or_field = f, or_nulls = None\<rparr>])
       (normal_field column)"

definition order_descending :: "jval \<Rightarrow> bool" where
  "order_descending v \<longleftrightarrow>
     v = JBool False \<or> v = JStr ''desc'' \<or> v = JStr ''descending'' \<or>
     opt_prop ''ascending'' v = JBool False"

definition normalize_order_by :: "jval \<Rightarrow> (query_error, order_ast list option) result" where
  "normalize_order_by v =
     (if \<not> truthy v then Ok None
      else if \<not> is_record v then Throw (QueryError UnsupportedOperatorCode)
      else (let fs = fields_of v
            in case get_prop ''field'' fs of
                 JStr f \<Rightarrow> order_by (get_prop ''direction'' fs = JStr ''descending'') f
               | _ \<Rightarrow>
                   if get_prop ''column'' fs \<noteq> Undefined then
                     order_by (get_prop ''ascending'' fs = JBool False) (to_str (get_prop ''column'' fs))
                   else (case filter (\<lambda>(k, x). x \<noteq> Undefined) fs of
                           [] \<Rightarrow> Ok None
                         | [(column, x)] \<Rightarrow> order_by (order_descending x) column
                         | _ \<Rightarrow> Throw (QueryError UnsupportedOperatorCode))))"

record pagination_input =
  pi_limit :: jval
  pi_offset :: jval
  pi_current_page :: jval
  pi_current_page_snake :: jval
  pi_page_size :: jval
  pi_page_size_snake :: jval

definition normalize_pagination :: "pagination_input \<Rightarrow> (query_error, pagination_ast option) result" where
  "normalize_pagination inp =
     (let page = nullish_or (pi_current_page inp) (pi_current_page_snake inp);
          page_size = nullish_or (pi_page_size inp) (pi_page_size_snake inp)
      in if pi_limit inp = Undefined \<and> pi_offset inp = Undefined \<and> page = Undefined \<and> page_size = Undefined
         then Ok None
         else if page \<noteq> Undefined \<and> less_than page 1 then Throw (QueryError InvalidPagination)
         else if page_size \<noteq> Undefined \<and> less_than page_size 0 then Throw (QueryError InvalidPagination)
         else Ok (Some \<lparr>pg_limit = pi_limit inp, pg_offset = pi_offset inp, pg_page = page,
                        pg_page_size = page_size\<rparr>))"

definition canonicalize_pagination :: "pagination_ast option \<Rightarrow> jval \<times> jval" where
  "canonicalize_pagination p =
     (case p of
        None \<Rightarrow> (Undefined, Undefined)
      | Some pg \<Rightarrow>
          (let size = num_max (Fin 0) (num_trunc (to_number (pg_page_size pg)));
               page = num_trunc (to_number (pg_page pg));
               limit = (if pg_limit pg = Undefined \<and> pg_page_size pg \<noteq> Undefined then JNum size
                        else pg_limit pg);
               offset = (if pg_offset pg = Undefined \<and> pg_page pg \<noteq> Undefined \<and>
                            pg_page_size pg \<noteq> Undefined
                         then JNum (num_mul (num_sub page (Fin 1)) size) else pg_offset pg)
           in (limit, offset)))"

section \<open>Select shapes\<close>

definition is_relation_select_node :: "jval \<Rightarrow> bool" where
  "is_relation_select_node v \<longleftrightarrow> is_record (opt_prop ''select'' v)"

definition no_pages :: "jval \<Rightarrow> jval \<Rightarrow> pagination_input" where
  "no_pages limit offset =
     \<lparr>pi_limit = limit, pi_offset = offset, pi_current_page = Undefined,
      pi_current_page_snake = Undefined, pi_page_size = Undefined, pi_page_size_snake = Undefined\<rparr>"

text \<open>The alias of a relation node: \<open>as\<close>, or the key when the relation has another name.\<close>

definition relation_alias :: "string \<Rightarrow> string \<Rightarrow> jval \<Rightarrow> (query_error, string option) result" where
  "relation_alias key relation v =
     rbind (opt_trim v) (\<lambda>a.
       if get_or a [] \<noteq> [] then Ok a
       else if relation = key then Ok None
       else rmap Some (assert_identifier key))"

text \<open>The source of a relation node: its schema when it has one.\<close>

definition relation_source :: "string \<Rightarrow> jval \<Rightarrow> (query_error, source_ast) result" where
  "relation_source relation v =
     rbind (opt_trim v) (\<lambda>t.
       if get_or t [] \<noteq> [] then rmap (\<lambda>s. table_source (Some s) relation) (assert_identifier (to_str v))
       else parse_source_name relation)"

text \<open>Everything of a relation node but its nested selection, in the order it is computed.\<close>

definition relation_node ::
  "string \<Rightarrow> fields \<Rightarrow> (query_error, string \<times> string option \<times> string option \<times> source_ast \<times>
     condition option \<times> order_ast list option \<times> pagination_ast option) result" where
  "relation_node key node =
     rbind (opt_trim (get_prop ''via'' node)) (\<lambda>via.
     rbind (assert_identifier (if get_or via [] \<noteq> [] then get_or via [] else key)) (\<lambda>relation.
     rbind (relation_alias key relation (get_prop ''as'' node)) (\<lambda>alias.
     rbind (relation_source relation (get_prop ''schema'' node)) (\<lambda>source.
     rbind (normalize_filter (get_prop ''where'' node)) (\<lambda>flt.
     rbind (normalize_order_by (get_prop ''orderBy'' node)) (\<lambda>ob.
     rbind (normalize_pagination (no_pages (get_prop ''limit'' node) (get_prop ''offset'' node))) (\<lambda>pag.
       Ok (relation, via, alias, source, flt, ob, pag))))))))"

function normalize_select_shape :: "jval \<Rightarrow> (query_error, selected_field list) result" where
  "normalize_select_shape shape =
     (case shape of
        JObj i fs \<Rightarrow>
          rbind
            (fold_r (\<lambda>entry acc. case entry of (k, v) \<Rightarrow>
               if v = Undefined then Ok acc
               else if v = JBool True then
                 rmap (\<lambda>c. acc @ [ColumnField None c]) (assert_identifier k)
               else (case v of
                       JObj i' node \<Rightarrow>
                         if is_record (get_prop ''select'' node) then
                           rbind (relation_node k node) (\<lambda>(relation, via, alias, source, flt, ob, pag).
                             rmap (\<lambda>sub. acc @ [RelationField alias
                                     (SelectQuery ManyRows None flt ob pag sub source) relation via])
                               (normalize_select_shape (get_prop ''select'' node)))
                         else Throw (QueryError InvalidNesting)
                     | _ \<Rightarrow> Throw (QueryError InvalidNesting))) fs [])
            (\<lambda>acc. if acc = [] then Throw (QueryError InvalidSelection) else Ok acc)
      | _ \<Rightarrow> Throw (QueryError InvalidSelection))"
  by pat_completeness auto

lemma select_node_depth:
  assumes "(k, JObj i' node) \<in> set (fs :: fields)"
  shows "jdepth (get_prop ''select'' node) < Suc (foldr (\<lambda>p. max (jdepth (snd p))) fs 0)"
proof -
  have "jdepth (get_prop ''select'' node) < jdepth (JObj i' node)" by (rule jdepth_get_prop) simp
  also have "\<dots> < jdepth (JObj 0 fs)" using assms by (rule jdepth_member)
  finally show ?thesis by simp
qed

termination normalize_select_shape
  by (relation "measure jdepth") (auto dest: select_node_depth)

declare normalize_select_shape.simps [simp del]

section \<open>Select lists\<close>

definition push_char :: "char \<Rightarrow> string list \<Rightarrow> string list" where
  "push_char c ws = (case ws of [] \<Rightarrow> [[c]] | w # vs \<Rightarrow> (c # w) # vs)"

fun split_depth :: "char \<Rightarrow> nat \<Rightarrow> string \<Rightarrow> string list" where
  "split_depth sep d [] = [[]]"
| "split_depth sep d (c # s) =
     (if c = CHR ''('' then push_char c (split_depth sep (d + 1) s)
      else if c = CHR '')'' then push_char c (split_depth sep (d - 1) s)
      else if c = sep \<and> d = 0 then [] # split_depth sep d s
      else push_char c (split_depth sep d s))"

definition split_top_level :: "string \<Rightarrow> char \<Rightarrow> string list" where
  "split_top_level s sep = filter (\<lambda>w. w \<noteq> []) (map js_trim (split_depth sep 0 s))"

text \<open>The pattern \<open>alias : column\<close>, the column possibly with dots.\<close>

definition field_part :: "char \<Rightarrow> bool" where
  "field_part c \<longleftrightarrow> ident_part c \<or> c = CHR ''.''"

definition alias_match :: "string \<Rightarrow> (string \<times> string) option" where
  "alias_match token =
     (let name = takeWhile ident_part token;
          rest = dropWhile is_ws (dropWhile ident_part token)
      in if \<not> is_identifier name then None
         else (case rest of
                 [] \<Rightarrow> None
               | c # cs \<Rightarrow>
                   if c \<noteq> CHR '':'' then None
                   else (case dropWhile is_ws cs of
                           [] \<Rightarrow> None
                         | d # ds \<Rightarrow>
                             if ident_start d \<and> list_all field_part ds then Some (name, d # ds)
                             else None)))"

definition column_token :: "string \<Rightarrow> (query_error, selected_field) result" where
  "column_token token =
     (if token = ''*'' then Ok (ColumnField None ''*'')
      else (case alias_match token of
              Some (a, c) \<Rightarrow> Ok (ColumnField (Some a) c)
            | None \<Rightarrow>
                rmap (ColumnField None) (assert_identifier (last (split_on (CHR ''.'') token)))))"

text \<open>The head of \<open>alias:relation!hint(...)\<close>: the alias and the source.\<close>

definition relation_head :: "string \<Rightarrow> (query_error, string option \<times> source_ast) result" where
  "relation_head head =
     (let alias = (case index_of (CHR '':'') head of
                     None \<Rightarrow> None | Some n \<Rightarrow> present_string (js_trim (take n head)));
          token = (case index_of (CHR '':'') head of
                     None \<Rightarrow> head | Some n \<Rightarrow> js_trim (drop (n + 1) head));
          path = (case index_of (CHR ''!'') token of
                    None \<Rightarrow> token | Some n \<Rightarrow> js_trim (take n token))
      in rmap (\<lambda>source. (alias, source)) (parse_source_name path))"

function parse_select_list :: "string \<Rightarrow> (query_error, selected_field list) result" where
  "parse_select_list raw =
     (let tokens = split_top_level raw (CHR '','')
      in if tokens = [] then Throw (QueryError InvalidSelection)
         else map_r (\<lambda>token.
           case index_of (CHR ''('') token of
             None \<Rightarrow> column_token token
           | Some n \<Rightarrow>
               if \<not> ends_with token '')'' then Throw (QueryError InvalidNesting)
               else rbind (relation_head (js_trim (take n token))) (\<lambda>(alias, source).
                 rmap (\<lambda>sub. RelationField alias
                         (SelectQuery ManyRows None None None None sub source) (sa_table source) None)
                   (parse_select_list (butlast (drop (n + 1) token))))) tokens)"
  by pat_completeness auto

lemma push_char_length:
  "\<forall>v \<in> set ws. length v \<le> n \<Longrightarrow> \<forall>w \<in> set (push_char c ws). length w \<le> Suc n"
  by (cases ws) (auto simp: push_char_def intro: le_SucI)

lemma split_depth_all_length: "\<forall>w \<in> set (split_depth sep d s). length w \<le> length s"
proof (induction sep d s rule: split_depth.induct)
  case (2 sep d c s)
  consider "c = CHR ''(''" | "c = CHR '')''" | "c \<noteq> CHR ''(''" "c \<noteq> CHR '')''" "c = sep \<and> d = 0"
    | "c \<noteq> CHR ''(''" "c \<noteq> CHR '')''" "\<not> (c = sep \<and> d = 0)" by blast
  then show ?case
  proof cases
    case 1
    with 2 show ?thesis using push_char_length [of "split_depth sep (d + 1) s" "length s" c] by simp
  next
    case c: 2
    with 2 show ?thesis using push_char_length [of "split_depth sep (d - 1) s" "length s" c] by simp
  next
    case 3
    with 2 show ?thesis by (auto intro: le_SucI)
  next
    case 4
    with 2 show ?thesis using push_char_length [of "split_depth sep d s" "length s" c] by auto
  qed
qed simp

lemma split_depth_length: "w \<in> set (split_depth sep d s) \<Longrightarrow> length w \<le> length s"
  using split_depth_all_length by blast

lemma split_top_level_length: "w \<in> set (split_top_level s sep) \<Longrightarrow> length w \<le> length s"
  using split_depth_length by (auto simp: split_top_level_def intro: le_trans [OF js_trim_length])

lemma index_of_less: "index_of c s = Some n \<Longrightarrow> n < length s"
  by (induction s arbitrary: n) (auto split: if_splits)

lemma inner_token_length:
  assumes "token \<in> set (split_top_level raw sep)" "index_of c token = Some n"
  shows "length token - Suc (Suc n) < length raw"
  using split_top_level_length [OF assms(1)] index_of_less [OF assms(2)] by linarith

termination parse_select_list
  by (relation "measure length") (auto dest: inner_token_length)

declare parse_select_list.simps [simp del]

section \<open>Whole queries\<close>

record find_many_input =
  fm_table :: string
  fm_select :: jval
  fm_where :: jval
  fm_order_by :: jval
  fm_limit :: jval
  fm_offset :: jval
  fm_current_page :: jval
  fm_page_size :: jval
  fm_cardinality :: "query_cardinality option"
  fm_model_id :: "string option"

definition normalize_find_many_input :: "find_many_input \<Rightarrow> (query_error, select_ast) result" where
  "normalize_find_many_input inp =
     rbind (parse_source_name (fm_table inp)) (\<lambda>src0.
       let model = get_or (fm_model_id inp) [];
           src = (if model \<noteq> [] then src0\<lparr>sa_model_id := Some model\<rparr> else src0)
       in rbind (normalize_pagination
                   \<lparr>pi_limit = fm_limit inp, pi_offset = fm_offset inp,
                    pi_current_page = fm_current_page inp, pi_current_page_snake = Undefined,
                    pi_page_size = fm_page_size inp, pi_page_size_snake = Undefined\<rparr>) (\<lambda>pag.
          rbind (normalize_filter (fm_where inp)) (\<lambda>flt.
          rbind (normalize_order_by (fm_order_by inp)) (\<lambda>ob.
          rmap (\<lambda>sel. SelectQuery (get_or (fm_cardinality inp) ManyRows) None flt ob pag sel src)
            (normalize_select_shape (fm_select inp))))))"

definition normalize_find_first_input :: "find_many_input \<Rightarrow> (query_error, select_ast) result" where
  "normalize_find_first_input inp = normalize_find_many_input (inp\<lparr>fm_cardinality := Some FirstRow\<rparr>)"

definition normalize_find_unique_input :: "find_many_input \<Rightarrow> (query_error, select_ast) result" where
  "normalize_find_unique_input inp = normalize_find_many_input (inp\<lparr>fm_cardinality := Some UniqueRow\<rparr>)"

definition is_find_many_ast_payload :: "jval \<Rightarrow> bool" where
  "is_find_many_ast_payload v =
     (case v of
        JObj _ fs \<Rightarrow>
          (case get_prop ''table_name'' fs of JStr _ \<Rightarrow> True | _ \<Rightarrow> False) \<and>
          (case get_prop ''select'' fs of
             JObj _ sel \<Rightarrow> list_ex (\<lambda>(k, x). x = JBool True \<or> is_relation_select_node x) sel
           | _ \<Rightarrow> False)
      | _ \<Rightarrow> False)"

text \<open>\<open>isRecord(value) && "where" in value ? value.where : value\<close>\<close>

definition where_of :: "jval \<Rightarrow> jval" where
  "where_of v = (case v of JObj _ fs \<Rightarrow> if has_prop ''where'' fs then get_prop ''where'' fs else v | _ \<Rightarrow> v)"

lemma where_of_depth: "jdepth (where_of v) \<le> jdepth v"
proof (cases v)
  case (JObj i fs)
  have "jdepth (get_prop ''where'' fs) < jdepth (JObj i fs)" by (rule jdepth_get_prop) simp
  then show ?thesis by (simp add: where_of_def JObj)
qed (simp_all add: where_of_def)

function where_has_relation_predicates :: "jval \<Rightarrow> nat list \<Rightarrow> bool \<times> nat list" where
  "where_has_relation_predicates v seen =
     (case where_of v of
        JObj i fs \<Rightarrow>
          if was_seen i seen then (False, seen)
          else any_s (\<lambda>entry s. case entry of (k, child) \<Rightarrow>
            if child = Undefined then (False, s)
            else (case child of
                    JArr clauses \<Rightarrow>
                      if k = ''or'' then any_s (\<lambda>c s'. where_has_relation_predicates c s') clauses s
                      else (False, s)
                  | _ \<Rightarrow>
                      if k = ''not'' then
                        (case where_has_relation_predicates child s of
                           (b, s') \<Rightarrow> (b \<or> is_relation_where_value child, s'))
                      else (is_relation_where_value child, s))) fs (i # seen)
      | _ \<Rightarrow> (False, seen))"
  by pat_completeness auto

lemma where_child_depth:
  assumes "where_of v = JObj i fs" "(k, child) \<in> set fs"
  shows "jdepth child < jdepth v"
  using jdepth_member [OF assms(2), of i] where_of_depth [of v] assms(1) by simp

lemma where_clause_child_depth:
  assumes "where_of v = JObj i fs" "(k, JArr clauses) \<in> set fs" "c \<in> set clauses"
  shows "jdepth c < jdepth v"
  using where_child_depth [OF assms(1,2)] jdepth_item [OF assms(3)] by simp

termination where_has_relation_predicates
  by (relation "measure (\<lambda>(v, s). jdepth v)")
    (auto dest: where_child_depth where_clause_child_depth simp del: jdepth.simps)

declare where_has_relation_predicates.simps [simp del]

definition includes_paren :: "jval \<Rightarrow> bool" where
  "includes_paren v = (case v of JStr s \<Rightarrow> CHR ''('' \<in> set s | _ \<Rightarrow> False)"

definition select_payload_has_relations :: "jval \<Rightarrow> bool" where
  "select_payload_has_relations v =
     (case v of
        JObj _ fs \<Rightarrow>
          if fst (where_has_relation_predicates v []) then True
          else (case get_prop ''select'' fs of
                  JObj _ sel \<Rightarrow> list_ex (\<lambda>(k, x). is_relation_select_node x) sel
                | sel \<Rightarrow>
                    includes_paren sel \<or> includes_paren (get_prop ''columns'' fs) \<or>
                    (case get_prop ''columns'' fs of
                       JArr cs \<Rightarrow> list_ex (\<lambda>c. CHR ''('' \<in> set (to_str c)) cs
                     | _ \<Rightarrow> False))
      | _ \<Rightarrow> False)"

text \<open>A payload that already is an AST is passed on as it is.\<close>

datatype transport_query = RawAst jval | NormalizedAst select_ast

definition payload_columns :: "fields \<Rightarrow> string" where
  "payload_columns fs =
     (case get_prop ''select'' fs of
        JStr s \<Rightarrow> s
      | _ \<Rightarrow>
          (case get_prop ''columns'' fs of
             JArr cs \<Rightarrow> to_str (JArr cs)
           | JStr s \<Rightarrow> s
           | _ \<Rightarrow> ''*''))"

definition payload_fields :: "fields \<Rightarrow> (query_error, selected_field list) result" where
  "payload_fields fs =
     (case get_prop ''select'' fs of
        JObj i sel \<Rightarrow> normalize_select_shape (JObj i sel)
      | _ \<Rightarrow>
          (let cols = payload_columns fs
           in if js_trim cols = [] \<or> js_trim cols = ''*'' then Ok [ColumnField None ''*'']
              else parse_select_list cols))"

definition payload_filter :: "fields \<Rightarrow> (query_error, condition option) result" where
  "payload_filter fs =
     rbind (normalize_filter (get_prop ''where'' fs)) (\<lambda>f.
       case f of
         Some c \<Rightarrow> Ok (Some c)
       | None \<Rightarrow> normalize_gateway_conditions (get_prop ''conditions'' fs))"

definition payload_pagination :: "fields \<Rightarrow> pagination_input" where
  "payload_pagination fs =
     \<lparr>pi_limit = get_prop ''limit'' fs, pi_offset = get_prop ''offset'' fs,
      pi_current_page = Undefined, pi_current_page_snake = get_prop ''current_page'' fs,
      pi_page_size = Undefined, pi_page_size_snake = get_prop ''page_size'' fs\<rparr>"

definition normalize_transport_payload :: "jval \<Rightarrow> (query_error, transport_query) result" where
  "normalize_transport_payload payload =
     (case payload of
        JObj i fs \<Rightarrow>
          if get_prop ''kind'' fs = JStr ''select'' \<and> is_record (get_prop ''source'' fs) then
            Ok (RawAst payload)
          else (let table = js_trim (to_str (nullish_or (get_prop ''table_name'' fs) (JStr [])))
                in if table = [] then Throw (QueryError InvalidSource)
                   else rbind (parse_source_name table) (\<lambda>src.
                        rbind (payload_fields fs) (\<lambda>sel.
                        rbind (payload_filter fs) (\<lambda>flt.
                        rbind (normalize_order_by
                                 (nullish_or (get_prop ''orderBy'' fs) (get_prop ''sort_by'' fs))) (\<lambda>ob.
                        rmap (\<lambda>pag. NormalizedAst (SelectQuery ManyRows None flt ob pag sel src))
                          (normalize_pagination (payload_pagination fs)))))))
      | _ \<Rightarrow> Throw (QueryError InvalidSource))"

end
