(* ===== verification/QueryRelations.thy ===== *)
theory QueryRelations
  imports QueryAst
begin

text \<open>
  The relation catalog of \<open>query/engine/relations.ts\<close>: building it from model metadata, merging
  catalogs by priority, and resolving a relation by name, by outgoing reference or by
  incoming reference (then inverted).
\<close>

record through_metadata =
  th_schema :: "string option"
  th_model :: string
  th_source_columns :: "string list"
  th_target_columns :: "string list"

record relation_metadata =
  rm_kind :: relation_cardinality
  rm_source_columns :: "string list"
  rm_target_columns :: "string list"
  rm_target_schema :: "string option"
  rm_target_model :: string
  rm_through :: "through_metadata option"

type_synonym relation_catalog = "relation_descriptor list"

text \<open>A truthy optional string.\<close>

definition given :: "string option \<Rightarrow> bool" where
  "given s = (case s of None \<Rightarrow> False | Some t \<Rightarrow> t \<noteq> [])"

definition same_table :: "string option \<Rightarrow> string \<Rightarrow> string option \<Rightarrow> string \<Rightarrow> bool" where
  "same_table ls lt rs rt =
     (if lt \<noteq> rt then False else if given ls \<and> given rs then ls = rs else True)"

definition from_source :: "relation_descriptor \<Rightarrow> source_ast \<Rightarrow> bool" where
  "from_source d s =
     same_table (re_schema (rd_from d)) (re_table (rd_from d)) (sa_schema s) (sa_table s)"

definition to_source :: "relation_descriptor \<Rightarrow> source_ast \<Rightarrow> bool" where
  "to_source d s =
     same_table (re_schema (rd_to d)) (re_table (rd_to d)) (sa_schema s) (sa_table s)"

definition invert_cardinality :: "relation_cardinality \<Rightarrow> relation_cardinality" where
  "invert_cardinality c =
     (if c = OneToMany then ManyToOne else if c = ManyToOne then OneToMany else c)"

definition junction_of :: "through_metadata \<Rightarrow> junction_end" where
  "junction_of t =
     \<lparr>jn_from_columns = th_source_columns t, jn_schema = th_schema t, jn_table = th_model t,
      jn_to_columns = th_target_columns t\<rparr>"

definition descriptor_of ::
  "string option \<Rightarrow> string \<Rightarrow> string \<times> relation_metadata \<Rightarrow> relation_descriptor" where
  "descriptor_of schema table entry =
     (case entry of (name, r) \<Rightarrow>
        \<lparr>rd_cardinality = rm_kind r,
         rd_from = \<lparr>re_columns = rm_source_columns r, re_schema = schema, re_table = table\<rparr>,
         rd_id = get_or schema ''_'' @ ''.'' @ table @ ''.'' @ name,
         rd_junction = map_option junction_of (rm_through r),
         rd_name = name,
         rd_to = \<lparr>re_columns = rm_target_columns r, re_schema = rm_target_schema r,
                  re_table = rm_target_model r\<rparr>\<rparr>)"

definition catalog_from_model_relations ::
  "string option \<Rightarrow> string \<Rightarrow> (string, relation_metadata) odict \<Rightarrow> relation_catalog" where
  "catalog_from_model_relations schema table relations = map (descriptor_of schema table) relations"

fun merge_entries :: "string list \<Rightarrow> relation_descriptor list \<Rightarrow> relation_descriptor list" where
  "merge_entries seen [] = []"
| "merge_entries seen (d # ds) =
     (if rd_id d \<in> set seen then merge_entries seen ds
      else d # merge_entries (rd_id d # seen) ds)"

definition merge_relation_catalogs :: "relation_catalog option list \<Rightarrow> relation_catalog" where
  "merge_relation_catalogs cats =
     merge_entries [] (concat (map (\<lambda>c. get_or c []) cats))"

text \<open>\<open>!targetSchema || !end.schema || end.schema === targetSchema\<close>\<close>

definition schema_compatible :: "string option \<Rightarrow> string option \<Rightarrow> bool" where
  "schema_compatible target schema \<longleftrightarrow> \<not> given target \<or> \<not> given schema \<or> schema = target"

definition invert_descriptor :: "string \<Rightarrow> relation_descriptor \<Rightarrow> relation_descriptor" where
  "invert_descriptor name d =
     d\<lparr>rd_cardinality := invert_cardinality (rd_cardinality d), rd_from := rd_to d, rd_name := name,
       rd_to := rd_from d\<rparr>"

definition by_name :: "relation_catalog \<Rightarrow> string \<Rightarrow> source_ast \<Rightarrow> relation_catalog" where
  "by_name catalog name s = filter (\<lambda>d. rd_name d = name \<and> from_source d s) catalog"

definition outgoing ::
  "relation_catalog \<Rightarrow> string \<Rightarrow> string option \<Rightarrow> source_ast \<Rightarrow> relation_catalog" where
  "outgoing catalog table schema s =
     filter (\<lambda>d. from_source d s \<and> re_table (rd_to d) = table \<and>
                 schema_compatible schema (re_schema (rd_to d))) catalog"

definition incoming ::
  "relation_catalog \<Rightarrow> string \<Rightarrow> string option \<Rightarrow> source_ast \<Rightarrow> relation_catalog" where
  "incoming catalog table schema s =
     filter (\<lambda>d. to_source d s \<and> re_table (rd_from d) = table \<and>
                 schema_compatible schema (re_schema (rd_from d))) catalog"

definition resolve_relation ::
  "relation_catalog \<Rightarrow> string \<Rightarrow> source_ast \<Rightarrow> source_ast option \<Rightarrow>
   (query_error, relation_descriptor) result" where
  "resolve_relation catalog name s hint =
     (case by_name catalog name s of
        [d] \<Rightarrow> Ok d
      | _ # _ # _ \<Rightarrow> Throw (QueryError AmbiguousRelation)
      | [] \<Rightarrow>
          (let table = (case hint of None \<Rightarrow> name | Some h \<Rightarrow> sa_table h);
               schema = (case hint of None \<Rightarrow> None | Some h \<Rightarrow> sa_schema h)
           in (case outgoing catalog table schema s of
                 [d] \<Rightarrow> Ok d
               | _ # _ # _ \<Rightarrow> Throw (QueryError AmbiguousRelation)
               | [] \<Rightarrow>
                   (case incoming catalog table schema s of
                      [d] \<Rightarrow> Ok (invert_descriptor name d)
                    | _ # _ # _ \<Rightarrow> Throw (QueryError AmbiguousRelation)
                    | [] \<Rightarrow> Throw (QueryError UnknownRelation)))))"

section \<open>Catalogs\<close>

lemma merge_entries_ids: "distinct (map rd_id (merge_entries seen ds)) \<and>
    rd_id ` set (merge_entries seen ds) = rd_id ` set ds - set seen"
  by (induction seen ds rule: merge_entries.induct) auto

lemma merge_entries_mem:
  "rd_id d \<notin> set seen \<Longrightarrow> rd_id d \<notin> rd_id ` set pre \<Longrightarrow>
   d \<in> set (merge_entries seen (pre @ d # post))"
  by (induction pre arbitrary: seen) auto

lemma merge_entries_sub: "set (merge_entries seen ds) \<subseteq> set ds"
  by (induction seen ds rule: merge_entries.induct) auto

lemma merge_ids_distinct: "distinct (map rd_id (merge_relation_catalogs cats))"
  using merge_entries_ids by (simp add: merge_relation_catalogs_def)

lemma merge_ids: "rd_id ` set (merge_relation_catalogs cats) =
    (\<Union>c \<in> set cats. rd_id ` set (get_or c []))"
  using merge_entries_ids [of "[]"] by (auto simp: merge_relation_catalogs_def)

lemma merge_priority:
  assumes "d \<in> set c" "distinct (map rd_id c)"
  shows "d \<in> set (merge_relation_catalogs (Some c # cats))"
proof -
  from assms(1) obtain pre post where c: "c = pre @ d # post" by (auto simp: in_set_conv_decomp)
  with assms(2) have "rd_id d \<notin> rd_id ` set pre" by auto
  from merge_entries_mem [OF _ this, of "[]" "post @ concat (map (\<lambda>c. get_or c []) cats)"]
  show ?thesis by (simp add: merge_relation_catalogs_def c)
qed

section \<open>Resolution\<close>

lemma invert_cardinality_involutive [simp]: "invert_cardinality (invert_cardinality c) = c"
  by (cases c) (simp_all add: invert_cardinality_def)

lemma resolve_cases:
  assumes "resolve_relation catalog name s hint = Ok d"
  shows "d \<in> set catalog \<and> from_source d s \<or>
    (\<exists>e \<in> set catalog. to_source e s \<and> d = invert_descriptor name e)"
proof -
  let ?table = "case hint of None \<Rightarrow> name | Some h \<Rightarrow> sa_table h"
  let ?schema = "case hint of None \<Rightarrow> None | Some h \<Rightarrow> sa_schema h"
  consider "by_name catalog name s = [d]"
    | "outgoing catalog ?table ?schema s = [d]"
    | e where "incoming catalog ?table ?schema s = [e]" "d = invert_descriptor name e"
    using assms by (auto simp: resolve_relation_def Let_def split: list.splits)
  then show ?thesis
    by cases (auto simp: by_name_def outgoing_def incoming_def dest: one_elem)
qed

lemma from_invert: "from_source (invert_descriptor name e) s = to_source e s"
  by (simp add: invert_descriptor_def from_source_def to_source_def)

lemma resolve_from_source:
  "resolve_relation catalog name s hint = Ok d \<Longrightarrow> from_source d s"
  using resolve_cases [of catalog name s hint d] by (auto simp: from_invert)

lemma from_source_table: "from_source d s \<Longrightarrow> re_table (rd_from d) = sa_table s"
  by (simp add: from_source_def same_table_def split: if_splits)

text \<open>A unique name wins over every other entry of the catalog.\<close>

lemma resolve_by_name: "by_name catalog name s = [d] \<Longrightarrow> resolve_relation catalog name s hint = Ok d"
  by (simp add: resolve_relation_def)

lemma resolve_ambiguous:
  "1 < length (by_name catalog name s) \<Longrightarrow>
   resolve_relation catalog name s hint = Throw (QueryError AmbiguousRelation)"
  by (auto simp: resolve_relation_def split: list.splits)

lemma resolve_throws:
  "resolve_relation catalog name s hint = Throw e \<Longrightarrow>
   e = QueryError AmbiguousRelation \<or> e = QueryError UnknownRelation"
  by (auto simp: resolve_relation_def Let_def split: list.splits)

lemma resolve_unknown_iff:
  "resolve_relation catalog name s None = Throw (QueryError UnknownRelation) \<longleftrightarrow>
   (\<forall>d \<in> set catalog. \<not> (from_source d s \<and> (rd_name d = name \<or> re_table (rd_to d) = name)) \<and>
      \<not> (to_source d s \<and> re_table (rd_from d) = name))"
proof -
  have "resolve_relation catalog name s None = Throw (QueryError UnknownRelation) \<longleftrightarrow>
      by_name catalog name s = [] \<and> outgoing catalog name None s = [] \<and>
      incoming catalog name None s = []"
    by (auto simp: resolve_relation_def split: list.splits)
  also have "\<dots> \<longleftrightarrow> (\<forall>d \<in> set catalog. \<not> (from_source d s \<and> (rd_name d = name \<or> re_table (rd_to d) = name)) \<and>
      \<not> (to_source d s \<and> re_table (rd_from d) = name))"
    by (auto simp: by_name_def outgoing_def incoming_def filter_empty_conv schema_compatible_def
        given_def)
  finally show ?thesis .
qed

text \<open>
  The compilers join the parent to the junction by the junction's \<open>fromColumns\<close>. For that the
  junction must name, in \<open>fromColumns\<close>, the columns that refer to the \<open>from\<close> end: the
  orientation of a descriptor.
\<close>

definition oriented ::
  "(junction_end \<Rightarrow> string list \<Rightarrow> relation_end \<Rightarrow> bool) \<Rightarrow> relation_descriptor \<Rightarrow> bool" where
  "oriented refers d =
     (case rd_junction d of
        None \<Rightarrow> True
      | Some j \<Rightarrow> refers j (jn_from_columns j) (rd_from d) \<and> refers j (jn_to_columns j) (rd_to d))"

lemma invert_junction: "rd_junction (invert_descriptor name d) = rd_junction d"
  by (simp add: invert_descriptor_def)

lemma invert_ends:
  "rd_from (invert_descriptor name d) = rd_to d" "rd_to (invert_descriptor name d) = rd_from d"
  by (simp_all add: invert_descriptor_def)

end
