(* ===== verification/QueryValidate.thy ===== *)
theory QueryValidate
  imports QueryAst
begin

text \<open>
  The structural checks of \<open>query/engine/validate.ts\<close>: relation count and nesting depth of an
  AST against their limits, and the shape checks made before planning.
\<close>

definition default_query_max_nested_depth :: nat where
  "default_query_max_nested_depth = 8"

definition default_query_max_relations :: nat where
  "default_query_max_relations = 32"

fun count_condition_relations :: "condition \<Rightarrow> nat" where
  "count_condition_relations (AndCond cs) = sum_list (map count_condition_relations cs)"
| "count_condition_relations (OrCond cs) = sum_list (map count_condition_relations cs)"
| "count_condition_relations (NotCond c) = count_condition_relations c"
| "count_condition_relations (RelationCond p r via f) =
     1 + (case f of None \<Rightarrow> 0 | Some c \<Rightarrow> count_condition_relations c)"
| "count_condition_relations (ResolvedCond d t j p r f) =
     1 + (case f of None \<Rightarrow> 0 | Some c \<Rightarrow> count_condition_relations c)"
| "count_condition_relations _ = 0"

fun measure_condition_depth :: "condition \<Rightarrow> nat" where
  "measure_condition_depth (AndCond cs) = foldr (\<lambda>c d. max (measure_condition_depth c) d) cs 0"
| "measure_condition_depth (OrCond cs) = foldr (\<lambda>c d. max (measure_condition_depth c) d) cs 0"
| "measure_condition_depth (NotCond c) = measure_condition_depth c"
| "measure_condition_depth (RelationCond p r via f) =
     1 + (case f of None \<Rightarrow> 0 | Some c \<Rightarrow> measure_condition_depth c)"
| "measure_condition_depth (ResolvedCond d t j p r f) =
     1 + (case f of None \<Rightarrow> 0 | Some c \<Rightarrow> measure_condition_depth c)"
| "measure_condition_depth _ = 0"

definition count_filter :: "condition option \<Rightarrow> nat" where
  "count_filter f = (case f of None \<Rightarrow> 0 | Some c \<Rightarrow> count_condition_relations c)"

definition depth_filter :: "condition option \<Rightarrow> nat" where
  "depth_filter f = (case f of None \<Rightarrow> 0 | Some c \<Rightarrow> measure_condition_depth c)"

fun count_ast_relations :: "select_ast \<Rightarrow> nat"
  and count_field_relations :: "selected_field \<Rightarrow> nat" where
  "count_ast_relations (SelectQuery cy dst flt ob pag fs src) =
     count_filter flt + sum_list (map count_field_relations fs)"
| "count_field_relations (ColumnField a c) = 0"
| "count_field_relations (RelationField a q r via) = 1 + count_ast_relations q"

fun measure_ast_depth :: "select_ast \<Rightarrow> nat"
  and measure_field_depth :: "selected_field \<Rightarrow> nat" where
  "measure_ast_depth (SelectQuery cy dst flt ob pag fs src) =
     foldr (\<lambda>f d. max (measure_field_depth f) d) fs (depth_filter flt)"
| "measure_field_depth (ColumnField a c) = 0"
| "measure_field_depth (RelationField a q r via) = 1 + measure_ast_depth q"

definition validate_query_complexity ::
  "select_ast \<Rightarrow> nat option \<Rightarrow> nat option \<Rightarrow> (query_error, unit) result" where
  "validate_query_complexity q max_nested_depth max_relations =
     (if get_or max_nested_depth default_query_max_nested_depth < measure_ast_depth q then
        Throw (QueryError InvalidNesting)
      else if get_or max_relations default_query_max_relations < count_ast_relations q then
        Throw (QueryError InvalidNesting)
      else Ok ())"

definition page_below_one :: "pagination_ast option \<Rightarrow> bool" where
  "page_below_one p =
     (case p of None \<Rightarrow> False | Some pg \<Rightarrow> pg_page pg \<noteq> Undefined \<and> less_than (pg_page pg) 1)"

definition validate_select_query_ast :: "select_ast \<Rightarrow> (query_error, unit) result" where
  "validate_select_query_ast q =
     (if \<not> is_identifier (sa_table (sq_source q)) then Throw (QueryError InvalidSource)
      else if sq_fields q = [] then Throw (QueryError InvalidSelection)
      else if page_below_one (sq_pagination q) then Throw (QueryError InvalidPagination)
      else validate_query_complexity q None None)"

lemma validate_complexity_Ok:
  "validate_query_complexity q d r = Ok () \<longleftrightarrow>
   measure_ast_depth q \<le> get_or d default_query_max_nested_depth \<and>
   count_ast_relations q \<le> get_or r default_query_max_relations"
  by (auto simp: validate_query_complexity_def)

lemma validate_select_Ok:
  "validate_select_query_ast q = Ok () \<longleftrightarrow>
   is_identifier (sa_table (sq_source q)) \<and> sq_fields q \<noteq> [] \<and>
   \<not> page_below_one (sq_pagination q) \<and> measure_ast_depth q \<le> 8 \<and> count_ast_relations q \<le> 32"
  by (auto simp: validate_select_query_ast_def validate_complexity_Ok
      default_query_max_nested_depth_def default_query_max_relations_def)

text \<open>Counting relations is counting the relation nodes that \<open>walkConditions\<close> visits.\<close>

lemma count_walk_list:
  "(\<And>c. c \<in> set cs \<Longrightarrow> n c = length (filter P (w c))) \<Longrightarrow>
   sum_list (map n cs) = length (filter P (concat (map w cs)))"
  by (induction cs) auto

lemma count_walk:
  "count_condition_relations c = length (filter is_relation_node (walk_conditions c))"
proof (induction c)
  case (AndCond cs)
  then show ?case
    using count_walk_list [of cs count_condition_relations is_relation_node walk_conditions] by simp
next
  case (OrCond cs)
  then show ?case
    using count_walk_list [of cs count_condition_relations is_relation_node walk_conditions] by simp
next
  case (RelationCond p r via f)
  then show ?case by (cases f) simp_all
next
  case (ResolvedCond d t j p r f)
  then show ?case by (cases f) simp_all
qed simp_all

lemma foldr_max_bound: "foldr (\<lambda>x d. max (f x) d) xs (a :: nat) \<le> n \<longleftrightarrow> a \<le> n \<and> (\<forall>x \<in> set xs. f x \<le> n)"
  by (induction xs) auto

text \<open>Nested queries are shallower and smaller than the query that holds them.\<close>

lemma nested_depth:
  "RelationField a q' r via \<in> set (sq_fields q) \<Longrightarrow> measure_ast_depth q' < measure_ast_depth q"
proof (cases q)
  case (SelectQuery cy dst flt ob pag fs src)
  assume "RelationField a q' r via \<in> set (sq_fields q)"
  with SelectQuery have "1 + measure_ast_depth q' \<le> measure_ast_depth q"
    using foldr_max_bound [of measure_field_depth fs "depth_filter flt" "measure_ast_depth q"]
    by fastforce
  then show ?thesis by simp
qed

lemma nested_count:
  "RelationField a q' r via \<in> set (sq_fields q) \<Longrightarrow> count_ast_relations q' < count_ast_relations q"
proof (cases q)
  case (SelectQuery cy dst flt ob pag fs src)
  assume *: "RelationField a q' r via \<in> set (sq_fields q)"
  have "1 + count_ast_relations q' \<le> sum_list (map count_field_relations fs)"
    using * SelectQuery member_le_sum_list [of "1 + count_ast_relations q'" "map count_field_relations fs"]
    by force
  then show ?thesis by (simp add: SelectQuery)
qed

end
