(* ===== verification/QueryPlan.thy ===== *)
theory QueryPlan
  imports QueryRelations QueryValidate
begin

text \<open>
  The planner of \<open>query/engine/plan.ts\<close>: it resolves every relation of an AST against the
  catalog and gives each source, relation target and junction an alias from one counter per
  plan. The path that error messages print is left out. The last section checks a plan against
  a capability matrix (\<open>validatePlanAgainstCapabilities\<close> of \<open>validate.ts\<close>).
\<close>

section \<open>Plans\<close>

record resolved_source =
  rs_alias :: string
  rs_model_id :: "string option"
  rs_schema :: "string option"
  rs_table :: string

datatype query_plan =
  QueryPlan
    (qp_ast: select_ast)
    (qp_cardinality: query_cardinality)
    (qp_filter: "condition option")
    (qp_order_by: "order_ast list option")
    (qp_pagination: "pagination_ast option")
    (qp_selection: "plan_field list")
    (qp_source: resolved_source)
and plan_field =
    PlanColumn "string option" string
  | PlanRelation string relation_descriptor "string option" query_plan

definition alias_next :: "string \<Rightarrow> nat \<Rightarrow> string \<times> nat" where
  "alias_next prefix seq = (prefix @ show_nat (seq + 1), seq + 1)"

definition junction_alias :: "relation_descriptor \<Rightarrow> nat \<Rightarrow> string option \<times> nat" where
  "junction_alias d seq =
     (if rd_cardinality d = ManyToMany then (let (a, seq') = alias_next ''j'' seq in (Some a, seq'))
      else (None, seq))"

section \<open>Conditions\<close>

definition end_source :: "relation_end \<Rightarrow> source_ast" where
  "end_source e = table_source (re_schema e) (re_table e)"

fun resolve_condition ::
  "relation_catalog option \<Rightarrow> source_ast \<Rightarrow> condition \<Rightarrow> nat \<Rightarrow> (query_error, condition \<times> nat) result" where
  "resolve_condition cat src (AndCond cs) seq =
     rmap (\<lambda>(cs', seq'). (AndCond cs', seq')) (map_s (resolve_condition cat src) cs seq)"
| "resolve_condition cat src (OrCond cs) seq =
     rmap (\<lambda>(cs', seq'). (OrCond cs', seq')) (map_s (resolve_condition cat src) cs seq)"
| "resolve_condition cat src (NotCond c) seq =
     rmap (\<lambda>(c', seq'). (NotCond c', seq')) (resolve_condition cat src c seq)"
| "resolve_condition cat src (ResolvedCond d t j p r f) seq =
     rmap (\<lambda>(f', seq'). (ResolvedCond d t j p r f', seq'))
       (opt_s (resolve_condition cat
                 \<lparr>sa_alias = None, sa_model_id = rt_model_id t, sa_schema = rt_schema t,
                  sa_table = rt_table t\<rparr>) f seq)"
| "resolve_condition cat src (RelationCond p r via f) seq =
     (case cat of
        None \<Rightarrow> Throw (QueryError UnknownRelation)
      | Some catalog \<Rightarrow>
          rbind (resolve_relation catalog (get_or via r) src None) (\<lambda>d.
            let (alias, seq1) = alias_next ''r'' seq;
                target = \<lparr>rt_alias = alias, rt_model_id = None, rt_schema = re_schema (rd_to d),
                          rt_table = re_table (rd_to d)\<rparr>
            in rbind (opt_s (resolve_condition cat (end_source (rd_to d))) f seq1) (\<lambda>(f', seq2).
                 let (j, seq3) = junction_alias d seq2
                 in Ok (ResolvedCond d target j p r f', seq3))))"
| "resolve_condition cat src c seq = Ok (c, seq)"

section \<open>Queries\<close>

definition with_source :: "source_ast \<Rightarrow> select_ast \<Rightarrow> select_ast" where
  "with_source src q =
     SelectQuery (sq_cardinality q) (sq_distinct q) (sq_filter q) (sq_order_by q) (sq_pagination q)
       (sq_fields q) src"

definition nested_source :: "relation_descriptor \<Rightarrow> source_ast \<Rightarrow> source_ast" where
  "nested_source d src =
     src\<lparr>sa_schema := or_else (sa_schema src) (re_schema (rd_to d)), sa_table := re_table (rd_to d)\<rparr>"

definition source_alias :: "source_ast \<Rightarrow> string \<Rightarrow> nat \<Rightarrow> string \<times> nat" where
  "source_alias src prefix seq =
     (case sa_alias src of Some a \<Rightarrow> (a, seq) | None \<Rightarrow> alias_next prefix seq)"

text \<open>\<open>src\<close> is the source of the query: the planner replaces it for a nested query.\<close>

fun resolve_query_plan ::
  "relation_catalog option \<Rightarrow> string \<Rightarrow> source_ast \<Rightarrow> select_ast \<Rightarrow> nat \<Rightarrow>
   (query_error, query_plan \<times> nat) result"
  and resolve_fields ::
  "relation_catalog option \<Rightarrow> source_ast \<Rightarrow> selected_field list \<Rightarrow> string list \<Rightarrow> nat \<Rightarrow>
   (query_error, plan_field list \<times> nat) result" where
  "resolve_query_plan cat prefix src (SelectQuery cy dst flt ob pag fs src0) seq =
     (let q = SelectQuery cy dst flt ob pag fs src
      in rbind (validate_select_query_ast q) (\<lambda>_.
           let (alias, seq1) = source_alias src prefix seq
           in rbind (resolve_fields cat src fs [] seq1) (\<lambda>(selection, seq2).
                if selection = [] then Throw (QueryError InvalidSelection)
                else rbind (opt_s (resolve_condition cat src) flt seq2) (\<lambda>(flt', seq3).
                  Ok (QueryPlan q cy flt' ob pag selection
                        \<lparr>rs_alias = alias, rs_model_id = sa_model_id src, rs_schema = sa_schema src,
                         rs_table = sa_table src\<rparr>, seq3)))))"
| "resolve_fields cat src [] outs seq = Ok ([], seq)"
| "resolve_fields cat src (ColumnField a c # fs) outs seq =
     (let out = get_or a c
      in if out \<in> set outs then Throw (QueryError InvalidSelection)
         else rmap (\<lambda>(ps, seq'). (PlanColumn a c # ps, seq')) (resolve_fields cat src fs (out # outs) seq))"
| "resolve_fields cat src (RelationField a q r via # fs) outs seq =
     (case cat of
        None \<Rightarrow> Throw (QueryError UnknownRelation)
      | Some catalog \<Rightarrow>
          rbind (resolve_relation catalog r src (Some (sq_source q))) (\<lambda>d.
            let out = get_or a r
            in if out \<in> set outs then Throw (QueryError InvalidSelection)
               else rbind (resolve_query_plan cat ''r'' (nested_source d (sq_source q)) q seq) (\<lambda>(plan, seq1).
                 let (j, seq2) = junction_alias d seq1
                 in rmap (\<lambda>(ps, seq'). (PlanRelation out d j plan # ps, seq'))
                      (resolve_fields cat src fs (out # outs) seq2))))"

definition resolve_athena_query_plan ::
  "relation_catalog option \<Rightarrow> select_ast \<Rightarrow> (query_error, query_plan) result" where
  "resolve_athena_query_plan cat q = rmap fst (resolve_query_plan cat ''t'' (sq_source q) q 0)"

section \<open>Inversion of successful runs\<close>

lemma resolve_relation_cond_Ok:
  "resolve_condition cat src (RelationCond p r via f) seq = Ok (c', seq') \<longleftrightarrow>
   (\<exists>catalog d a seq1 f' seq2 j.
      cat = Some catalog \<and> resolve_relation catalog (get_or via r) src None = Ok d \<and>
      alias_next ''r'' seq = (a, seq1) \<and>
      opt_s (resolve_condition cat (end_source (rd_to d))) f seq1 = Ok (f', seq2) \<and>
      junction_alias d seq2 = (j, seq') \<and>
      c' = ResolvedCond d \<lparr>rt_alias = a, rt_model_id = None, rt_schema = re_schema (rd_to d),
             rt_table = re_table (rd_to d)\<rparr> j p r f')"
  by (cases cat) (simp_all add: rbind_eq_Inr Let_def case_pair_eq, blast)

lemma resolve_list_cond_Ok:
  "resolve_condition cat src (AndCond cs) seq = Ok (c', seq') \<longleftrightarrow>
   (\<exists>cs'. map_s (resolve_condition cat src) cs seq = Ok (cs', seq') \<and> c' = AndCond cs')"
  "resolve_condition cat src (OrCond cs) seq = Ok (c', seq') \<longleftrightarrow>
   (\<exists>cs'. map_s (resolve_condition cat src) cs seq = Ok (cs', seq') \<and> c' = OrCond cs')"
  "resolve_condition cat src (NotCond c) seq = Ok (c', seq') \<longleftrightarrow>
   (\<exists>c1. resolve_condition cat src c seq = Ok (c1, seq') \<and> c' = NotCond c1)"
  by (auto simp: rmap_eq_Inr)

lemma resolve_resolved_cond_Ok:
  "resolve_condition cat src (ResolvedCond d t j p r f) seq = Ok (c', seq') \<longleftrightarrow>
   (\<exists>f'. opt_s (resolve_condition cat
                 \<lparr>sa_alias = None, sa_model_id = rt_model_id t, sa_schema = rt_schema t,
                  sa_table = rt_table t\<rparr>) f seq = Ok (f', seq') \<and> c' = ResolvedCond d t j p r f')"
  by (auto simp: rmap_eq_Inr)

lemma resolve_query_plan_Ok:
  "resolve_query_plan cat prefix src (SelectQuery cy dst flt ob pag fs src0) seq = Ok (plan, seq') \<longleftrightarrow>
   validate_select_query_ast (SelectQuery cy dst flt ob pag fs src) = Ok () \<and>
   (\<exists>a seq1 sel seq2 flt'.
      source_alias src prefix seq = (a, seq1) \<and> resolve_fields cat src fs [] seq1 = Ok (sel, seq2) \<and>
      sel \<noteq> [] \<and> opt_s (resolve_condition cat src) flt seq2 = Ok (flt', seq') \<and>
      plan = QueryPlan (SelectQuery cy dst flt ob pag fs src) cy flt' ob pag sel
        \<lparr>rs_alias = a, rs_model_id = sa_model_id src, rs_schema = sa_schema src,
         rs_table = sa_table src\<rparr>)"
  by (cases "source_alias src prefix seq")
    (auto simp: rbind_eq_Inr Let_def split: if_splits)

lemma resolve_column_Ok:
  "resolve_fields cat src (ColumnField a c # fs) outs seq = Ok (ps, seq') \<longleftrightarrow>
   get_or a c \<notin> set outs \<and>
   (\<exists>ps'. resolve_fields cat src fs (get_or a c # outs) seq = Ok (ps', seq') \<and> ps = PlanColumn a c # ps')"
  by (auto simp: rmap_eq_Inr Let_def split: if_splits)

lemma resolve_relation_field_Ok:
  "resolve_fields cat src (RelationField a q r via # fs) outs seq = Ok (ps, seq') \<longleftrightarrow>
   get_or a r \<notin> set outs \<and>
   (\<exists>catalog d plan seq1 j seq2 ps'.
      cat = Some catalog \<and> resolve_relation catalog r src (Some (sq_source q)) = Ok d \<and>
      resolve_query_plan cat ''r'' (nested_source d (sq_source q)) q seq = Ok (plan, seq1) \<and>
      junction_alias d seq1 = (j, seq2) \<and>
      resolve_fields cat src fs (get_or a r # outs) seq2 = Ok (ps', seq') \<and>
      ps = PlanRelation (get_or a r) d j plan # ps')"
  by (cases cat) (auto simp: rbind_eq_Inr rmap_eq_Inr Let_def case_pair_eq split: if_splits)

lemmas resolve_condition_inversion =
  resolve_relation_cond_Ok resolve_list_cond_Ok resolve_resolved_cond_Ok

lemmas resolve_plan_inversion =
  resolve_query_plan_Ok resolve_column_Ok resolve_relation_field_Ok

declare resolve_condition.simps(1-5) [simp del]
declare resolve_query_plan.simps [simp del] resolve_fields.simps(2,3) [simp del]

definition is_plan_relation :: "plan_field \<Rightarrow> bool" where
  "is_plan_relation f = (case f of PlanRelation _ _ _ _ \<Rightarrow> True | PlanColumn _ _ \<Rightarrow> False)"

definition plan_has_relations :: "query_plan \<Rightarrow> bool" where
  "plan_has_relations p \<longleftrightarrow>
     list_ex is_plan_relation (qp_selection p) \<or> selection_has_relations (qp_ast p)"

section \<open>Aliases of a plan\<close>

fun condition_aliases :: "condition \<Rightarrow> string list" where
  "condition_aliases (AndCond cs) = concat (map condition_aliases cs)"
| "condition_aliases (OrCond cs) = concat (map condition_aliases cs)"
| "condition_aliases (NotCond c) = condition_aliases c"
| "condition_aliases (ResolvedCond d t j p r f) =
     rt_alias t # (case f of None \<Rightarrow> [] | Some c \<Rightarrow> condition_aliases c) @
     (case j of None \<Rightarrow> [] | Some a \<Rightarrow> [a])"
| "condition_aliases _ = []"

definition filter_aliases :: "condition option \<Rightarrow> string list" where
  "filter_aliases f = (case f of None \<Rightarrow> [] | Some c \<Rightarrow> condition_aliases c)"

fun plan_aliases :: "query_plan \<Rightarrow> string list"
  and field_aliases :: "plan_field \<Rightarrow> string list" where
  "plan_aliases (QueryPlan q cy flt ob pag sel src) =
     rs_alias src # concat (map field_aliases sel) @ filter_aliases flt"
| "field_aliases (PlanColumn a c) = []"
| "field_aliases (PlanRelation a d j p) =
     plan_aliases p @ (case j of None \<Rightarrow> [] | Some x \<Rightarrow> [x])"

text \<open>The number an alias was printed from, and lists of aliases numbered in a range.\<close>

definition alias_number :: "string \<Rightarrow> nat" where
  "alias_number a = digits_val (tl a)"

definition numbered :: "nat \<Rightarrow> string list \<Rightarrow> nat \<Rightarrow> bool" where
  "numbered lo as hi \<longleftrightarrow>
     lo \<le> hi \<and> distinct (map alias_number as) \<and> (\<forall>a \<in> set as. lo < alias_number a \<and> alias_number a \<le> hi)"

lemma numbered_Nil [simp]: "numbered n [] n"
  by (simp add: numbered_def)

lemma numbered_append: "numbered lo as mid \<Longrightarrow> numbered mid bs hi \<Longrightarrow> numbered lo (as @ bs) hi"
  by (fastforce simp: numbered_def)

lemma numbered_distinct: "numbered lo as hi \<Longrightarrow> distinct as"
  by (simp add: numbered_def distinct_map)

lemma alias_number_next [simp]: "alias_number (c # show_nat n) = n"
  by (simp add: alias_number_def)

lemma numbered_next: "alias_next [c] seq = (a, seq') \<Longrightarrow> numbered seq [a] seq'"
  by (auto simp: alias_next_def numbered_def)

lemma numbered_junction:
  "junction_alias d seq = (j, seq') \<Longrightarrow> numbered seq (case j of None \<Rightarrow> [] | Some a \<Rightarrow> [a]) seq'"
  by (auto simp: junction_alias_def alias_next_def numbered_def split: if_splits)

lemma numbered_map_s:
  "map_s f xs seq = Ok (ys, seq') \<Longrightarrow>
   (\<And>x y s s'. x \<in> set xs \<Longrightarrow> f x s = Ok (y, s') \<Longrightarrow> numbered s (g y) s') \<Longrightarrow>
   numbered seq (concat (map g ys)) seq'"
proof (induction xs arbitrary: seq ys)
  case (Cons x xs)
  from Cons.prems(1) obtain y s ys' where f: "f x seq = Ok (y, s)" and m: "map_s f xs s = Ok (ys', seq')"
    and ys: "ys = y # ys'"
    by (auto simp: rbind_eq_Inr)
  have "numbered s (concat (map g ys')) seq'"
    by (rule Cons.IH [OF m]) (rule Cons.prems(2); simp)
  with Cons.prems(2) [OF _ f] show ?case by (simp add: ys numbered_append)
qed simp

text \<open>Conditions as the normaliser makes them: no relation is resolved yet.\<close>

fun unresolved :: "condition \<Rightarrow> bool" where
  "unresolved (AndCond cs) = list_all unresolved cs"
| "unresolved (OrCond cs) = list_all unresolved cs"
| "unresolved (NotCond c) = unresolved c"
| "unresolved (RelationCond p r via f) = (case f of None \<Rightarrow> True | Some c \<Rightarrow> unresolved c)"
| "unresolved (ResolvedCond d t j p r f) = False"
| "unresolved _ = True"

definition unresolved_filter :: "condition option \<Rightarrow> bool" where
  "unresolved_filter f = (case f of None \<Rightarrow> True | Some c \<Rightarrow> unresolved c)"

lemma resolve_conditions_numbered:
  assumes "map_s (resolve_condition cat src) cs seq = Ok (cs', seq')" "list_all unresolved cs"
    and "\<And>c src seq c' seq'. c \<in> set cs \<Longrightarrow> resolve_condition cat src c seq = Ok (c', seq') \<Longrightarrow>
           unresolved c \<Longrightarrow> numbered seq (condition_aliases c') seq'"
  shows "numbered seq (concat (map condition_aliases cs')) seq'"
  using assms(2,3) by (intro numbered_map_s [OF assms(1)]) (auto simp: list_all_iff)

lemma resolve_condition_numbered:
  "resolve_condition cat src c seq = Ok (c', seq') \<Longrightarrow> unresolved c \<Longrightarrow>
   numbered seq (condition_aliases c') seq'"
proof (induction c arbitrary: src seq c' seq')
  case (AndCond cs)
  then show ?case using resolve_conditions_numbered [of cat src cs seq _ seq']
    by (auto simp: resolve_condition_inversion)
next
  case (OrCond cs)
  then show ?case using resolve_conditions_numbered [of cat src cs seq _ seq']
    by (auto simp: resolve_condition_inversion)
next
  case (NotCond c)
  then show ?case by (auto simp: resolve_condition_inversion)
next
  case (RelationCond p r via f)
  then obtain d a seq1 f' seq2 j where
    a: "alias_next ''r'' seq = (a, seq1)" and
    f': "opt_s (resolve_condition cat (end_source (rd_to d))) f seq1 = Ok (f', seq2)" and
    j: "junction_alias d seq2 = (j, seq')" and
    c': "condition_aliases c' = [a] @ filter_aliases f' @ (case j of None \<Rightarrow> [] | Some a \<Rightarrow> [a])"
    by (auto simp: resolve_condition_inversion filter_aliases_def)
  have "numbered seq1 (filter_aliases f') seq2"
    using f' RelationCond.IH RelationCond.prems(2)
    by (cases f) (auto simp: opt_s_Inr filter_aliases_def)
  from numbered_append [OF this numbered_junction [OF j]] show ?case
    unfolding c' by (rule numbered_append [OF numbered_next [OF a]])
qed auto

lemma resolve_filter_numbered:
  "opt_s (resolve_condition cat src) f seq = Ok (f', seq') \<Longrightarrow> unresolved_filter f \<Longrightarrow>
   numbered seq (filter_aliases f') seq'"
  by (auto simp: opt_s_Inr unresolved_filter_def filter_aliases_def resolve_condition_numbered)

text \<open>Queries whose sources name no alias of their own.\<close>

fun plain_query :: "select_ast \<Rightarrow> bool"
  and plain_field :: "selected_field \<Rightarrow> bool" where
  "plain_query (SelectQuery cy dst flt ob pag fs src) =
     (sa_alias src = None \<and> unresolved_filter flt \<and> list_all plain_field fs)"
| "plain_field (ColumnField a c) = True"
| "plain_field (RelationField a q r via) = plain_query q"

lemma resolve_plan_numbered:
  "resolve_query_plan cat prefix src q seq = Ok (plan, seq') \<Longrightarrow> plain_query q \<Longrightarrow>
   sa_alias src = None \<Longrightarrow> length prefix = 1 \<Longrightarrow>
   numbered seq (plan_aliases plan) seq'"
  "resolve_fields cat src fs outs seq = Ok (ps, seq') \<Longrightarrow> list_all plain_field fs \<Longrightarrow>
   numbered seq (concat (map field_aliases ps)) seq'"
proof (induction cat prefix src q seq and cat src fs outs seq arbitrary: plan seq' and ps seq'
    rule: resolve_query_plan_resolve_fields.induct)
  case (1 cat prefix src cy dst flt ob pag fs src0 seq)
  then obtain c where c: "prefix = [c]" by (auto simp: length_Suc_conv)
  obtain a seq1 where a: "alias_next [c] seq = (a, seq1)" by fastforce
  then have sa: "source_alias src prefix seq = (a, seq1)" using "1.prems"(3) by (simp add: source_alias_def c)
  from "1.prems"(1) sa obtain sel seq2 flt' where
    sel: "resolve_fields cat src fs [] seq1 = Ok (sel, seq2)" and
    flt': "opt_s (resolve_condition cat src) flt seq2 = Ok (flt', seq')" and
    plan: "plan_aliases plan = [a] @ concat (map field_aliases sel) @ filter_aliases flt'" and
    v: "validate_select_query_ast (SelectQuery cy dst flt ob pag fs src) = Ok ()"
    by (auto simp: resolve_plan_inversion)
  have "numbered seq1 (concat (map field_aliases sel)) seq2"
    using "1.IH" sel sa v "1.prems"(2) by simp
  from numbered_append [OF this resolve_filter_numbered [OF flt']] show ?case
    using "1.prems"(2) unfolding plan by (simp add: numbered_append [OF numbered_next [OF a], simplified])
next
  case (3 cat src a c fs outs seq)
  then show ?case by (auto simp: resolve_plan_inversion)
next
  case (4 cat src a q r via fs outs seq)
  then obtain catalog d plan seq1 j seq2 ps' where cat: "cat = Some catalog"
    and d: "resolve_relation catalog r src (Some (sq_source q)) = Ok d" and out: "get_or a r \<notin> set outs"
    and p: "resolve_query_plan cat ''r'' (nested_source d (sq_source q)) q seq = Ok (plan, seq1)"
    and j: "junction_alias d seq1 = (j, seq2)"
    and ps': "resolve_fields cat src fs (get_or a r # outs) seq2 = Ok (ps', seq')"
    and ps: "ps = PlanRelation (get_or a r) d j plan # ps'"
    by (auto simp: resolve_plan_inversion)
  have "sa_alias (nested_source d (sq_source q)) = None"
    using "4.prems"(2) by (cases q) (simp add: nested_source_def)
  then have "numbered seq (plan_aliases plan) seq1"
    using "4.IH"(1) cat d out p "4.prems"(2) by simp
  moreover have "numbered seq2 (concat (map field_aliases ps')) seq'"
    using "4.IH"(2) cat d out p j ps' "4.prems"(2) by simp
  ultimately show ?case
    using numbered_append [OF _ numbered_append [OF numbered_junction [OF j]]] by (simp add: ps)
qed auto


section \<open>Plans are resolved\<close>

definition fully_resolved :: "condition \<Rightarrow> bool" where
  "fully_resolved c \<longleftrightarrow> list_all (\<lambda>n. \<not> is_unresolved_node n) (walk_conditions c)"

definition filter_resolved :: "condition option \<Rightarrow> bool" where
  "filter_resolved f = (case f of None \<Rightarrow> True | Some c \<Rightarrow> fully_resolved c)"

lemma map_s_mem:
  "map_s f xs s = Ok (ys, s') \<Longrightarrow> y \<in> set ys \<Longrightarrow> \<exists>x \<in> set xs. \<exists>u u'. f x u = Ok (y, u')"
proof (induction xs arbitrary: s ys)
  case (Cons x xs)
  then show ?case by (fastforce simp: rbind_eq_Inr)
qed simp

lemma fully_resolved_simps [simp]:
  "fully_resolved (AndCond cs) \<longleftrightarrow> list_all fully_resolved cs"
  "fully_resolved (OrCond cs) \<longleftrightarrow> list_all fully_resolved cs"
  "fully_resolved (NotCond c) \<longleftrightarrow> fully_resolved c"
  "fully_resolved (ResolvedCond d t j p r f) \<longleftrightarrow> filter_resolved f"
  by (auto simp: fully_resolved_def filter_resolved_def list_all_iff split: option.splits)

lemma resolve_condition_resolved:
  "resolve_condition cat src c seq = Ok (c', seq') \<Longrightarrow> fully_resolved c'"
proof (induction c arbitrary: src seq c' seq')
  case (AndCond cs)
  then obtain cs' where "map_s (resolve_condition cat src) cs seq = Ok (cs', seq')" "c' = AndCond cs'"
    by (auto simp: resolve_condition_inversion)
  then show ?case using map_s_mem [of _ cs seq cs' seq'] AndCond.IH by (fastforce simp: list_all_iff)
next
  case (OrCond cs)
  then obtain cs' where "map_s (resolve_condition cat src) cs seq = Ok (cs', seq')" "c' = OrCond cs'"
    by (auto simp: resolve_condition_inversion)
  then show ?case using map_s_mem [of _ cs seq cs' seq'] OrCond.IH by (fastforce simp: list_all_iff)
next
  case (NotCond c)
  then show ?case by (auto simp: resolve_condition_inversion)
next
  case (RelationCond p r via f)
  then show ?case by (auto simp: resolve_condition_inversion opt_s_Inr filter_resolved_def)
next
  case (ResolvedCond d t j p r f)
  then show ?case by (auto simp: resolve_condition_inversion opt_s_Inr filter_resolved_def)
qed (auto simp: fully_resolved_def)

lemma resolve_filter_resolved:
  "opt_s (resolve_condition cat src) f seq = Ok (f', seq') \<Longrightarrow> filter_resolved f'"
  by (auto simp: opt_s_Inr filter_resolved_def dest: resolve_condition_resolved)

text \<open>All plans nested in a plan, and what each of them satisfies.\<close>

fun subplans :: "query_plan \<Rightarrow> query_plan list"
  and field_plans :: "plan_field \<Rightarrow> query_plan list" where
  "subplans (QueryPlan q cy flt ob pag sel src) =
     QueryPlan q cy flt ob pag sel src # concat (map field_plans sel)"
| "field_plans (PlanColumn a c) = []"
| "field_plans (PlanRelation a d j p) = subplans p"

definition output_name :: "plan_field \<Rightarrow> string" where
  "output_name f = (case f of PlanColumn a c \<Rightarrow> get_or a c | PlanRelation a d j p \<Rightarrow> a)"

definition edge_sound :: "source_ast \<Rightarrow> plan_field \<Rightarrow> bool" where
  "edge_sound src f =
     (case f of
        PlanColumn a c \<Rightarrow> True
      | PlanRelation a d j p \<Rightarrow>
          from_source d src \<and> rs_table (qp_source p) = re_table (rd_to d) \<and>
          (j = None \<longleftrightarrow> rd_cardinality d \<noteq> ManyToMany))"

definition plan_sound :: "query_plan \<Rightarrow> bool" where
  "plan_sound p \<longleftrightarrow>
     filter_resolved (qp_filter p) \<and> qp_selection p \<noteq> [] \<and>
     distinct (map output_name (qp_selection p)) \<and>
     list_all (edge_sound (sq_source (qp_ast p))) (qp_selection p) \<and>
     rs_table (qp_source p) = sa_table (sq_source (qp_ast p)) \<and>
     is_identifier (rs_table (qp_source p)) \<and>
     measure_ast_depth (qp_ast p) \<le> 8 \<and> count_ast_relations (qp_ast p) \<le> 32"

lemma output_name_simps [simp]:
  "output_name (PlanColumn a c) = get_or a c" "output_name (PlanRelation b d j p) = b"
  by (simp_all add: output_name_def)

lemma edge_sound_column [simp]: "edge_sound src (PlanColumn a c)"
  by (simp add: edge_sound_def)

lemma junction_alias_iff: "junction_alias d seq = (j, seq') \<Longrightarrow> j = None \<longleftrightarrow> rd_cardinality d \<noteq> ManyToMany"
  by (auto simp: junction_alias_def alias_next_def split: if_splits)

lemma resolve_query_plan_source:
  "resolve_query_plan cat prefix src q seq = Ok (p, seq') \<Longrightarrow> rs_table (qp_source p) = sa_table src"
  by (cases q) (auto simp: resolve_query_plan_Ok)

lemma resolve_plan_sound:
  "resolve_query_plan cat prefix src q seq = Ok (plan, seq') \<Longrightarrow> list_all plan_sound (subplans plan)"
  "resolve_fields cat src fs outs seq = Ok (ps, seq') \<Longrightarrow>
   distinct (map output_name ps) \<and> set (map output_name ps) \<inter> set outs = {} \<and>
   list_all (edge_sound src) ps \<and> list_all plan_sound (concat (map field_plans ps))"
proof (induction cat prefix src q seq and cat src fs outs seq arbitrary: plan seq' and ps seq'
    rule: resolve_query_plan_resolve_fields.induct)
  case (1 cat prefix src cy dst flt ob pag fs src0 seq)
  then obtain a seq1 sel seq2 flt' where
    v: "validate_select_query_ast (SelectQuery cy dst flt ob pag fs src) = Ok ()" and
    a: "source_alias src prefix seq = (a, seq1)" and
    sel: "resolve_fields cat src fs [] seq1 = Ok (sel, seq2)" "sel \<noteq> []" and
    flt': "opt_s (resolve_condition cat src) flt seq2 = Ok (flt', seq')" and
    plan: "plan = QueryPlan (SelectQuery cy dst flt ob pag fs src) cy flt' ob pag sel
        \<lparr>rs_alias = a, rs_model_id = sa_model_id src, rs_schema = sa_schema src,
         rs_table = sa_table src\<rparr>"
    by (auto simp: resolve_plan_inversion)
  have "distinct (map output_name sel) \<and> list_all (edge_sound src) sel \<and>
      list_all plan_sound (concat (map field_plans sel))"
    using "1.IH" a sel(1) v by simp
  moreover have "plan_sound plan"
    using calculation v sel(2) resolve_filter_resolved [OF flt']
    by (simp add: plan plan_sound_def validate_select_Ok)
  ultimately show ?case by (simp add: plan)
next
  case (3 cat src a c fs outs seq)
  then obtain ps' where out: "get_or a c \<notin> set outs" and ps: "ps = PlanColumn a c # ps'"
    and ps': "resolve_fields cat src fs (get_or a c # outs) seq = Ok (ps', seq')"
    by (auto simp: resolve_plan_inversion)
  have "distinct (map output_name ps') \<and> set (map output_name ps') \<inter> set (get_or a c # outs) = {} \<and>
      list_all (edge_sound src) ps' \<and> list_all plan_sound (concat (map field_plans ps'))"
    using "3.IH" out ps' by simp
  then show ?case using out by (auto simp: ps)
next
  case (4 cat src a q r via fs outs seq)
  then obtain catalog d plan seq1 j seq2 ps' where cat: "cat = Some catalog"
    and d: "resolve_relation catalog r src (Some (sq_source q)) = Ok d" and out: "get_or a r \<notin> set outs"
    and p: "resolve_query_plan cat ''r'' (nested_source d (sq_source q)) q seq = Ok (plan, seq1)"
    and j: "junction_alias d seq1 = (j, seq2)"
    and ps': "resolve_fields cat src fs (get_or a r # outs) seq2 = Ok (ps', seq')"
    and ps: "ps = PlanRelation (get_or a r) d j plan # ps'"
    by (auto simp: resolve_plan_inversion)
  have "list_all plan_sound (subplans plan)" using "4.IH"(1) cat d out p by simp
  moreover have "distinct (map output_name ps') \<and> set (map output_name ps') \<inter> set (get_or a r # outs) = {} \<and>
      list_all (edge_sound src) ps' \<and> list_all plan_sound (concat (map field_plans ps'))"
    using "4.IH"(2) cat d out p j ps' by simp
  moreover have "edge_sound src (PlanRelation (get_or a r) d j plan)"
    using resolve_from_source [OF d] resolve_query_plan_source [OF p] junction_alias_iff [OF j]
    by (simp add: edge_sound_def nested_source_def)
  ultimately show ?case using out by (auto simp: ps)
qed auto

section \<open>Capabilities\<close>

definition node_supported :: "capability_matrix \<Rightarrow> condition \<Rightarrow> (query_error, unit) result" where
  "node_supported cap c =
     (case c of
        Compare fr op' v \<Rightarrow>
          if op' = OpIlike \<and> \<not> cap_ilike cap then Throw (QueryError UnsupportedOperatorCode) else Ok ()
      | Contains fr v \<Rightarrow>
          if \<not> cap_jsonb_containment cap then Throw (QueryError UnsupportedOperatorCode) else Ok ()
      | ContainedBy fr v \<Rightarrow>
          if \<not> cap_jsonb_containment cap then Throw (QueryError UnsupportedOperatorCode) else Ok ()
      | _ \<Rightarrow> Ok ())"

definition plan_has_unsupported_nulls :: "order_ast list option \<Rightarrow> bool" where
  "plan_has_unsupported_nulls ob = list_ex (\<lambda>o'. or_nulls o' \<noteq> None) (get_or ob [])"

definition many_to_many_node :: "condition \<Rightarrow> bool" where
  "many_to_many_node c =
     (case c of ResolvedCond d _ _ _ _ _ \<Rightarrow> rd_cardinality d = ManyToMany | _ \<Rightarrow> False)"

definition many_to_many_field :: "plan_field \<Rightarrow> bool" where
  "many_to_many_field f =
     (case f of PlanRelation _ d _ _ \<Rightarrow> rd_cardinality d = ManyToMany | PlanColumn _ _ \<Rightarrow> False)"

fun validate_plan_against_capabilities ::
  "query_plan \<Rightarrow> capability_matrix \<Rightarrow> (query_error, unit) result"
  and validate_field_plan :: "plan_field \<Rightarrow> capability_matrix \<Rightarrow> (query_error, unit) result" where
  "validate_plan_against_capabilities (QueryPlan q cy flt ob pag sel src) cap =
     (if plan_has_unsupported_nulls ob \<and> \<not> cap_nulls_ordering cap then
        Throw (QueryError UnsupportedCapability)
      else rbind (each_r (node_supported cap) (walk_filter flt)) (\<lambda>_.
        if list_ex is_plan_relation sel \<and> \<not> cap_nested_relations cap then
          Throw (QueryError UnsupportedCapability)
        else (let has_predicate = list_ex is_relation_node (walk_filter flt);
                  has_many_to_many = list_ex many_to_many_node (walk_filter flt) \<or>
                                     list_ex many_to_many_field sel
              in if has_predicate \<and> \<not> cap_relational_predicates cap then
                   Throw (QueryError UnsupportedCapability)
                 else if has_many_to_many \<and> \<not> cap_many_to_many cap then
                   Throw (QueryError UnsupportedCapability)
                 else each_r (\<lambda>f. validate_field_plan f cap) sel)))"
| "validate_field_plan (PlanColumn a c) cap = Ok ()"
| "validate_field_plan (PlanRelation a d j p) cap = validate_plan_against_capabilities p cap"

text \<open>The features a plan uses at its own level.\<close>

definition uses_only :: "capability_matrix \<Rightarrow> query_plan \<Rightarrow> bool" where
  "uses_only cap p \<longleftrightarrow>
     (plan_has_unsupported_nulls (qp_order_by p) \<longrightarrow> cap_nulls_ordering cap) \<and>
     (list_ex is_plan_relation (qp_selection p) \<longrightarrow> cap_nested_relations cap) \<and>
     (list_ex is_relation_node (walk_filter (qp_filter p)) \<longrightarrow> cap_relational_predicates cap) \<and>
     (list_ex many_to_many_node (walk_filter (qp_filter p)) \<or>
        list_ex many_to_many_field (qp_selection p) \<longrightarrow> cap_many_to_many cap) \<and>
     list_all (\<lambda>c. case c of
        Compare fr op' v \<Rightarrow> op' = OpIlike \<longrightarrow> cap_ilike cap
      | Contains fr v \<Rightarrow> cap_jsonb_containment cap
      | ContainedBy fr v \<Rightarrow> cap_jsonb_containment cap
      | _ \<Rightarrow> True) (walk_filter (qp_filter p))"

lemma node_supported_Ok:
  "node_supported cap c = Ok () \<longleftrightarrow>
   (case c of
      Compare fr op' v \<Rightarrow> op' = OpIlike \<longrightarrow> cap_ilike cap
    | Contains fr v \<Rightarrow> cap_jsonb_containment cap
    | ContainedBy fr v \<Rightarrow> cap_jsonb_containment cap
    | _ \<Rightarrow> True)"
  by (cases c) (simp_all add: node_supported_def)

lemma validate_capabilities_Ok:
  "validate_plan_against_capabilities p cap = Ok () \<longleftrightarrow> list_all (uses_only cap) (subplans p)"
  "validate_field_plan f cap = Ok () \<longleftrightarrow> list_all (uses_only cap) (field_plans f)"
proof (induction p cap and f cap rule: validate_plan_against_capabilities_validate_field_plan.induct)
  case (1 q cy flt ob pag sel src cap)
  let ?p = "QueryPlan q cy flt ob pag sel src"
  have nodes: "each_r (node_supported cap) (walk_filter flt) = Ok () \<longleftrightarrow>
      list_all (\<lambda>c. case c of
        Compare fr op' v \<Rightarrow> op' = OpIlike \<longrightarrow> cap_ilike cap
      | Contains fr v \<Rightarrow> cap_jsonb_containment cap
      | ContainedBy fr v \<Rightarrow> cap_jsonb_containment cap
      | _ \<Rightarrow> True) (walk_filter flt)"
    by (simp add: each_r_Inr_iff node_supported_Ok list_all_iff)
  have unfold: "validate_plan_against_capabilities ?p cap = Ok () \<longleftrightarrow>
      uses_only cap ?p \<and> each_r (\<lambda>f. validate_field_plan f cap) sel = Ok ()"
    by (simp add: rbind_eq_Inr ex_unit Let_def uses_only_def nodes) blast
  show ?case
  proof (cases "uses_only cap ?p")
    case False
    then show ?thesis unfolding unfold by simp
  next
    case True
    then have caps: "\<not> (plan_has_unsupported_nulls ob \<and> \<not> cap_nulls_ordering cap)"
      "\<not> (list_ex is_plan_relation sel \<and> \<not> cap_nested_relations cap)"
      "\<not> (list_ex is_relation_node (walk_filter flt) \<and> \<not> cap_relational_predicates cap)"
      "\<not> ((list_ex many_to_many_node (walk_filter flt) \<or> list_ex many_to_many_field sel) \<and>
          \<not> cap_many_to_many cap)"
      "each_r (node_supported cap) (walk_filter flt) = Ok ()"
      by (auto simp: uses_only_def nodes)
    then have "validate_field_plan f cap = Ok () \<longleftrightarrow> list_all (uses_only cap) (field_plans f)"
      if "f \<in> set sel" for f
      using "1.IH" that by blast
    then show ?thesis
      unfolding unfold using True by (auto simp: each_r_Inr_iff list_all_iff)
  qed
qed simp_all

end
