(* ===== verification/QueryFacts.thy ===== *)
theory QueryFacts
  imports QueryNormalize QueryPlan
begin

text \<open>
  What normalisation guarantees to the planner: field names are identifiers, no relation is
  resolved and no source has an alias yet, so the aliases of a plan are fresh; the set of
  visited objects only grows; source names round-trip; computed pages are not negative.
\<close>

section \<open>Names\<close>

lemma assert_identifier_Ok: "assert_identifier v = Ok n \<Longrightarrow> is_identifier n"
  by (auto simp: assert_identifier_def split: if_splits)

lemma assert_identifier_id: "is_identifier n \<Longrightarrow> assert_identifier n = Ok n"
  by (simp add: assert_identifier_def js_trim_identifier)

lemma normal_field_Ok: "normal_field f = Ok r \<Longrightarrow> is_identifier (fr_field r)"
  by (auto simp: normal_field_def rmap_eq_Inr dest: assert_identifier_Ok)

lemma parse_source_Ok:
  "parse_source_name raw = Ok src \<Longrightarrow>
   is_identifier (sa_table src) \<and> sa_alias src = None \<and> sa_model_id src = None \<and>
   (case sa_schema src of None \<Rightarrow> True | Some s \<Rightarrow> is_identifier s)"
  by (auto simp: parse_source_name_def table_source_def Let_def list_ex_iff split: if_splits list.splits)

definition qualified_name :: "string option \<Rightarrow> string \<Rightarrow> string" where
  "qualified_name schema table =
     (case schema of None \<Rightarrow> table | Some s \<Rightarrow> s @ ''.'' @ table)"

lemma identifier_no_dot: "is_identifier s \<Longrightarrow> CHR ''.'' \<notin> set s"
  using is_identifier_parts ident_part_no_dot by (auto simp: list_all_iff)

lemma identifier_no_ws: "is_identifier s \<Longrightarrow> list_all (\<lambda>c. \<not> is_ws c) s"
  using is_identifier_parts [of s] ident_part_not_ws by (auto simp: list_all_iff)

lemma identifier_nonempty: "is_identifier s \<Longrightarrow> s \<noteq> []"
  by (auto simp: is_identifier_def)

lemma dot_not_ws: "\<not> is_ws (CHR ''.'')"
  by (simp add: char_class_defs)

lemma parse_source_roundtrip:
  assumes "is_identifier table" "case schema of None \<Rightarrow> True | Some s \<Rightarrow> is_identifier s"
  shows "parse_source_name (qualified_name schema table) = Ok (table_source schema table)"
proof (cases schema)
  case None
  then show ?thesis
    using assms(1) identifier_nonempty [OF assms(1)]
    by (simp add: qualified_name_def parse_source_name_def js_trim_identifier split_on_no_sep
        identifier_no_dot)
next
  case (Some s)
  with assms have s: "is_identifier s" by simp
  have "js_trim (s @ CHR ''.'' # table) = s @ CHR ''.'' # table"
    using identifier_no_ws [OF s] identifier_no_ws [OF assms(1)] dot_not_ws
    by (intro js_trim_id) simp
  moreover have "split_on (CHR ''.'') (s @ CHR ''.'' # table) = [s, table]"
    using s assms(1) by (simp add: split_on_append_sep split_on_no_sep identifier_no_dot)
  ultimately show ?thesis
    using s assms(1) by (simp add: Some qualified_name_def parse_source_name_def js_trim_identifier)
qed

section \<open>Filters\<close>

fun named_fields :: "condition \<Rightarrow> field_ref list" where
  "named_fields (Compare f c v) = [f]"
| "named_fields (InValues f vs) = [f]"
| "named_fields (IsNullCond f b) = [f]"
| "named_fields (IsTrueCond f) = [f]"
| "named_fields (IsFalseCond f) = [f]"
| "named_fields (Contains f v) = [f]"
| "named_fields (ContainedBy f v) = [f]"
| "named_fields (AndCond cs) = concat (map named_fields cs)"
| "named_fields (OrCond cs) = concat (map named_fields cs)"
| "named_fields (NotCond c) = named_fields c"
| "named_fields (RelationCond p r via f) = (case f of None \<Rightarrow> [] | Some c \<Rightarrow> named_fields c)"
| "named_fields (ResolvedCond d t j p r f) = (case f of None \<Rightarrow> [] | Some c \<Rightarrow> named_fields c)"

definition normal_condition :: "condition \<Rightarrow> bool" where
  "normal_condition c \<longleftrightarrow> unresolved c \<and> list_all (\<lambda>f. is_identifier (fr_field f)) (named_fields c)"

lemma normal_condition_simps [simp]:
  "normal_condition (AndCond cs) \<longleftrightarrow> list_all normal_condition cs"
  "normal_condition (OrCond cs) \<longleftrightarrow> list_all normal_condition cs"
  "normal_condition (NotCond c) \<longleftrightarrow> normal_condition c"
  "normal_condition (RelationCond p r via f) \<longleftrightarrow> list_all normal_condition (opt_list f)"
  by (auto simp: normal_condition_def list_all_iff opt_list_def split: option.splits)

lemma operator_condition_normal:
  "operator_condition f op' v = Ok cs \<Longrightarrow> is_identifier (fr_field f) \<Longrightarrow> list_all normal_condition cs"
  by (auto simp: operator_condition_def normal_condition_def split: if_splits option.splits)

lemma column_predicate_normal:
  assumes "normalize_column_predicate col v = Ok cs"
  shows "list_all normal_condition cs"
proof -
  obtain f where f: "normal_field col = Ok f"
    and rest: "if \<not> is_record v then cs = [if v = Null then IsNullCond f False else Compare f OpEq v]
       else \<exists>css. map_r (\<lambda>(op', x). operator_condition f op' x) (fields_of v) = Ok css \<and> cs = concat css"
    using assms by (auto simp: normalize_column_predicate_def rbind_eq_Inr rmap_eq_Inr split: if_splits)
  have id: "is_identifier (fr_field f)" using f by (rule normal_field_Ok)
  show ?thesis
  proof (cases "is_record v")
    case False
    with rest id show ?thesis by (simp add: normal_condition_def)
  next
    case True
    with rest obtain css where
      css: "map_r (\<lambda>(op', x). operator_condition f op' x) (fields_of v) = Ok css" "cs = concat css"
      by auto
    have "list_all normal_condition ds" if "ds \<in> set css" for ds
      using map_r_Inr_set [OF css(1) that] operator_condition_normal [OF _ id] by auto
    then show ?thesis by (auto simp: css(2) list_all_iff)
  qed
qed

lemma fold_r_invariant:
  "fold_r f xs s = Ok t \<Longrightarrow> P s \<Longrightarrow>
   (\<And>x s t. x \<in> set xs \<Longrightarrow> P s \<Longrightarrow> f x s = Ok t \<Longrightarrow> P t) \<Longrightarrow> P t"
proof (induction xs arbitrary: s)
  case (Cons x xs)
  from Cons.prems(1) obtain u where u: "f x s = Ok u" "fold_r f xs u = Ok t"
    by (auto simp: rbind_eq_Inr)
  have "P u" using Cons.prems(3) [OF _ Cons.prems(2) u(1)] by simp
  show ?case
    by (rule Cons.IH [OF u(2) \<open>P u\<close>]) (rule Cons.prems(3); simp)
qed simp

text \<open>One entry of a filter object, as a step on the parts and the visited objects.\<close>

definition where_entry ::
  "string \<times> jval \<Rightarrow> condition list \<times> nat list \<Rightarrow> (query_error, condition list \<times> nat list) result" where
  "where_entry entry st =
     (case entry of (k, v) \<Rightarrow> case st of (parts, s) \<Rightarrow>
        if v = Undefined then Ok (parts, s)
        else if k = ''or'' then
          (case v of
             JArr clauses \<Rightarrow>
               if clauses = [] then Throw (QueryError UnsupportedOperatorCode)
               else rbind
                 (fold_r (\<lambda>c st'. case st' of (ps, s') \<Rightarrow>
                    rmap (\<lambda>(r, s''). (ps @ opt_list r, s'')) (normalize_where c s')) clauses ([], s))
                 (\<lambda>(ps, s'). Ok (parts @ or_part ps, s'))
           | _ \<Rightarrow> Throw (QueryError UnsupportedOperatorCode))
        else if k = ''not'' then
          rmap (\<lambda>(r, s'). (parts @ map NotCond (opt_list r), s')) (normalize_where v s)
        else if value_was_seen v s then Throw (QueryError CyclicInput)
        else if is_relation_where_value v then
          (case v of
             JObj i' fs' \<Rightarrow>
               rbind (relation_predicate_key fs') (\<lambda>pk. case pk of (p, pk') \<Rightarrow>
                 let operand = get_prop pk' fs'
                 in if p = PredExists \<and> operand \<noteq> JBool True \<and> \<not> is_record operand then
                      Throw (QueryError InvalidCondition)
                    else if p = PredExists \<and> operand = JBool True \<or> empty_record operand then
                      Ok (parts @ [RelationCond p k None None], s)
                    else rmap (\<lambda>(r, s'). (parts @ [RelationCond p k None r], s'))
                           (normalize_where operand s))
           | _ \<Rightarrow> Ok (parts, s))
        else rmap (\<lambda>cs. (parts @ cs, s)) (normalize_column_predicate k v))"

lemma normalize_where_JObj:
  "normalize_where (JObj i fs) seen =
     (if was_seen i seen then Throw (QueryError CyclicInput)
      else rbind (fold_r where_entry fs ([], i # seen)) (\<lambda>(parts, s). Ok (and_parts parts, s)))"
  unfolding normalize_where.simps [of "JObj i fs"] jval.case where_entry_def [abs_def] by (rule refl)

lemma normalize_where_other:
  "normalize_where Undefined seen = Ok (None, seen)"
  "\<not> is_record w \<Longrightarrow> w \<noteq> Undefined \<Longrightarrow> normalize_where w seen = Throw (QueryError UnsupportedOperatorCode)"
  by (cases w; simp add: normalize_where.simps)+

text \<open>The parts are normal conditions and no visited object is forgotten.\<close>

definition where_inv :: "nat list \<Rightarrow> condition list \<times> nat list \<Rightarrow> bool" where
  "where_inv seen st \<longleftrightarrow> list_all normal_condition (fst st) \<and> set seen \<subseteq> set (snd st)"

lemma or_part_normal: "list_all normal_condition cs \<Longrightarrow> list_all normal_condition (or_part cs)"
  by (auto simp: or_part_def split: list.splits)

lemma and_parts_normal: "list_all normal_condition cs \<Longrightarrow> list_all normal_condition (opt_list (and_parts cs))"
  by (auto simp: and_parts_def opt_list_def split: list.splits)

lemma where_entry_inv:
  assumes IH: "\<And>w' s r s'. jdepth w' < jdepth (JObj i fs) \<Longrightarrow> normalize_where w' s = Ok (r, s') \<Longrightarrow>
      list_all normal_condition (opt_list r) \<and> set s \<subseteq> set s'"
    and e: "entry \<in> set fs" and inv: "where_inv seen st" and run: "where_entry entry st = Ok st'"
  shows "where_inv seen st'"
proof -
  obtain k v parts s where kv: "entry = (k, v)" "st = (parts, s)" by fastforce
  have depth: "jdepth v < jdepth (JObj i fs)" using e kv jdepth_member by blast
  have parts: "list_all normal_condition parts" "set seen \<subseteq> set s"
    using inv by (simp_all add: kv where_inv_def)
  note step = run [unfolded kv where_entry_def prod.case]
  consider "v = Undefined"
    | "v \<noteq> Undefined" "k = ''or''"
    | "v \<noteq> Undefined" "k = ''not''"
    | "v \<noteq> Undefined" "k \<noteq> ''or''" "k \<noteq> ''not''" "is_relation_where_value v"
    | "v \<noteq> Undefined" "k \<noteq> ''or''" "k \<noteq> ''not''" "\<not> is_relation_where_value v"
    by blast
  then show ?thesis
  proof cases
    case 1
    with step parts show ?thesis by (auto simp: where_inv_def)
  next
    case 2
    with step obtain clauses ps s' where v: "v = JArr clauses" and
      f: "fold_r (\<lambda>c st'. case st' of (ps, s') \<Rightarrow>
            rmap (\<lambda>(r, s''). (ps @ opt_list r, s'')) (normalize_where c s')) clauses ([], s) = Ok (ps, s')" and
      st': "st' = (parts @ or_part ps, s')"
      by (auto simp: rbind_eq_Inr split: jval.splits if_splits)
    have "where_inv s (ps, s')"
    proof (rule fold_r_invariant [where P = "where_inv s", OF f])
      show "where_inv s ([], s)" by (simp add: where_inv_def)
    next
      fix c u u' assume c: "c \<in> set clauses" and u: "where_inv s u" and
        run: "(case u of (ps, s') \<Rightarrow> rmap (\<lambda>(r, s''). (ps @ opt_list r, s'')) (normalize_where c s')) = Ok u'"
      then obtain qs t r t' where "u = (qs, t)" "normalize_where c t = Ok (r, t')" "u' = (qs @ opt_list r, t')"
        by (cases u) (auto simp: rmap_eq_Inr)
      moreover have "jdepth c < jdepth (JObj i fs)"
        using jdepth_item [OF c] depth by (simp add: v)
      ultimately show "where_inv s u'" using IH [of c t r t'] u by (auto simp: where_inv_def)
    qed
    then show ?thesis using parts or_part_normal [of ps] by (auto simp: st' where_inv_def)
  next
    case 3
    with step obtain r s' where "normalize_where v s = Ok (r, s')"
      "st' = (parts @ map NotCond (opt_list r), s')" by (auto simp: rmap_eq_Inr)
    then show ?thesis using IH [OF depth] parts by (fastforce simp: where_inv_def list_all_iff)
  next
    case 4
    then obtain i' fs' where v: "v = JObj i' fs'" by (cases v) (auto simp: is_relation_where_value_def)
    from step 4 obtain p pk' where pk: "relation_predicate_key fs' = Ok (p, pk')"
      by (auto simp: v rbind_eq_Inr split: if_splits)
    have "pk' \<noteq> ''__proto__''" using relation_key_filter [OF pk] proto_no_predicate by auto
    from jdepth_get_prop [OF this, of fs' i'] depth
    have d: "jdepth (get_prop pk' fs') < jdepth (JObj i fs)" by (simp add: v)
    from step 4 pk consider "st' = (parts @ [RelationCond p k None None], s)"
      | r s' where "normalize_where (get_prop pk' fs') s = Ok (r, s')"
          "st' = (parts @ [RelationCond p k None r], s')"
      by (auto simp: v rbind_eq_Inr rmap_eq_Inr Let_def split: if_splits)
    then show ?thesis
    proof cases
      case 1
      then show ?thesis using parts by (simp add: where_inv_def opt_list_def)
    next
      case 2
      then show ?thesis using IH [OF d 2(1)] parts by (auto simp: where_inv_def)
    qed
  next
    case 5
    with step obtain cs where "normalize_column_predicate k v = Ok cs" "st' = (parts @ cs, s)"
      by (auto simp: rmap_eq_Inr split: if_splits)
    then show ?thesis using column_predicate_normal parts by (auto simp: where_inv_def)
  qed
qed

lemma normalize_where_inv:
  "normalize_where w seen = Ok (r, seen') \<Longrightarrow>
   list_all normal_condition (opt_list r) \<and> set seen \<subseteq> set seen'"
proof (induction "jdepth w" arbitrary: w seen r seen' rule: less_induct)
  case less
  show ?case
  proof (cases "is_record w")
    case True
    then obtain i fs where w: "w = JObj i fs" by (auto simp: is_record_iff)
    with less.prems obtain parts where f: "fold_r where_entry fs ([], i # seen) = Ok (parts, seen')"
      and r: "r = and_parts parts"
      by (auto simp: normalize_where_JObj rbind_eq_Inr split: if_splits)
    have IH: "jdepth w' < jdepth (JObj i fs) \<Longrightarrow> normalize_where w' s = Ok (r, s') \<Longrightarrow>
        list_all normal_condition (opt_list r) \<and> set s \<subseteq> set s'" for w' s r s'
      using less.hyps by (simp add: w)
    have "where_inv (i # seen) (parts, seen')"
    proof (rule fold_r_invariant [where P = "where_inv (i # seen)", OF f])
      show "where_inv (i # seen) ([], i # seen)" by (simp add: where_inv_def)
    qed (rule where_entry_inv [OF IH])
    then show ?thesis using and_parts_normal by (auto simp: where_inv_def r)
  next
    case False
    with less.prems show ?thesis
      by (cases "w = Undefined") (auto simp: normalize_where_other opt_list_def)
  qed
qed

text \<open>An object that was normalised is remembered: meeting it again is an error.\<close>

lemma normalize_where_marks:
  "normalize_where (JObj i fs) seen = Ok (r, seen') \<Longrightarrow> i \<in> set seen'"
proof -
  assume "normalize_where (JObj i fs) seen = Ok (r, seen')"
  then obtain parts where f: "fold_r where_entry fs ([], i # seen) = Ok (parts, seen')"
    by (auto simp: normalize_where_JObj rbind_eq_Inr split: if_splits)
  have "where_inv (i # seen) (parts, seen')"
  proof (rule fold_r_invariant [where P = "where_inv (i # seen)", OF f])
    show "where_inv (i # seen) ([], i # seen)" by (simp add: where_inv_def)
  qed (rule where_entry_inv [OF normalize_where_inv])
  then show ?thesis by (simp add: where_inv_def)
qed

lemma shared_clause_rejected:
  assumes "normalize_where (JObj i fs) [j] = Ok (r, seen')" "i \<noteq> 0"
  shows "normalize_where (JObj j [(''or'', JArr [JObj i fs, JObj i fs])]) [] = Throw (QueryError CyclicInput)"
proof -
  have "i \<in> set seen'" using assms(1) by (rule normalize_where_marks)
  then have again: "normalize_where (JObj i fs) seen' = Throw (QueryError CyclicInput)"
    using assms(2) by (simp add: normalize_where_JObj was_seen_def)
  show ?thesis
    unfolding normalize_where_JObj [of j] using assms(1) again
    by (simp add: was_seen_def where_entry_def)
qed

section \<open>Selections\<close>

lemma normal_unresolved: "list_all normal_condition (opt_list f) \<Longrightarrow> unresolved_filter f"
  by (simp add: opt_list_def unresolved_filter_def normal_condition_def split: option.splits)

lemma normalize_filter_normal: "normalize_filter w = Ok f \<Longrightarrow> list_all normal_condition (opt_list f)"
  using normalize_where_inv [of w "[]"] by (fastforce simp: normalize_filter_def rmap_eq_Inr)

lemma table_source_alias [simp]: "sa_alias (table_source s t) = None"
  by (simp add: table_source_def)

lemma relation_source_plain: "relation_source r v = Ok src \<Longrightarrow> sa_alias src = None"
  by (auto simp: relation_source_def rbind_eq_Inr rmap_eq_Inr split: if_splits dest: parse_source_Ok)

lemma relation_node_plain:
  "relation_node k node = Ok (relation, via, als, source, flt, ob, pag) \<Longrightarrow>
   sa_alias source = None \<and> unresolved_filter flt"
  by (auto simp: relation_node_def rbind_eq_Inr
      dest: relation_source_plain normalize_filter_normal [THEN normal_unresolved])

definition shape_entry ::
  "string \<times> jval \<Rightarrow> selected_field list \<Rightarrow> (query_error, selected_field list) result" where
  "shape_entry entry acc =
     (case entry of (k, v) \<Rightarrow>
        if v = Undefined then Ok acc
        else if v = JBool True then rmap (\<lambda>c. acc @ [ColumnField None c]) (assert_identifier k)
        else (case v of
                JObj i' node \<Rightarrow>
                  if is_record (get_prop ''select'' node) then
                    rbind (relation_node k node) (\<lambda>(relation, via, als, source, flt, ob, pag).
                      rmap (\<lambda>sub. acc @ [RelationField als
                              (SelectQuery ManyRows None flt ob pag sub source) relation via])
                        (normalize_select_shape (get_prop ''select'' node)))
                  else Throw (QueryError InvalidNesting)
              | _ \<Rightarrow> Throw (QueryError InvalidNesting)))"

lemma normalize_select_shape_JObj:
  "normalize_select_shape (JObj i fs) =
     rbind (fold_r shape_entry fs []) (\<lambda>acc. if acc = [] then Throw (QueryError InvalidSelection) else Ok acc)"
  unfolding normalize_select_shape.simps [of "JObj i fs"] jval.case shape_entry_def [abs_def]
  by (rule refl)

lemma normalize_select_shape_record:
  "normalize_select_shape w = Ok fs \<Longrightarrow> is_record w"
  by (cases w) (simp_all add: normalize_select_shape.simps)

lemma shape_entry_plain:
  assumes IH: "\<And>w fs'. jdepth w < jdepth (JObj i fs) \<Longrightarrow> normalize_select_shape w = Ok fs' \<Longrightarrow>
      list_all plain_field fs'"
    and e: "entry \<in> set fs" and acc: "list_all plain_field acc" and run: "shape_entry entry acc = Ok acc'"
  shows "list_all plain_field acc'"
proof -
  obtain k v where kv: "entry = (k, v)" by fastforce
  note step = run [unfolded kv shape_entry_def prod.case]
  consider "v = Undefined \<or> v = JBool True" | i' node where "v = JObj i' node"
    using step by (cases v) (auto split: if_splits)
  then show ?thesis
  proof cases
    case 1
    with step acc show ?thesis by (auto simp: rmap_eq_Inr)
  next
    case 2
    with step obtain relation via als source flt ob pag sub where
      node: "relation_node k node = Ok (relation, via, als, source, flt, ob, pag)" and
      sub: "normalize_select_shape (get_prop ''select'' node) = Ok sub" and
      acc': "acc' = acc @ [RelationField als (SelectQuery ManyRows None flt ob pag sub source) relation via]"
      by (auto simp: rbind_eq_Inr rmap_eq_Inr split: if_splits)
    have "jdepth (get_prop ''select'' node) < jdepth (JObj i fs)"
      using select_node_depth [of k i' node fs] e by (simp add: kv 2)
    from IH [OF this sub] relation_node_plain [OF node] acc show ?thesis by (simp add: acc')
  qed
qed

lemma normalize_select_shape_plain:
  "normalize_select_shape w = Ok fs' \<Longrightarrow> list_all plain_field fs'"
proof (induction "jdepth w" arbitrary: w fs' rule: less_induct)
  case less
  then obtain i fs where w: "w = JObj i fs"
    using normalize_select_shape_record [of w fs'] by (auto simp: is_record_iff)
  with less.prems have f: "fold_r shape_entry fs [] = Ok fs'"
    by (auto simp: normalize_select_shape_JObj rbind_eq_Inr split: if_splits)
  have IH: "jdepth w' < jdepth (JObj i fs) \<Longrightarrow> normalize_select_shape w' = Ok fs'' \<Longrightarrow>
      list_all plain_field fs''" for w' fs''
    using less.hyps by (simp add: w)
  show ?case
  proof (rule fold_r_invariant [where P = "list_all plain_field", OF f])
  qed (simp, rule shape_entry_plain [OF IH])
qed

lemma column_token_plain: "column_token t = Ok f \<Longrightarrow> plain_field f"
  by (auto simp: column_token_def rmap_eq_Inr split: if_splits option.splits)

lemma relation_head_plain: "relation_head h = Ok (a, src) \<Longrightarrow> sa_alias src = None"
  by (auto simp: relation_head_def Let_def rmap_eq_Inr dest: parse_source_Ok)

lemma parse_select_list_plain: "parse_select_list raw = Ok fs \<Longrightarrow> list_all plain_field fs"
proof (induction "length raw" arbitrary: raw fs rule: less_induct)
  case less
  let ?tokens = "split_top_level raw (CHR '','')"
  let ?item = "\<lambda>token. case index_of (CHR ''('') token of
             None \<Rightarrow> column_token token
           | Some n \<Rightarrow>
               if \<not> ends_with token '')'' then Throw (QueryError InvalidNesting)
               else rbind (relation_head (js_trim (take n token))) (\<lambda>(als, source).
                 rmap (\<lambda>sub. RelationField als
                         (SelectQuery ManyRows None None None None sub source) (sa_table source) None)
                   (parse_select_list (butlast (drop (n + 1) token))))"
  have run: "map_r ?item ?tokens = Ok fs"
    using less.prems unfolding parse_select_list.simps [of raw] by (simp add: Let_def split: if_splits)
  have "plain_field f" if "f \<in> set fs" for f
  proof -
    from map_r_Inr_set [OF run that] obtain token where token: "token \<in> set ?tokens" "?item token = Ok f" ..
    show ?thesis
    proof (cases "index_of (CHR ''('') token")
      case None
      with token show ?thesis by (auto dest: column_token_plain)
    next
      case (Some n)
      with token(2) obtain als source sub where
        h: "relation_head (js_trim (take n token)) = Ok (als, source)" and
        s: "parse_select_list (butlast (drop (n + 1) token)) = Ok sub" and
        f: "f = RelationField als (SelectQuery ManyRows None None None None sub source) (sa_table source) None"
        by (auto simp: rbind_eq_Inr rmap_eq_Inr split: if_splits)
      have "length (butlast (drop (n + 1) token)) < length raw"
        using inner_token_length [OF token(1) Some] by simp
      from less.hyps [OF this s] relation_head_plain [OF h] show ?thesis
        by (simp add: f unresolved_filter_def)
    qed
  qed
  then show ?case by (simp add: list_all_iff)
qed

section \<open>Transport payloads\<close>

lemma gateway_parts_normal: "gateway_condition_parts c = Ok cs \<Longrightarrow> list_all normal_condition cs"
  by (auto simp: gateway_condition_parts_def Let_def split: if_splits jval.splits
      dest: column_predicate_normal)

lemma conjoin_normal: "list_all normal_condition cs \<Longrightarrow> normal_condition (conjoin cs)"
  by (auto simp: conjoin_def split: list.splits)

lemma gateway_conditions_normal:
  "normalize_gateway_conditions v = Ok f \<Longrightarrow> list_all normal_condition (opt_list f)"
proof (cases v)
  case (JArr cs)
  assume *: "normalize_gateway_conditions v = Ok f"
  show ?thesis
  proof (cases "cs = []")
    case False
    with * JArr obtain pss where pss: "map_r gateway_condition_parts cs = Ok pss"
      and f: "f = Some (conjoin (concat pss))"
      by (auto simp: normalize_gateway_conditions_def rmap_eq_Inr)
    have "list_all normal_condition (concat pss)"
      using map_r_Inr_set [OF pss] gateway_parts_normal by (fastforce simp: list_all_iff)
    then show ?thesis by (simp add: f opt_list_def conjoin_normal)
  qed (use * JArr in \<open>simp add: normalize_gateway_conditions_def opt_list_def\<close>)
qed (auto simp: normalize_gateway_conditions_def opt_list_def split: if_splits)

lemma payload_filter_normal: "payload_filter fs = Ok f \<Longrightarrow> list_all normal_condition (opt_list f)"
  by (auto simp: payload_filter_def rbind_eq_Inr split: option.splits
      dest: normalize_filter_normal gateway_conditions_normal)

lemma payload_fields_plain: "payload_fields fs = Ok sel \<Longrightarrow> list_all plain_field sel"
  by (auto simp: payload_fields_def Let_def split: jval.splits if_splits
      dest: normalize_select_shape_plain parse_select_list_plain)

lemma transport_plain:
  assumes "normalize_transport_payload payload = Ok (NormalizedAst q)"
  shows "plain_query q \<and> sa_alias (sq_source q) = None \<and> is_identifier (sa_table (sq_source q)) \<and>
    list_all normal_condition (opt_list (sq_filter q))"
proof -
  from assms obtain i fs where p: "payload = JObj i fs"
    by (cases payload) (auto simp: normalize_transport_payload_def)
  with assms obtain src sel flt ob pag where
    "parse_source_name (js_trim (to_str (nullish_or (get_prop ''table_name'' fs) (JStr [])))) = Ok src"
    "payload_fields fs = Ok sel" "payload_filter fs = Ok flt"
    "q = SelectQuery ManyRows None flt ob pag sel src"
    by (auto simp: normalize_transport_payload_def Let_def rbind_eq_Inr rmap_eq_Inr split: if_splits)
  then show ?thesis
    using parse_source_Ok payload_fields_plain payload_filter_normal normal_unresolved by auto
qed

lemma transport_plan_numbered:
  assumes "normalize_transport_payload payload = Ok (NormalizedAst q)"
    and "resolve_athena_query_plan cat q = Ok plan"
  shows "distinct (plan_aliases plan)"
proof -
  from assms(2) obtain n where "resolve_query_plan cat ''t'' (sq_source q) q 0 = Ok (plan, n)"
    by (auto simp: resolve_athena_query_plan_def rmap_eq_Inr)
  from resolve_plan_numbered(1) [OF this] have "numbered 0 (plan_aliases plan) n"
    using transport_plain [OF assms(1)] by simp
  then show ?thesis by (rule numbered_distinct)
qed

text \<open>The filter of a payload is its \<open>where\<close> whenever that gives one: the conditions are not read.\<close>

lemma payload_filter_where:
  "normalize_filter (get_prop ''where'' fs) = Ok (Some c) \<Longrightarrow> payload_filter fs = Ok (Some c)"
  by (simp add: payload_filter_def)

lemma transport_ignores_conditions:
  assumes "normalize_filter (get_prop ''where'' fs) = Ok (Some c)"
    and same: "\<And>k. k \<noteq> ''conditions'' \<Longrightarrow> get_prop k fs' = get_prop k fs"
    and "\<not> (get_prop ''kind'' fs = JStr ''select'' \<and> is_record (get_prop ''source'' fs))"
  shows "normalize_transport_payload (JObj i' fs') = normalize_transport_payload (JObj i fs)"
proof -
  have eqs: "get_prop ''kind'' fs' = get_prop ''kind'' fs" "get_prop ''source'' fs' = get_prop ''source'' fs"
    "get_prop ''table_name'' fs' = get_prop ''table_name'' fs" "get_prop ''select'' fs' = get_prop ''select'' fs"
    "get_prop ''columns'' fs' = get_prop ''columns'' fs" "get_prop ''where'' fs' = get_prop ''where'' fs"
    "get_prop ''orderBy'' fs' = get_prop ''orderBy'' fs" "get_prop ''sort_by'' fs' = get_prop ''sort_by'' fs"
    "get_prop ''limit'' fs' = get_prop ''limit'' fs" "get_prop ''offset'' fs' = get_prop ''offset'' fs"
    "get_prop ''current_page'' fs' = get_prop ''current_page'' fs"
    "get_prop ''page_size'' fs' = get_prop ''page_size'' fs"
    by (rule same, simp)+
  have "payload_columns fs' = payload_columns fs" by (simp only: payload_columns_def eqs)
  then have "payload_fields fs' = payload_fields fs" "payload_pagination fs' = payload_pagination fs"
    by (simp_all only: payload_fields_def payload_pagination_def eqs)
  moreover have "payload_filter fs' = payload_filter fs"
    using assms(1) payload_filter_where [of fs c] payload_filter_where [of fs' c] by (simp add: eqs)
  ultimately have same_rest: "payload_fields fs' = payload_fields fs"
    "payload_pagination fs' = payload_pagination fs" "payload_filter fs' = payload_filter fs"
    by blast+
  have kind: "(get_prop ''kind'' fs = JStr ''select'' \<and> is_record (get_prop ''source'' fs)) = False"
    using assms(3) by blast
  show ?thesis
    unfolding normalize_transport_payload_def jval.case eqs same_rest kind if_False by (rule refl)
qed

section \<open>Pages\<close>

lemma round_even_nonneg: "0 \<le> r \<Longrightarrow> 0 \<le> round_even r"
  by (auto simp: round_even_def Let_def)

lemma pow2_pos: "0 < pow2 e"
  by (simp add: pow2_def)

definition num_nonneg :: "jnum \<Rightarrow> bool" where
  "num_nonneg n \<longleftrightarrow> (case n of Fin r \<Rightarrow> 0 \<le> r | PosInf \<Rightarrow> True | _ \<Rightarrow> False)"

lemma to_double_nonneg: "0 \<le> r \<Longrightarrow> num_nonneg (to_double r)"
proof -
  assume r: "0 \<le> r"
  define e where "e = max (ilog2 \<bar>r\<bar>) (- 1022)"
  have "0 \<le> of_int (round_even (\<bar>r\<bar> / pow2 (e - 52))) * pow2 (e - 52)"
    using round_even_nonneg [of "\<bar>r\<bar> / pow2 (e - 52)"] pow2_pos [of "e - 52"] by simp
  then show ?thesis using r by (auto simp: to_double_def Let_def num_nonneg_def e_def)
qed

lemma mul_nonneg: "num_nonneg a \<Longrightarrow> 0 \<le> s \<Longrightarrow> a \<noteq> PosInf \<Longrightarrow> num_nonneg (num_mul a (Fin s))"
  by (cases a) (auto simp: num_nonneg_def [of "Fin x" for x] num_nonneg_def [of NegInf]
      num_nonneg_def [of NaN] num_mul_def to_double_nonneg)

lemma canonical_limit_nonneg:
  assumes "0 \<le> s" "pg_limit pg = Undefined" "pg_page_size pg = JNum (Fin s)"
  shows "fst (canonicalize_pagination (Some pg)) = JNum (jint \<lfloor>s\<rfloor>)"
proof -
  have "num_max (Fin 0) (num_trunc (Fin s)) = jint \<lfloor>s\<rfloor>"
  proof (cases "\<lfloor>s\<rfloor> = 0")
    case True
    with assms(1) show ?thesis by (simp add: num_max_def num_trunc_def jint_def rat_trunc_def)
  next
    case False
    with assms(1) have "0 < \<lfloor>s\<rfloor>" using zero_le_floor [of s] by linarith
    then show ?thesis using assms(1) by (simp add: num_max_def num_trunc_def jint_def rat_trunc_def)
  qed
  then show ?thesis using assms by (simp add: canonicalize_pagination_def Let_def to_number_def)
qed

lemma num_nonneg_simps:
  "num_nonneg (Fin r) \<longleftrightarrow> 0 \<le> r" "num_nonneg PosInf" "\<not> num_nonneg NegInf" "\<not> num_nonneg NaN"
  by (simp_all add: num_nonneg_def)

lemma num_nonneg_not_less: "num_nonneg n \<Longrightarrow> \<not> num_less n (Fin 0) \<and> n \<noteq> NaN"
  by (cases n) (simp_all add: num_nonneg_simps)

lemma mul_size_nonneg:
  assumes "num_nonneg a" "0 \<le> k"
  shows "\<not> num_less (num_mul a (jint k)) (Fin 0) \<and> (0 < k \<longrightarrow> num_mul a (jint k) \<noteq> NaN)"
proof (cases a)
  case (Fin x)
  then have "num_nonneg (num_mul a (jint k))"
    using assms by (simp add: num_nonneg_simps num_mul_def jint_def to_double_nonneg)
  then show ?thesis using num_nonneg_not_less by blast
next
  case PosInf
  then show ?thesis using assms(2) by (cases "k = 0") (auto simp: num_mul_def num_sign_def jint_def)
qed (use assms(1) in \<open>simp_all add: num_nonneg_simps\<close>)

lemma canonical_offset:
  assumes "1 \<le> p" "0 \<le> s" "pg_offset pg = Undefined" "pg_page pg = JNum (Fin p)"
    "pg_page_size pg = JNum (Fin s)"
  shows "\<exists>o'. snd (canonicalize_pagination (Some pg)) = JNum o' \<and> \<not> num_less o' (Fin 0) \<and>
    (0 < \<lfloor>s\<rfloor> \<longrightarrow> o' \<noteq> NaN)"
proof -
  have size: "num_max (Fin 0) (num_trunc (Fin s)) = jint \<lfloor>s\<rfloor>"
    using canonical_limit_nonneg [of s "\<lparr>pg_limit = Undefined, pg_offset = Undefined,
      pg_page = Undefined, pg_page_size = JNum (Fin s)\<rparr>"] assms(2)
    by (simp add: canonicalize_pagination_def Let_def to_number_def)
  have "1 \<le> \<lfloor>p\<rfloor>" using assms(1) by (simp add: le_floor_iff)
  then have "num_nonneg (num_sub (num_trunc (Fin p)) (Fin 1))"
    using assms(1) to_double_nonneg [of "of_int \<lfloor>p\<rfloor> - 1"]
    by (simp add: num_sub_def num_trunc_def rat_trunc_def jint_def)
  from mul_size_nonneg [OF this, of "\<lfloor>s\<rfloor>"] show ?thesis
    using assms size by (simp add: canonicalize_pagination_def Let_def to_number_def)
qed

text \<open>A page that is not a number is not below one: it passes, and its offset is not a number.\<close>

lemma nan_page:
  assumes "to_number page = NaN" "page \<noteq> Undefined" "page \<noteq> Null"
    and "pg = \<lparr>pg_limit = Undefined, pg_offset = Undefined, pg_page = page, pg_page_size = JNum (Fin s)\<rparr>"
    and "0 \<le> s"
  shows "normalize_pagination
      \<lparr>pi_limit = Undefined, pi_offset = Undefined, pi_current_page = page, pi_current_page_snake = Undefined,
       pi_page_size = JNum (Fin s), pi_page_size_snake = Undefined\<rparr> = Ok (Some pg) \<and>
    snd (canonicalize_pagination (Some pg)) = JNum NaN"
  using assms
  by (simp add: normalize_pagination_def canonicalize_pagination_def Let_def nullish_or_def nullish_def
      less_than_def to_number_def [of "JNum n" for n] jint_def num_trunc_def num_sub_def num_mul_def)

lemma page_validated:
  "normalize_pagination inp = Ok (Some pg) \<Longrightarrow>
   (pg_page pg = Undefined \<or> \<not> less_than (pg_page pg) 1) \<and>
   (pg_page_size pg = Undefined \<or> \<not> less_than (pg_page_size pg) 0)"
  by (auto simp: normalize_pagination_def Let_def split: if_splits)

end
