(* ===== verification/QueryProperties.thy ===== *)
theory QueryProperties
  imports QueryFacts
begin

text \<open>
  The properties of the query engine: normalisation, relation resolution, planning, and the
  capability check, each with a concrete payload or catalog its hypotheses hold at.
\<close>

section \<open>Samples\<close>

definition posts_relation :: relation_descriptor where
  "posts_relation =
     \<lparr>rd_cardinality = OneToMany,
      rd_from = \<lparr>re_columns = [''id''], re_schema = None, re_table = ''users''\<rparr>,
      rd_id = ''_.users.posts'', rd_junction = None, rd_name = ''posts'',
      rd_to = \<lparr>re_columns = [''user_id''], re_schema = None, re_table = ''post''\<rparr>\<rparr>"

definition tags_relation :: relation_descriptor where
  "tags_relation =
     \<lparr>rd_cardinality = ManyToMany,
      rd_from = \<lparr>re_columns = [''id''], re_schema = None, re_table = ''post''\<rparr>,
      rd_id = ''_.post.tags'',
      rd_junction = Some \<lparr>jn_from_columns = [''post_id''], jn_schema = None, jn_table = ''post_tag'',
                          jn_to_columns = [''tag_id'']\<rparr>,
      rd_name = ''tags'',
      rd_to = \<lparr>re_columns = [''id''], re_schema = None, re_table = ''tag''\<rparr>\<rparr>"

definition sample_catalog :: relation_catalog where
  "sample_catalog = [posts_relation, tags_relation]"

text \<open>\<open>{table_name: "users", select: {id: true, posts: {select: {title: true}}},
  where: {posts: {some: {tags: {some: {name: "x"}}}}}}\<close>\<close>

definition sample_where :: jval where
  "sample_where =
     JObj 3 [(''posts'', JObj 4 [(''some'', JObj 5 [(''tags'', JObj 6 [(''some'',
       JObj 7 [(''name'', JStr ''x'')])])])])]"

definition sample_fields :: fields where
  "sample_fields =
     [(''table_name'', JStr ''users''),
      (''select'', JObj 2 [(''id'', JBool True),
         (''posts'', JObj 8 [(''select'', JObj 9 [(''title'', JBool True)])])]),
      (''where'', sample_where)]"

definition right_of :: "('e, 'a) result \<Rightarrow> 'a" where
  "right_of m = (case m of Inr x \<Rightarrow> x)"

lemma Ok_right_of: "succeeds m \<Longrightarrow> m = Ok (right_of m)"
  by (auto simp: right_of_def succeeds_def split: sum.splits)

definition normalized_of :: "transport_query \<Rightarrow> select_ast option" where
  "normalized_of t = (case t of NormalizedAst q \<Rightarrow> Some q | RawAst _ \<Rightarrow> None)"

definition name_is_x :: condition where
  "name_is_x = Compare \<lparr>fr_field = ''name'', fr_source = None\<rparr> OpEq (JStr ''x'')"

definition sample_ast :: select_ast where
  "sample_ast =
     SelectQuery ManyRows None
       (Some (RelationCond PredSome ''posts'' None
          (Some (RelationCond PredSome ''tags'' None (Some name_is_x)))))
       None None
       [ColumnField None ''id'',
        RelationField None
          (SelectQuery ManyRows None None None None [ColumnField None ''title''] (table_source None ''posts''))
          ''posts'' None]
       (table_source None ''users'')"

lemma sample_normalized: "normalize_transport_payload (JObj 1 sample_fields) = Ok (NormalizedAst sample_ast)"
  by code_simp

definition sample_plan :: query_plan where
  "sample_plan = right_of (resolve_athena_query_plan (Some sample_catalog) sample_ast)"

lemma sample_planned: "resolve_athena_query_plan (Some sample_catalog) sample_ast = Ok sample_plan"
proof -
  have "succeeds (resolve_athena_query_plan (Some sample_catalog) sample_ast)" by code_simp
  then show ?thesis unfolding sample_plan_def by (rule Ok_right_of)
qed

section \<open>Normalisation\<close>

text \<open>
  A normalised filter names only identifiers, has no relation resolved yet, and the set of
  visited objects only grows: an object met once is remembered to the end of the filter.
\<close>

lemma where_normal:
  "normalize_where w seen = Ok (r, seen') \<Longrightarrow>
   list_all normal_condition (opt_list r) \<and> set seen \<subseteq> set seen'"
  by (rule normalize_where_inv)

lemma where_normal_witness:
  "normal_condition (RelationCond PredSome ''posts'' None
     (Some (RelationCond PredSome ''tags'' None (Some name_is_x))))"
proof -
  have "succeeds (normalize_where sample_where [])"
    "fst (right_of (normalize_where sample_where [])) =
       Some (RelationCond PredSome ''posts'' None (Some (RelationCond PredSome ''tags'' None (Some name_is_x))))"
    by code_simp+
  then obtain s where "normalize_where sample_where [] =
      Ok (Some (RelationCond PredSome ''posts'' None (Some (RelationCond PredSome ''tags'' None (Some name_is_x)))), s)"
    by (metis Ok_right_of prod.collapse)
  from where_normal [OF this] show ?thesis by (simp add: opt_list_def)
qed

text \<open>
  The guard against cyclic input rejects shared but acyclic input: a clause object that
  normalises on its own is an error when the same object appears twice in an \<open>or\<close>.
\<close>

lemma shared_clause_error:
  assumes "normalize_where (JObj i fs) [j] = Ok (r, seen')" "i \<noteq> 0"
  shows "normalize_where (JObj j [(''or'', JArr [JObj i fs, JObj i fs])]) [] = Throw (QueryError CyclicInput)"
  using assms by (rule shared_clause_rejected)

lemma shared_clause_error_witness:
  "normalize_where (JObj 1 [(''or'', JArr [JObj 2 [(''a'', JStr ''b'')], JObj 2 [(''a'', JStr ''b'')]])]) [] =
     Throw (QueryError CyclicInput)"
proof -
  have "normalize_where (JObj 2 [(''a'', JStr ''b'')]) [1] =
      Ok (Some (Compare \<lparr>fr_field = ''a'', fr_source = None\<rparr> OpEq (JStr ''b'')), [2, 1])"
    by code_simp
  then show ?thesis by (rule shared_clause_error) simp
qed

text \<open>
  Source names round-trip: an identifier, or two joined by a dot, parses to the source it
  names, and whatever parses names identifiers only and carries no alias.
\<close>

lemma source_name_roundtrip:
  assumes "is_identifier table" "case schema of None \<Rightarrow> True | Some s \<Rightarrow> is_identifier s"
  shows "parse_source_name (qualified_name schema table) = Ok (table_source schema table)"
  using assms by (rule parse_source_roundtrip)

lemma source_name_roundtrip_witness:
  "parse_source_name ''auth.users'' = Ok (table_source (Some ''auth'') ''users'')"
proof -
  have "is_identifier ''users''" "is_identifier ''auth''" by code_simp+
  then show ?thesis using source_name_roundtrip [of "''users''" "Some ''auth''"] by (simp add: qualified_name_def)
qed

text \<open>
  Computed pages: when a page and a page size that validation accepted are finite numbers
  and no explicit limit or offset is given, the limit is the truncated page size and the
  offset is not negative.
\<close>

lemma pages_nonnegative:
  assumes "normalize_pagination inp = Ok (Some pg)" "pg_limit pg = Undefined" "pg_offset pg = Undefined"
    and "pg_page pg = JNum (Fin p)" "pg_page_size pg = JNum (Fin s)"
  shows "\<exists>o'. canonicalize_pagination (Some pg) = (JNum (jint \<lfloor>s\<rfloor>), JNum o') \<and> 0 \<le> \<lfloor>s\<rfloor> \<and>
    \<not> num_less o' (Fin 0) \<and> (0 < \<lfloor>s\<rfloor> \<longrightarrow> o' \<noteq> NaN)"
proof -
  from page_validated [OF assms(1)] assms(4,5) have p: "1 \<le> p" and s: "0 \<le> s"
    by (auto simp: less_than_def to_number_def jint_def not_less)
  from canonical_limit_nonneg [OF s assms(2,5)] canonical_offset [OF p s assms(3-5)] show ?thesis
    using s by (cases "canonicalize_pagination (Some pg)") auto
qed

definition page_input :: "jval \<Rightarrow> pagination_input" where
  "page_input page =
     \<lparr>pi_limit = Undefined, pi_offset = Undefined, pi_current_page = page, pi_current_page_snake = Undefined,
      pi_page_size = JNum (jint 25), pi_page_size_snake = Undefined\<rparr>"

definition page_ast :: "jval \<Rightarrow> pagination_ast" where
  "page_ast page =
     \<lparr>pg_limit = Undefined, pg_offset = Undefined, pg_page = page, pg_page_size = JNum (jint 25)\<rparr>"

lemma pages_nonnegative_witness:
  "\<exists>o'. canonicalize_pagination (Some (page_ast (JNum (jint 3)))) = (JNum (jint 25), JNum o') \<and>
    \<not> num_less o' (Fin 0) \<and> o' \<noteq> NaN"
proof -
  have "normalize_pagination (page_input (JNum (jint 3))) = Ok (Some (page_ast (JNum (jint 3))))"
    by code_simp
  from pages_nonnegative [OF this, of 3 25] show ?thesis by (simp add: page_ast_def jint_def)
qed

text \<open>
  The page check \<open>page < 1\<close> lets through what is not a number: such a page, a word in the
  request body for instance, passes and yields the offset NaN.
\<close>

lemma page_nan_passes:
  assumes "to_number page = NaN" "page \<noteq> Undefined" "page \<noteq> Null"
  shows "normalize_pagination (page_input page) = Ok (Some (page_ast page)) \<and>
    snd (canonicalize_pagination (Some (page_ast page))) = JNum NaN"
  using nan_page [OF assms, of "page_ast page" 25] by (simp add: page_input_def page_ast_def jint_def)

lemma page_nan_passes_witness:
  "normalize_pagination (page_input (JStr ''next'')) = Ok (Some (page_ast (JStr ''next''))) \<and>
   snd (canonicalize_pagination (Some (page_ast (JStr ''next'')))) = JNum NaN"
proof -
  have "to_number (JStr ''next'') = NaN" by code_simp
  then show ?thesis by (rule page_nan_passes) simp_all
qed

section \<open>Relations\<close>

text \<open>
  Resolution is sound: what it returns starts at the given source, and is an entry of the
  catalog or the inverse of one that ends there; a name that is unique on the source wins.
\<close>

lemma resolution_sound:
  "resolve_relation catalog name s hint = Ok d \<Longrightarrow>
   from_source d s \<and>
   (d \<in> set catalog \<or> (\<exists>e \<in> set catalog. to_source e s \<and> d = invert_descriptor name e)) \<and>
   (\<forall>e. by_name catalog name s = [e] \<longrightarrow> d = e)"
  using resolve_cases [of catalog name s hint d] resolve_from_source [of catalog name s hint d]
    resolve_by_name [of catalog name s _ hint] by auto

lemma resolution_sound_witness:
  "from_source posts_relation (table_source None ''users'') \<and> posts_relation \<in> set sample_catalog"
proof -
  have "resolve_relation sample_catalog ''posts'' (table_source None ''users'') None = Ok posts_relation"
    by code_simp
  from resolution_sound [OF this] show ?thesis by (simp add: sample_catalog_def)
qed

text \<open>
  Resolution without a hint fails as unknown exactly when no entry of the catalog leaves
  the source under that name or to a table of that name, and none arrives from such a table.
\<close>

lemma resolution_unknown_exact:
  "resolve_relation catalog name s None = Throw (QueryError UnknownRelation) \<longleftrightarrow>
   (\<forall>d \<in> set catalog. \<not> (from_source d s \<and> (rd_name d = name \<or> re_table (rd_to d) = name)) \<and>
      \<not> (to_source d s \<and> re_table (rd_from d) = name))"
  by (rule resolve_unknown_iff)

lemma resolution_unknown_exact_witness:
  "resolve_relation sample_catalog ''comments'' (table_source None ''users'') None =
     Throw (QueryError UnknownRelation)"
proof -
  have "list_all (\<lambda>d. \<not> (from_source d (table_source None ''users'') \<and>
      (rd_name d = ''comments'' \<or> re_table (rd_to d) = ''comments'')) \<and>
      \<not> (to_source d (table_source None ''users'') \<and> re_table (rd_from d) = ''comments'')) sample_catalog"
    by code_simp
  then show ?thesis
    using resolution_unknown_exact [of sample_catalog "''comments''" "table_source None ''users''"]
    by (simp add: list_all_iff)
qed

text \<open>
  Traversing a many-to-many relation backwards swaps the two ends but keeps the junction as
  it is: its \<open>fromColumns\<close>, which refer to the declared \<open>from\<close> end, are then joined to the
  other end. So the inverse of an oriented descriptor is oriented only if the junction's two
  column lists refer to both ends alike.
\<close>

lemma inverse_keeps_junction:
  assumes "by_name catalog name s = []" "outgoing catalog name None s = []"
    and "incoming catalog name None s = [e]" "rd_junction e = Some j" "oriented refers e"
  shows "\<exists>d. resolve_relation catalog name s None = Ok d \<and> rd_from d = rd_to e \<and> rd_to d = rd_from e \<and>
    rd_junction d = Some j \<and>
    (oriented refers d \<longleftrightarrow> refers j (jn_from_columns j) (rd_to e) \<and> refers j (jn_to_columns j) (rd_from e))"
  using assms
  by (simp add: resolve_relation_def invert_ends invert_junction oriented_def)

text \<open>Columns refer to an end that they are named after: \<open>tag_id\<close> to \<open>tag.id\<close>.\<close>

definition named_after :: "junction_end \<Rightarrow> string list \<Rightarrow> relation_end \<Rightarrow> bool" where
  "named_after j cols e \<longleftrightarrow> cols = map (\<lambda>c. re_table e @ ''_'' @ c) (re_columns e)"

lemma inverse_keeps_junction_witness:
  "\<exists>d. resolve_relation sample_catalog ''post'' (table_source None ''tag'') None = Ok d \<and>
     oriented named_after tags_relation \<and> \<not> oriented named_after d"
proof -
  have "by_name sample_catalog ''post'' (table_source None ''tag'') = []"
    "outgoing sample_catalog ''post'' None (table_source None ''tag'') = []"
    "incoming sample_catalog ''post'' None (table_source None ''tag'') = [tags_relation]"
    "oriented named_after tags_relation"
    by code_simp+
  from inverse_keeps_junction [OF this(1-3) _ this(4)] this(4) show ?thesis
    by (auto simp: tags_relation_def named_after_def)
qed

text \<open>
  Merging catalogs keeps exactly the ids of all of them, each once, and an entry of the
  first catalog is never displaced by a later one.
\<close>

lemma merge_by_priority:
  "distinct (map rd_id (merge_relation_catalogs cats)) \<and>
   rd_id ` set (merge_relation_catalogs cats) = (\<Union>c \<in> set cats. rd_id ` set (get_or c [])) \<and>
   (\<forall>c rest d. cats = Some c # rest \<longrightarrow> distinct (map rd_id c) \<longrightarrow> d \<in> set c \<longrightarrow>
      d \<in> set (merge_relation_catalogs cats))"
  using merge_ids_distinct [of cats] merge_ids [of cats] merge_priority by blast

lemma merge_by_priority_witness:
  "posts_relation \<in> set (merge_relation_catalogs
     [Some sample_catalog, None, Some [posts_relation\<lparr>rd_cardinality := OneToOne\<rparr>]])"
proof -
  have "distinct (map rd_id sample_catalog)" by code_simp
  then show ?thesis
    using merge_by_priority [of "[Some sample_catalog, None, Some [posts_relation\<lparr>rd_cardinality := OneToOne\<rparr>]]"]
    by (auto simp: sample_catalog_def)
qed

section \<open>Plans\<close>

text \<open>
  C8. Fresh aliases end to end: in the plan of a normalised payload the aliases of all sources,
  relation targets and junctions, at every depth, are pairwise distinct.
\<close>

theorem plan_aliases_distinct:
  assumes "normalize_transport_payload payload = Ok (NormalizedAst q)"
    and "resolve_athena_query_plan cat q = Ok plan"
  shows "distinct (plan_aliases plan)"
  using assms by (rule transport_plan_numbered)

theorem plan_aliases_distinct_witness:
  "distinct (plan_aliases sample_plan) \<and> plan_aliases sample_plan = [''t1'', ''r2'', ''r3'', ''r4'', ''j5'']"
  using plan_aliases_distinct [OF sample_normalized sample_planned] by simp code_simp

text \<open>
  C9. Every plan nested in a resolved plan is sound: no relation is left to resolve, output
  names are distinct, each relation starts at the source it is selected from and its nested plan
  reads the table the relation leads to, junction aliases go with many-to-many relations, and
  the limits of eight levels and thirty-two relations hold.
\<close>

theorem plans_sound:
  "resolve_athena_query_plan cat q = Ok plan \<Longrightarrow> list_all plan_sound (subplans plan)"
  by (auto simp: resolve_athena_query_plan_def rmap_eq_Inr dest: resolve_plan_sound(1))

theorem plans_sound_witness:
  "list_all plan_sound (subplans sample_plan) \<and> length (subplans sample_plan) = 2"
  using plans_sound [OF sample_planned] by simp code_simp

text \<open>
  The capability check accepts a plan exactly when every plan nested in it uses only
  features of the backend.
\<close>

lemma capabilities_exact:
  "validate_plan_against_capabilities plan cap = Ok () \<longleftrightarrow> list_all (uses_only cap) (subplans plan)"
  by (rule validate_capabilities_Ok)

end
