(* ===== verification/SessionStore.thy ===== *)
theory SessionStore
  imports JsValue
begin

text \<open>
  The auth session store of \<open>auth/session-store.ts\<close>: a snapshot, an epoch counter, the epoch
  of the refresh in flight and a set of listeners that every commit notifies. Listeners are
  parameters of the model: a listener may call the store again while it is being notified,
  and it may throw. The lemmas show that epochs only grow, that listeners see them in order
  whatever they do, and that an authoritative write cancels every refresh begun before it.
\<close>

section \<open>State\<close>

datatype session_status = UnknownStatus | Loading | Authenticated | Unauthenticated | ErrorStatus

record snapshot =
  sn_epoch :: nat
  sn_error :: jval
  sn_session :: jval
  sn_status :: session_status

text \<open>\<open>st_log\<close> is the history of notifications, newest last.\<close>

record store =
  st_epoch :: nat
  st_in_flight :: "nat option"
  st_snapshot :: snapshot
  st_listeners :: "nat list"
  st_log :: "(nat \<times> snapshot) list"

definition create_session_store :: store where
  "create_session_store =
     \<lparr>st_epoch = 0, st_in_flight = None,
      st_snapshot = \<lparr>sn_epoch = 0, sn_error = Null, sn_session = Null, sn_status = UnknownStatus\<rparr>,
      st_listeners = [], st_log = []\<rparr>"

datatype refresh_result =
    RefreshOk jval
  | RefreshFailed jval "bool option"

datatype store_op =
    Invalidate
  | SetSession jval "session_status option"
  | SetError jval
  | BeginRefresh
  | CompleteRefresh nat refresh_result
  | Subscribe nat
  | Unsubscribe nat

section \<open>Operations up to the notification\<close>

text \<open>Each gives the new state, and whether it commits a snapshot.\<close>

definition commit :: "snapshot \<Rightarrow> store \<Rightarrow> store" where
  "commit next st = st\<lparr>st_snapshot := next\<rparr>"

definition session_status_of :: "jval \<Rightarrow> session_status" where
  "session_status_of session = (if nullish session then Unauthenticated else Authenticated)"

definition invalidate :: "store \<Rightarrow> store" where
  "invalidate st =
     (let e = st_epoch st + 1
      in commit \<lparr>sn_epoch = e, sn_error = Null, sn_session = Null, sn_status = Unauthenticated\<rparr>
           (st\<lparr>st_epoch := e, st_in_flight := None\<rparr>))"

definition set_session :: "jval \<Rightarrow> session_status option \<Rightarrow> store \<Rightarrow> store" where
  "set_session session status st =
     (let e = st_epoch st + 1
      in commit \<lparr>sn_epoch = e, sn_error = Null, sn_session = session,
                 sn_status = get_or status (session_status_of session)\<rparr>
           (st\<lparr>st_epoch := e, st_in_flight := None\<rparr>))"

definition kept_status :: "snapshot \<Rightarrow> session_status" where
  "kept_status sn = (if nullish (sn_session sn) then ErrorStatus else sn_status sn)"

definition set_error :: "jval \<Rightarrow> store \<Rightarrow> store" where
  "set_error err st =
     (let e = st_epoch st + 1; sn = st_snapshot st
      in commit \<lparr>sn_epoch = e, sn_error = err, sn_session = sn_session sn, sn_status = kept_status sn\<rparr>
           (st\<lparr>st_epoch := e\<rparr>))"

text \<open>The result of \<open>beginRefresh\<close>: the epoch, and whether a refresh was already in flight.\<close>

definition begin_refresh :: "store \<Rightarrow> (nat \<times> bool) \<times> store" where
  "begin_refresh st =
     (case st_in_flight st of
        Some e \<Rightarrow> ((e, True), st)
      | None \<Rightarrow>
          (let e = st_epoch st + 1
           in ((e, False),
               commit \<lparr>sn_epoch = e, sn_error = Null, sn_session = sn_session (st_snapshot st),
                       sn_status = Loading\<rparr>
                 (st\<lparr>st_epoch := e, st_in_flight := Some e\<rparr>))))"

definition completed :: "refresh_result \<Rightarrow> nat \<Rightarrow> snapshot \<Rightarrow> snapshot" where
  "completed result e sn =
     (case result of
        RefreshOk session \<Rightarrow>
          \<lparr>sn_epoch = e, sn_error = Null, sn_session = session, sn_status = session_status_of session\<rparr>
      | RefreshFailed err clear_session \<Rightarrow>
          if clear_session = Some True then
            \<lparr>sn_epoch = e, sn_error = err, sn_session = Null, sn_status = Unauthenticated\<rparr>
          else
            \<lparr>sn_epoch = e, sn_error = err, sn_session = sn_session sn, sn_status = kept_status sn\<rparr>)"

definition complete_refresh :: "nat \<Rightarrow> refresh_result \<Rightarrow> store \<Rightarrow> store" where
  "complete_refresh request_epoch result st =
     (if st_in_flight st \<noteq> Some request_epoch then st
      else (let e = st_epoch st + 1
            in commit (completed result e (st_snapshot st))
                 (st\<lparr>st_epoch := e, st_in_flight := None\<rparr>)))"

definition subscribe :: "nat \<Rightarrow> store \<Rightarrow> store" where
  "subscribe l st =
     (if l \<in> set (st_listeners st) then st else st\<lparr>st_listeners := st_listeners st @ [l]\<rparr>)"

definition unsubscribe :: "nat \<Rightarrow> store \<Rightarrow> store" where
  "unsubscribe l st = st\<lparr>st_listeners := filter (\<lambda>x. x \<noteq> l) (st_listeners st)\<rparr>"

definition commits :: "store_op \<Rightarrow> store \<Rightarrow> bool" where
  "commits op st =
     (case op of
        BeginRefresh \<Rightarrow> st_in_flight st = None
      | CompleteRefresh e _ \<Rightarrow> st_in_flight st = Some e
      | Subscribe _ \<Rightarrow> False
      | Unsubscribe _ \<Rightarrow> False
      | _ \<Rightarrow> True)"

definition perform :: "store_op \<Rightarrow> store \<Rightarrow> store" where
  "perform op st =
     (case op of
        Invalidate \<Rightarrow> invalidate st
      | SetSession session status \<Rightarrow> set_session session status st
      | SetError err \<Rightarrow> set_error err st
      | BeginRefresh \<Rightarrow> snd (begin_refresh st)
      | CompleteRefresh e result \<Rightarrow> complete_refresh e result st
      | Subscribe l \<Rightarrow> subscribe l st
      | Unsubscribe l \<Rightarrow> unsubscribe l st)"

section \<open>Notification\<close>

text \<open>
  What a listener does when called: the store operations it runs, and whether it throws after
  them. It may depend on everything notified so far. \<open>emit\<close> walks over a copy of the
  listeners, reads the current snapshot for each, and stops when one throws. The fuel bounds
  the nesting of notifications and the listeners called; \<open>None\<close> means it ran out.
\<close>

type_synonym reaction = "(nat \<times> snapshot) list \<Rightarrow> nat \<Rightarrow> store_op list \<times> bool"

fun run_op :: "nat \<Rightarrow> reaction \<Rightarrow> store_op \<Rightarrow> store \<Rightarrow> (bool \<times> store) option"
  and emit :: "nat \<Rightarrow> reaction \<Rightarrow> nat list \<Rightarrow> store \<Rightarrow> (bool \<times> store) option"
  and run_ops :: "nat \<Rightarrow> reaction \<Rightarrow> store_op list \<Rightarrow> store \<Rightarrow> (bool \<times> store) option" where
  "run_op 0 react op st = None"
| "run_op (Suc n) react op st =
     (if commits op st then emit n react (st_listeners st) (perform op st)
      else Some (False, perform op st))"
| "emit n react [] st = Some (False, st)"
| "emit 0 react (l # ls) st = None"
| "emit (Suc n) react (l # ls) st =
     (let st1 = st\<lparr>st_log := st_log st @ [(l, st_snapshot st)]\<rparr>; (ops, throws) = react (st_log st1) l
      in (case run_ops n react ops st1 of
            None \<Rightarrow> None
          | Some (thrown, st2) \<Rightarrow>
              if thrown \<or> throws then Some (True, st2) else emit n react ls st2))"
| "run_ops n react [] st = Some (False, st)"
| "run_ops 0 react (op # ops) st = None"
| "run_ops (Suc n) react (op # ops) st =
     (case run_op n react op st of
        None \<Rightarrow> None
      | Some (thrown, st1) \<Rightarrow> if thrown then Some (True, st1) else run_ops n react ops st1)"

definition silent :: reaction where
  "silent = (\<lambda>hist l. ([], False))"

section \<open>What a run can do to the store\<close>

text \<open>
  Every run, with every listener, is a sequence of two kinds of steps: an operation of the
  store, or a notification of the current snapshot. \<open>allowed\<close> restricts the operations.
\<close>

inductive store_step :: "(store_op \<Rightarrow> bool) \<Rightarrow> store \<Rightarrow> store \<Rightarrow> bool" for allowed where
  operate: "allowed op \<Longrightarrow> store_step allowed st (perform op st)"
| notify: "store_step allowed st (st\<lparr>st_log := st_log st @ [(l, st_snapshot st)]\<rparr>)"

inductive_cases store_stepE: "store_step allowed st st'"

abbreviation store_run :: "(store_op \<Rightarrow> bool) \<Rightarrow> store \<Rightarrow> store \<Rightarrow> bool" where
  "store_run allowed \<equiv> (store_step allowed)\<^sup>*\<^sup>*"

definition reacts_within :: "(store_op \<Rightarrow> bool) \<Rightarrow> reaction \<Rightarrow> bool" where
  "reacts_within allowed react \<longleftrightarrow> (\<forall>hist l. list_all allowed (fst (react hist l)))"

lemma reacts_within_all [simp]: "reacts_within (\<lambda>_. True) react"
  by (simp add: reacts_within_def list_all_iff)

lemma reacts_within_mem:
  "reacts_within allowed react \<Longrightarrow> react hist l = (ops, throws) \<Longrightarrow> list_all allowed ops"
  unfolding reacts_within_def by (metis fst_conv)

lemma run_is_steps:
  "reacts_within allowed react \<Longrightarrow> allowed op \<Longrightarrow> run_op n react op st = Some (b, st') \<Longrightarrow>
     store_run allowed st st'"
  "reacts_within allowed react \<Longrightarrow> emit n react ls st = Some (b, st') \<Longrightarrow> store_run allowed st st'"
  "reacts_within allowed react \<Longrightarrow> list_all allowed ops \<Longrightarrow> run_ops n react ops st = Some (b, st') \<Longrightarrow>
     store_run allowed st st'"
proof (induction n react op st and n react ls st and n react ops st
    arbitrary: b st' and b st' and b st' rule: run_op_emit_run_ops.induct)
  case (2 n react op st)
  have "store_step allowed st (perform op st)" using 2(3) by (rule store_step.operate)
  then show ?case using 2 by (auto split: if_splits intro: converse_rtranclp_into_rtranclp)
next
  case (5 n react l ls st)
  let ?st1 = "st\<lparr>st_log := st_log st @ [(l, st_snapshot st)]\<rparr>"
  obtain ops throws where r: "react (st_log ?st1) l = (ops, throws)" by (cases "react (st_log ?st1) l") auto
  with 5(4) obtain thrown st2 where run: "run_ops n react ops ?st1 = Some (thrown, st2)"
    by (auto split: option.splits)
  have "store_step allowed st ?st1" by (rule store_step.notify)
  moreover have "store_run allowed ?st1 st2"
    using 5(1) [OF refl r [symmetric] refl] 5(3) run reacts_within_mem [OF 5(3) r] by simp
  moreover have "store_run allowed st2 st'"
    using 5(2) [OF refl r [symmetric] refl run refl] 5(3,4) r run by (auto split: if_splits)
  ultimately show ?case by (meson converse_rtranclp_into_rtranclp rtranclp_trans)
next
  case (8 n react op ops st)
  from 8(5) obtain thrown st1 where run: "run_op n react op st = Some (thrown, st1)"
    by (auto split: option.splits)
  then have "store_run allowed st st1" using 8(1) [of thrown st1] 8(3,4) by simp
  moreover have "store_run allowed st1 st'"
    using 8(2) [OF run refl] 8(3,4,5) run by (auto split: if_splits)
  ultimately show ?case by simp
qed auto

text \<open>A property every step keeps is kept by every run.\<close>

lemma run_keeps:
  assumes "store_run allowed st st'" "P st"
    and "\<And>op st. allowed op \<Longrightarrow> P st \<Longrightarrow> P (perform op st)"
    and "\<And>l st. P st \<Longrightarrow> P (st\<lparr>st_log := st_log st @ [(l, st_snapshot st)]\<rparr>)"
  shows "P st'"
  using assms(1,2) by (induction rule: rtranclp_induct) (auto elim!: store_stepE intro: assms(3,4))

lemmas op_defs =
  perform_def invalidate_def set_session_def set_error_def begin_refresh_def complete_refresh_def
  subscribe_def unsubscribe_def commit_def completed_def Let_def

section \<open>Invariants\<close>

definition log_epochs :: "store \<Rightarrow> nat list" where
  "log_epochs st = map (\<lambda>(l, sn). sn_epoch sn) (st_log st)"

definition store_ok :: "store \<Rightarrow> bool" where
  "store_ok st \<longleftrightarrow>
     sn_epoch (st_snapshot st) = st_epoch st \<and>
     (\<forall>e. st_in_flight st = Some e \<longrightarrow> e \<le> st_epoch st) \<and>
     sorted (log_epochs st) \<and> (\<forall>e \<in> set (log_epochs st). e \<le> st_epoch st)"

lemma store_ok_initial: "store_ok create_session_store"
  by (simp add: store_ok_def create_session_store_def log_epochs_def)

lemma perform_epoch: "st_epoch st \<le> st_epoch (perform op st)"
  by (auto simp: op_defs split: store_op.splits option.splits)

lemma perform_log: "st_log (perform op st) = st_log st"
  by (auto simp: op_defs split: store_op.splits option.splits)

lemma perform_snapshot_epoch:
  "store_ok st \<Longrightarrow> sn_epoch (st_snapshot (perform op st)) = st_epoch (perform op st)"
  by (auto simp: op_defs store_ok_def split: store_op.splits option.splits refresh_result.splits)

lemma perform_in_flight:
  "store_ok st \<Longrightarrow> st_in_flight (perform op st) = Some e \<Longrightarrow> e \<le> st_epoch (perform op st)"
  by (auto simp: op_defs store_ok_def le_SucI split: store_op.splits option.splits if_splits)

lemma perform_ok: "store_ok st \<Longrightarrow> store_ok (perform op st)"
  using perform_epoch [of st op] perform_in_flight [of st op] perform_snapshot_epoch [of st op]
  by (auto simp: store_ok_def log_epochs_def perform_log)

lemma notify_ok: "store_ok st \<Longrightarrow> store_ok (st\<lparr>st_log := st_log st @ [(l, st_snapshot st)]\<rparr>)"
  by (auto simp: store_ok_def log_epochs_def sorted_append)

lemma run_ok: "store_run allowed st st' \<Longrightarrow> store_ok st \<Longrightarrow> store_ok st'"
  by (erule run_keeps) (auto intro: perform_ok notify_ok)

lemma run_epoch: "store_run allowed st st' \<Longrightarrow> st_epoch st \<le> st_epoch st'"
  by (erule run_keeps [where P = "\<lambda>s. st_epoch st \<le> st_epoch s"])
    (auto intro: order_trans [OF _ perform_epoch])

section \<open>Stale refreshes\<close>

text \<open>A refresh is stale once its epoch is past and no longer in flight; it stays stale.\<close>

definition stale :: "nat \<Rightarrow> store \<Rightarrow> bool" where
  "stale e st \<longleftrightarrow> e \<le> st_epoch st \<and> st_in_flight st \<noteq> Some e"

lemma perform_stale: "stale e st \<Longrightarrow> stale e (perform op st)"
  by (auto simp: op_defs stale_def split: store_op.splits option.splits)

lemma notify_stale: "stale e st \<Longrightarrow> stale e (st\<lparr>st_log := hist\<rparr>)"
  by (simp add: stale_def)

lemma run_stale: "store_run allowed st st' \<Longrightarrow> stale e st \<Longrightarrow> stale e st'"
  by (erule run_keeps [where P = "stale e"]) (auto intro: perform_stale notify_stale)

lemma stale_no_effect:
  "stale e st \<Longrightarrow> perform (CompleteRefresh e result) st = st \<and> \<not> commits (CompleteRefresh e result) st"
  by (simp add: stale_def perform_def commits_def complete_refresh_def)

lemma write_makes_stale:
  "store_ok st \<Longrightarrow> e \<le> st_epoch st \<Longrightarrow> stale e (perform Invalidate st)"
  "store_ok st \<Longrightarrow> e \<le> st_epoch st \<Longrightarrow> stale e (perform (SetSession session status) st)"
  by (auto simp: stale_def op_defs)

lemma completion_makes_stale: "store_ok st \<Longrightarrow> e \<le> st_epoch st \<Longrightarrow> stale e (perform (CompleteRefresh e r) st)"
  by (auto simp: stale_def op_defs)

section \<open>The session of the snapshot\<close>

text \<open>The operations that may change the session: sign-in, sign-out, and an answered refresh.\<close>

definition rewrites_session :: "store_op \<Rightarrow> bool" where
  "rewrites_session op =
     (case op of
        Invalidate \<Rightarrow> True
      | SetSession _ _ \<Rightarrow> True
      | CompleteRefresh _ (RefreshOk _) \<Rightarrow> True
      | CompleteRefresh _ (RefreshFailed _ c) \<Rightarrow> c = Some True
      | _ \<Rightarrow> False)"

lemma perform_keeps_session:
  "\<not> rewrites_session op \<Longrightarrow> sn_session (st_snapshot (perform op st)) = sn_session (st_snapshot st)"
  by (auto simp: op_defs rewrites_session_def split: store_op.splits option.splits refresh_result.splits)

lemma run_keeps_session:
  "store_run (\<lambda>op. \<not> rewrites_session op) st st' \<Longrightarrow>
   sn_session (st_snapshot st') = sn_session (st_snapshot st)"
  by (erule run_keeps [where P = "\<lambda>s. sn_session (st_snapshot s) = sn_session (st_snapshot st)"])
    (auto simp: perform_keeps_session)

section \<open>Listeners that only observe\<close>

lemma emit_silent:
  "length ls < n \<Longrightarrow>
   emit n silent ls st = Some (False, st\<lparr>st_log := st_log st @ map (\<lambda>l. (l, st_snapshot st)) ls\<rparr>)"
proof (induction ls arbitrary: n st)
  case (Cons l ls)
  then obtain m where n: "n = Suc m" by (cases n) auto
  with Cons have "length ls < m" by simp
  then show ?case using Cons.IH [of m] by (simp add: n silent_def)
qed simp

lemma run_op_silent:
  assumes "length (st_listeners st) + 1 < n"
  shows "run_op n silent op st = Some (False,
    if commits op st
    then (perform op st)\<lparr>st_log := st_log st @ map (\<lambda>l. (l, st_snapshot (perform op st))) (st_listeners st)\<rparr>
    else perform op st)"
proof -
  obtain m where n: "n = Suc m" and "length (st_listeners st) < m" using assms by (cases n) auto
  then show ?thesis using emit_silent [of "st_listeners st" m "perform op st"] by (simp add: perform_log)
qed

end
