(* ===== verification/SessionClient.thy ===== *)
theory SessionClient
  imports SessionStore
begin

text \<open>
  What the auth client does with the session store: the controller of
  \<open>auth/session-controller.ts\<close>, the normalised session of \<open>auth/session-data.ts\<close> and
  \<open>auth/session-view.ts\<close>, and from \<open>auth/client.ts\<close> the refresh around a transport call and
  the session a mutation answers with. The last sections are the client as a step relation:
  refreshes start, their answers arrive in any order, and other calls interleave.
\<close>

section \<open>Sessions as values\<close>

definition non_blank :: "jval \<Rightarrow> string option" where
  "non_blank v = (case v of JStr s \<Rightarrow> if js_trim s \<noteq> [] then Some s else None | _ \<Rightarrow> None)"

definition read_session_token :: "jval \<Rightarrow> string option" where
  "read_session_token session =
     (let inner = opt_prop ''session'' session
      in or_else (non_blank (opt_prop ''token'' inner)) (non_blank (opt_prop ''id'' inner)))"

definition should_invalidate_for_revoked_tokens :: "store \<Rightarrow> string list \<Rightarrow> bool" where
  "should_invalidate_for_revoked_tokens st tokens =
     (case read_session_token (sn_session (st_snapshot st)) of
        None \<Rightarrow> False
      | Some current \<Rightarrow> list_ex (\<lambda>t. t = current) tokens)"

definition normalize_id :: "jval \<Rightarrow> jval" where
  "normalize_id v =
     (case v of JStr s \<Rightarrow> if js_trim s \<noteq> [] then JStr (js_trim s) else Null | _ \<Rightarrow> Null)"

text \<open>\<open>{...v}\<close>\<close>

definition spread :: "jval \<Rightarrow> jval" where
  "spread v =
     JObj 0 (case v of
         JObj _ fs \<Rightarrow> fs
       | JArr vs \<Rightarrow> zip (map show_nat [0..<length vs]) vs
       | JStr s \<Rightarrow> zip (map show_nat [0..<length s]) (map (\<lambda>c. JStr [c]) s)
       | _ \<Rightarrow> [])"

record session_data_options =
  so_active_id :: jval
  so_raw_active_id :: jval

definition to_session_data :: "jval \<Rightarrow> session_data_options \<Rightarrow> jval" where
  "to_session_data response opts =
     (let raw = (if so_raw_active_id opts \<noteq> Undefined then normalize_id (so_raw_active_id opts)
                 else normalize_id (opt_prop ''activeOrganizationId'' (opt_prop ''session'' response)));
          active = (if so_active_id opts \<noteq> Undefined then normalize_id (so_active_id opts) else raw)
      in JObj 0 [(''organization'', JObj 0 [(''activeId'', active), (''rawActiveId'', raw)]),
                 (''session'', spread (opt_prop ''session'' response)),
                 (''user'', spread (opt_prop ''user'' response))])"

record session_view =
  sv_data :: jval
  sv_is_authenticated :: bool
  sv_organization :: jval
  sv_organization_id :: jval
  sv_session :: jval
  sv_user :: jval

definition derive_session_view :: "jval \<Rightarrow> session_view" where
  "derive_session_view data =
     (if \<not> truthy data then
        \<lparr>sv_data = Null, sv_is_authenticated = False, sv_organization = Null,
         sv_organization_id = Null, sv_session = Null, sv_user = Null\<rparr>
      else
        (let normalized =
               (if truthy (opt_prop ''organization'' data) then data
                else to_session_data data \<lparr>so_active_id = Undefined, so_raw_active_id = Undefined\<rparr>)
         in \<lparr>sv_data = normalized,
             sv_is_authenticated = truthy (opt_prop ''id'' (opt_prop ''user'' normalized)),
             sv_organization = opt_prop ''organization'' normalized,
             sv_organization_id = opt_prop ''activeId'' (opt_prop ''organization'' normalized),
             sv_session = opt_prop ''session'' normalized,
             sv_user = opt_prop ''user'' normalized\<rparr>))"

lemma normalize_id_idem [simp]: "normalize_id (normalize_id v) = normalize_id v"
  by (auto simp: normalize_id_def split: jval.splits)

lemma to_session_data_organization:
  "opt_prop ''organization'' (to_session_data response opts) =
     JObj 0 [(''activeId'', normalize_id (if so_active_id opts \<noteq> Undefined then so_active_id opts
               else if so_raw_active_id opts \<noteq> Undefined then so_raw_active_id opts
               else opt_prop ''activeOrganizationId'' (opt_prop ''session'' response))),
             (''rawActiveId'', normalize_id (if so_raw_active_id opts \<noteq> Undefined then so_raw_active_id opts
               else opt_prop ''activeOrganizationId'' (opt_prop ''session'' response)))]"
  by (simp add: to_session_data_def Let_def opt_prop_def get_prop_def)

lemma derive_view_idem: "derive_session_view (sv_data (derive_session_view data)) = derive_session_view data"
proof -
  have "truthy (to_session_data r os)" "truthy (opt_prop ''organization'' (to_session_data r os))" for r os
    unfolding to_session_data_organization
    by (simp_all add: to_session_data_def Let_def truthy_def)
  moreover have "\<not> truthy Null" by (simp add: truthy_def)
  ultimately show ?thesis by (simp add: derive_session_view_def Let_def)
qed

section \<open>Sessions from answers\<close>

definition string_prop :: "string \<Rightarrow> jval \<Rightarrow> bool" where
  "string_prop k v = (case opt_prop k v of JStr _ \<Rightarrow> True | _ \<Rightarrow> False)"

definition is_session_response :: "jval \<Rightarrow> bool" where
  "is_session_response v \<longleftrightarrow>
     string_prop ''id'' (opt_prop ''session'' v) \<and> string_prop ''id'' (opt_prop ''user'' v)"

definition session_from_sign_in :: "jval \<Rightarrow> jval option" where
  "session_from_sign_in v =
     (if opt_prop ''redirect'' v = JBool True then None
      else (case opt_prop ''id'' (opt_prop ''user'' v) of
              JStr user_id \<Rightarrow>
                (let token = (case opt_prop ''token'' v of JStr t \<Rightarrow> JStr t | _ \<Rightarrow> Undefined)
                 in Some (JObj 0
                      [(''user'', opt_prop ''user'' v),
                       (''session'', JObj 0
                          [(''id'', if token = Undefined then JStr (''local:'' @ user_id) else token),
                           (''token'', token), (''userId'', JStr user_id)])]))
            | _ \<Rightarrow> None))"

text \<open>The store operation after a mutation; \<open>None\<close> when nothing is to be done or a refresh is.\<close>

definition mutation_session :: "jval \<Rightarrow> store_op option" where
  "mutation_session result =
     (if \<not> truthy (opt_prop ''ok'' result) then None
      else if is_session_response (opt_prop ''data'' result) then
        Some (SetSession (opt_prop ''data'' result) None)
      else map_option (\<lambda>s. SetSession s None) (session_from_sign_in (opt_prop ''data'' result)))"

definition patch_active_organization :: "jval \<Rightarrow> store \<Rightarrow> store_op option" where
  "patch_active_organization organization_id st =
     (let current = sn_session (st_snapshot st)
      in if \<not> truthy (opt_prop ''session'' current) then None
         else Some (SetSession
           (JObj 0 (dset ''session''
              (JObj 0 (dset ''activeOrganizationId''
                 (if organization_id = Undefined then Null else organization_id)
                 (fields_of (spread (opt_prop ''session'' current)))))
              (fields_of (spread current)))) None))"

text \<open>A session made from a sign-in answer is one the store takes as a full session.\<close>

lemma sign_in_is_session:
  "session_from_sign_in v = Some s \<Longrightarrow> is_session_response s \<and> \<not> nullish s"
proof -
  assume s: "session_from_sign_in v = Some s"
  then obtain uid where uid: "opt_prop ''id'' (opt_prop ''user'' v) = JStr uid"
    by (auto simp: session_from_sign_in_def split: if_splits jval.splits)
  let ?t = "case opt_prop ''token'' v of JStr t \<Rightarrow> JStr t | _ \<Rightarrow> Undefined"
  have "s = JObj 0 [(''user'', opt_prop ''user'' v),
      (''session'', JObj 0 [(''id'', if ?t = Undefined then JStr (''local:'' @ uid) else ?t),
         (''token'', ?t), (''userId'', JStr uid)])]"
    using s uid unfolding session_from_sign_in_def Let_def by (simp split: if_splits)
  moreover have "?t = Undefined \<or> (\<exists>x. ?t = JStr x)" by (simp split: jval.split)
  ultimately show ?thesis
    by (auto simp: is_session_response_def string_prop_def uid opt_prop_def [of _ "JObj _ _"] get_prop_def)
qed

section \<open>Refreshing\<close>

text \<open>What the transport call of a refresh ends with: an answer, or an exception.\<close>

datatype transport_reply = Reply jval | Rejected jval

definition refresh_answer :: "transport_reply \<Rightarrow> refresh_result" where
  "refresh_answer reply =
     (case reply of
        Rejected err \<Rightarrow> RefreshFailed err (Some False)
      | Reply r \<Rightarrow>
          if truthy (opt_prop ''ok'' r) then
            RefreshOk (nullish_or (opt_prop ''data'' r) Null)
          else
            RefreshFailed (nullish_or (opt_prop ''error'' r) r)
              (Some (opt_prop ''status'' r = JNum (jint 401))))"

definition is_reply :: "transport_reply \<Rightarrow> bool" where
  "is_reply reply = (case reply of Reply _ \<Rightarrow> True | Rejected _ \<Rightarrow> False)"

text \<open>
  The rest of \<open>refreshSessionStore\<close> once the transport call has ended. The completion of an
  answer stands inside the \<open>try\<close>: when a listener throws there, the store is completed once
  more with what was thrown.
\<close>

definition finish_refresh ::
  "nat \<Rightarrow> reaction \<Rightarrow> jval \<Rightarrow> nat \<Rightarrow> transport_reply \<Rightarrow> store \<Rightarrow> (bool \<times> store) option" where
  "finish_refresh n react exn e reply st =
     (case run_op n react (CompleteRefresh e (refresh_answer reply)) st of
        None \<Rightarrow> None
      | Some (thrown, st1) \<Rightarrow>
          if thrown \<and> is_reply reply then
            run_op n react (CompleteRefresh e (RefreshFailed exn (Some False))) st1
          else Some (thrown, st1))"

section \<open>The client as a step relation\<close>

text \<open>\<open>cl_pending\<close> holds the epochs of the refreshes whose transport call has not ended.\<close>

record client =
  cl_store :: store
  cl_pending :: "nat list"

definition initial_client :: client where
  "initial_client = \<lparr>cl_store = create_session_store, cl_pending = []\<rparr>"

definition is_refresh_op :: "store_op \<Rightarrow> bool" where
  "is_refresh_op op =
     (case op of BeginRefresh \<Rightarrow> True | CompleteRefresh _ _ \<Rightarrow> True | _ \<Rightarrow> False)"

definition after_begin :: "bool \<Rightarrow> client \<Rightarrow> nat list" where
  "after_begin thrown c =
     (case fst (begin_refresh (cl_store c)) of
        (e, skipped) \<Rightarrow> if thrown \<or> skipped then cl_pending c else cl_pending c @ [e])"

inductive client_step :: "reaction \<Rightarrow> client \<Rightarrow> client \<Rightarrow> bool" for react where
  begins: "run_op n react BeginRefresh (cl_store c) = Some (thrown, st') \<Longrightarrow>
    client_step react c \<lparr>cl_store = st', cl_pending = after_begin thrown c\<rparr>"
| ends: "e \<in> set (cl_pending c) \<Longrightarrow>
    finish_refresh n react exn e reply (cl_store c) = Some (thrown, st') \<Longrightarrow>
    client_step react c \<lparr>cl_store = st', cl_pending = remove1 e (cl_pending c)\<rparr>"
| calls: "\<not> is_refresh_op op \<Longrightarrow> run_op n react op (cl_store c) = Some (thrown, st') \<Longrightarrow>
    client_step react c \<lparr>cl_store = st', cl_pending = cl_pending c\<rparr>"

inductive_cases client_stepE: "client_step react c c'"

abbreviation client_run :: "reaction \<Rightarrow> client \<Rightarrow> client \<Rightarrow> bool" where
  "client_run react \<equiv> (client_step react)\<^sup>*\<^sup>*"

section \<open>Listeners that do not throw, or do not refresh\<close>

definition never_throws :: "reaction \<Rightarrow> bool" where
  "never_throws react \<longleftrightarrow> (\<forall>hist l. \<not> snd (react hist l))"

lemma run_no_throw:
  "never_throws react \<Longrightarrow> run_op n react op st = Some (b, st') \<Longrightarrow> \<not> b"
  "never_throws react \<Longrightarrow> emit n react ls st = Some (b, st') \<Longrightarrow> \<not> b"
  "never_throws react \<Longrightarrow> run_ops n react ops st = Some (b, st') \<Longrightarrow> \<not> b"
proof (induction n react op st and n react ls st and n react ops st
    arbitrary: b st' and b st' and b st' rule: run_op_emit_run_ops.induct)
  case (5 n react l ls st)
  let ?st1 = "st\<lparr>st_log := st_log st @ [(l, st_snapshot st)]\<rparr>"
  obtain ops throws where r: "react (st_log ?st1) l = (ops, throws)" by (cases "react (st_log ?st1) l") auto
  with 5(4) obtain thrown st2 where run: "run_ops n react ops ?st1 = Some (thrown, st2)"
    by (auto split: option.splits)
  have no: "\<not> thrown" "\<not> throws"
    using 5(1) [OF refl r [symmetric] refl 5(3) run] 5(3) r unfolding never_throws_def
    by (simp, metis snd_conv)
  then have "emit n react ls st2 = Some (b, st')" using 5(4) r run by simp
  then show ?case using 5(2) [OF refl r [symmetric] refl run refl] no 5(3) by simp
next
  case (8 n react op ops st)
  from 8(4) obtain thrown st1 where run: "run_op n react op st = Some (thrown, st1)"
    by (auto split: option.splits)
  then have "\<not> thrown" using 8(1) 8(3) by blast
  then show ?case using 8(2) [OF run refl] 8(3,4) run by simp
qed (auto split: if_splits)

text \<open>Without refresh operations a run can only cancel the refresh in flight.\<close>

lemma perform_no_refresh:
  "\<not> is_refresh_op op \<Longrightarrow>
   st_in_flight (perform op st) = st_in_flight st \<or> st_in_flight (perform op st) = None"
  by (auto simp: is_refresh_op_def op_defs split: store_op.splits)

lemma run_no_refresh:
  "store_run (\<lambda>op. \<not> is_refresh_op op) st st' \<Longrightarrow>
   st_in_flight st' = st_in_flight st \<or> st_in_flight st' = None"
proof (erule run_keeps [where P = "\<lambda>s. st_in_flight s = st_in_flight st \<or> st_in_flight s = None"])
  show "st_in_flight (perform op s) = st_in_flight st \<or> st_in_flight (perform op s) = None"
    if "\<not> is_refresh_op op" "st_in_flight s = st_in_flight st \<or> st_in_flight s = None" for op s
    using perform_no_refresh [OF that(1), of s] that(2) by auto
qed simp_all

abbreviation no_refresh :: "reaction \<Rightarrow> bool" where
  "no_refresh \<equiv> reacts_within (\<lambda>op. \<not> is_refresh_op op)"

text \<open>What one operation does: itself, then a run of the listeners.\<close>

lemma run_op_then_listeners:
  assumes "reacts_within allowed react" "run_op n react op st = Some (b, st')"
  shows "store_run allowed (perform op st) st'"
proof (cases n)
  case (Suc m)
  with assms show ?thesis
    by (auto split: if_splits intro: run_is_steps(2))
qed (use assms in simp)

lemma run_op_all: "run_op n react op st = Some (b, st') \<Longrightarrow> store_run (\<lambda>_. True) st st'"
  by (rule run_is_steps(1) [OF reacts_within_all]) simp_all

lemma finish_refresh_all:
  "finish_refresh n react exn e reply st = Some (b, st') \<Longrightarrow> store_run (\<lambda>_. True) st st'"
  by (auto simp: finish_refresh_def split: option.splits if_splits dest!: run_op_all)

lemma finish_refresh_no_throw:
  "never_throws react \<Longrightarrow> finish_refresh n react exn e reply st = Some (b, st') \<Longrightarrow>
   run_op n react (CompleteRefresh e (refresh_answer reply)) st = Some (b, st')"
  by (auto simp: finish_refresh_def split: option.splits if_splits dest: run_no_throw(1))

section \<open>Reachable clients\<close>

definition client_ok :: "client \<Rightarrow> bool" where
  "client_ok c \<longleftrightarrow>
     store_ok (cl_store c) \<and> distinct (cl_pending c) \<and>
     (\<forall>e \<in> set (cl_pending c). e \<le> st_epoch (cl_store c))"

lemma begin_refresh_perform:
  "begin_refresh st = ((e, skipped), st') \<Longrightarrow>
   perform BeginRefresh st = st' \<and>
   (if skipped then st_in_flight st = Some e \<and> st' = st
    else st_in_flight st = None \<and> st_in_flight st' = Some e \<and> e = st_epoch st + 1 \<and> st_epoch st' = e)"
  by (auto simp: perform_def begin_refresh_def commit_def Let_def split: option.splits)

lemma client_step_store: "client_step react c c' \<Longrightarrow> store_run (\<lambda>_. True) (cl_store c) (cl_store c')"
  by (erule client_stepE) (auto dest: run_op_all finish_refresh_all)

lemma client_step_ok:
  assumes "client_step react c c'" "client_ok c"
  shows "client_ok c'"
proof -
  have st: "store_ok (cl_store c')" "st_epoch (cl_store c) \<le> st_epoch (cl_store c')"
    using client_step_store [OF assms(1)] assms(2) run_ok run_epoch by (auto simp: client_ok_def)
  moreover have "distinct (cl_pending c') \<and> (\<forall>e \<in> set (cl_pending c'). e \<le> st_epoch (cl_store c'))"
    using assms(1)
  proof (rule client_stepE)
    fix n thrown st'
    assume c': "c' = \<lparr>cl_store = st', cl_pending = after_begin thrown c\<rparr>"
      and run: "run_op n react BeginRefresh (cl_store c) = Some (thrown, st')"
    obtain e skipped s where b: "begin_refresh (cl_store c) = ((e, skipped), s)"
      by (cases "begin_refresh (cl_store c)") auto
    have "st_epoch (perform BeginRefresh (cl_store c)) \<le> st_epoch st'"
      by (rule run_epoch) (rule run_op_then_listeners [OF reacts_within_all run])
    then have fresh: "\<not> skipped \<Longrightarrow> e = st_epoch (cl_store c) + 1" "\<not> skipped \<Longrightarrow> e \<le> st_epoch st'"
      using begin_refresh_perform [OF b] by auto
    have pend: "distinct (cl_pending c)" "\<And>x. x \<in> set (cl_pending c) \<Longrightarrow> x \<le> st_epoch (cl_store c)"
      using assms(2) by (auto simp: client_ok_def)
    from fresh(1) pend(2) have "\<not> skipped \<Longrightarrow> e \<notin> set (cl_pending c)" by fastforce
    with fresh pend st(2) show ?thesis
      by (auto simp: c' after_begin_def b intro: order_trans)
  qed (use assms(2) st in \<open>auto simp: client_ok_def notin_set_remove1\<close>)
  ultimately show ?thesis by (simp add: client_ok_def)
qed


lemma client_run_ok: "client_run react c c' \<Longrightarrow> client_ok c \<Longrightarrow> client_ok c'"
  by (induction rule: rtranclp_induct) (auto intro: client_step_ok)

lemma initial_client_ok: "client_ok initial_client"
  by (simp add: client_ok_def initial_client_def store_ok_initial)

text \<open>When listeners neither throw nor refresh, the refresh in flight is a pending request.\<close>

definition in_flight_pending :: "client \<Rightarrow> bool" where
  "in_flight_pending c \<longleftrightarrow> (\<forall>e. st_in_flight (cl_store c) = Some e \<longrightarrow> e \<in> set (cl_pending c))"

lemma run_op_in_flight:
  "no_refresh react \<Longrightarrow> run_op n react op st = Some (b, st') \<Longrightarrow>
   st_in_flight st' = st_in_flight (perform op st) \<or> st_in_flight st' = None"
  by (rule run_no_refresh) (rule run_op_then_listeners)

lemma complete_in_flight:
  "st_in_flight (perform (CompleteRefresh e r) st) = Some e' \<Longrightarrow> st_in_flight st = Some e' \<and> e' \<noteq> e"
  by (auto simp: perform_def complete_refresh_def commit_def Let_def split: if_splits)

lemma client_step_in_flight:
  assumes "never_throws react" "no_refresh react" "client_step react c c'" "in_flight_pending c"
  shows "in_flight_pending c'"
  using assms(3)
proof (rule client_stepE)
  fix n thrown st'
  assume c': "c' = \<lparr>cl_store = st', cl_pending = after_begin thrown c\<rparr>"
    and run: "run_op n react BeginRefresh (cl_store c) = Some (thrown, st')"
  obtain e skipped s where b: "begin_refresh (cl_store c) = ((e, skipped), s)"
    by (cases "begin_refresh (cl_store c)") auto
  have "\<not> thrown" using run_no_throw(1) [OF assms(1) run] .
  then show ?thesis
    using run_op_in_flight [OF assms(2) run] begin_refresh_perform [OF b] assms(4)
    by (auto simp: in_flight_pending_def c' after_begin_def b split: if_splits)
next
  fix e n exn reply thrown st'
  assume c': "c' = \<lparr>cl_store = st', cl_pending = remove1 e (cl_pending c)\<rparr>"
    and fin: "finish_refresh n react exn e reply (cl_store c) = Some (thrown, st')"
  from finish_refresh_no_throw [OF assms(1) fin]
  have "run_op n react (CompleteRefresh e (refresh_answer reply)) (cl_store c) = Some (thrown, st')" .
  from run_op_in_flight [OF assms(2) this] show ?thesis
    using assms(4) by (auto simp: in_flight_pending_def c' dest!: complete_in_flight)
next
  fix op n thrown st'
  assume c': "c' = \<lparr>cl_store = st', cl_pending = cl_pending c\<rparr>"
    and op: "\<not> is_refresh_op op" and run: "run_op n react op (cl_store c) = Some (thrown, st')"
  show ?thesis
    using run_op_in_flight [OF assms(2) run] perform_no_refresh [OF op, of "cl_store c"] assms(4)
    by (auto simp: in_flight_pending_def c')
qed

lemma client_run_in_flight:
  "never_throws react \<Longrightarrow> no_refresh react \<Longrightarrow> client_run react c c' \<Longrightarrow> in_flight_pending c \<Longrightarrow>
   in_flight_pending c'"
  by (rotate_tac 2, induction rule: rtranclp_induct) (auto intro: client_step_in_flight)

text \<open>A pending request that is not the one in flight can no longer change the store.\<close>

lemma pending_stale:
  "client_ok c \<Longrightarrow> e \<in> set (cl_pending c) \<Longrightarrow> st_in_flight (cl_store c) \<noteq> Some e \<Longrightarrow>
   stale e (cl_store c)"
  by (simp add: client_ok_def stale_def)

lemma stale_run_op:
  "stale e st \<Longrightarrow> run_op (Suc n) react (CompleteRefresh e r) st = Some (False, st)"
  by (simp add: stale_no_effect)

lemma stale_finish:
  "stale e st \<Longrightarrow> finish_refresh (Suc n) react exn e reply st = Some (False, st)"
  by (simp add: finish_refresh_def stale_run_op del: run_op.simps)

section \<open>A refresh nobody will complete\<close>

text \<open>
  A listener that throws during \<open>beginRefresh\<close> makes the caller lose the epoch while the store
  keeps it in flight. Only a sign-in or a sign-out removes it.
\<close>

definition frees_refresh :: "nat \<Rightarrow> store_op \<Rightarrow> bool" where
  "frees_refresh e op =
     (case op of
        Invalidate \<Rightarrow> True
      | SetSession _ _ \<Rightarrow> True
      | CompleteRefresh e' _ \<Rightarrow> e' = e
      | _ \<Rightarrow> False)"

lemma run_stuck:
  "store_run (\<lambda>op. \<not> frees_refresh e op) st st' \<Longrightarrow> st_in_flight st = Some e \<Longrightarrow> st_in_flight st' = Some e"
  by (erule run_keeps [where P = "\<lambda>s. st_in_flight s = Some e"])
    (auto simp: op_defs frees_refresh_def split: store_op.splits)

end
