(* ===== verification/SessionProperties.thy ===== *)
theory SessionProperties
  imports SessionClient
begin

text \<open>The properties of the session store and of the client around it.\<close>

section \<open>Samples\<close>

definition sample_session :: jval where
  "sample_session =
     JObj 1 [(''user'', JObj 2 [(''id'', JStr ''u1'')]), (''session'', JObj 3 [(''id'', JStr ''s1'')])]"

definition signed_in :: store where
  "signed_in = perform (SetSession sample_session None) create_session_store"

text \<open>A listener that signs out when it first sees a session, and one that only observes.\<close>

definition sample_reaction :: reaction where
  "sample_reaction hist l =
     (if l = 1 \<and> sn_status (snd (last hist)) = Authenticated then ([Invalidate], False) else ([], False))"


definition two_listeners :: store where
  "two_listeners = perform (Subscribe 2) (perform (Subscribe 1) create_session_store)"

definition after_sign_in :: store where
  "after_sign_in = snd (the (run_op 9 sample_reaction (SetSession sample_session None) two_listeners))"


lemma call_step:
  "\<not> is_refresh_op op \<Longrightarrow> run_op n react op st = Some (thrown, st') \<Longrightarrow>
   client_step react \<lparr>cl_store = st, cl_pending = p\<rparr> \<lparr>cl_store = st', cl_pending = p\<rparr>"
  using client_step.calls [of op n react "\<lparr>cl_store = st, cl_pending = p\<rparr>" thrown st'] by simp

lemma two_listeners_reached:
  "client_run sample_reaction initial_client \<lparr>cl_store = two_listeners, cl_pending = []\<rparr>"
proof -
  have "run_op 9 sample_reaction (Subscribe 1) create_session_store =
      Some (False, perform (Subscribe 1) create_session_store)"
    "run_op 9 sample_reaction (Subscribe 2) (perform (Subscribe 1) create_session_store) =
      Some (False, two_listeners)"
    by code_simp+
  then have "client_step sample_reaction initial_client
        \<lparr>cl_store = perform (Subscribe 1) create_session_store, cl_pending = []\<rparr>"
    and "client_step sample_reaction \<lparr>cl_store = perform (Subscribe 1) create_session_store, cl_pending = []\<rparr>
        \<lparr>cl_store = two_listeners, cl_pending = []\<rparr>"
    unfolding initial_client_def by (auto intro!: call_step simp: is_refresh_op_def simp del: run_op.simps)
  then show ?thesis by (rule rtranclp.rtrancl_into_rtrancl [OF r_into_rtranclp])
qed

lemma after_sign_in_reached:
  "client_run sample_reaction initial_client \<lparr>cl_store = after_sign_in, cl_pending = []\<rparr>"
proof -
  have "run_op 9 sample_reaction (SetSession sample_session None) two_listeners = Some (False, after_sign_in)"
    by code_simp
  then have "client_step sample_reaction \<lparr>cl_store = two_listeners, cl_pending = []\<rparr>
      \<lparr>cl_store = after_sign_in, cl_pending = []\<rparr>"
    by (rule call_step [rotated]) (simp add: is_refresh_op_def)
  with two_listeners_reached show ?thesis by (rule rtranclp.rtrancl_into_rtrancl)
qed


section \<open>Properties\<close>

text \<open>
  C10. Listeners are notified in order: whatever sign-ins, sign-outs, errors and refreshes the
  client goes through, and even when listeners call the store while they are being notified or
  throw, the epochs they are shown never decrease and never pass the store's epoch.
\<close>

theorem notifications_ordered:
  "client_run react initial_client c \<Longrightarrow>
   sorted (log_epochs (cl_store c)) \<and> (\<forall>e \<in> set (log_epochs (cl_store c)). e \<le> st_epoch (cl_store c))"
  using client_run_ok [OF _ initial_client_ok] by (auto simp: client_ok_def store_ok_def)

theorem notifications_ordered_witness:
  "sorted (log_epochs after_sign_in) \<and>
   map (\<lambda>(l, sn). (l, sn_epoch sn, sn_status sn)) (st_log after_sign_in) =
     [(1, 1, Authenticated), (1, 2, Unauthenticated), (2, 2, Unauthenticated), (2, 2, Unauthenticated)]"
proof -
  have "map (\<lambda>(l, sn). (l, sn_epoch sn, sn_status sn)) (st_log after_sign_in) =
     [(1, 1, Authenticated), (1, 2, Unauthenticated), (2, 2, Unauthenticated), (2, 2, Unauthenticated)]"
    by code_simp
  with notifications_ordered [OF after_sign_in_reached] show ?thesis by simp
qed

text \<open>
  C11. A sign-in or a sign-out beats every refresh begun before it: whatever happens afterwards,
  the answer to such a refresh changes nothing and notifies nobody.
\<close>

theorem writes_beat_refreshes:
  assumes "store_ok st" "e \<le> st_epoch st"
    and "w = Invalidate \<or> (\<exists>session status. w = SetSession session status)"
    and "run_op n react w st = Some (b, st1)" "store_run (\<lambda>_. True) st1 st2"
  shows "run_op (Suc m) react' (CompleteRefresh e result) st2 = Some (False, st2)"
proof -
  have "stale e (perform w st)" using assms(1-3) write_makes_stale by blast
  then have "stale e st2"
    using run_op_then_listeners [OF reacts_within_all assms(4)] assms(5) run_stale by blast
  then show ?thesis by (rule stale_run_op)
qed

theorem writes_beat_refreshes_witness:
  "run_op 2 silent (CompleteRefresh 2 (RefreshOk sample_session))
     (perform Invalidate (perform BeginRefresh signed_in)) =
   Some (False, perform Invalidate (perform BeginRefresh signed_in))"
proof -
  have ok: "store_ok (perform BeginRefresh signed_in)"
    unfolding signed_in_def by (intro perform_ok store_ok_initial)
  have "2 \<le> st_epoch (perform BeginRefresh signed_in)"
    "run_op 9 silent Invalidate (perform BeginRefresh signed_in) =
       Some (False, perform Invalidate (perform BeginRefresh signed_in))"
    by code_simp+
  with writes_beat_refreshes [OF ok, of 2 Invalidate 9 silent False _ _ 1 silent "RefreshOk sample_session"]
  show ?thesis by (simp add: numeral_2_eq_2 del: run_op.simps)
qed



text \<open>
  A refresh that fails in transport keeps the session, as it should; but the status stays
  \<open>loading\<close>, although no refresh is in flight any more.
\<close>

lemma failed_refresh_keeps_loading:
  assumes "st_in_flight st = None" "\<not> nullish (sn_session (st_snapshot st))"
  shows "let st2 = perform (CompleteRefresh (st_epoch st + 1) (RefreshFailed err (Some False)))
                     (perform BeginRefresh st)
    in sn_session (st_snapshot st2) = sn_session (st_snapshot st) \<and>
       sn_status (st_snapshot st2) = Loading \<and> st_in_flight st2 = None"
  using assms by (simp add: op_defs kept_status_def)

lemma failed_refresh_keeps_loading_witness:
  "sn_status (st_snapshot signed_in) = Authenticated \<and>
   sn_status (st_snapshot (perform (CompleteRefresh 2 (RefreshFailed (JStr ''timeout'') (Some False)))
     (perform BeginRefresh signed_in))) = Loading"
proof -
  have "st_in_flight signed_in = None" "\<not> nullish (sn_session (st_snapshot signed_in))"
    "st_epoch signed_in = 1" "sn_status (st_snapshot signed_in) = Authenticated"
    by code_simp+
  with failed_refresh_keeps_loading [of signed_in "JStr ''timeout''"] show ?thesis
    by (simp add: Let_def numeral_2_eq_2)
qed

end
