(* ===== verification/TxOptions.thy ===== *)
theory TxOptions
  imports JsValue
begin

text \<open>
  The static part of database transactions (\<open>db/transaction\<close>): capabilities and options
  (\<open>types.ts\<close>, \<open>options.ts\<close>), the PostgreSQL statements that options compile to
  (\<open>begin-sql.ts\<close>, \<open>quoteSavepointIdent\<close> of \<open>postgres/transaction.ts\<close>), and the compiled
  operations (\<open>compile.ts\<close>). The lemmas show that a resolved option set stays within the
  capabilities, that the \<open>BEGIN\<close> text is one of finitely many, and that compiled operations
  carry their positions.
\<close>

section \<open>Capabilities and options\<close>

datatype isolation_level = ReadCommitted | RepeatableRead | Serializable

datatype tx_backend = PostgresDirect | GatewayPostgres | D1Batch | GatewayD1 | UnsupportedBackend

datatype tx_error_code =
    AtomicUnsupported
  | InteractiveUnsupported
  | IsolationUnsupported
  | OptionUnsupported
  | NestingUnsupported
  | SavepointUnsupported
  | TxEmpty
  | OperationUnsupported
  | ContextOverride
  | TxDoomed
  | TxTimeout
  | TxAborted
  | TxFailed

text \<open>What can be thrown: an \<open>AthenaTransactionError\<close>, or anything else.\<close>

datatype tx_exn = TxError tx_error_code | OtherExn jval

record tx_capabilities =
  tc_atomic :: bool
  tc_backend :: tx_backend
  tc_deferrable :: bool
  tc_interactive :: bool
  tc_isolation_levels :: "isolation_level list"
  tc_read_only :: bool
  tc_savepoints :: bool

definition unsupported_capabilities :: tx_capabilities where
  "unsupported_capabilities =
     \<lparr>tc_atomic = False, tc_backend = UnsupportedBackend, tc_deferrable = False,
      tc_interactive = False, tc_isolation_levels = [], tc_read_only = False, tc_savepoints = False\<rparr>"

definition postgres_direct_capabilities :: tx_capabilities where
  "postgres_direct_capabilities =
     \<lparr>tc_atomic = True, tc_backend = PostgresDirect, tc_deferrable = True,
      tc_interactive = True, tc_isolation_levels = [ReadCommitted, RepeatableRead, Serializable],
      tc_read_only = True, tc_savepoints = True\<rparr>"

definition gateway_postgres_capabilities :: tx_capabilities where
  "gateway_postgres_capabilities =
     \<lparr>tc_atomic = True, tc_backend = GatewayPostgres, tc_deferrable = True,
      tc_interactive = False, tc_isolation_levels = [ReadCommitted, RepeatableRead, Serializable],
      tc_read_only = True, tc_savepoints = False\<rparr>"

definition d1_batch_capabilities :: tx_capabilities where
  "d1_batch_capabilities =
     \<lparr>tc_atomic = True, tc_backend = D1Batch, tc_deferrable = False,
      tc_interactive = False, tc_isolation_levels = [], tc_read_only = False, tc_savepoints = False\<rparr>"

definition gateway_d1_capabilities :: tx_capabilities where
  "gateway_d1_capabilities =
     \<lparr>tc_atomic = False, tc_backend = GatewayD1, tc_deferrable = False,
      tc_interactive = False, tc_isolation_levels = [], tc_read_only = False, tc_savepoints = False\<rparr>"

record tx_options =
  to_deferrable :: "bool option"
  to_idempotency_key :: "string option"
  to_isolation_level :: "isolation_level option"
  to_read_only :: "bool option"
  to_timeout_ms :: jval

text \<open>The call options are the snapshot of credentials the gateway resolves once.\<close>

record resolved_tx_options =
  ro_call_options :: jval
  ro_deferrable :: bool
  ro_idempotency_key :: "string option"
  ro_isolation_level :: "isolation_level option"
  ro_read_only :: bool
  ro_timeout_ms :: jval

definition no_tx_options :: tx_options where
  "no_tx_options =
     \<lparr>to_deferrable = None, to_idempotency_key = None, to_isolation_level = None,
      to_read_only = None, to_timeout_ms = Undefined\<rparr>"

definition resolve_transaction_options ::
  "tx_capabilities \<Rightarrow> tx_options option \<Rightarrow> jval \<Rightarrow> (tx_exn, resolved_tx_options) result" where
  "resolve_transaction_options cap options call_options =
     (let opts = get_or options no_tx_options
      in if (case to_isolation_level opts of None \<Rightarrow> False
             | Some level \<Rightarrow> level \<notin> set (tc_isolation_levels cap))
         then Throw (TxError IsolationUnsupported)
         else if to_read_only opts = Some True \<and> \<not> tc_read_only cap
         then Throw (TxError OptionUnsupported)
         else if to_deferrable opts = Some True \<and> \<not> tc_deferrable cap
         then Throw (TxError OptionUnsupported)
         else Ok \<lparr>ro_call_options = call_options, ro_deferrable = (to_deferrable opts = Some True),
                  ro_idempotency_key = to_idempotency_key opts,
                  ro_isolation_level = to_isolation_level opts,
                  ro_read_only = (to_read_only opts = Some True), ro_timeout_ms = to_timeout_ms opts\<rparr>)"

lemma resolved_within_capabilities:
  "resolve_transaction_options cap options co = Ok r \<Longrightarrow>
   ro_call_options r = co \<and>
   (\<forall>level. ro_isolation_level r = Some level \<longrightarrow> level \<in> set (tc_isolation_levels cap)) \<and>
   (ro_read_only r \<longrightarrow> tc_read_only cap) \<and> (ro_deferrable r \<longrightarrow> tc_deferrable cap)"
  by (auto simp: resolve_transaction_options_def Let_def split: if_splits option.splits)

section \<open>SQL text\<close>

definition isolation_sql :: "isolation_level \<Rightarrow> string" where
  "isolation_sql level =
     (case level of
        ReadCommitted \<Rightarrow> ''READ COMMITTED''
      | RepeatableRead \<Rightarrow> ''REPEATABLE READ''
      | Serializable \<Rightarrow> ''SERIALIZABLE'')"

definition begin_parts :: "resolved_tx_options \<Rightarrow> string list" where
  "begin_parts opts =
     [''BEGIN''] @
     (case ro_isolation_level opts of None \<Rightarrow> [] | Some l \<Rightarrow> [''ISOLATION LEVEL'', isolation_sql l]) @
     (if ro_read_only opts then [''READ ONLY''] else [])"

definition build_postgres_begin_statement :: "resolved_tx_options option \<Rightarrow> (tx_exn, string) result" where
  "build_postgres_begin_statement options =
     (case options of
        None \<Rightarrow> Ok ''BEGIN''
      | Some opts \<Rightarrow>
          if ro_deferrable opts then
            (if \<not> ro_read_only opts \<or> ro_isolation_level opts \<noteq> Some Serializable
             then Throw (TxError OptionUnsupported)
             else Ok (js_join '' '' (begin_parts opts @ [''DEFERRABLE''])))
          else Ok (js_join '' '' (begin_parts opts)))"

text \<open>Every text that a set of options can compile to.\<close>

definition begin_statements :: "string list" where
  "begin_statements =
     [''BEGIN'', ''BEGIN READ ONLY'',
      ''BEGIN ISOLATION LEVEL READ COMMITTED'', ''BEGIN ISOLATION LEVEL READ COMMITTED READ ONLY'',
      ''BEGIN ISOLATION LEVEL REPEATABLE READ'', ''BEGIN ISOLATION LEVEL REPEATABLE READ READ ONLY'',
      ''BEGIN ISOLATION LEVEL SERIALIZABLE'', ''BEGIN ISOLATION LEVEL SERIALIZABLE READ ONLY'',
      ''BEGIN ISOLATION LEVEL SERIALIZABLE READ ONLY DEFERRABLE'']"

lemma begin_statement_known:
  "build_postgres_begin_statement options = Ok sql \<Longrightarrow> sql \<in> set begin_statements"
  by (auto simp: build_postgres_begin_statement_def begin_parts_def begin_statements_def
      isolation_sql_def split: option.splits if_splits isolation_level.splits)

lemma begin_statement_fails:
  "build_postgres_begin_statement options = Throw e \<longleftrightarrow>
   e = TxError OptionUnsupported \<and>
   (\<exists>opts. options = Some opts \<and> ro_deferrable opts \<and>
      \<not> (ro_read_only opts \<and> ro_isolation_level opts = Some Serializable))"
  by (auto simp: build_postgres_begin_statement_def split: option.splits if_splits)

text \<open>\<open>athena_sp_<n>\<close>, and the check that only such names reach a statement.\<close>

definition savepoint_prefix :: string where
  "savepoint_prefix = ''athena_sp_''"

definition next_internal_savepoint_name :: "jnum \<Rightarrow> (tx_exn, string) result" where
  "next_internal_savepoint_name index =
     (if \<not> is_integer index \<or> num_less index (jint 1) then Throw (TxError OptionUnsupported)
      else Ok (savepoint_prefix @ number_to_string index))"

definition is_savepoint_name :: "string \<Rightarrow> bool" where
  "is_savepoint_name name \<longleftrightarrow>
     starts_with name savepoint_prefix \<and> all_digits (drop (length savepoint_prefix) name)"

definition quote_savepoint_ident :: "string \<Rightarrow> (tx_exn, string) result" where
  "quote_savepoint_ident name =
     (if is_savepoint_name name then Ok ([CHR 0x22] @ name @ [CHR 0x22])
      else Throw (TxError OptionUnsupported))"

text \<open>A quoted savepoint name cannot end its quotes early.\<close>

lemma digit_not_quote: "is_digit c \<Longrightarrow> c \<noteq> CHR 0x22"
  by (auto simp: char_class_defs)

lemma quoted_savepoint_closed:
  "quote_savepoint_ident name = Ok q \<Longrightarrow>
   q = [CHR 0x22] @ name @ [CHR 0x22] \<and> CHR 0x22 \<notin> set name"
proof -
  assume q: "quote_savepoint_ident name = Ok q"
  then have n: "is_savepoint_name name" by (simp add: quote_savepoint_ident_def split: if_splits)
  then have "name = savepoint_prefix @ drop (length savepoint_prefix) name"
    unfolding is_savepoint_name_def starts_with_def by (metis append_take_drop_id)
  moreover have "CHR 0x22 \<notin> set (drop (length savepoint_prefix) name)"
    using n digit_not_quote by (auto simp: is_savepoint_name_def all_digits_def list_all_iff)
  moreover have "CHR 0x22 \<notin> set savepoint_prefix" by (simp add: savepoint_prefix_def)
  ultimately show ?thesis
    using q n by (metis Un_iff quote_savepoint_ident_def set_append sum.inject(2))
qed

section \<open>Operations\<close>

datatype tx_kind = TxFetch | TxInsert | TxUpdate | TxDelete

record tx_operation =
  op_kind :: tx_kind
  op_id :: string
  op_index :: nat
  op_table :: string
  op_payload :: jval

definition next_transaction_operation_id :: "nat \<Rightarrow> string \<times> nat" where
  "next_transaction_operation_id seq = (''txop_'' @ show_nat (seq + 1), seq + 1)"

text \<open>
  An executable carries its compiler or not; the compiler is represented by the operation it
  yields. \<open>seq\<close> is the module's counter of operation ids.
\<close>

definition compile_transaction_operation ::
  "tx_operation option \<Rightarrow> nat \<Rightarrow> nat \<Rightarrow> (tx_exn, tx_operation \<times> nat) result" where
  "compile_transaction_operation executable index seq =
     (case executable of
        None \<Rightarrow> Throw (TxError OperationUnsupported)
      | Some compiled \<Rightarrow>
          (let (i, seq') = (if op_id compiled \<noteq> [] then (op_id compiled, seq)
                            else next_transaction_operation_id seq)
           in Ok (compiled\<lparr>op_id := i, op_index := index\<rparr>, seq')))"

fun compile_from ::
  "tx_operation option list \<Rightarrow> nat \<Rightarrow> nat \<Rightarrow> (tx_exn, tx_operation list \<times> nat) result" where
  "compile_from [] index seq = Ok ([], seq)"
| "compile_from (x # xs) index seq =
     rbind (compile_transaction_operation x index seq) (\<lambda>(op, seq').
       rbind (compile_from xs (index + 1) seq') (\<lambda>(ops, seq''). Ok (op # ops, seq'')))"

definition compile_transaction_operations ::
  "tx_operation option list \<Rightarrow> nat \<Rightarrow> (tx_exn, tx_operation list \<times> nat) result" where
  "compile_transaction_operations executables seq =
     (if executables = [] then Throw (TxError TxEmpty) else compile_from executables 0 seq)"

lemma compile_one_Ok:
  "compile_transaction_operation x index seq = Ok (op, seq') \<Longrightarrow>
   \<exists>c. x = Some c \<and> op_index op = index \<and> op_kind op = op_kind c \<and> op_payload op = op_payload c \<and>
       op_table op = op_table c \<and> op_id op \<noteq> []"
  by (auto simp: compile_transaction_operation_def next_transaction_operation_id_def Let_def
      split: option.splits if_splits)

lemma compile_from_Ok:
  "compile_from xs index seq = Ok (ops, seq') \<Longrightarrow>
   list_all2 (\<lambda>x op. \<exists>c. x = Some c \<and> op_kind op = op_kind c \<and> op_payload op = op_payload c) xs ops \<and>
   map op_index ops = [index..<index + length xs] \<and> (\<forall>op \<in> set ops. op_id op \<noteq> [])"
proof (induction xs arbitrary: index seq ops)
  case (Cons x xs)
  then obtain op s1 ops' where op: "compile_transaction_operation x index seq = Ok (op, s1)"
    and rest: "compile_from xs (index + 1) s1 = Ok (ops', seq')" and ops: "ops = op # ops'"
    by (auto simp: rbind_eq_Inr)
  have "[index..<index + length (x # xs)] = index # [index + 1..<index + 1 + length xs]"
    by (simp add: upt_conv_Cons del: upt_Suc)
  then show ?case
    using Cons.IH [OF rest] compile_one_Ok [OF op] by (auto simp: ops simp del: upt_Suc)
qed simp

end
