(* ===== verification/Effects.thy ===== *)
theory Effects
  imports Prelude
begin

text \<open>
  Code that updates a state and may throw: a function from the state to what it returns or
  throws, and the state then. \<open>act_catch\<close> and \<open>act_finally\<close> are \<open>try \<dots> catch\<close> and
  \<open>try \<dots> finally\<close>. A property of two states that every step of a program has carries over
  to the program.
\<close>

type_synonym ('s, 'e, 'a) act = "'s \<Rightarrow> ('e, 'a) result \<times> 's"

definition act_return :: "'a \<Rightarrow> ('s, 'e, 'a) act" where
  "act_return x s = (Ok x, s)"

definition act_throw :: "'e \<Rightarrow> ('s, 'e, 'a) act" where
  "act_throw e s = (Throw e, s)"

definition act_bind :: "('s, 'e, 'a) act \<Rightarrow> ('a \<Rightarrow> ('s, 'e, 'b) act) \<Rightarrow> ('s, 'e, 'b) act" where
  "act_bind m f s = (case m s of (Inl e, s') \<Rightarrow> (Inl e, s') | (Inr x, s') \<Rightarrow> f x s')"

definition act_get :: "('s \<Rightarrow> 'a) \<Rightarrow> ('s, 'e, 'a) act" where
  "act_get f s = (Ok (f s), s)"

definition act_modify :: "('s \<Rightarrow> 's) \<Rightarrow> ('s, 'e, unit) act" where
  "act_modify f s = (Ok (), f s)"

definition act_lift :: "('e, 'a) result \<Rightarrow> ('s, 'e, 'a) act" where
  "act_lift r s = (r, s)"

definition act_try :: "('s, 'e, 'a) act \<Rightarrow> ('s, 'e, ('e, 'a) result) act" where
  "act_try m s = (case m s of (r, s') \<Rightarrow> (Ok r, s'))"

definition act_catch :: "('s, 'e, 'a) act \<Rightarrow> ('e \<Rightarrow> ('s, 'e, 'a) act) \<Rightarrow> ('s, 'e, 'a) act" where
  "act_catch m h s = (case m s of (Inl e, s') \<Rightarrow> h e s' | (Inr x, s') \<Rightarrow> (Ok x, s'))"

definition act_finally :: "('s, 'e, 'a) act \<Rightarrow> ('s, 'e, unit) act \<Rightarrow> ('s, 'e, 'a) act" where
  "act_finally m f s =
     (case m s of (r, s') \<Rightarrow> (case f s' of (Inl e, s'') \<Rightarrow> (Inl e, s'') | (Inr _, s'') \<Rightarrow> (r, s'')))"

lemmas act_defs =
  act_return_def act_throw_def act_bind_def act_get_def act_modify_def act_lift_def act_try_def
  act_catch_def act_finally_def

named_theorems act_rel_intros \<open>relations every step keeps\<close>

text \<open>The states before and after a program are related.\<close>

definition relates :: "('s \<Rightarrow> 's \<Rightarrow> bool) \<Rightarrow> ('s, 'e, 'a) act \<Rightarrow> bool" where
  "relates R m \<longleftrightarrow> (\<forall>s. R s (snd (m s)))"

lemma relatesD: "relates R m \<Longrightarrow> m s = (r, s') \<Longrightarrow> R s s'"
  unfolding relates_def by (metis snd_conv)

lemma relates_return [act_rel_intros]: "reflp R \<Longrightarrow> relates R (act_return x)"
  by (simp add: relates_def act_return_def reflp_def)

lemma relates_throw [act_rel_intros]: "reflp R \<Longrightarrow> relates R (act_throw e)"
  by (simp add: relates_def act_throw_def reflp_def)

lemma relates_get [act_rel_intros]: "reflp R \<Longrightarrow> relates R (act_get f)"
  by (simp add: relates_def act_get_def reflp_def)

lemma relates_lift [act_rel_intros]: "reflp R \<Longrightarrow> relates R (act_lift r)"
  by (simp add: relates_def act_lift_def reflp_def)

lemma relates_modify: "(\<And>s. R s (f s)) \<Longrightarrow> relates R (act_modify f)"
  by (simp add: relates_def act_modify_def)

lemma relates_bind [act_rel_intros]:
  assumes "transp R" "relates R m" "\<And>x. relates R (f x)"
  shows "relates R (act_bind m f)"
  unfolding relates_def
proof
  fix s
  obtain r s' where m: "m s = (r, s')" by fastforce
  then have 1: "R s s'" using assms(2) by (rule relatesD [rotated])
  show "R s (snd (act_bind m f s))"
  proof (cases r)
    case (Inr x)
    obtain r2 s2 where f: "f x s' = (r2, s2)" by fastforce
    then have "R s' s2" using assms(3) by (rule relatesD [rotated])
    with 1 assms(1) show ?thesis by (simp add: act_bind_def m Inr f) (metis transpD)
  qed (use 1 m in \<open>simp add: act_bind_def\<close>)
qed

lemma relates_try [act_rel_intros]: "relates R m \<Longrightarrow> relates R (act_try m)"
  by (simp add: relates_def act_try_def split_beta)

lemma catch_as_try:
  "act_catch m h = act_bind (act_try m) (\<lambda>r. case r of Inl e \<Rightarrow> h e | Inr x \<Rightarrow> act_return x)"
  by (rule ext) (simp add: act_defs split: prod.splits sum.splits)

lemma finally_as_try:
  "act_finally m f = act_bind (act_try m) (\<lambda>r. act_bind f (\<lambda>_. act_lift r))"
  by (rule ext) (simp add: act_defs split: prod.splits sum.splits)

lemma relates_catch [act_rel_intros]:
  "reflp R \<Longrightarrow> transp R \<Longrightarrow> relates R m \<Longrightarrow> (\<And>e. relates R (h e)) \<Longrightarrow> relates R (act_catch m h)"
  unfolding catch_as_try by (intro act_rel_intros) (auto split: sum.splits intro: act_rel_intros)

lemma relates_finally [act_rel_intros]:
  "reflp R \<Longrightarrow> transp R \<Longrightarrow> relates R m \<Longrightarrow> relates R f \<Longrightarrow> relates R (act_finally m f)"
  unfolding finally_as_try by (intro act_rel_intros)

lemma bind_Ok:
  "act_bind m f s = (Inr y, s') \<longleftrightarrow> (\<exists>x s1. m s = (Inr x, s1) \<and> f x s1 = (Inr y, s'))"
  by (auto simp: act_bind_def split: prod.splits sum.splits)

lemma bind_Thrown:
  "act_bind m f s = (Inl e, s') \<longleftrightarrow>
   m s = (Inl e, s') \<or> (\<exists>x s1. m s = (Inr x, s1) \<and> f x s1 = (Inl e, s'))"
  by (auto simp: act_bind_def split: prod.splits sum.splits)

lemma finally_eq:
  "act_finally m f s = (r, s') \<longleftrightarrow>
   (\<exists>r1 s1. m s = (r1, s1) \<and> (f s1 = (Inr (), s') \<and> r = r1 \<or> (\<exists>e. f s1 = (Inl e, s') \<and> r = Inl e)))"
  by (auto simp: act_finally_def split: prod.splits sum.splits)

end
