(* ===== verification/TxPostgres.thy ===== *)
theory TxPostgres
  imports TxOptions Effects
begin

text \<open>
  Transactions on a PostgreSQL connection: the transport of \<open>postgres/transaction.ts\<close>, the
  interactive session of \<open>db/transaction/coordinator.ts\<close> and \<open>interactive-gateway.ts\<close>, and
  \<open>withTransaction\<close> with its scoped client from \<open>client.ts\<close>. The database is a parameter: what
  it answers to a message may depend on every message before. The state keeps the messages
  sent, in order, so that what was sent on which path can be stated.
\<close>

section \<open>A connection\<close>

record gw_response =
  gr_ok :: bool
  gr_data :: jval
  gr_error :: jval
  gr_raw :: jval
  gr_status :: jval
  gr_count :: jval

text \<open>
  A message: take a connection from the pool, a control statement, one compiled operation under
  the pinned call options, or giving the connection back (with or without an error).
\<close>

datatype wire = Connect | Sql string | RunOp tx_operation jval | Release bool

type_synonym server = "wire list \<Rightarrow> wire \<Rightarrow> (tx_exn, gw_response) result"

record conn =
  cn_log :: "wire list"
  cn_released :: bool

definition record_wire :: "wire \<Rightarrow> 'a conn_scheme \<Rightarrow> 'a conn_scheme" where
  "record_wire w s = s\<lparr>cn_log := cn_log s @ [w]\<rparr>"

definition send :: "server \<Rightarrow> wire \<Rightarrow> ('a conn_scheme, tx_exn, gw_response) act" where
  "send server w s = (server (cn_log s) w, record_wire w s)"

definition run_control :: "server \<Rightarrow> string \<Rightarrow> ('a conn_scheme, tx_exn, unit) act" where
  "run_control server sql = act_bind (send server (Sql sql)) (\<lambda>_. act_return ())"

text \<open>\<open>client.release()\<close>, and the closure that releases at most once.\<close>

definition release_client :: "bool \<Rightarrow> ('a conn_scheme, tx_exn, unit) act" where
  "release_client err = act_modify (record_wire (Release err))"

definition release_once :: "bool \<Rightarrow> ('a conn_scheme, tx_exn, unit) act" where
  "release_once err s =
     (if cn_released s then (Ok (), s)
      else (Ok (), (record_wire (Release err) s)\<lparr>cn_released := True\<rparr>))"

section \<open>The atomic transport\<close>

fun run_operations ::
  "server \<Rightarrow> jval \<Rightarrow> tx_operation list \<Rightarrow> gw_response list \<Rightarrow>
   ('a conn_scheme, tx_exn, bool \<times> gw_response list) act" where
  "run_operations server co [] results =
     act_bind (run_control server ''COMMIT'') (\<lambda>_. act_return (True, results))"
| "run_operations server co (op # ops) results =
     act_bind (send server (RunOp op co)) (\<lambda>r.
       if \<not> gr_ok r then
         act_bind (run_control server ''ROLLBACK'') (\<lambda>_. act_return (False, results @ [r]))
       else run_operations server co ops (results @ [r]))"

definition postgres_execute_atomic ::
  "server \<Rightarrow> tx_operation list \<Rightarrow> resolved_tx_options \<Rightarrow>
   ('a conn_scheme, tx_exn, bool \<times> gw_response list) act" where
  "postgres_execute_atomic server ops opts =
     act_bind (send server Connect) (\<lambda>_.
       act_finally
         (act_catch
            (act_bind (act_lift (build_postgres_begin_statement (Some opts))) (\<lambda>sql.
               act_bind (run_control server sql) (\<lambda>_.
                 run_operations server (ro_call_options opts) ops [])))
            (\<lambda>err. act_bind (act_try (run_control server ''ROLLBACK'')) (\<lambda>_. act_throw err)))
         (release_client False))"

section \<open>The interactive transport\<close>

definition begin_interactive ::
  "server \<Rightarrow> resolved_tx_options \<Rightarrow> ('a conn_scheme, tx_exn, unit) act" where
  "begin_interactive server opts =
     act_bind (send server Connect) (\<lambda>_.
       act_catch
         (act_bind (act_lift (build_postgres_begin_statement (Some opts))) (\<lambda>sql. run_control server sql))
         (\<lambda>err. act_bind (release_once True) (\<lambda>_. act_throw err)))"

definition interactive_commit :: "server \<Rightarrow> ('a conn_scheme, tx_exn, unit) act" where
  "interactive_commit server = act_finally (run_control server ''COMMIT'') (release_once False)"

definition interactive_rollback :: "server \<Rightarrow> ('a conn_scheme, tx_exn, unit) act" where
  "interactive_rollback server = act_finally (run_control server ''ROLLBACK'') (release_once False)"

definition savepoint_control :: "server \<Rightarrow> string \<Rightarrow> string \<Rightarrow> ('a conn_scheme, tx_exn, unit) act" where
  "savepoint_control server command name =
     act_bind (act_lift (quote_savepoint_ident name)) (\<lambda>q. run_control server (command @ q))"

section \<open>The session\<close>

text \<open>\<open>se_seq\<close> is the module counter of operation ids.\<close>

record session = conn +
  se_doomed :: bool
  se_failure :: "tx_exn option"
  se_savepoint :: nat
  se_seq :: nat

definition mark_failed :: "tx_exn \<Rightarrow> (session, tx_exn, unit) act" where
  "mark_failed err =
     act_modify (\<lambda>s. s\<lparr>se_doomed := True, se_failure := or_else (se_failure s) (Some err)\<rparr>)"

definition session_abort :: "(session, tx_exn, unit) act" where
  "session_abort = mark_failed (TxError TxAborted)"

definition session_execute ::
  "server \<Rightarrow> jval \<Rightarrow> tx_operation \<Rightarrow> (session, tx_exn, gw_response) act" where
  "session_execute server co op =
     act_bind (act_get se_doomed) (\<lambda>doomed.
       if doomed then
         act_bind (act_get se_failure) (\<lambda>failure. act_throw (get_or failure (TxError TxDoomed)))
       else act_bind (send server (RunOp op co)) (\<lambda>r.
         if \<not> gr_ok r then act_bind (mark_failed (TxError TxFailed)) (\<lambda>_. act_return r)
         else act_return r))"

text \<open>\<open>payload.table_name?.trim() || "unknown"\<close>\<close>

definition table_name_of :: "jval \<Rightarrow> string" where
  "table_name_of payload =
     (case opt_prop ''table_name'' payload of
        JStr s \<Rightarrow> if js_trim s \<noteq> [] then js_trim s else ''unknown''
      | _ \<Rightarrow> ''unknown'')"

definition gateway_execute ::
  "server \<Rightarrow> jval \<Rightarrow> tx_kind \<Rightarrow> jval \<Rightarrow> (session, tx_exn, gw_response) act" where
  "gateway_execute server co kind payload =
     act_bind (act_get se_seq) (\<lambda>seq.
       let (i, seq') = next_transaction_operation_id seq
       in act_bind (act_modify (\<lambda>s. s\<lparr>se_seq := seq'\<rparr>)) (\<lambda>_.
            session_execute server co
              \<lparr>op_kind = kind, op_id = i, op_index = 0, op_table = table_name_of payload,
               op_payload = payload\<rparr>))"

definition finish_interactive_session :: "server \<Rightarrow> (session, tx_exn, unit) act" where
  "finish_interactive_session server =
     act_bind (act_get se_doomed) (\<lambda>doomed.
       if doomed then
         act_bind (interactive_rollback server) (\<lambda>_.
           act_bind (act_get se_failure) (\<lambda>failure. act_throw (get_or failure (TxError TxDoomed))))
       else interactive_commit server)"

section \<open>The callback\<close>

text \<open>
  A callback of \<open>withTransaction\<close> as the calls it makes on its client, one after the other: what
  it does next depends on what a call returned or threw. A raw query or RPC throws.
\<close>

datatype tx_body =
    TxReturn jval
  | TxRaise tx_exn
  | TxExec tx_kind jval "(tx_exn, gw_response) result \<Rightarrow> tx_body"
  | TxRaw "(tx_exn, gw_response) result \<Rightarrow> tx_body"
  | TxAbort tx_body
  | TxSavepoint tx_body "(tx_exn, jval) result \<Rightarrow> tx_body"
  | TxNested tx_body "(tx_exn, jval) result \<Rightarrow> tx_body"

definition with_savepoint :: "server \<Rightarrow> (session, tx_exn, jval) act \<Rightarrow> (session, tx_exn, jval) act" where
  "with_savepoint server body =
     act_bind (act_modify (\<lambda>s. s\<lparr>se_savepoint := se_savepoint s + 1\<rparr>)) (\<lambda>_.
     act_bind (act_get se_savepoint) (\<lambda>i.
     act_bind (act_lift (next_internal_savepoint_name (jint (int i)))) (\<lambda>name.
     act_bind (savepoint_control server ''SAVEPOINT '' name) (\<lambda>_.
       act_catch
         (act_bind body (\<lambda>v.
            act_bind (savepoint_control server ''RELEASE SAVEPOINT '' name) (\<lambda>_. act_return v)))
         (\<lambda>err. act_bind (savepoint_control server ''ROLLBACK TO SAVEPOINT '' name) (\<lambda>_.
            act_throw err))))))"

primrec run_body ::
  "server \<Rightarrow> tx_capabilities \<Rightarrow> jval \<Rightarrow> tx_body \<Rightarrow> (session, tx_exn, jval) act" where
  "run_body server cap co (TxReturn v) = act_return v"
| "run_body server cap co (TxRaise e) = act_throw e"
| "run_body server cap co (TxExec kind payload k) =
     act_bind (act_try (gateway_execute server co kind payload)) (\<lambda>r. run_body server cap co (k r))"
| "run_body server cap co (TxRaw k) = run_body server cap co (k (Inl (TxError OperationUnsupported)))"
| "run_body server cap co (TxAbort b) = act_bind session_abort (\<lambda>_. run_body server cap co b)"
| "run_body server cap co (TxSavepoint b k) =
     act_bind (act_try (with_savepoint server (run_body server cap co b)))
       (\<lambda>r. run_body server cap co (k r))"
| "run_body server cap co (TxNested b k) =
     act_bind (act_try
         (if tc_savepoints cap then with_savepoint server (run_body server cap co b)
          else act_throw (TxError NestingUnsupported)))
       (\<lambda>r. run_body server cap co (k r))"

text \<open>The \<open>try\<close> of \<open>withTransaction\<close>.\<close>

definition session_body ::
  "server \<Rightarrow> tx_capabilities \<Rightarrow> jval \<Rightarrow> tx_body \<Rightarrow> (session, tx_exn, jval) act" where
  "session_body server cap co body =
     act_catch
       (act_bind (run_body server cap co body) (\<lambda>v.
          act_bind (finish_interactive_session server) (\<lambda>_. act_return v)))
       (\<lambda>err. act_bind (act_try (interactive_rollback server)) (\<lambda>_. act_throw err))"

definition run_with_transaction ::
  "server \<Rightarrow> tx_capabilities \<Rightarrow> resolved_tx_options \<Rightarrow> tx_body \<Rightarrow> (session, tx_exn, jval) act" where
  "run_with_transaction server cap opts body =
     act_bind (begin_interactive server opts) (\<lambda>_. session_body server cap (ro_call_options opts) body)"

definition new_session :: "nat \<Rightarrow> session" where
  "new_session seq =
     \<lparr>cn_log = [], cn_released = False, se_doomed = False, se_failure = None, se_savepoint = 0,
      se_seq = seq\<rparr>"

text \<open>
  The check that a call's options bring no principal of their own. \<open>===\<close> on values is equality,
  except that NaN differs from itself.
\<close>

definition strict_eq :: "jval \<Rightarrow> jval \<Rightarrow> bool" where
  "strict_eq a b \<longleftrightarrow> a = b \<and> a \<noteq> JNum NaN"

definition principal_fields :: "string list" where
  "principal_fields =
     [''apiKey'', ''bearerToken'', ''organizationId'', ''sessionToken'', ''userId'', ''client'']"

definition reject_operation_context_override :: "jval \<Rightarrow> jval \<Rightarrow> (tx_exn, unit) result" where
  "reject_operation_context_override pinned operation =
     (if \<not> truthy operation then Ok ()
      else each_r (\<lambda>field.
        if nullish (opt_prop field operation) \<or> strict_eq (opt_prop field pinned) (opt_prop field operation)
        then Ok () else Throw (TxError ContextOverride)) principal_fields)"

text \<open>\<open>beginInteractiveSession\<close> compares the pinned options with themselves.\<close>

lemma override_self:
  "(\<And>field. opt_prop field pinned \<noteq> JNum NaN) \<Longrightarrow> reject_operation_context_override pinned pinned = Ok ()"
  by (auto simp: reject_operation_context_override_def each_r_Inr_iff strict_eq_def)

text \<open>
  \<open>withTransaction\<close> on a gateway: \<open>transport\<close> is the capabilities of its transaction transport
  and whether that transport offers \<open>beginInteractive\<close>; \<open>pinned\<close> is what resolving the call
  options returned or threw.
\<close>

definition transport_capabilities :: "(tx_capabilities \<times> bool) option \<Rightarrow> tx_capabilities" where
  "transport_capabilities transport =
     (case transport of None \<Rightarrow> unsupported_capabilities | Some (cap, _) \<Rightarrow> cap)"

definition with_transaction ::
  "server \<Rightarrow> (tx_capabilities \<times> bool) option \<Rightarrow> (tx_exn, jval) result \<Rightarrow> tx_options option \<Rightarrow>
   tx_body \<Rightarrow> (session, tx_exn, jval) act" where
  "with_transaction server transport pinned options body =
     (let cap = transport_capabilities transport
      in if \<not> (case transport of None \<Rightarrow> False | Some (_, offers) \<Rightarrow> offers) \<or> \<not> tc_interactive cap
         then act_throw (TxError InteractiveUnsupported)
         else act_bind (act_lift pinned) (\<lambda>co.
              act_bind (act_lift (reject_operation_context_override co co)) (\<lambda>_.
              act_bind (act_lift (resolve_transaction_options cap options co)) (\<lambda>opts.
                run_with_transaction server cap opts body))))"

section \<open>What was sent, with the answers\<close>

fun replay :: "server \<Rightarrow> wire list \<Rightarrow> wire list \<Rightarrow> (wire \<times> (tx_exn, gw_response) result) list" where
  "replay server pre [] = []"
| "replay server pre (w # ws) = (w, server pre w) # replay server (pre @ [w]) ws"

lemma replay_append:
  "replay server pre (a @ b) = replay server pre a @ replay server (pre @ a) b"
  by (induction a arbitrary: pre) auto

definition transcript :: "server \<Rightarrow> 'a conn_scheme \<Rightarrow> (wire \<times> (tx_exn, gw_response) result) list" where
  "transcript server s = replay server [] (cn_log s)"

definition committed :: "wire \<times> (tx_exn, gw_response) result \<Rightarrow> bool" where
  "committed e \<longleftrightarrow> fst e = Sql ''COMMIT'' \<and> succeeds (snd e)"

definition is_release :: "wire \<Rightarrow> bool" where
  "is_release w = (case w of Release _ \<Rightarrow> True | _ \<Rightarrow> False)"

lemma is_release_simps [simp]:
  "is_release (Release b)" "\<not> is_release (Sql q)" "\<not> is_release Connect" "\<not> is_release (RunOp op co)"
  by (simp_all add: is_release_def)

lemma record_wire_log [simp]: "cn_log (record_wire w s) = cn_log s @ [w]"
  by (simp add: record_wire_def)

lemma record_wire_session [simp]:
  "cn_released (record_wire w s) = cn_released s"
  by (simp add: record_wire_def)

lemma record_wire_doomed [simp]: "se_doomed (record_wire w s) = se_doomed s"
  by (simp add: record_wire_def)

lemma run_control_eq:
  "run_control server sql s = (r, s') \<longleftrightarrow>
   s' = record_wire (Sql sql) s \<and> r = rmap (\<lambda>_. ()) (server (cn_log s) (Sql sql))"
  by (cases "server (cn_log s) (Sql sql)") (auto simp: run_control_def act_defs send_def)

lemma send_eq: "send server w s = (r, s') \<longleftrightarrow> s' = record_wire w s \<and> r = server (cn_log s) w"
  by (auto simp: send_def)

section \<open>The atomic transport: all or nothing\<close>

definition all_ran :: "tx_operation list \<Rightarrow> jval \<Rightarrow> gw_response list \<Rightarrow>
    (wire \<times> (tx_exn, gw_response) result) list" where
  "all_ran ops co rs = zip (map (\<lambda>op. RunOp op co) ops) (map Inr rs)"

definition run_outcome :: "server \<Rightarrow> jval \<Rightarrow> tx_operation list \<Rightarrow> gw_response list \<Rightarrow>
    wire list \<Rightarrow> wire list \<Rightarrow> (tx_exn, bool \<times> gw_response list) result \<Rightarrow> bool" where
  "run_outcome server co ops results pre ext r \<longleftrightarrow>
     list_all (\<lambda>w. \<not> is_release w) ext \<and>
     (case r of
        Inl _ \<Rightarrow> list_all (\<lambda>e. \<not> committed e) (replay server pre ext)
      | Inr (done_all, res) \<Rightarrow>
          (\<exists>rs. res = results @ rs \<and>
             (if done_all then
                length rs = length ops \<and> list_all gr_ok rs \<and>
                (\<exists>a. replay server pre ext = all_ran ops co rs @ [(Sql ''COMMIT'', Inr a)])
              else list_all (\<lambda>e. \<not> committed e) (replay server pre ext))))"

lemma run_operations_outcome:
  "run_operations server co ops results s = (r, s') \<Longrightarrow>
   \<exists>ext. cn_log s' = cn_log s @ ext \<and> run_outcome server co ops results (cn_log s) ext r"
proof (induction ops arbitrary: results s)
  case Nil
  then have s': "s' = record_wire (Sql ''COMMIT'') s"
    and r: "r = rmap (\<lambda>_. (True, results)) (server (cn_log s) (Sql ''COMMIT''))"
    by (auto simp: act_bind_def act_return_def run_control_def send_def split: sum.splits prod.splits)
  show ?case
    by (rule exI [of _ "[Sql ''COMMIT'']"], cases "server (cn_log s) (Sql ''COMMIT'')")
      (simp_all add: s' r run_outcome_def committed_def all_ran_def)
next
  case (Cons op ops)
  let ?s1 = "record_wire (RunOp op co) s"
  show ?case
  proof (cases "server (cn_log s) (RunOp op co)")
    case (Inl e)
    with Cons.prems have "r = Inl e" "s' = ?s1" by (auto simp: act_bind_def send_def)
    then show ?thesis by (intro exI [of _ "[RunOp op co]"]) (simp add: run_outcome_def committed_def Inl)
  next
    case (Inr a)
    show ?thesis
    proof (cases "gr_ok a")
      case True
      with Cons.prems Inr have "run_operations server co ops (results @ [a]) ?s1 = (r, s')"
        by (simp add: act_bind_def send_def)
      from Cons.IH [OF this] obtain ext where ext: "cn_log s' = cn_log ?s1 @ ext"
        and out: "run_outcome server co ops (results @ [a]) (cn_log ?s1) ext r" by blast
      have "run_outcome server co (op # ops) results (cn_log s) (RunOp op co # ext) r"
      proof (cases r)
        case (Inr p)
        obtain d res where p: "p = (d, res)" by (cases p)
        from out Inr p obtain rs where rs: "res = results @ a # rs"
          and "if d then length rs = length ops \<and> list_all gr_ok rs \<and>
              (\<exists>x. replay server (cn_log ?s1) ext = all_ran ops co rs @ [(Sql ''COMMIT'', Inr x)])
            else list_all (\<lambda>e. \<not> committed e) (replay server (cn_log ?s1) ext)"
          by (auto simp: run_outcome_def)
        with out \<open>server _ _ = Inr a\<close> True show ?thesis
          by (auto simp: run_outcome_def Inr p all_ran_def committed_def intro!: exI [of _ "a # rs"])
      qed (use out in \<open>auto simp: run_outcome_def committed_def\<close>)
      with ext show ?thesis by auto
    next
      case False
      with Cons.prems Inr have "s' = record_wire (Sql ''ROLLBACK'') ?s1"
        and "r = rmap (\<lambda>_. (False, results @ [a])) (server (cn_log ?s1) (Sql ''ROLLBACK''))"
        by (auto simp: act_bind_def act_return_def send_def run_control_def split: sum.splits)
      then show ?thesis
        by (intro exI [of _ "[RunOp op co, Sql ''ROLLBACK'']"],
            cases "server (cn_log ?s1) (Sql ''ROLLBACK'')")
          (auto simp: run_outcome_def committed_def Inr)
    qed
  qed
qed

text \<open>
  The transport from its first message: after \<open>Connect\<close> the connection is given back exactly
  once, as the last message; a \<open>COMMIT\<close> is accepted exactly when the call returns \<open>committed\<close>;
  and then every operation ran, in order, and answered without an error.
\<close>

definition atomic_outcome :: "server \<Rightarrow> jval \<Rightarrow> tx_operation list \<Rightarrow> wire list \<Rightarrow>
    (tx_exn, bool \<times> gw_response list) result \<Rightarrow> bool" where
  "atomic_outcome server co ops hist r \<longleftrightarrow>
     (case r of
        Inr (True, rs) \<Rightarrow>
          length rs = length ops \<and> list_all gr_ok rs \<and>
          (\<exists>b x y z. replay server [] hist =
             [(Connect, Inr x), (Sql b, Inr y)] @ all_ran ops co rs @
             [(Sql ''COMMIT'', Inr z), (Release False, server (butlast hist) (Release False))])
      | _ \<Rightarrow> list_all (\<lambda>e. \<not> committed e) (replay server [] hist))"

lemma begin_not_commit:
  "build_postgres_begin_statement o' = Ok sql \<Longrightarrow> sql \<noteq> ''COMMIT''"
  using begin_statement_known by (fastforce simp: begin_statements_def)

lemma not_committed_simps [simp]:
  "\<not> committed (Connect, a)" "\<not> committed (Release b, a)" "\<not> committed (RunOp op co, a)"
  "\<not> committed (Sql ''ROLLBACK'', a)"
  by (simp_all add: committed_def)

definition atomic_body ::
  "server \<Rightarrow> tx_operation list \<Rightarrow> resolved_tx_options \<Rightarrow> ('a conn_scheme, tx_exn, bool \<times> gw_response list) act"
where
  "atomic_body server ops opts =
     act_catch
       (act_bind (act_lift (build_postgres_begin_statement (Some opts))) (\<lambda>sql.
          act_bind (run_control server sql) (\<lambda>_.
            run_operations server (ro_call_options opts) ops [])))
       (\<lambda>err. act_bind (act_try (run_control server ''ROLLBACK'')) (\<lambda>_. act_throw err))"

lemma rollback_and_throw:
  "act_bind (act_try (run_control server ''ROLLBACK'')) (\<lambda>_. act_throw err) s =
   (Inl err, record_wire (Sql ''ROLLBACK'') s)"
  by (cases "server (cn_log s) (Sql ''ROLLBACK'')")
    (simp_all add: act_defs run_control_def send_def)

lemma catch_and_roll_back:
  "act_catch m (\<lambda>err. act_bind (act_try (run_control server ''ROLLBACK'')) (\<lambda>_. act_throw err)) s =
   (case m s of
      (Inl e, s1) \<Rightarrow> (Inl e, record_wire (Sql ''ROLLBACK'') s1)
    | (Inr v, s1) \<Rightarrow> (Inr v, s1))"
  by (simp add: act_catch_def rollback_and_throw split: prod.split sum.split)

lemma lift_bind_simps [simp]:
  "act_bind (act_lift (Inl e)) f s = (Inl e, s)" "act_bind (act_lift (Inr x)) f s = f x s"
  by (simp_all add: act_bind_def act_lift_def)

lemma control_bind:
  "act_bind (run_control server sql) f s =
   (case server (cn_log s) (Sql sql) of
      Inl e \<Rightarrow> (Inl e, record_wire (Sql sql) s)
    | Inr _ \<Rightarrow> f () (record_wire (Sql sql) s))"
  by (simp add: act_defs run_control_def send_def split: sum.split)

lemma atomic_body_outcome:
  assumes "atomic_body server ops opts s = (r, s')"
  shows "\<exists>ext. cn_log s' = cn_log s @ ext \<and> list_all (\<lambda>w. \<not> is_release w) ext \<and>
    (case r of
       Inr (True, rs) \<Rightarrow> length rs = length ops \<and> list_all gr_ok rs \<and>
         (\<exists>b y z. replay server (cn_log s) ext =
            (Sql b, Inr y) # all_ran ops (ro_call_options opts) rs @ [(Sql ''COMMIT'', Inr z)])
     | _ \<Rightarrow> list_all (\<lambda>e. \<not> committed e) (replay server (cn_log s) ext))"
proof (cases "build_postgres_begin_statement (Some opts)")
  case (Inl e)
  then have "r = Inl e" "s' = record_wire (Sql ''ROLLBACK'') s"
    using assms by (auto simp: atomic_body_def catch_and_roll_back)
  then show ?thesis by (intro exI [of _ "[Sql ''ROLLBACK'']"]) simp
next
  case (Inr sql)
  have begin_statement: "sql \<noteq> ''COMMIT''" using begin_not_commit [OF Inr] .
  let ?s1 = "record_wire (Sql sql) s"
  show ?thesis
  proof (cases "server (cn_log s) (Sql sql)")
    case (Inl e)
    then have "r = Inl e" "s' = record_wire (Sql ''ROLLBACK'') ?s1"
      using assms \<open>build_postgres_begin_statement _ = _\<close>
      by (auto simp: atomic_body_def catch_and_roll_back control_bind)
    then show ?thesis
      using begin_statement
      by (intro exI [of _ "[Sql sql, Sql ''ROLLBACK'']"]) (simp add: committed_def)
  next
    case (Inr y)
    obtain r1 s1 where run: "run_operations server (ro_call_options opts) ops [] ?s1 = (r1, s1)"
      by fastforce
    from run_operations_outcome [OF run] obtain ext where ext: "cn_log s1 = cn_log ?s1 @ ext"
      and out: "run_outcome server (ro_call_options opts) ops [] (cn_log ?s1) ext r1" by blast
    have res: "(r, s') = (case r1 of Inl e \<Rightarrow> (Inl e, record_wire (Sql ''ROLLBACK'') s1) | Inr v \<Rightarrow> (Inr v, s1))"
      using assms Inr run \<open>build_postgres_begin_statement _ = _\<close>
      by (auto simp: atomic_body_def catch_and_roll_back control_bind split: sum.splits)
    show ?thesis
    proof (cases r1)
      case (Inl e)
      with res have "r = Inl e" "s' = record_wire (Sql ''ROLLBACK'') s1" by auto
      with ext out begin_statement Inl show ?thesis
        by (intro exI [of _ "Sql sql # ext @ [Sql ''ROLLBACK'']"])
          (auto simp: run_outcome_def replay_append committed_def)
    next
      case (Inr p)
      obtain d rs where p: "p = (d, rs)" by (cases p)
      with Inr res have "r = Inr (d, rs)" "s' = s1" by auto
      with ext out begin_statement Inr p show ?thesis
        using \<open>server (cn_log s) (Sql sql) = Inr y\<close>
        by (intro exI [of _ "Sql sql # ext"])
          (cases d, auto simp: run_outcome_def committed_def)
    qed
  qed
qed

lemma postgres_atomic_body:
  "postgres_execute_atomic server ops opts =
   act_bind (send server Connect) (\<lambda>_. act_finally (atomic_body server ops opts) (release_client False))"
  by (simp add: postgres_execute_atomic_def atomic_body_def)

lemma postgres_atomic_outcome:
  assumes "postgres_execute_atomic server ops opts s = (r, s')" "cn_log s = []"
  shows "atomic_outcome server (ro_call_options opts) ops (cn_log s') r \<and>
    (succeeds (server [] Connect) \<longrightarrow>
       filter is_release (cn_log s') = [Release False] \<and> last (cn_log s') = Release False)"
proof (cases "server [] Connect")
  case (Inl e)
  with assms have "r = Inl e" "cn_log s' = [Connect]"
    by (auto simp: postgres_atomic_body act_bind_def send_def)
  then show ?thesis by (simp add: atomic_outcome_def Inl)
next
  case (Inr x)
  let ?s1 = "record_wire Connect s"
  obtain r1 s1 where body: "atomic_body server ops opts ?s1 = (r1, s1)" by fastforce
  have r: "r = r1" and s': "s' = record_wire (Release False) s1"
    using assms body Inr
    by (auto simp: postgres_atomic_body act_bind_def [of "send server Connect"] send_def act_finally_def
        release_client_def act_modify_def)
  have s1: "cn_log ?s1 = [Connect]" using assms(2) by simp
  from atomic_body_outcome [OF body, unfolded s1] obtain ext where ext: "cn_log s1 = [Connect] @ ext"
    and rel: "list_all (\<lambda>w. \<not> is_release w) ext"
    and out: "case r1 of
       Inr (True, rs) \<Rightarrow> length rs = length ops \<and> list_all gr_ok rs \<and>
         (\<exists>b y z. replay server [Connect] ext =
            (Sql b, Inr y) # all_ran ops (ro_call_options opts) rs @ [(Sql ''COMMIT'', Inr z)])
     | _ \<Rightarrow> list_all (\<lambda>e. \<not> committed e) (replay server [Connect] ext)" by auto
  have log: "cn_log s' = Connect # ext @ [Release False]" by (simp add: s' ext)
  have none: "filter is_release ext = []" using rel by (simp add: filter_empty_conv list_all_iff)
  have "atomic_outcome server (ro_call_options opts) ops (cn_log s') r"
    using out Inr unfolding log r atomic_outcome_def
    by (auto simp: replay_append butlast_append split: sum.splits prod.splits bool.splits)
  with none show ?thesis by (simp add: log)
qed

section \<open>What a callback can do to the session\<close>

definition body_event :: "wire \<Rightarrow> bool" where
  "body_event w =
     (case w of
        RunOp _ _ \<Rightarrow> True
      | Sql q \<Rightarrow> starts_with q ''SAVEPOINT '' \<or> starts_with q ''RELEASE SAVEPOINT '' \<or>
          starts_with q ''ROLLBACK TO SAVEPOINT ''
      | _ \<Rightarrow> False)"

definition answered_well :: "wire \<times> (tx_exn, gw_response) result \<Rightarrow> bool" where
  "answered_well e = (case e of (RunOp _ _, Inr r) \<Rightarrow> gr_ok r | _ \<Rightarrow> True)"

text \<open>
  Only operations and savepoint statements are sent; a doomed session stays doomed; and as long
  as it is not doomed, no operation has answered with an error.
\<close>

definition body_rel :: "server \<Rightarrow> session \<Rightarrow> session \<Rightarrow> bool" where
  "body_rel server s s' \<longleftrightarrow>
     (\<exists>ext. cn_log s' = cn_log s @ ext \<and> list_all body_event ext \<and>
        cn_released s' = cn_released s \<and> (se_doomed s \<longrightarrow> se_doomed s') \<and>
        (\<not> se_doomed s' \<longrightarrow> list_all answered_well (replay server (cn_log s) ext)))"

lemma body_rel_refl: "reflp (body_rel server)"
  by (auto simp: reflp_def body_rel_def)

lemma body_rel_trans: "transp (body_rel server)"
proof (rule transpI)
  fix s t u
  assume "body_rel server s t" "body_rel server t u"
  then obtain a b where "cn_log t = cn_log s @ a" "cn_log u = cn_log t @ b"
    "list_all body_event a" "list_all body_event b"
    "cn_released t = cn_released s" "cn_released u = cn_released t"
    "se_doomed s \<longrightarrow> se_doomed t" "se_doomed t \<longrightarrow> se_doomed u"
    "\<not> se_doomed t \<longrightarrow> list_all answered_well (replay server (cn_log s) a)"
    "\<not> se_doomed u \<longrightarrow> list_all answered_well (replay server (cn_log t) b)"
    unfolding body_rel_def by blast
  then show "body_rel server s u"
    unfolding body_rel_def by (intro exI [of _ "a @ b"]) (auto simp: replay_append)
qed

lemmas body_rel_intros = act_rel_intros body_rel_refl body_rel_trans

lemma body_rel_same_log:
  "cn_log s' = cn_log s \<Longrightarrow> cn_released s' = cn_released s \<Longrightarrow> (se_doomed s \<Longrightarrow> se_doomed s') \<Longrightarrow>
   body_rel server s s'"
  by (auto simp: body_rel_def)

lemma body_rel_control:
  assumes "body_event (Sql sql)"
  shows "relates (body_rel server) (run_control server sql)"
proof -
  have "body_rel server s (snd (send server (Sql sql) s))" for s :: session
    using assms by (auto simp: send_def body_rel_def answered_well_def intro!: exI [of _ "[Sql sql]"])
  then show ?thesis
    unfolding run_control_def by (intro body_rel_intros) (simp add: relates_def)
qed

lemma body_rel_savepoint:
  assumes "command \<in> {''SAVEPOINT '', ''RELEASE SAVEPOINT '', ''ROLLBACK TO SAVEPOINT ''}"
  shows "relates (body_rel server) (savepoint_control server command name)"
  unfolding savepoint_control_def
  using assms by (intro body_rel_intros body_rel_control) (auto simp: body_event_def starts_with_def)

lemma body_rel_execute: "relates (body_rel server) (session_execute server co op)"
  unfolding relates_def
proof
  fix s :: session
  let ?s1 = "record_wire (RunOp op co) s"
  show "body_rel server s (snd (session_execute server co op s))"
  proof (cases "se_doomed s")
    case True
    then have "snd (session_execute server co op s) = s"
      by (simp add: session_execute_def act_defs)
    then show ?thesis using body_rel_refl by (simp add: reflp_def)
  next
    case False
    have "body_rel server s ?s1" if "answered_well (RunOp op co, server (cn_log s) (RunOp op co))"
      using that False by (auto simp: body_rel_def body_event_def intro!: exI [of _ "[RunOp op co]"])
    moreover have "body_rel server s (snd (mark_failed e ?s1))" for e
      using False by (auto simp: body_rel_def body_event_def mark_failed_def act_modify_def
          intro!: exI [of _ "[RunOp op co]"])
    ultimately show ?thesis
      using False
      by (cases "server (cn_log s) (RunOp op co)")
        (auto simp: session_execute_def act_bind_def act_get_def act_return_def send_def
          answered_well_def mark_failed_def act_modify_def)
  qed
qed

lemma body_rel_gateway: "relates (body_rel server) (gateway_execute server co kind payload)"
  unfolding gateway_execute_def Let_def
  by (intro body_rel_intros) (auto simp: split_beta intro!: body_rel_intros body_rel_execute
      relates_modify body_rel_same_log)

lemma body_rel_with_savepoint:
  assumes "relates (body_rel server) body"
  shows "relates (body_rel server) (with_savepoint server body)"
  unfolding with_savepoint_def
  by (intro body_rel_intros body_rel_savepoint assms relates_modify body_rel_same_log) auto

lemma body_rel_run_body: "relates (body_rel server) (run_body server cap co body)"
proof (induction body)
  case (TxAbort b)
  have "relates (body_rel server) session_abort"
    by (auto simp: session_abort_def mark_failed_def intro!: relates_modify body_rel_same_log)
  with TxAbort show ?case by (auto intro!: body_rel_intros)
next
  case (TxNested b k)
  then show ?case
    by (auto intro!: body_rel_intros body_rel_with_savepoint)
qed (auto intro!: body_rel_intros body_rel_gateway body_rel_with_savepoint)

section \<open>The whole of \<open>withTransaction\<close>\<close>

lemma end_statement:
  "act_finally (run_control server q) (release_once False) s =
   (rmap (\<lambda>_. ()) (server (cn_log s) (Sql q)),
    if cn_released s then record_wire (Sql q) s
    else (record_wire (Release False) (record_wire (Sql q) s))\<lparr>cn_released := True\<rparr>)"
  by (cases "server (cn_log s) (Sql q)")
    (simp_all add: act_finally_def run_control_def act_bind_def act_return_def send_def release_once_def)

lemma interactive_end_log:
  "snd (interactive_commit server s) = snd (act_finally (run_control server ''COMMIT'') (release_once False) s)"
  "snd (interactive_rollback server s) = snd (act_finally (run_control server ''ROLLBACK'') (release_once False) s)"
  by (simp_all add: interactive_commit_def interactive_rollback_def)

definition end_log :: "string \<Rightarrow> session \<Rightarrow> wire list" where
  "end_log q s = (if cn_released s then [Sql q] else [Sql q, Release False])"

lemma end_statement_log:
  "act_finally (run_control server q) (release_once False) s = (r, s') \<Longrightarrow>
   r = rmap (\<lambda>_. ()) (server (cn_log s) (Sql q)) \<and> cn_log s' = cn_log s @ end_log q s \<and> cn_released s'"
  unfolding end_statement by (auto simp: end_log_def)

text \<open>The four ways a transaction ends once it has begun.\<close>

datatype tx_end = CommitOk | CommitRefused | DoomedEnd | CallbackThrew

definition tail_of :: "tx_end \<Rightarrow> wire list" where
  "tail_of e =
     (case e of
        CommitOk \<Rightarrow> [Sql ''COMMIT'', Release False]
      | CommitRefused \<Rightarrow> [Sql ''COMMIT'', Release False, Sql ''ROLLBACK'']
      | DoomedEnd \<Rightarrow> [Sql ''ROLLBACK'', Release False, Sql ''ROLLBACK'']
      | CallbackThrew \<Rightarrow> [Sql ''ROLLBACK'', Release False])"

definition tx_outcome :: "server \<Rightarrow> wire list \<Rightarrow> (tx_exn, jval) result \<Rightarrow> wire list \<Rightarrow> tx_end \<Rightarrow> bool" where
  "tx_outcome server start r hist e \<longleftrightarrow>
     (\<exists>mid. list_all body_event mid \<and> hist = start @ mid @ tail_of e \<and>
        (e = CommitOk \<longleftrightarrow> succeeds r) \<and>
        (e = CommitOk \<or> e = CommitRefused \<longrightarrow>
           list_all answered_well (replay server start mid) \<and>
           (e = CommitOk \<longleftrightarrow> succeeds (server (start @ mid) (Sql ''COMMIT'')))))"

lemma try_end_throw:
  "act_bind (act_try (interactive_rollback server)) (\<lambda>_. act_throw err) s = (r, s') \<Longrightarrow>
   r = Inl err \<and> cn_log s' = cn_log s @ end_log ''ROLLBACK'' s"
proof -
  obtain r1 s1 where e: "interactive_rollback server s = (r1, s1)" by fastforce
  assume "act_bind (act_try (interactive_rollback server)) (\<lambda>_. act_throw err) s = (r, s')"
  with e have "r = Inl err" "s' = s1" by (auto simp: act_bind_def act_try_def act_throw_def)
  then show ?thesis
    using end_statement_log [of server "''ROLLBACK''" s r1 s1] e by (simp add: interactive_rollback_def)
qed

lemma finish_log:
  assumes "finish_interactive_session server s = (r, s')" "\<not> cn_released s"
  shows "cn_released s' \<and>
    (if se_doomed s then \<not> succeeds r \<and> cn_log s' = cn_log s @ [Sql ''ROLLBACK'', Release False]
     else (succeeds r \<longleftrightarrow> succeeds (server (cn_log s) (Sql ''COMMIT''))) \<and>
       cn_log s' = cn_log s @ [Sql ''COMMIT'', Release False])"
proof (cases "se_doomed s")
  case True
  obtain r1 s1 where e: "interactive_rollback server s = (r1, s1)" by fastforce
  have "\<not> succeeds r" "s' = s1"
    using assms(1) True e
    by (auto simp: finish_interactive_session_def act_bind_def act_get_def act_throw_def split: sum.splits)
  then show ?thesis
    using end_statement_log [of server "''ROLLBACK''" s r1 s1] e True assms(2)
    by (simp add: interactive_rollback_def end_log_def)
next
  case False
  then have "interactive_commit server s = (r, s')"
    using assms(1) by (simp add: finish_interactive_session_def act_bind_def act_get_def)
  then show ?thesis
    using end_statement_log [of server "''COMMIT''" s r s'] False assms(2)
    by (cases "server (cn_log s) (Sql ''COMMIT'')") (simp_all add: interactive_commit_def end_log_def)
qed

lemma session_body_outcome:
  assumes "session_body server cap co body s = (r, s')" "\<not> cn_released s" "\<not> se_doomed s"
  shows "\<exists>e. tx_outcome server (cn_log s) r (cn_log s') e"
proof -
  obtain rb s1 where b: "run_body server cap co body s = (rb, s1)" by fastforce
  have "body_rel server s s1" using relatesD [OF body_rel_run_body b] .
  then obtain mid where mid: "cn_log s1 = cn_log s @ mid" "list_all body_event mid"
    and rel: "\<not> cn_released s1"
    and ok: "\<not> se_doomed s1 \<longrightarrow> list_all answered_well (replay server (cn_log s) mid)"
    using assms(2) unfolding body_rel_def by blast
  show ?thesis
  proof (cases rb)
    case (Inl err)
    then have "act_bind (act_try (interactive_rollback server)) (\<lambda>_. act_throw err) s1 = (r, s')"
      using assms(1) b by (simp add: session_body_def act_catch_def act_bind_def [of "run_body _ _ _ _"])
    from try_end_throw [OF this] mid rel have "tx_outcome server (cn_log s) r (cn_log s') CallbackThrew"
      by (auto simp: tx_outcome_def tail_of_def end_log_def)
    then show ?thesis by blast
  next
    case (Inr v)
    obtain rf s2 where f: "finish_interactive_session server s1 = (rf, s2)" by fastforce
    note fin = finish_log [OF f rel]
    show ?thesis
    proof (cases rf)
      case (Inl err)
      then have "act_bind (act_try (interactive_rollback server)) (\<lambda>_. act_throw err) s2 = (r, s')"
        using assms(1) b f \<open>rb = Inr v\<close>
        by (simp add: session_body_def act_catch_def act_bind_def [of "run_body _ _ _ _"]
            act_bind_def [of "finish_interactive_session _"])
      note t = try_end_throw [OF this]
      have "tx_outcome server (cn_log s) r (cn_log s') (if se_doomed s1 then DoomedEnd else CommitRefused)"
        using t fin mid ok Inl
        by (auto simp: tx_outcome_def tail_of_def end_log_def split: if_splits)
      then show ?thesis by blast
    next
      case (Inr u)
      then have "r = Inr v" "s' = s2"
        using assms(1) b f \<open>rb = Inr v\<close>
        by (auto simp: session_body_def act_catch_def act_bind_def [of "run_body _ _ _ _"]
            act_bind_def [of "finish_interactive_session _"] act_return_def)
      then have "tx_outcome server (cn_log s) r (cn_log s') CommitOk"
        using fin mid ok Inr by (auto simp: tx_outcome_def tail_of_def split: if_splits)
      then show ?thesis by blast
    qed
  qed
qed

text \<open>The connection is used once more after it was given back.\<close>

lemma doomed_end:
  assumes "run_body server cap co body s = (Inr v, s1)" "se_doomed s1" "\<not> cn_released s"
  shows "\<exists>mid. cn_log (snd (session_body server cap co body s)) =
    cn_log s @ mid @ [Sql ''ROLLBACK'', Release False, Sql ''ROLLBACK'']"
proof -
  have "body_rel server s s1" using relatesD [OF body_rel_run_body assms(1)] .
  then obtain mid where mid: "cn_log s1 = cn_log s @ mid" and rel: "\<not> cn_released s1"
    using assms(3) unfolding body_rel_def by blast
  obtain rf s2 where f: "finish_interactive_session server s1 = (rf, s2)" by fastforce
  obtain r s' where r: "session_body server cap co body s = (r, s')" by fastforce
  from finish_log [OF f rel] assms(2) obtain err where rf: "rf = Inl err" and "cn_released s2"
    and "cn_log s2 = cn_log s1 @ [Sql ''ROLLBACK'', Release False]"
    by (cases rf) auto
  moreover have "act_bind (act_try (interactive_rollback server)) (\<lambda>_. act_throw err) s2 = (r, s')"
    using assms(1) f rf r
    by (simp add: session_body_def act_catch_def act_bind_def [of "run_body _ _ _ _"]
        act_bind_def [of "finish_interactive_session _"])
  ultimately show ?thesis using try_end_throw mid by (fastforce simp: r end_log_def)
qed

text \<open>When the transaction does not begin, nothing but the \<open>BEGIN\<close> is sent.\<close>

definition not_begun :: "server \<Rightarrow> (tx_exn, jval) result \<Rightarrow> wire list \<Rightarrow> bool" where
  "not_begun server r hist \<longleftrightarrow>
     \<not> succeeds r \<and>
     (hist = [Connect] \<or> hist = [Connect, Release True] \<or> (\<exists>b. hist = [Connect, Sql b, Release True] \<and> b \<noteq> ''COMMIT''))"

lemma run_with_transaction_outcome:
  assumes "run_with_transaction server cap opts body s = (r, s')"
    and "cn_log s = []" "\<not> cn_released s" "\<not> se_doomed s"
  shows "not_begun server r (cn_log s') \<or>
    (\<exists>b e. b \<in> set begin_statements \<and> tx_outcome server [Connect, Sql b] r (cn_log s') e)"
proof (cases "server [] Connect")
  case (Inl err)
  with assms(1,2) have "r = Inl err" "cn_log s' = [Connect]"
    by (auto simp: run_with_transaction_def begin_interactive_def act_bind_def send_def)
  then show ?thesis by (simp add: not_begun_def)
next
  case (Inr x)
  let ?s1 = "record_wire Connect s"
  show ?thesis
  proof (cases "build_postgres_begin_statement (Some opts)")
    case (Inl err)
    with Inr assms have "\<not> succeeds r" "cn_log s' = [Connect, Release True]"
      by (auto simp: run_with_transaction_def begin_interactive_def act_bind_def send_def act_lift_def
          act_catch_def release_once_def act_throw_def)
    then show ?thesis by (simp add: not_begun_def)
  next
    case (Inr sql)
    show ?thesis
    proof (cases "server [Connect] (Sql sql)")
      case (Inl err)
      with Inr \<open>server [] Connect = _\<close> assms have "\<not> succeeds r" "cn_log s' = [Connect, Sql sql, Release True]"
        by (auto simp: run_with_transaction_def begin_interactive_def act_bind_def send_def act_lift_def
            act_catch_def release_once_def act_throw_def run_control_def)
      then show ?thesis using begin_not_commit [OF Inr] by (simp add: not_begun_def)
    next
      case (Inr y)
      let ?s2 = "record_wire (Sql sql) ?s1"
      have "session_body server cap (ro_call_options opts) body ?s2 = (r, s')"
        using Inr \<open>build_postgres_begin_statement _ = _\<close> \<open>server [] Connect = _\<close> assms(1,2)
        by (auto simp: run_with_transaction_def begin_interactive_def act_bind_def send_def act_lift_def
            act_catch_def run_control_def act_return_def)
      from session_body_outcome [OF this] assms(2-4)
      have "\<exists>e. tx_outcome server [Connect, Sql sql] r (cn_log s') e" by simp
      then show ?thesis
        using begin_statement_known [OF \<open>build_postgres_begin_statement _ = _\<close>] by blast
    qed
  qed
qed

lemma with_transaction_runs:
  assumes "with_transaction server transport pinned options body s = (Inr v, s')"
  shows "\<exists>cap co opts. transport = Some (cap, True) \<and> tc_interactive cap \<and> pinned = Ok co \<and>
    resolve_transaction_options cap options co = Ok opts \<and>
    run_with_transaction server cap opts body s = (Inr v, s')"
  using assms
  by (auto simp: with_transaction_def transport_capabilities_def Let_def bind_Ok act_lift_def act_throw_def
      split: option.splits if_splits)

end
