(* ===== verification/TxTransports.thy ===== *)
theory TxTransports
  imports TxPostgres
begin

text \<open>
  The portable \<open>transaction\<close> of \<open>db/transaction/coordinator.ts\<close> over any transport, with the cache
  reconciliation after it, and the two other transports: the gateway's HTTP endpoint
  (\<open>gateway/transaction.ts\<close>) and the batch of Cloudflare D1 (\<open>cloudflare/d1/transaction.ts\<close>).
  The HTTP call, the SQL compiler of D1 and its batch are parameters.
\<close>

section \<open>The portable transaction\<close>

text \<open>Running in one half of a pair of states.\<close>

definition act_fst :: "('s, 'e, 'a) act \<Rightarrow> ('s \<times> 't, 'e, 'a) act" where
  "act_fst m st = (case st of (s, t) \<Rightarrow> (case m s of (r, s') \<Rightarrow> (r, (s', t))))"

text \<open>What the cache observer was told: the operations and their results.\<close>

type_synonym reconciled = "(tx_operation list \<times> jval list) list"

type_synonym 's atomic_transport =
  "tx_capabilities \<times>
   (tx_operation list \<Rightarrow> resolved_tx_options \<Rightarrow> ('s, tx_exn, bool \<times> gw_response list) act)"

text \<open>The result of the response at position \<open>i\<close> is formatted for \<open>compiled[i] ?? compiled[0]\<close>.\<close>

definition operation_at :: "tx_operation list \<Rightarrow> nat \<Rightarrow> tx_operation" where
  "operation_at ops i = (if i < length ops then ops ! i else hd ops)"

definition format_results ::
  "(gw_response \<Rightarrow> tx_operation \<Rightarrow> jval) \<Rightarrow> tx_operation list \<Rightarrow> gw_response list \<Rightarrow> jval list" where
  "format_results fmt ops responses =
     map (\<lambda>(r, i). fmt r (operation_at ops i)) (zip responses [0..<length responses])"

definition has_error :: "jval \<Rightarrow> bool" where
  "has_error result \<longleftrightarrow> truthy (opt_prop ''error'' result)"

definition deliver ::
  "(gw_response \<Rightarrow> tx_operation \<Rightarrow> jval) \<Rightarrow> tx_operation list \<Rightarrow> bool \<times> gw_response list \<Rightarrow>
   ('s \<times> reconciled, tx_exn, jval list) act" where
  "deliver fmt ops outcome =
     (let results = format_results fmt ops (snd outcome)
      in if list_ex has_error results \<or> \<not> fst outcome then act_throw (TxError TxFailed)
         else act_bind (act_modify (\<lambda>(s, cache). (s, cache @ [(ops, results)]))) (\<lambda>_. act_return results))"

definition execute_atomic_transaction ::
  "(gw_response \<Rightarrow> tx_operation \<Rightarrow> jval) \<Rightarrow> 's atomic_transport option \<Rightarrow> (tx_exn, jval) result \<Rightarrow>
   tx_operation option list \<Rightarrow> nat \<Rightarrow> tx_options option \<Rightarrow> ('s \<times> reconciled, tx_exn, jval list) act" where
  "execute_atomic_transaction fmt transport pinned executables seq options =
     (case transport of
        None \<Rightarrow> act_throw (TxError AtomicUnsupported)
      | Some (cap, run) \<Rightarrow>
          if \<not> tc_atomic cap then act_throw (TxError AtomicUnsupported)
          else act_bind (act_lift (compile_transaction_operations executables seq)) (\<lambda>(ops, _).
               act_bind (act_lift pinned) (\<lambda>co.
               act_bind (act_lift (resolve_transaction_options cap options co)) (\<lambda>opts.
               act_bind (act_fst (run ops opts)) (deliver fmt ops)))))"

lemma act_fst_eq: "act_fst m (s, t) = (r, st') \<longleftrightarrow> (\<exists>s'. m s = (r, s') \<and> st' = (s', t))"
  by (auto simp: act_fst_def split: prod.splits)

lemma deliver_Ok:
  "deliver fmt ops outcome (s, cache) = (Inr results, st') \<longleftrightarrow>
   (\<exists>responses. outcome = (True, responses) \<and> results = format_results fmt ops responses \<and>
      \<not> list_ex has_error results \<and> st' = (s, cache @ [(ops, results)]))"
  by (cases outcome) (auto simp: deliver_def Let_def act_defs)

lemma deliver_Thrown:
  "deliver fmt ops outcome (s, cache) = (Inl e, st') \<Longrightarrow> st' = (s, cache)"
  by (auto simp: deliver_def Let_def act_defs split: if_splits)

lemma length_format_results [simp]: "length (format_results fmt ops responses) = length responses"
  by (simp add: format_results_def)

text \<open>
  The cache is told exactly when the call returns, once, with what it returns; a call that throws
  leaves it alone.
\<close>

lemma atomic_transaction_returns:
  "execute_atomic_transaction fmt transport pinned executables seq options (s, cache) = (Inr results, st') \<longleftrightarrow>
   (\<exists>cap run ops seq' co opts responses s'.
      transport = Some (cap, run) \<and> tc_atomic cap \<and>
      compile_transaction_operations executables seq = Ok (ops, seq') \<and> pinned = Ok co \<and>
      resolve_transaction_options cap options co = Ok opts \<and>
      run ops opts s = (Inr (True, responses), s') \<and>
      results = format_results fmt ops responses \<and> \<not> list_ex has_error results \<and>
      st' = (s', cache @ [(ops, results)]))"
proof (cases transport)
  case (Some p)
  obtain cap run where p: "p = (cap, run)" by (cases p)
  show ?thesis
    by (auto simp: execute_atomic_transaction_def Some p bind_Ok act_lift_def act_throw_def act_fst_eq
        case_pair_eq deliver_Ok)
qed (simp add: execute_atomic_transaction_def act_throw_def)

lemma atomic_transaction_throws:
  assumes "execute_atomic_transaction fmt transport pinned executables seq options (s, cache) = (Inl e, st')"
  shows "snd st' = cache"
  using assms
  by (auto simp: execute_atomic_transaction_def bind_Thrown bind_Ok act_lift_def act_throw_def
      act_fst_eq split: option.splits if_splits dest!: deliver_Thrown)

section \<open>The gateway over HTTP\<close>

definition json_bool :: "bool \<Rightarrow> jval" where
  "json_bool b = JBool b"

definition result_row :: "jval \<Rightarrow> gw_response" where
  "result_row item =
     (case item of
        JObj i fs \<Rightarrow>
          (let err = get_prop ''error'' fs; status = get_prop ''status'' fs;
               fine = (get_prop ''ok'' fs \<noteq> JBool False \<and> \<not> truthy err)
           in \<lparr>gr_ok = fine, gr_data = nullish_or (get_prop ''data'' fs) Null,
               gr_error = (case err of JStr _ \<Rightarrow> err | _ \<Rightarrow> Undefined), gr_raw = item,
               gr_status = (case status of JNum _ \<Rightarrow> status | _ \<Rightarrow> JNum (jint (if fine then 200 else 400))),
               gr_count = (case get_prop ''count'' fs of JNum n \<Rightarrow> JNum n | _ \<Rightarrow> Null)\<rparr>)
      | JArr _ \<Rightarrow>
          \<lparr>gr_ok = True, gr_data = Null, gr_error = Undefined, gr_raw = item,
           gr_status = JNum (jint 200), gr_count = Null\<rparr>
      | _ \<Rightarrow>
          \<lparr>gr_ok = True, gr_data = item, gr_error = Undefined, gr_raw = item,
           gr_status = JNum (jint 200), gr_count = Null\<rparr>)"

definition as_results :: "jval \<Rightarrow> gw_response list option" where
  "as_results raw =
     (case opt_prop ''results'' raw of JArr items \<Rightarrow> Some (map result_row items) | _ \<Rightarrow> None)"

definition tx_kind_name :: "tx_kind \<Rightarrow> string" where
  "tx_kind_name k =
     (case k of TxFetch \<Rightarrow> ''fetch'' | TxInsert \<Rightarrow> ''insert'' | TxUpdate \<Rightarrow> ''update'' | TxDelete \<Rightarrow> ''delete'')"

definition isolation_name :: "isolation_level \<Rightarrow> string" where
  "isolation_name l =
     (case l of
        ReadCommitted \<Rightarrow> ''read_committed''
      | RepeatableRead \<Rightarrow> ''repeatable_read''
      | Serializable \<Rightarrow> ''serializable'')"

definition str_or_null :: "string option \<Rightarrow> jval" where
  "str_or_null s = (case s of None \<Rightarrow> Null | Some x \<Rightarrow> JStr x)"

definition transaction_payload :: "tx_operation list \<Rightarrow> resolved_tx_options \<Rightarrow> jval" where
  "transaction_payload ops opts =
     JObj 0
       [(''idempotency_key'', str_or_null (ro_idempotency_key opts)),
        (''operations'', JArr (map (\<lambda>op. JObj 0
            [(''id'', JStr (op_id op)), (''kind'', JStr (tx_kind_name (op_kind op))),
             (''payload'', op_payload op)]) ops)),
        (''options'', JObj 0
            [(''deferrable'', json_bool (ro_deferrable opts)),
             (''isolation_level'', str_or_null (map_option isolation_name (ro_isolation_level opts))),
             (''read_only'', json_bool (ro_read_only opts))])]"

definition says_committed :: "gw_response \<Rightarrow> gw_response list \<Rightarrow> bool" where
  "says_committed response results =
     (case gr_data response of
        JObj _ fs \<Rightarrow> if has_prop ''committed'' fs then truthy (get_prop ''committed'' fs)
                    else list_all gr_ok results
      | _ \<Rightarrow> list_all gr_ok results)"

definition http_execute_atomic ::
  "tx_capabilities \<Rightarrow> (jval \<Rightarrow> jval \<Rightarrow> (tx_exn, gw_response) result) \<Rightarrow> tx_operation list \<Rightarrow>
   resolved_tx_options \<Rightarrow> (tx_exn, bool \<times> gw_response list) result" where
  "http_execute_atomic cap post ops opts =
     (if \<not> tc_atomic cap then Throw (TxError AtomicUnsupported)
      else rbind (post (transaction_payload ops opts) (ro_call_options opts)) (\<lambda>response.
        if \<not> gr_ok response then Throw (TxError TxFailed)
        else (case or_else (as_results (gr_raw response)) (as_results (gr_data response)) of
                None \<Rightarrow> Throw (TxError TxFailed)
              | Some results \<Rightarrow>
                  if length results \<noteq> length ops then Throw (TxError TxFailed)
                  else Ok (says_committed response results, results))))"

lemma http_positional:
  "http_execute_atomic cap post ops opts = Ok (c, results) \<Longrightarrow>
   length results = length ops \<and>
   (\<exists>response. post (transaction_payload ops opts) (ro_call_options opts) = Ok response \<and> gr_ok response \<and>
      c = says_committed response results)"
  by (auto simp: http_execute_atomic_def rbind_eq_Inr split: if_splits option.splits)

section \<open>One D1 batch\<close>

record d1_compiled =
  dc_sql :: string
  dc_params :: jval
  dc_statements :: "(string \<times> jval) list option"

definition flatten_compiled :: "d1_compiled \<Rightarrow> (string \<times> jval) list" where
  "flatten_compiled c =
     (case dc_statements c of
        Some (st # sts) \<Rightarrow> st # sts
      | _ \<Rightarrow> [(dc_sql c, dc_params c)])"

lemma flatten_compiled_nonempty: "flatten_compiled c \<noteq> []"
  by (auto simp: flatten_compiled_def split: option.splits list.splits)

datatype d1_exn = D1CompileError string | D1Other tx_exn

definition d1_thrown :: "d1_exn \<Rightarrow> tx_exn" where
  "d1_thrown e = (case e of D1CompileError _ \<Rightarrow> TxError OperationUnsupported | D1Other x \<Rightarrow> x)"

definition map_thrown :: "('e \<Rightarrow> 'f) \<Rightarrow> ('e, 'a) result \<Rightarrow> ('f, 'a) result" where
  "map_thrown f m = (case m of Inl e \<Rightarrow> Inl (f e) | Inr x \<Rightarrow> Inr x)"

text \<open>The loop over the operations: the flat statements and the range of each operation.\<close>

fun collect_statements ::
  "(tx_operation \<Rightarrow> jval \<Rightarrow> (d1_exn, d1_compiled) result) \<Rightarrow> jval \<Rightarrow> tx_operation list \<Rightarrow>
   (string \<times> jval) list \<Rightarrow> (nat \<times> nat) list \<Rightarrow>
   (d1_exn, (string \<times> jval) list \<times> (nat \<times> nat) list) result" where
  "collect_statements compile co [] stmts ranges = Ok (stmts, ranges)"
| "collect_statements compile co (op # ops) stmts ranges =
     rbind (compile op co) (\<lambda>c.
       let stmts' = stmts @ flatten_compiled c
       in collect_statements compile co ops stmts' (ranges @ [(length stmts, length stmts')]))"

definition slice :: "nat \<times> nat \<Rightarrow> 'a list \<Rightarrow> 'a list" where
  "slice rng xs = (case rng of (a, b) \<Rightarrow> take (b - a) (drop a xs))"

definition d1_error_response :: "jval \<Rightarrow> gw_response" where
  "d1_error_response message =
     \<lparr>gr_ok = False, gr_data = Null, gr_error = message,
      gr_raw = JObj 0 [(''code'', JStr ''HTTP_ERROR''), (''error'', message)],
      gr_status = JNum (jint 400), gr_count = Undefined\<rparr>"

definition d1_failed :: "jval \<Rightarrow> bool" where
  "d1_failed item \<longleftrightarrow> opt_prop ''success'' item = JBool False \<or> truthy (opt_prop ''error'' item)"

definition strip_nulls_from_rows :: "jval list \<Rightarrow> bool \<Rightarrow> jval list" where
  "strip_nulls_from_rows rows strip =
     (if \<not> strip then rows
      else map (\<lambda>row. case row of JObj i fs \<Rightarrow> JObj 0 (filter (\<lambda>(k, v). v \<noteq> Null) fs) | _ \<Rightarrow> row) rows)"

definition strip_option :: "jval \<Rightarrow> bool" where
  "strip_option co = (case opt_prop ''stripNulls'' co of JBool b \<Rightarrow> b | _ \<Rightarrow> True)"

definition changes_of :: "jval \<Rightarrow> jnum" where
  "changes_of item = (case opt_prop ''changes'' (opt_prop ''meta'' item) of JNum n \<Rightarrow> n | _ \<Rightarrow> Fin 0)"

definition num_add :: "jnum \<Rightarrow> jnum \<Rightarrow> jnum" where
  "num_add a b = num_sub a (num_sub (Fin 0) b)"

definition map_slice :: "tx_operation \<Rightarrow> jval list \<Rightarrow> jval \<Rightarrow> gw_response" where
  "map_slice op items co =
     (case find d1_failed items of
        Some failed \<Rightarrow>
          d1_error_response (nullish_or (opt_prop ''error'' failed) (JStr ''D1 statement failed''))
      | None \<Rightarrow>
          (let rows = strip_nulls_from_rows
                 (concat (map (\<lambda>item. case opt_prop ''results'' item of JArr rs \<Rightarrow> rs | _ \<Rightarrow> []) items))
                 (strip_option co);
               changes = foldl (\<lambda>sum item. num_add sum (changes_of item)) (Fin 0) items;
               inserts_one = (op_kind op = TxInsert \<and>
                  (case opt_prop ''insert_body'' (op_payload op) of JArr _ \<Rightarrow> False | _ \<Rightarrow> True));
               data = (if length rows = 1 \<and> (inserts_one \<or> op_kind op = TxUpdate) then hd rows
                       else JArr rows)
           in \<lparr>gr_ok = True, gr_data = data, gr_error = Undefined, gr_raw = JArr items,
               gr_status = JNum (jint 200),
               gr_count = JNum (if rows = [] then changes else jint (int (length rows)))\<rparr>))"

definition d1_execute_atomic ::
  "(tx_operation \<Rightarrow> jval \<Rightarrow> (d1_exn, d1_compiled) result) \<Rightarrow>
   ((string \<times> jval) list \<Rightarrow> (jval, jval list) result) \<Rightarrow>
   tx_operation list \<Rightarrow> resolved_tx_options \<Rightarrow> (tx_exn, bool \<times> gw_response list) result" where
  "d1_execute_atomic compile batch ops opts =
     rbind (map_thrown d1_thrown (collect_statements compile (ro_call_options opts) ops [] [])) (\<lambda>(stmts, ranges).
       case batch stmts of
         Inl message \<Rightarrow> Ok (False, map (\<lambda>op. d1_error_response message) ops)
       | Inr answers \<Rightarrow>
           (let results = map (\<lambda>(op, rng). map_slice op (slice rng answers) (ro_call_options opts))
                            (zip ops ranges)
            in Ok (list_all gr_ok results, results)))"

text \<open>The statements are those of the operations one after the other, and a range is what its
  operation added.\<close>

fun ranges_from :: "nat \<Rightarrow> nat list \<Rightarrow> (nat \<times> nat) list" where
  "ranges_from start [] = []"
| "ranges_from start (n # ns) = (start, start + n) # ranges_from (start + n) ns"

lemma collect_statements_Ok:
  "collect_statements compile co ops stmts ranges = Ok (stmts', ranges') \<longleftrightarrow>
   (\<exists>cs. map_r (\<lambda>op. compile op co) ops = Ok cs \<and>
      stmts' = stmts @ concat (map flatten_compiled cs) \<and>
      ranges' = ranges @ ranges_from (length stmts) (map (length \<circ> flatten_compiled) cs))"
proof (induction ops arbitrary: stmts ranges)
  case (Cons op ops)
  show ?case
  proof (cases "compile op co")
    case (Inr c)
    have "map_r (\<lambda>op. compile op co) (op # ops) = Ok cs \<longleftrightarrow>
        (\<exists>cs'. map_r (\<lambda>op. compile op co) ops = Ok cs' \<and> cs = c # cs')" for cs
      by (auto simp: Inr rbind_eq_Inr)
    then show ?thesis using Inr Cons.IH by (auto simp: Let_def)
  qed simp
qed auto

definition chunk :: "nat list \<Rightarrow> nat \<Rightarrow> 'a list \<Rightarrow> 'a list" where
  "chunk ns i xs = take (ns ! i) (drop (sum_list (take i ns)) xs)"

lemma slice_ranges_from:
  "i < length ns \<Longrightarrow>
   slice (ranges_from start ns ! i) xs = take (ns ! i) (drop (start + sum_list (take i ns)) xs)"
proof (induction ns arbitrary: start i)
  case (Cons n ns)
  then show ?case by (cases i) (auto simp: slice_def add.assoc)
qed simp

lemma length_ranges_from [simp]: "length (ranges_from start ns) = length ns"
  by (induction ns arbitrary: start) auto

text \<open>Chunks of a list that is long enough put it together again.\<close>

lemma concat_chunks:
  "length xs = sum_list ns \<Longrightarrow> concat (map (\<lambda>i. chunk ns i xs) [0..<length ns]) = xs"
proof (induction ns arbitrary: xs)
  case (Cons n ns)
  have rest: "map (\<lambda>i. chunk (n # ns) i xs) [1..<Suc (length ns)] = map (\<lambda>i. chunk ns i (drop n xs)) [0..<length ns]"
    by (simp add: chunk_def map_Suc_upt [symmetric] comp_def ac_simps del: upt_Suc)
  have "length (drop n xs) = sum_list ns" using Cons.prems by simp
  from Cons.IH [OF this] show ?case
    using rest by (simp add: upt_conv_Cons chunk_def [of "n # ns" 0] del: upt_Suc)
qed simp

lemma d1_positional:
  assumes "d1_execute_atomic compile batch ops opts = Ok (done_all, results)"
  shows "\<exists>cs. map_r (\<lambda>op. compile op (ro_call_options opts)) ops = Ok cs \<and> length results = length ops \<and>
    (case batch (concat (map flatten_compiled cs)) of
       Inl message \<Rightarrow> \<not> done_all \<and> results = map (\<lambda>op. d1_error_response message) ops
     | Inr answers \<Rightarrow>
         (done_all \<longleftrightarrow> list_all gr_ok results) \<and>
         (\<forall>i < length ops. results ! i =
            map_slice (ops ! i) (chunk (map (length \<circ> flatten_compiled) cs) i answers) (ro_call_options opts)))"
proof -
  obtain stmts ranges where c: "collect_statements compile (ro_call_options opts) ops [] [] = Ok (stmts, ranges)"
    using assms by (cases "collect_statements compile (ro_call_options opts) ops [] []")
      (auto simp: d1_execute_atomic_def map_thrown_def)
  then obtain cs where cs: "map_r (\<lambda>op. compile op (ro_call_options opts)) ops = Ok cs"
    and stmts: "stmts = concat (map flatten_compiled cs)"
    and ranges: "ranges = ranges_from 0 (map (length \<circ> flatten_compiled) cs)"
    by (auto simp: collect_statements_Ok)
  have len: "length cs = length ops" using map_r_Inr_length [OF cs] .
  show ?thesis
  proof (cases "batch stmts")
    case (Inl m)
    with assms c cs stmts show ?thesis by (auto simp: d1_execute_atomic_def map_thrown_def)
  next
    case (Inr answers)
    let ?rs = "map (\<lambda>(op, rng). map_slice op (slice rng answers) (ro_call_options opts)) (zip ops ranges)"
    have "results = ?rs" "done_all \<longleftrightarrow> list_all gr_ok results"
      using assms c Inr by (auto simp: d1_execute_atomic_def map_thrown_def Let_def)
    moreover have "?rs ! i = map_slice (ops ! i)
        (chunk (map (length \<circ> flatten_compiled) cs) i answers) (ro_call_options opts)"
      if "i < length ops" for i
      using that len by (simp add: ranges slice_ranges_from chunk_def)
    ultimately show ?thesis using cs stmts Inr len by (auto simp: ranges)
  qed
qed

end
