(* ===== verification/TxProperties.thy ===== *)
theory TxProperties
  imports TxTransports
begin

text \<open>The properties of database transactions.\<close>

section \<open>Samples\<close>

text \<open>A database that accepts everything, and one whose operations on table \<open>bad\<close> fail.\<close>

definition fine :: gw_response where
  "fine = \<lparr>gr_ok = True, gr_data = Null, gr_error = Undefined, gr_raw = Null,
           gr_status = JNum (jint 200), gr_count = Null\<rparr>"

definition sample_server :: server where
  "sample_server hist w =
     (case w of RunOp op _ \<Rightarrow> Ok (fine\<lparr>gr_ok := (op_table op \<noteq> ''bad'')\<rparr>) | _ \<Rightarrow> Ok fine)"

definition insert_into :: "string \<Rightarrow> tx_operation" where
  "insert_into t = \<lparr>op_kind = TxInsert, op_id = [], op_index = 0, op_table = t, op_payload = Null\<rparr>"

definition plain_options :: resolved_tx_options where
  "plain_options =
     \<lparr>ro_call_options = Null, ro_deferrable = False, ro_idempotency_key = None,
      ro_isolation_level = Some Serializable, ro_read_only = False, ro_timeout_ms = Undefined\<rparr>"

definition fresh_conn :: conn where
  "fresh_conn = \<lparr>cn_log = [], cn_released = False\<rparr>"

definition payload_on :: "string \<Rightarrow> jval" where
  "payload_on t = JObj 1 [(''table_name'', JStr t)]"

section \<open>Statements\<close>

text \<open>
  The \<open>BEGIN\<close> statement is one of nine fixed texts, whatever the options; and options are
  refused exactly when they ask for a deferrable transaction that is not read-only and
  serializable.
\<close>

lemma begin_statement_safe:
  "(\<forall>sql. build_postgres_begin_statement options = Ok sql \<longrightarrow> sql \<in> set begin_statements) \<and>
   (\<forall>e. build_postgres_begin_statement options = Throw e \<longleftrightarrow>
      e = TxError OptionUnsupported \<and>
      (\<exists>opts. options = Some opts \<and> ro_deferrable opts \<and>
         \<not> (ro_read_only opts \<and> ro_isolation_level opts = Some Serializable)))"
  using begin_statement_known begin_statement_fails by blast

lemma begin_statement_safe_witness:
  "build_postgres_begin_statement (Some plain_options) = Ok ''BEGIN ISOLATION LEVEL SERIALIZABLE'' \<and>
   ''BEGIN ISOLATION LEVEL SERIALIZABLE'' \<in> set begin_statements"
proof -
  have "build_postgres_begin_statement (Some plain_options) = Ok ''BEGIN ISOLATION LEVEL SERIALIZABLE''"
    by code_simp
  with begin_statement_safe [of "Some plain_options"] show ?thesis by blast
qed

section \<open>Atomic transactions\<close>

text \<open>
  C13. All or nothing: for every database, the atomic transport says \<open>committed\<close> only when a
  \<open>BEGIN\<close>, every operation in order, each answered without an error, and an accepted \<open>COMMIT\<close>
  were sent, with one response per operation; on every other path no \<open>COMMIT\<close> was accepted.
  Once taken, the connection is given back exactly once, as the last message.
\<close>

theorem atomic_all_or_nothing:
  assumes "postgres_execute_atomic server ops opts s = (r, s')" "cn_log s = []"
  shows "atomic_outcome server (ro_call_options opts) ops (cn_log s') r \<and>
    (succeeds (server [] Connect) \<longrightarrow>
       filter is_release (cn_log s') = [Release False] \<and> last (cn_log s') = Release False)"
  using assms by (rule postgres_atomic_outcome)

definition sample_atomic :: "(tx_exn, bool \<times> gw_response list) result \<times> conn" where
  "sample_atomic = postgres_execute_atomic sample_server
     [insert_into ''a'', insert_into ''bad'', insert_into ''c''] plain_options fresh_conn"

lemma sample_atomic_log:
  "cn_log (snd sample_atomic) =
     [Connect, Sql ''BEGIN ISOLATION LEVEL SERIALIZABLE'', RunOp (insert_into ''a'') Null,
      RunOp (insert_into ''bad'') Null, Sql ''ROLLBACK'', Release False]"
  by code_simp

theorem atomic_all_or_nothing_witness:
  "filter is_release (cn_log (snd sample_atomic)) = [Release False] \<and>
   RunOp (insert_into ''c'') Null \<notin> set (cn_log (snd sample_atomic))"
proof -
  have "succeeds (sample_server [] Connect)" "cn_log fresh_conn = []"
    "RunOp (insert_into ''c'') Null \<notin> set (cn_log (snd sample_atomic))"
    by code_simp+
  then show ?thesis
    using atomic_all_or_nothing [of sample_server _ plain_options fresh_conn "fst sample_atomic" "snd sample_atomic"]
    by (simp add: sample_atomic_def)
qed

text \<open>
  C14. Cache after commit only: \<open>transaction\<close> over a PostgreSQL connection returns only when the
  database accepted the \<open>COMMIT\<close>, with one result per operation and none of them an error, and
  then tells the cache once, exactly what it returns; when it throws, the cache is told nothing.
\<close>

theorem cache_after_commit:
  assumes "execute_atomic_transaction fmt (Some (cap, postgres_execute_atomic server)) pinned
      executables seq options (s, cache) = (r, (s', cache'))"
    and "cn_log s = []"
  shows "case r of
      Inl _ \<Rightarrow> cache' = cache
    | Inr results \<Rightarrow> length results = length executables \<and> \<not> list_ex has_error results \<and>
        list_ex committed (transcript server s') \<and>
        (\<exists>ops. cache' = cache @ [(ops, results)] \<and> length ops = length executables)"
proof (cases r)
  case (Inl e)
  with assms(1) atomic_transaction_throws [of fmt _ pinned executables seq options s cache e "(s', cache')"]
  show ?thesis by simp
next
  case (Inr results)
  with assms(1) obtain ops seq' opts responses where
    ops: "compile_transaction_operations executables seq = Ok (ops, seq')"
    and run: "postgres_execute_atomic server ops opts s = (Inr (True, responses), s')"
    and results: "results = format_results fmt ops responses" "\<not> list_ex has_error results"
    and cache: "cache' = cache @ [(ops, results)]"
    by (auto simp: atomic_transaction_returns)
  from ops have "compile_from executables 0 seq = Ok (ops, seq')"
    by (simp add: compile_transaction_operations_def split: if_splits)
  from compile_from_Ok [OF this] have "length ops = length executables"
    by (auto dest: list_all2_lengthD)
  moreover have "length responses = length ops" "list_ex committed (transcript server s')"
    using postgres_atomic_outcome [OF run assms(2)]
    by (auto simp: atomic_outcome_def transcript_def committed_def)
  ultimately show ?thesis using results cache by (simp add: Inr)
qed

definition sample_format :: "gw_response \<Rightarrow> tx_operation \<Rightarrow> jval" where
  "sample_format r op = JObj 0 [(''error'', gr_error r)]"

definition sample_transaction :: "string \<Rightarrow> (tx_exn, jval list) result \<times> (conn \<times> reconciled)" where
  "sample_transaction t = execute_atomic_transaction sample_format
     (Some (postgres_direct_capabilities, postgres_execute_atomic sample_server)) (Ok Null)
     [Some (insert_into t)] 0 None (fresh_conn, [])"

theorem cache_after_commit_witness:
  "snd (snd (sample_transaction ''bad'')) = [] \<and>
   list_ex committed (transcript sample_server (fst (snd (sample_transaction ''a''))))"
proof -
  have run: "sample_transaction t = (fst (sample_transaction t),
      (fst (snd (sample_transaction t)), snd (snd (sample_transaction t))))" for t by simp
  have "fst (sample_transaction ''bad'') = Inl (TxError TxFailed)" "cn_log fresh_conn = []"
    "fst (sample_transaction ''a'') = Inr [JObj 0 [(''error'', Undefined)]]"
    by code_simp+
  then show ?thesis
    using cache_after_commit [OF run [of "''bad''", unfolded sample_transaction_def]]
      cache_after_commit [OF run [of "''a''", unfolded sample_transaction_def]]
    by (simp add: sample_transaction_def [symmetric])
qed

text \<open>
  Results of a D1 batch are positional: the statements of the operations are sent as one
  batch, in order, and the response of each operation is made from the answers to its own
  statements and from no others.
\<close>

lemma d1_batch_positional:
  "d1_execute_atomic compile batch ops opts = Ok (done_all, results) \<Longrightarrow>
   \<exists>cs. map_r (\<lambda>op. compile op (ro_call_options opts)) ops = Ok cs \<and> length results = length ops \<and>
     (case batch (concat (map flatten_compiled cs)) of
        Inl message \<Rightarrow> \<not> done_all \<and> results = map (\<lambda>op. d1_error_response message) ops
      | Inr answers \<Rightarrow>
          (done_all \<longleftrightarrow> list_all gr_ok results) \<and>
          (\<forall>i < length ops. results ! i =
             map_slice (ops ! i) (chunk (map (length \<circ> flatten_compiled) cs) i answers)
               (ro_call_options opts)))"
  by (rule d1_positional)

definition sample_compile :: "tx_operation \<Rightarrow> jval \<Rightarrow> (d1_exn, d1_compiled) result" where
  "sample_compile op co =
     Ok \<lparr>dc_sql = op_table op, dc_params = Null,
         dc_statements = (if op_table op = ''two'' then Some [(''x'', Null), (''y'', Null)] else None)\<rparr>"

definition sample_batch :: "(string \<times> jval) list \<Rightarrow> (jval, jval list) result" where
  "sample_batch stmts = Ok (map (\<lambda>(q, _). JObj 0 [(''results'', JArr [JStr q])]) stmts)"

definition sample_d1 :: "bool \<times> gw_response list" where
  "sample_d1 = projr (d1_execute_atomic sample_compile sample_batch
     [insert_into ''two'', insert_into ''one''] plain_options)"

lemma d1_batch_positional_witness:
  "length (snd sample_d1) = 2 \<and> gr_data (snd sample_d1 ! 1) = JStr ''one''"
proof -
  have "d1_execute_atomic sample_compile sample_batch [insert_into ''two'', insert_into ''one''] plain_options =
      Ok (fst sample_d1, snd sample_d1)"
    "gr_data (snd sample_d1 ! 1) = JStr ''one''"
    by code_simp+
  with d1_batch_positional [OF this(1)] show ?thesis by auto
qed

section \<open>Interactive transactions\<close>

text \<open>
  C15. A transaction that begins sends its \<open>BEGIN\<close>, then only operations and savepoint
  statements, and ends in one of four ways. It returns exactly when the database accepted its
  \<open>COMMIT\<close>; and a \<open>COMMIT\<close> is sent only if no operation answered with an error, whatever the
  callback did about it.
\<close>

theorem interactive_commits_clean:
  "run_with_transaction server cap opts body (new_session seq) = (r, s') \<Longrightarrow>
   not_begun server r (cn_log s') \<or>
   (\<exists>b e. b \<in> set begin_statements \<and> tx_outcome server [Connect, Sql b] r (cn_log s') e)"
  by (erule run_with_transaction_outcome) (simp_all add: new_session_def)

definition inserts_then_returns :: "string \<Rightarrow> tx_body" where
  "inserts_then_returns t = TxExec TxInsert (payload_on t) (\<lambda>_. TxReturn Null)"

definition sample_interactive :: "(tx_exn, jval) result \<times> session" where
  "sample_interactive = run_with_transaction sample_server postgres_direct_capabilities plain_options
     (inserts_then_returns ''a'') (new_session 0)"

theorem interactive_commits_clean_witness:
  "\<exists>b e. b \<in> set begin_statements \<and>
     tx_outcome sample_server [Connect, Sql b] (Inr Null) (cn_log (snd sample_interactive)) e"
proof -
  have "fst sample_interactive = Inr Null" by code_simp
  then have "run_with_transaction sample_server postgres_direct_capabilities plain_options
      (inserts_then_returns ''a'') (new_session 0) = (Inr Null, snd sample_interactive)"
    by (metis prod.collapse sample_interactive_def)
  from interactive_commits_clean [OF this] show ?thesis by (simp add: not_begun_def)
qed

text \<open>
  After a doomed callback returned, or after a refused \<open>COMMIT\<close>, a second \<open>ROLLBACK\<close> is sent
  on the connection although it was already given back to the pool.
\<close>

lemma rollback_after_release:
  "run_body server cap co body s = (Inr v, s1) \<Longrightarrow> se_doomed s1 \<Longrightarrow> \<not> cn_released s \<Longrightarrow>
   \<exists>mid. cn_log (snd (session_body server cap co body s)) =
     cn_log s @ mid @ [Sql ''ROLLBACK'', Release False, Sql ''ROLLBACK'']"
  by (rule doomed_end)

lemma rollback_after_release_witness:
  "\<exists>mid. cn_log (snd (session_body sample_server postgres_direct_capabilities Null
      (inserts_then_returns ''bad'') (new_session 0))) =
     mid @ [Sql ''ROLLBACK'', Release False, Sql ''ROLLBACK'']"
proof -
  let ?run = "run_body sample_server postgres_direct_capabilities Null (inserts_then_returns ''bad'') (new_session 0)"
  have "fst ?run = Inr Null" "se_doomed (snd ?run)" "\<not> cn_released (new_session 0)"
    "cn_log (new_session 0) = []" by code_simp+
  with rollback_after_release [of sample_server _ Null _ "new_session 0" Null "snd ?run"]
  show ?thesis by (metis append_Nil prod.collapse)
qed

end
