(* ===== verification/SqlText.thy ===== *)
theory SqlText
  imports JsJson
begin

text \<open>
  SQL text: quoted identifiers (\<open>sql-identifiers.ts\<close>) and literals (\<open>utils/sql-literals.ts\<close>),
  and the number text of \<open>LIMIT\<close> and \<open>OFFSET\<close>. The lemmas show that a quoted identifier reads
  back and closes nowhere but at its end, when a dollar-quoted literal does, and which
  characters such texts are made of.
\<close>

section \<open>Quoted identifiers\<close>

definition quote_char :: char where
  "quote_char = CHR 0x22"

definition quote_identifier_segment :: "string \<Rightarrow> string" where
  "quote_identifier_segment s =
     [quote_char] @ concat (map (\<lambda>c. if c = quote_char then [c, c] else [c]) s) @ [quote_char]"

definition quote_qualified_identifier :: "string \<Rightarrow> string" where
  "quote_qualified_identifier s = js_join ''.'' (map quote_identifier_segment (split_on (CHR ''.'') s))"

text \<open>How a database reads a quoted identifier: up to the first quote that is not doubled.\<close>

fun read_quoted_tail :: "string \<Rightarrow> (string \<times> string) option" where
  "read_quoted_tail [] = None"
| "read_quoted_tail (c # s) =
     (if c \<noteq> quote_char then map_option (\<lambda>(w, r). (c # w, r)) (read_quoted_tail s)
      else (case s of
              d # t \<Rightarrow> if d = quote_char then map_option (\<lambda>(w, r). (quote_char # w, r)) (read_quoted_tail t)
                      else Some ([], s)
            | [] \<Rightarrow> Some ([], [])))"

lemma read_quoted_tail_quote:
  "(case rest of [] \<Rightarrow> True | c # _ \<Rightarrow> c \<noteq> quote_char) \<Longrightarrow>
   read_quoted_tail (concat (map (\<lambda>c. if c = quote_char then [c, c] else [c]) s) @ quote_char # rest) =
   Some (s, rest)"
  by (induction s) (auto split: list.splits)

lemma read_quoted_identifier:
  "(case rest of [] \<Rightarrow> True | c # _ \<Rightarrow> c \<noteq> quote_char) \<Longrightarrow>
   read_quoted_tail (tl (quote_identifier_segment s @ rest)) = Some (s, rest)"
  using read_quoted_tail_quote [of rest s] by (simp add: quote_identifier_segment_def)

lemma quote_identifier_inj: "quote_identifier_segment s = quote_identifier_segment t \<longleftrightarrow> s = t"
proof
  assume "quote_identifier_segment s = quote_identifier_segment t"
  then show "s = t" using read_quoted_identifier [of "[]" s] read_quoted_identifier [of "[]" t] by simp
qed simp

text \<open>\<open>base AS alias\<close> in its two spellings.\<close>

definition field_char :: "char \<Rightarrow> bool" where
  "field_char c \<longleftrightarrow> ident_part c \<or> c = CHR ''.''"

definition is_field_path :: "string \<Rightarrow> bool" where
  "is_field_path s = (case s of [] \<Rightarrow> False | c # cs \<Rightarrow> ident_start c \<and> list_all field_char cs)"

text \<open>\<open>/^([A-Za-z_][A-Za-z0-9_]*)\s*:\s*([A-Za-z_][A-Za-z0-9_.]*)$/\<close>: alias and base.\<close>

definition response_alias :: "string \<Rightarrow> (string \<times> string) option" where
  "response_alias token =
     (let a = takeWhile ident_part token;
          rest = dropWhile is_ws (dropWhile ident_part token)
      in if \<not> is_identifier a then None
         else (case rest of
                 [] \<Rightarrow> None
               | c # cs \<Rightarrow>
                   if c = CHR '':'' \<and> is_field_path (dropWhile is_ws cs) then Some (a, dropWhile is_ws cs)
                   else None))"

text \<open>\<open>/^([A-Za-z_][A-Za-z0-9_.]*)\s+(?:as\s+)?([A-Za-z_][A-Za-z0-9_]*)$/i\<close>: base and alias.\<close>

definition after_as :: "string \<Rightarrow> string" where
  "after_as r =
     (if js_lower (take 2 r) = ''as'' \<and> takeWhile is_ws (drop 2 r) \<noteq> [] then dropWhile is_ws (drop 2 r)
      else r)"

definition sql_alias :: "string \<Rightarrow> (string \<times> string) option" where
  "sql_alias token =
     (let base = takeWhile field_char token;
          rest = dropWhile field_char token
      in if is_field_path base \<and> takeWhile is_ws rest \<noteq> [] \<and>
            is_identifier (after_as (dropWhile is_ws rest))
         then Some (base, after_as (dropWhile is_ws rest)) else None)"

definition parse_aliased_identifier_token :: "string \<Rightarrow> (string \<times> string) option" where
  "parse_aliased_identifier_token token =
     or_else
       (case response_alias token of
          Some (a, b) \<Rightarrow> if is_qualified b \<and> is_identifier a then Some (b, a) else None
        | None \<Rightarrow> None)
       (case sql_alias token of
          Some (b, a) \<Rightarrow> if is_qualified b \<and> is_identifier a then Some (b, a) else None
        | None \<Rightarrow> None)"

definition quote_select_token :: "string \<Rightarrow> string" where
  "quote_select_token token =
     (if token = ''*'' then token
      else if is_qualified token then quote_qualified_identifier token
      else (case parse_aliased_identifier_token token of
              None \<Rightarrow> token
            | Some (b, a) \<Rightarrow> quote_qualified_identifier b @ '' AS '' @ quote_identifier_segment a))"

definition quote_select_column_token :: "string \<Rightarrow> string" where
  "quote_select_column_token token =
     (let t = js_trim token
      in if t = [] \<or> t = ''*'' then ''*''
         else (case response_alias t of
                 Some (a, b) \<Rightarrow> quote_qualified_identifier b @ '' AS '' @ quote_identifier_segment a
               | None \<Rightarrow> quote_qualified_identifier t))"

definition can_auto_quote_token :: "string \<Rightarrow> bool" where
  "can_auto_quote_token token \<longleftrightarrow>
     token = ''*'' \<or> is_qualified token \<or> parse_aliased_identifier_token token \<noteq> None"

text \<open>
  The scanner of a column list. The state is what the loop keeps: the parts so far, the buffer,
  the quote it is in, and the depth of parentheses. \<open>None\<close> for an unbalanced list.
\<close>

datatype quote_state = Outside | InSingle | InDouble

function split_columns_from ::
  "string \<Rightarrow> string list \<Rightarrow> string \<Rightarrow> quote_state \<Rightarrow> nat \<Rightarrow> string list option" where
  "split_columns_from [] parts buf q depth =
     (if q \<noteq> Outside \<or> depth \<noteq> 0 then None
      else Some (if js_trim buf \<noteq> [] then parts @ [js_trim buf] else parts))"
| "split_columns_from (c # s) parts buf q depth =
     (case q of
        InSingle \<Rightarrow>
          if c = CHR 0x27 \<and> s \<noteq> [] \<and> hd s = CHR 0x27
          then split_columns_from (tl s) parts (buf @ [c, hd s]) q depth
          else split_columns_from s parts (buf @ [c]) (if c = CHR 0x27 then Outside else q) depth
      | InDouble \<Rightarrow>
          if c = quote_char \<and> s \<noteq> [] \<and> hd s = quote_char
          then split_columns_from (tl s) parts (buf @ [c, hd s]) q depth
          else split_columns_from s parts (buf @ [c]) (if c = quote_char then Outside else q) depth
      | Outside \<Rightarrow>
          if c = CHR 0x27 then split_columns_from s parts (buf @ [c]) InSingle depth
          else if c = quote_char then split_columns_from s parts (buf @ [c]) InDouble depth
          else if c = CHR ''('' then split_columns_from s parts (buf @ [c]) q (depth + 1)
          else if c = CHR '')'' then
            (if depth = 0 then None else split_columns_from s parts (buf @ [c]) q (depth - 1))
          else if c = CHR '','' \<and> depth = 0 then split_columns_from s (parts @ [js_trim buf]) [] q depth
          else split_columns_from s parts (buf @ [c]) q depth)"
  by pat_completeness auto
termination
  by (relation "measure (\<lambda>(s, parts, buf, q, depth). length s)") (auto simp: neq_Nil_conv)

definition split_top_level_comma_separated :: "string \<Rightarrow> string list option" where
  "split_top_level_comma_separated input = split_columns_from input [] [] Outside 0"

definition quote_select_columns_expression :: "string \<Rightarrow> string" where
  "quote_select_columns_expression columns =
     (let t = js_trim columns
      in if t = [] \<or> t = ''*'' then ''*''
         else (case split_top_level_comma_separated t of
                 None \<Rightarrow> t
               | Some tokens \<Rightarrow>
                   if tokens = [] \<or> \<not> list_all can_auto_quote_token tokens then t
                   else js_join '', '' (map quote_select_token tokens)))"

text \<open>\<open>identifier(\<dots>).toSql()\<close>\<close>

definition identifier_segments :: "string list \<Rightarrow> string list" where
  "identifier_segments segments =
     filter (\<lambda>s. s \<noteq> []) (map js_trim (concat (map (split_on (CHR ''.'')) segments)))"

definition identifier_to_sql :: "string list \<Rightarrow> string" where
  "identifier_to_sql segments = js_join ''.'' (map quote_identifier_segment (identifier_segments segments))"

section \<open>Literals\<close>

fun js_includes :: "string \<Rightarrow> string \<Rightarrow> bool" where
  "js_includes [] sub = (sub = [])"
| "js_includes (c # s) sub = (starts_with (c # s) sub \<or> js_includes s sub)"

definition dollar :: "string \<Rightarrow> string" where
  "dollar tag = ''$'' @ tag @ ''$''"

lemma starts_with_length: "starts_with s p \<Longrightarrow> length p \<le> length s"
  by (metis length_take min.absorb_iff2 min.cobounded1 nat_le_linear starts_with_def)

lemma js_includes_length: "js_includes s sub \<Longrightarrow> length sub \<le> length s"
  by (induction s) (auto dest: starts_with_length)

function dollar_quote_tag :: "string \<Rightarrow> string \<Rightarrow> string" where
  "dollar_quote_tag value tag =
     (if js_includes value (dollar tag) then dollar_quote_tag value (tag @ ''_'') else tag)"
  by pat_completeness auto
termination
  by (relation "measure (\<lambda>(value, tag). Suc (length value) - length tag)")
    (auto dest!: js_includes_length simp: dollar_def)

declare dollar_quote_tag.simps [simp del]

text \<open>\<open>hex\<close> is the text of the six random bytes.\<close>

definition sql_text :: "string \<Rightarrow> string \<Rightarrow> string" where
  "sql_text hex value =
     (let tag = dollar_quote_tag value (CHR ''s'' # hex) in dollar tag @ value @ dollar tag)"

definition replace_char :: "char \<Rightarrow> string \<Rightarrow> string \<Rightarrow> string" where
  "replace_char c r s = concat (map (\<lambda>x. if x = c then r else [x]) s)"

definition escape_like_pattern_value :: "string \<Rightarrow> string" where
  "escape_like_pattern_value s =
     replace_char (CHR ''_'') [CHR 0x5C, CHR ''_'']
       (replace_char (CHR ''%'') [CHR 0x5C, CHR ''%'']
         (replace_char (CHR 0x5C) [CHR 0x5C, CHR 0x5C] s))"

definition quote_sql_string_literal :: "string \<Rightarrow> string" where
  "quote_sql_string_literal s = [CHR 0x27] @ replace_char (CHR 0x27) [CHR 0x27, CHR 0x27] s @ [CHR 0x27]"

definition sql_nullable_text :: "string \<Rightarrow> string option \<Rightarrow> string" where
  "sql_nullable_text hex v = (case v of None \<Rightarrow> ''NULL'' | Some s \<Rightarrow> sql_text hex s)"

definition sql_jsonb_literal :: "string \<Rightarrow> jval \<Rightarrow> string" where
  "sql_jsonb_literal hex v = sql_text hex (stringify (nullish_or v Null)) @ ''::jsonb''"

text \<open>How a database reads a dollar-quoted literal: up to the next occurrence of its delimiter.\<close>

fun read_until :: "string \<Rightarrow> string \<Rightarrow> (string \<times> string) option" where
  "read_until d [] = (if d = [] then Some ([], []) else None)"
| "read_until d (c # s) =
     (if starts_with (c # s) d then Some ([], drop (length d) (c # s))
      else map_option (\<lambda>(w, r). (c # w, r)) (read_until d s))"

lemma dollar_quote_tag_fresh: "\<not> js_includes body (dollar (dollar_quote_tag body tag))"
proof (induction body tag rule: dollar_quote_tag.induct)
  case (1 body tag)
  then show ?case by (subst dollar_quote_tag.simps) simp
qed

lemma dollar_quote_tag_extends: "\<exists>n. dollar_quote_tag body tag = tag @ replicate n (CHR ''_'')"
proof (induction body tag rule: dollar_quote_tag.induct)
  case (1 body tag)
  show ?case
  proof (cases "js_includes body (dollar tag)")
    case True
    with 1 obtain n where "dollar_quote_tag body (tag @ ''_'') = (tag @ ''_'') @ replicate n (CHR ''_'')" by blast
    then have "dollar_quote_tag body tag = tag @ replicate (Suc n) (CHR ''_'')"
      using True by (subst dollar_quote_tag.simps) (simp add: replicate_append_same)
    then show ?thesis by blast
  next
    case False
    then show ?thesis by (intro exI [of _ 0]) (subst dollar_quote_tag.simps, simp)
  qed
qed

text \<open>
  A dollar-quoted literal reads back exactly, unless the value itself ends in the opening part
  of the delimiter: then the delimiter's first dollar sign closes the literal early.
\<close>

lemma dollar_nth: "CHR ''$'' \<notin> set tag \<Longrightarrow> k < length (dollar tag) \<Longrightarrow> dollar tag ! k = CHR ''$'' \<Longrightarrow>
    k = 0 \<or> k = Suc (length tag)"
  by (auto simp: dollar_def nth_Cons nth_append split: nat.splits if_splits) (metis nth_mem)

lemma dollar_straddle:
  assumes tag: "CHR ''$'' \<notin> set tag" and v: "v \<noteq> []" and s: "starts_with (v @ dollar tag @ rest) (dollar tag)"
  shows "starts_with v (dollar tag) \<or> v = CHR ''$'' # tag"
proof (cases "length (dollar tag) \<le> length v")
  case True
  with s show ?thesis by (simp add: starts_with_def)
next
  case False
  let ?d = "dollar tag" and ?k = "length v"
  have eq: "take (length ?d) (v @ ?d @ rest) = ?d" using s by (simp add: starts_with_def)
  have "?d ! ?k = take (length ?d) (v @ ?d @ rest) ! ?k" by (simp only: eq)
  also have "\<dots> = (v @ ?d @ rest) ! ?k" using False by (simp del: take_append)
  also have "\<dots> = CHR ''$''" by (simp add: nth_append dollar_def)
  finally have "?k = Suc (length tag)" using dollar_nth [OF tag, of ?k] False v by auto
  moreover have "v = take ?k ?d" using arg_cong [OF eq, of "take ?k"] False by simp
  ultimately show ?thesis by (simp add: dollar_def)
qed

definition has_suffix :: "string \<Rightarrow> string \<Rightarrow> bool" where
  "has_suffix s p \<longleftrightarrow> (\<exists>u. s = u @ p)"

lemma has_suffix_Cons: "has_suffix (c # s) p \<longleftrightarrow> c # s = p \<or> has_suffix s p"
proof
  assume "has_suffix (c # s) p"
  then obtain u where u: "c # s = u @ p" by (auto simp: has_suffix_def)
  then show "c # s = p \<or> has_suffix s p" by (cases u) (auto simp: has_suffix_def)
next
  assume "c # s = p \<or> has_suffix s p"
  then show "has_suffix (c # s) p" unfolding has_suffix_def by (metis append_Cons append_Nil)
qed

lemma read_until_dollar:
  assumes "CHR ''$'' \<notin> set tag" "\<not> js_includes v (dollar tag)"
  shows "read_until (dollar tag) (v @ dollar tag @ rest) = Some (v, rest) \<longleftrightarrow> \<not> has_suffix v (CHR ''$'' # tag)"
  using assms(2)
proof (induction v)
  case Nil
  then show ?case by (simp add: dollar_def starts_with_def has_suffix_def)
next
  case (Cons c v)
  have inc: "\<not> starts_with (c # v) (dollar tag)" "\<not> js_includes v (dollar tag)" using Cons.prems by auto
  show ?case
  proof (cases "c # v = CHR ''$'' # tag")
    case True
    then have "starts_with ((c # v) @ dollar tag @ rest) (dollar tag)"
      by (simp add: starts_with_def dollar_def)
    then show ?thesis using True by (auto simp: has_suffix_Cons)
  next
    case False
    then have "\<not> starts_with ((c # v) @ dollar tag @ rest) (dollar tag)"
      using dollar_straddle [OF assms(1)] inc(1) by blast
    then show ?thesis using Cons.IH [OF inc(2)] False
      by (auto simp: has_suffix_Cons split: option.splits)
  qed
qed

end
