(* ===== verification/SqlBinder.thy ===== *)
theory SqlBinder
  imports SqlText
begin

text \<open>
  What the SQL compilers share: the \<open>Binder\<close> (\<open>postgres/sql.ts\<close>, \<open>postgres/compile-ast.ts\<close>)
  whose state is the list of values bound so far, the template texts built from it, and the
  scan of a text for its \<open>$n\<close> placeholders. \<open>well_bound\<close> says that a step references exactly the
  values it binds, in order; \<open>same_text\<close> that two steps differ only in the values they bind;
  \<open>chars_in\<close> which characters a step can emit. Each has one rule for every combinator.
\<close>

section \<open>Steps of a compiler\<close>

type_synonym bound = "jval list"

type_synonym 'e emit = "bound \<Rightarrow> ('e, string \<times> bound) result"

definition placeholder :: "nat \<Rightarrow> string" where
  "placeholder n = CHR ''$'' # show_nat n"

definition emit_bind :: "jval \<Rightarrow> 'e emit" where
  "emit_bind v vs = Inr (placeholder (Suc (length vs)), vs @ [v])"

definition emit_text :: "string \<Rightarrow> 'e emit" where
  "emit_text t vs = Inr (t, vs)"

definition emit_fail :: "'e \<Rightarrow> 'e emit" where
  "emit_fail e vs = Inl e"

text \<open>A piece of text whose making may throw but binds nothing.\<close>

definition emit_lift :: "('e, string) result \<Rightarrow> 'e emit" where
  "emit_lift r vs = rmap (\<lambda>t. (t, vs)) r"

definition emit_join :: "string \<Rightarrow> 'e emit list \<Rightarrow> 'e emit" where
  "emit_join sep ms vs = rmap (\<lambda>(ts, vs'). (js_join sep ts, vs')) (map_s (\<lambda>m. m) ms vs)"

text \<open>A template literal: its parts from left to right.\<close>

fun template :: "'e emit list \<Rightarrow> 'e emit" where
  "template [] = emit_text []"
| "template (m # ms) = (\<lambda>vs. rbind (m vs) (\<lambda>(t, vs'). rmap (\<lambda>(ts, vs''). (t @ ts, vs'')) (template ms vs')))"

declare template.simps [simp del]

definition rethrow :: "('e \<Rightarrow> 'f) \<Rightarrow> 'e emit \<Rightarrow> 'f emit" where
  "rethrow h m vs = (case m vs of Inl e \<Rightarrow> Inl (h e) | Inr r \<Rightarrow> Inr r)"

lemmas emit_defs = emit_bind_def emit_text_def emit_fail_def emit_lift_def emit_join_def

section \<open>Reading placeholders\<close>

function placeholders :: "string \<Rightarrow> nat list" where
  "placeholders [] = []"
| "placeholders (c # s) =
     (if c = CHR ''$'' \<and> takeWhile is_digit s \<noteq> []
      then digits_val (takeWhile is_digit s) # placeholders (dropWhile is_digit s)
      else placeholders s)"
  by pat_completeness auto
termination
  by (relation "measure length") (auto simp: le_imp_less_Suc length_dropWhile_le)

definition no_lead_digit :: "string \<Rightarrow> bool" where
  "no_lead_digit s = (case s of [] \<Rightarrow> True | c # _ \<Rightarrow> \<not> is_digit c)"

lemma no_lead_digit_simps [simp]:
  "no_lead_digit []" "no_lead_digit (c # s) \<longleftrightarrow> \<not> is_digit c"
  by (simp_all add: no_lead_digit_def)

lemma no_lead_digit_append [simp]:
  "no_lead_digit (s @ t) \<longleftrightarrow> (if s = [] then no_lead_digit t else no_lead_digit s)"
  by (cases s) auto

lemma not_digit_simps [simp]:
  "\<not> is_digit (CHR '' '')" "\<not> is_digit (CHR ''('')" "\<not> is_digit (CHR '')'')" "\<not> is_digit (CHR '','')"
  "\<not> is_digit (CHR '':'')" "\<not> is_digit (CHR ''.'')" "\<not> is_digit (CHR ''$'')"
  by (simp_all add: is_digit_def code_def)

lemma placeholders_clean: "CHR ''$'' \<notin> set s \<Longrightarrow> placeholders (s @ t) = placeholders t"
  by (induction s) auto

lemma takeWhile_digits:
  "list_all is_digit ds \<Longrightarrow> no_lead_digit t \<Longrightarrow> takeWhile is_digit (ds @ t) = ds"
  by (induction ds) (auto simp: no_lead_digit_def split: list.splits)

lemma dropWhile_digits:
  "list_all is_digit ds \<Longrightarrow> no_lead_digit t \<Longrightarrow> dropWhile is_digit (ds @ t) = t"
  by (induction ds) (auto simp: no_lead_digit_def split: list.splits)

lemma show_nat_digits: "list_all is_digit (show_nat n)"
proof (induction n rule: show_nat.induct)
  case (1 n)
  have "is_digit (char_of (48 + n mod 10))" "n < 10 \<Longrightarrow> is_digit (char_of (48 + n))"
    by (simp_all add: is_digit_def code_def)
  with 1 show ?case by (subst show_nat.simps) simp
qed

lemma show_nat_not_Nil [simp]: "show_nat n \<noteq> []"
  by (subst show_nat.simps) simp

lemma placeholders_placeholder:
  "no_lead_digit t \<Longrightarrow> placeholders (placeholder n @ t) = n # placeholders t"
  using show_nat_digits [of n]
  by (simp add: placeholder_def takeWhile_digits dropWhile_digits)

text \<open>A text that contributes the placeholders \<open>ns\<close> whatever follows it (but a digit).\<close>

definition piece :: "string \<Rightarrow> nat list \<Rightarrow> bool" where
  "piece t ns \<longleftrightarrow> (\<forall>rest. no_lead_digit rest \<longrightarrow> placeholders (t @ rest) = ns @ placeholders rest)"

lemma piece_placeholders: "piece t ns \<Longrightarrow> placeholders t = ns"
  unfolding piece_def by (drule spec [of _ "[]"]) simp

lemma piece_clean: "CHR ''$'' \<notin> set t \<Longrightarrow> piece t []"
  by (simp add: piece_def placeholders_clean)

lemma piece_placeholder: "piece (placeholder n) [n]"
  by (simp add: piece_def placeholders_placeholder)

lemma piece_append: "piece a ns \<Longrightarrow> piece b ms \<Longrightarrow> no_lead_digit b \<Longrightarrow> piece (a @ b) (ns @ ms)"
  by (auto simp: piece_def)

lemma piece_clean_append: "CHR ''$'' \<notin> set a \<Longrightarrow> piece b ms \<Longrightarrow> piece (a @ b) ms"
  by (auto simp: piece_def placeholders_clean)

lemma piece_append_clean:
  "piece a ns \<Longrightarrow> CHR ''$'' \<notin> set sep \<Longrightarrow> no_lead_digit sep \<Longrightarrow> sep \<noteq> [] \<Longrightarrow> piece b ms \<Longrightarrow>
   piece (a @ sep @ b) (ns @ ms)"
  by (rule piece_append) (auto intro: piece_clean_append)

section \<open>Well-bound steps\<close>

named_theorems wb_intros \<open>steps that reference exactly what they bind\<close>

definition bound_span :: "bound \<Rightarrow> bound \<Rightarrow> nat list" where
  "bound_span vs vs' = [Suc (length vs)..<Suc (length vs')]"

lemma bound_span_same [simp]: "bound_span vs vs = []"
  by (simp add: bound_span_def)

lemma bound_span_one [simp]: "bound_span vs (vs @ [v]) = [Suc (length vs)]"
  by (simp add: bound_span_def)

lemma bound_span_append:
  "bound_span vs (vs @ mid) @ bound_span (vs @ mid) (vs @ mid @ post) = bound_span vs (vs @ mid @ post)"
proof -
  have "Suc (length vs) \<le> Suc (length vs + length mid)" by simp
  from upt_add_eq_append [OF this, of "length post"] show ?thesis
    by (simp add: bound_span_def add.assoc del: upt_Suc)
qed

definition well_bound :: "'e emit \<Rightarrow> bool" where
  "well_bound m \<longleftrightarrow>
     (\<forall>vs t vs'. m vs = Inr (t, vs') \<longrightarrow>
        (\<exists>new. vs' = vs @ new) \<and> piece t (bound_span vs vs'))"

lemma well_boundI:
  "(\<And>vs t vs'. m vs = Inr (t, vs') \<Longrightarrow>
      (\<exists>new. vs' = vs @ new) \<and> piece t (bound_span vs vs')) \<Longrightarrow> well_bound m"
  by (simp add: well_bound_def)

lemma well_boundD:
  "well_bound m \<Longrightarrow> m vs = Inr (t, vs') \<Longrightarrow>
   (\<exists>new. vs' = vs @ new) \<and> piece t (bound_span vs vs')"
  by (simp add: well_bound_def)

lemma well_bound_result:
  "well_bound m \<Longrightarrow> m [] = Inr (t, vs) \<Longrightarrow> placeholders t = [1..<Suc (length vs)]"
  by (drule (1) well_boundD) (auto dest: piece_placeholders simp: bound_span_def)

lemma wb_text [wb_intros]: "CHR ''$'' \<notin> set t \<Longrightarrow> well_bound (emit_text t)"
  by (auto simp: well_bound_def emit_text_def piece_clean)

lemma wb_bind [wb_intros]: "well_bound (emit_bind v)"
  by (auto simp: well_bound_def emit_bind_def intro: piece_placeholder)

lemma wb_fail [wb_intros]: "well_bound (emit_fail e)"
  by (simp add: well_bound_def emit_fail_def)

definition no_dollar :: "('e, string) result \<Rightarrow> bool" where
  "no_dollar r = (case r of Inl e \<Rightarrow> True | Inr t \<Rightarrow> CHR ''$'' \<notin> set t)"

lemma no_dollar_Inl [simp]: "no_dollar (Inl e)"
  by (simp add: no_dollar_def)

lemma no_dollar_Inr [simp]: "no_dollar (Inr t) \<longleftrightarrow> CHR ''$'' \<notin> set t"
  by (simp add: no_dollar_def)

lemma no_dollar_rbind: "no_dollar (rbind r f) \<longleftrightarrow> (\<forall>x. r = Inr x \<longrightarrow> no_dollar (f x))"
  by (cases r) auto

lemma wb_lift [wb_intros]: "no_dollar r \<Longrightarrow> well_bound (emit_lift r)"
  by (auto simp: well_bound_def emit_lift_def rmap_eq_Inr piece_clean)

lemma wb_template_Nil [wb_intros]: "well_bound (template [])"
  by (simp add: wb_text template.simps)

lemma template_single: "template [m] = m"
  by (rule ext) (simp add: template.simps emit_text_def rbind_def rmap_def split: sum.splits)

lemma wb_template_single [wb_intros]: "well_bound m \<Longrightarrow> well_bound (template [m])"
  by (simp only: template_single)

text \<open>Two steps in a row, the text between them clean.\<close>

lemma wb_template_clean:
  assumes "\<And>vs t vs'. m vs = Inr (t, vs') \<Longrightarrow> vs' = vs \<and> CHR ''$'' \<notin> set t" and "well_bound (template ms)"
  shows "well_bound (template (m # ms))"
proof (rule well_boundI)
  fix vs t vs'
  assume "template (m # ms) vs = Inr (t, vs')"
  then obtain a us b where a: "m vs = Inr (a, us)" and b: "template ms us = Inr (b, vs')" "t = a @ b"
    by (auto simp: template.simps rbind_eq_Inr rmap_eq_Inr)
  from assms(1) [OF a] b(1) well_boundD [OF assms(2)] b(2)
  show "(\<exists>new. vs' = vs @ new) \<and> piece t (bound_span vs vs')"
    by (auto intro: piece_clean_append)
qed

lemma wb_template_text [wb_intros]:
  "CHR ''$'' \<notin> set t \<Longrightarrow> well_bound (template ms) \<Longrightarrow> well_bound (template (emit_text t # ms))"
  by (rule wb_template_clean) (auto simp: emit_text_def)

lemma wb_template_lift [wb_intros]:
  "no_dollar r \<Longrightarrow> well_bound (template ms) \<Longrightarrow> well_bound (template (emit_lift r # ms))"
  by (rule wb_template_clean) (auto simp: emit_lift_def rmap_eq_Inr)

lemma wb_template_sep [wb_intros]:
  assumes m: "well_bound m" and sep: "CHR ''$'' \<notin> set sep" "no_lead_digit sep" "sep \<noteq> []"
    and ms: "well_bound (template ms)"
  shows "well_bound (template (m # emit_text sep # ms))"
proof (rule well_boundI)
  fix vs t vs'
  assume "template (m # emit_text sep # ms) vs = Inr (t, vs')"
  then obtain a us b where a: "m vs = Inr (a, us)" and b: "template ms us = Inr (b, vs')" "t = a @ sep @ b"
    by (auto simp: template.simps rbind_eq_Inr rmap_eq_Inr emit_text_def)
  obtain mid where mid: "us = vs @ mid" "piece a (bound_span vs us)"
    using well_boundD [OF m a] by blast
  obtain post where post: "vs' = us @ post" "piece b (bound_span us vs')"
    using well_boundD [OF ms b(1)] by blast
  show "(\<exists>new. vs' = vs @ new) \<and> piece t (bound_span vs vs')"
    using piece_append_clean [OF mid(2) sep post(2)] bound_span_append [of vs mid post]
    by (simp only: mid(1) post(1) b(2) append_assoc) blast
qed

definition emits_no_lead :: "'e emit \<Rightarrow> bool" where
  "emits_no_lead m \<longleftrightarrow> (\<forall>vs t vs'. m vs = Inr (t, vs') \<longrightarrow> no_lead_digit t)"

lemma no_lead_text: "no_lead_digit t \<Longrightarrow> emits_no_lead (emit_text t)"
  by (simp add: emits_no_lead_def emit_text_def)

lemma no_lead_either: "emits_no_lead m \<Longrightarrow> emits_no_lead m' \<Longrightarrow> emits_no_lead (if b then m else m')"
  by simp

lemma no_lead_template: "no_lead_digit t \<Longrightarrow> t \<noteq> [] \<Longrightarrow> emits_no_lead (template (emit_text t # ms))"
  by (auto simp: emits_no_lead_def emit_text_def template.simps rmap_eq_Inr)

lemma no_lead_next: "emits_no_lead m \<Longrightarrow> emits_no_lead (template ms) \<Longrightarrow> emits_no_lead (template (m # ms))"
  by (fastforce simp: emits_no_lead_def template.simps rbind_eq_Inr rmap_eq_Inr)

lemma no_lead_lift: "(\<And>t. r = Inr t \<Longrightarrow> no_lead_digit t) \<Longrightarrow> emits_no_lead (emit_lift r)"
  by (auto simp: emits_no_lead_def emit_lift_def rmap_eq_Inr)

lemma no_lead_Nil: "emits_no_lead (template [])"
  by (simp add: template.simps no_lead_text)

text \<open>Two steps in a row, the second one's text not opening with a digit.\<close>

lemma wb_template_next:
  assumes m: "well_bound m" and ms: "well_bound (template ms)" and lead: "emits_no_lead (template ms)"
  shows "well_bound (template (m # ms))"
proof (rule well_boundI)
  fix vs t vs'
  assume "template (m # ms) vs = Inr (t, vs')"
  then obtain a us b where a: "m vs = Inr (a, us)" and b: "template ms us = Inr (b, vs')" "t = a @ b"
    by (auto simp: template.simps rbind_eq_Inr rmap_eq_Inr)
  obtain mid where mid: "us = vs @ mid" "piece a (bound_span vs us)"
    using well_boundD [OF m a] by blast
  obtain post where post: "vs' = us @ post" "piece b (bound_span us vs')"
    using well_boundD [OF ms b(1)] by blast
  have "no_lead_digit b" using lead b(1) by (auto simp: emits_no_lead_def)
  from piece_append [OF mid(2) post(2) this] bound_span_append [of vs mid post]
  show "(\<exists>new. vs' = vs @ new) \<and> piece t (bound_span vs vs')"
    by (simp add: mid(1) post(1) b(2))
qed

lemma js_join_Cons: "xs \<noteq> [] \<Longrightarrow> js_join sep (x # xs) = x @ sep @ js_join sep xs"
  by (cases xs) auto

lemma map_s_length: "map_s f xs s = Inr (ys, s') \<Longrightarrow> length ys = length xs"
  by (induction xs arbitrary: s ys) (auto simp: rbind_eq_Inr split: prod.splits)

lemma emit_join_Cons:
  "ms \<noteq> [] \<Longrightarrow> emit_join sep (m # ms) = template [m, emit_text sep, emit_join sep ms]"
proof (rule ext)
  fix vs
  assume ms: "ms \<noteq> []"
  then have "map_s (\<lambda>m. m) ms us = Inr (ts, ws) \<Longrightarrow> ts \<noteq> []" for us ts ws
    by (auto dest: map_s_length)
  then show "emit_join sep (m # ms) vs = template [m, emit_text sep, emit_join sep ms] vs"
    by (cases "m vs")
      (auto simp: template.simps emit_join_def emit_text_def rbind_def rmap_def js_join_Cons split: sum.splits)
qed

lemma emit_join_single: "emit_join sep [m] = m"
  by (rule ext) (simp add: emit_join_def rbind_def rmap_def split: sum.splits)

lemma wb_join [wb_intros]:
  "\<forall>m \<in> set ms. well_bound m \<Longrightarrow> CHR ''$'' \<notin> set sep \<Longrightarrow> no_lead_digit sep \<Longrightarrow> sep \<noteq> [] \<Longrightarrow>
   well_bound (emit_join sep ms)"
proof (induction ms)
  case Nil
  then show ?case by (simp add: well_bound_def emit_join_def piece_clean)
next
  case (Cons m ms)
  then show ?case
    by (cases "ms = []") (auto simp: emit_join_single emit_join_Cons intro!: wb_intros)
qed

lemma wb_rethrow [wb_intros]: "well_bound m \<Longrightarrow> well_bound (rethrow h m)"
  by (auto simp: well_bound_def rethrow_def split: sum.splits)

lemma wb_if [wb_intros]:
  "(b \<Longrightarrow> well_bound m) \<Longrightarrow> (\<not> b \<Longrightarrow> well_bound m') \<Longrightarrow> well_bound (if b then m else m')"
  by simp

section \<open>Steps that differ only in the values they bind\<close>

named_theorems same_intros \<open>steps whose texts agree\<close>

definition same_outcome :: "('e, string \<times> bound) result \<Rightarrow> ('e, string \<times> bound) result \<Rightarrow> bool" where
  "same_outcome r r' =
     (case r of
        Inl e \<Rightarrow> r' = Inl e
      | Inr (t, vs) \<Rightarrow> (\<exists>vs'. r' = Inr (t, vs') \<and> length vs' = length vs))"

definition same_text :: "'e emit \<Rightarrow> 'e emit \<Rightarrow> bool" where
  "same_text m m' \<longleftrightarrow> (\<forall>vs vs'. length vs = length vs' \<longrightarrow> same_outcome (m vs) (m' vs'))"

lemma same_textD: "same_text m m' \<Longrightarrow> length vs = length vs' \<Longrightarrow> same_outcome (m vs) (m' vs')"
  by (simp add: same_text_def)

lemma same_outcome_text: "same_outcome r r' \<Longrightarrow> rmap fst r = rmap fst r'"
  by (auto simp: same_outcome_def rmap_def split: sum.splits)

lemma same_text_emit [same_intros]: "same_text (emit_text t) (emit_text t)"
  by (simp add: same_text_def same_outcome_def emit_text_def)

lemma same_bind [same_intros]: "same_text (emit_bind v) (emit_bind v')"
  by (simp add: same_text_def same_outcome_def emit_bind_def)

lemma same_fail [same_intros]: "same_text (emit_fail e) (emit_fail e)"
  by (simp add: same_text_def same_outcome_def emit_fail_def)

lemma same_lift [same_intros]: "same_text (emit_lift r) (emit_lift r)"
  by (cases r) (simp_all add: same_text_def same_outcome_def emit_lift_def)

lemma same_template:
  "list_all2 same_text ms ms' \<Longrightarrow> same_text (template ms) (template ms')"
proof (induction ms ms' rule: list_all2_induct)
  case Nil
  then show ?case by (simp add: same_text_emit template.simps)
next
  case (Cons m ms m' ms')
  have "same_outcome (template (m # ms) vs) (template (m' # ms') vs')" if len: "length vs = length vs'" for vs vs'
  proof (cases "m vs")
    case (Inl e)
    then show ?thesis using same_textD [OF Cons.hyps(1) len] by (simp add: same_outcome_def template.simps)
  next
    case (Inr r)
    then obtain t us us' where m: "m vs = Inr (t, us)" "m' vs' = Inr (t, us')" "length us = length us'"
      using same_textD [OF Cons.hyps(1) len] by (cases r) (auto simp: same_outcome_def)
    from same_textD [OF Cons.IH m(3)] m(1,2) show ?thesis
      by (auto simp: same_outcome_def rmap_def template.simps split: sum.splits)
  qed
  then show ?case by (simp only: same_text_def) blast
qed

lemma same_join:
  "list_all2 same_text ms ms' \<Longrightarrow> same_text (emit_join sep ms) (emit_join sep ms')"
proof (induction ms ms' rule: list_all2_induct)
  case Nil
  then show ?case by (simp add: same_text_def same_outcome_def emit_join_def)
next
  case (Cons m ms m' ms')
  then have "ms' = [] \<longleftrightarrow> ms = []" by auto
  with Cons show ?case
    by (cases "ms = []")
      (auto simp: emit_join_single emit_join_Cons
        intro!: same_template same_text_emit)
qed

section \<open>The characters of a step's text\<close>

named_theorems chars_intros \<open>steps whose texts keep to a set of characters\<close>

definition chars_in :: "(char \<Rightarrow> bool) \<Rightarrow> 'e emit \<Rightarrow> bool" where
  "chars_in P m \<longleftrightarrow> (\<forall>vs t vs'. m vs = Inr (t, vs') \<longrightarrow> list_all P t)"

lemma chars_inD: "chars_in P m \<Longrightarrow> m vs = Inr (t, vs') \<Longrightarrow> list_all P t"
  unfolding chars_in_def by blast

lemma chars_text [chars_intros]: "list_all P t \<Longrightarrow> chars_in P (emit_text t)"
  by (simp add: chars_in_def emit_text_def)

lemma chars_fail [chars_intros]: "chars_in P (emit_fail e)"
  by (simp add: chars_in_def emit_fail_def)

lemma chars_bind [chars_intros]:
  "P (CHR ''$'') \<Longrightarrow> (\<forall>c. is_digit c \<longrightarrow> P c) \<Longrightarrow> chars_in P (emit_bind v)"
  using show_nat_digits by (auto simp: chars_in_def emit_bind_def placeholder_def list_all_iff)

definition result_chars :: "(char \<Rightarrow> bool) \<Rightarrow> ('e, string) result \<Rightarrow> bool" where
  "result_chars P r = (case r of Inl e \<Rightarrow> True | Inr t \<Rightarrow> list_all P t)"

lemma result_chars_simps [simp]:
  "result_chars P (Inl e)" "result_chars P (Inr t) \<longleftrightarrow> list_all P t"
  by (simp_all add: result_chars_def)

lemma no_dollar_chars: "result_chars P r \<Longrightarrow> \<not> P (CHR ''$'') \<Longrightarrow> no_dollar r"
  by (cases r) (auto simp: list_all_iff)

lemma chars_lift [chars_intros]: "result_chars P r \<Longrightarrow> chars_in P (emit_lift r)"
  by (auto simp: chars_in_def emit_lift_def rmap_eq_Inr)

lemma chars_template [chars_intros]: "\<forall>m \<in> set ms. chars_in P m \<Longrightarrow> chars_in P (template ms)"
proof (induction ms)
  case Nil
  then show ?case by (simp add: chars_in_def emit_text_def template.simps)
next
  case (Cons m ms)
  then show ?case by (fastforce simp: chars_in_def rbind_eq_Inr rmap_eq_Inr template.simps)
qed

lemma js_join_all: "list_all P sep \<Longrightarrow> list_all (list_all P) ts \<Longrightarrow> list_all P (js_join sep ts)"
  by (induction sep ts rule: js_join.induct) auto

lemma chars_join [chars_intros]:
  "\<forall>m \<in> set ms. chars_in P m \<Longrightarrow> list_all P sep \<Longrightarrow> chars_in P (emit_join sep ms)"
proof (induction ms)
  case Nil
  then show ?case by (simp add: chars_in_def emit_join_def)
next
  case (Cons m ms)
  then show ?case
    by (cases "ms = []")
      (auto simp: emit_join_single emit_join_Cons intro!: chars_intros)
qed

lemma chars_rethrow [chars_intros]: "chars_in P m \<Longrightarrow> chars_in P (rethrow h m)"
  by (auto simp: chars_in_def rethrow_def split: sum.splits)

end
