(* ===== verification/LegacyBoolean.thy ===== *)
theory LegacyBoolean
  imports SqlBinder
begin

text \<open>
  Fluent \<open>.or(text)\<close> and \<open>.not(text)\<close> expressions (\<open>query/legacy-boolean.ts\<close>): the parser from
  text to a tree of conditions, and the walk that compiles the tree. The lemmas show that
  every predicate of a parsed tree is a simple comparison of a safe column, and that a tree
  printed in the same syntax parses back to itself.
\<close>

section \<open>Conditions and trees\<close>

text \<open>
  \<open>AthenaGatewayCondition\<close>. An absent operator is the empty text (the code treats both alike),
  an absent value is \<open>Undefined\<close>.
\<close>

record gateway_condition =
  gc_column :: "string option"
  gc_column_cast :: "string option"
  gc_eq_column :: "string option"
  gc_eq_value :: jval
  gc_operator :: string
  gc_value :: jval
  gc_value_cast :: "string option"

definition simple_condition :: "string \<Rightarrow> string \<Rightarrow> jval \<Rightarrow> gateway_condition" where
  "simple_condition column operator v =
     \<lparr>gc_column = Some column, gc_column_cast = None, gc_eq_column = None, gc_eq_value = Undefined,
      gc_operator = operator, gc_value = v, gc_value_cast = None\<rparr>"

datatype legacy_node =
    PredNode gateway_condition
  | AndNode "legacy_node list"
  | OrNode "legacy_node list"
  | NotNode legacy_node

datatype legacy_error =
    EmptyExpression
  | EmptyTerm
  | NotColumnOpValue string
  | UnsafeColumn string
  | UnsupportedLegacyOperator string
  | NestedGroups

definition simple_operators :: "string list" where
  "simple_operators =
     [''eq'', ''neq'', ''gt'', ''gte'', ''lt'', ''lte'', ''like'', ''ilike'', ''is'', ''in'']"

section \<open>The parser\<close>

definition unsigned_text :: "string \<Rightarrow> string" where
  "unsigned_text s = (case s of c # cs \<Rightarrow> if c = CHR ''-'' then cs else s | [] \<Rightarrow> [])"

text \<open>\<open>/^-?\d+$/\<close> and \<open>/^-?\d+\.\d+$/\<close>\<close>

definition is_int_text :: "string \<Rightarrow> bool" where
  "is_int_text s \<longleftrightarrow> unsigned_text s \<noteq> [] \<and> list_all is_digit (unsigned_text s)"

definition is_decimal_text :: "string \<Rightarrow> bool" where
  "is_decimal_text s =
     (case split_on (CHR ''.'') (unsigned_text s) of
        [a, b] \<Rightarrow> a \<noteq> [] \<and> list_all is_digit a \<and> b \<noteq> [] \<and> list_all is_digit b
      | _ \<Rightarrow> False)"

definition coerce_scalar :: "string \<Rightarrow> jval" where
  "coerce_scalar raw =
     (let t = js_trim raw
      in if t = ''null'' then Null
         else if t = ''true'' then JBool True
         else if t = ''false'' then JBool False
         else if t = [] then JStr []
         else if is_int_text t then JNum (string_to_number t)
         else if is_decimal_text t then JNum (string_to_number t)
         else JStr t)"

definition push_trimmed :: "string \<Rightarrow> string list \<Rightarrow> string list" where
  "push_trimmed cur parts = (if js_trim cur \<noteq> [] then parts @ [js_trim cur] else parts)"

fun split_top_from :: "string \<Rightarrow> string list \<Rightarrow> string \<Rightarrow> nat \<Rightarrow> string list" where
  "split_top_from [] parts cur depth = push_trimmed cur parts"
| "split_top_from (c # s) parts cur depth =
     (let d = (if c = CHR ''('' then depth + 1 else if c = CHR '')'' then depth - 1 else depth)
      in if c = CHR '','' \<and> d = 0 then split_top_from s (push_trimmed cur parts) [] d
         else split_top_from s parts (cur @ [c]) d)"

definition split_top_level :: "string \<Rightarrow> string list" where
  "split_top_level expression = split_top_from expression [] [] 0"

fun scan_balanced :: "string \<Rightarrow> int \<Rightarrow> int option" where
  "scan_balanced [] depth = Some depth"
| "scan_balanced (c # s) depth =
     (if c = CHR ''('' then scan_balanced s (depth + 1)
      else if c = CHR '')'' then
        (if depth - 1 = 0 \<and> s \<noteq> [] then None else scan_balanced s (depth - 1))
      else scan_balanced s depth)"

definition strip_ends :: "string \<Rightarrow> string" where
  "strip_ends s = butlast (tl s)"

definition unwrap_balanced_parens :: "string \<Rightarrow> string option" where
  "unwrap_balanced_parens token =
     (let t = js_trim token
      in if \<not> (starts_with t ''('' \<and> ends_with t '')'') then None
         else if scan_balanced t 0 = Some 0 then Some (strip_ends t) else None)"

text \<open>\<open>new RegExp(`^${name}\\s*\\((.*)\\)$`, "is").exec(token.trim())\<close>\<close>

definition parse_group_call :: "string \<Rightarrow> string \<Rightarrow> string option" where
  "parse_group_call token name =
     (let t = js_trim token;
          r = dropWhile is_ws (drop (length name) t)
      in if js_lower (take (length name) t) = name \<and> 2 \<le> length r \<and> hd r = CHR ''('' \<and> last r = CHR '')''
         then Some (strip_ends r) else None)"

text \<open>\<open>rawValue.replace(/^\(|\)$/g, "")\<close>\<close>

definition strip_in_parens :: "string \<Rightarrow> string" where
  "strip_in_parens raw =
     (let r = (if raw \<noteq> [] \<and> hd raw = CHR ''('' then tl raw else raw)
      in if r \<noteq> [] \<and> last r = CHR '')'' then butlast r else r)"

definition parse_predicate :: "string \<Rightarrow> (legacy_error, gateway_condition) result" where
  "parse_predicate token =
     (let parts = split_on (CHR ''.'') token
      in if length parts < 3 then Throw (NotColumnOpValue token)
         else
           let column = js_trim (parts ! 0);
               operator = js_lower (js_trim (parts ! 1));
               raw = js_join ''.'' (drop 2 parts)
           in if \<not> is_identifier column then Throw (UnsafeColumn column)
              else if operator \<notin> set simple_operators then Throw (UnsupportedLegacyOperator operator)
              else if operator = ''in'' then
                Ok (simple_condition column operator
                     (JArr (map coerce_scalar (split_top_level (strip_in_parens raw)))))
              else Ok (simple_condition column operator (coerce_scalar raw)))"

lemma split_top_from_lengths:
  "list_all (\<lambda>p. length p \<le> n) parts \<Longrightarrow> length cur + length s \<le> n \<Longrightarrow>
   list_all (\<lambda>p. length p \<le> n) (split_top_from s parts cur depth)"
proof (induction s parts cur depth rule: split_top_from.induct)
  case (1 parts cur depth)
  then show ?case using js_trim_length [of cur] by (simp add: push_trimmed_def)
next
  case (2 c s parts cur depth)
  have "list_all (\<lambda>p. length p \<le> n) (push_trimmed cur parts)"
    using 2 js_trim_length [of cur] by (simp add: push_trimmed_def)
  with 2 show ?case by (simp add: Let_def)
qed

lemma legacy_split_length: "p \<in> set (split_top_level s) \<Longrightarrow> length p \<le> length s"
  using split_top_from_lengths [of "length s" "[]" "[]" s 0]
  by (simp add: split_top_level_def list_all_iff)

lemma strip_ends_length: "2 \<le> length s \<Longrightarrow> length (strip_ends s) < length s"
  by (simp add: strip_ends_def)

lemma parse_group_call_length: "parse_group_call token name = Some inner \<Longrightarrow> length inner < length token"
proof -
  assume "parse_group_call token name = Some inner"
  then have r: "2 \<le> length (dropWhile is_ws (drop (length name) (js_trim token)))"
    and i: "inner = strip_ends (dropWhile is_ws (drop (length name) (js_trim token)))"
    by (auto simp: parse_group_call_def Let_def split: if_splits)
  have "length (dropWhile is_ws (drop (length name) (js_trim token))) \<le> length token"
    using js_trim_length [of token] length_dropWhile_le [of is_ws "drop (length name) (js_trim token)"] by simp
  with strip_ends_length [OF r] i show ?thesis by simp
qed

lemma unwrap_length: "unwrap_balanced_parens token = Some inner \<Longrightarrow> length inner < length token"
proof -
  assume "unwrap_balanced_parens token = Some inner"
  then have "js_trim token \<noteq> []" "inner = strip_ends (js_trim token)"
    by (auto simp: unwrap_balanced_parens_def Let_def starts_with_def split: if_splits)
  moreover from this have "length (strip_ends (js_trim token)) < length (js_trim token)"
    by (simp add: strip_ends_def)
  ultimately show ?thesis using js_trim_length [of token] by simp
qed

definition is_not_call :: "string \<Rightarrow> bool" where
  "is_not_call t \<longleftrightarrow> js_lower (take 4 t) = ''not.''"

lemma is_not_call_length: "is_not_call t \<Longrightarrow> 4 \<le> length t"
  by (cases "length t < 4") (auto simp: is_not_call_def js_lower_def dest: arg_cong [of _ _ length])

lemma group_call_smaller:
  "parse_group_call (js_trim token) name = Some inner \<Longrightarrow> Suc (2 * length inner) < 2 * length token"
  using parse_group_call_length [of "js_trim token" name inner] js_trim_length [of token] by simp

lemma unwrap_smaller:
  "unwrap_balanced_parens (js_trim token) = Some inner \<Longrightarrow> Suc (2 * length inner) < 2 * length token"
  using unwrap_length [of "js_trim token" inner] js_trim_length [of token] by simp

lemma not_call_smaller: "is_not_call (js_trim token) \<Longrightarrow> length (js_trim token) - 4 < length token"
  using is_not_call_length [of "js_trim token"] js_trim_length [of token] by simp

function parse_boolean_list :: "string \<Rightarrow> bool \<Rightarrow> (legacy_error, legacy_node) result"
  and parse_term :: "string \<Rightarrow> (legacy_error, legacy_node) result" where
  "parse_boolean_list expression disjunct =
     (let parts = split_top_level expression
      in if parts = [] then Throw EmptyExpression
         else rbind (map_r parse_term parts)
           (\<lambda>children.
              Ok (case children of
                    [n] \<Rightarrow> n
                  | _ \<Rightarrow> if disjunct then OrNode children else AndNode children)))"
| "parse_term token =
     (let t = js_trim token
      in if t = [] then Throw EmptyTerm
         else (case parse_group_call t ''and'' of
             Some inner \<Rightarrow> parse_boolean_list inner False
           | None \<Rightarrow>
         (case parse_group_call t ''or'' of
             Some inner \<Rightarrow> parse_boolean_list inner True
           | None \<Rightarrow>
         (case parse_group_call t ''not'' of
             Some inner \<Rightarrow> rmap NotNode (parse_boolean_list inner False)
           | None \<Rightarrow>
              if is_not_call t then rmap NotNode (parse_term (drop 4 t))
              else (case unwrap_balanced_parens t of
                      Some inner \<Rightarrow> parse_boolean_list inner False
                    | None \<Rightarrow> rmap PredNode (parse_predicate t))))))"
  by pat_completeness auto
termination parse_boolean_list
  by (relation "measure (\<lambda>x. case x of Inl (e, _) \<Rightarrow> 2 * length e + 1 | Inr t \<Rightarrow> 2 * length t)")
    (auto dest: group_call_smaller unwrap_smaller not_call_smaller dest!: legacy_split_length)

declare parse_boolean_list.simps [simp del] parse_term.simps [simp del]

definition parse_legacy_boolean_expression :: "string \<Rightarrow> bool \<Rightarrow> (legacy_error, legacy_node) result" where
  "parse_legacy_boolean_expression expression disjunct =
     (let t = js_trim expression in if t = [] then Throw EmptyExpression else parse_boolean_list t disjunct)"

definition is_pred_node :: "legacy_node \<Rightarrow> bool" where
  "is_pred_node n = (case n of PredNode _ \<Rightarrow> True | _ \<Rightarrow> False)"

definition node_condition :: "legacy_node \<Rightarrow> gateway_condition list" where
  "node_condition n = (case n of PredNode c \<Rightarrow> [c] | _ \<Rightarrow> [])"

definition parse_legacy_or_expression :: "string \<Rightarrow> (legacy_error, gateway_condition list) result" where
  "parse_legacy_or_expression expression =
     rbind (parse_legacy_boolean_expression expression True)
       (\<lambda>n. case n of
              PredNode c \<Rightarrow> Ok [c]
            | OrNode cs \<Rightarrow>
                if list_all is_pred_node cs then Ok (concat (map node_condition cs)) else Throw NestedGroups
            | _ \<Rightarrow> Throw NestedGroups)"

fun compile_legacy_boolean_node ::
  "legacy_node \<Rightarrow> (gateway_condition \<Rightarrow> 'e emit) \<Rightarrow> 'e emit" where
  "compile_legacy_boolean_node (PredNode c) f = f c"
| "compile_legacy_boolean_node (AndNode cs) f =
     template [emit_text ''('', emit_join '' AND '' (map (\<lambda>c. compile_legacy_boolean_node c f) cs),
       emit_text '')'']"
| "compile_legacy_boolean_node (OrNode cs) f =
     template [emit_text ''('', emit_join '' OR '' (map (\<lambda>c. compile_legacy_boolean_node c f) cs),
       emit_text '')'']"
| "compile_legacy_boolean_node (NotNode n) f =
     template [emit_text ''(NOT ('', compile_legacy_boolean_node n f, emit_text ''))'']"

fun legacy_predicates :: "legacy_node \<Rightarrow> gateway_condition list" where
  "legacy_predicates (PredNode c) = [c]"
| "legacy_predicates (AndNode cs) = concat (map legacy_predicates cs)"
| "legacy_predicates (OrNode cs) = concat (map legacy_predicates cs)"
| "legacy_predicates (NotNode n) = legacy_predicates n"

section \<open>Predicates of a parsed tree\<close>

definition safe_predicate :: "gateway_condition \<Rightarrow> bool" where
  "safe_predicate c \<longleftrightarrow>
     gc_operator c \<in> set simple_operators \<and> (\<exists>col. gc_column c = Some col \<and> is_identifier col) \<and>
     gc_column_cast c = None \<and> gc_value_cast c = None"

lemma parse_predicate_safe: "parse_predicate token = Inr c \<Longrightarrow> safe_predicate c"
  by (auto simp: parse_predicate_def Let_def safe_predicate_def simple_condition_def split: if_splits)

lemma parse_all:
  assumes "\<And>s c. parse_predicate s = Inr c \<Longrightarrow> P c"
  shows "parse_boolean_list e d = Inr n \<Longrightarrow> \<forall>c \<in> set (legacy_predicates n). P c"
    and "parse_term t = Inr n \<Longrightarrow> \<forall>c \<in> set (legacy_predicates n). P c"
proof (induction e d and t arbitrary: n and n rule: parse_boolean_list_parse_term.induct)
  case (1 e d)
  from "1.prems" obtain children where ne: "split_top_level e \<noteq> []"
    and ch: "map_r parse_term (split_top_level e) = Inr children"
    and n: "n = (case children of [m] \<Rightarrow> m | _ \<Rightarrow> if d then OrNode children else AndNode children)"
    by (subst (asm) parse_boolean_list.simps) (auto simp: Let_def rbind_eq_Inr split: if_splits)
  from ch have "\<forall>m \<in> set children. \<exists>p \<in> set (split_top_level e). parse_term p = Inr m"
    by (auto dest: map_r_Inr_set)
  then have "\<forall>m \<in> set children. \<forall>c \<in> set (legacy_predicates m). P c"
    using "1.IH" ne by blast
  then show ?case by (auto simp: n split: list.splits if_splits)
next
  case (2 t)
  from "2.prems" show ?case
    by (subst (asm) parse_term.simps)
      (auto simp: Let_def rmap_eq_Inr split: if_splits option.splits
        dest: assms "2.IH" [OF refl, THEN bspec])
qed

lemma parsed_predicates:
  "parse_legacy_boolean_expression s d = Inr n \<Longrightarrow> (\<And>s c. parse_predicate s = Inr c \<Longrightarrow> P c) \<Longrightarrow>
   \<forall>c \<in> set (legacy_predicates n). P c"
  using parse_all(1) [of P] by (auto simp: parse_legacy_boolean_expression_def Let_def split: if_splits)

lemmas parse_safe = parse_all [of safe_predicate, OF parse_predicate_safe]

lemma wb_legacy [wb_intros]:
  "\<forall>c \<in> set (legacy_predicates n). well_bound (f c) \<Longrightarrow> well_bound (compile_legacy_boolean_node n f)"
proof (induction n f rule: compile_legacy_boolean_node.induct)
  case (2 cs f)
  then have "\<forall>m \<in> set (map (\<lambda>c. compile_legacy_boolean_node c f) cs). well_bound m" by auto
  then show ?case by (simp only: compile_legacy_boolean_node.simps) (rule wb_intros; (intro wb_intros)?; simp)
next
  case (3 cs f)
  then have "\<forall>m \<in> set (map (\<lambda>c. compile_legacy_boolean_node c f) cs). well_bound m" by auto
  then show ?case by (simp only: compile_legacy_boolean_node.simps) (rule wb_intros; (intro wb_intros)?; simp)
next
  case (4 n f)
  then have "well_bound (compile_legacy_boolean_node n f)" by simp
  then show ?case by (simp only: compile_legacy_boolean_node.simps) (rule wb_intros; (intro wb_intros)?; simp)
qed simp

lemma chars_legacy [chars_intros]:
  "\<forall>c \<in> set (legacy_predicates n). chars_in P (f c) \<Longrightarrow> list_all P ''( )ANDORT'' \<Longrightarrow>
   chars_in P (compile_legacy_boolean_node n f)"
proof (induction n f rule: compile_legacy_boolean_node.induct)
  case (2 cs f)
  then have "\<forall>m \<in> set (map (\<lambda>c. compile_legacy_boolean_node c f) cs). chars_in P m" by auto
  then show ?case using "2.prems"(2)
    by (simp only: compile_legacy_boolean_node.simps) (auto intro!: chars_intros)
next
  case (3 cs f)
  then have "\<forall>m \<in> set (map (\<lambda>c. compile_legacy_boolean_node c f) cs). chars_in P m" by auto
  then show ?case using "3.prems"(2)
    by (simp only: compile_legacy_boolean_node.simps) (auto intro!: chars_intros)
next
  case (4 n f)
  then have "chars_in P (compile_legacy_boolean_node n f)" by simp
  then show ?case using "4.prems"(2)
    by (simp only: compile_legacy_boolean_node.simps) (auto intro!: chars_intros)
qed simp

section \<open>Printing and parsing back\<close>

definition value_text :: "jval \<Rightarrow> string" where
  "value_text v =
     (case v of
        JStr s \<Rightarrow> s
      | Null \<Rightarrow> ''null''
      | JBool b \<Rightarrow> if b then ''true'' else ''false''
      | JNum n \<Rightarrow> number_to_string n
      | _ \<Rightarrow> [])"

definition plain_char :: "char \<Rightarrow> bool" where
  "plain_char c \<longleftrightarrow> \<not> is_ws c \<and> c \<noteq> CHR ''('' \<and> c \<noteq> CHR '')'' \<and> c \<noteq> CHR '',''"

fun show_legacy :: "legacy_node \<Rightarrow> string" where
  "show_legacy (PredNode c) =
     get_or (gc_column c) [] @ ''.'' @ gc_operator c @ ''.'' @ value_text (gc_value c)"
| "show_legacy (AndNode cs) = ''and('' @ js_join '','' (map show_legacy cs) @ '')''"
| "show_legacy (OrNode cs) = ''or('' @ js_join '','' (map show_legacy cs) @ '')''"
| "show_legacy (NotNode n) = ''not('' @ show_legacy n @ '')''"

text \<open>
  Trees the syntax can spell: the value's own text reads back as the value, the operator takes
  a scalar, the column is not called \<open>not\<close>, and a group has two members at least.
\<close>

definition printable_condition :: "gateway_condition \<Rightarrow> bool" where
  "printable_condition c =
     (case gc_column c of
        None \<Rightarrow> False
      | Some col \<Rightarrow>
          c = simple_condition col (gc_operator c) (gc_value c) \<and> is_identifier col \<and>
          js_lower col \<noteq> ''not'' \<and> gc_operator c \<in> set simple_operators \<and> gc_operator c \<noteq> ''in'' \<and>
          list_all plain_char (value_text (gc_value c)) \<and>
          coerce_scalar (value_text (gc_value c)) = gc_value c)"

fun printable :: "legacy_node \<Rightarrow> bool" where
  "printable (PredNode c) = printable_condition c"
| "printable (AndNode cs) = (2 \<le> length cs \<and> list_all printable cs)"
| "printable (OrNode cs) = (2 \<le> length cs \<and> list_all printable cs)"
| "printable (NotNode n) = printable n"

text \<open>A text the top-level splitter passes over: at any depth, or inside parentheses.\<close>

definition passed_over :: "nat \<Rightarrow> string \<Rightarrow> bool" where
  "passed_over k w \<longleftrightarrow>
     (\<forall>rest parts cur d. k \<le> d \<longrightarrow> split_top_from (w @ rest) parts cur d = split_top_from rest parts (cur @ w) d)"

lemma passed_over_append: "passed_over k a \<Longrightarrow> passed_over k b \<Longrightarrow> passed_over k (a @ b)"
  by (simp add: passed_over_def)

lemma passed_over_mono: "passed_over 0 w \<Longrightarrow> passed_over k w"
  by (simp add: passed_over_def)

lemma passed_over_plain: "list_all (\<lambda>c. c \<noteq> CHR ''('' \<and> c \<noteq> CHR '')'' \<and> c \<noteq> CHR '','') w \<Longrightarrow> passed_over 0 w"
proof (induction w)
  case (Cons c w)
  then show ?case by (simp add: passed_over_def)
qed (simp add: passed_over_def)

lemma passed_over_comma: "passed_over (Suc 0) '',''"
  by (simp add: passed_over_def)

lemma passed_over_join: "\<forall>w \<in> set ws. passed_over 0 w \<Longrightarrow> passed_over (Suc 0) (js_join '','' ws)"
proof (induction "'',''" ws rule: js_join.induct)
  case 1
  then show ?case by (simp add: passed_over_def)
next
  case (2 x)
  then show ?case by (auto intro: passed_over_mono)
next
  case (3 x y xs)
  then have "passed_over (Suc 0) x" "passed_over (Suc 0) (js_join '','' (y # xs))"
    by (auto intro: passed_over_mono)
  then show ?case
    using passed_over_append [OF _ passed_over_append [OF passed_over_comma]] by simp
qed

lemma passed_over_group:
  assumes "passed_over 0 name" and "passed_over (Suc 0) inner"
  shows "passed_over 0 (name @ ''('' @ inner @ '')'')"
proof -
  have "passed_over 0 (''('' @ inner @ '')'')"
    using assms(2) by (simp add: passed_over_def)
  with assms(1) show ?thesis by (rule passed_over_append)
qed

lemma js_trim_ends: "s \<noteq> [] \<Longrightarrow> \<not> is_ws (hd s) \<Longrightarrow> \<not> is_ws (last s) \<Longrightarrow> js_trim s = s"
proof -
  assume s: "s \<noteq> []" "\<not> is_ws (hd s)" "\<not> is_ws (last s)"
  then have "dropWhile is_ws s = s" by (cases s) auto
  moreover from s have "dropWhile is_ws (rev s) = rev s" by (cases s rule: rev_cases) auto
  ultimately show ?thesis by (simp add: js_trim_def)
qed

lemma split_join_passed:
  "ws \<noteq> [] \<Longrightarrow> \<forall>w \<in> set ws. passed_over 0 w \<and> w \<noteq> [] \<and> js_trim w = w \<Longrightarrow>
   split_top_from (js_join '','' ws) parts [] 0 = parts @ ws"
proof (induction "'',''" ws arbitrary: parts rule: js_join.induct)
  case (2 x)
  then have "split_top_from (x @ []) parts [] 0 = split_top_from [] parts ([] @ x) 0"
    by (simp add: passed_over_def del: append_Nil append_Nil2)
  with 2 show ?case by (simp add: push_trimmed_def)
next
  case (3 x y xs)
  then have "split_top_from (x @ '','' @ js_join '','' (y # xs)) parts [] 0 =
    split_top_from ('','' @ js_join '','' (y # xs)) parts ([] @ x) 0"
    by (simp only: passed_over_def list.set ball_simps)
  with 3 show ?case by (simp add: push_trimmed_def)
qed simp

lemma plain_passed_over: "list_all plain_char w \<Longrightarrow> passed_over 0 w"
  by (rule passed_over_plain) (erule list.pred_mono_strong, simp add: plain_char_def)

lemma plain_trim: "list_all plain_char w \<Longrightarrow> js_trim w = w"
  by (rule js_trim_id) (erule list.pred_mono_strong, simp add: plain_char_def)

lemma printable_condition_cases:
  assumes "printable_condition c"
  obtains col op v where "c = simple_condition col op v" "is_identifier col"
    "js_lower col \<noteq> ''not''" "op \<in> set simple_operators" "op \<noteq> ''in''"
    "list_all plain_char (value_text v)" "coerce_scalar (value_text v) = v"
proof -
  from assms obtain col where col: "gc_column c = Some col"
    by (auto simp: printable_condition_def split: option.splits)
  show ?thesis
    by (rule that [of col "gc_operator c" "gc_value c"])
      (use assms in \<open>simp_all add: printable_condition_def col\<close>)
qed

lemma ident_plain: "list_all ident_part s \<Longrightarrow> list_all plain_char s"
  by (auto simp: list_all_iff plain_char_def char_class_defs)

lemma simple_operator_ident: "op \<in> set simple_operators \<Longrightarrow> list_all ident_part op \<and> op \<noteq> [] \<and> js_lower op = op"
  by (auto simp: simple_operators_def char_class_defs js_lower_def lower_char_def)

lemma plain_char_dot: "plain_char (CHR ''.'')"
  by (simp add: plain_char_def is_ws_def code_def)

lemma pred_text_plain:
  assumes "printable_condition c"
  shows "list_all plain_char (show_legacy (PredNode c))"
proof -
  from assms obtain col op v where c: "c = simple_condition col op v" "is_identifier col"
    "op \<in> set simple_operators" "list_all plain_char (value_text v)"
    by (elim printable_condition_cases)
  from c(2) have "list_all plain_char col" by (intro ident_plain is_identifier_parts)
  moreover from c(3) have "list_all plain_char op" using simple_operator_ident ident_plain by blast
  ultimately show ?thesis using c(1,4) plain_char_dot by (simp add: simple_condition_def)
qed

lemma pred_text_ne [simp]: "show_legacy (PredNode c) \<noteq> []"
  by simp

lemma show_legacy_shape:
  "printable n \<Longrightarrow> passed_over 0 (show_legacy n) \<and> show_legacy n \<noteq> [] \<and> js_trim (show_legacy n) = show_legacy n"
proof (induction n rule: printable.induct)
  case (1 c)
  then have p: "list_all plain_char (show_legacy (PredNode c))"
    by (intro pred_text_plain) (simp only: printable.simps)
  then have "passed_over 0 (show_legacy (PredNode c))" "js_trim (show_legacy (PredNode c)) = show_legacy (PredNode c)"
    by (rule plain_passed_over, rule plain_trim)
  then show ?case using pred_text_ne by blast
next
  case (2 cs)
  then have "passed_over (Suc 0) (js_join '','' (map show_legacy cs))"
    by (auto intro!: passed_over_join simp: list_all_iff)
  then have "passed_over 0 (''and'' @ ''('' @ js_join '','' (map show_legacy cs) @ '')'')"
    by (intro passed_over_group passed_over_plain) simp_all
  then show ?case by (auto intro!: js_trim_ends simp: is_ws_def code_def)
next
  case (3 cs)
  then have "passed_over (Suc 0) (js_join '','' (map show_legacy cs))"
    by (auto intro!: passed_over_join simp: list_all_iff)
  then have "passed_over 0 (''or'' @ ''('' @ js_join '','' (map show_legacy cs) @ '')'')"
    by (intro passed_over_group passed_over_plain) simp_all
  then show ?case by (auto intro!: js_trim_ends simp: is_ws_def code_def)
next
  case (4 n)
  then have "passed_over (Suc 0) (show_legacy n)" by (simp add: passed_over_mono)
  then have "passed_over 0 (''not'' @ ''('' @ show_legacy n @ '')'')"
    by (intro passed_over_group passed_over_plain) simp_all
  then show ?case by (auto intro!: js_trim_ends simp: is_ws_def code_def)
qed

lemma split_show:
  "ns \<noteq> [] \<Longrightarrow> list_all printable ns \<Longrightarrow>
   split_top_level (js_join '','' (map show_legacy ns)) = map show_legacy ns"
  using split_join_passed [of "map show_legacy ns" "[]"] show_legacy_shape
  by (auto simp: split_top_level_def list_all_iff)

text \<open>No group call is found in a predicate, and the right one in a group.\<close>

lemma group_call_self:
  "js_lower name = name \<Longrightarrow> js_trim (name @ ''('' @ inner @ '')'') = name @ ''('' @ inner @ '')'' \<Longrightarrow>
   parse_group_call (name @ ''('' @ inner @ '')'') name = Some inner"
  by (simp add: parse_group_call_def Let_def strip_ends_def is_ws_def code_def)

lemma group_call_no_paren: "CHR ''('' \<notin> set t \<Longrightarrow> parse_group_call t name = None"
proof -
  assume a: "CHR ''('' \<notin> set t"
  let ?r = "dropWhile is_ws (drop (length name) (js_trim t))"
  have "set ?r \<subseteq> set t"
    by (auto simp: js_trim_def dest!: set_dropWhileD in_set_dropD)
  with a have "CHR ''('' \<notin> set ?r" by blast
  then have "hd ?r \<noteq> CHR ''(''" if "?r \<noteq> []"
    using hd_in_set [OF that] by metis
  then have "\<not> (2 \<le> length ?r \<and> hd ?r = CHR ''('')" by fastforce
  then show ?thesis by (simp only: parse_group_call_def Let_def) (metis (no_types, lifting))
qed

lemma lower_char_dot: "lower_char c = CHR ''.'' \<longleftrightarrow> c = CHR ''.''"
proof (cases "is_upper c")
  case True
  then show ?thesis using lower_upper_code [OF True] by (auto simp: is_upper_def code_def)
qed (simp add: lower_char_def)

lemma not_call_column:
  assumes "is_not_call t"
  shows "js_lower (takeWhile (\<lambda>c. c \<noteq> CHR ''.'') t) = ''not''"
proof -
  from assms obtain a b c d r where t: "t = a # b # c # d # r"
    using is_not_call_length [OF assms] by (auto simp: numeral_eq_Suc Suc_le_length_iff)
  from assms have "lower_char a = CHR ''n''" "lower_char b = CHR ''o''" "lower_char c = CHR ''t''" "d = CHR ''.''"
    by (simp_all add: t is_not_call_def js_lower_def lower_char_dot)
  then show ?thesis using lower_char_dot [of a] lower_char_dot [of b] lower_char_dot [of c]
    by (simp add: t js_lower_def)
qed

lemma takeWhile_dot: "CHR ''.'' \<notin> set col \<Longrightarrow> takeWhile (\<lambda>c. c \<noteq> CHR ''.'') (col @ CHR ''.'' # s) = col"
  by (induction col) auto

lemma pred_text_facts:
  assumes "printable_condition c"
  shows "CHR ''('' \<notin> set (show_legacy (PredNode c))" and "\<not> is_not_call (show_legacy (PredNode c))"
    and "parse_predicate (show_legacy (PredNode c)) = Inr c"
    and "unwrap_balanced_parens (show_legacy (PredNode c)) = None"
proof -
  let ?t = "show_legacy (PredNode c)"
  have plain: "list_all plain_char ?t" by (rule pred_text_plain [OF assms])
  then show no: "CHR ''('' \<notin> set ?t" by (auto simp: list_all_iff plain_char_def)
  then show "unwrap_balanced_parens ?t = None"
    using plain_trim [OF plain] by (cases ?t) (auto simp: unwrap_balanced_parens_def starts_with_def Let_def simp del: show_legacy.simps)
  from assms obtain col op v where c: "c = simple_condition col op v" and col: "is_identifier col"
    "js_lower col \<noteq> ''not''" and op: "op \<in> set simple_operators" "op \<noteq> ''in''"
    and v: "list_all plain_char (value_text v)" "coerce_scalar (value_text v) = v"
    by (elim printable_condition_cases)
  have t: "?t = col @ CHR ''.'' # op @ CHR ''.'' # value_text v" by (simp add: c simple_condition_def)
  have dots: "CHR ''.'' \<notin> set col" "CHR ''.'' \<notin> set op"
    using is_identifier_parts [OF col(1)] simple_operator_ident [OF op(1)] ident_part_no_dot
    by (auto simp: list_all_iff)
  have trim: "js_trim col = col" "js_trim op = op" "js_lower op = op"
    using js_trim_identifier [OF col(1)] simple_operator_ident [OF op(1)] ident_plain plain_trim by auto
  have parts: "split_on (CHR ''.'') ?t = col # op # split_on (CHR ''.'') (value_text v)"
    by (simp only: t) (simp add: split_on_append_sep dots)
  show "parse_predicate ?t = Inr c"
    using op v length_greater_0_conv [of "split_on (CHR ''.'') (value_text v)"]
    by (simp only: parse_predicate_def parts Let_def) (simp add: trim col(1) c js_join_split_on)
  show "\<not> is_not_call ?t"
  proof
    assume "is_not_call ?t"
    then have "js_lower (takeWhile (\<lambda>c. c \<noteq> CHR ''.'') ?t) = ''not''" by (rule not_call_column)
    then show False using col(2) dots(1) by (simp only: t takeWhile_dot [OF dots(1)])
  qed
qed

lemma wrong_group_call:
  "printable n \<Longrightarrow> \<not> (name = ''and'' \<and> (\<exists>cs. n = AndNode cs)) \<Longrightarrow> \<not> (name = ''or'' \<and> (\<exists>cs. n = OrNode cs)) \<Longrightarrow>
   \<not> (name = ''not'' \<and> (\<exists>m. n = NotNode m)) \<Longrightarrow> name \<in> {''and'', ''or'', ''not''} \<Longrightarrow>
   parse_group_call (show_legacy n) name = None"
proof (cases n)
  case (PredNode c)
  assume "printable n"
  then have "printable_condition c" by (simp add: PredNode)
  then show ?thesis unfolding PredNode by (intro group_call_no_paren pred_text_facts(1))
qed (use show_legacy_shape [of n] in
  \<open>auto simp: parse_group_call_def Let_def js_lower_def lower_char_def char_class_defs\<close>)

lemma right_group_call:
  "printable (AndNode cs) \<Longrightarrow>
     parse_group_call (show_legacy (AndNode cs)) ''and'' = Some (js_join '','' (map show_legacy cs))"
  "printable (OrNode cs) \<Longrightarrow>
     parse_group_call (show_legacy (OrNode cs)) ''or'' = Some (js_join '','' (map show_legacy cs))"
  "printable (NotNode n) \<Longrightarrow> parse_group_call (show_legacy (NotNode n)) ''not'' = Some (show_legacy n)"
  using show_legacy_shape [of "AndNode cs"] show_legacy_shape [of "OrNode cs"] show_legacy_shape [of "NotNode n"]
    group_call_self [of "''and''" "js_join '','' (map show_legacy cs)"]
    group_call_self [of "''or''" "js_join '','' (map show_legacy cs)"]
    group_call_self [of "''not''" "show_legacy n"]
  by (simp_all add: js_lower_def lower_char_def char_class_defs)

lemma parse_list_show:
  assumes "list_all printable ns" "ns \<noteq> []" "\<forall>n \<in> set ns. parse_term (show_legacy n) = Inr n"
  shows "parse_boolean_list (js_join '','' (map show_legacy ns)) d =
    Inr (case ns of [n] \<Rightarrow> n | _ \<Rightarrow> if d then OrNode ns else AndNode ns)"
proof -
  have "map_r parse_term (map show_legacy ns) = Inr ns"
    using assms(3) by (simp add: map_r_Inr_iff list_all2_map1 list_all2_same)
  then show ?thesis using assms(1,2) by (subst parse_boolean_list.simps) (simp add: split_show)
qed

lemma parse_term_show: "printable n \<Longrightarrow> parse_term (show_legacy n) = Inr n"
proof (induction n rule: printable.induct)
  case (1 c)
  then have pc: "printable_condition c" by simp
  show ?case
    using show_legacy_shape [OF 1] pred_text_facts [OF pc] group_call_no_paren [OF pred_text_facts(1) [OF pc]]
    by (subst parse_term.simps) (simp add: Let_def del: show_legacy.simps)
next
  case (2 cs)
  then have "parse_boolean_list (js_join '','' (map show_legacy cs)) False = Inr (AndNode cs)"
    using parse_list_show [of cs False] by (cases cs rule: remdups_adj.cases) (auto simp: list_all_iff)
  then show ?case using show_legacy_shape [OF "2.prems"] right_group_call(1) [OF "2.prems"]
    by (subst parse_term.simps) (simp add: Let_def del: show_legacy.simps)
next
  case (3 cs)
  then have "parse_boolean_list (js_join '','' (map show_legacy cs)) True = Inr (OrNode cs)"
    using parse_list_show [of cs True] by (cases cs rule: remdups_adj.cases) (auto simp: list_all_iff)
  then show ?case
    using show_legacy_shape [OF "3.prems"] right_group_call(2) [OF "3.prems"] wrong_group_call [OF "3.prems", of "''and''"]
    by (subst parse_term.simps) (simp add: Let_def del: show_legacy.simps)
next
  case (4 n)
  then have "parse_boolean_list (show_legacy n) False = Inr n"
    using parse_list_show [of "[n]" False] by simp
  then show ?case
    using show_legacy_shape [OF "4.prems"] right_group_call(3) [OF "4.prems"]
      wrong_group_call [OF "4.prems", of "''and''"] wrong_group_call [OF "4.prems", of "''or''"]
    by (subst parse_term.simps) (simp add: Let_def del: show_legacy.simps)
qed

lemma trim_ends: "js_trim w = w \<Longrightarrow> w \<noteq> [] \<Longrightarrow> \<not> is_ws (hd w) \<and> \<not> is_ws (last w)"
proof -
  assume w: "js_trim w = w" "w \<noteq> []"
  have "length (js_trim w) \<le> length (dropWhile is_ws w)" "length (dropWhile is_ws w) \<le> length w"
    using length_dropWhile_le [of is_ws "rev (dropWhile is_ws w)"]
    by (simp_all add: js_trim_def length_dropWhile_le)
  with w(1) have "length (dropWhile is_ws w) = length w" by simp
  moreover have "length (takeWhile is_ws w) + length (dropWhile is_ws w) = length w"
    by (metis length_append takeWhile_dropWhile_id)
  ultimately have "takeWhile is_ws w = []" by simp
  then have d: "dropWhile is_ws w = w" using takeWhile_dropWhile_id [of is_ws w] by simp
  moreover from this w(1) have "dropWhile is_ws (rev w) = rev w" by (simp add: js_trim_def rev_swap)
  ultimately show ?thesis using w(2) by (metis dropWhile_eq_self_iff hd_rev rev_is_Nil_conv)
qed

lemma trim_join:
  assumes "ws \<noteq> []" "\<forall>w \<in> set ws. w \<noteq> [] \<and> js_trim w = w"
  shows "js_join sep ws \<noteq> []" and "js_trim (js_join sep ws) = js_join sep ws"
proof -
  have "js_join sep ws \<noteq> [] \<and> hd (js_join sep ws) = hd (hd ws) \<and> last (js_join sep ws) = last (last ws)"
    using assms by (induction sep ws rule: js_join.induct) auto
  moreover have "\<not> is_ws (hd (hd ws))" "\<not> is_ws (last (last ws))"
    using assms trim_ends by (auto dest: bspec [of _ _ "hd ws"] bspec [of _ _ "last ws"])
  ultimately show "js_join sep ws \<noteq> []" "js_trim (js_join sep ws) = js_join sep ws"
    by (auto intro: js_trim_ends)
qed

lemma parse_show_legacy:
  assumes "list_all printable ns" "ns \<noteq> []"
  shows "parse_legacy_boolean_expression (js_join '','' (map show_legacy ns)) disjunct =
    Inr (case ns of [n] \<Rightarrow> n | _ \<Rightarrow> if disjunct then OrNode ns else AndNode ns)"
proof -
  have "\<forall>w \<in> set (map show_legacy ns). w \<noteq> [] \<and> js_trim w = w"
    using show_legacy_shape assms(1) by (auto simp: list_all_iff)
  then have j: "js_join '','' (map show_legacy ns) \<noteq> []"
    "js_trim (js_join '','' (map show_legacy ns)) = js_join '','' (map show_legacy ns)"
    using assms(2) trim_join [of "map show_legacy ns" "'',''"] by simp_all
  moreover have "parse_boolean_list (js_join '','' (map show_legacy ns)) disjunct =
      Inr (case ns of [n] \<Rightarrow> n | _ \<Rightarrow> if disjunct then OrNode ns else AndNode ns)"
    using assms parse_term_show by (intro parse_list_show) (auto simp: list_all_iff)
  ultimately show ?thesis by (simp add: parse_legacy_boolean_expression_def)
qed

end
