(* ===== verification/GatewayPayload.thy ===== *)
theory GatewayPayload
  imports LegacyBoolean
begin

text \<open>
  The flat payloads of the gateway (\<open>gateway/types.ts\<close>) that the PostgreSQL and D1 compilers
  take. A member typed as a number is a \<open>jnum option\<close>, an optional list that the code only
  asks for its length is a list, a flag compared with \<open>=== true\<close> is a \<open>bool\<close>; members that may
  hold any JSON stay a \<open>jval\<close> with \<open>Undefined\<close> for absent.
\<close>

datatype columns_spec = ColumnText string | ColumnList "string list"

record paging =
  pb_limit :: "jnum option"
  pb_offset :: "jnum option"
  pb_current_page :: "jnum option"
  pb_page_size :: "jnum option"

record sort_by =
  sb_direction :: string
  sb_field :: string

record fetch_payload =
  fp_columns :: "columns_spec option"
  fp_conditions :: "gateway_condition list"
  fp_head :: bool
  fp_paging :: paging
  fp_select :: jval
  fp_sort_by :: "sort_by option"
  fp_table_name :: "string option"
  fp_view_name :: "string option"
  fp_where :: jval

text \<open>A row is the fields of an object, or \<open>None\<close> for \<open>null\<close> and \<open>undefined\<close>.\<close>

type_synonym row = "fields option"

datatype insert_body = SingleRow row | RowList "row list"

record insert_payload =
  ip_columns :: "columns_spec option"
  ip_default_to_null :: bool
  ip_head :: bool
  ip_insert_body :: insert_body
  ip_on_conflict :: "columns_spec option"
  ip_table_name :: "string option"
  ip_update_body :: "fields option"

record update_payload =
  up_columns :: "columns_spec option"
  up_conditions :: "gateway_condition list"
  up_head :: bool
  up_paging :: paging
  up_sort_by :: "sort_by option"
  up_table_name :: "string option"
  up_update_body :: "fields option"

record delete_payload =
  dp_columns :: "columns_spec option"
  dp_conditions :: "gateway_condition list"
  dp_paging :: paging
  dp_resource_id :: "string option"
  dp_sort_by :: "sort_by option"
  dp_table_name :: "string option"

record rpc_filter =
  rf_column :: string
  rf_operator :: string
  rf_value :: jval

record rpc_order =
  ro_ascending :: "bool option"
  ro_column :: string

record rpc_payload =
  rp_args :: jval
  rp_filters :: "rpc_filter list"
  rp_function :: string
  rp_function_name :: "string option"
  rp_head :: bool
  rp_limit :: "jnum option"
  rp_offset :: "jnum option"
  rp_order :: "rpc_order option"
  rp_schema :: "string option"
  rp_select :: "columns_spec option"

text \<open>A compiled statement: its text and the values to bind.\<close>

record compiled_query =
  cq_text :: string
  cq_values :: "jval list"

definition has_pagination_bounds :: "paging \<Rightarrow> bool" where
  "has_pagination_bounds p \<longleftrightarrow>
     pb_limit p \<noteq> None \<or> pb_offset p \<noteq> None \<or> pb_page_size p \<noteq> None \<or> pb_current_page p \<noteq> None"

text \<open>\<open>Math.max(0, Math.trunc(n))\<close> as text.\<close>

definition bound_number :: "jnum \<Rightarrow> jnum" where
  "bound_number n = num_max (jint 0) (num_trunc n)"

definition bound_text :: "jnum \<Rightarrow> string" where
  "bound_text n = number_to_string (bound_number n)"

definition row_fields :: "row \<Rightarrow> fields" where
  "row_fields r = (case r of None \<Rightarrow> [] | Some fs \<Rightarrow> fs)"

definition insert_rows :: "insert_body \<Rightarrow> row list" where
  "insert_rows b = (case b of SingleRow r \<Rightarrow> [r] | RowList rs \<Rightarrow> rs)"

text \<open>The columns of a multi-row insert: every key in order of first appearance.\<close>

definition insert_columns :: "row list \<Rightarrow> string list" where
  "insert_columns rows = nub (concat (map (\<lambda>r. map fst (row_fields r)) rows))"

text \<open>\<open>Boolean(payload.columns) && payload.head !== true\<close>\<close>

definition wants_returning :: "columns_spec option \<Rightarrow> bool \<Rightarrow> bool" where
  "wants_returning columns head \<longleftrightarrow>
     columns \<noteq> None \<and> columns \<noteq> Some (ColumnText []) \<and> \<not> head"

section \<open>The text of a bound\<close>

definition number_char :: "char \<Rightarrow> bool" where
  "number_char c \<longleftrightarrow> is_digit c \<or> c \<in> set ''.e+NaInfity''"

lemma decimal_point_ge_1: "1 \<le> v \<Longrightarrow> 1 \<le> n \<Longrightarrow> 1 \<le> decimal_point f v n"
proof (induction f v n rule: decimal_point.induct)
  case (2 f v n)
  have "n \<noteq> 1" if "v < pow10 (n - 1)"
    using that 2(3) by (auto simp: pow10_def)
  with 2 show ?case by auto
qed simp

lemma shortest_digits_ge: "n \<le> fst (shortest_digits v n)"
  by (simp add: shortest_digits_def Let_def split: option.splits)

lemma show_nat_number_chars: "list_all number_char (show_nat n)"
  using show_nat_digits [of n] by (auto simp: list_all_iff number_char_def)

lemma list_all_take: "list_all P xs \<Longrightarrow> list_all P (take n xs)"
  by (auto simp: list_all_iff dest: in_set_takeD)

lemma list_all_drop: "list_all P xs \<Longrightarrow> list_all P (drop n xs)"
  by (auto simp: list_all_iff dest: in_set_dropD)

lemma show_positive_chars: "1 \<le> v \<Longrightarrow> list_all number_char (show_positive v)"
proof -
  assume v: "1 \<le> v"
  obtain n k d where s: "shortest_digits v (decimal_point 700 v 1) = (n, k, d)" by (cases "shortest_digits v (decimal_point 700 v 1)")
  have "1 \<le> n" using shortest_digits_ge [of "decimal_point 700 v 1" v] decimal_point_ge_1 [OF v, of 1 700] s by simp
  then show ?thesis
    using show_nat_number_chars
    by (auto simp: show_positive_def s Let_def list_all_take list_all_drop)
      (auto simp: list_all_iff number_char_def is_digit_def code_def)
qed

lemma bound_number_cases:
  "bound_number n = NaN \<or> bound_number n = PosInf \<or> (\<exists>m :: int. 0 \<le> m \<and> bound_number n = jint m)"
  by (cases n) (auto simp: bound_number_def num_max_def num_trunc_def jint_def not_less split: if_splits)

lemma bound_text_chars: "list_all number_char (bound_text n)"
proof -
  consider "bound_number n = NaN" | "bound_number n = PosInf" | m :: int where "0 \<le> m" "bound_number n = jint m"
    using bound_number_cases by blast
  then show ?thesis
  proof cases
    case 3
    show ?thesis
    proof (cases "m = 0")
      case False
      with 3 have "1 \<le> (of_int m :: rat)" by simp
      then show ?thesis using 3 False show_positive_chars show_nat_number_chars
        by (auto simp: bound_text_def number_to_string_def jint_def show_int_def)
    qed (use 3 in \<open>simp add: bound_text_def number_to_string_def jint_def number_char_def is_digit_def code_def\<close>)
  qed (simp_all add: bound_text_def number_to_string_def number_char_def)
qed

lemma number_char_no_dollar: "\<not> number_char (CHR ''$'')"
  by (simp add: number_char_def)

lemma bound_text_no_dollar [simp]: "CHR ''$'' \<notin> set (bound_text n)"
  using bound_text_chars [of n] number_char_no_dollar by (auto simp: list_all_iff)

end
