(* ===== verification/PostgresSql.thy ===== *)
theory PostgresSql
  imports GatewayPayload QueryAst
begin

text \<open>
  The PostgreSQL compiler of flat gateway payloads (\<open>postgres/sql.ts\<close>): select, count, insert
  with upsert, update and delete with their row bounds, and function calls. An error is its
  code; the wording of its message is left out.
\<close>

datatype pg_error = PgError string

section \<open>Identifiers, casts and values\<close>

definition safe_casts :: "string list" where
  "safe_casts =
     [''text'', ''uuid'', ''int'', ''integer'', ''bigint'', ''boolean'', ''bool'', ''numeric'', ''float'',
      ''double'', ''json'', ''jsonb'', ''date'', ''timestamp'', ''timestamptz'']"

definition quote_ident :: "string \<Rightarrow> (pg_error, string) result" where
  "quote_ident name =
     (let t = js_trim name
      in if t = [] then Throw (PgError ''invalid_identifier'')
         else if \<not> is_qualified t then Throw (PgError ''invalid_identifier'')
         else Ok (quote_qualified_identifier t))"

definition quote_select_token_strict :: "string \<Rightarrow> (pg_error, string) result" where
  "quote_select_token_strict token =
     (let t = js_trim token
      in if t = [] \<or> t = ''*'' then Ok ''*''
         else if is_qualified t then Ok (quote_qualified_identifier t)
         else (case response_alias t of
             Some (a, b) \<Rightarrow> Ok (quote_qualified_identifier b @ '' AS '' @ quote_qualified_identifier a)
           | None \<Rightarrow>
         (case sql_alias t of
             Some (b, a) \<Rightarrow> Ok (quote_qualified_identifier b @ '' AS '' @ quote_qualified_identifier a)
           | None \<Rightarrow> Throw (PgError ''unsafe_select''))))"

definition select_clause :: "columns_spec option \<Rightarrow> (pg_error, string) result" where
  "select_clause columns =
     (case columns of
        None \<Rightarrow> Ok ''*''
      | Some (ColumnText c) \<Rightarrow>
          (let t = js_trim c
           in if t = [] \<or> t = ''*'' then Ok ''*''
              else rmap (js_join '', '') (map_r quote_select_token_strict (split_on (CHR '','') t)))
      | Some (ColumnList cs) \<Rightarrow>
          if cs = [] then Ok ''*''
          else rmap (js_join '', '') (map_r quote_select_token_strict cs))"

text \<open>\<open>applyCast\<close>: what it appends to the expression.\<close>

definition cast_suffix :: "string option \<Rightarrow> (pg_error, string) result" where
  "cast_suffix cast =
     (case cast of
        None \<Rightarrow> Ok []
      | Some c \<Rightarrow>
          if c = [] then Ok []
          else (let n = js_lower (js_trim c)
                in if n \<in> set safe_casts then Ok (''::'' @ n) else Throw (PgError ''unsupported_cast'')))"

definition apply_cast :: "string \<Rightarrow> string option \<Rightarrow> (pg_error, string) result" where
  "apply_cast expr cast = rmap (\<lambda>s. expr @ s) (cast_suffix cast)"

definition json_value :: "jval \<Rightarrow> jval" where
  "json_value v =
     (case v of
        Undefined \<Rightarrow> Null
      | JObj i fs \<Rightarrow> JStr (stringify v)
      | JArr vs \<Rightarrow> if list_ex is_object vs then JStr (stringify v) else v
      | _ \<Rightarrow> v)"

section \<open>Conditions\<close>

definition nonempty_trim :: "string option \<Rightarrow> string" where
  "nonempty_trim o' = (case o' of None \<Rightarrow> [] | Some s \<Rightarrow> js_trim s)"

definition condition_column :: "gateway_condition \<Rightarrow> string" where
  "condition_column c =
     (if nonempty_trim (gc_column c) \<noteq> [] then nonempty_trim (gc_column c)
      else nonempty_trim (gc_eq_column c))"

definition condition_operator :: "gateway_condition \<Rightarrow> string" where
  "condition_operator c = js_lower (if gc_operator c = [] then ''eq'' else gc_operator c)"

definition condition_value :: "gateway_condition \<Rightarrow> jval" where
  "condition_value c = (if gc_value c = Undefined then gc_eq_value c else gc_value c)"

definition bind_cast :: "string option \<Rightarrow> jval \<Rightarrow> pg_error emit" where
  "bind_cast cast v = template [emit_bind v, emit_lift (cast_suffix cast)]"

definition bind_list :: "string option \<Rightarrow> jval list \<Rightarrow> pg_error emit" where
  "bind_list cast vs = emit_join '', '' (map (\<lambda>v. bind_cast cast (nullish_or v Null)) vs)"

definition in_list :: "string \<Rightarrow> string option \<Rightarrow> jval list \<Rightarrow> pg_error emit" where
  "in_list col cast vs =
     (if vs = [] then emit_text ''1 = 0''
      else template [emit_text (col @ '' IN (''), bind_list cast vs, emit_text '')''])"

definition binary :: "string \<Rightarrow> string \<Rightarrow> string option \<Rightarrow> jval \<Rightarrow> pg_error emit" where
  "binary col smb cast v = template [emit_text (col @ '' '' @ smb @ '' ''), bind_cast cast (nullish_or v Null)]"

definition comparison_symbol :: "string \<Rightarrow> string option" where
  "comparison_symbol op =
     map_of [(''gt'', ''>''), (''gte'', ''>=''), (''lt'', ''<''), (''lte'', ''<=''), (''like'', ''LIKE''),
       (''ilike'', ''ILIKE'')] op"

definition containment :: "string \<Rightarrow> string \<Rightarrow> string option \<Rightarrow> jval \<Rightarrow> pg_error emit" where
  "containment col smb cast v =
     (if is_record v
      then template [emit_text (col @ '' '' @ smb @ '' ''), bind_cast cast (JStr (stringify v)), emit_text ''::jsonb'']
      else binary col smb cast v)"

text \<open>The switch over the operator.\<close>

definition operator_where :: "string \<Rightarrow> string \<Rightarrow> string option \<Rightarrow> jval \<Rightarrow> pg_error emit" where
  "operator_where col op cast v =
     (if op = ''eq'' then
        (case v of
           JArr vs \<Rightarrow> in_list col cast vs
         | _ \<Rightarrow> if v = Null then emit_text (col @ '' IS NULL'') else binary col ''='' cast v)
      else if op = ''neq'' then
        (if v = Null then emit_text (col @ '' IS NOT NULL'') else binary col ''<>'' cast v)
      else if op = ''in'' then
        in_list col cast (case v of JArr vs \<Rightarrow> vs | Undefined \<Rightarrow> [] | _ \<Rightarrow> [v])
      else if op = ''is'' then
        (if v = Null \<or> v = JStr ''null'' then emit_text (col @ '' IS NULL'')
         else if v = JBool True \<or> v = JStr ''true'' then emit_text (col @ '' IS TRUE'')
         else if v = JBool False \<or> v = JStr ''false'' then emit_text (col @ '' IS FALSE'')
         else template [emit_text (col @ '' IS ''), bind_cast cast v])
      else if op = ''contains'' then containment col ''@>'' cast v
      else if op = ''containedby'' then containment col ''<@'' cast v
      else (case comparison_symbol op of
              Some smb \<Rightarrow> binary col smb cast v
            | None \<Rightarrow> emit_fail (PgError ''unsupported_operator'')))"

definition emit_given :: "('e, 'a) result \<Rightarrow> ('a \<Rightarrow> 'e emit) \<Rightarrow> 'e emit" where
  "emit_given r f vs = rbind r (\<lambda>x. f x vs)"

text \<open>A condition that is not a legacy expression.\<close>

definition simple_where :: "gateway_condition \<Rightarrow> pg_error emit" where
  "simple_where c =
     (if condition_column c = [] then emit_fail (PgError ''invalid_condition'')
      else emit_given
        (rbind (quote_ident (condition_column c)) (\<lambda>q. apply_cast q (gc_column_cast c)))
        (\<lambda>col. operator_where col (condition_operator c) (gc_value_cast c) (condition_value c)))"

text \<open>
  \<open>conditionToWhere\<close>. A predicate of a parsed expression never has the operator \<open>or\<close> or \<open>not\<close>,
  so the recursive call of the code is \<open>simple_where\<close> (\<open>predicate_where\<close> below).
\<close>

definition condition_to_where :: "gateway_condition \<Rightarrow> pg_error emit" where
  "condition_to_where c =
     (if condition_operator c = ''or'' \<or> condition_operator c = ''not'' then
        (case condition_value c of
           JStr text \<Rightarrow>
             (case parse_legacy_boolean_expression text (condition_operator c = ''or'') of
                Inl e \<Rightarrow> emit_fail (PgError ''unsupported_operator'')
              | Inr tree \<Rightarrow>
                  if condition_operator c = ''not''
                  then template [emit_text ''(NOT ('', compile_legacy_boolean_node tree simple_where, emit_text ''))'']
                  else compile_legacy_boolean_node tree simple_where)
         | _ \<Rightarrow> emit_fail (PgError ''unsupported_operator''))
      else simple_where c)"

lemma predicate_where: "safe_predicate c \<Longrightarrow> condition_to_where c = simple_where c"
  by (auto simp: safe_predicate_def condition_to_where_def condition_operator_def simple_operators_def
      js_lower_def lower_char_def char_class_defs)

text \<open>A condition in the old \<open>eq_column\<close> spelling is rewritten first.\<close>

definition canonical_condition :: "gateway_condition \<Rightarrow> gateway_condition" where
  "canonical_condition c =
     (if gc_operator c = [] \<and> gc_eq_column c \<noteq> None \<and> gc_eq_column c \<noteq> Some []
      then c\<lparr>gc_column := gc_eq_column c, gc_operator := ''eq'', gc_value := gc_eq_value c\<rparr>
      else c)"

definition where_parts :: "gateway_condition list \<Rightarrow> pg_error emit" where
  "where_parts cs = emit_join '' AND '' (map (\<lambda>c. condition_to_where (canonical_condition c)) cs)"

definition build_where :: "gateway_condition list \<Rightarrow> (pg_error, string \<times> jval list) result" where
  "build_where cs =
     (if cs = [] then Ok ([], []) else rmap (\<lambda>(t, vs). (''WHERE '' @ t, vs)) (where_parts cs []))"

definition order_clause :: "sort_by option \<Rightarrow> (pg_error, string) result" where
  "order_clause order =
     (case order of
        None \<Rightarrow> Ok []
      | Some s \<Rightarrow>
          if js_trim (sb_field s) = [] then Ok []
          else rmap (\<lambda>q. ''ORDER BY '' @ q @ '' '' @ (if sb_direction s = ''descending'' then ''DESC'' else ''ASC''))
            (quote_ident (sb_field s)))"

text \<open>The limit and offset in force, after \<open>page_size\<close> and \<open>current_page\<close>.\<close>

definition effective_limit :: "paging \<Rightarrow> jnum option" where
  "effective_limit p = or_else (pb_limit p) (pb_page_size p)"

definition effective_offset :: "paging \<Rightarrow> jnum option" where
  "effective_offset p =
     or_else (pb_offset p)
       (case (pb_current_page p, or_else (pb_page_size p) (pb_limit p)) of
          (Some page, Some per) \<Rightarrow> Some (num_max (jint 0) (num_mul (num_sub page (jint 1)) per))
        | _ \<Rightarrow> None)"

definition limit_offset_clause :: "paging \<Rightarrow> string" where
  "limit_offset_clause p =
     js_join '' ''
       ((case effective_limit p of None \<Rightarrow> [] | Some n \<Rightarrow> [''LIMIT '' @ bound_text n]) @
        (case effective_offset p of None \<Rightarrow> [] | Some n \<Rightarrow> [''OFFSET '' @ bound_text n]))"

definition assert_effective_mutation_bounds :: "paging \<Rightarrow> (pg_error, unit) result" where
  "assert_effective_mutation_bounds p =
     (if pb_current_page p \<noteq> None \<and> pb_page_size p = None \<and> pb_limit p = None
      then Throw (PgError ''page_without_size'')
      else if js_trim (limit_offset_clause p) = [] then Throw (PgError ''invalid_pagination_bounds'')
      else Ok ())"

definition nonempty_parts :: "string list \<Rightarrow> string" where
  "nonempty_parts parts = js_join '' '' (filter (\<lambda>s. s \<noteq> []) parts)"

section \<open>Select and count\<close>

definition object_entries :: "jval \<Rightarrow> fields" where
  "object_entries v =
     (case v of
        JObj _ fs \<Rightarrow> fs
      | JArr vs \<Rightarrow> zip (map show_nat [0..<length vs]) vs
      | _ \<Rightarrow> [])"

definition reject_structured_relations :: "fetch_payload \<Rightarrow> (pg_error, unit) result" where
  "reject_structured_relations p =
     (if is_record (fp_select p) \<and> list_ex (\<lambda>(k, v). is_object v) (fields_of (fp_select p))
      then Throw (PgError ''relations_unsupported'')
      else if fp_view_name p \<noteq> None \<and> fp_view_name p \<noteq> Some []
      then Throw (PgError ''view_unsupported'')
      else Ok ())"

definition equality :: "string \<times> jval \<Rightarrow> gateway_condition" where
  "equality kv = simple_condition (fst kv) ''eq'' (snd kv)"

definition resolve_where :: "gateway_condition list \<Rightarrow> jval \<Rightarrow> (pg_error, string \<times> jval list) result" where
  "resolve_where conditions where_object =
     rbind (build_where conditions)
       (\<lambda>w. if fst w = [] \<and> is_object where_object
            then build_where (map equality (object_entries where_object)) else Ok w)"

definition required_name :: "string \<Rightarrow> string option \<Rightarrow> (pg_error, string) result" where
  "required_name err name =
     (if nonempty_trim name = [] then Throw (PgError err) else Ok (nonempty_trim name))"

definition count_from_where :: "string \<Rightarrow> string \<times> jval list \<Rightarrow> (pg_error, compiled_query) result" where
  "count_from_where table w =
     rmap (\<lambda>t. \<lparr>cq_text = nonempty_parts [''SELECT COUNT(*)::bigint AS __athena_count FROM '' @ t, fst w],
                cq_values = snd w\<rparr>)
       (quote_ident table)"

definition selected_keys :: "fields \<Rightarrow> string list" where
  "selected_keys fs = map fst (filter (\<lambda>(k, v). v = JBool True \<or> v = JNum (jint 1)) fs)"

definition fetch_columns :: "fetch_payload \<Rightarrow> columns_spec option" where
  "fetch_columns p =
     (case fp_select p of
        JObj _ fs \<Rightarrow> if selected_keys fs \<noteq> [] then Some (ColumnList (selected_keys fs)) else fp_columns p
      | JStr s \<Rightarrow> if js_trim s \<noteq> [] then Some (ColumnText s) else fp_columns p
      | _ \<Rightarrow> fp_columns p)"

definition compile_postgres_fetch :: "fetch_payload \<Rightarrow> (pg_error, compiled_query) result" where
  "compile_postgres_fetch p =
     rbind (reject_structured_relations p) (\<lambda>_.
     rbind (required_name ''missing_table'' (fp_table_name p)) (\<lambda>table.
     rbind (resolve_where (fp_conditions p) (fp_where p)) (\<lambda>w.
       if fp_head p then count_from_where table w
       else
         rbind (select_clause (fetch_columns p)) (\<lambda>sel.
         rbind (quote_ident table) (\<lambda>t.
         rbind (order_clause (fp_sort_by p)) (\<lambda>ord.
           Ok \<lparr>cq_text = nonempty_parts
                  [''SELECT '' @ sel @ '' FROM '' @ t, fst w, ord, limit_offset_clause (fp_paging p)],
               cq_values = snd w\<rparr>))))))"

definition compile_postgres_count :: "fetch_payload \<Rightarrow> (pg_error, compiled_query) result" where
  "compile_postgres_count p =
     rbind (reject_structured_relations p) (\<lambda>_.
     rbind (required_name ''missing_table'' (fp_table_name p)) (\<lambda>table.
     rbind (resolve_where (fp_conditions p) (fp_where p)) (\<lambda>w. count_from_where table w)))"

definition extract_athena_count :: "jval list \<Rightarrow> jnum" where
  "extract_athena_count rows =
     (let raw = (case rows of JObj _ fs # _ \<Rightarrow> get_prop ''__athena_count'' fs | _ \<Rightarrow> Undefined);
          count = (case raw of
                     JNum n \<Rightarrow> n
                   | BigInt n \<Rightarrow> to_double (of_int n)
                   | _ \<Rightarrow> to_number (nullish_or raw (JNum (jint 0))))
      in if is_finite count then count else jint 0)"

section \<open>Insert\<close>

definition parse_on_conflict_columns :: "columns_spec \<Rightarrow> (pg_error, string list) result" where
  "parse_on_conflict_columns spec =
     (let raw = (case spec of ColumnText s \<Rightarrow> [s] | ColumnList ss \<Rightarrow> ss);
          cols = filter (\<lambda>s. s \<noteq> []) (map js_trim (concat (map (split_on (CHR '','')) raw)))
      in if cols = [] then Throw (PgError ''invalid_on_conflict'') else Ok cols)"

definition assignment :: "string \<times> jval \<Rightarrow> pg_error emit" where
  "assignment kv vs =
     rbind (emit_bind (json_value (snd kv)) vs) (\<lambda>(ph, vs').
       rmap (\<lambda>q. (q @ '' = '' @ ph, vs')) (quote_ident (fst kv)))"

definition excluded_assignment :: "string \<Rightarrow> (pg_error, string) result" where
  "excluded_assignment column = rmap (\<lambda>q. q @ '' = EXCLUDED.'' @ q) (quote_ident column)"

definition no_conflict :: "columns_spec option \<Rightarrow> bool" where
  "no_conflict spec \<longleftrightarrow> spec = None \<or> spec = Some (ColumnText [])"

definition conflict_target :: "string list \<Rightarrow> string" where
  "conflict_target quoted = '' ON CONFLICT ('' @ js_join '', '' quoted @ '') DO ''"

text \<open>\<open>appendOnConflict\<close>: the parts it appends, none or one.\<close>

definition on_conflict_part :: "insert_payload \<Rightarrow> string list \<Rightarrow> pg_error emit" where
  "on_conflict_part p columns =
     (case ip_on_conflict p of
        None \<Rightarrow> emit_text []
      | Some spec \<Rightarrow>
          if spec = ColumnText [] then emit_text []
          else emit_given (parse_on_conflict_columns spec) (\<lambda>cols.
               emit_given (map_r quote_ident cols) (\<lambda>quoted.
                 let target = conflict_target quoted
                 in (case ip_update_body p of
                       Some body \<Rightarrow>
                         if body = [] then emit_text (target @ ''NOTHING'')
                         else template [emit_text (target @ ''UPDATE SET ''),
                                emit_join '', '' (map assignment body)]
                     | None \<Rightarrow>
                         emit_given (map_r excluded_assignment (filter (\<lambda>c. c \<notin> set cols) columns))
                           (\<lambda>sets.
                              if sets = [] then emit_text (target @ ''NOTHING'')
                              else emit_text (target @ ''UPDATE SET '' @ js_join '', '' sets))))))"

definition insert_cell :: "bool \<Rightarrow> fields \<Rightarrow> string \<Rightarrow> pg_error emit" where
  "insert_cell force_null fs column =
     (case map_of fs column of
        None \<Rightarrow> if force_null then emit_bind Null else emit_text ''DEFAULT''
      | Some v \<Rightarrow> emit_bind (json_value v))"

definition value_group :: "bool \<Rightarrow> string list \<Rightarrow> row \<Rightarrow> pg_error emit" where
  "value_group force_null columns r =
     template [emit_text ''('', emit_join '', '' (map (insert_cell force_null (row_fields r)) columns), emit_text '')'']"

definition returning_part :: "columns_spec option \<Rightarrow> bool \<Rightarrow> (pg_error, string) result" where
  "returning_part columns head =
     (if wants_returning columns head then rmap (\<lambda>s. '' RETURNING '' @ s) (select_clause columns) else Ok [])"

definition to_query :: "string \<times> jval list \<Rightarrow> compiled_query" where
  "to_query tv = \<lparr>cq_text = fst tv, cq_values = snd tv\<rparr>"

text \<open>
  The statement of an insert that has columns. The rows' values are bound before the column
  names are quoted, so the template that names the columns comes second in the text order but
  the errors keep the code's order: only the column list can fail here.
\<close>

definition insert_values :: "insert_payload \<Rightarrow> string \<Rightarrow> row list \<Rightarrow> string list \<Rightarrow> pg_error emit" where
  "insert_values p t rows columns =
     emit_given (map_r quote_ident columns) (\<lambda>quoted.
       template
         [emit_text (''INSERT INTO '' @ t @ '' ('' @ js_join '', '' quoted @ '') VALUES ''),
          emit_join '', '' (map (value_group (ip_default_to_null p) columns) rows),
          on_conflict_part p columns,
          emit_lift (returning_part (ip_columns p) (ip_head p))])"

definition compile_postgres_insert :: "insert_payload \<Rightarrow> (pg_error, compiled_query) result" where
  "compile_postgres_insert p =
     rbind (required_name ''missing_table'' (ip_table_name p)) (\<lambda>table.
       let rows = insert_rows (ip_insert_body p)
       in if rows = [] then Throw (PgError ''empty_insert'')
          else rbind (quote_ident table) (\<lambda>t.
            let columns = insert_columns rows
            in if columns = [] then
                 (if length rows \<noteq> 1 then Throw (PgError ''empty_insert'')
                  else if \<not> no_conflict (ip_on_conflict p)
                  then Throw (PgError ''default_values_upsert_unsupported'')
                  else rmap (\<lambda>r. to_query (''INSERT INTO '' @ t @ '' DEFAULT VALUES'' @ r, []))
                         (returning_part (ip_columns p) (ip_head p)))
               else rmap to_query (insert_values p t rows columns [])))"

section \<open>Update\<close>

definition resolve_bounded_identity_column :: "string option \<Rightarrow> (pg_error, string) result" where
  "resolve_bounded_identity_column identity =
     (if nonempty_trim identity = [] then Throw (PgError ''bounded_mutation_no_unique_identity'')
      else if \<not> is_qualified (nonempty_trim identity) then Throw (PgError ''bounded_mutation_unsafe_identity'')
      else Ok (nonempty_trim identity))"

text \<open>\<open>whereSql.replace(/^WHERE\s+/i, "")\<close>\<close>

definition strip_where :: "string \<Rightarrow> string" where
  "strip_where s =
     (if js_lower (take 5 s) = ''where'' \<and> takeWhile is_ws (drop 5 s) \<noteq> []
      then dropWhile is_ws (drop 5 s) else s)"

definition bounded_identity_in_clause ::
  "string \<Rightarrow> string \<Rightarrow> paging \<Rightarrow> sort_by option \<Rightarrow> string option \<Rightarrow> (pg_error, string) result" where
  "bounded_identity_in_clause table where_sql p order identity =
     rbind (assert_effective_mutation_bounds p) (\<lambda>_.
     rbind (resolve_bounded_identity_column identity) (\<lambda>idc.
     rbind (quote_ident idc) (\<lambda>q.
     rbind (quote_ident table) (\<lambda>t.
     rbind (order_clause order) (\<lambda>ord.
       let inner = strip_where where_sql
       in Ok (q @ '' IN ('' @ nonempty_parts
                [''SELECT '' @ q @ '' FROM '' @ t, if inner = [] then [] else ''WHERE '' @ inner, ord,
                 limit_offset_clause p] @ '')''))))))"

text \<open>\<open>sql.replace(/\$(\d+)/g, \<dots>)\<close>: every placeholder moved up by \<open>offset\<close>.\<close>

function reindex :: "nat \<Rightarrow> string \<Rightarrow> string" where
  "reindex k [] = []"
| "reindex k (c # s) =
     (if c = CHR ''$'' \<and> takeWhile is_digit s \<noteq> []
      then placeholder (digits_val (takeWhile is_digit s) + k) @ reindex k (dropWhile is_digit s)
      else c # reindex k s)"
  by pat_completeness auto
termination
  by (relation "measure (\<lambda>(k, s). length s)") (auto simp: le_imp_less_Suc length_dropWhile_le)

definition reindex_placeholders :: "string \<Rightarrow> nat \<Rightarrow> string" where
  "reindex_placeholders sql offset = (if sql = [] \<or> offset = 0 then sql else reindex offset sql)"

definition wants_bounds :: "paging \<Rightarrow> sort_by option \<Rightarrow> (pg_error, bool) result" where
  "wants_bounds p order =
     (if has_pagination_bounds p \<or> order \<noteq> None then
        (if has_pagination_bounds p then Ok True else Throw (PgError ''order_without_bounds''))
      else Ok False)"

text \<open>
  The condition of an update and all its values: the clause as compiled after the \<open>SET\<close> values,
  or the identity subquery renumbered past the first \<open>k\<close> of them.
\<close>

definition update_where ::
  "update_payload \<Rightarrow> string option \<Rightarrow> string \<Rightarrow> nat \<Rightarrow> string \<times> jval list \<Rightarrow>
   (pg_error, string \<times> jval list) result" where
  "update_where p identity table k cond =
     rbind (wants_bounds (up_paging p) (up_sort_by p)) (\<lambda>bounded.
       if bounded then
         rbind (build_where (up_conditions p)) (\<lambda>w.
         rmap (\<lambda>b. (reindex_placeholders b (length (take k (snd cond))), take k (snd cond) @ snd w))
           (bounded_identity_in_clause table (fst w) (up_paging p) (up_sort_by p) identity))
       else Ok cond)"

definition compile_postgres_update ::
  "update_payload \<Rightarrow> string option \<Rightarrow> (pg_error, compiled_query) result" where
  "compile_postgres_update p identity =
     rbind (required_name ''missing_table'' (up_table_name p)) (\<lambda>table.
       let entries = row_fields (up_update_body p)
       in if entries = [] then Throw (PgError ''empty_update'')
          else if up_conditions p = [] then Throw (PgError ''unfiltered_update'')
          else
            rbind (emit_join '', '' (map assignment entries) []) (\<lambda>sets.
            rbind (where_parts (up_conditions p) (snd sets)) (\<lambda>cond.
            rbind (update_where p identity table (length entries) cond) (\<lambda>final.
            rbind (quote_ident table) (\<lambda>t.
            rbind (returning_part (up_columns p) (up_head p)) (\<lambda>r.
              Ok \<lparr>cq_text = ''UPDATE '' @ t @ '' SET '' @ fst sets @ '' WHERE '' @ fst final @ r,
                  cq_values = snd final\<rparr>))))))"

section \<open>Delete\<close>

definition filters_column :: "string \<Rightarrow> gateway_condition \<Rightarrow> bool" where
  "filters_column name c \<longleftrightarrow> js_trim (get_or (or_else (gc_column c) (gc_eq_column c)) []) = name"

definition delete_conditions :: "delete_payload \<Rightarrow> gateway_condition list" where
  "delete_conditions p =
     (case dp_resource_id p of
        None \<Rightarrow> dp_conditions p
      | Some rid \<Rightarrow>
          if list_ex (filters_column ''resource_id'') (dp_conditions p) \<or>
             list_ex (filters_column ''id'') (dp_conditions p)
          then dp_conditions p else simple_condition ''id'' ''eq'' (JStr rid) # dp_conditions p)"

definition delete_where ::
  "delete_payload \<Rightarrow> string option \<Rightarrow> string \<Rightarrow> string \<Rightarrow> (pg_error, string) result" where
  "delete_where p identity table w =
     rbind (wants_bounds (dp_paging p) (dp_sort_by p)) (\<lambda>bounded.
       if bounded then
         rmap (\<lambda>b. ''WHERE '' @ b) (bounded_identity_in_clause table w (dp_paging p) (dp_sort_by p) identity)
       else Ok w)"

definition compile_postgres_delete ::
  "delete_payload \<Rightarrow> string option \<Rightarrow> (pg_error, compiled_query) result" where
  "compile_postgres_delete p identity =
     rbind (required_name ''missing_table'' (dp_table_name p)) (\<lambda>table.
     rbind (build_where (delete_conditions p)) (\<lambda>w.
       if fst w = [] then Throw (PgError ''unfiltered_delete'')
       else
         rbind (delete_where p identity table (fst w)) (\<lambda>final.
         rbind (quote_ident table) (\<lambda>t.
         rbind (returning_part (dp_columns p) False) (\<lambda>r.
           Ok \<lparr>cq_text = ''DELETE FROM '' @ t @ '' '' @ final @ r, cq_values = snd w\<rparr>)))))"

section \<open>Function calls\<close>

definition argument :: "string \<times> jval \<Rightarrow> pg_error emit" where
  "argument kv =
     (if \<not> is_qualified (fst kv) then emit_fail (PgError ''invalid_identifier'')
      else template [emit_lift (quote_ident (fst kv)), emit_text '' => '', emit_bind (json_value (snd kv))])"

definition filter_condition :: "rpc_filter \<Rightarrow> gateway_condition" where
  "filter_condition f = simple_condition (rf_column f) (rf_operator f) (rf_value f)"

definition rpc_order_part :: "rpc_order option \<Rightarrow> (pg_error, string) result" where
  "rpc_order_part order =
     (case order of
        None \<Rightarrow> Ok []
      | Some s \<Rightarrow>
          if js_trim (ro_column s) = [] then Ok []
          else rmap (\<lambda>q. '' ORDER BY '' @ q @ '' '' @ (if ro_ascending s = Some False then ''DESC'' else ''ASC''))
            (quote_ident (ro_column s)))"

definition optional_bound :: "bool \<Rightarrow> string \<Rightarrow> jnum option \<Rightarrow> string" where
  "optional_bound head keyword n' =
     (case n' of None \<Rightarrow> [] | Some n \<Rightarrow> if head then [] else '' '' @ keyword @ '' '' @ bound_text n)"

definition rpc_name :: "rpc_payload \<Rightarrow> string" where
  "rpc_name p =
     js_trim (if rp_function p \<noteq> [] then rp_function p else get_or (rp_function_name p) [])"

definition rpc_columns :: "rpc_payload \<Rightarrow> (pg_error, string) result" where
  "rpc_columns p =
     (if rp_head p then Ok ''COUNT(*)::bigint AS __athena_count'' else select_clause (rp_select p))"

definition rpc_where :: "rpc_payload \<Rightarrow> pg_error emit" where
  "rpc_where p =
     (if rp_filters p = [] then emit_text []
      else template
        [emit_text '' WHERE '',
         emit_join '' AND '' (map (\<lambda>f. condition_to_where (filter_condition f)) (rp_filters p))])"

definition compile_postgres_rpc :: "rpc_payload \<Rightarrow> (pg_error, compiled_query) result" where
  "compile_postgres_rpc p =
     (if rpc_name p = [] then Throw (PgError ''missing_function'')
      else
        let schema = nonempty_trim (rp_schema p);
            qualified = (if schema = [] then rpc_name p else schema @ ''.'' @ rpc_name p)
        in if \<not> is_qualified qualified then Throw (PgError ''invalid_identifier'')
           else
             rbind (emit_join '', '' (map argument (fields_of (rp_args p))) []) (\<lambda>a.
             rbind (rpc_columns p) (\<lambda>sel.
             rbind (quote_ident qualified) (\<lambda>t.
             rbind (rpc_where p (snd a)) (\<lambda>w.
             rbind (rpc_order_part (rp_order p)) (\<lambda>ord.
               Ok \<lparr>cq_text = ''SELECT '' @ sel @ '' FROM '' @ t @ ''('' @ fst a @ '')'' @ fst w @ ord @
                     optional_bound (rp_head p) ''LIMIT'' (rp_limit p) @
                     optional_bound (rp_head p) ''OFFSET'' (rp_offset p),
                   cq_values = snd w\<rparr>))))))"

end
