(* ===== verification/PostgresFacts.thy ===== *)
theory PostgresFacts
  imports PostgresSql
begin

text \<open>
  Lemmas on the flat PostgreSQL compiler: the characters of every text it makes, and the match
  of placeholders with bound values through clauses, statements and the renumbering of a
  bounded update.
\<close>

section \<open>Characters\<close>

definition text_char :: "char \<Rightarrow> bool" where
  "text_char c \<longleftrightarrow> ident_part c \<or> c = quote_char \<or> c \<in> set '' *,.()=<>@:+''"

definition sql_char :: "char \<Rightarrow> bool" where
  "sql_char c \<longleftrightarrow> text_char c \<or> c = CHR ''$''"

lemmas text_char_eval = text_char_def char_class_defs quote_char_def

named_theorems char_facts \<open>the characters of texts that bind nothing\<close>

lemma text_not_dollar: "\<not> text_char (CHR ''$'')"
  by (simp add: text_char_def quote_char_def char_class_defs)

lemma text_sql: "list_all text_char t \<Longrightarrow> list_all sql_char t"
  by (auto simp: list_all_iff sql_char_def)

lemma result_text_sql: "result_chars text_char r \<Longrightarrow> result_chars sql_char r"
  by (cases r) (auto simp: text_sql)

lemma no_dollar_text: "result_chars text_char r \<Longrightarrow> no_dollar r"
  by (rule no_dollar_chars) (auto simp: text_not_dollar)

lemma text_no_dollar: "list_all text_char t \<Longrightarrow> CHR ''$'' \<notin> set t"
  using text_not_dollar by (auto simp: list_all_iff)

lemma ident_part_text: "list_all ident_part s \<Longrightarrow> list_all text_char s"
  by (auto simp: list_all_iff text_char_def)

lemma field_char_text: "list_all field_char s \<Longrightarrow> list_all text_char s"
  by (auto simp: list_all_iff text_char_def field_char_def)

lemma split_on_subset: "w \<in> set (split_on c s) \<Longrightarrow> set w \<subseteq> set s"
proof (induction s arbitrary: w)
  case (Cons x s)
  then show ?case by (cases "split_on c s") (fastforce split: if_splits)+
qed simp

lemma quote_segment_chars: "list_all P s \<Longrightarrow> P quote_char \<Longrightarrow> list_all P (quote_identifier_segment s)"
  by (auto simp: quote_identifier_segment_def list_all_iff split: if_splits)

lemma quote_qualified_chars:
  assumes "list_all P s" "P quote_char" "P (CHR ''.'')"
  shows "list_all P (quote_qualified_identifier s)"
proof -
  have "list_all P (quote_identifier_segment w)" if "w \<in> set (split_on (CHR ''.'') s)" for w
    using split_on_subset [OF that] assms by (intro quote_segment_chars) (auto simp: list_all_iff)
  then have "list_all (list_all P) (map quote_identifier_segment (split_on (CHR ''.'') s))"
    by (simp add: list_all_iff)
  with assms(3) show ?thesis unfolding quote_qualified_identifier_def by (intro js_join_all) simp_all
qed

lemma is_qualified_field: "is_qualified s \<Longrightarrow> list_all field_char s"
proof -
  assume "is_qualified s"
  then have "\<forall>w \<in> set (split_on (CHR ''.'') s). list_all field_char w"
    by (auto simp: is_qualified_def list_all_iff field_char_def dest!: is_identifier_parts)
  then have "list_all field_char (js_join ''.'' (split_on (CHR ''.'') s))"
    by (intro js_join_all) (auto simp: list_all_iff field_char_def)
  then show ?thesis by (simp add: js_join_split_on)
qed

lemma quoted_field_text: "list_all field_char s \<Longrightarrow> list_all text_char (quote_qualified_identifier s)"
  by (rule quote_qualified_chars) (auto simp: field_char_text text_char_def)

lemma is_field_path_chars: "is_field_path s \<Longrightarrow> list_all field_char s"
  by (auto simp: is_field_path_def field_char_def ident_part_def split: list.splits)

lemma is_identifier_field: "is_identifier s \<Longrightarrow> list_all field_char s"
  by (drule is_identifier_parts) (auto simp: list_all_iff field_char_def)

lemma response_alias_chars:
  "response_alias t = Some (a, b) \<Longrightarrow> list_all field_char a \<and> list_all field_char b"
  by (auto simp: response_alias_def Let_def is_identifier_field is_field_path_chars split: if_splits list.splits)

lemma sql_alias_chars: "sql_alias t = Some (b, a) \<Longrightarrow> list_all field_char a \<and> list_all field_char b"
  by (auto simp: sql_alias_def Let_def is_identifier_field is_field_path_chars split: if_splits)

lemma list_all_const_chars [char_facts]:
  "list_all text_char ''*''" "list_all text_char '' AS ''" "list_all text_char '', ''" "list_all text_char '' AND ''"
  by (simp_all add: text_char_def char_class_defs)

lemma quote_ident_chars [char_facts]: "result_chars text_char (quote_ident name)"
  by (auto simp: quote_ident_def Let_def intro!: quoted_field_text is_qualified_field)

lemma quote_select_token_chars [char_facts]: "result_chars text_char (quote_select_token_strict token)"
  using list_all_const_chars
  by (auto simp: quote_select_token_strict_def Let_def
      intro!: quoted_field_text dest: is_qualified_field response_alias_chars sql_alias_chars split: option.splits)

lemma result_chars_map_r:
  "(\<And>x. x \<in> set xs \<Longrightarrow> result_chars P (f x)) \<Longrightarrow> map_r f xs = Inr ts \<Longrightarrow> list_all (list_all P) ts"
proof (induction xs arbitrary: ts)
  case (Cons x xs)
  from Cons.prems(2) obtain t us where "f x = Inr t" "map_r f xs = Inr us" "ts = t # us"
    by (auto simp: rbind_eq_Inr)
  moreover from this Cons.prems(1) [of x] have "list_all P t" by simp
  ultimately show ?case using Cons.IH Cons.prems(1) by simp
qed simp

lemma result_chars_joined [char_facts]:
  "(\<And>x. x \<in> set xs \<Longrightarrow> result_chars P (f x)) \<Longrightarrow> list_all P sep \<Longrightarrow>
   result_chars P (rmap (js_join sep) (map_r f xs))"
  by (cases "map_r f xs") (auto intro!: js_join_all result_chars_map_r)

lemma select_clause_chars [char_facts]: "result_chars text_char (select_clause columns)"
  using list_all_const_chars
  by (auto simp: select_clause_def Let_def char_facts split: option.splits columns_spec.splits)

lemma cast_suffix_chars [char_facts]: "result_chars text_char (cast_suffix cast)"
proof -
  have "\<forall>n \<in> set safe_casts. list_all text_char (''::'' @ n)"
    by (simp add: safe_casts_def text_char_def char_class_defs)
  then show ?thesis by (auto simp: cast_suffix_def Let_def split: option.splits)
qed

lemma apply_cast_chars: "list_all text_char e \<Longrightarrow> result_chars text_char (apply_cast e cast)"
  using cast_suffix_chars [of cast] by (cases "cast_suffix cast") (auto simp: apply_cast_def)

lemma order_clause_chars [char_facts]: "result_chars text_char (order_clause order)"
proof -
  have "list_all text_char ''ORDER BY ''" "list_all text_char '' ''" "list_all text_char ''DESC''"
    "list_all text_char ''ASC''" by (simp_all add: text_char_def char_class_defs)
  note const = this
  show ?thesis
  proof (cases order)
    case (Some s)
    then show ?thesis using quote_ident_chars [of "sb_field s"] const
      by (cases "quote_ident (sb_field s)") (simp_all add: order_clause_def)
  qed (simp add: order_clause_def)
qed

lemma number_char_text: "number_char c \<Longrightarrow> text_char c"
proof -
  assume "number_char c"
  moreover have "list_all text_char ''.e+NaInfity''" by (simp add: text_char_def char_class_defs)
  moreover have "is_digit c \<Longrightarrow> text_char c" by (simp add: text_char_def ident_part_def)
  ultimately show ?thesis by (auto simp: number_char_def list_all_iff)
qed

lemma bound_text_text [char_facts]: "list_all text_char (bound_text n)"
  using bound_text_chars [of n] by (auto simp: list_all_iff number_char_text)

lemma limit_offset_chars [char_facts]: "list_all text_char (limit_offset_clause p)"
proof -
  have "list_all text_char ''LIMIT ''" "list_all text_char ''OFFSET ''" "list_all text_char '' ''"
    by (simp_all add: text_char_def char_class_defs)
  then show ?thesis
    by (auto simp: limit_offset_clause_def char_facts split: option.splits)
qed

section \<open>Conditions\<close>

lemma sql_char_simps:
  "sql_char (CHR ''$'')" "\<forall>c. is_digit c \<longrightarrow> sql_char c"
  by (auto simp: sql_char_def text_char_def ident_part_def)

lemma sql_const [char_facts]:
  "list_all text_char '' IN (''" "list_all text_char '')''" "list_all text_char ''1 = 0''"
  "list_all text_char '' ''" "list_all text_char ''::jsonb''" "list_all text_char '' IS NULL''"
  "list_all text_char '' IS NOT NULL''" "list_all text_char '' IS TRUE''" "list_all text_char '' IS FALSE''"
  "list_all text_char '' IS ''" "list_all text_char ''(NOT (''" "list_all text_char ''))''"
  "list_all text_char ''( )ANDORT''" "list_all text_char ''=''" "list_all text_char ''<>''"
  "list_all text_char ''@>''" "list_all text_char ''<@''" "list_all text_char ''WHERE ''" "list_all text_char []"
  by (simp_all add: text_char_def char_class_defs)

text \<open>Both facts at once: a step that binds what it references and writes nothing unexpected.\<close>

definition sound_emit :: "'e emit \<Rightarrow> bool" where
  "sound_emit m \<longleftrightarrow> well_bound m \<and> chars_in sql_char m"

named_theorems sound_intros \<open>sound steps\<close>

lemma sound_text [sound_intros]: "list_all text_char t \<Longrightarrow> sound_emit (emit_text t)"
  by (simp add: sound_emit_def wb_text text_no_dollar chars_text text_sql)

lemma sound_fail [sound_intros]: "sound_emit (emit_fail e)"
  by (simp add: sound_emit_def wb_fail chars_fail)

lemma sound_bind [sound_intros]: "sound_emit (emit_bind v)"
  by (simp add: sound_emit_def wb_bind chars_bind sql_char_simps)

lemma sound_lift [sound_intros]: "result_chars text_char r \<Longrightarrow> sound_emit (emit_lift r)"
  by (simp add: sound_emit_def wb_lift no_dollar_text chars_lift result_text_sql)

lemma sound_template_Nil [sound_intros]: "sound_emit (template [])"
  by (simp add: sound_emit_def wb_template_Nil chars_template)

lemma sound_single [sound_intros]: "sound_emit m \<Longrightarrow> sound_emit (template [m])"
  by (simp add: template_single)

lemma chars_template_iff: "chars_in P m \<Longrightarrow> chars_in P (template ms) \<Longrightarrow> chars_in P (template (m # ms))"
  by (fastforce simp: chars_in_def rbind_eq_Inr rmap_eq_Inr template.simps)

lemma sound_template_text [sound_intros]:
  "list_all text_char t \<Longrightarrow> sound_emit (template ms) \<Longrightarrow> sound_emit (template (emit_text t # ms))"
  by (simp add: sound_emit_def wb_template_text text_no_dollar chars_template_iff chars_text text_sql)

lemma sound_template_lift [sound_intros]:
  "result_chars text_char r \<Longrightarrow> sound_emit (template ms) \<Longrightarrow> sound_emit (template (emit_lift r # ms))"
  by (simp add: sound_emit_def wb_template_lift no_dollar_text chars_template_iff chars_lift result_text_sql)

lemma sound_template_sep [sound_intros]:
  "sound_emit m \<Longrightarrow> list_all text_char sep \<Longrightarrow> no_lead_digit sep \<Longrightarrow> sep \<noteq> [] \<Longrightarrow> sound_emit (template ms) \<Longrightarrow>
   sound_emit (template (m # emit_text sep # ms))"
  by (simp add: sound_emit_def wb_template_sep text_no_dollar chars_template_iff chars_text text_sql)

lemma sound_join [sound_intros]:
  "\<forall>m \<in> set ms. sound_emit m \<Longrightarrow> list_all text_char sep \<Longrightarrow> no_lead_digit sep \<Longrightarrow> sep \<noteq> [] \<Longrightarrow>
   sound_emit (emit_join sep ms)"
  by (simp add: sound_emit_def wb_join text_no_dollar chars_join text_sql)

lemma wb_given: "(\<And>x. r = Inr x \<Longrightarrow> well_bound (f x)) \<Longrightarrow> well_bound (emit_given r f)"
  by (cases r) (auto simp: emit_given_def well_bound_def)

lemma chars_given: "(\<And>x. r = Inr x \<Longrightarrow> chars_in P (f x)) \<Longrightarrow> chars_in P (emit_given r f)"
  by (cases r) (auto simp: emit_given_def chars_in_def)

lemma sound_if [sound_intros]:
  "(b \<Longrightarrow> sound_emit m) \<Longrightarrow> (\<not> b \<Longrightarrow> sound_emit m') \<Longrightarrow> sound_emit (if b then m else m')"
  by simp

lemma sound_either: "sound_emit m \<Longrightarrow> sound_emit m' \<Longrightarrow> sound_emit (if b then m else m')"
  by simp

lemma sound_given [sound_intros]: "(\<And>x. r = Inr x \<Longrightarrow> sound_emit (f x)) \<Longrightarrow> sound_emit (emit_given r f)"
  by (simp add: sound_emit_def wb_given chars_given)

lemma sound_legacy [sound_intros]:
  "\<forall>c \<in> set (legacy_predicates n). sound_emit (f c) \<Longrightarrow> sound_emit (compile_legacy_boolean_node n f)"
  using text_sql [OF sql_const(13)] by (simp only: sound_emit_def) (blast intro: wb_legacy chars_legacy)

lemma well_bound_bind_cast: "well_bound (bind_cast cast v)"
proof (rule well_boundI)
  fix vs t vs'
  assume "bind_cast cast v vs = Inr (t, vs')"
  then obtain suffix where t: "t = placeholder (Suc (length vs)) @ suffix" "vs' = vs @ [v]"
    and s: "cast_suffix cast = Inr suffix"
    by (auto simp: bind_cast_def template_single) (auto simp: template.simps emit_bind_def emit_lift_def emit_text_def rmap_eq_Inr rbind_eq_Inr)
  from s have "no_lead_digit suffix" by (auto simp: cast_suffix_def Let_def split: option.splits if_splits)
  moreover from s have "CHR ''$'' \<notin> set suffix" using cast_suffix_chars [of cast] by (simp add: text_no_dollar)
  ultimately have "piece t [Suc (length vs)]"
    unfolding t using piece_append [OF piece_placeholder piece_clean] by simp
  with t(2) show "(\<exists>new. vs' = vs @ new) \<and> piece t (bound_span vs vs')" by simp
qed

lemma sound_bind_cast [sound_intros]: "sound_emit (bind_cast cast v)"
proof -
  have "chars_in sql_char (bind_cast cast v)" unfolding bind_cast_def
    using cast_suffix_chars by (auto intro!: chars_intros result_text_sql simp: sql_char_simps)
  then show ?thesis by (simp add: sound_emit_def well_bound_bind_cast)
qed

lemma sound_in_list [sound_intros]: "list_all text_char col \<Longrightarrow> sound_emit (in_list col cast vs)"
  unfolding in_list_def bind_list_def by (auto intro!: sound_intros simp: text_char_eval)

lemma sound_binary [sound_intros]:
  "list_all text_char col \<Longrightarrow> list_all text_char smb \<Longrightarrow> sound_emit (binary col smb cast v)"
  unfolding binary_def by (auto intro!: sound_intros simp: text_char_eval)

lemma sound_containment [sound_intros]:
  "list_all text_char col \<Longrightarrow> list_all text_char smb \<Longrightarrow> sound_emit (containment col smb cast v)"
  unfolding containment_def by (auto intro!: sound_intros simp: text_char_eval)

lemma comparison_symbol_chars: "comparison_symbol op = Some smb \<Longrightarrow> list_all text_char smb"
  by (auto simp: comparison_symbol_def text_char_def char_class_defs split: if_splits)

lemma sound_operator [sound_intros]: "list_all text_char col \<Longrightarrow> sound_emit (operator_where col op cast v)"
proof -
  assume col: "list_all text_char col"
  note [intro] = sound_text sound_binary sound_containment sound_in_list sound_fail sound_bind_cast
  have "sound_emit (case v of JArr vs \<Rightarrow> in_list col cast vs
      | _ \<Rightarrow> if v = Null then emit_text (col @ '' IS NULL'') else binary col ''='' cast v)"
    using col by (cases v) (auto simp: text_char_eval)
  moreover have "sound_emit (case comparison_symbol op of Some smb \<Rightarrow> binary col smb cast v
      | None \<Rightarrow> emit_fail (PgError ''unsupported_operator''))"
    using col comparison_symbol_chars by (auto split: option.split)
  moreover have "sound_emit (template [emit_text (col @ '' IS ''), bind_cast cast v])"
    using col by (intro sound_intros) (simp_all add: text_char_eval)
  moreover have "sound_emit (in_list col cast (case v of JArr vs \<Rightarrow> vs | Undefined \<Rightarrow> [] | _ \<Rightarrow> [v]))"
    using col by auto
  moreover have "sound_emit (emit_text (col @ t))" if "list_all text_char t" for t
    using col that by auto
  ultimately show ?thesis using col sql_const unfolding operator_where_def
    by (intro sound_either) (simp_all only: sound_binary sound_containment)
qed

lemma quote_cast_chars: "rbind (quote_ident name) (\<lambda>q. apply_cast q cast) = Inr col \<Longrightarrow> list_all text_char col"
  using quote_ident_chars [of name] apply_cast_chars
  by (cases "quote_ident name") (fastforce simp: result_chars_def split: sum.splits)+

lemma sound_simple_where [sound_intros]: "sound_emit (simple_where c)"
  unfolding simple_where_def by (auto intro!: sound_intros dest: quote_cast_chars)

lemma sound_condition [sound_intros]: "sound_emit (condition_to_where c)"
  unfolding condition_to_where_def
  by (auto intro!: sound_intros simp: text_char_eval split: jval.splits sum.splits)

lemma sound_where_parts [sound_intros]: "sound_emit (where_parts cs)"
  unfolding where_parts_def by (auto intro!: sound_intros simp: text_char_eval)

section \<open>Statements\<close>

text \<open>What a finished statement promises: placeholders and values match, and only safe characters.\<close>

definition sound_query :: "compiled_query \<Rightarrow> bool" where
  "sound_query q \<longleftrightarrow>
     placeholders (cq_text q) = [1..<Suc (length (cq_values q))] \<and> list_all sql_char (cq_text q)"

text \<open>A text with its values, not yet a statement.\<close>

definition sound_text_values :: "string \<times> jval list \<Rightarrow> bool" where
  "sound_text_values tv \<longleftrightarrow>
     piece (fst tv) [1..<Suc (length (snd tv))] \<and> list_all sql_char (fst tv)"

lemma sound_emit_result:
  "sound_emit m \<Longrightarrow> m [] = Inr tv \<Longrightarrow> sound_text_values tv"
  by (cases tv)
    (auto simp: sound_emit_def sound_text_values_def bound_span_def dest!: well_boundD chars_inD)

lemma sound_to_query: "sound_text_values tv \<Longrightarrow> sound_query (to_query tv)"
  by (auto simp: sound_text_values_def sound_query_def to_query_def dest: piece_placeholders)

lemma sound_around:
  assumes "sound_text_values (t, vs)" "list_all text_char a" "list_all text_char b" "no_lead_digit b"
  shows "sound_text_values (a @ t @ b, vs)"
proof -
  have "piece (t @ b) ([1..<Suc (length vs)] @ [])"
    using assms by (intro piece_append piece_clean) (auto simp: sound_text_values_def text_no_dollar)
  then have "piece (a @ t @ b) [1..<Suc (length vs)]"
    using assms(2) by (simp add: piece_clean_append text_no_dollar)
  then show ?thesis using assms by (auto simp: sound_text_values_def text_sql)
qed

lemma sound_clean_text: "list_all text_char t \<Longrightarrow> sound_text_values (t, [])"
  by (simp add: sound_text_values_def piece_clean text_no_dollar text_sql)

lemma sound_build_where: "build_where cs = Inr w \<Longrightarrow> sound_text_values w"
  using sound_around [of _ _ "''WHERE ''" "[]"]
  by (auto simp: build_where_def rmap_eq_Inr text_char_eval intro!: sound_clean_text
      dest!: sound_emit_result [OF sound_where_parts] split: if_splits)

lemma sound_resolve_where: "resolve_where cs obj = Inr w \<Longrightarrow> sound_text_values w"
  by (auto simp: resolve_where_def rbind_eq_Inr dest: sound_build_where split: if_splits)

lemma nonempty_parts_Cons:
  "nonempty_parts (x # xs) =
     (if x = [] then nonempty_parts xs
      else if nonempty_parts xs = [] then x else x @ '' '' @ nonempty_parts xs)"
proof (cases "filter (\<lambda>s. s \<noteq> []) xs")
  case (Cons y ys)
  then have "y \<noteq> []" by (auto dest: filter_eq_ConsD)
  with Cons show ?thesis by (cases ys) (auto simp: nonempty_parts_def)
qed (auto simp: nonempty_parts_def)

lemma nonempty_parts_Nil [simp]: "nonempty_parts [] = []"
  by (simp add: nonempty_parts_def)

lemma nonempty_parts_chars: "list_all (list_all P) xs \<Longrightarrow> P (CHR '' '') \<Longrightarrow> list_all P (nonempty_parts xs)"
  by (induction xs) (auto simp: nonempty_parts_Cons)

text \<open>Clean parts around the one that references values.\<close>

lemma sound_parts:
  assumes "sound_text_values (w, vs)" "list_all text_char a" "list_all (list_all text_char) bs"
  shows "sound_text_values (nonempty_parts (a # w # bs), vs)"
proof -
  have sp: "text_char (CHR '' '')" by (simp add: text_char_eval)
  have b: "list_all text_char (nonempty_parts bs)" using assms(3) sp by (rule nonempty_parts_chars)
  have tail: "sound_text_values (nonempty_parts (w # bs), vs)" if "w \<noteq> []"
    using sound_around [OF assms(1), of "[]" "'' '' @ nonempty_parts bs"] assms(1) b sp that
    by (simp add: nonempty_parts_Cons)
  show ?thesis
  proof (cases "w = []")
    case True
    then have "placeholders [] = [1..<Suc (length vs)]"
      using assms(1) by (auto simp: sound_text_values_def simp del: upt_Suc dest!: piece_placeholders)
    then have "vs = []" by (cases vs) simp_all
    moreover have "list_all text_char (nonempty_parts (a # w # bs))"
      using True assms(2) b sp by (simp add: nonempty_parts_Cons)
    ultimately show ?thesis by (simp add: sound_clean_text)
  next
    case False
    then have "nonempty_parts (w # bs) \<noteq> []" by (simp add: nonempty_parts_Cons)
    with False show ?thesis
      using tail sound_around [OF tail, of "a @ '' ''" "[]"] assms(2) sp
      by (auto simp: nonempty_parts_Cons [of a])
  qed
qed

lemma quote_ident_text: "quote_ident name = Inr t \<Longrightarrow> list_all text_char t"
  using quote_ident_chars [of name] by simp

lemma select_clause_text: "select_clause c = Inr t \<Longrightarrow> list_all text_char t"
  using select_clause_chars [of c] by simp

lemma order_clause_text: "order_clause o' = Inr t \<Longrightarrow> list_all text_char t"
  using order_clause_chars [of o'] by simp

lemmas clause_texts = quote_ident_text select_clause_text order_clause_text limit_offset_chars

lemma sound_count_from_where: "count_from_where t w = Inr q \<Longrightarrow> sound_text_values w \<Longrightarrow> sound_query q"
proof -
  assume "count_from_where t w = Inr q" and w: "sound_text_values w"
  then obtain s where s: "quote_ident t = Inr s"
    and q: "q = to_query (nonempty_parts [''SELECT COUNT(*)::bigint AS __athena_count FROM '' @ s, fst w], snd w)"
    by (auto simp: count_from_where_def rmap_eq_Inr to_query_def)
  have "list_all text_char (''SELECT COUNT(*)::bigint AS __athena_count FROM '' @ s)"
    using quote_ident_text [OF s] by (simp add: text_char_eval)
  then show ?thesis unfolding q using w
    by (intro sound_to_query sound_parts) simp_all
qed

lemma sound_fetch: "compile_postgres_fetch p = Inr q \<Longrightarrow> sound_query q"
proof -
  assume "compile_postgres_fetch p = Inr q"
  then obtain table w where w: "sound_text_values w" and
    q: "(if fp_head p then count_from_where table w
       else
         rbind (select_clause (fetch_columns p)) (\<lambda>sel.
         rbind (quote_ident table) (\<lambda>t.
         rbind (order_clause (fp_sort_by p)) (\<lambda>ord.
           Ok \<lparr>cq_text = nonempty_parts
                  [''SELECT '' @ sel @ '' FROM '' @ t, fst w, ord, limit_offset_clause (fp_paging p)],
               cq_values = snd w\<rparr>)))) = Inr q"
    unfolding compile_postgres_fetch_def rbind_eq_Inr by (blast dest: sound_resolve_where)
  show ?thesis
  proof (cases "fp_head p")
    case False
    with q obtain sel t ord where c: "select_clause (fetch_columns p) = Inr sel" "quote_ident table = Inr t"
        "order_clause (fp_sort_by p) = Inr ord"
      and q: "q = to_query (nonempty_parts [''SELECT '' @ sel @ '' FROM '' @ t, fst w, ord,
        limit_offset_clause (fp_paging p)], snd w)"
      by (auto simp: rbind_eq_Inr to_query_def)
    show ?thesis unfolding q
      using w c by (intro sound_to_query sound_parts) (auto simp: clause_texts text_char_eval)
  qed (use q w in \<open>auto dest: sound_count_from_where\<close>)
qed

lemma sound_count: "compile_postgres_count p = Inr q \<Longrightarrow> sound_query q"
  by (auto simp: compile_postgres_count_def rbind_eq_Inr dest: sound_count_from_where sound_resolve_where)

text \<open>The renumbering of a bounded update moves every placeholder by the same amount.\<close>

lemma show_nat_lead: "\<exists>c s. show_nat n = c # s \<and> is_digit c"
  using show_nat_digits [of n] show_nat_not_Nil [of n] by (cases "show_nat n") auto

lemma dropWhile_no_lead: "no_lead_digit (dropWhile is_digit s)"
  by (induction s) auto

lemma reindex_no_lead: "no_lead_digit s \<Longrightarrow> no_lead_digit (reindex k s)"
  by (cases s) (auto simp: placeholder_def)

lemma placeholders_reindex: "placeholders (reindex k s) = map (\<lambda>n. n + k) (placeholders s)"
proof (induction k s rule: reindex.induct)
  case (2 k c s)
  show ?case
  proof (cases "c = CHR ''$'' \<and> takeWhile is_digit s \<noteq> []")
    case True
    have "no_lead_digit (reindex k (dropWhile is_digit s))"
      by (intro reindex_no_lead dropWhile_no_lead)
    then show ?thesis using 2 True by (auto simp: placeholders_placeholder)
  next
    case False
    show ?thesis
    proof (cases "c = CHR ''$''")
      case True
      with False have "no_lead_digit s" by (cases s) auto
      then have "no_lead_digit (reindex k s)" by (rule reindex_no_lead)
      then have "takeWhile is_digit (reindex k s) = []" by (cases "reindex k s") auto
      with False True 2 show ?thesis by simp
    qed (use False 2 in simp)
  qed
qed simp

lemma reindex_clean: "CHR ''$'' \<notin> set a \<Longrightarrow> reindex k (a @ s) = a @ reindex k s"
  by (induction a) auto

lemma reindex_chars: "list_all sql_char s \<Longrightarrow> list_all sql_char (reindex k s)"
proof (induction k s rule: reindex.induct)
  case (2 k c s)
  have "list_all sql_char (dropWhile is_digit s)" if "list_all sql_char s"
    using that by (auto simp: list_all_iff dest: set_dropWhileD)
  moreover have "list_all sql_char (placeholder n)" for n
    using show_nat_digits [of n] sql_char_simps by (auto simp: placeholder_def list_all_iff)
  ultimately show ?case using 2 by auto
qed simp

lemma map_add_upt': "map (\<lambda>n. n + k) [Suc 0..<Suc m] = [Suc k..<Suc (m + k)]"
  by (induction m) auto

section \<open>Statements that change rows\<close>

lemma assignment_as_template:
  "assignment kv = template [emit_lift (rmap (\<lambda>q. q @ '' = '') (quote_ident (fst kv))), emit_bind (json_value (snd kv))]"
  by (rule ext, cases "quote_ident (fst kv)")
    (simp_all add: assignment_def template.simps emit_bind_def emit_lift_def emit_text_def)

lemma sound_assignment [sound_intros]: "sound_emit (assignment kv)"
proof -
  have "result_chars text_char (rmap (\<lambda>q. q @ '' = '') (quote_ident (fst kv)))"
    using quote_ident_chars [of "fst kv"] by (cases "quote_ident (fst kv)") (simp_all add: text_char_eval)
  then show ?thesis unfolding assignment_as_template by (intro sound_intros)
qed

lemma sound_assignments: "sound_emit (emit_join '', '' (map assignment kvs))"
  by (auto intro!: sound_intros simp: text_char_eval)

lemma returning_chars [char_facts]: "result_chars text_char (returning_part columns head)"
  using select_clause_chars [of columns]
  by (cases "select_clause columns") (simp_all add: returning_part_def text_char_eval)

lemma returning_text: "returning_part columns head = Inr r \<Longrightarrow> list_all text_char r \<and> no_lead_digit r"
  using returning_chars [of columns head] by (auto simp: returning_part_def rmap_eq_Inr split: if_splits)

lemma map_r_quote_text: "map_r quote_ident cols = Inr quoted \<Longrightarrow> list_all text_char (js_join '', '' quoted)"
  using result_chars_map_r [of cols text_char quote_ident quoted] quote_ident_chars list_all_const_chars
  by (auto intro!: js_join_all)

lemma map_r_excluded_text: "map_r excluded_assignment cols = Inr sets \<Longrightarrow> list_all text_char (js_join '', '' sets)"
proof -
  have "result_chars text_char (excluded_assignment c)" for c
    using quote_ident_chars [of c] by (cases "quote_ident c") (simp_all add: excluded_assignment_def text_char_eval)
  then show "map_r excluded_assignment cols = Inr sets \<Longrightarrow> list_all text_char (js_join '', '' sets)"
    using result_chars_map_r [of cols text_char excluded_assignment sets] list_all_const_chars
    by (auto intro!: js_join_all)
qed

lemma conflict_target_text:
  "map_r quote_ident cols = Inr quoted \<Longrightarrow> list_all text_char t \<Longrightarrow>
   list_all text_char (conflict_target quoted @ t)"
  by (drule map_r_quote_text) (simp add: conflict_target_def text_char_eval)

lemma conflict_target_lead: "no_lead_digit (conflict_target quoted @ t)"
  by (simp add: conflict_target_def)

lemma sound_on_conflict [sound_intros]: "sound_emit (on_conflict_part p columns)"
proof -
  have const: "list_all text_char ''NOTHING''" "list_all text_char ''UPDATE SET ''"
    by (simp_all add: text_char_eval)
  show ?thesis
  proof (cases "ip_on_conflict p")
    case (Some spec)
    show ?thesis unfolding on_conflict_part_def Let_def Some option.case
    proof (intro sound_either sound_given, goal_cases)
      case (2 cols quoted)
      then have target: "list_all text_char (conflict_target quoted)"
        using conflict_target_text [of cols quoted "[]"] by simp
      show ?case
      proof (cases "ip_update_body p")
        case None
        then show ?thesis using target const
          by (auto intro!: sound_given sound_text dest!: map_r_excluded_text simp del: append.simps)
      next
        case (Some body)
        then show ?thesis using target const
          by (auto intro!: sound_text sound_template_text sound_single sound_assignments simp del: append.simps)
      qed
    qed (simp add: sound_text)
  qed (simp add: on_conflict_part_def sound_text)
qed

lemma no_lead_given: "(\<And>x. emits_no_lead (f x)) \<Longrightarrow> emits_no_lead (emit_given r f)"
  by (auto simp: emits_no_lead_def emit_given_def rbind_eq_Inr)

lemma on_conflict_no_lead: "emits_no_lead (on_conflict_part p columns)"
  unfolding on_conflict_part_def Let_def
  by (auto split: option.split simp: conflict_target_def
      intro!: no_lead_text no_lead_given no_lead_either no_lead_template)

lemma sound_value_group [sound_intros]: "sound_emit (value_group force_null columns r)"
proof -
  have "sound_emit (insert_cell force_null fs c)" for fs c
    unfolding insert_cell_def by (auto split: option.split intro!: sound_intros simp: text_char_eval)
  then show ?thesis unfolding value_group_def by (auto intro!: sound_intros simp: text_char_eval)
qed

lemma sound_template_next:
  "sound_emit m \<Longrightarrow> sound_emit (template ms) \<Longrightarrow> emits_no_lead (template ms) \<Longrightarrow> sound_emit (template (m # ms))"
  by (simp add: sound_emit_def chars_template_iff wb_template_next)

lemma sound_insert_values: "list_all text_char t \<Longrightarrow> sound_emit (insert_values p t rows columns)"
proof -
  assume t: "list_all text_char t"
  have r: "sound_emit (template [emit_lift (returning_part (ip_columns p) (ip_head p))])"
    by (intro sound_intros returning_chars)
  have "emits_no_lead (template [emit_lift (returning_part (ip_columns p) (ip_head p))])"
    by (auto simp: emits_no_lead_def template_single emit_lift_def rmap_eq_Inr dest: returning_text)
  then have c: "sound_emit (template [on_conflict_part p columns, emit_lift (returning_part (ip_columns p) (ip_head p))])"
    by (rule sound_template_next [OF sound_on_conflict r])
  moreover have "emits_no_lead (template [on_conflict_part p columns, emit_lift (returning_part (ip_columns p) (ip_head p))])"
    using on_conflict_no_lead [of p columns]
    by (intro no_lead_next) (auto simp: emits_no_lead_def template.simps emit_text_def emit_lift_def rmap_eq_Inr dest!: returning_text)
  moreover have "sound_emit (emit_join '', '' (map (value_group (ip_default_to_null p) columns) rows))"
    by (auto intro!: sound_intros simp: text_char_eval)
  ultimately have "sound_emit (template [emit_join '', '' (map (value_group (ip_default_to_null p) columns) rows),
      on_conflict_part p columns, emit_lift (returning_part (ip_columns p) (ip_head p))])"
    by (intro sound_template_next [of "emit_join '', '' (map (value_group (ip_default_to_null p) columns) rows)"])
  then show ?thesis unfolding insert_values_def
    by (intro sound_given sound_template_text) (use t in \<open>auto simp: text_char_eval dest: map_r_quote_text\<close>)
qed

lemma sound_default_values:
  "list_all text_char t \<Longrightarrow> list_all text_char r \<Longrightarrow>
   sound_query (to_query (''INSERT INTO '' @ t @ '' DEFAULT VALUES'' @ r, []))"
  by (intro sound_to_query sound_clean_text) (simp add: text_char_eval)

lemma sound_inserted:
  "quote_ident table = Inr t \<Longrightarrow> insert_values p t rows columns [] = Inr tv \<Longrightarrow> sound_query (to_query tv)"
  by (intro sound_to_query sound_emit_result [OF sound_insert_values]) (auto dest: quote_ident_text)

lemma sound_insert: "compile_postgres_insert p = Inr q \<Longrightarrow> sound_query q"
  by (auto simp: compile_postgres_insert_def Let_def rbind_eq_Inr rmap_eq_Inr simp del: append.simps
      intro: sound_inserted intro!: sound_default_values dest: quote_ident_text returning_text split: if_splits)

section \<open>Row bounds\<close>

lemma js_lower_where: "js_lower ''WHERE'' = ''where''"
  by code_simp

lemma strip_where_text: "strip_where (CHR ''W'' # CHR ''H'' # CHR ''E'' # CHR ''R'' # CHR ''E'' # CHR '' '' # t) =
    dropWhile is_ws t"
  using js_lower_where by (simp add: strip_where_def is_ws_def code_def)

lemma piece_drop_ws: "piece t ns \<Longrightarrow> piece (dropWhile is_ws t) ns"
proof -
  assume "piece t ns"
  moreover have "placeholders (dropWhile is_ws t @ rest) = placeholders (t @ rest)" for rest
    by (induction t) (auto simp: is_ws_def code_def)
  ultimately show ?thesis by (simp add: piece_def)
qed

lemma bounded_clause_sound:
  assumes w: "build_where cs = Inr (w, vs)" and b: "bounded_identity_in_clause table w p order identity = Inr b"
  shows "sound_text_values (b, vs)"
proof -
  from b obtain q t ord where c: "list_all text_char q" "list_all text_char t" "list_all text_char ord"
    and b: "b = (q @ '' IN ('') @ nonempty_parts [''SELECT '' @ q @ '' FROM '' @ t,
      if strip_where w = [] then [] else ''WHERE '' @ strip_where w, ord, limit_offset_clause p] @ '')''"
    by (auto simp: bounded_identity_in_clause_def rbind_eq_Inr Let_def dest!: quote_ident_text order_clause_text)
  have "sound_text_values (if strip_where w = [] then [] else ''WHERE '' @ strip_where w, vs)"
  proof (cases "cs = []")
    case True
    then show ?thesis using w by (simp add: build_where_def strip_where_def js_lower_def sound_clean_text)
  next
    case False
    then obtain u where u: "w = ''WHERE '' @ u" "sound_text_values (u, vs)"
      using w by (auto simp: build_where_def rmap_eq_Inr dest!: sound_emit_result [OF sound_where_parts])
    then have s: "sound_text_values (strip_where w, vs)"
      by (auto simp: strip_where_text sound_text_values_def list_all_iff intro: piece_drop_ws dest: set_dropWhileD
          simp del: upt_Suc)
    show ?thesis using s sound_around [OF s, of "''WHERE ''" "[]"] by (auto simp: text_char_eval)
  qed
  then have "sound_text_values (nonempty_parts [''SELECT '' @ q @ '' FROM '' @ t,
      if strip_where w = [] then [] else ''WHERE '' @ strip_where w, ord, limit_offset_clause p], vs)"
    using c by (intro sound_parts) (simp_all add: text_char_eval limit_offset_chars)
  then show ?thesis unfolding b using c by (intro sound_around) (simp_all add: text_char_eval)
qed

section \<open>Update and delete\<close>

lemma assignments_bind:
  "emit_join '', '' (map assignment kvs) vs = Inr (t, vs') \<Longrightarrow>
   vs' = vs @ map (\<lambda>kv. json_value (snd kv)) kvs"
proof -
  have "map_s (\<lambda>m. m) (map assignment kvs) vs = Inr (ts, vs') \<Longrightarrow>
      vs' = vs @ map (\<lambda>kv. json_value (snd kv)) kvs" for ts
    by (induction kvs arbitrary: vs ts)
      (fastforce simp: rbind_eq_Inr rmap_eq_Inr assignment_def emit_bind_def)+
  then show "emit_join '', '' (map assignment kvs) vs = Inr (t, vs') \<Longrightarrow>
      vs' = vs @ map (\<lambda>kv. json_value (snd kv)) kvs"
    by (auto simp: emit_join_def rmap_eq_Inr)
qed

text \<open>A text whose placeholders go on where the bound values \<open>vs\<close> end.\<close>

definition continues :: "jval list \<Rightarrow> string \<times> jval list \<Rightarrow> bool" where
  "continues vs tv \<longleftrightarrow>
     (\<exists>new. snd tv = vs @ new) \<and> piece (fst tv) (bound_span vs (snd tv)) \<and> list_all sql_char (fst tv)"

lemma sound_emit_continues: "sound_emit m \<Longrightarrow> m vs = Inr tv \<Longrightarrow> continues vs tv"
  by (cases tv) (auto simp: sound_emit_def continues_def dest!: well_boundD chars_inD)

lemma placeholders_append: "no_lead_digit rest \<Longrightarrow> placeholders (t @ rest) = placeholders t @ placeholders rest"
proof (induction t rule: placeholders.induct)
  case (2 c s)
  have t: "takeWhile is_digit (s @ rest) = takeWhile is_digit s"
    using 2(3) by (induction s) (auto simp: no_lead_digit_def split: list.splits)
  have "dropWhile is_digit (s @ rest) = dropWhile is_digit s @ rest"
    using 2(3) by (induction s) (auto simp: no_lead_digit_def split: list.splits)
  with 2 t show ?case by simp
qed simp

lemma piece_iff: "piece t ns \<longleftrightarrow> placeholders t = ns"
proof
  assume "placeholders t = ns"
  then show "piece t ns" by (simp add: piece_def placeholders_append)
qed (rule piece_placeholders)

lemma reindex_continues:
  assumes "sound_text_values (b, new)"
  shows "continues vs (reindex_placeholders b (length vs), vs @ new)"
proof (cases "b = [] \<or> vs = []")
  case True
  moreover have "new = []" if "b = []"
    using assms that by (cases new) (auto simp: sound_text_values_def piece_iff)
  ultimately show ?thesis using assms
    by (auto simp: continues_def sound_text_values_def bound_span_def reindex_placeholders_def piece_iff simp del: upt_Suc)
next
  case False
  then have "reindex_placeholders b (length vs) = reindex (length vs) b" by (simp add: reindex_placeholders_def)
  then show ?thesis
    using assms reindex_chars [of b "length vs"]
    by (auto simp: continues_def sound_text_values_def piece_iff placeholders_reindex map_add_upt' bound_span_def
        add.commute simp del: upt_Suc)
qed

lemma continues_after:
  assumes "sound_text_values (a, vs)" "continues vs (b, vs')" "list_all text_char sep" "no_lead_digit sep" "sep \<noteq> []"
  shows "sound_text_values (a @ sep @ b, vs')"
proof -
  obtain new where new: "vs' = vs @ new" using assms(2) by (auto simp: continues_def)
  have "piece (a @ sep @ b) (bound_span [] vs @ bound_span vs vs')"
    using assms by (intro piece_append_clean)
      (auto simp: continues_def sound_text_values_def bound_span_def text_no_dollar simp del: upt_Suc)
  then show ?thesis using assms bound_span_append [of "[]" vs new]
    by (auto simp: sound_text_values_def continues_def bound_span_def text_sql new simp del: upt_Suc)
qed

lemma update_where_continues:
  assumes c: "continues vs cond" and k: "length vs = k" and u: "update_where p identity table k cond = Inr final"
  shows "continues vs final"
proof -
  have take: "take k (snd cond) = vs" using c k by (auto simp: continues_def)
  from u consider "final = cond" | w b where "build_where (up_conditions p) = Inr w"
      "bounded_identity_in_clause table (fst w) (up_paging p) (up_sort_by p) identity = Inr b"
      "final = (reindex_placeholders b (length vs), vs @ snd w)"
    by (auto simp: update_where_def rbind_eq_Inr rmap_eq_Inr take split: if_splits)
  then show ?thesis
    using c reindex_continues [OF bounded_clause_sound] by cases auto
qed

lemma sound_update: "compile_postgres_update p identity = Inr q \<Longrightarrow> sound_query q"
proof -
  assume "compile_postgres_update p identity = Inr q"
  then obtain table sets cond final t r where
    sets: "emit_join '', '' (map assignment (row_fields (up_update_body p))) [] = Inr sets"
    and cond: "where_parts (up_conditions p) (snd sets) = Inr cond"
    and final: "update_where p identity table (length (row_fields (up_update_body p))) cond = Inr final"
    and t: "quote_ident table = Inr t" and r: "returning_part (up_columns p) (up_head p) = Inr r"
    and q: "q = to_query (''UPDATE '' @ t @ '' SET '' @ fst sets @ '' WHERE '' @ fst final @ r, snd final)"
    unfolding compile_postgres_update_def Let_def rbind_eq_Inr to_query_def
    by (auto simp: rbind_eq_Inr split: if_splits)
  have len: "length (snd sets) = length (row_fields (up_update_body p))"
    using assignments_bind [of "row_fields (up_update_body p)" "[]" "fst sets" "snd sets"] sets by simp
  have "continues (snd sets) final"
    by (rule update_where_continues [OF sound_emit_continues [OF sound_where_parts cond] len final])
  then have "sound_text_values (fst sets @ '' WHERE '' @ fst final, snd final)"
    using sound_emit_result [OF sound_assignments sets]
    by (intro continues_after) (simp_all add: text_char_eval)
  then have "sound_text_values ((''UPDATE '' @ t @ '' SET '') @ (fst sets @ '' WHERE '' @ fst final) @ r, snd final)"
    using quote_ident_text [OF t] returning_text [OF r]
    by - (rule sound_around, simp_all add: text_char_eval)
  then show ?thesis unfolding q by (intro sound_to_query) simp
qed

lemma delete_where_sound:
  assumes "build_where (delete_conditions p) = Inr w" "delete_where p identity table (fst w) = Inr final"
  shows "sound_text_values (final, snd w)"
proof -
  from assms(2) consider "final = fst w" |
    b where "bounded_identity_in_clause table (fst w) (dp_paging p) (dp_sort_by p) identity = Inr b" "final = ''WHERE '' @ b"
    by (auto simp: delete_where_def rbind_eq_Inr rmap_eq_Inr split: if_splits)
  then show ?thesis
  proof cases
    case (2 b)
    then have "sound_text_values (b, snd w)" using assms(1) by (intro bounded_clause_sound) auto
    from sound_around [OF this, of "''WHERE ''" "[]"] show ?thesis by (simp add: 2(2) text_char_eval)
  qed (use sound_build_where [OF assms(1)] in auto)
qed

lemma sound_delete: "compile_postgres_delete p identity = Inr q \<Longrightarrow> sound_query q"
proof -
  assume "compile_postgres_delete p identity = Inr q"
  then obtain table w final t r where
    w: "build_where (delete_conditions p) = Inr w"
    and final: "delete_where p identity table (fst w) = Inr final"
    and t: "quote_ident table = Inr t" and r: "returning_part (dp_columns p) False = Inr r"
    and q: "q = to_query (''DELETE FROM '' @ t @ '' '' @ final @ r, snd w)"
    unfolding compile_postgres_delete_def rbind_eq_Inr to_query_def
    by (auto simp: rbind_eq_Inr split: if_splits)
  have "sound_text_values ((''DELETE FROM '' @ t @ '' '') @ final @ r, snd w)"
    using quote_ident_text [OF t] returning_text [OF r] delete_where_sound [OF w final]
    by - (rule sound_around, simp_all add: text_char_eval)
  then show ?thesis unfolding q by (intro sound_to_query) simp
qed

section \<open>Function calls\<close>

lemma sound_argument [sound_intros]: "sound_emit (argument kv)"
  unfolding argument_def by (intro sound_intros quote_ident_chars) (auto simp: text_char_eval)

lemma rpc_order_text: "rpc_order_part o' = Inr t \<Longrightarrow> list_all text_char t \<and> no_lead_digit t"
  by (auto simp: rpc_order_part_def rmap_eq_Inr text_char_eval dest!: quote_ident_text split: option.splits if_splits)

lemma optional_bound_text:
  "list_all text_char keyword \<Longrightarrow> list_all text_char (optional_bound head keyword n') \<and> no_lead_digit (optional_bound head keyword n')"
  using bound_text_text by (auto simp: optional_bound_def text_char_eval split: option.split)

lemma rpc_columns_text: "rpc_columns p = Inr sel \<Longrightarrow> list_all text_char sel"
  by (auto simp: rpc_columns_def text_char_eval dest: select_clause_text split: if_splits)

lemma sound_rpc_where: "sound_emit (rpc_where p)"
  unfolding rpc_where_def by (auto intro!: sound_intros simp: text_char_eval)

lemma rpc_where_lead: "rpc_where p vs = Inr w \<Longrightarrow> no_lead_digit (fst w)"
  by (auto simp: rpc_where_def emit_text_def template.simps rmap_eq_Inr split: if_splits)

lemma sound_rpc: "compile_postgres_rpc p = Inr q \<Longrightarrow> sound_query q"
proof -
  assume "compile_postgres_rpc p = Inr q"
  then obtain fname a sel t w ord where
    a: "emit_join '', '' (map argument (fields_of (rp_args p))) [] = Inr a"
    and sel: "rpc_columns p = Inr sel" and t: "quote_ident fname = Inr t"
    and w: "rpc_where p (snd a) = Inr w" and ord: "rpc_order_part (rp_order p) = Inr ord"
    and q: "q = to_query (''SELECT '' @ sel @ '' FROM '' @ t @ ''('' @ fst a @ '')'' @ fst w @ ord @
      optional_bound (rp_head p) ''LIMIT'' (rp_limit p) @ optional_bound (rp_head p) ''OFFSET'' (rp_offset p), snd w)"
    unfolding compile_postgres_rpc_def Let_def to_query_def
    by (auto simp: rbind_eq_Inr split: if_splits)
  define rest where "rest = ord @ optional_bound (rp_head p) ''LIMIT'' (rp_limit p) @ optional_bound (rp_head p) ''OFFSET'' (rp_offset p)"
  have rest: "list_all text_char rest" "no_lead_digit rest"
    using rpc_order_text [OF ord] optional_bound_text [of "''LIMIT''"] optional_bound_text [of "''OFFSET''"]
    by (auto simp: rest_def text_char_eval)
  have "sound_emit (emit_join '', '' (map argument (fields_of (rp_args p))))"
    by (auto intro!: sound_intros simp: text_char_eval)
  from sound_emit_result [OF this a] have "sound_text_values (fst a @ '')'' @ fst w, snd w)"
    using sound_emit_continues [OF sound_rpc_where w] by (intro continues_after) (simp_all add: text_char_eval)
  then have "sound_text_values ((''SELECT '' @ sel @ '' FROM '' @ t @ ''('') @ (fst a @ '')'' @ fst w) @ rest, snd w)"
    using quote_ident_text [OF t] rpc_columns_text [OF sel] rest
    by - (rule sound_around, simp_all add: text_char_eval)
  then show ?thesis unfolding q rest_def by (intro sound_to_query) simp
qed

end
