(* ===== verification/PostgresAst.thy ===== *)
theory PostgresAst
  imports PostgresFacts QueryPlan QueryNormalize
begin

text \<open>
  The PostgreSQL compiler of resolved query plans (\<open>postgres/compile-ast.ts\<close>): conditions,
  relation predicates as \<open>EXISTS\<close>, nested selections as JSON subqueries. The lemmas show that
  the placeholders of the text number the bound values, and that the text does not depend on
  the values a plan compares with.
\<close>

datatype ast_error = AstPg string | AstQuery query_error_code | AstType

definition pg_to_ast :: "(pg_error, 'a) result \<Rightarrow> (ast_error, 'a) result" where
  "pg_to_ast r = (case r of Inl (PgError e) \<Rightarrow> Inl (AstPg e) | Inr x \<Rightarrow> Inr x)"

definition query_to_ast :: "(query_error, 'a) result \<Rightarrow> (ast_error, 'a) result" where
  "query_to_ast r =
     (case r of
        Inl (QueryError c) \<Rightarrow> Inl (AstQuery c)
      | Inl QueryTypeError \<Rightarrow> Inl AstType
      | Inr x \<Rightarrow> Inr x)"

section \<open>Names\<close>

definition ast_ident :: "string \<Rightarrow> (ast_error, string) result" where
  "ast_ident name = pg_to_ast (quote_ident name)"

definition schema_name :: "string option \<Rightarrow> string \<Rightarrow> string" where
  "schema_name schema table =
     (case schema of None \<Rightarrow> table | Some s \<Rightarrow> if s = [] then table else s @ ''.'' @ table)"

definition qualify_named_table :: "string option \<Rightarrow> string \<Rightarrow> string \<Rightarrow> (ast_error, string) result" where
  "qualify_named_table schema table alias =
     rbind (ast_ident (schema_name schema table)) (\<lambda>t. rmap (\<lambda>a. t @ '' AS '' @ a) (ast_ident alias))"

definition qualify_table :: "resolved_source \<Rightarrow> (ast_error, string) result" where
  "qualify_table src = qualify_named_table (rs_schema src) (rs_table src) (rs_alias src)"

text \<open>A column that an index past the end of a key list would read is \<open>None\<close>.\<close>

definition qualify_column :: "string \<Rightarrow> string option \<Rightarrow> (ast_error, string) result" where
  "qualify_column alias column =
     rbind (ast_ident alias) (\<lambda>a.
       case column of
         None \<Rightarrow> Throw AstType
       | Some c \<Rightarrow> if c = ''*'' then Ok (a @ ''.*'') else rmap (\<lambda>q. a @ ''.'' @ q) (ast_ident c))"

definition nth_opt :: "'a list \<Rightarrow> nat \<Rightarrow> 'a option" where
  "nth_opt xs i = (if i < length xs then Some (xs ! i) else None)"

section \<open>Joins\<close>

definition key_equality :: "string \<Rightarrow> string \<Rightarrow> string option \<times> string option \<Rightarrow> (ast_error, string) result" where
  "key_equality left right cols =
     rbind (qualify_column left (fst cols)) (\<lambda>l. rmap (\<lambda>r. l @ '' = '' @ r) (qualify_column right (snd cols)))"

definition key_pairs :: "string list \<Rightarrow> string list \<Rightarrow> (string option \<times> string option) list" where
  "key_pairs from to = map (\<lambda>i. (Some (from ! i), nth_opt to i)) [0..<length from]"

definition key_join :: "string \<Rightarrow> string \<Rightarrow> string list \<Rightarrow> string list \<Rightarrow> (ast_error, string) result" where
  "key_join left right from to =
     rmap (js_join '' AND '') (map_r (key_equality left right) (key_pairs from to))"

definition join_predicate ::
  "resolved_source \<Rightarrow> resolved_source \<Rightarrow> string list \<Rightarrow> string list \<Rightarrow> (ast_error, string) result" where
  "join_predicate parent child from to =
     (if from = [] \<or> length from \<noteq> length to then Throw (AstPg ''invalid_condition'')
      else key_join (rs_alias parent) (rs_alias child) from to)"

text \<open>The \<open>FROM\<close> text and the join condition of a relation.\<close>

definition compile_relation_scope ::
  "resolved_source \<Rightarrow> resolved_source \<Rightarrow> relation_descriptor \<Rightarrow> string option \<Rightarrow>
   (ast_error, string \<times> string) result" where
  "compile_relation_scope parent child d junction_name =
     (if rd_cardinality d = ManyToMany then
        (case (rd_junction d, junction_name) of
           (Some jn, Some ja) \<Rightarrow>
             if ja = [] then Throw (AstQuery InvalidNormalizedAst)
             else
               rbind (key_join ja (rs_alias child) (jn_to_columns jn) (re_columns (rd_to d))) (\<lambda>on.
               rbind (key_join (rs_alias parent) ja (re_columns (rd_from d)) (jn_from_columns jn)) (\<lambda>join.
               rbind (qualify_table child) (\<lambda>c.
               rmap (\<lambda>j. (c @ '' JOIN '' @ j @ '' ON '' @ on, join))
                 (qualify_named_table (jn_schema jn) (jn_table jn) ja))))
         | _ \<Rightarrow> Throw (AstQuery InvalidNormalizedAst))
      else
        rbind (qualify_table child) (\<lambda>c.
        rmap (\<lambda>join. (c, join))
          (join_predicate parent child (re_columns (rd_from d)) (re_columns (rd_to d)))))"

section \<open>Conditions\<close>

definition compare_symbol :: "compare_operator \<Rightarrow> string" where
  "compare_symbol cop =
     (case cop of
        OpEq \<Rightarrow> ''='' | OpNeq \<Rightarrow> ''<>'' | OpGt \<Rightarrow> ''>'' | OpGte \<Rightarrow> ''>='' | OpLt \<Rightarrow> ''<'' | OpLte \<Rightarrow> ''<=''
      | OpLike \<Rightarrow> ''LIKE'' | OpIlike \<Rightarrow> ''ILIKE'')"

definition field_column :: "resolved_source \<Rightarrow> field_ref \<Rightarrow> (ast_error, string) result" where
  "field_column parent fr = qualify_column (rs_alias parent) (Some (fr_field fr))"

definition field_test :: "resolved_source \<Rightarrow> field_ref \<Rightarrow> string \<Rightarrow> ast_error emit" where
  "field_test parent fr test = emit_given (field_column parent fr) (\<lambda>c. emit_text (c @ test))"

definition containment_value :: "jval \<Rightarrow> jval" where
  "containment_value v = nullish_or (if is_record v then JStr (stringify v) else v) Null"

definition field_containment :: "resolved_source \<Rightarrow> field_ref \<Rightarrow> string \<Rightarrow> jval \<Rightarrow> ast_error emit" where
  "field_containment parent fr op v =
     emit_given (field_column parent fr) (\<lambda>c.
       template [emit_text (c @ op), emit_bind (containment_value v), emit_text ''::jsonb''])"

definition negated_predicate :: "relation_predicate \<Rightarrow> bool" where
  "negated_predicate p \<longleftrightarrow> p \<in> {PredNone, PredIsNot, PredEvery}"

definition exists_open :: "relation_predicate \<Rightarrow> string \<times> string \<Rightarrow> string" where
  "exists_open p scope =
     (if negated_predicate p then ''NOT '' else []) @ ''EXISTS (SELECT 1 FROM '' @ fst scope @ '' WHERE '' @ snd scope"

definition target_as_source :: "relation_target \<Rightarrow> resolved_source" where
  "target_as_source t =
     \<lparr>rs_alias = rt_alias t, rs_model_id = rt_model_id t, rs_schema = rt_schema t, rs_table = rt_table t\<rparr>"

fun compile_condition :: "condition \<Rightarrow> resolved_source \<Rightarrow> ast_error emit" where
  "compile_condition (AndCond cs) parent =
     template [emit_text ''('', emit_join '' AND '' (map (\<lambda>c. compile_condition c parent) cs), emit_text '')'']"
| "compile_condition (OrCond cs) parent =
     template [emit_text ''('', emit_join '' OR '' (map (\<lambda>c. compile_condition c parent) cs), emit_text '')'']"
| "compile_condition (NotCond c) parent =
     template [emit_text ''(NOT '', compile_condition c parent, emit_text '')'']"
| "compile_condition (IsNullCond fr neg) parent =
     field_test parent fr ('' IS'' @ (if neg then '' NOT'' else []) @ '' NULL'')"
| "compile_condition (IsTrueCond fr) parent = field_test parent fr '' IS TRUE''"
| "compile_condition (IsFalseCond fr) parent = field_test parent fr '' IS FALSE''"
| "compile_condition (InValues fr vs) parent =
     (if vs = [] then emit_text ''1 = 0''
      else emit_given (field_column parent fr) (\<lambda>c.
        template [emit_text (c @ '' IN (''), emit_join '', '' (map (\<lambda>v. emit_bind (nullish_or v Null)) vs), emit_text '')'']))"
| "compile_condition (Contains fr v) parent = field_containment parent fr '' @> '' v"
| "compile_condition (ContainedBy fr v) parent = field_containment parent fr '' <@ '' v"
| "compile_condition (Compare fr cop v) parent =
     (if v = Null then emit_fail (AstQuery InvalidNormalizedAst)
      else emit_given (field_column parent fr) (\<lambda>c.
        template [emit_text (c @ '' '' @ compare_symbol cop @ '' ''), emit_bind v]))"
| "compile_condition (ResolvedCond d t j p r f) parent =
     emit_given (compile_relation_scope parent (target_as_source t) d j) (\<lambda>scope.
       case f of
         None \<Rightarrow> emit_text (exists_open p scope @ '')'')
       | Some c \<Rightarrow>
           if p = PredEvery
           then template [emit_text (exists_open p scope @ '' AND (''), compile_condition c (target_as_source t),
                  emit_text '') IS NOT TRUE)'']
           else template [emit_text (exists_open p scope @ '' AND ''), compile_condition c (target_as_source t),
                  emit_text '')''])"
| "compile_condition (RelationCond p r via f) parent = emit_fail (AstQuery InvalidNormalizedAst)"

section \<open>Plans\<close>

text \<open>\<open>canonicalizePagination\<close> (\<open>query/engine/normalize.ts\<close>): limit and offset, \<open>Undefined\<close> for absent.\<close>

definition trunc_value :: "jval \<Rightarrow> jnum" where
  "trunc_value v = num_trunc (to_number v)"

definition bound_clause :: "string \<Rightarrow> jval \<Rightarrow> string" where
  "bound_clause keyword v = (if v = Undefined then [] else '' '' @ keyword @ '' '' @ bound_text (to_number v))"

definition order_item :: "string \<Rightarrow> order_ast \<Rightarrow> (ast_error, string) result" where
  "order_item alias o' =
     rmap (\<lambda>c. c @ '' '' @ (if or_direction o' = Desc then ''DESC'' else ''ASC'') @
         (case or_nulls o' of None \<Rightarrow> [] | Some NullsFirst \<Rightarrow> '' NULLS FIRST'' | Some NullsLast \<Rightarrow> '' NULLS LAST''))
       (qualify_column alias (Some (fr_field (or_field o'))))"

definition compile_order :: "query_plan \<Rightarrow> (ast_error, string) result" where
  "compile_order p =
     (let os = get_or (qp_order_by p) []
      in if os = [] then Ok []
         else rmap (\<lambda>ts. '' ORDER BY '' @ js_join '', '' ts) (map_r (order_item (rs_alias (qp_source p))) os))"

definition selected_column :: "resolved_source \<Rightarrow> string option \<Rightarrow> string \<Rightarrow> (ast_error, string) result" where
  "selected_column src alias column =
     rbind (qualify_column (rs_alias src) (Some column)) (\<lambda>e.
       case alias of
         None \<Rightarrow> Ok e
       | Some a \<Rightarrow> if a \<noteq> [] \<and> a \<noteq> column then rmap (\<lambda>q. e @ '' AS '' @ q) (ast_ident a) else Ok e)"

definition to_many :: "relation_descriptor \<Rightarrow> bool" where
  "to_many d \<longleftrightarrow> rd_cardinality d = OneToMany \<or> rd_cardinality d = ManyToMany"

definition nested_open :: "relation_descriptor \<Rightarrow> string \<Rightarrow> string" where
  "nested_open d alias =
     (if to_many d then ''COALESCE((SELECT json_agg(row_to_json('' @ alias @ ''))''
      else ''(SELECT row_to_json('' @ alias @ '')'') @ '' FROM (SELECT ''"

definition nested_close :: "relation_descriptor \<Rightarrow> string \<Rightarrow> string" where
  "nested_close d alias =
     '') '' @ alias @ (if to_many d then ''), '' @ [CHR 0x27] @ ''[]'' @ [CHR 0x27] @ ''::json)'' else '')'') @ '' AS ''"

definition nested_bounds :: "relation_descriptor \<Rightarrow> query_plan \<Rightarrow> string" where
  "nested_bounds d p =
     (let page = canonicalize_pagination (qp_pagination p)
      in (if to_many d then bound_clause ''LIMIT'' (fst page) else '' LIMIT 1'') @ bound_clause ''OFFSET'' (snd page))"

definition and_filter :: "query_plan \<Rightarrow> ast_error emit" where
  "and_filter p =
     (case qp_filter p of
        None \<Rightarrow> emit_text []
      | Some c \<Rightarrow> template [emit_text '' AND '', compile_condition c (qp_source p)])"

fun compile_select_list :: "query_plan \<Rightarrow> ast_error emit"
  and compile_field :: "resolved_source \<Rightarrow> plan_field \<Rightarrow> ast_error emit" where
  "compile_select_list (QueryPlan q cy flt ob pag sel src) = emit_join '', '' (map (compile_field src) sel)"
| "compile_field parent (PlanColumn a c) = emit_lift (selected_column parent a c)"
| "compile_field parent (PlanRelation out d j p) =
     emit_given (compile_relation_scope parent (qp_source p) d j) (\<lambda>scope.
     emit_given (ast_ident (rs_alias (qp_source p))) (\<lambda>alias.
       template
         [emit_text (nested_open d alias),
          compile_select_list p,
          emit_text ('' FROM '' @ fst scope @ '' WHERE '' @ snd scope),
          and_filter p,
          emit_lift (compile_order p),
          emit_text (nested_bounds d p @ nested_close d alias),
          emit_lift (ast_ident out)]))"

definition where_filter :: "query_plan \<Rightarrow> ast_error emit" where
  "where_filter p =
     (case qp_filter p of
        None \<Rightarrow> emit_text []
      | Some c \<Rightarrow> template [emit_text '' WHERE '', compile_condition c (qp_source p)])"

definition plan_bounds :: "query_plan \<Rightarrow> string" where
  "plan_bounds p =
     (let page = canonicalize_pagination (qp_pagination p);
          limit = (if qp_cardinality p = FirstRow \<or> qp_cardinality p = UniqueRow then JNum (jint 1) else fst page)
      in bound_clause ''LIMIT'' limit @ bound_clause ''OFFSET'' (snd page))"

definition postgres_select :: "query_plan \<Rightarrow> ast_error emit" where
  "postgres_select p =
     template
       [emit_text ''SELECT '', compile_select_list p, emit_text '' FROM '', emit_lift (qualify_table (qp_source p)),
        where_filter p, emit_lift (compile_order p), emit_text (plan_bounds p)]"

definition compile_postgres_ast :: "query_plan \<Rightarrow> (ast_error, compiled_query) result" where
  "compile_postgres_ast p =
     rbind (query_to_ast (validate_plan_against_capabilities p postgres_query_capabilities)) (\<lambda>_.
       rmap to_query (postgres_select p []))"

definition postgres_count :: "query_plan \<Rightarrow> ast_error emit" where
  "postgres_count p =
     template
       [emit_text ''SELECT COUNT(*)::bigint AS __athena_count FROM '', emit_lift (qualify_table (qp_source p)),
        where_filter p]"

definition compile_postgres_ast_count :: "query_plan \<Rightarrow> (ast_error, compiled_query) result" where
  "compile_postgres_ast_count p =
     rbind (query_to_ast (validate_plan_against_capabilities p postgres_query_capabilities)) (\<lambda>_.
       rmap to_query (postgres_count p []))"

section \<open>Placeholders and values\<close>

lemma no_dollar_pg: "result_chars text_char r \<Longrightarrow> no_dollar (pg_to_ast r)"
  by (cases r) (auto simp: pg_to_ast_def text_no_dollar split: pg_error.splits)

lemma no_dollar_rmap: "no_dollar r \<Longrightarrow> (\<And>t. CHR ''$'' \<notin> set t \<Longrightarrow> CHR ''$'' \<notin> set (f t)) \<Longrightarrow> no_dollar (rmap f r)"
  by (cases r) auto

lemma no_dollar_Ok: "no_dollar r \<Longrightarrow> r = Inr t \<Longrightarrow> CHR ''$'' \<notin> set t"
  by simp

lemma ast_ident_clean: "no_dollar (ast_ident name)"
  unfolding ast_ident_def by (rule no_dollar_pg [OF quote_ident_chars])

lemma named_table_clean: "no_dollar (qualify_named_table schema table alias)"
  unfolding qualify_named_table_def no_dollar_rbind
  by (auto intro!: no_dollar_rmap ast_ident_clean dest: no_dollar_Ok [OF ast_ident_clean])

lemma qualify_table_clean: "no_dollar (qualify_table src)"
  by (simp add: qualify_table_def named_table_clean)

lemma qualify_column_clean: "no_dollar (qualify_column alias column)"
  unfolding qualify_column_def no_dollar_rbind
  by (auto intro!: no_dollar_rmap ast_ident_clean dest: no_dollar_Ok [OF ast_ident_clean] split: option.split)

lemma map_r_clean:
  assumes "\<And>x. no_dollar (f x)" "map_r f xs = Inr ts" "CHR ''$'' \<notin> set sep"
  shows "CHR ''$'' \<notin> set (js_join sep ts)"
proof -
  have "\<forall>t \<in> set ts. CHR ''$'' \<notin> set t"
    using assms(1,2) no_dollar_Ok by (metis map_r_Inr_set)
  then show ?thesis using js_join_chars [of sep ts] assms(3) by auto
qed

lemma key_equality_clean: "no_dollar (key_equality left right cols)"
  unfolding key_equality_def no_dollar_rbind
  by (auto intro!: no_dollar_rmap qualify_column_clean dest: no_dollar_Ok [OF qualify_column_clean])

lemma key_join_clean: "no_dollar (key_join left right from to)"
  using map_r_clean [of "key_equality left right", OF key_equality_clean] by (cases "map_r (key_equality left right) (key_pairs from to)")
    (auto simp: key_join_def)

lemma relation_scope_clean:
  "compile_relation_scope parent child d j = Inr scope \<Longrightarrow> CHR ''$'' \<notin> set (fst scope) \<and> CHR ''$'' \<notin> set (snd scope)"
  by (auto simp: compile_relation_scope_def join_predicate_def rbind_eq_Inr rmap_eq_Inr split: if_splits option.splits
      dest: no_dollar_Ok [OF key_join_clean] no_dollar_Ok [OF qualify_table_clean] no_dollar_Ok [OF named_table_clean])

lemma field_column_clean: "field_column parent fr = Inr c \<Longrightarrow> CHR ''$'' \<notin> set c"
  unfolding field_column_def by (rule no_dollar_Ok [OF qualify_column_clean])

lemma wb_given' [wb_intros]: "(\<And>x. r = Inr x \<Longrightarrow> well_bound (f x)) \<Longrightarrow> well_bound (emit_given r f)"
  by (rule wb_given)

lemma compare_symbol_clean: "CHR ''$'' \<notin> set (compare_symbol cop)"
  by (simp add: compare_symbol_def split: compare_operator.split)

lemma wb_compile_condition: "well_bound (compile_condition c parent)"
proof (induction c parent rule: compile_condition.induct)
  case (11 d t j p r f parent)
  have "CHR ''$'' \<notin> set (exists_open p scope)"
    if "compile_relation_scope parent (target_as_source t) d j = Inr scope" for scope
    using relation_scope_clean [OF that] by (simp add: exists_open_def)
  with 11 show ?case by (cases f) (auto intro!: wb_intros)
qed (auto intro!: wb_intros simp: field_test_def field_containment_def field_column_clean compare_symbol_clean)

lemma bound_clause_clean: "CHR ''$'' \<notin> set keyword \<Longrightarrow> CHR ''$'' \<notin> set (bound_clause keyword v)"
  by (simp add: bound_clause_def)

lemma order_item_clean: "no_dollar (order_item alias o')"
  unfolding order_item_def
  by (rule no_dollar_rmap [OF qualify_column_clean]) (auto split: option.split nulls_order.split)

lemma compile_order_clean: "no_dollar (compile_order p)"
  using map_r_clean [of "order_item (rs_alias (qp_source p))" "get_or (qp_order_by p) []", OF order_item_clean]
  by (cases "map_r (order_item (rs_alias (qp_source p))) (get_or (qp_order_by p) [])")
    (auto simp: compile_order_def Let_def)

lemma selected_column_clean: "no_dollar (selected_column src alias column)"
  unfolding selected_column_def no_dollar_rbind
  by (auto intro!: no_dollar_rmap ast_ident_clean dest: no_dollar_Ok [OF qualify_column_clean] split: option.split)

lemma ast_ident_Ok_clean: "ast_ident name = Inr a \<Longrightarrow> CHR ''$'' \<notin> set a"
  by (rule no_dollar_Ok [OF ast_ident_clean])

lemma nested_clean:
  "CHR ''$'' \<notin> set a \<Longrightarrow> CHR ''$'' \<notin> set (nested_open d a)"
  "CHR ''$'' \<notin> set a \<Longrightarrow> CHR ''$'' \<notin> set (nested_close d a)"
  "CHR ''$'' \<notin> set (nested_bounds d p)"
  by (simp_all add: nested_open_def nested_close_def nested_bounds_def Let_def bound_clause_clean)

lemma and_filter_lead: "emits_no_lead (and_filter p)"
  unfolding and_filter_def by (auto split: option.split intro!: no_lead_text no_lead_template)

lemma where_filter_lead: "emits_no_lead (where_filter p)"
  unfolding where_filter_def by (auto split: option.split intro!: no_lead_text no_lead_template)

lemma compile_order_lead: "compile_order p = Inr t \<Longrightarrow> no_lead_digit t"
  by (auto simp: compile_order_def Let_def rmap_eq_Inr split: if_splits)

lemma wb_and_filter: "well_bound (and_filter p)"
  unfolding and_filter_def by (auto split: option.split intro!: wb_intros wb_compile_condition)

lemma wb_where_filter: "well_bound (where_filter p)"
  unfolding where_filter_def by (auto split: option.split intro!: wb_intros wb_compile_condition)

text \<open>The optional tail of a select: filter, order, and a text of bounds.\<close>

lemma tail_bound:
  assumes "well_bound m" "emits_no_lead m" "CHR ''$'' \<notin> set bounds" "no_lead_digit bounds"
    "well_bound (template rest)" "bounds \<noteq> [] \<or> rest = []"
  shows "well_bound (template (m # emit_lift (compile_order p) # emit_text bounds # rest)) \<and>
    emits_no_lead (template (m # emit_lift (compile_order p) # emit_text bounds # rest))"
proof -
  have n0: "emits_no_lead (template (emit_text bounds # rest))"
    using assms(4,6) by (auto intro: no_lead_template simp: no_lead_next no_lead_text no_lead_Nil)
  have n1: "emits_no_lead (template (emit_lift (compile_order p) # emit_text bounds # rest))"
    by (intro no_lead_next no_lead_lift n0 compile_order_lead)
  have "well_bound (template (emit_lift (compile_order p) # emit_text bounds # rest))"
    by (intro wb_template_lift wb_template_text compile_order_clean assms)
  then show ?thesis using wb_template_next [OF assms(1)] no_lead_next [OF assms(2)] n1 by blast
qed

lemma nested_close_lead: "nested_bounds d p @ nested_close d a \<noteq> [] \<and> no_lead_digit (nested_bounds d p @ nested_close d a)"
  by (simp add: nested_close_def nested_bounds_def Let_def bound_clause_def)

lemma wb_select_list:
  "well_bound (compile_select_list p)" "well_bound (compile_field parent f)"
proof (induction p and parent f rule: compile_select_list_compile_field.induct)
  case (1 q cy flt ob pag sel src)
  then have "\<forall>m \<in> set (map (compile_field src) sel). well_bound m" by auto
  then show ?case by (auto intro!: wb_join)
next
  case (2 parent a c)
  then show ?case by (auto intro!: wb_intros selected_column_clean)
next
  case (3 parent out d j p)
  have "well_bound (template
         [emit_text (nested_open d alias), compile_select_list p,
          emit_text ('' FROM '' @ fst scope @ '' WHERE '' @ snd scope), and_filter p, emit_lift (compile_order p),
          emit_text (nested_bounds d p @ nested_close d alias), emit_lift (ast_ident out)])"
    if scope: "compile_relation_scope parent (qp_source p) d j = Inr scope" and al: "ast_ident (rs_alias (qp_source p)) = Inr alias"
    for scope "alias"
  proof -
    have "well_bound (template
         [and_filter p, emit_lift (compile_order p),
          emit_text (nested_bounds d p @ nested_close d alias), emit_lift (ast_ident out)])"
      using tail_bound [of "and_filter p" "nested_bounds d p @ nested_close d alias" "[emit_lift (ast_ident out)]" p]
        nested_close_lead [of d p "alias"] nested_clean ast_ident_Ok_clean [OF al]
      by (simp add: wb_and_filter and_filter_lead wb_template_single wb_lift ast_ident_clean)
    then show ?thesis using 3 relation_scope_clean [OF scope] nested_clean ast_ident_Ok_clean [OF al]
      by (intro wb_template_text wb_template_sep) simp_all
  qed
  then show ?case by (simp add: wb_given)
qed

lemma plan_bounds_clean: "CHR ''$'' \<notin> set (plan_bounds p) \<and> no_lead_digit (plan_bounds p)"
  by (simp add: plan_bounds_def Let_def bound_clause_def)

lemma wb_postgres_select: "well_bound (postgres_select p)"
proof -
  have "well_bound (template [where_filter p, emit_lift (compile_order p), emit_text (plan_bounds p)])"
    using tail_bound [of "where_filter p" "plan_bounds p" "[]" p] plan_bounds_clean [of p]
    by (simp add: wb_where_filter where_filter_lead wb_template_Nil)
  then show ?thesis unfolding postgres_select_def
    by (intro wb_template_text wb_template_sep wb_template_lift qualify_table_clean wb_select_list) simp_all
qed

lemma wb_postgres_count: "well_bound (postgres_count p)"
  unfolding postgres_count_def
  by (intro wb_template_text wb_template_lift wb_template_single wb_where_filter qualify_table_clean) simp

section \<open>Values do not reach the text\<close>

text \<open>A condition with every value blanked; only whether a comparison is with \<open>null\<close> is kept.\<close>

fun redact :: "condition \<Rightarrow> condition" where
  "redact (AndCond cs) = AndCond (map redact cs)"
| "redact (OrCond cs) = OrCond (map redact cs)"
| "redact (NotCond c) = NotCond (redact c)"
| "redact (Compare fr cop v) = Compare fr cop (if v = Null then Null else Undefined)"
| "redact (InValues fr vs) = InValues fr (map (\<lambda>_. Undefined) vs)"
| "redact (Contains fr v) = Contains fr Undefined"
| "redact (ContainedBy fr v) = ContainedBy fr Undefined"
| "redact (ResolvedCond d t j p r f) =
     ResolvedCond d t j p r (case f of None \<Rightarrow> None | Some c \<Rightarrow> Some (redact c))"
| "redact (RelationCond p r via f) =
     RelationCond p r via (case f of None \<Rightarrow> None | Some c \<Rightarrow> Some (redact c))"
| "redact c = c"

definition redact_filter :: "condition option \<Rightarrow> condition option" where
  "redact_filter f = (case f of None \<Rightarrow> None | Some c \<Rightarrow> Some (redact c))"

text \<open>The query a plan was made from is blanked too: nothing is compiled from it.\<close>

definition blank_ast :: select_ast where
  "blank_ast = SelectQuery ManyRows None None None None [] (table_source None [])"

fun redact_plan :: "query_plan \<Rightarrow> query_plan"
  and redact_field :: "plan_field \<Rightarrow> plan_field" where
  "redact_plan (QueryPlan q cy flt ob pag sel src) =
     QueryPlan blank_ast cy (redact_filter flt) ob pag (map redact_field sel) src"
| "redact_field (PlanColumn a c) = PlanColumn a c"
| "redact_field (PlanRelation out d j p) = PlanRelation out d j (redact_plan p)"

lemma redact_plan_parts [simp]:
  "qp_filter (redact_plan p) = redact_filter (qp_filter p)" "qp_order_by (redact_plan p) = qp_order_by p"
  "qp_pagination (redact_plan p) = qp_pagination p" "qp_source (redact_plan p) = qp_source p"
  "qp_cardinality (redact_plan p) = qp_cardinality p"
  "qp_selection (redact_plan p) = map redact_field (qp_selection p)"
  by (cases p; simp)+

lemma same_given: "(\<And>x. r = Inr x \<Longrightarrow> same_text (f x) (g x)) \<Longrightarrow> same_text (emit_given r f) (emit_given r g)"
  by (cases r) (simp_all add: same_text_def emit_given_def same_outcome_def)

lemma same_map: "(\<And>x. x \<in> set xs \<Longrightarrow> same_text (f x) (g x)) \<Longrightarrow> list_all2 same_text (map f xs) (map g xs)"
  by (simp add: list_all2_map1 list_all2_map2 list_all2_same)

lemma same_binds: "list_all2 same_text (map (\<lambda>v. emit_bind (f v)) vs) (map (\<lambda>v. emit_bind (g v)) vs)"
  by (simp add: same_map same_bind)

lemma same_condition: "same_text (compile_condition c parent) (compile_condition (redact c) parent)"
proof (induction c parent rule: compile_condition.induct)
  case (1 cs parent)
  then show ?case
    by (auto intro!: same_template same_intros same_join same_map simp: o_def)
next
  case (2 cs parent)
  then show ?case
    by (auto intro!: same_template same_intros same_join same_map simp: o_def)
next
  case (7 fr vs parent)
  then show ?case
    using same_binds [of "\<lambda>v. nullish_or v Null" vs "\<lambda>v. Null"]
    by (auto intro!: same_template same_intros same_join same_given simp: o_def nullish_or_def)
next
  case (11 d t j p r f parent)
  then show ?case
    by (cases f) (auto intro!: same_template same_intros same_given)
qed (auto intro!: same_template same_intros same_given simp: field_test_def field_containment_def)

lemma same_and_filter: "same_text (and_filter p) (and_filter (redact_plan p))"
  by (auto simp: and_filter_def redact_filter_def split: option.split
      intro!: same_template same_intros same_condition)

lemma same_where_filter: "same_text (where_filter p) (where_filter (redact_plan p))"
  by (auto simp: where_filter_def redact_filter_def split: option.split
      intro!: same_template same_intros same_condition)

lemma same_compile_order: "compile_order (redact_plan p) = compile_order p"
  by (simp add: compile_order_def Let_def)

lemma same_nested_bounds: "nested_bounds d (redact_plan p) = nested_bounds d p"
  by (simp add: nested_bounds_def)

lemma same_select_list:
  "same_text (compile_select_list p) (compile_select_list (redact_plan p))"
  "same_text (compile_field parent f) (compile_field parent (redact_field f))"
proof (induction p and parent f rule: compile_select_list_compile_field.induct)
  case (1 q cy flt ob pag sel src)
  then show ?case by (auto intro!: same_join same_map simp: o_def)
next
  case (2 parent a c)
  then show ?case by (simp add: same_lift)
next
  case (3 parent out d j p)
  then show ?case
    by (auto intro!: same_given same_template same_intros same_and_filter
        simp: same_compile_order same_nested_bounds)
qed

lemma same_postgres_select: "same_text (postgres_select p) (postgres_select (redact_plan p))"
  by (auto simp: postgres_select_def same_compile_order plan_bounds_def
      intro!: same_template same_intros same_select_list same_where_filter)

lemma redact_node [simp]:
  "node_supported cap (redact c) = node_supported cap c" "is_relation_node (redact c) = is_relation_node c"
  "many_to_many_node (redact c) = many_to_many_node c"
  by (cases c; simp add: node_supported_def many_to_many_node_def)+

lemma walk_redact: "walk_conditions (redact c) = map redact (walk_conditions c)"
  by (induction c rule: walk_conditions.induct)
    (auto simp: map_concat o_def cong: map_cong split: option.splits)

lemma walk_filter_redact: "walk_filter (redact_filter f) = map redact (walk_filter f)"
  by (cases f) (simp_all add: walk_filter_def redact_filter_def walk_redact)

lemma redact_relation_field [simp]:
  "is_plan_relation (redact_field f) = is_plan_relation f" "many_to_many_field (redact_field f) = many_to_many_field f"
  by (cases f; simp add: is_plan_relation_def many_to_many_field_def)+

lemma each_r_map: "each_r f (map g xs) = each_r (\<lambda>x. f (g x)) xs"
  by (induction xs) simp_all

lemma validate_redact:
  "validate_plan_against_capabilities (redact_plan p) cap = validate_plan_against_capabilities p cap"
  "validate_field_plan (redact_field f) cap = validate_field_plan f cap"
proof (induction p cap and f cap rule: validate_plan_against_capabilities_validate_field_plan.induct)
  case (1 q cy flt ob pag sel src cap)
  let ?hp = "list_ex is_relation_node (walk_filter flt)"
  let ?mm = "list_ex many_to_many_node (walk_filter flt) \<or> list_ex many_to_many_field sel"
  have fields: "each_r (\<lambda>f. validate_field_plan (redact_field f) cap) sel = each_r (\<lambda>f. validate_field_plan f cap) sel"
    if "\<not> (plan_has_unsupported_nulls ob \<and> \<not> cap_nulls_ordering cap)"
      "each_r (node_supported cap) (walk_filter flt) = Inr ()"
      "\<not> (list_ex is_plan_relation sel \<and> \<not> cap_nested_relations cap)"
      "\<not> (?hp \<and> \<not> cap_relational_predicates cap)" "\<not> (?mm \<and> \<not> cap_many_to_many cap)"
    using "1.IH" [OF that(1,2,3) refl refl that(4,5)] by (intro each_r_cong) auto
  have sel: "list_ex is_plan_relation (map redact_field sel) = list_ex is_plan_relation sel"
    "list_ex many_to_many_field (map redact_field sel) = list_ex many_to_many_field sel"
    "list_ex is_relation_node (map redact (walk_filter flt)) = list_ex is_relation_node (walk_filter flt)"
    "list_ex many_to_many_node (map redact (walk_filter flt)) = list_ex many_to_many_node (walk_filter flt)"
    by (simp_all add: list_ex_iff)
  show ?case
    using fields
    by (auto simp: walk_filter_redact each_r_map sel Let_def rbind_def split: sum.splits)
qed simp_all

lemma same_compile_ast:
  "rmap cq_text (compile_postgres_ast (redact_plan p)) = rmap cq_text (compile_postgres_ast p)"
proof (cases "query_to_ast (validate_plan_against_capabilities p postgres_query_capabilities)")
  case (Inr u)
  have "rmap fst (postgres_select p []) = rmap fst (postgres_select (redact_plan p) [])"
    by (rule same_outcome_text [OF same_textD [OF same_postgres_select]]) simp
  then show ?thesis
    by (cases "postgres_select p []"; cases "postgres_select (redact_plan p) []")
      (auto simp: compile_postgres_ast_def validate_redact Inr to_query_def)
qed (simp add: compile_postgres_ast_def validate_redact)

text \<open>
  \<open>every\<close> with no filter compiles to the text of \<open>none\<close>: it keeps the parents that have no
  related row at all.
\<close>

lemma every_without_filter:
  "compile_condition (ResolvedCond d t j PredEvery r None) parent =
   compile_condition (ResolvedCond d t j PredNone r None) parent"
  by (simp add: exists_open_def negated_predicate_def)

end
