(* ===== verification/SqlValues.thy ===== *)
theory SqlValues
  imports PostgresFacts
begin

text \<open>
  The values a compiler step binds: \<open>binds\<close> names them and \<open>steady\<close> says that neither they nor
  a failure depend on what was bound before, with one rule for every combinator. From these
  come the values of an insert, an update and a condition list.
\<close>

section \<open>What a step binds\<close>

text \<open>The values a step binds, whatever was bound before it.\<close>

definition binds :: "'e emit \<Rightarrow> bound \<Rightarrow> bool" where
  "binds m bs \<longleftrightarrow> (\<forall>vs t vs'. m vs = Inr (t, vs') \<longrightarrow> vs' = vs @ bs)"

named_theorems binds_intros \<open>what the combinators bind\<close>

lemma bindsD: "binds m bs \<Longrightarrow> m vs = Inr (t, vs') \<Longrightarrow> vs' = vs @ bs"
  by (simp add: binds_def)

lemma binds_text [binds_intros]: "binds (emit_text t) []"
  by (simp add: binds_def emit_text_def)

lemma binds_bind [binds_intros]: "binds (emit_bind v) [v]"
  by (simp add: binds_def emit_bind_def)

lemma binds_lift [binds_intros]: "binds (emit_lift r) []"
  by (auto simp: binds_def emit_lift_def rmap_eq_Inr)

lemma binds_given [binds_intros]: "(\<And>x. r = Inr x \<Longrightarrow> binds (f x) bs) \<Longrightarrow> binds (emit_given r f) bs"
  by (auto simp: binds_def emit_given_def rbind_eq_Inr)

lemma binds_template_Nil [binds_intros]: "binds (template []) []"
  by (simp add: binds_text template.simps)

lemma binds_template [binds_intros]: "binds m bs \<Longrightarrow> binds (template ms) cs \<Longrightarrow> binds (template (m # ms)) (bs @ cs)"
  unfolding binds_def template.simps by (fastforce simp: rbind_eq_Inr rmap_eq_Inr)

lemma binds_map_s:
  "(\<And>x. x \<in> set xs \<Longrightarrow> binds (f x) (g x)) \<Longrightarrow> map_s (\<lambda>m. m) (map f xs) vs = Inr (ts, vs') \<Longrightarrow>
   vs' = vs @ concat (map g xs)"
proof (induction xs arbitrary: vs ts vs')
  case (Cons x xs)
  from Cons.prems(2) obtain t us ts' where one: "f x vs = Inr (t, us)" and
    more: "map_s (\<lambda>m. m) (map f xs) us = Inr (ts', vs')"
    by (auto simp: rbind_eq_Inr)
  have "us = vs @ g x" using Cons.prems(1) [of x] one by (auto dest: bindsD)
  moreover have "vs' = us @ concat (map g xs)" using Cons.IH [OF _ more] Cons.prems(1) by simp
  ultimately show ?case by simp
qed simp

lemma binds_join [binds_intros]:
  "(\<And>x. x \<in> set xs \<Longrightarrow> binds (f x) (g x)) \<Longrightarrow> binds (emit_join sep (map f xs)) (concat (map g xs))"
  using binds_map_s [of xs f g] by (fastforce simp: binds_def emit_join_def rmap_eq_Inr)

text \<open>The specification of an insert's values: the rows' cells in column order, then those of the conflict body.\<close>

definition cell_values :: "bool \<Rightarrow> fields \<Rightarrow> string \<Rightarrow> jval list" where
  "cell_values force_null fs column =
     (case map_of fs column of None \<Rightarrow> if force_null then [Null] else [] | Some v \<Rightarrow> [json_value v])"

definition row_values :: "bool \<Rightarrow> string list \<Rightarrow> row \<Rightarrow> jval list" where
  "row_values force_null columns r = concat (map (cell_values force_null (row_fields r)) columns)"

definition assigned_values :: "fields \<Rightarrow> jval list" where
  "assigned_values fs = map (\<lambda>kv. json_value (snd kv)) fs"

definition conflict_values :: "insert_payload \<Rightarrow> jval list" where
  "conflict_values p =
     (if no_conflict (ip_on_conflict p) then []
      else case ip_update_body p of None \<Rightarrow> [] | Some body \<Rightarrow> assigned_values body)"

lemma binds_cell [binds_intros]: "binds (insert_cell force_null fs column) (cell_values force_null fs column)"
  by (auto simp: insert_cell_def cell_values_def intro: binds_intros split: option.splits)

lemma binds_group [binds_intros]: "binds (value_group force_null columns r) (row_values force_null columns r)"
proof -
  have "binds (value_group force_null columns r)
      ([] @ concat (map (cell_values force_null (row_fields r)) columns) @ [] @ [])"
    unfolding value_group_def by (intro binds_intros)
  then show ?thesis by (simp add: row_values_def)
qed

lemma binds_assignment [binds_intros]: "binds (assignment kv) [json_value (snd kv)]"
  by (auto simp: binds_def assignment_def emit_bind_def rbind_eq_Inr rmap_eq_Inr)

lemma binds_assignments [binds_intros]: "binds (emit_join sep (map assignment fs)) (assigned_values fs)"
  using binds_join [of fs assignment "\<lambda>kv. [json_value (snd kv)]" sep] binds_assignment
  by (simp add: assigned_values_def concat_map_singleton)

lemma binds_conflict [binds_intros]: "binds (on_conflict_part p columns) (conflict_values p)"
proof (cases "no_conflict (ip_on_conflict p)")
  case True
  then show ?thesis
    by (auto simp: on_conflict_part_def conflict_values_def no_conflict_def intro: binds_intros)
next
  case False
  then obtain spec where spec: "ip_on_conflict p = Some spec" "spec \<noteq> ColumnText []"
    by (auto simp: no_conflict_def)
  have set_body: "binds (template [emit_text t, emit_join '', '' (map assignment body)]) (assigned_values body)"
    for t body
    using binds_template [OF binds_text binds_template [OF binds_assignments binds_template_Nil]] by simp
  show ?thesis
    using False by (auto simp: on_conflict_part_def conflict_values_def spec Let_def assigned_values_def
        intro!: binds_given binds_text set_body [unfolded assigned_values_def] split: option.split)
qed

text \<open>A step whose outcome, failure or values, does not depend on what was bound before.\<close>

definition steady :: "'e emit \<Rightarrow> bool" where
  "steady m \<longleftrightarrow> (\<exists>e. \<forall>vs. m vs = Inl e) \<or> (\<exists>bs. \<forall>vs. \<exists>t. m vs = Inr (t, vs @ bs))"

named_theorems steady_intros \<open>steps that do not look at what was bound\<close>

lemma steady_fails: "(\<And>vs. m vs = Inl e) \<Longrightarrow> steady m"
  by (auto simp: steady_def)

lemma steady_binds: "(\<And>vs. \<exists>t. m vs = Inr (t, vs @ bs)) \<Longrightarrow> steady m"
  by (auto simp: steady_def)

lemma steadyE:
  assumes "steady m"
  obtains e where "\<And>vs. m vs = Inl e" | bs where "\<And>vs. \<exists>t. m vs = Inr (t, vs @ bs)"
  using assms unfolding steady_def by blast

lemma steady_text [steady_intros]: "steady (emit_text t)"
  by (rule steady_binds [where bs = "[]"]) (simp add: emit_text_def)

lemma steady_bind [steady_intros]: "steady (emit_bind v)"
  by (rule steady_binds) (simp add: emit_bind_def)

lemma steady_fail [steady_intros]: "steady (emit_fail e)"
  by (rule steady_fails) (simp add: emit_fail_def)

lemma steady_lift [steady_intros]: "steady (emit_lift r)"
  by (cases r) (auto simp: emit_lift_def intro: steady_fails steady_binds [where bs = "[]"])

lemma steady_given [steady_intros]: "(\<And>x. r = Inr x \<Longrightarrow> steady (f x)) \<Longrightarrow> steady (emit_given r f)"
  by (cases r) (auto simp: emit_given_def [abs_def] intro: steady_fails)

lemma steady_template_Nil [steady_intros]: "steady (template [])"
  by (simp add: steady_text template.simps)

lemma steady_template [steady_intros]:
  assumes "steady m" "steady (template ms)"
  shows "steady (template (m # ms))"
  using assms(1)
proof (cases rule: steadyE)
  case (1 e)
  then show ?thesis by (intro steady_fails [of _ e]) (simp add: template.simps)
next
  case (2 bs)
  note first = this
  show ?thesis using assms(2)
  proof (cases rule: steadyE)
    case (1 e)
    have "template (m # ms) vs = Inl e" for vs
      using first [of vs] 1 by (auto simp: template.simps)
    then show ?thesis by (rule steady_fails)
  next
    case (2 cs)
    have "\<exists>t. template (m # ms) vs = Inr (t, vs @ (bs @ cs))" for vs
      using first [of vs] 2 [of "vs @ bs"] by (auto simp: template.simps)
    then show ?thesis by (rule steady_binds)
  qed
qed

lemma steady_map_s:
  "\<forall>m \<in> set ms. steady m \<Longrightarrow>
   (\<exists>e. \<forall>vs. map_s (\<lambda>m. m) ms vs = Inl e) \<or> (\<exists>bs. \<forall>vs. \<exists>ts. map_s (\<lambda>m. m) ms vs = Inr (ts, vs @ bs))"
proof (induction ms)
  case (Cons m ms)
  then have "steady m" by simp
  then show ?case
  proof (cases rule: steadyE)
    case (1 e)
    then show ?thesis by auto
  next
    case (2 bs)
    note first = this
    from Cons consider e where "\<And>vs. map_s (\<lambda>m. m) ms vs = Inl e" |
        cs where "\<And>vs. \<exists>ts. map_s (\<lambda>m. m) ms vs = Inr (ts, vs @ cs)" by auto
    then show ?thesis
    proof cases
      case (1 e)
      have "map_s (\<lambda>m. m) (m # ms) vs = Inl e" for vs using first [of vs] 1 by auto
      then show ?thesis by blast
    next
      case (2 cs)
      have "\<exists>ts. map_s (\<lambda>m. m) (m # ms) vs = Inr (ts, vs @ (bs @ cs))" for vs
        using first [of vs] 2 [of "vs @ bs"] by auto
      then show ?thesis by blast
    qed
  qed
qed auto

lemma steady_join [steady_intros]: "\<forall>m \<in> set ms. steady m \<Longrightarrow> steady (emit_join sep ms)"
  using steady_map_s [of ms] unfolding steady_def emit_join_def rmap_eq_Inr by (fastforce simp: rmap_def)

lemma steady_legacy [steady_intros]: "(\<And>c. steady (f c)) \<Longrightarrow> steady (compile_legacy_boolean_node n f)"
proof (induction n f rule: compile_legacy_boolean_node.induct)
  case (2 cs f)
  then have "\<forall>m \<in> set (map (\<lambda>c. compile_legacy_boolean_node c f) cs). steady m" by auto
  then show ?case by (simp only: compile_legacy_boolean_node.simps) (intro steady_intros)
next
  case (3 cs f)
  then have "\<forall>m \<in> set (map (\<lambda>c. compile_legacy_boolean_node c f) cs). steady m" by auto
  then show ?case by (simp only: compile_legacy_boolean_node.simps) (intro steady_intros)
qed (auto intro!: steady_intros)

lemma steady_cast [steady_intros]: "steady (bind_cast cast v)"
  unfolding bind_cast_def by (intro steady_intros)

lemma steady_binary [steady_intros]: "steady (binary col smb cast v)"
  unfolding binary_def by (intro steady_intros)

lemma steady_in_list [steady_intros]: "steady (in_list col cast vs)"
  unfolding in_list_def bind_list_def by (auto intro!: steady_intros)

lemma steady_containment [steady_intros]: "steady (containment col smb cast v)"
  unfolding containment_def by (auto intro!: steady_intros)

lemma steady_operator [steady_intros]: "steady (operator_where col opr cast v)"
  unfolding operator_where_def by (auto intro!: steady_intros split: jval.split option.split)

lemma steady_condition [steady_intros]: "steady (condition_to_where c)"
proof -
  have simple: "steady (simple_where d)" for d
    unfolding simple_where_def by (auto intro!: steady_intros)
  then show ?thesis
    unfolding condition_to_where_def by (auto intro!: steady_intros split: jval.split sum.split)
qed

lemma steady_where: "steady (where_parts cs)"
  unfolding where_parts_def by (intro steady_intros) (auto intro: steady_intros)

lemma where_values:
  assumes "where_parts cs vs = Inr (t, vs')"
  shows "\<exists>u ws. where_parts cs [] = Inr (u, ws) \<and> vs' = vs @ ws"
  using steady_where [of cs]
proof (cases rule: steadyE)
  case (1 e)
  with assms show ?thesis by simp
next
  case (2 bs)
  from 2 [of "[]"] 2 [of vs] assms show ?thesis by auto
qed

section \<open>Statements\<close>

lemma insert_values_bound:
  assumes "insert_values p t rows columns [] = Inr (w, vs)"
  shows "vs = concat (map (row_values (ip_default_to_null p) columns) rows) @ conflict_values p"
proof -
  have "binds (insert_values p t rows columns)
      ([] @ concat (map (row_values (ip_default_to_null p) columns) rows) @ conflict_values p @ [] @ [])"
    unfolding insert_values_def by (intro binds_given binds_intros)
  with assms show ?thesis by (auto dest: bindsD)
qed

lemma compiled_insert_values:
  assumes "compile_postgres_insert p = Inr q"
  shows "cq_values q =
    concat (map (row_values (ip_default_to_null p) (insert_columns (insert_rows (ip_insert_body p))))
      (insert_rows (ip_insert_body p))) @ conflict_values p"
proof -
  let ?rows = "insert_rows (ip_insert_body p)"
  from assms consider (default_row) "insert_columns ?rows = []" "no_conflict (ip_on_conflict p)" "cq_values q = []" |
      (columns) t w where "insert_values p t ?rows (insert_columns ?rows) [] = Inr (w, cq_values q)"
    by (auto simp: compile_postgres_insert_def Let_def rbind_eq_Inr rmap_eq_Inr to_query_def split: if_splits)
  then show ?thesis
  proof cases
    case default_row
    then show ?thesis by (auto simp: row_values_def conflict_values_def)
  next
    case columns
    then show ?thesis by (rule insert_values_bound)
  qed
qed

lemma set_part_values:
  "emit_join '', '' (map assignment fs) [] = Inr (t, vs) \<Longrightarrow> vs = assigned_values fs"
  using binds_assignments by (auto dest: bindsD)

lemma compiled_update_values:
  assumes "compile_postgres_update p identity = Inr q"
  shows "\<exists>t ws. build_where (up_conditions p) = Inr (t, ws) \<and>
    cq_values q = assigned_values (row_fields (up_update_body p)) @ ws"
proof -
  let ?entries = "row_fields (up_update_body p)"
  from assms obtain table sets vs cond us final where ne: "up_conditions p \<noteq> []" and
    sets: "emit_join '', '' (map assignment ?entries) [] = Inr (sets, vs)" and
    cond: "where_parts (up_conditions p) vs = Inr (cond, us)" and
    final: "update_where p identity table (length ?entries) (cond, us) = Inr (final, cq_values q)"
    by (fastforce simp: compile_postgres_update_def Let_def rbind_eq_Inr split: if_splits)
  have vs: "vs = assigned_values ?entries" using sets by (rule set_part_values)
  from where_values [OF cond] obtain u ws where w: "where_parts (up_conditions p) [] = Inr (u, ws)"
    and us: "us = vs @ ws" by blast
  have len: "length vs = length ?entries" by (simp add: vs assigned_values_def)
  have "build_where (up_conditions p) = Inr (''WHERE '' @ u, ws)" using ne w by (simp add: build_where_def)
  moreover have "cq_values q = vs @ ws"
    using final calculation len us
    by (auto simp: update_where_def rbind_eq_Inr rmap_eq_Inr split: if_splits)
  ultimately show ?thesis unfolding vs by blast
qed

text \<open>A condition list that compiles starts with a character that is no blank.\<close>

definition solid :: "'e emit \<Rightarrow> bool" where
  "solid m \<longleftrightarrow> (\<forall>vs t vs'. m vs = Inr (t, vs') \<longrightarrow> (\<exists>c s. t = c # s \<and> \<not> is_ws c))"

lemma solid_text: "\<not> is_ws c \<Longrightarrow> solid (emit_text (c # s))"
  by (simp add: solid_def emit_text_def)

lemma solid_fail: "solid (emit_fail e)"
  by (simp add: solid_def emit_fail_def)

lemma solid_given: "(\<And>x. r = Inr x \<Longrightarrow> solid (f x)) \<Longrightarrow> solid (emit_given r f)"
  unfolding solid_def emit_given_def rbind_eq_Inr by blast

lemma solid_template: "solid m \<Longrightarrow> solid (template (m # ms))"
  unfolding solid_def template.simps by (fastforce simp: rbind_eq_Inr rmap_eq_Inr)

lemma js_join_hd: "js_join sep (x # xs) = x \<or> js_join sep (x # xs) = x @ sep @ js_join sep xs"
  by (cases xs) auto

lemma solid_join: "solid m \<Longrightarrow> solid (emit_join sep (m # ms))"
proof -
  assume m: "solid m"
  have "\<exists>c s. t = c # s \<and> \<not> is_ws c" if "emit_join sep (m # ms) vs = Inr (t, vs')" for vs t vs'
  proof -
    from that obtain x xs us where x: "m vs = Inr (x, us)" and t: "t = js_join sep (x # xs)"
      by (auto simp: emit_join_def rbind_eq_Inr rmap_eq_Inr)
    from m x obtain c s where "x = c # s" "\<not> is_ws c" unfolding solid_def by blast
    then show ?thesis using js_join_hd [of sep x xs] by (auto simp: t)
  qed
  then show ?thesis by (simp add: solid_def)
qed

lemma quote_ident_lead: "quote_ident n = Inr q \<Longrightarrow> \<exists>s. q = quote_char # s"
proof -
  assume "quote_ident n = Inr q"
  then obtain w where q: "q = quote_qualified_identifier w"
    by (auto simp: quote_ident_def Let_def split: if_splits)
  obtain x xs where "split_on (CHR ''.'') w = x # xs" by (cases "split_on (CHR ''.'') w") auto
  then show ?thesis
    using js_join_hd [of "''.''" "quote_identifier_segment x" "map quote_identifier_segment xs"]
    by (auto simp: q quote_qualified_identifier_def quote_identifier_segment_def)
qed

lemma solid_binary: "solid (binary (c # col) smb cast v)" if "\<not> is_ws c"
  unfolding binary_def using that by (auto intro!: solid_template solid_text)

lemma solid_in_list: "solid (in_list (c # col) cast vs)" if "\<not> is_ws c"
  unfolding in_list_def using that
  by (auto intro!: solid_template solid_text simp: is_ws_def code_def)

lemma solid_if: "solid a \<Longrightarrow> solid b \<Longrightarrow> solid (if c then a else b)"
  by simp

lemma solid_operator:
  assumes "\<not> is_ws c"
  shows "solid (operator_where (c # col) opr cast v)"
proof -
  note steps = solid_template solid_text solid_binary solid_in_list solid_fail solid_if assms
  have plain: "solid (emit_text ((c # col) @ w))" for w using assms by (simp add: solid_text)
  have head: "solid (template (emit_text ((c # col) @ w) # ms))" for w ms
    using plain by (rule solid_template)
  have arr: "solid (case v of JArr vs \<Rightarrow> in_list (c # col) cast vs
      | _ \<Rightarrow> if v = Null then emit_text ((c # col) @ '' IS NULL'') else binary (c # col) ''='' cast v)"
    by (cases v) (simp_all add: steps plain del: append_Cons)
  have contain: "solid (containment (c # col) smb cast v)" for smb
    unfolding containment_def by (intro solid_if head steps)
  have compare: "solid (case comparison_symbol opr of Some smb \<Rightarrow> binary (c # col) smb cast v
      | None \<Rightarrow> emit_fail (PgError ''unsupported_operator''))"
    by (cases "comparison_symbol opr") (simp_all add: steps)
  show ?thesis unfolding operator_where_def
    by (intro solid_if arr contain compare plain head solid_binary solid_in_list assms)
qed

lemma quote_char_solid: "\<not> is_ws quote_char"
  by (simp add: is_ws_def quote_char_def code_def)

lemma solid_simple: "solid (simple_where c)"
  unfolding simple_where_def
  by (intro solid_if solid_fail solid_given)
    (auto simp: apply_cast_def rbind_eq_Inr rmap_eq_Inr dest!: quote_ident_lead intro!: solid_operator quote_char_solid)

lemma solid_legacy: "(\<And>c. solid (f c)) \<Longrightarrow> solid (compile_legacy_boolean_node n f)"
  by (induction n f rule: compile_legacy_boolean_node.induct)
    (auto intro!: solid_template solid_text simp: is_ws_def code_def)

lemma solid_condition: "solid (condition_to_where c)"
  unfolding condition_to_where_def
  by (auto intro!: solid_simple solid_fail solid_legacy solid_template solid_text simp: is_ws_def code_def
      split: jval.split sum.split)

lemma where_parts_solid:
  assumes "where_parts cs vs = Inr (t, vs')" "cs \<noteq> []"
  shows "t \<noteq> [] \<and> dropWhile is_ws t = t"
proof -
  from assms(2) obtain c ds where "cs = c # ds" by (cases cs) auto
  then have "solid (where_parts cs)" by (auto simp: where_parts_def intro!: solid_join solid_condition)
  with assms(1) show ?thesis unfolding solid_def by fastforce
qed

end
