(* ===== verification/SqlProperties.thy ===== *)
theory SqlProperties
  imports PostgresAst SqlValues QueryProperties
begin

text \<open>The properties of the PostgreSQL compilers and of SQL text.\<close>

section \<open>Samples\<close>

definition no_paging :: paging where
  "no_paging = \<lparr>pb_limit = None, pb_offset = None, pb_current_page = None, pb_page_size = None\<rparr>"

definition by_owner :: gateway_condition where
  "by_owner = simple_condition ''owner_id'' ''eq'' (JNum (jint 7))"

definition sample_insert :: insert_payload where
  "sample_insert =
     \<lparr>ip_columns = Some (ColumnText ''id''), ip_default_to_null = True, ip_head = False,
      ip_insert_body = RowList [Some [(''id'', JNum (jint 1)), (''title'', JStr ''x'')], Some [(''id'', JNum (jint 2))]],
      ip_on_conflict = Some (ColumnText ''id''), ip_table_name = Some ''posts'',
      ip_update_body = Some [(''title'', JStr ''y'')]\<rparr>"

definition sample_update :: update_payload where
  "sample_update =
     \<lparr>up_columns = None, up_conditions = [by_owner], up_head = False,
      up_paging = no_paging\<lparr>pb_limit := Some (jint 5)\<rparr>, up_sort_by = None, up_table_name = Some ''posts'',
      up_update_body = Some [(''title'', JStr ''y''), (''views'', JNum (jint 3))]\<rparr>"

definition sample_delete :: delete_payload where
  "sample_delete =
     \<lparr>dp_columns = None, dp_conditions = [by_owner], dp_paging = no_paging, dp_resource_id = Some ''r1'',
      dp_sort_by = None, dp_table_name = Some ''posts''\<rparr>"

text \<open>A query by name over the sample catalog, and a name that tries to break out.\<close>

definition other_ast :: "string \<Rightarrow> select_ast" where
  "other_ast v =
     SelectQuery ManyRows None (Some (Compare \<lparr>fr_field = ''name'', fr_source = None\<rparr> OpEq (JStr v))) None None
       [ColumnField None ''id''] (table_source None ''users'')"

definition other_plan :: "string \<Rightarrow> query_plan" where
  "other_plan v = right_of (resolve_athena_query_plan (Some sample_catalog) (other_ast v))"

definition attack :: string where
  "attack = ''x'' @ [CHR 0x27, CHR 0x22] @ '' OR $1 --''"

lemma other_compiled: "rmap cq_values (compile_postgres_ast (other_plan attack)) = Ok [JStr attack]"
  by code_simp

lemma update_compiled:
  "rmap cq_values (compile_postgres_update sample_update (Some ''id'')) = Ok [JStr ''y'', JNum (jint 3), JNum (jint 7)]"
  by code_simp

definition compiled_update :: compiled_query where
  "compiled_update = right_of (compile_postgres_update sample_update (Some ''id''))"

lemma compiled_update_Ok:
  "compile_postgres_update sample_update (Some ''id'') = Ok compiled_update"
  "cq_values compiled_update = [JStr ''y'', JNum (jint 3), JNum (jint 7)]"
  using update_compiled by (auto simp: compiled_update_def rmap_eq_Inr right_of_def)

section \<open>Structured queries\<close>

text \<open>
  C16. A compiled plan is well bound: read from left to right the placeholders of its text are
  \<open>$1\<close> to \<open>$n\<close>, one for each value, each used once and in the order of the values, through
  nested relations, filters and casts.
\<close>

theorem ast_placeholders:
  assumes "compile_postgres_ast p = Ok q"
  shows "placeholders (cq_text q) = [1..<Suc (length (cq_values q))]"
proof -
  from assms obtain t vs where "postgres_select p [] = Inr (t, vs)" "q = to_query (t, vs)"
    by (auto simp: compile_postgres_ast_def rbind_eq_Inr rmap_eq_Inr)
  with well_bound_result [OF wb_postgres_select] show ?thesis by (simp add: to_query_def)
qed

theorem ast_placeholders_witness:
  "\<exists>q. compile_postgres_ast (other_plan attack) = Ok q \<and> placeholders (cq_text q) = [1]"
proof -
  from other_compiled obtain q where q: "compile_postgres_ast (other_plan attack) = Ok q" "cq_values q = [JStr attack]"
    by (auto simp: rmap_eq_Inr)
  with ast_placeholders [OF q(1)] show ?thesis by simp
qed

text \<open>
  C17. No value reaches the text: two plans that differ only in the values their filters compare
  with (a null, a number of list members and the shape of the conditions being the same) compile
  to the same text, or fail with the same error.
\<close>

theorem ast_text_ignores_values:
  assumes "redact_plan p = redact_plan p'"
  shows "rmap cq_text (compile_postgres_ast p) = rmap cq_text (compile_postgres_ast p')"
  using same_compile_ast [of p] same_compile_ast [of p'] assms by simp

theorem ast_text_ignores_values_witness:
  "rmap cq_text (compile_postgres_ast (other_plan ''x'')) = rmap cq_text (compile_postgres_ast (other_plan attack)) \<and>
   succeeds (compile_postgres_ast (other_plan attack))"
proof -
  have "redact_plan (other_plan ''x'') = redact_plan (other_plan attack)" by code_simp
  moreover have "succeeds (compile_postgres_ast (other_plan attack))"
    using other_compiled by (auto simp: rmap_eq_Inr succeeds_def)
  ultimately show ?thesis using ast_text_ignores_values [of "other_plan ''x''" "other_plan attack"] by simp
qed

section \<open>Statements of the gateway\<close>

text \<open>
  C18. Every statement compiled for a gateway payload is sound: its placeholders, from left to
  right, are \<open>$1\<close> to \<open>$n\<close> for its \<open>n\<close> values, also where a bounded update renumbers those of its
  identity subquery, and its text is made of identifier characters and SQL punctuation only, so
  no value or name closes a quotation or comments out what follows.
\<close>

theorem statements_sound:
  assumes "compile_postgres_insert i = Ok q \<or> compile_postgres_update u identity = Ok q \<or>
    compile_postgres_delete d identity = Ok q \<or> compile_postgres_fetch f = Ok q \<or>
    compile_postgres_count f = Ok q \<or> compile_postgres_rpc r = Ok q"
  shows "sound_query q"
  using assms sound_insert sound_update sound_delete sound_fetch sound_count sound_rpc by blast

theorem statements_sound_witness:
  "sound_query compiled_update \<and> placeholders (cq_text compiled_update) = [1, 2, 3]"
proof -
  have "sound_query compiled_update" using statements_sound compiled_update_Ok(1) by blast
  then show ?thesis by (simp add: sound_query_def compiled_update_Ok eval_nat_numeral)
qed

text \<open>
  The values of an insert are the cells of its rows, row by row in the order of the columns,
  then those of its conflict body; a missing cell is a null when the payload asks for that and
  binds nothing (it is \<open>DEFAULT\<close>) otherwise.
\<close>

lemma insert_binds_cells:
  assumes "compile_postgres_insert p = Ok q" "rows = insert_rows (ip_insert_body p)"
  shows "cq_values q =
    concat (map (row_values (ip_default_to_null p) (insert_columns rows)) rows) @ conflict_values p"
  using compiled_insert_values [OF assms(1)] by (simp add: assms(2))

lemma insert_binds_cells_witness:
  "rmap cq_values (compile_postgres_insert sample_insert) =
   Ok [JNum (jint 1), JStr ''x'', JNum (jint 2), Null, JStr ''y'']"
proof -
  have "succeeds (compile_postgres_insert sample_insert)" by code_simp
  then obtain q where q: "compile_postgres_insert sample_insert = Ok q" using Ok_right_of by blast
  have "concat (map (row_values (ip_default_to_null sample_insert)
      (insert_columns (insert_rows (ip_insert_body sample_insert)))) (insert_rows (ip_insert_body sample_insert))) @
      conflict_values sample_insert = [JNum (jint 1), JStr ''x'', JNum (jint 2), Null, JStr ''y'']"
    by code_simp
  with insert_binds_cells [OF q refl] q show ?thesis by simp
qed

text \<open>
  The values of an update are the assigned values in order and then exactly those of its
  condition list, bounded or not.
\<close>

lemma update_binds_assignments:
  assumes "compile_postgres_update p identity = Ok q"
  shows "\<exists>t ws. build_where (up_conditions p) = Ok (t, ws) \<and>
    cq_values q = assigned_values (row_fields (up_update_body p)) @ ws"
  using assms by (rule compiled_update_values)

lemma update_binds_assignments_witness:
  "\<exists>t ws. build_where [by_owner] = Ok (t, ws) \<and>
    cq_values compiled_update = [JStr ''y'', JNum (jint 3)] @ ws"
  using update_binds_assignments [OF compiled_update_Ok(1)]
  by (simp add: sample_update_def assigned_values_def row_fields_def json_value_def)

text \<open>What a delete is restricted to: a clause, or the identities of the rows that satisfy it.\<close>

definition restricted_to :: "string \<Rightarrow> string \<Rightarrow> bool" where
  "restricted_to c w \<longleftrightarrow>
     w = c \<or> (\<exists>q t tail. w = q @ '' IN (SELECT '' @ q @ '' FROM '' @ t @ '' WHERE '' @ c @ tail @ '')'')"

lemma nonempty_parts_two:
  assumes "p \<noteq> []" "q \<noteq> []"
  obtains tail where "nonempty_parts (p # q # ps) = p @ '' '' @ q @ tail"
  using assms by (cases "filter (\<lambda>s. s \<noteq> []) ps") (auto simp: nonempty_parts_def)

lemma bounded_clause_restricted:
  assumes "bounded_identity_in_clause table (''WHERE '' @ c) pg order identity = Inr w"
    and c: "c \<noteq> []" "dropWhile is_ws c = c"
  shows "restricted_to c w"
proof -
  have "strip_where (''WHERE '' @ c) = c"
    using c by (simp add: strip_where_def js_lower_where is_ws_def code_def)
  with assms(1) obtain q t ord where
    "w = q @ '' IN ('' @ nonempty_parts
       [''SELECT '' @ q @ '' FROM '' @ t, ''WHERE '' @ c, ord, limit_offset_clause pg] @ '')''"
    using c(1) by (auto simp: bounded_identity_in_clause_def rbind_eq_Inr Let_def)
  moreover obtain tail where
    "nonempty_parts [''SELECT '' @ q @ '' FROM '' @ t, ''WHERE '' @ c, ord, limit_offset_clause pg] =
     (''SELECT '' @ q @ '' FROM '' @ t) @ '' '' @ (''WHERE '' @ c) @ tail"
    using nonempty_parts_two [of "''SELECT '' @ q @ '' FROM '' @ t" "''WHERE '' @ c"] by blast
  ultimately have "w = q @ '' IN (SELECT '' @ q @ '' FROM '' @ t @ '' WHERE '' @ c @ tail @ '')''" by simp
  then show ?thesis unfolding restricted_to_def by blast
qed

text \<open>
  C19. A delete is always filtered: it has conditions, binds their values, and its text deletes
  only where their clause holds, directly or, when bounded, through the identities selected by
  that clause.
\<close>

theorem delete_filtered:
  assumes "compile_postgres_delete p identity = Ok q"
  shows "\<exists>c t w r. delete_conditions p \<noteq> [] \<and> where_parts (delete_conditions p) [] = Ok (c, cq_values q) \<and>
    restricted_to c w \<and> cq_text q = ''DELETE FROM '' @ t @ '' WHERE '' @ w @ r"
proof -
  from assms obtain table w vs final t r where
    w: "build_where (delete_conditions p) = Inr (w, vs)" "w \<noteq> []" and
    final: "delete_where p identity table w = Inr final" and
    q: "q = \<lparr>cq_text = ''DELETE FROM '' @ t @ '' '' @ final @ r, cq_values = vs\<rparr>"
    by (fastforce simp: compile_postgres_delete_def rbind_eq_Inr split: if_splits)
  from w obtain c where ne: "delete_conditions p \<noteq> []" and c: "where_parts (delete_conditions p) [] = Inr (c, vs)"
    and w': "w = ''WHERE '' @ c"
    by (auto simp: build_where_def rmap_eq_Inr split: if_splits)
  from where_parts_solid [OF c ne] have solid: "c \<noteq> []" "dropWhile is_ws c = c" by auto
  have "\<exists>u. final = ''WHERE '' @ u \<and> restricted_to c u"
    using final bounded_clause_restricted [OF _ solid] unfolding w'
    by (auto simp: delete_where_def rbind_eq_Inr rmap_eq_Inr restricted_to_def split: if_splits)
  then show ?thesis using ne c by (fastforce simp: q)
qed

theorem delete_filtered_witness:
  "\<exists>c t w r q. compile_postgres_delete sample_delete None = Ok q \<and>
    where_parts (delete_conditions sample_delete) [] = Ok (c, [JStr ''r1'', JNum (jint 7)]) \<and>
    restricted_to c w \<and> cq_text q = ''DELETE FROM '' @ t @ '' WHERE '' @ w @ r"
proof -
  have "succeeds (compile_postgres_delete sample_delete None)" by code_simp
  then obtain q where q: "compile_postgres_delete sample_delete None = Ok q" by (auto dest: Ok_right_of)
  have "rmap cq_values (compile_postgres_delete sample_delete None) = Ok [JStr ''r1'', JNum (jint 7)]" by code_simp
  with q have "cq_values q = [JStr ''r1'', JNum (jint 7)]" by simp
  with delete_filtered [OF q] q show ?thesis by metis
qed

section \<open>Legacy expressions and literals\<close>

lemma quote_tag_loop:
  "\<exists>n. dollar_quote_tag body tag = tag @ replicate n (CHR ''_'') \<and>
     (\<forall>m < n. js_includes body (dollar (tag @ replicate m (CHR ''_''))))"
proof (induction body tag rule: dollar_quote_tag.induct)
  case (1 body tag)
  show ?case
  proof (cases "js_includes body (dollar tag)")
    case True
    with 1 obtain n where n: "dollar_quote_tag body (tag @ ''_'') = (tag @ ''_'') @ replicate n (CHR ''_'')"
      and m: "\<forall>m < n. js_includes body (dollar ((tag @ ''_'') @ replicate m (CHR ''_'')))" by blast
    have "dollar_quote_tag body tag = tag @ replicate (Suc n) (CHR ''_'')"
      using True n by (subst dollar_quote_tag.simps) simp
    moreover have "js_includes body (dollar (tag @ replicate m (CHR ''_'')))" if "m < Suc n" for m
      using m True that by (cases m) auto
    ultimately show ?thesis by blast
  next
    case False
    then show ?thesis by (intro exI [of _ 0]) (subst dollar_quote_tag.simps, simp)
  qed
qed

lemma quote_tag_rounds:
  "\<exists>n. n \<le> length body \<and> dollar_quote_tag body tag = tag @ replicate n (CHR ''_'') \<and>
     {m. \<not> js_includes body (dollar (tag @ replicate m (CHR ''_'')))} \<inter> {..n} = {n}"
proof -
  obtain n where n: "dollar_quote_tag body tag = tag @ replicate n (CHR ''_'')"
    and m: "\<forall>m < n. js_includes body (dollar (tag @ replicate m (CHR ''_'')))" using quote_tag_loop by blast
  have "n \<le> length body"
  proof (cases n)
    case (Suc k)
    then have "length (dollar (tag @ replicate k (CHR ''_''))) \<le> length body" using m by (intro js_includes_length) simp
    then show ?thesis using Suc by (simp add: dollar_def)
  qed simp
  moreover have "\<not> js_includes body (dollar (tag @ replicate n (CHR ''_'')))"
    using dollar_quote_tag_fresh [of body tag] n by simp
  with m have "{m. \<not> js_includes body (dollar (tag @ replicate m (CHR ''_'')))} \<inter> {..n} = {n}"
    by (auto simp: order_le_less)
  ultimately show ?thesis using n by blast
qed

text \<open>
  C20. The search for a dollar-quote tag ends: after at most as many rounds as the value has
  characters it has appended underscores until the delimiter does not occur in the value, and no
  shorter tag would do.
\<close>

theorem quote_tag_terminates:
  "\<exists>n. n \<le> length value \<and> dollar_quote_tag value tag = tag @ replicate n (CHR ''_'') \<and>
     {m. \<not> js_includes value (dollar (tag @ replicate m (CHR ''_'')))} \<inter> {..n} = {n}"
  using quote_tag_rounds [of "value" tag] by simp

text \<open>
  A tree the legacy syntax can spell reads back from its spelling: a list of terms written
  with commas parses to its only member, or to the conjunction or disjunction of the members.
\<close>

lemma legacy_roundtrip:
  assumes "list_all printable ns" "ns \<noteq> []"
  shows "parse_legacy_boolean_expression (js_join '','' (map show_legacy ns)) disjunct =
    Ok (case ns of [n] \<Rightarrow> n | _ \<Rightarrow> if disjunct then OrNode ns else AndNode ns)"
  using assms by (rule parse_show_legacy)

definition sample_terms :: "legacy_node list" where
  "sample_terms =
     [PredNode (simple_condition ''age'' ''gte'' (JStr ''x7'')),
      NotNode (AndNode [PredNode (simple_condition ''name'' ''eq'' (JStr ''x'')),
                        PredNode (simple_condition ''banned'' ''is'' Null)])]"

lemma legacy_roundtrip_witness:
  "parse_legacy_boolean_expression ''age.gte.x7,not(and(name.eq.x,banned.is.null))'' True = Ok (OrNode sample_terms)"
proof -
  have "list_all printable sample_terms" by code_simp
  moreover have "sample_terms \<noteq> []" by (simp add: sample_terms_def)
  moreover have "js_join '','' (map show_legacy sample_terms) = ''age.gte.x7,not(and(name.eq.x,banned.is.null))''"
    by code_simp
  moreover have "(case sample_terms of [n] \<Rightarrow> n | _ \<Rightarrow> if True then OrNode sample_terms else AndNode sample_terms) =
    OrNode sample_terms" by (simp add: sample_terms_def)
  ultimately show ?thesis using legacy_roundtrip [of sample_terms True] by simp
qed

text \<open>
  A dollar-quoted literal reads back as its value exactly when the value does not end in the
  opening part of the delimiter, a dollar sign and the tag; only then does it close early.
\<close>

lemma sql_text_reads_back:
  assumes "CHR ''$'' \<notin> set hex" "tag = dollar_quote_tag v (CHR ''s'' # hex)"
  shows "read_until (dollar tag) (drop (length (dollar tag)) (sql_text hex v @ rest)) = Some (v, rest) \<longleftrightarrow>
    \<not> has_suffix v (CHR ''$'' # tag)"
proof -
  obtain n where tag: "tag = (CHR ''s'' # hex) @ replicate n (CHR ''_'')"
    using dollar_quote_tag_extends [of v "CHR ''s'' # hex"] assms(2) by auto
  have "CHR ''$'' \<notin> set tag" using assms(1) by (auto simp: tag)
  moreover have "\<not> js_includes v (dollar tag)" unfolding assms(2) by (rule dollar_quote_tag_fresh)
  ultimately show ?thesis
    using read_until_dollar [of tag v rest] by (simp add: sql_text_def Let_def assms(2))
qed

lemma sql_text_reads_back_witness:
  "read_until ''$s0f$'' (drop 5 (sql_text ''0f'' ''a$b'')) = Some (''a$b'', []) \<and>
   read_until ''$s0f$'' (drop 5 (sql_text ''0f'' ''pay $s0f'')) \<noteq> Some (''pay $s0f'', [])"
proof -
  have tags: "dollar_quote_tag ''a$b'' (CHR ''s'' # ''0f'') = ''s0f''"
    "dollar_quote_tag ''pay $s0f'' (CHR ''s'' # ''0f'') = ''s0f''" by code_simp+
  have "dollar ''s0f'' = ''$s0f$''" by (simp add: dollar_def)
  moreover have "has_suffix ''pay $s0f'' (CHR ''$'' # ''s0f'')"
    unfolding has_suffix_def by (rule exI [of _ "''pay ''"]) simp
  moreover have "\<not> has_suffix ''a$b'' (CHR ''$'' # ''s0f'')"
    by (auto simp: has_suffix_Cons has_suffix_def)
  ultimately show ?thesis
    using sql_text_reads_back [of "''0f''" "''s0f''" "''a$b''" "[]"]
      sql_text_reads_back [of "''0f''" "''s0f''" "''pay $s0f''" "[]"] tags
    by (simp add: eval_nat_numeral)
qed

end
