(* ===== verification/SchemaModel.thy ===== *)
theory SchemaModel
  imports JsSort JsValue
begin

text \<open>
  Schema snapshots (\<open>schema/diff/types.ts\<close>), the keys that identify their parts
  (\<open>identity.ts\<close>), their normal form (\<open>normalize.ts\<close>) and the invariants checked before a
  diff (\<open>validate.ts\<close>).
\<close>

section \<open>Snapshots\<close>

record table_identity =
  ti_schema :: string
  ti_name :: string

record column_type =
  ct_name :: string
  ct_length :: "jnum option"
  ct_precision :: "jnum option"
  ct_scale :: "jnum option"
  ct_array_dimensions :: jnum
  ct_enum_values :: "string list option"

record schema_column =
  sc_name :: string
  sc_type :: column_type
  sc_nullable :: bool
  sc_default :: "string option"
  sc_generated :: bool

record primary_key =
  pk_name :: "string option"
  pk_columns :: "string list"

record unique_constraint =
  uq_name :: "string option"
  uq_columns :: "string list"

datatype referential_action = NoAction | Restrict | Cascade | SetNull | SetDefault

text \<open>The actions of a raw foreign key are text; those of a normalised one come from this type.\<close>

record foreign_key =
  fk_name :: "string option"
  fk_columns :: "string list"
  fk_target :: table_identity
  fk_target_columns :: "string list"
  fk_on_delete :: string
  fk_on_update :: string

record index_column =
  ic_name :: string
  ic_direction :: "string option"

record schema_index =
  ix_name :: "string option"
  ix_columns :: "index_column list"
  ix_unique :: bool
  ix_predicate :: "string option"
  ix_method :: "string option"

record schema_table =
  st_schema :: string
  st_name :: string
  st_columns :: "schema_column list"
  st_primary_key :: "primary_key option"
  st_uniques :: "unique_constraint list"
  st_foreign_keys :: "foreign_key list"
  st_indexes :: "schema_index list"

record namespace =
  ns_name :: string
  ns_tables :: "schema_table list"

record schema_snapshot =
  sn_version :: int
  sn_backend :: "string option"
  sn_schemas :: "namespace list"

definition snapshot_version :: int where
  "snapshot_version = 1"

section \<open>Keys\<close>

definition nul :: string where
  "nul = [CHR 0x00]"

definition table_identity_key :: "table_identity \<Rightarrow> string" where
  "table_identity_key t = ti_schema t @ nul @ ti_name t"

definition unique_structural_key :: "unique_constraint \<Rightarrow> string" where
  "unique_structural_key u = ''u:'' @ js_join nul (uq_columns u)"

definition foreign_key_structural_key :: "foreign_key \<Rightarrow> string" where
  "foreign_key_structural_key k =
     js_join nul [''fk'', js_join '','' (fk_columns k), table_identity_key (fk_target k),
       js_join '','' (fk_target_columns k), fk_on_delete k, fk_on_update k]"

definition foreign_key_match_key :: "foreign_key \<Rightarrow> string" where
  "foreign_key_match_key k =
     js_join nul [''fkm'', js_join '','' (fk_columns k), table_identity_key (fk_target k),
       js_join '','' (fk_target_columns k)]"

definition index_columns_key :: "schema_index \<Rightarrow> string" where
  "index_columns_key i =
     js_join '','' (map (\<lambda>c. ic_name c @ '':'' @ get_or (ic_direction c) ''asc'') (ix_columns i))"

definition index_structural_key :: "schema_index \<Rightarrow> string" where
  "index_structural_key i =
     js_join nul [''ix'', if ix_unique i then ''1'' else ''0'', index_columns_key i,
       get_or (ix_predicate i) [], get_or (ix_method i) []]"

section \<open>Types\<close>

text \<open>
  \<open>TYPE_ALIASES\<close>. The one name it inherits that a lower-case type could have, \<open>constructor\<close>,
  is left out.
\<close>

definition type_aliases :: "(string \<times> string) list" where
  "type_aliases =
     [(''int2'', ''smallint''), (''smallint'', ''smallint''), (''int4'', ''integer''), (''int'', ''integer''),
      (''integer'', ''integer''), (''int8'', ''bigint''), (''bigint'', ''bigint''), (''float4'', ''real''),
      (''real'', ''real''), (''float8'', ''double precision''), (''double precision'', ''double precision''),
      (''bool'', ''boolean''), (''boolean'', ''boolean''), (''varchar'', ''varchar''),
      (''character varying'', ''varchar''), (''bpchar'', ''char''), (''character'', ''char''), (''char'', ''char''),
      (''decimal'', ''numeric''), (''numeric'', ''numeric''), (''timestamp'', ''timestamp''),
      (''timestamp without time zone'', ''timestamp''), (''timestamptz'', ''timestamptz''),
      (''timestamp with time zone'', ''timestamptz''), (''timetz'', ''timetz''),
      (''time with time zone'', ''timetz''), (''time'', ''time''), (''time without time zone'', ''time''),
      (''serial'', ''integer''), (''serial4'', ''integer''), (''bigserial'', ''bigint''),
      (''serial8'', ''bigint''), (''smallserial'', ''smallint''), (''serial2'', ''smallint'')]"

definition alias_type :: "string \<Rightarrow> string" where
  "alias_type t = get_or (map_of type_aliases t) t"

text \<open>The loop that counts trailing \<open>[]\<close>.\<close>

function strip_array_marks :: "string \<Rightarrow> nat \<Rightarrow> string \<times> nat" where
  "strip_array_marks t n =
     (if ends_with t ''[]'' then strip_array_marks (js_trim (take (length t - 2) t)) (Suc n) else (t, n))"
  by pat_completeness auto
termination
proof (relation "measure (length \<circ> fst)")
  fix t :: string and n :: nat
  assume "ends_with t ''[]''"
  then have "t \<noteq> []" by (auto simp: ends_with_def starts_with_def)
  then have "length (take (length t - 2) t) < length t" by (cases t) auto
  then show "((js_trim (take (length t - 2) t), Suc n), t, n) \<in> measure (length \<circ> fst)"
    using js_trim_length [of "take (length t - 2) t"] by simp
qed simp

declare strip_array_marks.simps [simp del]

definition type_name_char :: "char \<Rightarrow> bool" where
  "type_name_char c \<longleftrightarrow> is_lower c \<or> is_digit c \<or> c = CHR ''_'' \<or> c = CHR '' ''"

text \<open>\<open>/^([a-z0-9_ ]+?)\s*\(([^)]+)\)$/\<close>: the name (trimmed, as the code then does) and the parameters.\<close>

definition type_parameters :: "string \<Rightarrow> (string \<times> string) option" where
  "type_parameters t =
     (let pre = takeWhile (\<lambda>c. c \<noteq> CHR ''('') t;
          core = rev (dropWhile is_ws (rev pre));
          rest = dropWhile (\<lambda>c. c \<noteq> CHR ''('') t;
          inner = butlast (tl rest)
      in if core \<noteq> [] \<and> list_all type_name_char core \<and> 3 \<le> length rest \<and> last rest = CHR '')'' \<and>
            CHR '')'' \<notin> set inner
         then Some (js_trim core, inner) else None)"

definition finite_number :: "string \<Rightarrow> jnum option" where
  "finite_number s = (let n = string_to_number s in if is_finite n then Some n else None)"

definition is_char_type :: "string \<Rightarrow> bool" where
  "is_char_type name \<longleftrightarrow> name = ''varchar'' \<or> name = ''char''"

text \<open>Length for character types only, precision and scale for \<open>numeric\<close> only.\<close>

definition keep_length :: "string \<Rightarrow> jnum option \<Rightarrow> jnum option" where
  "keep_length name n = (if is_char_type name then n else None)"

definition keep_numeric :: "string \<Rightarrow> jnum option \<Rightarrow> jnum option" where
  "keep_numeric name n = (if name = ''numeric'' then n else None)"

definition num_succ :: "jnum \<Rightarrow> nat \<Rightarrow> jnum" where
  "num_succ d n = num_sub d (jint (- int n))"

definition parse_schema_type_string :: "string \<Rightarrow> jnum \<Rightarrow> column_type" where
  "parse_schema_type_string raw dims =
     (let (t, n) = strip_array_marks (js_lower (js_trim raw)) 0;
          counted = num_succ dims n;
          marked = starts_with t ''_'' \<and> CHR '' '' \<notin> set t;
          d = (if marked then num_max counted (jint 1) else counted);
          body = (if marked then tl t else t);
          (name, params) = (case type_parameters body of
             None \<Rightarrow> (body, [])
           | Some (nm, inner) \<Rightarrow> (nm, map js_trim (split_on (CHR '','') inner)));
          canonical = alias_type name;
          one = (case params of [p] \<Rightarrow> finite_number p | _ \<Rightarrow> None);
          first = (case params of p # q # _ \<Rightarrow> finite_number p | _ \<Rightarrow> one);
          second = (case params of p # q # _ \<Rightarrow> finite_number q | _ \<Rightarrow> None)
      in \<lparr>ct_name = canonical, ct_length = keep_length canonical one, ct_precision = keep_numeric canonical first,
          ct_scale = keep_numeric canonical second, ct_array_dimensions = d, ct_enum_values = None\<rparr>)"

definition normalize_schema_column_type :: "column_type \<Rightarrow> column_type" where
  "normalize_schema_column_type t =
     (let base = parse_schema_type_string (ct_name t) (ct_array_dimensions t);
          name = alias_type (ct_name base)
      in \<lparr>ct_name = name, ct_length = keep_length name (or_else (ct_length t) (ct_length base)),
          ct_precision = keep_numeric name (or_else (ct_precision t) (ct_precision base)),
          ct_scale = keep_numeric name (or_else (ct_scale t) (ct_scale base)),
          ct_array_dimensions = ct_array_dimensions base,
          ct_enum_values = (if ct_enum_values t = Some [] then None else ct_enum_values t)\<rparr>)"

section \<open>Defaults\<close>

definition word_char :: "char \<Rightarrow> bool" where
  "word_char c \<longleftrightarrow> ident_part c"

definition letter_or_underscore :: "char \<Rightarrow> bool" where
  "letter_or_underscore c \<longleftrightarrow> ident_start c"

text \<open>\<open>[a-zA-Z_][\w\s."]*$\<close>\<close>

definition is_cast_name :: "string \<Rightarrow> bool" where
  "is_cast_name s =
     (case s of
        [] \<Rightarrow> False
      | c # cs \<Rightarrow> ident_start c \<and> list_all (\<lambda>x. ident_part x \<or> is_ws x \<or> x = CHR ''.'' \<or> x = CHR 0x22) cs)"

definition line_end :: "char \<Rightarrow> bool" where
  "line_end c \<longleftrightarrow> code c = 10 \<or> code c = 13"

text \<open>\<open>/^(.*?)::[a-zA-Z_][\w\s."]*$/\<close>: the text before the first cast that reaches the end.\<close>

fun before_cast :: "string \<Rightarrow> string option" where
  "before_cast [] = None"
| "before_cast (c # s) =
     (if c = CHR '':'' \<and> starts_with s '':'' \<and> is_cast_name (tl s) then Some []
      else if line_end c then None
      else map_option (\<lambda>w. c # w) (before_cast s))"

fun strip_casts :: "nat \<Rightarrow> string \<Rightarrow> string" where
  "strip_casts 0 t = t"
| "strip_casts (Suc n) t = (case before_cast t of None \<Rightarrow> t | Some w \<Rightarrow> strip_casts n (js_trim w))"

text \<open>
  \<open>/nextval\s*\(\s*'([^']+)'\s*::\s*regclass\s*\)/i\<close> at the start of a text: the sequence and
  the rest.
\<close>

definition eat :: "string \<Rightarrow> string \<Rightarrow> string option" where
  "eat p s = (if js_lower (take (length p) s) = p then Some (drop (length p) s) else None)"

definition eat_ws :: "string \<Rightarrow> string \<Rightarrow> string option" where
  "eat_ws p s = eat p (dropWhile is_ws s)"

definition match_nextval :: "string \<Rightarrow> (string \<times> string) option" where
  "match_nextval s =
     (case eat ''nextval'' s of None \<Rightarrow> None | Some s1 \<Rightarrow>
      (case eat_ws ''('' s1 of None \<Rightarrow> None | Some s2 \<Rightarrow>
       (case eat_ws [CHR 0x27] s2 of None \<Rightarrow> None | Some s3 \<Rightarrow>
         let seq = takeWhile (\<lambda>c. c \<noteq> CHR 0x27) s3;
             s4 = dropWhile (\<lambda>c. c \<noteq> CHR 0x27) s3
         in if seq = [] then None
            else
              (case eat [CHR 0x27] s4 of None \<Rightarrow> None | Some s5 \<Rightarrow>
               (case eat_ws ''::'' s5 of None \<Rightarrow> None | Some s6 \<Rightarrow>
                (case eat_ws ''regclass'' s6 of None \<Rightarrow> None | Some s7 \<Rightarrow>
                 map_option (\<lambda>r. (seq, r)) (eat_ws '')'' s7)))))))"

lemma eat_length: "eat p s = Some r \<Longrightarrow> length r \<le> length s"
  by (auto simp: eat_def split: if_splits)

lemma eat_ws_length: "eat_ws p s = Some r \<Longrightarrow> length r \<le> length s"
  unfolding eat_ws_def by (drule eat_length) (meson length_dropWhile_le order_trans)

lemma eat_nextval_length: "eat ''nextval'' s = Some r \<Longrightarrow> length r < length s"
proof -
  assume e: "eat ''nextval'' s = Some r"
  then have "s \<noteq> []" by (auto simp: eat_def js_lower_def split: if_splits)
  with e show ?thesis by (auto simp: eat_def split: if_splits)
qed

lemma match_nextval_length:
  assumes "match_nextval s = Some (seq, r)"
  shows "length r < length s"
proof -
  from assms obtain s1 s2 s3 s5 s6 s7 where e: "eat ''nextval'' s = Some s1" "eat_ws ''('' s1 = Some s2"
    "eat_ws [CHR 0x27] s2 = Some s3" "eat [CHR 0x27] (dropWhile (\<lambda>c. c \<noteq> CHR 0x27) s3) = Some s5"
    "eat_ws ''::'' s5 = Some s6" "eat_ws ''regclass'' s6 = Some s7" "eat_ws '')'' s7 = Some r"
    unfolding match_nextval_def Let_def by (force split: option.splits if_splits)
  have "length s5 \<le> length s3"
    using eat_length [OF e(4)] length_dropWhile_le [of "\<lambda>c. c \<noteq> CHR 0x27" s3] by linarith
  with eat_nextval_length [OF e(1)] eat_ws_length [OF e(2)] eat_ws_length [OF e(3)] eat_ws_length [OF e(5)]
    eat_ws_length [OF e(6)] eat_ws_length [OF e(7)]
  show ?thesis by linarith
qed

function replace_nextval :: "string \<Rightarrow> string" where
  "replace_nextval [] = []"
| "replace_nextval (c # s) =
     (case match_nextval (c # s) of
        Some (seq, r) \<Rightarrow> ''nextval('' @ [CHR 0x27] @ seq @ [CHR 0x27] @ '')'' @ replace_nextval r
      | None \<Rightarrow> c # replace_nextval s)"
  by pat_completeness auto
termination
  by (relation "measure length") (auto dest!: match_nextval_length)

definition now_equivalents :: "string list" where
  "now_equivalents = [''now()'', ''current_timestamp'', ''current_timestamp()'', ''transaction_timestamp()'']"

definition normalize_default_expression :: "string option \<Rightarrow> string option" where
  "normalize_default_expression v =
     (case v of
        None \<Rightarrow> None
      | Some s \<Rightarrow>
          if js_trim s = [] then None
          else (let t = replace_nextval (strip_casts 4 (js_trim s))
                in if js_lower t \<in> set now_equivalents then Some ''now()'' else Some t))"

section \<open>Normal form\<close>

text \<open>\<open>s.replace(/\s+/g, "_")\<close>\<close>

function underscore_blanks :: "string \<Rightarrow> string" where
  "underscore_blanks [] = []"
| "underscore_blanks (c # s) =
     (if is_ws c then CHR ''_'' # underscore_blanks (dropWhile is_ws s) else c # underscore_blanks s)"
  by pat_completeness auto
termination
  by (relation "measure length") (auto simp: le_imp_less_Suc length_dropWhile_le)

definition action_text :: "referential_action \<Rightarrow> string" where
  "action_text a =
     (case a of
        NoAction \<Rightarrow> ''no_action'' | Restrict \<Rightarrow> ''restrict'' | Cascade \<Rightarrow> ''cascade''
      | SetNull \<Rightarrow> ''set_null'' | SetDefault \<Rightarrow> ''set_default'')"

definition normalize_referential_action :: "string \<Rightarrow> referential_action" where
  "normalize_referential_action a =
     (let n = underscore_blanks (js_lower (js_trim a))
      in if n \<in> {''r'', ''restrict''} then Restrict
         else if n \<in> {''c'', ''cascade''} then Cascade
         else if n \<in> {''n'', ''set_null'', ''setnull''} then SetNull
         else if n \<in> {''d'', ''set_default'', ''setdefault''} then SetDefault
         else NoAction)"

definition normalize_column :: "schema_column \<Rightarrow> schema_column" where
  "normalize_column c =
     \<lparr>sc_name = sc_name c, sc_type = normalize_schema_column_type (sc_type c), sc_nullable = sc_nullable c,
      sc_default = normalize_default_expression (sc_default c), sc_generated = sc_generated c\<rparr>"

definition normalize_primary_key :: "primary_key option \<Rightarrow> primary_key option" where
  "normalize_primary_key pk =
     (case pk of None \<Rightarrow> None | Some k \<Rightarrow> if pk_columns k = [] then None else Some k)"

definition normalize_foreign_key :: "foreign_key \<Rightarrow> foreign_key" where
  "normalize_foreign_key k =
     k\<lparr>fk_on_delete := action_text (normalize_referential_action (fk_on_delete k)),
       fk_on_update := action_text (normalize_referential_action (fk_on_update k))\<rparr>"

definition trimmed_or_none :: "string option \<Rightarrow> string option" where
  "trimmed_or_none v = (case v of None \<Rightarrow> None | Some s \<Rightarrow> if js_trim s = [] then None else Some (js_trim s))"

definition normalize_index_column :: "index_column \<Rightarrow> index_column" where
  "normalize_index_column c =
     c\<lparr>ic_direction := Some (if ic_direction c = Some ''desc'' then ''desc'' else ''asc'')\<rparr>"

definition normalize_index :: "schema_index \<Rightarrow> schema_index" where
  "normalize_index i =
     i\<lparr>ix_predicate := trimmed_or_none (ix_predicate i),
       ix_method := map_option js_lower (trimmed_or_none (ix_method i)),
       ix_columns := map normalize_index_column (ix_columns i)\<rparr>"

definition unique_sort_key :: "unique_constraint \<Rightarrow> string" where
  "unique_sort_key u = js_join nul (uq_columns u)"

definition fk_sort_key :: "foreign_key \<Rightarrow> string" where
  "fk_sort_key k =
     js_join nul [js_join '','' (fk_columns k), ti_schema (fk_target k), ti_name (fk_target k),
       js_join '','' (fk_target_columns k), fk_on_delete k, fk_on_update k, get_or (fk_name k) []]"

definition index_sort_key :: "schema_index \<Rightarrow> string" where
  "index_sort_key i =
     js_join nul [if ix_unique i then ''1'' else ''0'', index_columns_key i, get_or (ix_predicate i) [],
       get_or (ix_method i) [], get_or (ix_name i) []]"

definition sort_by_key :: "('a \<Rightarrow> string) \<Rightarrow> 'a list \<Rightarrow> 'a list" where
  "sort_by_key f xs = js_sort (unit_compare_on f) xs"

definition normalize_table :: "schema_table \<Rightarrow> schema_table" where
  "normalize_table t =
     \<lparr>st_schema = st_schema t, st_name = st_name t,
      st_columns = sort_by_key sc_name (map normalize_column (st_columns t)),
      st_primary_key = normalize_primary_key (st_primary_key t),
      st_uniques = sort_by_key unique_sort_key (st_uniques t),
      st_foreign_keys = sort_by_key fk_sort_key (map normalize_foreign_key (st_foreign_keys t)),
      st_indexes = sort_by_key index_sort_key (map normalize_index (st_indexes t))\<rparr>"

definition normalize_namespace :: "namespace \<Rightarrow> namespace" where
  "normalize_namespace n =
     \<lparr>ns_name = ns_name n, ns_tables = sort_by_key st_name (map normalize_table (ns_tables n))\<rparr>"

definition normalize_schema_snapshot :: "schema_snapshot \<Rightarrow> schema_snapshot" where
  "normalize_schema_snapshot s =
     \<lparr>sn_version = snapshot_version, sn_backend = sn_backend s,
      sn_schemas = sort_by_key ns_name (map normalize_namespace (sn_schemas s))\<rparr>"

definition empty_schema_snapshot :: "string option \<Rightarrow> schema_snapshot" where
  "empty_schema_snapshot backend =
     normalize_schema_snapshot \<lparr>sn_version = 1, sn_backend = backend, sn_schemas = []\<rparr>"

text \<open>The numbers of a type are not NaN, so \<open>!==\<close> on them is disequality.\<close>

definition column_types_equal :: "column_type \<Rightarrow> column_type \<Rightarrow> bool" where
  "column_types_equal a b =
     (let na = normalize_schema_column_type a; nb = normalize_schema_column_type b
      in ct_name na = ct_name nb \<and> ct_array_dimensions na = ct_array_dimensions nb \<and>
         ct_length na = ct_length nb \<and> ct_precision na = ct_precision nb \<and> ct_scale na = ct_scale nb \<and>
         ct_enum_values na = ct_enum_values nb)"

definition columns_equal :: "schema_column \<Rightarrow> schema_column \<Rightarrow> bool" where
  "columns_equal a b \<longleftrightarrow>
     sc_name a = sc_name b \<and> column_types_equal (sc_type a) (sc_type b) \<and> sc_nullable a = sc_nullable b \<and>
     normalize_default_expression (sc_default a) = normalize_default_expression (sc_default b) \<and>
     sc_generated a = sc_generated b"

definition primary_keys_equal :: "primary_key option \<Rightarrow> primary_key option \<Rightarrow> bool" where
  "primary_keys_equal a b \<longleftrightarrow> map_option pk_columns a = map_option pk_columns b"

section \<open>Validation\<close>

datatype diff_error =
    DuplicateSchema | DuplicateTable | DuplicateColumn | DuplicateUnique | DuplicateForeignKey
  | DuplicateIndex | MissingPkColumn | MissingUniqueColumn | MissingFkColumn | MissingIndexColumn
  | FkArityMismatch | InvalidSnapshot | UnsupportedVersion

definition require_columns :: "diff_error \<Rightarrow> string list \<Rightarrow> string list \<Rightarrow> (diff_error, unit) result" where
  "require_columns err names cols = each_r (\<lambda>c. if c \<in> set names then Ok () else Throw err) cols"

text \<open>A loop that keeps the keys seen so far; \<open>before\<close> and \<open>after\<close> are its checks around that.\<close>

fun check_keys ::
  "('a \<Rightarrow> string) \<Rightarrow> diff_error \<Rightarrow> ('a \<Rightarrow> (diff_error, unit) result) \<Rightarrow> ('a \<Rightarrow> (diff_error, unit) result) \<Rightarrow>
   string list \<Rightarrow> 'a list \<Rightarrow> (diff_error, unit) result" where
  "check_keys key dup before after seen [] = Ok ()"
| "check_keys key dup before after seen (x # xs) =
     rbind (before x) (\<lambda>_.
       if key x \<in> set seen then Throw dup
       else rbind (after x) (\<lambda>_. check_keys key dup before after (key x # seen) xs))"

definition no_check :: "'a \<Rightarrow> (diff_error, unit) result" where
  "no_check x = Ok ()"

definition validate_table :: "schema_table \<Rightarrow> (diff_error, unit) result" where
  "validate_table t =
     (let names = map sc_name (st_columns t)
      in rbind (check_keys sc_name DuplicateColumn no_check no_check [] (st_columns t)) (\<lambda>_.
         rbind (case st_primary_key t of
                  None \<Rightarrow> Ok ()
                | Some pk \<Rightarrow> require_columns MissingPkColumn names (pk_columns pk)) (\<lambda>_.
         rbind (check_keys unique_structural_key DuplicateUnique no_check
                  (\<lambda>u. require_columns MissingUniqueColumn names (uq_columns u)) [] (st_uniques t)) (\<lambda>_.
         rbind (check_keys foreign_key_match_key DuplicateForeignKey
                  (\<lambda>k. if length (fk_columns k) \<noteq> length (fk_target_columns k) then Throw FkArityMismatch else Ok ())
                  (\<lambda>k. require_columns MissingFkColumn names (fk_columns k)) [] (st_foreign_keys t)) (\<lambda>_.
           check_keys index_structural_key DuplicateIndex no_check
             (\<lambda>i. require_columns MissingIndexColumn names (map ic_name (ix_columns i))) [] (st_indexes t))))))"

definition validate_namespace :: "namespace \<Rightarrow> (diff_error, unit) result" where
  "validate_namespace n =
     check_keys st_name DuplicateTable
       (\<lambda>t. if st_schema t \<noteq> ns_name n then Throw InvalidSnapshot else Ok ()) validate_table [] (ns_tables n)"

definition validate_schema_snapshot :: "schema_snapshot \<Rightarrow> (diff_error, unit) result" where
  "validate_schema_snapshot s =
     (if sn_version s \<noteq> snapshot_version then Throw UnsupportedVersion
      else check_keys ns_name DuplicateSchema no_check validate_namespace [] (sn_schemas s))"

lemma check_keys_Ok:
  "check_keys key dup before after seen xs = Ok () \<longleftrightarrow>
   distinct (map key xs) \<and> key ` set xs \<inter> set seen = {} \<and> (\<forall>x \<in> set xs. before x = Ok () \<and> after x = Ok ())"
proof (induction xs arbitrary: seen)
  case (Cons x xs)
  then show ?case by (auto simp: rbind_eq_Inr ex_unit)
qed simp

end
