(* ===== verification/SchemaDiff.thy ===== *)
theory SchemaDiff
  imports SchemaModel
begin

text \<open>
  The structural diff of two snapshots (\<open>schema/diff/diff.ts\<close>, \<open>summary.ts\<close>): the operations,
  their sort order and the summary. The specification of the operations is their effect on the
  cells of a schema (whether a schema, table, unique constraint or index is there, what a
  column, a primary key or a foreign key is); the main lemma says that the operations in their
  sorted order take every cell of the one snapshot to its content in the other.
\<close>

section \<open>Operations\<close>

record column_changes =
  ch_type :: "(column_type \<times> column_type) option"
  ch_nullable :: "(bool \<times> bool) option"
  ch_default :: "(string option \<times> string option) option"
  ch_generated :: "(bool \<times> bool) option"

datatype diff_operation =
    CreateSchema string
  | DropSchema string
  | CreateTable schema_table
  | DropTable table_identity "schema_table option"
  | RenameTable table_identity table_identity
  | AddColumn table_identity schema_column
  | DropColumn table_identity schema_column
  | RenameColumn table_identity string string
  | AlterColumn table_identity string schema_column schema_column column_changes
  | AddPrimaryKey table_identity primary_key
  | DropPrimaryKey table_identity primary_key
  | AddUnique table_identity unique_constraint
  | DropUnique table_identity unique_constraint
  | AddForeignKey table_identity foreign_key
  | DropForeignKey table_identity foreign_key
  | AlterForeignKey table_identity foreign_key foreign_key
  | AddIndex table_identity schema_index
  | DropIndex table_identity schema_index

fun operation_kind_order :: "diff_operation \<Rightarrow> nat" where
  "operation_kind_order (DropForeignKey _ _) = 10"
| "operation_kind_order (DropIndex _ _) = 20"
| "operation_kind_order (DropUnique _ _) = 30"
| "operation_kind_order (DropPrimaryKey _ _) = 40"
| "operation_kind_order (DropColumn _ _) = 50"
| "operation_kind_order (DropTable _ _) = 60"
| "operation_kind_order (DropSchema _) = 70"
| "operation_kind_order (CreateSchema _) = 80"
| "operation_kind_order (CreateTable _) = 90"
| "operation_kind_order (RenameTable _ _) = 100"
| "operation_kind_order (AddColumn _ _) = 110"
| "operation_kind_order (RenameColumn _ _ _) = 120"
| "operation_kind_order (AlterColumn _ _ _ _ _) = 130"
| "operation_kind_order (AddPrimaryKey _ _) = 140"
| "operation_kind_order (AddUnique _ _) = 150"
| "operation_kind_order (AddIndex _ _) = 160"
| "operation_kind_order (AddForeignKey _ _) = 170"
| "operation_kind_order (AlterForeignKey _ _ _) = 180"

text \<open>\<open>String(order).padStart(3, "0")\<close>\<close>

definition kind_prefix :: "diff_operation \<Rightarrow> string" where
  "kind_prefix op =
     (let s = show_nat (operation_kind_order op) in replicate (3 - length s) (CHR ''0'') @ s)"

definition on_table :: "table_identity \<Rightarrow> string \<Rightarrow> string" where
  "on_table t detail = nul @ ti_schema t @ nul @ ti_name t @ nul @ detail"

definition table_id :: "schema_table \<Rightarrow> table_identity" where
  "table_id t = \<lparr>ti_schema = st_schema t, ti_name = st_name t\<rparr>"

fun operation_detail :: "diff_operation \<Rightarrow> string" where
  "operation_detail (CreateSchema s) = nul @ s"
| "operation_detail (DropSchema s) = nul @ s"
| "operation_detail (CreateTable t) = nul @ st_schema t @ nul @ st_name t"
| "operation_detail (DropTable t _) = nul @ ti_schema t @ nul @ ti_name t"
| "operation_detail (RenameTable t u) = on_table t (ti_name u)"
| "operation_detail (AddColumn t c) = on_table t (sc_name c)"
| "operation_detail (DropColumn t c) = on_table t (sc_name c)"
| "operation_detail (RenameColumn t a b) = on_table t (a @ nul @ b)"
| "operation_detail (AlterColumn t c _ _ _) = on_table t c"
| "operation_detail (AddPrimaryKey t k) = on_table t (js_join '','' (pk_columns k))"
| "operation_detail (DropPrimaryKey t k) = on_table t (js_join '','' (pk_columns k))"
| "operation_detail (AddUnique t u) = on_table t (js_join '','' (uq_columns u))"
| "operation_detail (DropUnique t u) = on_table t (js_join '','' (uq_columns u))"
| "operation_detail (AddForeignKey t k) = on_table t (foreign_key_match_key k)"
| "operation_detail (DropForeignKey t k) = on_table t (foreign_key_match_key k)"
| "operation_detail (AlterForeignKey t k _) = on_table t (foreign_key_match_key k)"
| "operation_detail (AddIndex t i) = on_table t (index_structural_key i)"
| "operation_detail (DropIndex t i) = on_table t (index_structural_key i)"

definition operation_sort_key :: "diff_operation \<Rightarrow> string" where
  "operation_sort_key op = kind_prefix op @ operation_detail op"

definition sort_operations :: "diff_operation list \<Rightarrow> diff_operation list" where
  "sort_operations ops = sort_by_key operation_sort_key ops"

section \<open>The diff\<close>

text \<open>A \<open>Map\<close> from a key to the last element with it, in the order of first insertion.\<close>

definition index_by :: "('a \<Rightarrow> string) \<Rightarrow> 'a list \<Rightarrow> (string, 'a) odict" where
  "index_by key xs = dict_of key xs"

definition all_tables :: "schema_snapshot \<Rightarrow> schema_table list" where
  "all_tables s = concat (map ns_tables (sn_schemas s))"

definition table_key :: "schema_table \<Rightarrow> string" where
  "table_key t = table_identity_key (table_id t)"

definition changed :: "bool \<Rightarrow> 'a \<Rightarrow> 'a \<Rightarrow> ('a \<times> 'a) option" where
  "changed b x y = (if b then Some (x, y) else None)"

definition column_delta :: "schema_column \<Rightarrow> schema_column \<Rightarrow> column_changes" where
  "column_delta a b =
     \<lparr>ch_type = changed (\<not> column_types_equal (sc_type a) (sc_type b)) (sc_type a) (sc_type b),
      ch_nullable = changed (sc_nullable a \<noteq> sc_nullable b) (sc_nullable a) (sc_nullable b),
      ch_default = changed (sc_default a \<noteq> sc_default b) (sc_default a) (sc_default b),
      ch_generated = changed (sc_generated a \<noteq> sc_generated b) (sc_generated a) (sc_generated b)\<rparr>"

text \<open>The elements of the first map whose key the second has not.\<close>

definition missing_in :: "(string, 'a) odict \<Rightarrow> (string, 'b) odict \<Rightarrow> 'a list" where
  "missing_in xs ys = map snd (filter (\<lambda>(k, x). map_of ys k = None) xs)"

definition diff_columns :: "schema_table \<Rightarrow> schema_table \<Rightarrow> diff_operation list" where
  "diff_columns a b =
     (let from = index_by sc_name (st_columns a);
          to = index_by sc_name (st_columns b)
      in map (DropColumn (table_id b)) (missing_in from to) @
         concat (map (\<lambda>(name, c).
           case map_of from name of
             None \<Rightarrow> [AddColumn (table_id b) c]
           | Some d \<Rightarrow>
               if columns_equal d c then []
               else [AlterColumn (table_id b) name d c (column_delta d c)]) to))"

definition diff_primary_key :: "schema_table \<Rightarrow> schema_table \<Rightarrow> diff_operation list" where
  "diff_primary_key a b =
     (if primary_keys_equal (st_primary_key a) (st_primary_key b) then []
      else (case st_primary_key a of None \<Rightarrow> [] | Some k \<Rightarrow> [DropPrimaryKey (table_id b) k]) @
           (case st_primary_key b of None \<Rightarrow> [] | Some k \<Rightarrow> [AddPrimaryKey (table_id b) k]))"

definition diff_uniques :: "schema_table \<Rightarrow> schema_table \<Rightarrow> diff_operation list" where
  "diff_uniques a b =
     (let from = index_by unique_structural_key (st_uniques a);
          to = index_by unique_structural_key (st_uniques b)
      in map (DropUnique (table_id b)) (missing_in from to) @ map (AddUnique (table_id b)) (missing_in to from))"

definition foreign_keys_equal :: "foreign_key \<Rightarrow> foreign_key \<Rightarrow> bool" where
  "foreign_keys_equal a b \<longleftrightarrow>
     foreign_key_match_key a = foreign_key_match_key b \<and> fk_on_delete a = fk_on_delete b \<and>
     fk_on_update a = fk_on_update b"

definition diff_foreign_keys :: "schema_table \<Rightarrow> schema_table \<Rightarrow> diff_operation list" where
  "diff_foreign_keys a b =
     (let from = index_by foreign_key_match_key (st_foreign_keys a);
          to = index_by foreign_key_match_key (st_foreign_keys b)
      in concat (map (\<lambda>(key, k).
           case map_of to key of
             None \<Rightarrow> [DropForeignKey (table_id b) k]
           | Some l \<Rightarrow> if foreign_keys_equal k l then [] else [AlterForeignKey (table_id b) k l]) from) @
         map (AddForeignKey (table_id b)) (missing_in to from))"

definition diff_indexes :: "schema_table \<Rightarrow> schema_table \<Rightarrow> diff_operation list" where
  "diff_indexes a b =
     (let from = index_by index_structural_key (st_indexes a);
          to = index_by index_structural_key (st_indexes b)
      in map (DropIndex (table_id b)) (missing_in from to) @ map (AddIndex (table_id b)) (missing_in to from))"

definition diff_table :: "schema_table \<Rightarrow> schema_table \<Rightarrow> diff_operation list" where
  "diff_table a b =
     diff_columns a b @ diff_primary_key a b @ diff_uniques a b @ diff_foreign_keys a b @ diff_indexes a b"

text \<open>The operations on two snapshots already in normal form, before sorting.\<close>

definition raw_operations :: "schema_snapshot \<Rightarrow> schema_snapshot \<Rightarrow> diff_operation list" where
  "raw_operations a b =
     (let from_tables = index_by table_key (all_tables a);
          to_tables = index_by table_key (all_tables b);
          from_schemas = nub (map ns_name (sn_schemas a));
          to_schemas = nub (map ns_name (sn_schemas b))
      in map DropSchema (filter (\<lambda>n. n \<notin> set to_schemas) from_schemas) @
         map CreateSchema (filter (\<lambda>n. n \<notin> set from_schemas) to_schemas) @
         map (\<lambda>t. DropTable (table_id t) (Some t)) (missing_in from_tables to_tables) @
         concat (map (\<lambda>(key, t).
           case map_of from_tables key of
             None \<Rightarrow> [CreateTable t]
           | Some u \<Rightarrow> diff_table u t) to_tables))"

section \<open>The summary\<close>

record diff_summary =
  su_schemas_added :: nat
  su_schemas_removed :: nat
  su_tables_added :: nat
  su_tables_removed :: nat
  su_tables_renamed :: nat
  su_columns_added :: nat
  su_columns_removed :: nat
  su_columns_renamed :: nat
  su_columns_changed :: nat
  su_primary_keys_added :: nat
  su_primary_keys_removed :: nat
  su_uniques_added :: nat
  su_uniques_removed :: nat
  su_foreign_keys_added :: nat
  su_foreign_keys_removed :: nat
  su_foreign_keys_changed :: nat
  su_indexes_added :: nat
  su_indexes_removed :: nat
  su_total :: nat

definition empty_summary :: diff_summary where
  "empty_summary =
     \<lparr>su_schemas_added = 0, su_schemas_removed = 0, su_tables_added = 0, su_tables_removed = 0,
      su_tables_renamed = 0, su_columns_added = 0, su_columns_removed = 0, su_columns_renamed = 0,
      su_columns_changed = 0, su_primary_keys_added = 0, su_primary_keys_removed = 0, su_uniques_added = 0,
      su_uniques_removed = 0, su_foreign_keys_added = 0, su_foreign_keys_removed = 0,
      su_foreign_keys_changed = 0, su_indexes_added = 0, su_indexes_removed = 0, su_total = 0\<rparr>"

fun count_operation :: "diff_operation \<Rightarrow> diff_summary \<Rightarrow> diff_summary" where
  "count_operation (CreateSchema _) s = s\<lparr>su_schemas_added := su_schemas_added s + 1\<rparr>"
| "count_operation (DropSchema _) s = s\<lparr>su_schemas_removed := su_schemas_removed s + 1\<rparr>"
| "count_operation (CreateTable _) s = s\<lparr>su_tables_added := su_tables_added s + 1\<rparr>"
| "count_operation (DropTable _ _) s = s\<lparr>su_tables_removed := su_tables_removed s + 1\<rparr>"
| "count_operation (RenameTable _ _) s = s\<lparr>su_tables_renamed := su_tables_renamed s + 1\<rparr>"
| "count_operation (AddColumn _ _) s = s\<lparr>su_columns_added := su_columns_added s + 1\<rparr>"
| "count_operation (DropColumn _ _) s = s\<lparr>su_columns_removed := su_columns_removed s + 1\<rparr>"
| "count_operation (RenameColumn _ _ _) s = s\<lparr>su_columns_renamed := su_columns_renamed s + 1\<rparr>"
| "count_operation (AlterColumn _ _ _ _ _) s = s\<lparr>su_columns_changed := su_columns_changed s + 1\<rparr>"
| "count_operation (AddPrimaryKey _ _) s = s\<lparr>su_primary_keys_added := su_primary_keys_added s + 1\<rparr>"
| "count_operation (DropPrimaryKey _ _) s = s\<lparr>su_primary_keys_removed := su_primary_keys_removed s + 1\<rparr>"
| "count_operation (AddUnique _ _) s = s\<lparr>su_uniques_added := su_uniques_added s + 1\<rparr>"
| "count_operation (DropUnique _ _) s = s\<lparr>su_uniques_removed := su_uniques_removed s + 1\<rparr>"
| "count_operation (AddForeignKey _ _) s = s\<lparr>su_foreign_keys_added := su_foreign_keys_added s + 1\<rparr>"
| "count_operation (DropForeignKey _ _) s = s\<lparr>su_foreign_keys_removed := su_foreign_keys_removed s + 1\<rparr>"
| "count_operation (AlterForeignKey _ _ _) s = s\<lparr>su_foreign_keys_changed := su_foreign_keys_changed s + 1\<rparr>"
| "count_operation (AddIndex _ _) s = s\<lparr>su_indexes_added := su_indexes_added s + 1\<rparr>"
| "count_operation (DropIndex _ _) s = s\<lparr>su_indexes_removed := su_indexes_removed s + 1\<rparr>"

definition summarize_operations :: "diff_operation list \<Rightarrow> diff_summary" where
  "summarize_operations ops = fold count_operation ops (empty_summary\<lparr>su_total := length ops\<rparr>)"

record schema_diff =
  df_operations :: "diff_operation list"
  df_summary :: diff_summary
  df_empty :: bool

definition diff_schemas :: "schema_snapshot \<Rightarrow> schema_snapshot \<Rightarrow> bool \<Rightarrow> (diff_error, schema_diff) result" where
  "diff_schemas from to should_validate =
     (let a = normalize_schema_snapshot from;
          b = normalize_schema_snapshot to
      in rbind (if should_validate then rbind (validate_schema_snapshot a) (\<lambda>_. validate_schema_snapshot b) else Ok ())
           (\<lambda>_. let ops = sort_operations (raw_operations a b)
                 in Ok \<lparr>df_operations = ops, df_summary = summarize_operations ops, df_empty = (ops = [])\<rparr>))"

end
