(* ===== verification/SchemaSpec.thy ===== *)
theory SchemaSpec
  imports SchemaDiff
begin

text \<open>
  What the operations of a diff mean: their effect on the cells of a schema. The theorem of
  the theory is that the sorted operations take the content of the first snapshot to the
  content of the second, cell by cell.
\<close>

section \<open>Cells\<close>

datatype detail =
    TableItself
  | ColumnPart string
  | KeyPart
  | UniquePart string
  | ForeignPart string
  | IndexPart string

datatype cell = SchemaCell string | TableCell string detail

type_synonym column_form = "column_type \<times> bool \<times> string option \<times> bool"

datatype content =
    Absent
  | Present
  | ColumnIs column_form
  | KeyIs "string list"
  | ActionsAre string string

type_synonym schema_content = "cell \<Rightarrow> content"

text \<open>What \<open>columnsEqual\<close> looks at: two columns of a name are equal if their forms are.\<close>

definition column_form :: "schema_column \<Rightarrow> column_form" where
  "column_form c =
     (normalize_schema_column_type (sc_type c), sc_nullable c, normalize_default_expression (sc_default c),
      sc_generated c)"

definition found :: "('a \<Rightarrow> content) \<Rightarrow> 'a option \<Rightarrow> content" where
  "found f o' = (case o' of None \<Rightarrow> Absent | Some x \<Rightarrow> f x)"

definition key_content :: "primary_key option \<Rightarrow> content" where
  "key_content = found (\<lambda>k. KeyIs (pk_columns k))"

definition actions_content :: "foreign_key \<Rightarrow> content" where
  "actions_content k = ActionsAre (fk_on_delete k) (fk_on_update k)"

fun table_content :: "schema_table \<Rightarrow> detail \<Rightarrow> content" where
  "table_content t TableItself = Present"
| "table_content t (ColumnPart n) =
     found (\<lambda>c. ColumnIs (column_form c)) (map_of (index_by sc_name (st_columns t)) n)"
| "table_content t KeyPart = key_content (st_primary_key t)"
| "table_content t (UniquePart k) = found (\<lambda>_. Present) (map_of (index_by unique_structural_key (st_uniques t)) k)"
| "table_content t (ForeignPart k) =
     found actions_content (map_of (index_by foreign_key_match_key (st_foreign_keys t)) k)"
| "table_content t (IndexPart k) = found (\<lambda>_. Present) (map_of (index_by index_structural_key (st_indexes t)) k)"

fun snapshot_content :: "schema_snapshot \<Rightarrow> schema_content" where
  "snapshot_content s (SchemaCell n) = (if n \<in> ns_name ` set (sn_schemas s) then Present else Absent)"
| "snapshot_content s (TableCell k d) =
     found (\<lambda>t. table_content t d) (map_of (index_by table_key (all_tables s)) k)"

section \<open>The effect of an operation\<close>

text \<open>What an operation writes to a cell, \<open>None\<close> where it leaves it alone.\<close>

definition at_table :: "table_identity \<Rightarrow> detail \<Rightarrow> content \<Rightarrow> cell \<Rightarrow> content option" where
  "at_table t d v c = (if c = TableCell (table_identity_key t) d then Some v else None)"

fun writes :: "diff_operation \<Rightarrow> cell \<Rightarrow> content option" where
  "writes (CreateSchema n) c = (if c = SchemaCell n then Some Present else None)"
| "writes (DropSchema n) c = (if c = SchemaCell n then Some Absent else None)"
| "writes (CreateTable t) c =
     (case c of TableCell k d \<Rightarrow> if k = table_key t then Some (table_content t d) else None | _ \<Rightarrow> None)"
| "writes (DropTable t _) c =
     (case c of TableCell k d \<Rightarrow> if k = table_identity_key t then Some Absent else None | _ \<Rightarrow> None)"
| "writes (AddColumn t col) c = at_table t (ColumnPart (sc_name col)) (ColumnIs (column_form col)) c"
| "writes (DropColumn t col) c = at_table t (ColumnPart (sc_name col)) Absent c"
| "writes (AlterColumn t n before after ch) c = at_table t (ColumnPart n) (ColumnIs (column_form after)) c"
| "writes (AddPrimaryKey t k) c = at_table t KeyPart (KeyIs (pk_columns k)) c"
| "writes (DropPrimaryKey t k) c = at_table t KeyPart Absent c"
| "writes (AddUnique t u) c = at_table t (UniquePart (unique_structural_key u)) Present c"
| "writes (DropUnique t u) c = at_table t (UniquePart (unique_structural_key u)) Absent c"
| "writes (AddForeignKey t k) c = at_table t (ForeignPart (foreign_key_match_key k)) (actions_content k) c"
| "writes (DropForeignKey t k) c = at_table t (ForeignPart (foreign_key_match_key k)) Absent c"
| "writes (AlterForeignKey t k l) c = at_table t (ForeignPart (foreign_key_match_key k)) (actions_content l) c"
| "writes (AddIndex t i) c = at_table t (IndexPart (index_structural_key i)) Present c"
| "writes (DropIndex t i) c = at_table t (IndexPart (index_structural_key i)) Absent c"
| "writes (RenameTable t u) c = None"
| "writes (RenameColumn t a b) c = None"

text \<open>A rename moves cells; every other operation writes them.\<close>

definition move_cell :: "cell \<Rightarrow> cell \<Rightarrow> schema_content \<Rightarrow> schema_content" where
  "move_cell a b m c = (if c = b then m a else if c = a then Absent else m c)"

definition apply_operation :: "diff_operation \<Rightarrow> schema_content \<Rightarrow> schema_content" where
  "apply_operation op m c =
     (case op of
        RenameTable t u \<Rightarrow>
          (case c of
             TableCell k d \<Rightarrow>
               move_cell (TableCell (table_identity_key t) d) (TableCell (table_identity_key u) d) m c
           | SchemaCell _ \<Rightarrow> m c)
      | RenameColumn t a b \<Rightarrow>
          move_cell (TableCell (table_identity_key t) (ColumnPart a)) (TableCell (table_identity_key t) (ColumnPart b)) m c
      | _ \<Rightarrow> get_or (writes op c) (m c))"

definition is_rename :: "diff_operation \<Rightarrow> bool" where
  "is_rename op = (case op of RenameTable _ _ \<Rightarrow> True | RenameColumn _ _ _ \<Rightarrow> True | _ \<Rightarrow> False)"

lemma apply_writes: "\<not> is_rename op \<Longrightarrow> apply_operation op m c = get_or (writes op c) (m c)"
  by (cases op) (simp_all add: apply_operation_def is_rename_def)

text \<open>The last write to a cell decides.\<close>

lemma fold_writes:
  "list_all (\<lambda>op. \<not> is_rename op) ops \<Longrightarrow>
   fold apply_operation ops m c =
     (case filter (\<lambda>op. writes op c \<noteq> None) (rev ops) of [] \<Rightarrow> m c | op # _ \<Rightarrow> the (writes op c))"
proof (induction ops arbitrary: m)
  case (Cons op ops)
  then show ?case
    by (cases "filter (\<lambda>op. writes op c \<noteq> None) (rev ops)") (auto simp: apply_writes split: list.splits)
qed simp

section \<open>Maps\<close>

lemma dset_keys_distinct: "distinct (map fst d) \<Longrightarrow> distinct (map fst (dset k v d))"
  by (rule distinct_dset)

lemma index_by_fold:
  "distinct (map fst d) \<Longrightarrow> (\<forall>(k, x) \<in> set d. key x = k) \<Longrightarrow>
   distinct (map fst (fold (\<lambda>x d. dset (key x) x d) xs d)) \<and>
   (\<forall>(k, x) \<in> set (fold (\<lambda>x d. dset (key x) x d) xs d). key x = k)"
proof (induction xs arbitrary: d)
  case (Cons x xs)
  have "\<forall>(k, y) \<in> set (dset (key x) x d). key y = k"
    using Cons.prems(2) by (induction d) (auto split: if_splits)
  then show ?case using Cons.IH [of "dset (key x) x d"] distinct_dset [OF Cons.prems(1)] by simp
qed simp

lemma index_by_distinct: "distinct (map fst (index_by key xs))"
  using index_by_fold [of "[]" key xs] by (simp add: index_by_def dict_of_def)

lemma index_by_key: "map_of (index_by key xs) k = Some x \<Longrightarrow> key x = k"
  using index_by_fold [of "[]" key xs] by (auto simp: index_by_def dict_of_def dest!: map_of_SomeD)

lemma index_by_entry: "(k, x) \<in> set (index_by key xs) \<longleftrightarrow> map_of (index_by key xs) k = Some x"
  using index_by_distinct [of key xs] by (simp add: map_of_eq_Some_iff)

lemma missing_in_index:
  "x \<in> set (missing_in (index_by key xs) d) \<longleftrightarrow> map_of (index_by key xs) (key x) = Some x \<and> map_of d (key x) = None"
proof
  assume "x \<in> set (missing_in (index_by key xs) d)"
  then obtain k where "(k, x) \<in> set (index_by key xs)" "map_of d k = None"
    by (auto simp: missing_in_def)
  then show "map_of (index_by key xs) (key x) = Some x \<and> map_of d (key x) = None"
    using index_by_key by (fastforce simp: index_by_entry)
next
  assume "map_of (index_by key xs) (key x) = Some x \<and> map_of d (key x) = None"
  then have "(key x, x) \<in> set (index_by key xs)" "map_of d (key x) = None" by (simp_all add: index_by_entry)
  then show "x \<in> set (missing_in (index_by key xs) d)" by (force simp: missing_in_def)
qed

section \<open>One table\<close>

lemma column_form_equal: "sc_name a = sc_name b \<Longrightarrow> columns_equal a b \<longleftrightarrow> column_form a = column_form b"
  by (auto simp: columns_equal_def column_form_def column_types_equal_def Let_def column_type.equality)

text \<open>
  The operations of one part of a table write the target's content to cells of that part, and
  a cell they leave alone has the same content on both sides.
\<close>

definition settles :: "(detail \<Rightarrow> bool) \<Rightarrow> diff_operation list \<Rightarrow> schema_table \<Rightarrow> schema_table \<Rightarrow> bool" where
  "settles part ops a b \<longleftrightarrow>
     (\<forall>op \<in> set ops. \<not> is_rename op \<and>
        (\<forall>c v. writes op c = Some v \<longrightarrow>
           (\<exists>d. c = TableCell (table_key b) d \<and> part d \<and> v = table_content b d))) \<and>
     (\<forall>d. part d \<longrightarrow> (\<forall>op \<in> set ops. writes op (TableCell (table_key b) d) = None) \<longrightarrow>
        table_content a d = table_content b d)"

definition is_column_part :: "detail \<Rightarrow> bool" where
  "is_column_part d = (case d of ColumnPart _ \<Rightarrow> True | _ \<Rightarrow> False)"

definition is_unique_part :: "detail \<Rightarrow> bool" where
  "is_unique_part d = (case d of UniquePart _ \<Rightarrow> True | _ \<Rightarrow> False)"

definition is_foreign_part :: "detail \<Rightarrow> bool" where
  "is_foreign_part d = (case d of ForeignPart _ \<Rightarrow> True | _ \<Rightarrow> False)"

definition is_index_part :: "detail \<Rightarrow> bool" where
  "is_index_part d = (case d of IndexPart _ \<Rightarrow> True | _ \<Rightarrow> False)"

lemmas part_defs = is_column_part_def is_unique_part_def is_foreign_part_def is_index_part_def

definition settling :: "(detail \<Rightarrow> bool) \<Rightarrow> schema_table \<Rightarrow> diff_operation \<Rightarrow> bool" where
  "settling part b op \<longleftrightarrow>
     \<not> is_rename op \<and> (\<exists>d. part d \<and> (\<forall>c. writes op c = at_table (table_id b) d (table_content b d) c))"

lemma settlesI:
  assumes "\<And>op. op \<in> set ops \<Longrightarrow> settling part b op"
    and "\<And>d. part d \<Longrightarrow> \<forall>op \<in> set ops. writes op (TableCell (table_key b) d) = None \<Longrightarrow>
      table_content a d = table_content b d"
  shows "settles part ops a b"
proof -
  have "\<not> is_rename op \<and> (\<forall>c v. writes op c = Some v \<longrightarrow>
      (\<exists>d. c = TableCell (table_key b) d \<and> part d \<and> v = table_content b d))" if op: "op \<in> set ops" for op
  proof -
    from assms(1) [OF op] obtain d where "\<not> is_rename op" "part d"
      "\<forall>c. writes op c = at_table (table_id b) d (table_content b d) c" by (auto simp: settling_def)
    then show ?thesis by (auto simp: at_table_def table_key_def split: if_splits)
  qed
  then show ?thesis using assms(2) by (simp add: settles_def)
qed

lemma at_own_table: "at_table (table_id b) d v (TableCell (table_key b) d) = Some v"
  by (simp add: at_table_def table_key_def)

lemma in_index_map:
  "y \<in> set (concat (map (\<lambda>(k, x). f k x) (index_by key xs))) \<longleftrightarrow>
   (\<exists>k x. map_of (index_by key xs) k = Some x \<and> y \<in> set (f k x))"
  by (fastforce simp: index_by_entry [symmetric])

lemma in_map_missing:
  "y \<in> set (map f (missing_in (index_by key xs) d)) \<longleftrightarrow>
   (\<exists>x. y = f x \<and> map_of (index_by key xs) (key x) = Some x \<and> map_of d (key x) = None)"
  by (auto simp: missing_in_index)

lemma diff_columns_iff:
  "op \<in> set (diff_columns a b) \<longleftrightarrow>
   (\<exists>c. op = DropColumn (table_id b) c \<and> map_of (index_by sc_name (st_columns a)) (sc_name c) = Some c \<and>
      map_of (index_by sc_name (st_columns b)) (sc_name c) = None) \<or>
   (\<exists>n c. map_of (index_by sc_name (st_columns b)) n = Some c \<and>
      (case map_of (index_by sc_name (st_columns a)) n of
         None \<Rightarrow> op = AddColumn (table_id b) c
       | Some d \<Rightarrow> \<not> columns_equal d c \<and> op = AlterColumn (table_id b) n d c (column_delta d c)))"
  unfolding diff_columns_def Let_def set_append Un_iff in_index_map in_map_missing
  by (intro arg_cong2 [where f = "(\<or>)"] refl ex_cong1) (auto split: option.split)

lemma settle_columns: "settles is_column_part (diff_columns a b) a b"
proof (rule settlesI)
  fix op assume "op \<in> set (diff_columns a b)"
  then show "settling is_column_part b op"
    unfolding diff_columns_iff
  proof (elim disjE exE conjE)
    fix c assume "op = DropColumn (table_id b) c" "map_of (index_by sc_name (st_columns b)) (sc_name c) = None"
    then show ?thesis
      by (auto simp: settling_def is_rename_def is_column_part_def found_def intro!: exI [of _ "ColumnPart (sc_name c)"])
  next
    fix n c assume "map_of (index_by sc_name (st_columns b)) n = Some c"
      "case map_of (index_by sc_name (st_columns a)) n of
         None \<Rightarrow> op = AddColumn (table_id b) c
       | Some d \<Rightarrow> \<not> columns_equal d c \<and> op = AlterColumn (table_id b) n d c (column_delta d c)"
    then show ?thesis
      by (auto simp: settling_def is_rename_def is_column_part_def found_def dest: index_by_key
          split: option.splits intro!: exI [of _ "ColumnPart n"])
  qed
next
  fix d assume "is_column_part d"
    and none: "\<forall>op \<in> set (diff_columns a b). writes op (TableCell (table_key b) d) = None"
  then obtain n where d: "d = ColumnPart n" by (auto simp: is_column_part_def split: detail.splits)
  let ?from = "map_of (index_by sc_name (st_columns a)) n" and ?to = "map_of (index_by sc_name (st_columns b)) n"
  show "table_content a d = table_content b d"
  proof (cases ?to)
    case None
    have "?from = None"
    proof (cases ?from)
      case (Some c)
      then have "DropColumn (table_id b) c \<in> set (diff_columns a b)"
        using None index_by_key [OF Some] by (simp add: diff_columns_iff)
      with none index_by_key [OF Some] show ?thesis by (fastforce simp: d at_own_table)
    qed
    with None show ?thesis by (simp add: d)
  next
    case (Some c)
    note to = this
    show ?thesis
    proof (cases ?from)
      case None
      then have "AddColumn (table_id b) c \<in> set (diff_columns a b)"
        using to by (force simp: diff_columns_iff)
      with none index_by_key [OF to] show ?thesis by (fastforce simp: d at_own_table)
    next
      case (Some e)
      have "columns_equal e c"
      proof (rule ccontr)
        assume "\<not> columns_equal e c"
        then have "AlterColumn (table_id b) n e c (column_delta e c) \<in> set (diff_columns a b)"
          using to Some by (force simp: diff_columns_iff)
        with none show False by (fastforce simp: d at_own_table)
      qed
      then show ?thesis using Some to column_form_equal [of e c] index_by_key [OF Some] index_by_key [OF to]
        by (simp add: d found_def)
    qed
  qed
qed

lemma settle_presence:
  fixes key :: "'x \<Rightarrow> string"
  assumes content: "\<And>t k. table_content t (P k) = found (\<lambda>_. Present) (map_of (index_by key (f t)) k)"
    and drop: "\<And>x c. writes (D x) c = at_table (table_id b) (P (key x)) Absent c" "\<And>x. \<not> is_rename (D x)"
    and add: "\<And>x c. writes (A x) c = at_table (table_id b) (P (key x)) Present c" "\<And>x. \<not> is_rename (A x)"
    and part: "\<And>d. part d \<longleftrightarrow> (\<exists>k. d = P k)"
  shows "settles part
    (map D (missing_in (index_by key (f a)) (index_by key (f b))) @
     map A (missing_in (index_by key (f b)) (index_by key (f a)))) a b"
    (is "settles part ?ops a b")
proof (rule settlesI)
  fix op assume "op \<in> set ?ops"
  then consider x where "op = D x" "map_of (index_by key (f b)) (key x) = None" |
      x where "op = A x" "map_of (index_by key (f b)) (key x) = Some x"
    unfolding set_append Un_iff in_map_missing by blast
  then show "settling part b op"
  proof cases
    case (1 x)
    then show ?thesis
      by (auto simp: settling_def drop part content found_def intro!: exI [of _ "P (key x)"])
  next
    case (2 x)
    then show ?thesis
      by (auto simp: settling_def add part content found_def intro!: exI [of _ "P (key x)"])
  qed
next
  fix d assume "part d" and none: "\<forall>op \<in> set ?ops. writes op (TableCell (table_key b) d) = None"
  then obtain k where d: "d = P k" by (auto simp: part)
  let ?from = "map_of (index_by key (f a)) k" and ?to = "map_of (index_by key (f b)) k"
  have "?from \<noteq> None \<Longrightarrow> ?to \<noteq> None"
  proof (rule ccontr, clarsimp)
    fix x assume x: "?from = Some x" and "?to = None"
    then have "D x \<in> set ?ops" unfolding set_append Un_iff in_map_missing using index_by_key [OF x] by auto
    with none drop(1) [of x "TableCell (table_key b) d"] index_by_key [OF x] show False
      by (simp add: d at_own_table)
  qed
  moreover have "?to \<noteq> None \<Longrightarrow> ?from \<noteq> None"
  proof (rule ccontr, clarsimp)
    fix x assume x: "?to = Some x" and "?from = None"
    then have "A x \<in> set ?ops" unfolding set_append Un_iff in_map_missing using index_by_key [OF x] by auto
    with none add(1) [of x "TableCell (table_key b) d"] index_by_key [OF x] show False
      by (simp add: d at_own_table)
  qed
  ultimately show "table_content a d = table_content b d"
    by (cases ?from; cases ?to) (auto simp: d content found_def)
qed

lemma settle_uniques: "settles is_unique_part (diff_uniques a b) a b"
  unfolding diff_uniques_def Let_def
  by (rule settle_presence) (auto simp: is_rename_def is_unique_part_def split: detail.splits)

lemma settle_indexes: "settles is_index_part (diff_indexes a b) a b"
  unfolding diff_indexes_def Let_def
  by (rule settle_presence) (auto simp: is_rename_def is_index_part_def split: detail.splits)

lemma diff_foreign_keys_iff:
  "op \<in> set (diff_foreign_keys a b) \<longleftrightarrow>
   (\<exists>n k. map_of (index_by foreign_key_match_key (st_foreign_keys a)) n = Some k \<and>
      (case map_of (index_by foreign_key_match_key (st_foreign_keys b)) n of
         None \<Rightarrow> op = DropForeignKey (table_id b) k
       | Some l \<Rightarrow> \<not> foreign_keys_equal k l \<and> op = AlterForeignKey (table_id b) k l)) \<or>
   (\<exists>k. op = AddForeignKey (table_id b) k \<and>
      map_of (index_by foreign_key_match_key (st_foreign_keys b)) (foreign_key_match_key k) = Some k \<and>
      map_of (index_by foreign_key_match_key (st_foreign_keys a)) (foreign_key_match_key k) = None)"
  unfolding diff_foreign_keys_def Let_def set_append Un_iff in_index_map in_map_missing
  by (intro arg_cong2 [where f = "(\<or>)"] refl ex_cong1) (auto split: option.split)

lemma settle_foreign_keys: "settles is_foreign_part (diff_foreign_keys a b) a b"
proof (rule settlesI)
  fix op assume "op \<in> set (diff_foreign_keys a b)"
  then show "settling is_foreign_part b op"
    unfolding diff_foreign_keys_iff
  proof (elim disjE exE conjE)
    fix n k assume "map_of (index_by foreign_key_match_key (st_foreign_keys a)) n = Some k"
      "case map_of (index_by foreign_key_match_key (st_foreign_keys b)) n of
         None \<Rightarrow> op = DropForeignKey (table_id b) k
       | Some l \<Rightarrow> \<not> foreign_keys_equal k l \<and> op = AlterForeignKey (table_id b) k l"
    then show ?thesis
      by (auto simp: settling_def is_rename_def is_foreign_part_def found_def dest: index_by_key
          split: option.splits intro!: exI [of _ "ForeignPart n"])
  next
    fix k assume "op = AddForeignKey (table_id b) k"
      "map_of (index_by foreign_key_match_key (st_foreign_keys b)) (foreign_key_match_key k) = Some k"
    then show ?thesis
      by (auto simp: settling_def is_rename_def is_foreign_part_def found_def
          intro!: exI [of _ "ForeignPart (foreign_key_match_key k)"])
  qed
next
  fix d assume "is_foreign_part d"
    and none: "\<forall>op \<in> set (diff_foreign_keys a b). writes op (TableCell (table_key b) d) = None"
  then obtain n where d: "d = ForeignPart n" by (auto simp: is_foreign_part_def split: detail.splits)
  let ?from = "map_of (index_by foreign_key_match_key (st_foreign_keys a)) n"
    and ?to = "map_of (index_by foreign_key_match_key (st_foreign_keys b)) n"
  show "table_content a d = table_content b d"
  proof (cases ?from)
    case None
    have "?to = None"
    proof (cases ?to)
      case (Some k)
      then have "AddForeignKey (table_id b) k \<in> set (diff_foreign_keys a b)"
        using None index_by_key [OF Some] by (simp add: diff_foreign_keys_iff)
      with none index_by_key [OF Some] show ?thesis by (fastforce simp: d at_own_table)
    qed
    with None show ?thesis by (simp add: d)
  next
    case (Some k)
    note src = this
    show ?thesis
    proof (cases ?to)
      case None
      then have "DropForeignKey (table_id b) k \<in> set (diff_foreign_keys a b)"
        using src by (force simp: diff_foreign_keys_iff)
      with none index_by_key [OF src] show ?thesis by (fastforce simp: d at_own_table)
    next
      case (Some l)
      have "foreign_keys_equal k l"
      proof (rule ccontr)
        assume "\<not> foreign_keys_equal k l"
        then have "AlterForeignKey (table_id b) k l \<in> set (diff_foreign_keys a b)"
          using src Some by (force simp: diff_foreign_keys_iff)
        with none index_by_key [OF src] show False by (fastforce simp: d at_own_table)
      qed
      then show ?thesis using Some src
        by (simp add: d found_def actions_content_def foreign_keys_equal_def)
    qed
  qed
qed

text \<open>A whole table: only a dropped primary key writes something the target may not have.\<close>

definition drops_key :: "diff_operation \<Rightarrow> cell \<Rightarrow> bool" where
  "drops_key op c \<longleftrightarrow> (\<exists>t k. op = DropPrimaryKey t k \<and> c = TableCell (table_identity_key t) KeyPart)"

lemma diff_table_Un:
  "set (diff_table a b) = set (diff_columns a b) \<union> set (diff_primary_key a b) \<union> set (diff_uniques a b) \<union>
     set (diff_foreign_keys a b) \<union> set (diff_indexes a b)"
  by (auto simp: diff_table_def)

lemma settles_writes:
  "settles part ops a b \<Longrightarrow> op \<in> set ops \<Longrightarrow>
   \<not> is_rename op \<and> (writes op c = Some v \<longrightarrow>
     (\<exists>d. c = TableCell (table_key b) d \<and> (v = table_content b d \<or> v = Absent \<and> drops_key op c)))"
  unfolding settles_def by blast

lemma settles_unwritten:
  "settles part ops a b \<Longrightarrow> part d \<Longrightarrow> \<forall>op \<in> set ops. writes op (TableCell (table_key b) d) = None \<Longrightarrow>
   table_content a d = table_content b d"
  unfolding settles_def by blast

lemma primary_key_ops:
  assumes "op \<in> set (diff_primary_key a b)"
  shows "\<not> is_rename op \<and> (writes op c = Some v \<longrightarrow>
    (\<exists>d. c = TableCell (table_key b) d \<and> (v = table_content b d \<or> v = Absent \<and> drops_key op c)))"
proof -
  from assms consider k where "op = DropPrimaryKey (table_id b) k" |
      k where "op = AddPrimaryKey (table_id b) k" "st_primary_key b = Some k"
    by (auto simp: diff_primary_key_def split: if_splits option.splits)
  then show ?thesis
    by cases (auto simp: is_rename_def at_table_def drops_key_def table_key_def key_content_def found_def split: if_splits)
qed

lemma primary_key_unwritten:
  assumes none: "\<forall>op \<in> set (diff_primary_key a b). writes op (TableCell (table_key b) KeyPart) = None"
  shows "table_content a KeyPart = table_content b KeyPart"
proof -
  have "primary_keys_equal (st_primary_key a) (st_primary_key b)"
  proof (rule ccontr)
    assume ne: "\<not> primary_keys_equal (st_primary_key a) (st_primary_key b)"
    then have "st_primary_key a \<noteq> None \<or> st_primary_key b \<noteq> None" by (auto simp: primary_keys_equal_def)
    with ne none show False
      by (auto simp: diff_primary_key_def at_own_table split: option.splits)
  qed
  then show ?thesis
    by (cases "st_primary_key a"; cases "st_primary_key b") (auto simp: primary_keys_equal_def key_content_def found_def)
qed

lemma primary_key_readded:
  "DropPrimaryKey t k \<in> set (diff_primary_key a b) \<Longrightarrow> st_primary_key b = Some l \<Longrightarrow>
   AddPrimaryKey (table_id b) l \<in> set (diff_primary_key a b)"
  by (auto simp: diff_primary_key_def split: if_splits option.splits)

lemma table_ops:
  assumes "op \<in> set (diff_table a b)"
  shows "\<not> is_rename op \<and> (writes op c = Some v \<longrightarrow>
    (\<exists>d. c = TableCell (table_key b) d \<and> (v = table_content b d \<or> v = Absent \<and> drops_key op c)))"
  using assms settles_writes [OF settle_columns] settles_writes [OF settle_uniques]
    settles_writes [OF settle_foreign_keys] settles_writes [OF settle_indexes] primary_key_ops
  unfolding diff_table_Un Un_iff by metis

lemma table_unwritten:
  assumes none: "\<forall>op \<in> set (diff_table a b). writes op (TableCell (table_key b) d) = None"
  shows "table_content a d = table_content b d"
proof (cases d)
  case (ColumnPart n)
  then show ?thesis using settles_unwritten [OF settle_columns, of d a b] none
    by (auto simp: diff_table_Un is_column_part_def)
next
  case KeyPart
  then show ?thesis using primary_key_unwritten [of a b] none by (auto simp: diff_table_Un)
next
  case (UniquePart n)
  then show ?thesis using settles_unwritten [OF settle_uniques, of d a b] none
    by (auto simp: diff_table_Un is_unique_part_def)
next
  case (ForeignPart n)
  then show ?thesis using settles_unwritten [OF settle_foreign_keys, of d a b] none
    by (auto simp: diff_table_Un is_foreign_part_def)
next
  case (IndexPart n)
  then show ?thesis using settles_unwritten [OF settle_indexes, of d a b] none
    by (auto simp: diff_table_Un is_index_part_def)
qed simp

lemma drop_key_in_table:
  "DropPrimaryKey t k \<in> set (diff_table a b) \<Longrightarrow> DropPrimaryKey t k \<in> set (diff_primary_key a b) \<and> t = table_id b"
proof -
  assume a: "DropPrimaryKey t k \<in> set (diff_table a b)"
  have "DropPrimaryKey t k \<notin> set (diff_columns a b)" "DropPrimaryKey t k \<notin> set (diff_foreign_keys a b)"
    by (auto simp: diff_columns_iff diff_foreign_keys_iff split: option.splits)
  moreover have "DropPrimaryKey t k \<notin> set (diff_uniques a b)" "DropPrimaryKey t k \<notin> set (diff_indexes a b)"
    by (auto simp: diff_uniques_def diff_indexes_def Let_def)
  ultimately show ?thesis using a
    by (auto simp: diff_table_Un) (auto simp: diff_primary_key_def split: if_splits option.splits)
qed

section \<open>Whole snapshots\<close>

lemma raw_operations_iff:
  "op \<in> set (raw_operations a b) \<longleftrightarrow>
   (\<exists>n. op = DropSchema n \<and> n \<in> ns_name ` set (sn_schemas a) \<and> n \<notin> ns_name ` set (sn_schemas b)) \<or>
   (\<exists>n. op = CreateSchema n \<and> n \<in> ns_name ` set (sn_schemas b) \<and> n \<notin> ns_name ` set (sn_schemas a)) \<or>
   (\<exists>t. op = DropTable (table_id t) (Some t) \<and> map_of (index_by table_key (all_tables a)) (table_key t) = Some t \<and>
      map_of (index_by table_key (all_tables b)) (table_key t) = None) \<or>
   (\<exists>k t. map_of (index_by table_key (all_tables b)) k = Some t \<and>
      (case map_of (index_by table_key (all_tables a)) k of
         None \<Rightarrow> op = CreateTable t
       | Some u \<Rightarrow> op \<in> set (diff_table u t)))"
proof -
  have "(\<exists>k t. map_of (index_by table_key (all_tables b)) k = Some t \<and>
      op \<in> set (case map_of (index_by table_key (all_tables a)) k of None \<Rightarrow> [CreateTable t] | Some u \<Rightarrow> diff_table u t)) \<longleftrightarrow>
    (\<exists>k t. map_of (index_by table_key (all_tables b)) k = Some t \<and>
      (case map_of (index_by table_key (all_tables a)) k of
         None \<Rightarrow> op = CreateTable t
       | Some u \<Rightarrow> op \<in> set (diff_table u t)))"
    by (intro ex_cong1) (auto split: option.split)
  then show ?thesis
    unfolding raw_operations_def Let_def set_append Un_iff in_index_map in_map_missing by auto
qed

lemma raw_ops:
  assumes "op \<in> set (raw_operations a b)"
  shows "\<not> is_rename op \<and> (writes op c = Some v \<longrightarrow> v = snapshot_content b c \<or> v = Absent \<and> drops_key op c)"
  using assms unfolding raw_operations_iff
proof (elim disjE exE conjE)
  fix k t
  assume to: "map_of (index_by table_key (all_tables b)) k = Some t"
    and op: "case map_of (index_by table_key (all_tables a)) k of
         None \<Rightarrow> op = CreateTable t | Some u \<Rightarrow> op \<in> set (diff_table u t)"
  have k: "k = table_key t" using index_by_key [OF to] by simp
  show ?thesis
  proof (cases "map_of (index_by table_key (all_tables a)) k")
    case None
    then show ?thesis using op to by (auto simp: is_rename_def found_def k split: cell.splits if_splits)
  next
    case (Some u)
    then have "op \<in> set (diff_table u t)" using op by simp
    from table_ops [OF this, of c v] to show ?thesis by (auto simp: found_def k)
  qed
qed (auto simp: is_rename_def found_def table_key_def split: cell.splits if_splits)

lemma raw_unwritten:
  assumes none: "\<forall>op \<in> set (raw_operations a b). writes op c = None"
  shows "snapshot_content a c = snapshot_content b c"
proof (cases c)
  case (SchemaCell n)
  have "n \<in> ns_name ` set (sn_schemas a) \<longleftrightarrow> n \<in> ns_name ` set (sn_schemas b)"
  proof (rule ccontr)
    assume "\<not> ?thesis"
    then have "DropSchema n \<in> set (raw_operations a b) \<or> CreateSchema n \<in> set (raw_operations a b)"
      unfolding raw_operations_iff by auto
    with none show False by (auto simp: SchemaCell)
  qed
  then show ?thesis by (simp add: SchemaCell)
next
  case (TableCell k d)
  let ?from = "map_of (index_by table_key (all_tables a)) k" and ?to = "map_of (index_by table_key (all_tables b)) k"
  show ?thesis
  proof (cases ?to)
    case None
    have "?from = None"
    proof (cases ?from)
      case (Some t)
      then have "DropTable (table_id t) (Some t) \<in> set (raw_operations a b)"
        using None index_by_key [OF Some] unfolding raw_operations_iff by auto
      with none index_by_key [OF Some] show ?thesis by (fastforce simp: TableCell table_key_def)
    qed
    with None show ?thesis by (simp add: TableCell)
  next
    case (Some t)
    note to = this
    show ?thesis
    proof (cases ?from)
      case None
      then have "CreateTable t \<in> set (raw_operations a b)"
        using to unfolding raw_operations_iff by force
      with none index_by_key [OF to] show ?thesis by (fastforce simp: TableCell)
    next
      case (Some u)
      then have "set (diff_table u t) \<subseteq> set (raw_operations a b)"
        using to unfolding raw_operations_iff by (force simp: subset_iff raw_operations_iff)
      then have "table_content u d = table_content t d"
        using none index_by_key [OF to] by (intro table_unwritten) (auto simp: TableCell)
      then show ?thesis using Some to by (simp add: TableCell found_def)
    qed
  qed
qed

text \<open>A primary key that is dropped and that the target has is added again, on the same table.\<close>

lemma dropped_key_readded:
  assumes "DropPrimaryKey t k \<in> set (raw_operations a b)"
    and present: "snapshot_content b (TableCell (table_identity_key t) KeyPart) \<noteq> Absent"
  shows "\<exists>l. AddPrimaryKey t l \<in> set (raw_operations a b)"
proof -
  from assms(1) obtain key new old where
    new: "map_of (index_by table_key (all_tables b)) key = Some new" and
    old: "map_of (index_by table_key (all_tables a)) key = Some old" and
    drop: "DropPrimaryKey t k \<in> set (diff_table old new)"
    unfolding raw_operations_iff by (auto split: option.splits)
  from drop_key_in_table [OF drop] have op: "DropPrimaryKey t k \<in> set (diff_primary_key old new)"
    and t: "t = table_id new" by auto
  have "key = table_identity_key t" using index_by_key [OF new] by (simp add: t table_key_def)
  then obtain l where "st_primary_key new = Some l"
    using present new by (auto simp: found_def key_content_def split: option.splits)
  from primary_key_readded [OF op this] have "AddPrimaryKey t l \<in> set (diff_table old new)"
    by (simp add: t diff_table_Un)
  with old new show ?thesis unfolding raw_operations_iff by (intro exI [of _ l]) force
qed

lemma drop_sorts_before_add:
  "str_less (operation_sort_key (DropPrimaryKey t k)) (operation_sort_key (AddPrimaryKey u l))"
proof -
  have "kind_prefix (DropPrimaryKey t k) = ''040''" "kind_prefix (AddPrimaryKey u l) = ''140''"
    by (simp_all add: kind_prefix_def) code_simp+
  then show ?thesis by (simp add: operation_sort_key_def code_def)
qed

text \<open>
  The order of the operations matters in one place only: a changed primary key is dropped and
  then added, and the sort keeps the two in that order.
\<close>

lemma sorted_operations_settle:
  "fold apply_operation (sort_operations (raw_operations a b)) (snapshot_content a) c = snapshot_content b c"
proof -
  define ops where "ops = sort_operations (raw_operations a b)"
  have set_ops: "set ops = set (raw_operations a b)"
    by (simp add: ops_def sort_operations_def sort_by_key_def)
  have plain: "list_all (\<lambda>op. \<not> is_rename op) ops"
    using raw_ops by (auto simp: list_all_iff set_ops)
  let ?writers = "filter (\<lambda>op. writes op c \<noteq> None) (rev ops)"
  show ?thesis
  proof (cases ?writers)
    case Nil
    then have "\<forall>op \<in> set (raw_operations a b). writes op c = None"
      by (auto simp: filter_empty_conv set_ops)
    then have "snapshot_content a c = snapshot_content b c" by (rule raw_unwritten)
    then show ?thesis unfolding ops_def [symmetric] fold_writes [OF plain] Nil by simp
  next
    case (Cons op later)
    have "op \<in> set ?writers" unfolding Cons by simp
    then obtain v where op: "op \<in> set (raw_operations a b)" and v: "writes op c = Some v"
      by (auto simp: set_ops)
    have "v = snapshot_content b c"
    proof (rule ccontr)
      assume ne: "v \<noteq> snapshot_content b c"
      then have "drops_key op c" "snapshot_content b c \<noteq> Absent" using raw_ops [OF op, of c v] ne v by auto
      then obtain t k where drop: "op = DropPrimaryKey t k" and c: "c = TableCell (table_identity_key t) KeyPart"
        by (auto simp: drops_key_def)
      obtain l where "AddPrimaryKey t l \<in> set (raw_operations a b)"
        using dropped_key_readded op \<open>snapshot_content b c \<noteq> Absent\<close> unfolding drop c by blast
      then have "AddPrimaryKey t l \<in> set ?writers" by (simp add: set_ops c at_table_def)
      then have "AddPrimaryKey t l \<in> set later" unfolding Cons drop by auto
      moreover have "sorted_wrt (\<lambda>x y. unit_compare_on operation_sort_key y x \<le> 0) ?writers"
        using code_units.sort_sorted [of operation_sort_key "raw_operations a b"]
        by (intro sorted_wrt_filter) (simp add: sorted_wrt_rev ops_def sort_operations_def sort_by_key_def)
      ultimately have "unit_compare_on operation_sort_key (AddPrimaryKey t l) op \<le> 0" unfolding Cons by simp
      then show False using drop_sorts_before_add [of t k t l]
        by (simp add: drop unit_compare_on_def unit_compare_le str_le_def)
    qed
    then show ?thesis unfolding ops_def [symmetric] fold_writes [OF plain] Cons using v by simp
  qed
qed

section \<open>No operation without a difference\<close>

lemma columns_differ:
  assumes "op \<in> set (diff_columns a b)"
  shows "\<exists>d. table_content a d \<noteq> table_content b d"
proof -
  have "\<exists>n. table_content a (ColumnPart n) \<noteq> table_content b (ColumnPart n)"
    using assms unfolding diff_columns_iff
  proof (elim disjE exE conjE)
    fix c assume "map_of (index_by sc_name (st_columns a)) (sc_name c) = Some c"
      "map_of (index_by sc_name (st_columns b)) (sc_name c) = None"
    then show ?thesis by (auto simp: found_def intro!: exI [of _ "sc_name c"])
  next
    fix n c assume to: "map_of (index_by sc_name (st_columns b)) n = Some c"
      and op: "case map_of (index_by sc_name (st_columns a)) n of
         None \<Rightarrow> op = AddColumn (table_id b) c
       | Some d \<Rightarrow> \<not> columns_equal d c \<and> op = AlterColumn (table_id b) n d c (column_delta d c)"
    have "\<not> columns_equal d c \<longleftrightarrow> column_form d \<noteq> column_form c"
      if "map_of (index_by sc_name (st_columns a)) n = Some d" for d
      using column_form_equal [of d c] index_by_key [OF that] index_by_key [OF to] by simp
    with to op show ?thesis by (auto simp: found_def split: option.splits intro!: exI [of _ n])
  qed
  then show ?thesis by blast
qed

lemma presence_differs:
  assumes "\<And>t k. table_content t (P k) = found (\<lambda>_. Present) (map_of (index_by key (f t)) k)"
    and "op \<in> set (map D (missing_in (index_by key (f a)) (index_by key (f b))) @
      map A (missing_in (index_by key (f b)) (index_by key (f a))))"
  shows "\<exists>d. table_content a d \<noteq> table_content b d"
proof -
  obtain k where "map_of (index_by key (f a)) k = None \<longleftrightarrow> map_of (index_by key (f b)) k \<noteq> None"
    using assms(2) unfolding set_append Un_iff in_map_missing by (metis option.distinct(1))
  then have "table_content a (P k) \<noteq> table_content b (P k)" by (auto simp: assms(1) found_def split: option.splits)
  then show ?thesis by blast
qed

lemma uniques_differ: "op \<in> set (diff_uniques a b) \<Longrightarrow> \<exists>d. table_content a d \<noteq> table_content b d"
  unfolding diff_uniques_def Let_def by (rule presence_differs [of UniquePart]) auto

lemma indexes_differ: "op \<in> set (diff_indexes a b) \<Longrightarrow> \<exists>d. table_content a d \<noteq> table_content b d"
  unfolding diff_indexes_def Let_def by (rule presence_differs [of IndexPart]) auto

lemma foreign_keys_differ:
  assumes "op \<in> set (diff_foreign_keys a b)"
  shows "\<exists>d. table_content a d \<noteq> table_content b d"
proof -
  have "\<exists>n. table_content a (ForeignPart n) \<noteq> table_content b (ForeignPart n)"
    using assms unfolding diff_foreign_keys_iff
  proof (elim disjE exE conjE)
    fix n k assume src: "map_of (index_by foreign_key_match_key (st_foreign_keys a)) n = Some k"
      and op: "case map_of (index_by foreign_key_match_key (st_foreign_keys b)) n of
         None \<Rightarrow> op = DropForeignKey (table_id b) k
       | Some l \<Rightarrow> \<not> foreign_keys_equal k l \<and> op = AlterForeignKey (table_id b) k l"
    have "actions_content k \<noteq> actions_content l"
      if "map_of (index_by foreign_key_match_key (st_foreign_keys b)) n = Some l" "\<not> foreign_keys_equal k l" for l
      using that index_by_key [OF src] index_by_key [OF that(1)] by (simp add: foreign_keys_equal_def actions_content_def)
    with src op show ?thesis
      by (auto simp: found_def actions_content_def split: option.splits intro!: exI [of _ n])
  next
    fix k assume "map_of (index_by foreign_key_match_key (st_foreign_keys b)) (foreign_key_match_key k) = Some k"
      "map_of (index_by foreign_key_match_key (st_foreign_keys a)) (foreign_key_match_key k) = None"
    then show ?thesis
      by (auto simp: found_def actions_content_def intro!: exI [of _ "foreign_key_match_key k"])
  qed
  then show ?thesis by blast
qed

lemma primary_key_differs:
  assumes "op \<in> set (diff_primary_key a b)"
  shows "\<exists>d. table_content a d \<noteq> table_content b d"
proof -
  have "table_content a KeyPart \<noteq> table_content b KeyPart"
    using assms by (auto simp: diff_primary_key_def primary_keys_equal_def key_content_def found_def
        split: if_splits option.splits)
  then show ?thesis by blast
qed

lemma tables_differ: "op \<in> set (diff_table a b) \<Longrightarrow> \<exists>d. table_content a d \<noteq> table_content b d"
  using columns_differ primary_key_differs uniques_differ foreign_keys_differ indexes_differ
  unfolding diff_table_Un by blast

lemma snapshots_differ:
  assumes "op \<in> set (raw_operations a b)"
  shows "\<exists>c. snapshot_content a c \<noteq> snapshot_content b c"
  using assms unfolding raw_operations_iff
proof (elim disjE exE conjE)
  fix k t
  assume to: "map_of (index_by table_key (all_tables b)) k = Some t"
    and op: "case map_of (index_by table_key (all_tables a)) k of
         None \<Rightarrow> op = CreateTable t | Some u \<Rightarrow> op \<in> set (diff_table u t)"
  show ?thesis
  proof (cases "map_of (index_by table_key (all_tables a)) k")
    case None
    with to show ?thesis by (auto simp: found_def intro!: exI [of _ "TableCell k TableItself"])
  next
    case (Some u)
    with op tables_differ [of op u t] obtain d where "table_content u d \<noteq> table_content t d" by auto
    with Some to show ?thesis by (auto simp: found_def intro!: exI [of _ "TableCell k d"])
  qed
next
  fix t assume "map_of (index_by table_key (all_tables a)) (table_key t) = Some t"
    "map_of (index_by table_key (all_tables b)) (table_key t) = None"
  then show ?thesis by (auto simp: found_def intro!: exI [of _ "TableCell (table_key t) TableItself"])
next
  fix n assume "n \<in> ns_name ` set (sn_schemas a)" "n \<notin> ns_name ` set (sn_schemas b)"
  then show ?thesis by (auto intro!: exI [of _ "SchemaCell n"])
next
  fix n assume "n \<notin> ns_name ` set (sn_schemas a)" "n \<in> ns_name ` set (sn_schemas b)"
  then show ?thesis by (auto intro!: exI [of _ "SchemaCell n"])
qed

lemma raw_operations_empty: "raw_operations a b = [] \<longleftrightarrow> snapshot_content a = snapshot_content b"
proof
  assume "raw_operations a b = []"
  then show "snapshot_content a = snapshot_content b" using raw_unwritten [of a b] by auto
next
  assume "snapshot_content a = snapshot_content b"
  then show "raw_operations a b = []" using snapshots_differ [of _ a b] by (cases "raw_operations a b") auto
qed

end
