(* ===== verification/SchemaProperties.thy ===== *)
theory SchemaProperties
  imports SchemaSpec
begin

text \<open>The properties of the schema diff.\<close>

section \<open>Samples\<close>

definition plain_type :: "string \<Rightarrow> column_type" where
  "plain_type n =
     \<lparr>ct_name = n, ct_length = None, ct_precision = None, ct_scale = None, ct_array_dimensions = jint 0,
      ct_enum_values = None\<rparr>"

definition sample_column :: "string \<Rightarrow> string \<Rightarrow> schema_column" where
  "sample_column n t =
     \<lparr>sc_name = n, sc_type = plain_type t, sc_nullable = False, sc_default = None, sc_generated = False\<rparr>"

definition sample_table :: "schema_column list \<Rightarrow> string list \<Rightarrow> schema_table" where
  "sample_table cs pk =
     \<lparr>st_schema = ''app'', st_name = ''users'', st_columns = cs,
      st_primary_key = Some \<lparr>pk_name = None, pk_columns = pk\<rparr>, st_uniques = [], st_foreign_keys = [], st_indexes = []\<rparr>"

definition sample_snapshot :: "schema_table list \<Rightarrow> schema_snapshot" where
  "sample_snapshot ts =
     \<lparr>sn_version = 1, sn_backend = None, sn_schemas = [\<lparr>ns_name = ''app'', ns_tables = ts\<rparr>]\<rparr>"

definition sample_before :: schema_snapshot where
  "sample_before = sample_snapshot [sample_table [sample_column ''id'' ''int4''] [''id'']]"

definition sample_after :: schema_snapshot where
  "sample_after =
     sample_snapshot [sample_table [sample_column ''tag'' ''text'', sample_column ''id'' ''integer''] [''id'', ''tag'']]"

section \<open>The diff and its target\<close>

text \<open>
  C23. The operations of a diff, applied in their sorted order to the content of the normalised
  source, give the content of the normalised target: every schema, table, column form, primary
  key, unique constraint, foreign key and index is as in the target.
\<close>

theorem diff_reaches_target:
  assumes "diff_schemas a b v = Ok d"
  shows "fold apply_operation (df_operations d) (snapshot_content (normalize_schema_snapshot a)) =
    snapshot_content (normalize_schema_snapshot b)"
  using assms by (auto simp: diff_schemas_def Let_def rbind_eq_Inr sorted_operations_settle)

definition sample_diff :: "(diff_error, schema_diff) result" where
  "sample_diff = diff_schemas sample_before sample_after True"

theorem diff_reaches_target_witness:
  "\<exists>d. sample_diff = Ok d \<and> length (df_operations d) = 3 \<and>
     fold apply_operation (df_operations d) (snapshot_content (normalize_schema_snapshot sample_before)) =
       snapshot_content (normalize_schema_snapshot sample_after)"
proof -
  have "(case sample_diff of Inr d \<Rightarrow> length (df_operations d) = 3 | _ \<Rightarrow> False)" by code_simp
  then obtain d where d: "sample_diff = Ok d" "length (df_operations d) = 3"
    by (auto split: sum.splits)
  with diff_reaches_target [of sample_before sample_after True d] show ?thesis by (simp add: sample_diff_def)
qed

text \<open>
  C24. A diff is empty exactly when the two normalised snapshots have the same content, so the
  diff lists no operation that changes nothing from a schema to itself.
\<close>

theorem diff_empty_exact:
  assumes "diff_schemas a b v = Ok d"
  shows "df_empty d \<longleftrightarrow> snapshot_content (normalize_schema_snapshot a) = snapshot_content (normalize_schema_snapshot b)"
proof -
  let ?a = "normalize_schema_snapshot a" and ?b = "normalize_schema_snapshot b"
  have "df_empty d \<longleftrightarrow> sort_operations (raw_operations ?a ?b) = []"
    using assms by (auto simp: diff_schemas_def Let_def rbind_eq_Inr)
  also have "\<dots> \<longleftrightarrow> raw_operations ?a ?b = []"
    unfolding sort_operations_def sort_by_key_def by (metis set_js_sort set_empty)
  finally show ?thesis unfolding raw_operations_empty .
qed

definition sample_respelled :: schema_snapshot where
  "sample_respelled = sample_snapshot [sample_table [sample_column ''id'' ''INTEGER''] [''id'']]"

theorem diff_empty_exact_witness:
  "snapshot_content (normalize_schema_snapshot sample_before) =
   snapshot_content (normalize_schema_snapshot sample_respelled)"
proof -
  have "(case diff_schemas sample_before sample_respelled True of Inr d \<Rightarrow> df_empty d | _ \<Rightarrow> False)" by code_simp
  then obtain d where "diff_schemas sample_before sample_respelled True = Ok d" "df_empty d"
    by (auto split: sum.splits)
  with diff_empty_exact [of sample_before sample_respelled True d] show ?thesis by simp
qed

section \<open>Validation\<close>

text \<open>What a valid table and snapshot are: keys without repetition, and only known columns named.\<close>

definition table_columns :: "schema_table \<Rightarrow> string set" where
  "table_columns t = sc_name ` set (st_columns t)"

definition valid_table :: "schema_table \<Rightarrow> bool" where
  "valid_table t \<longleftrightarrow>
     distinct (map sc_name (st_columns t)) \<and>
     (\<forall>k. st_primary_key t = Some k \<longrightarrow> set (pk_columns k) \<subseteq> table_columns t) \<and>
     distinct (map unique_structural_key (st_uniques t)) \<and>
     (\<forall>u \<in> set (st_uniques t). set (uq_columns u) \<subseteq> table_columns t) \<and>
     distinct (map foreign_key_match_key (st_foreign_keys t)) \<and>
     (\<forall>k \<in> set (st_foreign_keys t).
        length (fk_columns k) = length (fk_target_columns k) \<and> set (fk_columns k) \<subseteq> table_columns t) \<and>
     distinct (map index_structural_key (st_indexes t)) \<and>
     (\<forall>i \<in> set (st_indexes t). ic_name ` set (ix_columns i) \<subseteq> table_columns t)"

definition valid_snapshot :: "schema_snapshot \<Rightarrow> bool" where
  "valid_snapshot s \<longleftrightarrow>
     distinct (map ns_name (sn_schemas s)) \<and>
     (\<forall>n \<in> set (sn_schemas s).
        distinct (map st_name (ns_tables n)) \<and>
        (\<forall>t \<in> set (ns_tables n). st_schema t = ns_name n \<and> valid_table t))"

lemma require_columns_Ok: "require_columns e names cols = Ok () \<longleftrightarrow> set cols \<subseteq> set names"
  unfolding require_columns_def by (induction cols) (auto simp: rbind_eq_Inr ex_unit)

lemma no_check_Ok [simp]: "no_check x = Ok ()"
  by (simp add: no_check_def)

lemma validate_table_Ok: "validate_table t = Ok () \<longleftrightarrow> valid_table t"
  by (auto simp: validate_table_def valid_table_def table_columns_def Let_def rbind_eq_Inr ex_unit check_keys_Ok
      require_columns_Ok image_subset_iff split: option.splits)

lemma validate_snapshot_Ok:
  "validate_schema_snapshot s = Ok () \<longleftrightarrow> sn_version s = snapshot_version \<and> valid_snapshot s"
  by (auto simp: validate_schema_snapshot_def validate_namespace_def valid_snapshot_def check_keys_Ok validate_table_Ok)

text \<open>
  With validation, a diff is made exactly when both normalised snapshots are valid: schema,
  table and column names, unique constraints, foreign keys and indexes do not repeat, tables
  lie in their schema, and keys and indexes name columns of their table.
\<close>

lemma diff_validation_exact:
  "(\<exists>d. diff_schemas a b True = Ok d) \<longleftrightarrow>
   valid_snapshot (normalize_schema_snapshot a) \<and> valid_snapshot (normalize_schema_snapshot b)"
  by (auto simp: diff_schemas_def Let_def rbind_eq_Inr ex_unit validate_snapshot_Ok normalize_schema_snapshot_def)

text \<open>
  The version of a snapshot is never looked at: normalisation writes the current one before
  the check, so a snapshot of any version is accepted and \<open>UnsupportedVersion\<close> cannot be thrown.
\<close>

lemma version_overwritten:
  "diff_schemas (a\<lparr>sn_version := n\<rparr>) (b\<lparr>sn_version := m\<rparr>) v = diff_schemas a b v"
  by (simp add: diff_schemas_def normalize_schema_snapshot_def)

section \<open>Normal form\<close>

definition normal_type :: "column_type \<Rightarrow> bool" where
  "normal_type t \<longleftrightarrow>
     (ct_length t \<noteq> None \<longrightarrow> is_char_type (ct_name t)) \<and>
     (ct_precision t \<noteq> None \<or> ct_scale t \<noteq> None \<longrightarrow> ct_name t = ''numeric'') \<and>
     ct_enum_values t \<noteq> Some []"

definition sorted_by :: "('a \<Rightarrow> string) \<Rightarrow> 'a list \<Rightarrow> bool" where
  "sorted_by key xs \<longleftrightarrow> sorted_wrt (\<lambda>x y. str_le (key x) (key y)) xs"

definition normal_table :: "schema_table \<Rightarrow> bool" where
  "normal_table t \<longleftrightarrow>
     sorted_by sc_name (st_columns t) \<and> sorted_by unique_sort_key (st_uniques t) \<and>
     sorted_by fk_sort_key (st_foreign_keys t) \<and> sorted_by index_sort_key (st_indexes t) \<and>
     (\<forall>c \<in> set (st_columns t). normal_type (sc_type c)) \<and>
     (\<forall>k. st_primary_key t = Some k \<longrightarrow> pk_columns k \<noteq> []) \<and>
     (\<forall>k \<in> set (st_foreign_keys t). {fk_on_delete k, fk_on_update k} \<subseteq> action_text ` UNIV) \<and>
     (\<forall>i \<in> set (st_indexes t). \<forall>c \<in> set (ix_columns i). ic_direction c \<in> {Some ''asc'', Some ''desc''})"

definition normal_snapshot :: "schema_snapshot \<Rightarrow> bool" where
  "normal_snapshot s \<longleftrightarrow>
     sn_version s = snapshot_version \<and> sorted_by ns_name (sn_schemas s) \<and>
     (\<forall>n \<in> set (sn_schemas s). sorted_by st_name (ns_tables n) \<and> (\<forall>t \<in> set (ns_tables n). normal_table t))"

lemma sorted_by_key: "sorted_by key (sort_by_key key xs)"
  using code_units.sort_sorted [of key xs]
  by (simp add: sorted_by_def sort_by_key_def unit_compare_on_def unit_compare_le)

lemma set_sort_by_key [simp]: "set (sort_by_key key xs) = set xs"
  by (simp add: sort_by_key_def)

lemma normalize_type_normal: "normal_type (normalize_schema_column_type t)"
  by (auto simp: normal_type_def normalize_schema_column_type_def Let_def keep_length_def keep_numeric_def is_char_type_def)

lemma normalize_table_normal: "normal_table (normalize_table t)"
  by (auto simp: normal_table_def normalize_table_def sorted_by_key normalize_column_def normalize_type_normal
      normalize_primary_key_def normalize_foreign_key_def normalize_index_def normalize_index_column_def
      split: option.splits)

text \<open>
  C25. Normalisation yields a snapshot of the normal type: current version, every list sorted by
  its key, lengths on character types only, precision and scale on \<open>numeric\<close> only, no empty
  enumeration or primary key, one of five referential actions, and an explicit index direction.
\<close>

theorem normalisation_typed: "normal_snapshot (normalize_schema_snapshot s)"
  by (auto simp: normal_snapshot_def normalize_schema_snapshot_def normalize_namespace_def sorted_by_key
      normalize_table_normal)

text \<open>Normalisation is not idempotent: four casts are stripped at a time, and one array mark.\<close>

definition cast_default :: string where
  "cast_default = ''1::a::b::c::d::e''"

lemma normalisation_not_idempotent:
  "normalize_default_expression (Some cast_default) = Some ''1::a''"
  "normalize_default_expression (Some ''1::a'') = Some ''1''"
  by code_simp+

end
