(* ===== verification/SqlGuards.thy ===== *)
theory SqlGuards
  imports SqlText
begin

text \<open>
  The guard on migration SQL (\<open>migrations/sql-guards.ts\<close>): comments and literals are blanked and
  the rest is searched for statements that would end the transaction around the migration. The
  lemmas show that the blanking is exact on text made of plain SQL, comments and literals, and
  that the search finds every control phrase that stands between word boundaries.
\<close>

section \<open>Blanking comments and literals\<close>

definition newline :: char where
  "newline = CHR 0x0A"

definition apostrophe :: char where
  "apostrophe = CHR 0x27"

fun skip_block :: "string \<Rightarrow> string" where
  "skip_block [] = []"
| "skip_block (c # s) = (if c = CHR ''*'' \<and> starts_with s ''/'' then tl s else skip_block s)"

fun skip_string :: "string \<Rightarrow> string" where
  "skip_string [] = []"
| "skip_string (c # s) =
     (if c = apostrophe then (case s of d # t \<Rightarrow> if d = apostrophe then skip_string t else s | [] \<Rightarrow> [])
      else skip_string s)"

text \<open>\<open>/^\$([A-Za-z_][\w]*)?\$/\<close>: the tag after the first dollar sign.\<close>

definition dollar_tag :: "string \<Rightarrow> string option" where
  "dollar_tag s =
     (let tag = takeWhile ident_part s
      in if (tag = [] \<or> is_identifier tag) \<and> starts_with (dropWhile ident_part s) ''$'' then Some tag else None)"

lemma skip_block_le: "length (skip_block s) \<le> length s"
  by (induction s) auto

lemma skip_string_le: "length (skip_string s) \<le> length s"
proof (induction "length s" arbitrary: s rule: less_induct)
  case less
  show ?case
  proof (cases s)
    case (Cons c t)
    have "length (skip_string t) \<le> length t" using less Cons by simp
    moreover have "length (skip_string (tl t)) \<le> length (tl t)" using less [of "tl t"] Cons by simp
    then have "length (skip_string (tl t)) \<le> length t" by (rule le_trans) simp
    ultimately show ?thesis using Cons by (cases t) auto
  qed simp
qed

lemma read_until_length: "read_until d s = Some (w, r) \<Longrightarrow> length r \<le> length s"
  by (induction s arbitrary: w) (auto split: if_splits)

definition after_dollar_literal :: "string \<Rightarrow> string \<Rightarrow> string option" where
  "after_dollar_literal tag s = map_option snd (read_until (dollar tag) (drop (length tag + 1) s))"

lemma after_dollar_literal_le: "after_dollar_literal tag s = Some r \<Longrightarrow> length r \<le> length s"
  by (auto simp: after_dollar_literal_def dest!: read_until_length)

function strip_sql :: "string \<Rightarrow> string" where
  "strip_sql [] = []"
| "strip_sql (c # s) =
     (if c = CHR ''-'' \<and> starts_with s ''-'' then CHR '' '' # strip_sql (dropWhile (\<lambda>x. x \<noteq> newline) (tl s))
      else if c = CHR ''/'' \<and> starts_with s ''*'' then CHR '' '' # strip_sql (skip_block (tl s))
      else if c = apostrophe then CHR '' '' # strip_sql (skip_string s)
      else if c = CHR ''$'' then
        (case dollar_tag s of
           None \<Rightarrow> c # strip_sql s
         | Some tag \<Rightarrow>
             (case after_dollar_literal tag s of
                None \<Rightarrow> []
              | Some r \<Rightarrow> CHR '' '' # strip_sql r))
      else c # strip_sql s)"
  by pat_completeness auto
termination
proof (relation "measure length")
  fix c :: char and s :: string
  show "(dropWhile (\<lambda>x. x \<noteq> newline) (tl s), c # s) \<in> measure length"
    using length_dropWhile_le [of "\<lambda>x. x \<noteq> newline" "tl s"] by simp
  show "(skip_block (tl s), c # s) \<in> measure length"
    using skip_block_le [of "tl s"] by simp
  show "(skip_string s, c # s) \<in> measure length"
    using skip_string_le [of s] by simp
qed (auto dest: after_dollar_literal_le)

declare strip_sql.simps(2) [simp del]

section \<open>Control statements\<close>

text \<open>An ASCII keyword at the start of a text, in any case, and what follows it.\<close>

definition keyword_at :: "string \<Rightarrow> string \<Rightarrow> string option" where
  "keyword_at w s = (if js_upper (take (length w) s) = w then Some (drop (length w) s) else None)"

text \<open>A keyword after one blank at least.\<close>

definition then_keyword :: "string \<Rightarrow> string \<Rightarrow> string option" where
  "then_keyword w s = (if takeWhile is_ws s = [] then None else keyword_at w (dropWhile is_ws s))"

definition word_ends :: "string \<Rightarrow> bool" where
  "word_ends s = (case s of [] \<Rightarrow> True | c # _ \<Rightarrow> \<not> ident_part c)"

definition ending :: "string option \<Rightarrow> string option" where
  "ending r = (case r of None \<Rightarrow> None | Some s \<Rightarrow> if word_ends s then Some s else None)"

definition bind_opt :: "'a option \<Rightarrow> ('a \<Rightarrow> 'b option) \<Rightarrow> 'b option" where
  "bind_opt r f = (case r of None \<Rightarrow> None | Some x \<Rightarrow> f x)"

text \<open>\<open>W(?:\s+(?:WORK|TRANSACTION))?\b\<close> and \<open>W\s+V\b\<close>: what follows a match.\<close>

definition optional_form :: "string \<Rightarrow> string \<Rightarrow> string option" where
  "optional_form w s =
     bind_opt (keyword_at w s) (\<lambda>r.
       or_else (ending (then_keyword ''WORK'' r))
         (or_else (ending (then_keyword ''TRANSACTION'' r)) (ending (Some r))))"

definition pair_form :: "string \<Rightarrow> string \<Rightarrow> string \<Rightarrow> string option" where
  "pair_form w v s = bind_opt (keyword_at w s) (\<lambda>r. ending (then_keyword v r))"

definition control_forms :: "(string \<Rightarrow> string option) list" where
  "control_forms =
     [optional_form ''COMMIT'', optional_form ''ROLLBACK'', optional_form ''ABORT'',
      pair_form ''START'' ''TRANSACTION'', pair_form ''BEGIN'' ''WORK'', pair_form ''BEGIN'' ''TRANSACTION'',
      pair_form ''END'' ''TRANSACTION'', pair_form ''PREPARE'' ''TRANSACTION'']"

fun first_form :: "(string \<Rightarrow> string option) list \<Rightarrow> string \<Rightarrow> string option" where
  "first_form [] s = None"
| "first_form (f # fs) s = or_else (f s) (first_form fs s)"

text \<open>The text matched at a place that is a word boundary on its left.\<close>

definition match_control :: "string \<Rightarrow> string option" where
  "match_control s = map_option (\<lambda>r. take (length s - length r) s) (first_form control_forms s)"

fun scan_control :: "bool \<Rightarrow> string \<Rightarrow> string option" where
  "scan_control in_word [] = None"
| "scan_control in_word (c # s) =
     or_else (if in_word then None else match_control (c # s)) (scan_control (ident_part c) s)"

text \<open>\<open>match.replace(/\s+/g, " ").toUpperCase()\<close>\<close>

function squeeze_blanks :: "string \<Rightarrow> string" where
  "squeeze_blanks [] = []"
| "squeeze_blanks (c # s) =
     (if is_ws c then CHR '' '' # squeeze_blanks (dropWhile is_ws s) else c # squeeze_blanks s)"
  by pat_completeness auto
termination
  by (relation "measure length") (auto simp: le_imp_less_Suc length_dropWhile_le)

definition find_transaction_control_statement :: "string \<Rightarrow> string option" where
  "find_transaction_control_statement sql =
     map_option (\<lambda>m. js_upper (squeeze_blanks m)) (scan_control False (strip_sql sql))"

section \<open>Blanking is exact\<close>

text \<open>The lexical pieces the guard knows, how they are written, and what is left of them.\<close>

datatype sql_piece =
    Plain string
  | LineComment string
  | BlockComment string
  | Literal string
  | DollarLiteral string string

fun write_piece :: "sql_piece \<Rightarrow> string" where
  "write_piece (Plain p) = p"
| "write_piece (LineComment t) = ''--'' @ t @ [newline]"
| "write_piece (BlockComment t) = ''/*'' @ t @ ''*/''"
| "write_piece (Literal t) = [apostrophe] @ replace_char apostrophe [apostrophe, apostrophe] t @ [apostrophe]"
| "write_piece (DollarLiteral tag t) = dollar tag @ t @ dollar tag"

fun blanked_piece :: "sql_piece \<Rightarrow> string" where
  "blanked_piece (Plain p) = p"
| "blanked_piece (LineComment t) = [CHR '' '', newline]"
| "blanked_piece _ = '' ''"

text \<open>Plain text opens no comment and no literal, not even with what follows it.\<close>

fun plain_sql :: "string \<Rightarrow> bool" where
  "plain_sql [] = True"
| "plain_sql (c # s) =
     (c \<noteq> apostrophe \<and> c \<noteq> CHR ''$'' \<and>
      (c = CHR ''-'' \<longrightarrow> s \<noteq> [] \<and> \<not> starts_with s ''-'') \<and>
      (c = CHR ''/'' \<longrightarrow> s \<noteq> [] \<and> \<not> starts_with s ''*'') \<and> plain_sql s)"

fun proper_piece :: "sql_piece \<Rightarrow> bool" where
  "proper_piece (Plain p) = (p \<noteq> [] \<and> plain_sql p)"
| "proper_piece (LineComment t) = (newline \<notin> set t)"
| "proper_piece (BlockComment t) = (\<not> js_includes t ''*/'')"
| "proper_piece (Literal t) = True"
| "proper_piece (DollarLiteral tag t) =
     ((tag = [] \<or> is_identifier tag) \<and> \<not> js_includes t (dollar tag) \<and> \<not> has_suffix t (CHR ''$'' # tag))"

definition is_literal :: "sql_piece \<Rightarrow> bool" where
  "is_literal p = (case p of Literal _ \<Rightarrow> True | _ \<Rightarrow> False)"

text \<open>Two literals side by side would read as one.\<close>

fun proper_sql :: "sql_piece list \<Rightarrow> bool" where
  "proper_sql [] = True"
| "proper_sql [p] = proper_piece p"
| "proper_sql (p # q # ps) = (proper_piece p \<and> \<not> (is_literal p \<and> is_literal q) \<and> proper_sql (q # ps))"

definition write_sql :: "sql_piece list \<Rightarrow> string" where
  "write_sql ps = concat (map write_piece ps)"

definition blanked :: "sql_piece list \<Rightarrow> string" where
  "blanked ps = concat (map blanked_piece ps)"

lemma starts_with_Cons: "starts_with (c # s) [d] \<longleftrightarrow> c = d"
  by (simp add: starts_with_def)

lemma not_starts_with_Nil: "\<not> starts_with [] (d # ds)"
  by (simp add: starts_with_def)

lemmas starts_simps = starts_with_Cons not_starts_with_Nil

lemma strip_plain: "plain_sql p \<Longrightarrow> strip_sql (p @ s) = p @ strip_sql s"
proof (induction p)
  case (Cons c p)
  have "\<not> starts_with (p @ s) ''-''" if "c = CHR ''-''"
    using Cons.prems that by (cases p) (auto simp: starts_simps)
  moreover have "\<not> starts_with (p @ s) ''*''" if "c = CHR ''/''"
    using Cons.prems that by (cases p) (auto simp: starts_simps)
  ultimately have "strip_sql ((c # p) @ s) = c # strip_sql (p @ s)"
    using Cons.prems by (simp add: strip_sql.simps(2))
  with Cons show ?case by simp
qed simp

lemma skip_block_written: "\<not> js_includes t ''*/'' \<Longrightarrow> skip_block (t @ ''*/'' @ s) = s"
proof (induction t)
  case (Cons c t)
  then have "\<not> (c = CHR ''*'' \<and> starts_with (t @ ''*/'' @ s) ''/'')"
    by (cases t) (auto simp: starts_with_def)
  with Cons show ?case by auto
qed (simp add: starts_with_def)

lemma skip_string_written:
  "(case s of [] \<Rightarrow> True | c # _ \<Rightarrow> c \<noteq> apostrophe) \<Longrightarrow>
   skip_string (replace_char apostrophe [apostrophe, apostrophe] t @ apostrophe # s) = s"
  by (induction t) (auto simp: replace_char_def split: list.splits)

lemma dropWhile_newline: "newline \<notin> set t \<Longrightarrow> dropWhile (\<lambda>x. x \<noteq> newline) (t @ newline # s) = newline # s"
  by (induction t) auto

lemma dollar_tag_written:
  assumes "tag = [] \<or> is_identifier tag"
  shows "dollar_tag (tag @ CHR ''$'' # s) = Some tag"
proof -
  have "list_all ident_part tag" using assms is_identifier_parts by auto
  moreover have "\<not> ident_part (CHR ''$'')" by (simp add: ident_part_def ident_start_def char_class_defs)
  ultimately have "takeWhile ident_part (tag @ CHR ''$'' # s) = tag"
    "dropWhile ident_part (tag @ CHR ''$'' # s) = CHR ''$'' # s"
    by (induction tag) auto
  with assms show ?thesis by (simp add: dollar_tag_def starts_with_def)
qed

text \<open>A text does not go on with an apostrophe.\<close>

definition no_apostrophe_next :: "string \<Rightarrow> bool" where
  "no_apostrophe_next s = (case s of [] \<Rightarrow> True | c # _ \<Rightarrow> c \<noteq> apostrophe)"

lemma dollar_no_part: "\<not> ident_part (CHR ''$'')"
  by (simp add: ident_part_def ident_start_def char_class_defs)

lemma dollar_not_part: "(tag = [] \<or> is_identifier tag) \<Longrightarrow> CHR ''$'' \<notin> set tag"
  using is_identifier_parts [of tag] dollar_no_part by (auto simp: list_all_iff)

lemma strip_dollar_literal:
  assumes "proper_piece (DollarLiteral tag t)"
  shows "strip_sql (write_piece (DollarLiteral tag t) @ s) = CHR '' '' # strip_sql s"
proof -
  have tag: "tag = [] \<or> is_identifier tag" and t: "\<not> js_includes t (dollar tag)" "\<not> has_suffix t (CHR ''$'' # tag)"
    using assms by auto
  have "read_until (dollar tag) (t @ dollar tag @ s) = Some (t, s)"
    using read_until_dollar [OF dollar_not_part [OF tag] t(1)] t(2) by blast
  then have "after_dollar_literal tag (tag @ CHR ''$'' # t @ dollar tag @ s) = Some s"
    by (simp add: after_dollar_literal_def)
  then show ?thesis
    using dollar_tag_written [OF tag, of "t @ dollar tag @ s"]
    by (simp add: strip_sql.simps(2) dollar_def apostrophe_def)
qed

lemma strip_newline: "strip_sql (newline # s) = newline # strip_sql s"
  by (simp add: strip_sql.simps(2) newline_def apostrophe_def)

lemma strip_piece:
  assumes "proper_piece p" "is_literal p \<Longrightarrow> no_apostrophe_next s"
  shows "strip_sql (write_piece p @ s) = blanked_piece p @ strip_sql s"
proof (cases p)
  case (Plain x)
  then show ?thesis using assms strip_plain by simp
next
  case (LineComment t)
  then show ?thesis
    using assms dropWhile_newline [of t s]
    by (simp add: strip_sql.simps(2) [of "CHR ''-''"] starts_simps strip_newline)
next
  case (BlockComment t)
  then show ?thesis
    using assms skip_block_written [of t s] by (simp add: strip_sql.simps(2) starts_simps)
next
  case (Literal t)
  then show ?thesis
    using assms skip_string_written [of s t]
    by (simp add: strip_sql.simps(2) apostrophe_def is_literal_def no_apostrophe_next_def)
next
  case (DollarLiteral tag t)
  then show ?thesis using assms strip_dollar_literal by simp
qed

lemma written_next: "proper_piece q \<Longrightarrow> \<not> is_literal q \<Longrightarrow> no_apostrophe_next (write_piece q @ s)"
  by (cases q rule: write_piece.cases; cases "write_piece q")
    (auto simp: no_apostrophe_next_def is_literal_def apostrophe_def dollar_def)

lemma strip_exact: "proper_sql ps \<Longrightarrow> strip_sql (write_sql ps) = blanked ps"
proof (induction ps rule: proper_sql.induct)
  case (2 p)
  then show ?case
    using strip_piece [of p "[]"] by (simp add: write_sql_def blanked_def no_apostrophe_next_def)
next
  case (3 p q ps)
  then have "is_literal p \<Longrightarrow> no_apostrophe_next (write_sql (q # ps))"
    using written_next [of q "concat (map write_piece ps)"]
    by (cases ps) (auto simp: write_sql_def)
  then have "strip_sql (write_piece p @ write_sql (q # ps)) = blanked_piece p @ strip_sql (write_sql (q # ps))"
    using 3 by (intro strip_piece) auto
  then show ?case using 3 by (simp add: write_sql_def blanked_def)
qed (simp add: write_sql_def blanked_def)


section \<open>The search is exact\<close>

text \<open>A word in capitals, read in any case; and at least one blank.\<close>

definition reads :: "string \<Rightarrow> string \<Rightarrow> bool" where
  "reads w x \<longleftrightarrow> js_upper x = w"

definition blanks :: "string \<Rightarrow> bool" where
  "blanks x \<longleftrightarrow> x \<noteq> [] \<and> list_all is_ws x"

text \<open>A text that begins with a statement which would end the transaction around it.\<close>

definition single_words :: "string list" where
  "single_words = [''COMMIT'', ''ROLLBACK'', ''ABORT'']"

definition word_pairs :: "(string \<times> string) list" where
  "word_pairs = [(''START'', ''TRANSACTION''), (''BEGIN'', ''WORK''), (''BEGIN'', ''TRANSACTION''),
     (''END'', ''TRANSACTION''), (''PREPARE'', ''TRANSACTION'')]"

definition control_phrase :: "string \<Rightarrow> bool" where
  "control_phrase s \<longleftrightarrow>
     (\<exists>w\<in>set single_words. \<exists>x r. s = x @ r \<and> reads w x \<and> word_ends r) \<or>
     (\<exists>(w, v)\<in>set word_pairs. \<exists>x b y r.
        s = x @ b @ y @ r \<and> reads w x \<and> blanks b \<and> reads v y \<and> word_ends r)"

text \<open>A control phrase that no identifier character precedes.\<close>

definition has_control :: "string \<Rightarrow> bool" where
  "has_control s \<longleftrightarrow> (\<exists>a b. s = a @ b \<and> (a = [] \<or> \<not> ident_part (last a)) \<and> control_phrase b)"

lemma reads_length: "reads w x \<Longrightarrow> length x = length w"
  by (auto simp: reads_def js_upper_def)

lemma keyword_at_iff: "keyword_at w s = Some r \<longleftrightarrow> (\<exists>x. s = x @ r \<and> reads w x)"
proof
  assume "keyword_at w s = Some r"
  then show "\<exists>x. s = x @ r \<and> reads w x"
    by (intro exI [of _ "take (length w) s"]) (auto simp: keyword_at_def reads_def split: if_splits)
next
  assume "\<exists>x. s = x @ r \<and> reads w x"
  then obtain x where s: "s = x @ r" and x: "reads w x" by blast
  then show "keyword_at w s = Some r"
    using reads_length [OF x] by (simp add: keyword_at_def reads_def)
qed

definition capitals :: "string \<Rightarrow> bool" where
  "capitals w \<longleftrightarrow> w \<noteq> [] \<and> list_all is_upper w"

lemma upper_char_upper: "is_upper (upper_char c) \<Longrightarrow> ident_part c"
  by (cases "is_lower c") (auto simp: upper_char_def ident_part_def ident_start_def)

lemma reads_parts: "reads w x \<Longrightarrow> capitals w \<Longrightarrow> x \<noteq> [] \<and> list_all ident_part x"
  by (auto simp: reads_def capitals_def js_upper_def list_all_iff intro: upper_char_upper)

lemma blanks_then_word:
  assumes "blanks b" "list_all ident_part y" "y \<noteq> []"
  shows "takeWhile is_ws (b @ y @ r) = b" "dropWhile is_ws (b @ y @ r) = y @ r"
proof -
  obtain c y' where y: "y = c # y'" "\<not> is_ws c" using assms ident_part_not_ws by (cases y) auto
  have b: "list_all is_ws b" using assms by (simp add: blanks_def)
  from b y show "takeWhile is_ws (b @ y @ r) = b" by (induction b) auto
  from b y show "dropWhile is_ws (b @ y @ r) = y @ r" by (induction b) auto
qed

lemma then_keyword_iff:
  assumes "capitals w"
  shows "then_keyword w s = Some r \<longleftrightarrow> (\<exists>b y. s = b @ y @ r \<and> blanks b \<and> reads w y)"
proof
  assume t: "then_keyword w s = Some r"
  then obtain y where "dropWhile is_ws s = y @ r" "reads w y"
    by (auto simp: then_keyword_def keyword_at_iff split: if_splits)
  moreover have "blanks (takeWhile is_ws s)"
    using t set_takeWhileD [of _ is_ws s] by (auto simp: then_keyword_def blanks_def list_all_iff split: if_splits)
  ultimately show "\<exists>b y. s = b @ y @ r \<and> blanks b \<and> reads w y"
    by (metis takeWhile_dropWhile_id)
next
  assume "\<exists>b y. s = b @ y @ r \<and> blanks b \<and> reads w y"
  then obtain b y where s: "s = b @ y @ r" and b: "blanks b" and y: "reads w y" by blast
  with reads_parts [OF y assms] blanks_then_word [OF b] show "then_keyword w s = Some r"
    by (auto simp: then_keyword_def keyword_at_iff blanks_def)
qed

lemma ending_iff: "ending r = Some s \<longleftrightarrow> r = Some s \<and> word_ends s"
  by (auto simp: ending_def split: option.splits)

lemma bind_opt_Some: "bind_opt r f = Some y \<longleftrightarrow> (\<exists>x. r = Some x \<and> f x = Some y)"
  by (auto simp: bind_opt_def split: option.splits)

lemma pair_form_iff:
  assumes "capitals v"
  shows "pair_form w v s = Some r \<longleftrightarrow>
    (\<exists>x b y. s = x @ b @ y @ r \<and> reads w x \<and> blanks b \<and> reads v y \<and> word_ends r)"
  unfolding pair_form_def bind_opt_Some ending_iff then_keyword_iff [OF assms] keyword_at_iff by blast

lemma blanks_word_ends: "blanks b \<Longrightarrow> word_ends (b @ r)"
  using ident_part_not_ws by (cases b) (auto simp: blanks_def word_ends_def)

lemma optional_form_matches:
  "optional_form w s \<noteq> None \<longleftrightarrow> (\<exists>x r. s = x @ r \<and> reads w x \<and> word_ends r)"
proof (cases "keyword_at w s")
  case None
  then have "\<And>x r. s = x @ r \<Longrightarrow> \<not> reads w x" using keyword_at_iff [of w s] by auto
  then show ?thesis using None by (auto simp: optional_form_def bind_opt_def)
next
  case (Some r)
  have v: "capitals ''WORK''" "capitals ''TRANSACTION''" by (simp_all add: capitals_def is_upper_def code_def)
  have ends: "word_ends r" if "then_keyword v r = Some t" "capitals v" for v t
    using that then_keyword_iff [of v r t] by (auto intro: blanks_word_ends)
  have "optional_form w s \<noteq> None \<longleftrightarrow> word_ends r"
    using Some v ends [of "''WORK''"] ends [of "''TRANSACTION''"]
    by (auto simp: optional_form_def bind_opt_def or_else_def ending_def split: option.splits if_splits)
  moreover have "(\<exists>x r. s = x @ r \<and> reads w x \<and> word_ends r) \<longleftrightarrow> word_ends r"
    using Some keyword_at_iff [of w s] by (metis option.inject)
  ultimately show ?thesis by simp
qed

lemma first_form_None: "first_form fs s = None \<longleftrightarrow> (\<forall>f\<in>set fs. f s = None)"
  by (induction fs) (auto simp: or_else_def split: option.splits)

lemma control_forms_exact: "first_form control_forms s \<noteq> None \<longleftrightarrow> control_phrase s"
proof -
  have v: "capitals ''WORK''" "capitals ''TRANSACTION''" by (simp_all add: capitals_def is_upper_def code_def)
  have "first_form control_forms s \<noteq> None \<longleftrightarrow>
      (\<exists>w\<in>set single_words. optional_form w s \<noteq> None) \<or>
      (\<exists>(w, v)\<in>set word_pairs. pair_form w v s \<noteq> None)"
    unfolding first_form_None control_forms_def single_words_def word_pairs_def by auto
  moreover have pair: "pair_form w v s \<noteq> None \<longleftrightarrow>
      (\<exists>x b y r. s = x @ b @ y @ r \<and> reads w x \<and> blanks b \<and> reads v y \<and> word_ends r)"
    if "(w, v) \<in> set word_pairs" for w v
  proof -
    have "capitals v" using that v by (auto simp: word_pairs_def)
    from pair_form_iff [OF this, of w s] show ?thesis by (metis not_Some_eq)
  qed
  have "(\<exists>(w, v)\<in>set word_pairs. pair_form w v s \<noteq> None) \<longleftrightarrow>
      (\<exists>(w, v)\<in>set word_pairs. \<exists>x b y r.
        s = x @ b @ y @ r \<and> reads w x \<and> blanks b \<and> reads v y \<and> word_ends r)"
    by (rule bex_cong [OF refl]) (use pair in \<open>simp only: split_paired_all prod.case\<close>)
  ultimately show ?thesis unfolding control_phrase_def optional_form_matches by simp
qed

lemma scan_control_iff:
  "scan_control w s \<noteq> None \<longleftrightarrow>
   (\<exists>a b. s = a @ b \<and> b \<noteq> [] \<and> (if a = [] then \<not> w else \<not> ident_part (last a)) \<and> control_phrase b)"
  (is "_ \<longleftrightarrow> ?rhs w s")
proof (induction s arbitrary: w)
  case (Cons c s)
  have "scan_control w (c # s) \<noteq> None \<longleftrightarrow>
      (\<not> w \<and> control_phrase (c # s)) \<or> scan_control (ident_part c) s \<noteq> None"
    using control_forms_exact [of "c # s"]
    by (auto simp: or_else_def match_control_def split: option.splits)
  also have "\<dots> \<longleftrightarrow> ?rhs w (c # s)"
    unfolding Cons.IH
  proof
    assume "\<not> w \<and> control_phrase (c # s) \<or> ?rhs (ident_part c) s"
    then show "?rhs w (c # s)"
    proof
      assume "?rhs (ident_part c) s"
      then obtain a b where "s = a @ b" "b \<noteq> []" "control_phrase b"
        "if a = [] then \<not> ident_part c else \<not> ident_part (last a)" by blast
      then show ?thesis by (intro exI [of _ "c # a"] exI [of _ b]) simp
    qed (intro exI [of _ "[]"] exI [of _ "c # s"], simp)
  next
    assume "?rhs w (c # s)"
    then obtain a b where ab: "c # s = a @ b" "b \<noteq> []" "control_phrase b"
        "if a = [] then \<not> w else \<not> ident_part (last a)" by blast
    show "\<not> w \<and> control_phrase (c # s) \<or> ?rhs (ident_part c) s"
    proof (cases a)
      case (Cons d a')
      with ab show ?thesis by (intro disjI2 exI [of _ a'] exI [of _ b]) (auto split: if_splits)
    qed (use ab in simp)
  qed
  finally show ?case .
qed simp

lemma control_phrase_nonempty: "control_phrase s \<Longrightarrow> s \<noteq> []"
  by (auto simp: control_phrase_def single_words_def word_pairs_def reads_def js_upper_def)

lemma scan_exact: "scan_control False s = None \<longleftrightarrow> \<not> has_control s"
proof -
  have "(if a = [] then \<not> False else \<not> ident_part (last a)) \<longleftrightarrow> a = [] \<or> \<not> ident_part (last a)" for a by simp
  then show ?thesis
    using scan_control_iff [of False s] control_phrase_nonempty unfolding has_control_def by (metis (no_types))
qed

lemma find_exact: "find_transaction_control_statement s = None \<longleftrightarrow> \<not> has_control (strip_sql s)"
  by (simp add: find_transaction_control_statement_def scan_exact)

section \<open>Letting a migration pass\<close>

text \<open>\<open>MigrationError\<close> (\<open>migrations/types.ts\<close>).\<close>

datatype migration_code =
    ConfigError | DiscoveryError | IntegrityError | HistoryError | ProviderError
  | ExecutionError | LockError | LedgerError

record migration_failure =
  mf_code :: migration_code
  mf_message :: string

definition js_lines :: "string list \<Rightarrow> string" where
  "js_lines ls = js_join [newline] ls"

text \<open>An empty filename is left out, as a missing one.\<close>

definition control_message :: "string \<Rightarrow> string \<Rightarrow> string" where
  "control_message found filename =
     js_lines
       [''Migration error:'',
        ''Transaction control statement '' @ found @ '' is not allowed'' @
          (if filename \<noteq> [] then '' in '' @ filename else []) @ ''.'',
        [],
        ''athena-js migrate wraps each migration in its own transaction and writes'',
        ''the ledger row in that same transaction. COMMIT/ROLLBACK/START TRANSACTION'',
        ''(and similar) would break that atomicity.'',
        [],
        ''Remove transaction control from the migration SQL. PL/pgSQL BEGIN/END blocks'',
        ''inside functions remain allowed.'']"

definition assert_migration_sql_allows_outer_transaction ::
  "string \<Rightarrow> string \<Rightarrow> (migration_failure, unit) result" where
  "assert_migration_sql_allows_outer_transaction sql filename =
     (case find_transaction_control_statement sql of
        None \<Rightarrow> Ok ()
      | Some found \<Rightarrow> Throw \<lparr>mf_code = DiscoveryError, mf_message = control_message found filename\<rparr>)"

lemma guard_passes: "assert_migration_sql_allows_outer_transaction sql f = Ok () \<longleftrightarrow> \<not> has_control (strip_sql sql)"
  unfolding assert_migration_sql_allows_outer_transaction_def find_exact [symmetric]
  by (simp split: option.splits)

lemma guard_written:
  "proper_sql ps \<Longrightarrow>
   assert_migration_sql_allows_outer_transaction (write_sql ps) f = Ok () \<longleftrightarrow> \<not> has_control (blanked ps)"
  by (simp add: guard_passes strip_exact)

lemma guard_refuses:
  "assert_migration_sql_allows_outer_transaction sql f = Throw e \<Longrightarrow> mf_code e = DiscoveryError"
  by (auto simp: assert_migration_sql_allows_outer_transaction_def split: option.splits)

text \<open>
  What the guard does not see: an escape string whose backslash hides the closing apostrophe from
  PostgreSQL but not from the scan swallows the statement after it, and a bare \<open>END\<close>, which
  PostgreSQL reads as \<open>COMMIT\<close>, is taken for the end of a function's block.
\<close>

definition hidden_commit :: string where
  "hidden_commit = ''SELECT E'' @ [apostrophe, CHR 0x5C, apostrophe, apostrophe] @ ''; COMMIT''"

lemma hidden_commit_passes: "assert_migration_sql_allows_outer_transaction hidden_commit f = Ok ()"
  by (simp add: hidden_commit_def assert_migration_sql_allows_outer_transaction_def) code_simp

lemma bare_end_passes: "assert_migration_sql_allows_outer_transaction ''DROP TABLE t; END;'' f = Ok ()"
  by (simp add: assert_migration_sql_allows_outer_transaction_def) code_simp

end
