(* ===== verification/NodePath.thy ===== *)
theory NodePath
  imports JsString
begin

text \<open>
  The POSIX half of the standard library's \<open>path\<close> module, as far as the migration discovery
  uses it: \<open>normalize\<close>, \<open>join\<close> of two parts and \<open>resolve\<close> against a working directory.
\<close>

definition slash :: char where
  "slash = CHR 0x2F"

definition is_absolute :: "string \<Rightarrow> bool" where
  "is_absolute p = (case p of [] \<Rightarrow> False | c # _ \<Rightarrow> c = slash)"

text \<open>\<open>normalizeString\<close>: \<open>allow_up\<close> says whether leading \<open>..\<close> segments are kept. The stack is reversed.\<close>

fun normal_segments :: "bool \<Rightarrow> string list \<Rightarrow> string list \<Rightarrow> string list" where
  "normal_segments allow_up stack [] = rev stack"
| "normal_segments allow_up stack (s # ss) =
     (if s = [] \<or> s = ''.'' then normal_segments allow_up stack ss
      else if s = ''..'' then
        (case stack of
           [] \<Rightarrow> normal_segments allow_up (if allow_up then [s] else []) ss
         | t # ts \<Rightarrow> normal_segments allow_up (if t = ''..'' then s # stack else ts) ss)
      else normal_segments allow_up (s # stack) ss)"

definition normalize_string :: "bool \<Rightarrow> string \<Rightarrow> string" where
  "normalize_string allow_up p = js_join [slash] (normal_segments allow_up [] (split_on slash p))"

definition path_normalize :: "string \<Rightarrow> string" where
  "path_normalize p =
     (if p = [] then ''.''
      else
        let absolute = is_absolute p; trailing = (last p = slash); n = normalize_string (\<not> absolute) p
        in if n = [] then (if absolute then [slash] else if trailing then ''.'' @ [slash] else ''.'')
           else (if absolute then [slash] else []) @ n @ (if trailing then [slash] else []))"

definition path_join :: "string \<Rightarrow> string \<Rightarrow> string" where
  "path_join a b =
     (let parts = filter (\<lambda>p. p \<noteq> []) [a, b]
      in if parts = [] then ''.'' else path_normalize (js_join [slash] parts))"

text \<open>\<open>resolve(cwd, p)\<close>; \<open>process_cwd\<close> is consulted when neither is absolute.\<close>

definition path_resolve :: "string \<Rightarrow> string \<Rightarrow> string \<Rightarrow> string" where
  "path_resolve process_cwd cwd p =
     (let joined =
        (if is_absolute p then p
         else
           let q = (if cwd = [] then p else cwd @ [slash] @ p)
           in if is_absolute cwd then q else process_cwd @ [slash] @ q);
          n = normalize_string (\<not> is_absolute joined) joined
      in if is_absolute joined then slash # n else if n = [] then ''.'' else n)"

text \<open>No segment of a normalised path is empty or a dot, and \<open>..\<close> only leads a relative path.\<close>

definition plain_segment :: "string \<Rightarrow> bool" where
  "plain_segment s \<longleftrightarrow> s \<noteq> [] \<and> s \<noteq> ''.'' \<and> s \<noteq> ''..''"

definition normal_stack :: "bool \<Rightarrow> string list \<Rightarrow> bool" where
  "normal_stack allow_up stack \<longleftrightarrow>
     (\<exists>ups downs. stack = downs @ ups \<and> list_all plain_segment downs \<and> list_all ((=) ''..'') ups \<and>
        (\<not> allow_up \<longrightarrow> ups = []))"

lemma normal_stack_push: "normal_stack allow_up stack \<Longrightarrow> plain_segment s \<Longrightarrow> normal_stack allow_up (s # stack)"
  unfolding normal_stack_def by (metis append_Cons list.pred_inject(2))

lemma normal_stack_up:
  assumes "normal_stack allow_up (t # ts)"
  shows "normal_stack allow_up (if t = ''..'' then ''..'' # t # ts else ts)"
proof -
  obtain ups downs where s: "t # ts = downs @ ups" "list_all plain_segment downs" "list_all ((=) ''..'') ups"
    "\<not> allow_up \<longrightarrow> ups = []" using assms by (auto simp: normal_stack_def)
  show ?thesis
  proof (cases downs)
    case Nil
    with s have "t = ''..''" "allow_up" by auto
    with s Nil show ?thesis
      unfolding normal_stack_def by (intro exI [of _ "''..'' # t # ts"] exI [of _ "[]"]) auto
  next
    case (Cons d ds)
    with s have "t \<noteq> ''..''" "ts = ds @ ups" by (auto simp: plain_segment_def)
    with s Cons show ?thesis
      unfolding normal_stack_def by (intro exI [of _ ups] exI [of _ ds]) auto
  qed
qed

lemma normal_segments_normal:
  "normal_stack allow_up stack \<Longrightarrow> normal_stack allow_up (rev (normal_segments allow_up stack ss))"
proof (induction allow_up stack ss rule: normal_segments.induct)
  case (2 allow_up stack s ss)
  show ?case
  proof (cases "s = [] \<or> s = ''.''")
    case dot: False
    show ?thesis
    proof (cases "s = ''..''")
      case True
      show ?thesis
      proof (cases stack)
        case Nil
        have "normal_stack allow_up (if allow_up then [s] else [])"
          using True unfolding normal_stack_def
          by (intro exI [of _ "if allow_up then [s] else []"] exI [of _ "[]"]) auto
        then show ?thesis using 2 dot True Nil by (cases allow_up) simp_all
      next
        case (Cons t ts)
        then show ?thesis using 2 dot True normal_stack_up [of allow_up t ts] by (cases "t = ''..''") simp_all
      qed
    next
      case False
      then have "normal_stack allow_up (s # stack)"
        using 2 dot normal_stack_push by (auto simp: plain_segment_def)
      then show ?thesis using 2 dot False by simp
    qed
  qed (use 2 in auto)
qed simp

text \<open>A plain name joined to a directory of plain segments is appended to it.\<close>

lemma normal_segments_plain:
  "list_all plain_segment ss \<Longrightarrow> normal_segments allow_up stack ss = rev stack @ ss"
  by (induction ss arbitrary: stack) (auto simp: plain_segment_def)

lemma normalize_string_plain:
  assumes "ss \<noteq> []" "list_all plain_segment ss" "list_all (\<lambda>s. slash \<notin> set s) ss"
  shows "normalize_string allow_up (js_join [slash] ss) = js_join [slash] ss"
  using assms split_on_join [of ss slash] by (simp add: normalize_string_def normal_segments_plain list_all_iff)

end
