(* ===== verification/MigrationModel.thy ===== *)
theory MigrationModel
  imports SqlGuards NodePath JsSort JsValue
begin

text \<open>
  Application SQL migrations before they touch a database (\<open>migrations/discovery.ts\<close>,
  \<open>planner.ts\<close>, \<open>types.ts\<close>): the files found in a directory, and the plan made from them and
  the rows of the ledger. The file system is a parameter (what \<open>stat\<close>, \<open>readdir\<close> and
  \<open>readFile\<close> answer), and so is the SHA-256 digest. A version is a double, as the code has it.
\<close>

section \<open>Types\<close>

record migration_file =
  mg_checksum :: string
  mg_filename :: string
  mg_name :: string
  mg_path :: string
  mg_sql :: string
  mg_version :: jnum

record applied_migration =
  am_applied_at :: int
  am_checksum :: string
  am_execution_ms :: jnum
  am_name :: string
  am_version :: jnum

datatype plan_status = PlanApplied | PlanPending

datatype conflict_kind = ChecksumMismatch | MissingLocal

record plan_entry =
  pe_migration :: migration_file
  pe_status :: plan_status

record migration_conflict =
  mc_applied :: "applied_migration option"
  mc_kind :: conflict_kind
  mc_local :: "migration_file option"
  mc_version :: jnum

record migration_plan =
  mp_applied :: "plan_entry list"
  mp_conflicts :: "migration_conflict list"
  mp_pending :: "plan_entry list"

definition discovery_error :: "string \<Rightarrow> migration_failure" where
  "discovery_error m = \<lparr>mf_code = DiscoveryError, mf_message = m\<rparr>"

section \<open>Filenames\<close>

definition ignored_basenames :: "string list" where
  "ignored_basenames = [''.ds_store'', ''.gitkeep'', ''readme'', ''readme.md'', ''readme.txt'']"

definition should_ignore_entry :: "string \<Rightarrow> bool" where
  "should_ignore_entry filename =
     (let base = js_lower filename
      in starts_with base ''.'' \<or> base \<in> set ignored_basenames \<or> \<not> ends_with base ''.sql'')"

definition pad_start :: "nat \<Rightarrow> string \<Rightarrow> string" where
  "pad_start w s = replicate (w - length s) (CHR ''0'') @ s"

definition format_version :: "jnum \<Rightarrow> nat \<Rightarrow> string" where
  "format_version v width = pad_start (max width 4) (number_to_string v)"

text \<open>\<open>/^(\d+)_(.+)\.sql$/i\<close>; the dot matches everything but a line end.\<close>

definition ends_line :: "char \<Rightarrow> bool" where
  "ends_line c \<longleftrightarrow> c = newline \<or> c = CHR 0x0D"

definition match_migration_filename :: "string \<Rightarrow> (string \<times> string) option" where
  "match_migration_filename filename =
     (let digits = takeWhile is_digit filename;
          r = dropWhile is_digit filename;
          name = take (length r - 5) (drop 1 r)
      in if digits \<noteq> [] \<and> starts_with r ''_'' \<and> ends_with (js_lower (drop 1 r)) ''.sql'' \<and>
            name \<noteq> [] \<and> list_all (\<lambda>c. \<not> ends_line c) name
         then Some (digits, name) else None)"

definition parse_migration_filename :: "string \<Rightarrow> (string \<times> jnum) option" where
  "parse_migration_filename filename =
     (case match_migration_filename filename of
        None \<Rightarrow> None
      | Some (digits, name) \<Rightarrow>
          let version = to_double (of_nat (digits_val digits))
          in if \<not> is_finite version \<or> num_less version (Fin 0) \<or> name = [] then None
             else Some (name, version))"

section \<open>Discovery\<close>

record fs_error =
  fe_code :: "string option"
  fe_message :: string

text \<open>\<open>fs_stat\<close> tells whether a path that exists is a directory.\<close>

record file_system =
  fs_stat :: "string \<Rightarrow> (fs_error, bool) result"
  fs_readdir :: "string \<Rightarrow> (fs_error, string list) result"
  fs_read :: "string \<Rightarrow> (fs_error, string) result"

record found_file =
  ff_filename :: string
  ff_name :: string
  ff_path :: string
  ff_version :: jnum

definition quoted :: "string \<Rightarrow> string" where
  "quoted s = CHR 0x22 # s @ [CHR 0x22]"

text \<open>\<open>join(directory, filename).replace(/\\/g, "/")\<close>\<close>

definition display_path :: "string \<Rightarrow> string \<Rightarrow> string" where
  "display_path directory filename = replace_char (CHR 0x5C) [slash] (path_join directory filename)"

definition scan_entry ::
  "string \<Rightarrow> string \<Rightarrow> string \<Rightarrow> found_file list \<times> string list \<Rightarrow> found_file list \<times> string list" where
  "scan_entry directory absolute filename acc =
     (case acc of (parsed, malformed) \<Rightarrow>
        if should_ignore_entry filename then acc
        else (case parse_migration_filename filename of
                None \<Rightarrow> (parsed, malformed @ [display_path directory filename])
              | Some (name, version) \<Rightarrow>
                  (parsed @ [\<lparr>ff_filename = filename, ff_name = name, ff_path = path_join absolute filename,
                     ff_version = version\<rparr>], malformed)))"

definition scan_entries :: "string \<Rightarrow> string \<Rightarrow> string list \<Rightarrow> found_file list \<times> string list" where
  "scan_entries directory absolute entries = fold (scan_entry directory absolute) entries ([], [])"

definition malformed_message :: "string list \<Rightarrow> string" where
  "malformed_message paths =
     js_lines ([''Migration error:'', ''Malformed migration filename(s). Expected <digits>_<name>.sql:''] @
       map (\<lambda>p. ''  '' @ p) paths)"

text \<open>A \<open>Map\<close> from a key to the values with that key, in order.\<close>

definition group_by :: "('a \<Rightarrow> 'k) \<Rightarrow> ('a \<Rightarrow> 'b) \<Rightarrow> 'a list \<Rightarrow> ('k, 'b list) odict" where
  "group_by key val xs =
     fold (\<lambda>x d. dset (key x) (get_or (map_of d (key x)) [] @ [val x]) d) xs []"

text \<open>The digits in front of the name, in the last segment of a path: \<open>/^(\d+)_/\<close>.\<close>

definition version_width :: "string \<Rightarrow> nat" where
  "version_width path =
     (let base = last (split_on slash path); digits = takeWhile is_digit base
      in if digits \<noteq> [] \<and> starts_with (dropWhile is_digit base) ''_'' then length digits else 4)"

definition duplicate_block :: "jnum \<Rightarrow> string list \<Rightarrow> string" where
  "duplicate_block version paths =
     js_lines ((''Duplicate migration version '' @
         format_version version (fold (\<lambda>p w. max w (version_width p)) paths 4) @ '':'') #
       map (\<lambda>p. ''  '' @ p) paths)"

definition duplicates_of :: "string \<Rightarrow> found_file list \<Rightarrow> (jnum \<times> string list) list" where
  "duplicates_of directory parsed =
     filter (\<lambda>(v, paths). 1 < length paths)
       (group_by ff_version (\<lambda>f. display_path directory (ff_filename f)) parsed)"

text \<open>The sign of \<open>a - b\<close>: the difference of two doubles is zero only if they are equal.\<close>

definition num_compare :: "jnum \<Rightarrow> jnum \<Rightarrow> int" where
  "num_compare a b = (if num_less a b then - 1 else if num_less b a then 1 else 0)"

definition found_compare :: "found_file \<Rightarrow> found_file \<Rightarrow> int" where
  "found_compare a b =
     (if num_compare (ff_version a) (ff_version b) \<noteq> 0 then num_compare (ff_version a) (ff_version b)
      else locale_compare (ff_filename a) (ff_filename b))"

definition load_migration ::
  "(string \<Rightarrow> string) \<Rightarrow> file_system \<Rightarrow> found_file \<Rightarrow> (migration_failure, migration_file) result" where
  "load_migration checksum fs item =
     (case fs_read fs (ff_path item) of
        Inl e \<Rightarrow> Throw (discovery_error
          (''Unable to read migration file '' @ quoted (ff_filename item) @ '': '' @ fe_message e))
      | Inr sql \<Rightarrow>
          rbind (assert_migration_sql_allows_outer_transaction sql (ff_filename item)) (\<lambda>_.
            Ok \<lparr>mg_checksum = checksum sql, mg_filename = ff_filename item, mg_name = ff_name item,
                mg_path = ff_path item, mg_sql = sql, mg_version = ff_version item\<rparr>))"

definition discover_migrations ::
  "(string \<Rightarrow> string) \<Rightarrow> file_system \<Rightarrow> string \<Rightarrow> string option \<Rightarrow> string \<Rightarrow>
   (migration_failure, migration_file list) result" where
  "discover_migrations checksum fs process_cwd cwd directory =
     (let absolute = path_resolve process_cwd (get_or cwd process_cwd) directory
      in case fs_stat fs absolute of
           Inl e \<Rightarrow>
             if fe_code e = Some ''ENOENT'' then Ok []
             else Throw (discovery_error
               (''Unable to read migration directory '' @ quoted directory @ '': '' @ fe_message e))
         | Inr False \<Rightarrow>
             Throw (discovery_error (''Migration path '' @ quoted directory @ '' is not a directory.''))
         | Inr True \<Rightarrow>
             (case fs_readdir fs absolute of
                Inl e \<Rightarrow> Throw (discovery_error
                  (''Unable to list migration directory '' @ quoted directory @ '': '' @ fe_message e))
              | Inr entries \<Rightarrow>
                  let (parsed, malformed) = scan_entries directory absolute entries;
                      duplicates = duplicates_of directory parsed
                  in if malformed \<noteq> [] then Throw (discovery_error (malformed_message malformed))
                     else if duplicates \<noteq> [] then
                       Throw (discovery_error (js_lines (''Migration error:'' #
                         map (\<lambda>(v, paths). duplicate_block v paths) duplicates)))
                     else map_r (load_migration checksum fs) (js_sort found_compare parsed)))"

section \<open>Planning\<close>

text \<open>What the loop of \<open>planMigrations\<close> does with one version.\<close>

datatype plan_step =
    StepConflict migration_conflict
  | StepApplied migration_file
  | StepPending migration_file
  | StepNothing

definition plan_version ::
  "jnum \<Rightarrow> migration_file option \<Rightarrow> applied_migration list \<Rightarrow> plan_step" where
  "plan_version version local applied_rows =
     (let checksums = nub (map am_checksum applied_rows);
          mismatch = StepConflict \<lparr>mc_applied = Some (hd applied_rows), mc_kind = ChecksumMismatch,
            mc_local = local, mc_version = version\<rparr>
      in if 1 < length applied_rows \<and>
            (1 < length checksums \<or> (case local of None \<Rightarrow> False | Some l \<Rightarrow> mg_checksum l \<notin> set checksums))
         then mismatch
         else (case (applied_rows, local) of
                 (r # _, None) \<Rightarrow>
                   StepConflict \<lparr>mc_applied = Some r, mc_kind = MissingLocal, mc_local = None, mc_version = version\<rparr>
               | (r # _, Some l) \<Rightarrow> if am_checksum r \<noteq> mg_checksum l then mismatch else StepApplied l
               | ([], Some l) \<Rightarrow> StepPending l
               | ([], None) \<Rightarrow> StepNothing))"

definition add_step :: "plan_step \<Rightarrow> migration_plan \<Rightarrow> migration_plan" where
  "add_step st plan =
     (case st of
        StepConflict c \<Rightarrow> plan\<lparr>mp_conflicts := mp_conflicts plan @ [c]\<rparr>
      | StepApplied f \<Rightarrow> plan\<lparr>mp_applied := mp_applied plan @ [\<lparr>pe_migration = f, pe_status = PlanApplied\<rparr>]\<rparr>
      | StepPending f \<Rightarrow> plan\<lparr>mp_pending := mp_pending plan @ [\<lparr>pe_migration = f, pe_status = PlanPending\<rparr>]\<rparr>
      | StepNothing \<Rightarrow> plan)"

definition empty_plan :: migration_plan where
  "empty_plan = \<lparr>mp_applied = [], mp_conflicts = [], mp_pending = []\<rparr>"

definition plan_migrations :: "applied_migration list \<Rightarrow> migration_file list \<Rightarrow> migration_plan" where
  "plan_migrations applied local =
     (let local_by_version = dict_of mg_version local;
          applied_by_version = group_by am_version (\<lambda>r. r) applied;
          versions = js_sort num_compare (nub (map fst local_by_version @ map fst applied_by_version))
      in fold (\<lambda>v. add_step (plan_version v (map_of local_by_version v)
                (get_or (map_of applied_by_version v) []))) versions empty_plan)"

definition plan_has_blocking_conflicts :: "migration_plan \<Rightarrow> bool" where
  "plan_has_blocking_conflicts plan \<longleftrightarrow> 0 < length (mp_conflicts plan)"

end
