(* ===== verification/MigrationReport.thy ===== *)
theory MigrationReport
  imports MigrationModel
begin

text \<open>
  What the migration runner exchanges with the world and with the user: the errors and the
  messages made from them, the rows of the ledger (\<open>migrations/postgres.ts\<close>), the calls the
  runner makes and what may answer them, and the report (\<open>migrations/report.ts\<close>).
\<close>

section \<open>Errors\<close>

record driver_error =
  de_code :: string
  de_message :: string

text \<open>\<open>MigrationError\<close>, \<open>AthenaAuthRuntimeError\<close> (code and public message), or any other error.\<close>

datatype mig_exn =
    MigrationExn migration_failure
  | AuthExn string string
  | DriverExn driver_error

definition migration_error :: "migration_code \<Rightarrow> string \<Rightarrow> mig_exn" where
  "migration_error c m = MigrationExn \<lparr>mf_code = c, mf_message = m\<rparr>"

definition exn_message :: "mig_exn \<Rightarrow> string" where
  "exn_message e =
     (case e of MigrationExn f \<Rightarrow> mf_message f | AuthExn c m \<Rightarrow> m | DriverExn d \<Rightarrow> de_message d)"

text \<open>Replacing every match of a pattern; the matcher gives the length of the match at a place.\<close>

function replace_matches :: "(string \<Rightarrow> nat option) \<Rightarrow> string \<Rightarrow> string \<Rightarrow> string" where
  "replace_matches m r [] = []"
| "replace_matches m r (c # s) =
     (case m (c # s) of
        Some n \<Rightarrow> r @ replace_matches m r (drop (n - 1) s)
      | None \<Rightarrow> c # replace_matches m r s)"
  by pat_completeness auto
termination
  by (relation "measure (\<lambda>(m, r, s). length s)") auto

text \<open>\<open>/postgres(?:ql)?:\/\/[^\s'"]+/gi\<close>\<close>

definition match_connection :: "string \<Rightarrow> nat option" where
  "match_connection s =
     (let l = js_lower s;
          head = (if starts_with l ''postgresql://'' then 13 else if starts_with l ''postgres://'' then 11 else 0);
          w = takeWhile (\<lambda>c. \<not> is_ws c \<and> c \<noteq> apostrophe \<and> c \<noteq> CHR 0x22) (drop head s)
      in if head = 0 \<or> w = [] then None else Some (head + length w))"

text \<open>\<open>/password\s*=\s*[^;\s]+/gi\<close>\<close>

definition match_password :: "string \<Rightarrow> nat option" where
  "match_password s =
     (let b1 = takeWhile is_ws (drop 8 s); r1 = dropWhile is_ws (drop 8 s);
          b2 = takeWhile is_ws (drop 1 r1);
          w = takeWhile (\<lambda>c. \<not> is_ws c \<and> c \<noteq> CHR '';'') (dropWhile is_ws (drop 1 r1))
      in if starts_with (js_lower s) ''password'' \<and> starts_with r1 ''='' \<and> w \<noteq> []
         then Some (8 + length b1 + 1 + length b2 + length w) else None)"

definition sanitize_pg_message :: "string \<Rightarrow> string" where
  "sanitize_pg_message m =
     replace_matches match_password ''password=[redacted]''
       (replace_matches match_connection ''[redacted-connection]'' m)"

definition opt_quote :: "string \<Rightarrow> string" where
  "opt_quote s = (case s of [] \<Rightarrow> [] | c # t \<Rightarrow> if c = apostrophe \<or> c = CHR 0x22 then t else s)"

text \<open>\<open>/KIND ["']?NAME["']? does not exist/\<close> at a place.\<close>

definition missing_here :: "string \<Rightarrow> string \<Rightarrow> string \<Rightarrow> bool" where
  "missing_here kind name s \<longleftrightarrow>
     starts_with s (kind @ '' '') \<and>
     (let r = opt_quote (drop (length kind + 1) s)
      in starts_with r name \<and> starts_with (opt_quote (drop (length name) r)) '' does not exist'')"

fun somewhere :: "(string \<Rightarrow> bool) \<Rightarrow> string \<Rightarrow> bool" where
  "somewhere p [] = p []"
| "somewhere p (c # s) = (p (c # s) \<or> somewhere p s)"

definition is_missing_ledger_error :: "mig_exn \<Rightarrow> bool" where
  "is_missing_ledger_error e =
     (let code = (case e of DriverExn d \<Rightarrow> de_code d | AuthExn c m \<Rightarrow> c | MigrationExn f \<Rightarrow> []);
          m = js_lower (exn_message e)
      in code = ''42P01'' \<or> code = ''3F000'' \<or>
         somewhere (missing_here ''relation'' ''athena.schema_migrations'') m \<or>
         somewhere (missing_here ''relation'' ''schema_migrations'') m \<or>
         somewhere (missing_here ''schema'' ''athena'') m)"

section \<open>Ledger rows\<close>

text \<open>A \<open>BIGINT\<close> as the driver gives it; \<open>applied_at\<close> is its time value.\<close>

datatype ledger_number = LedgerText string | LedgerNumber jnum | LedgerBigInt int

record ledger_row =
  lr_applied_at :: int
  lr_checksum :: string
  lr_execution_ms :: ledger_number
  lr_name :: string
  lr_version :: ledger_number

text \<open>\<open>Number.parseInt(s, 10)\<close>\<close>

definition parse_int :: "string \<Rightarrow> jnum" where
  "parse_int s =
     (let t = dropWhile is_ws s;
          negative = starts_with t ''-'';
          digits = takeWhile is_digit (if negative \<or> starts_with t ''+'' then tl t else t);
          n = to_double (of_nat (digits_val digits))
      in if digits = [] then NaN else if negative then num_neg n else n)"

definition ledger_to_number :: "ledger_number \<Rightarrow> jnum" where
  "ledger_to_number n =
     (case n of
        LedgerText s \<Rightarrow> parse_int s
      | LedgerNumber x \<Rightarrow> x
      | LedgerBigInt i \<Rightarrow> to_double (of_int i))"

definition map_ledger_row :: "ledger_row \<Rightarrow> applied_migration" where
  "map_ledger_row r =
     \<lparr>am_applied_at = lr_applied_at r, am_checksum = lr_checksum r,
      am_execution_ms = ledger_to_number (lr_execution_ms r), am_name = lr_name r,
      am_version = ledger_to_number (lr_version r)\<rparr>"

section \<open>Calls\<close>

datatype mig_call =
    OpenPool
  | ConnectPool
  | Query string "jval list"
  | ReleaseConnection
  | EndPool
  | AuthPlan bool
  | AuthMigrate
  | AuthRepair bool
  | Confirm string

text \<open>The plan of the embedded Auth schema (\<open>AthenaAuthMigrationPlan\<close>).\<close>

datatype auth_ledger_state = AuthAbsent | AuthApplied | AuthMismatch | AuthUnknownEntry

datatype auth_schema_state = SchemaUnknown | SchemaHealthy | SchemaDrift

datatype auth_action = AuthNone | AuthApply | AuthRepairAction | AuthBlocked

record auth_drift =
  ad_kind :: string
  ad_object :: string

record auth_entry =
  ae_name :: string
  ae_ledger_state :: auth_ledger_state
  ae_schema_state :: auth_schema_state
  ae_action :: auth_action
  ae_drift :: "auth_drift list"

record auth_plan =
  ap_entries :: "auth_entry list"
  ap_pending_count :: nat
  ap_has_blocking_drift :: bool

record environment =
  en_db :: "mig_call list \<Rightarrow> mig_call \<Rightarrow> (driver_error, ledger_row list) result"
  en_auth_plan :: "mig_call list \<Rightarrow> bool \<Rightarrow> (mig_exn, auth_plan) result"
  en_auth_act :: "mig_call list \<Rightarrow> mig_call \<Rightarrow> (mig_exn, unit) result"
  en_confirm :: "mig_call list \<Rightarrow> bool"
  en_clock :: "mig_call list \<Rightarrow> int"

section \<open>The report\<close>

datatype display_status =
    ShowApplied | ShowPending | ShowMismatch | ShowMissing | ShowDrift | ShowUnknown

record row_view =
  rv_name :: string
  rv_status :: display_status
  rv_detail :: "string option"

definition auth_entry_status :: "auth_entry \<Rightarrow> display_status" where
  "auth_entry_status e =
     (if ae_schema_state e = SchemaDrift then ShowDrift
      else if ae_ledger_state e = AuthMismatch then ShowMismatch
      else if ae_ledger_state e = AuthUnknownEntry then ShowUnknown
      else if ae_ledger_state e = AuthAbsent then ShowPending
      else ShowApplied)"

text \<open>\<open>kind.replace("missing-", "")\<close>: the first occurrence only.\<close>

fun remove_first :: "string \<Rightarrow> string \<Rightarrow> string" where
  "remove_first p [] = []"
| "remove_first p (c # s) = (if starts_with (c # s) p then drop (length p) (c # s) else c # remove_first p s)"

definition drift_line :: "auth_drift \<Rightarrow> string" where
  "drift_line d = ''Missing '' @ remove_first ''missing-'' (ad_kind d) @ '': '' @ ad_object d"

definition auth_entry_detail :: "auth_entry \<Rightarrow> string option" where
  "auth_entry_detail e =
     (if ae_drift e = [] then None else Some (js_lines (map drift_line (ae_drift e))))"

definition conflict_row :: "migration_conflict \<Rightarrow> row_view" where
  "conflict_row c =
     (if mc_kind c = ChecksumMismatch then
        \<lparr>rv_name = (case mc_local c of
           Some f \<Rightarrow> mg_filename f
         | None \<Rightarrow> pad_start 4 (number_to_string (mc_version c)) @ ''_*.sql''),
         rv_status = ShowMismatch, rv_detail = None\<rparr>
      else
        \<lparr>rv_name = (case mc_applied c of
           Some r \<Rightarrow> pad_start 4 (number_to_string (mc_version c)) @ ''_'' @ am_name r
         | None \<Rightarrow> number_to_string (mc_version c)),
         rv_status = ShowMissing, rv_detail = None\<rparr>)"

definition application_rows_from_plan :: "migration_plan \<Rightarrow> row_view list" where
  "application_rows_from_plan plan =
     map (\<lambda>e. \<lparr>rv_name = mg_filename (pe_migration e), rv_status = ShowApplied, rv_detail = None\<rparr>) (mp_applied plan) @
     map conflict_row (mp_conflicts plan) @
     map (\<lambda>e. \<lparr>rv_name = mg_filename (pe_migration e), rv_status = ShowPending, rv_detail = None\<rparr>) (mp_pending plan)"

definition auth_rows_from_plan :: "auth_plan \<Rightarrow> row_view list" where
  "auth_rows_from_plan plan =
     map (\<lambda>e. \<lparr>rv_name = ae_name e, rv_status = auth_entry_status e, rv_detail = auth_entry_detail e\<rparr>)
       (ap_entries plan)"

record section_view =
  sv_title :: string
  sv_rows :: "row_view list"
  sv_summary :: "string option"

record diagnostic_view =
  dv_code :: "string option"
  dv_message :: string

record report_view =
  vw_provider :: string
  vw_database :: string
  vw_directory :: string
  vw_application :: section_view
  vw_auth :: section_view
  vw_outcome :: string
  vw_diagnostics :: "diagnostic_view list"

definition count_rows :: "display_status list \<Rightarrow> row_view list \<Rightarrow> nat" where
  "count_rows sts rows = length (filter (\<lambda>r. rv_status r \<in> set sts) rows)"

definition counts_text :: "row_view list \<Rightarrow> display_status list \<Rightarrow> string" where
  "counts_text rows conflicts =
     show_nat (count_rows [ShowApplied] rows) @ '' applied '' @ [CHR 0xB7] @ '' '' @
     show_nat (count_rows [ShowPending] rows) @ '' pending '' @ [CHR 0xB7] @ '' '' @
     show_nat (count_rows conflicts rows) @ '' conflicts''"

text \<open>What the runner knows of its configuration; \<open>rc_connection\<close> may be empty.\<close>

record run_config =
  rc_provider_kind :: string
  rc_provider_mode :: string
  rc_connection :: string
  rc_database_label :: string
  rc_directory :: string

definition provider_label :: "run_config \<Rightarrow> string" where
  "provider_label cfg = rc_provider_kind cfg @ ''/'' @ rc_provider_mode cfg"

definition build_migration_report_view ::
  "run_config \<Rightarrow> migration_plan \<Rightarrow> auth_plan option \<Rightarrow> string \<Rightarrow> diagnostic_view list \<Rightarrow> report_view" where
  "build_migration_report_view cfg plan auth outcome diagnostics =
     (let app = application_rows_from_plan plan;
          rows = (case auth of None \<Rightarrow> [] | Some p \<Rightarrow> auth_rows_from_plan p)
      in \<lparr>vw_provider = provider_label cfg, vw_database = rc_database_label cfg, vw_directory = rc_directory cfg,
          vw_application =
            \<lparr>sv_title = ''Application'', sv_rows = app,
             sv_summary = Some (counts_text app [ShowMismatch, ShowMissing, ShowDrift])\<rparr>,
          vw_auth =
            \<lparr>sv_title = ''Embedded Auth'', sv_rows = rows,
             sv_summary = (if rows = [] then None else Some (counts_text rows [ShowDrift, ShowMismatch]))\<rparr>,
          vw_outcome = outcome, vw_diagnostics = diagnostics\<rparr>)"

end
