(* ===== verification/MigrationRunner.thy ===== *)
theory MigrationRunner
  imports MigrationReport Effects
begin

text \<open>
  Running migrations: the PostgreSQL backend (\<open>migrations/postgres.ts\<close>) and \<open>runMigrations\<close>
  (\<open>migrations/runner.ts\<close>). The world is a parameter: what the driver, the embedded Auth schema
  and the confirmation answer may depend on every call before. The state keeps the calls made, in
  order, and what the user was shown; the glyphs in front of a progress line are left out.
\<close>

section \<open>State\<close>

datatype ui_event = UiInfo string | UiSuccess string | UiReport report_view

record mig_state =
  ms_log :: "mig_call list"
  ms_pool :: bool
  ms_client :: bool
  ms_lock :: bool
  ms_ui :: "ui_event list"

definition initial_mig_state :: mig_state where
  "initial_mig_state = \<lparr>ms_log = [], ms_pool = False, ms_client = False, ms_lock = False, ms_ui = []\<rparr>"

type_synonym 'a mig_act = "(mig_state, mig_exn, 'a) act"

abbreviation act_seq :: "('s, 'e, 'a) act \<Rightarrow> ('s, 'e, 'b) act \<Rightarrow> ('s, 'e, 'b) act" where
  "act_seq m n \<equiv> act_bind m (\<lambda>_. n)"

definition note_call :: "mig_call \<Rightarrow> mig_state \<Rightarrow> mig_state" where
  "note_call w s = s\<lparr>ms_log := ms_log s @ [w]\<rparr>"

definition db_call :: "environment \<Rightarrow> mig_call \<Rightarrow> ledger_row list mig_act" where
  "db_call en w s =
     ((case en_db en (ms_log s) w of Inl e \<Rightarrow> Throw (DriverExn e) | Inr rows \<Rightarrow> Ok rows), note_call w s)"

definition run_query :: "environment \<Rightarrow> string \<Rightarrow> jval list \<Rightarrow> ledger_row list mig_act" where
  "run_query en sql params = db_call en (Query sql params)"

definition show_ui :: "ui_event \<Rightarrow> unit mig_act" where
  "show_ui u = act_modify (\<lambda>s. s\<lparr>ms_ui := ms_ui s @ [u]\<rparr>)"

definition current_time :: "environment \<Rightarrow> int mig_act" where
  "current_time en = act_get (\<lambda>s. en_clock en (ms_log s))"

section \<open>The PostgreSQL backend\<close>

definition lock_keys :: "jval list" where
  "lock_keys = [JNum (jint 0x41544841), JNum (jint 0x4D494753)]"

definition lock_sql :: string where
  "lock_sql = ''SELECT pg_advisory_lock($1, $2)''"

definition unlock_sql :: string where
  "unlock_sql = ''SELECT pg_advisory_unlock($1, $2)''"

definition ledger_bootstrap_sql :: string where
  "ledger_bootstrap_sql = js_lines
     [''CREATE SCHEMA IF NOT EXISTS athena;'',
      [],
      ''CREATE TABLE IF NOT EXISTS athena.schema_migrations ('',
      ''  version BIGINT PRIMARY KEY,'',
      ''  name TEXT NOT NULL,'',
      ''  checksum TEXT NOT NULL,'',
      ''  applied_at TIMESTAMPTZ NOT NULL DEFAULT now(),'',
      ''  execution_ms BIGINT NOT NULL'',
      '');'']"

definition list_applied_sql :: string where
  "list_applied_sql = js_lines
     [''SELECT version, name, checksum, applied_at, execution_ms'',
      ''FROM athena.schema_migrations'',
      ''ORDER BY version ASC'']"

definition ledger_insert_sql :: string where
  "ledger_insert_sql = js_lines
     [''INSERT INTO athena.schema_migrations (version, name, checksum, execution_ms)'',
      ''VALUES ($1, $2, $3, $4)'']"

definition ensure_client :: "environment \<Rightarrow> unit mig_act" where
  "ensure_client en =
     act_bind (act_get ms_client) (\<lambda>have_client.
       if have_client then act_return ()
       else
         act_seq
           (act_bind (act_get ms_pool) (\<lambda>have_pool.
              if have_pool then act_return ()
              else act_seq (db_call en OpenPool) (act_modify (\<lambda>s. s\<lparr>ms_pool := True\<rparr>))))
           (act_seq (db_call en ConnectPool) (act_modify (\<lambda>s. s\<lparr>ms_client := True\<rparr>))))"

definition acquire_lock :: "environment \<Rightarrow> unit mig_act" where
  "acquire_lock en =
     act_seq (ensure_client en)
       (act_catch
          (act_seq (run_query en lock_sql lock_keys) (act_modify (\<lambda>s. s\<lparr>ms_lock := True\<rparr>)))
          (\<lambda>e. act_throw (migration_error LockError
             (''Unable to acquire migration advisory lock: '' @ sanitize_pg_message (exn_message e)))))"

definition release_lock :: "environment \<Rightarrow> unit mig_act" where
  "release_lock en =
     act_bind (act_get (\<lambda>s. ms_client s \<and> ms_lock s)) (\<lambda>held.
       if \<not> held then act_return ()
       else act_finally
         (act_catch (act_seq (run_query en unlock_sql lock_keys) (act_return ())) (\<lambda>_. act_return ()))
         (act_modify (\<lambda>s. s\<lparr>ms_lock := False\<rparr>)))"

definition ensure_ledger :: "environment \<Rightarrow> unit mig_act" where
  "ensure_ledger en =
     act_seq (ensure_client en)
       (act_catch (act_seq (run_query en ledger_bootstrap_sql []) (act_return ()))
          (\<lambda>e. act_throw (migration_error LedgerError
             (''Unable to create migration ledger (athena.schema_migrations): '' @
              sanitize_pg_message (exn_message e)))))"

definition list_applied_migrations :: "environment \<Rightarrow> applied_migration list mig_act" where
  "list_applied_migrations en =
     act_seq (ensure_client en)
       (act_catch
          (act_bind (run_query en list_applied_sql []) (\<lambda>rows. act_return (map map_ledger_row rows)))
          (\<lambda>e. if is_missing_ledger_error e then act_return []
               else act_throw (migration_error LedgerError
                 (''Unable to read migration ledger: '' @ sanitize_pg_message (exn_message e)))))"

record applied_result = applied_migration +
  ar_filename :: string

definition failed_message :: "migration_file \<Rightarrow> mig_exn \<Rightarrow> string" where
  "failed_message m e = js_lines
     [''Migration failed'', [], mg_filename m, [], ''PostgreSQL:'', sanitize_pg_message (exn_message e), [],
      ''The migration was rolled back.'', ''No later migrations were attempted.'']"

definition ledger_values :: "migration_file \<Rightarrow> int \<Rightarrow> jval list" where
  "ledger_values m execution_ms =
     [JNum (mg_version m), JStr (mg_name m), JStr (mg_checksum m), JNum (jint execution_ms)]"

definition migration_body :: "environment \<Rightarrow> migration_file \<Rightarrow> int \<Rightarrow> applied_result mig_act" where
  "migration_body en m started =
     act_seq (run_query en (mg_sql m) [])
       (act_bind (current_time en) (\<lambda>now.
          let execution_ms = max 0 (now - started)
          in act_seq (run_query en ledger_insert_sql (ledger_values m execution_ms))
               (act_seq (run_query en ''COMMIT'' [])
                  (act_bind (current_time en) (\<lambda>applied_at.
                     act_return \<lparr>am_applied_at = applied_at, am_checksum = mg_checksum m,
                       am_execution_ms = jint execution_ms, am_name = mg_name m,
                       am_version = mg_version m, ar_filename = mg_filename m\<rparr>)))))"

definition apply_migration :: "environment \<Rightarrow> migration_file \<Rightarrow> applied_result mig_act" where
  "apply_migration en m =
     (case assert_migration_sql_allows_outer_transaction (mg_sql m) (mg_filename m) of
        Inl e \<Rightarrow> act_throw (MigrationExn e)
      | Inr _ \<Rightarrow>
          act_seq (ensure_client en)
            (act_bind (current_time en) (\<lambda>started.
               act_seq
                 (act_catch (run_query en ''BEGIN'' [])
                    (\<lambda>e. act_throw (migration_error ExecutionError
                       (''Failed to begin transaction for '' @ mg_filename m @ '': '' @
                        sanitize_pg_message (exn_message e)))))
                 (act_catch (migration_body en m started)
                    (\<lambda>e. act_seq (act_try (run_query en ''ROLLBACK'' []))
                       (act_throw (migration_error ExecutionError (failed_message m e))))))))"

text \<open>\<open>release()\<close> and \<open>end()\<close> may fail; the backend ignores it.\<close>

definition close_backend :: "environment \<Rightarrow> unit mig_act" where
  "close_backend en =
     act_finally (release_lock en)
       (act_seq
          (act_bind (act_get ms_client) (\<lambda>have_client.
             if have_client then
               act_seq (act_try (db_call en ReleaseConnection)) (act_modify (\<lambda>s. s\<lparr>ms_client := False\<rparr>))
             else act_return ()))
          (act_seq
             (act_bind (act_get ms_pool) (\<lambda>have_pool.
                if have_pool then act_seq (act_try (db_call en EndPool)) (act_return ()) else act_return ()))
             (act_modify (\<lambda>s. s\<lparr>ms_pool := False\<rparr>))))"

section \<open>The runner\<close>

datatype run_mode = ModeApply | ModeStatus | ModePlan | ModeDryRun | ModeRepair

text \<open>\<open>ro_interactive\<close>: a terminal that can ask.\<close>

record run_options =
  ro_mode :: "run_mode option"
  ro_dry_run :: bool
  ro_yes :: bool
  ro_interactive :: bool

record run_summary =
  rs_applied_count :: nat
  rs_auth_plan :: "auth_plan option"
  rs_conflicts :: "migration_conflict list"
  rs_dry_run :: bool
  rs_failed_count :: nat
  rs_mode :: run_mode
  rs_newly_applied :: "applied_result list"
  rs_pending_count :: nat
  rs_plan :: migration_plan
  rs_skipped_count :: nat

definition conflict_text :: "migration_conflict \<Rightarrow> string" where
  "conflict_text c =
     (if mc_kind c = ChecksumMismatch then js_lines
        [''Migration integrity error'', [],
         (case mc_local c of
            Some f \<Rightarrow> mg_filename f
          | None \<Rightarrow> pad_start 4 (number_to_string (mc_version c)) @ ''_'' @
              (case mc_applied c of Some r \<Rightarrow> am_name r | None \<Rightarrow> ''unknown'') @ ''.sql'') @
           '' was already applied but its contents have changed.'',
         [], ''Stored checksum:'',
         (case mc_applied c of Some r \<Rightarrow> am_checksum r | None \<Rightarrow> ''(missing)''),
         [], ''Current checksum:'',
         (case mc_local c of Some f \<Rightarrow> mg_checksum f | None \<Rightarrow> ''(missing local file)''),
         [], ''Applied migrations are immutable.'',
         ''Create a new migration instead of editing an applied migration.'']
      else js_lines
        [''Migration history conflict'', [],
         ''Database contains migration '' @
           (case mc_applied c of
              Some r \<Rightarrow> pad_start 4 (number_to_string (mc_version c)) @ ''_'' @ am_name r
            | None \<Rightarrow> pad_start 4 (number_to_string (mc_version c))),
         ''but no matching local migration exists.'', [],
         ''Refusing to continue because this checkout is older than the database migration history.''])"

definition format_conflict_block :: "migration_plan \<Rightarrow> string" where
  "format_conflict_block plan = js_join [newline, newline] (map conflict_text (mp_conflicts plan))"

definition assert_direct_postgres :: "run_config \<Rightarrow> unit mig_act" where
  "assert_direct_postgres cfg =
     (if rc_provider_kind cfg \<noteq> ''postgres'' then act_throw (migration_error ProviderError (js_lines
        [''athena-js migrate currently requires a direct PostgreSQL provider.'',
         ''Unsupported provider: '' @ provider_label cfg @ ''.'']))
      else if rc_provider_mode cfg \<noteq> ''direct'' then act_throw (migration_error ProviderError (js_lines
        [''athena-js migrate currently requires a direct PostgreSQL provider.'',
         ''Gateway-backed migration execution is not yet supported.'',
         ''Raw DDL needs privileged database access outside the normal query gateway.'']))
      else if rc_connection cfg = [] then act_throw (migration_error ConfigError
        (''Direct PostgreSQL provider is missing connectionString '' @
         ''(set DATABASE_URL / PG_URL or provider.connectionString).''))
      else act_return ())"

definition load_auth_plan :: "environment \<Rightarrow> bool \<Rightarrow> auth_plan mig_act" where
  "load_auth_plan en inspect s = (en_auth_plan en (ms_log s) inspect, note_call (AuthPlan inspect) s)"

definition auth_act :: "environment \<Rightarrow> mig_call \<Rightarrow> unit mig_act" where
  "auth_act en w s = (en_auth_act en (ms_log s) w, note_call w s)"

definition apply_embedded_auth_schema :: "environment \<Rightarrow> unit mig_act" where
  "apply_embedded_auth_schema en =
     act_seq (show_ui (UiInfo ''Embedded Auth schema applying''))
       (act_seq (auth_act en AuthMigrate) (show_ui (UiSuccess ''Embedded Auth schema applied'')))"

definition render_report ::
  "run_config \<Rightarrow> migration_plan \<Rightarrow> auth_plan option \<Rightarrow> string \<Rightarrow> diagnostic_view list \<Rightarrow> unit mig_act" where
  "render_report cfg plan auth outcome diagnostics =
     show_ui (UiReport (build_migration_report_view cfg plan auth outcome diagnostics))"

text \<open>The summary every return of the run fills in.\<close>

definition summary_of ::
  "run_mode \<Rightarrow> bool \<Rightarrow> migration_plan \<Rightarrow> auth_plan option \<Rightarrow> nat \<Rightarrow> migration_conflict list \<Rightarrow>
   applied_result list \<Rightarrow> nat \<Rightarrow> nat \<Rightarrow> run_summary" where
  "summary_of mode dry plan auth applied_count conflicts newly pending skipped =
     \<lparr>rs_applied_count = applied_count, rs_auth_plan = auth, rs_conflicts = conflicts, rs_dry_run = dry,
      rs_failed_count = 0, rs_mode = mode, rs_newly_applied = newly, rs_pending_count = pending,
      rs_plan = plan, rs_skipped_count = skipped\<rparr>"

definition confirm_repair :: "environment \<Rightarrow> run_options \<Rightarrow> bool \<Rightarrow> unit mig_act" where
  "confirm_repair en opts dry =
     (if ro_yes opts \<or> dry then act_return ()
      else if \<not> ro_interactive opts then act_throw (migration_error ConfigError (js_lines
        [''migrate repair requires confirmation.'', [], ''Re-run with --yes in CI/non-TTY environments:'', [],
         ''  athena-js migrate repair --yes'']))
      else act_bind (\<lambda>s. (Ok (en_confirm en (ms_log s)),
             note_call (Confirm ''Repair drifted Embedded Auth schema now?'') s)) (\<lambda>confirmed.
        if confirmed then act_return () else act_throw (migration_error ConfigError ''Repair cancelled.'')))"

definition run_repair ::
  "environment \<Rightarrow> run_config \<Rightarrow> run_options \<Rightarrow> bool \<Rightarrow> migration_plan \<Rightarrow> run_summary mig_act" where
  "run_repair en cfg opts dry plan =
     act_bind (load_auth_plan en True) (\<lambda>auth.
       let entries = filter (\<lambda>e. ae_action e = AuthRepairAction) (ap_entries auth);
           summary = (\<lambda>a skipped. summary_of ModeRepair dry plan (Some a) (length (mp_applied plan))
             (mp_conflicts plan) [] (length (mp_pending plan)) skipped)
       in act_seq
            (render_report cfg plan (Some auth)
               (if entries = [] then ''No Embedded Auth repairs required.''
                else show_nat (length entries) @ '' migration(s) require repair'') [])
            (if entries = [] then act_return (summary auth 0)
             else act_seq (confirm_repair en opts dry)
               (act_seq (auth_act en (AuthRepair dry))
                 (act_bind (load_auth_plan en True) (\<lambda>auth'.
                    act_return (summary auth' (if dry then length entries else 0)))))))"

text \<open>Only an invalid answer of the Auth database stops the run; other failures leave no plan.\<close>

definition load_auth_plan_leniently :: "environment \<Rightarrow> bool \<Rightarrow> auth_plan option mig_act" where
  "load_auth_plan_leniently en inspect =
     act_catch (act_bind (load_auth_plan en inspect) (\<lambda>p. act_return (Some p)))
       (\<lambda>e. case e of
          AuthExn c m \<Rightarrow>
            if c = ''ATHENA_AUTH_DATABASE_RESULT_INVALID'' then act_throw (migration_error ExecutionError m)
            else act_return None
        | _ \<Rightarrow> act_return None)"

definition auth_blocks :: "auth_plan option \<Rightarrow> bool" where
  "auth_blocks auth = (case auth of None \<Rightarrow> False | Some p \<Rightarrow> ap_has_blocking_drift p)"

definition auth_pending :: "auth_plan option \<Rightarrow> nat" where
  "auth_pending auth = (case auth of None \<Rightarrow> 0 | Some p \<Rightarrow> ap_pending_count p)"

definition run_inspect ::
  "run_config \<Rightarrow> run_mode \<Rightarrow> bool \<Rightarrow> migration_plan \<Rightarrow> auth_plan option \<Rightarrow> run_summary mig_act" where
  "run_inspect cfg mode dry plan auth =
     (let outcome =
        (if plan_has_blocking_conflicts plan then ''Application migration history has conflicts.''
         else if auth_blocks auth then ''Embedded Auth schema drift detected.''
         else if length (mp_pending plan) = 0 \<and> auth_pending auth = 0 then ''Database is up to date.''
         else ''Pending migrations remain.'')
      in act_seq (render_report cfg plan auth outcome [])
           (if plan_has_blocking_conflicts plan
            then act_throw (migration_error HistoryError (format_conflict_block plan))
            else act_return (summary_of mode dry plan auth (length (mp_applied plan)) (mp_conflicts plan) []
              (length (mp_pending plan)) 0)))"

definition run_dry ::
  "run_config \<Rightarrow> bool \<Rightarrow> migration_plan \<Rightarrow> auth_plan option \<Rightarrow> run_summary mig_act" where
  "run_dry cfg dry plan auth =
     (let outcome =
        (if length (mp_pending plan) = 0
         then ''No pending application migrations. No database changes were made.''
         else show_nat (length (mp_pending plan)) @
           '' pending application migration(s). No database changes were made.'')
      in act_seq (render_report cfg plan auth outcome [])
           (act_return (summary_of ModeDryRun dry plan auth (length (mp_applied plan)) (mp_conflicts plan) []
             (length (mp_pending plan)) (length (mp_pending plan)))))"

definition drift_message :: "auth_plan \<Rightarrow> string" where
  "drift_message auth = js_lines
     ([''Embedded Auth schema drift detected'', []] @
      concat (map (\<lambda>e. [ae_name e, []] @ map (\<lambda>d. ''  '' @ drift_line d) (ae_drift e) @ [[]])
        (filter (\<lambda>e. ae_schema_state e = SchemaDrift) (ap_entries auth))) @
      [''Migration history says these migrations were already applied.'', [],
       ''Athena will not silently modify a drifted schema.'', [], ''Run:'', [],
       ''  athena-js migrate repair''])"

primrec apply_pending ::
  "environment \<Rightarrow> plan_entry list \<Rightarrow> applied_result list \<Rightarrow> applied_result list mig_act" where
  "apply_pending en [] newly = act_return newly"
| "apply_pending en (e # es) newly =
     act_seq (show_ui (UiInfo (mg_filename (pe_migration e) @ '' applying'')))
       (act_bind (apply_migration en (pe_migration e)) (\<lambda>r.
          act_seq (show_ui (UiSuccess (mg_filename (pe_migration e) @ '' '' @
                number_to_string (am_execution_ms r) @ '' ms'')))
            (apply_pending en es (newly @ [r]))))"

primrec show_applied :: "plan_entry list \<Rightarrow> unit mig_act" where
  "show_applied [] = act_return ()"
| "show_applied (e # es) =
     act_seq (show_ui (UiInfo (mg_filename (pe_migration e) @ '' already applied''))) (show_applied es)"

text \<open>The Auth schema follows the application migrations; then the run is reported.\<close>

definition finish_apply ::
  "environment \<Rightarrow> run_config \<Rightarrow> bool \<Rightarrow> migration_plan \<Rightarrow> string \<Rightarrow> nat \<Rightarrow> applied_result list \<Rightarrow>
   run_summary mig_act" where
  "finish_apply en cfg dry plan outcome applied_count newly =
     act_seq (apply_embedded_auth_schema en)
       (act_bind (load_auth_plan en True) (\<lambda>auth.
          act_seq (render_report cfg plan (Some auth) outcome [])
            (act_return (summary_of ModeApply dry plan (Some auth) applied_count [] newly 0 0))))"

definition refuse_drift :: "run_config \<Rightarrow> migration_plan \<Rightarrow> auth_plan option \<Rightarrow> unit mig_act" where
  "refuse_drift cfg plan auth =
     (case auth of
        None \<Rightarrow> act_return ()
      | Some a \<Rightarrow>
          if ap_has_blocking_drift a then
            act_seq (render_report cfg plan auth ''Embedded Auth schema drift.''
                [\<lparr>dv_code = Some ''ATHENA_AUTH_SCHEMA_DRIFT'', dv_message = drift_message a\<rparr>])
              (act_throw (migration_error HistoryError (drift_message a)))
          else act_return ())"

definition run_apply ::
  "environment \<Rightarrow> run_config \<Rightarrow> bool \<Rightarrow> migration_file list \<Rightarrow> migration_plan \<Rightarrow> run_summary mig_act" where
  "run_apply en cfg dry local plan =
     (if local = [] \<and> length (mp_pending plan) = 0 then
        act_seq (show_ui (UiInfo ''No application migrations found.''))
          (finish_apply en cfg dry plan ''0 application migrations applied.'' 0 [])
      else act_seq (show_applied (mp_applied plan))
        (if length (mp_pending plan) = 0 then
           act_seq (show_ui (UiInfo ''Application migrations are up to date.''))
             (finish_apply en cfg dry plan
                (show_nat (length (mp_applied plan)) @ '' application migrations current.'')
                (length (mp_applied plan)) [])
         else act_bind (apply_pending en (mp_pending plan) []) (\<lambda>newly.
           finish_apply en cfg dry plan (show_nat (length newly) @ '' migration(s) applied'')
             (length (mp_applied plan) + length newly) newly)))"

definition run_planned ::
  "environment \<Rightarrow> run_config \<Rightarrow> run_options \<Rightarrow> run_mode \<Rightarrow> bool \<Rightarrow> migration_file list \<Rightarrow> migration_plan \<Rightarrow>
   run_summary mig_act" where
  "run_planned en cfg opts mode dry local plan =
     (if mode = ModeRepair then run_repair en cfg opts dry plan
      else act_bind (load_auth_plan_leniently en (mode \<in> {ModeStatus, ModePlan, ModeApply})) (\<lambda>auth.
        if mode \<in> {ModeStatus, ModePlan} then run_inspect cfg mode dry plan auth
        else if plan_has_blocking_conflicts plan then
          act_seq (render_report cfg plan auth ''Application migration history has conflicts.''
              [\<lparr>dv_code = None, dv_message = format_conflict_block plan\<rparr>])
            (act_throw (migration_error HistoryError (format_conflict_block plan)))
        else if mode = ModeDryRun then run_dry cfg dry plan auth
        else act_seq (refuse_drift cfg plan auth) (run_apply en cfg dry local plan)))"

definition run_mode_of :: "run_options \<Rightarrow> run_mode" where
  "run_mode_of opts = get_or (ro_mode opts) (if ro_dry_run opts then ModeDryRun else ModeApply)"

definition run_is_dry :: "run_options \<Rightarrow> bool" where
  "run_is_dry opts \<longleftrightarrow> run_mode_of opts \<in> {ModeDryRun, ModePlan} \<or> ro_dry_run opts"

definition migrate_body :: "environment \<Rightarrow> run_config \<Rightarrow> run_options \<Rightarrow> migration_file list \<Rightarrow> run_summary mig_act" where
  "migrate_body en cfg opts local =
     act_seq (assert_direct_postgres cfg)
       (act_seq (acquire_lock en)
         (act_seq (if run_mode_of opts \<in> {ModeApply, ModeRepair} then ensure_ledger en else act_return ())
           (act_bind (list_applied_migrations en) (\<lambda>applied.
              run_planned en cfg opts (run_mode_of opts) (run_is_dry opts) local (plan_migrations applied local)))))"

definition wrap_error :: "mig_exn \<Rightarrow> mig_exn" where
  "wrap_error e =
     (case e of
        MigrationExn f \<Rightarrow> e
      | AuthExn c m \<Rightarrow> migration_error ExecutionError m
      | DriverExn d \<Rightarrow> migration_error ExecutionError (de_message d))"

text \<open>\<open>discovery\<close> is what looking for the local files returned or threw.\<close>

definition run_migrations ::
  "environment \<Rightarrow> run_config \<Rightarrow> run_options \<Rightarrow> (migration_failure, migration_file list) result \<Rightarrow>
   run_summary mig_act" where
  "run_migrations en cfg opts discovery =
     (case discovery of
        Inl e \<Rightarrow> act_throw (MigrationExn e)
      | Inr local \<Rightarrow>
          act_finally (act_catch (migrate_body en cfg opts local) (\<lambda>e. act_throw (wrap_error e)))
            (close_backend en))"

end
