(* ===== verification/MigrationFacts.thy ===== *)
theory MigrationFacts
  imports MigrationModel
begin

text \<open>
  Facts about the migration planner and the discovery: grouping by key, the two orders as
  instances of \<open>comparator\<close>, what each version contributes to a plan, and the lists a plan
  consists of.
\<close>

section \<open>Grouping\<close>

lemma group_by_fold:
  "map_of (fold (\<lambda>x d. dset (key x) (get_or (map_of d (key x)) [] @ [val x]) d) xs d) k =
   (case map (\<lambda>x. val x) (filter (\<lambda>x. key x = k) xs) of
      [] \<Rightarrow> map_of d k
    | ys \<Rightarrow> Some (get_or (map_of d k) [] @ ys))"
proof (induction xs arbitrary: d)
  case (Cons x xs)
  then show ?case by (simp split: list.split)
qed simp

lemma group_by_lookup:
  "get_or (map_of (group_by key val xs) k) [] = map val (filter (\<lambda>x. key x = k) xs)"
  by (auto simp: group_by_def group_by_fold split: list.split)

lemma group_by_keys: "fst ` set (group_by key val xs) = key ` set xs"
proof -
  have "fst ` set (fold (\<lambda>x d. dset (key x) (get_or (map_of d (key x)) [] @ [val x]) d) xs d)
      = fst ` set d \<union> key ` set xs" for d
    by (induction xs arbitrary: d) (auto simp: keys_dset)
  then show ?thesis by (simp add: group_by_def)
qed

lemma group_by_distinct: "distinct (map fst (group_by key val xs))"
proof -
  have "distinct (map fst d) \<Longrightarrow>
      distinct (map fst (fold (\<lambda>x d. dset (key x) (get_or (map_of d (key x)) [] @ [val x]) d) xs d))"
    for d
    by (induction xs arbitrary: d) (simp_all add: distinct_dset)
  then show ?thesis by (simp add: group_by_def)
qed

lemma group_by_entry:
  "(k, ys) \<in> set (group_by key val xs) \<Longrightarrow> ys = map val (filter (\<lambda>x. key x = k) xs)"
  using group_by_lookup [of key val xs k] map_of_eq_Some_iff [OF group_by_distinct, of key val xs k ys] by simp

lemma distinct_keys_iff:
  "distinct (map key xs) \<longleftrightarrow> (\<forall>k. length (filter (\<lambda>x. key x = k) xs) \<le> 1)"
proof (induction xs)
  case (Cons x xs)
  show ?case
  proof
    assume d: "distinct (map key (x # xs))"
    then have "filter (\<lambda>y. key y = key x) xs = []"
      by (simp add: filter_empty_conv) (metis image_eqI)
    with d Cons show "\<forall>k. length (filter (\<lambda>y. key y = k) (x # xs)) \<le> 1" by auto
  next
    assume k: "\<forall>k. length (filter (\<lambda>y. key y = k) (x # xs)) \<le> 1"
    have "length (filter (\<lambda>y. key y = k) xs) \<le> 1" for k using spec [OF k, of k] by (auto split: if_splits)
    moreover have "filter (\<lambda>y. key y = key x) xs = []" using spec [OF k, of "key x"] by auto
    ultimately show "distinct (map key (x # xs))" using Cons by (auto simp: filter_empty_conv)
  qed
qed simp

lemma no_duplicates:
  "filter (\<lambda>(v, ps). 1 < length ps) (group_by key val xs) = [] \<longleftrightarrow> distinct (map key xs)"
proof -
  have "filter (\<lambda>(v, ps). 1 < length ps) (group_by key val xs) = [] \<longleftrightarrow>
      (\<forall>(v, ps) \<in> set (group_by key val xs). length ps \<le> 1)"
    by (auto simp: filter_empty_conv not_less)
  also have "\<dots> \<longleftrightarrow> (\<forall>k. length (filter (\<lambda>x. key x = k) xs) \<le> 1)"
  proof
    assume h: "\<forall>(v, ps) \<in> set (group_by key val xs). length ps \<le> 1"
    show "\<forall>k. length (filter (\<lambda>x. key x = k) xs) \<le> 1"
    proof
      fix k
      show "length (filter (\<lambda>x. key x = k) xs) \<le> 1"
      proof (cases "map_of (group_by key val xs) k")
        case None
        then show ?thesis using group_by_lookup [of key val xs k] by auto
      next
        case (Some ys)
        then have "length ys \<le> 1" using h map_of_SomeD by fastforce
        then show ?thesis using group_by_lookup [of key val xs k] Some by (metis get_or_simps(1) length_map)
      qed
    qed
  next
    assume h: "\<forall>k. length (filter (\<lambda>x. key x = k) xs) \<le> 1"
    then show "\<forall>(v, ps) \<in> set (group_by key val xs). length ps \<le> 1"
      using group_by_entry [of _ _ key val xs] by fastforce
  qed
  finally show ?thesis by (simp add: distinct_keys_iff)
qed

section \<open>The orders\<close>

text \<open>The order of finite versions, extended to all numbers so that it is total.\<close>

definition num_value :: "jnum \<Rightarrow> rat" where
  "num_value n = (case n of Fin r \<Rightarrow> r | _ \<Rightarrow> 0)"

definition value_compare :: "jnum \<Rightarrow> jnum \<Rightarrow> int" where
  "value_compare a b =
     (if num_value a < num_value b then - 1 else if num_value b < num_value a then 1 else 0)"

definition found_value_compare :: "found_file \<Rightarrow> found_file \<Rightarrow> int" where
  "found_value_compare a b =
     (if value_compare (ff_version a) (ff_version b) \<noteq> 0 then value_compare (ff_version a) (ff_version b)
      else locale_compare (ff_filename a) (ff_filename b))"

interpretation version_order: comparator value_compare
  by unfold_locales (auto simp: value_compare_def split: if_splits)

lemma found_value_le:
  "found_value_compare a b \<le> 0 \<longleftrightarrow>
   num_value (ff_version a) < num_value (ff_version b) \<or>
   num_value (ff_version a) = num_value (ff_version b) \<and> locale_compare (ff_filename a) (ff_filename b) \<le> 0"
  by (auto simp: found_value_compare_def value_compare_def)

interpretation found_order: comparator found_value_compare
proof
  show "found_value_compare b a < 0 \<longleftrightarrow> 0 < found_value_compare a b" for a b
    using locale_compare_antisym [of "ff_filename a" "ff_filename b"]
    by (auto simp: found_value_compare_def value_compare_def split: if_splits)
  show "found_value_compare a b \<le> 0 \<Longrightarrow> found_value_compare b c \<le> 0 \<Longrightarrow> found_value_compare a c \<le> 0" for a b c
    using locale_compare_trans [of "ff_filename a" "ff_filename b" "ff_filename c"]
    unfolding found_value_le by auto
qed

lemma insort_by_cong:
  "(\<And>y. y \<in> set xs \<Longrightarrow> cmp x y = cmp' x y) \<Longrightarrow> insort_by cmp x xs = insort_by cmp' x xs"
  by (induction xs) auto

lemma js_sort_cong:
  "(\<And>x y. x \<in> set xs \<Longrightarrow> y \<in> set xs \<Longrightarrow> cmp x y = cmp' x y) \<Longrightarrow> js_sort cmp xs = js_sort cmp' xs"
proof (induction xs)
  case (Cons x xs)
  then have "js_sort cmp xs = js_sort cmp' xs" by auto
  moreover have "insort_by cmp x (js_sort cmp' xs) = insort_by cmp' x (js_sort cmp' xs)"
    using Cons.prems by (intro insort_by_cong) auto
  ultimately show ?case by (simp add: js_sort_def)
qed (simp add: js_sort_def)

lemma num_compare_value: "is_finite a \<Longrightarrow> is_finite b \<Longrightarrow> num_compare a b = value_compare a b"
  by (cases a; cases b) (auto simp: num_compare_def value_compare_def num_value_def is_finite_def)

lemma num_value_inj: "is_finite a \<Longrightarrow> is_finite b \<Longrightarrow> num_value a = num_value b \<longleftrightarrow> a = b"
  by (cases a; cases b) (auto simp: num_value_def is_finite_def)

lemma num_less_value: "is_finite a \<Longrightarrow> is_finite b \<Longrightarrow> num_less a b \<longleftrightarrow> num_value a < num_value b"
  by (cases a; cases b) (auto simp: num_value_def is_finite_def)

lemma sorted_strict:
  assumes "sorted_wrt (\<lambda>a b. value_compare a b \<le> 0) vs" "distinct vs" "\<forall>v\<in>set vs. is_finite v"
  shows "sorted_wrt num_less vs"
  using assms
proof (induction vs)
  case (Cons v vs)
  have "num_less v w" if "w \<in> set vs" for w
  proof -
    have "value_compare v w \<le> 0" "v \<noteq> w" "is_finite v" "is_finite w" using Cons.prems that by auto
    then show ?thesis
      using num_value_inj [of v w] num_less_value [of v w] by (auto simp: value_compare_def split: if_splits)
  qed
  with Cons show ?case by auto
qed simp

lemma sort_versions:
  assumes "distinct vs" "\<forall>v\<in>set vs. is_finite v"
  shows "sorted_wrt num_less (js_sort num_compare vs)" "set (js_sort num_compare vs) = set vs"
proof -
  have "js_sort num_compare vs = js_sort value_compare vs"
    using assms num_compare_value by (intro js_sort_cong) auto
  moreover have "distinct (js_sort value_compare vs)"
    using distinct_js_sort [of "\<lambda>x. x" value_compare vs] assms by simp
  ultimately show "sorted_wrt num_less (js_sort num_compare vs)"
    using assms sorted_strict [OF version_order.sort_sorted [of vs]] by simp
qed simp

lemma sort_found:
  assumes "distinct (map ff_version fs)" "\<forall>f\<in>set fs. is_finite (ff_version f)"
  shows "sorted_wrt num_less (map ff_version (js_sort found_compare fs))"
proof -
  have "js_sort found_compare fs = js_sort found_value_compare fs"
    using assms num_compare_value
    by (intro js_sort_cong) (auto simp: found_compare_def found_value_compare_def)
  moreover have "sorted_wrt (\<lambda>a b. value_compare a b \<le> 0) (map ff_version (js_sort found_value_compare fs))"
    unfolding sorted_wrt_map
    by (rule sorted_wrt_mono_rel [OF _ found_order.sort_sorted])
      (auto simp: found_value_le value_compare_def)
  moreover have "distinct (map ff_version (js_sort found_value_compare fs))"
    using assms by (simp add: distinct_js_sort)
  ultimately show ?thesis using assms sorted_strict by simp
qed

section \<open>The plan\<close>

definition step_conflicts :: "plan_step \<Rightarrow> migration_conflict list" where
  "step_conflicts st = (case st of StepConflict c \<Rightarrow> [c] | _ \<Rightarrow> [])"

definition step_applied :: "plan_step \<Rightarrow> migration_file list" where
  "step_applied st = (case st of StepApplied f \<Rightarrow> [f] | _ \<Rightarrow> [])"

definition step_pending :: "plan_step \<Rightarrow> migration_file list" where
  "step_pending st = (case st of StepPending f \<Rightarrow> [f] | _ \<Rightarrow> [])"

lemmas step_defs = step_conflicts_def step_applied_def step_pending_def

lemma plan_fold:
  "fold (\<lambda>v. add_step (f v)) vs p =
   \<lparr>mp_applied = mp_applied p @ map (\<lambda>m. \<lparr>pe_migration = m, pe_status = PlanApplied\<rparr>) (concat (map (step_applied \<circ> f) vs)),
    mp_conflicts = mp_conflicts p @ concat (map (step_conflicts \<circ> f) vs),
    mp_pending = mp_pending p @ map (\<lambda>m. \<lparr>pe_migration = m, pe_status = PlanPending\<rparr>) (concat (map (step_pending \<circ> f) vs))\<rparr>"
  by (induction vs arbitrary: p) (auto simp: add_step_def step_defs split: plan_step.splits)

definition ledger_of :: "applied_migration list \<Rightarrow> jnum \<Rightarrow> applied_migration list" where
  "ledger_of applied v = filter (\<lambda>r. am_version r = v) applied"

definition plan_versions :: "applied_migration list \<Rightarrow> migration_file list \<Rightarrow> jnum list" where
  "plan_versions applied local =
     js_sort num_compare (nub (map fst (dict_of mg_version local) @ map fst (group_by am_version (\<lambda>r. r) applied)))"

definition step_for :: "applied_migration list \<Rightarrow> migration_file list \<Rightarrow> jnum \<Rightarrow> plan_step" where
  "step_for applied local v =
     plan_version v (map_of (dict_of mg_version local) v) (ledger_of applied v)"

lemma plan_lists:
  "map pe_migration (mp_applied (plan_migrations applied local)) =
     concat (map (step_applied \<circ> step_for applied local) (plan_versions applied local))"
  "map pe_migration (mp_pending (plan_migrations applied local)) =
     concat (map (step_pending \<circ> step_for applied local) (plan_versions applied local))"
  "mp_conflicts (plan_migrations applied local) =
     concat (map (step_conflicts \<circ> step_for applied local) (plan_versions applied local))"
  unfolding plan_migrations_def Let_def plan_fold
  by (simp_all add: empty_plan_def plan_versions_def step_for_def [abs_def] group_by_lookup ledger_of_def comp_def)

lemma plan_versions_facts:
  assumes "\<forall>f\<in>set local. is_finite (mg_version f)" "\<forall>r\<in>set applied. is_finite (am_version r)"
    "distinct (map mg_version local)"
  shows "sorted_wrt num_less (plan_versions applied local)"
    "set (plan_versions applied local) = mg_version ` set local \<union> am_version ` set applied"
proof -
  let ?vs = "nub (map fst (dict_of mg_version local) @ map fst (group_by am_version (\<lambda>r. r) applied))"
  have vs: "set ?vs = mg_version ` set local \<union> am_version ` set applied"
    using assms(3) by (simp add: dict_of_distinct group_by_keys image_image)
  then have fin: "\<forall>v\<in>set ?vs. is_finite v" using assms by auto
  show "sorted_wrt num_less (plan_versions applied local)"
    unfolding plan_versions_def by (rule sort_versions(1) [OF distinct_nub fin])
  show "set (plan_versions applied local) = mg_version ` set local \<union> am_version ` set applied"
    using vs by (simp add: plan_versions_def)
qed

text \<open>A file agrees with the rows of its version when every one of them has its checksum.\<close>

definition agrees :: "migration_file \<Rightarrow> applied_migration list \<Rightarrow> bool" where
  "agrees f rows \<longleftrightarrow> (\<forall>r\<in>set rows. am_checksum r = mg_checksum f)"

lemma checksums_one:
  "1 < length (nub (map am_checksum rows)) \<longleftrightarrow> (\<exists>r\<in>set rows. \<exists>q\<in>set rows. am_checksum r \<noteq> am_checksum q)"
proof -
  let ?cs = "nub (map am_checksum rows)"
  have "length ?cs = card (am_checksum ` set rows)"
    using distinct_card [OF distinct_nub, of "map am_checksum rows"] by simp
  then have "\<not> 1 < length ?cs \<longleftrightarrow> (\<forall>x\<in>am_checksum ` set rows. \<forall>y\<in>am_checksum ` set rows. x = y)"
    by (simp add: not_less card_le_Suc0_iff_eq)
  also have "\<dots> \<longleftrightarrow> (\<forall>r\<in>set rows. \<forall>q\<in>set rows. am_checksum r = am_checksum q)" by simp
  finally show ?thesis by blast
qed

lemma plan_version_local:
  "plan_version v (Some f) rows =
     (if rows = [] then StepPending f
      else if agrees f rows then StepApplied f
      else StepConflict \<lparr>mc_applied = Some (hd rows), mc_kind = ChecksumMismatch, mc_local = Some f, mc_version = v\<rparr>)"
proof (cases rows)
  case (Cons r rs)
  show ?thesis
  proof (cases "agrees f rows")
    case True
    then have "am_checksum r = mg_checksum f" "\<not> 1 < length (nub (map am_checksum rows))"
      using Cons checksums_one [of rows] by (auto simp: agrees_def)
    moreover have "mg_checksum f \<in> am_checksum ` set rows"
      using True Cons by (force simp: agrees_def)
    ultimately show ?thesis using True Cons by (simp add: plan_version_def Let_def)
  next
    case False
    show ?thesis
    proof (cases "rs = []")
      case True
      then show ?thesis using False Cons by (simp add: plan_version_def Let_def agrees_def)
    next
      case rs: False
      have "1 < length (nub (map am_checksum rows)) \<or> mg_checksum f \<notin> am_checksum ` set rows"
      proof (rule ccontr)
        assume h: "\<not> ?thesis"
        then obtain q where "q \<in> set rows" "am_checksum q = mg_checksum f" by auto
        moreover from this h have "am_checksum r = am_checksum q" if "r \<in> set rows" for r
          using that unfolding checksums_one by blast
        ultimately show "False" using False unfolding agrees_def by metis
      qed
      then have "1 < length (nub (map am_checksum rows)) \<or> mg_checksum f \<notin> set (nub (map am_checksum rows))"
        by (simp only: set_nub set_map)
      moreover have "1 < length rows" "rows \<noteq> []" using rs Cons by simp_all
      ultimately show ?thesis using False
        by (simp only: plan_version_def Let_def option.case simp_thms if_True if_False)
    qed
  qed
qed (simp add: plan_version_def)

lemma plan_version_no_local:
  "plan_version v None rows =
     (if rows = [] then StepNothing
      else StepConflict \<lparr>mc_applied = Some (hd rows),
        mc_kind = (if 1 < length rows \<and> 1 < length (nub (map am_checksum rows)) then ChecksumMismatch else MissingLocal),
        mc_local = None, mc_version = v\<rparr>)"
  by (cases rows) (auto simp: plan_version_def Let_def)

lemma concat_keys:
  "(\<And>v. v \<in> set vs \<Longrightarrow> g v = [] \<or> (\<exists>x. g v = [x] \<and> key x = v)) \<Longrightarrow>
   map key (concat (map g vs)) = filter (\<lambda>v. g v \<noteq> []) vs"
proof (induction vs)
  case (Cons v vs)
  then have "map key (concat (map g vs)) = filter (\<lambda>v. g v \<noteq> []) vs" by simp
  moreover have "g v = [] \<or> (\<exists>x. g v = [x] \<and> key x = v)" by (rule Cons.prems) simp
  ultimately show ?case by (elim disjE exE conjE) simp_all
qed simp

text \<open>Histories the planner sees: finite versions, and one file for a version.\<close>

definition plannable :: "applied_migration list \<Rightarrow> migration_file list \<Rightarrow> bool" where
  "plannable applied local \<longleftrightarrow>
     distinct (map mg_version local) \<and> (\<forall>f\<in>set local. is_finite (mg_version f)) \<and>
     (\<forall>r\<in>set applied. is_finite (am_version r))"

lemma step_for_cases:
  assumes "distinct (map mg_version local)"
  obtains (Found) f where "f \<in> set local" "mg_version f = v"
      "step_for applied local v = plan_version v (Some f) (ledger_of applied v)"
  | (Missing) "v \<notin> mg_version ` set local"
      "step_for applied local v = plan_version v None (ledger_of applied v)"
proof (cases "map_of (dict_of mg_version local) v")
  case None
  then have "v \<notin> mg_version ` set local" using dict_of_None [OF assms] by blast
  then show ?thesis using Missing None by (simp add: step_for_def)
next
  case (Some f)
  then have "f \<in> set local" "mg_version f = v" using dict_of_lookup [OF assms, of v f] by auto
  then show ?thesis using Found Some by (simp add: step_for_def)
qed

lemma step_for_file:
  assumes "distinct (map mg_version local)" "f \<in> set local"
  shows "step_for applied local (mg_version f) = plan_version (mg_version f) (Some f) (ledger_of applied (mg_version f))"
  using dict_of_lookup [OF assms(1), of "mg_version f" f] assms(2) by (simp add: step_for_def)

lemma step_pending_iff:
  assumes "distinct (map mg_version local)"
  shows "f \<in> set (step_pending (step_for applied local v)) \<longleftrightarrow>
    f \<in> set local \<and> mg_version f = v \<and> ledger_of applied v = []"
proof
  assume f: "f \<in> set (step_pending (step_for applied local v))"
  from assms show "f \<in> set local \<and> mg_version f = v \<and> ledger_of applied v = []"
    by (cases rule: step_for_cases [where v = v and applied = applied])
      (use f in \<open>auto simp: plan_version_local plan_version_no_local step_pending_def split: if_splits\<close>)
next
  assume "f \<in> set local \<and> mg_version f = v \<and> ledger_of applied v = []"
  then show "f \<in> set (step_pending (step_for applied local v))"
    using step_for_file [OF assms, of f applied] by (auto simp: plan_version_local step_pending_def)
qed

lemma step_applied_iff:
  assumes "distinct (map mg_version local)"
  shows "f \<in> set (step_applied (step_for applied local v)) \<longleftrightarrow>
    f \<in> set local \<and> mg_version f = v \<and> ledger_of applied v \<noteq> [] \<and> agrees f (ledger_of applied v)"
proof
  assume f: "f \<in> set (step_applied (step_for applied local v))"
  from assms show "f \<in> set local \<and> mg_version f = v \<and> ledger_of applied v \<noteq> [] \<and> agrees f (ledger_of applied v)"
    by (cases rule: step_for_cases [where v = v and applied = applied])
      (use f in \<open>auto simp: plan_version_local plan_version_no_local step_applied_def split: if_splits\<close>)
next
  assume "f \<in> set local \<and> mg_version f = v \<and> ledger_of applied v \<noteq> [] \<and> agrees f (ledger_of applied v)"
  then show "f \<in> set (step_applied (step_for applied local v))"
    using step_for_file [OF assms, of f applied] by (auto simp: plan_version_local step_applied_def)
qed

lemma step_conflicts_iff:
  assumes "distinct (map mg_version local)"
  shows "step_conflicts (step_for applied local v) \<noteq> [] \<longleftrightarrow>
    ledger_of applied v \<noteq> [] \<and> \<not> (\<exists>f\<in>set local. mg_version f = v \<and> agrees f (ledger_of applied v))"
  using assms
proof (cases rule: step_for_cases [where v = v and applied = applied])
  case (Found f)
  have "inj_on mg_version (set local)" using assms by (simp add: distinct_map)
  then have "g = f" if "g \<in> set local" "mg_version g = v" for g
    using that Found(1,2) by (auto dest: inj_onD)
  then have "(\<exists>g\<in>set local. mg_version g = v \<and> agrees g (ledger_of applied v)) \<longleftrightarrow> agrees f (ledger_of applied v)"
    using Found(1,2) by metis
  then show ?thesis
    unfolding Found(3) plan_version_local by (simp add: step_conflicts_def)
next
  case Missing
  then have "\<not> (\<exists>g\<in>set local. mg_version g = v \<and> agrees g (ledger_of applied v))" by blast
  then show ?thesis
    unfolding Missing(2) plan_version_no_local by (simp add: step_conflicts_def)
qed

lemma step_version:
  assumes "distinct (map mg_version local)"
  shows "step_pending (step_for applied local v) = [] \<or>
      (\<exists>f. step_pending (step_for applied local v) = [f] \<and> mg_version f = v)"
    "step_applied (step_for applied local v) = [] \<or>
      (\<exists>f. step_applied (step_for applied local v) = [f] \<and> mg_version f = v)"
    "step_conflicts (step_for applied local v) = [] \<or>
      (\<exists>c. step_conflicts (step_for applied local v) = [c] \<and> mc_version c = v)"
proof -
  have "(\<exists>c. step_for applied local v = StepConflict c \<and> mc_version c = v) \<or>
      (\<exists>f. step_for applied local v = StepApplied f \<and> mg_version f = v) \<or>
      (\<exists>f. step_for applied local v = StepPending f \<and> mg_version f = v) \<or>
      step_for applied local v = StepNothing"
    using assms
  proof (cases rule: step_for_cases [where v = v and applied = applied])
    case (Found f)
    show ?thesis
      unfolding Found(3) plan_version_local using Found(2)
      by (cases "ledger_of applied v = []"; cases "agrees f (ledger_of applied v)") auto
  next
    case Missing
    show ?thesis
      unfolding Missing(2) plan_version_no_local by (cases "ledger_of applied v = []") auto
  qed
  then show "step_pending (step_for applied local v) = [] \<or>
      (\<exists>f. step_pending (step_for applied local v) = [f] \<and> mg_version f = v)"
    "step_applied (step_for applied local v) = [] \<or>
      (\<exists>f. step_applied (step_for applied local v) = [f] \<and> mg_version f = v)"
    "step_conflicts (step_for applied local v) = [] \<or>
      (\<exists>c. step_conflicts (step_for applied local v) = [c] \<and> mc_version c = v)"
    by (auto simp: step_defs)
qed

definition pending_files :: "migration_plan \<Rightarrow> migration_file list" where
  "pending_files plan = map pe_migration (mp_pending plan)"

definition applied_files :: "migration_plan \<Rightarrow> migration_file list" where
  "applied_files plan = map pe_migration (mp_applied plan)"

lemma plan_sorted:
  assumes "plannable applied local"
  shows "sorted_wrt num_less (map mg_version (pending_files (plan_migrations applied local)))"
    "sorted_wrt num_less (map mg_version (applied_files (plan_migrations applied local)))"
    "sorted_wrt num_less (map mc_version (mp_conflicts (plan_migrations applied local)))"
proof -
  have d: "distinct (map mg_version local)" and s: "sorted_wrt num_less (plan_versions applied local)"
    using assms plan_versions_facts(1) by (auto simp: plannable_def)
  note v = step_version [OF d, of applied]
  show "sorted_wrt num_less (map mg_version (pending_files (plan_migrations applied local)))"
    unfolding pending_files_def plan_lists by (subst concat_keys) (use v(1) s in \<open>auto intro: sorted_wrt_filter\<close>)
  show "sorted_wrt num_less (map mg_version (applied_files (plan_migrations applied local)))"
    unfolding applied_files_def plan_lists by (subst concat_keys) (use v(2) s in \<open>auto intro: sorted_wrt_filter\<close>)
  show "sorted_wrt num_less (map mc_version (mp_conflicts (plan_migrations applied local)))"
    unfolding plan_lists by (subst concat_keys) (use v(3) s in \<open>auto intro: sorted_wrt_filter\<close>)
qed

lemma ledger_version: "ledger_of applied v \<noteq> [] \<longleftrightarrow> v \<in> am_version ` set applied"
  by (auto simp: ledger_of_def filter_empty_conv)

lemma plan_sets:
  assumes "plannable applied local"
  shows "set (pending_files (plan_migrations applied local)) =
      {f \<in> set local. ledger_of applied (mg_version f) = []}"
    "set (applied_files (plan_migrations applied local)) =
      {f \<in> set local. ledger_of applied (mg_version f) \<noteq> [] \<and> agrees f (ledger_of applied (mg_version f))}"
    "mc_version ` set (mp_conflicts (plan_migrations applied local)) =
      {v. ledger_of applied v \<noteq> [] \<and> \<not> (\<exists>f\<in>set local. mg_version f = v \<and> agrees f (ledger_of applied v))}"
proof -
  have d: "distinct (map mg_version local)" using assms by (simp add: plannable_def)
  have vs: "set (plan_versions applied local) = mg_version ` set local \<union> am_version ` set applied"
    using assms plan_versions_facts(2) by (auto simp: plannable_def)
  show "set (pending_files (plan_migrations applied local)) =
      {f \<in> set local. ledger_of applied (mg_version f) = []}"
    unfolding pending_files_def plan_lists using vs step_pending_iff [OF d] by auto
  show "set (applied_files (plan_migrations applied local)) =
      {f \<in> set local. ledger_of applied (mg_version f) \<noteq> [] \<and> agrees f (ledger_of applied (mg_version f))}"
    unfolding applied_files_def plan_lists using vs step_applied_iff [OF d] by auto
  have "mc_version ` set (mp_conflicts (plan_migrations applied local)) =
      set (map mc_version (concat (map (step_conflicts \<circ> step_for applied local) (plan_versions applied local))))"
    by (simp add: plan_lists)
  also have "\<dots> = {v \<in> set (plan_versions applied local). step_conflicts (step_for applied local v) \<noteq> []}"
    by (subst concat_keys) (use step_version(3) [OF d] in auto)
  also have "\<dots> = {v. ledger_of applied v \<noteq> [] \<and> \<not> (\<exists>f\<in>set local. mg_version f = v \<and> agrees f (ledger_of applied v))}"
    using vs step_conflicts_iff [OF d] ledger_version by auto
  finally show "mc_version ` set (mp_conflicts (plan_migrations applied local)) =
      {v. ledger_of applied v \<noteq> [] \<and> \<not> (\<exists>f\<in>set local. mg_version f = v \<and> agrees f (ledger_of applied v))}" .
qed

section \<open>Discovery\<close>

definition migration_entries :: "string list \<Rightarrow> string list" where
  "migration_entries entries = filter (\<lambda>e. \<not> should_ignore_entry e) entries"

definition found_of :: "string \<Rightarrow> string \<Rightarrow> found_file list" where
  "found_of absolute e =
     (case parse_migration_filename e of
        None \<Rightarrow> []
      | Some (name, version) \<Rightarrow>
          [\<lparr>ff_filename = e, ff_name = name, ff_path = path_join absolute e, ff_version = version\<rparr>])"

lemma scan_entries_eq:
  "scan_entries directory absolute entries =
     (concat (map (found_of absolute) (migration_entries entries)),
      map (display_path directory) (filter (\<lambda>e. parse_migration_filename e = None) (migration_entries entries)))"
proof -
  have "fold (scan_entry directory absolute) entries (fs, ms) =
     (fs @ concat (map (found_of absolute) (migration_entries entries)),
      ms @ map (display_path directory) (filter (\<lambda>e. parse_migration_filename e = None) (migration_entries entries)))"
    for fs ms
    by (induction entries arbitrary: fs ms)
      (auto simp: migration_entries_def scan_entry_def found_of_def split: option.split)
  then show ?thesis by (simp add: scan_entries_def)
qed

lemma parsed_version: "parse_migration_filename e = Some (name, v) \<Longrightarrow> is_finite v"
  by (auto simp: parse_migration_filename_def Let_def split: option.splits if_splits)

lemma found_entries:
  assumes "\<And>e. e \<in> set es \<Longrightarrow> parse_migration_filename e \<noteq> None"
  shows "map ff_filename (concat (map (found_of absolute) es)) = es"
proof -
  have "found_of absolute e = [] \<or> (\<exists>f. found_of absolute e = [f] \<and> ff_filename f = e)" for e
    by (auto simp: found_of_def split: option.splits)
  then have "map ff_filename (concat (map (found_of absolute) es)) = filter (\<lambda>e. found_of absolute e \<noteq> []) es"
    by (rule concat_keys)
  also have "\<dots> = es" using assms by (intro filter_True) (auto simp: found_of_def split: option.splits)
  finally show ?thesis .
qed

lemma found_item:
  "f \<in> set (concat (map (found_of absolute) es)) \<Longrightarrow>
   ff_filename f \<in> set es \<and> ff_path f = path_join absolute (ff_filename f) \<and>
   parse_migration_filename (ff_filename f) = Some (ff_name f, ff_version f)"
  by (auto simp: found_of_def split: option.splits)

lemma loaded:
  "load_migration checksum fs item = Inr f \<longleftrightarrow>
   (\<exists>sql. fs_read fs (ff_path item) = Inr sql \<and> \<not> has_control (strip_sql sql) \<and>
     f = \<lparr>mg_checksum = checksum sql, mg_filename = ff_filename item, mg_name = ff_name item,
          mg_path = ff_path item, mg_sql = sql, mg_version = ff_version item\<rparr>)"
  using guard_passes by (auto simp: load_migration_def rbind_eq_Inr ex_unit split: sum.splits)

definition discovered :: "(string \<Rightarrow> string) \<Rightarrow> file_system \<Rightarrow> string \<Rightarrow> string list \<Rightarrow> migration_file list \<Rightarrow> bool" where
  "discovered checksum fs absolute entries files \<longleftrightarrow>
     (\<forall>e\<in>set (migration_entries entries). parse_migration_filename e \<noteq> None) \<and>
     distinct (map (\<lambda>e. snd (the (parse_migration_filename e))) (migration_entries entries)) \<and>
     list_all2 (\<lambda>item f. load_migration checksum fs item = Inr f)
       (js_sort found_compare (concat (map (found_of absolute) (migration_entries entries)))) files"

lemma found_versions:
  assumes "\<And>e. e \<in> set es \<Longrightarrow> parse_migration_filename e \<noteq> None"
  shows "map ff_version (concat (map (found_of absolute) es)) = map (\<lambda>e. snd (the (parse_migration_filename e))) es"
  using assms
proof (induction es)
  case (Cons e es)
  then have "parse_migration_filename e \<noteq> None" by simp
  with Cons show ?case by (auto simp: found_of_def split: option.splits)
qed simp

lemma discover_directory:
  assumes "fs_stat fs (path_resolve process_cwd (get_or cwd process_cwd) directory) = Inr True"
    "fs_readdir fs (path_resolve process_cwd (get_or cwd process_cwd) directory) = Inr entries"
  shows "discover_migrations checksum fs process_cwd cwd directory = Inr files \<longleftrightarrow>
    discovered checksum fs (path_resolve process_cwd (get_or cwd process_cwd) directory) entries files"
proof -
  let ?abs = "path_resolve process_cwd (get_or cwd process_cwd) directory"
  let ?es = "migration_entries entries"
  let ?found = "concat (map (found_of ?abs) ?es)"
  have "filter (\<lambda>e. parse_migration_filename e = None) ?es = [] \<longleftrightarrow>
      (\<forall>e\<in>set ?es. parse_migration_filename e \<noteq> None)" by (auto simp: filter_empty_conv)
  moreover have "duplicates_of directory ?found = [] \<longleftrightarrow>
      distinct (map (\<lambda>e. snd (the (parse_migration_filename e))) ?es)"
    if "\<forall>e\<in>set ?es. parse_migration_filename e \<noteq> None"
    using no_duplicates [of ff_version "\<lambda>f. display_path directory (ff_filename f)" ?found]
      found_versions [of ?es ?abs] that by (simp add: duplicates_of_def)
  ultimately show ?thesis
    using assms by (auto simp: discover_migrations_def Let_def scan_entries_eq discovered_def map_r_Inr_iff)
qed

lemma discovered_files:
  assumes "discovered checksum fs absolute entries files"
  shows "mset (map mg_filename files) = mset (migration_entries entries)"
    "sorted_wrt num_less (map mg_version files)"
    "f \<in> set files \<Longrightarrow>
       parse_migration_filename (mg_filename f) = Some (mg_name f, mg_version f) \<and>
       mg_path f = path_join absolute (mg_filename f) \<and> fs_read fs (mg_path f) = Inr (mg_sql f) \<and>
       mg_checksum f = checksum (mg_sql f) \<and> \<not> has_control (strip_sql (mg_sql f))"
proof -
  let ?es = "migration_entries entries"
  let ?found = "concat (map (found_of absolute) ?es)"
  have parsed: "\<And>e. e \<in> set ?es \<Longrightarrow> parse_migration_filename e \<noteq> None"
    and dist: "distinct (map ff_version ?found)"
    and load: "list_all2 (\<lambda>item f. load_migration checksum fs item = Inr f) (js_sort found_compare ?found) files"
    using assms found_versions [of ?es absolute] by (auto simp: discovered_def)
  have names: "map mg_filename files = map ff_filename (js_sort found_compare ?found)"
    and versions: "map mg_version files = map ff_version (js_sort found_compare ?found)"
    using load by (induction rule: list_all2_induct) (auto simp: loaded)
  show "mset (map mg_filename files) = mset ?es"
  proof -
    have "mset (map mg_filename files) = mset (map ff_filename ?found)"
      unfolding names by (simp only: mset_map mset_js_sort)
    then show ?thesis using found_entries [OF parsed, of ?es absolute] by simp
  qed
  show "sorted_wrt num_less (map mg_version files)"
    unfolding versions using dist found_item parsed_version by (intro sort_found) blast+
  show "f \<in> set files \<Longrightarrow>
       parse_migration_filename (mg_filename f) = Some (mg_name f, mg_version f) \<and>
       mg_path f = path_join absolute (mg_filename f) \<and> fs_read fs (mg_path f) = Inr (mg_sql f) \<and>
       mg_checksum f = checksum (mg_sql f) \<and> \<not> has_control (strip_sql (mg_sql f))"
  proof -
    assume "f \<in> set files"
    then obtain item where "item \<in> set (js_sort found_compare ?found)" "load_migration checksum fs item = Inr f"
      using load unfolding list_all2_conv_all_nth in_set_conv_nth by metis
    then have item: "item \<in> set ?found" "load_migration checksum fs item = Inr f"
      by (simp_all only: set_js_sort)
    show ?thesis using found_item [OF item(1)] item(2) unfolding loaded by auto
  qed
qed

end
