(* ===== verification/MigrationLedger.thy ===== *)
theory MigrationLedger
  imports MigrationRunner MigrationFacts
begin

text \<open>
  What the calls of a migration run do to the database: the transcript pairs every call with
  whether it was accepted, and \<open>committed\<close> replays a transcript as a database with transactions
  does. Nothing here refers to how the runner makes its calls; the row of the ledger is read from
  the text and the values of the INSERT. A text that ends the transaction itself without one of
  the phrases the guard looks for is outside this reading.
\<close>

section \<open>Transcripts\<close>

definition accepts :: "environment \<Rightarrow> mig_call list \<Rightarrow> mig_call \<Rightarrow> bool" where
  "accepts en sent w =
     (case w of
        AuthPlan i \<Rightarrow> succeeds (en_auth_plan en sent i)
      | AuthMigrate \<Rightarrow> succeeds (en_auth_act en sent w)
      | AuthRepair d \<Rightarrow> succeeds (en_auth_act en sent w)
      | Confirm t \<Rightarrow> en_confirm en sent
      | _ \<Rightarrow> succeeds (en_db en sent w))"

type_synonym transcript = "(mig_call \<times> bool) list"

primrec transcript_from :: "environment \<Rightarrow> mig_call list \<Rightarrow> mig_call list \<Rightarrow> transcript" where
  "transcript_from en sent [] = []"
| "transcript_from en sent (w # ws) = (w, accepts en sent w) # transcript_from en (sent @ [w]) ws"

definition transcript_of :: "environment \<Rightarrow> mig_call list \<Rightarrow> transcript" where
  "transcript_of en ws = transcript_from en [] ws"

lemma transcript_from_append [simp]:
  "transcript_from en sent (us @ vs) = transcript_from en sent us @ transcript_from en (sent @ us) vs"
  by (induction us arbitrary: sent) simp_all

lemma transcript_append: "transcript_of en (us @ vs) = transcript_of en us @ transcript_from en us vs"
  by (simp add: transcript_of_def)

lemma transcript_calls [simp]: "map fst (transcript_from en sent ws) = ws" "map fst (transcript_of en ws) = ws"
proof -
  show "map fst (transcript_from en sent ws) = ws" for sent by (induction ws arbitrary: sent) simp_all
  then show "map fst (transcript_of en ws) = ws" by (simp add: transcript_of_def)
qed

lemma transcript_from_Nil [simp]: "transcript_from en sent ws = [] \<longleftrightarrow> ws = []"
  by (cases ws) simp_all

lemma transcript_from_Cons [simp]:
  "transcript_from en sent ws = (w, ok) # cs \<longleftrightarrow>
   (\<exists>us. ws = w # us \<and> ok = accepts en sent w \<and> transcript_from en (sent @ [w]) us = cs)"
  by (cases ws) auto

lemma transcript_all: "list_all P ws \<Longrightarrow> list_all (\<lambda>c. P (fst c)) (transcript_from en sent ws)"
  by (induction ws arbitrary: sent) simp_all

section \<open>Transactions\<close>

text \<open>
  What a statement does: it runs a text, or it records version, name, checksum and time of a
  migration in the ledger.
\<close>

datatype db_effect = Ran string "jval list" | Recorded jnum string string jnum

definition effect_of :: "string \<Rightarrow> jval list \<Rightarrow> db_effect" where
  "effect_of sql params =
     (if sql = js_lines
          [''INSERT INTO athena.schema_migrations (version, name, checksum, execution_ms)'', ''VALUES ($1, $2, $3, $4)'']
      then
        (case params of
           [JNum version, JStr name, JStr checksum, JNum ms] \<Rightarrow> Recorded version name checksum ms
         | _ \<Rightarrow> Ran sql params)
      else Ran sql params)"

datatype tx_state = Idle | Open "db_effect list" | Aborted

text \<open>
  A refused statement aborts an open transaction, and what ends an aborted one undoes it, COMMIT
  included. Outside transactions only BEGIN matters here.
\<close>

definition tx_query :: "bool \<Rightarrow> string \<Rightarrow> jval list \<Rightarrow> db_effect list \<times> tx_state \<Rightarrow> db_effect list \<times> tx_state" where
  "tx_query ok sql params st =
     (case st of
        (es, Idle) \<Rightarrow> (es, if ok \<and> sql = ''BEGIN'' then Open [] else Idle)
      | (es, Open new) \<Rightarrow>
          if \<not> ok then (es, Aborted)
          else if sql = ''COMMIT'' then (es @ new, Idle)
          else if sql = ''ROLLBACK'' then (es, Idle)
          else (es, Open (new @ [effect_of sql params]))
      | (es, Aborted) \<Rightarrow> (es, if ok \<and> sql \<in> {''COMMIT'', ''ROLLBACK''} then Idle else Aborted))"

definition tx_call :: "mig_call \<times> bool \<Rightarrow> db_effect list \<times> tx_state \<Rightarrow> db_effect list \<times> tx_state" where
  "tx_call c st = (case c of (Query sql params, ok) \<Rightarrow> tx_query ok sql params st | _ \<Rightarrow> st)"

definition committed :: "transcript \<Rightarrow> db_effect list" where
  "committed cs = fst (fold tx_call cs ([], Idle))"

text \<open>The rows a transcript leaves in the ledger.\<close>

type_synonym ledger_entry = "jnum \<times> string \<times> string \<times> jnum"

definition entry_of :: "db_effect \<Rightarrow> ledger_entry list" where
  "entry_of e = (case e of Recorded v n c k \<Rightarrow> [(v, n, c, k)] | Ran _ _ \<Rightarrow> [])"

definition recorded_rows :: "transcript \<Rightarrow> ledger_entry list" where
  "recorded_rows cs = concat (map entry_of (committed cs))"

definition row_values :: "'a applied_migration_scheme \<Rightarrow> ledger_entry" where
  "row_values r = (am_version r, am_name r, am_checksum r, am_execution_ms r)"

section \<open>The effect of a migration\<close>

text \<open>The text of the file and, in the same transaction, its row.\<close>

definition migration_effects :: "migration_file \<Rightarrow> int \<Rightarrow> db_effect list" where
  "migration_effects m ms =
     [Ran (mg_sql m) [], Recorded (mg_version m) (mg_name m) (mg_checksum m) (jint ms)]"

definition transaction_calls :: "migration_file \<Rightarrow> int \<Rightarrow> mig_call list" where
  "transaction_calls m ms =
     [Query ''BEGIN'' [], Query (mg_sql m) [],
      Query (js_lines
          [''INSERT INTO athena.schema_migrations (version, name, checksum, execution_ms)'', ''VALUES ($1, $2, $3, $4)''])
        [JNum (mg_version m), JStr (mg_name m), JStr (mg_checksum m), JNum (jint ms)],
      Query ''COMMIT'' []]"

definition all_accepted :: "mig_call list \<Rightarrow> transcript" where
  "all_accepted ws = map (\<lambda>w. (w, True)) ws"

definition guarded :: "migration_file \<Rightarrow> bool" where
  "guarded m \<longleftrightarrow> succeeds (assert_migration_sql_allows_outer_transaction (mg_sql m) (mg_filename m))"

lemma guarded_text: "guarded m \<Longrightarrow> mg_sql m \<noteq> ''COMMIT''" "guarded m \<Longrightarrow> mg_sql m \<noteq> ''ROLLBACK''"
proof -
  have "find_transaction_control_statement ''COMMIT'' \<noteq> None" "find_transaction_control_statement ''ROLLBACK'' \<noteq> None"
    by code_simp+
  then show "guarded m \<Longrightarrow> mg_sql m \<noteq> ''COMMIT''" "guarded m \<Longrightarrow> mg_sql m \<noteq> ''ROLLBACK''"
    by (auto simp: guarded_def assert_migration_sql_allows_outer_transaction_def split: option.splits)
qed

lemma plain_effect: "effect_of sql [] = Ran sql []"
  by (simp add: effect_of_def)

lemma tx_transaction:
  assumes "guarded m"
  shows "fold tx_call (all_accepted (transaction_calls m ms)) (es, Idle) = (es @ migration_effects m ms, Idle)"
  using guarded_text [OF assms]
  by (simp add: all_accepted_def transaction_calls_def tx_call_def tx_query_def plain_effect migration_effects_def)
    (simp add: effect_of_def js_lines_def)

text \<open>An attempt whose first \<open>n\<close> calls are accepted and the next is not, and which is then rolled back.\<close>

definition failed_attempt :: "migration_file \<Rightarrow> int \<Rightarrow> nat \<Rightarrow> bool \<Rightarrow> transcript" where
  "failed_attempt m ms n ok =
     all_accepted (take n (transaction_calls m ms)) @ [(transaction_calls m ms ! n, False), (Query ''ROLLBACK'' [], ok)]"

lemma tx_failed:
  assumes "guarded m" "n \<in> {1, 2, 3}"
  shows "\<exists>t. fold tx_call (failed_attempt m ms n ok) (es, Idle) = (es, t) \<and> t \<in> {Idle, Aborted}"
  using assms(2) guarded_text [OF assms(1)]
  by (auto simp: failed_attempt_def all_accepted_def transaction_calls_def tx_call_def tx_query_def numeral_eq_Suc js_lines_def)

text \<open>Calls that begin no transaction change nothing outside one.\<close>

lemma tx_frame:
  assumes "list_all (\<lambda>c. case fst c of Query sql ps \<Rightarrow> sql \<notin> {''BEGIN'', ''COMMIT'', ''ROLLBACK''} | _ \<Rightarrow> True) cs"
    and "t \<in> {Idle, Aborted}"
  shows "fold tx_call cs (es, t) = (es, t)"
  using assms by (induction cs) (auto simp: tx_call_def tx_query_def split: mig_call.splits)

lemma tx_batch:
  assumes "list_all guarded ms" "length ks = length ms"
  shows "fold tx_call (concat (map2 (\<lambda>m k. all_accepted (transaction_calls m k)) ms ks)) (es, Idle) =
    (es @ concat (map2 migration_effects ms ks), Idle)"
  using assms
  by (induction ms ks arbitrary: es rule: list_induct2') (simp_all add: tx_transaction)

lemma entries_batch:
  "length ks = length ms \<Longrightarrow>
   concat (map entry_of (concat (map2 migration_effects ms ks))) =
   map2 (\<lambda>m k. (mg_version m, mg_name m, mg_checksum m, jint k)) ms ks"
  by (induction ms ks rule: list_induct2') (simp_all add: migration_effects_def entry_of_def)

end
