(* ===== verification/MigrationTraces.thy ===== *)
theory MigrationTraces
  imports MigrationLedger
begin

text \<open>
  What a migration run sends. \<open>sends P\<close> bounds the calls of a program on every path;
  \<open>traces en L\<close> relates the result of a program that runs with a connection to exactly the calls
  it made and whether each was accepted. The connection, the pool and the lock are tied to the answers the calls had.
\<close>

section \<open>Bounds on the calls\<close>

definition extends_by :: "(mig_call \<Rightarrow> bool) \<Rightarrow> mig_state \<Rightarrow> mig_state \<Rightarrow> bool" where
  "extends_by P s s' \<longleftrightarrow> (\<exists>ws. ms_log s' = ms_log s @ ws \<and> list_all P ws)"

abbreviation sends :: "(mig_call \<Rightarrow> bool) \<Rightarrow> 'a mig_act \<Rightarrow> bool" where
  "sends P m \<equiv> relates (extends_by P) m"

lemma extends_refl [act_rel_intros]: "reflp (extends_by P)"
  by (simp add: reflp_def extends_by_def)

lemma extends_trans [act_rel_intros]: "transp (extends_by P)"
  by (rule transpI) (fastforce simp: extends_by_def)

lemma sends_db [act_rel_intros]: "P w \<Longrightarrow> sends P (db_call en w)"
  by (simp add: relates_def extends_by_def db_call_def note_call_def)

lemma sends_query [act_rel_intros]: "P (Query sql ps) \<Longrightarrow> sends P (run_query en sql ps)"
  unfolding run_query_def by (rule sends_db)

lemma sends_load [act_rel_intros]: "P (AuthPlan i) \<Longrightarrow> sends P (load_auth_plan en i)"
  by (simp add: relates_def extends_by_def load_auth_plan_def note_call_def)

lemma sends_auth [act_rel_intros]: "P w \<Longrightarrow> sends P (auth_act en w)"
  by (simp add: relates_def extends_by_def auth_act_def note_call_def)

lemma sends_show [act_rel_intros]: "sends P (show_ui u)"
  by (simp add: show_ui_def relates_def extends_by_def act_modify_def)

lemma sends_clock [act_rel_intros]: "sends P (current_time en)"
  unfolding current_time_def by (intro act_rel_intros)

lemma sends_flags [act_rel_intros]:
  "sends P (act_modify (\<lambda>s. s\<lparr>ms_pool := b\<rparr>))"
  "sends P (act_modify (\<lambda>s. s\<lparr>ms_client := b\<rparr>))"
  "sends P (act_modify (\<lambda>s. s\<lparr>ms_lock := b\<rparr>))"
  by (simp_all add: relates_def extends_by_def act_modify_def)

lemma sends_ensure [act_rel_intros]: "P OpenPool \<Longrightarrow> P ConnectPool \<Longrightarrow> sends P (ensure_client en)"
  unfolding ensure_client_def by (intro act_rel_intros) (auto intro!: act_rel_intros)

definition opening_calls :: "mig_call set" where
  "opening_calls = {OpenPool, ConnectPool, Query lock_sql lock_keys}"

definition closing_calls :: "mig_call set" where
  "closing_calls = {Query unlock_sql lock_keys, ReleaseConnection, EndPool}"

definition inspection_calls :: "mig_call set" where
  "inspection_calls = insert (Query list_applied_sql []) (range AuthPlan)"

text \<open>Everything but migrations, their transactions and the Auth schema.\<close>

definition reading_call :: "mig_call \<Rightarrow> bool" where
  "reading_call w \<longleftrightarrow> w \<in> opening_calls \<union> closing_calls \<union> inspection_calls"

lemma sends_acquire [act_rel_intros]: "(\<And>w. w \<in> opening_calls \<Longrightarrow> P w) \<Longrightarrow> sends P (acquire_lock en)"
  unfolding acquire_lock_def by (intro act_rel_intros) (simp_all add: opening_calls_def)

lemma sends_list [act_rel_intros]:
  "P OpenPool \<Longrightarrow> P ConnectPool \<Longrightarrow> P (Query list_applied_sql []) \<Longrightarrow> sends P (list_applied_migrations en)"
  unfolding list_applied_migrations_def by (intro act_rel_intros) (auto intro!: act_rel_intros)

lemma sends_lenient [act_rel_intros]: "P (AuthPlan i) \<Longrightarrow> sends P (load_auth_plan_leniently en i)"
  unfolding load_auth_plan_leniently_def
  by (intro act_rel_intros) (auto split: mig_exn.splits intro!: act_rel_intros)

lemma sends_report [act_rel_intros]: "sends P (render_report cfg plan auth out ds)"
  unfolding render_report_def by (intro act_rel_intros)

lemma sends_inspect [act_rel_intros]: "sends P (run_inspect cfg mode dry plan auth)"
  unfolding run_inspect_def Let_def by (intro act_rel_intros) (auto intro!: act_rel_intros)

lemma sends_dry [act_rel_intros]: "sends P (run_dry cfg dry plan auth)"
  unfolding run_dry_def Let_def by (intro act_rel_intros)

lemma sends_release [act_rel_intros]: "P (Query unlock_sql lock_keys) \<Longrightarrow> sends P (release_lock en)"
  unfolding release_lock_def by (intro act_rel_intros) (auto intro!: act_rel_intros)

lemma sends_close [act_rel_intros]: "(\<And>w. w \<in> closing_calls \<Longrightarrow> P w) \<Longrightarrow> sends P (close_backend en)"
  unfolding close_backend_def by (intro act_rel_intros) (auto simp: closing_calls_def intro!: act_rel_intros)

lemma sends_assert [act_rel_intros]: "sends P (assert_direct_postgres cfg)"
  unfolding assert_direct_postgres_def by (auto intro!: act_rel_intros)

lemma inspection_reads:
  assumes "run_mode_of opts \<in> {ModeStatus, ModePlan, ModeDryRun}"
  shows "sends reading_call (run_migrations en cfg opts discovery)"
proof -
  have r: "reading_call OpenPool" "reading_call ConnectPool" "reading_call (Query list_applied_sql [])"
    "\<And>i. reading_call (AuthPlan i)"
    "\<And>w. w \<in> opening_calls \<Longrightarrow> reading_call w" "\<And>w. w \<in> closing_calls \<Longrightarrow> reading_call w"
    by (auto simp: reading_call_def opening_calls_def inspection_calls_def)
  have planned: "sends reading_call (run_planned en cfg opts (run_mode_of opts) dry local plan)" for dry local plan
    unfolding run_planned_def using assms by (auto intro!: act_rel_intros r)
  have body: "sends reading_call (migrate_body en cfg opts local)" for local
    unfolding migrate_body_def using assms by (intro act_rel_intros r) (auto intro!: act_rel_intros r planned)
  show ?thesis
    unfolding run_migrations_def by (auto split: sum.split intro!: act_rel_intros body r)
qed

section \<open>Exact traces\<close>

definition traces :: "environment \<Rightarrow> ((mig_exn, 'a) result \<Rightarrow> transcript \<Rightarrow> bool) \<Rightarrow> 'a mig_act \<Rightarrow> bool" where
  "traces en L m \<longleftrightarrow>
     (\<forall>s r s'. ms_client s \<longrightarrow> m s = (r, s') \<longrightarrow>
       ms_client s' \<and> (\<exists>ws. ms_log s' = ms_log s @ ws \<and> L r (transcript_from en (ms_log s) ws)))"

lemma tracesI:
  assumes h: "\<And>s. ms_client s \<Longrightarrow>
    ms_client (snd (m s)) \<and> (\<exists>ws. ms_log (snd (m s)) = ms_log s @ ws \<and> L (fst (m s)) (transcript_from en (ms_log s) ws))"
  shows "traces en L m"
  unfolding traces_def
proof (intro allI impI)
  fix s r s'
  assume "ms_client s" and m: "m s = (r, s')"
  from h [OF this(1)] show "ms_client s' \<and> (\<exists>ws. ms_log s' = ms_log s @ ws \<and> L r (transcript_from en (ms_log s) ws))"
    by (simp add: m)
qed

lemma tracesD:
  "traces en L m \<Longrightarrow> m s = (r, s') \<Longrightarrow> ms_client s \<Longrightarrow>
   ms_client s' \<and> (\<exists>ws. ms_log s' = ms_log s @ ws \<and> L r (transcript_from en (ms_log s) ws))"
  unfolding traces_def by blast

lemma traces_mono: "traces en L m \<Longrightarrow> (\<And>r ws. L r ws \<Longrightarrow> K r ws) \<Longrightarrow> traces en K m"
  unfolding traces_def by blast

text \<open>Sequencing concatenates; a failure ends the trace.\<close>

definition then_traces where
  "then_traces L K r ws \<longleftrightarrow>
     (\<exists>e. r = Inl e \<and> L (Inl e) ws) \<or> (\<exists>x u v. L (Inr x) u \<and> K x r v \<and> ws = u @ v)"

lemma traces_bind:
  assumes m: "traces en L m" and f: "\<And>x. traces en (K x) (f x)"
  shows "traces en (then_traces L K) (act_bind m f)"
  unfolding traces_def
proof (intro allI impI)
  fix s r s'
  assume c: "ms_client s" and b: "act_bind m f s = (r, s')"
  obtain r1 s1 where ms: "m s = (r1, s1)" by fastforce
  then obtain u where u: "ms_client s1" "ms_log s1 = ms_log s @ u" "L r1 (transcript_from en (ms_log s) u)"
    using tracesD [OF m ms c] by blast
  show "ms_client s' \<and> (\<exists>ws. ms_log s' = ms_log s @ ws \<and> then_traces L K r (transcript_from en (ms_log s) ws))"
  proof (cases r1)
    case (Inl e)
    then show ?thesis using b ms u by (auto simp: act_bind_def then_traces_def)
  next
    case (Inr x)
    then have "f x s1 = (r, s')" using b ms by (simp add: act_bind_def)
    from tracesD [OF f this u(1)] obtain v where v: "ms_client s'" "ms_log s' = ms_log s1 @ v"
      "K x r (transcript_from en (ms_log s1) v)" by blast
    then have "then_traces L K r (transcript_from en (ms_log s) (u @ v))" using u Inr unfolding then_traces_def by auto
    with u v show ?thesis by auto
  qed
qed

lemma traces_catch:
  assumes m: "traces en L m" and h: "\<And>e. traces en (K e) (h e)"
  shows "traces en
    (\<lambda>r ws. (\<exists>x. r = Inr x \<and> L (Inr x) ws) \<or> (\<exists>e u v. L (Inl e) u \<and> K e r v \<and> ws = u @ v)) (act_catch m h)"
    (is "traces en ?C _")
  unfolding traces_def
proof (intro allI impI)
  fix s r s'
  assume c: "ms_client s" and b: "act_catch m h s = (r, s')"
  obtain r1 s1 where ms: "m s = (r1, s1)" by fastforce
  then obtain u where u: "ms_client s1" "ms_log s1 = ms_log s @ u" "L r1 (transcript_from en (ms_log s) u)"
    using tracesD [OF m ms c] by blast
  show "ms_client s' \<and> (\<exists>ws. ms_log s' = ms_log s @ ws \<and> ?C r (transcript_from en (ms_log s) ws))"
  proof (cases r1)
    case (Inr x)
    then show ?thesis using b ms u by (auto simp: act_catch_def)
  next
    case (Inl e)
    then have "h e s1 = (r, s')" using b ms by (simp add: act_catch_def)
    from tracesD [OF h this u(1)] obtain v where v: "ms_client s'" "ms_log s' = ms_log s1 @ v"
      "K e r (transcript_from en (ms_log s1) v)" by blast
    then have "?C r (transcript_from en (ms_log s) (u @ v))" using u Inl by auto
    with u v show ?thesis by auto
  qed
qed

lemma traces_silent:
  "traces en (\<lambda>r ws. r = Inr x \<and> ws = []) (act_return x)"
  "traces en (\<lambda>r ws. r = Inl e \<and> ws = []) (act_throw e)"
  "traces en (\<lambda>r ws. (\<exists>y. r = Inr y) \<and> ws = []) (current_time en)"
  "traces en (\<lambda>r ws. r = Inr () \<and> ws = []) (show_ui u)"
  by (auto intro!: tracesI simp: act_defs current_time_def show_ui_def)

lemma traces_query:
  "traces en (\<lambda>r ws. ws = [(Query sql ps, succeeds r)]) (run_query en sql ps)"
  by (auto intro!: tracesI simp: run_query_def db_call_def note_call_def accepts_def split: sum.splits)

lemma traces_ensure: "traces en (\<lambda>r ws. r = Inr () \<and> ws = []) (ensure_client en)"
  by (auto intro!: tracesI simp: ensure_client_def act_defs)

text \<open>What an attempt sends that does not succeed: nothing, a refused BEGIN, or calls of which one is refused.\<close>

definition failed_calls :: "migration_file \<Rightarrow> transcript \<Rightarrow> bool" where
  "failed_calls m ws \<longleftrightarrow>
     ws = [] \<or> ws = [(Query ''BEGIN'' [], False)] \<or>
     guarded m \<and> (\<exists>k ok. \<exists>n \<in> {1, 2, 3}. ws = failed_attempt m k n ok)"

definition result_of :: "migration_file \<Rightarrow> int \<Rightarrow> applied_result \<Rightarrow> bool" where
  "result_of m k r \<longleftrightarrow>
     am_checksum r = mg_checksum m \<and> am_name r = mg_name m \<and> am_version r = mg_version m \<and>
     am_execution_ms r = jint k \<and> ar_filename r = mg_filename m"

lemma traces_body:
  "traces en (\<lambda>r ws. \<exists>k. case r of
      Inr x \<Rightarrow> result_of m k x \<and> ws = drop 1 (all_accepted (transaction_calls m k))
    | Inl e \<Rightarrow> \<exists>n \<in> {1, 2, 3}. ws = drop 1 (all_accepted (take n (transaction_calls m k))) @
        [(transaction_calls m k ! n, False)]) (migration_body en m started)"
proof (rule tracesI)
  fix s :: mig_state
  assume "ms_client s"
  let ?k = "max 0 (en_clock en (ms_log s @ [Query (mg_sql m) []]) - started)"
  note defs = migration_body_def run_query_def db_call_def note_call_def current_time_def act_defs Let_def
    accepts_def transaction_calls_def all_accepted_def ledger_insert_sql_def ledger_values_def result_of_def
  show "ms_client (snd (migration_body en m started s)) \<and>
      (\<exists>ws. ms_log (snd (migration_body en m started s)) = ms_log s @ ws \<and>
        (\<exists>k. case fst (migration_body en m started s) of
          Inr x \<Rightarrow> result_of m k x \<and> transcript_from en (ms_log s) ws = drop 1 (all_accepted (transaction_calls m k))
        | Inl e \<Rightarrow> \<exists>n \<in> {1, 2, 3}. transcript_from en (ms_log s) ws =
            drop 1 (all_accepted (take n (transaction_calls m k))) @ [(transaction_calls m k ! n, False)]))"
  proof (cases "en_db en (ms_log s) (Query (mg_sql m) [])")
    case (Inl e)
    with \<open>ms_client s\<close> show ?thesis by (simp add: defs)
  next
    case (Inr x)
    with \<open>ms_client s\<close> show ?thesis
      by (cases "en_db en (ms_log s @ [Query (mg_sql m) []]) (Query ledger_insert_sql (ledger_values m ?k))";
          cases "en_db en (ms_log s @ [Query (mg_sql m) [], Query ledger_insert_sql (ledger_values m ?k)]) (Query ''COMMIT'' [])")
        (auto simp: defs intro!: exI [of _ ?k])
  qed
qed

definition attempt_trace :: "migration_file \<Rightarrow> (mig_exn, applied_result) result \<Rightarrow> transcript \<Rightarrow> bool" where
  "attempt_trace m r ws \<longleftrightarrow>
     (case r of
        Inr x \<Rightarrow> guarded m \<and> (\<exists>k. result_of m k x \<and> ws = all_accepted (transaction_calls m k))
      | Inl e \<Rightarrow> failed_calls m ws)"

lemma traces_try: "traces en L m \<Longrightarrow> traces en (\<lambda>r ws. \<exists>r0. r = Inr r0 \<and> L r0 ws) (act_try m)"
proof (rule tracesI)
  fix s :: mig_state
  assume "traces en L m" "ms_client s"
  then have "ms_client (snd (m s)) \<and>
      (\<exists>ws. ms_log (snd (m s)) = ms_log s @ ws \<and> L (fst (m s)) (transcript_from en (ms_log s) ws))"
    using tracesD [of en L m s "fst (m s)" "snd (m s)"] by simp
  then show "ms_client (snd (act_try m s)) \<and>
      (\<exists>ws. ms_log (snd (act_try m s)) = ms_log s @ ws \<and>
        (\<exists>r0. fst (act_try m s) = Inr r0 \<and> L r0 (transcript_from en (ms_log s) ws)))"
    by (simp add: act_try_def case_prod_beta)
qed

lemma traces_apply: "traces en (attempt_trace m) (apply_migration en m)"
proof (cases "assert_migration_sql_allows_outer_transaction (mg_sql m) (mg_filename m)")
  case (Inl e)
  then show ?thesis
    using traces_mono [OF traces_silent(2) [where e = "MigrationExn e"], where K = "attempt_trace m"]
    by (simp add: apply_migration_def attempt_trace_def failed_calls_def)
next
  case (Inr u)
  then have guarded: "guarded m" by (simp add: guarded_def)
  have begins: "traces en (\<lambda>r ws. ws = [(Query ''BEGIN'' [], succeeds r)])
      (act_catch (run_query en ''BEGIN'' []) (\<lambda>e. act_throw (err e)))" for err
    by (rule traces_mono, (rule traces_catch traces_query traces_silent)+) auto
  have runs: "traces en (\<lambda>r ws. \<exists>k. case r of
        Inr x \<Rightarrow> result_of m k x \<and> ws = drop 1 (all_accepted (transaction_calls m k))
      | Inl e \<Rightarrow> \<exists>n \<in> {1, 2, 3}. \<exists>ok. ws = drop 1 (failed_attempt m k n ok))
      (act_catch (migration_body en m started)
        (\<lambda>e. act_seq (act_try (run_query en ''ROLLBACK'' [])) (act_throw (err e))))" for err started
    by (rule traces_mono, (rule traces_catch traces_body traces_bind traces_try traces_query traces_silent)+)
      (fastforce simp: then_traces_def failed_attempt_def all_accepted_def transaction_calls_def split: sum.splits)
  have "traces en (attempt_trace m) (act_seq (ensure_client en) (act_bind (current_time en) (\<lambda>started.
      act_seq (act_catch (run_query en ''BEGIN'' []) (\<lambda>e. act_throw (err e)))
        (act_catch (migration_body en m started)
          (\<lambda>e. act_seq (act_try (run_query en ''ROLLBACK'' [])) (act_throw (err' e)))))))" for err err'
    by (rule traces_mono, (rule traces_bind traces_ensure traces_silent begins runs)+)
      (fastforce simp: then_traces_def attempt_trace_def failed_calls_def guarded failed_attempt_def all_accepted_def
        transaction_calls_def split: sum.splits)
  with Inr show ?thesis by (simp add: apply_migration_def)
qed

text \<open>The transactions of the files \<open>done\<close>, all accepted; \<open>ks\<close> are the times they report.\<close>

definition batch_of :: "migration_file list \<Rightarrow> int list \<Rightarrow> transcript" where
  "batch_of done ks = concat (map2 (\<lambda>m k. all_accepted (transaction_calls m k)) done ks)"

definition results_of :: "migration_file list \<Rightarrow> int list \<Rightarrow> applied_result list \<Rightarrow> bool" where
  "results_of done ks rs \<longleftrightarrow> list_all2 (\<lambda>(m, k) r. result_of m k r) (zip done ks) rs"

definition pending_trace ::
  "migration_file list \<Rightarrow> applied_result list \<Rightarrow> (mig_exn, applied_result list) result \<Rightarrow> transcript \<Rightarrow> bool" where
  "pending_trace ms newly r ws \<longleftrightarrow>
     (\<exists>done ks fl. length ks = length done \<and> list_all guarded done \<and> ws = batch_of done ks @ fl \<and>
        (case r of
           Inr out \<Rightarrow> done = ms \<and> fl = [] \<and> (\<exists>rs. results_of ms ks rs \<and> out = newly @ rs)
         | Inl e \<Rightarrow> \<exists>m rest. ms = done @ m # rest \<and> failed_calls m fl))"

lemma pending_trace_failed: "failed_calls m ws \<Longrightarrow> pending_trace (m # ms) newly (Inl e) ws"
  unfolding pending_trace_def by (intro exI [of _ "[]"] exI [of _ ws]) (simp add: batch_of_def)

lemma pending_trace_next:
  assumes "pending_trace ms (newly @ [x]) r ws" "result_of m k x" "guarded m"
  shows "pending_trace (m # ms) newly r (all_accepted (transaction_calls m k) @ ws)"
proof -
  obtain dn ks fl where d: "length ks = length dn" "list_all guarded dn" "ws = batch_of dn ks @ fl"
    "case r of Inr out \<Rightarrow> dn = ms \<and> fl = [] \<and> (\<exists>rs. results_of ms ks rs \<and> out = (newly @ [x]) @ rs)
      | Inl e \<Rightarrow> \<exists>m rest. ms = dn @ m # rest \<and> failed_calls m fl"
    using assms(1) unfolding pending_trace_def by blast
  show ?thesis
    unfolding pending_trace_def
  proof (intro exI conjI)
    show "length (k # ks) = length (m # dn)" "list_all guarded (m # dn)" using d assms(3) by simp_all
    show "all_accepted (transaction_calls m k) @ ws = batch_of (m # dn) (k # ks) @ fl" using d by (simp add: batch_of_def)
    show "case r of
        Inr out \<Rightarrow> m # dn = m # ms \<and> fl = [] \<and> (\<exists>rs. results_of (m # ms) (k # ks) rs \<and> out = newly @ rs)
      | Inl e \<Rightarrow> \<exists>m' rest. m # ms = (m # dn) @ m' # rest \<and> failed_calls m' fl"
      using d(4) assms(2) by (cases r) (auto simp: results_of_def intro: exI [of _ "x # _"])
  qed
qed

lemma traces_pending:
  "traces en (pending_trace (map pe_migration es) newly) (apply_pending en es newly)"
proof (induction es arbitrary: newly)
  case Nil
  show ?case
    unfolding apply_pending.simps
    by (rule traces_mono [OF traces_silent(1)]) (auto simp: pending_trace_def batch_of_def results_of_def)
next
  case (Cons e es)
  show ?case
    unfolding apply_pending.simps
    by (rule traces_mono, (rule traces_bind traces_silent traces_apply Cons.IH)+)
      (auto simp: then_traces_def attempt_trace_def intro: pending_trace_failed pending_trace_next)
qed

text \<open>The Auth schema is planned or migrated after the migrations.\<close>

definition auth_call :: "mig_call \<Rightarrow> bool" where
  "auth_call w \<longleftrightarrow> w = AuthMigrate \<or> (\<exists>i. w = AuthPlan i)"

abbreviation auth_calls :: "transcript \<Rightarrow> bool" where
  "auth_calls cs \<equiv> list_all (\<lambda>c. auth_call (fst c)) cs"

lemma traces_auth:
  "traces en (\<lambda>r ws. ws = [(AuthMigrate, succeeds r)]) (auth_act en AuthMigrate)"
  "traces en (\<lambda>r ws. ws = [(AuthPlan i, succeeds r)]) (load_auth_plan en i)"
  by (auto intro!: tracesI simp: auth_act_def load_auth_plan_def note_call_def accepts_def)

lemma traces_finish:
  "traces en (\<lambda>r ws. auth_calls ws \<and>
      (\<forall>out. r = Inr out \<longrightarrow> rs_newly_applied out = newly \<and> (AuthMigrate, True) \<in> set ws))
     (finish_apply en cfg dry plan out n newly)"
  unfolding finish_apply_def apply_embedded_auth_schema_def render_report_def
  by (rule traces_mono, (rule traces_bind traces_silent traces_auth)+)
    (auto simp: then_traces_def summary_of_def auth_call_def)

lemma traces_shown: "traces en (\<lambda>r ws. r = Inr () \<and> ws = []) (show_applied es)"
proof (induction es)
  case (Cons e es)
  show ?case
    unfolding show_applied.simps
    by (rule traces_mono, (rule traces_bind traces_silent Cons)+) (auto simp: then_traces_def)
qed (simp add: traces_silent)

text \<open>The part of a run that writes: what was done of the pending files, and how it ended.\<close>

definition apply_trace ::
  "migration_plan \<Rightarrow> (mig_exn, run_summary) result \<Rightarrow> transcript \<Rightarrow> bool" where
  "apply_trace plan r ws \<longleftrightarrow>
     (\<exists>done ks fl after. length ks = length done \<and> list_all guarded done \<and>
        ws = batch_of done ks @ fl @ after \<and> auth_calls after \<and>
        (case r of
           Inr out \<Rightarrow> done = pending_files plan \<and> fl = [] \<and> results_of done ks (rs_newly_applied out) \<and>
             (AuthMigrate, True) \<in> set after
         | Inl e \<Rightarrow> done = pending_files plan \<and> fl = [] \<or>
             (\<exists>m rest. pending_files plan = done @ m # rest \<and> failed_calls m fl)))"

lemma apply_trace_finish:
  assumes "auth_calls ws" "\<And>out. r = Inr out \<Longrightarrow> rs_newly_applied out = rs \<and> (AuthMigrate, True) \<in> set ws"
    "results_of (pending_files plan) ks rs" "length ks = length (pending_files plan)"
    "list_all guarded (pending_files plan)"
  shows "apply_trace plan r (batch_of (pending_files plan) ks @ ws)"
  unfolding apply_trace_def
  by (intro exI [of _ "pending_files plan"] exI [of _ ks] exI [of _ "[]"] exI [of _ ws])
    (use assms in \<open>auto split: sum.splits\<close>)

lemma traces_run_apply: "traces en (apply_trace plan) (run_apply en cfg dry local plan)"
proof -
  have none: "apply_trace plan r ws"
    if "mp_pending plan = []" "auth_calls ws"
      "\<forall>out. r = Inr out \<longrightarrow> rs_newly_applied out = [] \<and> (AuthMigrate, True) \<in> set ws" for r ws
    using apply_trace_finish [of ws r "[]" plan "[]"] that by (simp add: pending_files_def batch_of_def results_of_def)
  have fin: "apply_trace plan r (u @ v)"
    if "pending_trace (pending_files plan) [] (Inr newly) u" "auth_calls v"
      "\<forall>out. r = Inr out \<longrightarrow> rs_newly_applied out = newly \<and> (AuthMigrate, True) \<in> set v" for r u v newly
    using that apply_trace_finish [of v r newly plan] by (auto simp: pending_trace_def)
  have fail: "apply_trace plan (Inl e) ws" if "pending_trace (pending_files plan) [] (Inl e) ws" for e ws
    using that unfolding pending_trace_def apply_trace_def
    by (elim exE conjE) (rule exI, rule exI, rule exI, rule exI [of _ "[]"], auto)
  note p = traces_pending [of en "mp_pending plan" "[]", folded pending_files_def]
  show ?thesis
  proof (cases "mp_pending plan = []")
    case True
    show ?thesis
    proof (cases "local = []")
      case empty: True
      show ?thesis
        unfolding run_apply_def if_P [OF conjI [OF empty iffD2 [OF length_0_conv True]]]
        by (rule traces_mono, (rule traces_bind traces_silent traces_finish)+)
          (auto simp: then_traces_def intro: none [OF True])
    next
      case False
      then have "run_apply en cfg dry local plan = act_seq (show_applied (mp_applied plan))
          (act_seq (show_ui (UiInfo ''Application migrations are up to date.''))
             (finish_apply en cfg dry plan
                (show_nat (length (mp_applied plan)) @ '' application migrations current.'')
                (length (mp_applied plan)) []))"
        using True by (simp add: run_apply_def)
      then show ?thesis
        by (simp only:) (rule traces_mono, (rule traces_bind traces_silent traces_finish traces_shown)+,
          auto simp: then_traces_def intro: none [OF True])
    qed
  next
    case False
    then have "run_apply en cfg dry local plan = act_seq (show_applied (mp_applied plan))
        (act_bind (apply_pending en (mp_pending plan) []) (\<lambda>newly.
           finish_apply en cfg dry plan (show_nat (length newly) @ '' migration(s) applied'')
             (length (mp_applied plan) + length newly) newly))"
      by (simp add: run_apply_def)
    then show ?thesis
      by (simp only:) (rule traces_mono, (rule traces_bind traces_silent traces_finish traces_shown p)+,
        auto simp: then_traces_def intro: fin fail)
  qed
qed

text \<open>A planned run in apply mode: the Auth plan is read, conflicts and drift stop it.\<close>

definition planned_trace ::
  "migration_plan \<Rightarrow> (mig_exn, run_summary) result \<Rightarrow> transcript \<Rightarrow> bool" where
  "planned_trace plan r ws \<longleftrightarrow>
     (\<exists>before rest. ws = before @ rest \<and> auth_calls before \<and>
        ((\<exists>e. r = Inl e) \<and> rest = [] \<or> mp_conflicts plan = [] \<and> apply_trace plan r rest))"

lemma traces_lenient: "traces en (\<lambda>r ws. \<exists>ok. ws = [(AuthPlan i, ok)]) (load_auth_plan_leniently en i)"
proof -
  have h: "traces en (\<lambda>r ws. ws = [])
      (case e of
         AuthExn c m \<Rightarrow>
           if c = ''ATHENA_AUTH_DATABASE_RESULT_INVALID'' then act_throw (migration_error ExecutionError m)
           else act_return None
       | _ \<Rightarrow> act_return None)" for e
    by (rule tracesI) (auto simp: act_defs split: mig_exn.split)
  show ?thesis
    unfolding load_auth_plan_leniently_def
    by (rule traces_mono, (rule traces_catch traces_bind traces_auth traces_silent h)+)
      (auto simp: then_traces_def)
qed

lemma traces_drift: "traces en (\<lambda>r ws. ws = []) (refuse_drift cfg plan auth)"
  by (rule tracesI) (auto simp: refuse_drift_def render_report_def show_ui_def act_defs split: option.split)

lemma traces_planned:
  "traces en (planned_trace plan) (run_planned en cfg opts ModeApply dry local plan)"
proof -
  have stop: "traces en (\<lambda>r ws. (\<exists>e. r = Inl e) \<and> ws = [])
      (act_seq (render_report cfg plan auth out ds) (act_throw e :: run_summary mig_act))" for auth out ds e
    by (rule tracesI) (auto simp: render_report_def show_ui_def act_defs)
  have go: "traces en (\<lambda>r ws. (\<exists>e. r = Inl e) \<and> ws = [] \<or> apply_trace plan r ws)
      (act_seq (refuse_drift cfg plan auth) (run_apply en cfg dry local plan))" for auth
    by (rule traces_mono, (rule traces_bind traces_drift traces_run_apply)+) (auto simp: then_traces_def)
  have rest: "traces en (\<lambda>r ws. (\<exists>e. r = Inl e) \<and> ws = [] \<or> mp_conflicts plan = [] \<and> apply_trace plan r ws)
      (if plan_has_blocking_conflicts plan then
         act_seq (render_report cfg plan auth ''Application migration history has conflicts.''
             [\<lparr>dv_code = None, dv_message = format_conflict_block plan\<rparr>])
           (act_throw (migration_error HistoryError (format_conflict_block plan)))
       else act_seq (refuse_drift cfg plan auth) (run_apply en cfg dry local plan))" for auth
    using traces_mono [OF stop] traces_mono [OF go] by (auto simp: plan_has_blocking_conflicts_def)
  have planned: "run_planned en cfg opts ModeApply dry local plan =
      act_bind (load_auth_plan_leniently en True) (\<lambda>auth.
        if plan_has_blocking_conflicts plan then
          act_seq (render_report cfg plan auth ''Application migration history has conflicts.''
              [\<lparr>dv_code = None, dv_message = format_conflict_block plan\<rparr>])
            (act_throw (migration_error HistoryError (format_conflict_block plan)))
        else act_seq (refuse_drift cfg plan auth) (run_apply en cfg dry local plan))"
    by (simp add: run_planned_def cong: if_cong)
  show ?thesis
    unfolding planned
  proof (rule traces_mono [OF traces_bind [OF traces_lenient rest]])
    fix r ws
    assume "then_traces (\<lambda>r ws. \<exists>ok. ws = [(AuthPlan True, ok)])
      (\<lambda>auth r ws. (\<exists>e. r = Inl e) \<and> ws = [] \<or> mp_conflicts plan = [] \<and> apply_trace plan r ws) r ws"
    then consider e ok where "r = Inl e" "ws = [(AuthPlan True, ok)]"
      | v ok where "ws = [(AuthPlan True, ok)] @ v" "(\<exists>e. r = Inl e) \<and> v = [] \<or> mp_conflicts plan = [] \<and> apply_trace plan r v"
      unfolding then_traces_def by blast
    then show "planned_trace plan r ws"
    proof cases
      case 1
      then show ?thesis unfolding planned_trace_def
        by - (rule exI [of _ "[(AuthPlan True, ok)]"], rule exI [of _ "[]"], auto simp: auth_call_def)
    next
      case 2
      then show ?thesis unfolding planned_trace_def
        by - (rule exI [of _ "[(AuthPlan True, ok)]"], rule exI [of _ v], auto simp: auth_call_def)
    qed
  qed
qed

section \<open>Whole runs\<close>

definition setup_call :: "mig_call \<Rightarrow> bool" where
  "setup_call w \<longleftrightarrow>
     w \<in> opening_calls \<or> w = Query ledger_bootstrap_sql [] \<or> w = Query list_applied_sql []"

text \<open>What the ledger was read as, after the calls \<open>sent\<close>.\<close>

definition ledger_answer :: "environment \<Rightarrow> mig_call list \<Rightarrow> applied_migration list \<Rightarrow> bool" where
  "ledger_answer en sent applied \<longleftrightarrow>
     (case en_db en sent (Query list_applied_sql []) of
        Inr rows \<Rightarrow> applied = map map_ledger_row rows
      | Inl e \<Rightarrow> is_missing_ledger_error (DriverExn e) \<and> applied = [])"

lemma ensured: "ensure_client en s = (Inr u, s') \<Longrightarrow> ms_client s'"
proof (cases "ms_client s")
  case False
  assume "ensure_client en s = (Inr u, s')"
  with False show ?thesis by (auto simp: ensure_client_def act_get_def bind_Ok act_modify_def)
qed (auto simp: ensure_client_def act_defs)

lemma query_client: "ms_client (snd (run_query en sql ps s)) = ms_client s"
  by (simp add: run_query_def db_call_def note_call_def)

lemma acquired:
  assumes "acquire_lock en s = (Inr u, s')"
  shows "ms_client s'"
proof -
  obtain v s1 where "ensure_client en s = (Inr v, s1)"
    and c: "act_catch (act_seq (run_query en lock_sql lock_keys) (act_modify (\<lambda>s. s\<lparr>ms_lock := True\<rparr>)))
          (\<lambda>e. act_throw (migration_error LockError
             (''Unable to acquire migration advisory lock: '' @ sanitize_pg_message (exn_message e)))) s1 = (Inr u, s')"
    using assms unfolding acquire_lock_def bind_Ok by blast
  then have "ms_client s1" by (auto intro: ensured)
  then show ?thesis
    using c query_client [of en lock_sql lock_keys s1]
    by (auto simp: act_catch_def act_bind_def act_throw_def act_modify_def split: prod.splits sum.splits)
qed

lemma listed:
  assumes "ms_client s" "list_applied_migrations en s = (r, s')"
  shows "ms_client s' \<and> ms_log s' = ms_log s @ [Query list_applied_sql []] \<and>
    (\<forall>applied. r = Inr applied \<longrightarrow> ledger_answer en (ms_log s) applied)"
  using assms
  by (auto simp: list_applied_migrations_def ensure_client_def act_defs run_query_def db_call_def note_call_def
      ledger_answer_def split: prod.splits sum.splits if_splits)

lemma close_exact:
  "close_backend en s =
   (Ok (), \<lparr>ms_log = ms_log s @
        (if ms_client s \<and> ms_lock s then [Query unlock_sql lock_keys] else []) @
        (if ms_client s then [ReleaseConnection] else []) @ (if ms_pool s then [EndPool] else []),
      ms_pool = False, ms_client = False, ms_lock = ms_lock s \<and> \<not> ms_client s, ms_ui = ms_ui s\<rparr>)"
  by (cases s) (auto simp: close_backend_def release_lock_def act_defs run_query_def db_call_def note_call_def
      split: sum.splits)

lemma extends_log: "relates (extends_by P) m \<Longrightarrow> m s = (r, s') \<Longrightarrow> \<exists>ws. ms_log s' = ms_log s @ ws \<and> list_all P ws"
  using relatesD [of "extends_by P" m s r s'] by (simp add: extends_by_def)

lemma bind_cases:
  assumes "act_bind m f s = (r, s')"
  obtains (Stop) e where "m s = (Inl e, s')" "r = Inl e"
  | (Go) x s1 where "m s = (Inr x, s1)" "f x s1 = (r, s')"
  using assms by (auto simp: act_bind_def split: prod.splits sum.splits)

lemma assert_silent: "assert_direct_postgres cfg s = (r, s') \<Longrightarrow> s' = s"
  by (auto simp: assert_direct_postgres_def act_defs split: if_splits)

lemma traces_ledger: "traces en (\<lambda>r ws. \<exists>ok. ws = [(Query ledger_bootstrap_sql [], ok)]) (ensure_ledger en)"
  unfolding ensure_ledger_def
  by (rule traces_mono, (rule traces_bind traces_catch traces_ensure traces_query traces_silent)+)
    (auto simp: then_traces_def)

lemma migrate_body_shape:
  assumes mode: "run_mode_of opts = ModeApply" and run: "migrate_body en cfg opts local initial_mig_state = (r, s')"
  shows "(\<exists>e. r = Inl e) \<and> list_all setup_call (ms_log s') \<or>
    (\<exists>before applied rest. ms_log s' = before @ Query list_applied_sql [] # rest \<and> list_all setup_call before \<and>
       ledger_answer en before applied \<and>
       planned_trace (plan_migrations applied local) r (transcript_from en (before @ [Query list_applied_sql []]) rest))"
    (is "?failed \<or> ?planned")
proof -
  let ?f = "\<lambda>applied. run_planned en cfg opts (run_mode_of opts) (run_is_dry opts) local (plan_migrations applied local)"
  have opens: "\<And>w. w \<in> opening_calls \<Longrightarrow> setup_call w" by (simp add: setup_call_def)
  from run [unfolded migrate_body_def] show ?thesis
  proof (cases rule: bind_cases)
    case (Stop e)
    then show ?thesis using assert_silent [of cfg initial_mig_state] by (auto simp: initial_mig_state_def)
  next
    case (Go x s1)
    then have s1: "s1 = initial_mig_state" using assert_silent by blast
    from Go(2) show ?thesis
    proof (cases rule: bind_cases)
      case (Stop e)
      then obtain ws where "ms_log s' = ms_log s1 @ ws" "list_all setup_call ws"
        using extends_log [OF sends_acquire [of setup_call, OF opens]] by blast
      then show ?thesis using Stop s1 by (simp add: initial_mig_state_def)
    next
      case acq: (Go y s2)
      then obtain u where u: "ms_log s2 = u" "list_all setup_call u"
        using extends_log [OF sends_acquire [of setup_call, OF opens] acq(1)] s1
        by (auto simp: initial_mig_state_def)
      have client: "ms_client s2" using acquired acq(1) by blast
      from acq(2) mode have "act_bind (ensure_ledger en) (\<lambda>_. act_bind (list_applied_migrations en) ?f) s2 = (r, s')"
        by simp
      then show ?thesis
      proof (cases rule: bind_cases)
        case (Stop e)
        then have "ms_log s' = ms_log s2 @ [Query ledger_bootstrap_sql []]"
          using tracesD [OF traces_ledger Stop(1) client] by simp
        then show ?thesis using u Stop by (simp add: setup_call_def)
      next
        case led: (Go z s3)
        then have s3: "ms_client s3" "ms_log s3 = u @ [Query ledger_bootstrap_sql []]"
          using tracesD [OF traces_ledger led(1) client] u by auto
        then have all3: "list_all setup_call (ms_log s3)" using u by (simp add: setup_call_def)
        from led(2) show ?thesis
        proof (cases rule: bind_cases)
          case (Stop e)
          then have "ms_log s' = ms_log s3 @ [Query list_applied_sql []]" using listed [OF s3(1) Stop(1)] by simp
          then show ?thesis using all3 Stop by (simp add: setup_call_def)
        next
          case ls: (Go applied s4)
          have s4: "ms_client s4" "ms_log s4 = ms_log s3 @ [Query list_applied_sql []]"
            "ledger_answer en (ms_log s3) applied" using listed [OF s3(1) ls(1)] by auto
          from ls(2) obtain ws where "ms_log s' = ms_log s4 @ ws"
            "planned_trace (plan_migrations applied local) r (transcript_from en (ms_log s4) ws)"
            unfolding mode using tracesD [OF traces_planned _ s4(1)] by blast
          then have ?planned using s4 all3
            by (intro exI [of _ "ms_log s3"] exI [of _ applied] exI [of _ ws]) simp
          then show ?thesis ..
        qed
      qed
    qed
  qed
qed

lemma run_ends:
  assumes "run_migrations en cfg opts (Inr local) s = (r, s')"
  obtains r1 s1 ws where "migrate_body en cfg opts local s = (r1, s1)" "ms_log s' = ms_log s1 @ ws"
    "set ws \<subseteq> closing_calls" "\<forall>out. r = Inr out \<longleftrightarrow> r1 = Inr out"
proof -
  obtain r1 s1 where b: "migrate_body en cfg opts local s = (r1, s1)" by fastforce
  obtain s2 where c: "close_backend en s1 = (Ok (), s2)" "\<exists>ws. ms_log s2 = ms_log s1 @ ws \<and> set ws \<subseteq> closing_calls"
    using close_exact [of en s1] by (auto simp: closing_calls_def)
  then have "s' = s2" "\<forall>out. r = Inr out \<longleftrightarrow> r1 = Inr out"
    using assms b by (auto simp: run_migrations_def act_finally_def act_catch_def act_throw_def split: sum.splits)
  with b c that show ?thesis by blast
qed

section \<open>What is opened is closed\<close>

definition accepted :: "environment \<Rightarrow> mig_call list \<Rightarrow> mig_call \<Rightarrow> bool" where
  "accepted en sent w \<longleftrightarrow> (\<exists>u v. sent = u @ w # v \<and> succeeds (en_db en u w))"

lemma accepted_snoc:
  "accepted en (sent @ [x]) w \<longleftrightarrow> accepted en sent w \<or> w = x \<and> succeeds (en_db en sent x)"
proof
  assume "accepted en (sent @ [x]) w"
  then obtain u v where uv: "sent @ [x] = u @ w # v" "succeeds (en_db en u w)" by (auto simp: accepted_def)
  show "accepted en sent w \<or> w = x \<and> succeeds (en_db en sent x)"
  proof (cases v rule: rev_cases)
    case Nil
    then show ?thesis using uv by auto
  next
    case (snoc v' y)
    then have "sent = u @ w # v'" using uv(1) by auto
    then show ?thesis using uv(2) by (auto simp: accepted_def)
  qed
next
  assume "accepted en sent w \<or> w = x \<and> succeeds (en_db en sent x)"
  then show "accepted en (sent @ [x]) w"
  proof
    assume "accepted en sent w"
    then obtain u v where "sent = u @ w # v" "succeeds (en_db en u w)" by (auto simp: accepted_def)
    then show ?thesis unfolding accepted_def by (intro exI [of _ u] exI [of _ "v @ [x]"]) simp
  next
    assume "w = x \<and> succeeds (en_db en sent x)"
    then show ?thesis unfolding accepted_def by (intro exI [of _ sent] exI [of _ "[]"]) simp
  qed
qed

text \<open>The flags of the backend say what the driver accepted, and nothing was closed yet.\<close>

definition tracked :: "environment \<Rightarrow> mig_state \<Rightarrow> bool" where
  "tracked en s \<longleftrightarrow>
     ms_pool s = accepted en (ms_log s) OpenPool \<and>
     ms_client s = accepted en (ms_log s) ConnectPool \<and>
     ms_lock s = accepted en (ms_log s) (Query lock_sql lock_keys) \<and>
     (ms_lock s \<longrightarrow> ms_client s) \<and> (ms_client s \<longrightarrow> ms_pool s) \<and> set (ms_log s) \<inter> closing_calls = {}"

definition keeps_tracked :: "environment \<Rightarrow> mig_state \<Rightarrow> mig_state \<Rightarrow> bool" where
  "keeps_tracked en s s' \<longleftrightarrow> (tracked en s \<longrightarrow> tracked en s')"

lemma tracked_refl [act_rel_intros]: "reflp (keeps_tracked en)" "transp (keeps_tracked en)"
  by (auto simp: keeps_tracked_def reflp_def transp_def)

definition quiet_call :: "mig_call \<Rightarrow> bool" where
  "quiet_call w \<longleftrightarrow> w \<notin> opening_calls \<union> closing_calls"

lemma tracked_note: "quiet_call w \<Longrightarrow> tracked en s \<Longrightarrow> tracked en (note_call w s)"
  by (auto simp: tracked_def note_call_def accepted_snoc quiet_call_def opening_calls_def)

lemma quiet_query: "ps \<noteq> lock_keys \<Longrightarrow> quiet_call (Query sql ps)"
  by (simp add: quiet_call_def opening_calls_def closing_calls_def)

lemma quiet_queries [simp]:
  "quiet_call (Query sql [])" "quiet_call (Query ledger_insert_sql (ledger_values m k))"
  "quiet_call (AuthPlan i)" "quiet_call AuthMigrate" "quiet_call (AuthRepair d)" "quiet_call (Confirm t)"
  by (auto intro!: quiet_query simp: lock_keys_def ledger_values_def)
    (simp_all add: quiet_call_def opening_calls_def closing_calls_def)

lemma keeps_note: "quiet_call w \<Longrightarrow> keeps_tracked en s (note_call w s)"
  using tracked_note by (simp add: keeps_tracked_def)

lemma keeps_same: "keeps_tracked en s (s\<lparr>ms_ui := u\<rparr>)" "keeps_tracked en s s"
  by (auto simp: keeps_tracked_def tracked_def)

lemma tracked_calls [act_rel_intros]:
  "quiet_call (Query sql ps) \<Longrightarrow> relates (keeps_tracked en) (run_query en sql ps)"
  "relates (keeps_tracked en) (load_auth_plan en i)"
  "quiet_call w \<Longrightarrow> relates (keeps_tracked en) (auth_act en w)"
  "relates (keeps_tracked en) (show_ui u)"
  "relates (keeps_tracked en) (current_time en)"
  by (simp_all add: relates_def run_query_def db_call_def load_auth_plan_def auth_act_def show_ui_def
      current_time_def act_get_def act_modify_def keeps_note keeps_same)

lemma accepted_snoc2:
  "accepted en (sent @ [x, y]) w \<longleftrightarrow>
   accepted en (sent @ [x]) w \<or> w = y \<and> succeeds (en_db en (sent @ [x]) y)"
  using accepted_snoc [of en "sent @ [x]" y w] by simp

lemma tracked_ensure [act_rel_intros]: "relates (keeps_tracked en) (ensure_client en)"
  by (auto simp: relates_def keeps_tracked_def ensure_client_def act_defs db_call_def note_call_def tracked_def
      accepted_snoc2 accepted_snoc closing_calls_def split: sum.splits)

lemma tracked_lock [act_rel_intros]: "relates (keeps_tracked en) (acquire_lock en)"
  unfolding relates_def
proof
  fix s
  obtain r s1 where e: "ensure_client en s = (r, s1)" by fastforce
  then have t: "tracked en s \<longrightarrow> tracked en s1"
    using relatesD [OF tracked_ensure e] by (simp add: keeps_tracked_def)
  show "keeps_tracked en s (snd (acquire_lock en s))"
  proof (cases r)
    case (Inl x)
    then show ?thesis using e t by (simp add: acquire_lock_def act_bind_def keeps_tracked_def)
  next
    case (Inr u)
    then have "ms_client s1" using ensured e by blast
    then show ?thesis
      using e t Inr
      by (auto simp: acquire_lock_def act_defs keeps_tracked_def run_query_def db_call_def note_call_def tracked_def
          accepted_snoc closing_calls_def lock_sql_def unlock_sql_def split: sum.splits)
  qed
qed

lemma tracked_apply [act_rel_intros]: "relates (keeps_tracked en) (apply_migration en m)"
  unfolding apply_migration_def migration_body_def Let_def
  by (auto split: sum.split intro!: act_rel_intros)

lemma tracked_pending [act_rel_intros]: "relates (keeps_tracked en) (apply_pending en es newly)"
  by (induction es arbitrary: newly) (auto intro!: act_rel_intros)

lemma tracked_shown [act_rel_intros]: "relates (keeps_tracked en) (show_applied es)"
  by (induction es) (auto intro!: act_rel_intros)

lemma tracked_confirm [act_rel_intros]: "relates (keeps_tracked en) (confirm_repair en opts dry)"
proof -
  have "relates (keeps_tracked en) (\<lambda>s. (Ok (en_confirm en (ms_log s)), note_call (Confirm t) s))" for t
    using tracked_note by (simp add: relates_def keeps_tracked_def)
  then show ?thesis unfolding confirm_repair_def by (auto intro!: act_rel_intros)
qed

lemma tracked_body: "relates (keeps_tracked en) (migrate_body en cfg opts local)"
proof -
  have fin: "relates (keeps_tracked en) (finish_apply en cfg dry plan out n newly)" for dry plan out n newly
    unfolding finish_apply_def apply_embedded_auth_schema_def render_report_def by (auto intro!: act_rel_intros)
  have app: "relates (keeps_tracked en) (run_apply en cfg dry local plan)" for dry plan
    unfolding run_apply_def by (auto intro!: act_rel_intros fin)
  have rep: "relates (keeps_tracked en) (run_repair en cfg opts dry plan)" for dry plan
    unfolding run_repair_def Let_def render_report_def by (auto intro!: act_rel_intros)
  have len: "relates (keeps_tracked en) (load_auth_plan_leniently en i)" for i
    unfolding load_auth_plan_leniently_def by (intro act_rel_intros) (auto split: mig_exn.splits intro!: act_rel_intros)
  have planned: "relates (keeps_tracked en) (run_planned en cfg opts mode dry local plan)" for mode dry plan
    unfolding run_planned_def run_inspect_def run_dry_def refuse_drift_def render_report_def Let_def
    by (auto split: option.split intro!: act_rel_intros app rep len)
  show ?thesis
    unfolding migrate_body_def ensure_ledger_def list_applied_migrations_def assert_direct_postgres_def
    by (auto intro!: act_rel_intros planned)
qed

end
