(* ===== verification/MigrationProperties.thy ===== *)
theory MigrationProperties
  imports MigrationTraces
begin

text \<open>
  The properties of migrations: the guard on transaction control, discovery, planning, and the
  runs, with the runs their hypotheses are shown to hold for.
\<close>

section \<open>Lemmas\<close>

text \<open>Rows that stand in the ledger for files: those of their versions and checksums.\<close>

definition row_for :: "migration_file \<Rightarrow> applied_migration \<Rightarrow> bool" where
  "row_for f r \<longleftrightarrow> am_version r = mg_version f \<and> am_checksum r = mg_checksum f"

lemma rows_cover:
  assumes "list_all2 row_for fs rs"
  shows "f \<in> set fs \<Longrightarrow> \<exists>r\<in>set rs. row_for f r" "r \<in> set rs \<Longrightarrow> \<exists>f\<in>set fs. row_for f r"
  using assms by (metis list_all2_conv_all_nth in_set_conv_nth)+

lemma ledger_append: "ledger_of (xs @ ys) v = ledger_of xs v @ ledger_of ys v"
  by (simp add: ledger_of_def)

lemma replan:
  assumes plan: "plannable applied local" "mp_conflicts (plan_migrations applied local) = []"
    and rs: "list_all2 row_for (pending_files (plan_migrations applied local)) new"
  shows "mp_pending (plan_migrations (applied @ new) local) = []"
    "mp_conflicts (plan_migrations (applied @ new) local) = []"
    "set (applied_files (plan_migrations (applied @ new) local)) = set local"
proof -
  have pend: "f \<in> set (pending_files (plan_migrations applied local)) \<longleftrightarrow> f \<in> set local \<and> ledger_of applied (mg_version f) = []" for f
    using plan_sets(1) [OF plan(1)] by auto
  have old: "\<exists>f\<in>set local. mg_version f = v \<and> agrees f (ledger_of applied v)" if "ledger_of applied v \<noteq> []" for v
    using plan_sets(3) [OF plan(1)] plan(2) that by auto
  have uniq: "f = g" if "f \<in> set local" "g \<in> set local" "mg_version f = mg_version g" for f g
    using plan(1) that unfolding plannable_def distinct_map by (auto dest: inj_onD)
  have fresh: "\<exists>f\<in>set local. mg_version f = v \<and> am_checksum r = mg_checksum f \<and> ledger_of applied v = []"
    if "r \<in> set (ledger_of new v)" for r v
  proof -
    have r: "r \<in> set new" "am_version r = v" using that by (auto simp: ledger_of_def)
    from rows_cover(2) [OF rs r(1)] obtain f where
      f: "f \<in> set (pending_files (plan_migrations applied local))" "row_for f r" by blast
    have "f \<in> set local \<and> ledger_of applied (mg_version f) = []" using f(1) pend [of f] by (rule iffD1 [rotated])
    with f(2) r(2) show ?thesis by (auto simp: row_for_def)
  qed
  have covered: "ledger_of (applied @ new) (mg_version f) \<noteq> []" if "f \<in> set local" for f
  proof (cases "ledger_of applied (mg_version f) = []")
    case True
    then have "f \<in> set (pending_files (plan_migrations applied local))" using pend [of f] that by simp
    from rows_cover(1) [OF rs this] obtain r where "r \<in> set new" "row_for f r" by blast
    then have "r \<in> set (ledger_of new (mg_version f))" by (simp add: ledger_of_def row_for_def)
    then show ?thesis by (auto simp: ledger_append)
  qed (simp add: ledger_append)
  have agree: "agrees f (ledger_of (applied @ new) (mg_version f))" if f: "f \<in> set local" for f
    unfolding agrees_def
  proof
    fix r
    assume "r \<in> set (ledger_of (applied @ new) (mg_version f))"
    then consider "r \<in> set (ledger_of applied (mg_version f))" | "r \<in> set (ledger_of new (mg_version f))"
      by (auto simp: ledger_append)
    then show "am_checksum r = mg_checksum f"
    proof cases
      case 1
      then have "ledger_of applied (mg_version f) \<noteq> []" by auto
      from old [OF this] obtain g where "g \<in> set local" "mg_version g = mg_version f"
        "agrees g (ledger_of applied (mg_version f))" by blast
      with uniq f 1 show ?thesis by (auto simp: agrees_def)
    next
      case 2
      from fresh [OF this] obtain g where "g \<in> set local" "mg_version g = mg_version f"
        "am_checksum r = mg_checksum g" by blast
      with uniq f show ?thesis by metis
    qed
  qed
  have known: "v \<in> mg_version ` set local" if some: "ledger_of (applied @ new) v \<noteq> []" for v
  proof (cases "ledger_of applied v = []")
    case True
    then obtain r where "r \<in> set (ledger_of new v)"
      using some by (cases "ledger_of new v") (auto simp: ledger_append)
    then show ?thesis using fresh by blast
  next
    case False
    from old [OF this] show ?thesis by blast
  qed
  have "is_finite (am_version r)" if r: "r \<in> set new" for r
  proof -
    have "r \<in> set (ledger_of new (am_version r))" using r by (simp add: ledger_of_def)
    from fresh [OF this] plan(1) show ?thesis by (auto simp: plannable_def)
  qed
  then have plan': "plannable (applied @ new) local" using plan(1) by (auto simp: plannable_def)
  have "set (pending_files (plan_migrations (applied @ new) local)) = {}"
    unfolding plan_sets(1) [OF plan'] using covered by blast
  then show "mp_pending (plan_migrations (applied @ new) local) = []" by (simp add: pending_files_def)
  show "mp_conflicts (plan_migrations (applied @ new) local) = []"
  proof -
    have "mc_version ` set (mp_conflicts (plan_migrations (applied @ new) local)) = {}"
      unfolding plan_sets(3) [OF plan'] using agree known by blast
    then show ?thesis by simp
  qed
  show "set (applied_files (plan_migrations (applied @ new) local)) = set local"
    unfolding plan_sets(2) [OF plan'] using covered agree by blast
qed

lemma run_shape:
  assumes "run_mode_of opts = ModeApply"
    and "run_migrations en cfg opts (Inr local) initial_mig_state = (r, s')"
  obtains (Failed) e where "r = Inl e" "list_all (\<lambda>w. setup_call w \<or> w \<in> closing_calls) (ms_log s')"
  | (Planned) before applied r1 rest closing where
      "ms_log s' = before @ Query list_applied_sql [] # rest @ closing" "list_all setup_call before"
      "set closing \<subseteq> closing_calls" "ledger_answer en before applied"
      "planned_trace (plan_migrations applied local) r1 (transcript_from en (before @ [Query list_applied_sql []]) rest)"
      "\<forall>out. r = Inr out \<longleftrightarrow> r1 = Inr out"
proof -
  from assms(2) obtain r1 s1 ws where b: "migrate_body en cfg opts local initial_mig_state = (r1, s1)"
    "ms_log s' = ms_log s1 @ ws" "set ws \<subseteq> closing_calls" "\<forall>out. r = Inr out \<longleftrightarrow> r1 = Inr out"
    using run_ends by blast
  from migrate_body_shape [OF assms(1) b(1)] show ?thesis
  proof
    assume f: "(\<exists>e. r1 = Inl e) \<and> list_all setup_call (ms_log s1)"
    then have "\<nexists>out. r = Inr out" using b(4) by auto
    then obtain e where "r = Inl e" by (cases r) auto
    with f b Failed show ?thesis by (auto simp: list_all_iff)
  next
    assume "\<exists>before applied rest. ms_log s1 = before @ Query list_applied_sql [] # rest \<and> list_all setup_call before \<and>
       ledger_answer en before applied \<and>
       planned_trace (plan_migrations applied local) r1 (transcript_from en (before @ [Query list_applied_sql []]) rest)"
    then show ?thesis using Planned b by auto
  qed
qed

text \<open>The rows of a batch, as they are reported and as they are read back.\<close>

lemma reported_rows:
  "results_of ms ks rs \<Longrightarrow> length ks = length ms \<Longrightarrow>
   map row_values rs = map2 (\<lambda>m k. (mg_version m, mg_name m, mg_checksum m, jint k)) ms ks"
  by (induction ms ks arbitrary: rs rule: list_induct2')
    (auto simp: results_of_def result_of_def row_values_def list_all2_Cons1)

lemma recorded_for:
  fixes new :: "applied_migration list"
  shows "map row_values new = map2 (\<lambda>m k. (mg_version m, mg_name m, mg_checksum m, jint k)) ms ks \<Longrightarrow>
    length ks = length ms \<Longrightarrow> list_all2 row_for ms new"
  by (induction ms ks arbitrary: new rule: list_induct2') (auto simp: row_values_def row_for_def map_eq_Cons_conv)

lemma all2_exists:
  "(\<exists>ys. list_all2 (\<lambda>x y. f x = Inr y) xs ys) \<longleftrightarrow> (\<forall>x\<in>set xs. \<exists>y. f x = Inr y)"
  by (induction xs) (auto simp: list_all2_Cons1)

text \<open>Calls that belong to no migration; and what the ledger was read as within a log.\<close>

definition frame_call :: "mig_call \<Rightarrow> bool" where
  "frame_call w \<longleftrightarrow> setup_call w \<or> auth_call w \<or> w \<in> closing_calls"

definition ledger_read :: "environment \<Rightarrow> mig_call list \<Rightarrow> applied_migration list \<Rightarrow> bool" where
  "ledger_read en sent applied \<longleftrightarrow>
     (\<exists>u v. sent = u @ Query list_applied_sql [] # v \<and> ledger_answer en u applied)"

lemma frame_calls: "list_all setup_call ws \<Longrightarrow> list_all frame_call ws"
  "set ws \<subseteq> closing_calls \<Longrightarrow> list_all frame_call ws" "frame_call (Query list_applied_sql [])"
  by (auto simp: frame_call_def setup_call_def list_all_iff)

abbreviation frame_calls_only :: "transcript \<Rightarrow> bool" where
  "frame_calls_only cs \<equiv> list_all (\<lambda>c. frame_call (fst c)) cs"

lemma auth_frame: "auth_calls cs \<Longrightarrow> frame_calls_only cs"
  by (simp add: frame_call_def list_all_iff)

lemma frame_text:
  "frame_call (Query sql ps) \<Longrightarrow> sql \<notin> {''BEGIN'', ''COMMIT'', ''ROLLBACK''}"
  by (auto simp: frame_call_def setup_call_def auth_call_def opening_calls_def closing_calls_def lock_sql_def
      unlock_sql_def ledger_bootstrap_sql_def list_applied_sql_def js_lines_def)

lemma tx_frame_calls:
  assumes "frame_calls_only cs" "t \<in> {Idle, Aborted}"
  shows "fold tx_call cs (es, t) = (es, t)"
proof (rule tx_frame [OF _ assms(2)])
  show "list_all (\<lambda>c. case fst c of Query sql ps \<Rightarrow> sql \<notin> {''BEGIN'', ''COMMIT'', ''ROLLBACK''} | _ \<Rightarrow> True) cs"
    unfolding list_all_iff
  proof
    fix c
    assume "c \<in> set cs"
    with assms(1) have "frame_call (fst c)" by (simp add: list_all_iff)
    then show "case fst c of Query sql ps \<Rightarrow> sql \<notin> {''BEGIN'', ''COMMIT'', ''ROLLBACK''} | _ \<Rightarrow> True"
      using frame_text by (cases "fst c") auto
  qed
qed

lemma tx_failed_calls:
  "failed_calls m cs \<Longrightarrow> \<exists>t. fold tx_call cs (es, Idle) = (es, t) \<and> t \<in> {Idle, Aborted}"
  using tx_failed [of m _ _ _ es] by (auto simp: failed_calls_def tx_call_def tx_query_def)

text \<open>A run commits its batch and nothing else.\<close>

lemma committed_run:
  assumes "frame_calls_only before" "frame_calls_only after" "list_all guarded ms" "length ks = length ms"
    and "failed = [] \<or> failed_calls m failed"
  shows "committed (before @ batch_of ms ks @ failed @ after) = concat (map2 migration_effects ms ks)"
proof -
  have b: "fold tx_call before ([], Idle) = ([], Idle)" by (rule tx_frame_calls [OF assms(1)]) simp
  have m: "fold tx_call (batch_of ms ks) ([], Idle) = (concat (map2 migration_effects ms ks), Idle)"
    using tx_batch [OF assms(3,4), of "[]"] by (simp add: batch_of_def)
  obtain t where f: "fold tx_call failed (es, Idle) = (es, t)" "t \<in> {Idle, Aborted}"
    if "es = concat (map2 migration_effects ms ks)" for es
    using assms(5) tx_failed_calls [of m failed "concat (map2 migration_effects ms ks)"] by auto
  show ?thesis
    using b m f [OF refl] tx_frame_calls [OF assms(2) f(2) [OF refl]] by (simp add: committed_def)
qed

text \<open>What an applying run sends and what was answered.\<close>

lemma applying_run:
  assumes "run_mode_of opts = ModeApply"
    and "run_migrations en cfg opts (Inr local) initial_mig_state = (r, s')"
  shows "\<exists>before applied done ks failed after.
    transcript_of en (ms_log s') = before @ batch_of done ks @ failed @ after \<and> length ks = length done \<and>
    frame_calls_only before \<and> frame_calls_only after \<and>
    committed (transcript_of en (ms_log s')) = concat (map2 migration_effects done ks) \<and>
    (case r of
       Inr out \<Rightarrow> ledger_read en (map fst before) applied \<and> mp_conflicts (plan_migrations applied local) = [] \<and>
         done = pending_files (plan_migrations applied local) \<and> failed = [] \<and> (AuthMigrate, True) \<in> set after \<and>
         results_of done ks (rs_newly_applied out)
     | Inl e \<Rightarrow> done = [] \<and> failed = [] \<or>
         ledger_read en (map fst before) applied \<and> mp_conflicts (plan_migrations applied local) = [] \<and>
         (done = pending_files (plan_migrations applied local) \<and> failed = [] \<or>
          (\<exists>m rest. pending_files (plan_migrations applied local) = done @ m # rest \<and> failed_calls m failed)))"
  using assms
proof (cases rule: run_shape)
  case (Failed e)
  then have f: "list_all frame_call (ms_log s')" by (auto simp: frame_call_def list_all_iff)
  have "frame_calls_only (transcript_of en (ms_log s'))"
    unfolding transcript_of_def by (rule transcript_all [OF f])
  with Failed(1) committed_run [of "transcript_of en (ms_log s')" "[]" "[]" "[]" "[]"] show ?thesis
    by (intro exI [of _ "transcript_of en (ms_log s')"] exI [of _ "[]"]) (simp add: batch_of_def)
next
  case (Planned before applied r1 rest closing)
  let ?plan = "plan_migrations applied local"
  let ?pre = "before @ [Query list_applied_sql []]"
  let ?close = "transcript_from en (?pre @ rest) closing"
  have whole: "transcript_of en (ms_log s') = transcript_of en ?pre @ transcript_from en ?pre rest @ ?close"
    using transcript_append [of en ?pre "rest @ closing"] by (simp add: Planned(1))
  from Planned(5) obtain mid tl where mid: "transcript_from en ?pre rest = mid @ tl" "auth_calls mid"
    "(\<exists>e. r1 = Inl e) \<and> tl = [] \<or> mp_conflicts ?plan = [] \<and> apply_trace ?plan r1 tl"
    unfolding planned_trace_def by blast
  let ?before = "transcript_of en ?pre @ mid"
  have pre: "list_all frame_call ?pre" using frame_calls Planned(2) by simp
  have "list_all frame_call closing" using frame_calls Planned(3) by blast
  then have close: "frame_calls_only ?close" by (rule transcript_all)
  have "frame_calls_only (transcript_of en ?pre)" unfolding transcript_of_def by (rule transcript_all [OF pre])
  then have before: "frame_calls_only ?before" using auth_frame [OF mid(2)] by simp
  have read: "ledger_read en (map fst ?before) applied"
    unfolding ledger_read_def using Planned(4) by (intro exI [of _ before] exI [of _ "map fst mid"]) simp
  from mid(3) show ?thesis
  proof
    assume stop: "(\<exists>e. r1 = Inl e) \<and> tl = []"
    then have "\<exists>e. r = Inl e" using Planned(6) by (cases r) auto
    moreover have "transcript_of en (ms_log s') = ?before @ batch_of [] [] @ [] @ ?close"
      using whole mid(1) stop by (simp add: batch_of_def)
    moreover have "committed (?before @ batch_of [] [] @ [] @ ?close) = concat (map2 migration_effects [] [])"
      by (rule committed_run [OF before close]) simp_all
    ultimately show ?thesis
      using before close
      by (intro exI [of _ ?before] exI [of _ applied] exI [of _ "[]"] exI [of _ "[]"] exI [of _ "[]"] exI [of _ ?close])
        (auto simp: batch_of_def)
  next
    assume go: "mp_conflicts ?plan = [] \<and> apply_trace ?plan r1 tl"
    then obtain dn ks fl aft where t: "length ks = length dn" "list_all guarded dn" "tl = batch_of dn ks @ fl @ aft"
      "auth_calls aft"
      "case r1 of
         Inr out \<Rightarrow> dn = pending_files ?plan \<and> fl = [] \<and> results_of dn ks (rs_newly_applied out) \<and>
           (AuthMigrate, True) \<in> set aft
       | Inl e \<Rightarrow> dn = pending_files ?plan \<and> fl = [] \<or>
           (\<exists>m rest. pending_files ?plan = dn @ m # rest \<and> failed_calls m fl)"
      unfolding apply_trace_def by blast
    have after: "frame_calls_only (aft @ ?close)" using auth_frame [OF t(4)] close by simp
    have fl: "\<exists>m. fl = [] \<or> failed_calls m fl" using t(5) by (auto split: sum.splits)
    then obtain m where m: "fl = [] \<or> failed_calls m fl" by blast
    have w: "transcript_of en (ms_log s') = ?before @ batch_of dn ks @ fl @ aft @ ?close"
      using whole mid(1) t(3) by simp
    have "committed (transcript_of en (ms_log s')) = concat (map2 migration_effects dn ks)"
      unfolding w by (rule committed_run [OF before after t(2,1) m])
    with w t go before after read Planned(6) show ?thesis
      by (intro exI [of _ ?before] exI [of _ applied] exI [of _ dn] exI [of _ ks] exI [of _ fl]
          exI [of _ "aft @ ?close"]) (auto split: sum.splits)
  qed
qed

section \<open>Samples\<close>

text \<open>An environment that accepts everything, with an empty ledger and a healthy Auth schema.\<close>

definition healthy_auth :: auth_plan where
  "healthy_auth = \<lparr>ap_entries = [], ap_pending_count = 0, ap_has_blocking_drift = False\<rparr>"

definition sample_environment :: environment where
  "sample_environment =
     \<lparr>en_db = (\<lambda>_ _. Ok []), en_auth_plan = (\<lambda>_ _. Ok healthy_auth), en_auth_act = (\<lambda>_ _. Ok ()),
      en_confirm = (\<lambda>_. True), en_clock = (\<lambda>ws. int (length ws))\<rparr>"

definition sample_config :: run_config where
  "sample_config =
     \<lparr>rc_provider_kind = ''postgres'', rc_provider_mode = ''direct'', rc_connection = ''postgres://db'',
      rc_database_label = ''app'', rc_directory = ''athena/migrations''\<rparr>"

definition sample_file :: migration_file where
  "sample_file =
     \<lparr>mg_checksum = ''c'', mg_filename = ''a.sql'', mg_name = ''a'', mg_path = ''a.sql'',
      mg_sql = ''DROP TABLE t'', mg_version = Fin 1\<rparr>"

definition sample_options :: "run_mode \<Rightarrow> bool \<Rightarrow> run_options" where
  "sample_options mode dry = \<lparr>ro_mode = Some mode, ro_dry_run = dry, ro_yes = False, ro_interactive = False\<rparr>"

definition sample_log :: "run_mode \<Rightarrow> bool \<Rightarrow> mig_call list" where
  "sample_log mode dry =
     ms_log (snd (run_migrations sample_environment sample_config (sample_options mode dry)
       (Inr [sample_file]) initial_mig_state))"

lemma sample_mode: "run_mode_of (sample_options mode dry) = mode"
  by (simp add: run_mode_of_def sample_options_def)

lemma sample_plan:
  "plan_migrations [] [sample_file] =
   \<lparr>mp_applied = [], mp_conflicts = [], mp_pending = [\<lparr>pe_migration = sample_file, pe_status = PlanPending\<rparr>]\<rparr>"
  by (simp add: plan_migrations_def dict_of_def group_by_def nub_def js_sort_def plan_version_def add_step_def
      empty_plan_def)

lemma sample_guard: "assert_migration_sql_allows_outer_transaction (mg_sql sample_file) f = Ok ()"
proof -
  have "find_transaction_control_statement (mg_sql sample_file) = None" by code_simp
  then show ?thesis by (simp add: assert_migration_sql_allows_outer_transaction_def)
qed

lemmas sample_run =
  run_migrations_def migrate_body_def run_planned_def run_apply_def finish_apply_def apply_embedded_auth_schema_def
  auth_act_def load_auth_plan_def load_auth_plan_leniently_def render_report_def show_ui_def refuse_drift_def
  run_repair_def list_applied_migrations_def ensure_ledger_def acquire_lock_def ensure_client_def
  apply_migration_def migration_body_def current_time_def run_query_def db_call_def note_call_def
  assert_direct_postgres_def initial_mig_state_def close_backend_def release_lock_def
  plan_has_blocking_conflicts_def act_defs

text \<open>
  The option \<open>dryRun\<close> is documented never to change the database. It only chooses the mode where
  none is given: with the mode \<open>apply\<close> the migration is committed, and with \<open>repair\<close> the
  ledger is created.
\<close>

lemma dry_run_applies: "Query ''COMMIT'' [] \<in> set (sample_log ModeApply True)"
  unfolding sample_log_def
  by (simp add: sample_run sample_mode sample_plan sample_guard healthy_auth_def sample_environment_def
      sample_config_def)

lemma dry_repair_creates_ledger: "Query ledger_bootstrap_sql [] \<in> set (sample_log ModeRepair True)"
  unfolding sample_log_def
  by (simp add: sample_run sample_mode sample_plan healthy_auth_def sample_environment_def sample_config_def)

lemma sample_applies:
  "\<exists>out s'. run_migrations sample_environment sample_config (sample_options ModeApply False)
      (Inr [sample_file]) initial_mig_state = (Inr out, s')"
  by (simp add: sample_run sample_mode sample_plan sample_guard healthy_auth_def sample_environment_def
      sample_config_def)

definition sample_sql :: "sql_piece list" where
  "sample_sql =
     [Plain ''INSERT INTO t VALUES ('', Literal ''ROLLBACK'', Plain ''); '', BlockComment '' COMMIT '',
      DollarLiteral ''f'' ''START TRANSACTION'']"

lemma sample_sql_proper: "proper_sql sample_sql"
proof -
  have "\<not> has_suffix ''START TRANSACTION'' (CHR ''$'' # ''f'')"
    by (auto simp: has_suffix_def append_eq_append_conv2 Cons_eq_append_conv)
  moreover have "\<not> js_includes ''START TRANSACTION'' (dollar ''f'')" "is_identifier ''f''"
    "\<not> js_includes '' COMMIT '' ''*/''" "plain_sql ''INSERT INTO t VALUES (''" "plain_sql ''); ''"
    by code_simp+
  ultimately show ?thesis by (simp add: sample_sql_def is_literal_def)
qed

text \<open>A directory with one migration, and a text that is no migration.\<close>

definition sample_files :: file_system where
  "sample_files =
     \<lparr>fs_stat = (\<lambda>_. Ok True), fs_readdir = (\<lambda>_. Ok [''README.md'', ''2_b.sql'']),
      fs_read = (\<lambda>_. Ok ''DROP TABLE t'')\<rparr>"

definition sample_row :: applied_migration where
  "sample_row =
     \<lparr>am_applied_at = 0, am_checksum = ''c'', am_execution_ms = Fin 0, am_name = ''a'', am_version = Fin 1\<rparr>"

lemma sample_plannable: "plannable [sample_row] [sample_file]"
  by (simp add: plannable_def sample_row_def sample_file_def is_finite_def)

section \<open>The guard\<close>

text \<open>
  C31. On SQL written from plain text, comments, literals and dollar-quoted literals the guard
  passes a migration exactly when no transaction control phrase stands in it outside comments and
  literals: every phrase there is found, and nothing inside them is.
\<close>

theorem guard_exact:
  assumes "proper_sql ps"
  shows "assert_migration_sql_allows_outer_transaction (write_sql ps) filename = Ok () \<longleftrightarrow>
    \<not> has_control (blanked ps)"
  using assms by (rule guard_written)

theorem guard_exact_witness:
  "assert_migration_sql_allows_outer_transaction (write_sql sample_sql) ''1_a.sql'' = Ok () \<longleftrightarrow>
    \<not> has_control (blanked sample_sql)"
  by (rule guard_exact [OF sample_sql_proper])

section \<open>Discovery and planning\<close>

text \<open>
  C30. In a readable directory discovery succeeds exactly when every SQL file there is named like a
  migration, no two have the same version, and each can be read and passes the guard. What it
  returns is then one migration for each of these files, in strictly ascending order of version,
  with the version and name its file name spells, the text of the file and its digest.
\<close>

theorem discovery_exact:
  assumes "fs_stat fs (path_resolve process_cwd (get_or cwd process_cwd) directory) = Inr True"
    "fs_readdir fs (path_resolve process_cwd (get_or cwd process_cwd) directory) = Inr entries"
  shows
    "(succeeds (discover_migrations checksum fs process_cwd cwd directory) \<longleftrightarrow>
      (\<forall>e\<in>set (migration_entries entries). parse_migration_filename e \<noteq> None \<and>
        (\<exists>sql. fs_read fs (path_join (path_resolve process_cwd (get_or cwd process_cwd) directory) e) = Inr sql \<and>
          \<not> has_control (strip_sql sql))) \<and>
      distinct (map (\<lambda>e. snd (the (parse_migration_filename e))) (migration_entries entries))) \<and>
    (\<forall>files. discover_migrations checksum fs process_cwd cwd directory = Inr files \<longrightarrow>
      mset (map mg_filename files) = mset (migration_entries entries) \<and>
      sorted_wrt num_less (map mg_version files) \<and>
      (\<forall>f\<in>set files. parse_migration_filename (mg_filename f) = Some (mg_name f, mg_version f) \<and>
        fs_read fs (mg_path f) = Inr (mg_sql f) \<and> mg_checksum f = checksum (mg_sql f)))"
proof -
  let ?abs = "path_resolve process_cwd (get_or cwd process_cwd) directory"
  let ?es = "migration_entries entries"
  let ?found = "concat (map (found_of ?abs) ?es)"
  note D = discover_directory [OF assms, of checksum]
  have load: "(\<exists>files. list_all2 (\<lambda>item f. load_migration checksum fs item = Inr f) (js_sort found_compare ?found) files) \<longleftrightarrow>
      (\<forall>item\<in>set ?found. \<exists>sql. fs_read fs (ff_path item) = Inr sql \<and> \<not> has_control (strip_sql sql))"
    by (simp only: all2_exists set_js_sort) (simp add: loaded)
  have found: "(\<forall>item\<in>set ?found. Q (ff_path item)) \<longleftrightarrow> (\<forall>e\<in>set ?es. Q (path_join ?abs e))"
    if "\<forall>e\<in>set ?es. parse_migration_filename e \<noteq> None" for Q
    using that by (fastforce simp: found_of_def split: option.splits)
  have ok: "succeeds (discover_migrations checksum fs process_cwd cwd directory) \<longleftrightarrow>
      (\<forall>e\<in>set ?es. parse_migration_filename e \<noteq> None \<and>
        (\<exists>sql. fs_read fs (path_join ?abs e) = Inr sql \<and> \<not> has_control (strip_sql sql))) \<and>
      distinct (map (\<lambda>e. snd (the (parse_migration_filename e))) ?es)"
    unfolding succeeds_iff D discovered_def
    using load found [of "\<lambda>p. \<exists>sql. fs_read fs p = Inr sql \<and> \<not> has_control (strip_sql sql)"] by blast
  have files: "mset (map mg_filename files) = mset ?es \<and> sorted_wrt num_less (map mg_version files) \<and>
      (\<forall>f\<in>set files. parse_migration_filename (mg_filename f) = Some (mg_name f, mg_version f) \<and>
        fs_read fs (mg_path f) = Inr (mg_sql f) \<and> mg_checksum f = checksum (mg_sql f))"
    if "discover_migrations checksum fs process_cwd cwd directory = Inr files" for files
  proof -
    from that have "discovered checksum fs ?abs entries files" unfolding D .
    from discovered_files [OF this] show ?thesis by blast
  qed
  from ok files show ?thesis by blast
qed

theorem discovery_exact_witness:
  "\<exists>files. discover_migrations (\<lambda>_. ''c'') sample_files ''/p'' None ''m'' = Inr files \<and>
    mset (map mg_filename files) = {#''2_b.sql''#}"
proof -
  let ?p = "discover_migrations (\<lambda>_. ''c'') sample_files ''/p'' None ''m''"
  have dir: "fs_stat sample_files (path_resolve ''/p'' (get_or None ''/p'') ''m'') = Inr True"
    by (simp add: sample_files_def)
  have entries: "fs_readdir sample_files (path_resolve ''/p'' (get_or None ''/p'') ''m'') = Inr [''README.md'', ''2_b.sql'']"
    by (simp add: sample_files_def)
  have names: "migration_entries [''README.md'', ''2_b.sql''] = [''2_b.sql'']" by code_simp
  have "find_transaction_control_statement ''DROP TABLE t'' = None" by code_simp
  then have readable: "fs_read sample_files path = Inr ''DROP TABLE t''" "\<not> has_control (strip_sql ''DROP TABLE t'')" for path
    by (simp_all add: sample_files_def find_exact)
  have name: "parse_migration_filename ''2_b.sql'' \<noteq> None" by code_simp
  note exact = discovery_exact [OF dir entries, of "\<lambda>_. ''c''"]
  have "succeeds ?p" using exact readable name by (simp add: names)
  then obtain files where f: "?p = Inr files" by (auto simp: succeeds_iff)
  with exact show ?thesis by (simp add: names)
qed

text \<open>
  For files with distinct finite versions the plan is exact. Pending are the files whose version
  has no row in the ledger; applied are the files whose version has rows, all with the checksum of
  the file; and the versions in conflict are those with rows but without such a file. Each of the
  three lists is in strictly ascending order of version.
\<close>

lemma plan_exact:
  assumes "plannable applied local"
  shows
    "set (pending_files (plan_migrations applied local)) =
       {f \<in> set local. ledger_of applied (mg_version f) = []} \<and>
     set (applied_files (plan_migrations applied local)) =
       {f \<in> set local. ledger_of applied (mg_version f) \<noteq> [] \<and>
          (\<forall>r\<in>set (ledger_of applied (mg_version f)). am_checksum r = mg_checksum f)} \<and>
     mc_version ` set (mp_conflicts (plan_migrations applied local)) =
       {v. ledger_of applied v \<noteq> [] \<and>
          \<not> (\<exists>f\<in>set local. mg_version f = v \<and> (\<forall>r\<in>set (ledger_of applied v). am_checksum r = mg_checksum f))} \<and>
     sorted_wrt num_less (map mg_version (pending_files (plan_migrations applied local))) \<and>
     sorted_wrt num_less (map mg_version (applied_files (plan_migrations applied local))) \<and>
     sorted_wrt num_less (map mc_version (mp_conflicts (plan_migrations applied local)))"
  using plan_sorted [OF assms] plan_sets [OF assms] by (simp add: agrees_def)

lemma plan_exact_witness:
  "set (applied_files (plan_migrations [sample_row] [sample_file])) = {sample_file}"
proof -
  have "ledger_of [sample_row] (mg_version sample_file) = [sample_row]"
    "am_checksum sample_row = mg_checksum sample_file"
    by (simp_all add: ledger_of_def sample_row_def sample_file_def)
  then show ?thesis using plan_exact [OF sample_plannable, THEN conjunct2, THEN conjunct1] by auto
qed

section \<open>Runs\<close>

text \<open>
  C29. Inspecting never writes: whatever the database answers, a run in the mode status, plan or
  dry-run only connects, takes and gives back the advisory lock, reads the ledger and the plan of
  the Auth schema, and disconnects.
\<close>

theorem inspection_read_only:
  assumes "run_mode_of opts \<in> {ModeStatus, ModePlan, ModeDryRun}"
  shows "set (ms_log (snd (run_migrations en cfg opts discovery initial_mig_state))) \<subseteq>
    {OpenPool, ConnectPool, Query lock_sql lock_keys, Query list_applied_sql [], AuthPlan True, AuthPlan False,
     Query unlock_sql lock_keys, ReleaseConnection, EndPool}"
proof -
  obtain r s' where "run_migrations en cfg opts discovery initial_mig_state = (r, s')" by fastforce
  with extends_log [OF inspection_reads [OF assms] this] show ?thesis
    by (auto simp: initial_mig_state_def list_all_iff reading_call_def opening_calls_def closing_calls_def
        inspection_calls_def)
qed

theorem inspection_read_only_witness:
  "set (sample_log ModeStatus False) \<subseteq>
    {OpenPool, ConnectPool, Query lock_sql lock_keys, Query list_applied_sql [], AuthPlan True, AuthPlan False,
     Query unlock_sql lock_keys, ReleaseConnection, EndPool}"
  unfolding sample_log_def by (rule inspection_read_only) (simp add: sample_mode)

text \<open>
  C26. An applying run is transactional. The calls it makes for migrations are, in the order of the
  plan, one accepted transaction for each of an initial part of the pending files (BEGIN, the text
  of the file, its row in the ledger, COMMIT), and at most one attempt for the file after them, in
  which a call was refused and after which it rolls back. What the database has then committed are
  the texts and the rows of that initial part and nothing else. Nothing is applied when the history
  has conflicts. The run returns only when the transactions of all pending files and the Auth schema
  were accepted, and then reports one result for each file, in order.
\<close>

theorem run_transactional:
  assumes "run_mode_of opts = ModeApply"
    and "run_migrations en cfg opts (Inr local) initial_mig_state = (r, s')"
  shows "\<exists>before applied done ks failed after.
    transcript_of en (ms_log s') = before @ batch_of done ks @ failed @ after \<and> length ks = length done \<and>
    frame_calls_only before \<and> frame_calls_only after \<and>
    committed (transcript_of en (ms_log s')) = concat (map2 migration_effects done ks) \<and>
    (case r of
       Inr out \<Rightarrow> ledger_read en (map fst before) applied \<and> mp_conflicts (plan_migrations applied local) = [] \<and>
         done = pending_files (plan_migrations applied local) \<and> failed = [] \<and> (AuthMigrate, True) \<in> set after \<and>
         results_of done ks (rs_newly_applied out)
     | Inl e \<Rightarrow> done = [] \<and> failed = [] \<or>
         ledger_read en (map fst before) applied \<and> mp_conflicts (plan_migrations applied local) = [] \<and>
         (done = pending_files (plan_migrations applied local) \<and> failed = [] \<or>
          (\<exists>m rest. pending_files (plan_migrations applied local) = done @ m # rest \<and> failed_calls m failed)))"
  using assms by (rule applying_run)

theorem run_transactional_witness:
  "\<exists>ks. committed (transcript_of sample_environment (sample_log ModeApply False)) =
     concat (map2 migration_effects [sample_file] ks)"
proof -
  obtain out s' where run: "run_migrations sample_environment sample_config (sample_options ModeApply False)
      (Inr [sample_file]) initial_mig_state = (Inr out, s')"
    using sample_applies by blast
  have empty: "ledger_read sample_environment sent applied \<Longrightarrow> applied = []" for sent applied
    by (auto simp: ledger_read_def ledger_answer_def sample_environment_def)
  from run_transactional [OF sample_mode run] show ?thesis
    by (auto simp: sample_log_def run sample_plan pending_files_def dest!: empty)
qed

text \<open>
  C27. A successful applying run converges. The rows its accepted transactions left in the ledger
  are those of the results it reports, and planning again, over the ledger it read and rows that
  read as what was recorded, finds nothing pending, no conflict, and every file applied.
\<close>

theorem run_converges:
  assumes "run_mode_of opts = ModeApply"
    and "run_migrations en cfg opts (Inr local) initial_mig_state = (Inr out, s')"
    and "\<forall>sent applied. ledger_answer en sent applied \<longrightarrow> plannable applied local"
  shows "\<exists>before applied rest.
    ms_log s' = before @ Query list_applied_sql [] # rest \<and> ledger_answer en before applied \<and>
    map row_values (rs_newly_applied out) = recorded_rows (transcript_of en (ms_log s')) \<and>
    (\<forall>new. map row_values new = recorded_rows (transcript_of en (ms_log s')) \<longrightarrow>
      mp_pending (plan_migrations (applied @ new) local) = [] \<and>
      mp_conflicts (plan_migrations (applied @ new) local) = [] \<and>
      set (applied_files (plan_migrations (applied @ new) local)) = set local)"
proof -
  from applying_run [OF assms(1,2)] obtain before applied fs ks after where
    t: "transcript_of en (ms_log s') = before @ batch_of fs ks @ after" "length ks = length fs" and
    c: "committed (transcript_of en (ms_log s')) = concat (map2 migration_effects fs ks)" and
    a: "ledger_read en (map fst before) applied" "mp_conflicts (plan_migrations applied local) = []"
      "fs = pending_files (plan_migrations applied local)" "results_of fs ks (rs_newly_applied out)"
    by auto
  from a(1) obtain u v where u: "map fst before = u @ Query list_applied_sql [] # v" "ledger_answer en u applied"
    unfolding ledger_read_def by blast
  have "ms_log s' = map fst (transcript_of en (ms_log s'))" by simp
  then have log: "ms_log s' = u @ Query list_applied_sql [] # v @ map fst (batch_of fs ks @ after)"
    unfolding t(1) by (simp add: u(1))
  have rows: "recorded_rows (transcript_of en (ms_log s')) =
      map2 (\<lambda>m k. (mg_version m, mg_name m, mg_checksum m, jint k)) fs ks"
    unfolding recorded_rows_def c by (rule entries_batch [OF t(2)])
  have reported: "map row_values (rs_newly_applied out) = recorded_rows (transcript_of en (ms_log s'))"
    unfolding rows using a(4) t(2) by (rule reported_rows)
  note r = replan [OF assms(3) [rule_format, OF u(2)] a(2)]
  have "list_all2 row_for (pending_files (plan_migrations applied local)) new"
    if "map row_values new = recorded_rows (transcript_of en (ms_log s'))" for new
    using that unfolding rows a(3) [symmetric] using t(2) by (rule recorded_for)
  with log u(2) reported r show ?thesis by blast
qed

theorem run_converges_witness:
  "\<exists>out s'. run_migrations sample_environment sample_config (sample_options ModeApply False)
      (Inr [sample_file]) initial_mig_state = (Inr out, s') \<and>
    mp_pending (plan_migrations (map applied_migration.truncate (rs_newly_applied out)) [sample_file]) = []"
proof -
  obtain out s' where run: "run_migrations sample_environment sample_config (sample_options ModeApply False)
      (Inr [sample_file]) initial_mig_state = (Inr out, s')"
    using sample_applies by blast
  have empty: "ledger_answer sample_environment sent applied \<Longrightarrow> applied = []" for sent applied
    by (simp add: ledger_answer_def sample_environment_def)
  then have plan: "\<forall>sent applied. ledger_answer sample_environment sent applied \<longrightarrow> plannable applied [sample_file]"
    by (fastforce simp add: plannable_def sample_file_def is_finite_def)
  have same: "row_values (applied_migration.truncate r) = row_values r" for r :: applied_result
    by (simp add: row_values_def applied_migration.truncate_def)
  from run_converges [OF sample_mode run plan] obtain sent applied where a:
    "ledger_answer sample_environment sent applied"
    "map row_values (rs_newly_applied out) = recorded_rows (transcript_of sample_environment (ms_log s'))"
    "\<forall>new. map row_values new = recorded_rows (transcript_of sample_environment (ms_log s')) \<longrightarrow>
      mp_pending (plan_migrations (applied @ new) [sample_file]) = []"
    by blast
  have "map row_values (map applied_migration.truncate (rs_newly_applied out)) =
      recorded_rows (transcript_of sample_environment (ms_log s'))"
    using a(2) by (simp add: same comp_def)
  with a(3) run empty [OF a(1)] show ?thesis by fastforce
qed

text \<open>
  C28. What a run opens it closes, on every path: its log is calls that close nothing, then the
  unlocking if the lock was granted, the release of the connection if one was given, and the end
  of the pool if one was made. Nothing is held afterwards.
\<close>

theorem run_closes:
  "\<exists>sent.
    ms_log (snd (run_migrations en cfg opts discovery initial_mig_state)) = sent @
      (if accepted en sent (Query lock_sql lock_keys) then [Query unlock_sql lock_keys] else []) @
      (if accepted en sent ConnectPool then [ReleaseConnection] else []) @
      (if accepted en sent OpenPool then [EndPool] else []) \<and>
    set sent \<inter> {Query unlock_sql lock_keys, ReleaseConnection, EndPool} = {} \<and>
    \<not> ms_lock (snd (run_migrations en cfg opts discovery initial_mig_state)) \<and>
    \<not> ms_client (snd (run_migrations en cfg opts discovery initial_mig_state)) \<and>
    \<not> ms_pool (snd (run_migrations en cfg opts discovery initial_mig_state))"
proof (cases discovery)
  case (Inl e)
  then show ?thesis
    by (intro exI [of _ "[]"]) (simp add: run_migrations_def act_throw_def initial_mig_state_def accepted_def)
next
  case (Inr local)
  obtain r s where b: "migrate_body en cfg opts local initial_mig_state = (r, s)" by fastforce
  have "tracked en initial_mig_state" by (simp add: tracked_def initial_mig_state_def accepted_def)
  then have t: "tracked en s" using relatesD [OF tracked_body b] by (simp add: keeps_tracked_def)
  have e: "snd (run_migrations en cfg opts discovery initial_mig_state) = snd (close_backend en s)"
    using b close_exact [of en s]
    by (simp add: Inr run_migrations_def act_finally_def act_catch_def act_throw_def split: sum.splits)
  show ?thesis
    unfolding e close_exact using t
    by (intro exI [of _ "ms_log s"]) (auto simp: tracked_def closing_calls_def)
qed

end
