(* ===== verification/D1Sql.thy ===== *)
theory D1Sql
  imports PostgresFacts
begin

text \<open>
  The D1 (SQLite) compiler of flat gateway payloads (\<open>cloudflare/d1/sql.ts\<close>): select, count,
  insert with upsert, update and delete with their row bounds. Its placeholders are bare \<open>?\<close>
  marks, so the values are matched by position only. An error is its code; the wording of its
  message is left out. What the code shares word for word with the PostgreSQL compiler (how a
  condition is read, the limits in force, the conditions of a delete) is shared here too.
\<close>

datatype d1_error = D1Error string | D1TypeError

record compiled_d1_query =
  dc_head :: compiled_query
  dc_statements :: "compiled_query list option"

definition as_single :: "string \<times> jval list \<Rightarrow> compiled_d1_query" where
  "as_single tv = \<lparr>dc_head = to_query tv, dc_statements = None\<rparr>"

definition as_batch :: "compiled_query list \<Rightarrow> (d1_error, compiled_d1_query) result" where
  "as_batch qs =
     (if qs = [] then Throw (D1Error ''empty_insert'') else Ok \<lparr>dc_head = hd qs, dc_statements = Some qs\<rparr>)"

text \<open>The statements that run: the batch, or the one statement.\<close>

definition d1_statements :: "compiled_d1_query \<Rightarrow> compiled_query list" where
  "d1_statements d = (case dc_statements d of None \<Rightarrow> [dc_head d] | Some qs \<Rightarrow> qs)"

text \<open>A value is bound by the next \<open>?\<close>.\<close>

definition emit_mark :: "jval \<Rightarrow> 'e emit" where
  "emit_mark v vs = Inr (''?'', vs @ [v])"

section \<open>Identifiers and values\<close>

text \<open>D1 has no schemas: a qualified name stands for its last segment.\<close>

definition normalize_d1_table_name :: "string \<Rightarrow> (d1_error, string) result" where
  "normalize_d1_table_name name =
     (let t = js_trim name
      in if t = [] then Throw (D1Error ''invalid_identifier'')
         else if CHR ''.'' \<notin> set t then Ok t
         else (let segments = filter (\<lambda>s. s \<noteq> []) (map js_trim (split_on (CHR ''.'') t))
               in if length segments < 2 then Throw (D1Error ''invalid_identifier'') else Ok (last segments)))"

definition d1_quote_ident :: "string \<Rightarrow> (d1_error, string) result" where
  "d1_quote_ident name =
     rbind (normalize_d1_table_name name) (\<lambda>bare.
       if is_identifier bare then Ok (quote_qualified_identifier bare)
       else Throw (D1Error ''invalid_identifier''))"

text \<open>
  \<open>RESPONSE_ALIAS_PATTERN\<close> and \<open>SQL_ALIAS_PATTERN\<close>: the patterns of \<open>SqlText\<close> with a plain
  identifier as base.
\<close>

definition d1_response_alias :: "string \<Rightarrow> (string \<times> string) option" where
  "d1_response_alias token =
     (case response_alias token of
        Some (a, b) \<Rightarrow> if is_identifier b then Some (a, b) else None
      | None \<Rightarrow> None)"

definition d1_sql_alias :: "string \<Rightarrow> (string \<times> string) option" where
  "d1_sql_alias token =
     (case sql_alias token of
        Some (b, a) \<Rightarrow> if is_identifier b then Some (b, a) else None
      | None \<Rightarrow> None)"

definition d1_select_token :: "string \<Rightarrow> (d1_error, string) result" where
  "d1_select_token token =
     (let t = js_trim token
      in if t = [] \<or> t = ''*'' then Ok ''*''
         else if is_identifier t then Ok (quote_qualified_identifier t)
         else (case d1_response_alias t of
             Some (a, b) \<Rightarrow> Ok (quote_qualified_identifier b @ '' AS '' @ quote_qualified_identifier a)
           | None \<Rightarrow>
         (case d1_sql_alias t of
             Some (b, a) \<Rightarrow> Ok (quote_qualified_identifier b @ '' AS '' @ quote_qualified_identifier a)
           | None \<Rightarrow> Throw (D1Error ''unsafe_select''))))"

definition d1_select_clause :: "columns_spec option \<Rightarrow> (d1_error, string) result" where
  "d1_select_clause columns =
     (case columns of
        None \<Rightarrow> Ok ''*''
      | Some (ColumnText c) \<Rightarrow>
          (let t = js_trim c
           in if t = [] \<or> t = ''*'' then Ok ''*''
              else rmap (js_join '', '') (map_r d1_select_token (split_on (CHR '','') t)))
      | Some (ColumnList cs) \<Rightarrow>
          if cs = [] then Ok ''*''
          else rmap (js_join '', '') (map_r d1_select_token cs))"

definition d1_json_value :: "jval \<Rightarrow> jval" where
  "d1_json_value v =
     (case v of
        Undefined \<Rightarrow> Null
      | JObj i fs \<Rightarrow> JStr (stringify v)
      | JArr vs \<Rightarrow> JStr (stringify v)
      | _ \<Rightarrow> v)"

section \<open>Conditions\<close>

definition d1_in_list :: "string \<Rightarrow> jval list \<Rightarrow> 'e emit" where
  "d1_in_list col vs =
     (if vs = [] then emit_text ''1 = 0''
      else template [emit_text (col @ '' IN (''), emit_join '', '' (map emit_mark vs), emit_text '')''])"

definition d1_binary :: "string \<Rightarrow> string \<Rightarrow> jval \<Rightarrow> 'e emit" where
  "d1_binary col smb v = template [emit_text (col @ '' '' @ smb @ '' ''), emit_mark (nullish_or v Null)]"

definition d1_comparison_symbol :: "string \<Rightarrow> string option" where
  "d1_comparison_symbol op =
     map_of [(''gt'', ''>''), (''gte'', ''>=''), (''lt'', ''<''), (''lte'', ''<=''), (''like'', ''LIKE'')] op"

text \<open>The switch over the operator.\<close>

definition d1_operator_where :: "string \<Rightarrow> string \<Rightarrow> jval \<Rightarrow> d1_error emit" where
  "d1_operator_where col op v =
     (if op = ''eq'' then
        (case v of
           JArr vs \<Rightarrow> d1_in_list col vs
         | _ \<Rightarrow> if v = Null then emit_text (col @ '' IS NULL'') else d1_binary col ''='' v)
      else if op = ''neq'' then
        (if v = Null then emit_text (col @ '' IS NOT NULL'') else d1_binary col ''!='' v)
      else if op = ''ilike'' then template [d1_binary col ''LIKE'' v, emit_text '' COLLATE NOCASE'']
      else if op = ''in'' then d1_in_list col (case v of JArr vs \<Rightarrow> vs | Undefined \<Rightarrow> [] | _ \<Rightarrow> [v])
      else if op = ''is'' then
        (if v = Null \<or> v = JStr ''null'' then emit_text (col @ '' IS NULL'')
         else if v = JBool True \<or> v = JStr ''true'' then emit_text (col @ '' IS TRUE'')
         else if v = JBool False \<or> v = JStr ''false'' then emit_text (col @ '' IS FALSE'')
         else template [emit_text (col @ '' IS ''), emit_mark v])
      else (case d1_comparison_symbol op of
              Some smb \<Rightarrow> d1_binary col smb v
            | None \<Rightarrow> emit_fail (D1Error ''unsupported_operator'')))"

definition d1_simple_where :: "gateway_condition \<Rightarrow> d1_error emit" where
  "d1_simple_where c =
     (if condition_column c = [] then emit_fail (D1Error ''invalid_condition'')
      else emit_given (d1_quote_ident (condition_column c))
        (\<lambda>col. d1_operator_where col (condition_operator c) (condition_value c)))"

text \<open>
  \<open>conditionToWhere\<close>. As in \<open>PostgresSql\<close> the recursive call on a predicate of a parsed
  expression is \<open>d1_simple_where\<close> (\<open>d1_predicate_where\<close> below).
\<close>

definition d1_condition_to_where :: "gateway_condition \<Rightarrow> d1_error emit" where
  "d1_condition_to_where c =
     (if condition_operator c = ''or'' \<or> condition_operator c = ''not'' then
        (case condition_value c of
           JStr text \<Rightarrow>
             (case parse_legacy_boolean_expression text (condition_operator c = ''or'') of
                Inl e \<Rightarrow> emit_fail (D1Error ''unsupported_operator'')
              | Inr tree \<Rightarrow>
                  if condition_operator c = ''not''
                  then template [emit_text ''(NOT ('', compile_legacy_boolean_node tree d1_simple_where, emit_text ''))'']
                  else compile_legacy_boolean_node tree d1_simple_where)
         | _ \<Rightarrow> emit_fail (D1Error ''unsupported_operator''))
      else d1_simple_where c)"

lemma d1_predicate_where: "safe_predicate c \<Longrightarrow> d1_condition_to_where c = d1_simple_where c"
  by (auto simp: safe_predicate_def d1_condition_to_where_def condition_operator_def simple_operators_def
      js_lower_def lower_char_def char_class_defs)

definition d1_where_parts :: "gateway_condition list \<Rightarrow> d1_error emit" where
  "d1_where_parts cs = emit_join '' AND '' (map (\<lambda>c. d1_condition_to_where (canonical_condition c)) cs)"

definition d1_build_where :: "gateway_condition list \<Rightarrow> (d1_error, string \<times> jval list) result" where
  "d1_build_where cs =
     (if cs = [] then Ok ([], []) else template [emit_text ''WHERE '', d1_where_parts cs] [])"

definition d1_order_clause :: "sort_by option \<Rightarrow> (d1_error, string) result" where
  "d1_order_clause order =
     (case order of
        None \<Rightarrow> Ok []
      | Some s \<Rightarrow>
          if js_trim (sb_field s) = [] then Ok []
          else rmap (\<lambda>q. ''ORDER BY '' @ q @ '' '' @ (if sb_direction s = ''descending'' then ''DESC'' else ''ASC''))
            (d1_quote_ident (sb_field s)))"

text \<open>SQLite takes no \<open>OFFSET\<close> without a \<open>LIMIT\<close>: \<open>-1\<close> is no bound.\<close>

definition d1_limit_offset_clause :: "paging \<Rightarrow> string" where
  "d1_limit_offset_clause p =
     (case (effective_limit p, effective_offset p) of
        (None, None) \<Rightarrow> []
      | (None, Some m) \<Rightarrow> ''LIMIT -1 OFFSET '' @ bound_text m
      | (Some n, None) \<Rightarrow> ''LIMIT '' @ bound_text n
      | (Some n, Some m) \<Rightarrow> ''LIMIT '' @ bound_text n @ '' OFFSET '' @ bound_text m)"

section \<open>Bounded mutations\<close>

definition d1_assert_bounds :: "paging \<Rightarrow> (d1_error, unit) result" where
  "d1_assert_bounds p =
     (if pb_current_page p \<noteq> None \<and> pb_page_size p = None \<and> pb_limit p = None
      then Throw (D1Error ''page_without_size'')
      else if js_trim (d1_limit_offset_clause p) = [] then Throw (D1Error ''invalid_pagination_bounds'')
      else Ok ())"

definition sqlite_rowid_aliases :: "string list" where
  "sqlite_rowid_aliases = [''rowid'', ''oid'', ''_rowid_'']"

definition mentioned_column :: "gateway_condition \<Rightarrow> string" where
  "mentioned_column c = js_trim (get_or (or_else (gc_column c) (gc_eq_column c)) [])"

definition referenced_mutation_columns :: "gateway_condition list \<Rightarrow> sort_by option \<Rightarrow> string list" where
  "referenced_mutation_columns conditions order =
     filter (\<lambda>s. s \<noteq> []) (map mentioned_column conditions) @
     (case order of
        None \<Rightarrow> []
      | Some s \<Rightarrow> if js_trim (sb_field s) \<noteq> [] then [js_trim (sb_field s)] else [])"

definition d1_bounded_identity ::
  "gateway_condition list \<Rightarrow> sort_by option \<Rightarrow> string option \<Rightarrow> (d1_error, string) result" where
  "d1_bounded_identity conditions order identity =
     (if \<exists>name \<in> set (referenced_mutation_columns conditions order). js_lower name \<in> set sqlite_rowid_aliases
      then Throw (D1Error ''bounded_mutation_unsafe_identity'')
      else if nonempty_trim identity = [] then Throw (D1Error ''bounded_mutation_no_unique_identity'')
      else if js_lower (nonempty_trim identity) \<in> set sqlite_rowid_aliases
      then Throw (D1Error ''bounded_mutation_unsafe_identity'')
      else Ok (nonempty_trim identity))"

definition bounded_rowid_in_clause ::
  "string \<Rightarrow> string \<Rightarrow> paging \<Rightarrow> sort_by option \<Rightarrow> gateway_condition list \<Rightarrow> string option \<Rightarrow>
   (d1_error, string) result" where
  "bounded_rowid_in_clause table where_sql p order conditions identity =
     rbind (d1_assert_bounds p) (\<lambda>_.
     rbind (d1_bounded_identity conditions order identity) (\<lambda>idc.
     rbind (d1_quote_ident idc) (\<lambda>q.
     rbind (d1_quote_ident table) (\<lambda>t.
     rbind (d1_order_clause order) (\<lambda>ord.
       let inner = strip_where where_sql
       in Ok (q @ '' IN ('' @ nonempty_parts
                [''SELECT '' @ q @ '' FROM '' @ t, if inner = [] then [] else ''WHERE '' @ inner, ord,
                 d1_limit_offset_clause p] @ '')''))))))"

definition d1_wants_bounds :: "paging \<Rightarrow> sort_by option \<Rightarrow> (d1_error, bool) result" where
  "d1_wants_bounds p order =
     (if has_pagination_bounds p \<or> order \<noteq> None then
        (if has_pagination_bounds p then Ok True else Throw (D1Error ''order_without_bounds''))
      else Ok False)"

text \<open>The clause an update or a delete ends in: the one compiled, or the identities it selects.\<close>

definition d1_mutation_where ::
  "paging \<Rightarrow> sort_by option \<Rightarrow> gateway_condition list \<Rightarrow> string option \<Rightarrow> string \<Rightarrow> string \<Rightarrow>
   (d1_error, string) result" where
  "d1_mutation_where p order conditions identity table w =
     rbind (d1_wants_bounds p order) (\<lambda>bounded.
       if bounded
       then rmap (\<lambda>b. ''WHERE '' @ b) (bounded_rowid_in_clause table w p order conditions identity)
       else Ok w)"

definition d1_returning :: "columns_spec option \<Rightarrow> bool \<Rightarrow> (d1_error, string) result" where
  "d1_returning columns head =
     (if wants_returning columns head then rmap (\<lambda>s. '' RETURNING '' @ s) (d1_select_clause columns) else Ok [])"

definition d1_table :: "string option \<Rightarrow> (d1_error, string) result" where
  "d1_table name =
     (if nonempty_trim name = [] then Throw (D1Error ''missing_table'') else Ok (nonempty_trim name))"

section \<open>Select and count\<close>

definition d1_reject_structured_relations :: "fetch_payload \<Rightarrow> (d1_error, unit) result" where
  "d1_reject_structured_relations p =
     (if is_record (fp_select p) \<and> list_ex (\<lambda>(k, v). is_object v) (fields_of (fp_select p))
      then Throw (D1Error ''relations_unsupported'')
      else if fp_view_name p \<noteq> None \<and> fp_view_name p \<noteq> Some []
      then Throw (D1Error ''view_unsupported'')
      else Ok ())"

definition d1_resolve_where :: "fetch_payload \<Rightarrow> (d1_error, string \<times> jval list) result" where
  "d1_resolve_where p =
     rbind (d1_build_where (fp_conditions p))
       (\<lambda>w. if fst w = [] \<and> is_object (fp_where p)
            then d1_build_where (map equality (object_entries (fp_where p))) else Ok w)"

definition d1_count_from_where :: "string \<Rightarrow> string \<times> jval list \<Rightarrow> (d1_error, compiled_d1_query) result" where
  "d1_count_from_where table w =
     rmap (\<lambda>t. as_single (nonempty_parts [''SELECT COUNT(*) AS __athena_count FROM '' @ t, fst w], snd w))
       (d1_quote_ident table)"

definition compile_d1_fetch :: "fetch_payload \<Rightarrow> (d1_error, compiled_d1_query) result" where
  "compile_d1_fetch p =
     rbind (d1_reject_structured_relations p) (\<lambda>_.
     rbind (d1_table (fp_table_name p)) (\<lambda>table.
     rbind (d1_resolve_where p) (\<lambda>w.
       if fp_head p then d1_count_from_where table w
       else
         rbind (d1_select_clause (fetch_columns p)) (\<lambda>sel.
         rbind (d1_quote_ident table) (\<lambda>t.
         rbind (d1_order_clause (fp_sort_by p)) (\<lambda>ord.
           Ok (as_single (nonempty_parts
                  [''SELECT '' @ sel @ '' FROM '' @ t, fst w, ord, d1_limit_offset_clause (fp_paging p)], snd w))))))))"

definition compile_d1_count :: "fetch_payload \<Rightarrow> (d1_error, compiled_d1_query) result" where
  "compile_d1_count p =
     rbind (d1_reject_structured_relations p) (\<lambda>_.
     rbind (d1_table (fp_table_name p)) (\<lambda>table.
     rbind (d1_resolve_where p) (\<lambda>w. d1_count_from_where table w)))"

section \<open>Insert\<close>

definition d1_parse_on_conflict_columns :: "columns_spec \<Rightarrow> (d1_error, string list) result" where
  "d1_parse_on_conflict_columns spec =
     (let raw = (case spec of ColumnText s \<Rightarrow> [s] | ColumnList ss \<Rightarrow> ss);
          cols = filter (\<lambda>s. s \<noteq> []) (map js_trim (concat (map (split_on (CHR '','')) raw)))
      in if cols = [] then Throw (D1Error ''invalid_on_conflict'') else Ok cols)"

definition d1_assignment :: "string \<times> jval \<Rightarrow> d1_error emit" where
  "d1_assignment kv vs =
     rbind (emit_mark (d1_json_value (snd kv)) vs) (\<lambda>(mark, vs').
       rmap (\<lambda>q. (q @ '' = '' @ mark, vs')) (d1_quote_ident (fst kv)))"

definition d1_excluded_assignment :: "string \<Rightarrow> (d1_error, string) result" where
  "d1_excluded_assignment column = rmap (\<lambda>q. q @ '' = excluded.'' @ q) (d1_quote_ident column)"

text \<open>\<open>appendOnConflict\<close>: the part it appends, if any, after a blank.\<close>

definition d1_on_conflict :: "insert_payload \<Rightarrow> string list \<Rightarrow> d1_error emit" where
  "d1_on_conflict p columns =
     (case ip_on_conflict p of
        None \<Rightarrow> emit_text []
      | Some spec \<Rightarrow>
          if spec = ColumnText [] then emit_text []
          else emit_given (d1_parse_on_conflict_columns spec) (\<lambda>cols.
               emit_given (map_r d1_quote_ident cols) (\<lambda>quoted.
                 let target = conflict_target quoted
                 in (case ip_update_body p of
                       Some body \<Rightarrow>
                         if body = [] then emit_text (target @ ''NOTHING'')
                         else template [emit_text (target @ ''UPDATE SET ''),
                                emit_join '', '' (map d1_assignment body)]
                     | None \<Rightarrow>
                         emit_given (map_r d1_excluded_assignment (filter (\<lambda>c. c \<notin> set cols) columns))
                           (\<lambda>sets.
                              if sets = [] then emit_text (target @ ''NOTHING'')
                              else emit_text (target @ ''UPDATE SET '' @ js_join '', '' sets))))))"

text \<open>\<open>INSERT INTO t (columns) VALUES groups\<close>, then the conflict and returning parts.\<close>

definition d1_insert_statement ::
  "insert_payload \<Rightarrow> string \<Rightarrow> string list \<Rightarrow> d1_error emit \<Rightarrow> d1_error emit" where
  "d1_insert_statement p table columns groups =
     emit_given (d1_quote_ident table) (\<lambda>t.
     emit_given (map_r d1_quote_ident columns) (\<lambda>quoted.
       template
         [emit_text (''INSERT INTO '' @ t @ '' ('' @ js_join '', '' quoted @ '') VALUES ''), groups,
          d1_on_conflict p columns, emit_lift (d1_returning (ip_columns p) (ip_head p))]))"

definition d1_value_group :: "string list \<Rightarrow> fields \<Rightarrow> 'e emit" where
  "d1_value_group columns fs =
     template
       [emit_text ''('',
        emit_join '', '' (map (\<lambda>c. emit_mark (case map_of fs c of None \<Rightarrow> Null | Some v \<Rightarrow> d1_json_value v)) columns),
        emit_text '')'']"

definition compile_single_row_insert :: "insert_payload \<Rightarrow> string \<Rightarrow> row \<Rightarrow> (d1_error, compiled_query) result" where
  "compile_single_row_insert p table r =
     (case r of
        None \<Rightarrow> Throw D1TypeError
      | Some fs \<Rightarrow>
          if fs = [] then
            (if \<not> no_conflict (ip_on_conflict p) then Throw (D1Error ''default_values_upsert_unsupported'')
             else
               rbind (d1_quote_ident table) (\<lambda>t.
               rmap (\<lambda>ret. to_query (''INSERT INTO '' @ t @ '' DEFAULT VALUES'' @ ret, []))
                 (d1_returning (ip_columns p) (ip_head p))))
          else rmap to_query (d1_insert_statement p table (map fst fs) (d1_value_group (map fst fs) fs) []))"

text \<open>Whether some row lacks one of the columns; \<open>Object.hasOwn\<close> throws on a null row.\<close>

fun rows_sparse :: "string list \<Rightarrow> row list \<Rightarrow> (d1_error, bool) result" where
  "rows_sparse columns [] = Ok False"
| "rows_sparse columns (None # rs) = Throw D1TypeError"
| "rows_sparse columns (Some fs # rs) =
     (if \<exists>c \<in> set columns. map_of fs c = None then Ok True else rows_sparse columns rs)"

definition d1_dense_insert :: "insert_payload \<Rightarrow> string \<Rightarrow> row list \<Rightarrow> string list \<Rightarrow> (d1_error, compiled_d1_query) result" where
  "d1_dense_insert p table rows columns =
     (if None \<in> set rows then Throw D1TypeError
      else rmap as_single
        (d1_insert_statement p table columns
           (emit_join '', '' (map (\<lambda>r. d1_value_group columns (row_fields r)) rows)) []))"

definition compile_d1_insert :: "insert_payload \<Rightarrow> (d1_error, compiled_d1_query) result" where
  "compile_d1_insert p =
     rbind (d1_table (ip_table_name p)) (\<lambda>table.
       let rows = insert_rows (ip_insert_body p);
           columns = insert_columns rows;
           single = (\<lambda>q. \<lparr>dc_head = q, dc_statements = None\<rparr>)
       in if rows = [] then Throw (D1Error ''empty_insert'')
          else if columns = [] then
            (if length rows = 1 then rmap single (compile_single_row_insert p table (Some []))
             else Throw (D1Error ''empty_insert''))
          else
            rbind (rows_sparse columns rows) (\<lambda>sparse.
              if sparse \<and> \<not> ip_default_to_null p then
                (if length rows > 1 then rbind (map_r (compile_single_row_insert p table) rows) as_batch
                 else rmap single (compile_single_row_insert p table (hd rows)))
              else d1_dense_insert p table rows columns))"

section \<open>Update and delete\<close>

definition compile_d1_update :: "update_payload \<Rightarrow> string option \<Rightarrow> (d1_error, compiled_d1_query) result" where
  "compile_d1_update p identity =
     rbind (d1_table (up_table_name p)) (\<lambda>table.
       let entries = row_fields (up_update_body p)
       in if entries = [] then Throw (D1Error ''empty_update'')
          else
            rbind (emit_join '', '' (map d1_assignment entries) []) (\<lambda>sets.
            rbind (d1_build_where (up_conditions p)) (\<lambda>w.
              if fst w = [] then Throw (D1Error ''unfiltered_update'')
              else
                rbind (d1_mutation_where (up_paging p) (up_sort_by p) (up_conditions p) identity table (fst w)) (\<lambda>final.
                rbind (d1_quote_ident table) (\<lambda>t.
                rbind (d1_returning (up_columns p) (up_head p)) (\<lambda>r.
                  Ok (as_single (''UPDATE '' @ t @ '' SET '' @ fst sets @ '' '' @ final @ r, snd sets @ snd w))))))))"

definition compile_d1_delete :: "delete_payload \<Rightarrow> string option \<Rightarrow> (d1_error, compiled_d1_query) result" where
  "compile_d1_delete p identity =
     rbind (d1_table (dp_table_name p)) (\<lambda>table.
     rbind (d1_build_where (delete_conditions p)) (\<lambda>w.
       if fst w = [] then Throw (D1Error ''unfiltered_delete'')
       else
         rbind (d1_mutation_where (dp_paging p) (dp_sort_by p) (delete_conditions p) identity table (fst w)) (\<lambda>final.
         rbind (d1_quote_ident table) (\<lambda>t.
         rbind (d1_returning (dp_columns p) False) (\<lambda>r.
           Ok (as_single (''DELETE FROM '' @ t @ '' '' @ final @ r, snd w)))))))"

end
