(* ===== verification/D1Facts.thy ===== *)
theory D1Facts
  imports D1Sql
begin

text \<open>
  Lemmas on the D1 compiler. The marks of a text are its question marks outside string
  literals; \<open>fair\<close> says that a step writes as many marks as it binds values and closes the
  literals it opens, with one rule for every combinator. The lemmas carry it, and the
  characters a statement can contain, through every statement; and they relate the values bound
  here to those of the PostgreSQL compiler.
\<close>

section \<open>Marks\<close>

text \<open>The scan of a text: how many marks, and whether it ends inside a literal.\<close>

fun scan_marks :: "bool \<Rightarrow> string \<Rightarrow> nat \<times> bool" where
  "scan_marks q [] = (0, q)"
| "scan_marks q (c # s) =
     (if c = CHR 0x27 then scan_marks (\<not> q) s
      else if c = CHR ''?'' \<and> \<not> q then (Suc (fst (scan_marks q s)), snd (scan_marks q s))
      else scan_marks q s)"

definition marks :: "string \<Rightarrow> nat \<Rightarrow> bool" where
  "marks t n \<longleftrightarrow> scan_marks False t = (n, False)"

lemma scan_marks_append:
  "scan_marks q (a @ b) =
     (fst (scan_marks q a) + fst (scan_marks (snd (scan_marks q a)) b), snd (scan_marks (snd (scan_marks q a)) b))"
  by (induction q a rule: scan_marks.induct) auto

lemma marks_append: "marks a n \<Longrightarrow> marks b m \<Longrightarrow> marks (a @ b) (n + m)"
  by (simp add: marks_def scan_marks_append)

lemma marks_append_0: "marks a 0 \<Longrightarrow> marks b m \<Longrightarrow> marks (a @ b) m"
  "marks a n \<Longrightarrow> marks b 0 \<Longrightarrow> marks (a @ b) n"
  using marks_append [of a 0 b m] marks_append [of a n b 0] by simp_all

lemma marks_Nil [simp]: "marks [] 0"
  by (simp add: marks_def)

lemma marks_plain: "CHR 0x27 \<notin> set t \<Longrightarrow> CHR ''?'' \<notin> set t \<Longrightarrow> marks t 0"
  unfolding marks_def by (induction t) (auto split: if_splits)

definition fair :: "'e emit \<Rightarrow> bool" where
  "fair m \<longleftrightarrow> (\<forall>vs t vs'. m vs = Inr (t, vs') \<longrightarrow> (\<exists>new. vs' = vs @ new \<and> marks t (length new)))"

named_theorems fair_intros \<open>steps that write as many marks as they bind values\<close>

lemma fairI: "(\<And>vs t vs'. m vs = Inr (t, vs') \<Longrightarrow> \<exists>new. vs' = vs @ new \<and> marks t (length new)) \<Longrightarrow> fair m"
  by (simp add: fair_def)

lemma fairD: "fair m \<Longrightarrow> m vs = Inr (t, vs') \<Longrightarrow> \<exists>new. vs' = vs @ new \<and> marks t (length new)"
  by (simp add: fair_def)

lemma fair_result: "fair m \<Longrightarrow> m [] = Inr (t, vs) \<Longrightarrow> marks t (length vs)"
  by (drule (1) fairD) simp

lemma fair_text [fair_intros]: "marks t 0 \<Longrightarrow> fair (emit_text t)"
  by (simp add: fair_def emit_text_def)

lemma fair_mark [fair_intros]: "fair (emit_mark v)"
  by (auto simp: fair_def emit_mark_def marks_def)

lemma fair_fail [fair_intros]: "fair (emit_fail e)"
  by (simp add: fair_def emit_fail_def)

lemma fair_lift [fair_intros]: "(\<And>t. r = Inr t \<Longrightarrow> marks t 0) \<Longrightarrow> fair (emit_lift r)"
  by (auto simp: fair_def emit_lift_def rmap_eq_Inr)

lemma fair_template_Cons:
  assumes "fair m" "fair (template ms)"
  shows "fair (template (m # ms))"
proof (rule fairI)
  fix vs t vs'
  assume "template (m # ms) vs = Inr (t, vs')"
  then obtain a us b where a: "m vs = Inr (a, us)" and b: "template ms us = Inr (b, vs')" "t = a @ b"
    by (auto simp: template.simps rbind_eq_Inr rmap_eq_Inr)
  from fairD [OF assms(1) a] fairD [OF assms(2) b(1)] show "\<exists>new. vs' = vs @ new \<and> marks t (length new)"
    by (auto simp: b(2) intro: marks_append)
qed

lemma fair_template [fair_intros]: "\<forall>m \<in> set ms. fair m \<Longrightarrow> fair (template ms)"
proof (induction ms)
  case Nil
  then show ?case by (simp add: template.simps fair_text)
next
  case (Cons m ms)
  then show ?case by (intro fair_template_Cons) simp_all
qed

lemma fair_join [fair_intros]: "\<forall>m \<in> set ms. fair m \<Longrightarrow> marks sep 0 \<Longrightarrow> fair (emit_join sep ms)"
proof (induction ms)
  case Nil
  then show ?case by (simp add: fair_def emit_join_def)
next
  case (Cons m ms)
  then show ?case
    by (cases "ms = []") (auto simp: emit_join_single emit_join_Cons intro!: fair_intros)
qed

lemma fair_given [fair_intros]: "(\<And>x. r = Inr x \<Longrightarrow> fair (f x)) \<Longrightarrow> fair (emit_given r f)"
  by (cases r) (auto simp: emit_given_def fair_def)

lemma fair_either: "fair m \<Longrightarrow> fair m' \<Longrightarrow> fair (if b then m else m')"
  by simp

lemma fair_legacy [fair_intros]:
  "\<forall>c \<in> set (legacy_predicates n). fair (f c) \<Longrightarrow> fair (compile_legacy_boolean_node n f)"
proof (induction n f rule: compile_legacy_boolean_node.induct)
  case (2 cs f)
  then have "\<forall>m \<in> set (map (\<lambda>c. compile_legacy_boolean_node c f) cs). fair m" by auto
  then show ?case by (auto intro!: fair_intros simp: marks_plain)
next
  case (3 cs f)
  then have "\<forall>m \<in> set (map (\<lambda>c. compile_legacy_boolean_node c f) cs). fair m" by auto
  then show ?case by (auto intro!: fair_intros simp: marks_plain)
next
  case (4 n f)
  then show ?case by (auto intro!: fair_intros simp: marks_plain)
qed simp

section \<open>The characters of the flat statements\<close>

definition d1_char :: "char \<Rightarrow> bool" where
  "d1_char c \<longleftrightarrow> text_char c \<or> c \<in> set ''?!-''"

definition d1_clean :: "char \<Rightarrow> bool" where
  "d1_clean c \<longleftrightarrow> d1_char c \<and> c \<noteq> CHR ''?''"

lemmas d1_char_eval = d1_char_def d1_clean_def text_char_eval

lemma clean_d1: "list_all d1_clean t \<Longrightarrow> list_all d1_char t"
  by (auto simp: list_all_iff d1_clean_def)

lemma text_clean: "list_all text_char t \<Longrightarrow> list_all d1_clean t"
proof -
  have "\<not> text_char (CHR ''?'')" by (simp add: text_char_eval)
  then show "list_all text_char t \<Longrightarrow> list_all d1_clean t"
    by (auto simp: list_all_iff d1_clean_def d1_char_def)
qed

lemma clean_marks: "list_all d1_clean t \<Longrightarrow> marks t 0"
proof -
  have "\<not> d1_clean (CHR 0x27)" "\<not> d1_clean (CHR ''?'')" by (simp_all add: d1_char_eval)
  then show "list_all d1_clean t \<Longrightarrow> marks t 0" by (intro marks_plain) (auto simp: list_all_iff)
qed

text \<open>Both at once, as in \<open>PostgresFacts\<close>.\<close>

definition sound_step :: "'e emit \<Rightarrow> bool" where
  "sound_step m \<longleftrightarrow> fair m \<and> chars_in d1_char m"

named_theorems step_intros \<open>sound steps of the D1 compiler\<close>

lemma step_text [step_intros]: "list_all d1_clean t \<Longrightarrow> sound_step (emit_text t)"
  by (simp add: sound_step_def fair_text clean_marks chars_text clean_d1)

lemma step_mark [step_intros]: "sound_step (emit_mark v)"
  by (simp add: sound_step_def fair_mark chars_in_def emit_mark_def d1_char_def)

lemma step_fail [step_intros]: "sound_step (emit_fail e)"
  by (simp add: sound_step_def fair_fail chars_fail)

lemma step_lift [step_intros]: "result_chars d1_clean r \<Longrightarrow> sound_step (emit_lift r)"
  unfolding sound_step_def
  by (cases r) (auto intro!: fair_lift chars_lift simp: clean_marks clean_d1)

lemma step_template [step_intros]: "\<forall>m \<in> set ms. sound_step m \<Longrightarrow> sound_step (template ms)"
  by (simp add: sound_step_def fair_template chars_template)

lemma step_join [step_intros]: "\<forall>m \<in> set ms. sound_step m \<Longrightarrow> list_all d1_clean sep \<Longrightarrow> sound_step (emit_join sep ms)"
  by (simp add: sound_step_def fair_join chars_join clean_marks clean_d1)

lemma step_given [step_intros]: "(\<And>x. r = Inr x \<Longrightarrow> sound_step (f x)) \<Longrightarrow> sound_step (emit_given r f)"
  by (simp add: sound_step_def fair_given chars_given)

lemma step_legacy [step_intros]:
  "\<forall>c \<in> set (legacy_predicates n). sound_step (f c) \<Longrightarrow> sound_step (compile_legacy_boolean_node n f)"
proof -
  have "list_all d1_char ''( )ANDORT''" by (intro clean_d1 text_clean sql_const)
  then show "\<forall>c \<in> set (legacy_predicates n). sound_step (f c) \<Longrightarrow> sound_step (compile_legacy_boolean_node n f)"
    by (simp add: sound_step_def fair_legacy chars_legacy)
qed

lemma step_either: "sound_step m \<Longrightarrow> sound_step m' \<Longrightarrow> sound_step (if b then m else m')"
  by simp

section \<open>Names and clauses\<close>

lemma d1_quote_ident_text: "d1_quote_ident name = Inr t \<Longrightarrow> list_all text_char t"
  by (auto simp: d1_quote_ident_def rbind_eq_Inr intro!: quoted_field_text is_identifier_field split: if_splits)

lemma d1_quote_ident_clean: "d1_quote_ident name = Inr t \<Longrightarrow> list_all d1_clean t"
  by (rule text_clean [OF d1_quote_ident_text])

lemma text_const: "list_all text_char '' AS ''" "list_all text_char ''*''" "list_all text_char '', ''"
  by (simp_all add: text_char_eval)

lemma d1_select_token_text: "d1_select_token token = Inr t \<Longrightarrow> list_all text_char t"
  using text_const
  by (auto simp: d1_select_token_def d1_response_alias_def d1_sql_alias_def Let_def
      intro!: quoted_field_text dest: is_identifier_field response_alias_chars sql_alias_chars
      split: option.splits if_splits)

lemma texts_joined:
  assumes "\<And>x t. f x = Inr t \<Longrightarrow> list_all P t" "map_r f xs = Inr ts" "list_all P sep"
  shows "list_all P (js_join sep ts)"
proof (rule js_join_all [OF assms(3)])
  show "list_all (list_all P) ts"
    using assms(1) map_r_Inr_set [OF assms(2)] unfolding list_all_iff by blast
qed

lemma d1_select_clause_text: "d1_select_clause columns = Inr t \<Longrightarrow> list_all text_char t"
  using text_const texts_joined [of d1_select_token, OF d1_select_token_text]
  by (auto simp: d1_select_clause_def Let_def rmap_eq_Inr split: option.splits columns_spec.splits if_splits)

lemma d1_order_clause_text: "d1_order_clause order = Inr t \<Longrightarrow> list_all text_char t"
  by (auto simp: d1_order_clause_def rmap_eq_Inr text_char_eval dest!: d1_quote_ident_text split: option.splits if_splits)

lemma d1_returning_text: "d1_returning columns head = Inr t \<Longrightarrow> list_all text_char t"
  by (auto simp: d1_returning_def rmap_eq_Inr text_char_eval dest!: d1_select_clause_text split: if_splits)

lemma d1_limit_clean: "list_all d1_clean (d1_limit_offset_clause p)"
  using text_clean [OF bound_text_text]
  by (auto simp: d1_limit_offset_clause_def d1_char_eval split: option.split)

lemmas d1_texts = d1_quote_ident_text d1_select_clause_text d1_order_clause_text d1_returning_text

section \<open>Conditions\<close>

lemma step_in_list: "list_all d1_clean col \<Longrightarrow> sound_step (d1_in_list col vs)"
  unfolding d1_in_list_def by (auto intro!: step_intros simp: d1_char_eval)

lemma step_binary: "list_all d1_clean col \<Longrightarrow> list_all d1_clean smb \<Longrightarrow> sound_step (d1_binary col smb v)"
  unfolding d1_binary_def by (auto intro!: step_intros simp: d1_char_eval)

lemma d1_symbol_clean: "d1_comparison_symbol op = Some smb \<Longrightarrow> list_all d1_clean smb"
  by (auto simp: d1_comparison_symbol_def d1_char_eval split: if_splits)

lemma step_operator: "list_all d1_clean col \<Longrightarrow> sound_step (d1_operator_where col op v)"
proof -
  assume col: "list_all d1_clean col"
  have t: "sound_step (emit_text (col @ '' IS NULL''))" "sound_step (emit_text (col @ '' IS NOT NULL''))"
    "sound_step (emit_text (col @ '' IS TRUE''))" "sound_step (emit_text (col @ '' IS FALSE''))"
    "sound_step (emit_text (col @ '' IS ''))"
    using col by (auto intro!: step_text simp: d1_char_eval)
  have b: "sound_step (d1_binary col ''='' v)" "sound_step (d1_binary col ''!='' v)" "sound_step (d1_binary col ''LIKE'' v)" for v
    using col by (auto intro!: step_binary simp: d1_char_eval)
  have "sound_step (case v of JArr vs \<Rightarrow> d1_in_list col vs
      | _ \<Rightarrow> if v = Null then emit_text (col @ '' IS NULL'') else d1_binary col ''='' v)"
    using step_in_list [OF col] t(1) b(1) by (auto split: jval.split)
  moreover have "sound_step (case d1_comparison_symbol op of Some smb \<Rightarrow> d1_binary col smb v
      | None \<Rightarrow> emit_fail (D1Error ''unsupported_operator''))"
    using col by (auto intro: step_intros step_binary d1_symbol_clean split: option.split)
  moreover have "sound_step (template [d1_binary col ''LIKE'' v, emit_text '' COLLATE NOCASE''])"
    using b(3) by (auto intro!: step_intros simp: d1_char_eval)
  moreover have "sound_step (template [emit_text (col @ '' IS ''), emit_mark v])"
    using t(5) by (auto intro!: step_template step_mark)
  ultimately show ?thesis unfolding d1_operator_where_def
    by (intro step_either) (simp_all only: t b step_in_list [OF col])
qed

lemma step_simple_where: "sound_step (d1_simple_where c)"
  unfolding d1_simple_where_def by (auto intro!: step_intros step_operator d1_quote_ident_clean)

lemma step_condition: "sound_step (d1_condition_to_where c)"
proof -
  have "sound_step (template [emit_text ''(NOT ('', compile_legacy_boolean_node n d1_simple_where, emit_text ''))''])" for n
    by (auto intro!: step_template step_text step_legacy step_simple_where simp: d1_char_eval)
  then show ?thesis unfolding d1_condition_to_where_def
    by (auto intro: step_intros step_simple_where step_legacy split: jval.splits sum.splits)
qed

lemma step_where_parts: "sound_step (d1_where_parts cs)"
  unfolding d1_where_parts_def by (auto intro!: step_join step_condition simp: d1_char_eval)

section \<open>Statements\<close>

text \<open>What a statement promises: a mark for every value, and only safe characters.\<close>

definition sound_marks :: "string \<times> jval list \<Rightarrow> bool" where
  "sound_marks tv \<longleftrightarrow> marks (fst tv) (length (snd tv)) \<and> list_all d1_char (fst tv)"

definition d1_sound :: "compiled_query \<Rightarrow> bool" where
  "d1_sound q \<longleftrightarrow> marks (cq_text q) (length (cq_values q)) \<and> list_all d1_char (cq_text q)"

lemma d1_sound_query: "d1_sound (to_query tv) \<longleftrightarrow> sound_marks tv"
  by (simp add: d1_sound_def to_query_def sound_marks_def)

lemma step_result: "sound_step m \<Longrightarrow> m [] = Inr tv \<Longrightarrow> sound_marks tv"
  by (cases tv) (auto simp: sound_step_def sound_marks_def dest!: fair_result chars_inD)

lemma marks_around:
  "sound_marks (t, vs) \<Longrightarrow> list_all d1_clean a \<Longrightarrow> list_all d1_clean b \<Longrightarrow> sound_marks (a @ t @ b, vs)"
  by (simp add: sound_marks_def marks_append_0 clean_marks clean_d1)

lemma marks_clean: "list_all d1_clean t \<Longrightarrow> sound_marks (t, [])"
  by (simp add: sound_marks_def clean_marks clean_d1)

lemma marks_both: "sound_marks (a, vs) \<Longrightarrow> sound_marks (b, ws) \<Longrightarrow> sound_marks (a @ b, vs @ ws)"
  by (auto simp: sound_marks_def intro: marks_append)

lemma build_where_marks: "d1_build_where cs = Inr w \<Longrightarrow> sound_marks w"
proof -
  have "sound_step (template [emit_text ''WHERE '', d1_where_parts cs])"
    by (auto intro!: step_template step_text step_where_parts simp: d1_char_eval)
  then show "d1_build_where cs = Inr w \<Longrightarrow> sound_marks w"
    by (auto simp: d1_build_where_def dest: step_result intro: marks_clean split: if_splits)
qed

lemma resolve_where_marks: "d1_resolve_where p = Inr w \<Longrightarrow> sound_marks w"
  by (auto simp: d1_resolve_where_def rbind_eq_Inr dest: build_where_marks split: if_splits)

lemma nonempty_clean: "list_all (list_all d1_clean) xs \<Longrightarrow> list_all d1_clean (nonempty_parts xs)"
  by (rule nonempty_parts_chars) (simp_all add: d1_char_eval)

lemma marks_parts:
  assumes w: "sound_marks (w, vs)" and a: "list_all d1_clean a" "a \<noteq> []" and b: "list_all (list_all d1_clean) bs"
  shows "sound_marks (nonempty_parts (a # w # bs), vs)"
proof -
  have tail: "list_all d1_clean (nonempty_parts bs)" by (rule nonempty_clean [OF b])
  show ?thesis
  proof (cases "w = []")
    case True
    with w have "vs = []" by (simp add: sound_marks_def marks_def)
    moreover have "list_all d1_clean (nonempty_parts (a # w # bs))" using a b True by (intro nonempty_clean) simp
    ultimately show ?thesis by (simp only: marks_clean)
  next
    case False
    let ?b = "if nonempty_parts bs = [] then [] else '' '' @ nonempty_parts bs"
    have "nonempty_parts (a # w # bs) = (a @ '' '') @ w @ ?b"
      using a(2) False by (simp add: nonempty_parts_Cons)
    moreover have "sound_marks ((a @ '' '') @ w @ ?b, vs)"
      using w a tail by (intro marks_around) (simp_all add: d1_char_eval)
    ultimately show ?thesis by (simp only:)
  qed
qed

lemma single_sound: "q \<in> set (d1_statements (as_single tv)) \<Longrightarrow> sound_marks tv \<Longrightarrow> d1_sound q"
  by (simp add: d1_statements_def as_single_def d1_sound_query)

lemma count_sound: "d1_count_from_where t w = Inr d \<Longrightarrow> sound_marks w \<Longrightarrow> q \<in> set (d1_statements d) \<Longrightarrow> d1_sound q"
proof -
  assume "d1_count_from_where t w = Inr d" and w: "sound_marks w" and q: "q \<in> set (d1_statements d)"
  then obtain s where s: "d1_quote_ident t = Inr s"
    and d: "d = as_single (nonempty_parts [''SELECT COUNT(*) AS __athena_count FROM '' @ s, fst w], snd w)"
    by (auto simp: d1_count_from_where_def rmap_eq_Inr)
  have "sound_marks (nonempty_parts [''SELECT COUNT(*) AS __athena_count FROM '' @ s, fst w], snd w)"
    using w d1_quote_ident_clean [OF s] by (intro marks_parts) (simp_all add: d1_char_eval)
  with q show "d1_sound q" unfolding d by (rule single_sound)
qed

lemma fetch_sound: "compile_d1_fetch p = Inr d \<Longrightarrow> q \<in> set (d1_statements d) \<Longrightarrow> d1_sound q"
proof -
  assume "compile_d1_fetch p = Inr d" and q: "q \<in> set (d1_statements d)"
  then obtain table w where w: "sound_marks w" and
    d: "(if fp_head p then d1_count_from_where table w
       else
         rbind (d1_select_clause (fetch_columns p)) (\<lambda>sel.
         rbind (d1_quote_ident table) (\<lambda>t.
         rbind (d1_order_clause (fp_sort_by p)) (\<lambda>ord.
           Ok (as_single (nonempty_parts
                  [''SELECT '' @ sel @ '' FROM '' @ t, fst w, ord, d1_limit_offset_clause (fp_paging p)], snd w)))))) = Inr d"
    unfolding compile_d1_fetch_def rbind_eq_Inr by (blast dest: resolve_where_marks)
  show ?thesis
  proof (cases "fp_head p")
    case False
    with d obtain sel t ord where c: "d1_select_clause (fetch_columns p) = Inr sel" "d1_quote_ident table = Inr t"
        "d1_order_clause (fp_sort_by p) = Inr ord"
      and d: "d = as_single (nonempty_parts [''SELECT '' @ sel @ '' FROM '' @ t, fst w, ord,
        d1_limit_offset_clause (fp_paging p)], snd w)"
      by (auto simp: rbind_eq_Inr)
    have "sound_marks (nonempty_parts [''SELECT '' @ sel @ '' FROM '' @ t, fst w, ord,
        d1_limit_offset_clause (fp_paging p)], snd w)"
      using w c d1_limit_clean by (intro marks_parts) (auto simp: d1_char_eval d1_texts [THEN text_clean, simplified d1_char_eval])
    with q show ?thesis unfolding d by (rule single_sound)
  qed (use d w q in \<open>auto dest: count_sound\<close>)
qed

lemma d1_count_sound: "compile_d1_count p = Inr d \<Longrightarrow> q \<in> set (d1_statements d) \<Longrightarrow> d1_sound q"
  by (auto simp: compile_d1_count_def rbind_eq_Inr dest: count_sound resolve_where_marks)

section \<open>Insert\<close>

lemma d1_assignment_as_template:
  "d1_assignment kv = template [emit_lift (rmap (\<lambda>q. q @ '' = '') (d1_quote_ident (fst kv))), emit_mark (d1_json_value (snd kv))]"
  by (rule ext, cases "d1_quote_ident (fst kv)")
    (simp_all add: d1_assignment_def template.simps emit_mark_def emit_lift_def emit_text_def)

lemma step_assignment: "sound_step (d1_assignment kv)"
proof -
  have "result_chars d1_clean (rmap (\<lambda>q. q @ '' = '') (d1_quote_ident (fst kv)))"
    using d1_quote_ident_clean [of "fst kv"] by (cases "d1_quote_ident (fst kv)") (simp_all add: d1_char_eval)
  then show ?thesis unfolding d1_assignment_as_template by (auto intro!: step_intros)
qed

lemma step_assignments: "sound_step (emit_join '', '' (map d1_assignment kvs))"
  by (auto intro!: step_join step_assignment simp: d1_char_eval)

lemma quoted_joined: "map_r d1_quote_ident cs = Inr qs \<Longrightarrow> list_all d1_clean (js_join '', '' qs)"
  by (rule texts_joined [OF d1_quote_ident_clean]) (simp_all add: d1_char_eval)

lemma excluded_clean: "d1_excluded_assignment c = Inr t \<Longrightarrow> list_all d1_clean t"
  by (auto simp: d1_excluded_assignment_def rmap_eq_Inr d1_char_eval dest!: d1_quote_ident_clean)

lemma excluded_joined: "map_r d1_excluded_assignment cs = Inr qs \<Longrightarrow> list_all d1_clean (js_join '', '' qs)"
  by (rule texts_joined [OF excluded_clean]) (simp_all add: d1_char_eval)

lemma conflict_target_clean: "list_all d1_clean (js_join '', '' qs) \<Longrightarrow> list_all d1_clean (conflict_target qs)"
  by (simp add: conflict_target_def d1_char_eval)

lemma step_on_conflict: "sound_step (d1_on_conflict p columns)"
proof -
  have t: "sound_step (emit_text (conflict_target qs @ s))"
    if "map_r d1_quote_ident cs = Inr qs" "list_all d1_clean s" for cs qs s
    using conflict_target_clean [OF quoted_joined [OF that(1)]] that(2) by (intro step_text) simp
  have c: "list_all d1_clean ''NOTHING''" "list_all d1_clean ''UPDATE SET ''" by (simp_all add: d1_char_eval)
  have u: "sound_step (template [emit_text (conflict_target qs @ ''UPDATE SET ''), emit_join '', '' (map d1_assignment body)])"
    if "map_r d1_quote_ident cs = Inr qs" for cs qs body
    using t [OF that c(2)] step_assignments by (auto intro!: step_template)
  have e: "sound_step (emit_text (conflict_target qs @ ''UPDATE SET '' @ js_join '', '' sets))"
    if "map_r d1_quote_ident cs = Inr qs" "map_r d1_excluded_assignment ds = Inr sets" for cs qs ds sets
    using t [OF that(1), of "''UPDATE SET '' @ js_join '', '' sets"] c(2) excluded_joined [OF that(2)] by simp
  show ?thesis unfolding d1_on_conflict_def Let_def
    by (split option.split, intro conjI impI allI step_text, simp)
      (split if_split, intro conjI impI step_text, simp,
       intro step_given, split option.split, intro conjI impI allI step_given, split if_split,
       intro conjI impI, erule t [OF _ c(1)], erule (1) e, split if_split, intro conjI impI,
       erule t [OF _ c(1)], erule u)
qed

lemma step_group: "sound_step (d1_value_group columns fs)"
  unfolding d1_value_group_def by (auto intro!: step_template step_text step_join step_mark simp: d1_char_eval)

lemma step_insert_statement:
  assumes "sound_step groups"
  shows "sound_step (d1_insert_statement p table columns groups)"
  unfolding d1_insert_statement_def
proof (intro step_given)
  fix t quoted
  assume t: "d1_quote_ident table = Inr t" and q: "map_r d1_quote_ident columns = Inr quoted"
  have "sound_step (emit_text (''INSERT INTO '' @ t @ '' ('' @ js_join '', '' quoted @ '') VALUES ''))"
    using d1_quote_ident_clean [OF t] quoted_joined [OF q] by (intro step_text) (simp add: d1_char_eval)
  moreover have "sound_step (emit_lift (d1_returning (ip_columns p) (ip_head p)))"
    by (cases "d1_returning (ip_columns p) (ip_head p)") (auto intro!: step_lift text_clean dest: d1_returning_text)
  ultimately show "sound_step (template
         [emit_text (''INSERT INTO '' @ t @ '' ('' @ js_join '', '' quoted @ '') VALUES ''), groups,
          d1_on_conflict p columns, emit_lift (d1_returning (ip_columns p) (ip_head p))])"
    using assms step_on_conflict by (auto intro!: step_template)
qed

lemma single_row_sound: "compile_single_row_insert p table r = Inr q \<Longrightarrow> d1_sound q"
proof -
  have d: "d1_sound (to_query (''INSERT INTO '' @ t @ '' DEFAULT VALUES'' @ ret, []))"
    if "d1_quote_ident table = Inr t" "d1_returning (ip_columns p) (ip_head p) = Inr ret" for t ret
    using d1_quote_ident_clean [OF that(1)] text_clean [OF d1_returning_text [OF that(2)]]
    unfolding d1_sound_query by (intro marks_clean) (simp add: d1_char_eval)
  have s: "d1_sound (to_query tv)"
    if "d1_insert_statement p table columns (d1_value_group columns fs) [] = Inr tv" for columns fs tv
    using step_result [OF step_insert_statement [OF step_group] that] by (simp add: d1_sound_query)
  show "compile_single_row_insert p table r = Inr q \<Longrightarrow> d1_sound q"
    by (auto simp: compile_single_row_insert_def rbind_eq_Inr rmap_eq_Inr simp del: append.simps
        intro: s d split: option.splits if_splits)
qed

lemma dense_sound: "d1_dense_insert p table rows columns = Inr d \<Longrightarrow> q \<in> set (d1_statements d) \<Longrightarrow> d1_sound q"
proof -
  have "sound_step (emit_join '', '' (map (\<lambda>r. d1_value_group columns (row_fields r)) rows))"
    by (auto intro!: step_join step_group simp: d1_char_eval)
  then show "d1_dense_insert p table rows columns = Inr d \<Longrightarrow> q \<in> set (d1_statements d) \<Longrightarrow> d1_sound q"
    by (auto simp: d1_dense_insert_def rmap_eq_Inr intro: single_sound dest!: step_result [OF step_insert_statement]
        split: if_splits)
qed

lemma batch_statements: "as_batch qs = Inr d \<Longrightarrow> d1_statements d = qs"
  by (auto simp: as_batch_def d1_statements_def split: if_splits)

lemma d1_insert_cases:
  assumes "compile_d1_insert p = Inr d"
  obtains (batch) table where "map_r (compile_single_row_insert p table) (insert_rows (ip_insert_body p)) = Inr (d1_statements d)"
  | (single) table r where "compile_single_row_insert p table r = Inr (dc_head d)" "dc_statements d = None"
  | (dense) table where "d1_dense_insert p table (insert_rows (ip_insert_body p)) (insert_columns (insert_rows (ip_insert_body p))) = Inr d"
  using assms
  by (auto simp: compile_d1_insert_def Let_def rbind_eq_Inr rmap_eq_Inr dest: batch_statements split: if_splits)

lemma d1_insert_sound: "compile_d1_insert p = Inr d \<Longrightarrow> q \<in> set (d1_statements d) \<Longrightarrow> d1_sound q"
proof (erule d1_insert_cases)
  fix table
  assume "map_r (compile_single_row_insert p table) (insert_rows (ip_insert_body p)) = Inr (d1_statements d)"
    "q \<in> set (d1_statements d)"
  then show "d1_sound q" by (auto dest: map_r_Inr_set single_row_sound)
qed (auto simp: d1_statements_def dest: single_row_sound dense_sound split: option.splits)

section \<open>Update and delete\<close>

lemma strip_where_marks:
  assumes w: "d1_build_where cs = Inr (w, vs)"
  shows "sound_marks (if strip_where w = [] then [] else ''WHERE '' @ strip_where w, vs)"
proof (cases "cs = []")
  case True
  with w show ?thesis by (simp add: d1_build_where_def strip_where_def js_lower_def marks_clean)
next
  case False
  then obtain u where u: "w = ''WHERE '' @ u" "d1_where_parts cs [] = Inr (u, vs)"
    using w by (auto simp: d1_build_where_def template_single)
      (auto simp: template.simps emit_text_def rmap_eq_Inr rbind_eq_Inr)
  have "marks (dropWhile is_ws t) n \<longleftrightarrow> marks t n" for t n
    unfolding marks_def by (induction t) (auto simp: is_ws_def code_def)
  moreover have "sound_marks (u, vs)" by (rule step_result [OF step_where_parts u(2)])
  ultimately have "sound_marks (strip_where w, vs)"
    by (auto simp: u(1) strip_where_text sound_marks_def list_all_iff dest: set_dropWhileD)
  moreover from this have "vs = []" if "strip_where w = []"
    using that by (simp add: sound_marks_def marks_def)
  ultimately show ?thesis
    using marks_around [of "strip_where w" vs "''WHERE ''" "[]"] by (auto simp: d1_char_eval marks_clean)
qed

lemma bounded_rowid_marks:
  assumes w: "d1_build_where cs = Inr (w, vs)" and b: "bounded_rowid_in_clause table w p order conditions identity = Inr b"
  shows "sound_marks (b, vs)"
proof -
  from b obtain q t ord where c: "list_all d1_clean q" "list_all d1_clean t" "list_all d1_clean ord"
    and b: "b = (q @ '' IN ('') @ nonempty_parts [''SELECT '' @ q @ '' FROM '' @ t,
      if strip_where w = [] then [] else ''WHERE '' @ strip_where w, ord, d1_limit_offset_clause p] @ '')''"
    by (auto simp: bounded_rowid_in_clause_def rbind_eq_Inr Let_def
        dest!: d1_quote_ident_text [THEN text_clean] d1_order_clause_text [THEN text_clean])
  have "sound_marks (nonempty_parts [''SELECT '' @ q @ '' FROM '' @ t,
      if strip_where w = [] then [] else ''WHERE '' @ strip_where w, ord, d1_limit_offset_clause p], vs)"
    using c strip_where_marks [OF w] d1_limit_clean [of p] by (intro marks_parts) (simp_all, simp_all add: d1_char_eval)
  then show ?thesis unfolding b using c by (intro marks_around) (simp_all add: d1_char_eval)
qed

lemma mutation_where_marks:
  assumes "d1_build_where cs = Inr (w, vs)" "d1_mutation_where p order conditions identity table w = Inr final"
  shows "sound_marks (final, vs)"
proof -
  from assms(2) consider "final = w" |
    b where "bounded_rowid_in_clause table w p order conditions identity = Inr b" "final = ''WHERE '' @ b"
    by (auto simp: d1_mutation_where_def rbind_eq_Inr rmap_eq_Inr split: if_splits)
  then show ?thesis
  proof cases
    case (2 b)
    from marks_around [OF bounded_rowid_marks [OF assms(1) 2(1)], of "''WHERE ''" "[]"]
    show ?thesis by (simp add: 2(2) d1_char_eval)
  qed (use build_where_marks [OF assms(1)] in auto)
qed

lemma d1_update_parts:
  assumes "compile_d1_update p identity = Inr d"
  obtains table sets w final t r where
    "emit_join '', '' (map d1_assignment (row_fields (up_update_body p))) [] = Inr sets"
    "d1_build_where (up_conditions p) = Inr w" "fst w \<noteq> []"
    "d1_mutation_where (up_paging p) (up_sort_by p) (up_conditions p) identity table (fst w) = Inr final"
    "d1_quote_ident table = Inr t" "d1_returning (up_columns p) (up_head p) = Inr r"
    "d = as_single (''UPDATE '' @ t @ '' SET '' @ fst sets @ '' '' @ final @ r, snd sets @ snd w)"
  using assms unfolding compile_d1_update_def Let_def rbind_eq_Inr
  by (auto simp: rbind_eq_Inr split: if_splits)

lemma d1_update_sound: "compile_d1_update p identity = Inr d \<Longrightarrow> q \<in> set (d1_statements d) \<Longrightarrow> d1_sound q"
proof (erule d1_update_parts)
  fix table sets w final t r
  assume sets: "emit_join '', '' (map d1_assignment (row_fields (up_update_body p))) [] = Inr sets"
    and w: "d1_build_where (up_conditions p) = Inr w"
    and final: "d1_mutation_where (up_paging p) (up_sort_by p) (up_conditions p) identity table (fst w) = Inr final"
    and t: "d1_quote_ident table = Inr t" and r: "d1_returning (up_columns p) (up_head p) = Inr r"
    and d: "d = as_single (''UPDATE '' @ t @ '' SET '' @ fst sets @ '' '' @ final @ r, snd sets @ snd w)"
    and q: "q \<in> set (d1_statements d)"
  have "sound_marks ((''UPDATE '' @ t @ '' SET '') @ fst sets @ '' '', snd sets)"
    using step_result [OF step_assignments sets] d1_quote_ident_clean [OF t]
    by (intro marks_around) (simp_all add: d1_char_eval)
  moreover have "sound_marks ([] @ final @ r, snd w)"
    using mutation_where_marks [of "up_conditions p" "fst w" "snd w"] w final text_clean [OF d1_returning_text [OF r]]
    by (intro marks_around) simp_all
  ultimately have "sound_marks (''UPDATE '' @ t @ '' SET '' @ fst sets @ '' '' @ final @ r, snd sets @ snd w)"
    using marks_both by fastforce
  with q show "d1_sound q" unfolding d by (rule single_sound)
qed

lemma d1_delete_parts:
  assumes "compile_d1_delete p identity = Inr d"
  obtains table w final t r where
    "d1_build_where (delete_conditions p) = Inr w" "fst w \<noteq> []"
    "d1_mutation_where (dp_paging p) (dp_sort_by p) (delete_conditions p) identity table (fst w) = Inr final"
    "d1_quote_ident table = Inr t" "d1_returning (dp_columns p) False = Inr r"
    "d = as_single (''DELETE FROM '' @ t @ '' '' @ final @ r, snd w)"
  using assms unfolding compile_d1_delete_def rbind_eq_Inr
  by (auto simp: rbind_eq_Inr split: if_splits)

lemma d1_delete_sound: "compile_d1_delete p identity = Inr d \<Longrightarrow> q \<in> set (d1_statements d) \<Longrightarrow> d1_sound q"
proof (erule d1_delete_parts)
  fix table w final t r
  assume w: "d1_build_where (delete_conditions p) = Inr w"
    and final: "d1_mutation_where (dp_paging p) (dp_sort_by p) (delete_conditions p) identity table (fst w) = Inr final"
    and t: "d1_quote_ident table = Inr t" and r: "d1_returning (dp_columns p) False = Inr r"
    and d: "d = as_single (''DELETE FROM '' @ t @ '' '' @ final @ r, snd w)" and q: "q \<in> set (d1_statements d)"
  have "sound_marks ((''DELETE FROM '' @ t @ '' '') @ final @ r, snd w)"
    using mutation_where_marks [of "delete_conditions p" "fst w" "snd w"] w final
      text_clean [OF d1_returning_text [OF r]] d1_quote_ident_clean [OF t]
    by (intro marks_around) (simp_all add: d1_char_eval)
  with q show "d1_sound q" unfolding d by (intro single_sound) simp_all
qed

end
