(* ===== verification/D1Ast.thy ===== *)
theory D1Ast
  imports PostgresAst D1Facts
begin

text \<open>
  The D1 compiler of resolved query plans (\<open>cloudflare/d1/compile-ast.ts\<close>): conditions,
  relation predicates as \<open>EXISTS\<close> and one level of nested selections as JSON objects. The
  lemmas show that the marks of the text match the bound values and that the text does not
  depend on them, and what the compiler does with an offset that has no limit.
\<close>

datatype d1_ast_error = D1Compile string | D1Query query_error_code | D1Type

definition query_to_d1 :: "(query_error, 'a) result \<Rightarrow> (d1_ast_error, 'a) result" where
  "query_to_d1 r =
     (case r of
        Inl (QueryError c) \<Rightarrow> Inl (D1Query c)
      | Inl QueryTypeError \<Rightarrow> Inl D1Type
      | Inr x \<Rightarrow> Inr x)"

section \<open>Names and joins\<close>

definition d1_ast_ident :: "string \<Rightarrow> (d1_ast_error, string) result" where
  "d1_ast_ident name =
     (if is_identifier (js_trim name) then Ok (quote_qualified_identifier (js_trim name))
      else Throw (D1Compile ''invalid_identifier''))"

definition d1_named_table :: "string \<Rightarrow> string \<Rightarrow> (d1_ast_error, string) result" where
  "d1_named_table table alias =
     rbind (d1_ast_ident table) (\<lambda>t. rmap (\<lambda>a. t @ '' AS '' @ a) (d1_ast_ident alias))"

definition d1_qualify_table :: "resolved_source \<Rightarrow> (d1_ast_error, string) result" where
  "d1_qualify_table src = d1_named_table (rs_table src) (rs_alias src)"

text \<open>A column read past the end of a key list is \<open>None\<close>: \<open>undefined.trim()\<close> throws.\<close>

definition d1_qualify_column :: "string \<Rightarrow> string option \<Rightarrow> (d1_ast_error, string) result" where
  "d1_qualify_column alias column =
     (if column = Some ''*'' then Throw (D1Compile ''unsafe_select'')
      else
        rbind (d1_ast_ident alias) (\<lambda>a.
          case column of
            None \<Rightarrow> Throw D1Type
          | Some c \<Rightarrow> rmap (\<lambda>q. a @ ''.'' @ q) (d1_ast_ident c)))"

definition d1_key_equality :: "string \<Rightarrow> string \<Rightarrow> string option \<times> string option \<Rightarrow> (d1_ast_error, string) result" where
  "d1_key_equality left right cols =
     rbind (d1_qualify_column left (fst cols)) (\<lambda>l. rmap (\<lambda>r. l @ '' = '' @ r) (d1_qualify_column right (snd cols)))"

definition d1_join_predicate :: "string \<Rightarrow> string \<Rightarrow> string list \<Rightarrow> string list \<Rightarrow> (d1_ast_error, string) result" where
  "d1_join_predicate left right from to =
     rmap (js_join '' AND '') (map_r (d1_key_equality left right) (key_pairs from to))"

definition d1_relation_scope ::
  "resolved_source \<Rightarrow> resolved_source \<Rightarrow> relation_descriptor \<Rightarrow> string option \<Rightarrow>
   (d1_ast_error, string \<times> string) result" where
  "d1_relation_scope parent child d junction_name =
     (if rd_cardinality d = ManyToMany then
        (case (rd_junction d, junction_name) of
           (Some jn, Some ja) \<Rightarrow>
             if ja = [] then Throw (D1Query InvalidNormalizedAst)
             else
               rbind (d1_join_predicate ja (rs_alias child) (jn_to_columns jn) (re_columns (rd_to d))) (\<lambda>on.
               rbind (d1_join_predicate (rs_alias parent) ja (re_columns (rd_from d)) (jn_from_columns jn)) (\<lambda>join.
               rbind (d1_qualify_table child) (\<lambda>c.
               rmap (\<lambda>j. (c @ '' JOIN '' @ j @ '' ON '' @ on, join)) (d1_named_table (jn_table jn) ja))))
         | _ \<Rightarrow> Throw (D1Query InvalidNormalizedAst))
      else
        rbind (d1_qualify_table child) (\<lambda>c.
        rmap (\<lambda>join. (c, join))
          (d1_join_predicate (rs_alias parent) (rs_alias child) (re_columns (rd_from d)) (re_columns (rd_to d)))))"

section \<open>Conditions\<close>

definition d1_field_column :: "resolved_source \<Rightarrow> field_ref \<Rightarrow> (d1_ast_error, string) result" where
  "d1_field_column parent fr = d1_qualify_column (rs_alias parent) (Some (fr_field fr))"

definition d1_field_value :: "resolved_source \<Rightarrow> field_ref \<Rightarrow> string \<Rightarrow> jval \<Rightarrow> d1_ast_error emit" where
  "d1_field_value parent fr smb v =
     emit_given (d1_field_column parent fr) (\<lambda>c. template [emit_text (c @ '' '' @ smb @ '' ''), emit_mark v])"

fun d1_condition :: "condition \<Rightarrow> resolved_source \<Rightarrow> d1_ast_error emit" where
  "d1_condition (AndCond cs) parent =
     template [emit_text ''('', emit_join '' AND '' (map (\<lambda>c. d1_condition c parent) cs), emit_text '')'']"
| "d1_condition (OrCond cs) parent =
     template [emit_text ''('', emit_join '' OR '' (map (\<lambda>c. d1_condition c parent) cs), emit_text '')'']"
| "d1_condition (NotCond c) parent = template [emit_text ''(NOT '', d1_condition c parent, emit_text '')'']"
| "d1_condition (IsNullCond fr neg) parent =
     emit_given (d1_field_column parent fr) (\<lambda>c. emit_text (c @ '' IS'' @ (if neg then '' NOT'' else []) @ '' NULL''))"
| "d1_condition (IsTrueCond fr) parent = d1_field_value parent fr ''='' (JNum (jint 1))"
| "d1_condition (IsFalseCond fr) parent = d1_field_value parent fr ''='' (JNum (jint 0))"
| "d1_condition (InValues fr vs) parent =
     (if vs = [] then emit_text ''1 = 0''
      else emit_given (d1_field_column parent fr) (\<lambda>c.
        template [emit_text (c @ '' IN (''), emit_join '', '' (map (\<lambda>v. emit_mark (nullish_or v Null)) vs), emit_text '')'']))"
| "d1_condition (Contains fr v) parent = emit_fail (D1Compile ''unsupported_operator'')"
| "d1_condition (ContainedBy fr v) parent = emit_fail (D1Compile ''unsupported_operator'')"
| "d1_condition (Compare fr cop v) parent =
     (if cop = OpIlike then emit_fail (D1Compile ''unsupported_operator'')
      else if v = Null then emit_fail (D1Query InvalidNormalizedAst)
      else d1_field_value parent fr (compare_symbol cop) v)"
| "d1_condition (ResolvedCond d t j p r f) parent =
     emit_given (d1_relation_scope parent (target_as_source t) d j) (\<lambda>scope.
       case f of
         None \<Rightarrow> emit_text (exists_open p scope @ '')'')
       | Some c \<Rightarrow>
           if p = PredEvery
           then template [emit_text (exists_open p scope @ '' AND NOT (CASE WHEN ''), d1_condition c (target_as_source t),
                  emit_text '' THEN 1 ELSE 0 END))'']
           else template [emit_text (exists_open p scope @ '' AND ''), d1_condition c (target_as_source t),
                  emit_text '')''])"
| "d1_condition (RelationCond p r via f) parent = emit_fail (D1Query InvalidNormalizedAst)"

section \<open>Plans\<close>

definition json_key :: "string \<Rightarrow> string" where
  "json_key key = quote_sql_string_literal key"

text \<open>One pair of \<open>json_object\<close>; a relation below the first level is refused.\<close>

definition json_pair :: "string \<Rightarrow> plan_field \<Rightarrow> (d1_ast_error, string) result" where
  "json_pair alias f =
     (case f of
        PlanColumn a c \<Rightarrow> rmap (\<lambda>q. json_key (get_or a c) @ '', '' @ q) (d1_qualify_column alias (Some c))
      | _ \<Rightarrow> Throw (D1Compile ''relations_unsupported''))"

definition json_object_expr :: "plan_field list \<Rightarrow> string \<Rightarrow> (d1_ast_error, string) result" where
  "json_object_expr fds alias =
     rbind (map_r (json_pair alias) fds) (\<lambda>pairs.
       if pairs = [] then Throw (D1Compile ''unsafe_select'')
       else Ok (''json_object('' @ js_join '', '' pairs @ '')''))"

definition d1_filter :: "string \<Rightarrow> query_plan \<Rightarrow> d1_ast_error emit" where
  "d1_filter keyword p =
     (case qp_filter p of
        None \<Rightarrow> emit_text []
      | Some c \<Rightarrow> template [emit_text keyword, d1_condition c (qp_source p)])"

text \<open>Only the first order term is used.\<close>

definition d1_order :: "query_plan \<Rightarrow> (d1_ast_error, string) result" where
  "d1_order p =
     (case get_or (qp_order_by p) [] of
        [] \<Rightarrow> Ok []
      | o' # _ \<Rightarrow>
          rmap (\<lambda>c. '' ORDER BY '' @ c @ '' '' @ (if or_direction o' = Desc then ''DESC'' else ''ASC''))
            (d1_qualify_column (rs_alias (qp_source p)) (Some (fr_field (or_field o')))))"

definition d1_selected_column :: "resolved_source \<Rightarrow> string option \<Rightarrow> string \<Rightarrow> (d1_ast_error, string) result" where
  "d1_selected_column src alias column =
     (if column = ''*'' then rmap (\<lambda>a. a @ ''.*'') (d1_ast_ident (rs_alias src))
      else
        rbind (d1_qualify_column (rs_alias src) (Some column)) (\<lambda>e.
          case alias of
            None \<Rightarrow> Ok e
          | Some a \<Rightarrow> if a \<noteq> [] \<and> a \<noteq> column then rmap (\<lambda>q. e @ '' AS '' @ q) (d1_ast_ident a) else Ok e))"

definition d1_nested_open :: "relation_descriptor \<Rightarrow> string" where
  "d1_nested_open d =
     (if to_many d then ''COALESCE((SELECT json_group_array(__athena_rel) FROM (SELECT ''
      else ''(SELECT __athena_rel FROM (SELECT '')"

definition d1_nested_close :: "relation_descriptor \<Rightarrow> string" where
  "d1_nested_close d =
     (if to_many d then '')), '' @ [CHR 0x27] @ ''[]'' @ [CHR 0x27] @ '')'' else ''))'') @ '' AS ''"

definition d1_select_field :: "resolved_source \<Rightarrow> plan_field \<Rightarrow> d1_ast_error emit" where
  "d1_select_field parent f =
     (case f of
        PlanColumn a c \<Rightarrow> emit_lift (d1_selected_column parent a c)
      | PlanRelation out d j p \<Rightarrow>
          emit_given (d1_relation_scope parent (qp_source p) d j) (\<lambda>scope.
          emit_given (json_object_expr (qp_selection p) (rs_alias (qp_source p))) (\<lambda>object.
            template
              [emit_text (d1_nested_open d @ object @ '' AS __athena_rel FROM '' @ fst scope @ '' WHERE '' @ snd scope),
               d1_filter '' AND '' p,
               emit_lift (d1_order p),
               emit_text (nested_bounds d p @ d1_nested_close d),
               emit_lift (d1_ast_ident out)])))"

definition d1_select :: "query_plan \<Rightarrow> d1_ast_error emit" where
  "d1_select p =
     template
       [emit_text ''SELECT '', emit_join '', '' (map (d1_select_field (qp_source p)) (qp_selection p)),
        emit_text '' FROM '', emit_lift (d1_qualify_table (qp_source p)), d1_filter '' WHERE '' p,
        emit_lift (d1_order p), emit_text (plan_bounds p)]"

definition compile_d1_ast :: "query_plan \<Rightarrow> (d1_ast_error, compiled_query) result" where
  "compile_d1_ast p =
     rbind (query_to_d1 (validate_plan_against_capabilities p d1_query_capabilities)) (\<lambda>_.
       rmap to_query (d1_select p []))"

section \<open>Marks\<close>

lemma d1_ast_ident_text: "d1_ast_ident name = Inr t \<Longrightarrow> list_all text_char t"
  by (auto simp: d1_ast_ident_def intro!: quoted_field_text is_identifier_field split: if_splits)

lemma d1_named_table_text: "d1_named_table table alias = Inr t \<Longrightarrow> list_all text_char t"
  by (auto simp: d1_named_table_def rbind_eq_Inr rmap_eq_Inr text_char_eval dest!: d1_ast_ident_text)

lemma d1_qualify_table_text: "d1_qualify_table src = Inr t \<Longrightarrow> list_all text_char t"
  by (simp add: d1_qualify_table_def d1_named_table_text)

lemma d1_qualify_column_text: "d1_qualify_column alias column = Inr t \<Longrightarrow> list_all text_char t"
  by (auto simp: d1_qualify_column_def rbind_eq_Inr rmap_eq_Inr text_char_eval dest!: d1_ast_ident_text
      split: if_splits option.splits)

lemma d1_key_equality_text: "d1_key_equality l r cols = Inr t \<Longrightarrow> list_all text_char t"
  by (auto simp: d1_key_equality_def rbind_eq_Inr rmap_eq_Inr text_char_eval dest!: d1_qualify_column_text)

lemma d1_join_text: "d1_join_predicate l r from to = Inr t \<Longrightarrow> list_all text_char t"
  using texts_joined [of "d1_key_equality l r" text_char, OF d1_key_equality_text]
  by (auto simp: d1_join_predicate_def rmap_eq_Inr text_char_eval)

lemma d1_scope_text:
  "d1_relation_scope parent child d j = Inr scope \<Longrightarrow> list_all text_char (fst scope) \<and> list_all text_char (snd scope)"
  by (auto simp: d1_relation_scope_def rbind_eq_Inr rmap_eq_Inr text_char_eval split: if_splits option.splits
      dest!: d1_join_text d1_qualify_table_text d1_named_table_text)

lemma text_marks: "list_all text_char t \<Longrightarrow> marks t 0"
  by (intro clean_marks text_clean)

lemma exists_open_text:
  "list_all text_char (fst scope) \<Longrightarrow> list_all text_char (snd scope) \<Longrightarrow> list_all text_char (exists_open p scope)"
  by (simp add: exists_open_def text_char_eval)

lemma compare_symbol_text: "list_all text_char (compare_symbol cop)"
  by (simp add: compare_symbol_def text_char_eval split: compare_operator.split)

lemma fair_field_value: "list_all text_char smb \<Longrightarrow> fair (d1_field_value parent fr smb v)"
  unfolding d1_field_value_def d1_field_column_def
  by (auto intro!: fair_intros text_marks simp: text_char_eval dest!: d1_qualify_column_text)

lemma fair_condition: "fair (d1_condition c parent)"
proof (induction c parent rule: d1_condition.induct)
  case (4 fr neg parent)
  then show ?case unfolding d1_condition.simps d1_field_column_def
    by (auto intro!: fair_intros text_marks simp: text_char_eval dest!: d1_qualify_column_text)
next
  case (7 fr vs parent)
  then show ?case unfolding d1_condition.simps d1_field_column_def
    by (auto intro!: fair_intros text_marks simp: text_char_eval dest!: d1_qualify_column_text)
next
  case (11 d t j p r f parent)
  have o: "list_all text_char (exists_open p scope)"
    if "d1_relation_scope parent (target_as_source t) d j = Inr scope" for scope
    using d1_scope_text [OF that] by (simp add: exists_open_text)
  show ?case
  proof (cases f)
    case None
    with o show ?thesis by (auto intro!: fair_intros text_marks simp: text_char_eval)
  next
    case (Some c)
    with 11 have "fair (d1_condition c (target_as_source t))" by auto
    then show ?thesis using o Some by (auto intro!: fair_intros text_marks simp: text_char_eval)
  qed
qed (auto intro!: fair_intros fair_field_value text_marks simp: text_char_eval compare_symbol_text)

lemma scan_marks_literal: "scan_marks True (replace_char (CHR 0x27) [CHR 0x27, CHR 0x27] s) = (0, True)"
  by (induction s) (auto simp: replace_char_def scan_marks_append)

lemma json_key_marks: "marks (json_key k) 0"
  by (simp add: json_key_def quote_sql_string_literal_def marks_def scan_marks_append scan_marks_literal)

lemma json_pair_marks: "json_pair alias f = Inr t \<Longrightarrow> marks t 0"
proof -
  have "marks (json_key k @ '', '' @ q) 0" if "d1_qualify_column alias column = Inr q" for k q column
    using json_key_marks [of k] text_marks [OF d1_qualify_column_text [OF that]] marks_plain [of "'', ''"]
    by (intro marks_append_0(1)) simp_all
  then show "json_pair alias f = Inr t \<Longrightarrow> marks t 0"
    by (auto simp: json_pair_def rmap_eq_Inr simp del: append.simps split: plan_field.splits)
qed

lemma joined_marks: "\<forall>t \<in> set ts. marks t 0 \<Longrightarrow> marks sep 0 \<Longrightarrow> marks (js_join sep ts) 0"
  by (induction sep ts rule: js_join.induct) (auto intro!: marks_append_0(1))

lemma json_object_marks: "json_object_expr fds alias = Inr t \<Longrightarrow> marks t 0"
proof -
  assume "json_object_expr fds alias = Inr t"
  then obtain ts where ts: "map_r (json_pair alias) fds = Inr ts" and t: "t = ''json_object('' @ js_join '', '' ts @ '')''"
    by (auto simp: json_object_expr_def rbind_eq_Inr split: if_splits)
  have "marks (js_join '', '' ts) 0"
    using map_r_Inr_set [OF ts] json_pair_marks by (intro joined_marks) (auto simp: marks_plain)
  moreover have "marks ''json_object('' 0" "marks '')'' 0" by (simp_all add: marks_plain)
  ultimately show ?thesis unfolding t by (intro marks_append_0(1))
qed

lemma d1_order_text: "d1_order p = Inr t \<Longrightarrow> list_all text_char t"
  by (auto simp: d1_order_def rmap_eq_Inr text_char_eval dest!: d1_qualify_column_text split: list.splits)

lemma bound_clause_text: "list_all text_char keyword \<Longrightarrow> list_all text_char (bound_clause keyword v)"
  using bound_text_text by (simp add: bound_clause_def text_char_eval)

lemma bounds_text: "list_all text_char (nested_bounds d p)" "list_all text_char (plan_bounds p)"
  using bound_clause_text [of "''LIMIT''"] bound_clause_text [of "''OFFSET''"]
  by (simp_all add: nested_bounds_def plan_bounds_def Let_def text_char_eval)

lemma d1_selected_text: "d1_selected_column src alias column = Inr t \<Longrightarrow> list_all text_char t"
  by (auto simp: d1_selected_column_def rbind_eq_Inr rmap_eq_Inr text_char_eval
      dest!: d1_ast_ident_text d1_qualify_column_text split: if_splits option.splits)

lemma fair_filter: "list_all text_char keyword \<Longrightarrow> fair (d1_filter keyword p)"
  by (auto simp: d1_filter_def intro!: fair_intros fair_condition text_marks split: option.split)

lemma nested_marks: "marks (d1_nested_open d) 0" "marks (d1_nested_close d) 0"
  by (simp_all add: d1_nested_open_def d1_nested_close_def marks_def)

lemma fair_select_field: "fair (d1_select_field parent f)"
proof (cases f)
  case (PlanRelation out d j p)
  have "fair (template
      [emit_text (d1_nested_open d @ object @ '' AS __athena_rel FROM '' @ fst scope @ '' WHERE '' @ snd scope),
       d1_filter '' AND '' p, emit_lift (d1_order p), emit_text (nested_bounds d p @ d1_nested_close d),
       emit_lift (d1_ast_ident out)])"
    if s: "d1_relation_scope parent (qp_source p) d j = Inr scope"
      and obj: "json_object_expr (qp_selection p) (rs_alias (qp_source p)) = Inr object" for scope object
  proof -
    have "marks (d1_nested_open d @ object @ '' AS __athena_rel FROM '' @ fst scope @ '' WHERE '' @ snd scope) 0"
      using d1_scope_text [OF s] json_object_marks [OF obj] nested_marks
      by (intro marks_append_0(1)) (auto simp: text_marks marks_plain)
    moreover have "marks (nested_bounds d p @ d1_nested_close d) 0"
      using nested_marks bounds_text text_marks by (intro marks_append_0(1)) auto
    moreover have "list_all text_char '' AND ''" by (simp add: text_char_eval)
    ultimately show ?thesis
      by (auto intro!: fair_template fair_text fair_lift fair_filter text_marks dest: d1_order_text d1_ast_ident_text)
  qed
  then show ?thesis unfolding PlanRelation d1_select_field_def by (simp add: fair_given)
qed (auto simp: d1_select_field_def intro!: fair_lift text_marks dest: d1_selected_text)

lemma fair_d1_select: "fair (d1_select p)"
proof -
  have "fair (emit_join '', '' (map (d1_select_field (qp_source p)) (qp_selection p)))"
    by (auto intro!: fair_join fair_select_field simp: marks_plain)
  moreover have "fair (d1_filter '' WHERE '' p)" by (rule fair_filter) (simp add: text_char_eval)
  ultimately show ?thesis unfolding d1_select_def
    by (auto intro!: fair_template fair_text fair_lift text_marks bounds_text simp: text_char_eval
        dest!: d1_order_text d1_qualify_table_text)
qed

lemma d1_ast_marks: "compile_d1_ast p = Inr q \<Longrightarrow> marks (cq_text q) (length (cq_values q))"
  by (auto simp: compile_d1_ast_def rbind_eq_Inr rmap_eq_Inr to_query_def dest: fair_result [OF fair_d1_select])

section \<open>Values do not reach the text\<close>

lemma same_mark [same_intros]: "same_text (emit_mark v) (emit_mark v')"
  by (simp add: same_text_def same_outcome_def emit_mark_def)

lemma same_marks: "list_all2 same_text (map (\<lambda>v. emit_mark (f v)) vs) (map (\<lambda>v. emit_mark (g v)) vs)"
  by (simp add: same_map same_mark)

lemma same_field_value: "same_text (d1_field_value parent fr smb v) (d1_field_value parent fr smb v')"
  unfolding d1_field_value_def by (auto intro!: same_given same_template same_intros)

lemma same_d1_condition: "same_text (d1_condition c parent) (d1_condition (redact c) parent)"
proof (induction c parent rule: d1_condition.induct)
  case (1 cs parent)
  then show ?case by (auto intro!: same_template same_intros same_join same_map simp: o_def)
next
  case (2 cs parent)
  then show ?case by (auto intro!: same_template same_intros same_join same_map simp: o_def)
next
  case (7 fr vs parent)
  then show ?case
    using same_marks [of "\<lambda>v. nullish_or v Null" vs "\<lambda>v. Null"]
    by (auto intro!: same_template same_intros same_join same_given simp: o_def nullish_or_def)
next
  case (11 d t j p r f parent)
  then show ?case by (cases f) (auto intro!: same_template same_intros same_given)
qed (auto intro!: same_template same_intros same_given same_field_value)

lemma same_d1_filter: "same_text (d1_filter keyword p) (d1_filter keyword (redact_plan p))"
  by (auto simp: d1_filter_def redact_filter_def split: option.split
      intro!: same_template same_intros same_d1_condition)

lemma json_pair_redact: "json_pair alias (redact_field f) = json_pair alias f"
  by (cases f) (simp_all add: json_pair_def)

lemma json_object_redact: "json_object_expr (map redact_field fs) alias = json_object_expr fs alias"
proof -
  have "map_r (json_pair alias) (map redact_field fs) = map_r (json_pair alias) fs"
    by (induction fs) (simp_all add: json_pair_redact)
  then show ?thesis by (simp add: json_object_expr_def)
qed

lemma d1_order_redact: "d1_order (redact_plan p) = d1_order p"
  by (simp add: d1_order_def split: list.split)

lemma same_d1_field: "same_text (d1_select_field parent f) (d1_select_field parent (redact_field f))"
  by (cases f)
    (auto simp: d1_select_field_def json_object_redact d1_order_redact same_nested_bounds
      intro!: same_given same_template same_intros same_d1_filter)

lemma same_d1_select: "same_text (d1_select p) (d1_select (redact_plan p))"
  by (auto simp: d1_select_def d1_order_redact plan_bounds_def o_def
      intro!: same_template same_intros same_d1_filter same_join same_map same_d1_field)

lemma same_compile_d1: "rmap cq_text (compile_d1_ast (redact_plan p)) = rmap cq_text (compile_d1_ast p)"
proof (cases "query_to_d1 (validate_plan_against_capabilities p d1_query_capabilities)")
  case (Inr u)
  have "rmap fst (d1_select p []) = rmap fst (d1_select (redact_plan p) [])"
    by (rule same_outcome_text [OF same_textD [OF same_d1_select]]) simp
  then show ?thesis
    by (cases "d1_select p []"; cases "d1_select (redact_plan p) []")
      (auto simp: compile_d1_ast_def validate_redact Inr to_query_def)
qed (simp add: compile_d1_ast_def validate_redact)

section \<open>Defects\<close>

text \<open>
  The flat compiler writes \<open>LIMIT -1\<close> before an offset that has no limit, as SQLite demands;
  the compiler of plans writes the offset alone.
\<close>

lemma plan_offset_bare:
  assumes "qp_cardinality p = ManyRows" "canonicalize_pagination (qp_pagination p) = (Undefined, JNum n)"
  shows "plan_bounds p = '' OFFSET '' @ bound_text n"
  using assms by (simp add: plan_bounds_def Let_def bound_clause_def to_number_def)

lemma flat_offset_limited:
  "effective_offset p = Some n \<Longrightarrow> \<exists>t. d1_limit_offset_clause p = ''LIMIT '' @ t @ '' OFFSET '' @ bound_text n"
  by (cases "effective_limit p") (auto simp: d1_limit_offset_clause_def)

text \<open>As in the PostgreSQL compiler, \<open>every\<close> with no filter compiles to the text of \<open>none\<close>.\<close>

lemma d1_every_without_filter:
  "d1_condition (ResolvedCond d t j PredEvery r None) parent = d1_condition (ResolvedCond d t j PredNone r None) parent"
  by (simp add: exists_open_def negated_predicate_def)

end
