(* ===== verification/D1Properties.thy ===== *)
theory D1Properties
  imports D1Ast SqlProperties
begin

text \<open>
  The properties of the D1 compilers, and their agreement with the PostgreSQL compilers on what
  a request binds.
\<close>

section \<open>What a condition binds\<close>

text \<open>The values bound by a condition, on either back end.\<close>

definition operator_values :: "string \<Rightarrow> jval \<Rightarrow> jval list" where
  "operator_values op v =
     (if op = ''eq'' \<or> op = ''in'' then
        (case v of
           JArr vs \<Rightarrow> vs
         | Null \<Rightarrow> if op = ''eq'' then [] else [Null]
         | Undefined \<Rightarrow> if op = ''eq'' then [Null] else []
         | _ \<Rightarrow> [v])
      else if op = ''neq'' then (if v = Null then [] else [nullish_or v Null])
      else if op = ''is'' then
        (if v \<in> {Null, JStr ''null'', JBool True, JStr ''true'', JBool False, JStr ''false''} then [] else [v])
      else [nullish_or v Null])"

definition simple_values :: "gateway_condition \<Rightarrow> jval list" where
  "simple_values c = operator_values (condition_operator c) (condition_value c)"

definition condition_values :: "gateway_condition \<Rightarrow> jval list" where
  "condition_values c =
     (if condition_operator c = ''or'' \<or> condition_operator c = ''not'' then
        (case condition_value c of
           JStr text \<Rightarrow>
             (case parse_legacy_boolean_expression text (condition_operator c = ''or'') of
                Inl e \<Rightarrow> []
              | Inr tree \<Rightarrow> concat (map simple_values (legacy_predicates tree)))
         | _ \<Rightarrow> [])
      else simple_values c)"

definition conditions_values :: "gateway_condition list \<Rightarrow> jval list" where
  "conditions_values cs = concat (map (\<lambda>c. condition_values (canonical_condition c)) cs)"

text \<open>Arrays of JSON have no undefined members; containment is not offered on D1.\<close>

definition json_value_ok :: "jval \<Rightarrow> bool" where
  "json_value_ok v = (case v of JArr vs \<Rightarrow> Undefined \<notin> set vs | _ \<Rightarrow> True)"

definition plain_condition :: "gateway_condition \<Rightarrow> bool" where
  "plain_condition c \<longleftrightarrow>
     json_value_ok (condition_value c) \<and> condition_operator c \<notin> {''contains'', ''containedby''}"

lemma binds_mark [binds_intros]: "binds (emit_mark v) [v]"
  by (simp add: binds_def emit_mark_def)

lemma binds_fail [binds_intros]: "binds (emit_fail e) bs"
  by (simp add: binds_def emit_fail_def)

lemma binds_middle: "binds m bs \<Longrightarrow> binds (template [emit_text a, m, emit_text b]) bs"
  using binds_template [OF binds_text binds_template [OF _ binds_template [OF binds_text binds_template_Nil]]]
  by fastforce

lemma binds_last: "binds m bs \<Longrightarrow> binds (template [emit_text a, m]) bs"
  using binds_template [OF binds_text binds_template [OF _ binds_template_Nil]] by fastforce

lemma binds_first: "binds m bs \<Longrightarrow> binds (template [m, emit_text a]) bs"
  using binds_template [OF _ binds_template [OF binds_text binds_template_Nil]] by fastforce

lemma concat_nested: "concat (map (\<lambda>n. concat (h n)) ns) = concat (concat (map h ns))"
  by (induction ns) simp_all

lemma binds_legacy:
  "\<forall>c \<in> set (legacy_predicates n). binds (f c) (g c) \<Longrightarrow>
   binds (compile_legacy_boolean_node n f) (concat (map g (legacy_predicates n)))"
proof (induction n f rule: compile_legacy_boolean_node.induct)
  case (2 cs f)
  have "binds (emit_join '' AND '' (map (\<lambda>c. compile_legacy_boolean_node c f) cs))
      (concat (map (\<lambda>n. concat (map g (legacy_predicates n))) cs))"
    using 2 by (intro binds_join) auto
  from binds_middle [OF this] show ?case by (simp add: map_concat o_def concat_nested)
next
  case (3 cs f)
  have "binds (emit_join '' OR '' (map (\<lambda>c. compile_legacy_boolean_node c f) cs))
      (concat (map (\<lambda>n. concat (map g (legacy_predicates n))) cs))"
    using 3 by (intro binds_join) auto
  from binds_middle [OF this] show ?case by (simp add: map_concat o_def concat_nested)
next
  case (4 n f)
  then show ?case by (simp add: binds_middle)
qed simp

section \<open>The D1 compiler\<close>

lemma binds_d1_list: "binds (d1_in_list col vs) vs"
proof -
  have "binds (emit_join '', '' (map emit_mark vs)) (concat (map (\<lambda>v. [v]) vs))"
    by (intro binds_join binds_mark)
  then have "binds (emit_join '', '' (map emit_mark vs)) vs" by simp
  then show ?thesis unfolding d1_in_list_def by (auto intro: binds_text binds_middle)
qed

lemma binds_d1_binary: "binds (d1_binary col smb v) [nullish_or v Null]"
  unfolding d1_binary_def by (intro binds_last binds_mark)

lemma binds_d1_operator: "binds (d1_operator_where col op v) (operator_values op v)"
proof -
  have o: "binds (case d1_comparison_symbol op of Some smb \<Rightarrow> d1_binary col smb v
      | None \<Rightarrow> emit_fail (D1Error ''unsupported_operator'')) [nullish_or v Null]"
    by (auto intro: binds_d1_binary binds_fail split: option.split)
  have eq: "binds (d1_operator_where col ''eq'' v) (operator_values ''eq'' v)"
    using binds_d1_binary [of col "''=''" v] binds_d1_list [of col]
    by (cases v) (auto simp: d1_operator_where_def operator_values_def nullish_or_def nullish_def binds_text)
  have inn: "binds (d1_operator_where col ''in'' v) (operator_values ''in'' v)"
    using binds_d1_list [of col] by (cases v) (auto simp: d1_operator_where_def operator_values_def)
  consider "op = ''eq''" | "op = ''neq''" | "op = ''ilike''" | "op = ''in''" | "op = ''is''"
    | "op \<notin> {''eq'', ''neq'', ''ilike'', ''in'', ''is''}" by blast
  then show ?thesis
  proof cases
    case 6
    then have "d1_operator_where col op v = (case d1_comparison_symbol op of Some smb \<Rightarrow> d1_binary col smb v
      | None \<Rightarrow> emit_fail (D1Error ''unsupported_operator''))" "operator_values op v = [nullish_or v Null]"
      by (simp_all add: d1_operator_where_def operator_values_def)
    with o show ?thesis by simp
  qed (use eq inn binds_d1_binary in \<open>auto simp: d1_operator_where_def operator_values_def
      intro: binds_text binds_first binds_last binds_mark\<close>)
qed

lemma binds_d1_simple: "binds (d1_simple_where c) (simple_values c)"
  unfolding d1_simple_where_def simple_values_def
  by (auto intro!: binds_fail binds_given binds_d1_operator)

lemma binds_d1_condition: "binds (d1_condition_to_where c) (condition_values c)"
  using binds_legacy [of _ d1_simple_where simple_values] binds_d1_simple
  by (auto simp: d1_condition_to_where_def condition_values_def intro: binds_fail binds_middle split: jval.split sum.split)

lemma binds_d1_where: "binds (d1_where_parts cs) (conditions_values cs)"
  unfolding d1_where_parts_def conditions_values_def by (intro binds_join binds_d1_condition)

lemma d1_build_where_values:
  assumes "d1_build_where cs = Inr w"
  shows "snd w = conditions_values cs" and "fst w = [] \<longleftrightarrow> cs = []"
proof -
  have "binds (template [emit_text ''WHERE '', d1_where_parts cs]) (conditions_values cs)"
    by (intro binds_last binds_d1_where)
  from bindsD [OF this, of "[]"] show "snd w = conditions_values cs"
    using assms by (cases w) (auto simp: d1_build_where_def conditions_values_def split: if_splits)
  show "fst w = [] \<longleftrightarrow> cs = []"
    using assms by (auto simp: d1_build_where_def template.simps emit_text_def rmap_eq_Inr rbind_eq_Inr split: if_splits)
qed

section \<open>The PostgreSQL compiler\<close>

lemma binds_cast: "binds (bind_cast cast v) [v]"
  using binds_template [OF binds_bind binds_template [OF binds_lift binds_template_Nil]] by (simp add: bind_cast_def)

lemma binds_pg_list: "binds (in_list col cast vs) (map (\<lambda>v. nullish_or v Null) vs)"
proof -
  have "binds (bind_list cast vs) (concat (map (\<lambda>v. [nullish_or v Null]) vs))"
    unfolding bind_list_def by (intro binds_join binds_cast)
  then show ?thesis unfolding in_list_def by (auto intro: binds_text binds_middle simp: concat_map_singleton)
qed

lemma plain_list: "json_value_ok (JArr vs) \<Longrightarrow> map (\<lambda>v. nullish_or v Null) vs = vs"
  by (rule map_idI) (auto simp: json_value_ok_def nullish_or_def nullish_def)

lemma binds_pg_binary: "binds (binary col smb cast v) [nullish_or v Null]"
  unfolding binary_def by (intro binds_last binds_cast)

lemma binds_pg_operator:
  assumes "json_value_ok v" "op \<notin> {''contains'', ''containedby''}"
  shows "binds (operator_where col op cast v) (operator_values op v)"
proof -
  have o: "binds (case comparison_symbol op of Some smb \<Rightarrow> binary col smb cast v
      | None \<Rightarrow> emit_fail (PgError ''unsupported_operator'')) [nullish_or v Null]"
    by (auto intro: binds_pg_binary binds_fail split: option.split)
  have l: "binds (in_list col cast vs) vs" if "v = JArr vs" for vs
    using binds_pg_list [of col cast vs] plain_list [of vs] assms(1) that by simp
  have eq: "binds (operator_where col ''eq'' cast v) (operator_values ''eq'' v)"
    using binds_pg_binary [of col "''=''" cast v] l
    by (cases v) (auto simp: operator_where_def operator_values_def nullish_or_def nullish_def binds_text)
  have inn: "binds (operator_where col ''in'' cast v) (operator_values ''in'' v)"
    using binds_pg_list [of col cast "[]"] binds_pg_list [of col cast "[v]"] l
    by (cases v) (auto simp: operator_where_def operator_values_def nullish_or_def nullish_def)
  consider "op = ''eq''" | "op = ''neq''" | "op = ''in''" | "op = ''is''" | "op \<notin> {''eq'', ''neq'', ''in'', ''is''}" by blast
  then show ?thesis
  proof cases
    case 5
    with assms(2) have "operator_where col op cast v = (case comparison_symbol op of Some smb \<Rightarrow> binary col smb cast v
      | None \<Rightarrow> emit_fail (PgError ''unsupported_operator''))" "operator_values op v = [nullish_or v Null]"
      by (simp_all add: operator_where_def operator_values_def)
    with o show ?thesis by simp
  qed (use eq inn binds_pg_binary in \<open>auto simp: operator_where_def operator_values_def
      intro: binds_text binds_last binds_cast\<close>)
qed

lemma binds_pg_simple: "plain_condition c \<Longrightarrow> binds (simple_where c) (simple_values c)"
  unfolding simple_where_def simple_values_def plain_condition_def
  by (auto intro!: binds_fail binds_given binds_pg_operator)

text \<open>The predicates of a parsed expression are always plain.\<close>

lemma coerce_defined: "coerce_scalar s \<noteq> Undefined \<and> json_value_ok (coerce_scalar s)"
  by (simp add: coerce_scalar_def Let_def json_value_ok_def)

lemma parsed_plain: "parse_predicate token = Inr c \<Longrightarrow> plain_condition c"
proof -
  assume p: "parse_predicate token = Inr c"
  then have "gc_operator c \<in> set simple_operators" by (auto dest: parse_predicate_safe simp: safe_predicate_def)
  then have "condition_operator c \<notin> {''contains'', ''containedby''}"
    by (auto simp: condition_operator_def simple_operators_def js_lower_def lower_char_def char_class_defs)
  moreover from p have "gc_value c \<noteq> Undefined" "json_value_ok (gc_value c)"
    using coerce_defined [THEN conjunct1, THEN not_sym] coerce_defined
    by (auto simp: parse_predicate_def Let_def simple_condition_def json_value_ok_def split: if_splits)
  ultimately show ?thesis by (simp add: plain_condition_def condition_value_def)
qed

lemma binds_pg_condition: "plain_condition c \<Longrightarrow> binds (condition_to_where c) (condition_values c)"
proof -
  assume p: "plain_condition c"
  have "binds (compile_legacy_boolean_node n simple_where) (concat (map simple_values (legacy_predicates n)))"
    if "parse_legacy_boolean_expression s d = Inr n" for s d n
    using parsed_predicates [OF that, of plain_condition] parsed_plain binds_pg_simple by (intro binds_legacy) blast
  then show ?thesis using binds_pg_simple [OF p]
    by (auto simp: condition_to_where_def condition_values_def intro: binds_fail binds_middle split: jval.split sum.split)
qed

lemma binds_pg_where:
  "\<forall>c \<in> set cs. plain_condition (canonical_condition c) \<Longrightarrow> binds (where_parts cs) (conditions_values cs)"
  unfolding where_parts_def conditions_values_def by (intro binds_join binds_pg_condition) blast

lemma build_where_values:
  assumes "build_where cs = Inr w" "\<forall>c \<in> set cs. plain_condition (canonical_condition c)"
  shows "snd w = conditions_values cs" and "fst w = [] \<longleftrightarrow> cs = []"
  using assms(1) bindsD [OF binds_pg_where [OF assms(2)], of "[]"]
  by (auto simp: build_where_def rmap_eq_Inr conditions_values_def split: if_splits)

section \<open>Samples\<close>

definition sample_fetch :: fetch_payload where
  "sample_fetch =
     \<lparr>fp_columns = None,
      fp_conditions = [by_owner, simple_condition ''any'' ''or'' (JStr ''age.gte.x7,name.ilike.x''),
        simple_condition ''tag'' ''in'' (JArr [JStr ''a'', Null])],
      fp_head = False, fp_paging = no_paging\<lparr>pb_offset := Some (jint 5)\<rparr>, fp_select = Undefined,
      fp_sort_by = None, fp_table_name = Some ''public.posts'', fp_view_name = None, fp_where = Undefined\<rparr>"

definition d1_fetched :: compiled_d1_query where
  "d1_fetched = right_of (compile_d1_fetch sample_fetch)"

definition pg_fetched :: compiled_query where
  "pg_fetched = right_of (compile_postgres_fetch sample_fetch)"

definition sample_values :: "jval list" where
  "sample_values = [JNum (jint 7), JStr ''x7'', JStr ''x'', JStr ''a'', Null]"

lemma sample_fetched:
  "compile_d1_fetch sample_fetch = Ok d1_fetched" "compile_postgres_fetch sample_fetch = Ok pg_fetched"
proof -
  have "succeeds (compile_d1_fetch sample_fetch)" "succeeds (compile_postgres_fetch sample_fetch)" by code_simp+
  then show "compile_d1_fetch sample_fetch = Ok d1_fetched" "compile_postgres_fetch sample_fetch = Ok pg_fetched"
    by (auto simp: d1_fetched_def pg_fetched_def dest: Ok_right_of)
qed

section \<open>Properties\<close>

text \<open>The statements of the flat compilers, those of a batch included.\<close>

definition flat_d1_statement :: "compiled_query \<Rightarrow> bool" where
  "flat_d1_statement q \<longleftrightarrow>
     (\<exists>d. q \<in> set (d1_statements d) \<and>
        (Ok d \<in> range compile_d1_insert \<or> Ok d \<in> range compile_d1_fetch \<or> Ok d \<in> range compile_d1_count \<or>
         (\<exists>identity. Ok d \<in> range (\<lambda>u. compile_d1_update u identity) \<or>
            Ok d \<in> range (\<lambda>e. compile_d1_delete e identity))))"

lemma flat_d1_sound: "flat_d1_statement q \<Longrightarrow> d1_sound q"
  unfolding flat_d1_statement_def
  by (auto simp: image_iff dest: sym [of "Ok _"] d1_insert_sound d1_update_sound d1_delete_sound fetch_sound d1_count_sound)

text \<open>
  C21. Every statement the D1 compilers make, each statement of a batch included, has exactly as
  many question marks outside its string literals as it binds values, and every literal it opens
  is closed; a statement for a flat payload also consists of identifier characters and SQL
  punctuation only, whatever its values are.
\<close>

theorem d1_statements_sound:
  assumes "flat_d1_statement q \<or> compile_d1_ast plan = Ok q"
  shows "marks (cq_text q) (length (cq_values q)) \<and> (compile_d1_ast plan = Ok q \<or> list_all d1_char (cq_text q))"
  using assms by (auto simp: d1_sound_def dest: flat_d1_sound d1_ast_marks)

theorem d1_statements_sound_witness:
  "marks (cq_text (dc_head d1_fetched)) 5 \<and> flat_d1_statement (dc_head d1_fetched)"
proof -
  have d: "rmap (\<lambda>d. (dc_statements d, length (cq_values (dc_head d)))) (compile_d1_fetch sample_fetch) = Ok (None, 5)"
    by code_simp
  have "dc_head d1_fetched \<in> set (d1_statements d1_fetched)"
    using d sample_fetched(1) by (simp add: d1_statements_def)
  moreover have "Ok d1_fetched \<in> range compile_d1_fetch" using sample_fetched(1) by (metis rangeI)
  ultimately have "flat_d1_statement (dc_head d1_fetched)" unfolding flat_d1_statement_def by blast
  with d1_statements_sound d sample_fetched(1) show ?thesis by fastforce
qed

text \<open>
  C22. Both back ends bind the same values for the same read: where the PostgreSQL compiler and
  the D1 compiler both accept a payload whose conditions hold JSON values, their statements bind
  the same list, although the texts differ.
\<close>

theorem back_ends_agree:
  assumes "compile_postgres_fetch p = Ok q" "compile_d1_fetch p = Ok d"
    "\<forall>c \<in> set (fp_conditions p @ map equality (object_entries (fp_where p))). plain_condition (canonical_condition c)"
  shows "d1_statements d = [dc_head d] \<and> cq_values (dc_head d) = cq_values q"
proof -
  from assms(1) obtain w where w: "resolve_where (fp_conditions p) (fp_where p) = Inr w" "cq_values q = snd w"
    by (auto simp: compile_postgres_fetch_def count_from_where_def rbind_eq_Inr rmap_eq_Inr split: if_splits)
  from assms(2) obtain w' where w': "d1_resolve_where p = Inr w'" "cq_values (dc_head d) = snd w'" "dc_statements d = None"
    by (auto simp: compile_d1_fetch_def d1_count_from_where_def rbind_eq_Inr rmap_eq_Inr as_single_def to_query_def
        split: if_splits)
  obtain u u' where u: "build_where (fp_conditions p) = Inr u" "d1_build_where (fp_conditions p) = Inr u'"
    using w(1) w'(1) by (auto simp: resolve_where_def d1_resolve_where_def rbind_eq_Inr)
  have e: "snd u = conditions_values (fp_conditions p)" "fst u = [] \<longleftrightarrow> fp_conditions p = []"
    using build_where_values [OF u(1)] assms(3) by simp_all
  note e' = d1_build_where_values [OF u(2)]
  have "snd w = snd w'"
  proof (cases "fp_conditions p = [] \<and> is_object (fp_where p)")
    case True
    then have "build_where (map equality (object_entries (fp_where p))) = Inr w"
      "d1_build_where (map equality (object_entries (fp_where p))) = Inr w'"
      using w(1) w'(1) u e(2) e'(2) by (simp_all add: resolve_where_def d1_resolve_where_def)
    then show ?thesis using build_where_values(1) d1_build_where_values(1) assms(3) by simp
  next
    case False
    then have "w = u" "w' = u'" using w(1) w'(1) u e(2) e'(2) by (auto simp: resolve_where_def d1_resolve_where_def)
    with e(1) e'(1) show ?thesis by simp
  qed
  with w(2) w'(2,3) show ?thesis by (simp add: d1_statements_def)
qed

theorem back_ends_agree_witness: "cq_values (dc_head d1_fetched) = cq_values pg_fetched \<and> cq_values pg_fetched = sample_values"
proof -
  have "list_all (\<lambda>c. plain_condition (canonical_condition c))
      (fp_conditions sample_fetch @ map equality (object_entries (fp_where sample_fetch)))" by code_simp
  then have "cq_values (dc_head d1_fetched) = cq_values pg_fetched"
    using back_ends_agree [OF sample_fetched(2,1)] unfolding list_all_iff by blast
  moreover have "rmap cq_values (compile_postgres_fetch sample_fetch) = Ok sample_values" by code_simp
  ultimately show ?thesis using sample_fetched(2) by simp
qed

end
