(* ===== verification/JsDate.thy ===== *)
theory JsDate
  imports JsValue
begin

text \<open>
  Times of the source language: a \<open>Date\<close> is its number of milliseconds since 1970, or \<open>None\<close>
  for an invalid date. The two printed forms the program uses are \<open>toISOString\<close> and
  \<open>toUTCString\<close>; the calendar is the proleptic Gregorian one, counted in eras of 400 years.
\<close>

type_synonym js_date = "int option"

text \<open>\<open>new Date(n)\<close>: the fraction is dropped, and 100 million days are the limit.\<close>

definition time_clip :: "jnum \<Rightarrow> js_date" where
  "time_clip n =
     (case n of
        Fin r \<Rightarrow> if \<bar>r\<bar> \<le> 8640000000000000 then Some (rat_trunc r) else None
      | _ \<Rightarrow> None)"

definition ms_per_day :: int where
  "ms_per_day = 86400000"

text \<open>Year, month and day of a day number; the year of an era starts in March.\<close>

definition civil_date :: "int \<Rightarrow> int \<times> int \<times> int" where
  "civil_date days =
     (let z = days + 719468; era = z div 146097; doe = z mod 146097;
        yoe = (doe - doe div 1460 + doe div 36524 - doe div 146096) div 365;
        doy = doe - (365 * yoe + yoe div 4 - yoe div 100);
        mp = (5 * doy + 2) div 153;
        month = (if mp < 10 then mp + 3 else mp - 9)
      in (yoe + era * 400 + (if month \<le> 2 then 1 else 0), month, doy - (153 * mp + 2) div 5 + 1))"

definition pad_left :: "nat \<Rightarrow> string \<Rightarrow> string" where
  "pad_left n s = replicate (n - length s) (CHR ''0'') @ s"

definition two_digits :: "int \<Rightarrow> string" where
  "two_digits n = pad_left 2 (show_nat (nat n))"

definition clock_time :: "int \<Rightarrow> string" where
  "clock_time ms =
     two_digits (ms div 3600000) @ '':'' @ two_digits (ms div 60000 mod 60) @ '':'' @ two_digits (ms div 1000 mod 60)"

definition iso_year :: "int \<Rightarrow> string" where
  "iso_year y =
     (if 0 \<le> y \<and> y \<le> 9999 then pad_left 4 (show_nat (nat y))
      else (if y < 0 then ''-'' else ''+'') @ pad_left 6 (show_nat (nat \<bar>y\<bar>)))"

definition iso_string :: "int \<Rightarrow> string" where
  "iso_string t =
     (case civil_date (t div ms_per_day) of
        (y, m, d) \<Rightarrow>
          iso_year y @ ''-'' @ two_digits m @ ''-'' @ two_digits d @ ''T'' @ clock_time (t mod ms_per_day) @
            ''.'' @ pad_left 3 (show_nat (nat (t mod 1000))) @ ''Z'')"

definition weekday_names :: "string list" where
  "weekday_names = [''Sun'', ''Mon'', ''Tue'', ''Wed'', ''Thu'', ''Fri'', ''Sat'']"

definition month_names :: "string list" where
  "month_names =
     [''Jan'', ''Feb'', ''Mar'', ''Apr'', ''May'', ''Jun'', ''Jul'', ''Aug'', ''Sep'', ''Oct'', ''Nov'', ''Dec'']"

definition utc_string :: "int \<Rightarrow> string" where
  "utc_string t =
     (case civil_date (t div ms_per_day) of
        (y, m, d) \<Rightarrow>
          weekday_names ! nat ((t div ms_per_day + 4) mod 7) @ '', '' @ two_digits d @ '' '' @
            month_names ! nat (m - 1) @ '' '' @ (if y < 0 then ''-'' else []) @ pad_left 4 (show_nat (nat \<bar>y\<bar>)) @
            '' '' @ clock_time (t mod ms_per_day) @ '' GMT'')"

text \<open>\<open>Number.parseInt(s, 10)\<close>: white space, a sign and the digits that follow.\<close>

definition js_parse_int :: "string \<Rightarrow> jnum" where
  "js_parse_int s =
     (let t = dropWhile is_ws s;
        neg = (case t of c # _ \<Rightarrow> c = CHR ''-'' | [] \<Rightarrow> False);
        u = (case t of c # r \<Rightarrow> if c = CHR ''-'' \<or> c = CHR ''+'' then r else t | [] \<Rightarrow> []);
        ds = takeWhile is_digit u
      in if ds = [] then NaN
         else to_double (if neg then - of_nat (digits_val ds) else of_nat (digits_val ds)))"

lemma civil_date_epoch: "civil_date 0 = (1970, 1, 1)"
  by code_simp

lemma civil_date_leap: "civil_date 11016 = (2000, 2, 29)"
  by code_simp

lemma iso_string_sample: "iso_string 1700000000123 = ''2023-11-14T22:13:20.123Z''"
  by code_simp

lemma utc_string_epoch: "utc_string 0 = ''Thu, 01 Jan 1970 00:00:00 GMT''"
  by code_simp

end
