(* ===== verification/AuthModel.thy ===== *)
theory AuthModel
  imports Effects JsDate JsJson
begin

text \<open>
  The data of the local auth server (\<open>auth/local/models.ts\<close>, \<open>errors.ts\<close>, the row types of
  \<open>stores.ts\<close>): rows, what of them is shown to clients, the patches of an update, errors, and
  the parameters of the server. Absent nullable columns are \<open>None\<close>; times are milliseconds,
  and only the two columns that requests can fill with an invalid date are of type \<open>js_date\<close>.
  The metadata of a user is an object in the memory stores, so it is modelled by its fields.
\<close>

section \<open>Errors\<close>

text \<open>
  An error of the server with its status, message and code; the unique violation of the stores;
  and any other exception, which is answered with status 500.
\<close>

datatype auth_error =
    RuntimeError nat string "string option"
  | UniqueViolation
  | UnexpectedError string

definition bad_request :: "string \<Rightarrow> auth_error" where
  "bad_request message = RuntimeError 400 message None"

definition invalid_credentials :: auth_error where
  "invalid_credentials = RuntimeError 401 ''Invalid credentials'' None"

definition unauthenticated :: auth_error where
  "unauthenticated = RuntimeError 401 ''Authentication required'' None"

definition session_not_found :: auth_error where
  "session_not_found = RuntimeError 401 ''Session not found or expired'' None"

definition forbidden_with :: "string \<Rightarrow> auth_error" where
  "forbidden_with message = RuntimeError 403 message None"

definition forbidden :: auth_error where
  "forbidden = forbidden_with ''Insufficient permissions''"

definition not_found :: "string \<Rightarrow> auth_error" where
  "not_found message = RuntimeError 404 message None"

definition conflict :: "string \<Rightarrow> auth_error" where
  "conflict message = RuntimeError 409 message None"

definition rate_limited :: auth_error where
  "rate_limited = RuntimeError 429 ''Too many requests'' None"

definition payload_too_large :: auth_error where
  "payload_too_large = RuntimeError 413 ''Request body too large'' None"

definition internal_error :: auth_error where
  "internal_error = RuntimeError 500 ''Internal server error'' (Some ''ATHENA_AUTH_INTERNAL'')"

lemmas auth_error_defs =
  bad_request_def invalid_credentials_def unauthenticated_def session_not_found_def
  forbidden_with_def forbidden_def not_found_def conflict_def rate_limited_def
  payload_too_large_def internal_error_def

section \<open>Rows\<close>

record auth_user =
  au_ban_expires :: "js_date option"
  au_ban_reason :: "string option"
  au_banned :: bool
  au_created_at :: int
  au_display_username :: "string option"
  au_email :: "string option"
  au_email_verified :: bool
  au_id :: string
  au_image :: "string option"
  au_last_sign_in_at :: "int option"
  au_metadata :: fields
  au_name :: "string option"
  au_role :: "string option"
  au_two_factor_enabled :: bool
  au_updated_at :: int
  au_username :: "string option"

record auth_session =
  as_active :: bool
  as_active_organization_id :: "string option"
  as_created_at :: int
  as_expires_at :: int
  as_id :: string
  as_impersonated_by :: "string option"
  as_ip_address :: "string option"
  as_token :: string
  as_updated_at :: int
  as_user_agent :: "string option"
  as_user_id :: string

text \<open>The token columns of an account are null in every account the server makes.\<close>

record auth_account =
  aa_account_id :: string
  aa_created_at :: int
  aa_id :: string
  aa_password :: "string option"
  aa_provider_id :: string
  aa_updated_at :: int
  aa_user_id :: string

record auth_verification =
  av_created_at :: int
  av_expires_at :: int
  av_id :: string
  av_identifier :: string
  av_updated_at :: int
  av_value :: string

record auth_organization =
  ao_created_at :: int
  ao_id :: string
  ao_logo :: "string option"
  ao_metadata :: fields
  ao_name :: string
  ao_slug :: string
  ao_updated_at :: int

record auth_member =
  am_created_at :: int
  am_id :: string
  am_organization_id :: string
  am_role :: string
  am_user_id :: string

record auth_invitation =
  ai_created_at :: int
  ai_email :: string
  ai_expires_at :: int
  ai_id :: string
  ai_inviter_id :: string
  ai_organization_id :: string
  ai_role :: string
  ai_status :: string

record auth_api_key =
  ak_created_at :: int
  ak_enabled :: bool
  ak_expires_at :: "js_date option"
  ak_id :: string
  ak_key :: string
  ak_last_request :: "int option"
  ak_metadata :: "string option"
  ak_name :: "string option"
  ak_permissions :: "string option"
  ak_prefix :: "string option"
  ak_remaining :: "jnum option"
  ak_start :: "string option"
  ak_updated_at :: int
  ak_user_id :: string

record auth_two_factor =
  tf_backup_codes :: "string option"
  tf_created_at :: int
  tf_id :: string
  tf_secret :: string
  tf_updated_at :: int
  tf_user_id :: string

section \<open>What clients see\<close>

definition opt_json :: "string option \<Rightarrow> jval" where
  "opt_json s = (case s of None \<Rightarrow> Null | Some t \<Rightarrow> JStr t)"

definition object :: "fields \<Rightarrow> jval" where
  "object fs = JObj 0 fs"

text \<open>\<open>toISOString\<close> throws a \<open>RangeError\<close> on an invalid date.\<close>

definition as_iso :: "js_date option \<Rightarrow> (auth_error, jval) result" where
  "as_iso d =
     (case d of
        None \<Rightarrow> Ok Null
      | Some None \<Rightarrow> Throw (UnexpectedError ''Invalid time value'')
      | Some (Some t) \<Rightarrow> Ok (JStr (iso_string t)))"

definition opt_iso :: "int option \<Rightarrow> jval" where
  "opt_iso d = (case d of None \<Rightarrow> Null | Some t \<Rightarrow> JStr (iso_string t))"

definition iso :: "int \<Rightarrow> jval" where
  "iso t = JStr (iso_string t)"

definition to_public_user :: "auth_user \<Rightarrow> (auth_error, jval) result" where
  "to_public_user u =
     rmap (\<lambda>ban_expires. object
       [(''banExpires'', ban_expires), (''banned'', JBool (au_banned u)), (''banReason'', opt_json (au_ban_reason u)),
        (''createdAt'', iso (au_created_at u)), (''displayUsername'', opt_json (au_display_username u)),
        (''email'', opt_json (au_email u)), (''emailVerified'', JBool (au_email_verified u)),
        (''id'', JStr (au_id u)), (''image'', opt_json (au_image u)),
        (''lastSignInAt'', opt_iso (au_last_sign_in_at u)), (''name'', opt_json (au_name u)),
        (''role'', opt_json (au_role u)), (''twoFactorEnabled'', JBool (au_two_factor_enabled u)),
        (''updatedAt'', iso (au_updated_at u)), (''username'', opt_json (au_username u))])
     (as_iso (au_ban_expires u))"

definition to_public_session :: "auth_session \<Rightarrow> jval" where
  "to_public_session s = object
     [(''activeOrganizationId'', opt_json (as_active_organization_id s)), (''createdAt'', iso (as_created_at s)),
      (''expiresAt'', iso (as_expires_at s)), (''id'', JStr (as_id s)),
      (''impersonatedBy'', opt_json (as_impersonated_by s)), (''ipAddress'', opt_json (as_ip_address s)),
      (''token'', JStr (as_token s)), (''updatedAt'', iso (as_updated_at s)),
      (''userAgent'', opt_json (as_user_agent s)), (''userId'', JStr (as_user_id s))]"

definition public_organization_fields :: "auth_organization \<Rightarrow> fields" where
  "public_organization_fields g =
     [(''createdAt'', iso (ao_created_at g)), (''id'', JStr (ao_id g)), (''logo'', opt_json (ao_logo g)),
      (''metadata'', object (ao_metadata g)), (''name'', JStr (ao_name g)), (''slug'', JStr (ao_slug g)),
      (''updatedAt'', iso (ao_updated_at g))]"

definition to_public_organization :: "auth_organization \<Rightarrow> jval" where
  "to_public_organization g = object (public_organization_fields g)"

definition to_public_member :: "auth_member \<Rightarrow> jval" where
  "to_public_member m = object
     [(''createdAt'', iso (am_created_at m)), (''id'', JStr (am_id m)),
      (''organizationId'', JStr (am_organization_id m)), (''role'', JStr (am_role m)),
      (''userId'', JStr (am_user_id m))]"

definition to_public_invitation :: "auth_invitation \<Rightarrow> jval" where
  "to_public_invitation i = object
     [(''createdAt'', iso (ai_created_at i)), (''email'', JStr (ai_email i)), (''expiresAt'', iso (ai_expires_at i)),
      (''id'', JStr (ai_id i)), (''inviterId'', JStr (ai_inviter_id i)),
      (''organizationId'', JStr (ai_organization_id i)), (''role'', JStr (ai_role i)),
      (''status'', JStr (ai_status i))]"

definition to_public_account :: "auth_account \<Rightarrow> jval" where
  "to_public_account a = object
     [(''accountId'', JStr (aa_account_id a)), (''createdAt'', iso (aa_created_at a)), (''id'', JStr (aa_id a)),
      (''providerId'', JStr (aa_provider_id a)), (''userId'', JStr (aa_user_id a))]"

section \<open>Patches\<close>

text \<open>\<open>None\<close> is a field left undefined; \<open>Some None\<close> is a field set to null.\<close>

record user_patch =
  up_banned :: "bool option"
  up_ban_expires :: "js_date option option"
  up_ban_reason :: "string option option"
  up_email :: "string option"
  up_email_verified :: "bool option"
  up_image :: "string option option"
  up_last_sign_in_at :: "int option"
  up_metadata :: "fields option"
  up_name :: "string option option"
  up_role :: "string option option"
  up_two_factor_enabled :: "bool option"

definition no_patch :: user_patch where
  "no_patch =
     \<lparr>up_banned = None, up_ban_expires = None, up_ban_reason = None, up_email = None, up_email_verified = None,
      up_image = None, up_last_sign_in_at = None, up_metadata = None, up_name = None, up_role = None,
      up_two_factor_enabled = None\<rparr>"

record create_user_input =
  cu_email :: "string option"
  cu_email_verified :: "bool option"
  cu_id :: string
  cu_metadata :: fields
  cu_name :: "string option"
  cu_username :: "string option"

record create_session_input =
  ci_active_organization_id :: "string option"
  ci_expires_at :: int
  ci_id :: string
  ci_impersonated_by :: "string option"
  ci_ip_address :: "string option"
  ci_token :: string
  ci_user_agent :: "string option"
  ci_user_id :: string

record api_key_patch =
  kp_enabled :: "bool option"
  kp_metadata :: "string option"
  kp_name :: "string option"
  kp_permissions :: "string option"

section \<open>The server\<close>

text \<open>
  The configuration, with \<open>None\<close> for the cookie policy \<open>auto\<close>, and what the server relies on:
  the clock, the sources of randomness by the number of the draw, the password hasher, digests,
  the parsers and encoders of the platform and the HMAC of the standard library.
\<close>

record auth_config =
  ac_auto_sign_in :: bool
  ac_base_path :: string
  ac_body_limit_bytes :: int
  ac_cookie_name :: string
  ac_cookie_secure :: "bool option"
  ac_disable_session_refresh :: bool
  ac_email_enabled :: bool
  ac_expires_in_seconds :: int
  ac_max_password_length :: int
  ac_min_password_length :: int
  ac_trusted_origins :: "string list"
  ac_trusted_proxy :: bool
  ac_update_age_seconds :: int

type_synonym bytes = "8 word list"

record password_hasher =
  ph_hash :: "string \<Rightarrow> nat \<Rightarrow> string"
  ph_verify :: "string \<Rightarrow> string \<Rightarrow> bool"
  ph_needs_rehash :: "string \<Rightarrow> bool"

text \<open>What the server reads of a parsed URL, and what a mail provider answers.\<close>

record url_parts =
  ur_protocol :: string
  ur_host :: string
  ur_hostname :: string

record mail_message =
  mm_attachments :: "jval list"
  mm_html :: "string option"
  mm_subject :: string
  mm_text :: "string option"
  mm_to :: string

record mail_delivery =
  md_metadata :: "fields option"
  md_provider :: string
  md_success :: bool

text \<open>What the token authority signs; the signer of the library rejects a lifetime it cannot read.\<close>

record jwt_claims =
  jc_audiences :: "string list"
  jc_issuer :: string
  jc_kid :: string
  jc_subject :: string
  jc_session :: string
  jc_ttl :: jnum

record auth_env =
  ae_now :: int
  ae_uuid :: "nat \<Rightarrow> string"
  ae_random_bytes :: "nat \<Rightarrow> nat \<Rightarrow> bytes"
  ae_random_otp :: "nat \<Rightarrow> nat"
  ae_hasher :: password_hasher
  ae_sha256_base64url :: "string \<Rightarrow> string"
  ae_base64url :: "bytes \<Rightarrow> string"
  ae_hmac_sha1 :: "bytes \<Rightarrow> bytes \<Rightarrow> bytes"
  ae_parse_json :: "string \<Rightarrow> jval option"
  ae_parse_date :: "string \<Rightarrow> js_date"
  ae_parse_url :: "string \<Rightarrow> url_parts option"
  ae_encode_uri :: "string \<Rightarrow> string"
  ae_encode_form :: "string \<Rightarrow> string"
  ae_sign_jwt :: "jwt_claims \<Rightarrow> nat \<Rightarrow> string option"
  ae_public_jwk :: fields
  ae_mail_provider :: "(mail_message \<Rightarrow> mail_delivery) option"

text \<open>
  The state: the stores, in insertion order, the rate limiter, the token authority once it
  is made, how many random values were drawn, and what the request at hand has sent so far:
  cookies and mails.
\<close>

record rate_bucket =
  rb_count :: nat
  rb_reset_at :: int

record token_authority =
  ta_issuer :: string
  ta_endpoint :: string
  ta_kid :: string

record auth_mail =
  ml_to :: string
  ml_type :: string
  ml_url :: string

record auth_state =
  st_users :: "(string, auth_user) odict"
  st_sessions :: "(string, auth_session) odict"
  st_accounts :: "(string, auth_account) odict"
  st_members :: "(string, auth_member) odict"
  st_organizations :: "(string, auth_organization) odict"
  st_invitations :: "(string, auth_invitation) odict"
  st_verifications :: "(string, auth_verification) odict"
  st_api_keys :: "(string, auth_api_key) odict"
  st_two_factors :: "(string, auth_two_factor) odict"
  st_buckets :: "(string, rate_bucket) odict"
  st_email_templates :: "(string, fields) odict"
  st_email_failures :: "(string, fields) odict"
  st_emails :: "(string, fields) odict"
  st_authority :: "token_authority option"
  st_draws :: nat
  st_cookies :: "string list"
  st_mails :: "auth_mail list"

type_synonym 'a auth_act = "(auth_state, auth_error, 'a) act"

definition empty_stores :: auth_state where
  "empty_stores =
     \<lparr>st_users = [], st_sessions = [], st_accounts = [], st_members = [], st_organizations = [],
      st_invitations = [], st_verifications = [], st_api_keys = [], st_two_factors = [], st_buckets = [],
      st_email_templates = [], st_email_failures = [], st_emails = [],
      st_authority = None, st_draws = 0, st_cookies = [], st_mails = []\<rparr>"

text \<open>A random value: the counter says which draw it is.\<close>

definition draw :: "(nat \<Rightarrow> 'a) \<Rightarrow> 'a auth_act" where
  "draw source =
     act_bind (act_get st_draws) (\<lambda>n.
     act_bind (act_modify (\<lambda>s. s\<lparr>st_draws := Suc n\<rparr>)) (\<lambda>_.
     act_return (source n)))"

definition new_uuid :: "auth_env \<Rightarrow> string auth_act" where
  "new_uuid env = draw (ae_uuid env)"

text \<open>Continuing only when a condition holds.\<close>

definition guard_act :: "bool \<Rightarrow> auth_error \<Rightarrow> unit auth_act" where
  "guard_act ok e = (if ok then act_return () else act_throw e)"

definition require_some :: "'a option \<Rightarrow> auth_error \<Rightarrow> 'a auth_act" where
  "require_some v e = (case v of None \<Rightarrow> act_throw e | Some x \<Rightarrow> act_return x)"

end
