(* ===== verification/AuthStores.thy ===== *)
theory AuthStores
  imports AuthModel
begin

text \<open>
  The memory stores of the local auth server (\<open>memory-stores.ts\<close>): one insertion-ordered map per
  table, users and most rows by id, sessions by token, verifications by value, second factors by
  user. Rows are copied in and out, so they are values here.
\<close>

section \<open>Maps\<close>

definition ddelete :: "'k \<Rightarrow> ('k, 'v) odict \<Rightarrow> ('k, 'v) odict" where
  "ddelete k d = filter (\<lambda>p. fst p \<noteq> k) d"

definition dremove :: "('v \<Rightarrow> bool) \<Rightarrow> ('k, 'v) odict \<Rightarrow> ('k, 'v) odict" where
  "dremove P d = filter (\<lambda>p. \<not> P (snd p)) d"

definition dvalues :: "('k, 'v) odict \<Rightarrow> 'v list" where
  "dvalues d = map snd d"

definition dfind :: "('v \<Rightarrow> bool) \<Rightarrow> ('k, 'v) odict \<Rightarrow> 'v option" where
  "dfind P d = find P (dvalues d)"

definition dadjust :: "'k \<Rightarrow> ('v \<Rightarrow> 'v) \<Rightarrow> ('k, 'v) odict \<Rightarrow> ('k, 'v) odict" where
  "dadjust k f d = map (\<lambda>p. if fst p = k then (k, f (snd p)) else p) d"

section \<open>Users\<close>

definition get_user_by_id :: "string \<Rightarrow> auth_user option auth_act" where
  "get_user_by_id uid = act_get (\<lambda>s. map_of (st_users s) uid)"

definition fold_email :: "string \<Rightarrow> string" where
  "fold_email email = js_lower (js_trim email)"

definition has_email :: "string \<Rightarrow> auth_user \<Rightarrow> bool" where
  "has_email email u \<longleftrightarrow> fold_email (get_or (au_email u) []) = fold_email email"

definition get_user_by_email :: "string \<Rightarrow> auth_user option auth_act" where
  "get_user_by_email email = act_get (\<lambda>s. dfind (has_email email) (st_users s))"

definition get_user_by_username :: "string \<Rightarrow> auth_user option auth_act" where
  "get_user_by_username username = act_get (\<lambda>s. dfind (\<lambda>u. au_username u = Some username) (st_users s))"

definition new_user :: "int \<Rightarrow> create_user_input \<Rightarrow> auth_user" where
  "new_user now inp =
     \<lparr>au_ban_expires = None, au_ban_reason = None, au_banned = False, au_created_at = now,
      au_display_username = None, au_email = cu_email inp, au_email_verified = get_or (cu_email_verified inp) False,
      au_id = cu_id inp, au_image = None, au_last_sign_in_at = None, au_metadata = cu_metadata inp,
      au_name = cu_name inp, au_role = None, au_two_factor_enabled = False, au_updated_at = now,
      au_username = cu_username inp\<rparr>"

definition put_user :: "auth_user \<Rightarrow> unit auth_act" where
  "put_user u = act_modify (\<lambda>s. s\<lparr>st_users := dset (au_id u) u (st_users s)\<rparr>)"

definition create_user :: "auth_env \<Rightarrow> create_user_input \<Rightarrow> auth_user auth_act" where
  "create_user env inp =
     act_bind
       (case cu_email inp of
          None \<Rightarrow> act_return None
        | Some email \<Rightarrow> if email = [] then act_return None else get_user_by_email email) (\<lambda>taken.
     act_bind (guard_act (taken = None) UniqueViolation) (\<lambda>_.
     act_bind (put_user (new_user (ae_now env) inp)) (\<lambda>_.
     act_return (new_user (ae_now env) inp))))"

definition patched_user :: "int \<Rightarrow> user_patch \<Rightarrow> auth_user \<Rightarrow> auth_user" where
  "patched_user now p u = u
     \<lparr>au_ban_expires := get_or (up_ban_expires p) (au_ban_expires u),
      au_ban_reason := get_or (up_ban_reason p) (au_ban_reason u),
      au_banned := get_or (up_banned p) (au_banned u),
      au_email := or_else (up_email p) (au_email u),
      au_email_verified := get_or (up_email_verified p) (au_email_verified u),
      au_image := get_or (up_image p) (au_image u),
      au_last_sign_in_at := or_else (up_last_sign_in_at p) (au_last_sign_in_at u),
      au_metadata := get_or (up_metadata p) (au_metadata u),
      au_name := get_or (up_name p) (au_name u),
      au_role := get_or (up_role p) (au_role u),
      au_two_factor_enabled := get_or (up_two_factor_enabled p) (au_two_factor_enabled u),
      au_updated_at := now\<rparr>"

definition update_user :: "auth_env \<Rightarrow> string \<Rightarrow> user_patch \<Rightarrow> auth_user auth_act" where
  "update_user env uid p =
     act_bind (get_user_by_id uid) (\<lambda>found.
     case found of
       None \<Rightarrow> act_throw (UnexpectedError ''User not found'')
     | Some u \<Rightarrow>
         act_bind (act_modify (\<lambda>s. s\<lparr>st_users := dset uid (patched_user (ae_now env) p u) (st_users s)\<rparr>)) (\<lambda>_.
         act_return (patched_user (ae_now env) p u)))"

definition delete_user :: "string \<Rightarrow> unit auth_act" where
  "delete_user uid = act_modify (\<lambda>s. s
     \<lparr>st_users := ddelete uid (st_users s),
      st_sessions := dremove (\<lambda>x. as_user_id x = uid) (st_sessions s),
      st_accounts := dremove (\<lambda>x. aa_user_id x = uid) (st_accounts s),
      st_members := dremove (\<lambda>x. am_user_id x = uid) (st_members s),
      st_two_factors := ddelete uid (st_two_factors s),
      st_api_keys := dremove (\<lambda>x. ak_user_id x = uid) (st_api_keys s)\<rparr>)"

section \<open>Sessions\<close>

definition created_session :: "int \<Rightarrow> create_session_input \<Rightarrow> auth_session" where
  "created_session now inp =
     \<lparr>as_active = True, as_active_organization_id = ci_active_organization_id inp, as_created_at = now,
      as_expires_at = ci_expires_at inp, as_id = ci_id inp, as_impersonated_by = ci_impersonated_by inp,
      as_ip_address = ci_ip_address inp, as_token = ci_token inp, as_updated_at = now,
      as_user_agent = ci_user_agent inp, as_user_id = ci_user_id inp\<rparr>"

definition create_session :: "auth_env \<Rightarrow> create_session_input \<Rightarrow> auth_session auth_act" where
  "create_session env inp =
     act_bind
       (act_modify (\<lambda>s. s\<lparr>st_sessions := dset (ci_token inp) (created_session (ae_now env) inp) (st_sessions s)\<rparr>)) (\<lambda>_.
     act_return (created_session (ae_now env) inp))"

definition session_live :: "int \<Rightarrow> auth_session \<Rightarrow> bool" where
  "session_live now x \<longleftrightarrow> as_active x \<and> now < as_expires_at x"

definition get_session_by_token :: "auth_env \<Rightarrow> string \<Rightarrow> auth_session option auth_act" where
  "get_session_by_token env token = act_get (\<lambda>s.
     (case map_of (st_sessions s) token of
        None \<Rightarrow> None
      | Some x \<Rightarrow> if session_live (ae_now env) x then Some x else None))"

definition update_session_expiry :: "auth_env \<Rightarrow> string \<Rightarrow> int \<Rightarrow> unit auth_act" where
  "update_session_expiry env token expires = act_modify (\<lambda>s. s
     \<lparr>st_sessions := dadjust token (\<lambda>x. x\<lparr>as_expires_at := expires, as_updated_at := ae_now env\<rparr>) (st_sessions s)\<rparr>)"

definition set_session_active_organization :: "auth_env \<Rightarrow> string \<Rightarrow> string option \<Rightarrow> unit auth_act" where
  "set_session_active_organization env token org = act_modify (\<lambda>s. s
     \<lparr>st_sessions :=
        dadjust token (\<lambda>x. x\<lparr>as_active_organization_id := org, as_updated_at := ae_now env\<rparr>) (st_sessions s)\<rparr>)"

definition list_user_sessions :: "auth_env \<Rightarrow> string \<Rightarrow> auth_session list auth_act" where
  "list_user_sessions env uid =
     act_get (\<lambda>s. filter (\<lambda>x. as_user_id x = uid \<and> session_live (ae_now env) x) (dvalues (st_sessions s)))"

definition delete_session :: "string \<Rightarrow> unit auth_act" where
  "delete_session token = act_modify (\<lambda>s. s\<lparr>st_sessions := ddelete token (st_sessions s)\<rparr>)"

text \<open>Returns how many sessions were deleted.\<close>

definition delete_user_sessions :: "string \<Rightarrow> string option \<Rightarrow> nat auth_act" where
  "delete_user_sessions uid keep =
     act_bind
       (act_get (\<lambda>s. length (filter (\<lambda>(token, x). as_user_id x = uid \<and> Some token \<noteq> keep) (st_sessions s)))) (\<lambda>n.
     act_bind
       (act_modify (\<lambda>s. s
          \<lparr>st_sessions := filter (\<lambda>(token, x). \<not> (as_user_id x = uid \<and> Some token \<noteq> keep)) (st_sessions s)\<rparr>)) (\<lambda>_.
     act_return n))"

section \<open>Accounts and verifications\<close>

definition create_account :: "auth_env \<Rightarrow> string \<Rightarrow> string \<Rightarrow> string option \<Rightarrow> string \<Rightarrow> string \<Rightarrow> unit auth_act" where
  "create_account env account_id aid password provider uid = act_modify (\<lambda>s. s
     \<lparr>st_accounts := dset aid
        \<lparr>aa_account_id = account_id, aa_created_at = ae_now env, aa_id = aid, aa_password = password,
         aa_provider_id = provider, aa_updated_at = ae_now env, aa_user_id = uid\<rparr> (st_accounts s)\<rparr>)"

definition list_accounts :: "string \<Rightarrow> auth_account list auth_act" where
  "list_accounts uid = act_get (\<lambda>s. filter (\<lambda>a. aa_user_id a = uid) (dvalues (st_accounts s)))"

definition create_verification :: "auth_env \<Rightarrow> int \<Rightarrow> string \<Rightarrow> string \<Rightarrow> string \<Rightarrow> unit auth_act" where
  "create_verification env expires vid identifier val = act_modify (\<lambda>s. s
     \<lparr>st_verifications := dset val
        \<lparr>av_created_at = ae_now env, av_expires_at = expires, av_id = vid, av_identifier = identifier,
         av_updated_at = ae_now env, av_value = val\<rparr> (st_verifications s)\<rparr>)"

definition get_verification_by_value :: "auth_env \<Rightarrow> string \<Rightarrow> auth_verification option auth_act" where
  "get_verification_by_value env val = act_get (\<lambda>s.
     (case map_of (st_verifications s) val of
        None \<Rightarrow> None
      | Some v \<Rightarrow> if av_expires_at v \<le> ae_now env then None else Some v))"

definition consume_verification :: "auth_env \<Rightarrow> string \<Rightarrow> auth_verification option auth_act" where
  "consume_verification env val =
     act_bind (get_verification_by_value env val) (\<lambda>found.
     act_bind (act_modify (\<lambda>s. s\<lparr>st_verifications := ddelete val (st_verifications s)\<rparr>)) (\<lambda>_.
     act_return found))"

section \<open>Organizations\<close>

definition get_organization :: "string \<Rightarrow> auth_organization option auth_act" where
  "get_organization gid = act_get (\<lambda>s. map_of (st_organizations s) gid)"

definition get_organization_by_slug :: "string \<Rightarrow> auth_organization option auth_act" where
  "get_organization_by_slug slug = act_get (\<lambda>s. dfind (\<lambda>g. ao_slug g = slug) (st_organizations s))"

definition create_organization :: "auth_env \<Rightarrow> string \<Rightarrow> string \<Rightarrow> string \<Rightarrow> auth_organization auth_act" where
  "create_organization env gid name slug =
     act_bind (get_organization_by_slug slug) (\<lambda>taken.
     act_bind (guard_act (taken = None) UniqueViolation) (\<lambda>_.
     let g = \<lparr>ao_created_at = ae_now env, ao_id = gid, ao_logo = None, ao_metadata = [], ao_name = name,
              ao_slug = slug, ao_updated_at = ae_now env\<rparr>
     in act_bind (act_modify (\<lambda>s. s\<lparr>st_organizations := dset gid g (st_organizations s)\<rparr>)) (\<lambda>_.
        act_return g)))"

definition list_organizations_for_user :: "string \<Rightarrow> auth_organization list auth_act" where
  "list_organizations_for_user uid = act_get (\<lambda>s.
     concat (map (\<lambda>m. case map_of (st_organizations s) (am_organization_id m) of None \<Rightarrow> [] | Some g \<Rightarrow> [g])
       (filter (\<lambda>m. am_user_id m = uid) (dvalues (st_members s)))))"

definition update_organization ::
  "auth_env \<Rightarrow> string \<Rightarrow> string option \<Rightarrow> string option \<Rightarrow> string option \<Rightarrow> auth_organization auth_act" where
  "update_organization env gid logo name slug =
     act_bind (get_organization gid) (\<lambda>found.
     case found of
       None \<Rightarrow> act_throw (UnexpectedError ''Organization not found'')
     | Some g \<Rightarrow>
         let g' = g\<lparr>ao_logo := or_else logo (ao_logo g), ao_name := get_or name (ao_name g),
                   ao_slug := get_or slug (ao_slug g), ao_updated_at := ae_now env\<rparr>
         in act_bind (act_modify (\<lambda>s. s\<lparr>st_organizations := dset gid g' (st_organizations s)\<rparr>)) (\<lambda>_.
            act_return g'))"

definition delete_organization :: "string \<Rightarrow> unit auth_act" where
  "delete_organization gid = act_modify (\<lambda>s. s
     \<lparr>st_organizations := ddelete gid (st_organizations s),
      st_members := dremove (\<lambda>m. am_organization_id m = gid) (st_members s),
      st_invitations := dremove (\<lambda>i. ai_organization_id i = gid) (st_invitations s)\<rparr>)"

section \<open>Members and invitations\<close>

definition add_member :: "auth_env \<Rightarrow> string \<Rightarrow> string \<Rightarrow> string \<Rightarrow> string \<Rightarrow> unit auth_act" where
  "add_member env mid gid role uid = act_modify (\<lambda>s. s
     \<lparr>st_members := dset mid
        \<lparr>am_created_at = ae_now env, am_id = mid, am_organization_id = gid, am_role = role, am_user_id = uid\<rparr>
        (st_members s)\<rparr>)"

definition membership :: "string \<Rightarrow> string \<Rightarrow> auth_member \<Rightarrow> bool" where
  "membership gid uid m \<longleftrightarrow> am_organization_id m = gid \<and> am_user_id m = uid"

definition get_member :: "string \<Rightarrow> string \<Rightarrow> auth_member option auth_act" where
  "get_member gid uid = act_get (\<lambda>s. dfind (membership gid uid) (st_members s))"

definition list_members :: "string \<Rightarrow> auth_member list auth_act" where
  "list_members gid = act_get (\<lambda>s. filter (\<lambda>m. am_organization_id m = gid) (dvalues (st_members s)))"

text \<open>Only the first member that matches is changed or removed.\<close>

fun change_first :: "('v \<Rightarrow> bool) \<Rightarrow> ('v \<Rightarrow> 'v option) \<Rightarrow> ('k, 'v) odict \<Rightarrow> ('k, 'v) odict" where
  "change_first P f [] = []"
| "change_first P f ((k, v) # d) =
     (if P v then (case f v of None \<Rightarrow> d | Some w \<Rightarrow> (k, w) # d) else (k, v) # change_first P f d)"

definition update_member_role :: "string \<Rightarrow> string \<Rightarrow> string \<Rightarrow> auth_member option auth_act" where
  "update_member_role gid uid role =
     act_bind (get_member gid uid) (\<lambda>found.
     act_bind (act_modify (\<lambda>s. s
       \<lparr>st_members := change_first (membership gid uid) (\<lambda>m. Some (m\<lparr>am_role := role\<rparr>)) (st_members s)\<rparr>)) (\<lambda>_.
     act_return (map_option (\<lambda>m. m\<lparr>am_role := role\<rparr>) found)))"

definition remove_member :: "string \<Rightarrow> string \<Rightarrow> unit auth_act" where
  "remove_member gid uid = act_modify (\<lambda>s. s
     \<lparr>st_members := change_first (membership gid uid) (\<lambda>m. None) (st_members s)\<rparr>)"

definition create_invitation ::
  "auth_env \<Rightarrow> string \<Rightarrow> int \<Rightarrow> string \<Rightarrow> string \<Rightarrow> string \<Rightarrow> string \<Rightarrow> auth_invitation auth_act" where
  "create_invitation env email expires iid inviter gid role =
     (let i = \<lparr>ai_created_at = ae_now env, ai_email = email, ai_expires_at = expires, ai_id = iid,
               ai_inviter_id = inviter, ai_organization_id = gid, ai_role = role, ai_status = ''pending''\<rparr>
      in act_bind (act_modify (\<lambda>s. s\<lparr>st_invitations := dset iid i (st_invitations s)\<rparr>)) (\<lambda>_. act_return i))"

definition get_invitation :: "string \<Rightarrow> auth_invitation option auth_act" where
  "get_invitation iid = act_get (\<lambda>s. map_of (st_invitations s) iid)"

definition list_invitations :: "string \<Rightarrow> auth_invitation list auth_act" where
  "list_invitations gid = act_get (\<lambda>s. filter (\<lambda>i. ai_organization_id i = gid) (dvalues (st_invitations s)))"

definition list_invitations_for_email :: "string \<Rightarrow> auth_invitation list auth_act" where
  "list_invitations_for_email email =
     act_get (\<lambda>s. filter (\<lambda>i. js_lower (ai_email i) = js_lower email) (dvalues (st_invitations s)))"

definition update_invitation_status :: "string \<Rightarrow> string \<Rightarrow> unit auth_act" where
  "update_invitation_status iid status =
     act_modify (\<lambda>s. s\<lparr>st_invitations := dadjust iid (\<lambda>i. i\<lparr>ai_status := status\<rparr>) (st_invitations s)\<rparr>)"

section \<open>Second factors and API keys\<close>

definition create_two_factor :: "auth_env \<Rightarrow> string option \<Rightarrow> string \<Rightarrow> string \<Rightarrow> string \<Rightarrow> unit auth_act" where
  "create_two_factor env codes fid secret uid = act_modify (\<lambda>s. s
     \<lparr>st_two_factors := dset uid
        \<lparr>tf_backup_codes = codes, tf_created_at = ae_now env, tf_id = fid, tf_secret = secret,
         tf_updated_at = ae_now env, tf_user_id = uid\<rparr> (st_two_factors s)\<rparr>)"

definition get_two_factor_by_user_id :: "string \<Rightarrow> auth_two_factor option auth_act" where
  "get_two_factor_by_user_id uid = act_get (\<lambda>s. map_of (st_two_factors s) uid)"

definition update_two_factor_backup_codes :: "auth_env \<Rightarrow> string \<Rightarrow> string \<Rightarrow> unit auth_act" where
  "update_two_factor_backup_codes env uid codes = act_modify (\<lambda>s. s
     \<lparr>st_two_factors :=
        dadjust uid (\<lambda>f. f\<lparr>tf_backup_codes := Some codes, tf_updated_at := ae_now env\<rparr>) (st_two_factors s)\<rparr>)"

definition delete_two_factor :: "string \<Rightarrow> unit auth_act" where
  "delete_two_factor uid = act_modify (\<lambda>s. s\<lparr>st_two_factors := ddelete uid (st_two_factors s)\<rparr>)"

definition create_api_key :: "auth_api_key \<Rightarrow> auth_api_key auth_act" where
  "create_api_key k =
     act_bind (act_modify (\<lambda>s. s\<lparr>st_api_keys := dset (ak_id k) k (st_api_keys s)\<rparr>)) (\<lambda>_. act_return k)"

definition get_api_key_by_hash :: "string \<Rightarrow> auth_api_key option auth_act" where
  "get_api_key_by_hash hash = act_get (\<lambda>s. dfind (\<lambda>k. ak_key k = hash) (st_api_keys s))"

definition get_api_key_by_id :: "string \<Rightarrow> auth_api_key option auth_act" where
  "get_api_key_by_id kid = act_get (\<lambda>s. map_of (st_api_keys s) kid)"

definition list_api_keys :: "string \<Rightarrow> auth_api_key list auth_act" where
  "list_api_keys uid = act_get (\<lambda>s. filter (\<lambda>k. ak_user_id k = uid) (dvalues (st_api_keys s)))"

definition delete_api_key :: "string \<Rightarrow> unit auth_act" where
  "delete_api_key kid = act_modify (\<lambda>s. s\<lparr>st_api_keys := ddelete kid (st_api_keys s)\<rparr>)"

text \<open>A key without expiry never expires, and neither does one with an invalid date.\<close>

definition is_api_key_expired :: "int \<Rightarrow> auth_api_key \<Rightarrow> bool" where
  "is_api_key_expired now k =
     (case ak_expires_at k of Some (Some t) \<Rightarrow> t \<le> now | _ \<Rightarrow> False)"

definition delete_expired_api_keys :: "auth_env \<Rightarrow> nat auth_act" where
  "delete_expired_api_keys env =
     act_bind (act_get (\<lambda>s. length (filter (is_api_key_expired (ae_now env)) (dvalues (st_api_keys s))))) (\<lambda>n.
     act_bind (act_modify (\<lambda>s. s\<lparr>st_api_keys := dremove (is_api_key_expired (ae_now env)) (st_api_keys s)\<rparr>)) (\<lambda>_.
     act_return n))"

definition touch_api_key :: "auth_env \<Rightarrow> string \<Rightarrow> unit auth_act" where
  "touch_api_key env kid = act_modify (\<lambda>s. s
     \<lparr>st_api_keys :=
        dadjust kid (\<lambda>k. k\<lparr>ak_last_request := Some (ae_now env), ak_updated_at := ae_now env\<rparr>) (st_api_keys s)\<rparr>)"

definition patched_api_key :: "int \<Rightarrow> api_key_patch \<Rightarrow> auth_api_key \<Rightarrow> auth_api_key" where
  "patched_api_key now p k = k
     \<lparr>ak_enabled := get_or (kp_enabled p) (ak_enabled k), ak_metadata := or_else (kp_metadata p) (ak_metadata k),
      ak_name := or_else (kp_name p) (ak_name k), ak_permissions := or_else (kp_permissions p) (ak_permissions k),
      ak_updated_at := now\<rparr>"

definition update_api_key :: "auth_env \<Rightarrow> string \<Rightarrow> api_key_patch \<Rightarrow> auth_api_key option auth_act" where
  "update_api_key env kid p =
     act_bind (get_api_key_by_id kid) (\<lambda>found.
     act_bind (act_modify (\<lambda>s. s
       \<lparr>st_api_keys := dadjust kid (patched_api_key (ae_now env) p) (st_api_keys s)\<rparr>)) (\<lambda>_.
     act_return (map_option (patched_api_key (ae_now env) p) found)))"

end
