(* ===== verification/AuthHttp.thy ===== *)
theory AuthHttp
  imports AuthStores
begin

text \<open>
  Requests of the local auth server and what it reads from them before any route runs
  (\<open>security.ts\<close>, \<open>cookies.ts\<close>): tokens, origins, the rate limiter and the JSON body. A request
  holds its parsed URL and its headers under lower-case names; each request is handled at one
  instant, \<open>ae_now\<close>.
\<close>

record auth_request =
  rq_method :: string
  rq_protocol :: string
  rq_host :: string
  rq_pathname :: string
  rq_query :: "(string \<times> string) list"
  rq_headers :: "(string \<times> string) list"
  rq_text :: string

record auth_response =
  rs_status :: nat
  rs_body :: "jval option"
  rs_cookies :: "string list"
  rs_cache_control :: "string option"

definition header :: "auth_request \<Rightarrow> string \<Rightarrow> string option" where
  "header req name = map_of (rq_headers req) name"

definition query_param :: "auth_request \<Rightarrow> string \<Rightarrow> string option" where
  "query_param req name = map_of (rq_query req) name"

definition request_method :: "auth_request \<Rightarrow> string" where
  "request_method req = js_upper (rq_method req)"

definition request_url_origin :: "auth_request \<Rightarrow> string" where
  "request_url_origin req = rq_protocol req @ ''//'' @ rq_host req"

text \<open>A value that is present and not the empty string.\<close>

definition non_empty :: "string option \<Rightarrow> string option" where
  "non_empty v = (case v of Some s \<Rightarrow> if s = [] then None else Some s | None \<Rightarrow> None)"

section \<open>Cookies\<close>

definition session_cookie_aliases :: "string list" where
  "session_cookie_aliases =
     [''athena-auth.session_token'', ''athena-auth-session_token'', ''better-auth.session_token'',
      ''better-auth-session_token'']"

record cookie_attributes =
  ck_expires :: "int option"
  ck_max_age :: "int option"
  ck_secure :: bool

definition serialize_cookie :: "string \<Rightarrow> string \<Rightarrow> cookie_attributes \<Rightarrow> string" where
  "serialize_cookie name val attrs =
     js_join ''; ''
       ([name @ ''='' @ val, ''Path=/''] @
        (case ck_expires attrs of None \<Rightarrow> [] | Some t \<Rightarrow> [''Expires='' @ utc_string t]) @
        (case ck_max_age attrs of None \<Rightarrow> [] | Some n \<Rightarrow> [''Max-Age='' @ show_int (max 0 n)]) @
        [''HttpOnly''] @ (if ck_secure attrs then [''Secure''] else []) @ [''SameSite=Lax''])"

definition cookie_of_part :: "string \<Rightarrow> (string \<times> string) list" where
  "cookie_of_part part =
     (case index_of (CHR ''='') part of
        None \<Rightarrow> []
      | Some i \<Rightarrow>
          if i = 0 \<or> js_trim (take i part) = [] then []
          else [(js_trim (take i part), js_trim (drop (Suc i) part))])"

definition parse_cookie_header :: "string option \<Rightarrow> (string, string) odict" where
  "parse_cookie_header h =
     (case non_empty h of
        None \<Rightarrow> []
      | Some text \<Rightarrow>
          fold (\<lambda>(k, v) d. dset k v d) (concat (map cookie_of_part (split_on (CHR '';'') text))) [])"

definition session_cookie_names :: "string \<Rightarrow> string list" where
  "session_cookie_names name =
     [name, ''__Secure-'' @ name, ''__Secure-'' @ name, ''__Host-'' @ name] @ session_cookie_aliases"

fun first_cookie :: "(string, string) odict \<Rightarrow> string list \<Rightarrow> string option" where
  "first_cookie cookies [] = None"
| "first_cookie cookies (name # names) =
     (case non_empty (map_of cookies name) of None \<Rightarrow> first_cookie cookies names | Some v \<Rightarrow> Some v)"

definition read_session_token_from_cookies :: "string option \<Rightarrow> string \<Rightarrow> string option" where
  "read_session_token_from_cookies h name =
     first_cookie (parse_cookie_header h) (session_cookie_names name)"

text \<open>The pattern \<open>/^Bearer\s+(.+)$/i\<close> on the trimmed header; a line break is not matched by a dot.\<close>

definition read_bearer_token :: "string option \<Rightarrow> string option" where
  "read_bearer_token h =
     (case h of
        None \<Rightarrow> None
      | Some text \<Rightarrow>
          let t = js_trim text; rest = drop 6 t; tok = dropWhile is_ws rest in
          if js_lower (take 6 t) = ''bearer'' \<and> rest \<noteq> [] \<and> is_ws (hd rest) \<and>
             list_all (\<lambda>c. code c \<noteq> 10 \<and> code c \<noteq> 13) tok
          then non_empty (Some (js_trim tok)) else None)"

definition should_set_secure_cookie :: "auth_request \<Rightarrow> bool option \<Rightarrow> bool" where
  "should_set_secure_cookie req policy =
     (case policy of Some b \<Rightarrow> b | None \<Rightarrow> rq_protocol req = ''https:'')"

definition create_session_cookie_header :: "string \<Rightarrow> string \<Rightarrow> int \<Rightarrow> bool \<Rightarrow> string" where
  "create_session_cookie_header token name expires secure =
     serialize_cookie name token \<lparr>ck_expires = Some expires, ck_max_age = None, ck_secure = secure\<rparr>"

definition create_clear_session_cookie_header :: "string \<Rightarrow> bool \<Rightarrow> string" where
  "create_clear_session_cookie_header name secure =
     serialize_cookie name [] \<lparr>ck_expires = Some 0, ck_max_age = Some 0, ck_secure = secure\<rparr>"

definition append_cookie :: "string \<Rightarrow> unit auth_act" where
  "append_cookie c = act_modify (\<lambda>s. s\<lparr>st_cookies := st_cookies s @ [c]\<rparr>)"

definition clear_session_cookie :: "auth_config \<Rightarrow> auth_request \<Rightarrow> unit auth_act" where
  "clear_session_cookie cfg req =
     append_cookie (create_clear_session_cookie_header (ac_cookie_name cfg)
       (should_set_secure_cookie req (ac_cookie_secure cfg)))"

section \<open>Rate limiter\<close>

definition consume_bucket ::
  "nat \<Rightarrow> int \<Rightarrow> int \<Rightarrow> string \<Rightarrow> (string, rate_bucket) odict \<Rightarrow> bool \<times> (string, rate_bucket) odict" where
  "consume_bucket limit window now key buckets =
     (case map_of buckets key of
        None \<Rightarrow> (True, dset key \<lparr>rb_count = 1, rb_reset_at = now + window\<rparr> buckets)
      | Some b \<Rightarrow>
          if rb_reset_at b \<le> now then (True, dset key \<lparr>rb_count = 1, rb_reset_at = now + window\<rparr> buckets)
          else if limit \<le> rb_count b then (False, buckets)
          else (True, dset key (b\<lparr>rb_count := Suc (rb_count b)\<rparr>) buckets))"

definition consume_rate :: "auth_env \<Rightarrow> string \<Rightarrow> bool auth_act" where
  "consume_rate env key =
     act_bind (act_get (\<lambda>s. fst (consume_bucket 20 60000 (ae_now env) key (st_buckets s)))) (\<lambda>ok.
     act_bind (act_modify (\<lambda>s. s\<lparr>st_buckets := snd (consume_bucket 20 60000 (ae_now env) key (st_buckets s))\<rparr>)) (\<lambda>_.
     act_return ok))"

section \<open>Clients and origins\<close>

definition request_client_ip :: "auth_request \<Rightarrow> bool \<Rightarrow> string option" where
  "request_client_ip req trusted =
     (if trusted then
        (case non_empty (header req ''x-forwarded-for'') of
           Some forwarded \<Rightarrow> non_empty (Some (js_trim (hd (split_on (CHR '','') forwarded))))
         | None \<Rightarrow> non_empty (map_option js_trim (header req ''x-real-ip'')))
      else None)"

definition strip_slashes :: "string \<Rightarrow> string" where
  "strip_slashes s = rev (dropWhile (\<lambda>c. c = CHR ''/'') (rev s))"

definition request_origin :: "auth_env \<Rightarrow> auth_request \<Rightarrow> string option" where
  "request_origin env req =
     (case non_empty (map_option js_trim (header req ''origin'')) of
        Some origin \<Rightarrow> Some (strip_slashes origin)
      | None \<Rightarrow>
          (case non_empty (map_option js_trim (header req ''referer'')) of
             None \<Rightarrow> None
           | Some referer \<Rightarrow> map_option (\<lambda>u. ur_protocol u @ ''//'' @ ur_host u) (ae_parse_url env referer)))"

definition is_trusted_origin :: "string option \<Rightarrow> string list \<Rightarrow> auth_request \<Rightarrow> bool" where
  "is_trusted_origin origin trusted req =
     (case non_empty origin of
        None \<Rightarrow> True
      | Some o' \<Rightarrow> strip_slashes o' \<in> set (request_url_origin req # map strip_slashes trusted))"

definition enforce_origin :: "auth_env \<Rightarrow> auth_request \<Rightarrow> string list \<Rightarrow> unit auth_act" where
  "enforce_origin env req trusted =
     guard_act (request_method req \<in> {''GET'', ''HEAD'', ''OPTIONS''} \<or>
         is_trusted_origin (request_origin env req) trusted req)
       (forbidden_with ''Origin is not trusted'')"

section \<open>Bodies\<close>

text \<open>\<open>new TextEncoder().encode(text).length\<close>.\<close>

definition utf8_length :: "string \<Rightarrow> int" where
  "utf8_length s = int (sum_list (map (\<lambda>c. if code c < 128 then 1 else 2) s))"

definition declared_too_large :: "auth_request \<Rightarrow> int \<Rightarrow> bool" where
  "declared_too_large req limit =
     (case non_empty (header req ''content-length'') of
        None \<Rightarrow> False
      | Some n \<Rightarrow> num_less (jint limit) (js_parse_int n))"

definition read_json_limit :: "auth_env \<Rightarrow> int \<Rightarrow> auth_request \<Rightarrow> (auth_error, fields) result" where
  "read_json_limit env limit req =
     (if declared_too_large req limit then Throw payload_too_large
      else if limit < utf8_length (rq_text req) then Throw payload_too_large
      else if js_trim (rq_text req) = [] then Ok []
      else
        (case ae_parse_json env (rq_text req) of
           Some (JObj i fs) \<Rightarrow> Ok fs
         | _ \<Rightarrow> Throw (bad_request ''Invalid JSON body'')))"

definition read_json_body :: "auth_env \<Rightarrow> auth_config \<Rightarrow> auth_request \<Rightarrow> (auth_error, fields) result" where
  "read_json_body env cfg req = read_json_limit env (ac_body_limit_bytes cfg) req"

definition as_string_field :: "fields \<Rightarrow> string \<Rightarrow> string option" where
  "as_string_field body key = (case get_prop key body of JStr s \<Rightarrow> Some s | _ \<Rightarrow> None)"

definition required_string :: "string option \<Rightarrow> string \<Rightarrow> (auth_error, string) result" where
  "required_string v key =
     (case non_empty (map_option js_trim v) of
        None \<Rightarrow> Throw (bad_request (key @ '' is required''))
      | Some s \<Rightarrow> Ok s)"

definition require_string_field :: "fields \<Rightarrow> string \<Rightarrow> (auth_error, string) result" where
  "require_string_field body key = required_string (as_string_field body key) key"

section \<open>Responses\<close>

definition json_response :: "nat \<Rightarrow> jval \<Rightarrow> auth_response auth_act" where
  "json_response status body =
     act_get (\<lambda>s. \<lparr>rs_status = status, rs_body = Some body, rs_cookies = st_cookies s, rs_cache_control = None\<rparr>)"

definition ok_response :: "fields \<Rightarrow> auth_response auth_act" where
  "ok_response fs = json_response 200 (object fs)"

definition empty_response :: "nat \<Rightarrow> auth_response auth_act" where
  "empty_response status =
     act_get (\<lambda>s. \<lparr>rs_status = status, rs_body = None, rs_cookies = st_cookies s, rs_cache_control = None\<rparr>)"

definition version_json :: jval where
  "version_json = JStr ''5.2.0''"

definition error_body :: "nat \<Rightarrow> string \<Rightarrow> string option \<Rightarrow> string \<Rightarrow> jval" where
  "error_body status message error_code trace = object
     ([(''message'', JStr (if 500 \<le> status then ''Internal server error'' else message)), (''traceId'', JStr trace),
       (''version'', version_json)] @
      (case error_code of None \<Rightarrow> [] | Some c \<Rightarrow> [(''code'', JStr c)]))"

definition error_response :: "auth_error \<Rightarrow> string \<Rightarrow> auth_response" where
  "error_response e trace =
     (case (case e of RuntimeError _ _ _ \<Rightarrow> e | _ \<Rightarrow> internal_error) of
        RuntimeError status message error_code \<Rightarrow>
          \<lparr>rs_status = status, rs_body = Some (error_body status message error_code trace), rs_cookies = [],
           rs_cache_control = None\<rparr>
      | _ \<Rightarrow> \<lparr>rs_status = 500, rs_body = None, rs_cookies = [], rs_cache_control = None\<rparr>)"

end
