(* ===== verification/AuthPassword.thy ===== *)
theory AuthPassword
  imports AuthHttp
begin

text \<open>
  Passwords and one-time codes of the local auth server (\<open>password.ts\<close>, \<open>totp.ts\<close>): the
  base 64 of PHC strings, the Argon2 hasher over a parameter for the digest itself, the base 32 of
  TOTP secrets and the codes over a parameter for HMAC-SHA-1. Bytes are 8-bit words, and the
  accumulators are 32-bit words, as the bitwise operators of the source make them. Costs are
  natural numbers, exact below \<open>2 ^ 53\<close>.
\<close>

section \<open>Base 64 of PHC strings\<close>

definition phc_b64 :: string where
  "phc_b64 = ''ABCDEFGHIJKLMNOPQRSTUVWXYZabcdefghijklmnopqrstuvwxyz0123456789+/''"

definition phc_digit :: "nat \<Rightarrow> 32 word \<Rightarrow> char" where
  "phc_digit n w = phc_b64 ! unat (drop_bit n w AND 63)"

definition phc_triple :: "8 word \<Rightarrow> 8 word \<Rightarrow> 8 word \<Rightarrow> 32 word" where
  "phc_triple a b c = push_bit 16 (ucast a) OR push_bit 8 (ucast b) OR ucast c"

fun encode_phc_base64 :: "bytes \<Rightarrow> string" where
  "encode_phc_base64 [] = []"
| "encode_phc_base64 [a] = map (\<lambda>n. phc_digit n (phc_triple a 0 0)) [18, 12]"
| "encode_phc_base64 [a, b] = map (\<lambda>n. phc_digit n (phc_triple a b 0)) [18, 12, 6]"
| "encode_phc_base64 (a # b # c # rest) =
     map (\<lambda>n. phc_digit n (phc_triple a b c)) [18, 12, 6, 0] @ encode_phc_base64 rest"

text \<open>The position of each character of a chunk in the alphabet; a character outside it throws.\<close>

definition phc_value :: "char \<Rightarrow> 32 word option" where
  "phc_value c = map_option of_nat (index_of c phc_b64)"

fun phc_values :: "string \<Rightarrow> 32 word list option" where
  "phc_values [] = Some []"
| "phc_values (c # cs) =
     (case phc_value c of None \<Rightarrow> None | Some v \<Rightarrow> map_option ((#) v) (phc_values cs))"

definition low_byte :: "32 word \<Rightarrow> 8 word" where
  "low_byte w = ucast (w AND 255)"

fun phc_chunk :: "32 word list \<Rightarrow> bytes" where
  "phc_chunk [a, b, c, d] =
     [low_byte (push_bit 2 a OR drop_bit 4 b), low_byte (push_bit 4 b OR drop_bit 2 c), low_byte (push_bit 6 c OR d)]"
| "phc_chunk [a, b, c] = [low_byte (push_bit 2 a OR drop_bit 4 b), low_byte (push_bit 4 b OR drop_bit 2 c)]"
| "phc_chunk [a, b] = [low_byte (push_bit 2 a OR drop_bit 4 b)]"
| "phc_chunk [a] = [low_byte (push_bit 2 a)]"
| "phc_chunk _ = []"

fun phc_chunks :: "32 word list \<Rightarrow> bytes" where
  "phc_chunks (a # b # c # d # rest) = phc_chunk [a, b, c, d] @ phc_chunks rest"
| "phc_chunks ws = phc_chunk ws"

definition strip_padding :: "string \<Rightarrow> string" where
  "strip_padding s = rev (dropWhile (\<lambda>c. c = CHR ''='') (rev s))"

definition decode_phc_base64 :: "string \<Rightarrow> bytes option" where
  "decode_phc_base64 s = map_option phc_chunks (phc_values (strip_padding s))"

section \<open>Argon2 hashes\<close>

record argon2_params =
  ap_memory_cost :: nat
  ap_parallelism :: nat
  ap_time_cost :: nat

definition default_argon2 :: argon2_params where
  "default_argon2 = \<lparr>ap_memory_cost = 1024, ap_parallelism = 1, ap_time_cost = 2\<rparr>"

record phc_hash =
  pc_hash :: bytes
  pc_params :: argon2_params
  pc_salt :: bytes

text \<open>
  \<open>(?:^|[,$?])key=(\d+)\<close>: the first place after the start or a separator where the key and at
  least one digit follow.
\<close>

fun phc_decimal :: "string \<Rightarrow> bool \<Rightarrow> string \<Rightarrow> nat option" where
  "phc_decimal key boundary [] = None"
| "phc_decimal key boundary (c # s) =
     (let rest = drop (length key + 1) (c # s) in
      if boundary \<and> starts_with (c # s) (key @ ''='') \<and> rest \<noteq> [] \<and> is_digit (hd rest)
      then Some (digits_val (takeWhile is_digit rest))
      else phc_decimal key (c \<in> set '',$?'') s)"

definition parse_phc_decimal :: "string \<Rightarrow> string \<Rightarrow> nat option" where
  "parse_phc_decimal hash key = phc_decimal key True hash"

text \<open>One cost of the parameter list of a hash, \<open>m=(\d+)\<close>.\<close>

definition phc_cost :: "string \<Rightarrow> string \<Rightarrow> nat option" where
  "phc_cost key s =
     (if starts_with s (key @ ''='') \<and> drop (length key + 1) s \<noteq> [] \<and> list_all is_digit (drop (length key + 1) s)
      then Some (digits_val (drop (length key + 1) s)) else None)"

definition phc_costs :: "string \<Rightarrow> argon2_params option" where
  "phc_costs s =
     (case split_on (CHR '','') s of
        [m, t, p] \<Rightarrow>
          (case (phc_cost ''m'' m, phc_cost ''t'' t, phc_cost ''p'' p) of
             (Some m', Some t', Some p') \<Rightarrow> Some \<lparr>ap_memory_cost = m', ap_parallelism = p', ap_time_cost = t'\<rparr>
           | _ \<Rightarrow> None)
      | _ \<Rightarrow> None)"

definition phc_alphabet :: "string \<Rightarrow> bool" where
  "phc_alphabet s \<longleftrightarrow> s \<noteq> [] \<and> list_all (\<lambda>c. c \<in> set phc_b64) s"

definition parse_argon2_phc :: "string \<Rightarrow> phc_hash option" where
  "parse_argon2_phc hash =
     (case split_on (CHR ''$'') hash of
        [start, kind, version, costs, salt, digest] \<Rightarrow>
          if start = [] \<and> kind = ''argon2id'' \<and> version = ''v=19'' \<and> phc_alphabet salt \<and> phc_alphabet digest then
            (case (phc_costs costs, decode_phc_base64 salt, decode_phc_base64 digest) of
               (Some ps, Some sl, Some dg) \<Rightarrow> Some \<lparr>pc_hash = dg, pc_params = ps, pc_salt = sl\<rparr>
             | _ \<Rightarrow> None)
          else None
      | _ \<Rightarrow> None)"

definition password_hash_needs_rehash :: "argon2_params \<Rightarrow> string \<Rightarrow> bool" where
  "password_hash_needs_rehash params hash =
     (case (parse_phc_decimal hash ''m'', parse_phc_decimal hash ''t'', parse_phc_decimal hash ''p'') of
        (Some m, Some t, Some p) \<Rightarrow>
          m < ap_memory_cost params \<or> t < ap_time_cost params \<or> p < ap_parallelism params
      | _ \<Rightarrow> False)"

text \<open>The comparison in constant time: lengths first, then the union of the differences.\<close>

definition timing_safe_equal :: "bytes \<Rightarrow> bytes \<Rightarrow> bool" where
  "timing_safe_equal l r \<longleftrightarrow>
     length l = length r \<and> foldl (\<lambda>diff (a, b). diff OR (a XOR b)) 0 (zip l r) = (0 :: 8 word)"

definition utf8_char :: "char \<Rightarrow> bytes" where
  "utf8_char c = (if code c < 128 then [of_nat (code c)] else [of_nat (192 + code c div 64), of_nat (128 + code c mod 64)])"

definition encode_utf8 :: "string \<Rightarrow> bytes" where
  "encode_utf8 s = concat (map utf8_char s)"

text \<open>The digest of the library: password, salt, length and costs.\<close>

type_synonym argon2id = "bytes \<Rightarrow> bytes \<Rightarrow> nat \<Rightarrow> argon2_params \<Rightarrow> bytes"

definition phc_text :: "argon2_params \<Rightarrow> bytes \<Rightarrow> bytes \<Rightarrow> string" where
  "phc_text params salt digest =
     ''$argon2id$v=19$m='' @ show_nat (ap_memory_cost params) @ '',t='' @ show_nat (ap_time_cost params) @
       '',p='' @ show_nat (ap_parallelism params) @ ''$'' @ encode_phc_base64 salt @ ''$'' @ encode_phc_base64 digest"

definition argon2_hash :: "argon2id \<Rightarrow> argon2_params \<Rightarrow> bytes \<Rightarrow> string \<Rightarrow> string" where
  "argon2_hash argon2 params salt password =
     phc_text params salt (argon2 (encode_utf8 password) salt 32 params)"

definition argon2_verify :: "argon2id \<Rightarrow> string \<Rightarrow> string \<Rightarrow> bool" where
  "argon2_verify argon2 password hash =
     (case parse_argon2_phc hash of
        None \<Rightarrow> False
      | Some h \<Rightarrow>
          timing_safe_equal (argon2 (encode_utf8 password) (pc_salt h) (length (pc_hash h)) (pc_params h)) (pc_hash h))"

definition create_argon2_password_hasher :: "argon2id \<Rightarrow> (nat \<Rightarrow> bytes) \<Rightarrow> argon2_params \<Rightarrow> password_hasher" where
  "create_argon2_password_hasher argon2 salts params =
     \<lparr>ph_hash = (\<lambda>password n. argon2_hash argon2 params (salts n) password),
      ph_verify = argon2_verify argon2, ph_needs_rehash = password_hash_needs_rehash params\<rparr>"

definition validate_password :: "auth_config \<Rightarrow> string \<Rightarrow> (auth_error, unit) result" where
  "validate_password cfg password =
     (if int (length password) < ac_min_password_length cfg then
        Throw (bad_request (''Password must be at least '' @ show_int (ac_min_password_length cfg) @ '' characters long''))
      else if ac_max_password_length cfg < int (length password) then
        Throw (bad_request (''Password must be at most '' @ show_int (ac_max_password_length cfg) @ '' characters long''))
      else Ok ())"

definition extract_password_hash :: "fields \<Rightarrow> string option" where
  "extract_password_hash metadata = non_empty (as_string_field metadata ''password_hash'')"

definition with_password_hash :: "fields \<Rightarrow> string \<Rightarrow> fields" where
  "with_password_hash metadata hash = dset ''password_hash'' (JStr hash) metadata"

section \<open>Base 32\<close>

definition base32_alphabet :: string where
  "base32_alphabet = ''ABCDEFGHIJKLMNOPQRSTUVWXYZ234567''"

fun base32_digits :: "nat \<Rightarrow> 32 word \<Rightarrow> string" where
  "base32_digits bits v =
     (if bits < 5 then []
      else base32_alphabet ! unat (drop_bit (bits - 5) v AND 31) # base32_digits (bits - 5) v)"

declare base32_digits.simps [simp del]

fun encode_base32_from :: "nat \<Rightarrow> 32 word \<Rightarrow> bytes \<Rightarrow> string" where
  "encode_base32_from bits v [] =
     (if 0 < bits then [base32_alphabet ! unat (push_bit (5 - bits) v AND 31)] else [])"
| "encode_base32_from bits v (b # bs) =
     (let v' = push_bit 8 v OR ucast b
      in base32_digits (bits + 8) v' @ encode_base32_from ((bits + 8) mod 5) v' bs)"

definition encode_base32 :: "bytes \<Rightarrow> string" where
  "encode_base32 bs = encode_base32_from 0 0 bs"

fun decode_base32_from :: "nat \<Rightarrow> 32 word \<Rightarrow> string \<Rightarrow> bytes" where
  "decode_base32_from bits v [] = []"
| "decode_base32_from bits v (c # cs) =
     (case index_of c base32_alphabet of
        None \<Rightarrow> decode_base32_from bits v cs
      | Some i \<Rightarrow>
          let v' = push_bit 5 v OR of_nat i in
          if 8 \<le> bits + 5 then low_byte (drop_bit (bits + 5 - 8) v') # decode_base32_from (bits + 5 - 8) v' cs
          else decode_base32_from (bits + 5) v' cs)"

definition base32_char :: "char \<Rightarrow> bool" where
  "base32_char c \<longleftrightarrow> is_upper c \<or> 50 \<le> code c \<and> code c \<le> 55"

definition decode_base32 :: "string \<Rightarrow> bytes" where
  "decode_base32 s = decode_base32_from 0 0 (filter base32_char (js_upper (strip_padding s)))"

section \<open>Time-based codes\<close>

text \<open>\<open>writeUint64\<close>: eight bytes, the most significant first.\<close>

fun write_uint :: "nat \<Rightarrow> int \<Rightarrow> bytes" where
  "write_uint 0 remaining = []"
| "write_uint (Suc n) remaining = write_uint n (remaining div 256) @ [of_int remaining]"

definition byte_at :: "bytes \<Rightarrow> nat \<Rightarrow> nat" where
  "byte_at bs i = (if i < length bs then unat (bs ! i) else 0)"

text \<open>The code of a time in milliseconds, with the defaults of six digits and 30 seconds.\<close>

definition generate_totp_code :: "(bytes \<Rightarrow> bytes \<Rightarrow> bytes) \<Rightarrow> bytes \<Rightarrow> int \<Rightarrow> string" where
  "generate_totp_code hmac secret timestamp =
     (let digest = hmac secret (write_uint 8 (timestamp div 30000));
        offset = (if digest = [] then 0 else unat (last digest) mod 16);
        binary = (byte_at digest offset mod 128) * 2 ^ 24 + byte_at digest (offset + 1) * 2 ^ 16 +
          byte_at digest (offset + 2) * 2 ^ 8 + byte_at digest (offset + 3)
      in pad_left 6 (show_nat (binary mod 1000000)))"

definition verify_totp_code :: "(bytes \<Rightarrow> bytes \<Rightarrow> bytes) \<Rightarrow> int \<Rightarrow> bytes \<Rightarrow> string \<Rightarrow> bool" where
  "verify_totp_code hmac now secret totp =
     (let normalized = filter (\<lambda>c. \<not> is_ws c) totp
      in list_ex (\<lambda>step. generate_totp_code hmac secret (now + step * 30000) = normalized) [-1, 0, 1])"

text \<open>The form encoding of \<open>URLSearchParams\<close> differs from \<open>encodeURIComponent\<close> in spaces and a few marks.\<close>

definition build_totp_uri :: "auth_env \<Rightarrow> string \<Rightarrow> string \<Rightarrow> string \<Rightarrow> string" where
  "build_totp_uri env account issuer secret =
     ''otpauth://totp/'' @ ae_encode_uri env (issuer @ '':'' @ account) @ ''?digits=6&issuer='' @ ae_encode_form env issuer @
       ''&period=30&secret='' @ ae_encode_form env secret"

end
