(* ===== verification/AuthCodec.thy ===== *)
theory AuthCodec
  imports AuthPassword SqlBinder
begin

text \<open>
  Reading back what the password hasher writes: the base 64 of PHC strings, the costs and the
  whole string.
\<close>

unbundle bit_operations_syntax

section \<open>Base 64\<close>

lemma phc_positions: "k < 64 \<Longrightarrow> index_of (phc_b64 ! k) phc_b64 = Some k"
proof -
  have "list_all (\<lambda>k. index_of (phc_b64 ! k) phc_b64 = Some k) [0..<64]" by code_simp
  then show "k < 64 \<Longrightarrow> index_of (phc_b64 ! k) phc_b64 = Some k" by (simp add: list_all_iff)
qed

lemma six_bits: "w AND 63 = take_bit 6 (w :: 32 word)" "w AND 255 = take_bit 8 w"
  by (simp_all add: take_bit_eq_mask mask_eq_exp_minus_1)

lemma phc_value_digit: "phc_value (phc_digit n w) = Some (take_bit 6 (drop_bit n w))"
proof -
  have "unat (take_bit 6 (drop_bit n w)) < 64"
    using take_bit_nat_less_exp [of 6 "unat (drop_bit n w)"] by (simp add: unsigned_take_bit_eq)
  then show ?thesis by (simp add: phc_value_def phc_digit_def six_bits phc_positions)
qed

lemma eight_bits: "n < 8 \<Longrightarrow> n = 0 \<or> n = 1 \<or> n = 2 \<or> n = 3 \<or> n = 4 \<or> n = 5 \<or> n = 6 \<or> n = (7 :: nat)"
  by arith

lemma no_bit: "8 \<le> n \<Longrightarrow> \<not> bit (w :: 8 word) n"
  using bit_imp_le_length [of w n] by auto

lemma byte_eqI:
  "(bit v 0 = bit w 0) \<Longrightarrow> (bit v 1 = bit w 1) \<Longrightarrow> (bit v 2 = bit w 2) \<Longrightarrow> (bit v 3 = bit w 3) \<Longrightarrow>
   (bit v 4 = bit w 4) \<Longrightarrow> (bit v 5 = bit w 5) \<Longrightarrow> (bit v 6 = bit w 6) \<Longrightarrow> (bit v 7 = bit w 7) \<Longrightarrow>
   v = (w :: 8 word)"
  by (rule bit_word_eqI) (auto dest!: eight_bits)

lemma phc_bytes:
  fixes a b c :: "8 word"
  defines "w \<equiv> phc_triple a b c"
  shows "low_byte (push_bit 2 (take_bit 6 (drop_bit 18 w)) OR drop_bit 4 (take_bit 6 (drop_bit 12 w))) = a"
    "low_byte (push_bit 4 (take_bit 6 (drop_bit 12 w)) OR drop_bit 2 (take_bit 6 (drop_bit 6 w))) = b"
    "low_byte (push_bit 6 (take_bit 6 (drop_bit 6 w)) OR take_bit 6 w) = c"
  unfolding w_def
  by (rule byte_eqI; simp add: low_byte_def six_bits phc_triple_def bit_simps no_bit)+

lemma phc_tails:
  "low_byte (push_bit 2 (take_bit 6 (drop_bit 18 (phc_triple a 0 0))) OR drop_bit 4 (take_bit 6 (drop_bit 12 (phc_triple a 0 0)))) = a"
  "low_byte (push_bit 2 (take_bit 6 (drop_bit 18 (phc_triple a b 0))) OR drop_bit 4 (take_bit 6 (drop_bit 12 (phc_triple a b 0)))) = a"
  "low_byte (push_bit 4 (take_bit 6 (drop_bit 12 (phc_triple a b 0))) OR drop_bit 2 (take_bit 6 (drop_bit 6 (phc_triple a b 0)))) = b"
  using phc_bytes(1) [of a 0 0] phc_bytes(1,2) [of a b 0] by simp_all

lemma index_of_mem: "index_of c s = Some n \<Longrightarrow> c \<in> set s"
  by (induction s arbitrary: n) (auto split: if_splits)

lemma phc_value_char: "phc_value c = Some v \<Longrightarrow> c \<in> set phc_b64"
  by (auto simp: phc_value_def intro: index_of_mem)

lemma phc_digit_char: "phc_digit n w \<in> set phc_b64"
  by (rule phc_value_char [OF phc_value_digit])

lemma encode_phc_chars: "set (encode_phc_base64 bs) \<subseteq> set phc_b64"
  by (induction bs rule: encode_phc_base64.induct) (auto simp: phc_digit_char)

lemma encode_phc_not_Nil: "bs \<noteq> [] \<Longrightarrow> encode_phc_base64 bs \<noteq> []"
  by (cases bs rule: encode_phc_base64.cases) auto

lemma phc_values_encode: "map_option phc_chunks (phc_values (encode_phc_base64 bs)) = Some bs"
  by (induction bs rule: encode_phc_base64.induct)
    (auto simp: phc_value_digit phc_tails phc_bytes drop_bit_0 map_option_case split: option.splits)

text \<open>Neither the alphabet nor digits contain the marks of the format.\<close>

lemma phc_marks: "CHR ''$'' \<notin> set phc_b64" "CHR ''='' \<notin> set phc_b64"
  by code_simp+

lemma strip_padding_none: "CHR ''='' \<notin> set s \<Longrightarrow> strip_padding s = s"
  by (cases "rev s") (auto simp: strip_padding_def)

lemma decode_encode_phc: "decode_phc_base64 (encode_phc_base64 bs) = Some bs"
proof -
  have "CHR ''='' \<notin> set (encode_phc_base64 bs)" using encode_phc_chars phc_marks(2) by blast
  then show ?thesis by (simp add: decode_phc_base64_def strip_padding_none phc_values_encode)
qed

lemma phc_alphabet_encode: "bs \<noteq> [] \<Longrightarrow> phc_alphabet (encode_phc_base64 bs)"
  using encode_phc_chars [of bs] encode_phc_not_Nil [of bs] by (auto simp: phc_alphabet_def list_all_iff)

section \<open>Hashes read back\<close>

lemma digit_marks: "\<not> is_digit (CHR ''$'')" "\<not> is_digit (CHR '','')"
  by code_simp+

lemma show_nat_no_mark: "\<not> is_digit c \<Longrightarrow> c \<notin> set (show_nat n)"
  using show_nat_digits [of n] by (auto simp: list_all_iff)

lemma starts_with_append [simp]: "starts_with (s @ t) s"
  by (simp add: starts_with_def)

lemma phc_cost_read: "phc_cost [k] (k # CHR ''='' # show_nat n) = Some n"
  using starts_with_append [of "[k, CHR ''='']" "show_nat n"] by (simp add: phc_cost_def show_nat_digits)

lemma phc_costs_read:
  "phc_costs (''m='' @ show_nat (ap_memory_cost ps) @ '',t='' @ show_nat (ap_time_cost ps) @ '',p='' @ show_nat (ap_parallelism ps)) =
   Some ps"
proof -
  note part = show_nat_no_mark [OF digit_marks(2)]
  have "split_on (CHR '','') ((''m='' @ show_nat (ap_memory_cost ps)) @ CHR '','' # (''t='' @ show_nat (ap_time_cost ps)) @
      CHR '','' # ''p='' @ show_nat (ap_parallelism ps)) =
    [''m='' @ show_nat (ap_memory_cost ps), ''t='' @ show_nat (ap_time_cost ps), ''p='' @ show_nat (ap_parallelism ps)]"
    by (subst split_on_append_sep, simp add: part, subst split_on_append_sep, simp add: part, subst split_on_no_sep)
      (simp_all add: part)
  then show ?thesis by (simp add: phc_costs_def phc_cost_read)
qed

lemma phc_sections:
  "CHR ''$'' \<notin> set costs \<Longrightarrow> CHR ''$'' \<notin> set salt \<Longrightarrow> CHR ''$'' \<notin> set digest \<Longrightarrow>
   split_on (CHR ''$'') (''$argon2id$v=19$'' @ costs @ ''$'' @ salt @ ''$'' @ digest) =
     [[], ''argon2id'', ''v=19'', costs, salt, digest]"
  using split_on_append_sep [of "CHR ''$''" "[]" "''argon2id$v=19$'' @ costs @ ''$'' @ salt @ ''$'' @ digest"]
    split_on_append_sep [of "CHR ''$''" "''argon2id''" "''v=19$'' @ costs @ ''$'' @ salt @ ''$'' @ digest"]
    split_on_append_sep [of "CHR ''$''" "''v=19''" "costs @ ''$'' @ salt @ ''$'' @ digest"]
    split_on_append_sep [of "CHR ''$''" costs "salt @ ''$'' @ digest"]
    split_on_append_sep [of "CHR ''$''" salt digest]
  by (simp add: split_on_no_sep)

lemma parse_phc_text:
  assumes "salt \<noteq> []" "digest \<noteq> []"
  shows "parse_argon2_phc (phc_text ps salt digest) = Some \<lparr>pc_hash = digest, pc_params = ps, pc_salt = salt\<rparr>"
proof -
  let ?costs = "''m='' @ show_nat (ap_memory_cost ps) @ '',t='' @ show_nat (ap_time_cost ps) @ '',p='' @ show_nat (ap_parallelism ps)"
  have "CHR ''$'' \<notin> set (encode_phc_base64 bs)" for bs using encode_phc_chars phc_marks(1) by blast
  then have "split_on (CHR ''$'') (''$argon2id$v=19$'' @ ?costs @ ''$'' @ encode_phc_base64 salt @ ''$'' @ encode_phc_base64 digest) =
      [[], ''argon2id'', ''v=19'', ?costs, encode_phc_base64 salt, encode_phc_base64 digest]"
    by (intro phc_sections) (simp_all add: show_nat_no_mark digit_marks)
  with assms show ?thesis
    by (simp add: parse_argon2_phc_def phc_text_def phc_alphabet_encode decode_encode_phc phc_costs_read [simplified])
qed

text \<open>The constant-time comparison is equality: the union of the differences is zero when each is.\<close>

lemma or_zero: "(a OR b = (0 :: 8 word)) \<longleftrightarrow> a = 0 \<and> b = 0"
  by (simp add: bit_eq_iff bit_simps) blast

lemma xor_zero: "(a XOR b = (0 :: 8 word)) \<longleftrightarrow> a = b"
  by (simp add: bit_eq_iff bit_simps)

lemma differences_zero:
  "length l = length r \<Longrightarrow>
   (foldl (\<lambda>diff (a, b). diff OR (a XOR b)) d (zip l r) = (0 :: 8 word)) \<longleftrightarrow> d = 0 \<and> l = r"
  by (induction l r arbitrary: d rule: list_induct2) (auto simp: or_zero xor_zero)

lemma timing_safe_equal_iff: "timing_safe_equal l r \<longleftrightarrow> l = r"
  by (auto simp: timing_safe_equal_def differences_zero)

text \<open>The costs that \<open>needsRehash\<close> looks for by their keys.\<close>

lemma phc_decimal_skip:
  "s \<noteq> [] \<Longrightarrow> k \<notin> set s \<Longrightarrow> phc_decimal [k] b (s @ t) = phc_decimal [k] (last s \<in> set '',$?'') t"
  by (induction s arbitrary: b) (auto simp: starts_with_def)

lemma phc_decimal_found:
  assumes "s = c # s'" "\<not> is_digit c"
  shows "phc_decimal [k] True (k # CHR ''='' # show_nat n @ s) = Some n"
proof -
  have digits: "takeWhile is_digit (show_nat n @ s) = show_nat n" using show_nat_digits [of n] assms
    by (simp add: takeWhile_append2 list_all_iff)
  obtain d ds where "show_nat n = d # ds" "is_digit d" using show_nat_digits [of n] by (cases "show_nat n") auto
  with digits show ?thesis using starts_with_append [of "[k, CHR ''='']" "show_nat n @ s"] digits_val_show_nat [of n] by simp
qed

lemma own_costs:
  assumes "hash = phc_text ps salt digest"
  shows "parse_phc_decimal hash ''m'' = Some (ap_memory_cost ps)" "parse_phc_decimal hash ''t'' = Some (ap_time_cost ps)"
    "parse_phc_decimal hash ''p'' = Some (ap_parallelism ps)"
proof -
  note letters = show_nat_no_mark [of "CHR ''t''"] show_nat_no_mark [of "CHR ''p''"]
  let ?m = "show_nat (ap_memory_cost ps)" and ?t = "show_nat (ap_time_cost ps)" and ?p = "show_nat (ap_parallelism ps)"
  let ?rest = "''$'' @ encode_phc_base64 salt @ ''$'' @ encode_phc_base64 digest"
  have no: "\<not> is_digit (CHR ''t'')" "\<not> is_digit (CHR ''p'')" by code_simp+
  show "parse_phc_decimal hash ''m'' = Some (ap_memory_cost ps)"
    using phc_decimal_skip [of "''$argon2id$v=19$''" "CHR ''m''" True "''m='' @ ?m @ '',t='' @ ?t @ '',p='' @ ?p @ ?rest"]
      phc_decimal_found [of "'',t='' @ ?t @ '',p='' @ ?p @ ?rest" "CHR '',''" _ "CHR ''m''" "ap_memory_cost ps"]
    by (simp add: assms parse_phc_decimal_def phc_text_def digit_marks del: phc_decimal.simps)
  show "parse_phc_decimal hash ''t'' = Some (ap_time_cost ps)"
    using phc_decimal_skip [of "''$argon2id$v=19$m='' @ ?m @ '',''" "CHR ''t''" True "''t='' @ ?t @ '',p='' @ ?p @ ?rest"]
      phc_decimal_found [of "'',p='' @ ?p @ ?rest" "CHR '',''" _ "CHR ''t''" "ap_time_cost ps"]
    by (simp add: assms parse_phc_decimal_def phc_text_def digit_marks letters no del: phc_decimal.simps)
  show "parse_phc_decimal hash ''p'' = Some (ap_parallelism ps)"
    using phc_decimal_skip [of "''$argon2id$v=19$m='' @ ?m @ '',t='' @ ?t @ '',''" "CHR ''p''" True "''p='' @ ?p @ ?rest"]
      phc_decimal_found [of ?rest "CHR ''$''" _ "CHR ''p''" "ap_parallelism ps"]
    by (simp add: assms parse_phc_decimal_def phc_text_def digit_marks letters no del: phc_decimal.simps)
qed

text \<open>
  C38. A hash is accepted for exactly the passwords with the digest it was made of, read back with
  its salt and costs, and it asks for a new hash exactly when a cost it was made with is below the
  configured one.
\<close>

theorem hash_verifies:
  assumes "salt \<noteq> []" "length (argon2 (encode_utf8 password) salt 32 ps) = 32"
  shows "(argon2_verify argon2 attempt (argon2_hash argon2 ps salt password) \<longleftrightarrow>
      argon2 (encode_utf8 attempt) salt 32 ps = argon2 (encode_utf8 password) salt 32 ps) \<and>
    (password_hash_needs_rehash wanted (argon2_hash argon2 ps salt password) \<longleftrightarrow>
      ap_memory_cost ps < ap_memory_cost wanted \<or> ap_time_cost ps < ap_time_cost wanted \<or>
      ap_parallelism ps < ap_parallelism wanted)"
proof (intro conjI)
  have "argon2 (encode_utf8 password) salt 32 ps \<noteq> []" using assms(2) by auto
  note read = parse_phc_text [OF assms(1) this]
  show "argon2_verify argon2 attempt (argon2_hash argon2 ps salt password) \<longleftrightarrow>
      argon2 (encode_utf8 attempt) salt 32 ps = argon2 (encode_utf8 password) salt 32 ps"
    using assms(2) by (simp add: argon2_verify_def argon2_hash_def read timing_safe_equal_iff)
  show "password_hash_needs_rehash wanted (argon2_hash argon2 ps salt password) \<longleftrightarrow>
      ap_memory_cost ps < ap_memory_cost wanted \<or> ap_time_cost ps < ap_time_cost wanted \<or>
      ap_parallelism ps < ap_parallelism wanted"
    by (simp add: password_hash_needs_rehash_def argon2_hash_def own_costs [OF refl])
qed

definition demo_argon2 :: argon2id where
  "demo_argon2 password salt n ps = take n (password @ replicate n 0)"

theorem hash_verifies_witness:
  "argon2_verify demo_argon2 ''secret'' (argon2_hash demo_argon2 default_argon2 [1, 2] ''secret'') \<and>
   \<not> argon2_verify demo_argon2 ''other'' (argon2_hash demo_argon2 default_argon2 [1, 2] ''secret'')"
proof -
  have "length (demo_argon2 (encode_utf8 ''secret'') [1, 2] 32 default_argon2) = 32" by (simp add: demo_argon2_def)
  note hash = hash_verifies [of "[1, 2]" demo_argon2, OF _ this, simplified]
  have "demo_argon2 (encode_utf8 ''other'') [1, 2] 32 default_argon2 \<noteq> demo_argon2 (encode_utf8 ''secret'') [1, 2] 32 default_argon2"
    by code_simp
  with hash [THEN conjunct1] show ?thesis by simp
qed

end
