(* ===== verification/AuthSessions.thy ===== *)
theory AuthSessions
  imports AuthPassword
begin

text \<open>
  Sessions and passwords of the local auth server (\<open>runtime.ts\<close>, \<open>api-key.ts\<close>,
  \<open>token-authority.ts\<close>, parts of \<open>admin-contract.ts\<close>): resolving and issuing sessions, and the
  handlers of signing up, in and out, of passwords and of the session list.
\<close>

section \<open>Bans\<close>

definition is_user_effectively_banned :: "int \<Rightarrow> auth_user \<Rightarrow> bool" where
  "is_user_effectively_banned now u =
     (au_banned u \<and>
       (case au_ban_expires u of
          None \<Rightarrow> True
        | Some None \<Rightarrow> True
        | Some (Some t) \<Rightarrow> now < t))"

definition unban_patch :: user_patch where
  "unban_patch = no_patch\<lparr>up_banned := Some False, up_ban_expires := Some None, up_ban_reason := Some None\<rparr>"

definition without_ban :: "auth_user \<Rightarrow> auth_user" where
  "without_ban u = u\<lparr>au_banned := False, au_ban_expires := None, au_ban_reason := None\<rparr>"

text \<open>Lifts a ban that has run out; the row at hand loses it too.\<close>

definition lift_expired_ban :: "auth_env \<Rightarrow> auth_user \<Rightarrow> auth_user auth_act" where
  "lift_expired_ban env u =
     (if au_banned u \<and> \<not> is_user_effectively_banned (ae_now env) u
      then act_bind (update_user env (au_id u) unban_patch) (\<lambda>_. act_return (without_ban u))
      else act_return u)"

section \<open>Sessions\<close>

record resolved_session =
  rv_session :: auth_session
  rv_token :: string
  rv_user :: auth_user

definition request_token :: "auth_config \<Rightarrow> auth_request \<Rightarrow> string option" where
  "request_token cfg req =
     or_else (read_bearer_token (header req ''authorization''))
       (read_session_token_from_cookies (header req ''cookie'') (ac_cookie_name cfg))"

definition session_lifetime :: "auth_config \<Rightarrow> int" where
  "session_lifetime cfg = ac_expires_in_seconds cfg * 1000"

definition refresh_session :: "auth_config \<Rightarrow> auth_env \<Rightarrow> string \<Rightarrow> auth_session \<Rightarrow> auth_session auth_act" where
  "refresh_session cfg env token x =
     (if \<not> ac_disable_session_refresh cfg \<and> ac_update_age_seconds cfg * 1000 \<le> ae_now env - as_updated_at x
      then
        act_bind (update_session_expiry env token (ae_now env + session_lifetime cfg)) (\<lambda>_.
        act_return (x\<lparr>as_expires_at := ae_now env + session_lifetime cfg, as_updated_at := ae_now env\<rparr>))
      else act_return x)"

definition resolve_session :: "auth_config \<Rightarrow> auth_env \<Rightarrow> auth_request \<Rightarrow> resolved_session option auth_act" where
  "resolve_session cfg env req =
     (case request_token cfg req of
        None \<Rightarrow> act_return None
      | Some token \<Rightarrow>
          act_bind (get_session_by_token env token) (\<lambda>found.
          case found of
            None \<Rightarrow> act_return None
          | Some x \<Rightarrow>
              act_bind (get_user_by_id (as_user_id x)) (\<lambda>owner.
              case owner of
                None \<Rightarrow> act_return None
              | Some u \<Rightarrow>
                  if is_user_effectively_banned (ae_now env) u then act_return None
                  else
                    act_bind (lift_expired_ban env u) (\<lambda>u'.
                    act_bind (refresh_session cfg env token x) (\<lambda>x'.
                    act_return (Some \<lparr>rv_session = x', rv_token = token, rv_user = u'\<rparr>))))))"

definition require_session :: "auth_config \<Rightarrow> auth_env \<Rightarrow> auth_request \<Rightarrow> resolved_session auth_act" where
  "require_session cfg env req =
     act_bind (resolve_session cfg env req) (\<lambda>found.
     require_some found (if request_token cfg req = None then unauthenticated else session_not_found))"

definition issue_session :: "auth_config \<Rightarrow> auth_env \<Rightarrow> auth_request \<Rightarrow> string \<Rightarrow> auth_session auth_act" where
  "issue_session cfg env req uid =
     act_bind (new_uuid env) (\<lambda>sid.
     act_bind (new_uuid env) (\<lambda>tok.
     act_bind (create_session env
       \<lparr>ci_active_organization_id = None, ci_expires_at = ae_now env + session_lifetime cfg, ci_id = sid,
        ci_impersonated_by = None, ci_ip_address = request_client_ip req (ac_trusted_proxy cfg),
        ci_token = ''session_'' @ tok, ci_user_agent = header req ''user-agent'', ci_user_id = uid\<rparr>) (\<lambda>x.
     act_bind (update_user env uid (no_patch\<lparr>up_last_sign_in_at := Some (ae_now env)\<rparr>)) (\<lambda>_.
     act_bind (append_cookie (create_session_cookie_header (as_token x) (ac_cookie_name cfg)
       (ae_now env + session_lifetime cfg) (should_set_secure_cookie req (ac_cookie_secure cfg)))) (\<lambda>_.
     act_return x)))))"

section \<open>API keys as callers\<close>

definition api_key_usable :: "auth_env \<Rightarrow> auth_api_key \<Rightarrow> bool" where
  "api_key_usable env k \<longleftrightarrow> ak_enabled k \<and> \<not> is_api_key_expired (ae_now env) k"

definition resolve_api_key_user :: "auth_env \<Rightarrow> auth_request \<Rightarrow> auth_user option auth_act" where
  "resolve_api_key_user env req =
     (case non_empty (map_option js_trim (header req ''x-api-key'')) of
        None \<Rightarrow> act_return None
      | Some raw \<Rightarrow>
          act_bind (get_api_key_by_hash (ae_sha256_base64url env raw)) (\<lambda>found.
          case found of
            None \<Rightarrow> act_return None
          | Some k \<Rightarrow>
              if api_key_usable env k
              then act_bind (touch_api_key env (ak_id k)) (\<lambda>_. get_user_by_id (ak_user_id k))
              else act_return None))"

definition get_session_route :: "auth_config \<Rightarrow> auth_env \<Rightarrow> auth_request \<Rightarrow> auth_response auth_act" where
  "get_session_route cfg env req =
     act_bind (resolve_session cfg env req) (\<lambda>found.
     case found of
       Some r \<Rightarrow>
         act_bind (act_lift (to_public_user (rv_user r))) (\<lambda>u.
         ok_response
           [(''grants'', object []), (''rights'', object []), (''session'', to_public_session (rv_session r)),
            (''user'', u)])
     | None \<Rightarrow>
         act_bind (resolve_api_key_user env req) (\<lambda>caller.
         case caller of
           None \<Rightarrow> act_throw unauthenticated
         | Some u \<Rightarrow>
             act_bind (act_lift (to_public_user u)) (\<lambda>pu.
             ok_response
               [(''grants'', object []), (''rights'', object []),
                (''session'', object [(''id'', JStr (''api-key:'' @ au_id u)), (''token'', Null), (''userId'', JStr (au_id u))]),
                (''user'', pu)])))"

section \<open>Signing up, in and out\<close>

text \<open>A thrown unique violation becomes a conflict with a message.\<close>

definition as_conflict :: "string \<Rightarrow> 'a auth_act \<Rightarrow> 'a auth_act" where
  "as_conflict message m = act_catch m (\<lambda>e. act_throw (if e = UniqueViolation then conflict message else e))"

definition hash_password :: "auth_env \<Rightarrow> string \<Rightarrow> string auth_act" where
  "hash_password env password = draw (ph_hash (ae_hasher env) password)"

text \<open>\<open>asStringField(body, "name") ?? email.split("@")[0] ?? email\<close>.\<close>

definition name_or_local_part :: "fields \<Rightarrow> string \<Rightarrow> string" where
  "name_or_local_part body email = get_or (as_string_field body ''name'') (hd (split_on (CHR ''@'') email))"

definition email_taken :: string where
  "email_taken = ''A user with this email already exists''"

definition sign_up_email :: "auth_config \<Rightarrow> auth_env \<Rightarrow> auth_request \<Rightarrow> auth_response auth_act" where
  "sign_up_email cfg env req =
     act_bind (guard_act (ac_email_enabled cfg) (forbidden_with ''User registration is not enabled'')) (\<lambda>_.
     act_bind (act_lift (read_json_body env cfg req)) (\<lambda>body.
     act_bind (act_lift (require_string_field body ''email'')) (\<lambda>email.
     act_bind (act_lift (require_string_field body ''password'')) (\<lambda>password.
     act_bind (act_lift (validate_password cfg password)) (\<lambda>_.
     act_bind (get_user_by_email email) (\<lambda>taken.
     act_bind (guard_act (taken = None) (conflict email_taken)) (\<lambda>_.
     act_bind (hash_password env password) (\<lambda>hash.
     act_bind (new_uuid env) (\<lambda>uid.
     act_bind (as_conflict email_taken (create_user env
       \<lparr>cu_email = Some email, cu_email_verified = None, cu_id = uid, cu_metadata = with_password_hash [] hash,
        cu_name = Some (name_or_local_part body email), cu_username = as_string_field body ''username''\<rparr>)) (\<lambda>u.
     act_bind (new_uuid env) (\<lambda>aid.
     act_bind (create_account env (au_id u) aid (Some hash) ''credential'' (au_id u)) (\<lambda>_.
     if \<not> ac_auto_sign_in cfg then
       act_bind (act_lift (to_public_user u)) (\<lambda>pu.
       ok_response [(''session'', Null), (''token'', Null), (''user'', pu)])
     else
       act_bind (issue_session cfg env req (au_id u)) (\<lambda>x.
       act_bind (get_user_by_id (au_id u)) (\<lambda>refreshed.
       act_bind (act_lift (to_public_user (get_or refreshed u))) (\<lambda>pu.
       ok_response [(''session'', to_public_session x), (''token'', JStr (as_token x)), (''user'', pu)])))))))))))))))"

definition credential_account :: "auth_account list \<Rightarrow> string option" where
  "credential_account accounts =
     (case find (\<lambda>a. aa_provider_id a = ''credential'') accounts of None \<Rightarrow> None | Some a \<Rightarrow> aa_password a)"

definition stored_hash :: "auth_user \<Rightarrow> string option auth_act" where
  "stored_hash u =
     act_bind (list_accounts (au_id u)) (\<lambda>accounts.
     act_return (or_else (extract_password_hash (au_metadata u)) (credential_account accounts)))"

definition verifies :: "auth_env \<Rightarrow> string \<Rightarrow> string option \<Rightarrow> bool" where
  "verifies env password hash =
     (case non_empty hash of None \<Rightarrow> False | Some h \<Rightarrow> ph_verify (ae_hasher env) password h)"

definition set_password_hash :: "auth_env \<Rightarrow> auth_user \<Rightarrow> string \<Rightarrow> unit auth_act" where
  "set_password_hash env u hash =
     act_bind (update_user env (au_id u) (no_patch\<lparr>up_metadata := Some (with_password_hash (au_metadata u) hash)\<rparr>)) (\<lambda>_.
     act_return ())"

definition rehash_password :: "auth_env \<Rightarrow> auth_user \<Rightarrow> string \<Rightarrow> string \<Rightarrow> unit auth_act" where
  "rehash_password env u password hash =
     (if ph_needs_rehash (ae_hasher env) hash
      then act_bind (hash_password env password) (set_password_hash env u)
      else act_return ())"

definition sign_in_key :: "auth_config \<Rightarrow> auth_request \<Rightarrow> string" where
  "sign_in_key cfg req = ''signin:'' @ get_or (request_client_ip req (ac_trusted_proxy cfg)) ''local''"

definition start_second_factor :: "auth_env \<Rightarrow> auth_user \<Rightarrow> auth_response auth_act" where
  "start_second_factor env u =
     act_bind (new_uuid env) (\<lambda>tok.
     act_bind (new_uuid env) (\<lambda>vid.
     act_bind (create_verification env (ae_now env + 300000) vid (''2fa_pending:'' @ au_id u) (''2fa_'' @ tok)) (\<lambda>_.
     ok_response [(''token'', JStr (''2fa_'' @ tok)), (''twoFactorRedirect'', JBool True)])))"

definition finish_sign_in :: "auth_config \<Rightarrow> auth_env \<Rightarrow> auth_request \<Rightarrow> auth_user \<Rightarrow> auth_response auth_act" where
  "finish_sign_in cfg env req u =
     (if au_two_factor_enabled u then start_second_factor env u
      else
        act_bind (issue_session cfg env req (au_id u)) (\<lambda>x.
        act_bind (get_user_by_id (au_id u)) (\<lambda>refreshed.
        act_bind (act_lift (to_public_user (get_or refreshed u))) (\<lambda>pu.
        ok_response
          [(''redirect'', JBool False), (''session'', to_public_session x), (''token'', JStr (as_token x)),
           (''url'', Null), (''user'', pu)]))))"

definition sign_in_user :: "fields \<Rightarrow> bool \<Rightarrow> auth_user option auth_act" where
  "sign_in_user body by_username =
     (if by_username
      then act_bind (act_lift (require_string_field body ''username'')) get_user_by_username
      else act_bind (act_lift (require_string_field body ''email'')) get_user_by_email)"

definition sign_in :: "auth_config \<Rightarrow> auth_env \<Rightarrow> auth_request \<Rightarrow> bool \<Rightarrow> auth_response auth_act" where
  "sign_in cfg env req by_username =
     act_bind (consume_rate env (sign_in_key cfg req)) (\<lambda>allowed.
     act_bind (guard_act allowed rate_limited) (\<lambda>_.
     act_bind (act_lift (read_json_body env cfg req)) (\<lambda>body.
     act_bind (act_lift (require_string_field body ''password'')) (\<lambda>password.
     act_bind (sign_in_user body by_username) (\<lambda>found.
     act_bind (require_some found invalid_credentials) (\<lambda>u0.
     act_bind (guard_act (\<not> is_user_effectively_banned (ae_now env) u0) (forbidden_with ''User is banned'')) (\<lambda>_.
     act_bind (lift_expired_ban env u0) (\<lambda>u.
     act_bind (stored_hash u) (\<lambda>hash.
     act_bind (guard_act (verifies env password hash) invalid_credentials) (\<lambda>_.
     act_bind (rehash_password env u password (get_or hash [])) (\<lambda>_.
     finish_sign_in cfg env req u)))))))))))"

definition status_true :: "auth_response auth_act" where
  "status_true = ok_response [(''status'', JBool True)]"

definition success_true :: "auth_response auth_act" where
  "success_true = ok_response [(''success'', JBool True)]"

definition sign_out :: "auth_config \<Rightarrow> auth_request \<Rightarrow> auth_response auth_act" where
  "sign_out cfg req =
     act_bind (case request_token cfg req of None \<Rightarrow> act_return () | Some token \<Rightarrow> delete_session token) (\<lambda>_.
     act_bind (clear_session_cookie cfg req) (\<lambda>_.
     success_true))"

definition send_mail :: "string \<Rightarrow> string \<Rightarrow> string \<Rightarrow> unit auth_act" where
  "send_mail to kind url = act_modify (\<lambda>s. s\<lparr>st_mails := st_mails s @ [\<lparr>ml_to = to, ml_type = kind, ml_url = url\<rparr>]\<rparr>)"

section \<open>Passwords\<close>

definition forget_password :: "auth_config \<Rightarrow> auth_env \<Rightarrow> auth_request \<Rightarrow> auth_response auth_act" where
  "forget_password cfg env req =
     act_bind (act_lift (read_json_body env cfg req)) (\<lambda>body.
     act_bind (act_lift (require_string_field body ''email'')) (\<lambda>email.
     act_bind (get_user_by_email email) (\<lambda>found.
     case found of
       None \<Rightarrow> status_true
     | Some u \<Rightarrow>
         act_bind (draw (\<lambda>n. ae_base64url env (ae_random_bytes env n 32))) (\<lambda>token.
         act_bind (new_uuid env) (\<lambda>vid.
         act_bind (create_verification env (ae_now env + 3600000) vid (''reset:'' @ get_or (au_email u) email) token) (\<lambda>_.
         act_bind (send_mail email ''reset-password''
           (case non_empty (as_string_field body ''redirectTo'') of
              Some target \<Rightarrow> target @ ''?token='' @ token
            | None \<Rightarrow> token)) (\<lambda>_.
         status_true)))))))"

text \<open>\<open>identifier.replace(/^reset:/, "")\<close>.\<close>

definition without_prefix :: "string \<Rightarrow> string \<Rightarrow> string" where
  "without_prefix p s = (if starts_with s p then drop (length p) s else s)"

text \<open>\<open>asStringField(body, "newPassword") ?? requireStringField(body, "password")\<close>.\<close>

definition new_password_of :: "fields \<Rightarrow> (auth_error, string) result" where
  "new_password_of body =
     (case as_string_field body ''newPassword'' of Some p \<Rightarrow> Ok p | None \<Rightarrow> require_string_field body ''password'')"

definition reset_password :: "auth_config \<Rightarrow> auth_env \<Rightarrow> auth_request \<Rightarrow> auth_response auth_act" where
  "reset_password cfg env req =
     act_bind (act_lift (read_json_body env cfg req)) (\<lambda>body.
     act_bind (act_lift (require_string_field body ''token'')) (\<lambda>token.
     act_bind (act_lift (new_password_of body)) (\<lambda>new.
     act_bind (act_lift (validate_password cfg new)) (\<lambda>_.
     act_bind (consume_verification env token) (\<lambda>found.
     act_bind (require_some found (bad_request ''Invalid or expired token'')) (\<lambda>v.
     act_bind (get_user_by_email (without_prefix ''reset:'' (av_identifier v))) (\<lambda>owner.
     act_bind (require_some owner (not_found ''User not found'')) (\<lambda>u.
     act_bind (hash_password env new) (\<lambda>hash.
     act_bind (set_password_hash env u hash) (\<lambda>_.
     act_bind (delete_user_sessions (au_id u) None) (\<lambda>_.
     status_true)))))))))))"

definition change_password :: "auth_config \<Rightarrow> auth_env \<Rightarrow> auth_request \<Rightarrow> auth_response auth_act" where
  "change_password cfg env req =
     act_bind (require_session cfg env req) (\<lambda>r.
     act_bind (act_lift (read_json_body env cfg req)) (\<lambda>body.
     act_bind (act_lift (require_string_field body ''currentPassword'')) (\<lambda>current.
     act_bind (act_lift (require_string_field body ''newPassword'')) (\<lambda>new.
     act_bind (act_lift (validate_password cfg new)) (\<lambda>_.
     act_bind (guard_act (verifies env current (extract_password_hash (au_metadata (rv_user r)))) invalid_credentials) (\<lambda>_.
     act_bind (hash_password env new) (\<lambda>hash.
     act_bind (set_password_hash env (rv_user r) hash) (\<lambda>_.
     act_bind
       (if truthy (get_prop ''revokeOtherSessions'' body)
        then delete_user_sessions (au_id (rv_user r)) (Some (rv_token r)) else act_return 0) (\<lambda>_.
     status_true)))))))))"

definition set_password :: "auth_config \<Rightarrow> auth_env \<Rightarrow> auth_request \<Rightarrow> auth_response auth_act" where
  "set_password cfg env req =
     act_bind (require_session cfg env req) (\<lambda>r.
     act_bind (act_lift (read_json_body env cfg req)) (\<lambda>body.
     act_bind (act_lift (new_password_of body)) (\<lambda>new.
     act_bind (act_lift (validate_password cfg new)) (\<lambda>_.
     act_bind (hash_password env new) (\<lambda>hash.
     act_bind (set_password_hash env (rv_user r) hash) (\<lambda>_.
     status_true))))))"

section \<open>The user and the session list\<close>

definition update_user_route :: "auth_config \<Rightarrow> auth_env \<Rightarrow> auth_request \<Rightarrow> auth_response auth_act" where
  "update_user_route cfg env req =
     act_bind (require_session cfg env req) (\<lambda>r.
     act_bind (act_lift (read_json_body env cfg req)) (\<lambda>body.
     act_bind (update_user env (au_id (rv_user r))
       (no_patch\<lparr>up_image := map_option Some (as_string_field body ''image''),
                up_name := map_option Some (as_string_field body ''name'')\<rparr>)) (\<lambda>u.
     act_bind (act_lift (to_public_user u)) (\<lambda>pu.
     ok_response [(''user'', pu)]))))"

definition list_sessions_route :: "auth_config \<Rightarrow> auth_env \<Rightarrow> auth_request \<Rightarrow> auth_response auth_act" where
  "list_sessions_route cfg env req =
     act_bind (require_session cfg env req) (\<lambda>r.
     act_bind (list_user_sessions env (au_id (rv_user r))) (\<lambda>xs.
     json_response 200 (JArr (map to_public_session xs))))"

definition revoke_session :: "auth_config \<Rightarrow> auth_env \<Rightarrow> auth_request \<Rightarrow> auth_response auth_act" where
  "revoke_session cfg env req =
     act_bind (require_session cfg env req) (\<lambda>r.
     act_bind (act_lift (read_json_body env cfg req)) (\<lambda>body.
     act_bind (act_lift (require_string_field body ''token'')) (\<lambda>token.
     act_bind (get_session_by_token env token) (\<lambda>target.
     act_bind (guard_act (case target of None \<Rightarrow> True | Some x \<Rightarrow> as_user_id x = au_id (rv_user r)) forbidden) (\<lambda>_.
     act_bind (delete_session token) (\<lambda>_.
     status_true))))))"

definition revoke_sessions :: "auth_config \<Rightarrow> auth_env \<Rightarrow> auth_request \<Rightarrow> auth_response auth_act" where
  "revoke_sessions cfg env req =
     act_bind (require_session cfg env req) (\<lambda>r.
     act_bind (delete_user_sessions (au_id (rv_user r)) None) (\<lambda>_.
     act_bind (clear_session_cookie cfg req) (\<lambda>_.
     status_true)))"

definition revoke_other_sessions :: "auth_config \<Rightarrow> auth_env \<Rightarrow> auth_request \<Rightarrow> auth_response auth_act" where
  "revoke_other_sessions cfg env req =
     act_bind (require_session cfg env req) (\<lambda>r.
     act_bind (delete_user_sessions (au_id (rv_user r)) (Some (rv_token r))) (\<lambda>_.
     status_true))"

definition list_accounts_route :: "auth_config \<Rightarrow> auth_env \<Rightarrow> auth_request \<Rightarrow> auth_response auth_act" where
  "list_accounts_route cfg env req =
     act_bind (require_session cfg env req) (\<lambda>r.
     act_bind (list_accounts (au_id (rv_user r))) (\<lambda>accounts.
     json_response 200 (JArr (map to_public_account accounts))))"

end
