(* ===== verification/AuthOrganizations.thy ===== *)
theory AuthOrganizations
  imports AuthSessions
begin

text \<open>
  The organization routes of the local auth server (\<open>runtime.ts\<close>) and the token authority
  (\<open>token-authority.ts\<close>).
\<close>

section \<open>Who may act\<close>

definition owner_or_admin :: "auth_member option \<Rightarrow> bool" where
  "owner_or_admin m = (case m of None \<Rightarrow> False | Some x \<Rightarrow> am_role x = ''owner'' \<or> am_role x = ''admin'')"

definition is_owner :: "auth_member option \<Rightarrow> bool" where
  "is_owner m = (case m of None \<Rightarrow> False | Some x \<Rightarrow> am_role x = ''owner'')"

text \<open>\<open>given ?? session.active_organization_id\<close>, which must not be empty.\<close>

definition organization_of :: "string option \<Rightarrow> resolved_session \<Rightarrow> (auth_error, string) result" where
  "organization_of given r =
     (case non_empty (or_else given (as_active_organization_id (rv_session r))) of
        None \<Rightarrow> Throw (bad_request ''organizationId is required'')
      | Some gid \<Rightarrow> Ok gid)"

definition body_organization :: "fields \<Rightarrow> resolved_session \<Rightarrow> (auth_error, string) result" where
  "body_organization body r = organization_of (as_string_field body ''organizationId'') r"

section \<open>Organizations\<close>

definition slug_char :: "char \<Rightarrow> bool" where
  "slug_char c \<longleftrightarrow> is_lower c \<or> is_digit c"

text \<open>\<open>replace(/[^a-z0-9]+/g, "-")\<close>: one dash for a run of other characters.\<close>

fun dash_runs :: "bool \<Rightarrow> string \<Rightarrow> string" where
  "dash_runs in_run [] = []"
| "dash_runs in_run (c # s) =
     (if slug_char c then c # dash_runs False s
      else if in_run then dash_runs True s else CHR ''-'' # dash_runs True s)"

text \<open>\<open>replace(/^-|-$/g, "")\<close>: one dash at either end.\<close>

definition trim_dash :: "string \<Rightarrow> string" where
  "trim_dash s =
     (let t = (case s of c # r \<Rightarrow> if c = CHR ''-'' then r else s | [] \<Rightarrow> [])
      in if t \<noteq> [] \<and> last t = CHR ''-'' then butlast t else t)"

definition slug_of :: "string \<Rightarrow> string" where
  "slug_of name = trim_dash (dash_runs False (js_lower name))"

definition create_organization_route :: "auth_config \<Rightarrow> auth_env \<Rightarrow> auth_request \<Rightarrow> auth_response auth_act" where
  "create_organization_route cfg env req =
     act_bind (require_session cfg env req) (\<lambda>r.
     act_bind (act_lift (read_json_body env cfg req)) (\<lambda>body.
     act_bind (act_lift (require_string_field body ''name'')) (\<lambda>name.
     act_bind (new_uuid env) (\<lambda>gid.
     act_bind (as_conflict ''Organization slug already exists''
       (create_organization env gid name (get_or (as_string_field body ''slug'') (slug_of name)))) (\<lambda>g.
     act_bind (new_uuid env) (\<lambda>mid.
     act_bind (add_member env mid (ao_id g) ''owner'' (au_id (rv_user r))) (\<lambda>_.
     act_bind (set_session_active_organization env (rv_token r) (Some (ao_id g))) (\<lambda>_.
     ok_response [(''organization'', to_public_organization g)]))))))))"

definition list_organizations_route :: "auth_config \<Rightarrow> auth_env \<Rightarrow> auth_request \<Rightarrow> auth_response auth_act" where
  "list_organizations_route cfg env req =
     act_bind (require_session cfg env req) (\<lambda>r.
     act_bind (list_organizations_for_user (au_id (rv_user r))) (\<lambda>gs.
     json_response 200 (JArr (map to_public_organization gs))))"

text \<open>The caller, the organization named by the query and the caller's membership in it.\<close>

definition as_query_member ::
  "auth_config \<Rightarrow> auth_env \<Rightarrow> auth_request \<Rightarrow> (string \<Rightarrow> auth_response auth_act) \<Rightarrow> auth_response auth_act" where
  "as_query_member cfg env req k =
     act_bind (require_session cfg env req) (\<lambda>r.
     act_bind (act_lift (organization_of (query_param req ''organizationId'') r)) (\<lambda>gid.
     act_bind (get_member gid (au_id (rv_user r))) (\<lambda>m.
     act_bind (require_some m forbidden) (\<lambda>_.
     k gid))))"

definition get_full_organization :: "auth_config \<Rightarrow> auth_env \<Rightarrow> auth_request \<Rightarrow> auth_response auth_act" where
  "get_full_organization cfg env req =
     as_query_member cfg env req (\<lambda>gid.
     act_bind (get_organization gid) (\<lambda>found.
     act_bind (require_some found (not_found ''Organization not found'')) (\<lambda>g.
     act_bind (list_members gid) (\<lambda>ms.
     ok_response (public_organization_fields g @ [(''members'', JArr (map to_public_member ms))])))))"

definition update_organization_route :: "auth_config \<Rightarrow> auth_env \<Rightarrow> auth_request \<Rightarrow> auth_response auth_act" where
  "update_organization_route cfg env req =
     act_bind (require_session cfg env req) (\<lambda>r.
     act_bind (act_lift (read_json_body env cfg req)) (\<lambda>body.
     act_bind (act_lift (body_organization body r)) (\<lambda>gid.
     act_bind (get_member gid (au_id (rv_user r))) (\<lambda>m.
     act_bind (guard_act (owner_or_admin m) forbidden) (\<lambda>_.
     act_bind (update_organization env gid (as_string_field body ''logo'') (as_string_field body ''name'')
       (as_string_field body ''slug'')) (\<lambda>g.
     ok_response [(''organization'', to_public_organization g)]))))))"

definition delete_organization_route :: "auth_config \<Rightarrow> auth_env \<Rightarrow> auth_request \<Rightarrow> auth_response auth_act" where
  "delete_organization_route cfg env req =
     act_bind (require_session cfg env req) (\<lambda>r.
     act_bind (act_lift (read_json_body env cfg req)) (\<lambda>body.
     act_bind (act_lift (require_string_field body ''organizationId'')) (\<lambda>gid.
     act_bind (get_member gid (au_id (rv_user r))) (\<lambda>m.
     act_bind (guard_act (is_owner m) forbidden) (\<lambda>_.
     act_bind (delete_organization gid) (\<lambda>_.
     status_true))))))"

definition set_active_organization :: "auth_config \<Rightarrow> auth_env \<Rightarrow> auth_request \<Rightarrow> auth_response auth_act" where
  "set_active_organization cfg env req =
     act_bind (require_session cfg env req) (\<lambda>r.
     act_bind (act_lift (read_json_body env cfg req)) (\<lambda>body.
     act_bind
       (case non_empty (as_string_field body ''organizationId'') of
          None \<Rightarrow> act_return ()
        | Some gid \<Rightarrow>
            act_bind (get_member gid (au_id (rv_user r))) (\<lambda>m. guard_act (m \<noteq> None) forbidden)) (\<lambda>_.
     act_bind (set_session_active_organization env (rv_token r) (as_string_field body ''organizationId'')) (\<lambda>_.
     status_true))))"

definition check_slug :: "auth_config \<Rightarrow> auth_env \<Rightarrow> auth_request \<Rightarrow> auth_response auth_act" where
  "check_slug cfg env req =
     act_bind (require_session cfg env req) (\<lambda>_.
     act_bind (act_lift (read_json_body env cfg req)) (\<lambda>body.
     act_bind (act_lift (require_string_field body ''slug'')) (\<lambda>slug.
     act_bind (get_organization_by_slug slug) (\<lambda>g.
     ok_response [(''status'', JBool (g = None))]))))"

section \<open>Members\<close>

definition list_members_route :: "auth_config \<Rightarrow> auth_env \<Rightarrow> auth_request \<Rightarrow> auth_response auth_act" where
  "list_members_route cfg env req =
     as_query_member cfg env req (\<lambda>gid.
     act_bind (list_members gid) (\<lambda>ms.
     ok_response [(''members'', JArr (map to_public_member ms))]))"

text \<open>By member id first, then by user id.\<close>

definition find_member :: "string \<Rightarrow> auth_member list \<Rightarrow> auth_member option" where
  "find_member key ms = or_else (find (\<lambda>m. am_id m = key) ms) (find (\<lambda>m. am_user_id m = key) ms)"

definition remove_member_route :: "auth_config \<Rightarrow> auth_env \<Rightarrow> auth_request \<Rightarrow> auth_response auth_act" where
  "remove_member_route cfg env req =
     act_bind (require_session cfg env req) (\<lambda>r.
     act_bind (act_lift (read_json_body env cfg req)) (\<lambda>body.
     act_bind (act_lift
       (case as_string_field body ''memberIdOrEmail'' of
          Some key \<Rightarrow> Ok key
        | None \<Rightarrow> require_string_field body ''memberId'')) (\<lambda>key.
     act_bind (act_lift (body_organization body r)) (\<lambda>gid.
     act_bind (get_member gid (au_id (rv_user r))) (\<lambda>m.
     act_bind (guard_act (owner_or_admin m) forbidden) (\<lambda>_.
     act_bind (list_members gid) (\<lambda>ms.
     act_bind (require_some (find_member key ms) (not_found ''Member not found'')) (\<lambda>target.
     act_bind (remove_member gid (am_user_id target)) (\<lambda>_.
     status_true)))))))))"

definition update_member_role_route :: "auth_config \<Rightarrow> auth_env \<Rightarrow> auth_request \<Rightarrow> auth_response auth_act" where
  "update_member_role_route cfg env req =
     act_bind (require_session cfg env req) (\<lambda>r.
     act_bind (act_lift (read_json_body env cfg req)) (\<lambda>body.
     act_bind (act_lift (require_string_field body ''role'')) (\<lambda>role.
     act_bind (act_lift (require_string_field body ''memberId'')) (\<lambda>key.
     act_bind (act_lift (body_organization body r)) (\<lambda>gid.
     act_bind (get_member gid (au_id (rv_user r))) (\<lambda>m.
     act_bind (guard_act (is_owner m) forbidden) (\<lambda>_.
     act_bind (list_members gid) (\<lambda>ms.
     act_bind (require_some (find_member key ms) (not_found ''Member not found'')) (\<lambda>target.
     act_bind (update_member_role gid (am_user_id target) role) (\<lambda>updated.
     ok_response [(''member'', to_public_member (get_or updated target))]))))))))))"

definition leave_organization :: "auth_config \<Rightarrow> auth_env \<Rightarrow> auth_request \<Rightarrow> auth_response auth_act" where
  "leave_organization cfg env req =
     act_bind (require_session cfg env req) (\<lambda>r.
     act_bind (act_lift (read_json_body env cfg req)) (\<lambda>body.
     act_bind (act_lift (body_organization body r)) (\<lambda>gid.
     act_bind (remove_member gid (au_id (rv_user r))) (\<lambda>_.
     status_true))))"

definition get_active_member :: "auth_config \<Rightarrow> auth_env \<Rightarrow> auth_request \<Rightarrow> auth_response auth_act" where
  "get_active_member cfg env req =
     act_bind (require_session cfg env req) (\<lambda>r.
     act_bind (require_some (non_empty (as_active_organization_id (rv_session r)))
       (bad_request ''No active organization'')) (\<lambda>gid.
     act_bind (get_member gid (au_id (rv_user r))) (\<lambda>m.
     act_bind (require_some m (not_found ''Member not found'')) (\<lambda>x.
     ok_response [(''member'', to_public_member x)]))))"

text \<open>An error while reading the body counts as an empty body.\<close>

definition has_permission :: "auth_config \<Rightarrow> auth_env \<Rightarrow> auth_request \<Rightarrow> auth_response auth_act" where
  "has_permission cfg env req =
     act_bind (require_session cfg env req) (\<lambda>r.
     let body = (case read_json_body env cfg req of Inr b \<Rightarrow> b | Inl _ \<Rightarrow> [])
     in case body_organization body r of
          Inl _ \<Rightarrow> ok_response [(''success'', JBool False), (''error'', JStr ''No organization'')]
        | Inr gid \<Rightarrow>
            act_bind (get_member gid (au_id (rv_user r))) (\<lambda>m.
            ok_response
              [(''success'', JBool (m \<noteq> None)), (''error'', if m = None then JStr ''Forbidden'' else Undefined)]))"

section \<open>Invitations\<close>

definition invite_member :: "auth_config \<Rightarrow> auth_env \<Rightarrow> auth_request \<Rightarrow> auth_response auth_act" where
  "invite_member cfg env req =
     act_bind (require_session cfg env req) (\<lambda>r.
     act_bind (act_lift (read_json_body env cfg req)) (\<lambda>body.
     act_bind (act_lift (body_organization body r)) (\<lambda>gid.
     act_bind (get_member gid (au_id (rv_user r))) (\<lambda>m.
     act_bind (guard_act (owner_or_admin m) forbidden) (\<lambda>_.
     act_bind (act_lift (require_string_field body ''email'')) (\<lambda>email.
     act_bind (new_uuid env) (\<lambda>iid.
     act_bind (create_invitation env email (ae_now env + 604800000) iid (au_id (rv_user r)) gid
       (get_or (as_string_field body ''role'') ''member'')) (\<lambda>i.
     ok_response [(''invitation'', to_public_invitation i)]))))))))"

definition invitation_open :: "int \<Rightarrow> auth_invitation \<Rightarrow> bool" where
  "invitation_open now i \<longleftrightarrow> ai_status i = ''pending'' \<and> now < ai_expires_at i"

text \<open>The addresses differ, and neither is empty.\<close>

definition invited_other :: "auth_invitation \<Rightarrow> auth_user \<Rightarrow> bool" where
  "invited_other i u \<longleftrightarrow>
     ai_email i \<noteq> [] \<and> non_empty (au_email u) \<noteq> None \<and> Some (ai_email i) \<noteq> au_email u"

definition accept_invitation :: "auth_config \<Rightarrow> auth_env \<Rightarrow> auth_request \<Rightarrow> auth_response auth_act" where
  "accept_invitation cfg env req =
     act_bind (require_session cfg env req) (\<lambda>r.
     act_bind (act_lift (read_json_body env cfg req)) (\<lambda>body.
     act_bind (act_lift (require_string_field body ''invitationId'')) (\<lambda>iid.
     act_bind (get_invitation iid) (\<lambda>found.
     act_bind (require_some found (bad_request ''Invitation is not valid'')) (\<lambda>i.
     act_bind (guard_act (invitation_open (ae_now env) i) (bad_request ''Invitation is not valid'')) (\<lambda>_.
     act_bind (guard_act (\<not> invited_other i (rv_user r)) forbidden) (\<lambda>_.
     act_bind (get_member (ai_organization_id i) (au_id (rv_user r))) (\<lambda>existing.
     act_bind
       (if existing = None
        then act_bind (new_uuid env) (\<lambda>mid. add_member env mid (ai_organization_id i) (ai_role i) (au_id (rv_user r)))
        else act_return ()) (\<lambda>_.
     act_bind (update_invitation_status (ai_id i) ''accepted'') (\<lambda>_.
     status_true))))))))))"

definition cancel_invitation :: "auth_config \<Rightarrow> auth_env \<Rightarrow> auth_request \<Rightarrow> auth_response auth_act" where
  "cancel_invitation cfg env req =
     act_bind (require_session cfg env req) (\<lambda>r.
     act_bind (act_lift (read_json_body env cfg req)) (\<lambda>body.
     act_bind (act_lift (require_string_field body ''invitationId'')) (\<lambda>iid.
     act_bind (get_invitation iid) (\<lambda>found.
     act_bind (require_some found (not_found ''Invitation not found'')) (\<lambda>i.
     act_bind (get_member (ai_organization_id i) (au_id (rv_user r))) (\<lambda>m.
     act_bind (guard_act (owner_or_admin m) forbidden) (\<lambda>_.
     act_bind (update_invitation_status (ai_id i) ''canceled'') (\<lambda>_.
     status_true))))))))"

definition list_invitations_route :: "auth_config \<Rightarrow> auth_env \<Rightarrow> auth_request \<Rightarrow> auth_response auth_act" where
  "list_invitations_route cfg env req =
     as_query_member cfg env req (\<lambda>gid.
     act_bind (list_invitations gid) (\<lambda>xs.
     json_response 200 (JArr (map to_public_invitation xs))))"

definition get_invitation_route :: "auth_config \<Rightarrow> auth_env \<Rightarrow> auth_request \<Rightarrow> auth_response auth_act" where
  "get_invitation_route cfg env req =
     act_bind (require_session cfg env req) (\<lambda>_.
     act_bind (require_some (non_empty (query_param req ''invitationId'')) (bad_request ''invitationId is required'')) (\<lambda>iid.
     act_bind (get_invitation iid) (\<lambda>found.
     act_bind (require_some found (not_found ''Invitation not found'')) (\<lambda>i.
     ok_response [(''invitation'', to_public_invitation i)]))))"

definition list_user_invitations :: "auth_config \<Rightarrow> auth_env \<Rightarrow> auth_request \<Rightarrow> auth_response auth_act" where
  "list_user_invitations cfg env req =
     act_bind (require_session cfg env req) (\<lambda>r.
     act_bind
       (case non_empty (au_email (rv_user r)) of
          None \<Rightarrow> act_return []
        | Some email \<Rightarrow> list_invitations_for_email email) (\<lambda>xs.
     json_response 200 (JArr (map to_public_invitation xs))))"

definition reject_invitation :: "auth_config \<Rightarrow> auth_env \<Rightarrow> auth_request \<Rightarrow> auth_response auth_act" where
  "reject_invitation cfg env req =
     act_bind (require_session cfg env req) (\<lambda>r.
     act_bind (act_lift (read_json_body env cfg req)) (\<lambda>body.
     act_bind (act_lift (require_string_field body ''invitationId'')) (\<lambda>iid.
     act_bind (get_invitation iid) (\<lambda>found.
     act_bind (require_some found (not_found ''Invitation not found'')) (\<lambda>i.
     act_bind (get_member (ai_organization_id i) (au_id (rv_user r))) (\<lambda>m.
     act_bind (guard_act
       (ai_email i \<noteq> [] \<and> au_email (rv_user r) = Some (ai_email i) \<or> owner_or_admin m) forbidden) (\<lambda>_.
     act_bind (update_invitation_status (ai_id i) ''rejected'') (\<lambda>_.
     status_true))))))))"

section \<open>Tokens\<close>

definition normalize_audiences :: "jval \<Rightarrow> (auth_error, string list) result" where
  "normalize_audiences audience =
     (if nullish audience then Ok []
      else
        rmap (\<lambda>ws. filter (\<lambda>w. w \<noteq> []) ws)
          (map_r (\<lambda>v. case v of JStr s \<Rightarrow> Ok (js_trim s) | _ \<Rightarrow> Throw (UnexpectedError ''value.trim is not a function''))
            (case audience of JArr vs \<Rightarrow> vs | _ \<Rightarrow> [audience])))"

text \<open>\<open>Math.min(Math.max(body.expiresIn ?? 900, 1), 3600)\<close>.\<close>

definition token_ttl :: "jval \<Rightarrow> jnum" where
  "token_ttl expires_in =
     (let n = num_max (to_number (nullish_or expires_in (JNum (jint 900)))) (jint 1)
      in if n = NaN then NaN else if num_less (jint 3600) n then jint 3600 else n)"

text \<open>\<open>await request.json().catch(() => ({}))\<close>, and then the properties of what it gives.\<close>

definition token_body :: "auth_env \<Rightarrow> auth_request \<Rightarrow> (auth_error, jval) result" where
  "token_body env req =
     (case ae_parse_json env (rq_text req) of
        None \<Rightarrow> Ok (object [])
      | Some v \<Rightarrow> if nullish v then Throw (UnexpectedError ''Cannot read properties of null'') else Ok v)"

definition token_endpoint_of :: "auth_config \<Rightarrow> string \<Rightarrow> string" where
  "token_endpoint_of cfg issuer =
     issuer @ (if ac_base_path cfg = ''/'' then [] else ac_base_path cfg) @ ''/token''"

definition issue_token ::
  "auth_env \<Rightarrow> auth_request \<Rightarrow> token_authority \<Rightarrow> resolved_session option \<Rightarrow> auth_response auth_act" where
  "issue_token env req ta found =
     act_bind (require_some found unauthenticated) (\<lambda>r.
     act_bind (guard_act (\<not> au_banned (rv_user r)) (forbidden_with ''User is banned'')) (\<lambda>_.
     act_bind (act_lift (token_body env req)) (\<lambda>body.
     act_bind (act_lift (normalize_audiences (opt_prop ''audience'' body))) (\<lambda>requested.
     let audiences = (if requested = [] then [''athena''] else requested)
     in
       act_bind (act_lift (each_r (\<lambda>a. if a \<in> {''athena'', ''neon''} then Ok ()
         else Throw (forbidden_with (''audience '' @ a @ '' is not in the configured allowlist''))) audiences)) (\<lambda>_.
       let ttl = token_ttl (opt_prop ''expiresIn'' body)
       in
         act_bind (draw (ae_sign_jwt env
           \<lparr>jc_audiences = audiences, jc_issuer = ta_issuer ta, jc_kid = ta_kid ta, jc_subject = au_id (rv_user r),
            jc_session = as_id (rv_session r), jc_ttl = ttl\<rparr>)) (\<lambda>signed.
         act_bind (require_some signed (UnexpectedError ''Invalid time period format'')) (\<lambda>token.
         act_bind (act_lift (as_iso (Some (time_clip (num_sub (jint (ae_now env)) (num_neg (num_mul ttl (jint 1000)))))))) (\<lambda>expires.
         ok_response
           [(''audience'', JArr (map JStr audiences)), (''expiresAt'', expires), (''expiresIn'', JNum ttl),
            (''issuer'', JStr (ta_issuer ta)), (''kid'', JStr (ta_kid ta)), (''token'', JStr token),
            (''tokenType'', JStr ''Bearer'')]))))))))"

text \<open>The authority is made for the first request that asks for it, and keeps the origin of that request.\<close>

definition create_local_token_authority :: "auth_config \<Rightarrow> auth_env \<Rightarrow> auth_request \<Rightarrow> token_authority" where
  "create_local_token_authority cfg env req =
     \<lparr>ta_issuer = request_url_origin req, ta_endpoint = token_endpoint_of cfg (request_url_origin req),
      ta_kid = ''athena-local-'' @ take 10 (iso_string (ae_now env))\<rparr>"

definition current_authority :: "auth_config \<Rightarrow> auth_env \<Rightarrow> auth_request \<Rightarrow> token_authority auth_act" where
  "current_authority cfg env req =
     act_bind (act_get (\<lambda>s. get_or (st_authority s) (create_local_token_authority cfg env req))) (\<lambda>ta.
     act_bind (act_modify (\<lambda>s. s\<lparr>st_authority := Some ta\<rparr>)) (\<lambda>_.
     act_return ta))"

definition token_paths :: "string list" where
  "token_paths = [''/token'', ''/get-access-token'', ''/refresh-token'']"

definition jwks_response :: "auth_env \<Rightarrow> token_authority \<Rightarrow> auth_response" where
  "jwks_response env ta =
     \<lparr>rs_status = 200,
      rs_body = Some (object [(''keys'', JArr [object (ae_public_jwk env @
        [(''alg'', JStr ''ES256''), (''kid'', JStr (ta_kid ta)), (''use'', JStr ''sig'')])])]),
      rs_cookies = [], rs_cache_control = Some ''public, max-age=300, stale-while-revalidate=300''\<rparr>"

definition openid_configuration :: "token_authority \<Rightarrow> jval" where
  "openid_configuration ta = object
     [(''id_token_signing_alg_values_supported'', JArr [JStr ''ES256'']), (''issuer'', JStr (ta_issuer ta)),
      (''jwks_uri'', JStr (ta_issuer ta @ ''/.well-known/jwks.json'')), (''response_types_supported'', JArr []),
      (''subject_types_supported'', JArr [JStr ''public'']), (''token_endpoint'', JStr (ta_endpoint ta))]"

definition token_route :: "auth_config \<Rightarrow> auth_env \<Rightarrow> auth_request \<Rightarrow> string \<Rightarrow> auth_response option auth_act" where
  "token_route cfg env req path =
     act_bind (current_authority cfg env req) (\<lambda>ta.
     act_bind (if path \<in> set token_paths then resolve_session cfg env req else act_return None) (\<lambda>found.
     if path = ''/.well-known/jwks.json'' \<and> request_method req = ''GET'' then
       act_return (Some (jwks_response env ta))
     else if path = ''/.well-known/openid-configuration'' \<and> request_method req = ''GET'' then
       act_return (Some
         \<lparr>rs_status = 200, rs_body = Some (openid_configuration ta), rs_cookies = [], rs_cache_control = None\<rparr>)
     else if path \<in> set token_paths \<and> request_method req = ''POST'' then
       act_bind (issue_token env req ta found) (\<lambda>x. act_return (Some x))
     else act_return None))"

end
