(* ===== verification/AuthRoutes.thy ===== *)
theory AuthRoutes
  imports AuthOrganizations
begin

text \<open>
  The further routes of the local auth server (\<open>extended-routes.ts\<close>, \<open>api-key.ts\<close>): verifying
  and changing addresses, deleting the user, API keys and second factors.
\<close>

section \<open>Addresses\<close>

definition day_ms :: int where
  "day_ms = 86400000"

definition send_verification_email :: "auth_config \<Rightarrow> auth_env \<Rightarrow> auth_request \<Rightarrow> auth_response auth_act" where
  "send_verification_email cfg env req =
     act_bind (act_lift (read_json_body env cfg req)) (\<lambda>body.
     act_bind (act_lift (require_string_field body ''email'')) (\<lambda>email.
     act_bind (get_user_by_email email) (\<lambda>found.
     act_bind (require_some found (not_found ''No user found with this email address'')) (\<lambda>u.
     act_bind (guard_act (\<not> au_email_verified u) (bad_request ''Email is already verified'')) (\<lambda>_.
     act_bind (new_uuid env) (\<lambda>tok.
     act_bind (new_uuid env) (\<lambda>vid.
     act_bind (create_verification env (ae_now env + day_ms) vid email (''verify_'' @ tok)) (\<lambda>_.
     act_bind (send_mail email ''verify-email''
       (case non_empty (as_string_field body ''callbackURL'') of
          Some url \<Rightarrow>
            url @ (if CHR ''?'' \<in> set url then ''&'' else ''?'') @ ''token='' @ ae_encode_uri env (''verify_'' @ tok)
        | None \<Rightarrow> ''verify_'' @ tok)) (\<lambda>_.
     status_true)))))))))"

definition verify_email :: "auth_env \<Rightarrow> auth_request \<Rightarrow> auth_response auth_act" where
  "verify_email env req =
     act_bind (require_some (non_empty (map_option js_trim (query_param req ''token''))) (bad_request ''token is required'')) (\<lambda>token.
     act_bind (consume_verification env token) (\<lambda>found.
     act_bind (require_some found (bad_request ''Invalid or expired token'')) (\<lambda>v.
     act_bind (get_user_by_email (av_identifier v)) (\<lambda>owner.
     act_bind (require_some owner (not_found ''User not found'')) (\<lambda>u.
     act_bind (update_user env (au_id u) (no_patch\<lparr>up_email_verified := Some True\<rparr>)) (\<lambda>u'.
     act_bind (act_lift (to_public_user u')) (\<lambda>pu.
     ok_response [(''status'', JBool True), (''user'', pu)])))))))"

definition change_email :: "auth_config \<Rightarrow> auth_env \<Rightarrow> auth_request \<Rightarrow> auth_response auth_act" where
  "change_email cfg env req =
     act_bind (require_session cfg env req) (\<lambda>r.
     act_bind (act_lift (read_json_body env cfg req)) (\<lambda>body.
     act_bind (act_lift (require_string_field body ''newEmail'')) (\<lambda>email.
     act_bind (get_user_by_email email) (\<lambda>taken.
     act_bind (guard_act (taken = None) (conflict email_taken)) (\<lambda>_.
     act_bind (new_uuid env) (\<lambda>tok.
     act_bind (new_uuid env) (\<lambda>vid.
     act_bind (create_verification env (ae_now env + day_ms) vid
       (''change-email:'' @ au_id (rv_user r) @ '':'' @ email) (''change_'' @ tok)) (\<lambda>_.
     act_bind (send_mail email ''change-email'' (''change_'' @ tok)) (\<lambda>_.
     status_true)))))))))"

text \<open>The pattern \<open>/^change-email:([^:]+):(.+)$/\<close>; a dot does not match a line break.\<close>

definition change_email_parts :: "string \<Rightarrow> (string \<times> string) option" where
  "change_email_parts s =
     (let rest = drop 13 s; uid = takeWhile (\<lambda>c. c \<noteq> CHR '':'') rest; email = drop (length uid + 1) rest in
      if starts_with s ''change-email:'' \<and> uid \<noteq> [] \<and> email \<noteq> [] \<and>
         list_all (\<lambda>c. code c \<noteq> 10 \<and> code c \<noteq> 13) email
      then Some (uid, email) else None)"

definition change_email_verify :: "auth_config \<Rightarrow> auth_env \<Rightarrow> auth_request \<Rightarrow> auth_response auth_act" where
  "change_email_verify cfg env req =
     act_bind (act_lift (read_json_body env cfg req)) (\<lambda>body.
     act_bind (act_lift (require_string_field body ''token'')) (\<lambda>token.
     act_bind (consume_verification env token) (\<lambda>found.
     act_bind (require_some found (bad_request ''Invalid or expired token'')) (\<lambda>v.
     act_bind (require_some (change_email_parts (av_identifier v)) (bad_request ''Invalid token'')) (\<lambda>(uid, email).
     act_bind (update_user env uid (no_patch\<lparr>up_email := Some email, up_email_verified := Some True\<rparr>)) (\<lambda>u.
     act_bind (act_lift (to_public_user u)) (\<lambda>pu.
     ok_response [(''status'', JBool True), (''user'', pu)])))))))"

section \<open>Deleting the user\<close>

definition require_password :: "auth_env \<Rightarrow> auth_user \<Rightarrow> string \<Rightarrow> unit auth_act" where
  "require_password env u password =
     guard_act (verifies env password (extract_password_hash (au_metadata u))) invalid_credentials"

definition delete_user_route :: "auth_config \<Rightarrow> auth_env \<Rightarrow> auth_request \<Rightarrow> auth_response auth_act" where
  "delete_user_route cfg env req =
     act_bind (require_session cfg env req) (\<lambda>r.
     act_bind (act_lift (read_json_body env cfg req)) (\<lambda>body.
     act_bind
       (case non_empty (as_string_field body ''password'') of
          None \<Rightarrow> act_return ()
        | Some password \<Rightarrow> require_password env (rv_user r) password) (\<lambda>_.
     act_bind (delete_user (au_id (rv_user r))) (\<lambda>_.
     act_bind (clear_session_cookie cfg req) (\<lambda>_.
     ok_response [(''message'', JStr ''User deleted''), (''success'', JBool True)])))))"

section \<open>API keys\<close>

definition safe_json :: "auth_env \<Rightarrow> string option \<Rightarrow> jval" where
  "safe_json env v =
     (case non_empty v of
        None \<Rightarrow> Null
      | Some s \<Rightarrow> (case ae_parse_json env s of Some j \<Rightarrow> j | None \<Rightarrow> JStr s))"

definition to_public_api_key :: "auth_env \<Rightarrow> auth_api_key \<Rightarrow> string option \<Rightarrow> (auth_error, fields) result" where
  "to_public_api_key env k full_key =
     rmap (\<lambda>expires.
       [(''createdAt'', iso (ak_created_at k)), (''enabled'', JBool (ak_enabled k)), (''expiresAt'', expires),
        (''id'', JStr (ak_id k)), (''key'', case full_key of Some f \<Rightarrow> JStr f | None \<Rightarrow> Undefined),
        (''lastRequest'', opt_iso (ak_last_request k)), (''metadata'', safe_json env (ak_metadata k)),
        (''name'', opt_json (ak_name k)), (''permissions'', safe_json env (ak_permissions k)),
        (''prefix'', opt_json (ak_prefix k)),
        (''remaining'', case ak_remaining k of Some n \<Rightarrow> JNum n | None \<Rightarrow> Null),
        (''start'', opt_json (ak_start k)), (''updatedAt'', iso (ak_updated_at k)), (''userId'', JStr (ak_user_id k))])
     (as_iso (ak_expires_at k))"

text \<open>The public key of a row with its \<open>key\<close> property deleted.\<close>

definition listed_api_key :: "auth_env \<Rightarrow> auth_api_key \<Rightarrow> (auth_error, jval) result" where
  "listed_api_key env k = rmap (\<lambda>fs. object (ddelete ''key'' fs)) (to_public_api_key env k None)"

text \<open>\<open>generateApiKey\<close>: the full key and the first characters of its random part.\<close>

definition generate_api_key :: "auth_env \<Rightarrow> string option \<Rightarrow> (string \<times> string) auth_act" where
  "generate_api_key env prefix =
     act_bind (draw (\<lambda>n. ae_base64url env (ae_random_bytes env n 32))) (\<lambda>raw.
     act_return (get_or prefix [] @ raw, take 6 raw))"

text \<open>\<open>new Date(Date.now() + Number.parseInt(expiresIn, 10) * 1000)\<close>.\<close>

definition expiry_after :: "int \<Rightarrow> jnum \<Rightarrow> js_date" where
  "expiry_after now seconds = time_clip (num_sub (jint now) (num_neg (num_mul seconds (jint 1000))))"

definition api_key_create :: "auth_config \<Rightarrow> auth_env \<Rightarrow> auth_request \<Rightarrow> auth_response auth_act" where
  "api_key_create cfg env req =
     act_bind (require_session cfg env req) (\<lambda>r.
     act_bind (act_lift (read_json_body env cfg req)) (\<lambda>body.
     act_bind (generate_api_key env (as_string_field body ''prefix'')) (\<lambda>(full_key, start).
     act_bind (new_uuid env) (\<lambda>kid.
     act_bind (create_api_key
       \<lparr>ak_created_at = ae_now env, ak_enabled = True,
        ak_expires_at = map_option (\<lambda>n. expiry_after (ae_now env) (js_parse_int n)) (non_empty (as_string_field body ''expiresIn'')),
        ak_id = kid, ak_key = ae_sha256_base64url env full_key, ak_last_request = None,
        ak_metadata = as_string_field body ''metadata'', ak_name = as_string_field body ''name'',
        ak_permissions = as_string_field body ''permissions'', ak_prefix = as_string_field body ''prefix'',
        ak_remaining = map_option js_parse_int (non_empty (as_string_field body ''remaining'')),
        ak_start = Some start, ak_updated_at = ae_now env,
        ak_user_id = get_or (as_string_field body ''userId'') (au_id (rv_user r))\<rparr>) (\<lambda>k.
     act_bind (act_lift (to_public_api_key env k (Some full_key))) (\<lambda>fs.
     ok_response fs))))))"

definition api_key_list :: "auth_config \<Rightarrow> auth_env \<Rightarrow> auth_request \<Rightarrow> auth_response auth_act" where
  "api_key_list cfg env req =
     act_bind (require_session cfg env req) (\<lambda>r.
     act_bind (list_api_keys (au_id (rv_user r))) (\<lambda>ks.
     act_bind (act_lift (map_r (listed_api_key env) ks)) (\<lambda>js.
     ok_response [(''apiKeys'', JArr js)])))"

definition own_key :: "string \<Rightarrow> resolved_session \<Rightarrow> auth_api_key auth_act" where
  "own_key kid r =
     act_bind (get_api_key_by_id kid) (\<lambda>found.
     act_bind (require_some found (not_found ''API key not found'')) (\<lambda>k.
     act_bind (guard_act (ak_user_id k = au_id (rv_user r)) (not_found ''API key not found'')) (\<lambda>_.
     act_return k)))"

definition api_key_get :: "auth_config \<Rightarrow> auth_env \<Rightarrow> auth_request \<Rightarrow> auth_response auth_act" where
  "api_key_get cfg env req =
     act_bind (require_session cfg env req) (\<lambda>r.
     act_bind (act_lift
       (if request_method req = ''GET'' then Ok (query_param req ''id'')
        else rmap (\<lambda>body. as_string_field body ''id'') (read_json_body env cfg req))) (\<lambda>given.
     act_bind (require_some (non_empty given) (bad_request ''id is required'')) (\<lambda>kid.
     act_bind (own_key kid r) (\<lambda>k.
     act_bind (act_lift (listed_api_key env k)) (\<lambda>j.
     json_response 200 j)))))"

text \<open>\<open>asStringField(body, "keyId") ?? requireStringField(body, "id")\<close>.\<close>

definition key_id_of :: "fields \<Rightarrow> (auth_error, string) result" where
  "key_id_of body =
     (case as_string_field body ''keyId'' of Some kid \<Rightarrow> Ok kid | None \<Rightarrow> require_string_field body ''id'')"

definition api_key_delete :: "auth_config \<Rightarrow> auth_env \<Rightarrow> auth_request \<Rightarrow> auth_response auth_act" where
  "api_key_delete cfg env req =
     act_bind (require_session cfg env req) (\<lambda>r.
     act_bind (act_lift (read_json_body env cfg req)) (\<lambda>body.
     act_bind (act_lift (key_id_of body)) (\<lambda>kid.
     act_bind (own_key kid r) (\<lambda>_.
     act_bind (delete_api_key kid) (\<lambda>_.
     success_true)))))"

definition api_key_verify :: "auth_config \<Rightarrow> auth_env \<Rightarrow> auth_request \<Rightarrow> auth_response auth_act" where
  "api_key_verify cfg env req =
     act_bind (act_lift (read_json_body env cfg req)) (\<lambda>body.
     act_bind (act_lift (require_string_field body ''key'')) (\<lambda>raw.
     act_bind (get_api_key_by_hash (ae_sha256_base64url env raw)) (\<lambda>found.
     case found of
       Some k \<Rightarrow>
         if api_key_usable env k then
           act_bind (touch_api_key env (ak_id k)) (\<lambda>_.
           act_bind (act_lift (listed_api_key env k)) (\<lambda>j.
           ok_response [(''error'', Null), (''key'', j), (''valid'', JBool True)]))
         else ok_response
           [(''error'', object [(''code'', JStr ''INVALID_API_KEY''), (''message'', JStr ''Invalid API key'')]),
            (''key'', Null), (''valid'', JBool False)]
     | None \<Rightarrow> ok_response
         [(''error'', object [(''code'', JStr ''INVALID_API_KEY''), (''message'', JStr ''Invalid API key'')]),
          (''key'', Null), (''valid'', JBool False)])))"

definition api_key_delete_expired :: "auth_config \<Rightarrow> auth_env \<Rightarrow> auth_request \<Rightarrow> auth_response auth_act" where
  "api_key_delete_expired cfg env req =
     act_bind (require_session cfg env req) (\<lambda>_.
     act_bind (delete_expired_api_keys env) (\<lambda>n.
     ok_response [(''deleted'', JNum (jint (int n)))]))"

definition api_key_update :: "auth_config \<Rightarrow> auth_env \<Rightarrow> auth_request \<Rightarrow> auth_response auth_act" where
  "api_key_update cfg env req =
     act_bind (require_session cfg env req) (\<lambda>r.
     act_bind (act_lift (read_json_body env cfg req)) (\<lambda>body.
     act_bind (act_lift (key_id_of body)) (\<lambda>kid.
     act_bind (own_key kid r) (\<lambda>_.
     act_bind (update_api_key env kid
       \<lparr>kp_enabled = (case get_prop ''enabled'' body of JBool b \<Rightarrow> Some b | _ \<Rightarrow> None),
        kp_metadata = as_string_field body ''metadata'', kp_name = as_string_field body ''name'',
        kp_permissions = as_string_field body ''permissions''\<rparr>) (\<lambda>updated.
     act_bind (require_some updated (not_found ''API key not found'')) (\<lambda>k.
     act_bind (act_lift (listed_api_key env k)) (\<lambda>j.
     json_response 200 j)))))))"

section \<open>Second factors\<close>

text \<open>Five bytes in hexadecimal, cut to eight digits.\<close>

definition hex_upper :: "nat \<Rightarrow> char" where
  "hex_upper n = upper_char (hex_char n)"

definition backup_code :: "bytes \<Rightarrow> string" where
  "backup_code bs = take 8 (concat (map (\<lambda>b. [hex_upper (unat b div 16), hex_upper (unat b mod 16)]) bs))"

fun times_act :: "nat \<Rightarrow> 'a auth_act \<Rightarrow> 'a list auth_act" where
  "times_act 0 m = act_return []"
| "times_act (Suc n) m = act_bind m (\<lambda>x. act_bind (times_act n m) (\<lambda>xs. act_return (x # xs)))"

fun map_act :: "('a \<Rightarrow> 'b auth_act) \<Rightarrow> 'a list \<Rightarrow> 'b list auth_act" where
  "map_act f [] = act_return []"
| "map_act f (x # xs) = act_bind (f x) (\<lambda>y. act_bind (map_act f xs) (\<lambda>ys. act_return (y # ys)))"

definition generate_backup_codes :: "auth_env \<Rightarrow> string list auth_act" where
  "generate_backup_codes env = times_act 10 (draw (\<lambda>n. backup_code (ae_random_bytes env n 5)))"

definition hash_backup_codes :: "auth_env \<Rightarrow> string list \<Rightarrow> string auth_act" where
  "hash_backup_codes env codes =
     act_bind (map_act (hash_password env) codes) (\<lambda>hashes.
     act_return (stringify (JArr (map JStr hashes))))"

text \<open>The caller, who also gave the right password.\<close>

definition password_session :: "auth_config \<Rightarrow> auth_env \<Rightarrow> auth_request \<Rightarrow> (resolved_session \<times> fields) auth_act" where
  "password_session cfg env req =
     act_bind (require_session cfg env req) (\<lambda>r.
     act_bind (act_lift (read_json_body env cfg req)) (\<lambda>body.
     act_bind (act_lift (require_string_field body ''password'')) (\<lambda>password.
     act_bind (require_password env (rv_user r) password) (\<lambda>_.
     act_return (r, body)))))"

definition totp_account :: "auth_user \<Rightarrow> string" where
  "totp_account u = get_or (au_email u) (au_id u)"

definition two_factor_enable :: "auth_config \<Rightarrow> auth_env \<Rightarrow> auth_request \<Rightarrow> auth_response auth_act" where
  "two_factor_enable cfg env req =
     act_bind (password_session cfg env req) (\<lambda>(r, body).
     act_bind (draw (\<lambda>n. encode_base32 (ae_random_bytes env n 20))) (\<lambda>secret.
     act_bind (generate_backup_codes env) (\<lambda>codes.
     act_bind (hash_backup_codes env codes) (\<lambda>hashed.
     act_bind (new_uuid env) (\<lambda>fid.
     act_bind (create_two_factor env (Some hashed) fid secret (au_id (rv_user r))) (\<lambda>_.
     act_bind (update_user env (au_id (rv_user r)) (no_patch\<lparr>up_two_factor_enabled := Some True\<rparr>)) (\<lambda>_.
     ok_response
       [(''backupCodes'', JArr (map JStr codes)),
        (''totpURI'', JStr (build_totp_uri env (totp_account (rv_user r))
          (get_or (as_string_field body ''issuer'') ''AthenaAuth'') secret))])))))))"

definition two_factor_get_totp_uri :: "auth_config \<Rightarrow> auth_env \<Rightarrow> auth_request \<Rightarrow> auth_response auth_act" where
  "two_factor_get_totp_uri cfg env req =
     act_bind (password_session cfg env req) (\<lambda>(r, body).
     act_bind (get_two_factor_by_user_id (au_id (rv_user r))) (\<lambda>found.
     act_bind (require_some found (not_found ''Two-factor authentication not enabled'')) (\<lambda>f.
     ok_response [(''totpURI'', JStr (build_totp_uri env (totp_account (rv_user r)) ''AthenaAuth'' (tf_secret f)))])))"

definition two_factor_disable :: "auth_config \<Rightarrow> auth_env \<Rightarrow> auth_request \<Rightarrow> auth_response auth_act" where
  "two_factor_disable cfg env req =
     act_bind (password_session cfg env req) (\<lambda>(r, body).
     act_bind (delete_two_factor (au_id (rv_user r))) (\<lambda>_.
     act_bind (update_user env (au_id (rv_user r)) (no_patch\<lparr>up_two_factor_enabled := Some False\<rparr>)) (\<lambda>_.
     status_true)))"

definition two_factor_generate_backup_codes :: "auth_config \<Rightarrow> auth_env \<Rightarrow> auth_request \<Rightarrow> auth_response auth_act" where
  "two_factor_generate_backup_codes cfg env req =
     act_bind (password_session cfg env req) (\<lambda>(r, body).
     act_bind (get_two_factor_by_user_id (au_id (rv_user r))) (\<lambda>found.
     act_bind (require_some found (not_found ''Two-factor authentication not enabled'')) (\<lambda>f.
     act_bind (generate_backup_codes env) (\<lambda>codes.
     act_bind (hash_backup_codes env codes) (\<lambda>hashed.
     act_bind (update_two_factor_backup_codes env (au_id (rv_user r)) hashed) (\<lambda>_.
     ok_response [(''backupCodes'', JArr (map JStr codes)), (''status'', JBool True)]))))))"

text \<open>
  Who presents a second factor: the user a pending token was issued for, or the caller. The two
  routes differ in what they answer to a pending token that is not known.
\<close>

definition pending_token :: "fields \<Rightarrow> auth_request \<Rightarrow> string option" where
  "pending_token body req =
     or_else (as_string_field body ''token'') (read_bearer_token (header req ''authorization''))"

definition is_pending :: "string option \<Rightarrow> bool" where
  "is_pending v = (case v of None \<Rightarrow> False | Some t \<Rightarrow> starts_with t ''2fa_'')"

definition second_factor_user ::
  "auth_config \<Rightarrow> auth_env \<Rightarrow> auth_request \<Rightarrow> fields \<Rightarrow> auth_error \<Rightarrow> auth_user auth_act" where
  "second_factor_user cfg env req body unknown =
     (if is_pending (pending_token body req) then
        act_bind (consume_verification env (the (pending_token body req))) (\<lambda>found.
        act_bind (require_some found unknown) (\<lambda>v.
        act_bind (get_user_by_id (without_prefix ''2fa_pending:'' (av_identifier v))) (\<lambda>owner.
        require_some owner unauthenticated)))
      else act_bind (require_session cfg env req) (\<lambda>r. act_return (rv_user r)))"

definition two_factor_verify_totp :: "auth_config \<Rightarrow> auth_env \<Rightarrow> auth_request \<Rightarrow> auth_response auth_act" where
  "two_factor_verify_totp cfg env req =
     act_bind (act_lift (read_json_body env cfg req)) (\<lambda>body.
     act_bind (act_lift (require_string_field body ''code'')) (\<lambda>totp.
     act_bind (second_factor_user cfg env req body (bad_request ''Invalid or expired token'')) (\<lambda>u.
     act_bind (get_two_factor_by_user_id (au_id u)) (\<lambda>found.
     act_bind (require_some found (not_found ''Two-factor authentication not enabled'')) (\<lambda>f.
     act_bind (guard_act (verify_totp_code (ae_hmac_sha1 env) (ae_now env) (decode_base32 (tf_secret f)) totp)
       (bad_request ''Invalid TOTP code'')) (\<lambda>_.
     act_bind (issue_session cfg env req (au_id u)) (\<lambda>x.
     act_bind (get_user_by_id (au_id u)) (\<lambda>refreshed.
     act_bind (act_lift (to_public_user (get_or refreshed u))) (\<lambda>pu.
     ok_response [(''status'', JBool True), (''token'', JStr (as_token x)), (''user'', pu)])))))))))"

definition two_factor_send_otp :: "auth_config \<Rightarrow> auth_env \<Rightarrow> auth_request \<Rightarrow> auth_response auth_act" where
  "two_factor_send_otp cfg env req =
     act_bind (require_session cfg env req) (\<lambda>r.
     act_bind (draw (\<lambda>n. pad_left 6 (show_nat (ae_random_otp env n)))) (\<lambda>otp.
     act_bind (new_uuid env) (\<lambda>vid.
     act_bind (create_verification env (ae_now env + 300000) vid (''2fa_otp:'' @ au_id (rv_user r)) otp) (\<lambda>_.
     act_bind
       (case non_empty (au_email (rv_user r)) of
          None \<Rightarrow> act_return ()
        | Some email \<Rightarrow> send_mail email ''two-factor-otp'' otp) (\<lambda>_.
     status_true)))))"

definition two_factor_verify_otp :: "auth_config \<Rightarrow> auth_env \<Rightarrow> auth_request \<Rightarrow> auth_response auth_act" where
  "two_factor_verify_otp cfg env req =
     act_bind (require_session cfg env req) (\<lambda>r.
     act_bind (act_lift (read_json_body env cfg req)) (\<lambda>body.
     act_bind (act_lift (require_string_field body ''code'')) (\<lambda>otp.
     act_bind (get_verification_by_value env otp) (\<lambda>found.
     act_bind (require_some found (bad_request ''Invalid OTP code'')) (\<lambda>v.
     act_bind (guard_act (av_identifier v = ''2fa_otp:'' @ au_id (rv_user r)) (bad_request ''Invalid OTP code'')) (\<lambda>_.
     act_bind (consume_verification env otp) (\<lambda>_.
     status_true)))))))"

text \<open>The hashes of a record that are left once the first that the code verifies against is taken out.\<close>

fun spend_backup_code :: "(string \<Rightarrow> bool) \<Rightarrow> jval list \<Rightarrow> jval list option" where
  "spend_backup_code ok [] = None"
| "spend_backup_code ok (h # hs) =
     (if (case h of JStr s \<Rightarrow> ok s | _ \<Rightarrow> False) then Some hs else map_option ((#) h) (spend_backup_code ok hs))"

definition stored_backup_codes :: "auth_env \<Rightarrow> auth_two_factor option \<Rightarrow> (auth_error, jval list) result" where
  "stored_backup_codes env found =
     (case found of
        None \<Rightarrow> Throw (bad_request ''Invalid backup code'')
      | Some f \<Rightarrow>
          (case non_empty (tf_backup_codes f) of
             None \<Rightarrow> Throw (bad_request ''Invalid backup code'')
           | Some text \<Rightarrow>
               (case ae_parse_json env text of
                  Some (JArr hs) \<Rightarrow> Ok hs
                | _ \<Rightarrow> Throw (UnexpectedError ''hashed.entries is not a function''))))"

definition two_factor_verify_backup_code :: "auth_config \<Rightarrow> auth_env \<Rightarrow> auth_request \<Rightarrow> auth_response auth_act" where
  "two_factor_verify_backup_code cfg env req =
     act_bind (act_lift (read_json_body env cfg req)) (\<lambda>body.
     act_bind (act_lift (require_string_field body ''code'')) (\<lambda>given.
     act_bind (second_factor_user cfg env req body unauthenticated) (\<lambda>u.
     act_bind (get_two_factor_by_user_id (au_id u)) (\<lambda>found.
     act_bind (act_lift (stored_backup_codes env found)) (\<lambda>hashes.
     act_bind (require_some (spend_backup_code (ph_verify (ae_hasher env) (js_upper given)) hashes)
       (bad_request ''Invalid backup code'')) (\<lambda>left.
     act_bind (update_two_factor_backup_codes env (au_id u) (stringify (JArr left))) (\<lambda>_.
     act_bind (issue_session cfg env req (au_id u)) (\<lambda>x.
     act_bind (act_lift (to_public_user u)) (\<lambda>pu.
     ok_response
       [(''session'', object [(''token'', JStr (as_token x)), (''userId'', JStr (au_id u))]), (''user'', pu)])))))))))"

section \<open>The routes\<close>

definition found_route :: "auth_response auth_act \<Rightarrow> auth_response option auth_act" where
  "found_route m = act_bind m (\<lambda>x. act_return (Some x))"

definition handle_extended_route ::
  "auth_config \<Rightarrow> auth_env \<Rightarrow> auth_request \<Rightarrow> string \<Rightarrow> auth_response option auth_act" where
  "handle_extended_route cfg env req path =
     (let post = request_method req = ''POST''; get = request_method req = ''GET'' in
      if path = ''/send-verification-email'' \<and> post then found_route (send_verification_email cfg env req)
      else if path = ''/verify-email'' \<and> get then found_route (verify_email env req)
      else if path = ''/change-email'' \<and> post then found_route (change_email cfg env req)
      else if path = ''/change-email/verify'' \<and> post then found_route (change_email_verify cfg env req)
      else if path = ''/delete-user'' \<and> post then found_route (delete_user_route cfg env req)
      else if path = ''/api-key/create'' \<and> post then found_route (api_key_create cfg env req)
      else if path = ''/api-key/list'' \<and> get then found_route (api_key_list cfg env req)
      else if path = ''/api-key/get'' \<and> (get \<or> post) then found_route (api_key_get cfg env req)
      else if path = ''/api-key/delete'' \<and> post then found_route (api_key_delete cfg env req)
      else if path = ''/api-key/verify'' \<and> post then found_route (api_key_verify cfg env req)
      else if path = ''/api-key/delete-all-expired-api-keys'' \<and> post then found_route (api_key_delete_expired cfg env req)
      else if path = ''/api-key/update'' \<and> post then found_route (api_key_update cfg env req)
      else if path = ''/two-factor/enable'' \<and> post then found_route (two_factor_enable cfg env req)
      else if path = ''/two-factor/get-totp-uri'' \<and> post then found_route (two_factor_get_totp_uri cfg env req)
      else if path = ''/two-factor/disable'' \<and> post then found_route (two_factor_disable cfg env req)
      else if path = ''/two-factor/generate-backup-codes'' \<and> post then found_route (two_factor_generate_backup_codes cfg env req)
      else if path = ''/two-factor/verify-totp'' \<and> post then found_route (two_factor_verify_totp cfg env req)
      else if path = ''/two-factor/send-otp'' \<and> post then found_route (two_factor_send_otp cfg env req)
      else if path = ''/two-factor/verify-otp'' \<and> post then found_route (two_factor_verify_otp cfg env req)
      else if path = ''/two-factor/verify-backup-code'' \<and> post then found_route (two_factor_verify_backup_code cfg env req)
      else act_return None)"

end
