(* ===== verification/AuthAdmin.thy ===== *)
theory AuthAdmin
  imports AuthRoutes JsSort SqlText
begin

text \<open>
  Administration of users (\<open>admin-contract.ts\<close>, \<open>admin-routes.ts\<close>, \<open>MemoryAdminAuthStore\<close> of
  \<open>admin-store.ts\<close>): ranks of roles, the listing of users and one handler per route.
\<close>

section \<open>Roles\<close>

definition athena_auth_admin_roles :: "string list" where
  "athena_auth_admin_roles = [''user'', ''admin'', ''superadmin'', ''owner'']"

definition normalize_admin_role :: "string option \<Rightarrow> string option" where
  "normalize_admin_role role =
     (case non_empty (map_option js_trim role) of
        None \<Rightarrow> None
      | Some trimmed \<Rightarrow>
          Some (if js_lower trimmed \<in> set athena_auth_admin_roles then js_lower trimmed else trimmed))"

definition is_athena_admin_role :: "string option \<Rightarrow> bool" where
  "is_athena_admin_role role \<longleftrightarrow>
     normalize_admin_role role \<in> {Some ''admin'', Some ''superadmin'', Some ''owner''}"

definition admin_role_rank :: "string option \<Rightarrow> nat" where
  "admin_role_rank role =
     (case normalize_admin_role role of
        None \<Rightarrow> 0
      | Some r \<Rightarrow>
          if r = ''admin'' then 1 else if r = ''superadmin'' then 2 else if r = ''owner'' then 3 else 0)"

definition can_assign_role :: "string option \<Rightarrow> string option \<Rightarrow> bool" where
  "can_assign_role actor target \<longleftrightarrow>
     is_athena_admin_role actor \<and>
     (case normalize_admin_role target of
        None \<Rightarrow> False
      | Some assigned \<Rightarrow>
          assigned \<notin> set athena_auth_admin_roles \<or> admin_role_rank (Some assigned) < admin_role_rank actor)"

definition can_act_on_admin_target :: "string option \<Rightarrow> string option \<Rightarrow> bool" where
  "can_act_on_admin_target actor target =
     (if \<not> is_athena_admin_role target then is_athena_admin_role actor
      else admin_role_rank target < admin_role_rank actor)"

definition clamp_admin_list_limit :: "jnum option \<Rightarrow> int" where
  "clamp_admin_list_limit n = (case n of Some (Fin r) \<Rightarrow> min 100 (max 1 (rat_trunc r)) | _ \<Rightarrow> 50)"

definition clamp_admin_list_offset :: "jnum option \<Rightarrow> int" where
  "clamp_admin_list_offset n = (case n of Some (Fin r) \<Rightarrow> max 0 (rat_trunc r) | _ \<Rightarrow> 0)"

section \<open>The store\<close>

definition newest_first :: "auth_user \<Rightarrow> auth_user \<Rightarrow> int" where
  "newest_first = ranked_compare (\<lambda>u. - au_created_at u) au_id"

definition listed_user :: "string option \<Rightarrow> string option \<Rightarrow> bool option \<Rightarrow> auth_user \<Rightarrow> bool" where
  "listed_user query role banned u \<longleftrightarrow>
     (role = None \<or> au_role u = role) \<and> (banned = None \<or> Some (au_banned u) = banned) \<and>
     (case query of
        None \<Rightarrow> True
      | Some q \<Rightarrow>
          list_ex (\<lambda>v. case non_empty v of Some s \<Rightarrow> js_includes (js_lower s) q | None \<Rightarrow> False)
            [au_email u, au_name u, au_username u, Some (au_id u)])"

definition admin_list_users ::
  "jnum option \<Rightarrow> jnum option \<Rightarrow> string option \<Rightarrow> string option \<Rightarrow> bool option \<Rightarrow> (nat \<times> auth_user list) auth_act" where
  "admin_list_users limit offset query role banned = act_get (\<lambda>s.
     let rows = js_sort newest_first
           (filter (listed_user (non_empty (map_option (\<lambda>q. js_lower (js_trim q)) query))
              (non_empty (map_option js_trim role)) banned) (dvalues (st_users s)))
     in (length rows,
         take (nat (clamp_admin_list_limit limit)) (drop (nat (clamp_admin_list_offset offset)) rows)))"

definition admin_create_user :: "auth_env \<Rightarrow> create_user_input \<Rightarrow> string \<Rightarrow> auth_user auth_act" where
  "admin_create_user env inp role =
     act_bind (create_user env inp) (\<lambda>u.
     act_bind
       (if role = [] then act_return u else update_user env (au_id u) (no_patch\<lparr>up_role := Some (Some role)\<rparr>)) (\<lambda>_.
     act_bind
       (case non_empty (as_string_field (cu_metadata inp) ''password_hash'') of
          None \<Rightarrow> act_return ()
        | Some hash \<Rightarrow>
            act_catch
              (act_bind (new_uuid env) (\<lambda>aid. create_account env (au_id u) aid (Some hash) ''credential'' (au_id u)))
              (\<lambda>e. act_bind (delete_user (au_id u)) (\<lambda>_. act_throw e))) (\<lambda>_.
     act_bind (get_user_by_id (au_id u)) (\<lambda>found.
     act_return (get_or found u)))))"

text \<open>With the memory stores creating an account cannot fail, so the user is never removed again.\<close>

lemma admin_create_user_eq:
  "admin_create_user env inp role =
     act_bind (create_user env inp) (\<lambda>u.
     act_bind
       (if role = [] then act_return u else update_user env (au_id u) (no_patch\<lparr>up_role := Some (Some role)\<rparr>)) (\<lambda>_.
     act_bind
       (case non_empty (as_string_field (cu_metadata inp) ''password_hash'') of
          None \<Rightarrow> act_return ()
        | Some hash \<Rightarrow>
            act_bind (new_uuid env) (\<lambda>aid. create_account env (au_id u) aid (Some hash) ''credential'' (au_id u))) (\<lambda>_.
     act_bind (get_user_by_id (au_id u)) (\<lambda>found.
     act_return (get_or found u)))))"
proof -
  have "act_catch (act_bind (new_uuid env) (\<lambda>aid. create_account env x aid p q w)) h =
      act_bind (new_uuid env) (\<lambda>aid. create_account env x aid p q w)" for x p q w h
    by (rule ext) (simp add: new_uuid_def draw_def create_account_def act_defs)
  then show ?thesis by (simp add: admin_create_user_def cong: option.case_cong)
qed

definition admin_delete_user :: "string \<Rightarrow> bool auth_act" where
  "admin_delete_user uid =
     act_bind (get_user_by_id uid) (\<lambda>found.
     if found = None then act_return False
     else act_bind (delete_user uid) (\<lambda>_. act_return True))"

section \<open>Reading requests\<close>

text \<open>The pattern \<open>/^[^\s@]+@[^\s@]+\.[^\s@]+$/\<close> on the trimmed address.\<close>

definition is_valid_email :: "string \<Rightarrow> bool" where
  "is_valid_email email =
     (let t = js_trim email in
      \<not> list_ex is_ws t \<and>
      (case split_on (CHR ''@'') t of
         [local, domain] \<Rightarrow> local \<noteq> [] \<and> list_ex (\<lambda>i. domain ! i = CHR ''.'') [1..<length domain - 1]
       | _ \<Rightarrow> False))"

definition parse_boolean_param :: "string option \<Rightarrow> bool option" where
  "parse_boolean_param v =
     (if v = Some ''true'' \<or> v = Some ''1'' then Some True
      else if v = Some ''false'' \<or> v = Some ''0'' then Some False else None)"

definition parse_integer_param :: "string option \<Rightarrow> jnum option" where
  "parse_integer_param v =
     (case non_empty v of
        None \<Rightarrow> None
      | Some s \<Rightarrow> if is_finite (js_parse_int s) then Some (js_parse_int s) else None)"

definition parse_nullable_date :: "auth_env \<Rightarrow> jval \<Rightarrow> (auth_error, js_date option option) result" where
  "parse_nullable_date env v =
     (case v of
        Undefined \<Rightarrow> Ok None
      | Null \<Rightarrow> Ok (Some None)
      | JStr s \<Rightarrow>
          if s = [] then Ok (Some None)
          else
            (case ae_parse_date env s of
               None \<Rightarrow> Throw (bad_request ''banExpires must be a valid ISO date'')
             | Some t \<Rightarrow> Ok (Some (Some (Some t))))
      | _ \<Rightarrow> Throw (bad_request ''banExpires must be an ISO date or null''))"

text \<open>\<open>body.key === null ? null : asStringField(body, key)\<close>.\<close>

definition nullable_string_field :: "fields \<Rightarrow> string \<Rightarrow> string option option" where
  "nullable_string_field body key =
     (if get_prop key body = Null then Some None else map_option Some (as_string_field body key))"

definition bool_field :: "fields \<Rightarrow> string \<Rightarrow> bool option" where
  "bool_field body key = (case get_prop key body of JBool b \<Rightarrow> Some b | _ \<Rightarrow> None)"

definition require_admin :: "auth_config \<Rightarrow> auth_env \<Rightarrow> auth_request \<Rightarrow> resolved_session auth_act" where
  "require_admin cfg env req =
     act_bind (require_session cfg env req) (\<lambda>r.
     act_bind (guard_act (is_athena_admin_role (au_role (rv_user r)))
       (forbidden_with ''Administrator access required'')) (\<lambda>_.
     act_return r))"

definition user_response :: "auth_user \<Rightarrow> auth_response auth_act" where
  "user_response u = act_bind (act_lift (to_public_user u)) (\<lambda>pu. ok_response [(''user'', pu)])"

definition existing_user :: "string \<Rightarrow> auth_user auth_act" where
  "existing_user uid =
     act_bind (get_user_by_id uid) (\<lambda>found. require_some found (not_found ''User not found''))"

section \<open>Handlers\<close>

text \<open>The marker of the session allows this one, not the role of the impersonated user.\<close>

definition stop_impersonating :: "auth_config \<Rightarrow> auth_env \<Rightarrow> auth_request \<Rightarrow> auth_response auth_act" where
  "stop_impersonating cfg env req =
     act_bind (require_session cfg env req) (\<lambda>r.
     act_bind (require_some (non_empty (as_impersonated_by (rv_session r)))
       (bad_request ''Current session is not impersonated'')) (\<lambda>admin_id.
     act_bind (delete_session (rv_token r)) (\<lambda>_.
     act_bind (get_user_by_id admin_id) (\<lambda>found.
     act_bind (require_some found (not_found ''Impersonating administrator not found'')) (\<lambda>admin.
     act_bind (issue_session cfg env req admin_id) (\<lambda>x.
     act_bind (act_lift (to_public_user admin)) (\<lambda>pu.
     ok_response
       [(''impersonatedBy'', JStr admin_id), (''session'', to_public_session x), (''success'', JBool True),
        (''user'', pu)])))))))"

definition admin_list_users_route :: "auth_request \<Rightarrow> auth_response auth_act" where
  "admin_list_users_route req =
     (let limit = parse_integer_param (query_param req ''limit''); offset = parse_integer_param (query_param req ''offset'') in
      act_bind (admin_list_users limit offset (query_param req ''query'') (query_param req ''role'')
        (parse_boolean_param (query_param req ''banned''))) (\<lambda>(total, page).
      act_bind (act_lift (map_r to_public_user page)) (\<lambda>us.
      ok_response
        [(''limit'', JNum (jint (clamp_admin_list_limit limit))), (''offset'', JNum (jint (clamp_admin_list_offset offset))),
         (''total'', JNum (jint (int total))), (''users'', JArr us)])))"

definition admin_get_user_route :: "auth_config \<Rightarrow> auth_env \<Rightarrow> auth_request \<Rightarrow> auth_response auth_act" where
  "admin_get_user_route cfg env req =
     act_bind (act_lift
       (if request_method req = ''GET'' then Ok (map_option js_trim (query_param req ''userId''))
        else rmap (\<lambda>body. as_string_field body ''userId'') (read_json_body env cfg req))) (\<lambda>given.
     act_bind (require_some (non_empty given) (bad_request ''userId is required'')) (\<lambda>uid.
     act_bind (existing_user uid) user_response))"

definition admin_create_user_route :: "auth_config \<Rightarrow> auth_env \<Rightarrow> auth_request \<Rightarrow> resolved_session \<Rightarrow> auth_response auth_act" where
  "admin_create_user_route cfg env req actor =
     act_bind (act_lift (read_json_body env cfg req)) (\<lambda>body.
     act_bind (act_lift (require_string_field body ''email'')) (\<lambda>email.
     act_bind (guard_act (is_valid_email email) (bad_request ''email must be a valid email address'')) (\<lambda>_.
     act_bind (get_user_by_email email) (\<lambda>taken.
     act_bind (guard_act (taken = None) (conflict email_taken)) (\<lambda>_.
     act_bind (act_lift (require_string_field body ''password'')) (\<lambda>password.
     act_bind (act_lift (validate_password cfg password)) (\<lambda>_.
     let role = get_or (normalize_admin_role (as_string_field body ''role'')) ''user'' in
     act_bind (guard_act (can_assign_role (au_role (rv_user actor)) (Some role))
       (forbidden_with ''Cannot assign a role at or above your authority'')) (\<lambda>_.
     act_bind (hash_password env password) (\<lambda>hash.
     act_bind (new_uuid env) (\<lambda>uid.
     act_bind (admin_create_user env
       \<lparr>cu_email = Some email, cu_email_verified = Some (get_prop ''emailVerified'' body = JBool True), cu_id = uid,
        cu_metadata = with_password_hash [] hash, cu_name = Some (name_or_local_part body email),
        cu_username = as_string_field body ''username''\<rparr> role)
     user_response))))))))))"

definition admin_update_user_route :: "auth_config \<Rightarrow> auth_env \<Rightarrow> auth_request \<Rightarrow> auth_response auth_act" where
  "admin_update_user_route cfg env req =
     act_bind (act_lift (read_json_body env cfg req)) (\<lambda>body.
     act_bind (act_lift (require_string_field body ''userId'')) (\<lambda>uid.
     act_bind (update_user env uid
       (no_patch\<lparr>up_email := as_string_field body ''email'', up_email_verified := bool_field body ''emailVerified'',
                up_image := nullable_string_field body ''image'', up_name := nullable_string_field body ''name''\<rparr>))
     user_response))"

definition admin_set_role_route :: "auth_config \<Rightarrow> auth_env \<Rightarrow> auth_request \<Rightarrow> resolved_session \<Rightarrow> auth_response auth_act" where
  "admin_set_role_route cfg env req actor =
     act_bind (act_lift (read_json_body env cfg req)) (\<lambda>body.
     act_bind (act_lift (require_string_field body ''userId'')) (\<lambda>uid.
     act_bind (act_lift (require_string_field body ''role'')) (\<lambda>given.
     act_bind (require_some (normalize_admin_role (Some given)) (bad_request ''role is required'')) (\<lambda>role.
     act_bind (guard_act
       (\<not> (uid = au_id (rv_user actor) \<and> Some role \<noteq> normalize_admin_role (au_role (rv_user actor))))
       (bad_request ''Administrators cannot change their own role'')) (\<lambda>_.
     act_bind (existing_user uid) (\<lambda>target.
     act_bind (guard_act (can_assign_role (au_role (rv_user actor)) (Some role))
       (forbidden_with ''Cannot assign a role at or above your authority'')) (\<lambda>_.
     act_bind (guard_act (can_act_on_admin_target (au_role (rv_user actor)) (au_role target))
       (forbidden_with ''Cannot change the role of an equal or higher administrator'')) (\<lambda>_.
     act_bind (update_user env uid (no_patch\<lparr>up_role := Some (Some role)\<rparr>))
     user_response))))))))"

definition ban_expiry :: "auth_env \<Rightarrow> fields \<Rightarrow> (auth_error, js_date option option) result" where
  "ban_expiry env body =
     rbind (parse_nullable_date env (get_prop ''banExpires'' body)) (\<lambda>given.
     if given = None \<and> get_prop ''banExpiresIn'' body \<noteq> Undefined then
       (let seconds = to_number (get_prop ''banExpiresIn'' body) in
        if \<not> is_finite seconds \<or> num_le seconds (jint 0)
        then Throw (bad_request ''banExpiresIn must be a positive number of seconds'')
        else Ok (Some (Some (expiry_after (ae_now env) seconds))))
     else Ok given)"

definition admin_ban_user_route :: "auth_config \<Rightarrow> auth_env \<Rightarrow> auth_request \<Rightarrow> resolved_session \<Rightarrow> auth_response auth_act" where
  "admin_ban_user_route cfg env req actor =
     act_bind (act_lift (read_json_body env cfg req)) (\<lambda>body.
     act_bind (act_lift (require_string_field body ''userId'')) (\<lambda>uid.
     act_bind (guard_act (uid \<noteq> au_id (rv_user actor)) (bad_request ''Administrators cannot ban themselves'')) (\<lambda>_.
     act_bind (existing_user uid) (\<lambda>target.
     act_bind (guard_act (can_act_on_admin_target (au_role (rv_user actor)) (au_role target))
       (forbidden_with ''Cannot ban an equal or higher administrator'')) (\<lambda>_.
     act_bind (act_lift (ban_expiry env body)) (\<lambda>expires.
     act_bind (update_user env uid
       (no_patch\<lparr>up_ban_expires := expires, up_banned := Some True,
                up_ban_reason := nullable_string_field body ''banReason''\<rparr>)) (\<lambda>u.
     act_bind (delete_user_sessions uid None) (\<lambda>n.
     act_bind (act_lift (to_public_user u)) (\<lambda>pu.
     ok_response [(''revokedSessions'', JNum (jint (int n))), (''user'', pu)])))))))))"

definition admin_unban_user_route :: "auth_config \<Rightarrow> auth_env \<Rightarrow> auth_request \<Rightarrow> auth_response auth_act" where
  "admin_unban_user_route cfg env req =
     act_bind (act_lift (read_json_body env cfg req)) (\<lambda>body.
     act_bind (act_lift (require_string_field body ''userId'')) (\<lambda>uid.
     act_bind (update_user env uid unban_patch) user_response))"

definition admin_revoke_user_sessions_route ::
  "auth_config \<Rightarrow> auth_env \<Rightarrow> auth_request \<Rightarrow> resolved_session \<Rightarrow> auth_response auth_act" where
  "admin_revoke_user_sessions_route cfg env req actor =
     act_bind (act_lift (read_json_body env cfg req)) (\<lambda>body.
     act_bind (act_lift (require_string_field body ''userId'')) (\<lambda>uid.
     act_bind (delete_user_sessions uid
       (if get_prop ''exceptCurrent'' body = JBool True \<and> uid = au_id (rv_user actor)
        then Some (rv_token actor) else None)) (\<lambda>n.
     ok_response [(''revoked'', JNum (jint (int n))), (''success'', JBool True)])))"

definition admin_remove_user_route :: "auth_config \<Rightarrow> auth_env \<Rightarrow> auth_request \<Rightarrow> resolved_session \<Rightarrow> auth_response auth_act" where
  "admin_remove_user_route cfg env req actor =
     act_bind (act_lift (read_json_body env cfg req)) (\<lambda>body.
     act_bind (act_lift (require_string_field body ''userId'')) (\<lambda>uid.
     act_bind (guard_act (uid \<noteq> au_id (rv_user actor)) (bad_request ''Administrators cannot remove themselves'')) (\<lambda>_.
     act_bind (existing_user uid) (\<lambda>target.
     act_bind (guard_act (can_act_on_admin_target (au_role (rv_user actor)) (au_role target))
       (forbidden_with ''Cannot remove an equal or higher administrator'')) (\<lambda>_.
     act_bind (admin_delete_user uid) (\<lambda>removed.
     act_bind (guard_act removed (not_found ''User not found'')) (\<lambda>_.
     success_true)))))))"

text \<open>
  Between one minute and one hour, a quarter of an hour by default; so the date is valid.
\<close>

definition impersonation_seconds :: "fields \<Rightarrow> jnum" where
  "impersonation_seconds body =
     (let n = to_number (nullish_or (get_prop ''expiresInSeconds'' body) (JNum (jint 900))) in
      if is_finite n then
        (let m = num_max (jint 60) n in if num_less (jint 3600) m then jint 3600 else m)
      else jint 900)"

definition impersonation_expiry :: "auth_env \<Rightarrow> fields \<Rightarrow> int" where
  "impersonation_expiry env body = get_or (expiry_after (ae_now env) (impersonation_seconds body)) (ae_now env)"

definition admin_impersonate_user_route ::
  "auth_config \<Rightarrow> auth_env \<Rightarrow> auth_request \<Rightarrow> resolved_session \<Rightarrow> auth_response auth_act" where
  "admin_impersonate_user_route cfg env req actor =
     act_bind (act_lift (read_json_body env cfg req)) (\<lambda>body.
     act_bind (act_lift (require_string_field body ''userId'')) (\<lambda>uid.
     act_bind (guard_act (uid \<noteq> au_id (rv_user actor)) (bad_request ''Cannot impersonate the current user'')) (\<lambda>_.
     act_bind (existing_user uid) (\<lambda>target.
     act_bind (guard_act (can_act_on_admin_target (au_role (rv_user actor)) (au_role target))
       (forbidden_with ''Only a higher administrator may impersonate this user'')) (\<lambda>_.
     act_bind (new_uuid env) (\<lambda>sid.
     act_bind (new_uuid env) (\<lambda>tok.
     act_bind (create_session env
       \<lparr>ci_active_organization_id = as_active_organization_id (rv_session actor),
        ci_expires_at = impersonation_expiry env body, ci_id = sid, ci_impersonated_by = Some (au_id (rv_user actor)),
        ci_ip_address = request_client_ip req (ac_trusted_proxy cfg), ci_token = ''session_'' @ tok,
        ci_user_agent = header req ''user-agent'', ci_user_id = uid\<rparr>) (\<lambda>x.
     act_bind (append_cookie (create_session_cookie_header (as_token x) (ac_cookie_name cfg) (as_expires_at x)
       (should_set_secure_cookie req (ac_cookie_secure cfg)))) (\<lambda>_.
     act_bind (act_lift (to_public_user target)) (\<lambda>pu.
     ok_response [(''session'', to_public_session x), (''user'', pu)]))))))))))"

definition admin_actor_route ::
  "auth_config \<Rightarrow> auth_env \<Rightarrow> auth_request \<Rightarrow> string \<Rightarrow> resolved_session \<Rightarrow> auth_response auth_act" where
  "admin_actor_route cfg env req path actor =
     (let post = request_method req = ''POST''; get = request_method req = ''GET'' in
      if path = ''/admin/list-users'' \<and> get then admin_list_users_route req
      else if path = ''/admin/get-user'' \<and> (get \<or> post) then admin_get_user_route cfg env req
      else if path = ''/admin/create-user'' \<and> post then admin_create_user_route cfg env req actor
      else if path = ''/admin/update-user'' \<and> post then admin_update_user_route cfg env req
      else if path = ''/admin/set-role'' \<and> post then admin_set_role_route cfg env req actor
      else if path = ''/admin/ban-user'' \<and> post then admin_ban_user_route cfg env req actor
      else if path = ''/admin/unban-user'' \<and> post then admin_unban_user_route cfg env req
      else if path = ''/admin/revoke-user-sessions'' \<and> post then admin_revoke_user_sessions_route cfg env req actor
      else if path = ''/admin/remove-user'' \<and> post then admin_remove_user_route cfg env req actor
      else if path = ''/admin/impersonate-user'' \<and> post then admin_impersonate_user_route cfg env req actor
      else act_throw (not_found ''Admin route not found''))"

definition handle_admin_route :: "auth_config \<Rightarrow> auth_env \<Rightarrow> auth_request \<Rightarrow> string \<Rightarrow> auth_response auth_act" where
  "handle_admin_route cfg env req path =
     (if path = ''/admin/stop-impersonating'' \<and> request_method req = ''POST'' then stop_impersonating cfg env req
      else act_bind (require_admin cfg env req) (admin_actor_route cfg env req path))"

end
