(* ===== verification/AuthEmail.thy ===== *)
theory AuthEmail
  imports AuthAdmin
begin

text \<open>
  Mail templates of the local auth server (\<open>auth/email/*.ts\<close>, \<open>auth/local/email/store.ts\<close>,
  \<open>auth/local/email/routes.ts\<close>): the event catalog, variable bindings over users, organizations
  and sessions, rendering, attachment targets, the memory store and the administration routes.
  Rows are objects with the fields the code gives them, because updates spread partial objects
  over them, undefined members included.
\<close>

section \<open>The event catalog\<close>

record email_event_definition =
  ev_category :: string
  ev_default_template_key :: "string option"
  ev_description :: string
  ev_event_type :: string
  ev_optional_variables :: "string list"
  ev_required_variables :: "string list"

text \<open>Every entry is active and a system event.\<close>

definition email_event ::
  "string \<Rightarrow> string option \<Rightarrow> string \<Rightarrow> string \<Rightarrow> string list \<Rightarrow> string list \<Rightarrow> email_event_definition" where
  "email_event category template description type optional required =
     \<lparr>ev_category = category, ev_default_template_key = template, ev_description = description,
      ev_event_type = type, ev_optional_variables = optional, ev_required_variables = required\<rparr>"

definition auth_email_event_catalog :: "email_event_definition list" where
  "auth_email_event_catalog =
     [email_event ''user_lifecycle'' (Some ''verification_email'')
        ''Verify a user email address after signup or manual verification resend.''
        ''user.email.verify'' [''app_name'']
        [''verification_url''],
      email_event ''user_security'' (Some ''password_reset_email'')
        ''Send a password reset link.''
        ''user.password.reset'' [''app_name'']
        [''reset_url''],
      email_event ''user_security'' (Some ''change_email_confirmation_email'')
        ''Confirm a pending user email address change.''
        ''user.email.change.confirmation'' [''app_name'']
        [''verification_url''],
      email_event ''user_security'' (Some ''account_deletion_confirmation_email'')
        ''Confirm account deletion before destructive delete.''
        ''user.account.delete.confirmation'' [''app_name'']
        [''verification_url''],
      email_event ''user_security'' (Some ''two_factor_otp_email'')
        ''Deliver one-time passcode for two-factor authentication.''
        ''user.sign-in.otp'' [''app_name'']
        [''otp_code''],
      email_event ''organization_lifecycle'' (Some ''organization_invitation_email'')
        ''Invite a member to join an organization.''
        ''organization.member.invite'' [''app_name'']
        [''organization_name'', ''role'', ''inviter_identity'', ''invitation_url''],
      email_event ''user_security'' None
        ''Email-based sign-in link or magic-link authentication flow.''
        ''user.sign-in.email'' [''app_name'']
        [''sign_in_url''],
      email_event ''user_lifecycle'' None
        ''Welcome message after account creation.''
        ''user.sign-up.welcome'' [''app_name'', ''dashboard_url'']
        [''user_name''],
      email_event ''user_security'' None
        ''Security notification after password change completes.''
        ''user.password.changed'' [''app_name'', ''support_url'']
        [],
      email_event ''user_security'' None
        ''General security alert notification (suspicious sign-in, new device, policy event).''
        ''user.security.alert'' [''app_name'', ''support_url'']
        [''alert_title'', ''alert_details''],
      email_event ''organization_lifecycle'' None
        ''Organization creation confirmation and onboarding.''
        ''organization.create'' [''app_name'', ''organization_url'']
        [''organization_name''],
      email_event ''organization_lifecycle'' None
        ''Notify when a member is added without invite flow.''
        ''organization.member.added'' [''app_name'', ''actor_identity'']
        [''organization_name'', ''member_identity''],
      email_event ''organization_lifecycle'' None
        ''Notify when a member is removed from an organization.''
        ''organization.member.removed'' [''app_name'', ''actor_identity'']
        [''organization_name'', ''member_identity''],
      email_event ''organization_lifecycle'' None
        ''Notify when organization member role is changed.''
        ''organization.member.role.updated'' [''app_name'', ''previous_role'', ''actor_identity'']
        [''organization_name'', ''member_identity'', ''new_role''],
      email_event ''organization_lifecycle'' None
        ''Reminder message for pending organization invitations.''
        ''organization.member.invite.reminder'' [''app_name'', ''role'', ''inviter_identity'']
        [''organization_name'', ''invitation_url''],
      email_event ''organization_lifecycle'' None
        ''Notification that an invitation has been revoked.''
        ''organization.member.invite.revoked'' [''app_name'', ''inviter_identity'']
        [''organization_name'', ''invited_email'']]"

definition email_event_json :: "email_event_definition \<Rightarrow> jval" where
  "email_event_json e = object
     [(''category'', JStr (ev_category e)), (''default_template_key'', opt_json (ev_default_template_key e)),
      (''description'', JStr (ev_description e)), (''event_type'', JStr (ev_event_type e)),
      (''is_active'', JBool True), (''is_system'', JBool True),
      (''optional_variables'', JArr (map JStr (ev_optional_variables e))),
      (''required_variables'', JArr (map JStr (ev_required_variables e)))]"

section \<open>Variable bindings\<close>

text \<open>\<open>typeof value === "object"\<close> and no array, or the empty object.\<close>

definition as_record :: "jval \<Rightarrow> fields" where
  "as_record v = (case v of JObj i fs \<Rightarrow> fs | _ \<Rightarrow> [])"

definition object_spread :: "fields \<Rightarrow> fields \<Rightarrow> fields" where
  "object_spread a b = fold (\<lambda>(k, v) d. dset k v d) b a"

text \<open>
  The text of a column: strings as they are, numbers and booleans printed, other values as JSON;
  a date is printed as a JSON string.
\<close>

definition column_value :: "jval \<Rightarrow> string option" where
  "column_value v =
     (case v of
        Undefined \<Rightarrow> None
      | Null \<Rightarrow> None
      | JStr s \<Rightarrow> Some s
      | JNum n \<Rightarrow> Some (to_str v)
      | JBool b \<Rightarrow> Some (to_str v)
      | JFun k \<Rightarrow> None
      | _ \<Rightarrow> Some (stringify v))"

definition date_column :: "js_date \<Rightarrow> string option" where
  "date_column d = Some (case d of None \<Rightarrow> ''null'' | Some t \<Rightarrow> quote_json (iso_string t))"

type_synonym columns = "(string \<times> string option) list"

definition user_columns :: "auth_user \<Rightarrow> columns" where
  "user_columns u =
     [(''ban_expires'', Option.bind (au_ban_expires u) date_column), (''ban_reason'', au_ban_reason u),
      (''banned'', column_value (JBool (au_banned u))), (''created_at'', date_column (Some (au_created_at u))),
      (''display_username'', au_display_username u), (''email'', au_email u),
      (''email_verified'', column_value (JBool (au_email_verified u))), (''id'', Some (au_id u)),
      (''image'', au_image u), (''last_sign_in_at'', Option.bind (au_last_sign_in_at u) (\<lambda>t. date_column (Some t))),
      (''metadata'', column_value (object (au_metadata u))), (''name'', au_name u), (''role'', au_role u),
      (''two_factor_enabled'', column_value (JBool (au_two_factor_enabled u))),
      (''updated_at'', date_column (Some (au_updated_at u))), (''username'', au_username u)]"

definition organization_columns :: "auth_organization \<Rightarrow> columns" where
  "organization_columns g =
     [(''created_at'', date_column (Some (ao_created_at g))), (''id'', Some (ao_id g)), (''logo'', ao_logo g),
      (''metadata'', column_value (object (ao_metadata g))), (''name'', Some (ao_name g)), (''slug'', Some (ao_slug g)),
      (''updated_at'', date_column (Some (ao_updated_at g)))]"

definition session_columns :: "auth_session \<Rightarrow> columns" where
  "session_columns x =
     [(''active'', column_value (JBool (as_active x))), (''active_organization_id'', as_active_organization_id x),
      (''created_at'', date_column (Some (as_created_at x))), (''expires_at'', date_column (Some (as_expires_at x))),
      (''id'', Some (as_id x)), (''impersonated_by'', as_impersonated_by x), (''ip_address'', as_ip_address x),
      (''token'', Some (as_token x)), (''updated_at'', date_column (Some (as_updated_at x))),
      (''user_agent'', as_user_agent x), (''user_id'', Some (as_user_id x))]"

text \<open>Reading a column of a row that may be missing; every object inherits \<open>__proto__\<close>.\<close>

definition read_row_column :: "columns option \<Rightarrow> string \<Rightarrow> string option" where
  "read_row_column row column =
     (case row of
        None \<Rightarrow> None
      | Some cs \<Rightarrow>
          (case map_of cs column of
             Some v \<Rightarrow> v
           | None \<Rightarrow> if column = ''__proto__'' then Some ''{}'' else None))"

record render_anchors =
  ra_organization_id :: "string option"
  ra_session_token :: "string option"
  ra_user_id :: "string option"

record email_binding =
  eb_name :: string
  eb_required :: bool
  eb_source :: string

text \<open>A name or a source in single quotes.\<close>

definition in_quotes :: "string \<Rightarrow> string" where
  "in_quotes s = CHR 0x27 # s @ [CHR 0x27]"

definition source_format :: "string \<Rightarrow> string" where
  "source_format source = ''variable binding source '' @ in_quotes source @ '' must use schema.table.column format''"

definition parse_source_address :: "string \<Rightarrow> (auth_error, string \<times> string \<times> string) result" where
  "parse_source_address source =
     (case map js_trim (split_on (CHR ''.'') source) of
        [a, b, c] \<Rightarrow> if a = [] \<or> b = [] \<or> c = [] then Throw (bad_request (source_format source)) else Ok (a, b, c)
      | _ \<Rightarrow> Throw (bad_request (source_format source)))"

text \<open>The anchors, completed from the session they name.\<close>

definition resolve_anchors :: "auth_env \<Rightarrow> render_anchors \<Rightarrow> render_anchors auth_act" where
  "resolve_anchors env ra =
     (case non_empty (ra_session_token ra) of
        Some token \<Rightarrow>
          if non_empty (ra_user_id ra) = None \<or> non_empty (ra_organization_id ra) = None then
            act_bind (get_session_by_token env token) (\<lambda>found.
            act_return (case found of
              None \<Rightarrow> ra
            | Some x \<Rightarrow> ra
                \<lparr>ra_user_id := or_else (ra_user_id ra) (Some (as_user_id x)),
                 ra_organization_id := or_else (ra_organization_id ra) (as_active_organization_id x)\<rparr>))
          else act_return ra
      | None \<Rightarrow> act_return ra)"

text \<open>
  The row a binding reads, or the anchor that is missing for it; the table decides. Session
  tokens are refused, whatever the case of the column.
\<close>

datatype bound_row = MissingAnchor string | BoundRow "columns option"

definition bound_table ::
  "auth_env \<Rightarrow> render_anchors \<Rightarrow> email_binding \<Rightarrow> string \<Rightarrow> string \<Rightarrow> bound_row auth_act" where
  "bound_table env ra b table column =
     (if table \<in> {''sessions'', ''session''} \<and> js_lower column = ''token'' then
        act_throw (bad_request
          (''variable binding '' @ in_quotes (eb_name b) @ '' may not expose session token values''))
      else if table \<in> {''users'', ''user''} then
        (case non_empty (ra_user_id ra) of
           None \<Rightarrow> act_return (MissingAnchor ''user_id'')
         | Some uid \<Rightarrow> act_bind (get_user_by_id uid) (\<lambda>u. act_return (BoundRow (map_option user_columns u))))
      else if table \<in> {''organizations'', ''organization''} then
        (case non_empty (ra_organization_id ra) of
           None \<Rightarrow> act_return (MissingAnchor ''organization_id'')
         | Some gid \<Rightarrow> act_bind (get_organization gid) (\<lambda>g. act_return (BoundRow (map_option organization_columns g))))
      else if table \<in> {''sessions'', ''session''} then
        (case non_empty (ra_session_token ra) of
           None \<Rightarrow> act_return (MissingAnchor ''session_token'')
         | Some token \<Rightarrow>
             act_bind (get_session_by_token env token) (\<lambda>x. act_return (BoundRow (map_option session_columns x))))
      else act_throw (bad_request
        (''variable binding source '' @ in_quotes (eb_source b) @ '' is not supported by athena-auth email rendering'')))"

definition unresolved_message :: "email_binding \<Rightarrow> bound_row \<Rightarrow> string" where
  "unresolved_message b row =
     (case row of
        MissingAnchor anchor \<Rightarrow> ''variable binding '' @ in_quotes (eb_name b) @ '' requires a '' @ anchor @ '' render anchor''
      | BoundRow _ \<Rightarrow> ''required variable binding '' @ in_quotes (eb_name b) @ '' did not resolve a value'')"

fun resolve_bindings ::
  "auth_env \<Rightarrow> render_anchors \<Rightarrow> email_binding list \<Rightarrow> fields \<Rightarrow> fields auth_act" where
  "resolve_bindings env ra [] vars = act_return vars"
| "resolve_bindings env ra (b # bs) vars =
     act_bind (act_lift (parse_source_address (eb_source b))) (\<lambda>(schema, table, column).
     act_bind (bound_table env ra b (js_lower table) column) (\<lambda>row.
     case (case row of MissingAnchor _ \<Rightarrow> None | BoundRow r \<Rightarrow> read_row_column r column) of
       None \<Rightarrow>
         act_bind (guard_act (\<not> eb_required b) (bad_request (unresolved_message b row))) (\<lambda>_.
         resolve_bindings env ra bs vars)
     | Some v \<Rightarrow>
         resolve_bindings env ra bs
           (if has_prop (eb_name b) vars then vars else dset (eb_name b) (JStr v) vars)))"

definition resolve_email_bindings ::
  "auth_env \<Rightarrow> email_binding list \<Rightarrow> fields \<Rightarrow> render_anchors \<Rightarrow> fields auth_act" where
  "resolve_email_bindings env bs explicit ra =
     act_bind (resolve_anchors env ra) (\<lambda>ra'. resolve_bindings env ra' bs explicit)"

section \<open>Rendering and attachments\<close>

text \<open>\<open>s.split(pat).join(r)\<close>: the first argument counts the characters still to skip.\<close>

fun replace_from :: "nat \<Rightarrow> string \<Rightarrow> string \<Rightarrow> string \<Rightarrow> string" where
  "replace_from k pat r [] = []"
| "replace_from (Suc k) pat r (c # s) = replace_from k pat r s"
| "replace_from 0 pat r (c # s) =
     (if starts_with (c # s) pat then r @ replace_from (length pat - 1) pat r s else c # replace_from 0 pat r s)"

definition replace_all :: "string \<Rightarrow> string \<Rightarrow> string \<Rightarrow> string" where
  "replace_all pat r s = replace_from 0 pat r s"

definition render_auth_email_fragment :: "string \<Rightarrow> fields \<Rightarrow> string" where
  "render_auth_email_fragment fragment variables =
     fold (\<lambda>(key, v) s.
         replace_all (''{{ '' @ key @ '' }}'') (to_str v) (replace_all (''{{'' @ key @ ''}}'') (to_str v) s))
       variables fragment"

definition num_is :: "jnum \<Rightarrow> int \<Rightarrow> bool" where
  "num_is n k \<longleftrightarrow> num_eq n (jint k)"

definition is_private_ipv4 :: "string \<Rightarrow> bool" where
  "is_private_ipv4 host =
     (case map string_to_number (split_on (CHR ''.'') host) of
        [a, b, c, d] \<Rightarrow>
          a \<noteq> NaN \<and> b \<noteq> NaN \<and> c \<noteq> NaN \<and> d \<noteq> NaN \<and>
          (num_is a 10 \<or> num_is a 127 \<or> num_is a 0 \<or> num_is a 192 \<and> num_is b 168 \<or>
           num_is a 172 \<and> num_le (jint 16) b \<and> num_le b (jint 31) \<or> num_is a 169 \<and> num_is b 254)
      | _ \<Rightarrow> False)"

definition validate_attachment_target :: "auth_env \<Rightarrow> string \<Rightarrow> (auth_error, unit) result" where
  "validate_attachment_target env file_url =
     (case ae_parse_url env file_url of
        None \<Rightarrow> Throw (bad_request ''attachment URL is invalid'')
      | Some u \<Rightarrow>
          if ur_protocol u \<noteq> ''http:'' \<and> ur_protocol u \<noteq> ''https:'' then
            Throw (bad_request ''attachment URL must use http or https'')
          else
            (let host = js_lower (ur_hostname u) in
             if host \<in> {''localhost'', ''metadata.google.internal''} \<or> ends_with host ''.localhost'' \<or>
                host = ''::1'' \<or> host = ''[::1]'' \<or> is_private_ipv4 host
             then Throw (bad_request ''attachment URL resolved to a non-public IP address'') else Ok ()))"

definition attachment_url :: "jval \<Rightarrow> string" where
  "attachment_url v = to_str (get_prop ''file_url'' (fields_of v))"

fun resolve_template_attachments :: "auth_env \<Rightarrow> jval list \<Rightarrow> string \<Rightarrow> (auth_error, jval list) result" where
  "resolve_template_attachments env [] mode = Ok []"
| "resolve_template_attachments env (a # as) mode =
     (case validate_attachment_target env (attachment_url a) of
        Inr _ \<Rightarrow> rmap ((#) a) (resolve_template_attachments env as mode)
      | Inl e \<Rightarrow> if mode = ''skip'' then resolve_template_attachments env as mode else Throw e)"

section \<open>The store\<close>

definition with_updated_at :: "auth_env \<Rightarrow> string \<Rightarrow> fields \<Rightarrow> fields \<Rightarrow> fields" where
  "with_updated_at env rid existing patch =
     object_spread (object_spread existing patch) [(''id'', JStr rid), (''updated_at'', iso (ae_now env))]"

text \<open>A filter that is given and not empty must agree.\<close>

definition filter_field :: "string option \<Rightarrow> string \<Rightarrow> fields \<Rightarrow> bool" where
  "filter_field given key row =
     (case non_empty given of None \<Rightarrow> True | Some s \<Rightarrow> get_prop key row = JStr s)"

definition list_templates ::
  "string option \<Rightarrow> string option \<Rightarrow> string option \<Rightarrow> bool option \<Rightarrow> fields list auth_act" where
  "list_templates template_key event_type locale is_active = act_get (\<lambda>s.
     filter (\<lambda>row. filter_field template_key ''template_key'' row \<and> filter_field event_type ''event_type'' row \<and>
         filter_field locale ''locale'' row \<and>
         (case is_active of None \<Rightarrow> True | Some b \<Rightarrow> get_prop ''is_active'' row = JBool b))
       (dvalues (st_email_templates s)))"

definition get_template :: "string \<Rightarrow> fields option auth_act" where
  "get_template tid = act_get (\<lambda>s. map_of (st_email_templates s) tid)"

definition put_template :: "string \<Rightarrow> fields \<Rightarrow> unit auth_act" where
  "put_template tid row = act_modify (\<lambda>s. s\<lparr>st_email_templates := dset tid row (st_email_templates s)\<rparr>)"

definition put_failure :: "string \<Rightarrow> fields \<Rightarrow> unit auth_act" where
  "put_failure fid row = act_modify (\<lambda>s. s\<lparr>st_email_failures := dset fid row (st_email_failures s)\<rparr>)"

definition put_email :: "string \<Rightarrow> fields \<Rightarrow> unit auth_act" where
  "put_email mid row = act_modify (\<lambda>s. s\<lparr>st_emails := dset mid row (st_emails s)\<rparr>)"

definition get_failure :: "string \<Rightarrow> fields option auth_act" where
  "get_failure fid = act_get (\<lambda>s. map_of (st_email_failures s) fid)"

definition get_email :: "string \<Rightarrow> fields option auth_act" where
  "get_email mid = act_get (\<lambda>s. map_of (st_emails s) mid)"

text \<open>The updates of the three tables: nothing for a row that does not exist.\<close>

definition update_row ::
  "auth_env \<Rightarrow> (string \<Rightarrow> fields option auth_act) \<Rightarrow> (string \<Rightarrow> fields \<Rightarrow> unit auth_act) \<Rightarrow> string \<Rightarrow> fields \<Rightarrow>
     fields option auth_act" where
  "update_row env lookup put rid patch =
     act_bind (lookup rid) (\<lambda>found.
     case found of
       None \<Rightarrow> act_return None
     | Some row \<Rightarrow>
         act_bind (put rid (with_updated_at env rid row patch)) (\<lambda>_.
         act_return (Some (with_updated_at env rid row patch))))"

section \<open>Reading requests\<close>

text \<open>\<open>asStringField(body, a) ?? asStringField(body, b)\<close>.\<close>

definition either_field :: "fields \<Rightarrow> string \<Rightarrow> string \<Rightarrow> string option" where
  "either_field body a b = or_else (as_string_field body a) (as_string_field body b)"

definition pick_required :: "fields \<Rightarrow> string \<Rightarrow> string \<Rightarrow> (auth_error, string) result" where
  "pick_required body a b =
     (case or_else (non_empty (map_option js_trim (as_string_field body a)))
           (non_empty (map_option js_trim (as_string_field body b))) of
        None \<Rightarrow> Throw (bad_request (a @ '' is required''))
      | Some v \<Rightarrow> Ok v)"

definition opt_undefined :: "string option \<Rightarrow> jval" where
  "opt_undefined v = (case v of None \<Rightarrow> Undefined | Some s \<Rightarrow> JStr s)"

definition as_string_array :: "jval \<Rightarrow> jval" where
  "as_string_array v = JArr (case v of JArr vs \<Rightarrow> filter (\<lambda>x. case x of JStr _ \<Rightarrow> True | _ \<Rightarrow> False) vs | _ \<Rightarrow> [])"

definition attachment_of :: "jval \<Rightarrow> jval list" where
  "attachment_of item =
     (case (case item of JStr s \<Rightarrow> js_trim s | _ \<Rightarrow> []) of
        c # cs \<Rightarrow> [object [(''file_url'', JStr (c # cs))]]
      | [] \<Rightarrow>
          (case non_empty (either_field (as_record item) ''file_url'' ''fileUrl'') of
             None \<Rightarrow> []
           | Some url \<Rightarrow>
               [object [(''file_url'', JStr url), (''filename'', opt_undefined (as_string_field (as_record item) ''filename''))]]))"

definition parse_attachments :: "jval \<Rightarrow> jval list" where
  "parse_attachments v =
     (if \<not> truthy v then [] else concat (map attachment_of (case v of JArr vs \<Rightarrow> vs | _ \<Rightarrow> [v])))"

definition binding_of :: "jval \<Rightarrow> jval list" where
  "binding_of item =
     (case (non_empty (as_string_field (as_record item) ''name''), non_empty (as_string_field (as_record item) ''source'')) of
        (Some name, Some source) \<Rightarrow>
          [object [(''name'', JStr name), (''required'', JBool (get_prop ''required'' (as_record item) = JBool True)),
             (''source'', JStr source)]]
      | _ \<Rightarrow> [])"

definition parse_bindings :: "jval \<Rightarrow> jval list" where
  "parse_bindings v = (case v of JArr vs \<Rightarrow> concat (map binding_of vs) | _ \<Rightarrow> [])"

definition stored_binding :: "jval \<Rightarrow> email_binding" where
  "stored_binding v =
     \<lparr>eb_name = to_str (get_prop ''name'' (fields_of v)), eb_required = truthy (get_prop ''required'' (fields_of v)),
      eb_source = to_str (get_prop ''source'' (fields_of v))\<rparr>"

definition parse_failure_mode :: "jval \<Rightarrow> string" where
  "parse_failure_mode v = (if v = JStr ''skip'' then ''skip'' else ''fail'')"

definition template_payload :: "fields \<Rightarrow> (auth_error, fields) result" where
  "template_payload body =
     (case (non_empty (either_field body ''template_key'' ''templateKey''),
            non_empty (either_field body ''subject_template'' ''subjectTemplate'')) of
        (Some key, Some subject) \<Rightarrow> Ok
          [(''attachment_failure_mode'', JStr (parse_failure_mode
              (nullish_or (get_prop ''attachment_failure_mode'' body) (get_prop ''attachmentFailureMode'' body)))),
           (''attachments'', JArr (parse_attachments (get_prop ''attachments'' body))),
           (''event_type'', opt_json (either_field body ''event_type'' ''eventType'')),
           (''html_template'', opt_json (either_field body ''html_template'' ''htmlTemplate'')),
           (''is_active'', JBool (\<not> (get_prop ''is_active'' body = JBool False \<or> get_prop ''isActive'' body = JBool False))),
           (''locale'', JStr (get_or (as_string_field body ''locale'') ''en'')),
           (''metadata'', object (as_record (get_prop ''metadata'' body))),
           (''subject_template'', JStr subject), (''template_key'', JStr key),
           (''text_template'', opt_json (either_field body ''text_template'' ''textTemplate'')),
           (''variable_bindings'', JArr (parse_bindings
              (nullish_or (get_prop ''variable_bindings'' body) (get_prop ''variableBindings'' body)))),
           (''variables'', as_string_array (get_prop ''variables'' body))]
      | _ \<Rightarrow> Throw (bad_request ''template_key and subject_template are required''))"

section \<open>Routes\<close>

definition admin_json_limit :: int where
  "admin_json_limit = 32768"

definition admin_body :: "auth_env \<Rightarrow> auth_request \<Rightarrow> fields auth_act" where
  "admin_body env req = act_lift (read_json_limit env admin_json_limit req)"

text \<open>Mail administrators have exactly the role \<open>admin\<close> or \<open>owner\<close>.\<close>

definition require_mail_admin :: "auth_config \<Rightarrow> auth_env \<Rightarrow> auth_request \<Rightarrow> unit auth_act" where
  "require_mail_admin cfg env req =
     act_bind (require_session cfg env req) (\<lambda>r.
     guard_act (au_role (rv_user r) \<in> {Some ''admin'', Some ''owner''}) forbidden)"

definition stamped :: "auth_env \<Rightarrow> string \<Rightarrow> fields \<Rightarrow> fields" where
  "stamped env rid row =
     row @ [(''created_at'', iso (ae_now env)), (''id'', JStr rid), (''updated_at'', iso (ae_now env))]"

definition event_type_list :: "auth_request \<Rightarrow> auth_response auth_act" where
  "event_type_list req =
     (let rows = filter (\<lambda>e. case non_empty (query_param req ''category'') of None \<Rightarrow> True | Some c \<Rightarrow> ev_category e = c)
           auth_email_event_catalog;
        js = JArr (map email_event_json rows); n = JNum (jint (int (length rows)))
      in ok_response [(''emailEventTypes'', js), (''event_types'', js), (''limit'', n), (''total'', n)])"

definition template_list :: "auth_request \<Rightarrow> auth_response auth_act" where
  "template_list req =
     act_bind (list_templates
       (or_else (query_param req ''template_key'') (query_param req ''templateKey''))
       (or_else (query_param req ''event_type'') (query_param req ''eventType'')) (query_param req ''locale'')
       (map_option (\<lambda>v. v = ''true'') (or_else (query_param req ''is_active'') (query_param req ''isActive'')))) (\<lambda>rows.
     ok_response
       [(''email_templates'', JArr (map object rows)), (''limit'', JNum (jint (int (length rows)))),
        (''offset'', JNum (jint 0)), (''total'', JNum (jint (int (length rows))))])"

text \<open>Reading one row by the \<open>id\<close> of the query.\<close>

definition row_get :: "auth_request \<Rightarrow> (string \<Rightarrow> fields option auth_act) \<Rightarrow> string \<Rightarrow> string \<Rightarrow> auth_response auth_act" where
  "row_get req lookup missing key =
     act_bind (require_some (non_empty (query_param req ''id'')) (bad_request ''id is required'')) (\<lambda>rid.
     act_bind (lookup rid) (\<lambda>found.
     act_bind (require_some found (not_found missing)) (\<lambda>row.
     ok_response [(key, object row)])))"

definition template_create :: "auth_env \<Rightarrow> auth_request \<Rightarrow> auth_response auth_act" where
  "template_create env req =
     act_bind (admin_body env req) (\<lambda>body.
     act_bind (act_lift (template_payload body)) (\<lambda>payload.
     act_bind (new_uuid env) (\<lambda>tid.
     act_bind (put_template tid (stamped env tid payload)) (\<lambda>_.
     json_response 200 (object (stamped env tid payload))))))"

definition template_update :: "auth_env \<Rightarrow> auth_request \<Rightarrow> auth_response auth_act" where
  "template_update env req =
     act_bind (admin_body env req) (\<lambda>body.
     act_bind (act_lift (require_string_field body ''id'')) (\<lambda>tid.
     act_bind (get_template tid) (\<lambda>found.
     act_bind (require_some found (not_found ''Email template not found'')) (\<lambda>existing.
     let subject = (case either_field body ''subject_template'' ''subjectTemplate'' of
           Some s \<Rightarrow> JStr s | None \<Rightarrow> get_prop ''subject_template'' existing);
         key = (case either_field body ''template_key'' ''templateKey'' of
           Some s \<Rightarrow> JStr s | None \<Rightarrow> get_prop ''template_key'' existing)
     in
       act_bind (act_lift (template_payload
         (object_spread (object_spread existing body) [(''subject_template'', subject), (''template_key'', key)]))) (\<lambda>payload.
       act_bind (update_row env get_template put_template tid payload) (\<lambda>next'.
       json_response 200 (case next' of None \<Rightarrow> Undefined | Some row \<Rightarrow> object row)))))))"

text \<open>Deleting one row by the \<open>id\<close> of the body.\<close>

definition row_delete ::
  "auth_env \<Rightarrow> auth_request \<Rightarrow> (string \<Rightarrow> fields option auth_act) \<Rightarrow> (string \<Rightarrow> unit auth_act) \<Rightarrow> string \<Rightarrow> auth_response auth_act" where
  "row_delete env req lookup remove missing =
     act_bind (admin_body env req) (\<lambda>body.
     act_bind (act_lift (require_string_field body ''id'')) (\<lambda>rid.
     act_bind (lookup rid) (\<lambda>found.
     act_bind (remove rid) (\<lambda>_.
     act_bind (guard_act (found \<noteq> None) (not_found missing)) (\<lambda>_.
     success_true)))))"

definition delete_template :: "string \<Rightarrow> unit auth_act" where
  "delete_template tid = act_modify (\<lambda>s. s\<lparr>st_email_templates := ddelete tid (st_email_templates s)\<rparr>)"

definition delete_failure :: "string \<Rightarrow> unit auth_act" where
  "delete_failure fid = act_modify (\<lambda>s. s\<lparr>st_email_failures := ddelete fid (st_email_failures s)\<rparr>)"

definition delete_email :: "string \<Rightarrow> unit auth_act" where
  "delete_email mid = act_modify (\<lambda>s. s\<lparr>st_emails := ddelete mid (st_emails s)\<rparr>)"

definition failure_list :: "auth_response auth_act" where
  "failure_list =
     act_bind (act_get (\<lambda>s. dvalues (st_email_failures s))) (\<lambda>rows.
     ok_response
       [(''emailSendFailures'', JArr (map object rows)), (''email_send_failures'', JArr (map object rows)),
        (''total'', JNum (jint (int (length rows))))])"

definition failure_create :: "auth_env \<Rightarrow> auth_request \<Rightarrow> auth_response auth_act" where
  "failure_create env req =
     act_bind (admin_body env req) (\<lambda>body.
     act_bind (act_lift (pick_required body ''error_message'' ''errorMessage'')) (\<lambda>message.
     act_bind (new_uuid env) (\<lambda>fid.
     act_bind (act_lift (pick_required body ''recipient_email'' ''recipientEmail'')) (\<lambda>recipient.
     let row =
       [(''created_at'', iso (ae_now env)), (''error_message'', JStr message),
        (''flow'', JStr (get_or (as_string_field body ''flow'') ''admin.email_failure.create'')), (''id'', JStr fid),
        (''metadata'', object (as_record (get_prop ''metadata'' body))), (''recipient_email'', JStr recipient),
        (''resolved'', JBool False), (''updated_at'', iso (ae_now env))]
     in act_bind (put_failure fid row) (\<lambda>_. json_response 200 (object row))))))"

definition row_update ::
  "auth_env \<Rightarrow> auth_request \<Rightarrow> (string \<Rightarrow> fields option auth_act) \<Rightarrow> (string \<Rightarrow> fields \<Rightarrow> unit auth_act) \<Rightarrow>
     (fields \<Rightarrow> fields) \<Rightarrow> string \<Rightarrow> auth_response auth_act" where
  "row_update env req lookup put patch missing =
     act_bind (admin_body env req) (\<lambda>body.
     act_bind (act_lift (require_string_field body ''id'')) (\<lambda>rid.
     act_bind (update_row env lookup put rid (patch body)) (\<lambda>next'.
     act_bind (require_some next' (not_found missing)) (\<lambda>row.
     json_response 200 (object row)))))"

definition failure_patch :: "fields \<Rightarrow> fields" where
  "failure_patch body =
     [(''resolved'', case bool_field body ''resolved'' of None \<Rightarrow> Undefined | Some b \<Rightarrow> JBool b),
      (''resolution_note'', opt_undefined (either_field body ''resolution_note'' ''resolutionNote''))]"

definition email_patch :: "fields \<Rightarrow> fields" where
  "email_patch body = [(''subject'', opt_undefined (as_string_field body ''subject''))]"

definition email_list :: "auth_response auth_act" where
  "email_list =
     act_bind (act_get (\<lambda>s. dvalues (st_emails s))) (\<lambda>rows.
     ok_response [(''emails'', JArr (map object rows)), (''total'', JNum (jint (int (length rows))))])"

definition email_create :: "auth_env \<Rightarrow> auth_request \<Rightarrow> auth_response auth_act" where
  "email_create env req =
     act_bind (admin_body env req) (\<lambda>body.
     act_bind (new_uuid env) (\<lambda>mid.
     act_bind (act_lift (pick_required body ''recipient_email'' ''recipientEmail'')) (\<lambda>recipient.
     act_bind (act_lift (require_string_field body ''subject'')) (\<lambda>subject.
     let row =
       [(''created_at'', iso (ae_now env)), (''flow'', opt_json (as_string_field body ''flow'')),
        (''from_address'', JStr (get_or (either_field body ''from_address'' ''fromAddress'') ''athena@localhost'')),
        (''from_name'', opt_json (either_field body ''from_name'' ''fromName'')),
        (''html_body'', opt_json (either_field body ''html_body'' ''htmlBody'')), (''id'', JStr mid),
        (''metadata'', object (as_record (get_prop ''metadata'' body))),
        (''provider'', JStr (get_or (as_string_field body ''provider'') ''unknown'')), (''recipient_email'', JStr recipient),
        (''subject'', JStr subject), (''text_body'', opt_json (either_field body ''text_body'' ''textBody'')),
        (''updated_at'', iso (ae_now env))]
     in act_bind (put_email mid row) (\<lambda>_. json_response 200 (object row))))))"

section \<open>Sending a template\<close>

definition provider_not_configured :: string where
  "provider_not_configured = ''ATHENA_AUTH_EMAIL_PROVIDER_NOT_CONFIGURED''"

definition send_flow :: string where
  "send_flow = ''admin.email_template.send''"

definition explicit_variables :: "fields \<Rightarrow> fields" where
  "explicit_variables body =
     filter (\<lambda>(k, v). (case v of JStr _ \<Rightarrow> True | _ \<Rightarrow> False) \<and> k \<noteq> ''__proto__'')
       (as_record (nullish_or (get_prop ''render_variables'' body) (get_prop ''renderVariables'' body)))"

definition send_anchors :: "fields \<Rightarrow> render_anchors" where
  "send_anchors body =
     \<lparr>ra_organization_id = either_field body ''organization_id'' ''organizationId'',
      ra_session_token = either_field body ''session_token'' ''sessionToken'',
      ra_user_id = either_field body ''user_id'' ''userId''\<rparr>"

definition persist_failure :: "auth_env \<Rightarrow> string \<Rightarrow> fields \<Rightarrow> string auth_act" where
  "persist_failure env recipient template =
     act_bind (new_uuid env) (\<lambda>fid.
     act_bind (put_failure fid
       [(''created_at'', iso (ae_now env)), (''error_code'', JStr provider_not_configured),
        (''error_message'', JStr provider_not_configured), (''flow'', JStr send_flow), (''id'', JStr fid),
        (''metadata'', object []), (''recipient_email'', JStr recipient), (''resolved'', JBool False),
        (''template_id'', get_prop ''id'' template), (''template_key'', get_prop ''template_key'' template),
        (''updated_at'', iso (ae_now env))]) (\<lambda>_.
     act_return fid))"

definition render_optional :: "jval \<Rightarrow> fields \<Rightarrow> string option" where
  "render_optional fragment variables =
     (if truthy fragment then Some (render_auth_email_fragment (to_str fragment) variables) else None)"

definition deliver_template ::
  "auth_env \<Rightarrow> string \<Rightarrow> fields \<Rightarrow> jval list \<Rightarrow> fields \<Rightarrow> auth_response auth_act" where
  "deliver_template env recipient template attachments variables =
     (let subject = render_auth_email_fragment (to_str (get_prop ''subject_template'' template)) variables;
        html = render_optional (get_prop ''html_template'' template) variables;
        plain = render_optional (get_prop ''text_template'' template) variables
      in case ae_mail_provider env of
        None \<Rightarrow>
          act_bind (persist_failure env recipient template) (\<lambda>fid.
          json_response 503 (object
            [(''email_send_failure_id'', JStr fid), (''error'', JStr provider_not_configured),
             (''event_type'', get_prop ''event_type'' template), (''flow'', JStr send_flow),
             (''recipient_email'', JStr recipient), (''subject'', JStr subject), (''success'', JBool False),
             (''template_id'', get_prop ''id'' template), (''template_key'', get_prop ''template_key'' template)]))
      | Some send \<Rightarrow>
          (let result = send \<lparr>mm_attachments = attachments, mm_html = html, mm_subject = subject, mm_text = plain, mm_to = recipient\<rparr>
           in
             act_bind (new_uuid env) (\<lambda>mid.
             act_bind (put_email mid
               [(''created_at'', iso (ae_now env)), (''flow'', JStr send_flow), (''from_address'', JStr ''athena@localhost''),
                (''from_name'', Null), (''html_body'', opt_json html), (''id'', JStr mid),
                (''metadata'', object (get_or (md_metadata result) [])), (''provider'', JStr (md_provider result)),
                (''recipient_email'', JStr recipient), (''subject'', JStr subject), (''text_body'', opt_json plain),
                (''updated_at'', iso (ae_now env))]) (\<lambda>_.
             ok_response
               [(''attachment_count'', JNum (jint (int (length attachments)))),
                (''event_type'', get_prop ''event_type'' template), (''flow'', JStr send_flow),
                (''recipient_email'', JStr recipient), (''subject'', JStr subject),
                (''success'', JBool (md_success result)), (''template_id'', get_prop ''id'' template),
                (''template_key'', get_prop ''template_key'' template)]))))"

definition array_of :: "jval \<Rightarrow> jval list" where
  "array_of v = (case v of JArr vs \<Rightarrow> vs | _ \<Rightarrow> [])"

definition send_stored_template :: "auth_env \<Rightarrow> auth_request \<Rightarrow> auth_response auth_act" where
  "send_stored_template env req =
     act_bind (admin_body env req) (\<lambda>body.
     act_bind (act_lift (pick_required body ''template_id'' ''templateId'')) (\<lambda>tid.
     act_bind (act_lift (pick_required body ''recipient_email'' ''recipientEmail'')) (\<lambda>recipient.
     act_bind (get_template tid) (\<lambda>found.
     act_bind (require_some found (not_found ''Email template not found'')) (\<lambda>template.
     act_bind (guard_act (truthy (get_prop ''is_active'' template)) (bad_request ''Email template is inactive'')) (\<lambda>_.
     act_bind (resolve_email_bindings env (map stored_binding (array_of (get_prop ''variable_bindings'' template)))
       (explicit_variables body) (send_anchors body)) (\<lambda>variables.
     act_bind (act_lift (resolve_template_attachments env
       (array_of (get_prop ''attachments'' template) @ parse_attachments (get_prop ''attachments'' body))
       (parse_failure_mode (nullish_or (get_prop ''attachment_failure_mode'' body)
          (nullish_or (get_prop ''attachmentFailureMode'' body) (get_prop ''attachment_failure_mode'' template)))))) (\<lambda>attachments.
     deliver_template env recipient template attachments variables))))))))"

definition mail_route :: "auth_env \<Rightarrow> auth_request \<Rightarrow> string \<Rightarrow> auth_response option auth_act" where
  "mail_route env req path =
     (let post = request_method req = ''POST''; get = request_method req = ''GET'' in
      if path = ''/admin/email-event-type/list'' \<and> get then found_route (event_type_list req)
      else if path = ''/admin/email-template/list'' \<and> get then found_route (template_list req)
      else if path = ''/admin/email-template/get'' \<and> get then
        found_route (row_get req get_template ''Email template not found'' ''email_template'')
      else if path = ''/admin/email-template/create'' \<and> post then found_route (template_create env req)
      else if path = ''/admin/email-template/update'' \<and> post then found_route (template_update env req)
      else if path = ''/admin/email-template/delete'' \<and> post then
        found_route (row_delete env req get_template delete_template ''Email template not found'')
      else if path = ''/admin/email-template/send'' \<and> post then found_route (send_stored_template env req)
      else if path = ''/admin/email-failure/list'' \<and> get then found_route failure_list
      else if path = ''/admin/email-failure/get'' \<and> get then
        found_route (row_get req get_failure ''Email failure not found'' ''email_send_failure'')
      else if path = ''/admin/email-failure/create'' \<and> post then found_route (failure_create env req)
      else if path = ''/admin/email-failure/update'' \<and> post then
        found_route (row_update env req get_failure put_failure failure_patch ''Email failure not found'')
      else if path = ''/admin/email-failure/delete'' \<and> post then
        found_route (row_delete env req get_failure delete_failure ''Email failure not found'')
      else if path = ''/admin/email/list'' \<and> get then found_route email_list
      else if path = ''/admin/email/get'' \<and> get then found_route (row_get req get_email ''Email not found'' ''email'')
      else if path = ''/admin/email/create'' \<and> post then found_route (email_create env req)
      else if path = ''/admin/email/update'' \<and> post then
        found_route (row_update env req get_email put_email email_patch ''Email not found'')
      else if path = ''/admin/email/delete'' \<and> post then
        found_route (row_delete env req get_email delete_email ''Email not found'')
      else act_return None)"

definition handle_admin_email_routes ::
  "auth_config \<Rightarrow> auth_env \<Rightarrow> auth_request \<Rightarrow> string \<Rightarrow> auth_response option auth_act" where
  "handle_admin_email_routes cfg env req path =
     (if \<not> starts_with path ''/admin/email'' then act_return None
      else act_bind (require_mail_admin cfg env req) (\<lambda>_. mail_route env req path))"

end
