(* ===== verification/AuthServer.thy ===== *)
theory AuthServer
  imports AuthEmail
begin

text \<open>
  The local auth server as a whole (\<open>handle\<close> and \<open>handleRoute\<close> of \<open>runtime.ts\<close>) over the memory
  stores: paths, the order in which routes are tried, and what becomes of errors.
\<close>

definition normalize_path :: "string \<Rightarrow> string \<Rightarrow> string" where
  "normalize_path pathname base_path =
     (let base = strip_slashes base_path;
        stripped =
          (if base \<noteq> [] \<and> (pathname = base \<or> starts_with pathname (base @ ''/''))
           then (if drop (length base) pathname = [] then ''/'' else drop (length base) pathname) else pathname);
        rooted = (if starts_with stripped ''/'' then stripped else CHR ''/'' # stripped)
      in if 1 < length rooted \<and> last rooted = CHR ''/'' then butlast rooted else rooted)"

text \<open>The compatibility of a schema generation with the one the code was built for.\<close>

definition schema_generation :: int where
  "schema_generation = 21"

definition to_athena_auth_schema_compatibility :: "int \<Rightarrow> int \<Rightarrow> jval" where
  "to_athena_auth_schema_compatibility current expected = object
     [(''checksumMismatch'', JArr []), (''compatible'', JBool (current = expected)), (''current'', JNum (jint current)),
      (''direction'', JStr (if current = expected then ''current''
         else if expected < current then ''runtime-too-old'' else ''upgrade-required'')),
      (''expected'', JNum (jint expected)), (''missing'', JArr []),
      (''unknown'', JArr (if expected < current then [JNum (jint current)] else []))]"

definition health :: "auth_response auth_act" where
  "health = ok_response
     [(''schema'', to_athena_auth_schema_compatibility schema_generation schema_generation),
      (''service'', JStr ''athena-auth''), (''status'', JStr ''ok''), (''version'', version_json)]"

definition core_route :: "auth_config \<Rightarrow> auth_env \<Rightarrow> auth_request \<Rightarrow> string \<Rightarrow> auth_response option auth_act" where
  "core_route cfg env req path =
     (let post = request_method req = ''POST''; get = request_method req = ''GET'' in
      if path = ''/get-session'' \<and> (get \<or> post) then found_route (get_session_route cfg env req)
      else if path = ''/sign-up/email'' \<and> post then found_route (sign_up_email cfg env req)
      else if (path = ''/sign-in/email'' \<or> path = ''/sign-in/username'') \<and> post then
        found_route (sign_in cfg env req (path = ''/sign-in/username''))
      else if path = ''/sign-out'' \<and> post then found_route (sign_out cfg req)
      else if path = ''/forget-password'' \<and> post then found_route (forget_password cfg env req)
      else if path = ''/reset-password'' \<and> post then found_route (reset_password cfg env req)
      else if path = ''/change-password'' \<and> post then found_route (change_password cfg env req)
      else if path = ''/set-password'' \<and> post then found_route (set_password cfg env req)
      else if path = ''/update-user'' \<and> post then found_route (update_user_route cfg env req)
      else if path = ''/list-sessions'' \<and> get then found_route (list_sessions_route cfg env req)
      else if path = ''/revoke-session'' \<and> post then found_route (revoke_session cfg env req)
      else if path = ''/revoke-sessions'' \<and> post then found_route (revoke_sessions cfg env req)
      else if path = ''/revoke-other-sessions'' \<and> post then found_route (revoke_other_sessions cfg env req)
      else if path = ''/list-accounts'' \<and> get then found_route (list_accounts_route cfg env req)
      else act_return None)"

definition organization_route ::
  "auth_config \<Rightarrow> auth_env \<Rightarrow> auth_request \<Rightarrow> string \<Rightarrow> auth_response option auth_act" where
  "organization_route cfg env req path =
     (let post = request_method req = ''POST''; get = request_method req = ''GET'' in
      if path = ''/organization/create'' \<and> post then found_route (create_organization_route cfg env req)
      else if path = ''/organization/list'' \<and> get then found_route (list_organizations_route cfg env req)
      else if path = ''/organization/get-full-organization'' \<and> get then found_route (get_full_organization cfg env req)
      else if path = ''/organization/update'' \<and> post then found_route (update_organization_route cfg env req)
      else if path = ''/organization/delete'' \<and> post then found_route (delete_organization_route cfg env req)
      else if path = ''/organization/set-active'' \<and> post then found_route (set_active_organization cfg env req)
      else if path = ''/organization/list-members'' \<and> get then found_route (list_members_route cfg env req)
      else if path = ''/organization/remove-member'' \<and> post then found_route (remove_member_route cfg env req)
      else if path = ''/organization/update-member-role'' \<and> post then found_route (update_member_role_route cfg env req)
      else if path = ''/organization/leave'' \<and> post then found_route (leave_organization cfg env req)
      else if path = ''/organization/invite-member'' \<and> post then found_route (invite_member cfg env req)
      else if path = ''/organization/accept-invitation'' \<and> post then found_route (accept_invitation cfg env req)
      else if path = ''/organization/cancel-invitation'' \<and> post then found_route (cancel_invitation cfg env req)
      else if path = ''/organization/list-invitations'' \<and> get then found_route (list_invitations_route cfg env req)
      else if path = ''/organization/check-slug'' \<and> post then found_route (check_slug cfg env req)
      else if path = ''/organization/has-permission'' \<and> post then found_route (has_permission cfg env req)
      else if path = ''/organization/get-active-member'' \<and> get then found_route (get_active_member cfg env req)
      else if path = ''/organization/get-invitation'' \<and> get then found_route (get_invitation_route cfg env req)
      else if path = ''/organization/list-user-invitations'' \<and> get then found_route (list_user_invitations cfg env req)
      else if path = ''/organization/reject-invitation'' \<and> post then found_route (reject_invitation cfg env req)
      else act_return None)"

text \<open>The next route is tried when one does not apply.\<close>

definition or_route :: "auth_response option auth_act \<Rightarrow> auth_response auth_act \<Rightarrow> auth_response auth_act" where
  "or_route m k = act_bind m (\<lambda>r. case r of Some x \<Rightarrow> act_return x | None \<Rightarrow> k)"

definition handle_route :: "auth_config \<Rightarrow> auth_env \<Rightarrow> auth_request \<Rightarrow> string \<Rightarrow> auth_response auth_act" where
  "handle_route cfg env req path =
     (if request_method req = ''OPTIONS'' then empty_response 204
      else if request_method req = ''HEAD'' \<and> path = ''/ok'' then empty_response 200
      else if path = ''/ok'' \<and> request_method req = ''GET'' then ok_response [(''ok'', JBool True)]
      else if path = ''/health'' \<and> request_method req = ''GET'' then health
      else
        or_route
          (if path \<in> set token_paths \<union> {''/.well-known/jwks.json'', ''/.well-known/openid-configuration''}
           then token_route cfg env req path else act_return None)
        (or_route (core_route cfg env req path)
        (or_route (organization_route cfg env req path)
        (or_route (handle_admin_email_routes cfg env req path)
        (if starts_with path ''/admin/'' then handle_admin_route cfg env req path
         else
           or_route (handle_extended_route cfg env req path) (act_throw (not_found ''Not found'')))))))"

definition trace_id :: "auth_env \<Rightarrow> auth_request \<Rightarrow> string auth_act" where
  "trace_id env req =
     (case or_else (non_empty (map_option js_trim (header req ''x-athena-trace-id'')))
           (non_empty (map_option js_trim (header req ''x-request-id''))) of
        Some t \<Rightarrow> act_return t
      | None \<Rightarrow> new_uuid env)"

definition request_path :: "auth_config \<Rightarrow> auth_request \<Rightarrow> string" where
  "request_path cfg req =
     normalize_path (rq_pathname req) (if ac_base_path cfg = [] then ''/api/auth'' else ac_base_path cfg)"

definition route_request :: "auth_config \<Rightarrow> auth_env \<Rightarrow> auth_request \<Rightarrow> auth_response auth_act" where
  "route_request cfg env req =
     act_bind (enforce_origin env req (ac_trusted_origins cfg)) (\<lambda>_.
     handle_route cfg env req (request_path cfg req))"

text \<open>One request: it never throws, an error is answered without the cookies set before it.\<close>

definition handle_auth :: "auth_config \<Rightarrow> auth_env \<Rightarrow> auth_request \<Rightarrow> auth_response auth_act" where
  "handle_auth cfg env req =
     act_bind (act_modify (\<lambda>s. s\<lparr>st_cookies := [], st_mails := []\<rparr>)) (\<lambda>_.
     act_bind (trace_id env req) (\<lambda>trace.
     act_catch (route_request cfg env req) (\<lambda>e. act_return (error_response e trace))))"

text \<open>The state after a sequence of requests, each at its own instant.\<close>

fun after_requests :: "auth_config \<Rightarrow> (auth_env \<times> auth_request) list \<Rightarrow> auth_state \<Rightarrow> auth_state" where
  "after_requests cfg [] s = s"
| "after_requests cfg ((env, req) # rs) s = after_requests cfg rs (snd (handle_auth cfg env req s))"

end
