(* ===== verification/AuthRelation.thy ===== *)
theory AuthRelation
  imports AuthServer
begin

text \<open>
  Relations between the states before and after a request. The locale \<open>auth_relation\<close> lists the
  writes of the server as assumptions on a relation; inside it every handler is shown to keep the
  relation. Which of the critical writes a relation allows is fixed by flags, and a handler that
  makes such a write needs its flag; so each interpretation says which routes may break it.
\<close>

section \<open>Routes with critical writes\<close>

definition issuing_paths :: "string list" where
  "issuing_paths =
     [''/sign-up/email'', ''/sign-in/email'', ''/sign-in/username'', ''/two-factor/verify-totp'',
      ''/two-factor/verify-backup-code'', ''/admin/stop-impersonating'', ''/admin/impersonate-user'']"

definition role_paths :: "string list" where
  "role_paths = [''/admin/set-role'', ''/admin/create-user'']"

definition member_paths :: "string list" where
  "member_paths = [''/organization/create'', ''/organization/accept-invitation'', ''/organization/update-member-role'']"

text \<open>Routes that may change the password or the address of a user.\<close>

definition identity_paths :: "string list" where
  "identity_paths =
     [''/sign-in/email'', ''/sign-in/username'', ''/reset-password'', ''/change-password'', ''/set-password'',
      ''/change-email/verify'', ''/admin/update-user'']"

definition creating_paths :: "string list" where
  "creating_paths = [''/sign-up/email'', ''/admin/create-user'']"

definition owning_paths :: "string list" where
  "owning_paths = [''/sign-up/email'', ''/admin/create-user'', ''/two-factor/enable'', ''/organization/invite-member'']"

definition deleting_paths :: "string list" where
  "deleting_paths = [''/delete-user'', ''/admin/remove-user'', ''/organization/delete'']"

lemmas critical_paths =
  issuing_paths_def role_paths_def member_paths_def identity_paths_def creating_paths_def owning_paths_def
  deleting_paths_def

text \<open>What a relation with these flags leaves a route to do.\<close>

definition route_allowed :: "bool \<Rightarrow> bool \<Rightarrow> bool \<Rightarrow> bool \<Rightarrow> bool \<Rightarrow> bool \<Rightarrow> bool \<Rightarrow> string \<Rightarrow> bool" where
  "route_allowed sessions_ok roles_ok members_ok identity_ok creates_ok owned_ok deletes_ok path \<longleftrightarrow>
     (path \<in> set issuing_paths \<longrightarrow> sessions_ok) \<and> (path \<in> set role_paths \<longrightarrow> roles_ok) \<and>
     (path \<in> set member_paths \<longrightarrow> members_ok) \<and> (path \<in> set identity_paths \<longrightarrow> identity_ok) \<and>
     (path \<in> set creating_paths \<longrightarrow> creates_ok) \<and> (path \<in> set owning_paths \<longrightarrow> owned_ok) \<and>
     (path \<in> set deleting_paths \<longrightarrow> deletes_ok)"

lemmas patch_defs = no_patch_def unban_patch_def

text \<open>States that agree on what the relations look at.\<close>

definition same_rows :: "auth_state \<Rightarrow> auth_state \<Rightarrow> bool" where
  "same_rows s t \<longleftrightarrow>
     st_users t = st_users s \<and> st_sessions t = st_sessions s \<and> st_accounts t = st_accounts s \<and>
     st_members t = st_members s \<and> st_organizations t = st_organizations s \<and>
     st_invitations t = st_invitations s \<and> st_two_factors t = st_two_factors s"

named_theorems auth_rel \<open>programs that keep a relation of states\<close>

lemma relates_if: "(c \<Longrightarrow> relates R a) \<Longrightarrow> (\<not> c \<Longrightarrow> relates R b) \<Longrightarrow> relates R (if c then a else b)"
  by simp

lemma relates_let: "relates R (f x) \<Longrightarrow> relates R (let y = x in f y)"
  by simp

lemma relates_option:
  "(x = None \<Longrightarrow> relates R a) \<Longrightarrow> (\<And>y. x = Some y \<Longrightarrow> relates R (b y)) \<Longrightarrow>
   relates R (case x of None \<Rightarrow> a | Some y \<Rightarrow> b y)"
  by (cases x) simp_all

lemma relates_prod: "(\<And>a b. relates R (f a b)) \<Longrightarrow> relates R (case p of (a, b) \<Rightarrow> f a b)"
  by (cases p) simp

lemma relates_sum:
  "(\<And>e. relates R (f e)) \<Longrightarrow> (\<And>x. relates R (g x)) \<Longrightarrow> relates R (case r of Inl e \<Rightarrow> f e | Inr x \<Rightarrow> g x)"
  by (cases r) simp_all

lemma relates_bound_row:
  "(\<And>k. relates R (a k)) \<Longrightarrow> (\<And>x. relates R (b x)) \<Longrightarrow> relates R (case r of MissingAnchor k \<Rightarrow> a k | BoundRow x \<Rightarrow> b x)"
  by (cases r) simp_all

lemmas relates_cases [auth_rel] = relates_if relates_let relates_option relates_prod relates_sum relates_bound_row

section \<open>The locale\<close>

locale auth_relation =
  fixes R :: "auth_state \<Rightarrow> auth_state \<Rightarrow> bool"
    and sessions_ok roles_ok members_ok identity_ok creates_ok owned_ok deletes_ok :: bool
  assumes R_refl: "R s s"
    and R_trans: "R s t \<Longrightarrow> R t t2 \<Longrightarrow> R s t2"
    and R_same: "same_rows s t \<Longrightarrow> R s t"
    and R_patch: "map_of (st_users s) uid = Some u \<Longrightarrow> up_role p = None \<or> roles_ok \<Longrightarrow>
      up_email p = None \<and> up_metadata p = None \<or> identity_ok \<Longrightarrow>
      R s (s\<lparr>st_users := dset uid (patched_user now p u) (st_users s)\<rparr>)"
    and R_create: "creates_ok \<Longrightarrow> R s (s\<lparr>st_users := dset (cu_id i) (new_user now i) (st_users s)\<rparr>)"
    and R_delete_user: "deletes_ok \<Longrightarrow> R s (snd (delete_user uid s))"
    and R_session_add: "sessions_ok \<Longrightarrow> R s (s\<lparr>st_sessions := d\<rparr>)"
    and R_session_adjust:
      "(\<And>x. as_token (f x) = as_token x \<and> as_user_id (f x) = as_user_id x) \<Longrightarrow>
       R s (s\<lparr>st_sessions := dadjust token f (st_sessions s)\<rparr>)"
    and R_session_filter: "R s (s\<lparr>st_sessions := filter P (st_sessions s)\<rparr>)"
    and R_account_add: "owned_ok \<Longrightarrow> R s (s\<lparr>st_accounts := da\<rparr>)"
    and R_factor_add: "owned_ok \<Longrightarrow> R s (s\<lparr>st_two_factors := df\<rparr>)"
    and R_factor_adjust:
      "(\<And>x. tf_user_id (h x) = tf_user_id x) \<Longrightarrow> R s (s\<lparr>st_two_factors := dadjust uid h (st_two_factors s)\<rparr>)"
    and R_factor_delete: "R s (s\<lparr>st_two_factors := ddelete uid (st_two_factors s)\<rparr>)"
    and R_member_add: "members_ok \<Longrightarrow> R s (s\<lparr>st_members := dm\<rparr>)"
    and R_member_remove: "R s (s\<lparr>st_members := change_first Q (\<lambda>m. None) (st_members s)\<rparr>)"
    and R_organization_put: "R s (s\<lparr>st_organizations := dset gid g (st_organizations s)\<rparr>)"
    and R_organization_delete: "deletes_ok \<Longrightarrow> R s (snd (delete_organization gid s))"
    and R_invitation_add: "owned_ok \<Longrightarrow> R s (s\<lparr>st_invitations := di\<rparr>)"
    and R_invitation_status:
      "R s (s\<lparr>st_invitations := dadjust iid (\<lambda>i. i\<lparr>ai_status := status\<rparr>) (st_invitations s)\<rparr>)"
begin

lemma reflp_R: "reflp R"
  by (simp add: reflp_def R_refl)

lemma transp_R: "transp R"
  by (rule transpI) (rule R_trans)

lemma rel_bind [auth_rel]: "relates R m \<Longrightarrow> (\<And>x. relates R (f x)) \<Longrightarrow> relates R (act_bind m f)"
  by (rule relates_bind [OF transp_R])

lemmas rel_simple [auth_rel] = relates_return [OF reflp_R] relates_throw [OF reflp_R] relates_get [OF reflp_R]
  relates_lift [OF reflp_R] relates_catch [OF reflp_R transp_R]

lemma rel_guard [auth_rel]: "relates R (guard_act ok e)"
  unfolding guard_act_def by (intro auth_rel)

lemma rel_require_some [auth_rel]: "relates R (require_some v e)"
  unfolding require_some_def by (intro auth_rel)

lemma rel_same: "(\<And>s. same_rows s (f s)) \<Longrightarrow> relates R (act_modify f)"
  by (intro relates_modify R_same)

lemma rel_modify_other [auth_rel]:
  "relates R (act_modify (\<lambda>s. s\<lparr>st_draws := f s\<rparr>))"
  "relates R (act_modify (\<lambda>s. s\<lparr>st_cookies := g s\<rparr>))"
  "relates R (act_modify (\<lambda>s. s\<lparr>st_mails := h s\<rparr>))"
  "relates R (act_modify (\<lambda>s. s\<lparr>st_cookies := g s, st_mails := h s\<rparr>))"
  "relates R (act_modify (\<lambda>s. s\<lparr>st_buckets := i s\<rparr>))"
  "relates R (act_modify (\<lambda>s. s\<lparr>st_authority := j s\<rparr>))"
  "relates R (act_modify (\<lambda>s. s\<lparr>st_verifications := k s\<rparr>))"
  "relates R (act_modify (\<lambda>s. s\<lparr>st_api_keys := l s\<rparr>))"
  "relates R (act_modify (\<lambda>s. s\<lparr>st_email_templates := m s\<rparr>))"
  "relates R (act_modify (\<lambda>s. s\<lparr>st_email_failures := m s\<rparr>))"
  "relates R (act_modify (\<lambda>s. s\<lparr>st_emails := m s\<rparr>))"
  by (rule rel_same; simp add: same_rows_def)+

lemma rel_draw [auth_rel]: "relates R (draw source)"
  unfolding draw_def by (intro auth_rel)

lemma rel_new_uuid [auth_rel]: "relates R (new_uuid env)"
  unfolding new_uuid_def by (intro auth_rel)

subsection \<open>Stores\<close>

lemma rel_update_user [auth_rel]:
  "up_role p = None \<or> roles_ok \<Longrightarrow> up_email p = None \<and> up_metadata p = None \<or> identity_ok \<Longrightarrow>
   relates R (update_user env uid p)"
  unfolding relates_def
  by (auto simp: update_user_def get_user_by_id_def act_defs R_refl R_patch split: option.splits)

lemma rel_delete_user [auth_rel]: "deletes_ok \<Longrightarrow> relates R (delete_user uid)"
  by (simp add: relates_def R_delete_user)

lemma rel_delete_organization [auth_rel]: "deletes_ok \<Longrightarrow> relates R (delete_organization gid)"
  by (simp add: relates_def R_organization_delete)

lemma rel_put_new_user: "creates_ok \<Longrightarrow> relates R (put_user (new_user now i))"
  using R_create [of _ i now] by (simp add: put_user_def relates_def act_modify_def new_user_def)

lemma rel_writes [auth_rel]:
  "sessions_ok \<Longrightarrow> relates R (act_modify (\<lambda>s. s\<lparr>st_sessions := dset token x (st_sessions s)\<rparr>))"
  "relates R (act_modify (\<lambda>s. s\<lparr>st_sessions := ddelete token (st_sessions s)\<rparr>))"
  "relates R (act_modify (\<lambda>s. s\<lparr>st_sessions := filter P (st_sessions s)\<rparr>))"
  "owned_ok \<Longrightarrow> relates R (act_modify (\<lambda>s. s\<lparr>st_accounts := dset aid a (st_accounts s)\<rparr>))"
  "owned_ok \<Longrightarrow> relates R (act_modify (\<lambda>s. s\<lparr>st_two_factors := dset fid f (st_two_factors s)\<rparr>))"
  "relates R (act_modify (\<lambda>s. s\<lparr>st_two_factors := ddelete fid (st_two_factors s)\<rparr>))"
  "members_ok \<Longrightarrow> relates R (act_modify (\<lambda>s. s\<lparr>st_members := dm s\<rparr>))"
  "relates R (act_modify (\<lambda>s. s\<lparr>st_members := change_first Q (\<lambda>m. None) (st_members s)\<rparr>))"
  "relates R (act_modify (\<lambda>s. s\<lparr>st_organizations := dset gid g (st_organizations s)\<rparr>))"
  "owned_ok \<Longrightarrow> relates R (act_modify (\<lambda>s. s\<lparr>st_invitations := dset iid i (st_invitations s)\<rparr>))"
  by (rule relates_modify; auto simp: ddelete_def [of _ "st_sessions _"]
      intro: R_session_add R_session_filter R_account_add R_factor_add R_factor_delete R_member_add R_member_remove
        R_organization_put R_invitation_add)+

lemma rel_adjusts [auth_rel]:
  "relates R (update_session_expiry env token expires)"
  "relates R (set_session_active_organization env token org)"
  "relates R (update_two_factor_backup_codes env uid codes)"
  "relates R (update_invitation_status iid status)"
  unfolding update_session_expiry_def set_session_active_organization_def update_two_factor_backup_codes_def
    update_invitation_status_def
  by (rule relates_modify; auto intro: R_session_adjust R_factor_adjust R_invitation_status)+

lemma rel_reads [auth_rel]:
  "relates R (get_user_by_id a0)"
  "relates R (get_user_by_email a1)"
  "relates R (get_user_by_username a2)"
  "relates R (get_session_by_token a3 b3)"
  "relates R (list_user_sessions a4 b4)"
  "relates R (list_accounts a5)"
  "relates R (get_verification_by_value a6 b6)"
  "relates R (get_organization a7)"
  "relates R (get_organization_by_slug a8)"
  "relates R (list_organizations_for_user a9)"
  "relates R (get_member a10 b10)"
  "relates R (list_members a11)"
  "relates R (get_invitation a12)"
  "relates R (list_invitations a13)"
  "relates R (list_invitations_for_email a14)"
  "relates R (get_two_factor_by_user_id a15)"
  "relates R (get_api_key_by_hash a16)"
  "relates R (get_api_key_by_id a17)"
  "relates R (list_api_keys a18)"
  "relates R (json_response a19 b19)"
  "relates R (empty_response a20)"
  "relates R (admin_list_users a21 b21 c21 d21 e21)"
  "relates R (list_templates a22 b22 c22 d22)"
  "relates R (get_template a23)"
  "relates R (get_failure a24)"
  "relates R (get_email a25)"
  unfolding get_user_by_id_def get_user_by_email_def get_user_by_username_def get_session_by_token_def
    list_user_sessions_def list_accounts_def get_verification_by_value_def get_organization_def
    get_organization_by_slug_def list_organizations_for_user_def get_member_def list_members_def
    get_invitation_def list_invitations_def list_invitations_for_email_def get_two_factor_by_user_id_def
    get_api_key_by_hash_def get_api_key_by_id_def list_api_keys_def json_response_def empty_response_def
    admin_list_users_def list_templates_def get_template_def get_failure_def get_email_def
  by (rule relates_get [OF reflp_R])+

lemma rel_create_user [auth_rel]: "creates_ok \<Longrightarrow> relates R (create_user a b)"
  unfolding create_user_def by (intro auth_rel rel_put_new_user; auto simp: patch_defs)

lemma rel_create_session [auth_rel]: "sessions_ok \<Longrightarrow> relates R (create_session a b)"
  unfolding create_session_def by (intro auth_rel; auto simp: patch_defs)

lemma rel_delete_session [auth_rel]: "relates R (delete_session a)"
  unfolding delete_session_def by (intro auth_rel; auto simp: patch_defs)

lemma rel_delete_user_sessions [auth_rel]: "relates R (delete_user_sessions a b)"
  unfolding delete_user_sessions_def by (intro auth_rel; auto simp: patch_defs)

lemma rel_create_account [auth_rel]: "owned_ok \<Longrightarrow> relates R (create_account a b c d e f)"
  unfolding create_account_def by (intro auth_rel; auto simp: patch_defs)

lemma rel_create_verification [auth_rel]: "relates R (create_verification a b c d e)"
  unfolding create_verification_def by (intro auth_rel; auto simp: patch_defs)

lemma rel_consume_verification [auth_rel]: "relates R (consume_verification a b)"
  unfolding consume_verification_def by (intro auth_rel; auto simp: patch_defs)

lemma rel_create_organization [auth_rel]: "relates R (create_organization a b c d)"
  unfolding create_organization_def by (intro auth_rel; auto simp: patch_defs)

lemma rel_update_organization [auth_rel]: "relates R (update_organization a b c d e)"
  unfolding update_organization_def by (intro auth_rel; auto simp: patch_defs)

lemma rel_add_member [auth_rel]: "members_ok \<Longrightarrow> relates R (add_member a b c d e)"
  unfolding add_member_def by (intro auth_rel; auto simp: patch_defs)

lemma rel_update_member_role [auth_rel]: "members_ok \<Longrightarrow> relates R (update_member_role a b c)"
  unfolding update_member_role_def by (intro auth_rel; auto simp: patch_defs)

lemma rel_remove_member [auth_rel]: "relates R (remove_member a b)"
  unfolding remove_member_def by (intro auth_rel; auto simp: patch_defs)

lemma rel_create_invitation [auth_rel]: "owned_ok \<Longrightarrow> relates R (create_invitation a b c d e f g)"
  unfolding create_invitation_def by (intro auth_rel; auto simp: patch_defs)

lemma rel_create_two_factor [auth_rel]: "owned_ok \<Longrightarrow> relates R (create_two_factor a b c d e)"
  unfolding create_two_factor_def by (intro auth_rel; auto simp: patch_defs)

lemma rel_delete_two_factor [auth_rel]: "relates R (delete_two_factor a)"
  unfolding delete_two_factor_def by (intro auth_rel; auto simp: patch_defs)

lemma rel_create_api_key [auth_rel]: "relates R (create_api_key a)"
  unfolding create_api_key_def by (intro auth_rel; auto simp: patch_defs)

lemma rel_delete_api_key [auth_rel]: "relates R (delete_api_key a)"
  unfolding delete_api_key_def by (intro auth_rel; auto simp: patch_defs)

lemma rel_delete_expired_api_keys [auth_rel]: "relates R (delete_expired_api_keys a)"
  unfolding delete_expired_api_keys_def by (intro auth_rel; auto simp: patch_defs)

lemma rel_touch_api_key [auth_rel]: "relates R (touch_api_key a b)"
  unfolding touch_api_key_def by (intro auth_rel; auto simp: patch_defs)

lemma rel_update_api_key [auth_rel]: "relates R (update_api_key a b c)"
  unfolding update_api_key_def by (intro auth_rel; auto simp: patch_defs)

lemma rel_append_cookie [auth_rel]: "relates R (append_cookie a)"
  unfolding append_cookie_def by (intro auth_rel; auto simp: patch_defs)

lemma rel_clear_session_cookie [auth_rel]: "relates R (clear_session_cookie a b)"
  unfolding clear_session_cookie_def by (intro auth_rel; auto simp: patch_defs)

lemma rel_consume_rate [auth_rel]: "relates R (consume_rate a b)"
  unfolding consume_rate_def by (intro auth_rel; auto simp: patch_defs)

lemma rel_enforce_origin [auth_rel]: "relates R (enforce_origin a b c)"
  unfolding enforce_origin_def by (intro auth_rel; auto simp: patch_defs)

lemma rel_ok_response [auth_rel]: "relates R (ok_response a)"
  unfolding ok_response_def by (intro auth_rel; auto simp: patch_defs)

subsection \<open>Sessions and passwords\<close>

lemma rel_lift_expired_ban [auth_rel]: "relates R (lift_expired_ban a b)"
  unfolding lift_expired_ban_def by (intro auth_rel; auto simp: patch_defs)

lemma rel_refresh_session [auth_rel]: "relates R (refresh_session a b c d)"
  unfolding refresh_session_def by (intro auth_rel; auto simp: patch_defs)

lemma rel_resolve_session [auth_rel]: "relates R (resolve_session a b c)"
  unfolding resolve_session_def by (intro auth_rel; auto simp: patch_defs)

lemma rel_require_session [auth_rel]: "relates R (require_session a b c)"
  unfolding require_session_def by (intro auth_rel; auto simp: patch_defs)

lemma rel_issue_session [auth_rel]: "sessions_ok \<Longrightarrow> relates R (issue_session a b c d)"
  unfolding issue_session_def by (intro auth_rel; auto simp: patch_defs)

lemma rel_resolve_api_key_user [auth_rel]: "relates R (resolve_api_key_user a b)"
  unfolding resolve_api_key_user_def by (intro auth_rel; auto simp: patch_defs)

lemma rel_get_session_route [auth_rel]: "relates R (get_session_route a b c)"
  unfolding get_session_route_def by (intro auth_rel; auto simp: patch_defs)

lemma rel_as_conflict [auth_rel]: "relates R m \<Longrightarrow> relates R (as_conflict message m)"
  unfolding as_conflict_def by (intro auth_rel)

lemma rel_hash_password [auth_rel]: "relates R (hash_password a b)"
  unfolding hash_password_def by (intro auth_rel; auto simp: patch_defs)

lemma rel_sign_up_email [auth_rel]: "sessions_ok \<Longrightarrow> creates_ok \<Longrightarrow> owned_ok \<Longrightarrow> relates R (sign_up_email a b c)"
  unfolding sign_up_email_def by (intro auth_rel; auto simp: patch_defs)

lemma rel_stored_hash [auth_rel]: "relates R (stored_hash a)"
  unfolding stored_hash_def by (intro auth_rel; auto simp: patch_defs)

lemma rel_set_password_hash [auth_rel]: "identity_ok \<Longrightarrow> relates R (set_password_hash a b c)"
  unfolding set_password_hash_def by (intro auth_rel; auto simp: patch_defs)

lemma rel_rehash_password [auth_rel]: "identity_ok \<Longrightarrow> relates R (rehash_password a b c d)"
  unfolding rehash_password_def by (intro auth_rel; auto simp: patch_defs)

lemma rel_start_second_factor [auth_rel]: "relates R (start_second_factor a b)"
  unfolding start_second_factor_def by (intro auth_rel; auto simp: patch_defs)

lemma rel_finish_sign_in [auth_rel]: "sessions_ok \<Longrightarrow> relates R (finish_sign_in a b c d)"
  unfolding finish_sign_in_def by (intro auth_rel; auto simp: patch_defs)

lemma rel_sign_in_user [auth_rel]: "relates R (sign_in_user a b)"
  unfolding sign_in_user_def by (intro auth_rel; auto simp: patch_defs)

lemma rel_sign_in [auth_rel]: "sessions_ok \<Longrightarrow> identity_ok \<Longrightarrow> relates R (sign_in a b c d)"
  unfolding sign_in_def by (intro auth_rel; auto simp: patch_defs)

lemma rel_status_true [auth_rel]: "relates R status_true"
  unfolding status_true_def by (intro auth_rel; auto simp: patch_defs)

lemma rel_success_true [auth_rel]: "relates R success_true"
  unfolding success_true_def by (intro auth_rel; auto simp: patch_defs)

lemma rel_sign_out [auth_rel]: "relates R (sign_out a b)"
  unfolding sign_out_def by (intro auth_rel; auto simp: patch_defs)

lemma rel_send_mail [auth_rel]: "relates R (send_mail a b c)"
  unfolding send_mail_def by (intro auth_rel; auto simp: patch_defs)

lemma rel_forget_password [auth_rel]: "relates R (forget_password a b c)"
  unfolding forget_password_def by (intro auth_rel; auto simp: patch_defs)

lemma rel_reset_password [auth_rel]: "identity_ok \<Longrightarrow> relates R (reset_password a b c)"
  unfolding reset_password_def by (intro auth_rel; auto simp: patch_defs)

lemma rel_change_password [auth_rel]: "identity_ok \<Longrightarrow> relates R (change_password a b c)"
  unfolding change_password_def by (intro auth_rel; auto simp: patch_defs)

lemma rel_set_password [auth_rel]: "identity_ok \<Longrightarrow> relates R (set_password a b c)"
  unfolding set_password_def by (intro auth_rel; auto simp: patch_defs)

lemma rel_update_user_route [auth_rel]: "relates R (update_user_route a b c)"
  unfolding update_user_route_def by (intro auth_rel; auto simp: patch_defs)

lemma rel_list_sessions_route [auth_rel]: "relates R (list_sessions_route a b c)"
  unfolding list_sessions_route_def by (intro auth_rel; auto simp: patch_defs)

lemma rel_revoke_session [auth_rel]: "relates R (revoke_session a b c)"
  unfolding revoke_session_def by (intro auth_rel; auto simp: patch_defs)

lemma rel_revoke_sessions [auth_rel]: "relates R (revoke_sessions a b c)"
  unfolding revoke_sessions_def by (intro auth_rel; auto simp: patch_defs)

lemma rel_revoke_other_sessions [auth_rel]: "relates R (revoke_other_sessions a b c)"
  unfolding revoke_other_sessions_def by (intro auth_rel; auto simp: patch_defs)

lemma rel_list_accounts_route [auth_rel]: "relates R (list_accounts_route a b c)"
  unfolding list_accounts_route_def by (intro auth_rel; auto simp: patch_defs)

subsection \<open>Organizations and tokens\<close>

lemma rel_create_organization_route [auth_rel]: "members_ok \<Longrightarrow> relates R (create_organization_route a b c)"
  unfolding create_organization_route_def by (intro auth_rel; auto simp: patch_defs)

lemma rel_list_organizations_route [auth_rel]: "relates R (list_organizations_route a b c)"
  unfolding list_organizations_route_def by (intro auth_rel; auto simp: patch_defs)

lemma rel_as_query_member [auth_rel]: "(\<And>gid. relates R (k gid)) \<Longrightarrow> relates R (as_query_member cfg env req k)"
  unfolding as_query_member_def by (intro auth_rel)

lemma rel_get_full_organization [auth_rel]: "relates R (get_full_organization a b c)"
  unfolding get_full_organization_def by (intro auth_rel; auto simp: patch_defs)

lemma rel_update_organization_route [auth_rel]: "relates R (update_organization_route a b c)"
  unfolding update_organization_route_def by (intro auth_rel; auto simp: patch_defs)

lemma rel_delete_organization_route [auth_rel]: "deletes_ok \<Longrightarrow> relates R (delete_organization_route a b c)"
  unfolding delete_organization_route_def by (intro auth_rel; auto simp: patch_defs)

lemma rel_set_active_organization [auth_rel]: "relates R (set_active_organization a b c)"
  unfolding set_active_organization_def by (intro auth_rel; auto simp: patch_defs)

lemma rel_check_slug [auth_rel]: "relates R (check_slug a b c)"
  unfolding check_slug_def by (intro auth_rel; auto simp: patch_defs)

lemma rel_list_members_route [auth_rel]: "relates R (list_members_route a b c)"
  unfolding list_members_route_def by (intro auth_rel; auto simp: patch_defs)

lemma rel_remove_member_route [auth_rel]: "relates R (remove_member_route a b c)"
  unfolding remove_member_route_def by (intro auth_rel; auto simp: patch_defs)

lemma rel_update_member_role_route [auth_rel]: "members_ok \<Longrightarrow> relates R (update_member_role_route a b c)"
  unfolding update_member_role_route_def by (intro auth_rel; auto simp: patch_defs)

lemma rel_leave_organization [auth_rel]: "relates R (leave_organization a b c)"
  unfolding leave_organization_def by (intro auth_rel; auto simp: patch_defs)

lemma rel_get_active_member [auth_rel]: "relates R (get_active_member a b c)"
  unfolding get_active_member_def by (intro auth_rel; auto simp: patch_defs)

lemma rel_has_permission [auth_rel]: "relates R (has_permission a b c)"
  unfolding has_permission_def by (intro auth_rel; auto simp: patch_defs)

lemma rel_invite_member [auth_rel]: "owned_ok \<Longrightarrow> relates R (invite_member a b c)"
  unfolding invite_member_def by (intro auth_rel; auto simp: patch_defs)

lemma rel_accept_invitation [auth_rel]: "members_ok \<Longrightarrow> relates R (accept_invitation a b c)"
  unfolding accept_invitation_def by (intro auth_rel; auto simp: patch_defs)

lemma rel_cancel_invitation [auth_rel]: "relates R (cancel_invitation a b c)"
  unfolding cancel_invitation_def by (intro auth_rel; auto simp: patch_defs)

lemma rel_list_invitations_route [auth_rel]: "relates R (list_invitations_route a b c)"
  unfolding list_invitations_route_def by (intro auth_rel; auto simp: patch_defs)

lemma rel_get_invitation_route [auth_rel]: "relates R (get_invitation_route a b c)"
  unfolding get_invitation_route_def by (intro auth_rel; auto simp: patch_defs)

lemma rel_list_user_invitations [auth_rel]: "relates R (list_user_invitations a b c)"
  unfolding list_user_invitations_def by (intro auth_rel; auto simp: patch_defs)

lemma rel_reject_invitation [auth_rel]: "relates R (reject_invitation a b c)"
  unfolding reject_invitation_def by (intro auth_rel; auto simp: patch_defs)

lemma rel_issue_token [auth_rel]: "relates R (issue_token a b c d)"
  unfolding issue_token_def by (intro auth_rel; auto simp: patch_defs)

lemma rel_current_authority [auth_rel]: "relates R (current_authority a b c)"
  unfolding current_authority_def by (intro auth_rel; auto simp: patch_defs)

lemma rel_token_route [auth_rel]: "relates R (token_route a b c d)"
  unfolding token_route_def by (intro auth_rel; auto simp: patch_defs)

subsection \<open>Further routes\<close>

lemma rel_send_verification_email [auth_rel]: "relates R (send_verification_email a b c)"
  unfolding send_verification_email_def by (intro auth_rel; auto simp: patch_defs)

lemma rel_verify_email [auth_rel]: "relates R (verify_email a b)"
  unfolding verify_email_def by (intro auth_rel; auto simp: patch_defs)

lemma rel_change_email [auth_rel]: "relates R (change_email a b c)"
  unfolding change_email_def by (intro auth_rel; auto simp: patch_defs)

lemma rel_change_email_verify [auth_rel]: "identity_ok \<Longrightarrow> relates R (change_email_verify a b c)"
  unfolding change_email_verify_def by (intro auth_rel; auto simp: patch_defs)

lemma rel_require_password [auth_rel]: "relates R (require_password a b c)"
  unfolding require_password_def by (intro auth_rel; auto simp: patch_defs)

lemma rel_delete_user_route [auth_rel]: "deletes_ok \<Longrightarrow> relates R (delete_user_route a b c)"
  unfolding delete_user_route_def by (intro auth_rel; auto simp: patch_defs)

lemma rel_generate_api_key [auth_rel]: "relates R (generate_api_key a b)"
  unfolding generate_api_key_def by (intro auth_rel; auto simp: patch_defs)

lemma rel_api_key_create [auth_rel]: "relates R (api_key_create a b c)"
  unfolding api_key_create_def by (intro auth_rel; auto simp: patch_defs)

lemma rel_api_key_list [auth_rel]: "relates R (api_key_list a b c)"
  unfolding api_key_list_def by (intro auth_rel; auto simp: patch_defs)

lemma rel_own_key [auth_rel]: "relates R (own_key a b)"
  unfolding own_key_def by (intro auth_rel; auto simp: patch_defs)

lemma rel_api_key_get [auth_rel]: "relates R (api_key_get a b c)"
  unfolding api_key_get_def by (intro auth_rel; auto simp: patch_defs)

lemma rel_api_key_delete [auth_rel]: "relates R (api_key_delete a b c)"
  unfolding api_key_delete_def by (intro auth_rel; auto simp: patch_defs)

lemma rel_api_key_verify [auth_rel]: "relates R (api_key_verify a b c)"
  unfolding api_key_verify_def by (intro auth_rel; auto simp: patch_defs)

lemma rel_api_key_delete_expired [auth_rel]: "relates R (api_key_delete_expired a b c)"
  unfolding api_key_delete_expired_def by (intro auth_rel; auto simp: patch_defs)

lemma rel_api_key_update [auth_rel]: "relates R (api_key_update a b c)"
  unfolding api_key_update_def by (intro auth_rel; auto simp: patch_defs)

lemma rel_times [auth_rel]: "relates R m \<Longrightarrow> relates R (times_act n m)"
  by (induction n) (simp_all, (intro auth_rel; assumption)+)

lemma rel_map_act [auth_rel]: "(\<And>x. relates R (f x)) \<Longrightarrow> relates R (map_act f xs)"
  by (induction xs) (simp_all, (intro auth_rel; assumption)+)

lemma rel_generate_backup_codes [auth_rel]: "relates R (generate_backup_codes a)"
  unfolding generate_backup_codes_def by (intro auth_rel; auto simp: patch_defs)

lemma rel_hash_backup_codes [auth_rel]: "relates R (hash_backup_codes a b)"
  unfolding hash_backup_codes_def by (intro auth_rel; auto simp: patch_defs)

lemma rel_password_session [auth_rel]: "relates R (password_session a b c)"
  unfolding password_session_def by (intro auth_rel; auto simp: patch_defs)

lemma rel_two_factor_enable [auth_rel]: "owned_ok \<Longrightarrow> relates R (two_factor_enable a b c)"
  unfolding two_factor_enable_def by (intro auth_rel; auto simp: patch_defs)

lemma rel_two_factor_get_totp_uri [auth_rel]: "relates R (two_factor_get_totp_uri a b c)"
  unfolding two_factor_get_totp_uri_def by (intro auth_rel; auto simp: patch_defs)

lemma rel_two_factor_disable [auth_rel]: "relates R (two_factor_disable a b c)"
  unfolding two_factor_disable_def by (intro auth_rel; auto simp: patch_defs)

lemma rel_two_factor_generate_backup_codes [auth_rel]: "relates R (two_factor_generate_backup_codes a b c)"
  unfolding two_factor_generate_backup_codes_def by (intro auth_rel; auto simp: patch_defs)

lemma rel_second_factor_user [auth_rel]: "relates R (second_factor_user a b c d e)"
  unfolding second_factor_user_def by (intro auth_rel; auto simp: patch_defs)

lemma rel_two_factor_verify_totp [auth_rel]: "sessions_ok \<Longrightarrow> relates R (two_factor_verify_totp a b c)"
  unfolding two_factor_verify_totp_def by (intro auth_rel; auto simp: patch_defs)

lemma rel_two_factor_send_otp [auth_rel]: "relates R (two_factor_send_otp a b c)"
  unfolding two_factor_send_otp_def by (intro auth_rel; auto simp: patch_defs)

lemma rel_two_factor_verify_otp [auth_rel]: "relates R (two_factor_verify_otp a b c)"
  unfolding two_factor_verify_otp_def by (intro auth_rel; auto simp: patch_defs)

lemma rel_two_factor_verify_backup_code [auth_rel]: "sessions_ok \<Longrightarrow> relates R (two_factor_verify_backup_code a b c)"
  unfolding two_factor_verify_backup_code_def by (intro auth_rel; auto simp: patch_defs)

subsection \<open>Administration\<close>

lemma rel_admin_create_user [auth_rel]: "creates_ok \<Longrightarrow> owned_ok \<Longrightarrow> roles_ok \<Longrightarrow> relates R (admin_create_user a b c)"
  unfolding admin_create_user_eq by (intro auth_rel; auto simp: patch_defs)

lemma rel_admin_delete_user [auth_rel]: "deletes_ok \<Longrightarrow> relates R (admin_delete_user a)"
  unfolding admin_delete_user_def by (intro auth_rel; auto simp: patch_defs)

lemma rel_require_admin [auth_rel]: "relates R (require_admin a b c)"
  unfolding require_admin_def by (intro auth_rel; auto simp: patch_defs)

lemma rel_user_response [auth_rel]: "relates R (user_response a)"
  unfolding user_response_def by (intro auth_rel; auto simp: patch_defs)

lemma rel_existing_user [auth_rel]: "relates R (existing_user a)"
  unfolding existing_user_def by (intro auth_rel; auto simp: patch_defs)

lemma rel_stop_impersonating [auth_rel]: "sessions_ok \<Longrightarrow> relates R (stop_impersonating a b c)"
  unfolding stop_impersonating_def by (intro auth_rel; auto simp: patch_defs)

lemma rel_admin_list_users_route [auth_rel]: "relates R (admin_list_users_route a)"
  unfolding admin_list_users_route_def by (intro auth_rel; auto simp: patch_defs)

lemma rel_admin_get_user_route [auth_rel]: "relates R (admin_get_user_route a b c)"
  unfolding admin_get_user_route_def by (intro auth_rel; auto simp: patch_defs)

lemma rel_admin_create_user_route [auth_rel]: "creates_ok \<Longrightarrow> owned_ok \<Longrightarrow> roles_ok \<Longrightarrow> relates R (admin_create_user_route a b c d)"
  unfolding admin_create_user_route_def by (intro auth_rel; auto simp: patch_defs)

lemma rel_admin_update_user_route [auth_rel]: "identity_ok \<Longrightarrow> relates R (admin_update_user_route a b c)"
  unfolding admin_update_user_route_def by (intro auth_rel; auto simp: patch_defs)

lemma rel_admin_set_role_route [auth_rel]: "roles_ok \<Longrightarrow> relates R (admin_set_role_route a b c d)"
  unfolding admin_set_role_route_def by (intro auth_rel; auto simp: patch_defs)

lemma rel_admin_ban_user_route [auth_rel]: "relates R (admin_ban_user_route a b c d)"
  unfolding admin_ban_user_route_def by (intro auth_rel; auto simp: patch_defs)

lemma rel_admin_unban_user_route [auth_rel]: "relates R (admin_unban_user_route a b c)"
  unfolding admin_unban_user_route_def by (intro auth_rel; auto simp: patch_defs)

lemma rel_admin_revoke_user_sessions_route [auth_rel]: "relates R (admin_revoke_user_sessions_route a b c d)"
  unfolding admin_revoke_user_sessions_route_def by (intro auth_rel; auto simp: patch_defs)

lemma rel_admin_remove_user_route [auth_rel]: "deletes_ok \<Longrightarrow> relates R (admin_remove_user_route a b c d)"
  unfolding admin_remove_user_route_def by (intro auth_rel; auto simp: patch_defs)

lemma rel_admin_impersonate_user_route [auth_rel]: "sessions_ok \<Longrightarrow> relates R (admin_impersonate_user_route a b c d)"
  unfolding admin_impersonate_user_route_def by (intro auth_rel; auto simp: patch_defs)

subsection \<open>Mail\<close>

lemma rel_resolve_anchors [auth_rel]: "relates R (resolve_anchors a b)"
  unfolding resolve_anchors_def by (intro auth_rel; auto simp: patch_defs)

lemma rel_bound_table [auth_rel]: "relates R (bound_table a b c d e)"
  unfolding bound_table_def by (intro auth_rel; auto simp: patch_defs)

lemma rel_resolve_bindings [auth_rel]: "relates R (resolve_bindings env ra bs vars)"
proof (induction bs arbitrary: vars)
  case (Cons b bs)
  show ?case unfolding resolve_bindings.simps by (intro auth_rel Cons.IH)
qed (simp add: relates_return [OF reflp_R])

lemma rel_resolve_email_bindings [auth_rel]: "relates R (resolve_email_bindings a b c d)"
  unfolding resolve_email_bindings_def by (intro auth_rel; auto simp: patch_defs)

lemma rel_put_template [auth_rel]: "relates R (put_template a b)"
  unfolding put_template_def by (intro auth_rel; auto simp: patch_defs)

lemma rel_put_failure [auth_rel]: "relates R (put_failure a b)"
  unfolding put_failure_def by (intro auth_rel; auto simp: patch_defs)

lemma rel_put_email [auth_rel]: "relates R (put_email a b)"
  unfolding put_email_def by (intro auth_rel; auto simp: patch_defs)

lemma rel_admin_body [auth_rel]: "relates R (admin_body a b)"
  unfolding admin_body_def by (intro auth_rel; auto simp: patch_defs)

lemma rel_require_mail_admin [auth_rel]: "relates R (require_mail_admin a b c)"
  unfolding require_mail_admin_def by (intro auth_rel; auto simp: patch_defs)

lemma rel_event_type_list [auth_rel]: "relates R (event_type_list a)"
  unfolding event_type_list_def by (intro auth_rel; auto simp: patch_defs)

lemma rel_template_list [auth_rel]: "relates R (template_list a)"
  unfolding template_list_def by (intro auth_rel; auto simp: patch_defs)

lemma rel_update_row [auth_rel]:
  "(\<And>x. relates R (lookup x)) \<Longrightarrow> (\<And>x row. relates R (put x row)) \<Longrightarrow> relates R (update_row env lookup put rid patch)"
  unfolding update_row_def by (intro auth_rel)

lemma rel_row_get [auth_rel]: "(\<And>x. relates R (lookup x)) \<Longrightarrow> relates R (row_get req lookup missing key)"
  unfolding row_get_def by (intro auth_rel)

lemma rel_row_delete [auth_rel]:
  "(\<And>x. relates R (lookup x)) \<Longrightarrow> (\<And>x. relates R (remove x)) \<Longrightarrow> relates R (row_delete env req lookup remove missing)"
  unfolding row_delete_def by (intro auth_rel)

lemma rel_row_update [auth_rel]:
  "(\<And>x. relates R (lookup x)) \<Longrightarrow> (\<And>x row. relates R (put x row)) \<Longrightarrow>
   relates R (row_update env req lookup put patch missing)"
  unfolding row_update_def by (intro auth_rel)

lemma rel_template_create [auth_rel]: "relates R (template_create a b)"
  unfolding template_create_def by (intro auth_rel; auto simp: patch_defs)

lemma rel_template_update [auth_rel]: "relates R (template_update a b)"
  unfolding template_update_def by (intro auth_rel; auto simp: patch_defs)

lemma rel_delete_template [auth_rel]: "relates R (delete_template a)"
  unfolding delete_template_def by (intro auth_rel; auto simp: patch_defs)

lemma rel_delete_failure [auth_rel]: "relates R (delete_failure a)"
  unfolding delete_failure_def by (intro auth_rel; auto simp: patch_defs)

lemma rel_delete_email [auth_rel]: "relates R (delete_email a)"
  unfolding delete_email_def by (intro auth_rel; auto simp: patch_defs)

lemma rel_failure_list [auth_rel]: "relates R failure_list"
  unfolding failure_list_def by (intro auth_rel; auto simp: patch_defs)

lemma rel_failure_create [auth_rel]: "relates R (failure_create a b)"
  unfolding failure_create_def by (intro auth_rel; auto simp: patch_defs)

lemma rel_email_list [auth_rel]: "relates R email_list"
  unfolding email_list_def by (intro auth_rel; auto simp: patch_defs)

lemma rel_email_create [auth_rel]: "relates R (email_create a b)"
  unfolding email_create_def by (intro auth_rel; auto simp: patch_defs)

lemma rel_persist_failure [auth_rel]: "relates R (persist_failure a b c)"
  unfolding persist_failure_def by (intro auth_rel; auto simp: patch_defs)

lemma rel_deliver_template [auth_rel]: "relates R (deliver_template a b c d e)"
  unfolding deliver_template_def by (intro auth_rel; auto simp: patch_defs)

lemma rel_send_stored_template [auth_rel]: "relates R (send_stored_template a b)"
  unfolding send_stored_template_def by (intro auth_rel; auto simp: patch_defs)

subsection \<open>The server\<close>

lemma rel_found_route [auth_rel]: "relates R m \<Longrightarrow> relates R (found_route m)"
  unfolding found_route_def by (intro auth_rel)

lemma rel_or_route [auth_rel]: "relates R m \<Longrightarrow> relates R k \<Longrightarrow> relates R (or_route m k)"
  unfolding or_route_def by (intro auth_rel)

lemma rel_health [auth_rel]: "relates R health"
  unfolding health_def by (intro auth_rel)

lemma rel_trace_id [auth_rel]: "relates R (trace_id env req)"
  unfolding trace_id_def by (intro auth_rel)

lemma rel_mail_route [auth_rel]: "relates R (mail_route env req path)"
  unfolding mail_route_def by (intro auth_rel)

lemma rel_mail_routes [auth_rel]: "relates R (handle_admin_email_routes cfg env req path)"
  unfolding handle_admin_email_routes_def by (intro auth_rel)

lemma rel_core_route [auth_rel]: "route_allowed sessions_ok roles_ok members_ok identity_ok creates_ok owned_ok deletes_ok path \<Longrightarrow>
   relates R (core_route cfg env req path)"
  unfolding core_route_def by (intro auth_rel; auto simp: route_allowed_def critical_paths)

lemma rel_organization_route [auth_rel]: "route_allowed sessions_ok roles_ok members_ok identity_ok creates_ok owned_ok deletes_ok path \<Longrightarrow>
   relates R (organization_route cfg env req path)"
  unfolding organization_route_def by (intro auth_rel; auto simp: route_allowed_def critical_paths)

lemma rel_extended_route [auth_rel]: "route_allowed sessions_ok roles_ok members_ok identity_ok creates_ok owned_ok deletes_ok path \<Longrightarrow>
   relates R (handle_extended_route cfg env req path)"
  unfolding handle_extended_route_def by (intro auth_rel; auto simp: route_allowed_def critical_paths)

lemma rel_actor_route [auth_rel]: "route_allowed sessions_ok roles_ok members_ok identity_ok creates_ok owned_ok deletes_ok path \<Longrightarrow>
   relates R (admin_actor_route cfg env req path actor)"
  unfolding admin_actor_route_def by (intro auth_rel; auto simp: route_allowed_def critical_paths)

lemma rel_admin_route [auth_rel]: "route_allowed sessions_ok roles_ok members_ok identity_ok creates_ok owned_ok deletes_ok path \<Longrightarrow>
   relates R (handle_admin_route cfg env req path)"
  unfolding handle_admin_route_def by (intro auth_rel; auto simp: route_allowed_def critical_paths)

lemma rel_handle_route [auth_rel]: "route_allowed sessions_ok roles_ok members_ok identity_ok creates_ok owned_ok deletes_ok path \<Longrightarrow>
   relates R (handle_route cfg env req path)"
  unfolding handle_route_def by (intro auth_rel)

theorem rel_handle_auth: "route_allowed sessions_ok roles_ok members_ok identity_ok creates_ok owned_ok deletes_ok (request_path cfg req) \<Longrightarrow>
   relates R (handle_auth cfg env req)"
  unfolding handle_auth_def route_request_def by (intro auth_rel)

end

end
