(* ===== verification/AuthFacts.thy ===== *)
theory AuthFacts
  imports AuthRelation
begin

text \<open>
  The relations that the requests of the local auth server keep: where sessions, roles,
  memberships and credentials can come from, as interpretations of \<open>auth_relation\<close>; and the
  invariant that every row belongs to users and organizations that exist.
\<close>

section \<open>Maps\<close>

lemma set_dset: "p \<in> set (dset k v d) \<Longrightarrow> p = (k, v) \<or> p \<in> set d"
  by (induction k v d rule: dset.induct) (auto split: if_splits)

lemma set_ddelete: "p \<in> set (ddelete k d) \<longleftrightarrow> p \<in> set d \<and> fst p \<noteq> k"
  by (auto simp: ddelete_def)

lemma set_dremove: "p \<in> set (dremove P d) \<longleftrightarrow> p \<in> set d \<and> \<not> P (snd p)"
  by (auto simp: dremove_def)

lemma set_dadjust: "p \<in> set (dadjust k f d) \<Longrightarrow> \<exists>v. (fst p, v) \<in> set d \<and> (snd p = v \<or> snd p = f v)"
  by (auto simp: dadjust_def) (metis prod.collapse)+

lemma set_change_first: "p \<in> set (change_first P (\<lambda>x. None) d) \<Longrightarrow> p \<in> set d"
  by (induction d) (auto split: if_splits)

lemma fst_dadjust [simp]: "map fst (dadjust k f d) = map fst d"
  by (induction d) (auto simp: dadjust_def)

lemma dfind_Some: "dfind P d = Some v \<Longrightarrow> \<exists>k. (k, v) \<in> set d \<and> P v"
  by (auto simp: dfind_def dvalues_def find_Some_iff) (metis nth_mem prod.collapse)

section \<open>Sources of sessions, roles, members and credentials\<close>

definition sessions_from :: "auth_state \<Rightarrow> auth_state \<Rightarrow> bool" where
  "sessions_from s t \<longleftrightarrow>
     (\<forall>(token, y) \<in> set (st_sessions t). \<exists>x. (token, x) \<in> set (st_sessions s) \<and> as_user_id x = as_user_id y)"

text \<open>A role is held before, or its rank is below the given one.\<close>

definition roles_from :: "nat \<Rightarrow> auth_state \<Rightarrow> auth_state \<Rightarrow> bool" where
  "roles_from n s t \<longleftrightarrow>
     (\<forall>(uid, v) \<in> set (st_users t). au_role v = None \<or> admin_role_rank (au_role v) < n \<or>
        (\<exists>u. (uid, u) \<in> set (st_users s) \<and> au_role u = au_role v))"

definition members_from :: "auth_state \<Rightarrow> auth_state \<Rightarrow> bool" where
  "members_from s t \<longleftrightarrow> set (st_members t) \<subseteq> set (st_members s)"

definition credentials_from :: "auth_state \<Rightarrow> auth_state \<Rightarrow> bool" where
  "credentials_from s t \<longleftrightarrow>
     (\<forall>(uid, v) \<in> set (st_users t). \<exists>u. (uid, u) \<in> set (st_users s) \<and>
        au_email u = au_email v \<and> au_metadata u = au_metadata v)"

lemma patched_role: "up_role p = None \<Longrightarrow> au_role (patched_user now p u) = au_role u"
  by (simp add: patched_user_def)

lemma patched_identity:
  "up_email p = None \<Longrightarrow> up_metadata p = None \<Longrightarrow>
   au_email (patched_user now p u) = au_email u \<and> au_metadata (patched_user now p u) = au_metadata u"
  by (simp add: patched_user_def)

lemma deleted_user:
  "st_users (snd (delete_user uid s)) = ddelete uid (st_users s)"
  "st_sessions (snd (delete_user uid s)) = dremove (\<lambda>x. as_user_id x = uid) (st_sessions s)"
  "st_members (snd (delete_user uid s)) = dremove (\<lambda>x. am_user_id x = uid) (st_members s)"
  "st_organizations (snd (delete_user uid s)) = st_organizations s"
  "st_invitations (snd (delete_user uid s)) = st_invitations s"
  "st_accounts (snd (delete_user uid s)) = dremove (\<lambda>x. aa_user_id x = uid) (st_accounts s)"
  "st_two_factors (snd (delete_user uid s)) = ddelete uid (st_two_factors s)"
  by (simp_all add: delete_user_def act_modify_def)

lemma deleted_organization:
  "st_users (snd (delete_organization gid s)) = st_users s"
  "st_sessions (snd (delete_organization gid s)) = st_sessions s"
  "st_accounts (snd (delete_organization gid s)) = st_accounts s"
  "st_two_factors (snd (delete_organization gid s)) = st_two_factors s"
  "st_organizations (snd (delete_organization gid s)) = ddelete gid (st_organizations s)"
  "st_members (snd (delete_organization gid s)) = dremove (\<lambda>m. am_organization_id m = gid) (st_members s)"
  "st_invitations (snd (delete_organization gid s)) = dremove (\<lambda>i. ai_organization_id i = gid) (st_invitations s)"
  by (simp_all add: delete_organization_def act_modify_def)

lemma sessions_from_refl: "st_sessions t = st_sessions s \<Longrightarrow> sessions_from s t"
  by (auto simp: sessions_from_def)

lemma sessions_from_subset: "set (st_sessions t) \<subseteq> set (st_sessions s) \<Longrightarrow> sessions_from s t"
  by (fastforce simp: sessions_from_def)

interpretation sessions: auth_relation sessions_from False True True True True True True
proof unfold_locales
  fix s t u
  show "sessions_from s t \<Longrightarrow> sessions_from t u \<Longrightarrow> sessions_from s u"
    by (fastforce simp: sessions_from_def)
next
  fix f :: "auth_session \<Rightarrow> auth_session" and token s
  assume f: "\<And>x. as_token (f x) = as_token x \<and> as_user_id (f x) = as_user_id x"
  show "sessions_from s (s\<lparr>st_sessions := dadjust token f (st_sessions s)\<rparr>)"
    unfolding sessions_from_def
  proof clarsimp
    fix k y
    assume "(k, y) \<in> set (dadjust token f (st_sessions s))"
    from set_dadjust [OF this] obtain v where "(k, v) \<in> set (st_sessions s)" "y = v \<or> y = f v" by auto
    with f show "\<exists>x. (k, x) \<in> set (st_sessions s) \<and> as_user_id x = as_user_id y" by metis
  qed
qed (auto intro: sessions_from_refl sessions_from_subset simp: same_rows_def deleted_user deleted_organization set_dremove)

lemma roles_from_same: "st_users t = st_users s \<Longrightarrow> roles_from n s t"
  by (auto simp: roles_from_def)

lemma roles_from_subset: "set (st_users t) \<subseteq> set (st_users s) \<Longrightarrow> roles_from n s t"
  by (fastforce simp: roles_from_def)

lemma roles_from_write:
  "au_role v = None \<or> admin_role_rank (au_role v) < n \<or> (\<exists>u. (uid, u) \<in> set (st_users s) \<and> au_role u = au_role v) \<Longrightarrow>
   roles_from n s (s\<lparr>st_users := dset uid v (st_users s)\<rparr>)"
  unfolding roles_from_def by (auto dest!: set_dset)

lemma roles_from_trans: "roles_from n s t \<Longrightarrow> roles_from n t u \<Longrightarrow> roles_from n s u"
  unfolding roles_from_def by (fastforce dest: bspec)

interpretation roles: auth_relation "roles_from n" True False True True True True True for n
proof unfold_locales
  fix s t u
  show "roles_from n s t \<Longrightarrow> roles_from n t u \<Longrightarrow> roles_from n s u" by (rule roles_from_trans)
next
  fix s :: auth_state and uid u now and p :: user_patch
  assume "map_of (st_users s) uid = Some u" "up_role p = None \<or> False"
  then show "roles_from n s (s\<lparr>st_users := dset uid (patched_user now p u) (st_users s)\<rparr>)"
    by (intro roles_from_write) (auto simp: patched_role dest: map_of_SomeD)
next
  fix s :: auth_state and i :: create_user_input and now
  show "roles_from n s (s\<lparr>st_users := dset (cu_id i) (new_user now i) (st_users s)\<rparr>)"
    by (intro roles_from_write) (simp add: new_user_def)
qed (auto intro: roles_from_same roles_from_subset simp: same_rows_def deleted_user deleted_organization set_ddelete)

interpretation members: auth_relation members_from True True False True True True True
  by unfold_locales
    (auto simp: members_from_def same_rows_def deleted_user deleted_organization set_dremove dest: set_change_first)

lemma credentials_from_same: "st_users t = st_users s \<Longrightarrow> credentials_from s t"
  by (auto simp: credentials_from_def)

lemma credentials_from_subset: "set (st_users t) \<subseteq> set (st_users s) \<Longrightarrow> credentials_from s t"
  by (fastforce simp: credentials_from_def)

interpretation credentials: auth_relation credentials_from True True True False False True True
proof unfold_locales
  fix s t u
  show "credentials_from s t \<Longrightarrow> credentials_from t u \<Longrightarrow> credentials_from s u"
    by (fastforce simp: credentials_from_def)
next
  fix s :: auth_state and uid u now and p :: user_patch
  assume "map_of (st_users s) uid = Some u" "up_email p = None \<and> up_metadata p = None \<or> False"
  then show "credentials_from s (s\<lparr>st_users := dset uid (patched_user now p u) (st_users s)\<rparr>)"
    unfolding credentials_from_def by (auto dest!: set_dset dest: map_of_SomeD simp: patched_identity)
qed (auto intro: credentials_from_same credentials_from_subset simp: same_rows_def deleted_user deleted_organization set_ddelete)

section \<open>Rows belong to somebody\<close>

datatype owner_id = UserId string | OrganizationId string

definition known_ids :: "auth_state \<Rightarrow> owner_id set" where
  "known_ids s = UserId ` fst ` set (st_users s) \<union> OrganizationId ` fst ` set (st_organizations s)"

text \<open>
  Users are stored under their id and sessions under their token, once; and sessions, accounts,
  members, second factors and invitations point to users and organizations that exist.
\<close>

definition records_owned :: "auth_state \<Rightarrow> bool" where
  "records_owned s \<longleftrightarrow>
     distinct (map fst (st_users s)) \<and> (\<forall>(uid, u) \<in> set (st_users s). au_id u = uid) \<and>
     distinct (map fst (st_sessions s)) \<and>
     (\<forall>(token, x) \<in> set (st_sessions s). as_token x = token \<and> UserId (as_user_id x) \<in> known_ids s) \<and>
     (\<forall>(aid, a) \<in> set (st_accounts s). UserId (aa_user_id a) \<in> known_ids s) \<and>
     (\<forall>(uid, f) \<in> set (st_two_factors s). tf_user_id f = uid \<and> UserId uid \<in> known_ids s) \<and>
     (\<forall>(mid, m) \<in> set (st_members s). UserId (am_user_id m) \<in> known_ids s \<and>
        OrganizationId (am_organization_id m) \<in> known_ids s) \<and>
     (\<forall>(iid, i) \<in> set (st_invitations s). OrganizationId (ai_organization_id i) \<in> known_ids s)"

definition keeps_owned :: "auth_state \<Rightarrow> auth_state \<Rightarrow> bool" where
  "keeps_owned s t \<longleftrightarrow> (records_owned s \<longrightarrow> records_owned t)"

definition grows_owned :: "auth_state \<Rightarrow> auth_state \<Rightarrow> bool" where
  "grows_owned s t \<longleftrightarrow> (records_owned s \<longrightarrow> records_owned t \<and> known_ids s \<subseteq> known_ids t)"

lemma records_owned_empty: "records_owned empty_stores"
  by (simp add: records_owned_def empty_stores_def)

lemma records_ownedI:
  assumes "records_owned s" "known_ids s \<subseteq> known_ids t"
    and "st_users t = st_users s \<or> distinct (map fst (st_users t)) \<and> (\<forall>(uid, u) \<in> set (st_users t). au_id u = uid)"
    and "st_sessions t = st_sessions s \<or> distinct (map fst (st_sessions t)) \<and>
      (\<forall>(token, x) \<in> set (st_sessions t). as_token x = token \<and> UserId (as_user_id x) \<in> known_ids t)"
    and "set (st_accounts t) \<subseteq> set (st_accounts s) \<or> (\<forall>(aid, a) \<in> set (st_accounts t). UserId (aa_user_id a) \<in> known_ids t)"
    and "set (st_two_factors t) \<subseteq> set (st_two_factors s) \<or>
      (\<forall>(uid, f) \<in> set (st_two_factors t). tf_user_id f = uid \<and> UserId uid \<in> known_ids t)"
    and "set (st_members t) \<subseteq> set (st_members s) \<or>
      (\<forall>(mid, m) \<in> set (st_members t). UserId (am_user_id m) \<in> known_ids t \<and> OrganizationId (am_organization_id m) \<in> known_ids t)"
    and "set (st_invitations t) \<subseteq> set (st_invitations s) \<or>
      (\<forall>(iid, i) \<in> set (st_invitations t). OrganizationId (ai_organization_id i) \<in> known_ids t)"
  shows "records_owned t"
proof -
  have "distinct (map fst (st_users t)) \<and> (\<forall>(uid, u) \<in> set (st_users t). au_id u = uid)"
    using assms(1,3) by (auto simp: records_owned_def)
  moreover have "distinct (map fst (st_sessions t)) \<and>
      (\<forall>(token, x) \<in> set (st_sessions t). as_token x = token \<and> UserId (as_user_id x) \<in> known_ids t)"
    using assms(1,2,4) by (fastforce simp: records_owned_def)
  moreover have "\<forall>(aid, a) \<in> set (st_accounts t). UserId (aa_user_id a) \<in> known_ids t"
    using assms(1,2,5) by (fastforce simp: records_owned_def)
  moreover have "\<forall>(uid, f) \<in> set (st_two_factors t). tf_user_id f = uid \<and> UserId uid \<in> known_ids t"
    using assms(1,2,6) by (fastforce simp: records_owned_def)
  moreover have "\<forall>(mid, m) \<in> set (st_members t). UserId (am_user_id m) \<in> known_ids t \<and> OrganizationId (am_organization_id m) \<in> known_ids t"
    using assms(1,2,7) by (fastforce simp: records_owned_def)
  moreover have "\<forall>(iid, i) \<in> set (st_invitations t). OrganizationId (ai_organization_id i) \<in> known_ids t"
    using assms(1,2,8) by (fastforce simp: records_owned_def)
  ultimately show ?thesis by (simp add: records_owned_def)
qed

lemma grows_keeps: "grows_owned s t \<Longrightarrow> keeps_owned s t"
  by (simp add: grows_owned_def keeps_owned_def)

lemma grows_same: "same_rows s t \<Longrightarrow> grows_owned s t"
  by (auto simp: grows_owned_def same_rows_def records_owned_def known_ids_def)

lemma known_user_write: "known_ids (s\<lparr>st_users := dset uid v (st_users s)\<rparr>) = insert (UserId uid) (known_ids s)"
  by (simp add: known_ids_def keys_dset)

lemma known_organization_write:
  "known_ids (s\<lparr>st_organizations := dset gid g (st_organizations s)\<rparr>) = insert (OrganizationId gid) (known_ids s)"
  by (simp add: known_ids_def keys_dset)

lemma known_other [simp]:
  "known_ids (s\<lparr>st_sessions := a\<rparr>) = known_ids s" "known_ids (s\<lparr>st_accounts := b\<rparr>) = known_ids s"
  "known_ids (s\<lparr>st_members := c\<rparr>) = known_ids s" "known_ids (s\<lparr>st_invitations := d\<rparr>) = known_ids s"
  "known_ids (s\<lparr>st_two_factors := e\<rparr>) = known_ids s"
  by (simp_all add: known_ids_def)

lemma grows_user: "au_id v = uid \<Longrightarrow> grows_owned s (s\<lparr>st_users := dset uid v (st_users s)\<rparr>)"
  unfolding grows_owned_def
proof (intro impI conjI)
  assume v: "au_id v = uid" and s: "records_owned s"
  then have "\<forall>(k, u) \<in> set (dset uid v (st_users s)). au_id u = k"
    by (auto simp: records_owned_def dest!: set_dset)
  moreover have "distinct (map fst (dset uid v (st_users s)))" using s by (simp add: records_owned_def distinct_dset)
  ultimately show "records_owned (s\<lparr>st_users := dset uid v (st_users s)\<rparr>)"
    by (intro records_ownedI [OF s]) (auto simp: known_user_write)
qed (auto simp: known_user_write)

lemma grows_patch:
  "map_of (st_users s) uid = Some u \<Longrightarrow> grows_owned s (s\<lparr>st_users := dset uid (patched_user now p u) (st_users s)\<rparr>)"
proof (cases "records_owned s")
  case True
  moreover assume "map_of (st_users s) uid = Some u"
  ultimately have "au_id u = uid" by (auto simp: records_owned_def dest!: map_of_SomeD)
  then show ?thesis by (intro grows_user) (simp add: patched_user_def)
qed (simp add: grows_owned_def)

lemma grows_organization: "grows_owned s (s\<lparr>st_organizations := dset gid g (st_organizations s)\<rparr>)"
  unfolding grows_owned_def
  by (intro impI conjI, rule records_ownedI) (auto simp: known_organization_write)

lemma grows_sessions:
  assumes "records_owned s \<Longrightarrow> distinct (map fst d)"
    and "\<And>token x. (token, x) \<in> set d \<Longrightarrow> records_owned s \<Longrightarrow> as_token x = token \<and> UserId (as_user_id x) \<in> known_ids s"
  shows "grows_owned s (s\<lparr>st_sessions := d\<rparr>)"
  unfolding grows_owned_def
proof (intro impI conjI)
  assume s: "records_owned s"
  have d: "\<forall>(token, x) \<in> set d. as_token x = token \<and> UserId (as_user_id x) \<in> known_ids s" using assms(2) [OF _ s] by blast
  show "records_owned (s\<lparr>st_sessions := d\<rparr>)" by (rule records_ownedI [OF s]) (use d assms(1) [OF s] in simp_all)
qed simp

lemma owned_session: "records_owned s \<Longrightarrow> (token, x) \<in> set (st_sessions s) \<Longrightarrow>
    as_token x = token \<and> UserId (as_user_id x) \<in> known_ids s"
  by (auto simp: records_owned_def)

lemma grows_session_adjust:
  assumes "\<And>x. as_token (f x) = as_token x \<and> as_user_id (f x) = as_user_id x"
  shows "grows_owned s (s\<lparr>st_sessions := dadjust token f (st_sessions s)\<rparr>)"
proof (rule grows_sessions)
  fix k y
  assume "(k, y) \<in> set (dadjust token f (st_sessions s))" and s: "records_owned s"
  from set_dadjust [OF this(1)] obtain x where "(k, x) \<in> set (st_sessions s)" "y = x \<or> y = f x" by auto
  with owned_session [OF s this(1)] assms [of x] show "as_token y = k \<and> UserId (as_user_id y) \<in> known_ids s" by auto
qed (simp add: records_owned_def)

lemma grows_session_filter: "grows_owned s (s\<lparr>st_sessions := filter P (st_sessions s)\<rparr>)"
  by (rule grows_sessions) (auto simp: records_owned_def distinct_map_filter)

lemma grows_factors:
  assumes "\<And>uid f. (uid, f) \<in> set d \<Longrightarrow> records_owned s \<Longrightarrow> tf_user_id f = uid \<and> UserId uid \<in> known_ids s"
  shows "grows_owned s (s\<lparr>st_two_factors := d\<rparr>)"
  unfolding grows_owned_def
proof (intro impI conjI)
  assume s: "records_owned s"
  have d: "\<forall>(uid, f) \<in> set d. tf_user_id f = uid \<and> UserId uid \<in> known_ids s" using assms(1) [OF _ s] by blast
  show "records_owned (s\<lparr>st_two_factors := d\<rparr>)" by (rule records_ownedI [OF s]) (use d  in simp_all)
qed simp

lemma grows_factor_adjust:
  assumes "\<And>x. tf_user_id (h x) = tf_user_id x"
  shows "grows_owned s (s\<lparr>st_two_factors := dadjust uid h (st_two_factors s)\<rparr>)"
proof (rule grows_factors)
  fix k y
  assume "(k, y) \<in> set (dadjust uid h (st_two_factors s))" and s: "records_owned s"
  from set_dadjust [OF this(1)] obtain x where x: "(k, x) \<in> set (st_two_factors s)" "y = x \<or> y = h x" by auto
  then have "tf_user_id x = k \<and> UserId k \<in> known_ids s" using s by (auto simp: records_owned_def)
  with x(2) assms [of x] show "tf_user_id y = k \<and> UserId k \<in> known_ids s" by auto
qed

lemma grows_members:
  assumes "\<And>mid m. (mid, m) \<in> set d \<Longrightarrow> records_owned s \<Longrightarrow>
    UserId (am_user_id m) \<in> known_ids s \<and> OrganizationId (am_organization_id m) \<in> known_ids s"
  shows "grows_owned s (s\<lparr>st_members := d\<rparr>)"
  unfolding grows_owned_def
proof (intro impI conjI)
  assume s: "records_owned s"
  have d: "\<forall>(mid, m) \<in> set d. UserId (am_user_id m) \<in> known_ids s \<and> OrganizationId (am_organization_id m) \<in> known_ids s" using assms(1) [OF _ s] by blast
  show "records_owned (s\<lparr>st_members := d\<rparr>)" by (rule records_ownedI [OF s]) (use d  in simp_all)
qed simp

lemma owned_member: "records_owned s \<Longrightarrow> (mid, m) \<in> set (st_members s) \<Longrightarrow>
    UserId (am_user_id m) \<in> known_ids s \<and> OrganizationId (am_organization_id m) \<in> known_ids s"
  by (auto simp: records_owned_def)

lemma grows_member_remove: "grows_owned s (s\<lparr>st_members := change_first Q (\<lambda>m. None) (st_members s)\<rparr>)"
  by (rule grows_members) (auto dest: set_change_first owned_member)

lemma grows_invitations:
  assumes "\<And>iid i. (iid, i) \<in> set d \<Longrightarrow> records_owned s \<Longrightarrow> OrganizationId (ai_organization_id i) \<in> known_ids s"
  shows "grows_owned s (s\<lparr>st_invitations := d\<rparr>)"
  unfolding grows_owned_def
proof (intro impI conjI)
  assume s: "records_owned s"
  have d: "\<forall>(iid, i) \<in> set d. OrganizationId (ai_organization_id i) \<in> known_ids s" using assms(1) [OF _ s] by blast
  show "records_owned (s\<lparr>st_invitations := d\<rparr>)" by (rule records_ownedI [OF s]) (use d  in simp_all)
qed simp

lemma grows_invitation_status:
  "grows_owned s (s\<lparr>st_invitations := dadjust iid (\<lambda>i. i\<lparr>ai_status := status\<rparr>) (st_invitations s)\<rparr>)"
proof (rule grows_invitations)
  fix k y
  assume "(k, y) \<in> set (dadjust iid (\<lambda>i. i\<lparr>ai_status := status\<rparr>) (st_invitations s))" and s: "records_owned s"
  from set_dadjust [OF this(1)] obtain x where "(k, x) \<in> set (st_invitations s)" "y = x \<or> y = x\<lparr>ai_status := status\<rparr>"
    by auto
  then show "OrganizationId (ai_organization_id y) \<in> known_ids s" using s by (auto simp: records_owned_def)
qed

lemma grows_trans: "grows_owned s t \<Longrightarrow> grows_owned t u \<Longrightarrow> grows_owned s u"
  unfolding grows_owned_def by blast

interpretation grows: auth_relation grows_owned False True False True True False False
proof unfold_locales
  fix s t u
  show "grows_owned s t \<Longrightarrow> grows_owned t u \<Longrightarrow> grows_owned s u" by (rule grows_trans)
next
  fix s i now
  show "grows_owned s (s\<lparr>st_users := dset (cu_id i) (new_user now i) (st_users s)\<rparr>)"
    by (rule grows_user) (simp add: new_user_def)
next
  fix s uid
  show "grows_owned s (s\<lparr>st_two_factors := ddelete uid (st_two_factors s)\<rparr>)"
    by (rule grows_factors) (auto simp: set_ddelete records_owned_def)
qed (simp_all add: grows_same grows_patch grows_session_adjust grows_session_filter grows_factor_adjust
    grows_member_remove grows_organization grows_invitation_status grows_owned_def [of s s for s])

text \<open>Deleting a user or an organization takes the rows along that belong to it.\<close>

lemma distinct_filter_keys: "distinct (map fst d) \<Longrightarrow> distinct (map fst (filter P d))"
  by (simp add: distinct_map_filter)

lemma keeps_delete_user: "keeps_owned s (snd (delete_user uid s))"
  unfolding keeps_owned_def
proof
  let ?t = "snd (delete_user uid s)"
  assume s: "records_owned s"
  have u: "UserId x \<in> known_ids ?t \<longleftrightarrow> UserId x \<in> known_ids s \<and> x \<noteq> uid" for x
    by (auto simp: known_ids_def deleted_user set_ddelete image_iff)
  have g: "OrganizationId x \<in> known_ids ?t \<longleftrightarrow> OrganizationId x \<in> known_ids s" for x
    by (auto simp: known_ids_def deleted_user)
  have "distinct (map fst (st_users ?t))" "distinct (map fst (st_sessions ?t))"
    using s by (simp_all add: records_owned_def deleted_user ddelete_def dremove_def distinct_filter_keys)
  then show "records_owned ?t"
    using s unfolding records_owned_def
    by (simp add: u g, simp add: deleted_user Ball_def set_ddelete set_dremove split_paired_All) blast
qed

lemma keeps_delete_organization: "keeps_owned s (snd (delete_organization gid s))"
  unfolding keeps_owned_def
proof
  let ?t = "snd (delete_organization gid s)"
  assume s: "records_owned s"
  have u: "UserId x \<in> known_ids ?t \<longleftrightarrow> UserId x \<in> known_ids s" for x
    by (auto simp: known_ids_def deleted_organization)
  have g: "OrganizationId x \<in> known_ids ?t \<longleftrightarrow> OrganizationId x \<in> known_ids s \<and> x \<noteq> gid" for x
    by (auto simp: known_ids_def deleted_organization set_ddelete image_iff)
  show "records_owned ?t"
    using s unfolding records_owned_def
    by (simp add: u g, simp add: deleted_organization Ball_def set_ddelete set_dremove split_paired_All) blast
qed

interpretation keeps: auth_relation keeps_owned False True False True True False True
proof unfold_locales
  fix s t u
  show "keeps_owned s t \<Longrightarrow> keeps_owned t u \<Longrightarrow> keeps_owned s u" by (simp add: keeps_owned_def)
next
  fix s i now
  show "keeps_owned s (s\<lparr>st_users := dset (cu_id i) (new_user now i) (st_users s)\<rparr>)"
    by (rule grows_keeps, rule grows_user) (simp add: new_user_def)
qed (auto intro: grows_keeps grows.R_same grows_patch grows_session_adjust grows_session_filter grows_factor_adjust
    grows.R_factor_delete grows_member_remove grows_organization grows_invitation_status keeps_delete_user
    keeps_delete_organization grows.R_refl)

end
