(* ===== verification/AuthOwned.thy ===== *)
theory AuthOwned
  imports AuthFacts
begin

text \<open>
  The invariant \<open>records_owned\<close> for the handlers that add rows. Such a handler first looks up the
  user or the organization the row will point to; \<open>safe U m g\<close> says that \<open>m\<close> keeps the
  invariant when the ids in \<open>U\<close> exist, that they exist afterwards, and that the ids \<open>g x\<close>
  exist when it returns \<open>x\<close>.
\<close>

section \<open>Programs that know ids\<close>

definition safe :: "owner_id set \<Rightarrow> 'a auth_act \<Rightarrow> ('a \<Rightarrow> owner_id set) \<Rightarrow> bool" where
  "safe U m g \<longleftrightarrow>
     (\<forall>s r t. m s = (r, t) \<longrightarrow> records_owned s \<longrightarrow> U \<subseteq> known_ids s \<longrightarrow>
        records_owned t \<and> (\<forall>x. r = Inr x \<longrightarrow> U \<union> g x \<subseteq> known_ids t))"

named_theorems safe_intros \<open>programs that keep rows owned\<close>

lemma safeI:
  "(\<And>s r t. m s = (r, t) \<Longrightarrow> records_owned s \<Longrightarrow> U \<subseteq> known_ids s \<Longrightarrow>
     records_owned t \<and> (\<forall>x. r = Inr x \<longrightarrow> U \<union> g x \<subseteq> known_ids t)) \<Longrightarrow> safe U m g"
  by (simp add: safe_def)

lemma safe_grows: "relates grows_owned m \<Longrightarrow> safe U m (\<lambda>x. {})"
proof (rule safeI)
  fix s r t
  assume "relates grows_owned m" "m s = (r, t)" "records_owned s" "U \<subseteq> known_ids s"
  then show "records_owned t \<and> (\<forall>x. r = Inr x \<longrightarrow> U \<union> {} \<subseteq> known_ids t)"
    using relatesD [of grows_owned m s r t] by (simp add: grows_owned_def) (meson order_trans)
qed

lemma safe_keeps: "safe {} m g \<Longrightarrow> relates keeps_owned m"
  unfolding safe_def relates_def keeps_owned_def by (metis empty_subsetI prod.collapse)

lemma safe_bind [safe_intros]: "safe U m g \<Longrightarrow> (\<And>x. safe (U \<union> g x) (f x) h) \<Longrightarrow> safe U (act_bind m f) h"
proof (rule safeI)
  fix s r t
  assume m: "safe U m g" and f: "\<And>x. safe (U \<union> g x) (f x) h" and b: "act_bind m f s = (r, t)"
    and s: "records_owned s" "U \<subseteq> known_ids s"
  obtain r1 s1 where 1: "m s = (r1, s1)" by fastforce
  with m s have s1: "records_owned s1" "\<And>x. r1 = Inr x \<Longrightarrow> U \<union> g x \<subseteq> known_ids s1" by (auto simp: safe_def)
  show "records_owned t \<and> (\<forall>x. r = Inr x \<longrightarrow> U \<union> h x \<subseteq> known_ids t)"
  proof (cases r1)
    case (Inl e)
    with b 1 s1(1) show ?thesis by (auto simp: act_bind_def)
  next
    case (Inr x)
    with b 1 have "f x s1 = (r, t)" by (simp add: act_bind_def)
    with f [of x] s1 Inr show ?thesis unfolding safe_def by blast
  qed
qed

text \<open>What passing a check tells.\<close>

lemma safe_bind_guard: "(ok \<Longrightarrow> safe U (k ()) h) \<Longrightarrow> safe U (act_bind (guard_act ok e) k) h"
  by (auto simp: safe_def guard_act_def act_defs split: if_splits)

lemma safe_bind_require:
  "(\<And>x. v = Some x \<Longrightarrow> safe U (k x) h) \<Longrightarrow> safe U (act_bind (require_some v e) k) h"
  by (cases v) (auto simp: safe_def require_some_def act_defs)

lemmas safe_checks = safe_bind_guard safe_bind_require

lemma safe_return: "g x \<subseteq> U \<Longrightarrow> safe U (act_return x) g"
  by (auto simp: safe_def act_return_def)

lemma safe_throw [safe_intros]: "safe U (act_throw e) g"
  by (auto simp: safe_def act_throw_def)

lemma safe_option [safe_intros]:
  "(v = None \<Longrightarrow> safe U a g) \<Longrightarrow> (\<And>y. v = Some y \<Longrightarrow> safe U (b y) g) \<Longrightarrow>
   safe U (case v of None \<Rightarrow> a | Some y \<Rightarrow> b y) g"
  by (cases v) simp_all

lemma safe_if [safe_intros]: "(c \<Longrightarrow> safe U a g) \<Longrightarrow> (\<not> c \<Longrightarrow> safe U b g) \<Longrightarrow> safe U (if c then a else b) g"
  by simp

lemma safe_prod [safe_intros]: "(\<And>a b. p = (a, b) \<Longrightarrow> safe U (f a b) g) \<Longrightarrow> safe U (case p of (a, b) \<Rightarrow> f a b) g"
  by (cases p) simp

lemma safe_let [safe_intros]: "safe U (f x) g \<Longrightarrow> safe U (let y = x in f y) g"
  by simp

lemma safe_conflict [safe_intros]: "safe U m g \<Longrightarrow> safe U (as_conflict message m) g"
  unfolding safe_def as_conflict_def by (auto simp: act_defs split: prod.splits sum.splits)

lemmas safe_plain [safe_intros] =
  safe_grows [OF grows.rel_simple(4)] safe_grows [OF grows.rel_new_uuid] safe_grows [OF grows.rel_draw]
  safe_grows [OF grows.rel_ok_response] safe_grows [OF grows.rel_hash_password] safe_grows [OF grows.rel_append_cookie]
  safe_grows [OF grows.rel_status_true] safe_grows [OF grows.rel_stored_hash] safe_grows [OF grows.rel_rehash_password [OF TrueI]]
  safe_grows [OF grows.rel_start_second_factor] safe_grows [OF grows.rel_consume_rate]
  safe_grows [OF grows.rel_adjusts(4)] safe_grows [OF grows.rel_generate_backup_codes]
  safe_grows [OF grows.rel_hash_backup_codes] safe_grows [OF grows.rel_consume_verification]
  safe_grows [OF grows.rel_adjusts(3)] safe_grows [OF grows.rel_delete_session]
  safe_grows [OF grows.rel_user_response] safe_grows [OF grows.rel_refresh_session]
  safe_grows [OF grows.rel_adjusts(2)]

section \<open>Lookups\<close>

definition user_ids :: "auth_user option \<Rightarrow> owner_id set" where
  "user_ids v = (case v of None \<Rightarrow> {} | Some u \<Rightarrow> {UserId (au_id u)})"

lemma user_ids_simps [simp]: "user_ids None = {}" "user_ids (Some u) = {UserId (au_id u)}"
  by (simp_all add: user_ids_def)

lemma owned_user: "records_owned s \<Longrightarrow> (uid, u) \<in> set (st_users s) \<Longrightarrow> au_id u = uid \<and> UserId uid \<in> known_ids s"
proof
  assume s: "records_owned s" and p: "(uid, u) \<in> set (st_users s)"
  then show "au_id u = uid" by (auto simp: records_owned_def)
  from p have "uid \<in> fst ` set (st_users s)" by (rule image_eqI [rotated]) simp
  then show "UserId uid \<in> known_ids s" unfolding known_ids_def by blast
qed

lemma safe_get: "(\<And>s. records_owned s \<Longrightarrow> g (f s) \<subseteq> known_ids s) \<Longrightarrow> safe U (act_get f) g"
  by (auto simp: safe_def act_get_def)

lemma safe_get_user_by_id [safe_intros]:
  "safe U (get_user_by_id uid) (\<lambda>v. user_ids v \<union> (if v = None then {} else {UserId uid}))"
  unfolding get_user_by_id_def
  by (rule safe_get) (auto dest!: owned_user [OF _ map_of_SomeD] simp: user_ids_def split: option.splits)

lemma safe_get_user_by_email [safe_intros]: "safe U (get_user_by_email email) user_ids"
  unfolding get_user_by_email_def
  by (rule safe_get) (auto dest!: dfind_Some owned_user simp: user_ids_def split: option.splits)

lemma safe_get_user_by_username [safe_intros]: "safe U (get_user_by_username username) user_ids"
  unfolding get_user_by_username_def
  by (rule safe_get) (auto dest!: dfind_Some owned_user simp: user_ids_def split: option.splits)

lemma safe_sign_in_user [safe_intros]: "safe U (sign_in_user body by_username) user_ids"
  unfolding sign_in_user_def by (rule safe_intros)+

lemma safe_get_member [safe_intros]:
  "safe U (get_member gid uid) (\<lambda>v. if v = None then {} else {OrganizationId gid})"
  unfolding get_member_def
  by (rule safe_get) (auto dest!: dfind_Some owned_member simp: membership_def)

lemma safe_get_invitation [safe_intros]:
  "safe U (get_invitation iid) (\<lambda>v. case v of None \<Rightarrow> {} | Some i \<Rightarrow> {OrganizationId (ai_organization_id i)})"
  unfolding get_invitation_def
  by (rule safe_get) (auto simp: records_owned_def dest!: map_of_SomeD split: option.splits)

lemma safe_get_session [safe_intros]: "safe U (get_session_by_token env token) (\<lambda>v. {})"
  by (rule safe_grows) (rule grows.rel_reads)

lemma safe_get_two_factor [safe_intros]: "safe U (get_two_factor_by_user_id uid) (\<lambda>v. {})"
  by (rule safe_grows) (rule grows.rel_reads)

lemma safe_weaken: "safe U m g \<Longrightarrow> (\<And>x. h x \<subseteq> U \<union> g x) \<Longrightarrow> safe U m h"
  unfolding safe_def by (metis Un_subset_iff dual_order.trans)

lemma safe_lift_expired_ban:
  assumes "UserId (au_id u) \<in> U"
  shows "safe U (lift_expired_ban env u) (\<lambda>v. {UserId (au_id v)})"
proof -
  have p: "safe U (update_user env (au_id u) unban_patch) (\<lambda>v. {})"
    by (rule safe_grows) (rule grows.rel_update_user; simp add: patch_defs)
  show ?thesis unfolding lift_expired_ban_def
    by (intro safe_if safe_bind [OF p] safe_return) (use assms in \<open>auto simp: without_ban_def\<close>)
qed

definition resolved_ids :: "resolved_session option \<Rightarrow> owner_id set" where
  "resolved_ids v = (case v of None \<Rightarrow> {} | Some r \<Rightarrow> {UserId (au_id (rv_user r))})"

lemma safe_resolve_session: "safe U (resolve_session cfg env req) resolved_ids"
  unfolding resolve_session_def
  by (rule safe_intros safe_lift_expired_ban safe_return | force simp: resolved_ids_def)+

lemma safe_require_session [safe_intros]: "safe U (require_session cfg env req) (\<lambda>r. {UserId (au_id (rv_user r))})"
proof -
  have "safe V (require_some v e) (\<lambda>r. {UserId (au_id (rv_user r))})" if "resolved_ids v \<subseteq> V" for v V e
    using that by (cases v) (auto simp: require_some_def resolved_ids_def intro: safe_return safe_throw)
  then show ?thesis unfolding require_session_def by (intro safe_bind [OF safe_resolve_session]) simp
qed

section \<open>Writes\<close>

lemma safe_modify:
  "(\<And>s. records_owned s \<Longrightarrow> U \<subseteq> known_ids s \<Longrightarrow> records_owned (f s) \<and> known_ids s \<subseteq> known_ids (f s)) \<Longrightarrow>
   safe U (act_modify f) (\<lambda>x. {})"
  by (auto simp: safe_def act_modify_def)

lemma safe_create_session [safe_intros]:
  assumes "UserId (ci_user_id i) \<in> U"
  shows "safe U (create_session env i) (\<lambda>x. {})"
proof -
  let ?x = "created_session (ae_now env) i"
  have "records_owned (s\<lparr>st_sessions := dset (ci_token i) ?x (st_sessions s)\<rparr>)" if s: "records_owned s" "U \<subseteq> known_ids s" for s
  proof -
    have "grows_owned s (s\<lparr>st_sessions := dset (ci_token i) ?x (st_sessions s)\<rparr>)"
    proof (rule grows_sessions)
      show "distinct (map fst (dset (ci_token i) ?x (st_sessions s)))"
        using s(1) by (simp add: records_owned_def distinct_dset)
      fix token x
      assume "(token, x) \<in> set (dset (ci_token i) ?x (st_sessions s))"
      from set_dset [OF this] show "as_token x = token \<and> UserId (as_user_id x) \<in> known_ids s"
        using s assms owned_session [OF s(1)] by (auto simp: created_session_def)
    qed
    with s show ?thesis by (simp add: grows_owned_def)
  qed
  then have "safe U (act_modify (\<lambda>s. s\<lparr>st_sessions := dset (ci_token i) ?x (st_sessions s)\<rparr>)) (\<lambda>x. {})"
    by (intro safe_modify) simp
  then show ?thesis unfolding create_session_def by (rule safe_bind) (simp add: safe_return)
qed

lemma safe_create_account [safe_intros]:
  assumes "UserId uid \<in> U"
  shows "safe U (create_account env account_id aid password provider uid) (\<lambda>x. {})"
  unfolding create_account_def
proof (rule safe_modify, intro conjI)
  fix s
  assume s: "records_owned s" "U \<subseteq> known_ids s"
  then have "\<forall>(k, a) \<in> set (dset aid \<lparr>aa_account_id = account_id, aa_created_at = ae_now env, aa_id = aid,
      aa_password = password, aa_provider_id = provider, aa_updated_at = ae_now env, aa_user_id = uid\<rparr> (st_accounts s)).
      UserId (aa_user_id a) \<in> known_ids s"
    using assms by (auto dest!: set_dset simp: records_owned_def)
  then show "records_owned (s\<lparr>st_accounts := dset aid \<lparr>aa_account_id = account_id, aa_created_at = ae_now env, aa_id = aid,
      aa_password = password, aa_provider_id = provider, aa_updated_at = ae_now env, aa_user_id = uid\<rparr> (st_accounts s)\<rparr>)"
    by (intro records_ownedI [OF s(1)]) simp_all
qed simp

lemma safe_create_two_factor [safe_intros]:
  assumes "UserId uid \<in> U"
  shows "safe U (create_two_factor env codes fid secret uid) (\<lambda>x. {})"
  unfolding create_two_factor_def
proof (rule safe_modify)
  fix s
  assume "records_owned s" "U \<subseteq> known_ids s"
  moreover have "grows_owned s (s\<lparr>st_two_factors := dset uid f (st_two_factors s)\<rparr>)" if "tf_user_id f = uid" for f
    by (rule grows_factors) (use calculation assms that in \<open>auto dest!: set_dset simp: records_owned_def\<close>)
  ultimately show "records_owned (s\<lparr>st_two_factors := dset uid \<lparr>tf_backup_codes = codes, tf_created_at = ae_now env,
      tf_id = fid, tf_secret = secret, tf_updated_at = ae_now env, tf_user_id = uid\<rparr> (st_two_factors s)\<rparr>) \<and>
    known_ids s \<subseteq> known_ids (s\<lparr>st_two_factors := dset uid \<lparr>tf_backup_codes = codes, tf_created_at = ae_now env,
      tf_id = fid, tf_secret = secret, tf_updated_at = ae_now env, tf_user_id = uid\<rparr> (st_two_factors s)\<rparr>)"
    unfolding grows_owned_def by simp
qed

lemma safe_add_member [safe_intros]:
  assumes "UserId uid \<in> U" "OrganizationId gid \<in> U"
  shows "safe U (add_member env mid gid role uid) (\<lambda>x. {})"
  unfolding add_member_def
proof (rule safe_modify)
  fix s
  assume s: "records_owned s" "U \<subseteq> known_ids s"
  have "grows_owned s (s\<lparr>st_members := dset mid m (st_members s)\<rparr>)" if "am_user_id m = uid" "am_organization_id m = gid" for m
    by (rule grows_members) (use s assms that in \<open>auto dest!: set_dset owned_member\<close>)
  with s show "records_owned (s\<lparr>st_members := dset mid \<lparr>am_created_at = ae_now env, am_id = mid, am_organization_id = gid,
      am_role = role, am_user_id = uid\<rparr> (st_members s)\<rparr>) \<and>
    known_ids s \<subseteq> known_ids (s\<lparr>st_members := dset mid \<lparr>am_created_at = ae_now env, am_id = mid, am_organization_id = gid,
      am_role = role, am_user_id = uid\<rparr> (st_members s)\<rparr>)"
    unfolding grows_owned_def by simp
qed

lemma set_change_role:
  "(k, m) \<in> set (change_first P (\<lambda>m. Some (m\<lparr>am_role := role\<rparr>)) d) \<Longrightarrow>
   \<exists>n. (k, n) \<in> set d \<and> am_user_id m = am_user_id n \<and> am_organization_id m = am_organization_id n"
  by (induction d) (fastforce split: if_splits)+

lemma grows_member_role:
  "grows_owned s (s\<lparr>st_members := change_first P (\<lambda>m. Some (m\<lparr>am_role := role\<rparr>)) (st_members s)\<rparr>)"
proof (rule grows_members)
  fix mid m
  assume "(mid, m) \<in> set (change_first P (\<lambda>m. Some (m\<lparr>am_role := role\<rparr>)) (st_members s))" and s: "records_owned s"
  from set_change_role [OF this(1)] obtain n where "(mid, n) \<in> set (st_members s)"
    "am_user_id m = am_user_id n \<and> am_organization_id m = am_organization_id n" by blast
  with owned_member [OF s this(1)] show "UserId (am_user_id m) \<in> known_ids s \<and> OrganizationId (am_organization_id m) \<in> known_ids s"
    by simp
qed

lemma safe_update_member_role [safe_intros]: "safe U (update_member_role gid uid role) (\<lambda>x. {})"
  unfolding update_member_role_def get_member_def
  by (intro safe_grows grows.rel_bind grows.rel_simple relates_modify grows_member_role)

lemma safe_create_invitation [safe_intros]:
  assumes "OrganizationId gid \<in> U"
  shows "safe U (create_invitation env email expires iid inviter gid role) (\<lambda>x. {})"
proof -
  have p: "safe U (act_modify (\<lambda>s. s\<lparr>st_invitations := dset iid i (st_invitations s)\<rparr>)) (\<lambda>x. {})"
    if i: "ai_organization_id i = gid" for i
  proof (rule safe_modify)
    fix s
    assume s: "records_owned s" "U \<subseteq> known_ids s"
    have "grows_owned s (s\<lparr>st_invitations := dset iid i (st_invitations s)\<rparr>)"
      by (rule grows_invitations) (use s assms i in \<open>auto dest!: set_dset simp: records_owned_def\<close>)
    with s show "records_owned (s\<lparr>st_invitations := dset iid i (st_invitations s)\<rparr>) \<and>
        known_ids s \<subseteq> known_ids (s\<lparr>st_invitations := dset iid i (st_invitations s)\<rparr>)" by (simp add: grows_owned_def)
  qed
  show ?thesis unfolding create_invitation_def by (intro safe_let, rule safe_bind [OF p]) (simp_all add: safe_return)
qed

lemma safe_create_user [safe_intros]: "safe U (create_user env i) (\<lambda>u. {UserId (au_id u)})"
proof -
  have p: "safe V (put_user (new_user now i)) (\<lambda>x. {UserId (cu_id i)})" for V now
    using grows_user [of "new_user now i" "cu_id i"]
    unfolding safe_def put_user_def act_modify_def
    by (auto simp: grows_owned_def known_user_write new_user_def)
  show ?thesis unfolding create_user_def
    by (rule safe_bind [where g = "\<lambda>x. {}"])
      (rule safe_option safe_if safe_return safe_weaken [OF safe_get_user_by_email] safe_bind_guard safe_bind [OF p]
        empty_subsetI | simp add: new_user_def)+
qed

lemma safe_create_organization [safe_intros]: "safe U (create_organization env gid name slug) (\<lambda>g. {OrganizationId (ao_id g)})"
proof -
  have g: "safe V (get_organization_by_slug slug) (\<lambda>x. {})" for V by (rule safe_grows) (rule grows.rel_reads)
  have p: "safe V (act_modify (\<lambda>s. s\<lparr>st_organizations := dset gid g (st_organizations s)\<rparr>)) (\<lambda>x. {OrganizationId gid})" for V g
    using grows_organization unfolding safe_def act_modify_def by (auto simp: grows_owned_def known_organization_write)
  show ?thesis unfolding create_organization_def by (intro safe_let safe_bind [OF g] safe_bind_guard safe_bind [OF p] safe_return) simp
qed

section \<open>Handlers\<close>

lemma safe_update_user: "safe U (update_user env uid p) (\<lambda>v. {})"
  by (rule safe_grows) (rule grows.rel_update_user; simp)

lemma safe_require_user: "user_ids v \<subseteq> U \<Longrightarrow> safe U (require_some v e) (\<lambda>u. {UserId (au_id u)})"
  by (cases v) (auto simp: require_some_def intro: safe_return safe_throw)

lemma safe_issue_session [safe_intros]:
  assumes "UserId uid \<in> U"
  shows "safe U (issue_session cfg env req uid) (\<lambda>x. {})"
  unfolding issue_session_def
  by (rule safe_checks safe_intros safe_bind [OF safe_update_user] safe_return | simp add: assms)+

lemma safe_second_factor_user [safe_intros]: "safe U (second_factor_user cfg env req body e) (\<lambda>u. {UserId (au_id u)})"
  unfolding second_factor_user_def
  by (rule safe_checks safe_intros safe_require_user safe_return | force)+

lemma safe_sign_up_email: "safe U (sign_up_email cfg env req) (\<lambda>x. {})"
  unfolding sign_up_email_def
  by (rule safe_checks safe_intros safe_weaken [OF safe_get_user_by_email] | force)+

lemma safe_sign_in: "safe U (sign_in cfg env req by_username) (\<lambda>x. {})"
  unfolding sign_in_def finish_sign_in_def
  by (rule safe_checks safe_intros safe_lift_expired_ban | force)+

lemma safe_verify_totp: "safe U (two_factor_verify_totp cfg env req) (\<lambda>x. {})"
  unfolding two_factor_verify_totp_def
  by (rule safe_checks safe_intros | force)+

lemma safe_verify_backup_code: "safe U (two_factor_verify_backup_code cfg env req) (\<lambda>x. {})"
  unfolding two_factor_verify_backup_code_def
  by (rule safe_checks safe_intros | force)+

lemma safe_stop_impersonating: "safe U (stop_impersonating cfg env req) (\<lambda>x. {})"
  unfolding stop_impersonating_def
  by (rule safe_checks safe_intros | force)+

lemma safe_existing_user [safe_intros]: "safe U (existing_user uid) (\<lambda>u. {UserId uid})"
proof -
  have "safe U (require_some v e) (\<lambda>u. {UserId uid})" if "(if v = None then {} else {UserId uid}) \<subseteq> U" for v :: "auth_user option" and U e
    using that by (cases v) (auto simp: require_some_def intro: safe_return safe_throw)
  then show ?thesis unfolding existing_user_def by (rule safe_bind [OF safe_get_user_by_id]) auto
qed

lemma safe_impersonate: "safe U (admin_impersonate_user_route cfg env req actor) (\<lambda>x. {})"
  unfolding admin_impersonate_user_route_def
  by (rule safe_checks safe_intros | force)+

lemma safe_admin_create_user [safe_intros]: "safe U (admin_create_user env i role) (\<lambda>x. {})"
proof -
  have "safe V (if role = [] then act_return u else update_user env (au_id u) p) (\<lambda>v. {})" for V u p
    by (simp add: safe_return safe_update_user)
  from safe_bind [OF this] show ?thesis unfolding admin_create_user_eq
    by (rule safe_bind [OF safe_create_user]) (rule safe_checks safe_intros safe_return | force)+
qed

lemma safe_admin_create: "safe U (admin_create_user_route cfg env req actor) (\<lambda>x. {})"
  unfolding admin_create_user_route_def Let_def
  by (rule safe_checks safe_intros | force)+

lemma safe_create_organization_route: "safe U (create_organization_route cfg env req) (\<lambda>x. {})"
  unfolding create_organization_route_def
  by (rule safe_checks safe_intros | force)+

lemma safe_accept_invitation: "safe U (accept_invitation cfg env req) (\<lambda>x. {})"
  unfolding accept_invitation_def
  by (rule safe_checks safe_intros safe_return | force)+

lemma safe_list_members [safe_intros]: "safe U (list_members gid) (\<lambda>x. {})"
  unfolding list_members_def by (rule safe_grows) (rule grows.rel_simple)

lemma safe_update_member_role_route: "safe U (update_member_role_route cfg env req) (\<lambda>x. {})"
  unfolding update_member_role_route_def
  by (rule safe_checks safe_intros | force)+

lemma safe_password_session [safe_intros]:
  "safe U (password_session cfg env req) (\<lambda>p. {UserId (au_id (rv_user (fst p)))})"
  unfolding password_session_def require_password_def
  by (rule safe_checks safe_intros safe_return | force)+

lemma safe_two_factor_enable: "safe U (two_factor_enable cfg env req) (\<lambda>x. {})"
  unfolding two_factor_enable_def
  by (rule safe_checks safe_intros safe_bind [OF safe_update_user] | force)+

lemma owner_or_admin_Some: "owner_or_admin m \<Longrightarrow> m \<noteq> None"
  by (cases m) (simp_all add: owner_or_admin_def)

lemma safe_invite_member: "safe U (invite_member cfg env req) (\<lambda>x. {})"
  unfolding invite_member_def
  by (rule safe_checks safe_intros | force dest: owner_or_admin_Some)+

section \<open>The server\<close>

lemmas kept_routes =
  safe_keeps [OF safe_sign_up_email] safe_keeps [OF safe_sign_in] safe_keeps [OF safe_verify_totp]
  safe_keeps [OF safe_verify_backup_code] safe_keeps [OF safe_stop_impersonating] safe_keeps [OF safe_impersonate]
  safe_keeps [OF safe_admin_create] safe_keeps [OF safe_create_organization_route] safe_keeps [OF safe_accept_invitation]
  safe_keeps [OF safe_update_member_role_route] safe_keeps [OF safe_two_factor_enable] safe_keeps [OF safe_invite_member]

lemmas kept_flow = relates_if keeps.rel_found_route keeps.rel_simple(1) keeps.rel_simple(2)

lemma keeps_core_route: "relates keeps_owned (core_route cfg env req path)"
  unfolding core_route_def Let_def
  by (intro kept_flow kept_routes
    keeps.rel_get_session_route keeps.rel_sign_out keeps.rel_forget_password keeps.rel_reset_password
    keeps.rel_change_password keeps.rel_set_password keeps.rel_update_user_route keeps.rel_list_sessions_route
    keeps.rel_revoke_session keeps.rel_revoke_sessions keeps.rel_revoke_other_sessions keeps.rel_list_accounts_route; simp)

lemma keeps_organization_route: "relates keeps_owned (organization_route cfg env req path)"
  unfolding organization_route_def Let_def
  by (intro kept_flow kept_routes
    keeps.rel_list_organizations_route keeps.rel_get_full_organization keeps.rel_update_organization_route keeps.rel_delete_organization_route
    keeps.rel_set_active_organization keeps.rel_list_members_route keeps.rel_remove_member_route keeps.rel_leave_organization
    keeps.rel_get_active_member keeps.rel_cancel_invitation keeps.rel_list_invitations_route keeps.rel_get_invitation_route
    keeps.rel_list_user_invitations keeps.rel_reject_invitation keeps.rel_check_slug keeps.rel_has_permission; simp)

lemma keeps_extended_route: "relates keeps_owned (handle_extended_route cfg env req path)"
  unfolding handle_extended_route_def Let_def
  by (intro kept_flow kept_routes
    keeps.rel_send_verification_email keeps.rel_verify_email keeps.rel_change_email keeps.rel_change_email_verify
    keeps.rel_delete_user_route keeps.rel_api_key_create keeps.rel_api_key_list keeps.rel_api_key_get
    keeps.rel_api_key_delete keeps.rel_api_key_verify keeps.rel_api_key_delete_expired keeps.rel_api_key_update
    keeps.rel_two_factor_get_totp_uri keeps.rel_two_factor_disable keeps.rel_two_factor_generate_backup_codes keeps.rel_two_factor_send_otp
    keeps.rel_two_factor_verify_otp; simp)

lemma keeps_actor_route: "relates keeps_owned (admin_actor_route cfg env req path actor)"
  unfolding admin_actor_route_def Let_def
  by (intro kept_flow kept_routes
    keeps.rel_admin_list_users_route keeps.rel_admin_get_user_route keeps.rel_admin_update_user_route keeps.rel_admin_set_role_route
    keeps.rel_admin_ban_user_route keeps.rel_admin_unban_user_route keeps.rel_admin_revoke_user_sessions_route keeps.rel_admin_remove_user_route
    keeps.rel_require_admin; simp)

lemma keeps_admin_route: "relates keeps_owned (handle_admin_route cfg env req path)"
  unfolding handle_admin_route_def
  by (intro relates_if keeps.rel_bind kept_routes keeps.rel_require_admin keeps_actor_route)

lemma keeps_handle_route: "relates keeps_owned (handle_route cfg env req path)"
  unfolding handle_route_def empty_response_def
  by (intro relates_if keeps.rel_or_route keeps.rel_simple keeps_core_route keeps_organization_route keeps_extended_route
    keeps_admin_route keeps.rel_mail_routes keeps.rel_token_route keeps.rel_health
    keeps.rel_ok_response)

lemma keeps_handle_auth: "relates keeps_owned (handle_auth cfg env req)"
proof -
  have "relates keeps_owned (act_modify (\<lambda>s. s\<lparr>st_cookies := [], st_mails := []\<rparr>))"
    by (rule keeps.rel_same) (simp add: same_rows_def)
  then show ?thesis unfolding handle_auth_def route_request_def
    by (intro keeps.rel_bind keeps.rel_simple keeps.rel_trace_id keeps.rel_enforce_origin keeps_handle_route)
qed

lemma owned_after_requests: "records_owned s \<Longrightarrow> records_owned (after_requests cfg rs s)"
proof (induction cfg rs s rule: after_requests.induct)
  case (2 cfg env req rs s)
  from keeps_handle_auth [of cfg env req] 2(2) have "records_owned (snd (handle_auth cfg env req s))"
    by (simp add: relates_def keeps_owned_def)
  with 2(1) show ?case by simp
qed simp

end
