(* ===== verification/AuthRuns.thy ===== *)
theory AuthRuns
  imports AuthOwned
begin

text \<open>
  Runs of handlers that return, taken apart step by step; what resolving a caller establishes;
  and the bound on the ranks of users that every request keeps.
\<close>

section \<open>Steps that return\<close>

lemma bind_Inr: "act_bind m f s = (Inr r, t) \<longleftrightarrow> (\<exists>x s1. m s = (Inr x, s1) \<and> f x s1 = (Inr r, t))"
  by (auto simp: act_bind_def split: prod.splits sum.splits)

lemma guard_Inr: "guard_act ok e s = (Inr u, t) \<longleftrightarrow> ok \<and> t = s"
  by (auto simp: guard_act_def act_defs)

lemma lift_Inr: "act_lift r s = (Inr x, t) \<longleftrightarrow> r = Inr x \<and> t = s"
  by (auto simp: act_lift_def)

lemma require_Inr: "require_some v e s = (Inr x, t) \<longleftrightarrow> v = Some x \<and> t = s"
  by (auto simp: require_some_def act_defs split: option.splits)

lemma get_Inr: "act_get f s = (Inr x, t) \<longleftrightarrow> x = f s \<and> t = s"
  by (auto simp: act_get_def)

lemma modify_Inr: "act_modify f s = (Inr u, t) \<longleftrightarrow> t = f s"
  by (auto simp: act_modify_def)

lemma return_Inr: "act_return x s = (Inr y, t) \<longleftrightarrow> y = x \<and> t = s"
  by (auto simp: act_return_def)

lemma throw_Inr: "act_throw e s = (Inr y, t) \<longleftrightarrow> False"
  by (simp add: act_throw_def)

lemmas run_steps = bind_Inr guard_Inr lift_Inr require_Inr get_Inr modify_Inr return_Inr throw_Inr

lemma draw_Inr: "draw f s = (Inr x, t) \<longleftrightarrow> x = f (st_draws s) \<and> t = s\<lparr>st_draws := Suc (st_draws s)\<rparr>"
  by (auto simp: draw_def run_steps)

lemma json_response_Inr: "json_response n b s = (Inr x, t) \<longleftrightarrow>
    x = \<lparr>rs_status = n, rs_body = Some b, rs_cookies = st_cookies s, rs_cache_control = None\<rparr> \<and> t = s"
  by (auto simp: json_response_def run_steps)

section \<open>The caller\<close>

definition same_user :: "auth_user \<Rightarrow> auth_user \<Rightarrow> bool" where
  "same_user u v \<longleftrightarrow>
     au_id v = au_id u \<and> au_metadata v = au_metadata u \<and> au_role v = au_role u \<and> au_email v = au_email u \<and>
     au_two_factor_enabled v = au_two_factor_enabled u"

lemma update_user_Inr: "update_user env uid p s = (Inr v, t) \<longleftrightarrow>
    (\<exists>u. map_of (st_users s) uid = Some u \<and> v = patched_user (ae_now env) p u \<and>
      t = s\<lparr>st_users := dset uid (patched_user (ae_now env) p u) (st_users s)\<rparr>)"
  by (auto simp: update_user_def get_user_by_id_def run_steps split: option.splits)

lemma lift_expired_ban_Inr:
  assumes "lift_expired_ban env u s = (Inr v, t)"
  shows "same_user u v \<and> (\<exists>d. t = s\<lparr>st_users := d\<rparr>)"
proof (cases "au_banned u \<and> \<not> is_user_effectively_banned (ae_now env) u")
  case True
  with assms show ?thesis
    by (auto simp: lift_expired_ban_def run_steps update_user_Inr same_user_def without_ban_def)
next
  case False
  with assms show ?thesis by (auto simp: lift_expired_ban_def run_steps same_user_def intro: exI [of _ "st_users s"])
qed

lemma resolved_caller:
  assumes "resolve_session cfg env req s = (Inr (Some r), t)"
  shows "\<exists>token x u. request_token cfg req = Some token \<and> map_of (st_sessions s) token = Some x \<and>
    session_live (ae_now env) x \<and> map_of (st_users s) (as_user_id x) = Some u \<and>
    \<not> is_user_effectively_banned (ae_now env) u \<and> same_user u (rv_user r) \<and> rv_token r = token"
proof -
  obtain token where token: "request_token cfg req = Some token"
    using assms by (cases "request_token cfg req") (auto simp: resolve_session_def run_steps)
  obtain x where x: "map_of (st_sessions s) token = Some x" "session_live (ae_now env) x"
    using assms token
    by (auto simp: resolve_session_def run_steps get_session_by_token_def split: option.splits if_splits)
  obtain u where u: "map_of (st_users s) (as_user_id x) = Some u" "\<not> is_user_effectively_banned (ae_now env) u"
    using assms token x
    by (auto simp: resolve_session_def run_steps get_session_by_token_def get_user_by_id_def split: option.splits if_splits)
  have "same_user u (rv_user r) \<and> rv_token r = token"
    using assms token x u
    by (auto simp: resolve_session_def run_steps get_session_by_token_def get_user_by_id_def
        dest!: lift_expired_ban_Inr)
  with token x u show ?thesis by blast
qed

lemma required_caller:
  assumes "require_session cfg env req s = (Inr r, t)"
  shows "resolve_session cfg env req s = (Inr (Some r), t)"
  using assms by (auto simp: require_session_def run_steps)

section \<open>Ranks\<close>

definition ranks_within :: "nat \<Rightarrow> auth_state \<Rightarrow> bool" where
  "ranks_within n s \<longleftrightarrow> (\<forall>(uid, u) \<in> set (st_users s). admin_role_rank (au_role u) \<le> n)"

definition keeps_ranks :: "nat \<Rightarrow> auth_state \<Rightarrow> auth_state \<Rightarrow> bool" where
  "keeps_ranks n s t \<longleftrightarrow> (ranks_within n s \<longrightarrow> ranks_within n t)"

lemma ranks_write:
  "ranks_within n s \<Longrightarrow> admin_role_rank (au_role v) \<le> n \<Longrightarrow> ranks_within n (s\<lparr>st_users := dset uid v (st_users s)\<rparr>)"
  by (auto simp: ranks_within_def dest!: set_dset)

lemma ranks_user: "ranks_within n s \<Longrightarrow> map_of (st_users s) uid = Some u \<Longrightarrow> admin_role_rank (au_role u) \<le> n"
  by (auto simp: ranks_within_def dest!: map_of_SomeD)

lemma rank_none [simp]: "admin_role_rank None = 0"
  by (simp add: admin_role_rank_def normalize_admin_role_def non_empty_def)

lemma keeps_ranks_same: "st_users t = st_users s \<Longrightarrow> keeps_ranks n s t"
  by (simp add: keeps_ranks_def ranks_within_def)

lemma keeps_ranks_subset: "set (st_users t) \<subseteq> set (st_users s) \<Longrightarrow> keeps_ranks n s t"
  by (auto simp: keeps_ranks_def ranks_within_def)

interpretation ranks: auth_relation "keeps_ranks n" True False True True True True True for n
proof unfold_locales
  fix s t u
  show "keeps_ranks n s t \<Longrightarrow> keeps_ranks n t u \<Longrightarrow> keeps_ranks n s u" by (simp add: keeps_ranks_def)
next
  fix s :: auth_state and uid u now and p :: user_patch
  assume "map_of (st_users s) uid = Some u" "up_role p = None \<or> False"
  then show "keeps_ranks n s (s\<lparr>st_users := dset uid (patched_user now p u) (st_users s)\<rparr>)"
    by (auto simp: keeps_ranks_def patched_role intro!: ranks_write dest: ranks_user)
next
  fix s :: auth_state and i :: create_user_input and now
  show "keeps_ranks n s (s\<lparr>st_users := dset (cu_id i) (new_user now i) (st_users s)\<rparr>)"
    by (auto simp: keeps_ranks_def new_user_def intro: ranks_write)
qed (auto intro: keeps_ranks_same keeps_ranks_subset simp: same_rows_def deleted_user deleted_organization set_ddelete)

text \<open>The two routes that give roles, and who may call them.\<close>

lemma rel_after_guard: "(ok \<Longrightarrow> relates R (k ())) \<Longrightarrow> reflp R \<Longrightarrow> relates R (act_bind (guard_act ok e) k)"
  by (auto simp: relates_def guard_act_def act_defs reflp_def split: if_splits)

lemma rank_custom: "normalize_admin_role role = Some r \<Longrightarrow> r \<notin> set athena_auth_admin_roles \<Longrightarrow> admin_role_rank role = 0"
  by (auto simp: admin_role_rank_def athena_auth_admin_roles_def)

lemma normal_roles: "r \<in> set athena_auth_admin_roles \<Longrightarrow> normalize_admin_role (Some r) = Some r"
proof -
  have "list_all (\<lambda>r. normalize_admin_role (Some r) = Some r) athena_auth_admin_roles" by code_simp
  then show "r \<in> set athena_auth_admin_roles \<Longrightarrow> normalize_admin_role (Some r) = Some r" by (simp add: list_all_iff)
qed

lemma assigned_rank: "can_assign_role actor (Some role) \<Longrightarrow> admin_role_rank actor \<le> n \<Longrightarrow> admin_role_rank (Some role) \<le> n"
proof -
  assume can: "can_assign_role actor (Some role)" and n: "admin_role_rank actor \<le> n"
  then obtain r where r: "normalize_admin_role (Some role) = Some r"
    by (auto simp: can_assign_role_def split: option.splits)
  have idem: "admin_role_rank (Some r) = admin_role_rank (Some role)" if "r \<in> set athena_auth_admin_roles"
    by (simp add: admin_role_rank_def r normal_roles [OF that])
  show ?thesis
  proof (cases "r \<in> set athena_auth_admin_roles")
    case True
    with can r n idem show ?thesis by (simp add: can_assign_role_def)
  next
    case False
    with rank_custom [OF r] show ?thesis by simp
  qed
qed

lemma ranks_give_role:
  assumes "up_role p = Some (Some role)" "admin_role_rank (Some role) \<le> n"
  shows "relates (keeps_ranks n) (update_user env uid p)"
proof -
  have "keeps_ranks n s (snd (update_user env uid p s))" for s
  proof (cases "map_of (st_users s) uid")
    case None
    then show ?thesis by (simp add: update_user_def get_user_by_id_def act_defs keeps_ranks_def)
  next
    case (Some u)
    then have "snd (update_user env uid p s) = s\<lparr>st_users := dset uid (patched_user (ae_now env) p u) (st_users s)\<rparr>"
      by (simp add: update_user_def get_user_by_id_def act_defs)
    with assms show ?thesis by (auto simp: keeps_ranks_def patched_user_def intro!: ranks_write)
  qed
  then show ?thesis by (simp add: relates_def)
qed

lemma ranks_set_role:
  assumes "admin_role_rank (au_role (rv_user actor)) \<le> n"
  shows "relates (keeps_ranks n) (admin_set_role_route cfg env req actor)"
  unfolding admin_set_role_route_def
  by (intro ranks.rel_bind [OF ranks.rel_simple(4)] ranks.rel_bind [OF ranks.rel_require_some] rel_after_guard ranks.reflp_R
      ranks.rel_bind [OF ranks.rel_existing_user] ranks.rel_bind [OF ranks_give_role] ranks.rel_user_response)
    (use assigned_rank [OF _ assms] in simp_all)

lemma ranks_create_user:
  assumes "admin_role_rank (au_role (rv_user actor)) \<le> n"
  shows "relates (keeps_ranks n) (admin_create_user_route cfg env req actor)"
proof -
  have "relates (keeps_ranks n) (admin_create_user env i role)" if "admin_role_rank (Some role) \<le> n" for i role
    unfolding admin_create_user_eq
    by (intro ranks.rel_bind relates_if relates_option ranks_give_role [OF _ that] ranks.rel_simple ranks.rel_create_user
        ranks.rel_create_account ranks.rel_new_uuid ranks.rel_reads TrueI) simp
  then show ?thesis unfolding admin_create_user_route_def Let_def
    by (intro ranks.rel_bind [OF ranks.rel_simple(4)] rel_after_guard ranks.reflp_R ranks.rel_bind [OF ranks.rel_reads(2)]
        ranks.rel_bind [OF ranks.rel_hash_password] ranks.rel_bind [OF ranks.rel_new_uuid] ranks.rel_bind [OF _ ranks.rel_user_response])
      (use assigned_rank [OF _ assms] in simp)
qed

lemma admin_caller_rank:
  assumes "require_admin cfg env req s = (Inr r, t)" "ranks_within n s"
  shows "admin_role_rank (au_role (rv_user r)) \<le> n"
proof -
  from assms(1) obtain s1 where "require_session cfg env req s = (Inr r, s1)"
    by (auto simp: require_admin_def run_steps)
  from resolved_caller [OF required_caller [OF this]] obtain x u
    where "map_of (st_users s) x = Some u" "same_user u (rv_user r)" by blast
  with ranks_user [OF assms(2)] show ?thesis by (simp add: same_user_def)
qed

lemma role_actor_route:
  "path \<in> set role_paths \<Longrightarrow> admin_actor_route cfg env req path r =
     (if request_method req = ''POST'' then
        if path = ''/admin/set-role'' then admin_set_role_route cfg env req r else admin_create_user_route cfg env req r
      else act_throw (not_found ''Admin route not found''))"
  by (auto simp: admin_actor_route_def role_paths_def Let_def)

lemma ranks_admin_route:
  assumes "path \<in> set role_paths"
  shows "relates (keeps_ranks n) (handle_admin_route cfg env req path)"
proof -
  have actor: "relates (keeps_ranks n) (admin_actor_route cfg env req path r)" if "admin_role_rank (au_role (rv_user r)) \<le> n" for r
    unfolding role_actor_route [OF assms]
    by (intro relates_if ranks_set_role [OF that] ranks_create_user [OF that] ranks.rel_simple)
  have "keeps_ranks n s (snd (act_bind (require_admin cfg env req) (admin_actor_route cfg env req path) s))" for s
  proof (cases "ranks_within n s")
    case True
    obtain res t where run: "require_admin cfg env req s = (res, t)" by fastforce
    with relatesD [OF ranks.rel_require_admin run] True have t: "ranks_within n t" by (simp add: keeps_ranks_def)
    show ?thesis
    proof (cases res)
      case (Inl e)
      with run t show ?thesis by (simp add: act_bind_def keeps_ranks_def)
    next
      case (Inr r)
      with run have r: "require_admin cfg env req s = (Inr r, t)" by simp
      from actor [OF admin_caller_rank [OF r True]] t have "ranks_within n (snd (admin_actor_route cfg env req path r t))"
        by (simp add: relates_def keeps_ranks_def)
      with r show ?thesis by (simp add: act_bind_def keeps_ranks_def)
    qed
  qed (simp add: keeps_ranks_def)
  then have "relates (keeps_ranks n) (act_bind (require_admin cfg env req) (admin_actor_route cfg env req path))"
    by (simp add: relates_def)
  moreover have "path \<noteq> ''/admin/stop-impersonating''" using assms by (auto simp: role_paths_def)
  ultimately show ?thesis by (simp add: handle_admin_route_def)
qed

lemma role_route:
  assumes "path \<in> set role_paths"
  shows "core_route cfg env req path = act_return None" "organization_route cfg env req path = act_return None"
    "handle_admin_email_routes cfg env req path = act_return None"
    "path \<notin> set token_paths \<union> {''/.well-known/jwks.json'', ''/.well-known/openid-configuration''}"
    "path \<noteq> ''/ok'' \<and> path \<noteq> ''/health'' \<and> starts_with path ''/admin/''"
  using assms
  by (auto simp: role_paths_def core_route_def organization_route_def handle_admin_email_routes_def starts_with_def token_paths_def)

lemma ranks_handle_route: "relates (keeps_ranks n) (handle_route cfg env req path)"
proof (cases "path \<in> set role_paths")
  case True
  show ?thesis unfolding handle_route_def empty_response_def role_route [OF True]
    by (intro relates_if ranks.rel_or_route ranks.rel_simple ranks.rel_health ranks.rel_ok_response ranks.rel_token_route
        ranks_admin_route [OF True] ranks.rel_extended_route)
      (use role_route(5) [OF True] in simp_all)
next
  case False
  then show ?thesis by (intro ranks.rel_handle_route) (simp add: route_allowed_def)
qed

lemma ranks_handle_auth: "relates (keeps_ranks n) (handle_auth cfg env req)"
proof -
  have "relates (keeps_ranks n) (act_modify (\<lambda>s. s\<lparr>st_cookies := [], st_mails := []\<rparr>))"
    by (rule ranks.rel_same) (simp add: same_rows_def)
  then show ?thesis unfolding handle_auth_def route_request_def
    by (intro ranks.rel_bind ranks.rel_simple ranks.rel_trace_id ranks.rel_enforce_origin ranks_handle_route)
qed

lemma ranks_after_requests: "ranks_within n s \<Longrightarrow> ranks_within n (after_requests cfg rs s)"
proof (induction cfg rs s rule: after_requests.induct)
  case (2 cfg env req rs s)
  from ranks_handle_auth [of n cfg env req] 2(2) have "ranks_within n (snd (handle_auth cfg env req s))"
    by (simp add: relates_def keeps_ranks_def)
  with 2(1) show ?case by simp
qed simp

section \<open>Signing in\<close>

text \<open>The user a body names, by name or by address, and the hash its password is compared with.\<close>

definition names_user :: "fields \<Rightarrow> bool \<Rightarrow> auth_user \<Rightarrow> bool" where
  "names_user body by_username u \<longleftrightarrow>
     (if by_username then \<exists>name. require_string_field body ''username'' = Inr name \<and> au_username u = Some name
      else \<exists>email. require_string_field body ''email'' = Inr email \<and> has_email email u)"

definition hash_of :: "auth_state \<Rightarrow> auth_user \<Rightarrow> string option" where
  "hash_of s u =
     or_else (extract_password_hash (au_metadata u))
       (credential_account (filter (\<lambda>a. aa_user_id a = au_id u) (dvalues (st_accounts s))))"

lemma consume_rate_Inr: "consume_rate env key s = (Inr ok, t) \<Longrightarrow> \<exists>b. t = s\<lparr>st_buckets := b\<rparr>"
  by (auto simp: consume_rate_def run_steps)

lemma sign_in_user_Inr:
  "sign_in_user body by_username s = (Inr (Some u), t) \<Longrightarrow>
   t = s \<and> (\<exists>k. (k, u) \<in> set (st_users s)) \<and> names_user body by_username u"
  by (auto simp: sign_in_user_def run_steps get_user_by_username_def get_user_by_email_def names_user_def
      split: if_splits dest!: dfind_Some [OF sym])

lemma stored_hash_Inr: "stored_hash u s = (Inr h, t) \<longleftrightarrow> h = hash_of s u \<and> t = s"
  by (auto simp: stored_hash_def run_steps list_accounts_def hash_of_def)

lemma hash_password_Inr:
  "hash_password env password s = (Inr h, t) \<longleftrightarrow>
   h = ph_hash (ae_hasher env) password (st_draws s) \<and> t = s\<lparr>st_draws := Suc (st_draws s)\<rparr>"
  by (simp add: hash_password_def draw_Inr)

lemma set_password_hash_Inr:
  "set_password_hash env u h s = (Inr x, t) \<longleftrightarrow>
   (\<exists>v. map_of (st_users s) (au_id u) = Some v \<and>
      t = s\<lparr>st_users := dset (au_id u)
        (patched_user (ae_now env) (no_patch\<lparr>up_metadata := Some (with_password_hash (au_metadata u) h)\<rparr>) v) (st_users s)\<rparr>)"
  by (auto simp: set_password_hash_def run_steps update_user_Inr)

lemma rehash_password_Inr:
  "rehash_password env u password h s = (Inr x, t) \<Longrightarrow> st_sessions t = st_sessions s"
  by (auto simp: rehash_password_def run_steps hash_password_Inr set_password_hash_Inr split: if_splits)

lemma new_uuid_Inr: "new_uuid env s = (Inr x, t) \<longleftrightarrow> x = ae_uuid env (st_draws s) \<and> t = s\<lparr>st_draws := Suc (st_draws s)\<rparr>"
  by (simp add: new_uuid_def draw_Inr)

lemma issue_session_Inr:
  "issue_session cfg env req uid s = (Inr x, t) \<Longrightarrow>
   as_user_id x = uid \<and> st_sessions t = dset (as_token x) x (st_sessions s)"
  by (auto simp: issue_session_def run_steps new_uuid_Inr create_session_def update_user_Inr append_cookie_def created_session_def)

lemma start_second_factor_Inr: "start_second_factor env u s = (Inr x, t) \<Longrightarrow> st_sessions t = st_sessions s"
  by (auto simp: start_second_factor_def run_steps new_uuid_Inr create_verification_def ok_response_def json_response_Inr)

lemma finish_sign_in_Inr:
  assumes "finish_sign_in cfg env req u s = (Inr r, t)" "(token, x) \<in> set (st_sessions t)"
  shows "(token, x) \<in> set (st_sessions s) \<or> as_user_id x = au_id u \<and> \<not> au_two_factor_enabled u"
proof (cases "au_two_factor_enabled u")
  case True
  with assms show ?thesis by (auto simp: finish_sign_in_def dest: start_second_factor_Inr)
next
  case False
  with assms(1) obtain y s1 where y: "issue_session cfg env req (au_id u) s = (Inr y, s1)" and t: "t = s1"
    by (auto simp: finish_sign_in_def run_steps get_user_by_id_def ok_response_def json_response_Inr)
  with issue_session_Inr [OF y] assms(2) False show ?thesis by (auto dest!: set_dset)
qed

end
