(* ===== verification/AuthProperties.thy ===== *)
theory AuthProperties
  imports AuthRuns
begin

text \<open>
  The properties of the local auth server: which requests may issue sessions, change credentials
  and give roles, what a sign-in and a password reset establish, and what keeps the stores
  consistent over any sequence of requests.
\<close>

section \<open>Sample data\<close>

definition demo_hasher :: password_hasher where
  "demo_hasher = \<lparr>ph_hash = (\<lambda>p n. CHR ''#'' # p), ph_verify = (\<lambda>p h. h = CHR ''#'' # p), ph_needs_rehash = (\<lambda>h. False)\<rparr>"

definition demo_env :: auth_env where
  "demo_env =
     \<lparr>ae_now = 1000, ae_uuid = (\<lambda>n. show_nat n), ae_random_bytes = (\<lambda>n k. replicate k 0), ae_random_otp = (\<lambda>n. 0),
      ae_hasher = demo_hasher, ae_sha256_base64url = (\<lambda>s. s), ae_base64url = (\<lambda>bs. ''token''),
      ae_hmac_sha1 = (\<lambda>k d. d),
      ae_parse_json = (\<lambda>s. Some (JObj 0
        [(''email'', JStr ''a@b''), (''password'', JStr ''12345678''), (''token'', JStr ''v''), (''userId'', JStr ''u'')])),
      ae_parse_date = (\<lambda>s. None), ae_parse_url = (\<lambda>s. None), ae_encode_uri = (\<lambda>s. s), ae_encode_form = (\<lambda>s. s),
      ae_sign_jwt = (\<lambda>c n. None), ae_public_jwk = [], ae_mail_provider = None\<rparr>"

definition demo_config :: auth_config where
  "demo_config =
     \<lparr>ac_auto_sign_in = True, ac_base_path = ''/api/auth'', ac_body_limit_bytes = 1000, ac_cookie_name = ''c'',
      ac_cookie_secure = Some True, ac_disable_session_refresh = True, ac_email_enabled = True,
      ac_expires_in_seconds = 60, ac_max_password_length = 128, ac_min_password_length = 8, ac_trusted_origins = [],
      ac_trusted_proxy = False, ac_update_age_seconds = 60\<rparr>"

definition demo_request :: "string \<Rightarrow> string \<Rightarrow> auth_request" where
  "demo_request meth path =
     \<lparr>rq_method = meth, rq_protocol = ''https:'', rq_host = ''h'', rq_pathname = ''/api/auth'' @ path, rq_query = [],
      rq_headers = [(''authorization'', ''Bearer t'')], rq_text = ''{}''\<rparr>"

definition demo_user :: auth_user where
  "demo_user = (new_user 0 \<lparr>cu_email = Some ''a@b'', cu_email_verified = None, cu_id = ''u'',
     cu_metadata = [(''password_hash'', JStr ''#12345678'')], cu_name = None, cu_username = None\<rparr>)"

definition demo_state :: auth_state where
  "demo_state = empty_stores
     \<lparr>st_users := [(''u'', demo_user)],
      st_sessions := [(''t'', created_session 0 \<lparr>ci_active_organization_id = None, ci_expires_at = 2000, ci_id = ''s'',
        ci_impersonated_by = None, ci_ip_address = None, ci_token = ''t'', ci_user_agent = None, ci_user_id = ''u''\<rparr>)],
      st_verifications := [(''v'', \<lparr>av_created_at = 0, av_expires_at = 2000, av_id = ''w'', av_identifier = ''reset:a@b'',
        av_updated_at = 0, av_value = ''v''\<rparr>)]\<rparr>"

text \<open>What the handlers compute on them.\<close>

definition demo_body :: fields where
  "demo_body = [(''email'', JStr ''a@b''), (''password'', JStr ''12345678''), (''token'', JStr ''v''), (''userId'', JStr ''u'')]"

lemma demo_reads:
  "read_json_body demo_env demo_config (demo_request ''POST'' ''/sign-in/email'') = Inr demo_body"
  "require_string_field demo_body ''password'' = Inr ''12345678''"
  "require_string_field demo_body ''email'' = Inr ''a@b''"
  by code_simp+

lemma demo_user_facts:
  "dfind (has_email ''a@b'') (st_users demo_state) = Some demo_user"
  "is_user_effectively_banned (ae_now demo_env) demo_user = False" "au_banned demo_user = False"
  "au_two_factor_enabled demo_user = False" "au_id demo_user = ''u''"
  "extract_password_hash (au_metadata demo_user) = Some ''#12345678''"
  by code_simp+

lemma demo_facts:
  "fst (consume_bucket 20 60000 (ae_now demo_env) k (st_buckets demo_state)) = True"
  "verifies demo_env ''12345678'' (Some ''#12345678'')"
  "ph_needs_rehash (ae_hasher demo_env) h = False"
  "map_of (st_users demo_state) ''u'' = Some demo_user"
  by (simp_all add: demo_state_def empty_stores_def consume_bucket_def demo_env_def demo_hasher_def verifies_def non_empty_def)

lemma demo_rows: "st_draws demo_state = 0" "st_sessions demo_state = [(''t'', created_session 0 \<lparr>ci_active_organization_id = None, ci_expires_at = 2000, ci_id = ''s'',
        ci_impersonated_by = None, ci_ip_address = None, ci_token = ''t'', ci_user_agent = None, ci_user_id = ''u''\<rparr>)]"
  "ae_uuid demo_env (Suc 0) = ''1''"
  by (simp_all add: demo_state_def empty_stores_def demo_env_def) code_simp

lemma demo_public: "au_ban_expires u = None \<Longrightarrow> \<exists>j. to_public_user u = Inr j"
  by (simp add: to_public_user_def as_iso_def)

lemma demo_user_ban: "au_ban_expires (patched_user now (no_patch\<lparr>up_last_sign_in_at := x\<rparr>) demo_user) = None"
  by (simp add: patched_user_def no_patch_def demo_user_def new_user_def)

lemma demo_signs_in:
  "\<exists>r t x. sign_in demo_config demo_env (demo_request ''POST'' ''/sign-in/email'') False demo_state = (Inr r, t) \<and>
     (''session_1'', x) \<in> set (st_sessions t)"
  using demo_public [OF demo_user_ban, of "ae_now demo_env" "Some (ae_now demo_env)"]
  by (clarsimp simp: sign_in_def consume_rate_def act_defs guard_act_def demo_reads demo_user_facts demo_facts sign_in_user_def
      get_user_by_email_def require_some_def lift_expired_ban_def stored_hash_def list_accounts_def or_else_def
      rehash_password_def finish_sign_in_def issue_session_def new_uuid_def draw_def create_session_def update_user_def
      get_user_by_id_def append_cookie_def ok_response_def json_response_def demo_rows created_session_def)

lemma demo_ok:
  "request_path demo_config (demo_request ''GET'' ''/ok'') = ''/ok''"
  "st_sessions (snd (handle_auth demo_config demo_env (demo_request ''GET'' ''/ok'') demo_state)) = st_sessions demo_state"
  "st_users (snd (handle_auth demo_config demo_env (demo_request ''GET'' ''/ok'') demo_state)) = [(''u'', demo_user)]"
  by code_simp+

definition demo_foreign :: auth_request where
  "demo_foreign = (demo_request ''POST'' ''/sign-out'')\<lparr>rq_headers := [(''origin'', ''https://evil'')]\<rparr>"

lemma demo_untrusted:
  "request_method demo_foreign = ''POST''"
  "is_trusted_origin (request_origin demo_env demo_foreign) (ac_trusted_origins demo_config) demo_foreign = False"
  by code_simp+

lemma demo_resets: "\<exists>r t. reset_password demo_config demo_env (demo_request ''POST'' ''/reset-password'') demo_state = (Inr r, t)"
proof -
  have "\<not> isl (fst (reset_password demo_config demo_env (demo_request ''POST'' ''/reset-password'') demo_state))" by code_simp
  then show ?thesis by (auto simp: prod_eq_iff isl_def split: sum.splits) (metis sum.exhaust)
qed

section \<open>Requests that may change sessions, credentials and members\<close>

text \<open>
  C35. Only the routes of signing up and in, of completing a second factor and of impersonation
  issue sessions: after any other request every session was there before, for the same user.
\<close>

theorem sessions_issued:
  assumes "request_path cfg req \<notin> set issuing_paths"
    and "(token, y) \<in> set (st_sessions (snd (handle_auth cfg env req s)))"
  shows "\<exists>x. (token, x) \<in> set (st_sessions s) \<and> as_user_id x = as_user_id y"
proof -
  have "relates sessions_from (handle_auth cfg env req)"
    by (rule sessions.rel_handle_auth) (use assms(1) in \<open>simp add: route_allowed_def\<close>)
  then have "sessions_from s (snd (handle_auth cfg env req s))" by (simp add: relates_def)
  with assms(2) show ?thesis by (auto simp: sessions_from_def)
qed

theorem sessions_issued_witness: "\<exists>x. (''t'', x) \<in> set (st_sessions demo_state) \<and> as_user_id x = ''u''"
  using sessions_issued [of demo_config "demo_request ''GET'' ''/ok''" "''t''" "snd (hd (st_sessions demo_state))" demo_env demo_state]
  unfolding demo_ok by (simp add: demo_rows issuing_paths_def created_session_def)

text \<open>
  C36. The address, the password hash and the other metadata of a user stay as they were under
  every request but signing up and in, the password routes, confirming a changed address and the
  administration of users.
\<close>

theorem credentials_guarded:
  assumes "request_path cfg req \<notin> set identity_paths" "request_path cfg req \<notin> set creating_paths"
    and "(uid, v) \<in> set (st_users (snd (handle_auth cfg env req s)))"
  shows "\<exists>u. (uid, u) \<in> set (st_users s) \<and> au_email u = au_email v \<and> au_metadata u = au_metadata v"
proof -
  have "relates credentials_from (handle_auth cfg env req)"
    by (rule credentials.rel_handle_auth) (use assms(1,2) in \<open>simp add: route_allowed_def\<close>)
  then have "credentials_from s (snd (handle_auth cfg env req s))" by (simp add: relates_def)
  with assms(3) show ?thesis by (auto simp: credentials_from_def)
qed

theorem credentials_guarded_witness: "\<exists>u. (''u'', u) \<in> set (st_users demo_state) \<and> au_email u = au_email demo_user"
  using credentials_guarded [of demo_config "demo_request ''GET'' ''/ok''" "''u''" demo_user demo_env demo_state]
  unfolding demo_ok by (auto simp: identity_paths_def creating_paths_def)

text \<open>
  C34. Over any sequence of requests to an empty server, users and sessions are stored once and
  under their own id and token, and every session, account, second factor, membership and
  invitation belongs to users and organizations that exist.
\<close>

theorem records_owned_always: "records_owned (after_requests cfg rs empty_stores)"
  by (rule owned_after_requests) (rule records_owned_empty)

section \<open>Origins\<close>

text \<open>
  C40. A request that may write and comes from an origin that is not trusted is answered with
  status 403 and leaves the stores as they are.
\<close>

theorem untrusted_refused:
  assumes "request_method req \<notin> {''GET'', ''HEAD'', ''OPTIONS''}"
    and "\<not> is_trusted_origin (request_origin env req) (ac_trusted_origins cfg) req"
  shows "\<exists>resp n. handle_auth cfg env req s = (Inr resp, s\<lparr>st_cookies := [], st_mails := [], st_draws := n\<rparr>) \<and>
    rs_status resp = 403"
proof -
  have "route_request cfg env req t = (Inl (forbidden_with ''Origin is not trusted''), t)" for t
    using assms by (simp add: route_request_def enforce_origin_def guard_act_def act_defs)
  then have answered: "act_catch (route_request cfg env req) (\<lambda>e. act_return (error_response e trace)) t =
      (Inr (error_response (forbidden_with ''Origin is not trusted'') trace), t)" for trace t
    by (simp add: act_catch_def act_return_def)
  have status: "rs_status (error_response (forbidden_with ''Origin is not trusted'') trace) = 403" for trace
    by (simp add: error_response_def forbidden_with_def)
  have "\<exists>trace n. trace_id env req (s\<lparr>st_cookies := [], st_mails := []\<rparr>) =
      (Inr trace, s\<lparr>st_cookies := [], st_mails := [], st_draws := n\<rparr>)"
  proof (cases "or_else (non_empty (map_option js_trim (header req ''x-athena-trace-id'')))
      (non_empty (map_option js_trim (header req ''x-request-id'')))")
    case None
    then show ?thesis by (simp add: trace_id_def new_uuid_def draw_def act_defs) blast
  next
    case (Some x)
    then have "trace_id env req (s\<lparr>st_cookies := [], st_mails := []\<rparr>) =
      (Inr x, s\<lparr>st_cookies := [], st_mails := [], st_draws := st_draws s\<rparr>)"
      by (simp add: trace_id_def act_return_def)
    then show ?thesis by blast
  qed
  then obtain trace n where "trace_id env req (s\<lparr>st_cookies := [], st_mails := []\<rparr>) =
      (Inr trace, s\<lparr>st_cookies := [], st_mails := [], st_draws := n\<rparr>)" by blast
  then have "handle_auth cfg env req s = (Inr (error_response (forbidden_with ''Origin is not trusted'') trace),
      s\<lparr>st_cookies := [], st_mails := [], st_draws := n\<rparr>)"
    by (simp add: handle_auth_def act_bind_def act_modify_def answered)
  with status show ?thesis by blast
qed

theorem untrusted_refused_witness:
  "\<exists>resp n. handle_auth demo_config demo_env demo_foreign demo_state =
     (Inr resp, demo_state\<lparr>st_cookies := [], st_mails := [], st_draws := n\<rparr>) \<and> rs_status resp = 403"
  by (rule untrusted_refused) (simp_all add: demo_untrusted)

section \<open>The rate limiter\<close>

text \<open>How many of a list of attempts under one key the limiter admits.\<close>

fun admitted :: "nat \<Rightarrow> int \<Rightarrow> string \<Rightarrow> int list \<Rightarrow> (string, rate_bucket) odict \<Rightarrow> nat" where
  "admitted limit window key [] bs = 0"
| "admitted limit window key (now # ts) bs =
     (let (ok, bs') = consume_bucket limit window now key bs
      in (if ok then 1 else 0) + admitted limit window key ts bs')"

lemma admitted_window:
  "map_of bs key = Some b \<Longrightarrow> \<forall>t \<in> set ts. t < rb_reset_at b \<Longrightarrow> admitted limit window key ts bs \<le> limit - rb_count b"
proof (induction ts arbitrary: bs b)
  case (Cons now ts)
  show ?case
  proof (cases "limit \<le> rb_count b")
    case True
    with Cons.prems Cons.IH [of bs b] show ?thesis by (simp add: consume_bucket_def)
  next
    case False
    with Cons.prems Cons.IH [of "dset key (b\<lparr>rb_count := Suc (rb_count b)\<rparr>) bs" "b\<lparr>rb_count := Suc (rb_count b)\<rparr>"]
    show ?thesis by (simp add: consume_bucket_def)
  qed
qed simp

lemma admitted_fresh:
  assumes "0 < limit" "\<forall>t \<in> set ts. t < start + window" "start \<le> now"
  shows "admitted limit window key ts (dset key \<lparr>rb_count = 1, rb_reset_at = now + window\<rparr> bs) + 1 \<le> limit"
proof -
  have "admitted limit window key ts (dset key \<lparr>rb_count = 1, rb_reset_at = now + window\<rparr> bs) \<le> limit - 1"
    by (rule order_trans [OF admitted_window [where b = "\<lparr>rb_count = 1, rb_reset_at = now + window\<rparr>"]])
      (use assms in \<open>auto\<close>)
  with assms(1) show ?thesis by simp
qed

lemma admitted_bound:
  assumes "0 < limit" "\<forall>t \<in> set ts. start \<le> t \<and> t < start + window"
  shows "admitted limit window key ts bs \<le>
    (case map_of bs key of None \<Rightarrow> limit | Some b \<Rightarrow> (limit - rb_count b) + limit)"
  using assms(2)
proof (induction ts arbitrary: bs)
  case (Cons now ts)
  have later: "\<forall>t \<in> set ts. t < start + window" "start \<le> now" using Cons.prems by auto
  note fresh = admitted_fresh [OF assms(1) later(1,2), of key bs]
  show ?case
  proof (cases "map_of bs key")
    case None
    with fresh show ?thesis by (simp add: consume_bucket_def)
  next
    case (Some b)
    have IH: "admitted limit window key ts bs \<le> (limit - rb_count b) + limit"
      "admitted limit window key ts (dset key (b\<lparr>rb_count := Suc (rb_count b)\<rparr>) bs) \<le> (limit - Suc (rb_count b)) + limit"
      using Cons.IH [of bs] Cons.IH [of "dset key (b\<lparr>rb_count := Suc (rb_count b)\<rparr>) bs"] Cons.prems Some by simp_all
    show ?thesis
    proof (cases "rb_reset_at b \<le> now")
      case True
      with fresh Some show ?thesis by (simp add: consume_bucket_def)
    next
      case False
      show ?thesis
      proof (cases "limit \<le> rb_count b")
        case True
        with IH(1) Some False show ?thesis by (simp add: consume_bucket_def)
      next
        case room: False
        with Some False have "admitted limit window key (now # ts) bs =
            Suc (admitted limit window key ts (dset key (b\<lparr>rb_count := Suc (rb_count b)\<rparr>) bs))"
          by (simp add: consume_bucket_def)
        with IH(2) room Some show ?thesis by simp
      qed
    qed
  qed
qed simp

text \<open>
  C39. Within one window the limiter admits at most twice its limit of attempts under a key, and
  at most its limit if the key was not seen before, in whatever order and from whatever state.
\<close>

theorem rate_bounded:
  assumes "0 < limit" "\<forall>t \<in> set ts. start \<le> t \<and> t < start + window"
  shows "admitted limit window key ts bs \<le> 2 * limit \<and>
    (map_of bs key = None \<longrightarrow> admitted limit window key ts bs \<le> limit)"
  using admitted_bound [OF assms, of key bs] by (simp split: option.splits)

theorem rate_bounded_witness: "admitted 2 60000 ''k'' [5, 6, 7] [] \<le> 2"
  using rate_bounded [of 2 "[5, 6, 7]" 5 60000 "''k''" "[]"] by simp

section \<open>Signing in and resetting a password\<close>

text \<open>
  C32. A session that a sign-in adds belongs to a stored user whom the body names, who is not
  banned and has no second factor, and whose stored hash the password of the body verifies.
\<close>

theorem sign_in_sound:
  assumes "sign_in cfg env req by_username s = (Inr r, t)"
    and "(token, x) \<in> set (st_sessions t)" "(token, x) \<notin> set (st_sessions s)"
  shows "\<exists>k u body password hash. (k, u) \<in> set (st_users s) \<and> as_user_id x = au_id u \<and>
    \<not> is_user_effectively_banned (ae_now env) u \<and> \<not> au_two_factor_enabled u \<and>
    read_json_body env cfg req = Inr body \<and> names_user body by_username u \<and>
    require_string_field body ''password'' = Inr password \<and> hash_of s u = Some hash \<and>
    ph_verify (ae_hasher env) password hash"
proof -
  from assms(1) obtain ok s1 body password u0 s2 u s3 y s4 where
    rate: "consume_rate env (sign_in_key cfg req) s = (Inr ok, s1)" and
    body: "read_json_body env cfg req = Inr body" "require_string_field body ''password'' = Inr password" and
    found: "sign_in_user body by_username s1 = (Inr (Some u0), s2)" and
    unbanned: "\<not> is_user_effectively_banned (ae_now env) u0" and
    lifted: "lift_expired_ban env u0 s2 = (Inr u, s3)" and
    verified: "verifies env password (hash_of s3 u)" and
    rehashed: "rehash_password env u password (get_or (hash_of s3 u) []) s3 = (Inr y, s4)" and
    finished: "finish_sign_in cfg env req u s4 = (Inr r, t)"
    by (auto simp: sign_in_def run_steps stored_hash_Inr)
  from consume_rate_Inr [OF rate] have s1: "st_users s1 = st_users s" "st_accounts s1 = st_accounts s" "st_sessions s1 = st_sessions s"
    by auto
  from sign_in_user_Inr [OF found] obtain k where u0: "s2 = s1" "(k, u0) \<in> set (st_users s)" "names_user body by_username u0"
    using s1 by auto
  from lift_expired_ban_Inr [OF lifted] u0(1) have u: "same_user u0 u" "st_accounts s3 = st_accounts s" "st_sessions s3 = st_sessions s"
    using s1 by auto
  then have hash: "hash_of s3 u = hash_of s u0" by (simp add: hash_of_def same_user_def)
  with verified obtain h where h: "hash_of s u0 = Some h" "ph_verify (ae_hasher env) password h"
    by (auto simp: verifies_def non_empty_def split: option.splits if_splits)
  from finish_sign_in_Inr [OF finished assms(2)] rehash_password_Inr [OF rehashed] u(3) assms(3)
  have "as_user_id x = au_id u \<and> \<not> au_two_factor_enabled u" by auto
  with u(1) have "as_user_id x = au_id u0 \<and> \<not> au_two_factor_enabled u0" by (simp add: same_user_def)
  with u0 unbanned body h show ?thesis by blast
qed

theorem sign_in_sound_witness:
  "\<exists>(x :: auth_session) u hash. as_user_id x = au_id u \<and> (\<exists>k. (k, u) \<in> set (st_users demo_state)) \<and>
     ph_verify (ae_hasher demo_env) ''12345678'' hash"
proof -
  from demo_signs_in obtain r t x
    where run: "sign_in demo_config demo_env (demo_request ''POST'' ''/sign-in/email'') False demo_state = (Inr r, t)"
      and x: "(''session_1'', x) \<in> set (st_sessions t)" by blast
  have "(''session_1'', x) \<notin> set (st_sessions demo_state)" by (simp add: demo_rows)
  from sign_in_sound [OF run x this] obtain k u body password hash where
    "(k, u) \<in> set (st_users demo_state)" "as_user_id x = au_id u" "read_json_body demo_env demo_config
      (demo_request ''POST'' ''/sign-in/email'') = Inr body" "require_string_field body ''password'' = Inr password"
    "ph_verify (ae_hasher demo_env) password hash" by blast
  then show ?thesis by (auto simp: demo_reads)
qed

text \<open>
  C37. A password reset that is answered with success used a stored, unexpired token and consumed
  it, stored the hash of a valid new password for a user with the address the token was made for,
  and left that user without sessions.
\<close>

theorem reset_password_exact:
  assumes "reset_password cfg env req s = (Inr r, t)"
  shows "\<exists>body token v k u new n. read_json_body env cfg req = Inr body \<and> require_string_field body ''token'' = Inr token \<and>
    map_of (st_verifications s) token = Some v \<and> ae_now env < av_expires_at v \<and> map_of (st_verifications t) token = None \<and>
    (k, u) \<in> set (st_users s) \<and> has_email (without_prefix ''reset:'' (av_identifier v)) u \<and>
    new_password_of body = Inr new \<and> validate_password cfg new = Inr () \<and>
    map_option au_metadata (map_of (st_users t) (au_id u)) =
      Some (with_password_hash (au_metadata u) (ph_hash (ae_hasher env) new n)) \<and>
    (\<forall>(token, x) \<in> set (st_sessions t). as_user_id x \<noteq> au_id u)"
proof -
  from assms obtain body token new v u w where
    body: "read_json_body env cfg req = Inr body" "require_string_field body ''token'' = Inr token"
      "new_password_of body = Inr new" "validate_password cfg new = Inr ()" and
    v: "map_of (st_verifications s) token = Some v" "\<not> av_expires_at v \<le> ae_now env" and
    u: "dfind (has_email (without_prefix ''reset:'' (av_identifier v))) (st_users s) = Some u" and
    w: "map_of (st_users s) (au_id u) = Some w" and
    t: "st_verifications t = ddelete token (st_verifications s)"
      "st_users t = dset (au_id u) (patched_user (ae_now env) (no_patch\<lparr>up_metadata :=
        Some (with_password_hash (au_metadata u) (ph_hash (ae_hasher env) new (st_draws s)))\<rparr>) w) (st_users s)"
      "st_sessions t = filter (\<lambda>(token, x). \<not> (as_user_id x = au_id u \<and> Some token \<noteq> None)) (st_sessions s)"
    by (auto simp: reset_password_def run_steps consume_verification_def get_verification_by_value_def get_user_by_email_def
        hash_password_Inr set_password_hash_Inr delete_user_sessions_def status_true_def ok_response_def json_response_Inr
        split: option.splits if_splits)
  have "map_of (st_verifications t) token = None"
    by (auto simp: t(1) map_of_eq_None_iff set_ddelete)
  moreover from dfind_Some [OF u] obtain k where "(k, u) \<in> set (st_users s)"
      "has_email (without_prefix ''reset:'' (av_identifier v)) u" by blast
  moreover have "map_option au_metadata (map_of (st_users t) (au_id u)) =
      Some (with_password_hash (au_metadata u) (ph_hash (ae_hasher env) new (st_draws s)))"
    by (simp add: t(2) patched_user_def no_patch_def)
  moreover have "\<forall>(token, x) \<in> set (st_sessions t). as_user_id x \<noteq> au_id u" by (auto simp: t(3))
  ultimately show ?thesis using body v by (meson not_le)
qed

theorem reset_password_exact_witness:
  "\<exists>r t token v. reset_password demo_config demo_env (demo_request ''POST'' ''/reset-password'') demo_state = (Inr r, t) \<and>
     map_of (st_verifications demo_state) token = Some v \<and> map_of (st_verifications t) token = None"
proof -
  from demo_resets obtain r t
    where run: "reset_password demo_config demo_env (demo_request ''POST'' ''/reset-password'') demo_state = (Inr r, t)" by blast
  from reset_password_exact [OF run] run show ?thesis by blast
qed

section \<open>Ranks\<close>

text \<open>
  C33. No sequence of requests makes a user of a higher rank than any user had: roles are given
  only below the rank of the administrator who gives them. On a server that starts empty nobody
  becomes an administrator.
\<close>

theorem no_escalation:
  assumes "\<And>uid u. (uid, u) \<in> set (st_users s) \<Longrightarrow> admin_role_rank (au_role u) \<le> n"
    and "(uid, u) \<in> set (st_users (after_requests cfg rs s))"
  shows "admin_role_rank (au_role u) \<le> n"
  using ranks_after_requests [of n s cfg rs] assms by (auto simp: ranks_within_def)

theorem no_escalation_witness: "admin_role_rank (au_role demo_user) \<le> 0"
proof (rule no_escalation)
  show "(''u'', demo_user) \<in> set (st_users (after_requests demo_config [(demo_env, demo_request ''GET'' ''/ok'')] demo_state))"
    by (simp add: demo_ok)
  show "admin_role_rank (au_role u) \<le> 0" if "(uid, u) \<in> set (st_users demo_state)" for uid u
    using that by (simp add: demo_state_def empty_stores_def demo_user_def new_user_def)
qed

section \<open>Rules that do not hold\<close>

text \<open>
  A ban without expiry keeps the date of an earlier one: if that has passed, the user is not banned.
\<close>

lemma ban_keeps_old_expiry:
  assumes "au_ban_expires u = Some (Some d)" "d \<le> now"
  shows "\<not> is_user_effectively_banned now (patched_user now (no_patch\<lparr>up_banned := Some True\<rparr>) u)"
  using assms by (simp add: is_user_effectively_banned_def patched_user_def no_patch_def)

text \<open>An API key is stored for whatever user the body names.\<close>

lemma api_key_for_others:
  assumes "api_key_create cfg env req s = (Inr r, t)" "read_json_body env cfg req = Inr body"
    and "as_string_field body ''userId'' = Some uid"
  shows "\<exists>(k :: auth_api_key). map_of (st_api_keys t) (ak_id k) = Some k \<and> ak_user_id k = uid"
proof -
  from assms obtain u :: auth_state and k where "ak_user_id k = uid" "st_api_keys t = dset (ak_id k) k (st_api_keys u)"
    by (clarsimp simp: api_key_create_def create_api_key_def run_steps ok_response_def json_response_Inr
        split: option.splits prod.splits) (metis auth_api_key.select_convs(4,14))
  then show ?thesis by auto
qed

end
