(* ===== verification/Spec2Isabelle.thy ===== *)
theory Spec2Isabelle
  imports PolicyProperties QueryProperties SessionProperties TxProperties SqlProperties SchemaProperties
    MigrationProperties D1Properties AuthCodec AuthProperties
begin

text \<open>
  A model of the core of the athena-js SDK (sources under \<open>src/src\<close>) and the theorems that make
  it correct. The program lets a client describe a request against tables; a policy engine
  decides what the caller may see and write, a query engine turns the request into a plan
  against a relation catalog, and transports run it. Sessions and transactions are the stateful
  parts of the client; a migration runner and a local auth server work on the other side.

  Shared theories. \<open>Prelude\<close>: computations that throw (\<open>Inl\<close> the error), the loops of the source
  over them, insertion-ordered dictionaries, sets built in order. \<open>JsString\<close>, \<open>JsValue\<close>:
  strings, numbers and untyped values of the language. \<open>JsSort\<close>: \<open>Array.sort\<close> under the laws of
  a comparator (locale \<open>comparator\<close>, interpreted for the string orders used). \<open>Effects\<close>: code
  that updates a state and may throw.

  Policy (\<open>policy/*.ts\<close>). \<open>PolicyIr\<close> types and JSON wire form; \<open>PolicyValidate\<close>
  (\<open>validate-ir.ts\<close>); \<open>PolicyEval\<close> (\<open>eval-expr.ts\<close>, \<open>bind.ts\<close>); \<open>PolicyPrincipal\<close>
  (\<open>match-principal.ts\<close>); \<open>PolicyRegistry\<close> (\<open>registry.ts\<close>, locale \<open>policy_source\<close>);
  \<open>PolicyDecide\<close> (\<open>decide.ts\<close>); \<open>PolicyApply\<close> (\<open>apply.ts\<close>); \<open>PolicyAuthoring\<close> (\<open>policy.ts\<close>,
  \<open>row.ts\<close>, \<open>expr-builders.ts\<close>); \<open>PolicyFingerprint\<close> (\<open>fingerprint.ts\<close>). \<open>PolicyProperties\<close>
  shows that validation accepts exactly the sound documents, decisions fail closed, composed expressions mean the
  row-level security rule, binding preserves meaning, writes are checked and reads are
  filtered.

  Query engine (\<open>query/engine/*.ts\<close>). \<open>QueryAst\<close> (\<open>ast.ts\<close>, \<open>capabilities.ts\<close>), \<open>QueryRelations\<close>
  (\<open>relations.ts\<close>), \<open>QueryValidate\<close> (\<open>validate.ts\<close>), \<open>QueryPlan\<close> (\<open>plan.ts\<close>), \<open>QueryNormalize\<close>
  (\<open>normalize.ts\<close>), \<open>QueryFacts\<close> (invariants of normalised queries and plans).
  \<open>QueryProperties\<close> shows that normalised filters are well formed, relations are resolved
  soundly, and plans have distinct aliases and respect the limits.

  Sessions (\<open>auth/session-*.ts\<close>, parts of \<open>auth/client.ts\<close>). \<open>SessionStore\<close>: the store, with
  listeners that may call it again or throw; a run is a sequence of steps of \<open>store_step\<close>.
  \<open>SessionClient\<close>: refreshes around transport calls, as the step relation \<open>client_step\<close>.
  \<open>SessionProperties\<close>: ordered notifications, stale refreshes, single flight.

  Transactions (\<open>db/transaction/*.ts\<close>, \<open>postgres/transaction.ts\<close>, \<open>gateway/transaction.ts\<close>,
  \<open>cloudflare/d1/transaction.ts\<close>, parts of \<open>client.ts\<close>). \<open>TxOptions\<close>, \<open>TxPostgres\<close>,
  \<open>TxTransports\<close>: the database answers are a parameter and the state keeps every message sent.
  \<open>TxProperties\<close>: what is sent on every path, all or nothing, cache after commit.

  SQL (\<open>sql-identifiers.ts\<close>, \<open>utils/sql-literals.ts\<close>, \<open>query/legacy-boolean.ts\<close>,
  \<open>postgres/sql.ts\<close>, \<open>postgres/compile-ast.ts\<close>). \<open>SqlText\<close>: quoted identifiers and literals.
  \<open>SqlBinder\<close>: the steps of a compiler that binds values, and what makes one well bound.
  \<open>LegacyBoolean\<close>: the old boolean syntax. \<open>GatewayPayload\<close>: the flat payloads. \<open>PostgresSql\<close>:
  select, count, insert, update, delete and function calls; \<open>PostgresAst\<close>: the compiler of
  plans. \<open>PostgresFacts\<close>, \<open>SqlValues\<close>: what the statements are made of and bind.
  \<open>SqlProperties\<close>: placeholders and values agree, values never reach the text, deletes are
  filtered, spellings read back.

  D1 (\<open>cloudflare/d1/sql.ts\<close>, \<open>cloudflare/d1/compile-ast.ts\<close>). \<open>D1Sql\<close>: the flat compilers for
  SQLite, batches included; \<open>D1Ast\<close>: the compiler of plans; \<open>D1Facts\<close>: question marks and string
  literals in a text. \<open>D1Properties\<close>: as many marks as values, the same values as on PostgreSQL.

  Schema diff (\<open>schema/diff/*.ts\<close>). \<open>SchemaModel\<close>: snapshots, their normal form and validation;
  \<open>SchemaDiff\<close>: operations, their order and summary. \<open>SchemaSpec\<close>: the effect of an operation on
  the cells of a schema. \<open>SchemaProperties\<close>: the sorted operations of a diff lead from the
  source to the target, and there are none exactly when the two agree.

  Migrations (\<open>migrations/*.ts\<close>). \<open>SqlGuards\<close>: the guard against transaction control in a
  migration; \<open>NodePath\<close>: the paths of the standard library; \<open>MigrationModel\<close>: discovery and
  planning; \<open>MigrationReport\<close>: errors, ledger rows and what the user is shown;
  \<open>MigrationRunner\<close>: the PostgreSQL backend and the runner, as calls to a database whose answers
  are a parameter. \<open>MigrationFacts\<close> and \<open>MigrationTraces\<close>: the lists of a plan and the calls of a
  run with their answers. \<open>MigrationLedger\<close>: what such calls commit, as a database with
  transactions reads them, independent of the runner. \<open>MigrationProperties\<close>: the guard, discovery
  and planning are exact; runs commit whole migrations with their ledger rows, converge, close what
  they open, and inspect without writing.

  Local auth server (\<open>auth/local/*.ts\<close>, \<open>auth/email/*.ts\<close>). A request is an action on
  \<open>auth_state\<close>, the contents of the memory stores with the cookies and mails of the answer, that
  may throw. \<open>JsDate\<close>: dates of the standard library; \<open>AuthModel\<close> (\<open>models.ts\<close>, \<open>errors.ts\<close>, rows
  of \<open>stores.ts\<close>); \<open>AuthStores\<close> (\<open>memory-stores.ts\<close>); \<open>AuthHttp\<close> (\<open>security.ts\<close>, \<open>cookies.ts\<close>);
  \<open>AuthPassword\<close> (\<open>password.ts\<close>, \<open>totp.ts\<close>); \<open>AuthSessions\<close>, \<open>AuthOrganizations\<close> and \<open>AuthServer\<close>
  (\<open>runtime.ts\<close>, \<open>token-authority.ts\<close>); \<open>AuthRoutes\<close> (\<open>extended-routes.ts\<close>, \<open>api-key.ts\<close>);
  \<open>AuthAdmin\<close> (\<open>admin-*.ts\<close>); \<open>AuthEmail\<close> (mail templates and their routes). What a request
  leaves unchanged is stated once, for any relation of states that the writes of the stores
  respect (\<open>AuthRelation\<close>, locale \<open>auth_relation\<close>), and used for sessions, roles, members,
  credentials and growth (\<open>AuthFacts\<close>) and ranks (\<open>AuthRuns\<close>). \<open>AuthOwned\<close>: the invariant of the
  stores. \<open>AuthCodec\<close> shows that password hashes read back; \<open>AuthProperties\<close> what signing in and
  resetting a password establish, which routes issue sessions and change credentials, that no
  request raises a rank, and the bounds of the rate limiter.

  Bounds and fuel. The policy validator recurses into raw JSON with the fuel \<open>jdepth v\<close>, its
  nesting depth, which is enough. Printing a number looks for the shortest of at most 17 digits
  and bounds its loop by 700 steps, beyond the exponent range of doubles. \<open>run_op\<close> of the
  session store takes fuel because listeners may call the store for ever; with listeners that
  only observe, more fuel than listeners gives a result (\<open>run_op_silent\<close>). Collation and case
  folding are exact on ASCII.

  Parameters. The model index of the registry, SHA-256, policy callbacks (represented by what
  they return), what the database, the HTTP endpoint and the D1 compiler answer, session
  listeners, the formatting of results, the file system and the clock of a migration run. Of the
  auth server, the environment \<open>auth_env\<close>: the Argon2 digest, SHA-256 and HMAC, the parsing of
  JSON, URLs and dates, URI encoding, the signing of tokens, the mail provider, the random values
  (numbered in the order they are drawn) and one instant for each request.

  Not modelled. The network clients (gateway, auth endpoints, storage, chat, billing, admin),
  React and Next bindings, the command line and the code generator: input and output around
  calls to other systems. Of the auth server, its PostgreSQL stores, key generation and what
  happens when sending a mail fails.
\<close>

section \<open>Policy and query engine together\<close>

text \<open>
  Where the two components meet, the visibility is lost: the policy engine appends its
  conditions to the payload, but the query engine reads the conditions only when \<open>where\<close> gives
  no filter. For a request whose \<open>where\<close> does give one, the query that is planned from the
  payload the policy returned is the query of the original payload.
\<close>

lemma visibility_not_enforced:
  assumes "ap_mode inp = Enforce" "dec_allowed (ap_decision inp)" "ap_action inp = Select"
    and "dec_visibility (ap_decision inp) = Some v" "ap_payload inp = JObj i fs"
    and "apply_athena_policy_decision inp = ApplyOk (JObj i' fs')"
    and "normalize_filter (get_prop ''where'' fs) = Ok (Some c)"
    and "\<not> (get_prop ''kind'' fs = JStr ''select'' \<and> is_record (get_prop ''source'' fs))"
  shows "normalize_transport_payload (JObj i' fs') = normalize_transport_payload (JObj i fs)"
proof (rule transport_ignores_conditions [OF assms(7) _ assms(8)])
  have "rbind (bind_policy_expr v (ap_principal inp)) (inject_visibility (JObj i fs)) = Ok (JObj i' fs')"
    using assms(1-6)
    by (auto simp: apply_athena_policy_decision_def handle_Ok rbind_eq_Inr apply_visibility_def
        split: option.splits)
  then obtain b where "inject_visibility (JObj i fs) b = Ok (JObj i' fs')" by (auto simp: rbind_eq_Inr)
  then show "get_prop k fs' = get_prop k fs" if "k \<noteq> ''conditions''" for k
    using inject_other_key [of "JObj i fs" b "JObj i' fs'" k] that by simp
qed

definition structured_input :: apply_input where
  "structured_input = select_input\<lparr>ap_payload := JObj 1 sample_fields\<rparr>"

lemma visibility_not_enforced_witness:
  "\<exists>fs'. apply_athena_policy_decision structured_input = ApplyOk (JObj 0 fs') \<and>
     normalize_transport_payload (JObj 0 fs') = Ok (NormalizedAst sample_ast) \<and>
     get_prop ''conditions'' fs' \<noteq> Undefined"
proof -
  have ok: "case apply_athena_policy_decision structured_input of
      ApplyOk (JObj i fs) \<Rightarrow> i = 0 \<and> get_prop ''conditions'' fs \<noteq> Undefined | _ \<Rightarrow> False"
    by code_simp
  then obtain fs' where x: "apply_athena_policy_decision structured_input = ApplyOk (JObj 0 fs')"
    and c: "get_prop ''conditions'' fs' \<noteq> Undefined"
    by (auto split: apply_result.splits jval.splits)
  have w: "succeeds (normalize_filter (get_prop ''where'' sample_fields))"
    "right_of (normalize_filter (get_prop ''where'' sample_fields)) \<noteq> None"
    "get_prop ''kind'' sample_fields = Undefined"
    by code_simp+
  then obtain f where f: "normalize_filter (get_prop ''where'' sample_fields) = Ok (Some f)"
    by (metis Ok_right_of option.exhaust)
  have "normalize_transport_payload (JObj 0 fs') = normalize_transport_payload (JObj 1 sample_fields)"
    using visibility_not_enforced [OF _ _ _ _ _ x f, of sample_visibility 1] w sample_decision_facts
      sample_visibility_eq
    by (simp add: structured_input_def select_input_def)
  with x c show ?thesis using sample_normalized by auto
qed

end
